(* ===== verification/Go_Prelude.thy ===== *)
theory Go_Prelude
  imports Main "HOL-Library.Multiset" "HOL-Library.List_Lexorder" "HOL-Library.Char_ord"
begin

text \<open>
  The parts of Go's semantics that every component of the development shares and that are not
  about text or time: the order in which a map is ranged over and \<^verbatim>\<open>sort.SliceStable\<close>; and the contract
  that the registries of the program share.

  Go leaves the iteration order of a map unspecified.  An operation of the program that ranges
  over a map therefore takes the order as an argument, a list of keys; \<open>range_order\<close> says that
  the list visits every key once, and the theorems hold for every such list.

  \<^verbatim>\<open>sort.SliceStable\<close> is specified by its comparison only.  The model is a stable insertion
  sort; the locale \<open>strict_weak_order\<close> states what the comparison has to satisfy for the result
  to be determined, and proves that the insertion sort gives the (only) stable sorted permutation.
\<close>

named_theorems go_defs \<open>definitions that unfold in component proofs\<close>
named_theorems frame_simps \<open>what an operation leaves unchanged\<close>

section \<open>Ranging over a map\<close>

definition range_order :: "('k \<rightharpoonup> 'v) \<Rightarrow> 'k list \<Rightarrow> bool" where
  "range_order m ks \<longleftrightarrow> distinct ks \<and> set ks = dom m"

lemma range_orderD:
  assumes "range_order m ks"
  shows "distinct ks" and "set ks = dom m" and "k \<in> set ks \<longleftrightarrow> (\<exists>v. m k = Some v)"
  using assms by (auto simp: range_order_def)

lemma range_order_empty [simp]: "range_order Map.empty ks \<longleftrightarrow> ks = []"
  by (auto simp: range_order_def)

section \<open>Stable sorting\<close>

fun ins_stable :: "('a \<Rightarrow> 'a \<Rightarrow> bool) \<Rightarrow> 'a \<Rightarrow> 'a list \<Rightarrow> 'a list" where
  "ins_stable lt x [] = [x]"
| "ins_stable lt x (y # ys) = (if lt y x then y # ins_stable lt x ys else x # y # ys)"

definition slice_stable :: "('a \<Rightarrow> 'a \<Rightarrow> bool) \<Rightarrow> 'a list \<Rightarrow> 'a list" where
  "slice_stable lt xs = foldr (ins_stable lt) xs []"

lemma slice_stable_Nil [simp]: "slice_stable lt [] = []"
  by (simp add: slice_stable_def)

lemma slice_stable_Cons [simp]:
  "slice_stable lt (x # xs) = ins_stable lt x (slice_stable lt xs)"
  by (simp add: slice_stable_def)

lemma mset_ins_stable [simp]: "mset (ins_stable lt x xs) = add_mset x (mset xs)"
  by (induction xs) auto

lemma mset_slice_stable [simp]: "mset (slice_stable lt xs) = mset xs"
  by (induction xs) auto

lemma set_slice_stable [simp]: "set (slice_stable lt xs) = set xs"
  by (metis mset_slice_stable set_mset_mset)

lemma length_slice_stable [simp]: "length (slice_stable lt xs) = length xs"
  by (metis mset_slice_stable size_mset)

lemma distinct_slice_stable [simp]: "distinct (slice_stable lt xs) = distinct xs"
  by (metis mset_slice_stable mset_eq_imp_distinct_iff)

locale strict_weak_order =
  fixes lt :: "'a \<Rightarrow> 'a \<Rightarrow> bool"
  assumes lt_irrefl: "\<not> lt x x"
    and lt_trans: "lt x y \<Longrightarrow> lt y z \<Longrightarrow> lt x z"
    and incomparable_trans: "\<not> lt x y \<Longrightarrow> \<not> lt y z \<Longrightarrow> \<not> lt x z"
begin

abbreviation sorted_slice :: "'a list \<Rightarrow> bool" where
  "sorted_slice \<equiv> sorted_wrt (\<lambda>x y. \<not> lt y x)"

lemma lt_asym: "lt x y \<Longrightarrow> \<not> lt y x"
  using lt_irrefl lt_trans by blast

lemma sorted_ins_stable: "sorted_slice xs \<Longrightarrow> sorted_slice (ins_stable lt x xs)"
proof (induction xs)
  case Nil
  then show ?case by simp
next
  case (Cons y ys)
  have set_ins: "set (ins_stable lt x ys) = insert x (set ys)"
    by (metis mset_ins_stable set_mset_mset set_mset_add_mset_insert)
  show ?case
  proof (cases "lt y x")
    case True
    with Cons set_ins show ?thesis by (auto dest: lt_asym)
  next
    case False
    with Cons.prems show ?thesis by simp (metis incomparable_trans)
  qed
qed

lemma sorted_slice_stable: "sorted_slice (slice_stable lt xs)"
  by (induction xs) (auto intro: sorted_ins_stable)

text \<open>Elements that do not compare keep the order they had.\<close>

lemma filter_ins_stable:
  assumes "sorted_slice xs" and "\<And>y z. P y \<Longrightarrow> P z \<Longrightarrow> \<not> lt y z"
  shows "filter P (ins_stable lt x xs) = (if P x then x # filter P xs else filter P xs)"
  using assms(1)
proof (induction xs)
  case Nil
  then show ?case by simp
next
  case (Cons y ys)
  then show ?case using assms(2) by auto
qed

lemma stable_slice_stable:
  assumes "\<And>y z. P y \<Longrightarrow> P z \<Longrightarrow> \<not> lt y z"
  shows "filter P (slice_stable lt xs) = filter P xs"
proof (induction xs)
  case Nil
  then show ?case by simp
next
  case (Cons x xs)
  then show ?case using filter_ins_stable [OF sorted_slice_stable assms] by simp
qed

lemma sorted_slice_stable_id: "sorted_slice xs \<Longrightarrow> slice_stable lt xs = xs"
proof (induction xs)
  case Nil
  then show ?case by simp
next
  case (Cons x xs)
  then show ?case by (cases xs) auto
qed

lemma slice_stable_idem: "slice_stable lt (slice_stable lt xs) = slice_stable lt xs"
  by (rule sorted_slice_stable_id) (rule sorted_slice_stable)

end

text \<open>Comparing by a key in a linear order is such an order, in either direction.\<close>

lemma strict_weak_order_key: "strict_weak_order (\<lambda>x y. f x < (f y :: 'k :: linorder))"
  by unfold_locales auto

lemma strict_weak_order_flip: "strict_weak_order lt \<Longrightarrow> strict_weak_order (\<lambda>x y. lt y x)"
  unfolding strict_weak_order_def by blast

section \<open>Searching a list\<close>

lemma find_snoc: "find P (xs @ [y]) = (case find P xs of None \<Rightarrow> if P y then Some y else None | Some x \<Rightarrow> Some x)"
  by (induction xs) auto

section \<open>Lists without repetitions\<close>

text \<open>The loop of the functions that drop blanks and repetitions: \<open>seen\<close> holds the keys that were kept.\<close>

fun dedupe_by :: "('a \<Rightarrow> string) \<Rightarrow> string list \<Rightarrow> 'a list \<Rightarrow> 'a list" where
  "dedupe_by key seen [] = []"
| "dedupe_by key seen (item # items) =
     (if key item = [] \<or> key item \<in> set seen then dedupe_by key seen items
      else item # dedupe_by key (key item # seen) items)"

section \<open>Keyed stores\<close>

text \<open>
  The contract of a registry that is written by a command and read by a key: a command \<open>c\<close> that
  succeeds with a value \<open>v\<close> makes \<open>v\<close> readable under its key and leaves the other keys alone.  The
  client reads what the last successful command for a key has stored.
\<close>

fun puts_ok :: "('c \<Rightarrow> 'v \<Rightarrow> 's \<Rightarrow> bool) \<Rightarrow> ('c \<Rightarrow> 's \<Rightarrow> 's) \<Rightarrow> ('c \<times> 'v) list \<Rightarrow> 's \<Rightarrow> bool" where
  "puts_ok stores put [] s \<longleftrightarrow> True"
| "puts_ok stores put (cv # cvs) s \<longleftrightarrow> stores (fst cv) (snd cv) s \<and> puts_ok stores put cvs (put (fst cv) s)"

locale keyed_store =
  fixes lookup :: "'k \<Rightarrow> 's \<Rightarrow> 'v option"
    and put :: "'c \<Rightarrow> 's \<Rightarrow> 's"
    and key :: "'v \<Rightarrow> 'k"
    and stores :: "'c \<Rightarrow> 'v \<Rightarrow> 's \<Rightarrow> bool"
  assumes lookup_put_same: "stores c v s \<Longrightarrow> lookup (key v) (put c s) = Some v"
    and lookup_put_other: "stores c v s \<Longrightarrow> k \<noteq> key v \<Longrightarrow> lookup k (put c s) = lookup k s"
begin

lemma lookup_puts:
  assumes "puts_ok stores put cvs s"
  shows "lookup k (fold (\<lambda>cv. put (fst cv)) cvs s) =
    (case find (\<lambda>cv. key (snd cv) = k) (rev cvs) of Some cv \<Rightarrow> Some (snd cv) | None \<Rightarrow> lookup k s)"
  using assms
proof (induction cvs arbitrary: s)
  case Nil
  then show ?case by simp
next
  case (Cons cv cvs)
  then have "lookup k (put (fst cv) s) = (if key (snd cv) = k then Some (snd cv) else lookup k s)"
    using lookup_put_same lookup_put_other by auto
  with Cons show ?case by (auto simp: find_snoc split: option.split)
qed

end

section \<open>Generic lemmas\<close>

lemma map_upd_dom_same [simp]: "m k = Some v \<Longrightarrow> dom (m(k \<mapsto> w)) = dom m"
  by auto

lemma find_Some_in: "find P xs = Some x \<Longrightarrow> x \<in> set xs \<and> P x"
  by (auto simp: find_Some_iff)

lemma nat_sub_less: "(n :: nat) > 0 \<Longrightarrow> w > 0 \<Longrightarrow> n - w < n"
  by simp

end
