(* ===== verification/Go_Strings.thy ===== *)
theory Go_Strings
  imports Go_Prelude "HOL-Library.Sublist"
begin

text \<open>
  Go's \<^verbatim>\<open>strings\<close>, \<^verbatim>\<open>unicode/utf8\<close> and \<^verbatim>\<open>fmt\<close> functions as far as the program uses them.

  A Go string is a sequence of bytes, so a string of the model is a \<open>char list\<close> whose characters
  are bytes; text outside ASCII is its UTF-8 encoding.  \<^verbatim>\<open>TrimSpace\<close> and \<^verbatim>\<open>Fields\<close> know the
  whole set of Unicode spaces (\<open>space_seqs\<close>): none of their encodings starts with a continuation
  byte, so matching byte sequences from either end is exactly what Go's rune decoding does, also
  on invalid UTF-8.  \<^verbatim>\<open>ToLower\<close> and \<^verbatim>\<open>EqualFold\<close> fold the ASCII letters; other bytes are kept,
  which is what Go does for scripts without case.
\<close>

section \<open>Spaces\<close>

definition ascii_spaces :: "string" where
  "ascii_spaces = [CHR 0x20, CHR 0x09, CHR 0x0A, CHR 0x0B, CHR 0x0C, CHR 0x0D]"

definition space_seqs :: "string list" where
  "space_seqs = map (\<lambda>c. [c]) ascii_spaces @
     [[CHR 0xC2, CHR 0x85], [CHR 0xC2, CHR 0xA0], [CHR 0xE1, CHR 0x9A, CHR 0x80],
      [CHR 0xE2, CHR 0x80, CHR 0x80], [CHR 0xE2, CHR 0x80, CHR 0x81],
      [CHR 0xE2, CHR 0x80, CHR 0x82], [CHR 0xE2, CHR 0x80, CHR 0x83],
      [CHR 0xE2, CHR 0x80, CHR 0x84], [CHR 0xE2, CHR 0x80, CHR 0x85],
      [CHR 0xE2, CHR 0x80, CHR 0x86], [CHR 0xE2, CHR 0x80, CHR 0x87],
      [CHR 0xE2, CHR 0x80, CHR 0x88], [CHR 0xE2, CHR 0x80, CHR 0x89],
      [CHR 0xE2, CHR 0x80, CHR 0x8A], [CHR 0xE2, CHR 0x80, CHR 0xA8],
      [CHR 0xE2, CHR 0x80, CHR 0xA9], [CHR 0xE2, CHR 0x80, CHR 0xAF],
      [CHR 0xE2, CHR 0x81, CHR 0x9F], [CHR 0xE3, CHR 0x80, CHR 0x80]]"

definition seq_width :: "string list \<Rightarrow> string \<Rightarrow> nat" where
  "seq_width ps s = (case find (\<lambda>p. prefix p s) ps of None \<Rightarrow> 0 | Some p \<Rightarrow> length p)"

lemma seq_width_Nil [simp]: "seq_width ps [] = 0"
  by (auto simp: seq_width_def split: option.splits dest!: find_Some_in)

lemma seq_width_le: "seq_width ps s \<le> length s"
  by (auto simp: seq_width_def prefix_length_le split: option.splits dest!: find_Some_in)

function trim_front :: "string list \<Rightarrow> string \<Rightarrow> string" where
  "trim_front ps s =
     (if seq_width ps s = 0 then s else trim_front ps (drop (seq_width ps s) s))"
  by pat_completeness auto
termination
proof (relation "measure (\<lambda>(ps, s). length s)", goal_cases)
  case (2 ps s)
  then have "s \<noteq> []" by auto
  with 2 show ?case by simp
qed simp

declare trim_front.simps [simp del]

definition trim_left_space :: "string \<Rightarrow> string" where
  "trim_left_space s = trim_front space_seqs s"

definition trim_right_space :: "string \<Rightarrow> string" where
  "trim_right_space s = rev (trim_front (map rev space_seqs) (rev s))"

definition TrimSpace :: "string \<Rightarrow> string" where
  "TrimSpace s = trim_right_space (trim_left_space s)"

lemma trim_front_suffix: "suffix (trim_front ps s) s"
proof (induction ps s rule: trim_front.induct)
  case (1 ps s)
  show ?case
  proof (cases "seq_width ps s = 0")
    case True
    then show ?thesis by (simp add: trim_front.simps [of ps s])
  next
    case False
    with 1 have "suffix (trim_front ps (drop (seq_width ps s) s)) (drop (seq_width ps s) s)"
      by blast
    with False show ?thesis
      by (simp add: trim_front.simps [of ps s]) (metis suffix_drop suffix_order.trans)
  qed
qed

lemma seq_width_trim_front [simp]: "seq_width ps (trim_front ps s) = 0"
proof (induction ps s rule: trim_front.induct)
  case (1 ps s)
  then show ?case by (cases "seq_width ps s = 0") (simp_all add: trim_front.simps [of ps s])
qed

lemma trim_front_id: "seq_width ps s = 0 \<Longrightarrow> trim_front ps s = s"
  by (simp add: trim_front.simps [of ps s])

lemma trim_front_Nil [simp]: "trim_front ps [] = []"
  by (simp add: trim_front_id)

lemma trim_left_space_Nil [simp]: "trim_left_space [] = []"
  by (simp add: trim_left_space_def)

lemma trim_right_space_Nil [simp]: "trim_right_space [] = []"
  by (simp add: trim_right_space_def)

lemma TrimSpace_Nil [simp]: "TrimSpace [] = []"
  by (simp add: TrimSpace_def)

lemma space_seqs_nonempty: "p \<in> set space_seqs \<Longrightarrow> p \<noteq> []"
  by (auto simp: space_seqs_def)

lemma seq_width_zero_iff:
  assumes "\<And>p. p \<in> set ps \<Longrightarrow> p \<noteq> []"
  shows "seq_width ps s = 0 \<longleftrightarrow> (\<forall>p \<in> set ps. \<not> prefix p s)"
  using assms
  by (auto simp: seq_width_def find_None_iff split: option.splits dest: find_Some_in)

lemma trim_right_space_prefix: "prefix (trim_right_space s) s"
  using trim_front_suffix [of "map rev space_seqs" "rev s"]
  by (simp add: trim_right_space_def suffix_to_prefix)

lemma trim_left_space_after_right:
  assumes "seq_width space_seqs s = 0"
  shows "seq_width space_seqs (trim_right_space s) = 0"
proof -
  have "\<not> prefix p (trim_right_space s)" if "p \<in> set space_seqs" for p
    using assms that trim_right_space_prefix [of s] prefix_order.trans
    by (auto simp: seq_width_zero_iff [OF space_seqs_nonempty])
  then show ?thesis by (simp add: seq_width_zero_iff [OF space_seqs_nonempty])
qed

lemma trim_left_TrimSpace: "trim_left_space (TrimSpace s) = TrimSpace s"
  unfolding TrimSpace_def trim_left_space_def
  by (rule trim_front_id, rule trim_left_space_after_right, rule seq_width_trim_front)

lemma trim_right_TrimSpace: "trim_right_space (TrimSpace s) = TrimSpace s"
  by (simp add: TrimSpace_def trim_right_space_def trim_front_id)

lemma TrimSpace_idem [simp]: "TrimSpace (TrimSpace s) = TrimSpace s"
  using trim_left_TrimSpace trim_right_TrimSpace by (simp add: TrimSpace_def [of "TrimSpace s"])

lemma length_TrimSpace: "length (TrimSpace s) \<le> length s"
  unfolding TrimSpace_def trim_left_space_def
  by (meson le_trans prefix_length_le suffix_length_le trim_front_suffix trim_right_space_prefix)

text \<open>\<^verbatim>\<open>strings.Fields\<close>: the loop over the string, with the field being read.\<close>

function fields_from :: "string \<Rightarrow> string \<Rightarrow> string list" where
  "fields_from cur [] = (if cur = [] then [] else [cur])"
| "fields_from cur (c # cs) =
     (if seq_width space_seqs (c # cs) = 0 then fields_from (cur @ [c]) cs
      else (if cur = [] then [] else [cur]) @
           fields_from [] (drop (seq_width space_seqs (c # cs)) (c # cs)))"
  by pat_completeness auto
termination
  by (relation "measure (\<lambda>(cur, s). length s)") auto

definition Fields :: "string \<Rightarrow> string list" where
  "Fields s = fields_from [] s"

fun Join :: "string list \<Rightarrow> string \<Rightarrow> string" where
  "Join [] sep = []"
| "Join [x] sep = x"
| "Join (x # y # zs) sep = x @ sep @ Join (y # zs) sep"

lemma fields_from_nonempty: "cur \<noteq> [] \<Longrightarrow> \<exists>f fs. fields_from cur s = f # fs \<and> f \<noteq> []"
  by (induction cur s rule: fields_from.induct) auto

lemma Fields_trimmed_nonempty:
  assumes "TrimSpace s \<noteq> []"
  shows "\<exists>f fs. Fields (TrimSpace s) = f # fs \<and> f \<noteq> []"
proof -
  obtain c cs where c: "TrimSpace s = c # cs" using assms by (cases "TrimSpace s") auto
  have "seq_width space_seqs (TrimSpace s) = 0"
    by (metis seq_width_trim_front trim_left_TrimSpace trim_left_space_def)
  with c have "Fields (TrimSpace s) = fields_from [c] cs" by (simp add: Fields_def)
  then show ?thesis using fields_from_nonempty [of "[c]" cs] by simp
qed

lemma Join_nonempty: "f \<noteq> [] \<Longrightarrow> Join (f # fs) sep \<noteq> []"
  by (cases fs) auto

lemma fields_from_no_space:
  "c \<in> set ascii_spaces \<Longrightarrow> c \<notin> set cur \<Longrightarrow> f \<in> set (fields_from cur s) \<Longrightarrow> c \<notin> set f"
proof (induction cur s rule: fields_from.induct)
  case (1 cur)
  then show ?case by (auto split: if_splits)
next
  case (2 cur d ds)
  show ?case
  proof (cases "seq_width space_seqs (d # ds) = 0")
    case True
    moreover have "[c] \<in> set space_seqs" using 2 by (simp add: space_seqs_def)
    ultimately have "\<not> prefix [c] (d # ds)"
      by (simp only: seq_width_zero_iff [OF space_seqs_nonempty]) blast
    then have "c \<noteq> d" by auto
    with 2 True show ?thesis by auto
  next
    case False
    with 2 show ?thesis by (auto split: if_splits)
  qed
qed

lemma Fields_no_space: "c \<in> set ascii_spaces \<Longrightarrow> f \<in> set (Fields s) \<Longrightarrow> c \<notin> set f"
  using fields_from_no_space [of c "[]" f s] by (simp add: Fields_def)

lemma set_Join: "set (Join xs sep) \<subseteq> (\<Union>x \<in> set xs. set x) \<union> set sep"
  by (induction xs sep rule: Join.induct) auto

section \<open>Searching and replacing\<close>

abbreviation HasPrefix :: "string \<Rightarrow> string \<Rightarrow> bool" where
  "HasPrefix s p \<equiv> prefix p s"

abbreviation HasSuffix :: "string \<Rightarrow> string \<Rightarrow> bool" where
  "HasSuffix s p \<equiv> suffix p s"

fun Contains :: "string \<Rightarrow> string \<Rightarrow> bool" where
  "Contains [] sub = (sub = [])"
| "Contains (c # cs) sub = (HasPrefix (c # cs) sub \<or> Contains cs sub)"

lemma Contains_iff: "Contains s sub \<longleftrightarrow> (\<exists>xs ys. s = xs @ sub @ ys)"
proof -
  have "Contains s sub \<longleftrightarrow> sublist sub s"
    by (induction s) (auto simp: sublist_Cons_right)
  then show ?thesis by (simp add: sublist_def)
qed

fun Index :: "string \<Rightarrow> string \<Rightarrow> nat option" where
  "Index [] sub = (if sub = [] then Some 0 else None)"
| "Index (c # cs) sub =
     (if HasPrefix (c # cs) sub then Some 0 else map_option Suc (Index cs sub))"

definition TrimSuffix :: "string \<Rightarrow> string \<Rightarrow> string" where
  "TrimSuffix s p = (if HasSuffix s p then take (length s - length p) s else s)"

definition TrimPrefix :: "string \<Rightarrow> string \<Rightarrow> string" where
  "TrimPrefix s p = (if HasPrefix s p then drop (length p) s else s)"

text \<open>\<^verbatim>\<open>TrimLeft\<close> and \<^verbatim>\<open>Trim\<close> with a cutset of ASCII characters.\<close>

definition TrimLeft :: "string \<Rightarrow> string \<Rightarrow> string" where
  "TrimLeft s cutset = dropWhile (\<lambda>c. c \<in> set cutset) s"

definition Trim :: "string \<Rightarrow> string \<Rightarrow> string" where
  "Trim s cutset = rev (dropWhile (\<lambda>c. c \<in> set cutset) (rev (TrimLeft s cutset)))"

definition TrimRight :: "string \<Rightarrow> string \<Rightarrow> string" where
  "TrimRight s cutset = rev (dropWhile (\<lambda>c. c \<in> set cutset) (rev s))"

fun split_char :: "char \<Rightarrow> string \<Rightarrow> string list" where
  "split_char sep [] = [[]]"
| "split_char sep (c # cs) =
     (if c = sep then [] # split_char sep cs
      else (case split_char sep cs of [] \<Rightarrow> [[c]] | l # ls \<Rightarrow> (c # l) # ls))"

lemma split_char_nonempty [simp]: "split_char sep s \<noteq> []"
  by (induction s) (auto split: list.splits)

section \<open>Letter case\<close>

definition lower_char :: "char \<Rightarrow> char" where
  "lower_char c =
     (if 65 \<le> (of_char c :: nat) \<and> (of_char c :: nat) \<le> 90 then char_of ((of_char c :: nat) + 32)
      else c)"

definition ToLower :: "string \<Rightarrow> string" where
  "ToLower s = map lower_char s"

lemma lower_char_idem [simp]: "lower_char (lower_char c) = lower_char c"
  by (auto simp: lower_char_def of_char_of)

lemma ToLower_idem [simp]: "ToLower (ToLower s) = ToLower s"
  by (simp add: ToLower_def)

lemma ToLower_Nil [simp]: "ToLower [] = []"
  by (simp add: ToLower_def)

definition EqualFold :: "string \<Rightarrow> string \<Rightarrow> bool" where
  "EqualFold s t \<longleftrightarrow> ToLower s = ToLower t"

lemma of_char_newline: "of_char c = (10 :: nat) \<longleftrightarrow> c = CHR 0x0A"
proof -
  have "(of_char (CHR 0x0A) :: nat) = 10" by simp
  then show ?thesis by (metis of_char_eq_iff)
qed

lemma lower_char_newline: "lower_char c = CHR 0x0A \<longleftrightarrow> c = CHR 0x0A"
  unfolding of_char_newline [symmetric] by (auto simp: lower_char_def of_char_of)

section \<open>Runes\<close>

definition byte_at :: "string \<Rightarrow> nat \<Rightarrow> nat" where
  "byte_at s i = (if i < length s then of_char (s ! i) else 0)"

lemma byte_at_0 [simp]: "byte_at (c # cs) 0 = of_char c"
  by (simp add: byte_at_def)

definition cont :: "nat \<Rightarrow> nat \<Rightarrow> nat \<Rightarrow> bool" where
  "cont lo hi b \<longleftrightarrow> lo \<le> b \<and> b \<le> hi"

text \<open>
  \<^verbatim>\<open>utf8.DecodeRuneInString\<close> on a nonempty string: the rune and its width; an invalid or
  truncated encoding is the replacement character with width 1.
\<close>

definition decode_rune :: "string \<Rightarrow> nat \<times> nat" where
  "decode_rune s =
     (let n = length s; b0 = byte_at s 0; b1 = byte_at s 1; b2 = byte_at s 2; b3 = byte_at s 3
      in if b0 < 0x80 then (b0, 1)
         else if cont 0xC2 0xDF b0 \<and> 2 \<le> n \<and> cont 0x80 0xBF b1
         then ((b0 - 0xC0) * 64 + (b1 - 0x80), 2)
         else if cont 0xE0 0xEF b0 \<and> 3 \<le> n \<and>
           cont (if b0 = 0xE0 then 0xA0 else 0x80) (if b0 = 0xED then 0x9F else 0xBF) b1 \<and>
           cont 0x80 0xBF b2
         then (((b0 - 0xE0) * 64 + (b1 - 0x80)) * 64 + (b2 - 0x80), 3)
         else if cont 0xF0 0xF4 b0 \<and> 4 \<le> n \<and>
           cont (if b0 = 0xF0 then 0x90 else 0x80) (if b0 = 0xF4 then 0x8F else 0xBF) b1 \<and>
           cont 0x80 0xBF b2 \<and> cont 0x80 0xBF b3
         then ((((b0 - 0xF0) * 64 + (b1 - 0x80)) * 64 + (b2 - 0x80)) * 64 + (b3 - 0x80), 4)
         else (0xFFFD, 1))"

abbreviation rune_width :: "string \<Rightarrow> nat" where
  "rune_width s \<equiv> snd (decode_rune s)"

lemma rune_width_bounds: "1 \<le> rune_width s" "rune_width s \<le> 4"
  by (simp_all add: decode_rune_def Let_def)

lemma rune_width_le: "s \<noteq> [] \<Longrightarrow> rune_width s \<le> length s"
  by (cases s) (auto simp: decode_rune_def Let_def)

text \<open>The runes of a string, as \<^verbatim>\<open>for _, r := range s\<close> yields them.\<close>

function runes :: "string \<Rightarrow> nat list" where
  "runes [] = []"
| "runes (c # cs) =
     fst (decode_rune (c # cs)) # runes (drop (rune_width (c # cs)) (c # cs))"
  by pat_completeness auto
termination
proof (relation "measure length", goal_cases)
  case (2 c cs)
  show ?case using rune_width_bounds(1) [of "c # cs"] by simp
qed simp

lemma decode_rune_ascii: "of_char c < (128 :: nat) \<Longrightarrow> decode_rune (c # cs) = (of_char c, 1)"
  by (simp add: decode_rune_def)

lemma runes_append_ascii:
  "(\<forall>c \<in> set s. of_char c < (128 :: nat)) \<Longrightarrow> runes (s @ t) = map of_char s @ runes t"
  by (induction s) (simp_all add: runes.simps(2) decode_rune_ascii)

lemma runes_ascii: "(\<forall>c \<in> set s. of_char c < (128 :: nat)) \<Longrightarrow> runes s = map of_char s"
  using runes_append_ascii [of s "[]"] by simp

text \<open>An ASCII rune of a string is one of its bytes.\<close>

lemma decode_rune_small:
  assumes "fst (decode_rune (c # cs)) < 128"
  shows "fst (decode_rune (c # cs)) = of_char c"
proof (cases "(of_char c :: nat) < 0x80")
  case True
  then show ?thesis by (simp add: decode_rune_ascii)
next
  case False
  have two: "2 \<le> x \<Longrightarrow> 128 \<le> x * 64 + (y :: nat)" for x y by simp
  have three: "b \<noteq> 224 \<or> 160 \<le> b1 \<Longrightarrow> 224 \<le> b \<Longrightarrow> 2 \<le> (b - 224) * 64 + (b1 - 128)"
    for b b1 :: nat
    by (cases "b = 224") auto
  have four: "b \<noteq> 240 \<or> 144 \<le> b1 \<Longrightarrow> 240 \<le> b \<Longrightarrow>
      2 \<le> ((b - 240) * 64 + (b1 - 128)) * 64 + (b2 - 128)" for b b1 b2 :: nat
    by (cases "b = 240") auto
  have "128 \<le> fst (decode_rune (c # cs))"
    using False
    by (auto simp: decode_rune_def Let_def cont_def intro!: two three four split: if_split_asm)
  with assms show ?thesis by simp
qed

lemma runes_small: "r \<in> set (runes s) \<Longrightarrow> r < 128 \<Longrightarrow> \<exists>c \<in> set s. of_char c = r"
proof (induction s rule: runes.induct)
  case 1
  then show ?case by simp
next
  case (2 c cs)
  show ?case
  proof (cases "r = fst (decode_rune (c # cs))")
    case True
    with 2 show ?thesis using decode_rune_small [of c cs] by auto
  next
    case False
    with 2 have "\<exists>d \<in> set (drop (rune_width (c # cs)) (c # cs)). of_char d = r"
      by (simp add: runes.simps(2))
    then show ?thesis using in_set_dropD by metis
  qed
qed

text \<open>The byte offsets at which \<^verbatim>\<open>for i := range s\<close> stops, starting at \<open>i\<close>.\<close>

function rune_starts :: "nat \<Rightarrow> string \<Rightarrow> nat list" where
  "rune_starts i [] = []"
| "rune_starts i (c # cs) =
     i # rune_starts (i + rune_width (c # cs)) (drop (rune_width (c # cs)) (c # cs))"
  by pat_completeness auto
termination
proof (relation "measure (\<lambda>(i, s). length s)", goal_cases)
  case (2 i c cs)
  show ?case using rune_width_bounds(1) [of "c # cs"] by simp
qed simp

declare runes.simps(2) [simp del] rune_starts.simps(2) [simp del]

text \<open>A newline is never part of a longer rune.\<close>

lemma decode_rune_newline:
  assumes "CHR 0x0A \<in> set (take (rune_width s) s)"
  shows "fst (decode_rune s) = 10"
proof -
  obtain i where i: "i < rune_width s" "i < length s" "s ! i = CHR 0x0A" using assms by (auto simp: in_set_conv_nth)
  then have b: "byte_at s i = 10" by (simp add: byte_at_def of_char_newline)
  show ?thesis
  proof (cases "i = 0")
    case True
    then show ?thesis using b by (simp add: decode_rune_def Let_def)
  next
    case False
    then have "i = 1 \<or> i = 2 \<or> i = 3" using i(1) rune_width_bounds(2) [of s] by linarith
    then show ?thesis using b i(1) by (auto simp: decode_rune_def Let_def cont_def split: if_splits)
  qed
qed

lemma runes_newline: "CHR 0x0A \<in> set s \<Longrightarrow> 10 \<in> set (runes s)"
proof (induction s rule: runes.induct)
  case (2 c cs)
  let ?s = "c # cs"
  have "CHR 0x0A \<in> set (take (rune_width ?s) ?s) \<or> CHR 0x0A \<in> set (drop (rune_width ?s) ?s)"
    using 2(2) by (metis Un_iff append_take_drop_id set_append)
  then show ?case using 2 decode_rune_newline [of ?s] by (auto simp: runes.simps(2))
qed simp

text \<open>Cutting a string at the start of a rune splits no rune.\<close>

lemma decode_rune_take:
  assumes "rune_width s \<le> n"
  shows "decode_rune (take n s) = decode_rune s"
proof -
  define two where "two s \<longleftrightarrow> cont 0xC2 0xDF (byte_at s 0) \<and> 2 \<le> length s \<and> cont 0x80 0xBF (byte_at s 1)" for s
  define three where "three s \<longleftrightarrow> cont 0xE0 0xEF (byte_at s 0) \<and> 3 \<le> length s \<and>
     cont (if byte_at s 0 = 0xE0 then 0xA0 else 0x80) (if byte_at s 0 = 0xED then 0x9F else 0xBF) (byte_at s 1) \<and>
     cont 0x80 0xBF (byte_at s 2)" for s
  define four where "four s \<longleftrightarrow> cont 0xF0 0xF4 (byte_at s 0) \<and> 4 \<le> length s \<and>
     cont (if byte_at s 0 = 0xF0 then 0x90 else 0x80) (if byte_at s 0 = 0xF4 then 0x8F else 0xBF) (byte_at s 1) \<and>
     cont 0x80 0xBF (byte_at s 2) \<and> cont 0x80 0xBF (byte_at s 3)" for s
  define r2 where "r2 s = (byte_at s 0 - 0xC0) * 64 + (byte_at s 1 - 0x80)" for s
  define r3 where "r3 s = ((byte_at s 0 - 0xE0) * 64 + (byte_at s 1 - 0x80)) * 64 + (byte_at s 2 - 0x80)" for s
  define r4 where "r4 s = (((byte_at s 0 - 0xF0) * 64 + (byte_at s 1 - 0x80)) * 64 + (byte_at s 2 - 0x80)) * 64
     + (byte_at s 3 - 0x80)" for s
  have dec: "decode_rune s = (if byte_at s 0 < 128 then (byte_at s 0, 1) else if two s then (r2 s, 2)
      else if three s then (r3 s, 3) else if four s then (r4 s, 4) else (0xFFFD, 1))" for s
    unfolding decode_rune_def Let_def two_def three_def four_def r2_def r3_def r4_def by (rule refl)
  have n: "1 \<le> n" using assms rune_width_bounds(1) [of s] by simp
  have b: "byte_at (take n s) i = byte_at s i" if "i < n" for i
    using that by (simp add: byte_at_def)
  have c: "two (take n s) \<longleftrightarrow> 2 \<le> n \<and> two s" "three (take n s) \<longleftrightarrow> 3 \<le> n \<and> three s"
    "four (take n s) \<longleftrightarrow> 4 \<le> n \<and> four s"
    using n by (cases "2 \<le> n", simp_all add: two_def b)
      (cases "3 \<le> n", simp_all add: three_def b, cases "4 \<le> n", simp_all add: four_def b)
  have r: "2 \<le> n \<Longrightarrow> r2 (take n s) = r2 s" "3 \<le> n \<Longrightarrow> r3 (take n s) = r3 s"
    "4 \<le> n \<Longrightarrow> r4 (take n s) = r4 s"
    by (simp_all add: r2_def r3_def r4_def b)
  have b0: "byte_at (take n s) 0 = byte_at s 0" using n by (simp add: b)
  show ?thesis using assms unfolding dec [of s] dec [of "take n s"] b0 c using r
    by (simp split: if_split_asm)
qed

lemma rune_starts_ge: "j \<in> set (rune_starts i s) \<Longrightarrow> i \<le> j"
proof (induction i s rule: rune_starts.induct)
  case (2 i c cs)
  then show ?case by (auto simp: rune_starts.simps(2))
qed simp

lemma runes_Cons: "s \<noteq> [] \<Longrightarrow> runes s = fst (decode_rune s) # runes (drop (rune_width s) s)"
  by (cases s) (simp_all add: runes.simps(2))

lemma runes_cut:
  "i + b \<in> set (rune_starts i s) \<Longrightarrow> runes (take b s) @ runes (drop b s) = runes s"
proof (induction i s arbitrary: b rule: rune_starts.induct)
  case (2 i c cs)
  let ?s = "c # cs" let ?w = "rune_width (c # cs)"
  show ?case
  proof (cases "b = 0")
    case False
    with "2.prems" have "i + b \<in> set (rune_starts (i + ?w) (drop ?w ?s))"
      by (simp add: rune_starts.simps(2))
    moreover from rune_starts_ge [OF this] have w: "?w \<le> b" by simp
    ultimately have "i + ?w + (b - ?w) \<in> set (rune_starts (i + ?w) (drop ?w ?s))" by simp
    note ih = "2.IH" [OF this]
    have "runes (take b ?s) = fst (decode_rune ?s) # runes (drop ?w (take b ?s))"
      using runes_Cons [of "take b ?s"] False decode_rune_take [OF w] by simp
    then show ?thesis using ih w by (simp add: runes_Cons [of ?s] drop_take)
  qed simp
qed simp

text \<open>Go cuts \<^verbatim>\<open>strings.ReplaceAll\<close> with an empty pattern at the runes; otherwise it scans bytes.\<close>

function replace_empty :: "string \<Rightarrow> string \<Rightarrow> string" where
  "replace_empty new [] = new"
| "replace_empty new (c # cs) =
     new @ take (rune_width (c # cs)) (c # cs) @
     replace_empty new (drop (rune_width (c # cs)) (c # cs))"
  by pat_completeness auto
termination
proof (relation "measure (\<lambda>(new, s). length s)", goal_cases)
  case (2 new c cs)
  show ?case using rune_width_bounds(1) [of "c # cs"] by simp
qed simp

declare replace_empty.simps(2) [simp del]

function replace_scan :: "string \<Rightarrow> string \<Rightarrow> string \<Rightarrow> string" where
  "replace_scan old new [] = []"
| "replace_scan old new (c # cs) =
     (if old \<noteq> [] \<and> HasPrefix (c # cs) old
      then new @ replace_scan old new (drop (length old) (c # cs))
      else c # replace_scan old new cs)"
  by pat_completeness auto
termination
  by (relation "measure (\<lambda>(old, new, s). length s)") auto

definition ReplaceAll :: "string \<Rightarrow> string \<Rightarrow> string \<Rightarrow> string" where
  "ReplaceAll s old new = (if old = [] then replace_empty new s else replace_scan old new s)"

lemma replace_scan_absent: "old \<noteq> [] \<Longrightarrow> \<not> Contains s old \<Longrightarrow> replace_scan old new s = s"
  by (induction s) auto

lemma ReplaceAll_absent: "old \<noteq> [] \<Longrightarrow> \<not> Contains s old \<Longrightarrow> ReplaceAll s old new = s"
  by (simp add: ReplaceAll_def replace_scan_absent)

section \<open>Numbers in text\<close>

definition digit :: "nat \<Rightarrow> char" where
  "digit n = char_of (48 + n)"

fun dec :: "nat \<Rightarrow> string" where
  "dec n = (if n < 10 then [digit n] else dec (n div 10) @ [digit (n mod 10)])"

declare dec.simps [simp del]

definition dec_int :: "int \<Rightarrow> string" where
  "dec_int i = (if i < 0 then CHR ''-'' # dec (nat (- i)) else dec (nat i))"

text \<open>\<^verbatim>\<open>%06d\<close> and friends: at least \<open>w\<close> digits, zeros on the left.\<close>

definition dec_pad :: "nat \<Rightarrow> nat \<Rightarrow> string" where
  "dec_pad w n = replicate (w - length (dec n)) (CHR ''0'') @ dec n"

definition undec :: "string \<Rightarrow> nat" where
  "undec s = foldl (\<lambda>acc c. acc * 10 + (of_char c - 48)) 0 s"

lemma undec_snoc [simp]: "undec (s @ [c]) = undec s * 10 + (of_char c - 48)"
  by (simp add: undec_def)

lemma of_char_digit [simp]: "n < 10 \<Longrightarrow> (of_char (digit n) :: nat) = 48 + n"
  by (simp add: digit_def of_char_of)

lemma undec_dec [simp]: "undec (dec n) = n"
proof (induction n rule: dec.induct)
  case (1 n)
  show ?case
  proof (cases "n < 10")
    case True
    then show ?thesis by (simp add: dec.simps [of n] undec_def)
  next
    case False
    then have "undec (dec n) = undec (dec (n div 10)) * 10 + n mod 10"
      by (simp add: dec.simps [of n])
    also have "\<dots> = n" using 1 False by simp
    finally show ?thesis .
  qed
qed

lemma undec_zeros [simp]: "undec (replicate k (CHR ''0'') @ s) = undec s"
  by (induction k) (simp_all add: undec_def)

lemma undec_dec_pad [simp]: "undec (dec_pad w n) = n"
  by (simp add: dec_pad_def)

lemma dec_pad_inj: "dec_pad w m = dec_pad w n \<longleftrightarrow> m = n"
  by (metis undec_dec_pad)

lemma dec_last: "\<exists>xs d. d < 10 \<and> dec n = xs @ [digit d]"
proof (cases "n < 10")
  case True
  then have "dec n = [] @ [digit n]" by (simp add: dec.simps [of n])
  with True show ?thesis by blast
next
  case False
  then have "dec n = dec (n div 10) @ [digit (n mod 10)]" by (simp add: dec.simps [of n])
  then show ?thesis by (intro exI [of _ "dec (n div 10)"] exI [of _ "n mod 10"]) simp
qed

lemma digit_cases: "d < 10 \<Longrightarrow> digit d \<in> set ''0123456789''"
proof -
  assume "d < 10"
  then have "d \<in> set [0..<10]" by simp
  moreover have "\<forall>d \<in> set [0..<10]. digit d \<in> set ''0123456789''" by code_simp
  ultimately show ?thesis by blast
qed

lemma seq_width_digit: "d < 10 \<Longrightarrow> seq_width (map rev space_seqs) (digit d # xs) = 0"
proof -
  assume "d < 10"
  moreover have "\<forall>c \<in> set ''0123456789''. \<forall>p \<in> set (map rev space_seqs). p \<noteq> [] \<and> hd p \<noteq> c" by code_simp
  ultimately have "\<forall>p \<in> set (map rev space_seqs). \<not> prefix p (digit d # xs)"
    using digit_cases [of d] by (auto simp: prefix_Cons)
  then show ?thesis by (auto simp: seq_width_def find_None_iff split: option.split dest!: find_Some_in)
qed

definition bool_text :: "bool \<Rightarrow> string" where
  "bool_text b = (if b then ''true'' else ''false'')"

end
