(* ===== verification/Go_Time.thy ===== *)
theory Go_Time
  imports Go_Strings
begin

text \<open>
  Go's \<^verbatim>\<open>time\<close> package as far as the program uses it.  A \<^verbatim>\<open>time.Time\<close> is the number of
  nanoseconds since the zero time (1 January of year 1, UTC), so \<^verbatim>\<open>IsZero\<close> is equality with 0 and
  \<^verbatim>\<open>After\<close>, \<^verbatim>\<open>Before\<close> and \<^verbatim>\<open>Equal\<close> are the order of the integers; every time of the program is in
  UTC.  A \<^verbatim>\<open>time.Duration\<close> is a number of nanoseconds.  \<^verbatim>\<open>time.Now()\<close> is an argument of the
  operations that read the clock.
\<close>

type_synonym gotime = int
type_synonym duration = int

abbreviation IsZero :: "gotime \<Rightarrow> bool" where
  "IsZero t \<equiv> t = 0"

definition Second :: duration where "Second = 1000000000"
definition Minute :: duration where "Minute = 60 * Second"

definition maxDuration :: duration where "maxDuration = 9223372036854775807"
definition minDuration :: duration where "minDuration = -9223372036854775808"

text \<open>Arithmetic on 64-bit integers and durations wraps around.\<close>

definition to_int64 :: "int \<Rightarrow> int" where
  "to_int64 x = (x + 9223372036854775808) mod 18446744073709551616 - 9223372036854775808"

lemma to_int64_id: "minDuration \<le> x \<Longrightarrow> x \<le> maxDuration \<Longrightarrow> to_int64 x = x"
  by (simp add: to_int64_def minDuration_def maxDuration_def)

text \<open>\<^verbatim>\<open>Time.UnixNano\<close>: nanoseconds since 1 January 1970.\<close>

definition UnixNano :: "gotime \<Rightarrow> int" where
  "UnixNano t = to_int64 (t - 62135596800 * Second)"

text \<open>\<^verbatim>\<open>Time.Sub\<close> saturates at the bounds of a duration.\<close>

definition time_Sub :: "gotime \<Rightarrow> gotime \<Rightarrow> duration" where
  "time_Sub t u = max minDuration (min maxDuration (t - u))"

lemma time_Sub_less_iff:
  assumes "minDuration < d" "d \<le> maxDuration"
  shows "time_Sub t u < d \<longleftrightarrow> t - u < d"
  using assms by (auto simp: time_Sub_def)

lemma time_Sub_ge_iff:
  assumes "minDuration < d" "d \<le> maxDuration"
  shows "d \<le> time_Sub t u \<longleftrightarrow> d \<le> t - u"
  using time_Sub_less_iff [OF assms, of t u] by linarith

text \<open>\<^verbatim>\<open>Duration.Round\<close>: to the nearest multiple, halfway away from zero, saturating.\<close>

definition duration_Round :: "duration \<Rightarrow> duration \<Rightarrow> duration" where
  "duration_Round d m =
     (if m \<le> 0 then d
      else let r = \<bar>d\<bar> mod m in
        if d < 0 then
          (if 2 * r < m then d + r
           else if d - m + r \<ge> minDuration then d - m + r else minDuration)
        else
          (if 2 * r < m then d - r
           else if d + m - r \<le> maxDuration then d + m - r else maxDuration))"

text \<open>\<^verbatim>\<open>Duration.String\<close>.\<close>

definition strip_zeros :: "string \<Rightarrow> string" where
  "strip_zeros s = rev (dropWhile (\<lambda>c. c = CHR ''0'') (rev s))"

definition frac_text :: "nat \<Rightarrow> nat \<Rightarrow> string" where
  "frac_text prec f = (if f = 0 then [] else CHR ''.'' # strip_zeros (dec_pad prec f))"

definition duration_String :: "duration \<Rightarrow> string" where
  "duration_String d =
     (let u = \<bar>d\<bar>; sign = (if d < 0 then ''-'' else []) in
      if u = 0 then ''0s''
      else if u < 1000 then sign @ dec (nat u) @ ''ns''
      else if u < 1000000
      then sign @ dec (nat (u div 1000)) @ frac_text 3 (nat (u mod 1000)) @
        [CHR 0xC2, CHR 0xB5, CHR ''s'']
      else if u < 1000000000
      then sign @ dec (nat (u div 1000000)) @ frac_text 6 (nat (u mod 1000000)) @ ''ms''
      else
        (let sec = u div 1000000000; m = sec div 60; h = m div 60 in
         sign @ (if h > 0 then dec (nat h) @ ''h'' else []) @
         (if m > 0 then dec (nat (m mod 60)) @ ''m'' else []) @
         dec (nat (sec mod 60)) @ frac_text 9 (nat (u mod 1000000000)) @ ''s''))"

section \<open>Calendar\<close>

definition month_lengths :: "bool \<Rightarrow> int list" where
  "month_lengths leap =
     [31, if leap then 29 else 28, 31, 30, 31, 30, 31, 31, 30, 31, 30, 31]"

fun month_of :: "int \<Rightarrow> int \<Rightarrow> int list \<Rightarrow> int \<times> int" where
  "month_of m d [] = (m, d)"
| "month_of m d (l # ls) = (if d < l then (m, d) else month_of (m + 1) (d - l) ls)"

text \<open>Year, month and day of the day that is \<open>n\<close> days after 1 January of year 1.\<close>

definition civil :: "int \<Rightarrow> int \<times> int \<times> int" where
  "civil n =
     (let y400 = n div 146097; n1 = n mod 146097;
          y100 = min 3 (n1 div 36524); n2 = n1 - y100 * 36524;
          y4 = n2 div 1461; n3 = n2 mod 1461;
          y1 = min 3 (n3 div 365); yday = n3 - y1 * 365;
          leap = (y1 = 3 \<and> (y4 \<noteq> 24 \<or> y100 = 3));
          md = month_of 1 yday (month_lengths leap)
      in (400 * y400 + 100 * y100 + 4 * y4 + y1 + 1, fst md, snd md + 1))"

definition clock_text :: "gotime \<Rightarrow> string" where
  "clock_text t =
     (let sec = t div Second mod 86400 in
      dec_pad 2 (nat (sec div 3600)) @ '':'' @ dec_pad 2 (nat (sec div 60 mod 60)) @ '':'' @
      dec_pad 2 (nat (sec mod 60)))"

definition date_text :: "gotime \<Rightarrow> string" where
  "date_text t =
     (let (y, m, d) = civil (t div Second div 86400) in
      dec_pad 4 (nat y) @ ''-'' @ dec_pad 2 (nat m) @ ''-'' @ dec_pad 2 (nat d))"

text \<open>\<^verbatim>\<open>t.UTC().Format(time.RFC3339)\<close> and \<^verbatim>\<open>t.String()\<close>, for a time that is not before year 1.\<close>

definition format_RFC3339 :: "gotime \<Rightarrow> string" where
  "format_RFC3339 t = date_text t @ ''T'' @ clock_text t @ ''Z''"

definition time_String :: "gotime \<Rightarrow> string" where
  "time_String t =
     date_text t @ '' '' @ clock_text t @ frac_text 9 (nat (t mod Second)) @ '' +0000 UTC''"

end
