(* ===== verification/Contracts.thy ===== *)
theory Contracts
  imports Go_Time
begin

text \<open>
  The data that the components of the program exchange: package \<^verbatim>\<open>internal/contracts\<close>
  (\<^verbatim>\<open>event.go\<close>, \<^verbatim>\<open>query.go\<close>, \<^verbatim>\<open>command.go\<close>, \<^verbatim>\<open>event_bus.go\<close>, \<^verbatim>\<open>golden_path.go\<close>, \<^verbatim>\<open>errors.go\<close>) and the
  status types of \<^verbatim>\<open>internal/domain\<close>.  A Go struct is a record whose fields carry the Go names
  behind a short prefix; \<open>zero_X\<close> is the zero value, so that a composite literal of the source is an
  update of the zero value at the fields the literal names.  A pointer to a struct is an
  \<open>option\<close>.  A Go map inside these values is an association list with distinct keys; a nil map and
  an empty one are the same value, since the program only reads, ranges over and copies them, or
  writes to them after \<^verbatim>\<open>ensureMap\<close>.

  The second half is the delivery policy of the event bus (\<^verbatim>\<open>DeliveryPolicy\<close>), which decides
  between acknowledging, retrying and dead-lettering an event.
\<close>

section \<open>Dynamic values\<close>

text \<open>
  The values of a \<^verbatim>\<open>map[string]interface{}\<close>: the dynamic types the program distinguishes, and any
  other value with the text \<^verbatim>\<open>fmt\<close> prints for it.  \<open>VList\<close> is a \<^verbatim>\<open>[]interface{}\<close> and \<open>VSlice\<close> a slice of another
  type, its structs written as maps; a \<^verbatim>\<open>float64\<close> is known by its conversion to \<^verbatim>\<open>int\<close> and by its text.
\<close>

type_synonym strmap = "(string \<times> string) list"

datatype gval =
    VString string
  | VStrMap strmap
  | VMap "(string \<times> gval) list"
  | VTime gotime
  | VNil
  | VBool bool
  | VInt int
  | VFloat int string
  | VList "gval list"
  | VSlice "gval list"
  | VOther string

type_synonym valmap = "(string \<times> gval) list"

fun map_put :: "string \<Rightarrow> 'v \<Rightarrow> (string \<times> 'v) list \<Rightarrow> (string \<times> 'v) list" where
  "map_put k v [] = [(k, v)]"
| "map_put k v ((k', v') # m) = (if k' = k then (k, v) # m else (k', v') # map_put k v m)"

lemma map_of_map_put [simp]: "map_of (map_put k v m) = (map_of m)(k \<mapsto> v)"
  by (induction m rule: map_put.induct) auto

lemma keys_map_put [simp]: "fst ` set (map_put k v m) = insert k (fst ` set m)"
  by (induction m rule: map_put.induct) auto

lemma distinct_map_put: "distinct (map fst m) \<Longrightarrow> distinct (map fst (map_put k v m))"
  by (induction m rule: map_put.induct) auto

text \<open>\<^verbatim>\<open>fmt.Sprintf("%v", m)\<close> prints a map with its keys sorted.\<close>

definition sort_keys :: "(string \<times> 'v) list \<Rightarrow> (string \<times> 'v) list" where
  "sort_keys m = slice_stable (\<lambda>a b. fst a < fst b) m"

fun value_text :: "gval \<Rightarrow> string" where
  "value_text (VString s) = s"
| "value_text (VStrMap m) =
     ''map['' @ Join (map (\<lambda>(k, v). k @ '':'' @ v) (sort_keys m)) '' '' @ '']''"
| "value_text (VMap m) =
     ''map['' @
     Join (map snd (sort_keys (map (\<lambda>(k, v). (k, k @ '':'' @ value_text v)) m))) '' '' @ '']''"
| "value_text (VTime t) = time_String t"
| "value_text VNil = ''<nil>''"
| "value_text (VBool b) = (if b then ''true'' else ''false'')"
| "value_text (VInt n) = dec_int n"
| "value_text (VFloat n text) = text"
| "value_text (VSlice vs) = ''['' @ Join (map value_text vs) '' '' @ '']''"
| "value_text (VList vs) = ''['' @ Join (map value_text vs) '' '' @ '']''"
| "value_text (VOther s) = s"

section \<open>Errors\<close>

text \<open>
  The sentinel errors of \<^verbatim>\<open>errors.go\<close>, an error built by \<^verbatim>\<open>fmt.Errorf\<close>, and the run-time panic of
  a nil dereference, which no operation of the program recovers from.
\<close>

datatype go_error = ErrNotFound | ErrBlockedByFeatureFlag | ErrInvalidState | Errorf string | NilDeref

type_synonym 'a result = "go_error + 'a"

section \<open>Status types\<close>

text \<open>The status constants of \<^verbatim>\<open>domain/session\<close> and \<^verbatim>\<open>domain/execution\<close>.\<close>

definition session_statuses :: "string list" where
  "session_statuses =
     [''open'', ''analyzing'', ''pending_approval'', ''executing'', ''verifying'', ''resolved'',
      ''failed'']"

definition execution_statuses :: "string list" where
  "execution_statuses =
     [''pending'', ''approved'', ''executing'', ''completed'', ''failed'', ''timeout'', ''rejected'']"

section \<open>Records\<close>

record RuntimeMetadata =
  rm_Runtime :: string
  rm_Selection :: string
  rm_ConnectorID :: string
  rm_ConnectorType :: string
  rm_ConnectorVendor :: string
  rm_Protocol :: string
  rm_ExecutionMode :: string
  rm_FallbackEnabled :: bool
  rm_FallbackUsed :: bool
  rm_FallbackReason :: string
  rm_FallbackTarget :: string

definition zero_RuntimeMetadata :: RuntimeMetadata where
  "zero_RuntimeMetadata = \<lparr>rm_Runtime = [], rm_Selection = [], rm_ConnectorID = [], rm_ConnectorType = [],
     rm_ConnectorVendor = [], rm_Protocol = [], rm_ExecutionMode = [],
     rm_FallbackEnabled = False, rm_FallbackUsed = False, rm_FallbackReason = [],
     rm_FallbackTarget = []\<rparr>"

record AlertEvent =
  ae_Source :: string
  ae_Severity :: string
  ae_Fingerprint :: string
  ae_IdempotencyKey :: string
  ae_RequestHash :: string
  ae_Labels :: strmap
  ae_Annotations :: strmap
  ae_ReceivedAt :: gotime

definition zero_AlertEvent :: AlertEvent where
  "zero_AlertEvent = \<lparr>ae_Source = [], ae_Severity = [], ae_Fingerprint = [], ae_IdempotencyKey = [],
     ae_RequestHash = [], ae_Labels = [], ae_Annotations = [], ae_ReceivedAt = 0\<rparr>"

record ChannelEvent =
  ce_EventType :: string
  ce_Channel :: string
  ce_UserID :: string
  ce_ChatID :: string
  ce_Action :: string
  ce_ExecutionID :: string
  ce_RequestKind :: string
  ce_Command :: string
  ce_Reason :: string
  ce_IdempotencyKey :: string

definition zero_ChannelEvent :: ChannelEvent where
  "zero_ChannelEvent = \<lparr>ce_EventType = [], ce_Channel = [], ce_UserID = [], ce_ChatID = [], ce_Action = [],
     ce_ExecutionID = [], ce_RequestKind = [], ce_Command = [], ce_Reason = [],
     ce_IdempotencyKey = []\<rparr>"

record ExecutionResult =
  er_ExecutionID :: string
  er_SessionID :: string
  er_Status :: string
  er_ConnectorID :: string
  er_Protocol :: string
  er_ExecutionMode :: string
  er_Runtime :: "RuntimeMetadata option"
  er_ExitCode :: int
  er_Output :: string
  er_OutputRef :: string
  er_OutputPreview :: string
  er_OutputBytes :: int
  er_OutputTruncated :: bool

definition zero_ExecutionResult :: ExecutionResult where
  "zero_ExecutionResult = \<lparr>er_ExecutionID = [], er_SessionID = [], er_Status = [], er_ConnectorID = [],
     er_Protocol = [], er_ExecutionMode = [], er_Runtime = None, er_ExitCode = 0,
     er_Output = [], er_OutputRef = [], er_OutputPreview = [], er_OutputBytes = 0,
     er_OutputTruncated = False\<rparr>"

record MessageAttachment =
  ma_Type :: string
  ma_Name :: string
  ma_MimeType :: string
  ma_URL :: string
  ma_Content :: string
  ma_PreviewText :: string
  ma_Metadata :: valmap

record CapabilityExecutionResult =
  cr_ApprovalID :: string
  cr_SessionID :: string
  cr_StepID :: string
  cr_Status :: string
  cr_ConnectorID :: string
  cr_CapabilityID :: string
  cr_Output :: valmap
  cr_Artifacts :: "MessageAttachment list"
  cr_Metadata :: valmap
  cr_Runtime :: "RuntimeMetadata option"
  cr_Error :: string

definition zero_CapabilityExecutionResult :: CapabilityExecutionResult where
  "zero_CapabilityExecutionResult = \<lparr>cr_ApprovalID = [], cr_SessionID = [], cr_StepID = [], cr_Status = [],
     cr_ConnectorID = [], cr_CapabilityID = [], cr_Output = [], cr_Artifacts = [],
     cr_Metadata = [], cr_Runtime = None, cr_Error = []\<rparr>"

record VerificationResult =
  vr_SessionID :: string
  vr_ExecutionID :: string
  vr_Status :: string
  vr_Summary :: string
  vr_Details :: valmap
  vr_Runtime :: "RuntimeMetadata option"
  vr_CheckedAt :: gotime

definition zero_VerificationResult :: VerificationResult where
  "zero_VerificationResult = \<lparr>vr_SessionID = [], vr_ExecutionID = [], vr_Status = [], vr_Summary = [],
     vr_Details = [], vr_Runtime = None, vr_CheckedAt = 0\<rparr>"

record KnowledgeHit =
  kh_DocumentID :: string
  kh_ChunkID :: string
  kh_Snippet :: string

record ToolPlanStep =
  tp_ID :: string
  tp_Tool :: string
  tp_ConnectorID :: string
  tp_Reason :: string
  tp_Priority :: int
  tp_Status :: string
  tp_Input :: valmap
  tp_ResolvedInput :: valmap
  tp_Output :: valmap
  tp_OnFailure :: string
  tp_OnPendingApproval :: string
  tp_OnDenied :: string
  tp_Runtime :: "RuntimeMetadata option"
  tp_StartedAt :: gotime
  tp_CompletedAt :: gotime

record DiagnosisOutput =
  do_Summary :: string
  do_Citations :: "KnowledgeHit list"
  do_ExecutionHint :: string
  do_ToolPlan :: "ToolPlanStep list"
  do_Attachments :: "MessageAttachment list"
  do_DesenseMap :: strmap

definition zero_DiagnosisOutput :: DiagnosisOutput where
  "zero_DiagnosisOutput = \<lparr>do_Summary = [], do_Citations = [], do_ExecutionHint = [], do_ToolPlan = [],
     do_Attachments = [], do_DesenseMap = []\<rparr>"

record ApprovedExecutionRequest =
  xr_ExecutionID :: string
  xr_SessionID :: string
  xr_TargetHost :: string
  xr_Command :: string
  xr_Service :: string
  xr_ConnectorID :: string
  xr_ConnectorType :: string
  xr_ConnectorVendor :: string
  xr_Protocol :: string
  xr_ExecutionMode :: string

definition zero_ApprovedExecutionRequest :: ApprovedExecutionRequest where
  "zero_ApprovedExecutionRequest = \<lparr>xr_ExecutionID = [], xr_SessionID = [], xr_TargetHost = [], xr_Command = [],
     xr_Service = [], xr_ConnectorID = [], xr_ConnectorType = [], xr_ConnectorVendor = [],
     xr_Protocol = [], xr_ExecutionMode = []\<rparr>"

record ApprovedCapabilityRequest =
  ar_ApprovalID :: string
  ar_SessionID :: string
  ar_StepID :: string
  ar_ConnectorID :: string
  ar_CapabilityID :: string
  ar_Params :: valmap
  ar_RequestedBy :: string
  ar_ApprovalGroup :: string
  ar_Runtime :: "RuntimeMetadata option"

definition zero_ApprovedCapabilityRequest :: ApprovedCapabilityRequest where
  "zero_ApprovedCapabilityRequest = \<lparr>ar_ApprovalID = [], ar_SessionID = [], ar_StepID = [], ar_ConnectorID = [],
     ar_CapabilityID = [], ar_Params = [], ar_RequestedBy = [], ar_ApprovalGroup = [],
     ar_Runtime = None\<rparr>"

record ChannelAction =
  ca_Label :: string
  ca_Value :: string

record ChannelMessage =
  cm_Channel :: string
  cm_Target :: string
  cm_Subject :: string
  cm_Body :: string
  cm_RefType :: string
  cm_RefID :: string
  cm_Source :: string
  cm_Actions :: "ChannelAction list"
  cm_Attachments :: "MessageAttachment list"

definition zero_ChannelMessage :: ChannelMessage where
  "zero_ChannelMessage = \<lparr>cm_Channel = [], cm_Target = [], cm_Subject = [], cm_Body = [], cm_RefType = [],
     cm_RefID = [], cm_Source = [], cm_Actions = [], cm_Attachments = []\<rparr>"

record ListSessionsFilter =
  lsf_Status :: string
  lsf_Host :: string
  lsf_Query :: string
  lsf_SortBy :: string
  lsf_SortOrder :: string

record ListExecutionsFilter =
  lef_Status :: string
  lef_Query :: string
  lef_SortBy :: string
  lef_SortOrder :: string

record ListOutboxFilter =
  lof_Status :: string
  lof_Query :: string
  lof_SortBy :: string
  lof_SortOrder :: string

record TimelineEvent =
  te_Event :: string
  te_Message :: string
  te_CreatedAt :: gotime

record SessionVerification =
  sv_Status :: string
  sv_Summary :: string
  sv_Details :: valmap
  sv_Runtime :: "RuntimeMetadata option"
  sv_CheckedAt :: gotime

record NotificationDigest =
  nd_Stage :: string
  nd_Target :: string
  nd_Reason :: string
  nd_Preview :: string
  nd_CreatedAt :: gotime

record SessionGoldenSummary =
  gs_Headline :: string
  gs_Conclusion :: string
  gs_Risk :: string
  gs_NextAction :: string
  gs_Evidence :: "string list"
  gs_NotificationHeadline :: string
  gs_ExecutionHeadline :: string
  gs_VerificationHeadline :: string

record ExecutionGoldenSummary =
  xg_Headline :: string
  xg_Risk :: string
  xg_Approval :: string
  xg_Result :: string
  xg_NextAction :: string
  xg_CommandPreview :: string

record ExecutionDetail =
  ed_ExecutionID :: string
  ed_SessionID :: string
  ed_AgentRoleID :: string
  ed_RequestKind :: string
  ed_Status :: string
  ed_RiskLevel :: string
  ed_GoldenSummary :: "ExecutionGoldenSummary option"
  ed_Command :: string
  ed_TargetHost :: string
  ed_StepID :: string
  ed_CapabilityID :: string
  ed_CapabilityParams :: valmap
  ed_ConnectorID :: string
  ed_ConnectorType :: string
  ed_ConnectorVendor :: string
  ed_Protocol :: string
  ed_ExecutionMode :: string
  ed_RequestedBy :: string
  ed_ApprovalGroup :: string
  ed_Runtime :: "RuntimeMetadata option"
  ed_ExitCode :: int
  ed_OutputRef :: string
  ed_OutputBytes :: int
  ed_OutputTruncated :: bool
  ed_CreatedAt :: gotime
  ed_ApprovedAt :: gotime
  ed_CompletedAt :: gotime

definition zero_ExecutionDetail :: ExecutionDetail where
  "zero_ExecutionDetail = \<lparr>ed_ExecutionID = [], ed_SessionID = [], ed_AgentRoleID = [], ed_RequestKind = [],
     ed_Status = [], ed_RiskLevel = [], ed_GoldenSummary = None, ed_Command = [],
     ed_TargetHost = [], ed_StepID = [], ed_CapabilityID = [], ed_CapabilityParams = [],
     ed_ConnectorID = [], ed_ConnectorType = [], ed_ConnectorVendor = [], ed_Protocol = [],
     ed_ExecutionMode = [], ed_RequestedBy = [], ed_ApprovalGroup = [], ed_Runtime = None,
     ed_ExitCode = 0, ed_OutputRef = [], ed_OutputBytes = 0, ed_OutputTruncated = False,
     ed_CreatedAt = 0, ed_ApprovedAt = 0, ed_CompletedAt = 0\<rparr>"

record SessionDetail =
  sd_SessionID :: string
  sd_AgentRoleID :: string
  sd_Status :: string
  sd_DiagnosisSummary :: string
  sd_GoldenSummary :: "SessionGoldenSummary option"
  sd_ToolPlan :: "ToolPlanStep list"
  sd_Attachments :: "MessageAttachment list"
  sd_Alert :: valmap
  sd_Verification :: "SessionVerification option"
  sd_Notifications :: "NotificationDigest list"
  sd_Executions :: "ExecutionDetail list"
  sd_Timeline :: "TimelineEvent list"

definition zero_SessionDetail :: SessionDetail where
  "zero_SessionDetail = \<lparr>sd_SessionID = [], sd_AgentRoleID = [], sd_Status = [], sd_DiagnosisSummary = [],
     sd_GoldenSummary = None, sd_ToolPlan = [], sd_Attachments = [], sd_Alert = [],
     sd_Verification = None, sd_Notifications = [], sd_Executions = [], sd_Timeline = []\<rparr>"

record ExecutionOutputChunk =
  oc_Seq :: int
  oc_StreamType :: string
  oc_Content :: string
  oc_ByteSize :: int
  oc_CreatedAt :: gotime

record EventMetadata =
  em_CorrelationID :: string
  em_TenantID :: string
  em_TraceID :: string

definition zero_EventMetadata :: EventMetadata where
  "zero_EventMetadata = \<lparr>em_CorrelationID = [], em_TenantID = [], em_TraceID = []\<rparr>"

record OutboxEvent =
  ob_ID :: string
  ob_Topic :: string
  ob_Status :: string
  ob_AggregateID :: string
  ob_Headers :: strmap
  ob_Metadata :: EventMetadata
  ob_RetryCount :: int
  ob_LastError :: string
  ob_BlockedReason :: string
  ob_AvailableAt :: gotime
  ob_CreatedAt :: gotime

record EventPublishRequest =
  pr_Topic :: string
  pr_AggregateID :: string
  pr_Payload :: string
  pr_Headers :: strmap
  pr_Metadata :: EventMetadata
  pr_Status :: string
  pr_BlockedReason :: string
  pr_AvailableAt :: gotime
  pr_CreatedAt :: gotime

definition zero_EventPublishRequest :: EventPublishRequest where
  "zero_EventPublishRequest = \<lparr>pr_Topic = [], pr_AggregateID = [], pr_Payload = [], pr_Headers = [],
     pr_Metadata = zero_EventMetadata, pr_Status = [], pr_BlockedReason = [],
     pr_AvailableAt = 0, pr_CreatedAt = 0\<rparr>"

record EventEnvelope =
  ev_EventID :: string
  ev_Topic :: string
  ev_AggregateID :: string
  ev_Payload :: string
  ev_Headers :: strmap
  ev_Metadata :: EventMetadata
  ev_Attempt :: int
  ev_Status :: string
  ev_BlockedReason :: string
  ev_LastError :: string
  ev_AvailableAt :: gotime
  ev_CreatedAt :: gotime

record DispatchableOutboxEvent =
  dq_EventID :: string
  dq_Topic :: string
  dq_AggregateID :: string
  dq_Headers :: strmap
  dq_Metadata :: EventMetadata
  dq_Attempt :: int
  dq_Status :: string
  dq_LastError :: string
  dq_AvailableAt :: gotime
  dq_CreatedAt :: gotime
  dq_Payload :: string

record SessionMutationResult =
  mr_SessionID :: string
  mr_Status :: string
  mr_Duplicated :: bool

definition zero_SessionMutationResult :: SessionMutationResult where
  "zero_SessionMutationResult = \<lparr>mr_SessionID = [], mr_Status = [], mr_Duplicated = False\<rparr>"

record WorkflowDispatchResult =
  wd_SessionID :: string
  wd_Notifications :: "ChannelMessage list"
  wd_Executions :: "ApprovedExecutionRequest list"
  wd_Capabilities :: "ApprovedCapabilityRequest list"

definition zero_WorkflowDispatchResult :: WorkflowDispatchResult where
  "zero_WorkflowDispatchResult = \<lparr>wd_SessionID = [], wd_Notifications = [], wd_Executions = [], wd_Capabilities = []\<rparr>"

record DeliveryResult =
  dr_Decision :: string
  dr_LastError :: string
  dr_Delay :: duration
  dr_Reason :: string

definition zero_DeliveryResult :: DeliveryResult where
  "zero_DeliveryResult = \<lparr>dr_Decision = [], dr_LastError = [], dr_Delay = 0, dr_Reason = []\<rparr>"

record DeliveryPolicy =
  dp_MaxAttempts :: int
  dp_RetrySchedule :: "duration list"

definition zero_DeliveryPolicy :: DeliveryPolicy where
  "zero_DeliveryPolicy = \<lparr>dp_MaxAttempts = 0, dp_RetrySchedule = []\<rparr>"


lemmas zero_defs [go_defs] =
  zero_ExecutionDetail_def zero_SessionDetail_def zero_WorkflowDispatchResult_def
  zero_SessionMutationResult_def zero_EventPublishRequest_def zero_ChannelMessage_def
  zero_DeliveryResult_def zero_EventMetadata_def

text \<open>\<^verbatim>\<open>CloneRuntimeMetadata\<close> copies the struct behind the pointer.\<close>

definition CloneRuntimeMetadata :: "RuntimeMetadata option \<Rightarrow> RuntimeMetadata option" where
  "CloneRuntimeMetadata r = (case r of None \<Rightarrow> None | Some out \<Rightarrow> Some out)"

lemma CloneRuntimeMetadata_id [simp]: "CloneRuntimeMetadata r = r"
  by (simp add: CloneRuntimeMetadata_def split: option.splits)

section \<open>The delivery policy of the event bus\<close>

definition DeliveryDecisionAck :: string where "DeliveryDecisionAck = ''ack''"
definition DeliveryDecisionRetry :: string where "DeliveryDecisionRetry = ''retry''"
definition DeliveryDecisionDeadLetter :: string where "DeliveryDecisionDeadLetter = ''dead_letter''"

lemmas delivery_decision_defs =
  DeliveryDecisionAck_def DeliveryDecisionRetry_def DeliveryDecisionDeadLetter_def

definition Normalize :: "DeliveryPolicy \<Rightarrow> DeliveryPolicy" where
  "Normalize p = (if dp_MaxAttempts p \<le> 0 then p\<lparr>dp_MaxAttempts := 1\<rparr> else p)"

definition RetryDelay :: "DeliveryPolicy \<Rightarrow> int \<Rightarrow> duration" where
  "RetryDelay p attempt =
     (let q = Normalize p in
      if attempt \<le> 0 \<or> dp_RetrySchedule q = [] then 0
      else
        (let index = (if attempt - 1 < 0 then 0 else attempt - 1) in
         if index \<ge> int (length (dp_RetrySchedule q))
         then dp_RetrySchedule q ! (length (dp_RetrySchedule q) - 1)
         else dp_RetrySchedule q ! nat index))"

text \<open>\<open>err\<close> is the text of the error, \<open>None\<close> for a nil error.\<close>

definition Decide :: "DeliveryPolicy \<Rightarrow> int \<Rightarrow> string option \<Rightarrow> DeliveryResult" where
  "Decide p0 attempt err =
     (let p = Normalize p0 in
      case err of
        None \<Rightarrow> zero_DeliveryResult\<lparr>dr_Decision := DeliveryDecisionAck\<rparr>
      | Some e \<Rightarrow>
          (let lastError = TrimSpace e in
           if attempt < dp_MaxAttempts p
           then zero_DeliveryResult\<lparr>dr_Decision := DeliveryDecisionRetry,
                  dr_LastError := lastError, dr_Delay := RetryDelay p attempt\<rparr>
           else zero_DeliveryResult\<lparr>dr_Decision := DeliveryDecisionDeadLetter,
                  dr_LastError := lastError\<rparr>))"

definition defaultDeliveryPolicies :: "(string \<times> DeliveryPolicy) list" where
  "defaultDeliveryPolicies =
     [(''session.analyze_requested'', \<lparr>dp_MaxAttempts = 1, dp_RetrySchedule = []\<rparr>),
      (''session.closed'', \<lparr>dp_MaxAttempts = 1, dp_RetrySchedule = []\<rparr>),
      (''telegram.send'', \<lparr>dp_MaxAttempts = 3, dp_RetrySchedule = [Second, 5 * Second]\<rparr>)]"

definition DefaultDeliveryPolicy :: "string \<Rightarrow> DeliveryPolicy" where
  "DefaultDeliveryPolicy topic =
     (case map_of defaultDeliveryPolicies topic of
        Some policy \<Rightarrow> Normalize policy
      | None \<Rightarrow> zero_DeliveryPolicy\<lparr>dp_MaxAttempts := 1\<rparr>)"

lemma Normalize_pos: "1 \<le> dp_MaxAttempts (Normalize p)"
  by (simp add: Normalize_def)

lemma Normalize_idem [simp]: "Normalize (Normalize p) = Normalize p"
  by (simp add: Normalize_def)

lemma RetryDelay_Normalize [simp]: "RetryDelay (Normalize p) n = RetryDelay p n"
  by (simp add: RetryDelay_def)

lemma RetryDelay_in_schedule:
  assumes "0 < attempt" and "dp_RetrySchedule p \<noteq> []"
  shows "RetryDelay p attempt \<in> set (dp_RetrySchedule p)"
proof -
  have "dp_RetrySchedule (Normalize p) = dp_RetrySchedule p" by (simp add: Normalize_def)
  with assms show ?thesis by (auto simp: RetryDelay_def Let_def)
qed

lemma Decide_decision:
  "dr_Decision (Decide p n err) =
     (if err = None then DeliveryDecisionAck
      else if n < dp_MaxAttempts (Normalize p) then DeliveryDecisionRetry
      else DeliveryDecisionDeadLetter)"
  by (auto simp: Decide_def Let_def split: option.splits)

text \<open>
  A consumer that always fails is retried exactly \<open>MaxAttempts - 1\<close> times: the decision is retry
  for the attempts before the last one and dead letter from the last one on.
\<close>

lemma Decide_retry_iff:
  "dr_Decision (Decide p n (Some e)) = DeliveryDecisionRetry \<longleftrightarrow> n < dp_MaxAttempts (Normalize p)"
  by (simp add: Decide_decision delivery_decision_defs)

lemma DefaultDeliveryPolicy_attempts:
  "dp_MaxAttempts (DefaultDeliveryPolicy topic) = (if topic = ''telegram.send'' then 3 else 1)"
  by (simp add: DefaultDeliveryPolicy_def defaultDeliveryPolicies_def Normalize_def)

lemma Normalize_DefaultDeliveryPolicy [simp]:
  "Normalize (DefaultDeliveryPolicy topic) = DefaultDeliveryPolicy topic"
  by (simp add: Normalize_def [of "DefaultDeliveryPolicy topic"] DefaultDeliveryPolicy_attempts)

end
