(* ===== verification/Authorization.thy ===== *)
theory Authorization
  imports Contracts
begin

text \<open>
  The command authorization policy: \<^verbatim>\<open>internal/modules/authorization/policy.go\<close>.  A policy is a
  configuration (\<open>AuthConfig\<close>), compiled by \<open>New\<close> into a resolver with normalised glob patterns.
  \<open>EvaluateSSHCommand\<close> checks, in this order, the hard-deny patterns, the overrides, the whitelist,
  the blacklist and the default; \<open>EvaluateCapability\<close> decides connector capabilities.  Actions are
  the strings of the source, since an override may carry any string.

  \<open>matchesGlob\<close> compiles a glob to a regular expression with \<open>.\<close> for \<open>?\<close> and \<open>.*\<close> for \<open>*\<close>; Go's
  \<open>.\<close> matches every rune but the newline, and so does \<open>glob\<close> here.

  The YAML library is a parameter: \<open>unmarshal\<close> and \<open>marshal\<close> between the text and the struct
  \<open>AuthFile\<close> that \<^verbatim>\<open>ParseConfig\<close> and \<^verbatim>\<open>EncodeConfig\<close> convert.

  The interface \<^verbatim>\<open>authorization.Evaluator\<close> that the workflow relies on is the locale
  \<open>command_authorizer\<close>, interpreted on \<open>EvaluateSSHCommand\<close>.
\<close>

section \<open>Data\<close>

definition ActionDirectExecute :: string where "ActionDirectExecute = ''direct_execute''"
definition ActionRequireApproval :: string where "ActionRequireApproval = ''require_approval''"
definition ActionSuggestOnly :: string where "ActionSuggestOnly = ''suggest_only''"
definition ActionDeny :: string where "ActionDeny = ''deny''"

lemmas action_defs =
  ActionDirectExecute_def ActionRequireApproval_def ActionSuggestOnly_def ActionDeny_def

record SSHCommandInput =
  si_Command :: string
  si_Service :: string
  si_Host :: string
  si_Channel :: string

record CapabilityInput =
  ci_ConnectorID :: string
  ci_CapabilityID :: string
  ci_ReadOnly :: bool
  ci_Source :: string

record Decision =
  dn_Action :: string
  dn_RuleID :: string
  dn_MatchedBy :: string

record Defaults =
  df_WhitelistAction :: string
  df_BlacklistAction :: string
  df_UnmatchedAction :: string

record HardDenyConfig =
  hd_SSHCommand :: "string list"
  hd_MCPSkill :: "string list"

record OverrideConfig =
  ov_ID :: string
  ov_Services :: "string list"
  ov_Hosts :: "string list"
  ov_Channels :: "string list"
  ov_CommandGlobs :: "string list"
  ov_Action :: string

record SSHCommandConfig =
  sc_NormalizeWhitespace :: bool
  sc_Whitelist :: "string list"
  sc_Blacklist :: "string list"
  sc_Overrides :: "OverrideConfig list"

record AuthConfig =
  ac_Defaults :: Defaults
  ac_HardDeny :: HardDenyConfig
  ac_SSH :: SSHCommandConfig

text \<open>
  The compiled policy has the same shape (\<^verbatim>\<open>hardDenyPolicy\<close>, \<^verbatim>\<open>sshCommandPolicy\<close>, \<^verbatim>\<open>overrideRule\<close>), and
  so has the YAML file, with the actions as they are written there.
\<close>

record hardDenyPolicy =
  hp_sshCommand :: "string list"
  hp_mcpSkill :: "string list"

record overrideRule =
  or_id :: string
  or_services :: "string list"
  or_hosts :: "string list"
  or_channels :: "string list"
  or_commandGlobs :: "string list"
  or_action :: string

record sshCommandPolicy =
  sp_normalizeWhitespace :: bool
  sp_whitelist :: "string list"
  sp_blacklist :: "string list"
  sp_overrides :: "overrideRule list"

record AuthResolver =
  rs_defaults :: Defaults
  rs_hardDeny :: hardDenyPolicy
  rs_ssh :: sshCommandPolicy

type_synonym AuthFile = AuthConfig

section \<open>Patterns\<close>

definition normalizeValue :: "string \<Rightarrow> bool \<Rightarrow> string" where
  "normalizeValue value nw =
     (let trimmed = TrimSpace value;
          trimmed' = (if nw then Join (Fields trimmed) '' '' else trimmed)
      in ToLower trimmed')"

definition normalizePatterns :: "string list \<Rightarrow> bool \<Rightarrow> string list" where
  "normalizePatterns values nw = filter (\<lambda>v. v \<noteq> []) (map (\<lambda>v. normalizeValue v nw) values)"

fun glob :: "nat list \<Rightarrow> nat list \<Rightarrow> bool" where
  "glob [] vs = (vs = [])"
| "glob (p # ps) [] = (p = 42 \<and> glob ps [])"
| "glob (p # ps) (v # vs) =
     (if p = 42 then glob ps (v # vs) \<or> (v \<noteq> 10 \<and> glob (p # ps) vs)
      else (if p = 63 then v \<noteq> 10 else v = p) \<and> glob ps vs)"

definition matchesGlob :: "string \<Rightarrow> string \<Rightarrow> bool" where
  "matchesGlob value pattern =
     (if TrimSpace pattern = [] then False else glob (runes pattern) (runes value))"

definition matchesAny :: "string \<Rightarrow> string list \<Rightarrow> bool" where
  "matchesAny value patterns \<longleftrightarrow> (\<exists>pattern \<in> set patterns. matchesGlob value pattern)"

definition matchesAnyOrEmpty :: "string \<Rightarrow> string list \<Rightarrow> bool" where
  "matchesAnyOrEmpty value patterns =
     (if patterns = [] then True else matchesAny value patterns)"

definition joinRuleID :: "string \<Rightarrow> nat \<Rightarrow> string \<Rightarrow> string" where
  "joinRuleID prfx index pattern =
     (if TrimSpace pattern = [] then prfx else prfx @ '':'' @ TrimSpace pattern)"

definition parseAction :: "string \<Rightarrow> string \<Rightarrow> string" where
  "parseAction raw fallback =
     (if TrimSpace raw \<in> {ActionDirectExecute, ActionRequireApproval, ActionSuggestOnly, ActionDeny}
      then TrimSpace raw else fallback)"

definition cloneStrings :: "string list \<Rightarrow> string list" where
  "cloneStrings xs = filter (\<lambda>s. s \<noteq> []) (map TrimSpace xs)"

section \<open>Compiling, reading and writing a policy\<close>

definition compile_override :: "bool \<Rightarrow> OverrideConfig \<Rightarrow> overrideRule" where
  "compile_override nw item =
     \<lparr>or_id = TrimSpace (ov_ID item),
      or_services = normalizePatterns (ov_Services item) True,
      or_hosts = normalizePatterns (ov_Hosts item) True,
      or_channels = normalizePatterns (ov_Channels item) True,
      or_commandGlobs = normalizePatterns (ov_CommandGlobs item) nw,
      or_action = (if ov_Action item = [] then ActionRequireApproval else ov_Action item)\<rparr>"

definition New :: "AuthConfig \<Rightarrow> AuthResolver" where
  "New cfg =
     (let d = ac_Defaults cfg; nw = sc_NormalizeWhitespace (ac_SSH cfg) in
      \<lparr>rs_defaults =
         \<lparr>df_WhitelistAction =
            (if df_WhitelistAction d = [] then ActionDirectExecute else df_WhitelistAction d),
          df_BlacklistAction =
            (if df_BlacklistAction d = [] then ActionSuggestOnly else df_BlacklistAction d),
          df_UnmatchedAction =
            (if df_UnmatchedAction d = [] then ActionRequireApproval else df_UnmatchedAction d)\<rparr>,
       rs_hardDeny =
         \<lparr>hp_sshCommand = normalizePatterns (hd_SSHCommand (ac_HardDeny cfg)) True,
          hp_mcpSkill = normalizePatterns (hd_MCPSkill (ac_HardDeny cfg)) True\<rparr>,
       rs_ssh =
         \<lparr>sp_normalizeWhitespace = nw,
          sp_whitelist = normalizePatterns (sc_Whitelist (ac_SSH cfg)) nw,
          sp_blacklist = normalizePatterns (sc_Blacklist (ac_SSH cfg)) nw,
          sp_overrides = map (compile_override nw) (sc_Overrides (ac_SSH cfg))\<rparr>\<rparr>)"

definition ParseConfig :: "(string \<Rightarrow> AuthFile result) \<Rightarrow> string \<Rightarrow> AuthConfig result" where
  "ParseConfig unmarshal content =
     (case unmarshal content of
        Inl err \<Rightarrow> Inl err
      | Inr cfg \<Rightarrow>
          Inr \<lparr>ac_Defaults =
                 \<lparr>df_WhitelistAction =
                    parseAction (df_WhitelistAction (ac_Defaults cfg)) ActionDirectExecute,
                  df_BlacklistAction =
                    parseAction (df_BlacklistAction (ac_Defaults cfg)) ActionSuggestOnly,
                  df_UnmatchedAction =
                    parseAction (df_UnmatchedAction (ac_Defaults cfg)) ActionRequireApproval\<rparr>,
               ac_HardDeny = ac_HardDeny cfg,
               ac_SSH = (ac_SSH cfg)\<lparr>sc_Overrides :=
                 map (\<lambda>item. item\<lparr>ov_Action := parseAction (ov_Action item) ActionRequireApproval\<rparr>)
                   (sc_Overrides (ac_SSH cfg))\<rparr>\<rparr>)"

definition EncodeConfig :: "(AuthFile \<Rightarrow> string result) \<Rightarrow> AuthConfig \<Rightarrow> string result" where
  "EncodeConfig marshal cfg =
     marshal
       \<lparr>ac_Defaults =
          \<lparr>df_WhitelistAction =
             parseAction (df_WhitelistAction (ac_Defaults cfg)) ActionDirectExecute,
           df_BlacklistAction =
             parseAction (df_BlacklistAction (ac_Defaults cfg)) ActionSuggestOnly,
           df_UnmatchedAction =
             parseAction (df_UnmatchedAction (ac_Defaults cfg)) ActionRequireApproval\<rparr>,
        ac_HardDeny =
          \<lparr>hd_SSHCommand = cloneStrings (hd_SSHCommand (ac_HardDeny cfg)),
           hd_MCPSkill = cloneStrings (hd_MCPSkill (ac_HardDeny cfg))\<rparr>,
        ac_SSH =
          \<lparr>sc_NormalizeWhitespace = sc_NormalizeWhitespace (ac_SSH cfg),
           sc_Whitelist = cloneStrings (sc_Whitelist (ac_SSH cfg)),
           sc_Blacklist = cloneStrings (sc_Blacklist (ac_SSH cfg)),
           sc_Overrides =
             map (\<lambda>item.
               \<lparr>ov_ID = TrimSpace (ov_ID item),
                ov_Services = cloneStrings (ov_Services item),
                ov_Hosts = cloneStrings (ov_Hosts item),
                ov_Channels = cloneStrings (ov_Channels item),
                ov_CommandGlobs = cloneStrings (ov_CommandGlobs item),
                ov_Action = parseAction (ov_Action item) ActionRequireApproval\<rparr>)
             (sc_Overrides (ac_SSH cfg))\<rparr>\<rparr>"

definition Parse :: "(string \<Rightarrow> AuthFile result) \<Rightarrow> string \<Rightarrow> AuthResolver result" where
  "Parse unmarshal content =
     (case ParseConfig unmarshal content of Inl err \<Rightarrow> Inl err | Inr cfg \<Rightarrow> Inr (New cfg))"

section \<open>Evaluation\<close>

text \<open>The loop over the hard-deny patterns: the decision of the first pattern that matches.\<close>

fun hard_deny_loop :: "string \<Rightarrow> string \<Rightarrow> nat \<Rightarrow> string list \<Rightarrow> Decision option" where
  "hard_deny_loop prfx value index [] = None"
| "hard_deny_loop prfx value index (pattern # ps) =
     (if matchesGlob value pattern
      then Some \<lparr>dn_Action = ActionDeny, dn_RuleID = joinRuleID prfx index pattern,
                 dn_MatchedBy = ''hard_deny''\<rparr>
      else hard_deny_loop prfx value (Suc index) ps)"

definition override_matches :: "overrideRule \<Rightarrow> string \<Rightarrow> string \<Rightarrow> string \<Rightarrow> string \<Rightarrow> bool" where
  "override_matches item service host channel command \<longleftrightarrow>
     matchesAnyOrEmpty service (or_services item) \<and>
     matchesAnyOrEmpty host (or_hosts item) \<and>
     matchesAnyOrEmpty channel (or_channels item) \<and>
     matchesAnyOrEmpty command (or_commandGlobs item)"

fun override_loop ::
  "string \<Rightarrow> string \<Rightarrow> string \<Rightarrow> string \<Rightarrow> nat \<Rightarrow> overrideRule list \<Rightarrow> Decision option" where
  "override_loop service host channel command index [] = None"
| "override_loop service host channel command index (item # items) =
     (if override_matches item service host channel command
      then Some \<lparr>dn_Action = or_action item,
                 dn_RuleID = (if or_id item = [] then joinRuleID ''override'' index [] else or_id item),
                 dn_MatchedBy = ''override''\<rparr>
      else override_loop service host channel command (Suc index) items)"

definition EvaluateSSHCommand :: "AuthResolver option \<Rightarrow> SSHCommandInput \<Rightarrow> Decision" where
  "EvaluateSSHCommand r0 input =
     (case r0 of
        None \<Rightarrow> \<lparr>dn_Action = ActionRequireApproval, dn_RuleID = [], dn_MatchedBy = ''default''\<rparr>
      | Some r \<Rightarrow>
          (let command = normalizeValue (si_Command input) (sp_normalizeWhitespace (rs_ssh r));
               service = normalizeValue (si_Service input) True;
               host = normalizeValue (si_Host input) True;
               channel = normalizeValue (si_Channel input) True
           in case hard_deny_loop ''hard_deny'' command 0 (hp_sshCommand (rs_hardDeny r)) of
                Some d \<Rightarrow> d
              | None \<Rightarrow>
                  (case override_loop service host channel command 0 (sp_overrides (rs_ssh r)) of
                     Some d \<Rightarrow> d
                   | None \<Rightarrow>
                       if matchesAny command (sp_whitelist (rs_ssh r))
                       then \<lparr>dn_Action = df_WhitelistAction (rs_defaults r), dn_RuleID = ''whitelist'',
                             dn_MatchedBy = ''whitelist''\<rparr>
                       else if matchesAny command (sp_blacklist (rs_ssh r))
                       then \<lparr>dn_Action = df_BlacklistAction (rs_defaults r), dn_RuleID = ''blacklist'',
                             dn_MatchedBy = ''blacklist''\<rparr>
                       else \<lparr>dn_Action = df_UnmatchedAction (rs_defaults r), dn_RuleID = ''default'',
                             dn_MatchedBy = ''default''\<rparr>)))"

definition EvaluateCapability :: "AuthResolver option \<Rightarrow> CapabilityInput \<Rightarrow> Decision" where
  "EvaluateCapability r0 input =
     (case r0 of
        None \<Rightarrow> \<lparr>dn_Action = ActionRequireApproval, dn_RuleID = [], dn_MatchedBy = ''default''\<rparr>
      | Some r \<Rightarrow>
          (let capID = normalizeValue (ci_CapabilityID input) True;
               source = normalizeValue (ci_Source input) True;
               denied = (if source = ''mcp'' \<or> source = ''skill''
                         then hard_deny_loop ''hard_deny_mcp_skill'' capID 0 (hp_mcpSkill (rs_hardDeny r))
                         else None)
           in case denied of
                Some d \<Rightarrow> d
              | None \<Rightarrow>
                  if ci_ReadOnly input
                  then \<lparr>dn_Action = ActionDirectExecute, dn_RuleID = ''capability_read_only'',
                        dn_MatchedBy = ''capability_read_only''\<rparr>
                  else \<lparr>dn_Action = ActionRequireApproval, dn_RuleID = ''capability_default'',
                        dn_MatchedBy = ''capability_default''\<rparr>))"

section \<open>Lemmas\<close>

lemma hard_deny_loop_iff:
  "hard_deny_loop prfx value i ps \<noteq> None \<longleftrightarrow> matchesAny value ps"
  by (induction ps arbitrary: i) (auto simp: matchesAny_def)

lemma hard_deny_loop_action:
  "hard_deny_loop prfx value i ps = Some d \<Longrightarrow>
   dn_Action d = ActionDeny \<and> dn_MatchedBy d = ''hard_deny''"
  by (induction ps arbitrary: i) (auto split: if_splits)

lemma override_loop_action:
  "override_loop s h c cmd i rules = Some d \<Longrightarrow>
   \<exists>item \<in> set rules. override_matches item s h c cmd \<and> dn_Action d = or_action item \<and>
     dn_MatchedBy d = ''override''"
  by (induction rules arbitrary: i) (auto split: if_splits)

text \<open>The commands a policy denies outright.\<close>

definition hard_denied :: "AuthResolver \<Rightarrow> SSHCommandInput \<Rightarrow> bool" where
  "hard_denied r input \<longleftrightarrow>
     matchesAny (normalizeValue (si_Command input) (sp_normalizeWhitespace (rs_ssh r)))
       (hp_sshCommand (rs_hardDeny r))"

lemma EvaluateSSHCommand_hard_denied:
  assumes "hard_denied r input"
  shows "dn_Action (EvaluateSSHCommand (Some r) input) = ActionDeny"
    and "dn_MatchedBy (EvaluateSSHCommand (Some r) input) = ''hard_deny''"
proof -
  let ?cmd = "normalizeValue (si_Command input) (sp_normalizeWhitespace (rs_ssh r))"
  obtain d where d: "hard_deny_loop ''hard_deny'' ?cmd 0 (hp_sshCommand (rs_hardDeny r)) = Some d"
    using assms hard_deny_loop_iff [of "''hard_deny''" ?cmd 0] by (fastforce simp: hard_denied_def)
  then have "EvaluateSSHCommand (Some r) input = d"
    by (simp add: EvaluateSSHCommand_def)
  then show "dn_Action (EvaluateSSHCommand (Some r) input) = ActionDeny"
    and "dn_MatchedBy (EvaluateSSHCommand (Some r) input) = ''hard_deny''"
    using hard_deny_loop_action [OF d] by simp_all
qed

text \<open>Globs over text without newlines.\<close>

lemma glob_star_all: "10 \<notin> set vs \<Longrightarrow> glob [42] vs"
  by (induction vs) auto

lemma glob_literal_star:
  assumes "42 \<notin> set lit" "63 \<notin> set lit" "10 \<notin> set vs"
  shows "glob (lit @ [42]) (lit @ vs)"
  using assms glob_star_all by (induction lit) auto

lemma glob_length: "42 \<notin> set ps \<Longrightarrow> glob ps vs \<Longrightarrow> length ps = length vs"
  by (induction ps vs rule: glob.induct) auto

text \<open>With white space normalised, a command has no newline.\<close>

lemma normalizeValue_no_newline: "CHR 0x0A \<notin> set (normalizeValue v True)"
proof -
  have nl: "CHR 0x0A \<in> set ascii_spaces" by (simp add: ascii_spaces_def)
  have "CHR 0x0A \<notin> set (Join (Fields (TrimSpace v)) '' '')"
    using set_Join [of "Fields (TrimSpace v)" "'' ''"] Fields_no_space [OF nl] by auto
  then show ?thesis by (auto simp: normalizeValue_def ToLower_def lower_char_newline dest: sym)
qed

lemma runes_no_newline: "CHR 0x0A \<notin> set s \<Longrightarrow> 10 \<notin> set (runes s)"
  using runes_small [of 10 s] by (auto simp: of_char_newline)

text \<open>Trimming the patterns on the way to the file and back does not change their normal form.\<close>

lemma normalizeValue_TrimSpace [simp]: "normalizeValue (TrimSpace v) nw = normalizeValue v nw"
  by (simp add: normalizeValue_def)

lemma normalizeValue_empty_iff: "normalizeValue v nw = [] \<longleftrightarrow> TrimSpace v = []"
proof (cases "TrimSpace v = []")
  case True
  then show ?thesis by (simp add: normalizeValue_def Fields_def)
next
  case False
  then obtain f fs where "Fields (TrimSpace v) = f # fs" "f \<noteq> []"
    using Fields_trimmed_nonempty by blast
  with False show ?thesis
    using Join_nonempty [of f fs] by (simp add: normalizeValue_def ToLower_def Let_def)
qed

lemma normalizePatterns_cloneStrings [simp]:
  "normalizePatterns (cloneStrings xs) nw = normalizePatterns xs nw"
proof (induction xs)
  case (Cons x xs)
  then show ?case
    using normalizeValue_empty_iff [of x nw]
    by (auto simp: normalizePatterns_def cloneStrings_def)
qed (simp add: normalizePatterns_def cloneStrings_def)

lemma action_nonempty [simp]:
  "ActionDirectExecute \<noteq> []" "ActionRequireApproval \<noteq> []" "ActionSuggestOnly \<noteq> []" "ActionDeny \<noteq> []"
  "[] \<noteq> ActionDirectExecute" "[] \<noteq> ActionRequireApproval" "[] \<noteq> ActionSuggestOnly" "[] \<noteq> ActionDeny"
  by (simp_all add: action_defs)

lemma TrimSpace_actions [simp]:
  "TrimSpace ActionDirectExecute = ActionDirectExecute"
  "TrimSpace ActionRequireApproval = ActionRequireApproval"
  "TrimSpace ActionSuggestOnly = ActionSuggestOnly"
  "TrimSpace ActionDeny = ActionDeny"
  unfolding action_defs by code_simp+

lemma parseAction_idem [simp]:
  "TrimSpace f = f \<Longrightarrow> parseAction (parseAction a f) f = parseAction a f"
  by (auto simp: parseAction_def)

section \<open>The evaluator interface\<close>

text \<open>
  What the workflow relies on: the policy answers every command, and the commands it denies
  outright get the deny action.
\<close>

locale command_authorizer =
  fixes evaluate :: "SSHCommandInput \<Rightarrow> Decision"
    and denied :: "SSHCommandInput \<Rightarrow> bool"
  assumes denied_action: "denied input \<Longrightarrow> dn_Action (evaluate input) = ActionDeny"
begin

lemma denied_not_executed:
  assumes "denied input"
  shows "dn_Action (evaluate input) \<noteq> ActionDirectExecute"
    and "dn_Action (evaluate input) \<noteq> ActionRequireApproval"
  using denied_action [OF assms] by (simp_all add: action_defs)

end

interpretation ssh_policy: command_authorizer
  "EvaluateSSHCommand (Some r)" "hard_denied r" for r
  by unfold_locales (rule EvaluateSSHCommand_hard_denied(1))

section \<open>Properties\<close>

text \<open>C31: Direct execution has to be granted.  With default actions other than direct execution for
  unmatched and blacklisted commands, a command is executed directly only if no hard-deny pattern
  matches it and either an override that carries this action or a whitelist pattern matches.\<close>

theorem direct_execute_granted:
  assumes "df_UnmatchedAction (rs_defaults r) \<noteq> ActionDirectExecute"
    and "df_BlacklistAction (rs_defaults r) \<noteq> ActionDirectExecute"
    and "dn_Action (EvaluateSSHCommand (Some r) input) = ActionDirectExecute"
  shows "\<not> hard_denied r input \<and>
    ((\<exists>item \<in> set (sp_overrides (rs_ssh r)). or_action item = ActionDirectExecute \<and>
        override_matches item (normalizeValue (si_Service input) True)
          (normalizeValue (si_Host input) True) (normalizeValue (si_Channel input) True)
          (normalizeValue (si_Command input) (sp_normalizeWhitespace (rs_ssh r)))) \<or>
     matchesAny (normalizeValue (si_Command input) (sp_normalizeWhitespace (rs_ssh r)))
       (sp_whitelist (rs_ssh r)))"
    (is "_ \<and> ((\<exists>item \<in> _. ?granted item) \<or> _)")
proof
  show nd: "\<not> hard_denied r input"
    using assms(3) ssh_policy.denied_not_executed(1) by blast
  let ?cmd = "normalizeValue (si_Command input) (sp_normalizeWhitespace (rs_ssh r))"
  let ?loop = "override_loop (normalizeValue (si_Service input) True)
    (normalizeValue (si_Host input) True) (normalizeValue (si_Channel input) True) ?cmd 0
    (sp_overrides (rs_ssh r))"
  have deny: "hard_deny_loop ''hard_deny'' ?cmd 0 (hp_sshCommand (rs_hardDeny r)) = None"
    using nd hard_deny_loop_iff by (metis hard_denied_def)
  show "(\<exists>item \<in> set (sp_overrides (rs_ssh r)). ?granted item) \<or> matchesAny ?cmd (sp_whitelist (rs_ssh r))"
  proof (cases ?loop)
    case None
    with deny assms show ?thesis
      by (auto simp: EvaluateSSHCommand_def Let_def split: if_splits)
  next
    case (Some d)
    with deny assms(3) have "dn_Action d = ActionDirectExecute"
      by (simp add: EvaluateSSHCommand_def Let_def)
    then show ?thesis using override_loop_action [OF Some] by metis
  qed
qed

definition example_policy :: AuthConfig where
  "example_policy =
     \<lparr>ac_Defaults = \<lparr>df_WhitelistAction = [], df_BlacklistAction = [], df_UnmatchedAction = []\<rparr>,
      ac_HardDeny = \<lparr>hd_SSHCommand = [''rm -rf*''], hd_MCPSkill = [''shell.*'']\<rparr>,
      ac_SSH = \<lparr>sc_NormalizeWhitespace = True, sc_Whitelist = [''df -h*''], sc_Blacklist = [],
        sc_Overrides = []\<rparr>\<rparr>"

definition ssh_input :: "string \<Rightarrow> SSHCommandInput" where
  "ssh_input cmd = \<lparr>si_Command = cmd, si_Service = [], si_Host = [], si_Channel = []\<rparr>"

theorem direct_execute_granted_witness:
  "\<not> hard_denied (New example_policy) (ssh_input '' df   -h /'')"
proof -
  have d: "df_UnmatchedAction (rs_defaults (New example_policy)) \<noteq> ActionDirectExecute"
    "df_BlacklistAction (rs_defaults (New example_policy)) \<noteq> ActionDirectExecute"
    by (simp_all add: New_def example_policy_def action_defs)
  have "dn_Action (EvaluateSSHCommand (Some (New example_policy)) (ssh_input '' df   -h /'')) =
      ActionDirectExecute"
    by code_simp
  from direct_execute_granted [OF d this] show ?thesis by blast
qed

definition known_action :: "string \<Rightarrow> bool" where
  "known_action a \<longleftrightarrow>
     a \<in> {[], ActionDirectExecute, ActionRequireApproval, ActionSuggestOnly, ActionDeny}"

lemma known_actions [simp]:
  "known_action ActionDirectExecute" "known_action ActionRequireApproval"
  "known_action ActionSuggestOnly" "known_action ActionDeny"
  by (simp_all add: known_action_def)

lemma parseAction_known:
  "known_action a \<Longrightarrow> parseAction a f = (if a = [] then f else a)"
  by (auto simp: known_action_def parseAction_def)

text \<open>A policy written to its file and read back decides as before.  For a configuration whose
  actions are empty or one of the four known actions, \<open>EncodeConfig\<close> followed by \<open>Parse\<close> gives the
  resolver that \<open>New\<close> compiles from the configuration itself, if the YAML library reads back what it
  wrote.\<close>

theorem policy_file_roundtrip:
  assumes yaml: "\<And>f content. marshal f = Inr content \<Longrightarrow> unmarshal content = Inr f"
    and enc: "EncodeConfig marshal cfg = Inr content"
    and acts: "known_action (df_WhitelistAction (ac_Defaults cfg))"
      "known_action (df_BlacklistAction (ac_Defaults cfg))"
      "known_action (df_UnmatchedAction (ac_Defaults cfg))"
      "\<forall>item \<in> set (sc_Overrides (ac_SSH cfg)). known_action (ov_Action item)"
  shows "Parse unmarshal content = Inr (New cfg)"
proof -
  note read = yaml [OF enc [unfolded EncodeConfig_def]]
  have item: "compile_override nw
      \<lparr>ov_ID = TrimSpace (ov_ID item), ov_Services = cloneStrings (ov_Services item),
       ov_Hosts = cloneStrings (ov_Hosts item), ov_Channels = cloneStrings (ov_Channels item),
       ov_CommandGlobs = cloneStrings (ov_CommandGlobs item),
       ov_Action = parseAction (ov_Action item) ActionRequireApproval\<rparr> = compile_override nw item"
    if "item \<in> set (sc_Overrides (ac_SSH cfg))" for item nw
    using that acts(4) by (simp add: compile_override_def parseAction_known)
  show ?thesis
    using acts(1-3) item
    by (simp add: Parse_def ParseConfig_def read New_def Let_def parseAction_known)
qed

theorem policy_file_roundtrip_witness:
  "Parse (\<lambda>_. Inr (example_policy\<lparr>ac_Defaults := \<lparr>df_WhitelistAction = ActionDirectExecute,
       df_BlacklistAction = ActionSuggestOnly, df_UnmatchedAction = ActionRequireApproval\<rparr>\<rparr>))
     ''policy'' = Inr (New example_policy)"
proof -
  let ?file = "example_policy\<lparr>ac_Defaults := \<lparr>df_WhitelistAction = ActionDirectExecute,
       df_BlacklistAction = ActionSuggestOnly, df_UnmatchedAction = ActionRequireApproval\<rparr>\<rparr>"
  let ?marshal = "\<lambda>f. if f = ?file then Inr ''policy'' else Inl (Errorf [])"
  have "EncodeConfig ?marshal example_policy = Inr ''policy''"
    by code_simp
  moreover have "?marshal f = Inr c \<Longrightarrow> (\<lambda>_. Inr ?file) c = Inr f" for f c
    by (simp split: if_splits)
  ultimately show ?thesis
    by (intro policy_file_roundtrip [where marshal = ?marshal])
      (simp_all add: example_policy_def known_action_def)
qed

text \<open>With white space normalised, a hard-deny pattern that is an ASCII literal followed by a
  star denies every command whose normal form starts with the literal, whatever the overrides and
  the whitelist say.\<close>

theorem hard_deny_prefix_complete:
  assumes "sp_normalizeWhitespace (rs_ssh r)"
    and "lit @ ''*'' \<in> set (hp_sshCommand (rs_hardDeny r))"
    and "TrimSpace (lit @ ''*'') \<noteq> []"
    and "\<forall>c \<in> set lit. of_char c < (128 :: nat) \<and> c \<noteq> CHR ''*'' \<and> c \<noteq> CHR ''?''"
    and "normalizeValue (si_Command input) True = lit @ rest"
  shows "dn_Action (EvaluateSSHCommand (Some r) input) = ActionDeny"
proof -
  have ascii: "\<forall>c \<in> set (lit @ ''*''). of_char c < (128 :: nat)" using assms(4) by auto
  have inj: "of_char c = (42 :: nat) \<longleftrightarrow> c = CHR ''*''" "of_char c = (63 :: nat) \<longleftrightarrow> c = CHR ''?''"
    for c
  proof -
    have "(of_char (CHR ''*'') :: nat) = 42" "(of_char (CHR ''?'') :: nat) = 63" by simp_all
    then show "of_char c = (42 :: nat) \<longleftrightarrow> c = CHR ''*''" "of_char c = (63 :: nat) \<longleftrightarrow> c = CHR ''?''"
      by (metis of_char_eq_iff)+
  qed
  have "10 \<notin> set (runes (lit @ rest))"
    using normalizeValue_no_newline [of "si_Command input"] assms(5) by (simp add: runes_no_newline)
  then have nl: "10 \<notin> set (runes rest)" using assms(4) by (simp add: runes_append_ascii)
  have "glob (map of_char lit @ [42]) (map of_char lit @ runes rest)"
    using glob_literal_star [OF _ _ nl, of "map of_char lit"] assms(4) inj by force
  then have "matchesGlob (lit @ rest) (lit @ ''*'')"
    using assms(3,4) ascii by (simp add: matchesGlob_def runes_ascii runes_append_ascii)
  then have "hard_denied r input"
    using assms(1,2,5) by (auto simp: hard_denied_def matchesAny_def)
  then show ?thesis by (rule ssh_policy.denied_action)
qed

theorem hard_deny_prefix_complete_witness:
  "dn_Action (EvaluateSSHCommand (Some (New example_policy)) (ssh_input (''RM  -rf'' @ [CHR 0x0A] @ ''/''))) =
     ActionDeny"
  by (rule hard_deny_prefix_complete [where lit = "''rm -rf''" and rest = "'' /''"]) code_simp+

definition lax_policy :: AuthConfig where
  "lax_policy = example_policy\<lparr>ac_SSH := (ac_SSH example_policy)\<lparr>sc_NormalizeWhitespace := False\<rparr>\<rparr>"

text \<open>The star and the question mark do not match a newline, and the patterns of the hard-deny list have none.\<close>

lemma glob_newline: "glob ps vs \<Longrightarrow> 10 \<notin> set ps \<Longrightarrow> 10 \<notin> set vs"
  by (induction ps vs rule: glob.induct) (auto split: if_splits)

lemma normal_pattern_line: "CHR 0x0A \<in> set v \<Longrightarrow> \<not> matchesAny v (normalizePatterns ps True)"
  using runes_newline [of v] glob_newline runes_no_newline [OF normalizeValue_no_newline]
  by (fastforce simp: matchesAny_def matchesGlob_def normalizePatterns_def split: if_splits)

text \<open>C38: without the normalisation of white space the hard-deny list is void for commands of several lines.  The
  star is compiled to \<open>.*\<close>, which stops at a newline, while the patterns have their white space collapsed:
  for every policy, a command with a newline inside is decided as if the list of denied commands were empty.
\<close>
theorem hard_deny_lines_gap:
  assumes "\<not> sc_NormalizeWhitespace (ac_SSH cfg)" and "CHR 0x0A \<in> set (TrimSpace (si_Command input))"
  shows "EvaluateSSHCommand (Some (New cfg)) input =
    EvaluateSSHCommand (Some (New (cfg\<lparr>ac_HardDeny := (ac_HardDeny cfg)\<lparr>hd_SSHCommand := []\<rparr>\<rparr>))) input"
proof -
  let ?v = "normalizeValue (si_Command input) False"
  have "lower_char (CHR 0x0A) = CHR 0x0A" using lower_char_newline by blast
  then have "CHR 0x0A \<in> set ?v" using assms(2) by (force simp: normalizeValue_def ToLower_def)
  then have "hard_deny_loop ''hard_deny'' ?v 0 (normalizePatterns (hd_SSHCommand (ac_HardDeny cfg)) True) = None"
    using hard_deny_loop_iff normal_pattern_line by blast
  moreover have "New (cfg\<lparr>ac_HardDeny := (ac_HardDeny cfg)\<lparr>hd_SSHCommand := []\<rparr>\<rparr>) =
      (New cfg)\<lparr>rs_hardDeny := (rs_hardDeny (New cfg))\<lparr>hp_sshCommand := []\<rparr>\<rparr>"
    by (simp add: New_def Let_def normalizePatterns_def)
  moreover have "sp_normalizeWhitespace (rs_ssh (New cfg)) = False"
    "hp_sshCommand (rs_hardDeny (New cfg)) = normalizePatterns (hd_SSHCommand (ac_HardDeny cfg)) True"
    using assms(1) by (simp_all add: New_def Let_def)
  ultimately show ?thesis by (simp add: EvaluateSSHCommand_def Let_def split: option.split)
qed

theorem hard_deny_lines_gap_witness:
  "dn_Action (EvaluateSSHCommand (Some (New lax_policy)) (ssh_input ''rm -rf /'')) = ActionDeny \<and>
   dn_Action (EvaluateSSHCommand (Some (New lax_policy)) (ssh_input (''rm -rf /'' @ [CHR 0x0A] @ ''true''))) = ActionRequireApproval"
proof -
  let ?two = "ssh_input (''rm -rf /'' @ [CHR 0x0A] @ ''true'')"
  have "\<not> sc_NormalizeWhitespace (ac_SSH lax_policy)" "CHR 0x0A \<in> set (TrimSpace (si_Command ?two))" by code_simp+
  note gap = hard_deny_lines_gap [OF this]
  have "dn_Action (EvaluateSSHCommand (Some (New (lax_policy\<lparr>ac_HardDeny := (ac_HardDeny lax_policy)\<lparr>hd_SSHCommand := []\<rparr>\<rparr>))) ?two) =
      ActionRequireApproval" by code_simp
  then have "dn_Action (EvaluateSSHCommand (Some (New lax_policy)) ?two) = ActionRequireApproval" unfolding gap .
  moreover have "dn_Action (EvaluateSSHCommand (Some (New lax_policy)) (ssh_input ''rm -rf /'')) = ActionDeny" by code_simp
  ultimately show ?thesis by blast
qed

text \<open>A capability that is not read-only is never executed directly, and a read-only one is
  executed directly unless its source is an MCP server or a skill and a hard-deny pattern matches
  its name.\<close>

theorem capability_direct_iff:
  "dn_Action (EvaluateCapability (Some r) input) = ActionDirectExecute \<longleftrightarrow>
     ci_ReadOnly input \<and>
     \<not> (normalizeValue (ci_Source input) True \<in> {''mcp'', ''skill''} \<and>
        matchesAny (normalizeValue (ci_CapabilityID input) True) (hp_mcpSkill (rs_hardDeny r)))"
proof -
  let ?loop = "hard_deny_loop ''hard_deny_mcp_skill'' (normalizeValue (ci_CapabilityID input) True) 0
     (hp_mcpSkill (rs_hardDeny r))"
  have "dn_Action d = ActionDeny" if "?loop = Some d" for d
    using hard_deny_loop_action [OF that] by simp
  moreover have "(?loop = None) \<longleftrightarrow>
      \<not> matchesAny (normalizeValue (ci_CapabilityID input) True) (hp_mcpSkill (rs_hardDeny r))"
    using hard_deny_loop_iff by metis
  ultimately show ?thesis
    by (auto simp: EvaluateCapability_def Let_def action_defs split: option.splits)
qed

end
