(* ===== verification/Approval_Routing.thy ===== *)
theory Approval_Routing
  imports Contracts
begin

text \<open>
  Routing of approval requests: \<^verbatim>\<open>internal/modules/approvalrouting/router.go\<close>.  A resolver holds the
  owners of services, the on-call groups and the command allowlist, normalised by
  \<open>normalizeRoutes\<close>; \<open>Resolve\<close> picks the first non-empty route among the service owner, the on-call
  group of the service, of the environment and of \<^verbatim>\<open>default\<close>, and falls back to a single target.

  \<open>normalizeRoutes\<close> ranges over a map whose keys may coincide once they are trimmed, so its result
  can depend on the iteration order, which is its argument.

  The interface \<^verbatim>\<open>approvalrouting.Router\<close> of the workflow is the locale \<open>approval_router\<close>.
\<close>

record Route =
  rt_GroupKey :: string
  rt_SourceLabel :: string
  rt_Targets :: "string list"

definition zero_Route :: Route where
  "zero_Route = \<lparr>rt_GroupKey = [], rt_SourceLabel = [], rt_Targets = []\<rparr>"

type_synonym routes = "string \<rightharpoonup> string list"

record RouterConfig =
  rc_ProhibitSelfApproval :: bool
  rc_ServiceOwners :: routes
  rc_OncallGroups :: routes
  rc_CommandAllowlist :: routes

record RouteResolver =
  prohibitSelfApproval :: bool
  serviceOwners :: routes
  oncallGroups :: routes
  commandAllowlist :: routes

section \<open>Operations\<close>

definition normalize_items :: "string list \<Rightarrow> string list" where
  "normalize_items items = filter (\<lambda>t. t \<noteq> []) (map TrimSpace items)"

fun normalize_loop :: "routes \<Rightarrow> string list \<Rightarrow> routes \<Rightarrow> routes" where
  "normalize_loop m [] out = out"
| "normalize_loop m (key # ks) out =
     (case m key of
        None \<Rightarrow> normalize_loop m ks out
      | Some items \<Rightarrow>
          if TrimSpace key = [] then normalize_loop m ks out
          else if normalize_items items = [] then normalize_loop m ks out
          else normalize_loop m ks (out(TrimSpace key \<mapsto> normalize_items items)))"

text \<open>\<open>order\<close> is the order in which Go ranges over the map.\<close>

definition normalizeRoutes :: "string list \<Rightarrow> routes \<Rightarrow> routes" where
  "normalizeRoutes order m = normalize_loop m order Map.empty"

definition NewRouter ::
  "string list \<Rightarrow> string list \<Rightarrow> string list \<Rightarrow> RouterConfig \<Rightarrow> RouteResolver" where
  "NewRouter order1 order2 order3 cfg =
     \<lparr>prohibitSelfApproval = rc_ProhibitSelfApproval cfg,
      serviceOwners = normalizeRoutes order1 (rc_ServiceOwners cfg),
      oncallGroups = normalizeRoutes order2 (rc_OncallGroups cfg),
      commandAllowlist = normalizeRoutes order3 (rc_CommandAllowlist cfg)\<rparr>"

definition AllowedCommandPrefixes :: "RouteResolver \<Rightarrow> string \<Rightarrow> string list" where
  "AllowedCommandPrefixes r service =
     (let key = TrimSpace service in
      if key = [] then []
      else (case commandAllowlist r key of None \<Rightarrow> [] | Some items \<Rightarrow> items))"

definition ServiceCommandAllowlist :: "RouteResolver \<Rightarrow> routes" where
  "ServiceCommandAllowlist r = commandAllowlist r"

definition route_alertLabel :: "valmap \<Rightarrow> string \<Rightarrow> string" where
  "route_alertLabel alert key =
     (case map_of alert ''labels'' of
        None \<Rightarrow> []
      | Some (VStrMap m) \<Rightarrow> (case map_of m key of None \<Rightarrow> TrimSpace [] | Some v \<Rightarrow> TrimSpace v)
      | Some (VMap m) \<Rightarrow> (case map_of m key of Some (VString v) \<Rightarrow> TrimSpace v | _ \<Rightarrow> [])
      | Some _ \<Rightarrow> [])"

definition formatSourceLabel :: "string \<Rightarrow> string \<Rightarrow> string" where
  "formatSourceLabel kind key =
     (if kind = ''service_owner'' then ''service owner('' @ key @ '')''
      else if kind = ''oncall'' then ''oncall('' @ key @ '')''
      else kind @ ''('' @ key @ '')'')"

text \<open>The loop over the candidates: skip blanks, the requester and repetitions.\<close>

fun route_targets :: "bool \<Rightarrow> string \<Rightarrow> string list \<Rightarrow> string list \<Rightarrow> string list" where
  "route_targets prohibit requester seen [] = []"
| "route_targets prohibit requester seen (item # items) =
     (let target = TrimSpace item in
      if target = [] then route_targets prohibit requester seen items
      else if prohibit \<and> requester \<noteq> [] \<and> requester = target
      then route_targets prohibit requester seen items
      else if target \<in> set seen then route_targets prohibit requester seen items
      else target # route_targets prohibit requester (target # seen) items)"

definition route_candidates :: "RouteResolver \<Rightarrow> string \<Rightarrow> string \<Rightarrow> string list" where
  "route_candidates r kind key =
     (if kind = ''service_owner'' then (case serviceOwners r key of None \<Rightarrow> [] | Some xs \<Rightarrow> xs)
      else if kind = ''oncall'' then (case oncallGroups r key of None \<Rightarrow> [] | Some xs \<Rightarrow> xs)
      else [])"

definition buildRoute :: "RouteResolver \<Rightarrow> string \<Rightarrow> string \<Rightarrow> string \<Rightarrow> Route" where
  "buildRoute r kind key0 requester =
     (let key = TrimSpace key0; candidates = route_candidates r kind key;
          targets = route_targets (prohibitSelfApproval r) requester [] candidates
      in if key = [] then zero_Route
         else if candidates = [] then zero_Route
         else if targets = [] then zero_Route
         else \<lparr>rt_GroupKey = kind @ '':'' @ key, rt_SourceLabel = formatSourceLabel kind key,
               rt_Targets = targets\<rparr>)"

definition fallback_route :: "string \<Rightarrow> Route" where
  "fallback_route fallbackTarget =
     (let t = TrimSpace fallbackTarget in
      \<lparr>rt_GroupKey = ''fallback:default'', rt_SourceLabel = ''fallback(default)'',
       rt_Targets = [if t = [] then ''ops-room'' else t]\<rparr>)"

definition Resolve :: "RouteResolver \<Rightarrow> valmap \<Rightarrow> string \<Rightarrow> string \<Rightarrow> Route" where
  "Resolve r alert requester fallbackTarget =
     (let service = route_alertLabel alert ''service''; env = route_alertLabel alert ''env'';
          owner = buildRoute r ''service_owner'' service requester;
          oncallService = buildRoute r ''oncall'' service requester;
          oncallEnv = buildRoute r ''oncall'' env requester;
          oncallDefault = buildRoute r ''oncall'' ''default'' requester
      in if rt_Targets owner \<noteq> [] then owner
         else if rt_Targets oncallService \<noteq> [] then oncallService
         else if rt_Targets oncallEnv \<noteq> [] then oncallEnv
         else if rt_Targets oncallDefault \<noteq> [] then oncallDefault
         else fallback_route fallbackTarget)"

section \<open>Lemmas\<close>

lemma set_route_targets:
  "set (route_targets prohibit requester seen items) =
     {t \<in> set (normalize_items items).
        t \<notin> set seen \<and> \<not> (prohibit \<and> requester \<noteq> [] \<and> requester = t)}"
proof (induction items arbitrary: seen)
  case (Cons item items)
  then show ?case by (auto simp: Let_def normalize_items_def)
qed (simp add: normalize_items_def)

lemma distinct_route_targets: "distinct (route_targets prohibit requester seen items)"
proof (induction items arbitrary: prohibit requester seen)
  case (Cons item items)
  have "TrimSpace item \<notin> set (route_targets prohibit requester (TrimSpace item # seen) items)"
    by (simp add: set_route_targets)
  with Cons show ?case unfolding route_targets.simps Let_def by simp
qed simp

lemma rt_Targets_buildRoute:
  "rt_Targets (buildRoute r kind key requester) =
     (if TrimSpace key = [] then []
      else route_targets (prohibitSelfApproval r) requester [] (route_candidates r kind (TrimSpace key)))"
  by (simp add: buildRoute_def zero_Route_def Let_def)

lemma buildRoute_targets:
  assumes "t \<in> set (rt_Targets (buildRoute r kind key requester))"
  shows "t \<noteq> []" "TrimSpace t = t"
    "\<not> (prohibitSelfApproval r \<and> requester \<noteq> [] \<and> requester = t)"
  using assms by (auto simp: rt_Targets_buildRoute set_route_targets normalize_items_def split: if_splits)

lemma buildRoute_distinct: "distinct (rt_Targets (buildRoute r kind key requester))"
  by (simp add: rt_Targets_buildRoute distinct_route_targets)

lemma Resolve_cases:
  "(\<exists>kind key. Resolve r alert requester fb = buildRoute r kind key requester \<and>
      rt_Targets (buildRoute r kind key requester) \<noteq> []) \<or>
   Resolve r alert requester fb = fallback_route fb"
proof (rule disjCI)
  assume nf: "Resolve r alert requester fb \<noteq> fallback_route fb"
  show "\<exists>kind key. Resolve r alert requester fb = buildRoute r kind key requester \<and>
      rt_Targets (buildRoute r kind key requester) \<noteq> []"
    using nf unfolding Resolve_def Let_def by (auto split: if_split_asm)
qed

lemma TrimSpace_ops_room: "TrimSpace ''ops-room'' = ''ops-room''"
  by code_simp

lemma fallback_route_targets [simp]:
  "rt_Targets (fallback_route fb) = [if TrimSpace fb = [] then ''ops-room'' else TrimSpace fb]"
  by (simp add: fallback_route_def Let_def)

lemma Resolve_targets:
  "rt_Targets (Resolve r alert requester fb) \<noteq> []"
  "distinct (rt_Targets (Resolve r alert requester fb))"
  "t \<in> set (rt_Targets (Resolve r alert requester fb)) \<Longrightarrow> t \<noteq> [] \<and> TrimSpace t = t"
proof -
  show "rt_Targets (Resolve r alert requester fb) \<noteq> []"
    using Resolve_cases [of r alert requester fb] by fastforce
  show "distinct (rt_Targets (Resolve r alert requester fb))"
    using Resolve_cases [of r alert requester fb] buildRoute_distinct by fastforce
  assume t: "t \<in> set (rt_Targets (Resolve r alert requester fb))"
  from Resolve_cases [of r alert requester fb] show "t \<noteq> [] \<and> TrimSpace t = t"
  proof
    assume "\<exists>kind key. Resolve r alert requester fb = buildRoute r kind key requester \<and>
      rt_Targets (buildRoute r kind key requester) \<noteq> []"
    with t show ?thesis using buildRoute_targets(1,2) by metis
  next
    assume "Resolve r alert requester fb = fallback_route fb"
    with t show ?thesis by (auto simp: TrimSpace_ops_room)
  qed
qed

section \<open>The router interface\<close>

locale approval_router =
  fixes resolve :: "valmap \<Rightarrow> string \<Rightarrow> string \<Rightarrow> Route"
  assumes targets_nonempty: "rt_Targets (resolve alert requester fb) \<noteq> []"
    and targets_trimmed: "t \<in> set (rt_Targets (resolve alert requester fb)) \<Longrightarrow> t \<noteq> [] \<and> TrimSpace t = t"
begin

lemma first_target: "TrimSpace (rt_Targets (resolve alert requester fb) ! 0) \<noteq> []"
  using targets_nonempty targets_trimmed by (metis length_greater_0_conv nth_mem)

end

interpretation router: approval_router "Resolve r" for r
  by unfold_locales (use Resolve_targets in blast)+

section \<open>Properties\<close>

text \<open>Every approval request is addressed to somebody: whatever the configuration, the route has
  at least one target, no target is blank and none is repeated.\<close>

theorem route_never_empty:
  "rt_Targets (Resolve r alert requester fb) \<noteq> [] \<and>
   distinct (rt_Targets (Resolve r alert requester fb)) \<and>
   [] \<notin> set (rt_Targets (Resolve r alert requester fb))"
  using router.targets_nonempty router.targets_trimmed Resolve_targets(2) by blast

text \<open>Where self approval is prohibited, the requester can only be a target of the fallback route:
  no owner and no on-call route contains the requester.\<close>

theorem no_self_approval:
  assumes "prohibitSelfApproval r" and "requester \<noteq> []"
    and "requester \<in> set (rt_Targets (Resolve r alert requester fb))"
  shows "Resolve r alert requester fb = fallback_route fb"
  using assms Resolve_cases [of r alert requester fb] buildRoute_targets(3) by metis

definition example_router :: RouteResolver where
  "example_router =
     NewRouter ['' db ''] [''default''] []
       \<lparr>rc_ProhibitSelfApproval = True,
        rc_ServiceOwners = [(''api'' :: string) \<mapsto> [''alice'']]('' db '' \<mapsto> [''tars'', '' tars '']),
        rc_OncallGroups = [''default'' \<mapsto> [''tars'']], rc_CommandAllowlist = Map.empty\<rparr>"

definition db_alert :: valmap where
  "db_alert = [(''labels'', VStrMap [(''service'', ''db'')])]"

theorem no_self_approval_witness:
  "Resolve example_router db_alert ''tars'' ''tars'' = fallback_route ''tars''"
proof -
  have r: "prohibitSelfApproval example_router" by (simp add: example_router_def NewRouter_def)
  have "''tars'' \<in> set (rt_Targets (Resolve example_router db_alert ''tars'' ''tars''))"
    by code_simp
  from no_self_approval [OF r _ this] show ?thesis by simp
qed

end
