(* ===== verification/Agent_Role.thy ===== *)
theory Agent_Role
  imports Contracts
begin

text \<open>
  Agent roles: \<^verbatim>\<open>internal/modules/agentrole\<close> (\<^verbatim>\<open>types.go\<close>, \<^verbatim>\<open>manager.go\<close>).  A role binds an agent to a
  risk boundary; \<open>EnforcePolicy\<close> applies it to an authorization decision and
  \<open>EnforceCapabilityBinding\<close> to a connector capability.  The manager is the registry of roles; its
  operations take the manager and return it updated, with the result or the error of the source.
  Outside the model are the YAML encoder, the file system and the persistence callback: the
  fields of \<open>RoleEnv\<close>.  Audit log entries are not modelled.
\<close>

section \<open>Data\<close>

record Profile =
  pf_SystemPrompt :: string
  pf_PersonaTags :: "string list"

definition zero_Profile :: Profile where
  "zero_Profile = \<lparr>pf_SystemPrompt = [], pf_PersonaTags = []\<rparr>"

record CapabilityBinding =
  cb_AllowedConnectorCapabilities :: "string list"
  cb_DeniedConnectorCapabilities :: "string list"
  cb_AllowedSkills :: "string list"
  cb_AllowedSkillTags :: "string list"
  cb_Mode :: string

definition zero_CapabilityBinding :: CapabilityBinding where
  "zero_CapabilityBinding = \<lparr>cb_AllowedConnectorCapabilities = [], cb_DeniedConnectorCapabilities = [],
     cb_AllowedSkills = [], cb_AllowedSkillTags = [], cb_Mode = []\<rparr>"

record PolicyBinding =
  pb_MaxRiskLevel :: string
  pb_MaxAction :: string
  pb_RequireApprovalFor :: "string list"
  pb_HardDeny :: "string list"

definition zero_PolicyBinding :: PolicyBinding where
  "zero_PolicyBinding = \<lparr>pb_MaxRiskLevel = [], pb_MaxAction = [], pb_RequireApprovalFor = [], pb_HardDeny = []\<rparr>"

record ModelTargetBinding =
  mt_ProviderID :: string
  mt_Model :: string

record ModelBinding =
  mb_Primary :: "ModelTargetBinding option"
  mb_Fallback :: "ModelTargetBinding option"
  mb_InheritPlatformDefault :: bool

definition zero_ModelBinding :: ModelBinding where
  "zero_ModelBinding = \<lparr>mb_Primary = None, mb_Fallback = None, mb_InheritPlatformDefault = False\<rparr>"

record AgentRole =
  role_RoleID :: string
  role_DisplayName :: string
  role_Description :: string
  role_Status :: string
  role_IsBuiltin :: bool
  role_Profile :: Profile
  role_CapabilityBinding :: CapabilityBinding
  role_PolicyBinding :: PolicyBinding
  role_ModelBinding :: ModelBinding
  role_OrgID :: string
  role_TenantID :: string
  role_CreatedAt :: gotime
  role_UpdatedAt :: gotime

definition zero_AgentRole :: AgentRole where
  "zero_AgentRole = \<lparr>role_RoleID = [], role_DisplayName = [], role_Description = [], role_Status = [],
     role_IsBuiltin = False, role_Profile = zero_Profile,
     role_CapabilityBinding = zero_CapabilityBinding,
     role_PolicyBinding = zero_PolicyBinding, role_ModelBinding = zero_ModelBinding,
     role_OrgID = [], role_TenantID = [], role_CreatedAt = 0, role_UpdatedAt = 0\<rparr>"

datatype role_error =
    ErrConfigPathNotSet | ErrRoleNotFound | ErrRoleIsBuiltin | ErrRoleIDRequired | ErrRoleIDConflict
  | ErrInvalidModelBinding string | ErrPersist go_error

record RoleEnv =
  env_marshal :: "AgentRole list \<Rightarrow> go_error + string"
  env_writeFile :: "string \<Rightarrow> string \<Rightarrow> go_error option"
  env_persist :: "(AgentRole list \<Rightarrow> go_error option) option"

record RoleManager =
  rg_path :: string
  rg_content :: string
  rg_config :: "AgentRole list option"
  rg_updatedAt :: gotime

section \<open>Built-in roles\<close>

definition builtinDiagnosis :: AgentRole where
  "builtinDiagnosis = zero_AgentRole\<lparr>role_RoleID := ''diagnosis'',
     role_DisplayName := ''Diagnosis Expert'',
     role_Description :=
       ''Responsible for alert diagnosis, root cause analysis, and metrics querying.'',
     role_Status := ''active'', role_IsBuiltin := True,
     role_Profile := \<lparr>pf_SystemPrompt =
     ''You are a diagnosis expert in the TARS AIOps platform. Your responsibilities are:'' @ [CHR 0x0A] @
     ''1. Analyze alerts and metrics data'' @ [CHR 0x0A] @
     ''2. Identify root causes'' @ [CHR 0x0A] @
     ''3. Provide evidence-based repair recommendations'' @ [CHR 0x0A] @
     ''Be precise, cautious, and evidence-driven. Do not guess or execute high-risk '' @
     ''operations.'',
       pf_PersonaTags = [''diagnosis'', ''observability'', ''root-cause-analysis'']\<rparr>,
     role_CapabilityBinding := zero_CapabilityBinding\<lparr>cb_AllowedConnectorCapabilities :=
       [''metrics.query_instant'', ''metrics.query_range'', ''metrics.capacity_forecast'',
        ''observability.query'', ''delivery.query''], cb_Mode := ''whitelist''\<rparr>,
     role_PolicyBinding := \<lparr>pb_MaxRiskLevel = ''warning'', pb_MaxAction = ''require_approval'',
       pb_RequireApprovalFor = [''execution.run_command''], pb_HardDeny = []\<rparr>\<rparr>"

definition builtinAutomationOperator :: AgentRole where
  "builtinAutomationOperator = zero_AgentRole\<lparr>role_RoleID := ''automation_operator'',
     role_DisplayName := ''Automation Operator'',
     role_Description :=
       ''Executes automation jobs, runs skills, and performs scheduled tasks.'',
     role_Status := ''active'', role_IsBuiltin := True,
     role_Profile := \<lparr>pf_SystemPrompt =
     ''You are an automation operator in the TARS AIOps platform. Execute tasks precisely '' @
     ''according to the defined playbook. Report results accurately.'',
       pf_PersonaTags = [''automation'', ''execution'', ''operator'']\<rparr>,
     role_CapabilityBinding := zero_CapabilityBinding\<lparr>cb_Mode := ''unrestricted''\<rparr>,
     role_PolicyBinding := zero_PolicyBinding\<lparr>pb_MaxRiskLevel := ''critical'',
       pb_MaxAction := ''direct_execute''\<rparr>\<rparr>"

definition builtinReviewer :: AgentRole where
  "builtinReviewer = zero_AgentRole\<lparr>role_RoleID := ''reviewer'',
     role_DisplayName := ''Reviewer'',
     role_Description :=
       ''Reviews execution results, performs verification and quality checks.'',
     role_Status := ''active'', role_IsBuiltin := True,
     role_Profile := \<lparr>pf_SystemPrompt =
     ''You are a reviewer in the TARS AIOps platform. Your role is to verify results, '' @
     ''check quality, and provide review feedback. You should not execute any operations '' @
     ''directly.'',
       pf_PersonaTags = [''review'', ''verification'', ''quality'']\<rparr>,
     role_CapabilityBinding := zero_CapabilityBinding\<lparr>cb_AllowedConnectorCapabilities :=
       [''metrics.query_instant'', ''metrics.query_range'', ''observability.query''],
       cb_Mode := ''whitelist''\<rparr>,
     role_PolicyBinding := zero_PolicyBinding\<lparr>pb_MaxRiskLevel := ''info'',
       pb_MaxAction := ''suggest_only''\<rparr>\<rparr>"

definition builtinKnowledgeCurator :: AgentRole where
  "builtinKnowledgeCurator = zero_AgentRole\<lparr>role_RoleID := ''knowledge_curator'',
     role_DisplayName := ''Knowledge Curator'',
     role_Description :=
       ''Maintains the knowledge base, rebuilds indexes, and curates documentation.'',
     role_Status := ''active'', role_IsBuiltin := True,
     role_Profile := \<lparr>pf_SystemPrompt =
     ''You are a knowledge curator in the TARS AIOps platform. Maintain and organize the '' @
     ''knowledge base. Ensure documentation is accurate and up to date.'',
       pf_PersonaTags = [''knowledge'', ''documentation'', ''curation'']\<rparr>,
     role_CapabilityBinding := zero_CapabilityBinding\<lparr>cb_Mode := ''unrestricted''\<rparr>,
     role_PolicyBinding := zero_PolicyBinding\<lparr>pb_MaxRiskLevel := ''info'',
       pb_MaxAction := ''direct_execute''\<rparr>\<rparr>"

definition builtinConfig :: "AgentRole list" where
  "builtinConfig =
     [builtinDiagnosis, builtinAutomationOperator, builtinReviewer, builtinKnowledgeCurator]"

section \<open>Policy enforcement\<close>

definition actionRank :: "string \<Rightarrow> int" where
  "actionRank a =
     (let l = ToLower (TrimSpace a) in
      if l = ''deny'' then 0
      else if l = ''suggest_only'' then 1
      else if l = ''require_approval'' then 2
      else if l = ''direct_execute'' then 3
      else 2)"

definition riskRank :: "string \<Rightarrow> int" where
  "riskRank level =
     (let l = ToLower (TrimSpace level) in
      if l = ''info'' then 1 else if l = ''warning'' then 2 else if l = ''critical'' then 3 else 1)"

definition matchGlob :: "string \<Rightarrow> string \<Rightarrow> bool" where
  "matchGlob pattern0 value0 =
     (let pattern = TrimSpace pattern0; value = TrimSpace value0 in
      if pattern = [] \<or> value = [] then False
      else if pattern = ''*'' then True
      else if \<not> Contains pattern ''*'' then EqualFold pattern value
      else if HasPrefix pattern ''*'' \<and> HasSuffix pattern ''*''
      then Contains (ToLower value) (ToLower (Trim pattern ''*''))
      else if HasSuffix pattern ''*''
      then HasPrefix (ToLower value) (ToLower (TrimSuffix pattern ''*''))
      else if HasPrefix pattern ''*''
      then HasSuffix (ToLower value) (ToLower (TrimPrefix pattern ''*''))
      else EqualFold pattern value)"

fun require_approval_loop :: "string \<Rightarrow> string \<Rightarrow> string list \<Rightarrow> string" where
  "require_approval_loop command currentAction [] = currentAction"
| "require_approval_loop command currentAction (pattern # ps) =
     require_approval_loop command
       (if matchGlob pattern command \<and> actionRank currentAction > actionRank ''require_approval''
        then ''require_approval'' else currentAction) ps"

definition EnforcePolicy :: "AgentRole \<Rightarrow> string \<Rightarrow> string \<Rightarrow> string" where
  "EnforcePolicy role currentAction command =
     (let pb = role_PolicyBinding role in
      if \<exists>pattern \<in> set (pb_HardDeny pb). matchGlob pattern command then ''deny''
      else
        (let action = require_approval_loop command currentAction (pb_RequireApprovalFor pb) in
         if pb_MaxAction pb \<noteq> [] \<and> actionRank action > actionRank (pb_MaxAction pb)
         then pb_MaxAction pb else action))"

definition EnforceCapabilityBinding :: "AgentRole \<Rightarrow> string \<Rightarrow> string \<Rightarrow> string" where
  "EnforceCapabilityBinding role currentAction capabilityID =
     (let cb = role_CapabilityBinding role; mode = ToLower (cb_Mode cb) in
      if mode = ''whitelist'' then
        (if \<exists>allowed \<in> set (cb_AllowedConnectorCapabilities cb). EqualFold allowed capabilityID
         then currentAction else ''deny'')
      else if mode = ''blacklist'' then
        (if \<exists>denied \<in> set (cb_DeniedConnectorCapabilities cb). EqualFold denied capabilityID
         then ''deny'' else currentAction)
      else currentAction)"

section \<open>Model bindings\<close>

definition normalizeModelTargetBinding ::
  "ModelTargetBinding option \<Rightarrow> ModelTargetBinding option" where
  "normalizeModelTargetBinding binding =
     (case binding of
        None \<Rightarrow> None
      | Some b \<Rightarrow>
          (let target = \<lparr>mt_ProviderID = TrimSpace (mt_ProviderID b), mt_Model = TrimSpace (mt_Model b)\<rparr>
           in if mt_ProviderID target = [] \<and> mt_Model target = [] then None else Some target))"

definition normalizeModelBinding :: "ModelBinding \<Rightarrow> ModelBinding" where
  "normalizeModelBinding binding =
     (let p = normalizeModelTargetBinding (mb_Primary binding);
          f = normalizeModelTargetBinding (mb_Fallback binding)
      in \<lparr>mb_Primary = p, mb_Fallback = f,
          mb_InheritPlatformDefault = (p = None \<and> f = None \<or> mb_InheritPlatformDefault binding)\<rparr>)"

definition validateModelTargetBinding ::
  "string \<Rightarrow> ModelTargetBinding option \<Rightarrow> role_error option" where
  "validateModelTargetBinding name binding =
     (case binding of
        None \<Rightarrow> None
      | Some b \<Rightarrow>
          (let providerID = TrimSpace (mt_ProviderID b); model = TrimSpace (mt_Model b) in
           if providerID = [] \<and> model = [] then None
           else if providerID = []
           then Some (ErrInvalidModelBinding
             (name @ ''.provider_id is required when '' @ name @ ''.model is set''))
           else if model = []
           then Some (ErrInvalidModelBinding
             (name @ ''.model is required when '' @ name @ ''.provider_id is set''))
           else None))"

definition validateModelBinding :: "ModelBinding \<Rightarrow> role_error option" where
  "validateModelBinding binding =
     (case validateModelTargetBinding ''primary'' (mb_Primary binding) of
        Some e \<Rightarrow> Some e
      | None \<Rightarrow>
          (case validateModelTargetBinding ''fallback'' (mb_Fallback binding) of
             Some e \<Rightarrow> Some e
           | None \<Rightarrow>
               if mb_Primary binding = None \<and> mb_Fallback binding \<noteq> None \<and>
                  \<not> mb_InheritPlatformDefault binding
               then Some (ErrInvalidModelBinding
                 ''fallback requires either primary or inherit_platform_default=true'')
               else None))"

section \<open>The registry\<close>

definition ensureBuiltinRoles :: "AgentRole list \<Rightarrow> AgentRole list" where
  "ensureBuiltinRoles roles =
     (let marked = map (\<lambda>r. r\<lparr>role_IsBuiltin :=
             role_IsBuiltin r \<or> role_RoleID r \<in> role_RoleID ` set builtinConfig,
             role_ModelBinding := normalizeModelBinding (role_ModelBinding r)\<rparr>) roles
      in marked @ map (\<lambda>b. b\<lparr>role_ModelBinding := normalizeModelBinding (role_ModelBinding b)\<rparr>)
           (filter (\<lambda>b. role_RoleID b \<notin> role_RoleID ` set roles) builtinConfig))"

definition persistLocked :: "RoleEnv \<Rightarrow> gotime \<Rightarrow> RoleManager \<Rightarrow> role_error option \<times> RoleManager" where
  "persistLocked env now m0 =
     (let m = (case rg_config m0 of None \<Rightarrow> m0\<lparr>rg_config := Some builtinConfig\<rparr> | Some _ \<Rightarrow> m0);
          roles = (case rg_config m of None \<Rightarrow> [] | Some rs \<Rightarrow> rs)
      in case env_marshal env roles of
           Inl err \<Rightarrow> (Some (ErrPersist err), m)
         | Inr raw \<Rightarrow>
             (case (if rg_path m \<noteq> [] then env_writeFile env (rg_path m) raw else None) of
                Some err \<Rightarrow> (Some (ErrPersist err), m)
              | None \<Rightarrow>
                  (let m' = m\<lparr>rg_content := raw, rg_updatedAt := now\<rparr> in
                   case env_persist env of
                     None \<Rightarrow> (None, m')
                   | Some persist \<Rightarrow> (map_option ErrPersist (persist roles), m'))))"

text \<open>The first role with a given identifier: the loops over \<^verbatim>\<open>m.config.AgentRoles\<close>.\<close>

fun role_index :: "string \<Rightarrow> AgentRole list \<Rightarrow> nat option" where
  "role_index roleID [] = None"
| "role_index roleID (r # rs) =
     (if role_RoleID r = roleID then Some 0 else map_option Suc (role_index roleID rs))"

definition Get :: "RoleManager \<Rightarrow> string \<Rightarrow> role_error + AgentRole" where
  "Get m roleID =
     (case rg_config m of
        None \<Rightarrow> Inl ErrRoleNotFound
      | Some roles \<Rightarrow>
          (case find (\<lambda>r. role_RoleID r = roleID) roles of
             Some r \<Rightarrow> Inr r | None \<Rightarrow> Inl ErrRoleNotFound))"

definition RoleList :: "RoleManager \<Rightarrow> AgentRole list" where
  "RoleList m = (case rg_config m of None \<Rightarrow> [] | Some roles \<Rightarrow> roles)"

definition create_defaults :: "gotime \<Rightarrow> AgentRole \<Rightarrow> AgentRole" where
  "create_defaults now role =
     (let cb = role_CapabilityBinding role; pb = role_PolicyBinding role in
      role\<lparr>role_Status := (if role_Status role = [] then ''active'' else role_Status role),
        role_CapabilityBinding :=
          cb\<lparr>cb_Mode := (if cb_Mode cb = [] then ''unrestricted'' else cb_Mode cb)\<rparr>,
        role_PolicyBinding :=
          pb\<lparr>pb_MaxRiskLevel := (if pb_MaxRiskLevel pb = [] then ''warning'' else pb_MaxRiskLevel pb),
             pb_MaxAction := (if pb_MaxAction pb = [] then ''require_approval'' else pb_MaxAction pb)\<rparr>,
        role_ModelBinding := normalizeModelBinding (role_ModelBinding role)\<rparr>)"

definition Create ::
  "RoleEnv \<Rightarrow> gotime \<Rightarrow> RoleManager \<Rightarrow> AgentRole \<Rightarrow> (role_error + AgentRole) \<times> RoleManager" where
  "Create env now m0 role0 =
     (let m = (case rg_config m0 of None \<Rightarrow> m0\<lparr>rg_config := Some []\<rparr> | Some _ \<Rightarrow> m0);
          roles = RoleList m;
          role = role0\<lparr>role_RoleID := TrimSpace (role_RoleID role0)\<rparr>
      in if role_RoleID role = [] then (Inl ErrRoleIDRequired, m)
         else if role_RoleID role \<in> role_RoleID ` set roles then (Inl ErrRoleIDConflict, m)
         else
           (let role' = create_defaults now role in
            case validateModelBinding (role_ModelBinding role') of
              Some e \<Rightarrow> (Inl e, m)
            | None \<Rightarrow>
                (let role'' = role'\<lparr>role_CreatedAt := now, role_UpdatedAt := now\<rparr> in
                 case persistLocked env now (m\<lparr>rg_config := Some (roles @ [role''])\<rparr>) of
                   (Some e, m') \<Rightarrow> (Inl e, m')
                 | (None, m') \<Rightarrow> (Inr role'', m'))))"

definition update_defaults :: "gotime \<Rightarrow> AgentRole \<Rightarrow> AgentRole \<Rightarrow> AgentRole" where
  "update_defaults now existing role =
     (let cb = role_CapabilityBinding role; pb = role_PolicyBinding role;
          cb0 = role_CapabilityBinding existing; pb0 = role_PolicyBinding existing
      in role\<lparr>role_IsBuiltin := role_IsBuiltin existing,
           role_CreatedAt := role_CreatedAt existing, role_UpdatedAt := now,
           role_Status := (if role_Status role = [] then role_Status existing else role_Status role),
           role_CapabilityBinding := cb\<lparr>cb_Mode := (if cb_Mode cb = [] then cb_Mode cb0 else cb_Mode cb)\<rparr>,
           role_PolicyBinding :=
             pb\<lparr>pb_MaxRiskLevel :=
                  (if pb_MaxRiskLevel pb = [] then pb_MaxRiskLevel pb0 else pb_MaxRiskLevel pb),
                pb_MaxAction := (if pb_MaxAction pb = [] then pb_MaxAction pb0 else pb_MaxAction pb)\<rparr>,
           role_ModelBinding := normalizeModelBinding (role_ModelBinding role)\<rparr>)"

definition Update ::
  "RoleEnv \<Rightarrow> gotime \<Rightarrow> RoleManager \<Rightarrow> AgentRole \<Rightarrow> (role_error + AgentRole) \<times> RoleManager" where
  "Update env now m role0 =
     (case rg_config m of
        None \<Rightarrow> (Inl ErrRoleNotFound, m)
      | Some roles \<Rightarrow>
          (let role = role0\<lparr>role_RoleID := TrimSpace (role_RoleID role0)\<rparr> in
           case role_index (role_RoleID role) roles of
             None \<Rightarrow> (Inl ErrRoleNotFound, m)
           | Some idx \<Rightarrow>
               (let role' = update_defaults now (roles ! idx) role in
                case validateModelBinding (role_ModelBinding role') of
                  Some e \<Rightarrow> (Inl e, m)
                | None \<Rightarrow>
                    (case persistLocked env now (m\<lparr>rg_config := Some (roles[idx := role'])\<rparr>) of
                       (Some e, m') \<Rightarrow> (Inl e, m')
                     | (None, m') \<Rightarrow> (Inr role', m')))))"

definition Delete ::
  "RoleEnv \<Rightarrow> gotime \<Rightarrow> RoleManager \<Rightarrow> string \<Rightarrow> (role_error + unit) \<times> RoleManager" where
  "Delete env now m roleID =
     (case rg_config m of
        None \<Rightarrow> (Inl ErrRoleNotFound, m)
      | Some roles \<Rightarrow>
          (case role_index roleID roles of
             None \<Rightarrow> (Inl ErrRoleNotFound, m)
           | Some idx \<Rightarrow>
               if role_IsBuiltin (roles ! idx) then (Inl ErrRoleIsBuiltin, m)
               else
                 (case persistLocked env now
                         (m\<lparr>rg_config := Some (take idx roles @ drop (Suc idx) roles)\<rparr>) of
                    (Some e, m') \<Rightarrow> (Inl e, m')
                  | (None, m') \<Rightarrow> (Inr (), m'))))"

definition SetEnabled ::
  "RoleEnv \<Rightarrow> gotime \<Rightarrow> RoleManager \<Rightarrow> string \<Rightarrow> bool \<Rightarrow> (role_error + AgentRole) \<times> RoleManager" where
  "SetEnabled env now m roleID enabled =
     (case rg_config m of
        None \<Rightarrow> (Inl ErrRoleNotFound, m)
      | Some roles \<Rightarrow>
          (case role_index roleID roles of
             None \<Rightarrow> (Inl ErrRoleNotFound, m)
           | Some idx \<Rightarrow>
               (let role' = (roles ! idx)\<lparr>role_Status := (if enabled then ''active'' else ''disabled''),
                      role_UpdatedAt := now\<rparr>
                in case persistLocked env now (m\<lparr>rg_config := Some (roles[idx := role'])\<rparr>) of
                     (Some e, m') \<Rightarrow> (Inl e, m')
                   | (None, m') \<Rightarrow> (Inr role', m'))))"

text \<open>\<^verbatim>\<open>LoadRuntimeConfig\<close> and \<^verbatim>\<open>applyConfigLocked\<close>: the first invalid binding is the error.\<close>

definition LoadRuntimeConfig ::
  "RoleEnv \<Rightarrow> gotime \<Rightarrow> RoleManager \<Rightarrow> AgentRole list \<Rightarrow> role_error option \<times> RoleManager" where
  "LoadRuntimeConfig env now m cfg =
     (let roles = ensureBuiltinRoles cfg;
          errs = List.map_filter (\<lambda>r. validateModelBinding (role_ModelBinding r)) roles
      in case errs of
           e # _ \<Rightarrow> (Some e, m)
         | [] \<Rightarrow>
             (case env_marshal env roles of
                Inl err \<Rightarrow> (Some (ErrPersist err), m)
              | Inr raw \<Rightarrow>
                  (None, m\<lparr>rg_config := Some roles, rg_content := raw, rg_updatedAt := now\<rparr>)))"

definition ResolveForSession :: "RoleManager \<Rightarrow> string \<Rightarrow> AgentRole" where
  "ResolveForSession m roleID =
     (let fallback = (case Get m ''diagnosis'' of Inr r \<Rightarrow> r | Inl _ \<Rightarrow> builtinDiagnosis) in
      if roleID \<noteq> [] then
        (case Get m roleID of
           Inr r \<Rightarrow> if role_Status r = ''active'' then r else fallback
         | Inl _ \<Rightarrow> fallback)
      else fallback)"

definition ResolveForAutomation :: "RoleManager \<Rightarrow> string \<Rightarrow> AgentRole" where
  "ResolveForAutomation m roleID =
     (let fallback =
            (case Get m ''automation_operator'' of Inr r \<Rightarrow> r | Inl _ \<Rightarrow> builtinAutomationOperator) in
      if roleID \<noteq> [] then
        (case Get m roleID of
           Inr r \<Rightarrow> if role_Status r = ''active'' then r else fallback
         | Inl _ \<Rightarrow> fallback)
      else fallback)"

section \<open>Lemmas\<close>

lemma rank_constants [simp]:
  "actionRank ''deny'' = 0" "actionRank ''require_approval'' = 2"
  "actionRank ''suggest_only'' = 1" "actionRank ''direct_execute'' = 3"
  by code_simp+

lemma actionRank_nonneg: "0 \<le> actionRank a"
  by (simp add: actionRank_def Let_def)

lemma require_approval_loop_le:
  "actionRank (require_approval_loop command action ps) \<le> actionRank action"
proof (induction ps arbitrary: action)
  case (Cons p ps)
  from Cons [of "if matchGlob p command \<and> actionRank action > actionRank ''require_approval''
      then ''require_approval'' else action"]
  show ?case by (auto split: if_splits)
qed simp

lemma rg_config_persistLocked [simp]:
  "rg_config m = Some roles \<Longrightarrow> rg_config (snd (persistLocked env now m)) = Some roles"
  by (simp add: persistLocked_def Let_def split: sum.splits option.splits)

lemma role_index_Some:
  "role_index roleID roles = Some idx \<Longrightarrow>
     idx < length roles \<and> role_RoleID (roles ! idx) = roleID"
  by (induction roles arbitrary: idx) (auto split: if_splits)

text \<open>What an operation of the registry leaves as its list of roles.\<close>

lemma persist_case_snd:
  "rg_config m = Some roles \<Longrightarrow>
   rg_config (snd (case persistLocked env now m of (Some e, m') \<Rightarrow> (Inl e, m') | (None, m') \<Rightarrow> (Inr r, m'))) =
     Some roles"
  by (cases "persistLocked env now m")
    (use rg_config_persistLocked [of m roles env now] in \<open>auto split: option.splits\<close>)

section \<open>Runs of the registry\<close>

datatype role_op =
    OpCreate AgentRole
  | OpUpdate AgentRole
  | OpDelete string
  | OpSetEnabled string bool
  | OpLoad "AgentRole list"

fun role_exec :: "RoleEnv \<Rightarrow> gotime \<Rightarrow> role_op \<Rightarrow> RoleManager \<Rightarrow> RoleManager" where
  "role_exec env now (OpCreate r) m = snd (Create env now m r)"
| "role_exec env now (OpUpdate r) m = snd (Update env now m r)"
| "role_exec env now (OpDelete i) m = snd (Delete env now m i)"
| "role_exec env now (OpSetEnabled i b) m = snd (SetEnabled env now m i b)"
| "role_exec env now (OpLoad cfg) m = snd (LoadRuntimeConfig env now m cfg)"

definition role_ids :: "RoleManager \<Rightarrow> string list" where
  "role_ids m = map role_RoleID (RoleList m)"

definition has_builtins :: "RoleManager \<Rightarrow> bool" where
  "has_builtins m \<longleftrightarrow>
     (\<forall>b \<in> set builtinConfig. \<exists>r \<in> set (RoleList m). role_RoleID r = role_RoleID b \<and> role_IsBuiltin r)"

definition registry_ok :: "RoleManager \<Rightarrow> bool" where
  "registry_ok m \<longleftrightarrow> distinct (role_ids m) \<and> has_builtins m"

definition registry_keeps :: "AgentRole list \<Rightarrow> AgentRole list \<Rightarrow> bool" where
  "registry_keeps old new \<longleftrightarrow>
     (\<forall>r \<in> set old. role_IsBuiltin r \<longrightarrow>
        (\<exists>r' \<in> set new. role_RoleID r' = role_RoleID r \<and> role_IsBuiltin r'))"

lemma has_builtins_keeps:
  "has_builtins m \<Longrightarrow> registry_keeps (RoleList m) (RoleList m') \<Longrightarrow> has_builtins m'"
  unfolding has_builtins_def registry_keeps_def by metis

lemma registry_keeps_refl [simp]: "registry_keeps rs rs"
  by (auto simp: registry_keeps_def)

lemma registry_keeps_append [simp]: "registry_keeps rs (rs @ xs)"
  by (auto simp: registry_keeps_def)

lemma registry_keeps_update:
  assumes "idx < length rs" "role_RoleID r' = role_RoleID (rs ! idx)"
    "role_IsBuiltin r' = role_IsBuiltin (rs ! idx)"
  shows "registry_keeps rs (rs[idx := r'])" "map role_RoleID (rs[idx := r']) = map role_RoleID rs"
proof -
  have "r = rs ! idx \<or> r \<in> set (rs[idx := r'])" if "r \<in> set rs" for r
    using that by (metis in_set_conv_nth length_list_update nth_list_update_neq)
  moreover have "r' \<in> set (rs[idx := r'])" using assms(1) by (rule set_update_memI)
  ultimately show "registry_keeps rs (rs[idx := r'])"
    using assms(2,3) unfolding registry_keeps_def by metis
  show "map role_RoleID (rs[idx := r']) = map role_RoleID rs"
    using assms(1,2) by (simp add: map_update list_update_same_conv)
qed

lemma registry_keeps_delete:
  assumes "idx < length rs" "\<not> role_IsBuiltin (rs ! idx)"
  shows "registry_keeps rs (take idx rs @ drop (Suc idx) rs)"
proof -
  have "r \<in> set (take idx rs @ drop (Suc idx) rs)" if "r \<in> set rs" "role_IsBuiltin r" for r
    using that assms id_take_nth_drop [OF assms(1)]
    by (metis Un_iff set_ConsD set_append)
  then show ?thesis unfolding registry_keeps_def by metis
qed

lemma distinct_delete:
  "distinct (map f rs) \<Longrightarrow> distinct (map f (take idx rs @ drop (Suc idx) rs))"
  using set_take_disj_set_drop_if_distinct [of "map f rs" idx "Suc idx"]
    distinct_take [of "map f rs" idx] distinct_drop [of "map f rs" "Suc idx"]
  by (simp add: take_map drop_map)

lemma ensureBuiltinRoles_ok:
  assumes "distinct (map role_RoleID cfg)" "rg_config m = Some (ensureBuiltinRoles cfg)"
  shows "registry_ok m"
proof -
  have ids: "distinct (map role_RoleID builtinConfig)"
    by (simp add: builtinConfig_def builtinDiagnosis_def builtinAutomationOperator_def
        builtinReviewer_def builtinKnowledgeCurator_def)
  have flags: "\<forall>b \<in> set builtinConfig. role_IsBuiltin b"
    by (simp add: builtinConfig_def builtinDiagnosis_def builtinAutomationOperator_def
        builtinReviewer_def builtinKnowledgeCurator_def)
  have "role_ids m = map role_RoleID cfg @
      filter (\<lambda>i. i \<notin> role_RoleID ` set cfg) (map role_RoleID builtinConfig)"
    using assms(2)
    by (simp add: role_ids_def RoleList_def ensureBuiltinRoles_def Let_def filter_map comp_def)
  then have "distinct (role_ids m)"
    using assms(1) distinct_filter [OF ids] by auto
  moreover have "has_builtins m"
    unfolding has_builtins_def
  proof
    fix b assume b: "b \<in> set builtinConfig"
    show "\<exists>r \<in> set (RoleList m). role_RoleID r = role_RoleID b \<and> role_IsBuiltin r"
    proof (cases "role_RoleID b \<in> role_RoleID ` set cfg")
      case True
      then obtain r where "r \<in> set cfg" "role_RoleID r = role_RoleID b" by auto
      let ?r = "r\<lparr>role_IsBuiltin := role_IsBuiltin r \<or> role_RoleID r \<in> role_RoleID ` set builtinConfig,
        role_ModelBinding := normalizeModelBinding (role_ModelBinding r)\<rparr>"
      have "?r \<in> set (RoleList m)" using \<open>r \<in> set cfg\<close> assms(2)
        by (simp add: RoleList_def ensureBuiltinRoles_def Let_def)
      moreover have "role_RoleID ?r = role_RoleID b \<and> role_IsBuiltin ?r"
        using b \<open>role_RoleID r = role_RoleID b\<close> by simp
      ultimately show ?thesis by blast
    next
      case False
      let ?b = "b\<lparr>role_ModelBinding := normalizeModelBinding (role_ModelBinding b)\<rparr>"
      have "?b \<in> set (RoleList m)" using b False assms(2)
        by (simp add: RoleList_def ensureBuiltinRoles_def Let_def)
      moreover have "role_RoleID ?b = role_RoleID b \<and> role_IsBuiltin ?b" using b flags by simp
      ultimately show ?thesis by blast
    qed
  qed
  ultimately show ?thesis by (simp add: registry_ok_def)
qed

text \<open>
  One operation keeps the registry well formed.  A configuration loaded at run time replaces the
  registry, so it has to bring distinct identifiers.
\<close>

fun op_ok :: "role_op \<Rightarrow> bool" where
  "op_ok (OpLoad cfg) = distinct (map role_RoleID cfg)"
| "op_ok _ = True"

lemma registry_ok_Create: "registry_ok m \<Longrightarrow> registry_ok (snd (Create env now m r))"
proof -
  assume ok: "registry_ok m"
  then obtain roles where cfg: "rg_config m = Some roles"
    by (cases "rg_config m")
      (auto simp: registry_ok_def has_builtins_def RoleList_def builtinConfig_def)
  have eq: "rg_config (snd (Create env now m r)) = Some roles \<or>
      (\<exists>r'. role_RoleID r' \<notin> role_RoleID ` set roles \<and>
        rg_config (snd (Create env now m r)) = Some (roles @ [r']))"
    using cfg
    by (auto simp: Create_def Let_def RoleList_def create_defaults_def persist_case_snd
        split: option.splits)
  then show ?thesis
    using ok cfg has_builtins_keeps [of m "snd (Create env now m r)"]
    by (auto simp: registry_ok_def role_ids_def RoleList_def)
qed

lemma registry_ok_replace:
  assumes "registry_ok m" "rg_config m = Some roles" "rg_config m' = Some (roles[idx := r'])"
    "idx < length roles" "role_RoleID r' = role_RoleID (roles ! idx)"
    "role_IsBuiltin r' = role_IsBuiltin (roles ! idx)"
  shows "registry_ok m'"
  using assms registry_keeps_update [OF assms(4-6)] has_builtins_keeps [of m m']
  by (simp add: registry_ok_def role_ids_def RoleList_def)

lemma registry_ok_unchanged:
  "registry_ok m \<Longrightarrow> rg_config m' = rg_config m \<Longrightarrow> registry_ok m'"
  by (simp add: registry_ok_def role_ids_def has_builtins_def RoleList_def)

lemma registry_ok_Update:
  assumes ok: "registry_ok m" shows "registry_ok (snd (Update env now m r))"
proof (cases "rg_config (snd (Update env now m r)) = rg_config m")
  case True
  with ok show ?thesis by (rule registry_ok_unchanged)
next
  case False
  then obtain roles idx r' where
    "rg_config m = Some roles" "role_index (TrimSpace (role_RoleID r)) roles = Some idx"
    "r' = update_defaults now (roles ! idx) (r\<lparr>role_RoleID := TrimSpace (role_RoleID r)\<rparr>)"
    "rg_config (snd (Update env now m r)) = Some (roles[idx := r'])"
    by (auto simp: Update_def Let_def persist_case_snd split: option.splits)
  then show ?thesis
    using registry_ok_replace [OF ok, of roles _ idx r'] role_index_Some
    by (auto simp: update_defaults_def Let_def)
qed

lemma registry_ok_SetEnabled:
  assumes ok: "registry_ok m" shows "registry_ok (snd (SetEnabled env now m i b))"
proof (cases "rg_config (snd (SetEnabled env now m i b)) = rg_config m")
  case True
  with ok show ?thesis by (rule registry_ok_unchanged)
next
  case False
  then obtain roles idx r' where
    "rg_config m = Some roles" "role_index i roles = Some idx"
    "r' = (roles ! idx)\<lparr>role_Status := (if b then ''active'' else ''disabled''), role_UpdatedAt := now\<rparr>"
    "rg_config (snd (SetEnabled env now m i b)) = Some (roles[idx := r'])"
    by (auto simp: SetEnabled_def Let_def persist_case_snd split: option.splits)
  then show ?thesis
    using registry_ok_replace [OF ok, of roles _ idx r'] role_index_Some by auto
qed

lemma registry_ok_Delete:
  assumes ok: "registry_ok m" shows "registry_ok (snd (Delete env now m i))"
proof (cases "rg_config (snd (Delete env now m i)) = rg_config m")
  case True
  with ok show ?thesis by (rule registry_ok_unchanged)
next
  case False
  then obtain roles idx where cfg: "rg_config m = Some roles"
    and idx: "role_index i roles = Some idx" "\<not> role_IsBuiltin (roles ! idx)"
    and new: "rg_config (snd (Delete env now m i)) = Some (take idx roles @ drop (Suc idx) roles)"
    by (auto simp: Delete_def persist_case_snd split: option.splits if_splits)
  have "registry_keeps roles (take idx roles @ drop (Suc idx) roles)"
    using role_index_Some [OF idx(1)] idx(2) by (intro registry_keeps_delete) simp_all
  then show ?thesis
    using ok cfg new has_builtins_keeps [of m "snd (Delete env now m i)"] distinct_delete
    by (auto simp: registry_ok_def role_ids_def RoleList_def simp del: map_append)
qed

lemma registry_ok_Load:
  assumes "registry_ok m" "distinct (map role_RoleID cfg)"
  shows "registry_ok (snd (LoadRuntimeConfig env now m cfg))"
  using assms ensureBuiltinRoles_ok [OF assms(2)]
  by (auto simp: LoadRuntimeConfig_def Let_def split: list.splits sum.splits)

lemma registry_ok_exec: "registry_ok m \<Longrightarrow> op_ok op \<Longrightarrow> registry_ok (role_exec env now op m)"
  by (cases op) (simp_all add: registry_ok_Create registry_ok_Update registry_ok_Delete
      registry_ok_SetEnabled registry_ok_Load)

section \<open>Properties\<close>

text \<open>C32: A role only restricts.  The action that \<open>EnforcePolicy\<close> returns never ranks above the
  authorization decision it was given nor above the maximal action of the role, and a command that
  matches a hard-deny pattern of the role is denied.\<close>

theorem role_never_escalates:
  "actionRank (EnforcePolicy role action command) \<le> actionRank action \<and>
   (pb_MaxAction (role_PolicyBinding role) \<noteq> [] \<longrightarrow>
     actionRank (EnforcePolicy role action command) \<le>
     max (actionRank ''deny'') (actionRank (pb_MaxAction (role_PolicyBinding role)))) \<and>
   ((\<exists>p \<in> set (pb_HardDeny (role_PolicyBinding role)). matchGlob p command) \<longrightarrow>
     EnforcePolicy role action command = ''deny'')"
  using require_approval_loop_le [of command action "pb_RequireApprovalFor (role_PolicyBinding role)"]
    actionRank_nonneg [of action] actionRank_nonneg [of "pb_MaxAction (role_PolicyBinding role)"]
  by (auto simp: EnforcePolicy_def Let_def)

theorem role_never_escalates_witness:
  "actionRank (EnforcePolicy builtinDiagnosis ''direct_execute'' ''uptime'') \<le> 2"
proof -
  have m: "pb_MaxAction (role_PolicyBinding builtinDiagnosis) = ''require_approval''"
    by (simp add: builtinDiagnosis_def)
  show ?thesis
    using role_never_escalates [of builtinDiagnosis "''direct_execute''" "''uptime''"]
    by (simp add: m)
qed

fun role_execs :: "RoleManager \<Rightarrow> (RoleEnv \<times> gotime \<times> role_op) list \<Rightarrow> RoleManager" where
  "role_execs m [] = m"
| "role_execs m ((env, now, op) # ops) = role_execs (role_exec env now op m) ops"

text \<open>The registry stays well formed: over any sequence of operations (each loaded configuration
  having distinct identifiers), whatever the outside world answers, role identifiers stay distinct
  and the four built-in roles stay present and marked as built-in, so none of them can be deleted.\<close>

theorem registry_invariant:
  assumes "registry_ok m" and "\<forall>(env, now, op) \<in> set ops. op_ok op"
  shows "registry_ok (role_execs m ops)"
  using assms
proof (induction ops arbitrary: m)
  case (Cons x ops)
  obtain env now op where x: "x = (env, now, op)" by (cases x) auto
  with Cons show ?case by (auto intro!: Cons.IH registry_ok_exec)
qed simp

definition quiet_env :: RoleEnv where
  "quiet_env = \<lparr>env_marshal = (\<lambda>_. Inr []), env_writeFile = (\<lambda>_ _. None), env_persist = None\<rparr>"

definition fresh_manager :: RoleManager where
  "fresh_manager = \<lparr>rg_path = [], rg_content = [], rg_config = Some (ensureBuiltinRoles []), rg_updatedAt = 0\<rparr>"

theorem registry_invariant_witness:
  "registry_ok (role_execs fresh_manager
     [(quiet_env, 1, OpDelete ''diagnosis''), (quiet_env, 2, OpCreate (zero_AgentRole\<lparr>role_RoleID := ''x''\<rparr>)),
      (quiet_env, 3, OpDelete ''x'')])"
proof -
  have "registry_ok fresh_manager"
    by (rule ensureBuiltinRoles_ok [of "[]"]) (simp_all add: fresh_manager_def)
  then show ?thesis by (rule registry_invariant) simp
qed

lemma Get_RoleID: "Get m i = Inr r \<Longrightarrow> role_RoleID r = i"
  by (auto simp: Get_def dest: find_Some_in split: option.splits)

text \<open>A role that was created can be read back, with its blank fields filled in by the defaults,
  and the other roles read as before.\<close>

theorem create_get_roundtrip:
  assumes "Create env now m role = (Inr r, m')"
  shows "Get m' (TrimSpace (role_RoleID role)) = Inr r \<and> pb_MaxAction (role_PolicyBinding r) \<noteq> [] \<and>
    (\<forall>i. i \<noteq> TrimSpace (role_RoleID role) \<longrightarrow> Get m' i = Get m i)"
proof -
  define roles where "roles = RoleList m"
  define m1 where "m1 = (case rg_config m of None \<Rightarrow> m\<lparr>rg_config := Some []\<rparr> | Some _ \<Rightarrow> m)"
  have roles: "RoleList m1 = roles" by (simp add: roles_def m1_def RoleList_def split: option.splits)
  have fresh: "TrimSpace (role_RoleID role) \<notin> role_RoleID ` set roles"
    and r: "role_RoleID r = TrimSpace (role_RoleID role)" "pb_MaxAction (role_PolicyBinding r) \<noteq> []"
    and persist: "persistLocked env now (m1\<lparr>rg_config := Some (roles @ [r])\<rparr>) = (None, m')"
    using assms
    by (auto simp: Create_def Let_def roles m1_def [symmetric] create_defaults_def
        split: if_splits option.splits prod.splits)
  have cfg: "rg_config m' = Some (roles @ [r])"
    using rg_config_persistLocked [of "m1\<lparr>rg_config := Some (roles @ [r])\<rparr>" "roles @ [r]" env now] persist
    by simp
  have find: "find (\<lambda>x. role_RoleID x = i) (roles @ [r]) =
      (if i = role_RoleID r then Some r else find (\<lambda>x. role_RoleID x = i) roles)" for i
    using fresh r(1) by (induction roles) auto
  have old: "Get m i = (case find (\<lambda>x. role_RoleID x = i) roles of Some x \<Rightarrow> Inr x | None \<Rightarrow> Inl ErrRoleNotFound)"
    for i
    by (simp add: Get_def roles_def RoleList_def split: option.splits)
  show ?thesis using r by (simp add: Get_def [of m'] cfg find old)
qed

text \<open>The roles are a keyed store, written by \<open>Create\<close> and read by \<open>Get\<close>.\<close>

interpretation role_store: keyed_store
  "\<lambda>i m. case Get m i of Inl _ \<Rightarrow> None | Inr r \<Rightarrow> Some r"
  "\<lambda>(env, now, role) m. snd (Create env now m role)" role_RoleID
  "\<lambda>(env, now, role) r m. fst (Create env now m role) = Inr r"
proof unfold_locales
  fix c :: "RoleEnv \<times> gotime \<times> AgentRole" and r m i
  obtain env now role where c: "c = (env, now, role)" by (cases c)
  assume "(\<lambda>(env, now, role) r m. fst (Create env now m role) = Inr r) c r m"
  then have created: "Create env now m role = (Inr r, snd (Create env now m role))" by (simp add: c prod_eq_iff)
  note law = create_get_roundtrip [OF created]
  have key: "role_RoleID r = TrimSpace (role_RoleID role)" using law Get_RoleID by blast
  show "(case Get ((\<lambda>(env, now, role) m. snd (Create env now m role)) c m) (role_RoleID r) of
      Inl _ \<Rightarrow> None | Inr r \<Rightarrow> Some r) = Some r"
    using law key by (simp add: c)
  show "(case Get ((\<lambda>(env, now, role) m. snd (Create env now m role)) c m) i of Inl _ \<Rightarrow> None | Inr r \<Rightarrow> Some r) =
      (case Get m i of Inl _ \<Rightarrow> None | Inr r \<Rightarrow> Some r)" if "i \<noteq> role_RoleID r"
    using law key that by (simp add: c)
qed

theorem create_get_roundtrip_witness:
  "\<exists>r m'. Create quiet_env 5 fresh_manager (zero_AgentRole\<lparr>role_RoleID := '' x ''\<rparr>) = (Inr r, m') \<and>
     Get m' ''x'' = Inr r"
proof -
  let ?c = "Create quiet_env 5 fresh_manager (zero_AgentRole\<lparr>role_RoleID := '' x ''\<rparr>)"
  have x: "TrimSpace '' x '' = ''x''" by code_simp
  have "\<not> isl (fst ?c)" by code_simp
  then obtain r where "?c = (Inr r, snd ?c)" by (metis prod.collapse sum.collapse(2))
  from create_get_roundtrip [OF this] this show ?thesis by (auto simp: x)
qed

text \<open>The globs of a role know a star at the ends of a pattern only: a pattern whose stars are
  all inside is compared literally, so a hard-deny pattern such as \<^verbatim>\<open>rm * /\<close> denies nothing but the
  command that reads exactly like it.\<close>

theorem inner_star_is_literal:
  assumes "\<not> HasPrefix (TrimSpace pattern) ''*''" and "\<not> HasSuffix (TrimSpace pattern) ''*''"
    and "TrimSpace pattern \<noteq> []" and "TrimSpace value \<noteq> []"
  shows "matchGlob pattern value \<longleftrightarrow> EqualFold (TrimSpace pattern) (TrimSpace value)"
  using assms by (auto simp: matchGlob_def Let_def)

theorem inner_star_is_literal_witness:
  "\<not> matchGlob ''rm * /'' ''rm -rf /''"
proof -
  have t: "TrimSpace ''rm * /'' = ''rm * /''" "TrimSpace ''rm -rf /'' = ''rm -rf /''" by code_simp+
  have "\<not> EqualFold ''rm * /'' ''rm -rf /''" by code_simp
  then show ?thesis
    using inner_star_is_literal [of "''rm * /''" "''rm -rf /''"] by (simp add: t suffix_def)
qed

end
