(* ===== verification/Connector_Runtime.thy ===== *)
theory Connector_Runtime
  imports Contracts
begin

text \<open>
  Selection of the connector an execution runs on: \<^verbatim>\<open>connectors/manifest.go\<close>,
  \<^verbatim>\<open>connectors/runtime_selection.go\<close> and the ranking of \<^verbatim>\<open>connectors/tool_plan_capabilities.go\<close>.
  A snapshot of the connector manager is the list of manifests and the recorded health by
  connector; \<open>None\<close> is a nil manager.  The candidates are ranked by health, protocol and
  identifier with a stable sort and the first that passes validation (and, if asked for, the
  health check) is taken.
\<close>

section \<open>Data\<close>

record Metadata =
  md_ID :: string
  md_Name :: string
  md_DisplayName :: string
  md_Vendor :: string
  md_Version :: string
  md_Description :: string
  md_OrgID :: string
  md_TenantID :: string
  md_WorkspaceID :: string

record Capability =
  ca_ID :: string
  ca_Action :: string
  ca_ReadOnly :: bool
  ca_Invocable :: bool
  ca_Scopes :: "string list"
  ca_Description :: string

record Field =
  fd_Key :: string
  fd_Label :: string
  fd_Type :: string
  fd_Required :: bool
  fd_Secret :: bool
  fd_Default :: string
  fd_Options :: "string list"
  fd_Description :: string

record ImportExport =
  ie_Exportable :: bool
  ie_Importable :: bool
  ie_Formats :: "string list"

record Spec =
  sp_Type :: string
  sp_Protocol :: string
  sp_Capabilities :: "Capability list"
  sp_ConnectionForm :: "Field list"
  sp_ImportExport :: ImportExport

record RuntimeConfig =
  rcf_Values :: strmap
  rcf_SecretRefs :: strmap

record Compatibility =
  cp_TARSMajorVersions :: "string list"
  cp_UpstreamMajorVersions :: "string list"
  cp_Modes :: "string list"

record MarketplaceMetadata =
  mk_Category :: string
  mk_Tags :: "string list"
  mk_Source :: string

record Manifest =
  mf_APIVersion :: string
  mf_Kind :: string
  mf_Disabled :: bool
  mf_Metadata :: Metadata
  mf_Spec :: Spec
  mf_Config :: RuntimeConfig
  mf_Compatibility :: Compatibility
  mf_Marketplace :: MarketplaceMetadata

record CompatibilityReport =
  cpr_Compatible :: bool
  cpr_CurrentTARSMajor :: string
  cpr_Reasons :: "string list"
  cpr_CheckedAt :: gotime

record HealthStatus =
  hs_Status :: string
  hs_CredentialStatus :: string
  hs_Summary :: string
  hs_CheckedAt :: gotime

definition zero_HealthStatus :: HealthStatus where
  "zero_HealthStatus = \<lparr>hs_Status = [], hs_CredentialStatus = [], hs_Summary = [], hs_CheckedAt = 0\<rparr>"

text \<open>The part of \<^verbatim>\<open>connectors.Snapshot\<close> that selection reads.\<close>

record Snapshot =
  sn_Entries :: "Manifest list"
  sn_Health :: "string \<rightharpoonup> HealthStatus"

datatype connector_error =
    ErrConnectorNotFound
  | ErrConnectorDisabled
  | ErrConnectorIncompatible string
  | ErrConnectorRuntimeUnsupported string

definition CurrentTARSMajorVersion :: string where "CurrentTARSMajorVersion = ''1''"

definition Enabled :: "Manifest \<Rightarrow> bool" where
  "Enabled m = (\<not> mf_Disabled m)"

section \<open>Validation\<close>

fun conn_firstNonEmpty :: "string list \<Rightarrow> string" where
  "conn_firstNonEmpty [] = []"
| "conn_firstNonEmpty (v # vs) = (if TrimSpace v \<noteq> [] then TrimSpace v else conn_firstNonEmpty vs)"

definition stringsJoin :: "string list \<Rightarrow> string \<Rightarrow> string" where
  "stringsJoin values sep =
     (case values of [] \<Rightarrow> [] | v # vs \<Rightarrow> foldl (\<lambda>result x. result @ sep @ x) v vs)"

definition joinNonEmpty :: "string list \<Rightarrow> string \<Rightarrow> string" where
  "joinNonEmpty values sep =
     conn_firstNonEmpty
       [stringsJoin (filter (\<lambda>v. v \<noteq> []) (map (\<lambda>v. conn_firstNonEmpty [v]) values)) sep]"

text \<open>The copies of this package trim and drop blank strings.\<close>

definition conn_cloneStrings :: "string list \<Rightarrow> string list" where
  "conn_cloneStrings input = filter (\<lambda>x. x \<noteq> []) (map TrimSpace input)"

definition CompatibilityReportForManifest :: "Manifest \<Rightarrow> CompatibilityReport" where
  "CompatibilityReportForManifest entry =
     (let versions = cp_TARSMajorVersions (mf_Compatibility entry);
          version_ok = (versions = [] \<or> CurrentTARSMajorVersion \<in> set versions);
          id_ok = (md_ID (mf_Metadata entry) \<noteq> []);
          reasons = (if version_ok then []
                     else [''connector is not compatible with current TARS major version'']) @
                    (if id_ok then [] else [''connector metadata.id is required''])
      in \<lparr>cpr_Compatible = (version_ok \<and> id_ok), cpr_CurrentTARSMajor = CurrentTARSMajorVersion,
          cpr_Reasons = conn_cloneStrings reasons, cpr_CheckedAt = 0\<rparr>)"

text \<open>An empty set of supported protocols means that every protocol is supported.\<close>

definition ValidateRuntimeManifest ::
  "Manifest \<Rightarrow> string \<Rightarrow> string \<Rightarrow> string list \<Rightarrow> connector_error option" where
  "ValidateRuntimeManifest entry expectedType requestedProtocol supportedProtocols =
     (if TrimSpace expectedType \<noteq> [] \<and> TrimSpace (sp_Type (mf_Spec entry)) \<noteq> TrimSpace expectedType
      then Some (ErrConnectorRuntimeUnsupported (''expected type '' @ TrimSpace expectedType))
      else if \<not> Enabled entry then Some ErrConnectorDisabled
      else
        (let compatibility = CompatibilityReportForManifest entry in
         if \<not> cpr_Compatible compatibility
         then Some (ErrConnectorIncompatible (joinNonEmpty (cpr_Reasons compatibility) ''; ''))
         else
           (let runtimeProtocol =
                  (if TrimSpace requestedProtocol = [] then TrimSpace (sp_Protocol (mf_Spec entry))
                   else TrimSpace requestedProtocol)
            in if supportedProtocols \<noteq> [] \<and> runtimeProtocol \<notin> set supportedProtocols
               then Some (ErrConnectorRuntimeUnsupported (''protocol '' @ runtimeProtocol))
               else None)))"

definition HealthStatusForManifest :: "Manifest \<Rightarrow> CompatibilityReport \<Rightarrow> gotime \<Rightarrow> HealthStatus" where
  "HealthStatusForManifest entry compatibility checkedAt =
     (let required = filter fd_Required (sp_ConnectionForm (mf_Spec entry));
          missing = (\<lambda>m f. case map_of m (fd_Key f) of None \<Rightarrow> True | Some v \<Rightarrow> v = []);
          missingSecrets = map fd_Label (filter (\<lambda>f. fd_Secret f \<and>
             missing (rcf_SecretRefs (mf_Config entry)) f) required);
          missingRequired = map fd_Label (filter (\<lambda>f. \<not> fd_Secret f \<and>
             missing (rcf_Values (mf_Config entry)) f) required)
      in if \<not> Enabled entry
         then \<lparr>hs_Status = ''disabled'', hs_CredentialStatus = ''configured'',
               hs_Summary = ''connector is disabled'', hs_CheckedAt = checkedAt\<rparr>
         else if \<not> cpr_Compatible compatibility
         then \<lparr>hs_Status = ''unhealthy'', hs_CredentialStatus = ''configured'',
               hs_Summary = conn_firstNonEmpty [joinNonEmpty (cpr_Reasons compatibility) ''; '',
                 ''connector compatibility check failed''], hs_CheckedAt = checkedAt\<rparr>
         else if missingRequired \<noteq> []
         then \<lparr>hs_Status = ''unhealthy'', hs_CredentialStatus = ''configured'',
               hs_Summary = ''missing required fields: '' @ joinNonEmpty missingRequired '', '',
               hs_CheckedAt = checkedAt\<rparr>
         else if missingSecrets \<noteq> []
         then \<lparr>hs_Status = ''unhealthy'', hs_CredentialStatus = ''missing_credentials'',
               hs_Summary = ''missing credentials: '' @ joinNonEmpty missingSecrets '', '',
               hs_CheckedAt = checkedAt\<rparr>
         else \<lparr>hs_Status = ''healthy'', hs_CredentialStatus = ''configured'',
               hs_Summary = ''connector is enabled and compatible'', hs_CheckedAt = checkedAt\<rparr>)"

definition NormalizeHealthStatus :: "string \<Rightarrow> string" where
  "NormalizeHealthStatus status =
     (let l = TrimSpace (ToLower status) in
      if l \<in> {''healthy'', ''unhealthy'', ''disabled'', ''unknown''} then l else ''unhealthy'')"

section \<open>Ranking\<close>

definition capabilityHealthRank :: "string \<Rightarrow> int" where
  "capabilityHealthRank status =
     (let l = ToLower (TrimSpace status) in
      if l = ''healthy'' then 0
      else if l = ''unknown'' \<or> l = [] then 1
      else if l = ''degraded'' then 2
      else if l = ''disabled'' then 3
      else 4)"

definition capabilityProtocolRank :: "Manifest \<Rightarrow> int" where
  "capabilityProtocolRank entry =
     (let l = ToLower (TrimSpace (sp_Protocol (mf_Spec entry))) in
      if l \<in> {''victoriametrics_http'', ''victorialogs_http'', ''prometheus_http'', ''jumpserver_api'',
               ''ssh_native''} then 0
      else if l \<in> {''observability_http'', ''log_file'', ''delivery_git'', ''delivery_github''} then 0
      else if l = ''stub'' then 2
      else 1)"

record rankedManifest =
  rk_manifest :: Manifest
  rk_healthRank :: int
  rk_protocolRank :: int
  rk_connectorIDRank :: string

definition ranked_less :: "rankedManifest \<Rightarrow> rankedManifest \<Rightarrow> bool" where
  "ranked_less a b =
     (if rk_healthRank a \<noteq> rk_healthRank b then rk_healthRank a < rk_healthRank b
      else if rk_protocolRank a \<noteq> rk_protocolRank b then rk_protocolRank a < rk_protocolRank b
      else rk_connectorIDRank a < rk_connectorIDRank b)"

definition lifecycle_health :: "Snapshot \<Rightarrow> Manifest \<Rightarrow> HealthStatus" where
  "lifecycle_health snapshot entry =
     (case sn_Health snapshot (TrimSpace (md_ID (mf_Metadata entry))) of
        None \<Rightarrow> zero_HealthStatus | Some h \<Rightarrow> h)"

definition rank_entry :: "Snapshot \<Rightarrow> Manifest \<Rightarrow> rankedManifest" where
  "rank_entry snapshot entry =
     \<lparr>rk_manifest = entry,
      rk_healthRank = capabilityHealthRank (hs_Status (lifecycle_health snapshot entry)),
      rk_protocolRank = capabilityProtocolRank entry,
      rk_connectorIDRank = TrimSpace (md_ID (mf_Metadata entry))\<rparr>"

definition prioritizedCapabilityEntries :: "Snapshot \<Rightarrow> Manifest list" where
  "prioritizedCapabilityEntries snapshot =
     map rk_manifest (slice_stable ranked_less (map (rank_entry snapshot)
       (filter (\<lambda>e. Enabled e \<and> cpr_Compatible (CompatibilityReportForManifest e))
         (sn_Entries snapshot))))"

section \<open>Selection\<close>

definition runtimeEntryIsHealthy :: "Manifest \<Rightarrow> HealthStatus \<Rightarrow> bool" where
  "runtimeEntryIsHealthy entry health =
     (if \<not> EqualFold (TrimSpace (hs_Status health)) ''healthy'' then False
      else if \<not> EqualFold (TrimSpace (sp_Type (mf_Spec entry))) ''execution'' then True
      else if \<not> EqualFold (TrimSpace (sp_Protocol (mf_Spec entry))) ''jumpserver_api'' then True
      else
        (let summary = ToLower (TrimSpace (hs_Summary health)) in
         \<not> (Contains summary ''api probe succeeded'' \<and>
            \<not> Contains summary ''execution runtime completed successfully'')))"

definition selectRuntimeManifest ::
  "Snapshot option \<Rightarrow> string \<Rightarrow> string \<Rightarrow> string list \<Rightarrow> bool \<Rightarrow> Manifest option" where
  "selectRuntimeManifest manager expectedType requestedProtocol supportedProtocols requireHealthy =
     (case manager of
        None \<Rightarrow> None
      | Some snapshot \<Rightarrow>
          find (\<lambda>entry.
            ValidateRuntimeManifest entry expectedType requestedProtocol supportedProtocols = None \<and>
            \<not> (requireHealthy \<and> \<not> runtimeEntryIsHealthy entry (lifecycle_health snapshot entry)))
          (prioritizedCapabilityEntries snapshot))"

definition SelectRuntimeManifest ::
  "Snapshot option \<Rightarrow> string \<Rightarrow> string \<Rightarrow> string list \<Rightarrow> Manifest option" where
  "SelectRuntimeManifest manager expectedType requestedProtocol supportedProtocols =
     selectRuntimeManifest manager expectedType requestedProtocol supportedProtocols False"

definition SelectHealthyRuntimeManifest ::
  "Snapshot option \<Rightarrow> string \<Rightarrow> string \<Rightarrow> string list \<Rightarrow> Manifest option" where
  "SelectHealthyRuntimeManifest manager expectedType requestedProtocol supportedProtocols =
     selectRuntimeManifest manager expectedType requestedProtocol supportedProtocols True"

text \<open>The replacer drops spaces, dashes and underscores.\<close>

definition normalizeRuntimeAlias :: "string \<Rightarrow> string" where
  "normalizeRuntimeAlias value =
     filter (\<lambda>c. c \<noteq> CHR '' '' \<and> c \<noteq> CHR ''-'' \<and> c \<noteq> CHR ''_'') (ToLower (TrimSpace value))"

definition runtimeManifestAliasMatches :: "Manifest \<Rightarrow> string \<Rightarrow> bool" where
  "runtimeManifestAliasMatches entry alias \<longleftrightarrow>
     (\<exists>candidate \<in> set [md_ID (mf_Metadata entry), md_Name (mf_Metadata entry),
        md_DisplayName (mf_Metadata entry), md_Vendor (mf_Metadata entry),
        sp_Protocol (mf_Spec entry), TrimSuffix (sp_Protocol (mf_Spec entry)) ''_http''].
        normalizeRuntimeAlias candidate = alias)"

definition resolveRuntimeManifestAlias ::
  "Snapshot \<Rightarrow> string \<Rightarrow> string \<Rightarrow> string \<Rightarrow> string list \<Rightarrow> Manifest option" where
  "resolveRuntimeManifestAlias snapshot connectorID expectedType requestedProtocol supportedProtocols =
     (let alias = ToLower (TrimSpace connectorID) in
      if alias = [] then None
      else
        (let matches = filter (\<lambda>entry. runtimeManifestAliasMatches entry alias \<and>
               \<not> (TrimSpace expectedType \<noteq> [] \<and>
                  TrimSpace (sp_Type (mf_Spec entry)) \<noteq> TrimSpace expectedType) \<and>
               \<not> (TrimSpace requestedProtocol \<noteq> [] \<and>
                  TrimSpace (sp_Protocol (mf_Spec entry)) \<noteq> TrimSpace requestedProtocol) \<and>
               (supportedProtocols = [] \<or>
                TrimSpace (sp_Protocol (mf_Spec entry)) \<in> set supportedProtocols))
             (sn_Entries snapshot)
         in case matches of [m] \<Rightarrow> Some m | _ \<Rightarrow> None))"

definition manager_Get :: "Snapshot \<Rightarrow> string \<Rightarrow> Manifest option" where
  "manager_Get snapshot cid =
     (if TrimSpace cid = [] then None
      else find (\<lambda>entry. md_ID (mf_Metadata entry) = TrimSpace cid) (sn_Entries snapshot))"

definition ResolveRuntimeManifest ::
  "Snapshot option \<Rightarrow> string \<Rightarrow> string \<Rightarrow> string \<Rightarrow> string list \<Rightarrow> connector_error + Manifest" where
  "ResolveRuntimeManifest manager connectorID expectedType requestedProtocol supportedProtocols =
     (case manager of
        None \<Rightarrow> Inl ErrConnectorNotFound
      | Some snapshot \<Rightarrow>
          (let cid = TrimSpace connectorID in
           if cid = [] then Inl ErrConnectorNotFound
           else
             (case (case manager_Get snapshot cid of
                      Some entry \<Rightarrow> Some entry
                    | None \<Rightarrow> resolveRuntimeManifestAlias snapshot cid expectedType requestedProtocol
                        supportedProtocols) of
                None \<Rightarrow> Inl ErrConnectorNotFound
              | Some entry \<Rightarrow>
                  (case ValidateRuntimeManifest entry expectedType requestedProtocol
                          supportedProtocols of
                     Some err \<Rightarrow> Inl err
                   | None \<Rightarrow> Inr entry))))"

definition DefaultExecutionMode :: "string \<Rightarrow> string" where
  "DefaultExecutionMode protocol =
     (let p = TrimSpace protocol in
      if p = ''jumpserver_api'' then ''jumpserver_job''
      else if p = ''ssh_native'' then ''ssh_native''
      else if p = [] then ''ssh''
      else p)"

section \<open>Lemmas\<close>

interpretation ranked: strict_weak_order ranked_less
  by unfold_locales (auto simp: ranked_less_def split: if_splits)

lemma set_prioritized:
  "set (prioritizedCapabilityEntries snapshot) =
     {e \<in> set (sn_Entries snapshot). Enabled e \<and> cpr_Compatible (CompatibilityReportForManifest e)}"
  by (force simp: prioritizedCapabilityEntries_def rank_entry_def)

lemma ValidateRuntimeManifest_None_iff:
  "ValidateRuntimeManifest entry ty pr prots = None \<longleftrightarrow>
     (TrimSpace ty = [] \<or> TrimSpace (sp_Type (mf_Spec entry)) = TrimSpace ty) \<and>
     Enabled entry \<and> cpr_Compatible (CompatibilityReportForManifest entry) \<and>
     (prots = [] \<or> (if TrimSpace pr = [] then TrimSpace (sp_Protocol (mf_Spec entry)) else TrimSpace pr)
        \<in> set prots)"
  by (auto simp: ValidateRuntimeManifest_def Let_def split: if_splits)

lemma prioritized_sorted:
  "sorted_wrt (\<lambda>a b. \<not> ranked_less (rank_entry s b) (rank_entry s a)) (prioritizedCapabilityEntries s)"
proof -
  let ?xs = "map (rank_entry s)
    (filter (\<lambda>e. Enabled e \<and> cpr_Compatible (CompatibilityReportForManifest e)) (sn_Entries s))"
  have rank_back: "rank_entry s (rk_manifest x) = x" if "x \<in> set (slice_stable ranked_less ?xs)" for x
    using that by (auto simp: rank_entry_def)
  have "sorted_wrt (\<lambda>a b. \<not> ranked_less b a) (slice_stable ranked_less ?xs)"
    by (rule ranked.sorted_slice_stable)
  then have "sorted_wrt (\<lambda>a b. \<not> ranked_less (rank_entry s (rk_manifest b)) (rank_entry s (rk_manifest a)))
      (slice_stable ranked_less ?xs)"
    by (rule sorted_wrt_mono_rel [rotated]) (use rank_back in auto)
  then show ?thesis by (simp add: prioritizedCapabilityEntries_def sorted_wrt_map)
qed

section \<open>Properties\<close>

text \<open>The selected runtime is usable and best ranked.  A connector picked by
  \<open>SelectHealthyRuntimeManifest\<close> is one of the registered manifests, is enabled, compatible, of the
  expected type and of a supported protocol, is healthy, and no other manifest with these
  properties ranks before it.\<close>

theorem selected_runtime_usable:
  assumes "SelectHealthyRuntimeManifest (Some s) ty pr prots = Some e"
  shows "e \<in> set (sn_Entries s) \<and> ValidateRuntimeManifest e ty pr prots = None \<and>
    runtimeEntryIsHealthy e (lifecycle_health s e) \<and>
    (\<forall>e' \<in> set (sn_Entries s). ValidateRuntimeManifest e' ty pr prots = None \<longrightarrow>
       runtimeEntryIsHealthy e' (lifecycle_health s e') \<longrightarrow>
       \<not> ranked_less (rank_entry s e') (rank_entry s e))"
proof -
  let ?P = "\<lambda>e. ValidateRuntimeManifest e ty pr prots = None \<and>
    \<not> (True \<and> \<not> runtimeEntryIsHealthy e (lifecycle_health s e))"
  let ?es = "prioritizedCapabilityEntries s"
  have "find ?P ?es = Some e"
    using assms by (simp add: SelectHealthyRuntimeManifest_def selectRuntimeManifest_def)
  then obtain i where i: "i < length ?es" "?P (?es ! i)" "e = ?es ! i" "\<forall>j < i. \<not> ?P (?es ! j)"
    by (auto simp: find_Some_iff)
  have e: "e \<in> set (sn_Entries s)" using i(1,3) set_prioritized nth_mem by blast
  have "\<not> ranked_less (rank_entry s e') (rank_entry s e)"
    if e': "e' \<in> set (sn_Entries s)" "?P e'" for e'
  proof -
    have "e' \<in> set ?es" using e' by (auto simp: set_prioritized ValidateRuntimeManifest_None_iff)
    then obtain j where j: "j < length ?es" "e' = ?es ! j" by (metis in_set_conv_nth)
    with i(4) e'(2) have "i \<le> j" by (meson not_less)
    then show ?thesis
      using sorted_wrt_nth_less [OF prioritized_sorted, of i j s] i(3) j ranked.lt_irrefl
      by (cases "i = j") auto
  qed
  with e i(2,3) show ?thesis by auto
qed

definition example_manifest :: "string \<Rightarrow> string \<Rightarrow> Manifest" where
  "example_manifest i protocol =
     \<lparr>mf_APIVersion = ''tars.connector/v1alpha1'', mf_Kind = ''connector'', mf_Disabled = False,
      mf_Metadata = \<lparr>md_ID = i, md_Name = i, md_DisplayName = i, md_Vendor = ''v'', md_Version = ''1'',
        md_Description = [], md_OrgID = [], md_TenantID = [], md_WorkspaceID = []\<rparr>,
      mf_Spec = \<lparr>sp_Type = ''execution'', sp_Protocol = protocol, sp_Capabilities = [], sp_ConnectionForm = [],
        sp_ImportExport = \<lparr>ie_Exportable = True, ie_Importable = True, ie_Formats = []\<rparr>\<rparr>,
      mf_Config = \<lparr>rcf_Values = [], rcf_SecretRefs = []\<rparr>,
      mf_Compatibility = \<lparr>cp_TARSMajorVersions = [''1''], cp_UpstreamMajorVersions = [], cp_Modes = []\<rparr>,
      mf_Marketplace = \<lparr>mk_Category = [], mk_Tags = [], mk_Source = []\<rparr>\<rparr>"

definition example_snapshot :: Snapshot where
  "example_snapshot =
     \<lparr>sn_Entries = [example_manifest ''b'' ''ssh_native'', example_manifest ''a'' ''jumpserver_api''],
      sn_Health = [''b'' \<mapsto> zero_HealthStatus\<lparr>hs_Status := ''healthy''\<rparr>,
        ''a'' \<mapsto> zero_HealthStatus\<lparr>hs_Status := ''healthy'', hs_Summary := ''API probe succeeded''\<rparr>]\<rparr>"

theorem selected_runtime_usable_witness:
  "runtimeEntryIsHealthy (example_manifest ''b'' ''ssh_native'')
     (lifecycle_health example_snapshot (example_manifest ''b'' ''ssh_native''))"
proof -
  have "SelectHealthyRuntimeManifest (Some example_snapshot) ''execution'' []
      [''jumpserver_api'', ''ssh_native''] = Some (example_manifest ''b'' ''ssh_native'')"
    by code_simp
  from selected_runtime_usable [OF this] show ?thesis by blast
qed

text \<open>An alias with a space, a dash or an underscore never resolves: the candidates lose these
  characters, the alias that they are compared with does not.\<close>

theorem alias_with_separator_fails:
  assumes "c \<in> set (ToLower (TrimSpace connectorID))" and "c \<in> {CHR '' '', CHR ''-'', CHR ''_''}"
  shows "resolveRuntimeManifestAlias s connectorID ty pr prots = None"
proof -
  have "c \<notin> set (normalizeRuntimeAlias v)" for v
    using assms(2) by (auto simp: normalizeRuntimeAlias_def)
  then have "normalizeRuntimeAlias v \<noteq> ToLower (TrimSpace connectorID)" for v
    using assms(1) by metis
  then have "\<not> runtimeManifestAliasMatches entry (ToLower (TrimSpace connectorID))" for entry
    by (simp add: runtimeManifestAliasMatches_def)
  then show ?thesis by (simp add: resolveRuntimeManifestAlias_def Let_def)
qed

theorem alias_with_separator_fails_witness:
  "resolveRuntimeManifestAlias example_snapshot ''ssh_native'' ''execution'' [] [] = None"
  by (rule alias_with_separator_fails [of "CHR ''_''"]) code_simp+

end
