(* ===== verification/Connector_Registry.thy ===== *)
theory Connector_Registry
  imports Connector_Runtime
begin

text \<open>
  The connector manager, \<^verbatim>\<open>internal/modules/connectors/manager.go\<close>: the registry of manifests with the
  lifecycle state of each connector, its history, the health that was recorded and the revisions
  an operator can roll back to.

  A manager is a record; its methods take the state and return the new one.  Methods that read the
  clock several times take the times as arguments.  The manager is never nil.  \<open>connector_env\<close> are
  the collaborators outside the program: the YAML codec, the file system (\<^verbatim>\<open>writeFileAtomically\<close> is
  \<open>cv_writeFile\<close>) and the SHA-256 digest.  A Go map of strings is an association list, whose order is
  the order in which it is ranged over.
\<close>

section \<open>Data\<close>

record ConnRuntimeMetadata =
  rtm_Type :: string
  rtm_Protocol :: string
  rtm_Vendor :: string
  rtm_Mode :: string

record LifecycleEvent =
  le_Type :: string
  le_Summary :: string
  le_Version :: string
  le_FromVersion :: string
  le_ToVersion :: string
  le_Enabled :: "bool option"
  le_Metadata :: strmap
  le_CreatedAt :: gotime

definition zero_LifecycleEvent :: LifecycleEvent where
  "zero_LifecycleEvent = \<lparr>le_Type = [], le_Summary = [], le_Version = [], le_FromVersion = [], le_ToVersion = [],
     le_Enabled = None, le_Metadata = [], le_CreatedAt = 0\<rparr>"

record RevisionSnapshot =
  rv_Version :: string
  rv_Manifest :: "Manifest option"
  rv_CreatedAt :: gotime
  rv_Reason :: string

record TemplateAssignment =
  ta_ID :: string
  ta_Name :: string
  ta_Description :: string
  ta_Values :: strmap
  ta_CreatedAt :: gotime

record LifecycleState =
  ls_ConnectorID :: string
  ls_DisplayName :: string
  ls_CurrentVersion :: string
  ls_AvailableVersion :: string
  ls_Enabled :: bool
  ls_InstalledAt :: gotime
  ls_UpdatedAt :: gotime
  ls_Runtime :: ConnRuntimeMetadata
  ls_Compatibility :: CompatibilityReport
  ls_Health :: HealthStatus
  ls_History :: "LifecycleEvent list"
  ls_HealthHistory :: "HealthStatus list"
  ls_Revisions :: "RevisionSnapshot list"
  ls_SecretRefs :: strmap
  ls_Templates :: "TemplateAssignment list"
  ls_LastFingerprint :: string

definition zero_LifecycleState :: LifecycleState where
  "zero_LifecycleState =
     \<lparr>ls_ConnectorID = [], ls_DisplayName = [], ls_CurrentVersion = [], ls_AvailableVersion = [],
      ls_Enabled = False, ls_InstalledAt = 0, ls_UpdatedAt = 0,
      ls_Runtime = \<lparr>rtm_Type = [], rtm_Protocol = [], rtm_Vendor = [], rtm_Mode = []\<rparr>,
      ls_Compatibility = \<lparr>cpr_Compatible = False, cpr_CurrentTARSMajor = [], cpr_Reasons = [], cpr_CheckedAt = 0\<rparr>,
      ls_Health = zero_HealthStatus, ls_History = [], ls_HealthHistory = [], ls_Revisions = [],
      ls_SecretRefs = [], ls_Templates = [], ls_LastFingerprint = []\<rparr>"

type_synonym lifecycle = "string \<rightharpoonup> LifecycleState"

record ConnManager =
  mg_path :: string
  mg_statePath :: string
  mg_content :: string
  mg_config :: "Manifest list option"
  mg_state :: lifecycle
  mg_persist :: "(Manifest list \<Rightarrow> lifecycle \<Rightarrow> go_error option) option"
  mg_updatedAt :: gotime

record connector_env =
  cv_marshal :: "Manifest list \<Rightarrow> string result"
  cv_unmarshal :: "string \<Rightarrow> Manifest list result"
  cv_marshalState :: "LifecycleState list \<Rightarrow> string result"
  cv_unmarshalState :: "string \<Rightarrow> LifecycleState list result"
  cv_readFile :: "string \<Rightarrow> string result"
  cv_notExist :: "go_error \<Rightarrow> bool"
  cv_writeFile :: "string \<Rightarrow> string \<Rightarrow> go_error option"
  cv_sha256 :: "string \<Rightarrow> string"

record UpgradeOptions =
  up_Manifest :: Manifest
  up_Reason :: string
  up_Available :: string

record RollbackOptions =
  rb_TargetVersion :: string
  rb_Reason :: string

definition ErrConfigPathNotSet :: go_error where
  "ErrConfigPathNotSet = Errorf ''connectors config path is not set''"

definition ErrNoConnector :: go_error where
  "ErrNoConnector = Errorf ''connector not found''"

abbreviation connector_id :: "Manifest \<Rightarrow> string" where
  "connector_id entry \<equiv> md_ID (mf_Metadata entry)"

abbreviation connector_version :: "Manifest \<Rightarrow> string" where
  "connector_version entry \<equiv> md_Version (mf_Metadata entry)"

section \<open>Copies\<close>

definition clone_pair :: "strmap \<Rightarrow> string \<times> string \<Rightarrow> strmap" where
  "clone_pair out kv =
     (let trimmedKey = TrimSpace (fst kv) in
      if trimmedKey = [] then out else map_put trimmedKey (TrimSpace (snd kv)) out)"

definition conn_cloneStringMap :: "strmap \<Rightarrow> strmap" where
  "conn_cloneStringMap input = foldl clone_pair [] input"

definition cloneCapabilities :: "Capability list \<Rightarrow> Capability list" where
  "cloneCapabilities input = map (\<lambda>item. item\<lparr>ca_Scopes := conn_cloneStrings (ca_Scopes item)\<rparr>) input"

definition cloneFields :: "Field list \<Rightarrow> Field list" where
  "cloneFields input = map (\<lambda>item. item\<lparr>fd_Options := conn_cloneStrings (fd_Options item)\<rparr>) input"

definition clone_manifest :: "Manifest \<Rightarrow> Manifest" where
  "clone_manifest item =
     item\<lparr>mf_Spec := (mf_Spec item)\<lparr>
            sp_Capabilities := cloneCapabilities (sp_Capabilities (mf_Spec item)),
            sp_ConnectionForm := cloneFields (sp_ConnectionForm (mf_Spec item)),
            sp_ImportExport := (sp_ImportExport (mf_Spec item))\<lparr>
              ie_Formats := conn_cloneStrings (ie_Formats (sp_ImportExport (mf_Spec item)))\<rparr>\<rparr>,
          mf_Config := \<lparr>rcf_Values = conn_cloneStringMap (rcf_Values (mf_Config item)),
                        rcf_SecretRefs = conn_cloneStringMap (rcf_SecretRefs (mf_Config item))\<rparr>,
          mf_Compatibility :=
            \<lparr>cp_TARSMajorVersions = conn_cloneStrings (cp_TARSMajorVersions (mf_Compatibility item)),
             cp_UpstreamMajorVersions = conn_cloneStrings (cp_UpstreamMajorVersions (mf_Compatibility item)),
             cp_Modes = conn_cloneStrings (cp_Modes (mf_Compatibility item))\<rparr>,
          mf_Marketplace := (mf_Marketplace item)\<lparr>mk_Tags := conn_cloneStrings (mk_Tags (mf_Marketplace item))\<rparr>\<rparr>"

definition cloneManifests :: "Manifest list \<Rightarrow> Manifest list" where
  "cloneManifests input = map clone_manifest input"

definition conn_cloneConfig :: "Manifest list \<Rightarrow> Manifest list" where
  "conn_cloneConfig entries = cloneManifests entries"

definition cloneRevisionSnapshots :: "RevisionSnapshot list \<Rightarrow> RevisionSnapshot list" where
  "cloneRevisionSnapshots input =
     map (\<lambda>item. item\<lparr>rv_Manifest := map_option clone_manifest (rv_Manifest item)\<rparr>) input"

definition cloneTemplateAssignments :: "TemplateAssignment list \<Rightarrow> TemplateAssignment list" where
  "cloneTemplateAssignments input =
     map (\<lambda>item. item\<lparr>ta_Values := conn_cloneStringMap (ta_Values item)\<rparr>) input"

definition cloneLifecycleEvents :: "LifecycleEvent list \<Rightarrow> LifecycleEvent list" where
  "cloneLifecycleEvents input =
     map (\<lambda>item. item\<lparr>le_Metadata := conn_cloneStringMap (le_Metadata item)\<rparr>) input"

definition cloneLifecycleState :: "LifecycleState \<Rightarrow> LifecycleState" where
  "cloneLifecycleState input =
     input\<lparr>ls_Compatibility := (ls_Compatibility input)\<lparr>
             cpr_Reasons := conn_cloneStrings (cpr_Reasons (ls_Compatibility input))\<rparr>,
           ls_History := cloneLifecycleEvents (ls_History input),
           ls_HealthHistory := ls_HealthHistory input,
           ls_Revisions := cloneRevisionSnapshots (ls_Revisions input),
           ls_SecretRefs := conn_cloneStringMap (ls_SecretRefs input),
           ls_Templates := cloneTemplateAssignments (ls_Templates input)\<rparr>"

definition cloneLifecycleMap :: "lifecycle \<Rightarrow> lifecycle" where
  "cloneLifecycleMap input = (\<lambda>key. map_option cloneLifecycleState (input key))"

section \<open>Manifests\<close>

definition trim_metadata :: "Metadata \<Rightarrow> Metadata" where
  "trim_metadata md =
     \<lparr>md_ID = TrimSpace (md_ID md), md_Name = TrimSpace (md_Name md),
      md_DisplayName = TrimSpace (md_DisplayName md), md_Vendor = TrimSpace (md_Vendor md),
      md_Version = TrimSpace (md_Version md), md_Description = TrimSpace (md_Description md),
      md_OrgID = TrimSpace (md_OrgID md), md_TenantID = TrimSpace (md_TenantID md),
      md_WorkspaceID = TrimSpace (md_WorkspaceID md)\<rparr>"

definition trim_capability :: "Capability \<Rightarrow> Capability" where
  "trim_capability c =
     c\<lparr>ca_ID := TrimSpace (ca_ID c), ca_Action := TrimSpace (ca_Action c),
       ca_Scopes := conn_cloneStrings (ca_Scopes c), ca_Description := TrimSpace (ca_Description c)\<rparr>"

definition trim_field :: "Field \<Rightarrow> Field" where
  "trim_field f =
     f\<lparr>fd_Key := TrimSpace (fd_Key f), fd_Label := TrimSpace (fd_Label f), fd_Type := TrimSpace (fd_Type f),
       fd_Default := TrimSpace (fd_Default f), fd_Options := conn_cloneStrings (fd_Options f),
       fd_Description := TrimSpace (fd_Description f)\<rparr>"

text \<open>The names that are filled in from each other.\<close>

definition fill_names :: "Metadata \<Rightarrow> Metadata" where
  "fill_names md0 =
     (let md1 = (if md_DisplayName md0 = []
                 then md0\<lparr>md_DisplayName := conn_firstNonEmpty [md_Name md0, md_ID md0]\<rparr> else md0)
      in if md_Name md1 = [] then md1\<lparr>md_Name := conn_firstNonEmpty [md_ID md1, md_DisplayName md1]\<rparr> else md1)"

definition validateSSHSecretCustody :: "Manifest \<Rightarrow> go_error option" where
  "validateSSHSecretCustody entry =
     (let protocol = TrimSpace (sp_Protocol (mf_Spec entry)) in
      if protocol \<noteq> ''ssh_native'' \<and> protocol \<noteq> ''ssh_shell'' then None
      else
        map_option (\<lambda>key. Errorf (''ssh connector secret material must be stored via credential custody; inline '' @
            key @ '' is not allowed''))
          (find (\<lambda>key. case map_of (rcf_Values (mf_Config entry)) key of
                         None \<Rightarrow> False | Some value \<Rightarrow> TrimSpace value \<noteq> [])
            [''password'', ''private_key'', ''passphrase'']))"

definition ValidateManifest :: "Manifest \<Rightarrow> go_error option" where
  "ValidateManifest entry =
     (if TrimSpace (mf_APIVersion entry) \<notin> {[], ''tars.connector/v1alpha1''}
      then Some (Errorf ''manifest api_version must be tars.connector/v1alpha1'')
      else if TrimSpace (mf_Kind entry) \<noteq> ''connector'' then Some (Errorf ''manifest kind must be connector'')
      else if TrimSpace (connector_id entry) = [] then Some (Errorf ''metadata.id is required'')
      else if TrimSpace (sp_Type (mf_Spec entry)) = [] then Some (Errorf ''spec.type is required'')
      else if TrimSpace (sp_Protocol (mf_Spec entry)) = [] then Some (Errorf ''spec.protocol is required'')
      else validateSSHSecretCustody entry)"

definition normalized_manifest :: "Manifest \<Rightarrow> Manifest" where
  "normalized_manifest entry0 =
     (let entry = clone_manifest entry0;
          api = TrimSpace (mf_APIVersion entry0); kind = TrimSpace (mf_Kind entry0);
          spec = mf_Spec entry; market = mf_Marketplace entry
      in entry\<lparr>mf_APIVersion := (if api = [] then ''tars.connector/v1alpha1'' else api),
               mf_Kind := (if kind = [] then ''connector'' else kind),
               mf_Metadata := fill_names (trim_metadata (mf_Metadata entry)),
               mf_Spec := spec\<lparr>sp_Type := TrimSpace (sp_Type spec), sp_Protocol := TrimSpace (sp_Protocol spec),
                 sp_Capabilities := map trim_capability (sp_Capabilities spec),
                 sp_ConnectionForm := map trim_field (sp_ConnectionForm spec)\<rparr>,
               mf_Marketplace := market\<lparr>mk_Category := TrimSpace (mk_Category market),
                 mk_Source := TrimSpace (mk_Source market)\<rparr>\<rparr>)"

definition normalizeManifest :: "Manifest \<Rightarrow> Manifest result" where
  "normalizeManifest entry =
     (case ValidateManifest (normalized_manifest entry) of
        Some err \<Rightarrow> Inl err
      | None \<Rightarrow> Inr (normalized_manifest entry))"

definition conn_normalizeConfig :: "Manifest list \<Rightarrow> Manifest list" where
  "conn_normalizeConfig entries =
     slice_stable (\<lambda>a b. connector_id a < connector_id b) (cloneManifests entries)"

definition conn_EncodeConfig :: "connector_env \<Rightarrow> Manifest list \<Rightarrow> string result" where
  "conn_EncodeConfig env entries = cv_marshal env (cloneManifests (conn_normalizeConfig entries))"

fun normalize_entries :: "Manifest list \<Rightarrow> Manifest list result" where
  "normalize_entries [] = Inr []"
| "normalize_entries (entry # entries) =
     (case normalizeManifest entry of
        Inl err \<Rightarrow> Inl err
      | Inr normalized \<Rightarrow>
          (case normalize_entries entries of Inl err \<Rightarrow> Inl err | Inr es \<Rightarrow> Inr (normalized # es)))"

definition conn_ParseConfig :: "connector_env \<Rightarrow> string \<Rightarrow> (Manifest list \<times> string) result" where
  "conn_ParseConfig env content =
     (case cv_unmarshal env content of
        Inl err \<Rightarrow> Inl err
      | Inr raw \<Rightarrow>
          (case normalize_entries raw of
             Inl err \<Rightarrow> Inl err
           | Inr entries \<Rightarrow>
               (let cfg = conn_normalizeConfig entries in
                case conn_EncodeConfig env cfg of Inl err \<Rightarrow> Inl err | Inr encoded \<Rightarrow> Inr (cfg, encoded))))"

definition SupportsCurrentTARSMajor :: "Manifest \<Rightarrow> bool" where
  "SupportsCurrentTARSMajor entry = cpr_Compatible (CompatibilityReportForManifest entry)"

fun ValidateConfigCompatibility :: "Manifest list \<Rightarrow> go_error option" where
  "ValidateConfigCompatibility [] = None"
| "ValidateConfigCompatibility (entry # entries) =
     (let compatibility = CompatibilityReportForManifest entry in
      if cpr_Compatible compatibility then ValidateConfigCompatibility entries
      else Some (Errorf (''connector '' @
        conn_firstNonEmpty [md_ID (mf_Metadata entry), md_Name (mf_Metadata entry), md_DisplayName (mf_Metadata entry)] @
        '' is incompatible: '' @ joinNonEmpty (cpr_Reasons compatibility) ''; '')))"

definition manifestFingerprint :: "connector_env \<Rightarrow> Manifest \<Rightarrow> string" where
  "manifestFingerprint env entry =
     (case conn_EncodeConfig env [entry] of Inl _ \<Rightarrow> [] | Inr encoded \<Rightarrow> cv_sha256 env encoded)"

definition RuntimeMetadataForManifest :: "Manifest \<Rightarrow> ConnRuntimeMetadata" where
  "RuntimeMetadataForManifest entry =
     \<lparr>rtm_Type = sp_Type (mf_Spec entry), rtm_Protocol = sp_Protocol (mf_Spec entry),
      rtm_Vendor = md_Vendor (mf_Metadata entry),
      rtm_Mode = (case cp_Modes (mf_Compatibility entry) of [] \<Rightarrow> ''managed'' | mode # _ \<Rightarrow> mode)\<rparr>"

section \<open>Histories\<close>

definition appendHealthHistory :: "HealthStatus list \<Rightarrow> HealthStatus \<Rightarrow> HealthStatus list" where
  "appendHealthHistory history health =
     (if hs_Status health = [] then history
      else if history \<noteq> [] \<and> hs_Status (last history) = hs_Status health \<and>
              hs_Summary (last history) = hs_Summary health
      then butlast history @ [health]
      else
        (let history' = history @ [health] in
         if length history' > 20 then drop (length history' - 20) history' else history'))"

definition same_revision :: "connector_env \<Rightarrow> Manifest \<Rightarrow> string \<Rightarrow> RevisionSnapshot \<Rightarrow> bool" where
  "same_revision env manifest reason item \<longleftrightarrow>
     rv_Version item = connector_version manifest \<and> rv_Reason item = reason \<and>
     (case rv_Manifest item of
        None \<Rightarrow> False
      | Some recorded \<Rightarrow> manifestFingerprint env recorded = manifestFingerprint env manifest)"

fun touch_revision ::
  "connector_env \<Rightarrow> Manifest \<Rightarrow> gotime \<Rightarrow> string \<Rightarrow> RevisionSnapshot list \<Rightarrow> RevisionSnapshot list option" where
  "touch_revision env manifest createdAt reason [] = None"
| "touch_revision env manifest createdAt reason (item # items) =
     (if same_revision env manifest reason item
      then Some (item\<lparr>rv_CreatedAt := createdAt, rv_Reason := reason\<rparr> # items)
      else map_option ((#) item) (touch_revision env manifest createdAt reason items))"

definition appendRevision ::
  "connector_env \<Rightarrow> gotime \<Rightarrow> RevisionSnapshot list \<Rightarrow> Manifest \<Rightarrow> gotime \<Rightarrow> string \<Rightarrow> RevisionSnapshot list" where
  "appendRevision env clock history manifest createdAt0 reason =
     (let createdAt = (if IsZero createdAt0 then clock else createdAt0) in
      case touch_revision env manifest createdAt reason history of
        Some history' \<Rightarrow> history'
      | None \<Rightarrow>
          (let history' = slice_stable (\<lambda>a b. rv_CreatedAt a < rv_CreatedAt b)
                 (history @ [\<lparr>rv_Version = connector_version manifest,
                              rv_Manifest = Some (clone_manifest manifest),
                              rv_CreatedAt = createdAt, rv_Reason = reason\<rparr>])
           in if length history' > 10 then drop (length history' - 10) history' else history'))"

definition pendingRuntimeProbeHealth :: "Manifest \<Rightarrow> CompatibilityReport \<Rightarrow> gotime \<Rightarrow> HealthStatus" where
  "pendingRuntimeProbeHealth entry compatibility checkedAt =
     (if \<not> Enabled entry \<or> \<not> cpr_Compatible compatibility
      then HealthStatusForManifest entry compatibility checkedAt
      else \<lparr>hs_Status = ''unknown'', hs_CredentialStatus = [],
            hs_Summary = ''runtime health check required after connector change'', hs_CheckedAt = checkedAt\<rparr>)"

text \<open>Dropping the last item that satisfies a condition.\<close>

fun drop_first :: "('a \<Rightarrow> bool) \<Rightarrow> 'a list \<Rightarrow> 'a list" where
  "drop_first P [] = []"
| "drop_first P (x # xs) = (if P x then xs else x # drop_first P xs)"

definition pruneRollbackAutoTransition :: "LifecycleEvent list \<Rightarrow> string \<Rightarrow> string \<Rightarrow> LifecycleEvent list" where
  "pruneRollbackAutoTransition history fromVersion toVersion =
     rev (drop_first (\<lambda>item. le_Type item = ''upgrade'' \<and> le_FromVersion item = fromVersion \<and>
        le_ToVersion item = toVersion) (rev history))"

definition pruneRollbackAutoRevision ::
  "connector_env \<Rightarrow> RevisionSnapshot list \<Rightarrow> Manifest \<Rightarrow> RevisionSnapshot list" where
  "pruneRollbackAutoRevision env history target =
     rev (drop_first (same_revision env target ''upgrade'') (rev history))"

section \<open>Synchronising the lifecycle with the configuration\<close>

definition shouldPreserveRecordedHealth ::
  "HealthStatus \<Rightarrow> HealthStatus \<Rightarrow> bool \<Rightarrow> bool \<Rightarrow> string \<Rightarrow> string \<Rightarrow> bool" where
  "shouldPreserveRecordedHealth previous fallback enabled compatible previousFingerprint currentFingerprint =
     (if hs_Status previous = [] then False
      else if \<not> enabled \<or> \<not> compatible then False
      else if previousFingerprint = [] \<or> previousFingerprint \<noteq> currentFingerprint then False
      else if hs_Status previous \<noteq> hs_Status fallback then False
      else if hs_Summary previous = [] \<or> hs_Summary previous = hs_Summary fallback then False
      else if IsZero (hs_CheckedAt previous) then False
      else True)"

definition lifecycleEventTypeForVersion :: "string \<Rightarrow> string \<Rightarrow> string" where
  "lifecycleEventTypeForVersion previous current =
     (if previous = [] then ''install'' else if current = [] then ''update'' else ''upgrade'')"

text \<open>A later entry with the same identifier wins.\<close>

definition manifestMap :: "Manifest list \<Rightarrow> string \<rightharpoonup> Manifest" where
  "manifestMap entries = foldl (\<lambda>out entry. out(connector_id entry \<mapsto> entry)) Map.empty entries"

text \<open>The branch that records what happened to the connector.\<close>

definition sync_history ::
  "connector_env \<Rightarrow> gotime \<Rightarrow> bool \<Rightarrow> Manifest option \<Rightarrow> Manifest \<Rightarrow> LifecycleState \<Rightarrow> LifecycleState" where
  "sync_history env now found previousEntry entry item =
     (let version = connector_version entry; enabled = Some (Enabled entry) in
      if \<not> found then
        item\<lparr>ls_History := ls_History item @ [zero_LifecycleEvent\<lparr>
               le_Type := ''install'', le_Summary := ''connector installed'', le_Version := version,
               le_ToVersion := version, le_Enabled := enabled, le_CreatedAt := now\<rparr>],
             ls_Revisions := appendRevision env now (ls_Revisions item) entry now ''install''\<rparr>
      else
        (case previousEntry of
           None \<Rightarrow> item
         | Some p \<Rightarrow>
             if connector_version p \<noteq> version then
               item\<lparr>ls_History := ls_History item @ [zero_LifecycleEvent\<lparr>
                      le_Type := lifecycleEventTypeForVersion (connector_version p) version,
                      le_Summary := connector_version p @ '' -> '' @ version, le_Version := version,
                      le_FromVersion := connector_version p, le_ToVersion := version,
                      le_Enabled := enabled, le_CreatedAt := now\<rparr>],
                    ls_Revisions := appendRevision env now (ls_Revisions item) entry now ''upgrade''\<rparr>
             else if mf_Disabled p \<noteq> mf_Disabled entry then
               item\<lparr>ls_History := ls_History item @ [zero_LifecycleEvent\<lparr>
                      le_Type := (if Enabled entry then ''enable'' else ''disable''),
                      le_Summary := (if Enabled entry then ''connector enabled'' else ''connector disabled''),
                      le_Version := version, le_Enabled := enabled, le_CreatedAt := now\<rparr>]\<rparr>
             else if ls_LastFingerprint item \<noteq> [] \<and> ls_LastFingerprint item \<noteq> manifestFingerprint env entry then
               item\<lparr>ls_History := ls_History item @ [zero_LifecycleEvent\<lparr>
                      le_Type := ''update'', le_Summary := ''connector manifest updated'', le_Version := version,
                      le_ToVersion := version, le_Enabled := enabled, le_CreatedAt := now\<rparr>],
                    ls_Revisions := appendRevision env now (ls_Revisions item) entry now ''update''\<rparr>
             else item))"

text \<open>The fields that are copied from the manifest.\<close>

definition describe_manifest :: "gotime \<Rightarrow> string \<Rightarrow> Manifest \<Rightarrow> CompatibilityReport \<Rightarrow> LifecycleState \<Rightarrow> LifecycleState" where
  "describe_manifest now cid entry compatibility item =
     (let md = mf_Metadata entry in
      item\<lparr>ls_ConnectorID := cid,
           ls_DisplayName := conn_firstNonEmpty [md_DisplayName md, md_Name md, md_ID md],
           ls_CurrentVersion := md_Version md,
           ls_AvailableVersion := conn_firstNonEmpty [ls_AvailableVersion item, md_Version md],
           ls_Enabled := Enabled entry,
           ls_Runtime := RuntimeMetadataForManifest entry,
           ls_Compatibility := compatibility,
           ls_SecretRefs := conn_cloneStringMap (rcf_SecretRefs (mf_Config entry)),
           ls_UpdatedAt := now,
           ls_InstalledAt := (if IsZero (ls_InstalledAt item) then now else ls_InstalledAt item)\<rparr>)"

text \<open>The health that the connector has after the change.\<close>

definition sync_health :: "bool \<Rightarrow> Manifest \<Rightarrow> HealthStatus \<Rightarrow> HealthStatus \<Rightarrow> string \<Rightarrow> LifecycleState \<Rightarrow> LifecycleState" where
  "sync_health found entry previousHealth derived fingerprint item =
     (let preserve = shouldPreserveRecordedHealth previousHealth derived (Enabled entry)
            (cpr_Compatible (ls_Compatibility item)) (ls_LastFingerprint item) fingerprint;
          health = (if preserve then previousHealth else derived);
          healthChanged = (\<not> preserve \<and> (hs_Status previousHealth \<noteq> hs_Status derived \<or>
            hs_Summary previousHealth \<noteq> hs_Summary derived))
      in item\<lparr>ls_Health := health,
              ls_HealthHistory := (if \<not> found \<or> healthChanged then appendHealthHistory (ls_HealthHistory item) health
                                   else ls_HealthHistory item),
              ls_LastFingerprint := fingerprint\<rparr>)"

definition sync_item ::
  "connector_env \<Rightarrow> gotime \<Rightarrow> string \<Rightarrow> LifecycleState option \<Rightarrow> Manifest option \<Rightarrow> Manifest \<Rightarrow> LifecycleState" where
  "sync_item env now cid existing previousEntry entry =
     (let compatibility = (CompatibilityReportForManifest entry)\<lparr>cpr_CheckedAt := now\<rparr>;
          found = (existing \<noteq> None);
          item = (case existing of
                     Some st \<Rightarrow> st
                   | None \<Rightarrow> zero_LifecycleState\<lparr>ls_ConnectorID := cid, ls_InstalledAt := now\<rparr>)
      in sync_health found entry (ls_Health item) (HealthStatusForManifest entry compatibility now)
           (manifestFingerprint env entry)
           (sync_history env now found previousEntry entry (describe_manifest now cid entry compatibility item)))"

text \<open>The connectors are independent of each other, so the order of the two loops does not matter.\<close>

definition syncLifecycleState ::
  "connector_env \<Rightarrow> lifecycle \<Rightarrow> Manifest list option \<Rightarrow> Manifest list \<Rightarrow> gotime \<Rightarrow> lifecycle" where
  "syncLifecycleState env existing previous current now =
     (let state = cloneLifecycleMap existing;
          previousByID = (case previous of None \<Rightarrow> Map.empty | Some es \<Rightarrow> manifestMap es)
      in (\<lambda>cid. map_option (sync_item env now cid (state cid) (previousByID cid)) (manifestMap current cid)))"

section \<open>The manager\<close>

definition lifecycleStatePath :: "string \<Rightarrow> string" where
  "lifecycleStatePath path = (if TrimSpace path = [] then [] else TrimSpace path @ ''.state.yaml'')"

text \<open>\<open>ids\<close> are the keys of the state, in the order in which the map is ranged over.\<close>

definition saveLifecycleStateFile :: "connector_env \<Rightarrow> string list \<Rightarrow> string \<Rightarrow> lifecycle \<Rightarrow> go_error option" where
  "saveLifecycleStateFile env ids path state =
     (if TrimSpace path = [] then None
      else
        (case cv_marshalState env (List.map_filter (\<lambda>cid. map_option cloneLifecycleState (state cid)) (sort ids)) of
           Inl err \<Rightarrow> Some err
         | Inr content \<Rightarrow> cv_writeFile env path content))"

definition loadLifecycleStateFile :: "connector_env \<Rightarrow> string \<Rightarrow> lifecycle result" where
  "loadLifecycleStateFile env path =
     (if TrimSpace path = [] then Inr Map.empty
      else
        (case cv_readFile env path of
           Inl err \<Rightarrow> if cv_notExist env err then Inr Map.empty else Inl err
         | Inr content \<Rightarrow>
             (case cv_unmarshalState env content of
                Inl err \<Rightarrow> Inl err
              | Inr entries \<Rightarrow>
                  Inr (foldl (\<lambda>out entry.
                         let cid = TrimSpace (ls_ConnectorID entry) in
                         if cid = [] then out else out(cid \<mapsto> cloneLifecycleState entry)) Map.empty entries))))"

definition stored_entries :: "ConnManager \<Rightarrow> Manifest list" where
  "stored_entries m = (case mg_config m of None \<Rightarrow> [] | Some es \<Rightarrow> conn_cloneConfig es)"

definition run_persist :: "ConnManager \<Rightarrow> Manifest list \<Rightarrow> lifecycle \<Rightarrow> go_error option" where
  "run_persist m entries state =
     (case mg_persist m of None \<Rightarrow> None | Some persist \<Rightarrow> persist entries state)"

definition saveConfigAndState ::
  "connector_env \<Rightarrow> string list \<Rightarrow> gotime \<Rightarrow> Manifest list \<Rightarrow> string \<Rightarrow> ConnManager \<Rightarrow> go_error option \<times> ConnManager" where
  "saveConfigAndState env ids now cfg normalized m =
     (if TrimSpace (mg_path m) = [] then (Some ErrConfigPathNotSet, m)
      else
        (let previous = map_option conn_cloneConfig (mg_config m);
             state = syncLifecycleState env (cloneLifecycleMap (mg_state m)) previous cfg now
         in case cv_writeFile env (mg_path m) normalized of
              Some err \<Rightarrow> (Some err, m)
            | None \<Rightarrow>
                (case saveLifecycleStateFile env ids (mg_statePath m) state of
                   Some err \<Rightarrow> (Some err, m)
                 | None \<Rightarrow>
                     (let m' = m\<lparr>mg_content := normalized, mg_config := Some cfg, mg_state := state,
                                mg_updatedAt := now\<rparr>
                      in (run_persist m' (conn_cloneConfig cfg) (cloneLifecycleMap state), m')))))"

definition SaveConfig ::
  "connector_env \<Rightarrow> string list \<Rightarrow> gotime \<Rightarrow> Manifest list \<Rightarrow> ConnManager \<Rightarrow> go_error option \<times> ConnManager" where
  "SaveConfig env ids now cfg m =
     (case ValidateConfigCompatibility cfg of
        Some err \<Rightarrow> (Some err, m)
      | None \<Rightarrow>
          (case conn_EncodeConfig env cfg of
             Inl err \<Rightarrow> (Some err, m)
           | Inr content \<Rightarrow>
               if TrimSpace (mg_path m) = [] then
                 (let previous = map_option conn_cloneConfig (mg_config m);
                      cfg' = conn_normalizeConfig cfg
                  in case conn_EncodeConfig env cfg' of
                       Inl err \<Rightarrow> (Some err, m)
                     | Inr content' \<Rightarrow>
                         (let state = syncLifecycleState env (cloneLifecycleMap (mg_state m)) previous cfg' now;
                              m' = m\<lparr>mg_content := content', mg_config := Some cfg', mg_state := state,
                                     mg_updatedAt := now\<rparr>
                          in (run_persist m' (conn_cloneConfig cfg') (cloneLifecycleMap state), m')))
               else saveConfigAndState env ids now cfg content m))"

definition Save ::
  "connector_env \<Rightarrow> string list \<Rightarrow> gotime \<Rightarrow> string \<Rightarrow> ConnManager \<Rightarrow> go_error option \<times> ConnManager" where
  "Save env ids now content m =
     (case conn_ParseConfig env content of
        Inl err \<Rightarrow> (Some err, m)
      | Inr (cfg, normalized) \<Rightarrow>
          (case ValidateConfigCompatibility cfg of
             Some err \<Rightarrow> (Some err, m)
           | None \<Rightarrow>
               if TrimSpace (mg_path m) = [] then SaveConfig env ids now cfg m
               else saveConfigAndState env ids now cfg normalized m))"

definition Reload :: "connector_env \<Rightarrow> gotime \<Rightarrow> ConnManager \<Rightarrow> go_error option \<times> ConnManager" where
  "Reload env now m =
     (if TrimSpace (mg_path m) = [] then (None, m)
      else
        (case cv_readFile env (mg_path m) of
           Inl err \<Rightarrow> (Some err, m)
         | Inr content \<Rightarrow>
             (case conn_ParseConfig env content of
                Inl err \<Rightarrow> (Some err, m)
              | Inr (cfg, normalized) \<Rightarrow>
                  (case loadLifecycleStateFile env (mg_statePath m) of
                     Inl err \<Rightarrow> (Some err, m)
                   | Inr state \<Rightarrow>
                       (None, m\<lparr>mg_content := normalized, mg_config := Some cfg,
                                mg_state := syncLifecycleState env state None cfg now, mg_updatedAt := now\<rparr>)))))"

definition NewManager :: "connector_env \<Rightarrow> gotime \<Rightarrow> string \<Rightarrow> ConnManager result" where
  "NewManager env now path =
     (let m = \<lparr>mg_path = path, mg_statePath = lifecycleStatePath path, mg_content = [], mg_config = None,
               mg_state = Map.empty, mg_persist = None, mg_updatedAt = 0\<rparr>
      in if TrimSpace path = [] then Inr (m\<lparr>mg_config := Some []\<rparr>)
         else (case Reload env now m of (Some err, _) \<Rightarrow> Inl err | (None, m') \<Rightarrow> Inr m'))"

definition SetPersistence ::
  "(Manifest list \<Rightarrow> lifecycle \<Rightarrow> go_error option) option \<Rightarrow> ConnManager \<Rightarrow> ConnManager" where
  "SetPersistence persist m = m\<lparr>mg_persist := persist\<rparr>"

text \<open>\<^verbatim>\<open>len(state) == 0\<close> is an empty map.\<close>

definition LoadRuntimeState ::
  "connector_env \<Rightarrow> gotime \<Rightarrow> gotime \<Rightarrow> Manifest list \<Rightarrow> (string \<times> LifecycleState) list \<Rightarrow> ConnManager \<Rightarrow>
     go_error option \<times> ConnManager" where
  "LoadRuntimeState env now storedAt cfg lifecycle m =
     (case ValidateConfigCompatibility cfg of
        Some err \<Rightarrow> (Some err, m)
      | None \<Rightarrow>
          (case conn_EncodeConfig env cfg of
             Inl err \<Rightarrow> (Some err, m)
           | Inr _ \<Rightarrow>
               (let cfg' = conn_normalizeConfig cfg in
                case conn_EncodeConfig env cfg' of
                  Inl err \<Rightarrow> (Some err, m)
                | Inr content \<Rightarrow>
                    (let state = cloneLifecycleMap (map_of lifecycle);
                         state' = (if lifecycle = [] then syncLifecycleState env state None cfg' now else state)
                     in (None, m\<lparr>mg_content := content, mg_config := Some cfg', mg_state := state',
                                 mg_updatedAt := storedAt\<rparr>)))))"

text \<open>The first entry with the identifier is replaced.\<close>

fun replace_entry :: "string \<Rightarrow> (Manifest \<Rightarrow> Manifest) \<Rightarrow> Manifest list \<Rightarrow> Manifest list option" where
  "replace_entry cid f [] = None"
| "replace_entry cid f (entry # entries) =
     (if connector_id entry = cid then Some (f entry # entries)
      else map_option ((#) entry) (replace_entry cid f entries))"

definition Upsert ::
  "connector_env \<Rightarrow> string list \<Rightarrow> gotime \<Rightarrow> Manifest \<Rightarrow> ConnManager \<Rightarrow> go_error option \<times> ConnManager" where
  "Upsert env ids now entry m =
     (let current = stored_entries m in
      case normalizeManifest entry of
        Inl err \<Rightarrow> (Some err, m)
      | Inr normalized \<Rightarrow>
          SaveConfig env ids now
            (case replace_entry (connector_id normalized) (\<lambda>_. normalized) current of
               Some entries \<Rightarrow> entries
             | None \<Rightarrow> current @ [normalized]) m)"

definition conn_Snapshot :: "ConnManager \<Rightarrow> Snapshot" where
  "conn_Snapshot m =
     \<lparr>sn_Entries = stored_entries m,
      sn_Health = (\<lambda>cid. map_option ls_Health (cloneLifecycleMap (mg_state m) cid))\<rparr>"

definition conn_Get :: "string \<Rightarrow> ConnManager \<Rightarrow> Manifest option" where
  "conn_Get cid m =
     (if TrimSpace cid = [] then None
      else (case mg_config m of
              None \<Rightarrow> None
            | Some entries \<Rightarrow>
                map_option clone_manifest (find (\<lambda>entry. connector_id entry = TrimSpace cid) entries)))"

definition GetLifecycle :: "string \<Rightarrow> ConnManager \<Rightarrow> LifecycleState option" where
  "GetLifecycle cid m =
     (if TrimSpace cid = [] then None else map_option cloneLifecycleState (mg_state m (TrimSpace cid)))"

definition ListLifecycle :: "string list \<Rightarrow> ConnManager \<Rightarrow> LifecycleState list" where
  "ListLifecycle ids m =
     slice_stable (\<lambda>a b. ls_ConnectorID a < ls_ConnectorID b)
       (List.map_filter (\<lambda>cid. map_option cloneLifecycleState (mg_state m cid)) ids)"

text \<open>Writing the state file, if the manager has a path, and calling the persistence callback.\<close>

definition store_state :: "connector_env \<Rightarrow> string list \<Rightarrow> ConnManager \<Rightarrow> go_error option" where
  "store_state env ids m =
     (let stateMap = cloneLifecycleMap (mg_state m) in
      case (if TrimSpace (mg_path m) \<noteq> [] then saveLifecycleStateFile env ids (mg_statePath m) stateMap else None) of
        Some err \<Rightarrow> Some err
      | None \<Rightarrow> run_persist m (stored_entries m) stateMap)"

definition RecordHealth ::
  "connector_env \<Rightarrow> string list \<Rightarrow> gotime \<Rightarrow> string \<Rightarrow> string \<Rightarrow> string \<Rightarrow> gotime \<Rightarrow> ConnManager \<Rightarrow>
     LifecycleState result \<times> ConnManager" where
  "RecordHealth env ids now cid0 status summary checkedAt0 m =
     (let cid = TrimSpace cid0; checkedAt = (if IsZero checkedAt0 then now else checkedAt0) in
      if cid = [] then (Inl ErrNoConnector, m)
      else
        (case mg_state m cid of
           None \<Rightarrow> (Inl ErrNoConnector, m)
         | Some state0 \<Rightarrow>
             (let health = \<lparr>hs_Status = TrimSpace status, hs_CredentialStatus = [],
                            hs_Summary = TrimSpace summary, hs_CheckedAt = checkedAt\<rparr>;
                  state = state0\<lparr>ls_Health := health, ls_UpdatedAt := checkedAt,
                            ls_HealthHistory := appendHealthHistory (ls_HealthHistory state0) health\<rparr>;
                  m' = m\<lparr>mg_state := (mg_state m)(cid \<mapsto> state)\<rparr>
              in (case store_state env ids m' of
                    Some err \<Rightarrow> (Inl err, m')
                  | None \<Rightarrow> (Inr (cloneLifecycleState state), m')))))"

definition conn_SetEnabled ::
  "connector_env \<Rightarrow> string list \<Rightarrow> gotime \<Rightarrow> string \<Rightarrow> bool \<Rightarrow> ConnManager \<Rightarrow> Manifest result \<times> ConnManager" where
  "conn_SetEnabled env ids now cid0 enabled m =
     (let cid = TrimSpace cid0 in
      if cid = [] then (Inl ErrNoConnector, m)
      else
        (case replace_entry cid (\<lambda>entry. entry\<lparr>mf_Disabled := \<not> enabled\<rparr>) (stored_entries m) of
           None \<Rightarrow> (Inl ErrNoConnector, m)
         | Some current \<Rightarrow>
             (case SaveConfig env ids now current m of
                (Some err, m') \<Rightarrow> (Inl err, m')
              | (None, m') \<Rightarrow>
                  (case conn_Get cid m' of
                     None \<Rightarrow> (Inl ErrNoConnector, m')
                   | Some entry \<Rightarrow> (Inr entry, m')))))"

definition persistLifecycleState ::
  "connector_env \<Rightarrow> string list \<Rightarrow> string \<Rightarrow> LifecycleState \<Rightarrow> ConnManager \<Rightarrow> go_error option \<times> ConnManager" where
  "persistLifecycleState env ids cid state m =
     (let m' = m\<lparr>mg_state := (mg_state m)(cid \<mapsto> cloneLifecycleState state)\<rparr>
      in (store_state env ids m', m'))"

text \<open>The health that is recorded until the connector has been probed.\<close>

definition require_probe :: "Manifest \<Rightarrow> gotime \<Rightarrow> LifecycleState \<Rightarrow> LifecycleState" where
  "require_probe entry probeRequiredAt state =
     (let health = pendingRuntimeProbeHealth entry (ls_Compatibility state) probeRequiredAt in
      state\<lparr>ls_Health := health, ls_HealthHistory := appendHealthHistory (ls_HealthHistory state) health,
            ls_UpdatedAt := probeRequiredAt\<rparr>)"

text \<open>The clock is read when the configuration is saved, when the probe is required, and for the event.\<close>

definition upgraded_state ::
  "gotime \<Rightarrow> gotime \<Rightarrow> UpgradeOptions \<Rightarrow> Manifest \<Rightarrow> Manifest \<Rightarrow> LifecycleState \<Rightarrow> LifecycleState" where
  "upgraded_state probeRequiredAt eventAt opts previous normalized state =
     (let state1 = require_probe normalized probeRequiredAt state;
          available = TrimSpace (up_Available opts);
          state2 = (if available \<noteq> [] then state1\<lparr>ls_AvailableVersion := available\<rparr> else state1);
          reason = TrimSpace (up_Reason opts);
          version = connector_version normalized
      in if reason \<noteq> [] \<and> connector_version previous = version
         then state2\<lparr>ls_History := ls_History state2 @ [zero_LifecycleEvent\<lparr>
                le_Type := ''update_plan'', le_Summary := reason, le_Version := version, le_ToVersion := version,
                le_Enabled := Some (Enabled normalized), le_Metadata := [(''reason'', reason)],
                le_CreatedAt := eventAt\<rparr>]\<rparr>
         else state2)"

definition Upgrade ::
  "connector_env \<Rightarrow> string list \<Rightarrow> gotime \<Rightarrow> gotime \<Rightarrow> gotime \<Rightarrow> string \<Rightarrow> UpgradeOptions \<Rightarrow> ConnManager \<Rightarrow>
     (Manifest \<times> LifecycleState) result \<times> ConnManager" where
  "Upgrade env ids now probeRequiredAt eventAt cid0 opts m =
     (let cid = TrimSpace cid0 in
      if cid = [] then (Inl ErrNoConnector, m)
      else
        (case normalizeManifest (up_Manifest opts) of
           Inl err \<Rightarrow> (Inl err, m)
         | Inr normalized \<Rightarrow>
             if connector_id normalized \<noteq> cid
             then (Inl (Errorf ''manifest metadata.id must match connector id''), m)
             else if \<not> SupportsCurrentTARSMajor normalized
             then (Inl (Errorf ''connector is not compatible with current TARS major version''), m)
             else
               (case (find (\<lambda>entry. connector_id entry = cid) (stored_entries m),
                      replace_entry cid (\<lambda>_. normalized) (stored_entries m)) of
                  (Some previous, Some current) \<Rightarrow>
                    (case SaveConfig env ids now current m of
                       (Some err, m') \<Rightarrow> (Inl err, m')
                     | (None, m') \<Rightarrow>
                         (case GetLifecycle cid m' of
                            None \<Rightarrow> (Inl ErrNoConnector, m')
                          | Some state \<Rightarrow>
                              (let updatedState = upgraded_state probeRequiredAt eventAt opts previous normalized state
                               in (case persistLifecycleState env ids cid updatedState m' of
                                     (Some err, m'') \<Rightarrow> (Inl err, m'')
                                   | (None, m'') \<Rightarrow> (Inr (normalized, updatedState), m'')))))
                | _ \<Rightarrow> (Inl ErrNoConnector, m))))"

text \<open>The loop does not stop at a hit: the last revision that has a manifest and the version wins.\<close>

definition rollback_target :: "string \<Rightarrow> RevisionSnapshot list \<Rightarrow> Manifest option" where
  "rollback_target targetVersion revisions =
     foldl (\<lambda>target revision.
        case rv_Manifest revision of
          None \<Rightarrow> target
        | Some manifest \<Rightarrow>
            if targetVersion = [] \<or> rv_Version revision = targetVersion
            then Some (clone_manifest manifest) else target) None revisions"

definition rolled_back_state ::
  "connector_env \<Rightarrow> gotime \<Rightarrow> gotime \<Rightarrow> gotime \<Rightarrow> RollbackOptions \<Rightarrow> Manifest \<Rightarrow> Manifest \<Rightarrow> LifecycleState \<Rightarrow> LifecycleState" where
  "rolled_back_state env probeRequiredAt eventAt revisionAt opts previous target state =
     (let pruned = state\<lparr>
            ls_History := pruneRollbackAutoTransition (ls_History state)
              (connector_version previous) (connector_version target),
            ls_Revisions := pruneRollbackAutoRevision env (ls_Revisions state) target\<rparr>;
          probed = require_probe target probeRequiredAt pruned;
          reason = TrimSpace (rb_Reason opts)
      in probed\<lparr>
           ls_History := ls_History probed @ [zero_LifecycleEvent\<lparr>
             le_Type := ''rollback'', le_Summary := conn_firstNonEmpty [reason, ''connector rolled back''],
             le_Version := connector_version target, le_FromVersion := connector_version previous,
             le_ToVersion := connector_version target, le_Enabled := Some (Enabled target),
             le_Metadata := [(''reason'', conn_firstNonEmpty [reason, ''unspecified''])],
             le_CreatedAt := eventAt\<rparr>],
           ls_Revisions := appendRevision env revisionAt (ls_Revisions probed) target revisionAt
             (conn_firstNonEmpty [reason, ''rollback''])\<rparr>)"

definition Rollback ::
  "connector_env \<Rightarrow> string list \<Rightarrow> gotime \<Rightarrow> gotime \<Rightarrow> gotime \<Rightarrow> gotime \<Rightarrow> string \<Rightarrow> RollbackOptions \<Rightarrow> ConnManager \<Rightarrow>
     (Manifest \<times> LifecycleState) result \<times> ConnManager" where
  "Rollback env ids now probeRequiredAt eventAt revisionAt cid0 opts m =
     (let cid = TrimSpace cid0 in
      if cid = [] then (Inl ErrNoConnector, m)
      else
        (case cloneLifecycleMap (mg_state m) cid of
           None \<Rightarrow> (Inl ErrNoConnector, m)
         | Some currentState \<Rightarrow>
             (case rollback_target (TrimSpace (rb_TargetVersion opts)) (ls_Revisions currentState) of
                None \<Rightarrow> (Inl ErrNoConnector, m)
              | Some target \<Rightarrow>
                  (case (find (\<lambda>entry. connector_id entry = cid) (stored_entries m),
                         replace_entry cid (\<lambda>_. target) (stored_entries m)) of
                     (Some previous, Some current) \<Rightarrow>
                       (case SaveConfig env ids now current m of
                          (Some err, m') \<Rightarrow> (Inl err, m')
                        | (None, m') \<Rightarrow>
                            (case GetLifecycle cid m' of
                               None \<Rightarrow> (Inl ErrNoConnector, m')
                             | Some state \<Rightarrow>
                                 (let updatedState =
                                        rolled_back_state env probeRequiredAt eventAt revisionAt opts previous target state
                                  in (case persistLifecycleState env ids cid updatedState m' of
                                        (Some err, m'') \<Rightarrow> (Inl err, m'')
                                      | (None, m'') \<Rightarrow> (Inr (target, updatedState), m'')))))
                   | _ \<Rightarrow> (Inl ErrNoConnector, m)))))"

definition SetAvailableVersion ::
  "connector_env \<Rightarrow> string list \<Rightarrow> gotime \<Rightarrow> string \<Rightarrow> string \<Rightarrow> ConnManager \<Rightarrow> LifecycleState result \<times> ConnManager" where
  "SetAvailableVersion env ids now cid version m =
     (case GetLifecycle (TrimSpace cid) m of
        None \<Rightarrow> (Inl ErrNoConnector, m)
      | Some state0 \<Rightarrow>
          (let state = state0\<lparr>ls_AvailableVersion := TrimSpace version, ls_UpdatedAt := now\<rparr>
           in (case persistLifecycleState env ids (ls_ConnectorID state) state m of
                 (Some err, m') \<Rightarrow> (Inl err, m')
               | (None, m') \<Rightarrow> (Inr state, m'))))"


section \<open>Copies are stable\<close>

lemma conn_cloneStrings_idem [simp]: "conn_cloneStrings (conn_cloneStrings xs) = conn_cloneStrings xs"
  by (induction xs) (auto simp: conn_cloneStrings_def)

definition clean_map :: "strmap \<Rightarrow> bool" where
  "clean_map m \<longleftrightarrow> distinct (map fst m) \<and> (\<forall>(k, v) \<in> set m. k \<noteq> [] \<and> TrimSpace k = k \<and> TrimSpace v = v)"

lemma set_map_put: "set (map_put k v m) \<subseteq> insert (k, v) (set m)"
  by (induction m rule: map_put.induct) auto

lemma map_put_fresh: "k \<notin> fst ` set m \<Longrightarrow> map_put k v m = m @ [(k, v)]"
  by (induction m rule: map_put.induct) auto

lemma clean_clone_pair: "clean_map out \<Longrightarrow> clean_map (clone_pair out kv)"
  using set_map_put by (fastforce simp: clean_map_def clone_pair_def Let_def intro: distinct_map_put)

lemma clean_foldl: "clean_map out \<Longrightarrow> clean_map (foldl clone_pair out xs)"
  by (induction xs arbitrary: out) (auto intro: clean_clone_pair)

lemma clean_cloneStringMap [simp]: "clean_map (conn_cloneStringMap m)"
  unfolding conn_cloneStringMap_def by (rule clean_foldl) (simp add: clean_map_def)

lemma foldl_clean: "clean_map (out @ xs) \<Longrightarrow> foldl clone_pair out xs = out @ xs"
proof (induction xs arbitrary: out)
  case Nil
  then show ?case by simp
next
  case (Cons kv xs)
  obtain k v where kv: "kv = (k, v)" by (cases kv)
  have "clone_pair out kv = out @ [kv]"
    using Cons.prems kv by (auto simp: clone_pair_def clean_map_def map_put_fresh)
  with Cons show ?case by simp
qed

lemma conn_cloneStringMap_clean: "clean_map m \<Longrightarrow> conn_cloneStringMap m = m"
  using foldl_clean [of "[]" m] by (simp add: conn_cloneStringMap_def)

lemma conn_cloneStringMap_idem [simp]: "conn_cloneStringMap (conn_cloneStringMap m) = conn_cloneStringMap m"
  by (simp add: conn_cloneStringMap_clean)

lemma conn_cloneStringMap_Nil [simp]: "conn_cloneStringMap [] = []"
  by (simp add: conn_cloneStringMap_def)

lemma cloneCapabilities_idem [simp]: "cloneCapabilities (cloneCapabilities cs) = cloneCapabilities cs"
  by (simp add: cloneCapabilities_def)

lemma cloneFields_idem [simp]: "cloneFields (cloneFields fs) = cloneFields fs"
  by (simp add: cloneFields_def)

lemma clone_manifest_idem [simp]: "clone_manifest (clone_manifest e) = clone_manifest e"
  by (simp add: clone_manifest_def)

lemma clone_manifest_fields [simp]:
  "mf_Metadata (clone_manifest e) = mf_Metadata e" "mf_Disabled (clone_manifest e) = mf_Disabled e"
  "Enabled (clone_manifest e) = Enabled e"
  by (simp_all add: clone_manifest_def Enabled_def)

lemma cloneManifests_idem [simp]: "cloneManifests (cloneManifests es) = cloneManifests es"
  by (simp add: cloneManifests_def)

lemma cloneLifecycleState_fields [simp]:
  "ls_ConnectorID (cloneLifecycleState st) = ls_ConnectorID st"
  "ls_CurrentVersion (cloneLifecycleState st) = ls_CurrentVersion st"
  "ls_AvailableVersion (cloneLifecycleState st) = ls_AvailableVersion st"
  "ls_Enabled (cloneLifecycleState st) = ls_Enabled st"
  "ls_Runtime (cloneLifecycleState st) = ls_Runtime st"
  "ls_Health (cloneLifecycleState st) = ls_Health st"
  "ls_HealthHistory (cloneLifecycleState st) = ls_HealthHistory st"
  "ls_LastFingerprint (cloneLifecycleState st) = ls_LastFingerprint st"
  "cpr_Compatible (ls_Compatibility (cloneLifecycleState st)) = cpr_Compatible (ls_Compatibility st)"
  "ls_SecretRefs (cloneLifecycleState st) = conn_cloneStringMap (ls_SecretRefs st)"
  "ls_Revisions (cloneLifecycleState st) = cloneRevisionSnapshots (ls_Revisions st)"
  by (simp_all add: cloneLifecycleState_def)

lemma cloneLifecycleMap_apply [simp]: "cloneLifecycleMap s cid = map_option cloneLifecycleState (s cid)"
  by (simp add: cloneLifecycleMap_def)

section \<open>The registry invariant\<close>

text \<open>The lifecycle state of a connector describes the manifest in the configuration.\<close>

definition mirrors :: "connector_env \<Rightarrow> string \<Rightarrow> Manifest \<Rightarrow> LifecycleState \<Rightarrow> bool" where
  "mirrors env cid entry st \<longleftrightarrow>
     ls_ConnectorID st = cid \<and> ls_CurrentVersion st = connector_version entry \<and>
     ls_Enabled st = Enabled entry \<and> ls_Runtime st = RuntimeMetadataForManifest entry \<and>
     ls_SecretRefs st = conn_cloneStringMap (rcf_SecretRefs (mf_Config entry)) \<and>
     ls_LastFingerprint st = manifestFingerprint env entry \<and>
     cpr_Compatible (ls_Compatibility st) = SupportsCurrentTARSMajor entry"

definition revision_ok :: "string \<Rightarrow> RevisionSnapshot \<Rightarrow> bool" where
  "revision_ok cid r \<longleftrightarrow>
     (case rv_Manifest r of
        None \<Rightarrow> False
      | Some manifest \<Rightarrow> connector_id manifest = cid \<and> connector_version manifest = rv_Version r)"

definition histories_ok :: "string \<Rightarrow> LifecycleState \<Rightarrow> bool" where
  "histories_ok cid st \<longleftrightarrow>
     length (ls_HealthHistory st) \<le> 20 \<and> length (ls_Revisions st) \<le> 10 \<and>
     list_all (revision_ok cid) (ls_Revisions st)"

definition lifecycle_ok :: "connector_env \<Rightarrow> Manifest list \<Rightarrow> lifecycle \<Rightarrow> bool" where
  "lifecycle_ok env entries state \<longleftrightarrow>
     (\<forall>cid. case manifestMap entries cid of
        None \<Rightarrow> state cid = None
      | Some entry \<Rightarrow> (\<exists>st. state cid = Some st \<and> mirrors env cid entry st \<and> histories_ok cid st))"

definition registry_inv :: "connector_env \<Rightarrow> ConnManager \<Rightarrow> bool" where
  "registry_inv env m \<longleftrightarrow> (\<exists>entries. mg_config m = Some entries \<and> lifecycle_ok env entries (mg_state m))"

definition histories_within :: "lifecycle \<Rightarrow> bool" where
  "histories_within state \<longleftrightarrow> (\<forall>cid st. state cid = Some st \<longrightarrow> histories_ok cid st)"

lemma length_appendHealthHistory:
  "length history \<le> 20 \<Longrightarrow> length (appendHealthHistory history health) \<le> 20"
  by (auto simp: appendHealthHistory_def Let_def)

lemma revision_ok_touch [simp]:
  "revision_ok cid (r\<lparr>rv_CreatedAt := t, rv_Reason := reason\<rparr>) = revision_ok cid r"
  by (cases "rv_Manifest r") (auto simp: revision_ok_def)

lemma revision_ok_Some [simp]:
  "revision_ok cid \<lparr>rv_Version = v, rv_Manifest = Some e, rv_CreatedAt = t, rv_Reason = reason\<rparr> \<longleftrightarrow>
     connector_id e = cid \<and> connector_version e = v"
  by (auto simp: revision_ok_def)

lemma touch_revision_props:
  assumes "touch_revision env manifest t reason history = Some history'"
  shows "length history' = length history \<and>
    (list_all (revision_ok cid) history \<longrightarrow> list_all (revision_ok cid) history')"
  using assms
  by (induction history arbitrary: history') (auto split: if_splits)

lemma list_all_drop: "list_all P xs \<Longrightarrow> list_all P (drop n xs)"
  by (auto simp: list_all_iff dest: in_set_dropD)

lemma appendRevision_ok:
  assumes "length history \<le> 10" and "list_all (revision_ok cid) history" and "connector_id manifest = cid"
  shows "length (appendRevision env clock history manifest t reason) \<le> 10 \<and>
    list_all (revision_ok cid) (appendRevision env clock history manifest t reason)"
proof (cases "touch_revision env manifest (if IsZero t then clock else t) reason history")
  case None
  let ?new = "\<lparr>rv_Version = connector_version manifest, rv_Manifest = Some (clone_manifest manifest),
    rv_CreatedAt = (if IsZero t then clock else t), rv_Reason = reason\<rparr>"
  let ?h = "slice_stable (\<lambda>a b. rv_CreatedAt a < rv_CreatedAt b) (history @ [?new])"
  have "list_all (revision_ok cid) ?h" using assms by (simp add: list_all_iff)
  then show ?thesis using None assms(1)
    by (simp add: appendRevision_def Let_def list_all_drop)
next
  case (Some history')
  then show ?thesis using touch_revision_props [OF Some] assms by (simp add: appendRevision_def)
qed

lemma drop_first_props: "length (drop_first P xs) \<le> length xs \<and> set (drop_first P xs) \<subseteq> set xs"
  by (induction xs) auto

lemma pruneRollbackAutoRevision_ok:
  "length (pruneRollbackAutoRevision env history target) \<le> length history \<and>
   (list_all (revision_ok cid) history \<longrightarrow> list_all (revision_ok cid) (pruneRollbackAutoRevision env history target))"
  using drop_first_props [of "same_revision env target ''upgrade''" "rev history"]
  by (auto simp: pruneRollbackAutoRevision_def list_all_iff)

lemma cloneRevisionSnapshots_ok [simp]:
  "length (cloneRevisionSnapshots rs) = length rs"
  "list_all (revision_ok cid) (cloneRevisionSnapshots rs) = list_all (revision_ok cid) rs"
  by (auto simp: cloneRevisionSnapshots_def list_all_iff revision_ok_def split: option.splits)

lemma histories_ok_clone [simp]: "histories_ok cid (cloneLifecycleState st) = histories_ok cid st"
  by (simp add: histories_ok_def)

lemma mirrors_clone [simp]: "mirrors env cid e st \<Longrightarrow> mirrors env cid e (cloneLifecycleState st)"
  by (simp add: mirrors_def)

lemma manifestMap_append [simp]:
  "manifestMap (es @ [e]) = (manifestMap es)(connector_id e \<mapsto> e)"
  by (simp add: manifestMap_def)

lemma manifestMap_Some: "manifestMap es cid = Some e \<Longrightarrow> e \<in> set es \<and> connector_id e = cid"
  by (induction es rule: rev_induct) (auto simp: manifestMap_def split: if_splits)

lemma manifestMap_None_iff: "manifestMap es cid = None \<longleftrightarrow> cid \<notin> connector_id ` set es"
  by (induction es rule: rev_induct) (auto simp: manifestMap_def)

lemma sync_history_fields [simp]:
  "ls_ConnectorID (sync_history env now found p e st) = ls_ConnectorID st"
  "ls_CurrentVersion (sync_history env now found p e st) = ls_CurrentVersion st"
  "ls_Enabled (sync_history env now found p e st) = ls_Enabled st"
  "ls_Runtime (sync_history env now found p e st) = ls_Runtime st"
  "ls_SecretRefs (sync_history env now found p e st) = ls_SecretRefs st"
  "ls_Compatibility (sync_history env now found p e st) = ls_Compatibility st"
  "ls_LastFingerprint (sync_history env now found p e st) = ls_LastFingerprint st"
  "ls_HealthHistory (sync_history env now found p e st) = ls_HealthHistory st"
  by (simp_all add: sync_history_def Let_def split: option.split)

lemma sync_history_revisions:
  "ls_Revisions (sync_history env now found p e st) = ls_Revisions st \<or>
   (\<exists>reason. ls_Revisions (sync_history env now found p e st) = appendRevision env now (ls_Revisions st) e now reason)"
  by (auto simp: sync_history_def Let_def split: option.split)

lemma sync_item_mirrors: "mirrors env cid e (sync_item env now cid existing p e)"
  by (simp add: mirrors_def sync_item_def sync_health_def describe_manifest_def Let_def SupportsCurrentTARSMajor_def)

lemma histories_ok_zero: "histories_ok cid (zero_LifecycleState\<lparr>ls_ConnectorID := cid', ls_InstalledAt := t\<rparr>)"
  by (simp add: histories_ok_def zero_LifecycleState_def)

lemma histories_ok_describe [simp]:
  "histories_ok cid (describe_manifest now cid' e c st) = histories_ok cid st"
  by (simp add: histories_ok_def describe_manifest_def Let_def)

lemma histories_ok_history:
  assumes "histories_ok cid st" and "connector_id e = cid"
  shows "histories_ok cid (sync_history env now found p e st)"
  using sync_history_revisions [of env now found p e st] assms appendRevision_ok
  unfolding histories_ok_def sync_history_fields by metis

lemma histories_ok_health: "histories_ok cid st \<Longrightarrow> histories_ok cid (sync_health found e h d f st)"
  by (auto simp: histories_ok_def sync_health_def Let_def length_appendHealthHistory)

lemma sync_item_histories:
  assumes "\<And>st. existing = Some st \<Longrightarrow> histories_ok cid st" and "connector_id e = cid"
  shows "histories_ok cid (sync_item env now cid existing p e)"
  using assms histories_ok_zero unfolding sync_item_def Let_def
  by (intro histories_ok_health histories_ok_history) (auto split: option.split)

lemma sync_lifecycle_ok:
  assumes "histories_within existing"
  shows "lifecycle_ok env current (syncLifecycleState env existing previous current now)"
  unfolding lifecycle_ok_def
proof (intro allI)
  fix cid
  show "case manifestMap current cid of
      None \<Rightarrow> syncLifecycleState env existing previous current now cid = None
    | Some e \<Rightarrow> \<exists>st. syncLifecycleState env existing previous current now cid = Some st \<and>
        mirrors env cid e st \<and> histories_ok cid st"
  proof (cases "manifestMap current cid")
    case (Some e)
    have "histories_ok cid (sync_item env now cid (cloneLifecycleMap existing cid) p e)" for p
      using assms manifestMap_Some [OF Some]
      by (intro sync_item_histories) (auto simp: histories_within_def)
    with Some show ?thesis by (simp add: syncLifecycleState_def Let_def sync_item_mirrors)
  qed (simp add: syncLifecycleState_def Let_def)
qed

lemma histories_within_clone [simp]: "histories_within (cloneLifecycleMap s) = histories_within s"
  unfolding histories_within_def cloneLifecycleMap_apply map_option_eq_Some by (metis histories_ok_clone)

lemma histories_within_empty [simp]: "histories_within Map.empty"
  by (simp add: histories_within_def)

lemma lifecycle_okD:
  assumes "lifecycle_ok env es s" and "s cid = Some st"
  obtains e where "manifestMap es cid = Some e" "mirrors env cid e st" "histories_ok cid st"
proof -
  have "case manifestMap es cid of None \<Rightarrow> s cid = None
    | Some e \<Rightarrow> \<exists>st. s cid = Some st \<and> mirrors env cid e st \<and> histories_ok cid st"
    using assms(1) unfolding lifecycle_ok_def by blast
  then show thesis using assms(2) that by (auto split: option.splits)
qed

lemma lifecycle_ok_dom:
  assumes "lifecycle_ok env es s"
  shows "s cid = None \<longleftrightarrow> manifestMap es cid = None"
proof -
  have "case manifestMap es cid of None \<Rightarrow> s cid = None
    | Some e \<Rightarrow> \<exists>st. s cid = Some st \<and> mirrors env cid e st \<and> histories_ok cid st"
    using assms unfolding lifecycle_ok_def by blast
  then show ?thesis by (auto split: option.splits)
qed

lemma lifecycle_ok_within: "lifecycle_ok env es s \<Longrightarrow> histories_within s"
  unfolding histories_within_def by (metis lifecycle_okD)

lemma registry_inv_within: "registry_inv env m \<Longrightarrow> histories_within (mg_state m)"
  unfolding registry_inv_def by (blast dest: lifecycle_ok_within)

text \<open>A lifecycle state is replaced by one that describes the same manifest.\<close>

lemma lifecycle_ok_upd:
  assumes "lifecycle_ok env es s" and "s cid = Some st"
    and "\<And>e. mirrors env cid e st \<Longrightarrow> mirrors env cid e st'" and "histories_ok cid st \<Longrightarrow> histories_ok cid st'"
  shows "lifecycle_ok env es (s(cid \<mapsto> st'))"
proof -
  obtain e where "manifestMap es cid = Some e" "mirrors env cid e st" "histories_ok cid st"
    using assms(1,2) by (rule lifecycle_okD)
  with assms(3,4) have new: "\<exists>st. (s(cid \<mapsto> st')) cid = Some st \<and> mirrors env cid e st \<and> histories_ok cid st"
    by simp
  show ?thesis unfolding lifecycle_ok_def
  proof (intro allI)
    fix k
    show "case manifestMap es k of None \<Rightarrow> (s(cid \<mapsto> st')) k = None
      | Some e \<Rightarrow> \<exists>st. (s(cid \<mapsto> st')) k = Some st \<and> mirrors env k e st \<and> histories_ok k st"
    proof (cases "k = cid")
      case True
      with new \<open>manifestMap es cid = Some e\<close> show ?thesis by simp
    next
      case False
      have "case manifestMap es k of None \<Rightarrow> s k = None
        | Some e \<Rightarrow> \<exists>st. s k = Some st \<and> mirrors env k e st \<and> histories_ok k st"
        using assms(1) unfolding lifecycle_ok_def by blast
      with False show ?thesis by (cases "manifestMap es k") auto
    qed
  qed
qed

section \<open>Operations keep the invariant\<close>

text \<open>What a successful or a failed save leaves behind.\<close>

lemma saveConfigAndState_cases:
  assumes "saveConfigAndState env ids now cfg normalized m = (r, m')"
  shows "m' = m \<and> r \<noteq> None \<or>
    (mg_config m' = Some cfg \<and> mg_path m' = mg_path m \<and> mg_persist m' = mg_persist m \<and>
     mg_state m' = syncLifecycleState env (cloneLifecycleMap (mg_state m))
       (map_option conn_cloneConfig (mg_config m)) cfg now \<and>
     r = run_persist m' (conn_cloneConfig cfg) (cloneLifecycleMap (mg_state m')))"
  using assms by (auto simp: saveConfigAndState_def Let_def split: if_splits option.splits)

text \<open>The configuration that \<open>SaveConfig\<close> stores: sorted copies without a path, the entries as they are
  with one.\<close>

definition saved_entries :: "ConnManager \<Rightarrow> Manifest list \<Rightarrow> Manifest list" where
  "saved_entries m cfg = (if TrimSpace (mg_path m) = [] then conn_normalizeConfig cfg else cfg)"

lemma SaveConfig_cases:
  assumes "SaveConfig env ids now cfg m = (r, m')"
  shows "m' = m \<and> r \<noteq> None \<or>
    (mg_config m' = Some (saved_entries m cfg) \<and> mg_path m' = mg_path m \<and> mg_persist m' = mg_persist m \<and>
     mg_state m' = syncLifecycleState env (cloneLifecycleMap (mg_state m))
       (map_option conn_cloneConfig (mg_config m)) (saved_entries m cfg) now \<and>
     r = run_persist m' (conn_cloneConfig (saved_entries m cfg)) (cloneLifecycleMap (mg_state m')) \<and>
     ValidateConfigCompatibility cfg = None)"
proof (cases "TrimSpace (mg_path m) = []")
  case True
  then show ?thesis using assms
    by (auto simp: SaveConfig_def Let_def saved_entries_def split: option.splits sum.splits)
next
  case False
  then show ?thesis using assms saveConfigAndState_cases [of env ids now cfg _ m r m']
    by (auto simp: SaveConfig_def saved_entries_def split: option.splits sum.splits)
qed

lemma SaveConfig_inv:
  assumes "SaveConfig env ids now cfg m = (r, m')" and "registry_inv env m"
  shows "registry_inv env m'"
  using SaveConfig_cases [OF assms(1)] assms(2) registry_inv_within [OF assms(2)]
  by (auto simp: registry_inv_def sync_lifecycle_ok)

lemma saveConfigAndState_inv:
  assumes "saveConfigAndState env ids now cfg normalized m = (r, m')" and "registry_inv env m"
  shows "registry_inv env m'"
  using saveConfigAndState_cases [OF assms(1)] assms(2) registry_inv_within [OF assms(2)]
  by (auto simp: registry_inv_def sync_lifecycle_ok)

lemma Save_inv: "Save env ids now content m = (r, m') \<Longrightarrow> registry_inv env m \<Longrightarrow> registry_inv env m'"
  by (auto simp: Save_def split: sum.splits prod.splits option.splits if_splits
      dest: SaveConfig_inv saveConfigAndState_inv)

lemma Upsert_inv: "Upsert env ids now e m = (r, m') \<Longrightarrow> registry_inv env m \<Longrightarrow> registry_inv env m'"
  by (auto simp: Upsert_def Let_def split: sum.splits dest: SaveConfig_inv)

lemma conn_SetEnabled_inv:
  "conn_SetEnabled env ids now cid b m = (r, m') \<Longrightarrow> registry_inv env m \<Longrightarrow> registry_inv env m'"
  by (auto simp: conn_SetEnabled_def Let_def split: if_splits option.splits prod.splits dest: SaveConfig_inv)

lemma Reload_inv:
  assumes "Reload env now m = (r, m')" and "registry_inv env m \<or> r = None \<and> TrimSpace (mg_path m) \<noteq> []"
    and "\<And>state. loadLifecycleStateFile env (mg_statePath m) = Inr state \<Longrightarrow> histories_within state"
  shows "registry_inv env m'"
  using assms
  by (auto simp: Reload_def registry_inv_def sync_lifecycle_ok split: if_splits sum.splits prod.splits)

lemma registry_inv_upd:
  assumes "registry_inv env m" and "mg_state m cid = Some st"
    and "\<And>e. mirrors env cid e st \<Longrightarrow> mirrors env cid e st'" and "histories_ok cid st \<Longrightarrow> histories_ok cid st'"
  shows "registry_inv env (m\<lparr>mg_state := (mg_state m)(cid \<mapsto> st')\<rparr>)"
proof -
  obtain es where "mg_config m = Some es" and ok: "lifecycle_ok env es (mg_state m)"
    using assms(1) by (auto simp: registry_inv_def)
  moreover have "lifecycle_ok env es ((mg_state m)(cid \<mapsto> st'))"
    using ok assms(2-4) by (rule lifecycle_ok_upd)
  ultimately show ?thesis by (simp add: registry_inv_def)
qed

lemma RecordHealth_inv:
  assumes "RecordHealth env ids now cid status summary t m = (r, m')" and "registry_inv env m"
  shows "registry_inv env m'"
proof (cases "TrimSpace cid = [] \<or> mg_state m (TrimSpace cid) = None")
  case True
  then show ?thesis using assms by (auto simp: RecordHealth_def Let_def split: if_splits)
next
  case False
  then obtain st where st: "mg_state m (TrimSpace cid) = Some st" by blast
  have "m' = snd (RecordHealth env ids now cid status summary t m)" using assms(1) by simp
  then show ?thesis
    using False st assms(2)
    by (auto simp: RecordHealth_def Let_def mirrors_def histories_ok_def length_appendHealthHistory
        intro!: registry_inv_upd split: option.split)
qed

lemma persistLifecycleState_inv:
  assumes "persistLifecycleState env ids cid st' m = (r, m')" and "registry_inv env m" and "mg_state m cid = Some st"
    and "\<And>e. mirrors env cid e st \<Longrightarrow> mirrors env cid e st'" and "histories_ok cid st \<Longrightarrow> histories_ok cid st'"
  shows "registry_inv env m'"
  using assms by (auto simp: persistLifecycleState_def Let_def intro!: registry_inv_upd mirrors_clone)

lemma GetLifecycle_Some:
  "GetLifecycle cid m = Some st \<longleftrightarrow>
     TrimSpace cid \<noteq> [] \<and> (\<exists>st0. mg_state m (TrimSpace cid) = Some st0 \<and> st = cloneLifecycleState st0)"
  by (auto simp: GetLifecycle_def)

lemma require_probe_mirrors [simp]: "mirrors env cid e (require_probe e' t st) = mirrors env cid e st"
  by (simp add: require_probe_def mirrors_def Let_def)

lemma require_probe_histories: "histories_ok cid st \<Longrightarrow> histories_ok cid (require_probe e t st)"
  by (simp add: require_probe_def histories_ok_def Let_def length_appendHealthHistory)

lemma upgraded_state_mirrors: "mirrors env cid e (upgraded_state t1 t2 opts p n st) = mirrors env cid e st"
proof -
  have "mirrors env cid e (upgraded_state t1 t2 opts p n st) = mirrors env cid e (require_probe n t1 st)"
    unfolding upgraded_state_def Let_def by (simp add: mirrors_def)
  then show ?thesis by simp
qed

lemma upgraded_state_histories:
  "histories_ok cid st \<Longrightarrow> histories_ok cid (upgraded_state t1 t2 opts p n st)"
proof -
  assume "histories_ok cid st"
  then have "histories_ok cid (require_probe n t1 st)" by (rule require_probe_histories)
  then show ?thesis unfolding upgraded_state_def Let_def by (simp add: histories_ok_def)
qed

lemma rolled_back_state_mirrors:
  "mirrors env' cid e (rolled_back_state env t1 t2 t3 opts p n st) = mirrors env' cid e st"
  by (simp add: rolled_back_state_def require_probe_def mirrors_def Let_def)

lemma rolled_back_state_histories:
  assumes "histories_ok cid st" and "connector_id n = cid"
  shows "histories_ok cid (rolled_back_state env t1 t2 t3 opts p n st)"
proof -
  have "histories_ok cid (st\<lparr>ls_History := h, ls_Revisions := pruneRollbackAutoRevision env (ls_Revisions st) n\<rparr>)" for h
    using assms(1) pruneRollbackAutoRevision_ok [of env "ls_Revisions st" n cid]
    by (simp add: histories_ok_def)
  then have "histories_ok cid (require_probe n t1
      (st\<lparr>ls_History := h, ls_Revisions := pruneRollbackAutoRevision env (ls_Revisions st) n\<rparr>))" for h
    by (rule require_probe_histories)
  then show ?thesis
    using appendRevision_ok [OF _ _ assms(2)]
    by (simp add: rolled_back_state_def Let_def histories_ok_def)
qed

text \<open>\<open>Upgrade\<close> and \<open>Rollback\<close> save a configuration and then replace the lifecycle state of the connector.\<close>

lemma changed_state_inv:
  assumes "SaveConfig env ids now current m = (None, m1)" and "GetLifecycle cid m1 = Some st"
    and "persistLifecycleState env ids cid st' m1 = (r, m2)" and "registry_inv env m" and "TrimSpace cid = cid"
    and "\<And>e. mirrors env cid e st \<Longrightarrow> mirrors env cid e st'" and "histories_ok cid st \<Longrightarrow> histories_ok cid st'"
  shows "registry_inv env m2"
proof -
  have inv: "registry_inv env m1" using assms(1,4) by (rule SaveConfig_inv)
  obtain st0 where st0: "mg_state m1 cid = Some st0" "st = cloneLifecycleState st0"
    using assms(2,5) by (auto simp: GetLifecycle_Some)
  show ?thesis
    using assms(3) inv st0(1)
  proof (rule persistLifecycleState_inv)
    show "mirrors env cid e st'" if "mirrors env cid e st0" for e
      using that assms(6) st0(2) by simp
    show "histories_ok cid st'" if "histories_ok cid st0"
      using that assms(7) st0(2) by simp
  qed
qed

text \<open>What a successful change has done.\<close>

lemma Upgrade_cases:
  assumes "Upgrade env ids now t1 t2 cid opts m = (r, m')"
  obtains (unchanged) err where "r = Inl err" "m' = m"
  | (save_failed) err current where "r = Inl err" "SaveConfig env ids now current m = (Some err, m')"
  | (lost) current where "r = Inl ErrNoConnector" "SaveConfig env ids now current m = (None, m')"
  | (changed) previous n current m1 st r' where
      "normalizeManifest (up_Manifest opts) = Inr n" "connector_id n = TrimSpace cid" "TrimSpace cid \<noteq> []"
      "SupportsCurrentTARSMajor n"
      "find (\<lambda>entry. connector_id entry = TrimSpace cid) (stored_entries m) = Some previous"
      "replace_entry (TrimSpace cid) (\<lambda>_. n) (stored_entries m) = Some current"
      "SaveConfig env ids now current m = (None, m1)" "GetLifecycle (TrimSpace cid) m1 = Some st"
      "persistLifecycleState env ids (TrimSpace cid) (upgraded_state t1 t2 opts previous n st) m1 = (r', m')"
      "r = (case r' of Some err \<Rightarrow> Inl err | None \<Rightarrow> Inr (n, upgraded_state t1 t2 opts previous n st))"
  using assms unfolding Upgrade_def Let_def
  by (simp split: if_splits sum.splits option.splits prod.splits) blast+

lemma Rollback_cases:
  assumes "Rollback env ids now t1 t2 t3 cid opts m = (r, m')"
  obtains (unchanged) err where "r = Inl err" "m' = m"
  | (save_failed) err current where "r = Inl err" "SaveConfig env ids now current m = (Some err, m')"
  | (lost) current where "r = Inl ErrNoConnector" "SaveConfig env ids now current m = (None, m')"
  | (changed) st0 target previous current m1 st r' where
      "TrimSpace cid \<noteq> []" "mg_state m (TrimSpace cid) = Some st0"
      "rollback_target (TrimSpace (rb_TargetVersion opts)) (cloneRevisionSnapshots (ls_Revisions st0)) = Some target"
      "find (\<lambda>entry. connector_id entry = TrimSpace cid) (stored_entries m) = Some previous"
      "replace_entry (TrimSpace cid) (\<lambda>_. target) (stored_entries m) = Some current"
      "SaveConfig env ids now current m = (None, m1)" "GetLifecycle (TrimSpace cid) m1 = Some st"
      "persistLifecycleState env ids (TrimSpace cid) (rolled_back_state env t1 t2 t3 opts previous target st) m1 = (r', m')"
      "r = (case r' of Some err \<Rightarrow> Inl err
                     | None \<Rightarrow> Inr (target, rolled_back_state env t1 t2 t3 opts previous target st))"
  using assms unfolding Rollback_def Let_def
  by (simp split: if_splits sum.splits option.splits prod.splits) blast+

lemma Upgrade_inv:
  assumes "Upgrade env ids now t1 t2 cid opts m = (r, m')" and "registry_inv env m"
  shows "registry_inv env m'"
  using assms(1)
proof (cases rule: Upgrade_cases)
  case changed
  show ?thesis
    using changed(7,8,9) assms(2)
    by (rule changed_state_inv) (simp_all add: upgraded_state_mirrors upgraded_state_histories)
qed (use assms(2) SaveConfig_inv in blast)+

lemma rollback_target_append [simp]:
  "rollback_target v (rs @ [r]) =
     (case rv_Manifest r of
        None \<Rightarrow> rollback_target v rs
      | Some manifest \<Rightarrow> if v = [] \<or> rv_Version r = v then Some (clone_manifest manifest) else rollback_target v rs)"
  by (simp add: rollback_target_def split: option.split)

lemma rollback_target_Nil [simp]: "rollback_target v [] = None"
  by (simp add: rollback_target_def)

lemma rollback_target_Some:
  assumes "rollback_target v rs = Some target"
  shows "\<exists>r \<in> set rs. \<exists>manifest. rv_Manifest r = Some manifest \<and> target = clone_manifest manifest \<and>
    (v = [] \<or> rv_Version r = v)"
  using assms
proof (induction rs rule: rev_induct)
  case Nil
  then show ?case by simp
next
  case (snoc r rs)
  then show ?case by (auto split: option.splits if_splits)
qed

lemma rollback_target_ok:
  assumes "rollback_target v rs = Some target" and "list_all (revision_ok cid) rs"
  shows "connector_id target = cid \<and> (v = [] \<or> connector_version target = v) \<and> clone_manifest target = target"
proof -
  from rollback_target_Some [OF assms(1)] obtain r manifest where
    "r \<in> set rs" "rv_Manifest r = Some manifest" "target = clone_manifest manifest" "v = [] \<or> rv_Version r = v"
    by blast
  then show ?thesis using assms(2) by (force simp: list_all_iff revision_ok_def)
qed

lemma Rollback_inv:
  assumes "Rollback env ids now t1 t2 t3 cid opts m = (r, m')" and "registry_inv env m"
  shows "registry_inv env m'"
  using assms(1)
proof (cases rule: Rollback_cases)
  case (changed st0 target previous current m1 st r')
  have "histories_ok (TrimSpace cid) st0"
    using registry_inv_within [OF assms(2)] changed(2) by (simp add: histories_within_def)
  then have target: "connector_id target = TrimSpace cid"
    using rollback_target_ok [OF changed(3)] by (simp add: histories_ok_def)
  show ?thesis
    using changed(6-8) assms(2)
    by (rule changed_state_inv) (simp_all add: rolled_back_state_mirrors rolled_back_state_histories target)
qed (use assms(2) SaveConfig_inv in blast)+

lemma SetAvailableVersion_inv:
  assumes "SetAvailableVersion env ids now cid version m = (r, m')" and "registry_inv env m"
  shows "registry_inv env m'"
proof (cases "GetLifecycle (TrimSpace cid) m")
  case None
  then show ?thesis using assms by (simp add: SetAvailableVersion_def)
next
  case (Some st)
  then obtain st0 where st0: "mg_state m (TrimSpace cid) = Some st0" "st = cloneLifecycleState st0"
    by (auto simp: GetLifecycle_Some)
  obtain es where "lifecycle_ok env es (mg_state m)" using assms(2) by (auto simp: registry_inv_def)
  from this st0(1) obtain e where "mirrors env (TrimSpace cid) e st0" by (rule lifecycle_okD)
  then have key: "ls_ConnectorID st = TrimSpace cid" using st0(2) by (simp add: mirrors_def)
  obtain r2 where "persistLifecycleState env ids (TrimSpace cid)
      (st\<lparr>ls_AvailableVersion := TrimSpace version, ls_UpdatedAt := now\<rparr>) m = (r2, m')"
    using assms(1) Some key by (auto simp: SetAvailableVersion_def Let_def split: prod.splits option.splits)
  then show ?thesis using assms(2) st0(1)
    by (rule persistLifecycleState_inv) (simp_all add: st0(2) mirrors_def histories_ok_def)
qed

section \<open>The registry as a state machine\<close>

text \<open>What is loaded from outside, the state file and the stored runtime state, has the form in which the
  program stored it.\<close>

definition stored_histories_ok :: "connector_env \<Rightarrow> string \<Rightarrow> bool" where
  "stored_histories_ok env path \<longleftrightarrow>
     (case loadLifecycleStateFile env path of Inl _ \<Rightarrow> True | Inr state \<Rightarrow> histories_within state)"

inductive registry_step :: "connector_env \<Rightarrow> ConnManager \<Rightarrow> ConnManager \<Rightarrow> bool" for env where
  save: "registry_step env m (snd (Save env ids now content m))"
| save_config: "registry_step env m (snd (SaveConfig env ids now cfg m))"
| upsert: "registry_step env m (snd (Upsert env ids now entry m))"
| record_health: "registry_step env m (snd (RecordHealth env ids now cid status summary checkedAt m))"
| set_enabled: "registry_step env m (snd (conn_SetEnabled env ids now cid enabled m))"
| upgrade: "registry_step env m (snd (Upgrade env ids now probeAt eventAt cid up m))"
| rollback: "registry_step env m (snd (Rollback env ids now probeAt eventAt revisionAt cid rb m))"
| set_available: "registry_step env m (snd (SetAvailableVersion env ids now cid version m))"
| set_persistence: "registry_step env m (SetPersistence persist m)"
| reload: "stored_histories_ok env (mg_statePath m) \<Longrightarrow> registry_step env m (snd (Reload env now m))"
| load: "lifecycle = [] \<or> lifecycle_ok env (conn_normalizeConfig cfg) (cloneLifecycleMap (map_of lifecycle)) \<Longrightarrow>
    registry_step env m (snd (LoadRuntimeState env now storedAt cfg lifecycle m))"

inductive registry_reachable :: "connector_env \<Rightarrow> ConnManager \<Rightarrow> bool" for env where
  start: "NewManager env now path = Inr m \<Longrightarrow> stored_histories_ok env (lifecycleStatePath path) \<Longrightarrow>
    registry_reachable env m"
| step: "registry_reachable env m \<Longrightarrow> registry_step env m m' \<Longrightarrow> registry_reachable env m'"

lemma LoadRuntimeState_inv:
  assumes "LoadRuntimeState env now storedAt cfg lifecycle m = (r, m')" and "registry_inv env m"
    and "lifecycle = [] \<or> lifecycle_ok env (conn_normalizeConfig cfg) (cloneLifecycleMap (map_of lifecycle))"
  shows "registry_inv env m'"
  using assms
  by (auto simp: LoadRuntimeState_def Let_def registry_inv_def sync_lifecycle_ok cloneLifecycleMap_def
      split: option.splits sum.splits if_splits)

lemma stored_histories_okD:
  "stored_histories_ok env path \<Longrightarrow> loadLifecycleStateFile env path = Inr state \<Longrightarrow> histories_within state"
  by (simp add: stored_histories_ok_def)

lemma registry_step_inv: "registry_step env m m' \<Longrightarrow> registry_inv env m \<Longrightarrow> registry_inv env m'"
proof (induction rule: registry_step.induct)
  case (set_persistence m persist)
  then show ?case by (simp add: SetPersistence_def registry_inv_def)
next
  case (reload m now)
  then show ?case using Reload_inv [OF prod.collapse [symmetric]] stored_histories_okD by metis
next
  case (load lifecycle cfg m now storedAt)
  then show ?case using LoadRuntimeState_inv [OF prod.collapse [symmetric]] by blast
qed (metis prod.collapse Save_inv SaveConfig_inv Upsert_inv RecordHealth_inv conn_SetEnabled_inv Upgrade_inv
    Rollback_inv SetAvailableVersion_inv)+

lemma NewManager_inv:
  assumes "NewManager env now path = Inr m" and "stored_histories_ok env (lifecycleStatePath path)"
  shows "registry_inv env m"
proof (cases "TrimSpace path = []")
  case True
  then have "mg_config m = Some []" "mg_state m = Map.empty"
    using assms(1) by (auto simp: NewManager_def Let_def)
  then show ?thesis by (simp add: registry_inv_def lifecycle_ok_def manifestMap_def)
next
  case False
  let ?m0 = "\<lparr>mg_path = path, mg_statePath = lifecycleStatePath path, mg_content = [], mg_config = None,
    mg_state = Map.empty, mg_persist = None, mg_updatedAt = 0\<rparr>"
  have "Reload env now ?m0 = (None, m)"
    using assms(1) False by (auto simp: NewManager_def Let_def split: prod.splits option.splits)
  then show ?thesis
    using False assms(2) stored_histories_okD by (intro Reload_inv [of env now ?m0 None m]) auto
qed

lemma reachable_inv: "registry_reachable env m \<Longrightarrow> registry_inv env m"
  by (induction rule: registry_reachable.induct) (auto intro: NewManager_inv registry_step_inv)

section \<open>Reading back\<close>

lemma find_filter: "find P xs = (case filter P xs of [] \<Rightarrow> None | x # _ \<Rightarrow> Some x)"
  by (induction xs) auto

lemma find_clones: "find (\<lambda>e. connector_id e = cid) (cloneManifests es) =
    map_option clone_manifest (find (\<lambda>e. connector_id e = cid) es)"
  by (induction es) (auto simp: cloneManifests_def)

lemma find_conn_normalizeConfig:
  "find (\<lambda>e. connector_id e = cid) (conn_normalizeConfig es) =
     map_option clone_manifest (find (\<lambda>e. connector_id e = cid) es)"
proof -
  have "filter (\<lambda>e. connector_id e = cid) (conn_normalizeConfig es) =
      filter (\<lambda>e. connector_id e = cid) (cloneManifests es)"
    unfolding conn_normalizeConfig_def
    by (rule strict_weak_order.stable_slice_stable [OF strict_weak_order_key]) auto
  then show ?thesis by (simp only: find_filter [symmetric] find_filter [of _ "conn_normalizeConfig es"] find_clones [symmetric])
qed

lemma option_clone_idem [simp]: "map_option clone_manifest (map_option clone_manifest x) = map_option clone_manifest x"
  by (cases x) auto

lemma conn_Get_saved:
  assumes "SaveConfig env ids now cfg m = (None, m')" and "TrimSpace cid \<noteq> []"
  shows "conn_Get cid m' = map_option clone_manifest (find (\<lambda>e. connector_id e = TrimSpace cid) cfg)"
  using SaveConfig_cases [OF assms(1)] assms(2)
  by (auto simp: conn_Get_def saved_entries_def find_conn_normalizeConfig)

lemma conn_Get_blank [simp]: "TrimSpace cid = [] \<Longrightarrow> conn_Get cid m = None"
  by (simp add: conn_Get_def)

lemma conn_Get_stored:
  "TrimSpace cid \<noteq> [] \<Longrightarrow> conn_Get cid m =
     map_option clone_manifest (find (\<lambda>e. connector_id e = TrimSpace cid) (stored_entries m))"
  by (cases "mg_config m") (auto simp: conn_Get_def stored_entries_def conn_cloneConfig_def find_clones)

lemma find_replace_entry:
  assumes "replace_entry k f es = Some es'" and "\<And>e. connector_id e = k \<Longrightarrow> connector_id (f e) = k"
  shows "find (\<lambda>e. connector_id e = cid) es' =
    (if cid = k then map_option f (find (\<lambda>e. connector_id e = k) es) else find (\<lambda>e. connector_id e = cid) es)"
  using assms by (induction es arbitrary: es') (auto split: if_splits)

lemma replace_entry_None: "replace_entry k f es = None \<longleftrightarrow> find (\<lambda>e. connector_id e = k) es = None"
  by (induction es) auto

section \<open>Normal forms\<close>

lemma conn_firstNonEmpty_trimmed [simp]: "TrimSpace (conn_firstNonEmpty vs) = conn_firstNonEmpty vs"
  by (induction vs) auto

lemma fill_names_fields [simp]:
  "md_ID (fill_names md) = md_ID md" "md_Vendor (fill_names md) = md_Vendor md"
  "md_Version (fill_names md) = md_Version md" "md_Description (fill_names md) = md_Description md"
  "md_OrgID (fill_names md) = md_OrgID md" "md_TenantID (fill_names md) = md_TenantID md"
  "md_WorkspaceID (fill_names md) = md_WorkspaceID md"
  by (simp_all add: fill_names_def Let_def)

lemma trim_fill_names: "trim_metadata (fill_names (trim_metadata md)) = fill_names (trim_metadata md)"
  by (simp add: trim_metadata_def fill_names_def Let_def)

lemma fill_names_idem: "fill_names (fill_names md) = fill_names md"
  by (auto simp: fill_names_def Let_def)

lemma cloneCapabilities_trim [simp]:
  "cloneCapabilities (map trim_capability (cloneCapabilities cs)) = map trim_capability (cloneCapabilities cs)"
  by (simp add: cloneCapabilities_def trim_capability_def)

lemma cloneFields_trim [simp]:
  "cloneFields (map trim_field (cloneFields fs)) = map trim_field (cloneFields fs)"
  by (simp add: cloneFields_def trim_field_def)

lemma clone_normalized [simp]: "clone_manifest (normalized_manifest e) = normalized_manifest e"
  by (simp add: normalized_manifest_def clone_manifest_def Let_def)

lemma trim_capability_idem [simp]: "trim_capability (trim_capability c) = trim_capability c"
  by (simp add: trim_capability_def)

lemma trim_field_idem [simp]: "trim_field (trim_field f) = trim_field f"
  by (simp add: trim_field_def)

lemma comp_trim_idem [simp]: "trim_capability \<circ> trim_capability = trim_capability" "trim_field \<circ> trim_field = trim_field"
  by (simp_all add: fun_eq_iff)

lemma normalized_spec [simp]:
  "mf_Spec (normalized_manifest e) = (mf_Spec (clone_manifest e))\<lparr>
     sp_Type := TrimSpace (sp_Type (mf_Spec e)), sp_Protocol := TrimSpace (sp_Protocol (mf_Spec e)),
     sp_Capabilities := map trim_capability (cloneCapabilities (sp_Capabilities (mf_Spec e))),
     sp_ConnectionForm := map trim_field (cloneFields (sp_ConnectionForm (mf_Spec e)))\<rparr>"
  "mf_Metadata (normalized_manifest e) = fill_names (trim_metadata (mf_Metadata e))"
  by (simp_all add: normalized_manifest_def clone_manifest_def Let_def)

lemma trim_manifest_defaults:
  "TrimSpace ''tars.connector/v1alpha1'' = ''tars.connector/v1alpha1''" "TrimSpace ''connector'' = ''connector''"
  by code_simp+

lemma normalized_idem [simp]: "normalized_manifest (normalized_manifest e) = normalized_manifest e"
proof -
  have "normalized_manifest n = n"
    if "clone_manifest n = n" "TrimSpace (mf_APIVersion n) = mf_APIVersion n" "mf_APIVersion n \<noteq> []"
      "TrimSpace (mf_Kind n) = mf_Kind n" "mf_Kind n \<noteq> []" "fill_names (trim_metadata (mf_Metadata n)) = mf_Metadata n"
      "TrimSpace (sp_Type (mf_Spec n)) = sp_Type (mf_Spec n)"
      "TrimSpace (sp_Protocol (mf_Spec n)) = sp_Protocol (mf_Spec n)"
      "map trim_capability (sp_Capabilities (mf_Spec n)) = sp_Capabilities (mf_Spec n)"
      "map trim_field (sp_ConnectionForm (mf_Spec n)) = sp_ConnectionForm (mf_Spec n)"
      "TrimSpace (mk_Category (mf_Marketplace n)) = mk_Category (mf_Marketplace n)"
      "TrimSpace (mk_Source (mf_Marketplace n)) = mk_Source (mf_Marketplace n)" for n
    using that by (simp add: normalized_manifest_def Let_def)
  then show ?thesis
    by (rule) (simp_all add: trim_fill_names fill_names_idem,
      simp_all add: normalized_manifest_def Let_def trim_manifest_defaults)
qed

lemma normalizeManifest_Inr:
  "normalizeManifest e = Inr n \<longleftrightarrow> n = normalized_manifest e \<and> ValidateManifest n = None"
  by (auto simp: normalizeManifest_def split: option.splits)

lemma normalized_id:
  assumes "normalizeManifest e = Inr n"
  shows "TrimSpace (connector_id n) = connector_id n \<and> connector_id n \<noteq> [] \<and> clone_manifest n = n"
proof -
  have n: "n = normalized_manifest e" "ValidateManifest n = None" using assms by (auto simp: normalizeManifest_Inr)
  have "TrimSpace (connector_id n) = connector_id n" by (simp add: n(1) trim_metadata_def)
  with n show ?thesis by (auto simp: ValidateManifest_def split: if_splits)
qed

lemma normalize_entries_Inr: "normalize_entries es = Inr ns \<Longrightarrow> normalize_entries ns = Inr ns \<and> cloneManifests ns = ns"
proof (induction es arbitrary: ns)
  case Nil
  then show ?case by (simp add: cloneManifests_def)
next
  case (Cons e es)
  then obtain n ns' where n: "normalizeManifest e = Inr n" "normalize_entries es = Inr ns'" "ns = n # ns'"
    by (auto split: sum.splits)
  then have "normalizeManifest n = Inr n" by (auto simp: normalizeManifest_Inr)
  with n Cons.IH [OF n(2)] normalized_id [OF n(1)] show ?case by (simp add: cloneManifests_def)
qed

lemma normalize_entries_iff:
  "normalize_entries es = Inr es \<longleftrightarrow> (\<forall>e \<in> set es. normalizeManifest e = Inr e)"
  by (induction es) (auto split: sum.splits)

lemma normalize_entries_sorted:
  assumes "normalize_entries ns = Inr ns" and "cloneManifests ns = ns"
  shows "normalize_entries (conn_normalizeConfig ns) = Inr (conn_normalizeConfig ns) \<and>
    conn_normalizeConfig (conn_normalizeConfig ns) = conn_normalizeConfig ns \<and>
    cloneManifests (conn_normalizeConfig ns) = conn_normalizeConfig ns"
proof -
  let ?ns = "conn_normalizeConfig ns"
  have sorted: "?ns = slice_stable (\<lambda>a b. connector_id a < connector_id b) ns"
    using assms(2) by (simp add: conn_normalizeConfig_def)
  have "\<forall>e \<in> set ns. clone_manifest e = e"
    using assms(2) unfolding cloneManifests_def by (metis map_eq_conv map_ident)
  then have clone: "cloneManifests ?ns = ?ns"
    by (auto simp: sorted cloneManifests_def intro!: map_idI)
  moreover have "conn_normalizeConfig ?ns = ?ns"
    unfolding conn_normalizeConfig_def [of ?ns] clone
    by (simp add: sorted strict_weak_order.slice_stable_idem [OF strict_weak_order_key])
  moreover have "normalize_entries ?ns = Inr ?ns"
    using assms(1) by (simp add: normalize_entries_iff sorted)
  ultimately show ?thesis by blast
qed

section \<open>The registry as a keyed store\<close>

definition upsert_call :: "connector_env \<Rightarrow> string list \<times> gotime \<times> Manifest \<Rightarrow> ConnManager \<Rightarrow> ConnManager" where
  "upsert_call env call m = (case call of (ids, now, entry) \<Rightarrow> snd (Upsert env ids now entry m))"

definition upsert_stores ::
  "connector_env \<Rightarrow> string list \<times> gotime \<times> Manifest \<Rightarrow> Manifest \<Rightarrow> ConnManager \<Rightarrow> bool" where
  "upsert_stores env call n m =
     (case call of (ids, now, entry) \<Rightarrow> fst (Upsert env ids now entry m) = None \<and> normalizeManifest entry = Inr n)"

abbreviation stored_entry :: "string \<Rightarrow> ConnManager \<Rightarrow> Manifest option" where
  "stored_entry cid m \<equiv> map_option clone_manifest (find (\<lambda>e. connector_id e = cid) (stored_entries m))"

lemma stored_entry_saved:
  assumes "SaveConfig env ids now cfg m = (None, m')"
  shows "stored_entry cid m' = map_option clone_manifest (find (\<lambda>e. connector_id e = cid) cfg)"
  using SaveConfig_cases [OF assms]
  by (auto simp: stored_entries_def conn_cloneConfig_def saved_entries_def find_conn_normalizeConfig find_clones)

lemma Upsert_stored_entry:
  assumes "Upsert env ids now entry m = (None, m')" and n: "normalizeManifest entry = Inr n"
  shows "stored_entry cid m' = (if cid = connector_id n then Some n else stored_entry cid m)"
proof -
  define es where "es = (case replace_entry (connector_id n) (\<lambda>_. n) (stored_entries m) of
    Some entries \<Rightarrow> entries | None \<Rightarrow> stored_entries m @ [n])"
  have saved: "SaveConfig env ids now es m = (None, m')"
    using assms by (simp add: Upsert_def es_def Let_def)
  have "find (\<lambda>e. connector_id e = cid) es =
      (if cid = connector_id n then Some n else find (\<lambda>e. connector_id e = cid) (stored_entries m))"
  proof (cases "replace_entry (connector_id n) (\<lambda>_. n) (stored_entries m)")
    case None
    then have "find (\<lambda>e. connector_id e = connector_id n) (stored_entries m) = None"
      by (simp add: replace_entry_None)
    then show ?thesis using None by (auto simp: es_def find_snoc split: option.splits)
  next
    case (Some entries)
    then show ?thesis
      using find_replace_entry [OF Some] replace_entry_None [of "connector_id n" "\<lambda>_. n" "stored_entries m"]
      by (auto simp: es_def)
  qed
  then show ?thesis using normalized_id [OF n] by (simp add: stored_entry_saved [OF saved])
qed

interpretation connector_store: keyed_store stored_entry "upsert_call env" connector_id "upsert_stores env" for env
proof unfold_locales
  fix call :: "string list \<times> gotime \<times> Manifest" and n m k
  assume "upsert_stores env call n m"
  then obtain ids now entry where call: "call = (ids, now, entry)"
    and "Upsert env ids now entry m = (None, upsert_call env call m)" "normalizeManifest entry = Inr n"
    by (auto simp: upsert_stores_def upsert_call_def prod_eq_iff)
  note law = Upsert_stored_entry [OF this(2,3)]
  show "stored_entry (connector_id n) (upsert_call env call m) = Some n" by (simp add: law)
  show "stored_entry k (upsert_call env call m) = stored_entry k m" if "k \<noteq> connector_id n"
    using that by (simp add: law)
qed

section \<open>Health and selection\<close>

lemma HealthStatusForManifest_down:
  "\<not> Enabled e \<or> \<not> cpr_Compatible c \<Longrightarrow> hs_Status (HealthStatusForManifest e c t) \<in> {''disabled'', ''unhealthy''}"
  by (auto simp: HealthStatusForManifest_def Let_def)

lemma pending_not_healthy:
  "hs_Status (pendingRuntimeProbeHealth e c t) \<in> {''disabled'', ''unhealthy'', ''unknown''}"
  using HealthStatusForManifest_down [of e c t] by (auto simp: pendingRuntimeProbeHealth_def)

lemma down_not_healthy:
  "hs_Status h \<in> {''disabled'', ''unhealthy'', ''unknown''} \<Longrightarrow> \<not> runtimeEntryIsHealthy e h"
proof -
  have "\<not> EqualFold (TrimSpace s) ''healthy''" if "s \<in> {''disabled'', ''unhealthy'', ''unknown''}" for s
    using that by (elim insertE emptyE; simp; code_simp)
  then show "hs_Status h \<in> {''disabled'', ''unhealthy'', ''unknown''} \<Longrightarrow> \<not> runtimeEntryIsHealthy e h"
    by (simp add: runtimeEntryIsHealthy_def)
qed

lemma selected_is_healthy:
  assumes "SelectHealthyRuntimeManifest (Some s) ty pr prots = Some e"
  shows "runtimeEntryIsHealthy e (lifecycle_health s e)"
  using assms by (auto simp: SelectHealthyRuntimeManifest_def selectRuntimeManifest_def dest: find_Some_in)

lemma unprobed_not_selected:
  assumes "mg_state m cid = Some st" and "hs_Status (ls_Health st) \<in> {''disabled'', ''unhealthy'', ''unknown''}"
    and "SelectHealthyRuntimeManifest (Some (conn_Snapshot m)) ty pr prots = Some e"
  shows "TrimSpace (connector_id e) \<noteq> cid"
proof
  assume "TrimSpace (connector_id e) = cid"
  then have "lifecycle_health (conn_Snapshot m) e = ls_Health st"
    using assms(1) by (simp add: lifecycle_health_def conn_Snapshot_def)
  then show False using selected_is_healthy [OF assms(3)] down_not_healthy [OF assms(2)] by simp
qed

lemma require_probe_health: "ls_Health (require_probe e t st) = pendingRuntimeProbeHealth e (ls_Compatibility st) t"
  by (simp add: require_probe_def Let_def)

lemma upgraded_state_health:
  "hs_Status (ls_Health (upgraded_state t1 t2 opts p n st)) \<in> {''disabled'', ''unhealthy'', ''unknown''}"
  unfolding upgraded_state_def Let_def
  using pending_not_healthy [of n "ls_Compatibility st" t1] by (simp add: require_probe_health)

lemma rolled_back_state_health:
  "hs_Status (ls_Health (rolled_back_state env t1 t2 t3 opts p n st)) \<in> {''disabled'', ''unhealthy'', ''unknown''}"
  unfolding rolled_back_state_def Let_def
  using pending_not_healthy [of n "ls_Compatibility st" t1] by (simp add: require_probe_health)

lemma persistLifecycleState_state:
  "persistLifecycleState env ids cid st m = (r, m') \<Longrightarrow>
     mg_state m' = (mg_state m)(cid \<mapsto> cloneLifecycleState st) \<and> mg_config m' = mg_config m"
  by (auto simp: persistLifecycleState_def Let_def)

text \<open>The health after a change of the configuration, when the recorded status is not the derived one.\<close>

lemma sync_item_health:
  assumes "existing = Some st"
    and "hs_Status (ls_Health st) \<noteq>
      hs_Status (HealthStatusForManifest e ((CompatibilityReportForManifest e)\<lparr>cpr_CheckedAt := now\<rparr>) now)"
  shows "ls_Health (sync_item env now cid existing p e) =
    HealthStatusForManifest e ((CompatibilityReportForManifest e)\<lparr>cpr_CheckedAt := now\<rparr>) now"
  using assms by (simp add: sync_item_def sync_health_def shouldPreserveRecordedHealth_def Let_def)

section \<open>An example\<close>

text \<open>Two connectors are installed, the first is upgraded and rolled back.\<close>

definition registry_env :: connector_env where
  "registry_env =
     \<lparr>cv_marshal = (\<lambda>es. Inr (Join (map (\<lambda>e. connector_id e @ '':'' @ connector_version e) es) '','')),
      cv_unmarshal = (\<lambda>_. Inr []), cv_marshalState = (\<lambda>_. Inr []), cv_unmarshalState = (\<lambda>_. Inr []),
      cv_readFile = (\<lambda>_. Inr []), cv_notExist = (\<lambda>_. True), cv_writeFile = (\<lambda>_ _. None), cv_sha256 = (\<lambda>s. s)\<rparr>"

definition version_manifest :: "string \<Rightarrow> string \<Rightarrow> Manifest" where
  "version_manifest cid version =
     (let e = example_manifest cid ''ssh_native'' in e\<lparr>mf_Metadata := (mf_Metadata e)\<lparr>md_Version := version\<rparr>\<rparr>)"

definition empty_registry :: ConnManager where
  "empty_registry = \<lparr>mg_path = [], mg_statePath = [], mg_content = [], mg_config = Some [],
     mg_state = Map.empty, mg_persist = None, mg_updatedAt = 0\<rparr>"

definition installed_registry :: ConnManager where
  "installed_registry =
     snd (Upsert registry_env [] 20 (version_manifest ''b'' ''1'')
       (snd (Upsert registry_env [] 10 (version_manifest ''a'' ''1'') empty_registry)))"

definition upgrade_example :: "(Manifest \<times> LifecycleState) result \<times> ConnManager" where
  "upgrade_example = Upgrade registry_env [] 30 31 32 ''a''
     \<lparr>up_Manifest = version_manifest ''a'' ''2'', up_Reason = ''new'', up_Available = []\<rparr> installed_registry"

definition rollback_example :: "string \<Rightarrow> (Manifest \<times> LifecycleState) result \<times> ConnManager" where
  "rollback_example version = Rollback registry_env [] 40 41 42 43 ''a''
     \<lparr>rb_TargetVersion = version, rb_Reason = []\<rparr> (snd upgrade_example)"

lemma empty_registry_new: "NewManager env now [] = Inr empty_registry"
  by (simp add: NewManager_def empty_registry_def lifecycleStatePath_def Let_def)

lemma empty_reachable: "registry_reachable registry_env empty_registry"
  using empty_registry_new [of registry_env 0]
  by (rule registry_reachable.start)
    (simp add: stored_histories_ok_def lifecycleStatePath_def loadLifecycleStateFile_def)

lemma installed_reachable: "registry_reachable registry_env installed_registry"
  unfolding installed_registry_def
  by (intro registry_reachable.step [OF _ registry_step.upsert] empty_reachable)

lemma upgraded_reachable: "registry_reachable registry_env (snd upgrade_example)"
  unfolding upgrade_example_def
  by (intro registry_reachable.step [OF _ registry_step.upgrade] installed_reachable)

lemma result_collapse: "\<not> isl (fst p) \<Longrightarrow> p = (Inr (fst (projr (fst p)), snd (projr (fst p))), snd p)"
  by (cases p) auto

text \<open>Steps that neither record the health of the connector nor save or load a configuration.\<close>

inductive quiet_steps :: "connector_env \<Rightarrow> string \<Rightarrow> ConnManager \<Rightarrow> ConnManager \<Rightarrow> bool" for env cid where
  none: "quiet_steps env cid m m"
| health: "quiet_steps env cid m m' \<Longrightarrow> TrimSpace other \<noteq> TrimSpace cid \<Longrightarrow>
    quiet_steps env cid m (snd (RecordHealth env ids now other status summary checkedAt m'))"
| available: "quiet_steps env cid m m' \<Longrightarrow> quiet_steps env cid m (snd (SetAvailableVersion env ids now other version m'))"
| persistence: "quiet_steps env cid m m' \<Longrightarrow> quiet_steps env cid m (SetPersistence persist m')"

lemma quiet_reachable: "quiet_steps env cid m m' \<Longrightarrow> registry_reachable env m \<Longrightarrow> registry_reachable env m'"
  by (induction rule: quiet_steps.induct) (auto intro: registry_reachable.step registry_step.intros)

lemma stored_under_id:
  assumes "registry_reachable env m" and "mg_state m cid = Some st"
  shows "ls_ConnectorID st = cid"
  using reachable_inv [OF assms(1)] assms(2) by (auto simp: registry_inv_def mirrors_def elim: lifecycle_okD)

lemma RecordHealth_other:
  assumes "TrimSpace other \<noteq> cid"
  shows "mg_state (snd (RecordHealth env ids now other status summary checkedAt m)) cid = mg_state m cid"
  using assms by (simp add: RecordHealth_def Let_def split: option.split)

lemma SetAvailableVersion_health:
  assumes "registry_reachable env m"
  shows "map_option ls_Health (mg_state (snd (SetAvailableVersion env ids now other version m)) cid) = map_option ls_Health (mg_state m cid)"
proof (cases "GetLifecycle (TrimSpace other) m")
  case (Some st)
  then obtain st0 where st0: "mg_state m (TrimSpace other) = Some st0" "st = cloneLifecycleState st0"
    by (auto simp: GetLifecycle_Some)
  then have "ls_ConnectorID st = TrimSpace other" using stored_under_id [OF assms st0(1)] by simp
  then show ?thesis using Some st0
    by (auto simp: SetAvailableVersion_def persistLifecycleState_def Let_def split: option.split)
qed (simp add: SetAvailableVersion_def)

lemma quiet_health:
  "quiet_steps env cid m m' \<Longrightarrow> registry_reachable env m \<Longrightarrow>
     map_option ls_Health (mg_state m' (TrimSpace cid)) = map_option ls_Health (mg_state m (TrimSpace cid))"
proof (induction rule: quiet_steps.induct)
  case (available m m' ids now other version)
  then show ?case using SetAvailableVersion_health quiet_reachable by metis
qed (simp_all add: RecordHealth_other SetPersistence_def)

definition quiet_example :: ConnManager where
  "quiet_example = snd (RecordHealth registry_env [] 35 ''b'' ''healthy'' ''probed'' 35 (snd upgrade_example))"

section \<open>Properties\<close>

text \<open>C33: The lifecycle follows the configuration.  Whatever sequence of operations a registry has
  gone through, it has a lifecycle state for exactly the connectors of its configuration, and that
  state carries the identifier, version, enabled flag, runtime, secret references, fingerprint and
  compatibility of a manifest with this identifier; it holds at most 20 health records and at most
  10 revisions, and every revision is a manifest of this connector with the version it is filed
  under.\<close>

theorem lifecycle_follows_configuration:
  assumes "registry_reachable env m"
  shows "\<exists>entries. mg_config m = Some entries \<and> dom (mg_state m) = connector_id ` set entries \<and>
    (\<forall>cid st. mg_state m cid = Some st \<longrightarrow>
       (\<exists>e \<in> set entries. connector_id e = cid \<and> mirrors env cid e st) \<and>
       length (ls_HealthHistory st) \<le> 20 \<and> length (ls_Revisions st) \<le> 10 \<and>
       list_all (revision_ok cid) (ls_Revisions st))"
proof -
  obtain es where es: "mg_config m = Some es" and ok: "lifecycle_ok env es (mg_state m)"
    using reachable_inv [OF assms] by (auto simp: registry_inv_def)
  have "mg_state m cid = None \<longleftrightarrow> manifestMap es cid = None" for cid
    using lifecycle_ok_dom [OF ok] .
  then have "dom (mg_state m) = connector_id ` set es"
    by (auto simp: dom_def manifestMap_None_iff)
  moreover have "(\<exists>e \<in> set es. connector_id e = cid \<and> mirrors env cid e st) \<and> histories_ok cid st"
    if st: "mg_state m cid = Some st" for cid st
    using ok st by (rule lifecycle_okD) (use manifestMap_Some in blast)
  ultimately show ?thesis using es unfolding histories_ok_def by blast
qed

theorem lifecycle_follows_configuration_witness:
  "length (ls_Revisions (the (mg_state (snd upgrade_example) ''a''))) = 2 \<and>
   length (ls_Revisions (the (mg_state (snd upgrade_example) ''a''))) \<le> 10"
proof -
  have "mg_state (snd upgrade_example) ''a'' \<noteq> None" by code_simp
  then obtain st where "mg_state (snd upgrade_example) ''a'' = Some st" by blast
  moreover have "length (ls_Revisions (the (mg_state (snd upgrade_example) ''a''))) = 2" by code_simp
  ultimately show ?thesis using lifecycle_follows_configuration [OF upgraded_reachable] by auto
qed

text \<open>C34: a changed connector is not used without a probe until the next save.  After a successful upgrade or
  rollback in a reachable registry, the selection of a healthy runtime does not return the connector as
  long as only health of other connectors is recorded, available versions are noted and callbacks are set.
  Recording its own health is the probe; saving or loading a configuration, also for another connector,
  ends the protection without a probe (\<open>save_forgets_recorded_health\<close>).\<close>

theorem changed_connector_needs_probe:
  assumes "registry_reachable env m"
    and "Upgrade env ids now t1 t2 cid up m = (Inr (n, st), m') \<or> Rollback env ids now t1 t2 t3 cid rb m = (Inr (n, st), m')"
    and "quiet_steps env cid m' m''"
    and "SelectHealthyRuntimeManifest (Some (conn_Snapshot m'')) ty pr prots = Some e"
  shows "TrimSpace (connector_id e) \<noteq> TrimSpace cid"
proof -
  have down: "\<exists>st'. mg_state m' (TrimSpace cid) = Some st' \<and>
      hs_Status (ls_Health st') \<in> {''disabled'', ''unhealthy'', ''unknown''}"
    using assms(2)
  proof
    assume "Upgrade env ids now t1 t2 cid up m = (Inr (n, st), m')"
    then show ?thesis
      using upgraded_state_health by (cases rule: Upgrade_cases) (auto dest!: persistLifecycleState_state)
  next
    assume "Rollback env ids now t1 t2 t3 cid rb m = (Inr (n, st), m')"
    then show ?thesis
      using rolled_back_state_health by (cases rule: Rollback_cases) (auto dest!: persistLifecycleState_state)
  qed
  have "registry_step env m m'"
    using assms(2) registry_step.upgrade [of env m ids now t1 t2 cid up] registry_step.rollback [of env m ids now t1 t2 t3 cid rb] by auto
  then have "map_option ls_Health (mg_state m'' (TrimSpace cid)) = map_option ls_Health (mg_state m' (TrimSpace cid))"
    using quiet_health [OF assms(3)] registry_reachable.step [OF assms(1)] by blast
  with down obtain st' where "mg_state m'' (TrimSpace cid) = Some st'" "hs_Status (ls_Health st') \<in> {''disabled'', ''unhealthy'', ''unknown''}"
    by auto
  then show ?thesis using unprobed_not_selected [OF _ _ assms(4)] by blast
qed

theorem changed_connector_needs_probe_witness:
  "SelectHealthyRuntimeManifest (Some (conn_Snapshot installed_registry)) ''execution'' [] [''ssh_native''] =
     Some (version_manifest ''a'' ''1'') \<and>
   SelectHealthyRuntimeManifest (Some (conn_Snapshot quiet_example)) ''execution'' [] [''ssh_native''] =
     Some (version_manifest ''b'' ''1'') \<and>
   TrimSpace (connector_id (version_manifest ''b'' ''1'')) \<noteq> TrimSpace ''a''"
proof -
  have before: "SelectHealthyRuntimeManifest (Some (conn_Snapshot installed_registry)) ''execution'' []
      [''ssh_native''] = Some (version_manifest ''a'' ''1'')" by code_simp
  have selected: "SelectHealthyRuntimeManifest (Some (conn_Snapshot quiet_example)) ''execution'' []
      [''ssh_native''] = Some (version_manifest ''b'' ''1'')" by code_simp
  have "\<not> isl (fst upgrade_example)" by code_simp
  note done_upgrade = result_collapse [OF this]
  have "TrimSpace ''b'' \<noteq> TrimSpace ''a''" by code_simp
  then have "quiet_steps registry_env ''a'' (snd upgrade_example) quiet_example"
    unfolding quiet_example_def by (intro quiet_steps.health quiet_steps.none)
  then show ?thesis
    using changed_connector_needs_probe [OF installed_reachable disjI1 [OF done_upgrade [unfolded upgrade_example_def]] _ selected]
      before selected by (simp add: upgrade_example_def)
qed

text \<open>A recorded status is lost when the configuration is saved.  Saving any configuration that
  still has an enabled, compatible connector with all its required fields sets its health to healthy,
  although the status on record, the one a failed probe or an upgrade has left, was another one and
  no probe has taken place.\<close>

theorem save_forgets_recorded_health:
  assumes "SaveConfig env ids now cfg m = (None, m')" and "mg_state m cid = Some st"
    and "hs_Status (ls_Health st) \<noteq> ''healthy''" and "manifestMap (saved_entries m cfg) cid = Some e"
    and "hs_Status (HealthStatusForManifest e (CompatibilityReportForManifest e) now) = ''healthy''"
  shows "\<exists>st'. mg_state m' cid = Some st' \<and> hs_Status (ls_Health st') = ''healthy'' \<and>
    hs_Summary (ls_Health st') = ''connector is enabled and compatible''"
proof -
  let ?c = "(CompatibilityReportForManifest e)\<lparr>cpr_CheckedAt := now\<rparr>"
  have healthy: "hs_Status (HealthStatusForManifest e ?c now) = ''healthy''"
    "hs_Summary (HealthStatusForManifest e ?c now) = ''connector is enabled and compatible''"
    using assms(5) by (simp_all add: HealthStatusForManifest_def Let_def split: if_splits)
  have "ls_Health (sync_item env now cid (Some (cloneLifecycleState (cloneLifecycleState st))) p e) =
      HealthStatusForManifest e ?c now" for p
    using assms(3) healthy(1) by (intro sync_item_health [OF refl]) simp
  then show ?thesis
    using SaveConfig_cases [OF assms(1)] assms(2,4) healthy by (simp add: syncLifecycleState_def Let_def)
qed

theorem save_forgets_recorded_health_witness:
  "hs_Status (ls_Health (the (mg_state (snd upgrade_example) ''a''))) = ''unknown'' \<and>
   (\<exists>st. mg_state (snd (SaveConfig registry_env [] 50 (stored_entries (snd upgrade_example)) (snd upgrade_example))) ''a'' =
      Some st \<and> hs_Status (ls_Health st) = ''healthy'')"
proof -
  let ?m = "snd upgrade_example" and ?e = "version_manifest ''a'' ''2''"
  have "mg_state ?m ''a'' \<noteq> None" by code_simp
  then obtain st where st: "mg_state ?m ''a'' = Some st" by blast
  have unknown: "hs_Status (ls_Health (the (mg_state ?m ''a''))) = ''unknown''" by code_simp
  have "fst (SaveConfig registry_env [] 50 (stored_entries ?m) ?m) = None" by code_simp
  then have saved: "SaveConfig registry_env [] 50 (stored_entries ?m) ?m =
      (None, snd (SaveConfig registry_env [] 50 (stored_entries ?m) ?m))" by (metis prod.collapse)
  have entry: "manifestMap (saved_entries ?m (stored_entries ?m)) ''a'' = Some ?e" by code_simp
  have healthy: "hs_Status (HealthStatusForManifest ?e (CompatibilityReportForManifest ?e) 50) = ''healthy''"
    by code_simp
  have "hs_Status (ls_Health st) \<noteq> ''healthy''" using unknown st by simp
  from save_forgets_recorded_health [OF saved st this entry healthy] unknown show ?thesis by blast
qed

text \<open>Insert and look up.  After any sequence of successful calls of \<open>Upsert\<close>, each with the times,
  map orders and manifests it happens to have, \<open>Get\<close> returns for an identifier the normal form of the
  manifest that was stored last under it, and what it returned at first if there is none.\<close>

theorem upserts_readback:
  assumes "puts_ok (upsert_stores env) (upsert_call env) calls m" and "TrimSpace cid \<noteq> []"
  shows "conn_Get cid (fold (\<lambda>call. upsert_call env (fst call)) calls m) =
    (case find (\<lambda>call. connector_id (snd call) = TrimSpace cid) (rev calls) of
       Some call \<Rightarrow> Some (snd call) | None \<Rightarrow> conn_Get cid m)"
  using connector_store.lookup_puts [OF assms(1)] by (simp add: conn_Get_stored [OF assms(2)] split: option.split)

theorem upserts_readback_witness:
  "conn_Get '' a '' installed_registry = Some (version_manifest ''a'' ''1'')"
proof -
  let ?calls = "[(([] :: string list, 10 :: gotime, version_manifest ''a'' ''1''), version_manifest ''a'' ''1''),
    (([], 20, version_manifest ''b'' ''1''), version_manifest ''b'' ''1'')]"
  let ?m = "snd (Upsert registry_env [] 10 (version_manifest ''a'' ''1'') empty_registry)"
  have "fst (Upsert registry_env [] 10 (version_manifest ''a'' ''1'') empty_registry) = None"
    "fst (Upsert registry_env [] 20 (version_manifest ''b'' ''1'') ?m) = None" by code_simp+
  moreover have "normalizeManifest (version_manifest ''a'' ''1'') = Inr (version_manifest ''a'' ''1'')"
    "normalizeManifest (version_manifest ''b'' ''1'') = Inr (version_manifest ''b'' ''1'')" by code_simp+
  ultimately have ok: "puts_ok (upsert_stores registry_env) (upsert_call registry_env) ?calls empty_registry"
    by (simp add: upsert_stores_def upsert_call_def)
  have blank: "TrimSpace '' a '' \<noteq> []" by code_simp
  have "find (\<lambda>call. connector_id (snd call) = TrimSpace '' a '') (rev ?calls) = Some (hd ?calls)" by code_simp
  then show ?thesis
    using upserts_readback [OF ok blank] by (simp add: installed_registry_def upsert_call_def)
qed

text \<open>A rollback restores the recorded manifest.  In a reachable registry a successful rollback
  reinstalls a manifest of this connector, of the requested version if there is one; \<open>Get\<close> returns
  it, and no other connector changes.  The lifecycle state is at this version and ends with the
  event of the rollback.\<close>

theorem rollback_restores_revision:
  assumes "registry_reachable env m" and "Rollback env ids now t1 t2 t3 cid opts m = (Inr (t, st), m')"
  shows "connector_id t = TrimSpace cid \<and>
    (TrimSpace (rb_TargetVersion opts) = [] \<or> connector_version t = TrimSpace (rb_TargetVersion opts)) \<and>
    conn_Get cid m' = Some t \<and> (\<forall>other. TrimSpace other \<noteq> TrimSpace cid \<longrightarrow> conn_Get other m' = conn_Get other m) \<and>
    le_Type (last (ls_History st)) = ''rollback'' \<and> le_ToVersion (last (ls_History st)) = connector_version t"
  using assms(2)
proof (cases rule: Rollback_cases)
  case (changed st0 target previous current m1 st1 r')
  have t: "t = target" and st: "st = rolled_back_state env t1 t2 t3 opts previous target st1" and r': "r' = None"
    using changed(9) by (auto split: option.splits)
  have "histories_ok (TrimSpace cid) st0"
    using registry_inv_within [OF reachable_inv [OF assms(1)]] changed(2) by (simp add: histories_within_def)
  then have ok: "connector_id t = TrimSpace cid \<and>
      (TrimSpace (rb_TargetVersion opts) = [] \<or> connector_version t = TrimSpace (rb_TargetVersion opts)) \<and>
      clone_manifest t = t"
    unfolding t by (intro rollback_target_ok [OF changed(3)]) (simp add: histories_ok_def)
  have config: "mg_config m' = mg_config m1" using persistLifecycleState_state [OF changed(8)] by simp
  have get: "conn_Get other m' = conn_Get other m1" for other by (simp add: conn_Get_def config)
  have found: "find (\<lambda>e. connector_id e = k) current =
      (if k = TrimSpace cid then Some target else find (\<lambda>e. connector_id e = k) (stored_entries m))" for k
    using find_replace_entry [OF changed(5)] changed(4) ok t by simp
  have "conn_Get cid m' = Some t"
    using conn_Get_saved [OF changed(6,1)] ok by (simp add: get found t)
  moreover have "conn_Get other m' = conn_Get other m" if "TrimSpace other \<noteq> TrimSpace cid" for other
    using that conn_Get_saved [OF changed(6), of other] conn_Get_stored [of other m]
    by (cases "TrimSpace other = []") (auto simp: get found)
  moreover have "le_Type (last (ls_History st)) = ''rollback'' \<and>
      le_ToVersion (last (ls_History st)) = connector_version t"
    unfolding st t rolled_back_state_def Let_def by simp
  ultimately show ?thesis using ok by blast
qed auto

theorem rollback_restores_revision_witness:
  "connector_version (fst (projr (fst (rollback_example ''1'')))) = ''1'' \<and>
   conn_Get ''a'' (snd (rollback_example ''1'')) = Some (fst (projr (fst (rollback_example ''1''))))"
proof -
  have "\<not> isl (fst (rollback_example ''1''))" by code_simp
  note done_rollback = result_collapse [OF this]
  have "connector_version (fst (projr (fst (rollback_example ''1'')))) = ''1''" by code_simp
  with rollback_restores_revision [OF upgraded_reachable done_rollback [unfolded rollback_example_def]]
  show ?thesis unfolding rollback_example_def by blast
qed

text \<open>A rollback without a version goes nowhere.  It takes the newest revision on record, which
  after an upgrade is the upgrade itself, and not the revision before it.\<close>

theorem rollback_without_version_takes_newest:
  assumes "mg_state m (TrimSpace cid) = Some st0" and "ls_Revisions st0 = older @ [newest]"
    and "rv_Manifest newest = Some e" and "TrimSpace (rb_TargetVersion opts) = []"
    and "Rollback env ids now t1 t2 t3 cid opts m = (Inr (t, st), m')"
  shows "t = clone_manifest e"
  using assms(5)
proof (cases rule: Rollback_cases)
  case (changed st1 target previous current m1 st2 r')
  have "t = target" using changed(9) by (auto split: option.splits)
  moreover have "target = clone_manifest e"
    using changed(2,3) assms(1-4) by (simp add: cloneRevisionSnapshots_def)
  ultimately show ?thesis by simp
qed auto

theorem rollback_without_version_takes_newest_witness:
  "connector_version (fst (projr (fst (rollback_example [])))) = ''2''"
proof -
  let ?rs = "ls_Revisions (the (mg_state (snd upgrade_example) ''a''))"
  have "mg_state (snd upgrade_example) ''a'' \<noteq> None" by code_simp
  then obtain st where st: "mg_state (snd upgrade_example) ''a'' = Some st" by blast
  have rs: "?rs = butlast ?rs @ [last ?rs]" by (rule append_butlast_last_id [symmetric]) code_simp
  have e: "rv_Manifest (last ?rs) = Some (version_manifest ''a'' ''2'')" by code_simp
  have "\<not> isl (fst (rollback_example []))" by code_simp
  note done_rollback = result_collapse [OF this]
  have key: "TrimSpace ''a'' = ''a''" by code_simp
  have "fst (projr (fst (rollback_example []))) = clone_manifest (version_manifest ''a'' ''2'')"
    using rollback_without_version_takes_newest [OF _ _ _ _ done_rollback [unfolded rollback_example_def],
        of st "butlast ?rs" "last ?rs" "version_manifest ''a'' ''2''"] st rs e key
    unfolding rollback_example_def by simp
  then show ?thesis by (simp add: version_manifest_def Let_def)
qed

text \<open>The configuration file is in normal form.  Parsing the text that \<open>ParseConfig\<close> returns gives
  the same configuration and the same text, for a codec that decodes what it has encoded.\<close>

theorem parsed_config_fixpoint:
  assumes "conn_ParseConfig env content = Inr (cfg, normalized)"
    and "\<And>es c. cv_marshal env es = Inr c \<Longrightarrow> cv_unmarshal env c = Inr es"
  shows "conn_ParseConfig env normalized = Inr (cfg, normalized)"
proof -
  obtain raw ns where ns: "normalize_entries raw = Inr ns" "cfg = conn_normalizeConfig ns"
    "conn_EncodeConfig env cfg = Inr normalized"
    using assms(1) by (auto simp: conn_ParseConfig_def Let_def split: sum.splits)
  note norm = normalize_entries_sorted [OF conjunct1 [OF normalize_entries_Inr [OF ns(1)]]
      conjunct2 [OF normalize_entries_Inr [OF ns(1)]]]
  have "cv_marshal env cfg = Inr normalized"
    using ns(3) norm by (simp add: conn_EncodeConfig_def ns(2))
  then have "cv_unmarshal env normalized = Inr cfg" by (rule assms(2))
  then show ?thesis using ns(3) norm by (simp add: conn_ParseConfig_def ns(2))
qed

definition codec_env :: connector_env where
  "codec_env = registry_env\<lparr>
     cv_marshal := (\<lambda>es. if es = [version_manifest ''a'' ''1''] then Inr ''a: 1'' else Inl (Errorf ''yaml'')),
     cv_unmarshal := (\<lambda>c. if c = ''a: 1'' then Inr [version_manifest ''a'' ''1''] else
        Inr [(version_manifest ''a'' ''1'')\<lparr>mf_Kind := '' connector ''\<rparr>])\<rparr>"

theorem parsed_config_fixpoint_witness:
  "conn_ParseConfig codec_env ''hand written'' = Inr ([version_manifest ''a'' ''1''], ''a: 1'') \<and>
   conn_ParseConfig codec_env ''a: 1'' = Inr ([version_manifest ''a'' ''1''], ''a: 1'')"
proof -
  have parsed: "conn_ParseConfig codec_env ''hand written'' = Inr ([version_manifest ''a'' ''1''], ''a: 1'')"
    by code_simp
  have "cv_unmarshal codec_env c = Inr es" if "cv_marshal codec_env es = Inr c" for es c
    using that by (simp add: codec_env_def split: if_splits)
  from parsed_config_fixpoint [OF parsed this] parsed show ?thesis by blast
qed

end
