(* ===== verification/Command_Guard.thy ===== *)
theory Command_Guard
  imports Contracts
begin

text \<open>
  The last check before a command reaches a host:
  \<^verbatim>\<open>internal/modules/action/risk_classifier.go\<close>.  A command has to be free of the blocked fragments
  and has to start with an allowed prefix, a global one or one of the service.  An error is the text
  of the \<^verbatim>\<open>fmt.Errorf\<close>, \<open>None\<close> a nil error.
\<close>

section \<open>Operations\<close>

fun validateBlockedFragments_loop :: "string \<Rightarrow> string list \<Rightarrow> string option" where
  "validateBlockedFragments_loop lower [] = None"
| "validateBlockedFragments_loop lower (fragment # rest) =
     (if fragment = [] then validateBlockedFragments_loop lower rest
      else if Contains lower (ToLower (TrimSpace fragment))
      then Some (''command contains blocked fragment: '' @ fragment)
      else validateBlockedFragments_loop lower rest)"

definition validateBlockedFragments :: "string \<Rightarrow> string list \<Rightarrow> string option" where
  "validateBlockedFragments command blockedFragments =
     validateBlockedFragments_loop (ToLower (TrimSpace command)) blockedFragments"

fun matchesCommandPrefix :: "string \<Rightarrow> string list \<Rightarrow> bool" where
  "matchesCommandPrefix command [] = False"
| "matchesCommandPrefix command (p # ps) =
     (let trimmed = TrimSpace p in
      if trimmed = [] then matchesCommandPrefix command ps
      else if HasPrefix command trimmed then True
      else matchesCommandPrefix command ps)"

text \<open>A missing key of the allowlist map reads as a nil slice.\<close>

definition validateCommand ::
  "string \<Rightarrow> string list \<Rightarrow> string list \<Rightarrow> string \<Rightarrow> (string \<rightharpoonup> string list) \<Rightarrow> string option" where
  "validateCommand command allowedPrefixes blockedFragments service0 serviceCommandAllowlist =
     (let normalized = TrimSpace command in
      if normalized = [] then Some ''command is empty''
      else
        (case validateBlockedFragments normalized blockedFragments of
           Some err \<Rightarrow> Some err
         | None \<Rightarrow>
             if matchesCommandPrefix normalized allowedPrefixes then None
             else
               (let service = TrimSpace service0;
                    own = (case serviceCommandAllowlist service of None \<Rightarrow> [] | Some xs \<Rightarrow> xs)
                in if service \<noteq> [] \<and> matchesCommandPrefix normalized own then None
                   else if service \<noteq> [] \<and> own \<noteq> []
                   then Some (''command prefix is not in service allowlist for '' @ service)
                   else Some ''command prefix is not in allowlist'')))"

definition withDefaultPrefixes :: "string list \<Rightarrow> string list" where
  "withDefaultPrefixes items =
     (if items \<noteq> [] then items
      else [''hostname'', ''uptime'', ''curl -fsS https://api.ipify.org'', ''systemctl status'',
            ''systemctl is-active'', ''journalctl -u'', ''cat /proc/loadavg'', ''df -h'', ''free -m'',
            ''ps '', ''ss '', ''echo '', ''printf ''])"

definition withDefaultBlockedFragments :: "string list \<Rightarrow> string list" where
  "withDefaultBlockedFragments items =
     (if items \<noteq> [] then items
      else [''rm -rf'', ''mkfs'', ''shutdown'', ''reboot'', ''poweroff'', ''dd if='', '':(){'',
            ''curl | sh'', ''wget | sh'', ''iptables'', ''userdel''])"

section \<open>Lemmas\<close>

lemma validateBlockedFragments_None_iff:
  "validateBlockedFragments command fs = None \<longleftrightarrow>
     (\<forall>f \<in> set fs. f \<noteq> [] \<longrightarrow> \<not> Contains (ToLower (TrimSpace command)) (ToLower (TrimSpace f)))"
proof -
  have "validateBlockedFragments_loop lower fs = None \<longleftrightarrow>
      (\<forall>f \<in> set fs. f \<noteq> [] \<longrightarrow> \<not> Contains lower (ToLower (TrimSpace f)))" for lower
    by (induction fs) auto
  then show ?thesis by (simp add: validateBlockedFragments_def)
qed

lemma matchesCommandPrefix_iff:
  "matchesCommandPrefix command ps \<longleftrightarrow>
     (\<exists>p \<in> set ps. TrimSpace p \<noteq> [] \<and> HasPrefix command (TrimSpace p))"
  by (induction ps) (auto simp: Let_def)

section \<open>Properties\<close>

text \<open>The guard accepts exactly the commands that are not blank, contain no blocked fragment
  (compared without case) and start with a non-blank allowed prefix, of the global list or of the
  list of the service.\<close>

theorem validateCommand_accepts_iff:
  "validateCommand command allowed blocked service allowlist = None \<longleftrightarrow>
     TrimSpace command \<noteq> [] \<and>
     (\<forall>f \<in> set blocked. f = [] \<or>
        \<not> Contains (ToLower (TrimSpace command)) (ToLower (TrimSpace f))) \<and>
     (\<exists>p \<in> set allowed \<union>
          (if TrimSpace service = [] then {}
           else set (case allowlist (TrimSpace service) of None \<Rightarrow> [] | Some xs \<Rightarrow> xs)).
        TrimSpace p \<noteq> [] \<and> HasPrefix (TrimSpace command) (TrimSpace p))"
proof (cases "validateBlockedFragments (TrimSpace command) blocked")
  case None
  from None [unfolded validateBlockedFragments_None_iff]
  have free: "\<forall>f \<in> set blocked. f = [] \<or>
      \<not> Contains (ToLower (TrimSpace command)) (ToLower (TrimSpace f))"
    by auto
  show ?thesis
    unfolding validateCommand_def Let_def None
    using free by (auto simp: matchesCommandPrefix_iff split: option.splits)
next
  case (Some err)
  then have "validateBlockedFragments (TrimSpace command) blocked \<noteq> None" by simp
  then have "\<not> (\<forall>f \<in> set blocked. f = [] \<or>
      \<not> Contains (ToLower (TrimSpace command)) (ToLower (TrimSpace f)))"
    unfolding validateBlockedFragments_None_iff by auto
  then show ?thesis unfolding validateCommand_def Let_def Some by auto
qed

theorem validateCommand_accepts_iff_witness:
  "validateCommand '' uptime'' [''uptime''] [''reboot''] [] Map.empty = None"
  unfolding validateCommand_accepts_iff by code_simp

text \<open>The default list means the entries \<^verbatim>\<open>"ps "\<close> and \<^verbatim>\<open>"ss "\<close> as whole words, but the guard trims
  a prefix before it compares, so every command that merely begins with these letters passes: a
  \<^verbatim>\<open>psql\<close> statement and an \<^verbatim>\<open>ssh\<close> hop are accepted with the default configuration.\<close>

theorem default_prefix_word_boundary_lost:
  "validateCommand ''psql -c drop table users'' (withDefaultPrefixes []) (withDefaultBlockedFragments [])
     [] Map.empty = None \<and>
   validateCommand ''ssh root@db-1 halt'' (withDefaultPrefixes []) (withDefaultBlockedFragments [])
     [] Map.empty = None \<and>
   \<not> (\<exists>p \<in> set (withDefaultPrefixes []). HasPrefix ''ssh root@db-1 halt'' p)"
  by code_simp

end
