(* ===== verification/Workflow_Text.thy ===== *)
theory Workflow_Text
  imports Approval_Routing Authorization
begin

text \<open>
  The functions of \<^verbatim>\<open>internal/modules/workflow/service.go\<close> that do not touch the state of the
  service: what is read from the alert of a session, the texts and targets of notifications, the
  copies of records, the update of lists of executions and plan steps, the rehydration of
  placeholders and the chunks of an execution output.

  The literals of the program that are not ASCII are the constants \<open>zh_...\<close>, lists of their
  UTF-8 bytes.
\<close>

section \<open>Reading an alert\<close>

definition sget :: "strmap \<Rightarrow> string \<Rightarrow> string" where
  "sget m key = (case map_of m key of None \<Rightarrow> [] | Some v \<Rightarrow> v)"

definition stringFromAlert :: "valmap \<Rightarrow> string \<Rightarrow> string" where
  "stringFromAlert alert key = (case map_of alert key of Some (VString value) \<Rightarrow> value | _ \<Rightarrow> [])"

definition annotationString :: "valmap \<Rightarrow> string \<Rightarrow> string" where
  "annotationString alert key =
     (case map_of alert ''annotations'' of
        None \<Rightarrow> []
      | Some (VStrMap typed) \<Rightarrow> sget typed key
      | Some (VMap typed) \<Rightarrow> (case map_of typed key of Some (VString value) \<Rightarrow> value | _ \<Rightarrow> [])
      | Some _ \<Rightarrow> [])"

definition alertLabel :: "valmap \<Rightarrow> string \<Rightarrow> string" where
  "alertLabel alert key =
     (case map_of alert ''labels'' of
        None \<Rightarrow> []
      | Some (VStrMap typed) \<Rightarrow> sget typed key
      | Some (VMap typed) \<Rightarrow> (case map_of typed key of Some (VString value) \<Rightarrow> value | _ \<Rightarrow> [])
      | Some _ \<Rightarrow> [])"

definition fallbackString :: "string \<Rightarrow> string \<Rightarrow> string" where
  "fallbackString value fallback = (if TrimSpace value = [] then fallback else value)"

fun firstNonEmpty :: "string list \<Rightarrow> string" where
  "firstNonEmpty [] = []"
| "firstNonEmpty (value # values) =
     (if TrimSpace value \<noteq> [] then TrimSpace value else firstNonEmpty values)"

definition mapString :: "valmap \<Rightarrow> string \<Rightarrow> string" where
  "mapString values key = (case map_of values key of Some (VString value) \<Rightarrow> value | _ \<Rightarrow> [])"

text \<open>The first key of a list whose value is not empty.\<close>

definition first_key :: "(string \<Rightarrow> string) \<Rightarrow> string list \<Rightarrow> string" where
  "first_key f keys = (case find (\<lambda>k. f k \<noteq> []) keys of None \<Rightarrow> [] | Some k \<Rightarrow> f k)"

definition pickHost :: "strmap \<Rightarrow> string" where
  "pickHost labels = first_key (sget labels) [''instance'', ''host'', ''node'', ''pod'']"

definition pickNotificationTarget :: "valmap \<Rightarrow> string" where
  "pickNotificationTarget alert =
     (let keys = [''telegram_target'', ''chat_id'', ''room''];
          own = first_key (stringFromAlert alert) keys;
          label = first_key (\<lambda>k. TrimSpace (alertLabel alert k)) keys
      in if own \<noteq> [] then own else if label \<noteq> [] then label else ''ops-room'')"

definition notificationChannelForAlert :: "valmap \<Rightarrow> string" where
  "notificationChannelForAlert alert =
     (if TrimSpace (stringFromAlert alert ''source'') \<in> {''web_chat'', ''ops_api''}
      then ''in_app_inbox'' else ''telegram'')"

definition notificationTargetForAlert :: "valmap \<Rightarrow> string \<Rightarrow> string" where
  "notificationTargetForAlert alert fallbackTarget =
     (let target = TrimSpace (pickNotificationTarget alert);
          source = TrimSpace (stringFromAlert alert ''source'');
          fallback = TrimSpace fallbackTarget
      in if source \<in> {''telegram_chat'', ''web_chat'', ''ops_api''} \<and> target \<noteq> [] then target
         else if fallback \<noteq> [] then fallback
         else target)"

definition selectDiagnosisNotificationTarget :: "valmap \<Rightarrow> Route \<Rightarrow> string" where
  "selectDiagnosisNotificationTarget alert route =
     (let target = pickNotificationTarget alert in
      if TrimSpace target \<noteq> [] \<and> target \<noteq> ''ops-room'' then target
      else if rt_Targets route \<noteq> [] \<and> TrimSpace (hd (rt_Targets route)) \<noteq> []
      then TrimSpace (hd (rt_Targets route))
      else pickNotificationTarget alert)"

definition riskLevelForAlert :: "valmap \<Rightarrow> string" where
  "riskLevelForAlert alert =
     (let severity = stringFromAlert alert ''severity'' in
      if severity = ''critical'' then ''critical''
      else if severity = ''warning'' then ''warning''
      else ''info'')"

section \<open>Copies\<close>

text \<open>Copies are values equal to the original: \<open>clone_ids\<close> below.\<close>

definition cloneStringMap :: "strmap \<Rightarrow> strmap" where
  "cloneStringMap m = map (\<lambda>(k, v). (k, v)) m"

fun clone_value :: "gval \<Rightarrow> gval" where
  "clone_value (VStrMap typed) = VStrMap (cloneStringMap typed)"
| "clone_value (VMap typed) = VMap (map (\<lambda>(k, v). (k, clone_value v)) typed)"
| "clone_value (VString s) = VString s"
| "clone_value (VTime t) = VTime t"
| "clone_value VNil = VNil"
| "clone_value (VBool b) = VBool b"
| "clone_value (VInt n) = VInt n"
| "clone_value (VFloat n text) = VFloat n text"
| "clone_value (VList vs) = VList vs"
| "clone_value (VSlice vs) = VSlice vs"
| "clone_value (VOther s) = VOther s"

definition cloneInterfaceMap :: "valmap \<Rightarrow> valmap" where
  "cloneInterfaceMap m = map (\<lambda>(k, v). (k, clone_value v)) m"

definition cloneToolPlanSteps :: "ToolPlanStep list \<Rightarrow> ToolPlanStep list" where
  "cloneToolPlanSteps items =
     (if items = [] then []
      else map (\<lambda>s. s\<lparr>tp_Runtime := CloneRuntimeMetadata (tp_Runtime s),
                     tp_Input := cloneInterfaceMap (tp_Input s),
                     tp_ResolvedInput := cloneInterfaceMap (tp_ResolvedInput s),
                     tp_Output := cloneInterfaceMap (tp_Output s)\<rparr>) items)"

definition cloneMessageAttachments :: "MessageAttachment list \<Rightarrow> MessageAttachment list" where
  "cloneMessageAttachments items =
     (if items = [] then []
      else map (\<lambda>a. a\<lparr>ma_Metadata := cloneInterfaceMap (ma_Metadata a)\<rparr>) items)"

definition cloneExecutionDetails :: "ExecutionDetail list \<Rightarrow> ExecutionDetail list" where
  "cloneExecutionDetails items =
     (if items = [] then []
      else map (\<lambda>e. e\<lparr>ed_SessionID := ed_SessionID e,
                     ed_Runtime := CloneRuntimeMetadata (ed_Runtime e),
                     ed_GoldenSummary :=
                       (case ed_GoldenSummary e of Some summary \<Rightarrow> Some summary | None \<Rightarrow> ed_GoldenSummary e),
                     ed_CapabilityParams := cloneInterfaceMap (ed_CapabilityParams e)\<rparr>) items)"

definition cloneSessionDetail :: "SessionDetail \<Rightarrow> SessionDetail" where
  "cloneSessionDetail d =
     d\<lparr>sd_Alert := cloneInterfaceMap (sd_Alert d),
       sd_ToolPlan := cloneToolPlanSteps (sd_ToolPlan d),
       sd_Attachments := cloneMessageAttachments (sd_Attachments d),
       sd_Executions := cloneExecutionDetails (sd_Executions d),
       sd_Timeline := [] @ sd_Timeline d,
       sd_Verification :=
         (case sd_Verification d of
            None \<Rightarrow> sd_Verification d
          | Some v \<Rightarrow> Some (v\<lparr>sv_Details := cloneInterfaceMap (sv_Details v),
                            sv_Runtime := CloneRuntimeMetadata (sv_Runtime v)\<rparr>)),
       sd_GoldenSummary :=
         (case sd_GoldenSummary d of
            None \<Rightarrow> sd_GoldenSummary d
          | Some s \<Rightarrow> Some (s\<lparr>gs_Evidence := [] @ gs_Evidence s\<rparr>)),
       sd_Notifications :=
         (if sd_Notifications d \<noteq> [] then [] @ sd_Notifications d else sd_Notifications d)\<rparr>"

definition cloneOutboxEvent :: "OutboxEvent \<Rightarrow> OutboxEvent" where
  "cloneOutboxEvent e = e"

lemma cloneStringMap_id [simp]: "cloneStringMap m = m"
  by (simp add: cloneStringMap_def)

lemma clone_value_id [simp]: "clone_value v = v"
proof (induction v)
  case (VMap m)
  then have "map (\<lambda>(k, v). (k, clone_value v)) m = m"
    by (intro map_idI) auto
  then show ?case by simp
qed auto

lemma cloneInterfaceMap_id [simp]: "cloneInterfaceMap m = m"
  by (simp add: cloneInterfaceMap_def)

lemma clone_ids [simp]:
  "cloneToolPlanSteps steps = steps"
  "cloneMessageAttachments atts = atts"
  "cloneExecutionDetails execs = execs"
  "cloneOutboxEvent e = e"
proof -
  have "(case g of Some s \<Rightarrow> Some s | None \<Rightarrow> g) = g" for g :: "ExecutionGoldenSummary option"
    by (cases g) auto
  then show "cloneExecutionDetails execs = execs" by (simp add: cloneExecutionDetails_def)
qed (simp_all add: cloneToolPlanSteps_def cloneMessageAttachments_def cloneOutboxEvent_def)

lemma cloneSessionDetail_id [simp]: "cloneSessionDetail d = d"
  by (simp add: cloneSessionDetail_def option.case_eq_if)

section \<open>Lists of executions and plan steps\<close>

fun upsertExecutionDetail :: "ExecutionDetail list \<Rightarrow> ExecutionDetail \<Rightarrow> ExecutionDetail list" where
  "upsertExecutionDetail [] x = [x]"
| "upsertExecutionDetail (item # items) x =
     (if ed_ExecutionID item = ed_ExecutionID x then x # items
      else item # upsertExecutionDetail items x)"

fun update_step :: "ToolPlanStep list \<Rightarrow> string \<Rightarrow> (ToolPlanStep \<Rightarrow> ToolPlanStep) \<Rightarrow> ToolPlanStep list" where
  "update_step [] stepID mutate = []"
| "update_step (step # steps) stepID mutate =
     (if TrimSpace (tp_ID step) \<noteq> TrimSpace stepID then step # update_step steps stepID mutate
      else mutate step # steps)"

definition updateToolPlanStep ::
  "SessionDetail \<Rightarrow> string \<Rightarrow> (ToolPlanStep \<Rightarrow> ToolPlanStep) \<Rightarrow> SessionDetail" where
  "updateToolPlanStep d stepID mutate =
     (if TrimSpace stepID = [] then d
      else d\<lparr>sd_ToolPlan := update_step (sd_ToolPlan d) stepID mutate\<rparr>)"

definition firstPlannedExecutionCommand :: "ToolPlanStep list \<Rightarrow> string" where
  "firstPlannedExecutionCommand steps =
     (let command = (\<lambda>step. firstNonEmpty [mapString (tp_ResolvedInput step) ''command'',
                                          mapString (tp_Input step) ''command''])
      in case find (\<lambda>step. TrimSpace (tp_Tool step) = ''execution.run_command'' \<and> command step \<noteq> [])
                steps of
           None \<Rightarrow> []
         | Some step \<Rightarrow> command step)"

lemma map_id_upsert:
  "map ed_ExecutionID (upsertExecutionDetail xs x) =
     (if ed_ExecutionID x \<in> ed_ExecutionID ` set xs then map ed_ExecutionID xs
      else map ed_ExecutionID xs @ [ed_ExecutionID x])"
  by (induction xs) auto

lemma distinct_upsert [simp]:
  "distinct (map ed_ExecutionID (upsertExecutionDetail xs x)) \<longleftrightarrow> distinct (map ed_ExecutionID xs)"
  by (simp add: map_id_upsert)

lemma in_upsert: "x \<in> set (upsertExecutionDetail xs x)"
  by (induction xs) auto

lemma set_upsert:
  assumes "distinct (map ed_ExecutionID xs)"
  shows "set (upsertExecutionDetail xs x) =
           insert x {y \<in> set xs. ed_ExecutionID y \<noteq> ed_ExecutionID x}"
  using assms by (induction xs) (auto simp: image_iff)

section \<open>Texts\<close>

definition compactSnippet :: "string \<Rightarrow> string" where
  "compactSnippet value =
     (let trimmed = Join (Fields (TrimSpace value)) '' '' in
      if length trimmed \<le> 96 then trimmed else take 93 trimmed @ ''...'')"

definition runtimeMetadataField :: "RuntimeMetadata option \<Rightarrow> string \<Rightarrow> string" where
  "runtimeMetadataField runtime field =
     (case runtime of
        None \<Rightarrow> []
      | Some r \<Rightarrow> if field = ''runtime'' then rm_Runtime r
                  else if field = ''fallback_target'' then rm_FallbackTarget r
                  else [])"

definition runtimeMetadataFallbackUsed :: "RuntimeMetadata option \<Rightarrow> bool" where
  "runtimeMetadataFallbackUsed runtime = (case runtime of None \<Rightarrow> False | Some r \<Rightarrow> rm_FallbackUsed r)"

definition workflowExecutionRuntimeSummary :: "ExecutionDetail \<Rightarrow> string" where
  "workflowExecutionRuntimeSummary e =
     ''runtime='' @ fallbackString (runtimeMetadataField (ed_Runtime e) ''runtime'') ''n/a'' @
     '' connector='' @ fallbackString (ed_ConnectorID e) ''n/a'' @
     '' protocol='' @ fallbackString (ed_Protocol e) ''n/a'' @
     '' mode='' @ fallbackString (ed_ExecutionMode e) ''n/a'' @
     '' fallback_used='' @ bool_text (runtimeMetadataFallbackUsed (ed_Runtime e)) @
     '' fallback_target='' @
       fallbackString (runtimeMetadataField (ed_Runtime e) ''fallback_target'') ''n/a''"

definition minInt :: "int \<Rightarrow> int \<Rightarrow> int" where
  "minInt a b = (if a < b then a else b)"

definition formatApprovalTimeout :: "duration \<Rightarrow> string" where
  "formatApprovalTimeout timeout =
     (if timeout \<le> 0 then ''15m''
      else if timeout mod Minute = 0 then duration_String (duration_Round timeout Minute)
      else duration_String (duration_Round timeout Second))"

definition newline :: string where "newline = [CHR 0x0A]"

definition zh_diagnosis :: string where "zh_diagnosis = [CHR 0x5B, CHR 0x54, CHR 0x41, CHR 0x52, CHR 0x53, CHR 0x5D, CHR 0x20, CHR 0xE8,
      CHR 0xAF, CHR 0x8A, CHR 0xE6, CHR 0x96, CHR 0xAD]"
definition zh_request :: string where "zh_request = [CHR 0xE8, CHR 0xAF, CHR 0xB7, CHR 0xE6, CHR 0xB1, CHR 0x82, CHR 0x3A, CHR 0x20]"
definition zh_target :: string where "zh_target = [CHR 0xE7, CHR 0x9B, CHR 0xAE, CHR 0xE6, CHR 0xA0, CHR 0x87, CHR 0x3A, CHR 0x20]"
definition zh_alert :: string where "zh_alert = [CHR 0xE5, CHR 0x91, CHR 0x8A, CHR 0xE8, CHR 0xAD, CHR 0xA6, CHR 0x3A, CHR 0x20]"
definition zh_service :: string where "zh_service = [CHR 0xE6, CHR 0x9C, CHR 0x8D, CHR 0xE5, CHR 0x8A, CHR 0xA1, CHR 0x20]"
definition zh_severity :: string where "zh_severity = [CHR 0xE7, CHR 0xBA, CHR 0xA7, CHR 0xE5, CHR 0x88, CHR 0xAB, CHR 0x20]"
definition zh_dot :: string where "zh_dot = [CHR 0x20, CHR 0xC2, CHR 0xB7, CHR 0x20]"
definition zh_conclusion :: string where "zh_conclusion = [CHR 0xE7, CHR 0xBB, CHR 0x93, CHR 0xE8, CHR 0xAE, CHR 0xBA, CHR 0x3A, CHR 0x20]"
definition zh_next :: string where "zh_next = [CHR 0xE4, CHR 0xB8, CHR 0x8B, CHR 0xE4, CHR 0xB8, CHR 0x80, CHR 0xE6, CHR 0xAD,
      CHR 0xA5, CHR 0x3A, CHR 0x20]"
definition zh_references :: string where "zh_references = [CHR 0xE5, CHR 0x8F, CHR 0x82, CHR 0xE8, CHR 0x80, CHR 0x83, CHR 0x3A, CHR 0x20]"
definition zh_references_unit :: string where "zh_references_unit = [CHR 0x20, CHR 0xE6, CHR 0x9D, CHR 0xA1, CHR 0xE7, CHR 0x9F, CHR 0xA5, CHR 0xE8,
      CHR 0xAF, CHR 0x86]"
definition zh_fingerprint :: string where "zh_fingerprint = [CHR 0xE6, CHR 0x8C, CHR 0x87, CHR 0xE7, CHR 0xBA, CHR 0xB9, CHR 0x3A, CHR 0x20]"
definition zh_session :: string where "zh_session = [CHR 0xE4, CHR 0xBC, CHR 0x9A, CHR 0xE8, CHR 0xAF, CHR 0x9D, CHR 0x3A, CHR 0x20]"
definition zh_policy :: string where "zh_policy = [CHR 0x5B, CHR 0x54, CHR 0x41, CHR 0x52, CHR 0x53, CHR 0x5D, CHR 0x20, CHR 0xE7,
      CHR 0xAD, CHR 0x96, CHR 0xE7, CHR 0x95, CHR 0xA5]"
definition zh_result :: string where "zh_result = [CHR 0xE7, CHR 0xBB, CHR 0x93, CHR 0xE6, CHR 0x9E, CHR 0x9C, CHR 0x3A, CHR 0x20]"
definition zh_command :: string where "zh_command = [CHR 0xE5, CHR 0x91, CHR 0xBD, CHR 0xE4, CHR 0xBB, CHR 0xA4, CHR 0x3A, CHR 0x20]"
definition zh_note :: string where "zh_note = [CHR 0xE8, CHR 0xAF, CHR 0xB4, CHR 0xE6, CHR 0x98, CHR 0x8E, CHR 0x3A, CHR 0x20]"
definition zh_rule :: string where "zh_rule = [CHR 0xE8, CHR 0xA7, CHR 0x84, CHR 0xE5, CHR 0x88, CHR 0x99, CHR 0x3A, CHR 0x20]"
definition zh_pending :: string where "zh_pending = [CHR 0x5B, CHR 0x54, CHR 0x41, CHR 0x52, CHR 0x53, CHR 0x5D, CHR 0x20, CHR 0xE5,
      CHR 0xBE, CHR 0x85, CHR 0xE5, CHR 0xAE, CHR 0xA1, CHR 0xE6, CHR 0x89, CHR 0xB9]"
definition zh_risk :: string where "zh_risk = [CHR 0xE9, CHR 0xA3, CHR 0x8E, CHR 0xE9, CHR 0x99, CHR 0xA9, CHR 0x3A, CHR 0x20]"
definition zh_reason :: string where "zh_reason = [CHR 0xE5, CHR 0x8E, CHR 0x9F, CHR 0xE5, CHR 0x9B, CHR 0xA0, CHR 0x3A, CHR 0x20]"
definition zh_deadline :: string where "zh_deadline = [CHR 0xE6, CHR 0x97, CHR 0xB6, CHR 0xE9, CHR 0x99, CHR 0x90, CHR 0x3A, CHR 0x20]"
definition zh_origin :: string where "zh_origin = [CHR 0xE6, CHR 0x9D, CHR 0xA5, CHR 0xE6, CHR 0xBA, CHR 0x90, CHR 0x3A, CHR 0x20]"
definition zh_capability_pending :: string where "zh_capability_pending = [CHR 0x5B, CHR 0x54, CHR 0x41, CHR 0x52, CHR 0x53, CHR 0x20, CHR 0xE8, CHR 0x83,
      CHR 0xBD, CHR 0xE5, CHR 0x8A, CHR 0x9B, CHR 0xE5, CHR 0xAE, CHR 0xA1, CHR 0xE6,
      CHR 0x89, CHR 0xB9, CHR 0x5D]"
definition zh_diagnosis_result :: string where "zh_diagnosis_result = [CHR 0xE8, CHR 0xAF, CHR 0x8A, CHR 0xE6, CHR 0x96, CHR 0xAD, CHR 0xE7, CHR 0xBB,
      CHR 0x93, CHR 0xE6, CHR 0x9E, CHR 0x9C]"
definition zh_approve_execution :: string where "zh_approve_execution = [CHR 0xE6, CHR 0x89, CHR 0xB9, CHR 0xE5, CHR 0x87, CHR 0x86, CHR 0xE6, CHR 0x89,
      CHR 0xA7, CHR 0xE8, CHR 0xA1, CHR 0x8C]"
definition zh_approve_capability :: string where "zh_approve_capability = [CHR 0xE6, CHR 0x89, CHR 0xB9, CHR 0xE5, CHR 0x87, CHR 0x86, CHR 0xE8, CHR 0x83,
      CHR 0xBD, CHR 0xE5, CHR 0x8A, CHR 0x9B]"
definition zh_reject :: string where "zh_reject = [CHR 0xE6, CHR 0x8B, CHR 0x92, CHR 0xE7, CHR 0xBB, CHR 0x9D]"
definition zh_request_context :: string where "zh_request_context = [CHR 0xE8, CHR 0xA6, CHR 0x81, CHR 0xE6, CHR 0xB1, CHR 0x82, CHR 0xE8, CHR 0xA1,
      CHR 0xA5, CHR 0xE5, CHR 0x85, CHR 0x85, CHR 0xE4, CHR 0xBF, CHR 0xA1, CHR 0xE6,
      CHR 0x81, CHR 0xAF]"
definition zh_more_context :: string where "zh_more_context = [CHR 0xE8, CHR 0xA1, CHR 0xA5, CHR 0xE5, CHR 0x85, CHR 0x85, CHR 0xE4, CHR 0xBF,
      CHR 0xA1, CHR 0xE6, CHR 0x81, CHR 0xAF]"
definition zh_direct_execute :: string where "zh_direct_execute = [CHR 0xE7, CHR 0x9B, CHR 0xB4, CHR 0xE6, CHR 0x8E, CHR 0xA5, CHR 0xE6, CHR 0x89,
      CHR 0xA7, CHR 0xE8, CHR 0xA1, CHR 0x8C]"
definition zh_require_approval :: string where "zh_require_approval = [CHR 0xE9, CHR 0x9C, CHR 0x80, CHR 0xE8, CHR 0xA6, CHR 0x81, CHR 0xE5, CHR 0xAE,
      CHR 0xA1, CHR 0xE6, CHR 0x89, CHR 0xB9]"
definition zh_suggest_only :: string where "zh_suggest_only = [CHR 0xE4, CHR 0xBB, CHR 0x85, CHR 0xE5, CHR 0xBB, CHR 0xBA, CHR 0xE8, CHR 0xAE,
      CHR 0xAE]"
definition zh_denied :: string where "zh_denied = [CHR 0xE5, CHR 0xB7, CHR 0xB2, CHR 0xE6, CHR 0x8B, CHR 0x92, CHR 0xE7, CHR 0xBB,
      CHR 0x9D]"
definition zh_note_direct :: string where
  "zh_note_direct = [CHR 0xE5, CHR 0x91, CHR 0xBD, CHR 0xE4, CHR 0xB8, CHR 0xAD, CHR 0xE7, CHR 0x99,
      CHR 0xBD, CHR 0xE5, CHR 0x90, CHR 0x8D, CHR 0xE5, CHR 0x8D, CHR 0x95, CHR 0xEF,
      CHR 0xBC, CHR 0x8C, CHR 0xE5, CHR 0xBC, CHR 0x80, CHR 0xE5, CHR 0xA7, CHR 0x8B,
      CHR 0xE7, CHR 0x9B, CHR 0xB4, CHR 0xE6, CHR 0x8E, CHR 0xA5, CHR 0xE6, CHR 0x89,
      CHR 0xA7, CHR 0xE8, CHR 0xA1, CHR 0x8C, CHR 0xE3, CHR 0x80, CHR 0x82]"
definition zh_note_direct_disabled :: string where
  "zh_note_direct_disabled = [CHR 0xE5, CHR 0x91, CHR 0xBD, CHR 0xE4, CHR 0xB8, CHR 0xAD, CHR 0xE7, CHR 0x99,
      CHR 0xBD, CHR 0xE5, CHR 0x90, CHR 0x8D, CHR 0xE5, CHR 0x8D, CHR 0x95, CHR 0xEF,
      CHR 0xBC, CHR 0x8C, CHR 0xE4, CHR 0xBD, CHR 0x86, CHR 0xE5, CHR 0xBD, CHR 0x93,
      CHR 0xE5, CHR 0x89, CHR 0x8D, CHR 0xE6, CHR 0x89, CHR 0xA7, CHR 0xE8, CHR 0xA1,
      CHR 0x8C, CHR 0xE5, CHR 0x8A, CHR 0x9F, CHR 0xE8, CHR 0x83, CHR 0xBD, CHR 0xE5,
      CHR 0x85, CHR 0xB3, CHR 0xE9, CHR 0x97, CHR 0xAD, CHR 0xEF, CHR 0xBC, CHR 0x8C,
      CHR 0xE8, CHR 0xAF, CHR 0xB7, CHR 0xE6, CHR 0x89, CHR 0x8B, CHR 0xE5, CHR 0x8A,
      CHR 0xA8, CHR 0xE5, CHR 0xA4, CHR 0x84, CHR 0xE7, CHR 0x90, CHR 0x86, CHR 0xE3,
      CHR 0x80, CHR 0x82]"
definition zh_note_approval_disabled :: string where
  "zh_note_approval_disabled = [CHR 0xE5, CHR 0x91, CHR 0xBD, CHR 0xE4, CHR 0xBB, CHR 0xA4, CHR 0xE9, CHR 0x9C,
      CHR 0x80, CHR 0xE8, CHR 0xA6, CHR 0x81, CHR 0xE5, CHR 0xAE, CHR 0xA1, CHR 0xE6,
      CHR 0x89, CHR 0xB9, CHR 0xEF, CHR 0xBC, CHR 0x8C, CHR 0xE4, CHR 0xBD, CHR 0x86,
      CHR 0xE5, CHR 0xBD, CHR 0x93, CHR 0xE5, CHR 0x89, CHR 0x8D, CHR 0xE5, CHR 0xAE,
      CHR 0xA1, CHR 0xE6, CHR 0x89, CHR 0xB9, CHR 0xE5, CHR 0x8A, CHR 0x9F, CHR 0xE8,
      CHR 0x83, CHR 0xBD, CHR 0xE5, CHR 0x85, CHR 0xB3, CHR 0xE9, CHR 0x97, CHR 0xAD,
      CHR 0xEF, CHR 0xBC, CHR 0x8C, CHR 0xE8, CHR 0xAF, CHR 0xB7, CHR 0xE6, CHR 0x89,
      CHR 0x8B, CHR 0xE5, CHR 0x8A, CHR 0xA8, CHR 0xE5, CHR 0xA4, CHR 0x84, CHR 0xE7,
      CHR 0x90, CHR 0x86, CHR 0xE3, CHR 0x80, CHR 0x82]"
definition zh_note_suggest_only :: string where
  "zh_note_suggest_only = [CHR 0xE5, CHR 0x91, CHR 0xBD, CHR 0xE4, CHR 0xB8, CHR 0xAD, CHR 0xE6, CHR 0x89,
      CHR 0x8B, CHR 0xE5, CHR 0x8A, CHR 0xA8, CHR 0xE5, CHR 0xA4, CHR 0x84, CHR 0xE7,
      CHR 0x90, CHR 0x86, CHR 0xE7, CHR 0xAD, CHR 0x96, CHR 0xE7, CHR 0x95, CHR 0xA5,
      CHR 0xEF, CHR 0xBC, CHR 0x8C, CHR 0xE5, CHR 0xBD, CHR 0x93, CHR 0xE5, CHR 0x89,
      CHR 0x8D, CHR 0xE5, CHR 0x8F, CHR 0xAA, CHR 0xE5, CHR 0xB1, CHR 0x95, CHR 0xE7,
      CHR 0xA4, CHR 0xBA, CHR 0xE5, CHR 0xBB, CHR 0xBA, CHR 0xE8, CHR 0xAE, CHR 0xAE,
      CHR 0xE5, CHR 0x91, CHR 0xBD, CHR 0xE4, CHR 0xBB, CHR 0xA4, CHR 0xEF, CHR 0xBC,
      CHR 0x8C, CHR 0xE4, CHR 0xB8, CHR 0x8D, CHR 0xE4, CHR 0xBC, CHR 0x9A, CHR 0xE8,
      CHR 0x87, CHR 0xAA, CHR 0xE5, CHR 0x8A, CHR 0xA8, CHR 0xE6, CHR 0x89, CHR 0xA7,
      CHR 0xE8, CHR 0xA1, CHR 0x8C, CHR 0xE3, CHR 0x80, CHR 0x82]"
definition zh_note_denied :: string where
  "zh_note_denied = [CHR 0xE5, CHR 0x91, CHR 0xBD, CHR 0xE4, CHR 0xB8, CHR 0xAD, CHR 0xE7, CHR 0xA6,
      CHR 0x81, CHR 0xE6, CHR 0xAD, CHR 0xA2, CHR 0xE7, CHR 0xAD, CHR 0x96, CHR 0xE7,
      CHR 0x95, CHR 0xA5, CHR 0xEF, CHR 0xBC, CHR 0x8C, CHR 0xE5, CHR 0xBD, CHR 0x93,
      CHR 0xE5, CHR 0x89, CHR 0x8D, CHR 0xE4, CHR 0xB8, CHR 0x8D, CHR 0xE5, CHR 0x85,
      CHR 0x81, CHR 0xE8, CHR 0xAE, CHR 0xB8, CHR 0xE6, CHR 0x89, CHR 0xA7, CHR 0xE8,
      CHR 0xA1, CHR 0x8C, CHR 0xE8, CHR 0xBF, CHR 0x99, CHR 0xE6, CHR 0x9D, CHR 0xA1,
      CHR 0xE5, CHR 0x91, CHR 0xBD, CHR 0xE4, CHR 0xBB, CHR 0xA4, CHR 0xE3, CHR 0x80,
      CHR 0x82]"

definition formatDiagnosisMessage :: "SessionDetail \<Rightarrow> DiagnosisOutput \<Rightarrow> string" where
  "formatDiagnosisMessage detail diagnosis =
     (let alert = sd_Alert detail;
          host = stringFromAlert alert ''host'';
          fingerprint = stringFromAlert alert ''fingerprint'';
          alertName = fallbackString (alertLabel alert ''alertname'') ''unknown-alert'';
          service = alertLabel alert ''service'';
          severity = fallbackString (stringFromAlert alert ''severity'') ''info'';
          source = fallbackString (stringFromAlert alert ''source'') ''vmalert'';
          userRequest = annotationString alert ''user_request''
      in Join
          ([zh_diagnosis] @
           (if source = ''telegram_chat'' \<and> TrimSpace userRequest \<noteq> []
            then [zh_request @ compactSnippet userRequest,
                  zh_target @ fallbackString host ''unknown-host'']
            else [zh_alert @ alertName @ '' @ '' @ fallbackString host ''unknown-host'']) @
           (if service \<noteq> [] \<or> severity \<noteq> ''info''
            then [Join ((if service \<noteq> [] then [zh_service @ service] else []) @
                        (if severity \<noteq> ''info'' then [zh_severity @ severity] else [])) zh_dot]
            else []) @
           [zh_conclusion @ do_Summary diagnosis] @
           (if do_ExecutionHint diagnosis \<noteq> [] then [zh_next @ do_ExecutionHint diagnosis] else []) @
           (if do_Citations diagnosis \<noteq> []
            then [zh_references @ dec_int (minInt (int (length (do_Citations diagnosis))) 3) @
                  zh_references_unit]
            else []) @
           (if fingerprint \<noteq> [] \<and> source \<noteq> ''telegram_chat'' then [zh_fingerprint @ fingerprint]
            else []) @
           [zh_session @ sd_SessionID detail])
          newline)"

definition authorizationActionLabel :: "string \<Rightarrow> string" where
  "authorizationActionLabel action =
     (if action = ActionDirectExecute then zh_direct_execute
      else if action = ActionRequireApproval then zh_require_approval
      else if action = ActionSuggestOnly then zh_suggest_only
      else if action = ActionDeny then zh_denied
      else action)"

definition buildAuthorizationDecisionMessage ::
  "SessionDetail \<Rightarrow> string \<Rightarrow> Decision \<Rightarrow> string \<Rightarrow> string \<Rightarrow> ChannelMessage" where
  "buildAuthorizationDecisionMessage detail command decision target summary =
     zero_ChannelMessage\<lparr>
       cm_Channel := notificationChannelForAlert (sd_Alert detail),
       cm_Target := notificationTargetForAlert (sd_Alert detail) target,
       cm_Body := Join
         ([zh_policy, zh_result @ authorizationActionLabel (dn_Action decision)] @
          (if TrimSpace command \<noteq> [] then [zh_command @ command] else []) @
          (if TrimSpace summary \<noteq> [] then [zh_note @ summary] else []) @
          (if TrimSpace (dn_RuleID decision) \<noteq> [] then [zh_rule @ dn_RuleID decision] else []) @
          [zh_session @ sd_SessionID detail]) newline\<rparr>"

definition formatApprovalMessage ::
  "SessionDetail \<Rightarrow> ExecutionDetail \<Rightarrow> Route \<Rightarrow> duration \<Rightarrow> string" where
  "formatApprovalMessage detail execution route timeout0 =
     (let timeout = (if timeout0 \<le> 0 then 15 * Minute else timeout0);
          alert = sd_Alert detail;
          rest =
            newline @ zh_risk @ ed_RiskLevel execution @
            newline @ zh_command @ ed_Command execution @
            newline @ zh_reason @
              compactSnippet (fallbackString (sd_DiagnosisSummary detail) ''diagnosis pending'') @
            newline @ zh_deadline @ formatApprovalTimeout timeout @
            newline @ zh_session @ sd_SessionID detail
      in if stringFromAlert alert ''source'' = ''telegram_chat'' \<and>
            TrimSpace (annotationString alert ''user_request'') \<noteq> []
         then zh_pending @
              newline @ zh_request @ compactSnippet (annotationString alert ''user_request'') @
              newline @ zh_target @ fallbackString (stringFromAlert alert ''host'') ''unknown-host'' @
              rest
         else zh_pending @
              newline @ zh_alert @ fallbackString (alertLabel alert ''alertname'') ''unknown-alert'' @
              '' @ '' @ fallbackString (stringFromAlert alert ''host'') ''unknown-host'' @
              rest)"

definition formatCapabilityApprovalMessage ::
  "SessionDetail \<Rightarrow> ExecutionDetail \<Rightarrow> Route \<Rightarrow> duration \<Rightarrow> string" where
  "formatCapabilityApprovalMessage detail execution route timeout0 =
     (let timeout = (if timeout0 \<le> 0 then 15 * Minute else timeout0) in
      zh_capability_pending @
      newline @ ''session: '' @ sd_SessionID detail @
      newline @ ''approval: '' @ ed_ExecutionID execution @
      newline @ ''connector: '' @ fallbackString (ed_ConnectorID execution) ''unknown-connector'' @
      newline @ ''capability: '' @ fallbackString (ed_CapabilityID execution) ''unknown-capability'' @
      newline @ ''params: '' @ compactSnippet (value_text (VMap (ed_CapabilityParams execution))) @
      newline @ zh_reason @
        fallbackString (sd_DiagnosisSummary detail) ''tool plan requested approval'' @
      newline @ zh_deadline @ duration_String (duration_Round timeout Second) @
      newline @ zh_origin @ rt_SourceLabel route)"

definition approval_targets :: "SessionDetail \<Rightarrow> Route \<Rightarrow> string list" where
  "approval_targets detail route =
     (if rt_Targets route = [] then [pickNotificationTarget (sd_Alert detail)] else rt_Targets route)"

definition buildApprovalMessages ::
  "SessionDetail \<Rightarrow> ExecutionDetail \<Rightarrow> Route \<Rightarrow> duration \<Rightarrow> ChannelMessage list" where
  "buildApprovalMessages detail execution route timeout =
     map (\<lambda>target. zero_ChannelMessage\<lparr>
            cm_Channel := notificationChannelForAlert (sd_Alert detail),
            cm_Target := notificationTargetForAlert (sd_Alert detail) target,
            cm_Body := formatApprovalMessage detail execution route timeout,
            cm_Actions :=
              [\<lparr>ca_Label = zh_approve_execution, ca_Value = ''approve:'' @ ed_ExecutionID execution\<rparr>,
               \<lparr>ca_Label = zh_reject, ca_Value = ''reject:'' @ ed_ExecutionID execution\<rparr>,
               \<lparr>ca_Label = zh_request_context,
                ca_Value = ''request_context:'' @ ed_ExecutionID execution\<rparr>]\<rparr>)
       (approval_targets detail route)"

definition buildCapabilityApprovalMessages ::
  "SessionDetail \<Rightarrow> ExecutionDetail \<Rightarrow> Route \<Rightarrow> duration \<Rightarrow> ChannelMessage list" where
  "buildCapabilityApprovalMessages detail execution route timeout =
     map (\<lambda>target. zero_ChannelMessage\<lparr>
            cm_Channel := notificationChannelForAlert (sd_Alert detail),
            cm_Target := notificationTargetForAlert (sd_Alert detail) target,
            cm_Body := formatCapabilityApprovalMessage detail execution route timeout,
            cm_Actions :=
              [\<lparr>ca_Label = zh_approve_capability, ca_Value = ''approve:'' @ ed_ExecutionID execution\<rparr>,
               \<lparr>ca_Label = zh_reject, ca_Value = ''reject:'' @ ed_ExecutionID execution\<rparr>,
               \<lparr>ca_Label = zh_more_context,
                ca_Value = ''request_context:'' @ ed_ExecutionID execution\<rparr>]\<rparr>)
       (approval_targets detail route)"

lemma approval_messages_nonempty:
  "buildApprovalMessages d e r t \<noteq> []" "buildCapabilityApprovalMessages d e r t \<noteq> []"
  by (simp_all add: buildApprovalMessages_def buildCapabilityApprovalMessages_def approval_targets_def)

section \<open>Rehydration of placeholders\<close>

text \<open>
  The part of \<^verbatim>\<open>reasoning.DesensitizationConfig\<close> that is read here; the default configuration
  rehydrates hosts, addresses and paths.  \<open>order\<close> is the order in which the mapping is ranged over.
  \<^verbatim>\<open>sort.Slice\<close> does not fix the order of placeholders of equal length; since \<open>order\<close> is arbitrary, the
  stable sort of some order is every result it can give.
\<close>

record RehydrationConfig =
  rh_Host :: bool
  rh_IP :: bool
  rh_Path :: bool

definition DefaultDesensitizationConfig :: RehydrationConfig where
  "DefaultDesensitizationConfig = \<lparr>rh_Host = True, rh_IP = True, rh_Path = True\<rparr>"

definition rehydrates :: "RehydrationConfig \<Rightarrow> string \<Rightarrow> bool" where
  "rehydrates cfg key =
     (if HasPrefix key ''[HOST_'' \<and> \<not> rh_Host cfg then False
      else if HasPrefix key ''[IP_'' \<and> \<not> rh_IP cfg then False
      else if HasPrefix key ''[PATH_'' \<and> \<not> rh_Path cfg then False
      else True)"

definition rehydratePlaceholders ::
  "string list \<Rightarrow> string \<Rightarrow> strmap \<Rightarrow> RehydrationConfig option \<Rightarrow> string" where
  "rehydratePlaceholders order input mapping cfg0 =
     (if input = [] \<or> mapping = [] then input
      else
        (let cfg = (case cfg0 of None \<Rightarrow> DefaultDesensitizationConfig | Some c \<Rightarrow> c);
             keys = slice_stable (\<lambda>a b. length a > length b) (filter (rehydrates cfg) order)
         in foldl (\<lambda>output placeholder. ReplaceAll output placeholder (sget mapping placeholder))
              input keys))"

definition rehydrateDiagnosisOutput ::
  "string list \<Rightarrow> DiagnosisOutput \<Rightarrow> RehydrationConfig option \<Rightarrow> DiagnosisOutput" where
  "rehydrateDiagnosisOutput order diagnosis cfg =
     (if do_DesenseMap diagnosis = [] then diagnosis
      else diagnosis\<lparr>
        do_Summary := rehydratePlaceholders order (do_Summary diagnosis) (do_DesenseMap diagnosis) cfg,
        do_ExecutionHint :=
          rehydratePlaceholders order (do_ExecutionHint diagnosis) (do_DesenseMap diagnosis) cfg\<rparr>)"

section \<open>Output chunks\<close>

text \<open>The loop over the positions of the runes of the input, which stops behind \<open>maxBytes\<close>.\<close>

fun boundary_loop :: "nat \<Rightarrow> nat list \<Rightarrow> nat \<Rightarrow> nat" where
  "boundary_loop maxBytes [] lastBoundary = lastBoundary"
| "boundary_loop maxBytes (index # rest) lastBoundary =
     (if index > maxBytes then lastBoundary else boundary_loop maxBytes rest index)"

definition truncateStringByBytes :: "string \<Rightarrow> int \<Rightarrow> string \<times> bool" where
  "truncateStringByBytes input maxBytes =
     (if maxBytes \<le> 0 \<or> input = [] then ([], input \<noteq> [])
      else if int (length input) \<le> maxBytes then (input, False)
      else
        (let lastBoundary = boundary_loop (nat maxBytes) (rune_starts 0 input) 0 in
         if lastBoundary = 0 then ([], True) else (take lastBoundary input, True)))"

function split_loop :: "string \<Rightarrow> int \<Rightarrow> string list" where
  "split_loop remaining chunkBytes =
     (if remaining = [] then []
      else
        (let (chunk, truncated) = truncateStringByBytes remaining chunkBytes in
         if chunk = [] \<and> truncated then []
         else if chunk = [] then [remaining]
         else if \<not> truncated then [chunk]
         else chunk # split_loop (drop (length chunk) remaining) chunkBytes))"
  by pat_completeness auto
termination
  by (relation "measure (\<lambda>(remaining, _). length remaining)") (auto intro: nat_sub_less)

declare split_loop.simps [simp del]

definition splitStringByBytes :: "string \<Rightarrow> int \<Rightarrow> string list" where
  "splitStringByBytes input chunkBytes0 =
     (let chunkBytes = (if chunkBytes0 \<le> 0 then 16 * 1024 else chunkBytes0) in
      if input = [] then [] else split_loop input chunkBytes)"

text \<open>\<open>clock\<close> is what \<^verbatim>\<open>time.Now\<close> reads.\<close>

definition buildExecutionOutputChunks :: "gotime \<Rightarrow> string \<Rightarrow> gotime \<Rightarrow> ExecutionOutputChunk list" where
  "buildExecutionOutputChunks clock preview createdAt0 =
     (if preview = [] then []
      else
        (let createdAt = (if IsZero createdAt0 then clock else createdAt0) in
         map (\<lambda>(index, chunk).
                \<lparr>oc_Seq = int index, oc_StreamType = ''combined'', oc_Content = chunk,
                 oc_ByteSize = int (length chunk), oc_CreatedAt = createdAt\<rparr>)
           (enumerate 0 (splitStringByBytes preview (16 * 1024)))))"

section \<open>Lemmas\<close>

lemma compactSnippet_bound: "length (compactSnippet v) \<le> 96"
  by (simp add: compactSnippet_def Let_def)

lemma boundary_loop_le: "l \<le> m \<Longrightarrow> boundary_loop m xs l \<le> m"
  by (induction m xs l rule: boundary_loop.induct) auto

lemma boundary_loop_in: "boundary_loop m xs l = l \<or> boundary_loop m xs l \<in> set xs"
  by (induction m xs l rule: boundary_loop.induct) auto

lemma boundary_loop_pos:
  assumes "4 \<le> m" and "m < length s"
  shows "0 < boundary_loop m (rune_starts 0 s) 0"
proof -
  let ?w = "rune_width s"
  have w: "1 \<le> ?w" "?w \<le> 4" by (rule rune_width_bounds)+
  have "s \<noteq> []" and ne: "drop ?w s \<noteq> []" using assms w by auto
  then have "rune_starts 0 s = 0 # rune_starts ?w (drop ?w s)"
    by (cases s) (simp_all add: rune_starts.simps(2))
  also have "rune_starts ?w (drop ?w s) =
      ?w # rune_starts (?w + rune_width (drop ?w s)) (drop (rune_width (drop ?w s)) (drop ?w s))"
    using ne by (cases "drop ?w s") (simp_all add: rune_starts.simps(2))
  finally have "boundary_loop m (rune_starts 0 s) 0 =
      boundary_loop m (rune_starts (?w + rune_width (drop ?w s))
        (drop (rune_width (drop ?w s)) (drop ?w s))) ?w"
    using assms w by simp
  then show ?thesis using boundary_loop_in w(1) rune_starts_ge
    by (metis (no_types, lifting) add_leD1 less_le_trans less_one linorder_not_less)
qed

lemma truncateStringByBytes_spec:
  assumes "4 \<le> m" and "s \<noteq> []" and "truncateStringByBytes s m = (chunk, truncated)"
  shows "chunk \<noteq> []" and "int (length chunk) \<le> m" and "chunk @ drop (length chunk) s = s"
    and "runes chunk @ runes (drop (length chunk) s) = runes s"
    and "\<not> truncated \<Longrightarrow> chunk = s"
proof -
  let ?b = "boundary_loop (nat m) (rune_starts 0 s) 0"
  have cut: "\<not> int (length s) \<le> m \<Longrightarrow> 0 < ?b \<and> ?b \<le> nat m \<and> ?b \<in> set (rune_starts 0 s)"
    using boundary_loop_pos [of "nat m" s] boundary_loop_le [of 0 "nat m" "rune_starts 0 s"] assms(1)
      boundary_loop_in [of "nat m" "rune_starts 0 s" 0] by linarith
  have "chunk \<noteq> [] \<and> int (length chunk) \<le> m \<and> chunk @ drop (length chunk) s = s \<and>
      runes chunk @ runes (drop (length chunk) s) = runes s \<and> (\<not> truncated \<longrightarrow> chunk = s)"
  proof (cases "int (length s) \<le> m")
    case True
    with assms show ?thesis by (simp add: truncateStringByBytes_def)
  next
    case False
    with cut have b: "0 < ?b" "?b \<le> nat m" "?b \<in> set (rune_starts 0 s)" by auto
    with False assms have chunk: "chunk = take ?b s" "truncated"
      by (auto simp: truncateStringByBytes_def Let_def)
    have len: "length chunk = ?b" using chunk b(2) False assms(1) by simp
    have "runes (take ?b s) @ runes (drop ?b s) = runes s" using b(3) by (intro runes_cut [of 0]) simp
    then show ?thesis using chunk len b assms(2) by simp
  qed
  then show "chunk \<noteq> []" "int (length chunk) \<le> m" "chunk @ drop (length chunk) s = s"
    "runes chunk @ runes (drop (length chunk) s) = runes s" "\<not> truncated \<Longrightarrow> chunk = s"
    by simp_all
qed

lemma split_loop_spec:
  assumes "4 \<le> m"
  shows "concat (split_loop s m) = s \<and> concat (map runes (split_loop s m)) = runes s \<and>
         (\<forall>chunk \<in> set (split_loop s m). chunk \<noteq> [] \<and> int (length chunk) \<le> m)"
  using assms
proof (induction s m rule: split_loop.induct)
  case (1 s m)
  obtain chunk truncated where tr: "truncateStringByBytes s m = (chunk, truncated)" by fastforce
  show ?case
  proof (cases "s = []")
    case True
    then show ?thesis by (simp add: split_loop.simps [of "[]"])
  next
    case False
    note spec = truncateStringByBytes_spec [OF "1.prems" False tr]
    show ?thesis
    proof (cases truncated)
      case True
      note ih = "1.IH" [OF False tr [symmetric] refl _ spec(1) _ "1.prems"]
      have "split_loop s m = chunk # split_loop (drop (length chunk) s) m"
        using False spec(1) True tr by (simp add: split_loop.simps [of s])
      with ih spec True show ?thesis by simp
    next
      case untruncated: False
      then have "split_loop s m = [s]"
        using False spec tr by (simp add: split_loop.simps [of s])
      with spec untruncated False show ?thesis by simp
    qed
  qed
qed

lemma output_chunks_spec:
  "concat (map oc_Content (buildExecutionOutputChunks clock preview t)) = preview \<and>
   concat (map (runes \<circ> oc_Content) (buildExecutionOutputChunks clock preview t)) = runes preview \<and>
   map oc_Seq (buildExecutionOutputChunks clock preview t) =
     map int [0..<length (buildExecutionOutputChunks clock preview t)] \<and>
   (\<forall>c \<in> set (buildExecutionOutputChunks clock preview t).
      oc_ByteSize c = int (length (oc_Content c)) \<and> 0 < oc_ByteSize c \<and> oc_ByteSize c \<le> 16384)"
proof (cases "preview = []")
  case False
  define cs where "cs = split_loop preview 16384"
  have spec: "concat cs = preview" "concat (map runes cs) = runes preview"
    "\<forall>chunk \<in> set cs. chunk \<noteq> [] \<and> int (length chunk) \<le> 16384"
    using split_loop_spec [of 16384 preview] by (simp_all add: cs_def)
  have build: "buildExecutionOutputChunks clock preview t =
      map (\<lambda>(i, c). \<lparr>oc_Seq = int i, oc_StreamType = ''combined'', oc_Content = c,
        oc_ByteSize = int (length c), oc_CreatedAt = (if IsZero t then clock else t)\<rparr>) (enumerate 0 cs)"
    using False by (simp add: buildExecutionOutputChunks_def splitStringByBytes_def cs_def)
  have "map oc_Content (buildExecutionOutputChunks clock preview t) = map snd (enumerate 0 cs)"
    unfolding build by (simp add: comp_def case_prod_unfold)
  moreover have "map (runes \<circ> oc_Content) (buildExecutionOutputChunks clock preview t) =
      map runes (map snd (enumerate 0 cs))"
    unfolding build map_map by (simp add: comp_def case_prod_unfold del: map_snd_enumerate)
  moreover have "map oc_Seq (buildExecutionOutputChunks clock preview t) =
      map int (map fst (enumerate 0 cs))"
    unfolding build map_map by (simp add: comp_def case_prod_unfold del: map_fst_enumerate)
  moreover have "length (buildExecutionOutputChunks clock preview t) = length cs"
    unfolding build by simp
  ultimately have texts: "concat (map oc_Content (buildExecutionOutputChunks clock preview t)) = preview"
      "concat (map (runes \<circ> oc_Content) (buildExecutionOutputChunks clock preview t)) = runes preview"
      "map oc_Seq (buildExecutionOutputChunks clock preview t) =
        map int [0..<length (buildExecutionOutputChunks clock preview t)]"
    using spec by simp_all
  have "\<forall>c \<in> set (buildExecutionOutputChunks clock preview t).
      oc_ByteSize c = int (length (oc_Content c)) \<and> 0 < oc_ByteSize c \<and> oc_ByteSize c \<le> 16384"
    unfolding build using spec(3) by (auto simp: in_set_enumerate_eq)
  with texts show ?thesis by (intro conjI)
qed (simp add: buildExecutionOutputChunks_def)

end
