(* ===== verification/Workflow_State.thy ===== *)
theory Workflow_State
  imports Workflow_Text Agent_Role Connector_Runtime "HOL-Library.Word"
begin

text \<open>
  The state of the in-memory workflow service, \<^verbatim>\<open>internal/modules/workflow/service.go\<close>: the options it
  is built with, the sessions, executions and outbox it keeps, and the three counters its ids come
  from, machine words of 64 bits.

  The service holds its lock during a whole operation, so an operation is a function from the state
  to a result and a state; the state of an operation that fails is the state the source leaves
  behind.  \<^verbatim>\<open>time.Now\<close> is the argument \<open>clock\<close> of an operation.  The records that the maps of
  sessions and of the outbox point to are reached through one key each, so the maps hold the records.

  The components the service calls are options: the router and the policy as the functions of
  their Go interfaces, the role manager and the connectors as the states of those components.
\<close>

section \<open>State\<close>

record Options =
  op_DiagnosisEnabled :: bool
  op_ApprovalEnabled :: bool
  op_ExecutionEnabled :: bool
  op_KnowledgeIngestEnabled :: bool
  op_ApprovalTimeout :: duration
  op_ApprovalRouter :: "(valmap \<Rightarrow> string \<Rightarrow> string \<Rightarrow> Route) option"
  op_AuthorizationPolicy :: "(SSHCommandInput \<Rightarrow> Decision) option"
  op_AgentRoleManager :: "RoleManager option"
  op_DesensitizationProvider :: "RehydrationConfig option option"
  op_Connectors :: "Snapshot option"

record sessionRecord =
  sr_detail :: SessionDetail
  sr_fingerprint :: string
  sr_host :: string
  sr_desenseMap :: strmap

type_synonym counter = "64 word"

record Service =
  ws_seq :: counter
  ws_outboxSeq :: counter
  ws_executionSeq :: counter
  ws_opts :: Options
  ws_sessions :: "string \<rightharpoonup> sessionRecord"
  ws_sessionOrder :: "string list"
  ws_sessionByFingerprint :: "string \<rightharpoonup> string"
  ws_executions :: "string \<rightharpoonup> ExecutionDetail"
  ws_executionOutputs :: "string \<rightharpoonup> ExecutionOutputChunk list"
  ws_executionSession :: "string \<rightharpoonup> string"
  ws_processedEvents :: "string set"
  ws_processedAlerts :: "string \<rightharpoonup> string"
  ws_outbox :: "string \<rightharpoonup> OutboxEvent"
  ws_outboxPayloads :: "string \<rightharpoonup> string"
  ws_outboxOrder :: "string list"

definition NewService :: "Options \<Rightarrow> Service" where
  "NewService opts0 =
     (let opts = (if op_ApprovalTimeout opts0 \<le> 0 then opts0\<lparr>op_ApprovalTimeout := 15 * Minute\<rparr>
                  else opts0)
      in \<lparr>ws_seq = 0, ws_outboxSeq = 0, ws_executionSeq = 0, ws_opts = opts,
          ws_sessions = Map.empty, ws_sessionOrder = [], ws_sessionByFingerprint = Map.empty,
          ws_executions = Map.empty, ws_executionOutputs = Map.empty,
          ws_executionSession = Map.empty, ws_processedEvents = {}, ws_processedAlerts = Map.empty,
          ws_outbox = Map.empty, ws_outboxPayloads = Map.empty, ws_outboxOrder = []\<rparr>)"

section \<open>Identifiers\<close>

definition format_id :: "string \<Rightarrow> nat \<Rightarrow> string" where
  "format_id pfx n = pfx @ ''-'' @ dec_pad 6 n"

text \<open>The new identifier and the new value of the counter.\<close>

definition nextID :: "string \<Rightarrow> counter \<Rightarrow> string \<times> counter" where
  "nextID pfx c = (let c' = c + 1 in (format_id pfx (unat c'), c'))"

lemma format_id_inj [simp]: "format_id pfx m = format_id pfx n \<longleftrightarrow> m = n"
  by (simp add: format_id_def dec_pad_inj)

lemma format_id_nonempty [simp]: "format_id pfx n \<noteq> []"
  by (simp add: format_id_def)

lemma TrimSpace_session_id [simp]: "TrimSpace (format_id ''ses'' n) = format_id ''ses'' n"
proof -
  obtain xs d where d: "d < 10" "dec n = xs @ [digit d]" using dec_last by blast
  have "rev (format_id ''ses'' n) = digit d # rev (''ses-'' @ replicate (6 - length (dec n)) (CHR ''0'') @ xs)"
    by (simp add: format_id_def dec_pad_def d(2))
  then have r: "seq_width (map rev space_seqs) (rev (format_id ''ses'' n)) = 0"
    using seq_width_digit [OF d(1)] by metis
  have l: "seq_width space_seqs (format_id ''ses'' n) = 0"
    by (simp add: format_id_def seq_width_def space_seqs_def ascii_spaces_def)
  show ?thesis
    by (simp add: TrimSpace_def trim_left_space_def trim_right_space_def trim_front_id [OF l] trim_front_id [OF r])
qed

text \<open>A counter that has not reached its last value does not wrap.\<close>

definition room :: "counter \<Rightarrow> bool" where
  "room c \<longleftrightarrow> c \<noteq> - 1"

lemma unat_room: "room c \<Longrightarrow> unat (c + 1) = unat c + 1"
  unfolding room_def by (metis add.commute add_eq_0_iff unatSuc Suc_eq_plus1_left)

definition issued :: "string \<Rightarrow> counter \<Rightarrow> string set" where
  "issued pfx c = {format_id pfx n |n. 1 \<le> n \<and> n \<le> unat c}"

lemma issued_0 [simp]: "issued pfx 0 = {}"
  by (auto simp: issued_def)

lemma issued_mono: "room c \<Longrightarrow> i \<in> issued pfx c \<Longrightarrow> i \<in> issued pfx (c + 1)"
  by (auto simp: issued_def unat_room)

lemma issued_new: "room c \<Longrightarrow> format_id pfx (unat (c + 1)) \<in> issued pfx (c + 1)"
  by (auto simp: issued_def unat_room)

lemma issued_fresh: "room c \<Longrightarrow> format_id pfx (unat (c + 1)) \<notin> issued pfx c"
  by (auto simp: issued_def unat_room)

section \<open>Reading and writing records\<close>

text \<open>A missing key of a map of strings reads as the empty string.\<close>

definition get_str :: "(string \<rightharpoonup> string) \<Rightarrow> string \<Rightarrow> string" where
  "get_str m k = (case m k of None \<Rightarrow> [] | Some v \<Rightarrow> v)"

definition put_session :: "string \<Rightarrow> sessionRecord \<Rightarrow> Service \<Rightarrow> Service" where
  "put_session sid r s = s\<lparr>ws_sessions := (ws_sessions s)(sid \<mapsto> r)\<rparr>"

definition put_execution :: "string \<Rightarrow> ExecutionDetail \<Rightarrow> Service \<Rightarrow> Service" where
  "put_execution eid e s = s\<lparr>ws_executions := (ws_executions s)(eid \<mapsto> e)\<rparr>"

definition put_event :: "string \<Rightarrow> OutboxEvent \<Rightarrow> Service \<Rightarrow> Service" where
  "put_event eid e s = s\<lparr>ws_outbox := (ws_outbox s)(eid \<mapsto> e)\<rparr>"

definition timeline_add :: "string \<Rightarrow> string \<Rightarrow> gotime \<Rightarrow> sessionRecord \<Rightarrow> sessionRecord" where
  "timeline_add event message t r =
     r\<lparr>sr_detail := (sr_detail r)\<lparr>sd_Timeline :=
        sd_Timeline (sr_detail r) @ [\<lparr>te_Event = event, te_Message = message, te_CreatedAt = t\<rparr>]\<rparr>\<rparr>"

definition set_status :: "string \<Rightarrow> sessionRecord \<Rightarrow> sessionRecord" where
  "set_status st r = r\<lparr>sr_detail := (sr_detail r)\<lparr>sd_Status := st\<rparr>\<rparr>"

definition upsert_execution :: "ExecutionDetail \<Rightarrow> sessionRecord \<Rightarrow> sessionRecord" where
  "upsert_execution e r =
     r\<lparr>sr_detail := (sr_detail r)\<lparr>sd_Executions := upsertExecutionDetail (sd_Executions (sr_detail r)) e\<rparr>\<rparr>"

definition update_plan_step :: "string \<Rightarrow> (ToolPlanStep \<Rightarrow> ToolPlanStep) \<Rightarrow> sessionRecord \<Rightarrow> sessionRecord" where
  "update_plan_step stepID mutate r = r\<lparr>sr_detail := updateToolPlanStep (sr_detail r) stepID mutate\<rparr>"

text \<open>The line a handler adds to the timeline of the session of an outbox event, if it exists.\<close>

definition session_note :: "string \<Rightarrow> string \<Rightarrow> string \<Rightarrow> gotime \<Rightarrow> Service \<Rightarrow> Service" where
  "session_note sid event message t s =
     (case ws_sessions s sid of
        None \<Rightarrow> s
      | Some r \<Rightarrow> put_session sid (timeline_add event message t r) s)"

definition mark_processed :: "string \<Rightarrow> Service \<Rightarrow> Service" where
  "mark_processed key s =
     (if key \<noteq> [] then s\<lparr>ws_processedEvents := insert key (ws_processedEvents s)\<rparr> else s)"

definition mark_alert :: "string \<Rightarrow> string \<Rightarrow> Service \<Rightarrow> Service" where
  "mark_alert key sid s =
     (if TrimSpace key \<noteq> [] then s\<lparr>ws_processedAlerts := (ws_processedAlerts s)(TrimSpace key \<mapsto> sid)\<rparr>
      else s)"

lemma timeline_add_simps [simp]:
  "sd_Status (sr_detail (timeline_add ev m t r)) = sd_Status (sr_detail r)"
  "sd_SessionID (sr_detail (timeline_add ev m t r)) = sd_SessionID (sr_detail r)"
  "sd_Executions (sr_detail (timeline_add ev m t r)) = sd_Executions (sr_detail r)"
  "sd_Alert (sr_detail (timeline_add ev m t r)) = sd_Alert (sr_detail r)"
  "sd_Verification (sr_detail (timeline_add ev m t r)) = sd_Verification (sr_detail r)"
  "sd_ToolPlan (sr_detail (timeline_add ev m t r)) = sd_ToolPlan (sr_detail r)"
  "sd_Attachments (sr_detail (timeline_add ev m t r)) = sd_Attachments (sr_detail r)"
  "sd_DiagnosisSummary (sr_detail (timeline_add ev m t r)) = sd_DiagnosisSummary (sr_detail r)"
  "sr_fingerprint (timeline_add ev m t r) = sr_fingerprint r"
  "sr_host (timeline_add ev m t r) = sr_host r"
  "sr_desenseMap (timeline_add ev m t r) = sr_desenseMap r"
  "sd_Timeline (sr_detail (timeline_add ev m t r)) =
     sd_Timeline (sr_detail r) @ [\<lparr>te_Event = ev, te_Message = m, te_CreatedAt = t\<rparr>]"
  by (simp_all add: timeline_add_def)

lemma set_status_simps [simp]:
  "sd_Status (sr_detail (set_status st r)) = st"
  "sd_SessionID (sr_detail (set_status st r)) = sd_SessionID (sr_detail r)"
  "sd_Executions (sr_detail (set_status st r)) = sd_Executions (sr_detail r)"
  "sd_Alert (sr_detail (set_status st r)) = sd_Alert (sr_detail r)"
  "sd_Verification (sr_detail (set_status st r)) = sd_Verification (sr_detail r)"
  "sd_ToolPlan (sr_detail (set_status st r)) = sd_ToolPlan (sr_detail r)"
  "sd_Attachments (sr_detail (set_status st r)) = sd_Attachments (sr_detail r)"
  "sd_DiagnosisSummary (sr_detail (set_status st r)) = sd_DiagnosisSummary (sr_detail r)"
  "sd_Timeline (sr_detail (set_status st r)) = sd_Timeline (sr_detail r)"
  "sr_fingerprint (set_status st r) = sr_fingerprint r"
  "sr_host (set_status st r) = sr_host r"
  "sr_desenseMap (set_status st r) = sr_desenseMap r"
  by (simp_all add: set_status_def)

lemma upsert_execution_simps [simp]:
  "sd_Status (sr_detail (upsert_execution e r)) = sd_Status (sr_detail r)"
  "sd_SessionID (sr_detail (upsert_execution e r)) = sd_SessionID (sr_detail r)"
  "sd_Executions (sr_detail (upsert_execution e r)) = upsertExecutionDetail (sd_Executions (sr_detail r)) e"
  "sd_Alert (sr_detail (upsert_execution e r)) = sd_Alert (sr_detail r)"
  "sd_Verification (sr_detail (upsert_execution e r)) = sd_Verification (sr_detail r)"
  "sd_Attachments (sr_detail (upsert_execution e r)) = sd_Attachments (sr_detail r)"
  "sd_DiagnosisSummary (sr_detail (upsert_execution e r)) = sd_DiagnosisSummary (sr_detail r)"
  "sd_Timeline (sr_detail (upsert_execution e r)) = sd_Timeline (sr_detail r)"
  "sr_fingerprint (upsert_execution e r) = sr_fingerprint r"
  "sr_host (upsert_execution e r) = sr_host r"
  by (simp_all add: upsert_execution_def)

lemma update_plan_step_simps [simp]:
  "sd_Status (sr_detail (update_plan_step i f r)) = sd_Status (sr_detail r)"
  "sd_SessionID (sr_detail (update_plan_step i f r)) = sd_SessionID (sr_detail r)"
  "sd_Executions (sr_detail (update_plan_step i f r)) = sd_Executions (sr_detail r)"
  "sd_Alert (sr_detail (update_plan_step i f r)) = sd_Alert (sr_detail r)"
  "sd_Verification (sr_detail (update_plan_step i f r)) = sd_Verification (sr_detail r)"
  "sd_Attachments (sr_detail (update_plan_step i f r)) = sd_Attachments (sr_detail r)"
  "sd_Timeline (sr_detail (update_plan_step i f r)) = sd_Timeline (sr_detail r)"
  "sr_fingerprint (update_plan_step i f r) = sr_fingerprint r"
  "sr_host (update_plan_step i f r) = sr_host r"
  by (simp_all add: update_plan_step_def updateToolPlanStep_def)

text \<open>What the writes leave unchanged.\<close>

lemma put_session_frame [simp]:
  "ws_seq (put_session sid r s) = ws_seq s"
  "ws_outboxSeq (put_session sid r s) = ws_outboxSeq s"
  "ws_executionSeq (put_session sid r s) = ws_executionSeq s"
  "ws_opts (put_session sid r s) = ws_opts s"
  "ws_sessions (put_session sid r s) = (ws_sessions s)(sid \<mapsto> r)"
  "ws_sessionOrder (put_session sid r s) = ws_sessionOrder s"
  "ws_sessionByFingerprint (put_session sid r s) = ws_sessionByFingerprint s"
  "ws_executions (put_session sid r s) = ws_executions s"
  "ws_executionOutputs (put_session sid r s) = ws_executionOutputs s"
  "ws_executionSession (put_session sid r s) = ws_executionSession s"
  "ws_processedEvents (put_session sid r s) = ws_processedEvents s"
  "ws_processedAlerts (put_session sid r s) = ws_processedAlerts s"
  "ws_outbox (put_session sid r s) = ws_outbox s"
  "ws_outboxPayloads (put_session sid r s) = ws_outboxPayloads s"
  "ws_outboxOrder (put_session sid r s) = ws_outboxOrder s"
  by (simp_all add: put_session_def)

lemma put_execution_frame [simp]:
  "ws_seq (put_execution eid e s) = ws_seq s"
  "ws_outboxSeq (put_execution eid e s) = ws_outboxSeq s"
  "ws_executionSeq (put_execution eid e s) = ws_executionSeq s"
  "ws_opts (put_execution eid e s) = ws_opts s"
  "ws_sessions (put_execution eid e s) = ws_sessions s"
  "ws_sessionOrder (put_execution eid e s) = ws_sessionOrder s"
  "ws_sessionByFingerprint (put_execution eid e s) = ws_sessionByFingerprint s"
  "ws_executions (put_execution eid e s) = (ws_executions s)(eid \<mapsto> e)"
  "ws_executionOutputs (put_execution eid e s) = ws_executionOutputs s"
  "ws_executionSession (put_execution eid e s) = ws_executionSession s"
  "ws_processedEvents (put_execution eid e s) = ws_processedEvents s"
  "ws_processedAlerts (put_execution eid e s) = ws_processedAlerts s"
  "ws_outbox (put_execution eid e s) = ws_outbox s"
  "ws_outboxPayloads (put_execution eid e s) = ws_outboxPayloads s"
  "ws_outboxOrder (put_execution eid e s) = ws_outboxOrder s"
  by (simp_all add: put_execution_def)

lemma put_event_frame [simp]:
  "ws_seq (put_event eid e s) = ws_seq s"
  "ws_outboxSeq (put_event eid e s) = ws_outboxSeq s"
  "ws_executionSeq (put_event eid e s) = ws_executionSeq s"
  "ws_opts (put_event eid e s) = ws_opts s"
  "ws_sessions (put_event eid e s) = ws_sessions s"
  "ws_sessionOrder (put_event eid e s) = ws_sessionOrder s"
  "ws_sessionByFingerprint (put_event eid e s) = ws_sessionByFingerprint s"
  "ws_executions (put_event eid e s) = ws_executions s"
  "ws_executionOutputs (put_event eid e s) = ws_executionOutputs s"
  "ws_executionSession (put_event eid e s) = ws_executionSession s"
  "ws_processedEvents (put_event eid e s) = ws_processedEvents s"
  "ws_processedAlerts (put_event eid e s) = ws_processedAlerts s"
  "ws_outbox (put_event eid e s) = (ws_outbox s)(eid \<mapsto> e)"
  "ws_outboxPayloads (put_event eid e s) = ws_outboxPayloads s"
  "ws_outboxOrder (put_event eid e s) = ws_outboxOrder s"
  by (simp_all add: put_event_def)

lemma mark_processed_frame [simp]:
  "ws_seq (mark_processed key s) = ws_seq s"
  "ws_outboxSeq (mark_processed key s) = ws_outboxSeq s"
  "ws_executionSeq (mark_processed key s) = ws_executionSeq s"
  "ws_opts (mark_processed key s) = ws_opts s"
  "ws_sessions (mark_processed key s) = ws_sessions s"
  "ws_sessionOrder (mark_processed key s) = ws_sessionOrder s"
  "ws_sessionByFingerprint (mark_processed key s) = ws_sessionByFingerprint s"
  "ws_executions (mark_processed key s) = ws_executions s"
  "ws_executionOutputs (mark_processed key s) = ws_executionOutputs s"
  "ws_executionSession (mark_processed key s) = ws_executionSession s"
  "ws_processedEvents (mark_processed key s) = (if key \<noteq> [] then insert key (ws_processedEvents s) else ws_processedEvents s)"
  "ws_processedAlerts (mark_processed key s) = ws_processedAlerts s"
  "ws_outbox (mark_processed key s) = ws_outbox s"
  "ws_outboxPayloads (mark_processed key s) = ws_outboxPayloads s"
  "ws_outboxOrder (mark_processed key s) = ws_outboxOrder s"
  by (simp_all add: mark_processed_def)

lemma mark_alert_frame [simp]:
  "ws_seq (mark_alert key sid s) = ws_seq s"
  "ws_outboxSeq (mark_alert key sid s) = ws_outboxSeq s"
  "ws_executionSeq (mark_alert key sid s) = ws_executionSeq s"
  "ws_opts (mark_alert key sid s) = ws_opts s"
  "ws_sessions (mark_alert key sid s) = ws_sessions s"
  "ws_sessionOrder (mark_alert key sid s) = ws_sessionOrder s"
  "ws_sessionByFingerprint (mark_alert key sid s) = ws_sessionByFingerprint s"
  "ws_executions (mark_alert key sid s) = ws_executions s"
  "ws_executionOutputs (mark_alert key sid s) = ws_executionOutputs s"
  "ws_executionSession (mark_alert key sid s) = ws_executionSession s"
  "ws_processedEvents (mark_alert key sid s) = ws_processedEvents s"
  "ws_processedAlerts (mark_alert key sid s) = (if TrimSpace key \<noteq> [] then (ws_processedAlerts s)(TrimSpace key \<mapsto> sid) else ws_processedAlerts s)"
  "ws_outbox (mark_alert key sid s) = ws_outbox s"
  "ws_outboxPayloads (mark_alert key sid s) = ws_outboxPayloads s"
  "ws_outboxOrder (mark_alert key sid s) = ws_outboxOrder s"
  by (simp_all add: mark_alert_def)

lemma session_note_frame [simp]:
  "ws_seq (session_note sid ev m t s) = ws_seq s"
  "ws_outboxSeq (session_note sid ev m t s) = ws_outboxSeq s"
  "ws_executionSeq (session_note sid ev m t s) = ws_executionSeq s"
  "ws_opts (session_note sid ev m t s) = ws_opts s"
  "ws_sessionOrder (session_note sid ev m t s) = ws_sessionOrder s"
  "ws_sessionByFingerprint (session_note sid ev m t s) = ws_sessionByFingerprint s"
  "ws_executions (session_note sid ev m t s) = ws_executions s"
  "ws_executionOutputs (session_note sid ev m t s) = ws_executionOutputs s"
  "ws_executionSession (session_note sid ev m t s) = ws_executionSession s"
  "ws_processedEvents (session_note sid ev m t s) = ws_processedEvents s"
  "ws_processedAlerts (session_note sid ev m t s) = ws_processedAlerts s"
  "ws_outbox (session_note sid ev m t s) = ws_outbox s"
  "ws_outboxPayloads (session_note sid ev m t s) = ws_outboxPayloads s"
  "ws_outboxOrder (session_note sid ev m t s) = ws_outboxOrder s"
  by (simp_all add: session_note_def split: option.split)

lemma ws_sessions_session_note:
  "ws_sessions (session_note sid ev m t s) =
     (case ws_sessions s sid of
        None \<Rightarrow> ws_sessions s
      | Some r \<Rightarrow> (ws_sessions s)(sid \<mapsto> timeline_add ev m t r))"
  by (simp add: session_note_def split: option.split)

text \<open>The options of the examples: every feature enabled, no collaborator configured.\<close>

definition plain_options :: Options where
  "plain_options =
     \<lparr>op_DiagnosisEnabled = True, op_ApprovalEnabled = True, op_ExecutionEnabled = True,
      op_KnowledgeIngestEnabled = True, op_ApprovalTimeout = 0, op_ApprovalRouter = None,
      op_AuthorizationPolicy = None, op_AgentRoleManager = None, op_DesensitizationProvider = None,
      op_Connectors = None\<rparr>"

end
