(* ===== verification/Workflow_Outbox.thy ===== *)
theory Workflow_Outbox
  imports Workflow_State
begin

text \<open>
  The outbox of the workflow service, \<^verbatim>\<open>internal/modules/workflow/service_outbox.go\<close>: publishing
  events, claiming batches of them, resolving a delivery by acknowledging, retrying or
  dead-lettering, recovering claimed events after a restart, and replaying or deleting events by
  an operator.

  The interface \<^verbatim>\<open>contracts.EventBus\<close> is the locale \<open>event_bus\<close>: what claiming promises and what a
  consumer derives from it, at-most-once delivery between resolutions.  The interpretation \<open>bus\<close>
  discharges its laws for the operations below.
\<close>

section \<open>Operations\<close>

definition outboxEnvelope :: "Service \<Rightarrow> string \<Rightarrow> OutboxEvent \<Rightarrow> EventEnvelope" where
  "outboxEnvelope s eventID event =
     \<lparr>ev_EventID = eventID, ev_Topic = ob_Topic event, ev_AggregateID = ob_AggregateID event,
      ev_Payload = (case ws_outboxPayloads s eventID of None \<Rightarrow> [] | Some p \<Rightarrow> p),
      ev_Headers = cloneStringMap (ob_Headers event), ev_Metadata = ob_Metadata event,
      ev_Attempt = ob_RetryCount event + 1, ev_Status = ob_Status event,
      ev_BlockedReason = ob_BlockedReason event, ev_LastError = ob_LastError event,
      ev_AvailableAt = ob_AvailableAt event, ev_CreatedAt = ob_CreatedAt event\<rparr>"

definition publishEventLocked ::
  "gotime \<Rightarrow> EventPublishRequest \<Rightarrow> Service \<Rightarrow> EventEnvelope result \<times> Service" where
  "publishEventLocked clock event s =
     (let now = (if IsZero (pr_CreatedAt event) then clock else pr_CreatedAt event);
          status = (if TrimSpace (pr_Status event) = [] then ''pending'' else TrimSpace (pr_Status event));
          availableAt = (if IsZero (pr_AvailableAt event) \<and> status = ''pending'' then now
                         else pr_AvailableAt event);
          (eid, seq) = nextID ''evt'' (ws_outboxSeq s);
          outboxEvent =
            \<lparr>ob_ID = eid, ob_Topic = TrimSpace (pr_Topic event), ob_Status = status,
             ob_AggregateID = TrimSpace (pr_AggregateID event),
             ob_Headers = cloneStringMap (pr_Headers event), ob_Metadata = pr_Metadata event,
             ob_RetryCount = 0, ob_LastError = [], ob_BlockedReason = TrimSpace (pr_BlockedReason event),
             ob_AvailableAt = availableAt, ob_CreatedAt = now\<rparr>;
          s' = s\<lparr>ws_outboxSeq := seq,
                 ws_outbox := (ws_outbox s)(eid \<mapsto> outboxEvent),
                 ws_outboxPayloads := (ws_outboxPayloads s)(eid \<mapsto> pr_Payload event),
                 ws_outboxOrder := ws_outboxOrder s @ [eid]\<rparr>
      in (Inr (outboxEnvelope s' eid outboxEvent), s'))"

definition PublishEvent ::
  "gotime \<Rightarrow> EventPublishRequest \<Rightarrow> Service \<Rightarrow> EventEnvelope result \<times> Service" where
  "PublishEvent clock event s = publishEventLocked clock event s"

definition enqueueSessionClosed :: "gotime \<Rightarrow> string \<Rightarrow> gotime \<Rightarrow> Service \<Rightarrow> Service" where
  "enqueueSessionClosed clock sessionID now s =
     (let enabled = op_KnowledgeIngestEnabled (ws_opts s) in
      snd (publishEventLocked clock
        (zero_EventPublishRequest\<lparr>
           pr_Topic := ''session.closed'', pr_AggregateID := sessionID, pr_Payload := ''{}'',
           pr_Status := (if enabled then ''pending'' else ''blocked''),
           pr_BlockedReason := (if enabled then [] else ''knowledge_ingest_disabled''),
           pr_CreatedAt := now, pr_AvailableAt := now\<rparr>) s))"

definition topicEnabled :: "Service \<Rightarrow> string \<Rightarrow> bool" where
  "topicEnabled s topic =
     (if topic = ''session.analyze_requested'' then op_DiagnosisEnabled (ws_opts s)
      else if topic = ''session.closed'' then op_KnowledgeIngestEnabled (ws_opts s)
      else True)"

text \<open>An eid of \<open>ws_outboxOrder\<close> without an event would be a nil pointer.\<close>

definition claimable :: "gotime \<Rightarrow> OutboxEvent \<Rightarrow> bool" where
  "claimable now event \<longleftrightarrow>
     ob_Status event = ''pending'' \<and>
     \<not> (\<not> IsZero (ob_AvailableAt event) \<and> ob_AvailableAt event > now)"

fun claim_loop ::
  "gotime \<Rightarrow> int \<Rightarrow> string list \<Rightarrow> EventEnvelope list \<Rightarrow> Service \<Rightarrow> EventEnvelope list result \<times> Service" where
  "claim_loop now limit [] items s = (Inr items, s)"
| "claim_loop now limit (eid # eids) items s =
     (if \<not> int (length items) < limit then (Inr items, s)
      else
        (case ws_outbox s eid of
           None \<Rightarrow> (Inl NilDeref, s)
         | Some event \<Rightarrow>
             if \<not> claimable now event then claim_loop now limit eids items s
             else
               (let event' = event\<lparr>ob_Status := ''processing''\<rparr>; s' = put_event eid event' s
                in claim_loop now limit eids (items @ [outboxEnvelope s' (ob_ID event') event']) s')))"

definition ClaimEvents :: "gotime \<Rightarrow> int \<Rightarrow> Service \<Rightarrow> EventEnvelope list result \<times> Service" where
  "ClaimEvents clock limit s =
     claim_loop clock (if limit \<le> 0 then 1 else limit) (rev (ws_outboxOrder s)) [] s"

definition toDispatchableOutboxEvent :: "EventEnvelope \<Rightarrow> DispatchableOutboxEvent" where
  "toDispatchableOutboxEvent event =
     \<lparr>dq_EventID = ev_EventID event, dq_Topic = ev_Topic event, dq_AggregateID = ev_AggregateID event,
      dq_Headers = cloneStringMap (ev_Headers event), dq_Metadata = ev_Metadata event,
      dq_Attempt = ev_Attempt event, dq_Status = ev_Status event, dq_LastError = ev_LastError event,
      dq_AvailableAt = ev_AvailableAt event, dq_CreatedAt = ev_CreatedAt event,
      dq_Payload = ev_Payload event\<rparr>"

definition ClaimOutboxBatch ::
  "gotime \<Rightarrow> int \<Rightarrow> Service \<Rightarrow> DispatchableOutboxEvent list result \<times> Service" where
  "ClaimOutboxBatch clock limit s =
     (case ClaimEvents clock limit s of
        (Inl err, s') \<Rightarrow> (Inl err, s')
      | (Inr envelopes, s') \<Rightarrow> (Inr (map toDispatchableOutboxEvent envelopes), s'))"

fun recover_loop :: "string list \<Rightarrow> int \<Rightarrow> Service \<Rightarrow> int result \<times> Service" where
  "recover_loop [] recovered s = (Inr recovered, s)"
| "recover_loop (eid # eids) recovered s =
     (case ws_outbox s eid of
        None \<Rightarrow> (Inl NilDeref, s)
      | Some event \<Rightarrow>
          if ob_Status event \<noteq> ''processing'' then recover_loop eids recovered s
          else recover_loop eids (recovered + 1) (put_event eid (event\<lparr>ob_Status := ''pending''\<rparr>) s))"

definition RecoverPendingEvents :: "Service \<Rightarrow> int result \<times> Service" where
  "RecoverPendingEvents s = recover_loop (ws_outboxOrder s) 0 s"

definition RecoverProcessingOutbox :: "Service \<Rightarrow> int result \<times> Service" where
  "RecoverProcessingOutbox s = RecoverPendingEvents s"

definition with_reason :: "string \<Rightarrow> string \<Rightarrow> string" where
  "with_reason message reason = (if reason \<noteq> [] then message @ '' ('' @ reason @ '')'' else message)"

definition ResolveEvent ::
  "gotime \<Rightarrow> string \<Rightarrow> DeliveryResult \<Rightarrow> Service \<Rightarrow> unit result \<times> Service" where
  "ResolveEvent clock eventID result s =
     (case ws_outbox s eventID of
        None \<Rightarrow> (Inl ErrNotFound, s)
      | Some event \<Rightarrow>
          (let now = clock; lastError = TrimSpace (dr_LastError result) in
           if dr_Decision result = DeliveryDecisionAck then
             (Inr (), put_event eventID (event\<lparr>ob_Status := ''done'', ob_BlockedReason := [],
                ob_LastError := [], ob_AvailableAt := 0\<rparr>) s)
           else if dr_Decision result = DeliveryDecisionRetry then
             (Inr (), session_note (ob_AggregateID event) ''outbox_retry_scheduled''
                (with_reason (''event retry scheduled after delivery failure: '' @ lastError)
                   (dr_Reason result)) now
                (put_event eventID (event\<lparr>ob_RetryCount := ob_RetryCount event + 1,
                   ob_Status := ''pending'', ob_LastError := lastError,
                   ob_AvailableAt := now + dr_Delay result\<rparr>) s))
           else if dr_Decision result = DeliveryDecisionDeadLetter then
             (Inr (), session_note (ob_AggregateID event) ''outbox_failed''
                (with_reason lastError (dr_Reason result)) now
                (put_event eventID (event\<lparr>ob_RetryCount := ob_RetryCount event + 1,
                   ob_Status := ''failed'', ob_LastError := lastError, ob_AvailableAt := 0\<rparr>) s))
           else (Inl (Errorf (''unsupported delivery decision: '' @ dr_Decision result)), s)))"

definition CompleteOutbox :: "gotime \<Rightarrow> string \<Rightarrow> Service \<Rightarrow> unit result \<times> Service" where
  "CompleteOutbox clock eventID s =
     ResolveEvent clock eventID (zero_DeliveryResult\<lparr>dr_Decision := DeliveryDecisionAck\<rparr>) s"

text \<open>
  \<^verbatim>\<open>MarkOutboxFailed\<close> computes its decision under the read lock and resolves the event after it has
  released it: \<open>failed_decision\<close> is the first part.
\<close>

definition failed_decision :: "string \<Rightarrow> string \<Rightarrow> Service \<Rightarrow> DeliveryResult option" where
  "failed_decision eventID lastError s =
     (case ws_outbox s eventID of
        None \<Rightarrow> None
      | Some event \<Rightarrow>
          Some (Decide (DefaultDeliveryPolicy (ob_Topic event)) (ob_RetryCount event + 1)
                  (Some (TrimSpace lastError))))"

definition MarkOutboxFailed :: "gotime \<Rightarrow> string \<Rightarrow> string \<Rightarrow> Service \<Rightarrow> unit result \<times> Service" where
  "MarkOutboxFailed clock eventID lastError s =
     (case failed_decision eventID lastError s of
        None \<Rightarrow> (Inl ErrNotFound, s)
      | Some decision \<Rightarrow> ResolveEvent clock eventID decision s)"

definition ReplayOutbox :: "gotime \<Rightarrow> string \<Rightarrow> string \<Rightarrow> Service \<Rightarrow> unit result \<times> Service" where
  "ReplayOutbox clock eventID operatorReason s =
     (case ws_outbox s eventID of
        None \<Rightarrow> (Inl ErrNotFound, s)
      | Some event \<Rightarrow>
          if ob_Status event = ''blocked'' \<and> \<not> topicEnabled s (ob_Topic event)
          then (Inl ErrBlockedByFeatureFlag, s)
          else
            (Inr (), session_note (ob_AggregateID event) ''outbox_replayed''
               (''operator replayed outbox event: '' @ operatorReason) clock
               (put_event eventID (event\<lparr>ob_Status := ''pending'', ob_BlockedReason := [],
                  ob_LastError := [], ob_RetryCount := ob_RetryCount event + 1\<rparr>) s)))"

definition DeleteOutbox :: "gotime \<Rightarrow> string \<Rightarrow> string \<Rightarrow> Service \<Rightarrow> unit result \<times> Service" where
  "DeleteOutbox clock eventID operatorReason s =
     (case ws_outbox s eventID of
        None \<Rightarrow> (Inl ErrNotFound, s)
      | Some event \<Rightarrow>
          if ob_Status event \<noteq> ''failed'' \<and> ob_Status event \<noteq> ''blocked''
          then (Inl ErrInvalidState, s)
          else
            (Inr (), session_note (ob_AggregateID event) ''outbox_deleted''
               (''operator deleted outbox event: '' @ operatorReason) clock
               (s\<lparr>ws_outbox := (ws_outbox s)(eventID := None),
                  ws_outboxPayloads := (ws_outboxPayloads s)(eventID := None),
                  ws_outboxOrder := remove1 eventID (ws_outboxOrder s)\<rparr>)))"

text \<open>
  \<open>encode\<close> is \<^verbatim>\<open>contracts.EncodeChannelMessage\<close>, the JSON encoder of the standard library; its error
  is the text of the error.
\<close>

fun EnqueueNotifications ::
  "(ChannelMessage \<Rightarrow> string + string) \<Rightarrow> gotime \<Rightarrow> string \<Rightarrow> ChannelMessage list \<Rightarrow> Service \<Rightarrow>
     unit result \<times> Service" where
  "EnqueueNotifications encode clock sessionID [] s = (Inr (), s)"
| "EnqueueNotifications encode clock sessionID (message # messages) s =
     (case encode message of
        Inl err \<Rightarrow> (Inl (Errorf err), s)
      | Inr payload \<Rightarrow>
          (case publishEventLocked clock
                  (zero_EventPublishRequest\<lparr>pr_Topic := ''telegram.send'', pr_AggregateID := sessionID,
                     pr_Payload := payload, pr_Status := ''pending'', pr_CreatedAt := clock,
                     pr_AvailableAt := clock\<rparr>) s of
             (Inl err, s') \<Rightarrow> (Inl err, s')
           | (Inr _, s') \<Rightarrow> EnqueueNotifications encode clock sessionID messages s'))"

section \<open>The contract of an event bus\<close>

text \<open>
  \<open>status\<close> is the status of an event, \<open>left\<close> the number of events that can still be published
  before the identifiers are used up.
\<close>

datatype bus_op =
    BusPublish gotime EventPublishRequest
  | BusClaim gotime int
  | BusResolve gotime string DeliveryResult

text \<open>The identifiers that a sequence of operations delivers, and the final state.\<close>

fun bus_run ::
  "(gotime \<Rightarrow> EventPublishRequest \<Rightarrow> 's \<Rightarrow> EventEnvelope result \<times> 's) \<Rightarrow>
   (gotime \<Rightarrow> int \<Rightarrow> 's \<Rightarrow> EventEnvelope list result \<times> 's) \<Rightarrow>
   (gotime \<Rightarrow> string \<Rightarrow> DeliveryResult \<Rightarrow> 's \<Rightarrow> unit result \<times> 's) \<Rightarrow>
   bus_op list \<Rightarrow> 's \<Rightarrow> string list \<times> 's" where
  "bus_run publish claim resolve [] s = ([], s)"
| "bus_run publish claim resolve (BusPublish t rq # ops) s =
     bus_run publish claim resolve ops (snd (publish t rq s))"
| "bus_run publish claim resolve (BusResolve t eid r # ops) s =
     bus_run publish claim resolve ops (snd (resolve t eid r s))"
| "bus_run publish claim resolve (BusClaim t n # ops) s =
     (case claim t n s of
        (Inl err, s') \<Rightarrow> bus_run publish claim resolve ops s'
      | (Inr es, s') \<Rightarrow>
          (let (eids, s'') = bus_run publish claim resolve ops s' in (map ev_EventID es @ eids, s'')))"

fun resolves :: "string \<Rightarrow> bus_op \<Rightarrow> bool" where
  "resolves eid (BusResolve t eid' r) \<longleftrightarrow> eid' = eid"
| "resolves eid _ \<longleftrightarrow> False"

lemma distinct_filter_eq_le: "distinct xs \<Longrightarrow> length (filter ((=) x) xs) \<le> 1"
  by (induction xs) (auto simp: filter_empty_conv)

locale event_bus =
  fixes wf :: "'s \<Rightarrow> bool"
    and left :: "'s \<Rightarrow> nat"
    and status :: "'s \<Rightarrow> string \<Rightarrow> string option"
    and publish :: "gotime \<Rightarrow> EventPublishRequest \<Rightarrow> 's \<Rightarrow> EventEnvelope result \<times> 's"
    and claim :: "gotime \<Rightarrow> int \<Rightarrow> 's \<Rightarrow> EventEnvelope list result \<times> 's"
    and resolve :: "gotime \<Rightarrow> string \<Rightarrow> DeliveryResult \<Rightarrow> 's \<Rightarrow> unit result \<times> 's"
  assumes publish_law: "wf s \<Longrightarrow> 0 < left s \<Longrightarrow> publish t rq s = (r, s') \<Longrightarrow>
      \<exists>e. r = Inr e \<and> wf s' \<and> left s \<le> left s' + 1 \<and> status s (ev_EventID e) = None \<and>
        (\<forall>eid. eid \<noteq> ev_EventID e \<longrightarrow> status s' eid = status s eid)"
    and claim_law: "wf s \<Longrightarrow> claim t n s = (c, s') \<Longrightarrow>
      \<exists>es. c = Inr es \<and> wf s' \<and> left s' = left s \<and> distinct (map ev_EventID es) \<and>
        (\<forall>eid. if eid \<in> ev_EventID ` set es
              then status s eid = Some ''pending'' \<and> status s' eid = Some ''processing''
              else status s' eid = status s eid)"
    and resolve_law: "wf s \<Longrightarrow> resolve t i d s = (u, s') \<Longrightarrow>
      wf s' \<and> left s' = left s \<and> (\<forall>eid. eid \<noteq> i \<longrightarrow> status s' eid = status s eid)"
begin

abbreviation deliveries :: "bus_op list \<Rightarrow> 's \<Rightarrow> string list" where
  "deliveries ops s \<equiv> fst (bus_run publish claim resolve ops s)"

text \<open>One step: what it keeps and what it delivers.\<close>

lemma run_step:
  assumes "wf s" and "length (op # ops) \<le> left s" and "\<not> resolves eid op"
  obtains s' and es :: "EventEnvelope list" where "wf s'" and "length ops \<le> left s'"
    and "deliveries (op # ops) s = map ev_EventID es @ deliveries ops s'"
    and "distinct (map ev_EventID es)"
    and "eid \<in> ev_EventID ` set es \<Longrightarrow> status s eid = Some ''pending'' \<and> status s' eid = Some ''processing''"
    and "status s eid = Some ''processing'' \<Longrightarrow>
      status s' eid = Some ''processing'' \<and> eid \<notin> ev_EventID ` set es"
proof (cases op)
  case (BusPublish t rq)
  obtain r s' where p: "publish t rq s = (r, s')" by fastforce
  have "0 < left s" using assms(2) by simp
  from publish_law [OF assms(1) this p] obtain e where
    conj: "r = Inr e \<and> wf s' \<and> left s \<le> left s' + 1 \<and> status s (ev_EventID e) = None \<and>
      (\<forall>eid. eid \<noteq> ev_EventID e \<longrightarrow> status s' eid = status s eid)"
    by (rule exE)
  then have e: "wf s'" "left s \<le> left s' + 1" "status s (ev_EventID e) = None"
    "eid \<noteq> ev_EventID e \<longrightarrow> status s' eid = status s eid"
    by simp_all
  show ?thesis
  proof (rule that [of s' "[]"])
    show "status s eid = Some ''processing'' \<Longrightarrow>
        status s' eid = Some ''processing'' \<and> eid \<notin> ev_EventID ` set []"
      using e(3) e(4) by (cases "eid = ev_EventID e") auto
  qed (use e assms(2) BusPublish p in auto)
next
  case (BusResolve t i d)
  obtain u s' where p: "resolve t i d s = (u, s')" by fastforce
  from resolve_law [OF assms(1) p] that [of s' "[]"] assms BusResolve p show ?thesis by auto
next
  case (BusClaim t n)
  obtain c s' where p: "claim t n s = (c, s')" by fastforce
  from claim_law [OF assms(1) p] obtain es where
    conj: "c = Inr es \<and> wf s' \<and> left s' = left s \<and> distinct (map ev_EventID es) \<and>
      (\<forall>i. if i \<in> ev_EventID ` set es then status s i = Some ''pending'' \<and> status s' i = Some ''processing''
           else status s' i = status s i)"
    by (rule exE)
  then have es: "c = Inr es" "wf s'" "left s' = left s" "distinct (map ev_EventID es)"
    "if eid \<in> ev_EventID ` set es then status s eid = Some ''pending'' \<and> status s' eid = Some ''processing''
     else status s' eid = status s eid"
    by simp_all
  show ?thesis
  proof (rule that [of s' es])
    show "deliveries (op # ops) s = map ev_EventID es @ deliveries ops s'"
      using BusClaim p es(1) by (simp add: case_prod_unfold Let_def)
    show "status s eid = Some ''processing'' \<Longrightarrow>
        status s' eid = Some ''processing'' \<and> eid \<notin> ev_EventID ` set es"
      using es(5) by (auto split: if_split_asm)
    show "eid \<in> ev_EventID ` set es \<Longrightarrow>
        status s eid = Some ''pending'' \<and> status s' eid = Some ''processing''"
      using es(5) by simp
  qed (use es assms(2) in auto)
qed

text \<open>A claimed event is not delivered again before its delivery is resolved.\<close>

lemma claimed_not_redelivered:
  assumes "wf s" and "length ops \<le> left s" and "\<forall>op \<in> set ops. \<not> resolves eid op"
    and "status s eid = Some ''processing''"
  shows "eid \<notin> set (deliveries ops s)"
  using assms
proof (induction ops arbitrary: s)
  case (Cons op ops)
  have "\<not> resolves eid op" using Cons.prems(3) by simp
  then show ?case
  proof (rule run_step [OF Cons.prems(1,2)])
    fix s' and es :: "EventEnvelope list"
    assume "wf s'" "length ops \<le> left s'" "deliveries (op # ops) s = map ev_EventID es @ deliveries ops s'"
      "status s eid = Some ''processing'' \<Longrightarrow>
        status s' eid = Some ''processing'' \<and> eid \<notin> ev_EventID ` set es"
    with Cons.IH [of s'] Cons.prems(3,4) show ?case by simp
  qed
qed simp

lemma at_most_once:
  assumes "wf s" and "length ops \<le> left s" and "\<forall>op \<in> set ops. \<not> resolves eid op"
  shows "length (filter ((=) eid) (deliveries ops s)) \<le> 1"
  using assms
proof (induction ops arbitrary: s)
  case (Cons op ops)
  have "\<not> resolves eid op" using Cons.prems(3) by simp
  then obtain s' and es :: "EventEnvelope list" where st:
    "wf s'" "length ops \<le> left s'" "deliveries (op # ops) s = map ev_EventID es @ deliveries ops s'"
    "distinct (map ev_EventID es)"
    "eid \<in> ev_EventID ` set es \<longrightarrow> status s' eid = Some ''processing''"
    by (rule run_step [OF Cons.prems(1,2)]) simp
  have ops: "\<forall>op \<in> set ops. \<not> resolves eid op" using Cons.prems(3) by simp
  show ?case
  proof (cases "eid \<in> ev_EventID ` set es")
    case True
    have "filter ((=) eid) (deliveries ops s') = []"
      using claimed_not_redelivered [OF st(1,2) ops st(5) [rule_format, OF True]] by (auto simp: filter_empty_conv)
    moreover have "length (filter ((=) eid) (map ev_EventID es)) \<le> 1"
      using distinct_filter_eq_le [OF st(4)] .
    ultimately show ?thesis unfolding st(3) filter_append by simp
  next
    case False
    then have "filter ((=) eid) (map ev_EventID es) = []" by (auto simp: filter_empty_conv)
    with Cons.IH [OF st(1,2) ops] st(3) show ?thesis by simp
  qed
qed simp

end

section \<open>The invariant of the outbox\<close>

definition outbox_ok :: "Service \<Rightarrow> bool" where
  "outbox_ok s \<longleftrightarrow>
     distinct (ws_outboxOrder s) \<and> set (ws_outboxOrder s) = dom (ws_outbox s) \<and>
     dom (ws_outboxPayloads s) = dom (ws_outbox s) \<and>
     dom (ws_outbox s) \<subseteq> issued ''evt'' (ws_outboxSeq s) \<and>
     (\<forall>eid e. ws_outbox s eid = Some e \<longrightarrow> ob_ID e = eid)"

definition event_status :: "Service \<Rightarrow> string \<Rightarrow> string option" where
  "event_status s eid = map_option ob_Status (ws_outbox s eid)"

definition ids_left :: "Service \<Rightarrow> nat" where
  "ids_left s = 2 ^ 64 - 1 - unat (ws_outboxSeq s)"

lemma ids_left_room: "0 < ids_left s \<Longrightarrow> room (ws_outboxSeq s)"
proof -
  have "unat (- 1 :: 64 word) = 2 ^ 64 - 1"
    by (simp add: unsigned_minus_1_eq_mask mask_eq_exp_minus_1)
  then show "0 < ids_left s \<Longrightarrow> room (ws_outboxSeq s)" by (auto simp: ids_left_def room_def)
qed

text \<open>The outbox of a state; operations that change nothing else of it keep the invariant.\<close>

lemma outbox_ok_cong:
  assumes "ws_outboxOrder s' = ws_outboxOrder s" "ws_outbox s' = ws_outbox s"
    "ws_outboxPayloads s' = ws_outboxPayloads s" "ws_outboxSeq s' = ws_outboxSeq s"
  shows "outbox_ok s' = outbox_ok s"
  using assms by (simp add: outbox_ok_def)

lemma outbox_ok_session_note [simp]: "outbox_ok (session_note sid ev m t s) = outbox_ok s"
  by (rule outbox_ok_cong) simp_all

lemma outbox_ok_New [simp]: "outbox_ok (NewService opts)"
  by (simp add: outbox_ok_def NewService_def Let_def)

lemma outbox_ok_put_event:
  assumes "outbox_ok s" and "ws_outbox s eid = Some e" and "ob_ID e' = eid"
  shows "outbox_ok (put_event eid e' s)"
  using assms by (auto simp: outbox_ok_def)

lemma event_status_put_event [simp]:
  "event_status (put_event eid e s) = (event_status s)(eid := Some (ob_Status e))"
  by (auto simp: event_status_def)

lemma event_status_session_note [simp]: "event_status (session_note sid ev m t s) = event_status s"
  by (auto simp: event_status_def)

subsection \<open>Publishing\<close>

lemma publish_frame [simp]:
  "ws_seq (snd (publishEventLocked t rq s)) = ws_seq s"
  "ws_executionSeq (snd (publishEventLocked t rq s)) = ws_executionSeq s"
  "ws_opts (snd (publishEventLocked t rq s)) = ws_opts s"
  "ws_sessions (snd (publishEventLocked t rq s)) = ws_sessions s"
  "ws_sessionOrder (snd (publishEventLocked t rq s)) = ws_sessionOrder s"
  "ws_sessionByFingerprint (snd (publishEventLocked t rq s)) = ws_sessionByFingerprint s"
  "ws_executions (snd (publishEventLocked t rq s)) = ws_executions s"
  "ws_executionOutputs (snd (publishEventLocked t rq s)) = ws_executionOutputs s"
  "ws_executionSession (snd (publishEventLocked t rq s)) = ws_executionSession s"
  "ws_processedEvents (snd (publishEventLocked t rq s)) = ws_processedEvents s"
  "ws_processedAlerts (snd (publishEventLocked t rq s)) = ws_processedAlerts s"
  "ws_outboxSeq (snd (publishEventLocked t rq s)) = ws_outboxSeq s + 1"
  "ws_outboxOrder (snd (publishEventLocked t rq s)) =
     ws_outboxOrder s @ [format_id ''evt'' (unat (ws_outboxSeq s + 1))]"
  by (simp_all add: publishEventLocked_def nextID_def Let_def)

lemma publish_outbox:
  "\<exists>e. ws_outbox (snd (publishEventLocked t rq s)) =
         (ws_outbox s)(format_id ''evt'' (unat (ws_outboxSeq s + 1)) \<mapsto> e) \<and>
       ob_ID e = format_id ''evt'' (unat (ws_outboxSeq s + 1)) \<and>
       ob_Topic e = TrimSpace (pr_Topic rq) \<and> ob_AggregateID e = TrimSpace (pr_AggregateID rq) \<and>
       ob_RetryCount e = 0 \<and>
       ob_Status e = (if TrimSpace (pr_Status rq) = [] then ''pending'' else TrimSpace (pr_Status rq)) \<and>
       fst (publishEventLocked t rq s) = Inr (outboxEnvelope (snd (publishEventLocked t rq s)) (ob_ID e) e)"
  by (rule exI [where x = "the (ws_outbox (snd (publishEventLocked t rq s))
        (format_id ''evt'' (unat (ws_outboxSeq s + 1))))"])
    (simp add: publishEventLocked_def nextID_def Let_def)

lemma publish_payloads:
  "ws_outboxPayloads (snd (publishEventLocked t rq s)) =
     (ws_outboxPayloads s)(format_id ''evt'' (unat (ws_outboxSeq s + 1)) \<mapsto> pr_Payload rq)"
  by (simp add: publishEventLocked_def nextID_def Let_def)

lemma outbox_ok_publish:
  assumes "outbox_ok s" and "room (ws_outboxSeq s)"
  shows "outbox_ok (snd (publishEventLocked t rq s))"
proof -
  let ?eid = "format_id ''evt'' (unat (ws_outboxSeq s + 1))"
  obtain e where e: "ws_outbox (snd (publishEventLocked t rq s)) = (ws_outbox s)(?eid \<mapsto> e)" "ob_ID e = ?eid"
    using publish_outbox by blast
  have "?eid \<notin> dom (ws_outbox s)" and "?eid \<in> issued ''evt'' (ws_outboxSeq s + 1)"
    using assms issued_fresh issued_new by (auto simp: outbox_ok_def)
  with assms e show ?thesis
    unfolding outbox_ok_def publish_payloads by (auto intro: issued_mono)
qed

lemma enqueueSessionClosed_eq:
  "\<exists>rq. enqueueSessionClosed clock sid now s = snd (publishEventLocked clock rq s) \<and>
     pr_Topic rq = ''session.closed'' \<and> pr_AggregateID rq = sid \<and>
     pr_Status rq = (if op_KnowledgeIngestEnabled (ws_opts s) then ''pending'' else ''blocked'')"
  by (auto simp: enqueueSessionClosed_def Let_def zero_EventPublishRequest_def)

subsection \<open>Claiming\<close>

text \<open>The loop claims the first claimable identifiers of the list it is given.\<close>

definition mark_processing :: "string list \<Rightarrow> Service \<Rightarrow> Service" where
  "mark_processing eids s =
     s\<lparr>ws_outbox := (\<lambda>eid. if eid \<in> set eids
        then map_option (\<lambda>e. e\<lparr>ob_Status := ''processing''\<rparr>) (ws_outbox s eid) else ws_outbox s eid)\<rparr>"

definition claimed_envelope :: "Service \<Rightarrow> string \<Rightarrow> EventEnvelope" where
  "claimed_envelope s eid =
     outboxEnvelope s (ob_ID (the (ws_outbox s eid))) ((the (ws_outbox s eid))\<lparr>ob_Status := ''processing''\<rparr>)"

definition claim_choice :: "gotime \<Rightarrow> int \<Rightarrow> string list \<Rightarrow> Service \<Rightarrow> string list" where
  "claim_choice now n eids s = take (nat n) (filter (\<lambda>eid. claimable now (the (ws_outbox s eid))) eids)"

lemma mark_processing_Nil [simp]: "mark_processing [] s = s"
  by (simp add: mark_processing_def)

lemma mark_processing_Cons:
  assumes "eid \<notin> set eids" and "ws_outbox s eid = Some e"
  shows "mark_processing eids (put_event eid (e\<lparr>ob_Status := ''processing''\<rparr>) s) = mark_processing (eid # eids) s"
  using assms by (auto simp: mark_processing_def put_event_def intro!: Service.equality)

lemma claim_loop_eq:
  assumes "distinct eids" and "set eids \<subseteq> dom (ws_outbox s)"
  shows "claim_loop now limit eids items s =
    (Inr (items @ map (claimed_envelope s) (claim_choice now (limit - int (length items)) eids s)),
     mark_processing (claim_choice now (limit - int (length items)) eids s) s)"
  using assms
proof (induction eids arbitrary: items s)
  case Nil
  then show ?case by (simp add: claim_choice_def)
next
  case (Cons eid eids)
  from Cons.prems obtain e where e: "ws_outbox s eid = Some e" by auto
  show ?case
  proof (cases "int (length items) < limit \<and> claimable now e")
    case True
    let ?s = "put_event eid (e\<lparr>ob_Status := ''processing''\<rparr>) s"
    define k where "k = limit - int (Suc (length items))"
    have same: "\<forall>i \<in> set eids. ws_outbox ?s i = ws_outbox s i" using Cons.prems by auto
    have dom: "set eids \<subseteq> dom (ws_outbox ?s)" using Cons.prems by auto
    have n: "nat (limit - int (length items)) = Suc (nat k)"
      unfolding k_def using True by linarith
    have choice: "claim_choice now (limit - int (length items)) (eid # eids) s =
        eid # claim_choice now k eids ?s"
      using True e n same by (auto simp: claim_choice_def intro!: arg_cong [where f = "take _"] filter_cong)
    have sub: "set (claim_choice now k eids ?s) \<subseteq> set eids"
      using set_take_subset by (fastforce simp: claim_choice_def)
    then have fresh: "eid \<notin> set (claim_choice now k eids ?s)"
      using Cons.prems by auto
    have env: "map (claimed_envelope ?s) (claim_choice now k eids ?s) =
        map (claimed_envelope s) (claim_choice now k eids ?s)"
    proof (intro map_cong refl)
      fix i assume "i \<in> set (claim_choice now k eids ?s)"
      with fresh have "i \<noteq> eid" by auto
      then show "claimed_envelope ?s i = claimed_envelope s i"
        by (simp add: claimed_envelope_def outboxEnvelope_def)
    qed
    have "claim_loop now limit (eid # eids) items s =
        claim_loop now limit eids (items @ [claimed_envelope s eid]) ?s"
      using True e by (simp add: claimed_envelope_def outboxEnvelope_def)
    also have "\<dots> = (Inr ((items @ [claimed_envelope s eid]) @ map (claimed_envelope ?s) (claim_choice now k eids ?s)),
        mark_processing (claim_choice now k eids ?s) ?s)"
      using Cons.IH [OF _ dom, of "items @ [claimed_envelope s eid]"] Cons.prems by (simp add: k_def)
    also have "\<dots> = (Inr (items @ map (claimed_envelope s) (eid # claim_choice now k eids ?s)),
        mark_processing (claim_choice now k eids ?s) ?s)"
      unfolding env by simp
    finally show ?thesis unfolding choice mark_processing_Cons [OF fresh e] .
  next
    case False
    then have "\<not> int (length items) < limit \<or> \<not> claimable now e" by simp
    moreover have "claim_choice now (limit - int (length items)) (eid # eids) s = []"
      if "\<not> int (length items) < limit" using that by (simp add: claim_choice_def)
    moreover have "claim_choice now (limit - int (length items)) (eid # eids) s =
        claim_choice now (limit - int (length items)) eids s" if "\<not> claimable now e"
      using that e by (simp add: claim_choice_def)
    ultimately show ?thesis using Cons e by auto
  qed
qed

lemma ClaimEvents_eq:
  fixes clock limit
  assumes "outbox_ok s"
  defines "chosen \<equiv> claim_choice clock (max 1 limit) (rev (ws_outboxOrder s)) s"
  shows "ClaimEvents clock limit s = (Inr (map (claimed_envelope s) chosen), mark_processing chosen s)"
proof -
  have "(if limit \<le> 0 then 1 else limit) = max 1 limit" by simp
  then show ?thesis
    using assms claim_loop_eq [of "rev (ws_outboxOrder s)" s clock "max 1 limit" "[]"]
    by (simp add: ClaimEvents_def outbox_ok_def)
qed

lemma claim_choice_subset: "set (claim_choice now n eids s) \<subseteq> {eid \<in> set eids. claimable now (the (ws_outbox s eid))}"
  unfolding claim_choice_def using set_take_subset by fastforce

lemma claimed_envelope_id:
  "outbox_ok s \<Longrightarrow> ws_outbox s eid = Some e \<Longrightarrow> ev_EventID (claimed_envelope s eid) = eid"
  by (simp add: claimed_envelope_def outboxEnvelope_def outbox_ok_def)

lemma outbox_ok_mark_processing: "outbox_ok s \<Longrightarrow> outbox_ok (mark_processing eids s)"
  unfolding outbox_ok_def mark_processing_def by (auto simp: dom_def split: if_split_asm)

subsection \<open>Recovering, resolving, replaying, deleting\<close>

definition mark_pending :: "string list \<Rightarrow> Service \<Rightarrow> Service" where
  "mark_pending eids s =
     s\<lparr>ws_outbox := (\<lambda>i. if i \<in> set eids \<and> event_status s i = Some ''processing''
        then map_option (\<lambda>e. e\<lparr>ob_Status := ''pending''\<rparr>) (ws_outbox s i) else ws_outbox s i)\<rparr>"

lemma mark_pending_Cons:
  assumes "eid \<notin> set eids" and "ws_outbox s eid = Some e" and "ob_Status e = ''processing''"
  shows "mark_pending eids (put_event eid (e\<lparr>ob_Status := ''pending''\<rparr>) s) = mark_pending (eid # eids) s"
  using assms by (auto simp: mark_pending_def put_event_def event_status_def fun_eq_iff
      intro!: Service.equality)

lemma mark_pending_skip:
  "event_status s eid \<noteq> Some ''processing'' \<Longrightarrow> mark_pending (eid # eids) s = mark_pending eids s"
  by (auto simp: mark_pending_def fun_eq_iff intro!: Service.equality)

lemma recover_loop_eq:
  assumes "distinct eids" and "set eids \<subseteq> dom (ws_outbox s)"
  shows "recover_loop eids n s =
      (Inr (n + int (length (filter (\<lambda>i. event_status s i = Some ''processing'') eids))),
       mark_pending eids s)"
  using assms
proof (induction eids arbitrary: n s)
  case Nil
  then show ?case by (simp add: mark_pending_def)
next
  case (Cons eid eids)
  from Cons.prems obtain e where e: "ws_outbox s eid = Some e" by auto
  show ?case
  proof (cases "ob_Status e = ''processing''")
    case True
    let ?s = "put_event eid (e\<lparr>ob_Status := ''pending''\<rparr>) s"
    have fresh: "eid \<notin> set eids" using Cons.prems by simp
    have dom: "set eids \<subseteq> dom (ws_outbox ?s)" using Cons.prems by auto
    have filt: "filter (\<lambda>i. event_status ?s i = Some ''processing'') eids =
        filter (\<lambda>i. event_status s i = Some ''processing'') eids"
      using fresh by (intro filter_cong) auto
    have "recover_loop eids (n + 1) ?s =
        (Inr (n + 1 + int (length (filter (\<lambda>i. event_status s i = Some ''processing'') eids))),
         mark_pending (eid # eids) s)"
      using Cons.IH [OF _ dom, of "n + 1"] Cons.prems
      unfolding filt mark_pending_Cons [OF fresh e True] by simp
    moreover have "event_status s eid = Some ''processing''" using e True by (simp add: event_status_def)
    ultimately show ?thesis using e True by simp
  next
    case False
    then have st: "event_status s eid \<noteq> Some ''processing''" using e by (simp add: event_status_def)
    then show ?thesis using e False Cons by (simp add: mark_pending_skip)
  qed
qed

lemma RecoverPendingEvents_eq:
  assumes "outbox_ok s"
  shows "RecoverPendingEvents s =
      (Inr (int (length (filter (\<lambda>i. event_status s i = Some ''processing'') (ws_outboxOrder s)))),
       mark_pending (ws_outboxOrder s) s)"
  using recover_loop_eq [of "ws_outboxOrder s" s 0] assms
  by (simp add: RecoverPendingEvents_def outbox_ok_def)

lemma outbox_ok_Recover: "outbox_ok s \<Longrightarrow> outbox_ok (snd (RecoverPendingEvents s))"
  unfolding RecoverPendingEvents_eq
  by (auto simp: outbox_ok_def mark_pending_def dom_def split: if_split_asm)

lemma outbox_ok_Resolve: "outbox_ok s \<Longrightarrow> outbox_ok (snd (ResolveEvent t eid d s))"
  by (auto simp: ResolveEvent_def Let_def outbox_ok_def split: option.split)

lemma outbox_ok_Replay: "outbox_ok s \<Longrightarrow> outbox_ok (snd (ReplayOutbox t eid m s))"
  by (auto simp: ReplayOutbox_def outbox_ok_def split: option.split)

lemma outbox_ok_Delete: "outbox_ok s \<Longrightarrow> outbox_ok (snd (DeleteOutbox t eid m s))"
  by (auto simp: DeleteOutbox_def outbox_ok_def split: option.split)

lemma outbox_ok_Claim: "outbox_ok s \<Longrightarrow> outbox_ok (snd (ClaimEvents t n s))"
  by (simp add: ClaimEvents_eq outbox_ok_mark_processing)

lemma event_status_Resolve:
  "i \<noteq> eid \<Longrightarrow> event_status (snd (ResolveEvent t eid d s)) i = event_status s i"
  by (auto simp: ResolveEvent_def Let_def split: option.split)

lemma event_status_mark_processing:
  "event_status (mark_processing eids s) i =
     (if i \<in> set eids \<and> i \<in> dom (ws_outbox s) then Some ''processing'' else event_status s i)"
  by (cases "ws_outbox s i") (auto simp: event_status_def mark_processing_def)

lemma ws_outboxSeq_Resolve [simp]: "ws_outboxSeq (snd (ResolveEvent t eid d s)) = ws_outboxSeq s"
  by (simp add: ResolveEvent_def Let_def split: option.split)

interpretation bus: event_bus outbox_ok ids_left event_status PublishEvent ClaimEvents ResolveEvent
proof
  fix s t rq and r :: "EventEnvelope result" and s'
  assume ok: "outbox_ok s" "0 < ids_left s" "PublishEvent t rq s = (r, s')"
  then have rs: "r = fst (publishEventLocked t rq s)" "s' = snd (publishEventLocked t rq s)"
    by (simp_all add: PublishEvent_def)
  let ?id = "format_id ''evt'' (unat (ws_outboxSeq s + 1))"
  obtain e where e: "ws_outbox s' = (ws_outbox s)(?id \<mapsto> e)" "ob_ID e = ?id"
    "r = Inr (outboxEnvelope s' (ob_ID e) e)"
    unfolding rs by (rule exE [OF publish_outbox [of t rq s]]) simp
  have rm: "room (ws_outboxSeq s)" by (rule ids_left_room) (rule ok)
  have "?id \<notin> dom (ws_outbox s)" using ok(1) issued_fresh [OF rm] by (auto simp: outbox_ok_def)
  moreover have "ids_left s \<le> ids_left s' + 1"
    using unat_room [OF rm] by (simp add: rs ids_left_def)
  ultimately show "\<exists>e. r = Inr e \<and> outbox_ok s' \<and> ids_left s \<le> ids_left s' + 1 \<and>
      event_status s (ev_EventID e) = None \<and>
      (\<forall>eid. eid \<noteq> ev_EventID e \<longrightarrow> event_status s' eid = event_status s eid)"
    using outbox_ok_publish [OF ok(1) rm] rs(2) e
    by (intro exI [where x = "outboxEnvelope s' (ob_ID e) e"])
      (auto simp: outboxEnvelope_def event_status_def)
next
  fix s t n and c :: "EventEnvelope list result" and s'
  assume ok: "outbox_ok s" and c: "ClaimEvents t n s = (c, s')"
  define ch where "ch = claim_choice t (max 1 n) (rev (ws_outboxOrder s)) s"
  have cs: "c = Inr (map (claimed_envelope s) ch)" "s' = mark_processing ch s"
    using c ClaimEvents_eq [OF ok, of t n] by (simp_all add: ch_def)
  have ch: "event_status s i = Some ''pending'' \<and> i \<in> dom (ws_outbox s)" if "i \<in> set ch" for i
  proof -
    from that claim_choice_subset [of t "max 1 n" "rev (ws_outboxOrder s)" s]
    have "i \<in> set (ws_outboxOrder s)" "claimable t (the (ws_outbox s i))" by (auto simp: ch_def)
    with ok show ?thesis by (auto simp: outbox_ok_def claimable_def event_status_def)
  qed
  have ids: "map ev_EventID (map (claimed_envelope s) ch) = ch"
    unfolding map_map by (rule map_idI) (use ch claimed_envelope_id [OF ok] in auto)
  have "distinct ch" using ok by (simp add: ch_def claim_choice_def outbox_ok_def)
  moreover have "ids_left s' = ids_left s" by (simp add: cs ids_left_def mark_processing_def)
  moreover have "ev_EventID ` set (map (claimed_envelope s) ch) = set ch"
    using ids by (metis list.set_map)
  ultimately show "\<exists>es. c = Inr es \<and> outbox_ok s' \<and> ids_left s' = ids_left s \<and>
      distinct (map ev_EventID es) \<and>
      (\<forall>eid. if eid \<in> ev_EventID ` set es
        then event_status s eid = Some ''pending'' \<and> event_status s' eid = Some ''processing''
        else event_status s' eid = event_status s eid)"
    using cs ch ids outbox_ok_mark_processing [OF ok, of ch]
    by (intro exI [where x = "map (claimed_envelope s) ch"])
      (simp only: event_status_mark_processing, auto)
next
  fix s t i d u s'
  assume "outbox_ok s" "ResolveEvent t i d s = (u, s')"
  then show "outbox_ok s' \<and> ids_left s' = ids_left s \<and>
      (\<forall>eid. eid \<noteq> i \<longrightarrow> event_status s' eid = event_status s eid)"
    using outbox_ok_Resolve [of s t i d] event_status_Resolve [of _ i t d s] ws_outboxSeq_Resolve [of t i d s]
    by (simp add: ids_left_def)
qed

section \<open>Properties\<close>

text \<open>C29: At-most-once delivery.  In any sequence of publishing, claiming and resolving (of other
  events), at any times and with any limits, an event is delivered to a consumer at most once: it is
  claimed again only after its delivery has been resolved or it has been recovered or replayed.\<close>

theorem at_most_once_delivery:
  assumes "outbox_ok s" and "unat (ws_outboxSeq s) + length ops < 2 ^ 64"
    and "\<forall>op \<in> set ops. \<not> resolves eid op"
  shows "length (filter ((=) eid) (fst (bus_run PublishEvent ClaimEvents ResolveEvent ops s))) \<le> 1"
  using assms by (intro bus.at_most_once) (auto simp: ids_left_def)

theorem at_most_once_delivery_witness:
  "length (filter ((=) ''evt-000001'')
     (fst (bus_run PublishEvent ClaimEvents ResolveEvent
        [BusPublish 5 (zero_EventPublishRequest\<lparr>pr_Topic := ''telegram.send''\<rparr>), BusClaim 6 2, BusClaim 7 2]
        (NewService plain_options)))) \<le> 1"
  by (rule at_most_once_delivery) (simp_all add: NewService_def plain_options_def Let_def outbox_ok_def)

text \<open>Claiming refines a simple queue discipline: a batch is the newest claimable events, newest
  first, at most the limit (at least one); exactly these become processing, and the outbox is
  otherwise unchanged.\<close>

theorem claim_newest_first:
  assumes "outbox_ok s"
  shows "\<exists>es s'. ClaimEvents clock limit s = (Inr es, s') \<and>
    map ev_EventID es =
      take (nat (max 1 limit)) (filter (\<lambda>i. claimable clock (the (ws_outbox s i))) (rev (ws_outboxOrder s))) \<and>
    (\<forall>i. event_status s' i = (if i \<in> ev_EventID ` set es then Some ''processing'' else event_status s i)) \<and>
    s' = s\<lparr>ws_outbox := ws_outbox s'\<rparr>"
proof -
  define ch where "ch = claim_choice clock (max 1 limit) (rev (ws_outboxOrder s)) s"
  have dom: "set ch \<subseteq> dom (ws_outbox s)"
    using claim_choice_subset [of clock "max 1 limit" "rev (ws_outboxOrder s)" s] assms
    by (auto simp: ch_def outbox_ok_def)
  have ids: "map ev_EventID (map (claimed_envelope s) ch) = ch"
    unfolding map_map by (rule map_idI) (use dom claimed_envelope_id [OF assms] in auto)
  then have "ev_EventID ` set (map (claimed_envelope s) ch) = set ch" by (metis list.set_map)
  moreover have "ClaimEvents clock limit s = (Inr (map (claimed_envelope s) ch), mark_processing ch s)"
    using ClaimEvents_eq [OF assms, of clock limit] by (simp add: ch_def)
  moreover have "mark_processing ch s = s\<lparr>ws_outbox := ws_outbox (mark_processing ch s)\<rparr>"
    by (simp add: mark_processing_def)
  moreover have "event_status (mark_processing ch s) i =
      (if i \<in> set ch then Some ''processing'' else event_status s i)" for i
    using dom by (auto simp: event_status_mark_processing)
  ultimately show ?thesis using ids unfolding ch_def claim_choice_def by metis
qed

definition two_events :: Service where
  "two_events =
     snd (PublishEvent 5 (zero_EventPublishRequest\<lparr>pr_Topic := ''b''\<rparr>)
       (snd (PublishEvent 4 (zero_EventPublishRequest\<lparr>pr_Topic := ''a''\<rparr>) (NewService plain_options))))"

lemma outbox_ok_two_events: "outbox_ok two_events"
proof -
  have "room 0" "room 1" by (simp_all add: room_def)
  then show ?thesis
    unfolding two_events_def PublishEvent_def
    by (intro outbox_ok_publish) (simp_all add: NewService_def Let_def outbox_ok_def)
qed

theorem claim_newest_first_witness:
  "outbox_ok two_events \<and>
   (\<exists>es s'. ClaimEvents 9 1 two_events = (Inr es, s') \<and> map ev_EventID es = [''evt-000002''])"
proof -
  have "take 1 (filter (\<lambda>i. claimable 9 (the (ws_outbox two_events i))) (rev (ws_outboxOrder two_events))) =
      [''evt-000002'']"
    by code_simp
  then show ?thesis
    using claim_newest_first [OF outbox_ok_two_events, of 9 1] outbox_ok_two_events by auto
qed

fun fail_deliveries :: "gotime list \<Rightarrow> string \<Rightarrow> string \<Rightarrow> Service \<Rightarrow> Service" where
  "fail_deliveries [] eid err s = s"
| "fail_deliveries (t # ts) eid err s = fail_deliveries ts eid err (snd (MarkOutboxFailed t eid err s))"

lemma MarkOutboxFailed_event:
  assumes "ws_outbox s eid = Some e"
  shows "\<exists>e'. ws_outbox (snd (MarkOutboxFailed t eid err s)) eid = Some e' \<and> ob_Topic e' = ob_Topic e \<and>
    ob_RetryCount e' = ob_RetryCount e + 1 \<and>
    ob_Status e' = (if ob_RetryCount e + 1 < dp_MaxAttempts (DefaultDeliveryPolicy (ob_Topic e))
                    then ''pending'' else ''failed'')"
  using assms
  by (auto simp: MarkOutboxFailed_def failed_decision_def ResolveEvent_def Let_def Decide_decision
      delivery_decision_defs)

lemma fail_deliveries_event:
  assumes "ws_outbox s eid = Some e"
  shows "\<exists>e'. ws_outbox (fail_deliveries ts eid err s) eid = Some e' \<and> ob_Topic e' = ob_Topic e \<and>
    ob_RetryCount e' = ob_RetryCount e + int (length ts) \<and>
    ob_Status e' = (if ts = [] then ob_Status e
                    else if ob_RetryCount e + int (length ts) < dp_MaxAttempts (DefaultDeliveryPolicy (ob_Topic e))
                    then ''pending'' else ''failed'')"
  using assms
proof (induction ts arbitrary: s e)
  case (Cons t ts)
  obtain e1 where e1: "ws_outbox (snd (MarkOutboxFailed t eid err s)) eid = Some e1"
    "ob_Topic e1 = ob_Topic e" "ob_RetryCount e1 = ob_RetryCount e + 1"
    "ob_Status e1 = (if ob_RetryCount e + 1 < dp_MaxAttempts (DefaultDeliveryPolicy (ob_Topic e))
                     then ''pending'' else ''failed'')"
    by (rule exE [OF MarkOutboxFailed_event [OF Cons.prems, of t err]]) auto
  show ?case using Cons.IH [OF e1(1)] e1 by (cases ts) (auto simp: algebra_simps)
qed simp

text \<open>C30: Retries are bounded.  However often and whenever the delivery of a fresh event fails, the
  event waits for another attempt as long as fewer than the attempts of its topic have failed and is
  dead-lettered from then on; its retry count is the number of failures.\<close>

theorem delivery_retries_bounded:
  assumes "ws_outbox s eid = Some e" and "ob_RetryCount e = 0" and "ts \<noteq> []"
  shows "\<exists>e'. ws_outbox (fail_deliveries ts eid err s) eid = Some e' \<and>
    ob_RetryCount e' = int (length ts) \<and>
    ob_Status e' = (if length ts < (if ob_Topic e = ''telegram.send'' then 3 else 1)
                    then ''pending'' else ''failed'')"
proof -
  obtain e' where "ws_outbox (fail_deliveries ts eid err s) eid = Some e'"
    "ob_RetryCount e' = int (length ts)"
    "ob_Status e' = (if int (length ts) < dp_MaxAttempts (DefaultDeliveryPolicy (ob_Topic e))
                     then ''pending'' else ''failed'')"
    by (rule exE [OF fail_deliveries_event [OF assms(1), of ts err]]) (use assms in auto)
  then show ?thesis by (intro exI [where x = e']) (auto simp: DefaultDeliveryPolicy_attempts)
qed

theorem delivery_retries_bounded_witness:
  "\<exists>e'. ws_outbox (fail_deliveries [10, 20] ''evt-000001'' ''timeout'' two_events) ''evt-000001'' = Some e' \<and>
     ob_RetryCount e' = 2 \<and> ob_Status e' = ''failed''"
proof -
  have ev: "ws_outbox two_events ''evt-000001'' = Some (the (ws_outbox two_events ''evt-000001''))"
    and rc: "ob_RetryCount (the (ws_outbox two_events ''evt-000001'')) = 0"
    and tp: "ob_Topic (the (ws_outbox two_events ''evt-000001'')) \<noteq> ''telegram.send''"
    by code_simp+
  show ?thesis using delivery_retries_bounded [OF ev rc, of "[10, 20]" "''timeout''"] tp by auto
qed

text \<open>An operator can delete exactly the events that are dead-lettered or blocked; the event, its
  payload and its place in the order go, every other event stays.\<close>

theorem delete_outbox_guard:
  assumes "outbox_ok s" and "DeleteOutbox clock eid reason s = (r, s')"
  shows "(r = Inr () \<longleftrightarrow> event_status s eid \<in> {Some ''failed'', Some ''blocked''}) \<and>
    (r = Inr () \<longrightarrow> eid \<notin> set (ws_outboxOrder s') \<and> ws_outbox s' = (ws_outbox s)(eid := None) \<and>
       ws_outboxPayloads s' = (ws_outboxPayloads s)(eid := None)) \<and>
    (r \<noteq> Inr () \<longrightarrow> s' = s)"
  using assms by (auto simp: DeleteOutbox_def event_status_def outbox_ok_def split: option.split_asm if_split_asm)

theorem delete_outbox_guard_witness:
  "fst (DeleteOutbox 9 ''evt-000001'' ''stale'' two_events) \<noteq> Inr ()"
proof -
  have "event_status two_events ''evt-000001'' = Some ''pending''" by code_simp
  then show ?thesis
    using delete_outbox_guard [OF outbox_ok_two_events, of 9 "''evt-000001''" "''stale''"]
    by (cases "DeleteOutbox 9 ''evt-000001'' ''stale'' two_events") auto
qed

text \<open>Recovery after a restart: every event that was being processed waits again, the others keep
  their status, and the number of recovered events is returned.\<close>

theorem recover_pending_events:
  assumes "outbox_ok s"
  shows "\<exists>n s'. RecoverPendingEvents s = (Inr n, s') \<and>
    n = int (card {i. event_status s i = Some ''processing''}) \<and>
    (\<forall>i. event_status s' i =
       (if event_status s i = Some ''processing'' then Some ''pending'' else event_status s i))"
proof -
  have set: "{i. event_status s i = Some ''processing''} =
      set (filter (\<lambda>i. event_status s i = Some ''processing'') (ws_outboxOrder s))"
    using assms by (auto simp: outbox_ok_def event_status_def)
  have card: "card {i. event_status s i = Some ''processing''} =
      length (filter (\<lambda>i. event_status s i = Some ''processing'') (ws_outboxOrder s))"
    unfolding set using assms by (intro distinct_card) (simp add: outbox_ok_def)
  have "event_status (mark_pending (ws_outboxOrder s) s) i =
       (if event_status s i = Some ''processing'' then Some ''pending'' else event_status s i)" for i
    using assms by (cases "ws_outbox s i") (auto simp: mark_pending_def event_status_def outbox_ok_def)
  then show ?thesis unfolding card RecoverPendingEvents_eq [OF assms] by simp
qed

theorem recover_pending_events_witness:
  "\<exists>s'. RecoverPendingEvents two_events = (Inr 0, s')"
proof -
  have "{i. event_status two_events i = Some ''processing''} = {}"
  proof (safe)
    fix i assume st: "event_status two_events i = Some ''processing''"
    have "dom (ws_outbox two_events) = set (ws_outboxOrder two_events)"
      using outbox_ok_two_events by (simp add: outbox_ok_def)
    with st have "i \<in> set (ws_outboxOrder two_events)" by (auto simp: event_status_def)
    moreover have "\<forall>j \<in> set (ws_outboxOrder two_events). event_status two_events j \<noteq> Some ''processing''"
      by code_simp
    ultimately show "i \<in> {}" using st by blast
  qed
  then show ?thesis using recover_pending_events [OF outbox_ok_two_events] by auto
qed

text \<open>Replaying is not restricted to failed and blocked events: replaying an event that is being
  processed, or that is done, succeeds and makes the next batch deliver it once more.\<close>

theorem replay_redelivers:
  assumes "outbox_ok s" and "ws_outbox s eid = Some e" and "ob_Status e \<noteq> ''blocked''"
    and "ob_AvailableAt e \<le> t"
  shows "fst (ReplayOutbox clock eid reason s) = Inr () \<and>
    (\<exists>es s'. ClaimEvents t (int (length (ws_outboxOrder s))) (snd (ReplayOutbox clock eid reason s)) =
       (Inr es, s') \<and> eid \<in> ev_EventID ` set es)"
proof -
  let ?s = "snd (ReplayOutbox clock eid reason s)"
  have ok: "outbox_ok ?s" by (rule outbox_ok_Replay) (rule assms)
  have order: "ws_outboxOrder ?s = ws_outboxOrder s" and r: "fst (ReplayOutbox clock eid reason s) = Inr ()"
    and ev: "ws_outbox ?s eid = Some (e\<lparr>ob_Status := ''pending'', ob_BlockedReason := [], ob_LastError := [],
      ob_RetryCount := ob_RetryCount e + 1\<rparr>)"
    using assms by (simp_all add: ReplayOutbox_def)
  have mem: "eid \<in> set (ws_outboxOrder s)" using assms(1,2) by (auto simp: outbox_ok_def)
  then have ne: "max 1 (int (length (ws_outboxOrder s))) = int (length (ws_outboxOrder s))"
    by (cases "ws_outboxOrder s") auto
  let ?f = "filter (\<lambda>i. claimable t (the (ws_outbox ?s i))) (rev (ws_outboxOrder s))"
  have "length ?f \<le> length (ws_outboxOrder s)" by (metis length_filter_le length_rev)
  then have all: "claim_choice t (max 1 (int (length (ws_outboxOrder s)))) (rev (ws_outboxOrder ?s)) ?s = ?f"
    unfolding ne order by (simp add: claim_choice_def)
  have "claimable t (the (ws_outbox ?s eid))" unfolding ev using assms(4) by (simp add: claimable_def)
  with mem have "eid \<in> set ?f" by simp
  then have "ev_EventID (claimed_envelope ?s eid) \<in> ev_EventID ` set (map (claimed_envelope ?s) ?f)" by simp
  then show ?thesis
    using r claimed_envelope_id [OF ok ev] ClaimEvents_eq [OF ok, of t "int (length (ws_outboxOrder s))"]
    unfolding all by simp
qed

theorem replay_redelivers_witness:
  "\<exists>es s'. ClaimEvents 9 2 (snd (ReplayOutbox 8 ''evt-000001'' ''again''
      (snd (ClaimEvents 7 2 two_events)))) = (Inr es, s') \<and> ''evt-000001'' \<in> ev_EventID ` set es"
proof -
  let ?s = "snd (ClaimEvents 7 2 two_events)"
  have ok: "outbox_ok ?s" by (rule outbox_ok_Claim) (rule outbox_ok_two_events)
  have ev: "ws_outbox ?s ''evt-000001'' = Some (the (ws_outbox ?s ''evt-000001''))"
    and st: "ob_Status (the (ws_outbox ?s ''evt-000001'')) \<noteq> ''blocked''"
    and av: "ob_AvailableAt (the (ws_outbox ?s ''evt-000001'')) \<le> 9"
    and len: "length (ws_outboxOrder ?s) = 2"
    by code_simp+
  show ?thesis using replay_redelivers [OF ok ev st av, of 8 "''again''"] len by simp
qed

end
