(* ===== verification/Workflow_Handlers.thy ===== *)
theory Workflow_Handlers
  imports Workflow_Outbox
begin

text \<open>
  The handlers of \<^verbatim>\<open>internal/modules/workflow/service.go\<close> that move sessions and executions: alerts,
  approvals and rejections from a chat channel, results of executions, capabilities and
  verifications, the sweep of approvals that timed out, the application of a diagnosis, and the
  request of a capability approval.  A branch of a handler is a definition of its own where the
  handler is long; \<open>NilDeref\<close> marks the places where the source would dereference a nil pointer.
\<close>

section \<open>Alerts\<close>

text \<open>The session that an alert with the same idempotency key has already been attached to.\<close>

definition alert_duplicate :: "AlertEvent \<Rightarrow> Service \<Rightarrow> SessionMutationResult option" where
  "alert_duplicate event s =
     (let key = TrimSpace (ae_IdempotencyKey event) in
      if key = [] then None
      else
        (case ws_processedAlerts s key of
           None \<Rightarrow> None
         | Some sessionID \<Rightarrow>
             (case ws_sessions s sessionID of
                None \<Rightarrow> None
              | Some r \<Rightarrow>
                  Some \<lparr>mr_SessionID = sessionID, mr_Status = sd_Status (sr_detail r), mr_Duplicated = True\<rparr>)))"

definition alert_fingerprint :: "AlertEvent \<Rightarrow> Service \<Rightarrow> string" where
  "alert_fingerprint event s =
     (if ae_Fingerprint event = [] then format_id ''fp'' (unat (ws_seq s + 1)) else ae_Fingerprint event)"

definition alert_session :: "AlertEvent \<Rightarrow> gotime \<Rightarrow> string \<Rightarrow> string \<Rightarrow> bool \<Rightarrow> sessionRecord" where
  "alert_session event now fingerprint sessionID enabled =
     (let host = pickHost (ae_Labels event);
          alertPayload =
            [(''source'', VString (ae_Source event)), (''severity'', VString (ae_Severity event)),
             (''fingerprint'', VString fingerprint), (''host'', VString host),
             (''labels'', VStrMap (cloneStringMap (ae_Labels event))),
             (''annotations'', VStrMap (cloneStringMap (ae_Annotations event))),
             (''received_at'', VTime now)];
          detail = zero_SessionDetail\<lparr>
            sd_SessionID := sessionID, sd_AgentRoleID := ''diagnosis'',
            sd_Status := (if enabled then ''analyzing'' else ''open''),
            sd_DiagnosisSummary := (if enabled then ''Diagnosis queued'' else ''Diagnosis feature disabled''),
            sd_Alert := alertPayload, sd_Executions := [],
            sd_Timeline :=
              [\<lparr>te_Event = ''alert_received'', te_Message = ''alert ingested from vmalert webhook'',
                te_CreatedAt = now\<rparr>] @
              (if enabled
               then [\<lparr>te_Event = ''diagnosis_requested'',
                      te_Message = ''queued diagnosis request for reasoning pipeline'', te_CreatedAt = now\<rparr>]
               else [\<lparr>te_Event = ''diagnosis_blocked'',
                      te_Message = ''diagnosis request blocked by feature flag'', te_CreatedAt = now\<rparr>])\<rparr>
      in \<lparr>sr_detail = detail, sr_fingerprint = fingerprint, sr_host = host, sr_desenseMap = []\<rparr>)"

definition alert_repeated ::
  "AlertEvent \<Rightarrow> gotime \<Rightarrow> string \<Rightarrow> Service \<Rightarrow> SessionMutationResult result \<times> Service" where
  "alert_repeated event now sessionID s =
     (let s1 = mark_alert (ae_IdempotencyKey event) sessionID s in
      case ws_sessions s sessionID of
        None \<Rightarrow> (Inl NilDeref, s1)
      | Some r \<Rightarrow>
          (Inr \<lparr>mr_SessionID = sessionID, mr_Status = sd_Status (sr_detail r), mr_Duplicated = True\<rparr>,
           put_session sessionID
             (timeline_add ''alert_repeated'' ''received duplicate alert for existing session'' now r) s1))"

definition analyze_request :: "string \<Rightarrow> bool \<Rightarrow> gotime \<Rightarrow> EventPublishRequest" where
  "analyze_request sessionID enabled now =
     zero_EventPublishRequest\<lparr>
       pr_Topic := ''session.analyze_requested'', pr_AggregateID := sessionID, pr_Payload := ''{}'',
       pr_Status := (if enabled then ''pending'' else ''blocked''),
       pr_BlockedReason := (if enabled then [] else ''diagnosis_disabled''),
       pr_CreatedAt := now, pr_AvailableAt := now\<rparr>"

text \<open>The state with the new session, before the event is published.\<close>

definition opened_state :: "AlertEvent \<Rightarrow> gotime \<Rightarrow> string \<Rightarrow> Service \<Rightarrow> Service" where
  "opened_state event now fingerprint s =
     (let (sessionID, seq) = nextID ''ses'' (ws_seq s);
          r = alert_session event now fingerprint sessionID (op_DiagnosisEnabled (ws_opts s))
      in mark_alert (ae_IdempotencyKey event) sessionID
           (s\<lparr>ws_seq := seq, ws_sessions := (ws_sessions s)(sessionID \<mapsto> r),
              ws_sessionOrder := ws_sessionOrder s @ [sessionID],
              ws_sessionByFingerprint := (ws_sessionByFingerprint s)(fingerprint \<mapsto> sessionID)\<rparr>))"

definition alert_opened ::
  "gotime \<Rightarrow> AlertEvent \<Rightarrow> gotime \<Rightarrow> string \<Rightarrow> Service \<Rightarrow> SessionMutationResult result \<times> Service" where
  "alert_opened clock event now fingerprint s =
     (let sessionID = fst (nextID ''ses'' (ws_seq s)); enabled = op_DiagnosisEnabled (ws_opts s) in
      case publishEventLocked clock (analyze_request sessionID enabled now)
             (opened_state event now fingerprint s) of
        (Inl err, s') \<Rightarrow> (Inl err, s')
      | (Inr _, s') \<Rightarrow>
          (Inr \<lparr>mr_SessionID = sessionID, mr_Status = (if enabled then ''analyzing'' else ''open''),
                mr_Duplicated = False\<rparr>, s'))"

definition HandleAlertEvent ::
  "gotime \<Rightarrow> AlertEvent \<Rightarrow> Service \<Rightarrow> SessionMutationResult result \<times> Service" where
  "HandleAlertEvent clock event s =
     (case alert_duplicate event s of
        Some res \<Rightarrow> (Inr res, s)
      | None \<Rightarrow>
          (let fingerprint = alert_fingerprint event s;
               now = (if IsZero (ae_ReceivedAt event) then clock else ae_ReceivedAt event)
           in case ws_sessionByFingerprint s fingerprint of
                Some sessionID \<Rightarrow> alert_repeated event now sessionID s
              | None \<Rightarrow> alert_opened clock event now fingerprint s))"

section \<open>Channel events\<close>

definition execution_request :: "ExecutionDetail \<Rightarrow> sessionRecord \<Rightarrow> ApprovedExecutionRequest" where
  "execution_request e r =
     \<lparr>xr_ExecutionID = ed_ExecutionID e, xr_SessionID = sd_SessionID (sr_detail r),
      xr_TargetHost = ed_TargetHost e, xr_Command = ed_Command e,
      xr_Service = alertLabel (sd_Alert (sr_detail r)) ''service'',
      xr_ConnectorID = ed_ConnectorID e, xr_ConnectorType = ed_ConnectorType e,
      xr_ConnectorVendor = ed_ConnectorVendor e, xr_Protocol = ed_Protocol e,
      xr_ExecutionMode = ed_ExecutionMode e\<rparr>"

text \<open>The answer to the chat an event came from.\<close>

definition channel_reply :: "ChannelEvent \<Rightarrow> string \<Rightarrow> ChannelMessage" where
  "channel_reply event body =
     zero_ChannelMessage\<lparr>cm_Channel := ce_Channel event, cm_Target := ce_ChatID event, cm_Body := body\<rparr>"

definition request_kind :: "ExecutionDetail \<Rightarrow> string" where
  "request_kind e = (if TrimSpace (ed_RequestKind e) = [] then ''execution'' else TrimSpace (ed_RequestKind e))"

text \<open>
  In the branches below \<open>e\<close> is the execution of the event, \<open>sid\<close> and \<open>r\<close> are its session and
  \<open>now\<close> is the time of the event.
\<close>

definition approve_capability ::
  "gotime \<Rightarrow> ChannelEvent \<Rightarrow> ExecutionDetail \<Rightarrow> string \<Rightarrow> sessionRecord \<Rightarrow> Service \<Rightarrow>
     WorkflowDispatchResult result \<times> Service" where
  "approve_capability now event e sid r s =
     (let eid = ce_ExecutionID event;
          e' = e\<lparr>ed_Status := ''executing'', ed_ApprovedAt := now\<rparr>;
          r' = timeline_add ''capability_approval_accepted''
                 (''capability approval '' @ eid @ '' approved by '' @ ce_UserID event @
                  '' capability='' @ ed_CapabilityID e' @ '' connector='' @ ed_ConnectorID e') now
                 (set_status ''executing'' (upsert_execution e' r));
          s' = mark_processed (ce_IdempotencyKey event) (put_session sid r' (put_execution eid e' s))
      in (Inr (zero_WorkflowDispatchResult\<lparr>
                 wd_SessionID := sd_SessionID (sr_detail r'),
                 wd_Notifications := [channel_reply event
                   (''['' @ eid @ ''] capability approved, invoking '' @ ed_CapabilityID e' @
                    '' on connector '' @ ed_ConnectorID e')],
                 wd_Capabilities := [
                   \<lparr>ar_ApprovalID = ed_ExecutionID e', ar_SessionID = sd_SessionID (sr_detail r'),
                    ar_StepID = ed_StepID e', ar_ConnectorID = ed_ConnectorID e',
                    ar_CapabilityID = ed_CapabilityID e',
                    ar_Params = cloneInterfaceMap (ed_CapabilityParams e'),
                    ar_RequestedBy = firstNonEmpty [ce_UserID event, ed_RequestedBy e'],
                    ar_ApprovalGroup = ed_ApprovalGroup e',
                    ar_Runtime = CloneRuntimeMetadata (ed_Runtime e')\<rparr>]\<rparr>),
          s'))"

definition approve_manual ::
  "gotime \<Rightarrow> ChannelEvent \<Rightarrow> ExecutionDetail \<Rightarrow> string \<Rightarrow> sessionRecord \<Rightarrow> Service \<Rightarrow>
     WorkflowDispatchResult result \<times> Service" where
  "approve_manual now event e sid r s =
     (let eid = ce_ExecutionID event;
          e' = e\<lparr>ed_Status := ''approved'', ed_ApprovedAt := now\<rparr>;
          r' = timeline_add ''approval_accepted_manual''
                 (''execution '' @ eid @ '' approved by '' @ ce_UserID event @
                  '' but execution is disabled command='' @ ed_Command e' @ '' '' @
                  workflowExecutionRuntimeSummary e') now
                 (set_status ''open'' (upsert_execution e' r));
          s' = mark_processed (ce_IdempotencyKey event) (put_session sid r' (put_execution eid e' s))
      in (Inr (zero_WorkflowDispatchResult\<lparr>
                 wd_SessionID := sd_SessionID (sr_detail r'),
                 wd_Notifications := [channel_reply event
                   (''['' @ eid @ ''] execution approved by '' @ ce_UserID event @
                    '' but execution is disabled; please handle manually'')]\<rparr>),
          s'))"

definition approve_execute ::
  "gotime \<Rightarrow> ChannelEvent \<Rightarrow> ExecutionDetail \<Rightarrow> string \<Rightarrow> sessionRecord \<Rightarrow> Service \<Rightarrow>
     WorkflowDispatchResult result \<times> Service" where
  "approve_execute now event e sid r s =
     (let eid = ce_ExecutionID event;
          s1 = mark_processed (ce_IdempotencyKey event) s;
          e' = e\<lparr>ed_Status := ''executing'', ed_ApprovedAt := now\<rparr>;
          r' = timeline_add ''approval_accepted''
                 (''execution '' @ eid @ '' approved by '' @ ce_UserID event @ '' command='' @
                  ed_Command e' @ '' '' @ workflowExecutionRuntimeSummary e') now
                 (set_status ''executing'' (upsert_execution e' r));
          s' = put_session sid r' (put_execution eid e' s1)
      in (Inr (zero_WorkflowDispatchResult\<lparr>
                 wd_SessionID := sd_SessionID (sr_detail r'),
                 wd_Notifications := [channel_reply event
                   (''['' @ eid @ ''] execution approved, starting command on '' @ ed_TargetHost e')],
                 wd_Executions := [execution_request e' r']\<rparr>),
          s'))"

definition handle_approve ::
  "gotime \<Rightarrow> ChannelEvent \<Rightarrow> ExecutionDetail \<Rightarrow> string \<Rightarrow> sessionRecord \<Rightarrow> Service \<Rightarrow>
     WorkflowDispatchResult result \<times> Service" where
  "handle_approve now event e sid r s =
     (if ed_Status e \<noteq> ''pending'' then (Inl ErrInvalidState, s)
      else if request_kind e = ''capability'' then approve_capability now event e sid r s
      else
        (let e1 = (if ce_Action event = ''modify_approve'' \<and> ce_Command event \<noteq> []
                   then e\<lparr>ed_Command := ce_Command event\<rparr> else e)
         in if \<not> op_ExecutionEnabled (ws_opts s) then approve_manual now event e1 sid r s
            else approve_execute now event e1 sid r s))"

definition reject_step :: "ExecutionDetail \<Rightarrow> ToolPlanStep \<Rightarrow> ToolPlanStep" where
  "reject_step e step =
     step\<lparr>tp_Status := ''rejected'',
          tp_Output := map_put ''status'' (VString ''rejected'')
            (map_put ''approval_id'' (VString (ed_ExecutionID e)) (tp_Output step))\<rparr>"

definition handle_reject ::
  "gotime \<Rightarrow> ChannelEvent \<Rightarrow> ExecutionDetail \<Rightarrow> string \<Rightarrow> sessionRecord \<Rightarrow> Service \<Rightarrow>
     WorkflowDispatchResult result \<times> Service" where
  "handle_reject now event e sid r s =
     (if ed_Status e \<noteq> ''pending'' then (Inl ErrInvalidState, s)
      else
        (let eid = ce_ExecutionID event;
             e' = e\<lparr>ed_Status := ''rejected''\<rparr>;
             r1 = set_status ''analyzing'' (upsert_execution e' r);
             capability = (request_kind e = ''capability'');
             r2 = (if capability then update_plan_step (ed_StepID e') (reject_step e') r1 else r1);
             r3 = (if capability
                   then timeline_add ''capability_approval_rejected''
                     (''capability approval '' @ eid @ '' rejected by '' @ ce_UserID event) now r2
                   else timeline_add ''approval_rejected''
                     (''execution '' @ eid @ '' rejected by '' @ ce_UserID event) now r2);
             s' = mark_processed (ce_IdempotencyKey event) (put_session sid r3 (put_execution eid e' s))
         in (Inr (zero_WorkflowDispatchResult\<lparr>
                    wd_SessionID := sd_SessionID (sr_detail r3),
                    wd_Notifications := [channel_reply event
                      (''['' @ eid @ ''] execution rejected by '' @ ce_UserID event)]\<rparr>),
             s')))"

definition handle_request_context ::
  "gotime \<Rightarrow> ChannelEvent \<Rightarrow> ExecutionDetail \<Rightarrow> string \<Rightarrow> sessionRecord \<Rightarrow> Service \<Rightarrow>
     WorkflowDispatchResult result \<times> Service" where
  "handle_request_context now event e sid r s =
     (if ed_Status e \<noteq> ''pending'' then (Inl ErrInvalidState, s)
      else
        (let r1 = set_status ''analyzing'' r;
             r2 = (if request_kind e = ''capability''
                   then timeline_add ''capability_approval_requested_context''
                     (''additional capability context requested by '' @ ce_UserID event) now r1
                   else timeline_add ''approval_requested_context''
                     (''additional context requested by '' @ ce_UserID event) now r1);
             s' = mark_processed (ce_IdempotencyKey event) (put_session sid r2 s)
         in (Inr (zero_WorkflowDispatchResult\<lparr>
                    wd_SessionID := sd_SessionID (sr_detail r2),
                    wd_Notifications := [channel_reply event
                      (''['' @ ce_ExecutionID event @ ''] additional context requested'')]\<rparr>),
             s')))"

definition HandleChannelEvent ::
  "gotime \<Rightarrow> ChannelEvent \<Rightarrow> Service \<Rightarrow> WorkflowDispatchResult result \<times> Service" where
  "HandleChannelEvent clock event s =
     (if ce_ExecutionID event = [] then (Inl ErrNotFound, s)
      else if ce_IdempotencyKey event \<noteq> [] \<and> ce_IdempotencyKey event \<in> ws_processedEvents s
      then (Inr zero_WorkflowDispatchResult, s)
      else
        (case ws_executions s (ce_ExecutionID event) of
           None \<Rightarrow> (Inl ErrNotFound, s)
         | Some e \<Rightarrow>
             (let sid = get_str (ws_executionSession s) (ce_ExecutionID event) in
              case ws_sessions s sid of
                None \<Rightarrow> (Inl ErrNotFound, s)
              | Some r \<Rightarrow>
                  if ce_Action event \<in> {''approve'', ''modify_approve''} then handle_approve clock event e sid r s
                  else if ce_Action event = ''reject'' then handle_reject clock event e sid r s
                  else if ce_Action event = ''request_context''
                  then handle_request_context clock event e sid r s
                  else (Inl (Errorf (''unsupported channel action: '' @ ce_Action event)), s))))"

section \<open>Results\<close>

text \<open>The execution with its result, and the session that receives it.\<close>

definition finished_execution :: "gotime \<Rightarrow> ExecutionResult \<Rightarrow> Service \<Rightarrow> ExecutionDetail" where
  "finished_execution completedAt result s =
     (let eid = er_ExecutionID result;
          e0 = (case ws_executions s eid of
                  Some e \<Rightarrow> e
                | None \<Rightarrow> zero_ExecutionDetail\<lparr>ed_ExecutionID := eid, ed_Status := er_Status result\<rparr>)
      in e0\<lparr>ed_Status := er_Status result, ed_ExitCode := er_ExitCode result,
            ed_OutputRef := er_OutputRef result, ed_OutputBytes := er_OutputBytes result,
            ed_OutputTruncated := er_OutputTruncated result,
            ed_Runtime := CloneRuntimeMetadata (er_Runtime result), ed_CompletedAt := completedAt\<rparr>)"

definition execution_outcome :: "gotime \<Rightarrow> ExecutionResult \<Rightarrow> ExecutionDetail \<Rightarrow> sessionRecord \<Rightarrow> sessionRecord" where
  "execution_outcome now result e r =
     (let r1 = upsert_execution e r; eid = er_ExecutionID result; status = er_Status result;
          summary = workflowExecutionRuntimeSummary e
      in if status = ''completed''
         then timeline_add ''execution_completed''
           (''execution '' @ eid @ '' completed successfully '' @ summary) now (set_status ''verifying'' r1)
         else if status \<in> {''failed'', ''timeout''}
         then timeline_add ''execution_failed''
           (''execution '' @ eid @ '' ended with status '' @ status @ '' '' @ summary) now
           (set_status ''failed'' r1)
         else timeline_add ''execution_result_received''
           (''execution '' @ eid @ '' returned status '' @ status @ '' '' @ summary) now
           (set_status ''verifying'' r1))"

definition HandleExecutionResult ::
  "gotime \<Rightarrow> ExecutionResult \<Rightarrow> Service \<Rightarrow> SessionMutationResult result \<times> Service" where
  "HandleExecutionResult clock result s =
     (let eid = er_ExecutionID result;
          completedAt = clock;
          e = finished_execution completedAt result s;
          s1 = (put_execution eid e s)\<lparr>ws_executionOutputs := (ws_executionOutputs s)
                 (eid \<mapsto> buildExecutionOutputChunks clock (er_OutputPreview result) completedAt)\<rparr>;
          sid = (if er_SessionID result = [] then get_str (ws_executionSession s) eid else er_SessionID result)
      in case ws_sessions s1 sid of
           None \<Rightarrow> (Inl ErrNotFound, s1)
         | Some r \<Rightarrow>
             (let r' = execution_outcome completedAt result e r
              in (Inr (zero_SessionMutationResult\<lparr>mr_SessionID := sid, mr_Status := sd_Status (sr_detail r')\<rparr>),
                  put_session sid r' s1)))"

definition capability_step :: "CapabilityExecutionResult \<Rightarrow> gotime \<Rightarrow> ToolPlanStep \<Rightarrow> ToolPlanStep" where
  "capability_step result completedAt step =
     (let out1 = map_put ''status'' (VString (cr_Status result))
                   (map_put ''approval_id'' (VString (cr_ApprovalID result)) (tp_Output step));
          out2 = (if cr_Output result \<noteq> []
                  then map_put ''result'' (VMap (cloneInterfaceMap (cr_Output result))) out1 else out1);
          out3 = (if cr_Metadata result \<noteq> []
                  then map_put ''metadata'' (VMap (cloneInterfaceMap (cr_Metadata result))) out2 else out2);
          out4 = (if cr_Error result \<noteq> [] then map_put ''error'' (VString (cr_Error result)) out3 else out3)
      in step\<lparr>tp_Status := cr_Status result, tp_Runtime := CloneRuntimeMetadata (cr_Runtime result),
              tp_CompletedAt := completedAt, tp_Output := out4\<rparr>)"

definition add_attachments :: "MessageAttachment list \<Rightarrow> sessionRecord \<Rightarrow> sessionRecord" where
  "add_attachments atts r =
     (if atts = [] then r
      else r\<lparr>sr_detail := (sr_detail r)\<lparr>sd_Attachments :=
         sd_Attachments (sr_detail r) @ cloneMessageAttachments atts\<rparr>\<rparr>)"

definition finished_capability :: "gotime \<Rightarrow> CapabilityExecutionResult \<Rightarrow> Service \<Rightarrow> ExecutionDetail" where
  "finished_capability completedAt result s =
     (let aid = cr_ApprovalID result;
          e0 = (case ws_executions s aid of
                  Some e \<Rightarrow> e
                | None \<Rightarrow> zero_ExecutionDetail\<lparr>ed_ExecutionID := aid, ed_RequestKind := ''capability''\<rparr>)
      in e0\<lparr>ed_Status := cr_Status result,
            ed_StepID := firstNonEmpty [cr_StepID result, ed_StepID e0],
            ed_CapabilityID := firstNonEmpty [cr_CapabilityID result, ed_CapabilityID e0],
            ed_ConnectorID := firstNonEmpty [cr_ConnectorID result, ed_ConnectorID e0],
            ed_Runtime := CloneRuntimeMetadata (cr_Runtime result), ed_CompletedAt := completedAt\<rparr>)"

definition capability_outcome ::
  "CapabilityExecutionResult \<Rightarrow> ExecutionDetail \<Rightarrow> sessionRecord \<Rightarrow> sessionRecord" where
  "capability_outcome result e r =
     (let aid = cr_ApprovalID result; now = ed_CompletedAt e;
          r1 = add_attachments (cr_Artifacts result)
                 (update_plan_step (ed_StepID e) (capability_step result now) (upsert_execution e r))
      in if cr_Status result = ''completed''
         then timeline_add ''capability_completed''
           (''capability approval '' @ aid @ '' completed capability='' @ ed_CapabilityID e @
            '' connector='' @ ed_ConnectorID e) now (set_status ''open'' r1)
         else timeline_add ''capability_failed''
           (''capability approval '' @ aid @ '' failed: '' @
            firstNonEmpty [cr_Error result, cr_Status result]) now (set_status ''failed'' r1))"

definition HandleCapabilityResult ::
  "gotime \<Rightarrow> CapabilityExecutionResult \<Rightarrow> Service \<Rightarrow> SessionMutationResult result \<times> Service" where
  "HandleCapabilityResult clock result s =
     (let aid = cr_ApprovalID result;
          e = finished_capability clock result s;
          s1 = put_execution aid e s;
          sid = firstNonEmpty [cr_SessionID result, get_str (ws_executionSession s) aid]
      in case ws_sessions s1 sid of
           None \<Rightarrow> (Inl ErrNotFound, s1)
         | Some r \<Rightarrow>
             (let r' = capability_outcome result e r
              in (Inr (zero_SessionMutationResult\<lparr>mr_SessionID := sid, mr_Status := sd_Status (sr_detail r')\<rparr>),
                  put_session sid r' s1)))"

definition set_verification :: "SessionVerification \<Rightarrow> sessionRecord \<Rightarrow> sessionRecord" where
  "set_verification v r = r\<lparr>sr_detail := (sr_detail r)\<lparr>sd_Verification := Some v\<rparr>\<rparr>"

definition HandleVerificationResult ::
  "gotime \<Rightarrow> VerificationResult \<Rightarrow> Service \<Rightarrow> SessionMutationResult result \<times> Service" where
  "HandleVerificationResult clock result s =
     (let sid = vr_SessionID result in
      case ws_sessions s sid of
        None \<Rightarrow> (Inl ErrNotFound, s)
      | Some r \<Rightarrow>
          (let now = (if IsZero (vr_CheckedAt result) then clock else vr_CheckedAt result);
               r1 = set_verification
                      \<lparr>sv_Status = vr_Status result, sv_Summary = vr_Summary result,
                       sv_Details = cloneInterfaceMap (vr_Details result),
                       sv_Runtime = CloneRuntimeMetadata (vr_Runtime result), sv_CheckedAt = now\<rparr> r;
               closed = (vr_Status result \<in> {''success'', ''skipped''});
               r2 = set_status (if closed then ''resolved'' else ''analyzing'') r1;
               s1 = (if closed then enqueueSessionClosed clock (sd_SessionID (sr_detail r2)) now s else s);
               r3 = timeline_add (if closed then ''verify_success'' else ''verify_failed'')
                      (vr_Summary result) now r2
           in (Inr (zero_SessionMutationResult\<lparr>mr_SessionID := sid, mr_Status := sd_Status (sr_detail r3)\<rparr>),
               put_session sid r3 s1)))"

section \<open>Routing and authorization\<close>

definition resolveApprovalRoute :: "Service \<Rightarrow> valmap \<Rightarrow> string \<Rightarrow> Route" where
  "resolveApprovalRoute s alert requester =
     (if alertLabel alert ''tars_chat'' = ''true'' then
        \<lparr>rt_GroupKey = ''chat_request:direct'', rt_SourceLabel = ''chat request(direct)'',
         rt_Targets = [pickNotificationTarget alert]\<rparr>
      else
        (case op_ApprovalRouter (ws_opts s) of
           None \<Rightarrow>
             \<lparr>rt_GroupKey = ''fallback:default'', rt_SourceLabel = ''fallback(default)'',
              rt_Targets = [pickNotificationTarget alert]\<rparr>
         | Some router \<Rightarrow> router alert requester (pickNotificationTarget alert)))"

definition resolveAuthorizationDecision :: "Service \<Rightarrow> valmap \<Rightarrow> string \<Rightarrow> Decision" where
  "resolveAuthorizationDecision s alert command =
     (let decision =
            (case op_AuthorizationPolicy (ws_opts s) of
               None \<Rightarrow> \<lparr>dn_Action = ActionRequireApproval, dn_RuleID = ''mvp_default'', dn_MatchedBy = ''default''\<rparr>
             | Some evaluate \<Rightarrow>
                 evaluate \<lparr>si_Command = command, si_Service = alertLabel alert ''service'',
                           si_Host = stringFromAlert alert ''host'',
                           si_Channel = stringFromAlert alert ''source''\<rparr>)
      in case op_AgentRoleManager (ws_opts s) of
           None \<Rightarrow> decision
         | Some m \<Rightarrow>
             decision\<lparr>dn_Action :=
               EnforcePolicy (ResolveForSession m ''diagnosis'') (dn_Action decision) command\<rparr>)"

definition currentDesensitizationConfig :: "Service \<Rightarrow> RehydrationConfig option" where
  "currentDesensitizationConfig s =
     (case op_DesensitizationProvider (ws_opts s) of
        None \<Rightarrow> Some DefaultDesensitizationConfig
      | Some cfg \<Rightarrow> cfg)"

record executionRuntimeSelection =
  rn_ConnectorID :: string
  rn_ConnectorType :: string
  rn_ConnectorVendor :: string
  rn_Protocol :: string
  rn_ExecutionMode :: string
  rn_Runtime :: "RuntimeMetadata option"

definition selectExecutionRuntime :: "Service \<Rightarrow> string \<Rightarrow> executionRuntimeSelection" where
  "selectExecutionRuntime s host =
     (case SelectHealthyRuntimeManifest (op_Connectors (ws_opts s)) ''execution'' []
             [''jumpserver_api'', ''ssh_native''] of
        None \<Rightarrow>
          \<lparr>rn_ConnectorID = [], rn_ConnectorType = [], rn_ConnectorVendor = [], rn_Protocol = ''ssh'',
           rn_ExecutionMode = ''ssh'',
           rn_Runtime = Some (zero_RuntimeMetadata\<lparr>
             rm_Runtime := ''ssh'', rm_Selection := ''auto_selector'', rm_Protocol := ''ssh'',
             rm_ExecutionMode := ''ssh'', rm_FallbackEnabled := True, rm_FallbackUsed := True,
             rm_FallbackReason := ''no_healthy_connector_selected'', rm_FallbackTarget := ''ssh''\<rparr>)\<rparr>
      | Some entry \<Rightarrow>
          (let protocol = sp_Protocol (mf_Spec entry); mode = DefaultExecutionMode protocol in
           \<lparr>rn_ConnectorID = md_ID (mf_Metadata entry), rn_ConnectorType = sp_Type (mf_Spec entry),
            rn_ConnectorVendor = md_Vendor (mf_Metadata entry), rn_Protocol = protocol,
            rn_ExecutionMode = mode,
            rn_Runtime = Some (zero_RuntimeMetadata\<lparr>
              rm_Runtime := ''connector'', rm_Selection := ''auto_selector'',
              rm_ConnectorID := md_ID (mf_Metadata entry), rm_ConnectorType := sp_Type (mf_Spec entry),
              rm_ConnectorVendor := md_Vendor (mf_Metadata entry), rm_Protocol := protocol,
              rm_ExecutionMode := mode, rm_FallbackEnabled := True, rm_FallbackUsed := False,
              rm_FallbackTarget := ''ssh''\<rparr>)\<rparr>))"

section \<open>Approval timeouts\<close>

text \<open>\<open>order\<close> is the order in which the map of executions is ranged over.\<close>

definition timed_out :: "Service \<Rightarrow> gotime \<Rightarrow> ExecutionDetail \<Rightarrow> bool" where
  "timed_out s now e \<longleftrightarrow>
     \<not> (ed_Status e \<noteq> ''pending'' \<or> IsZero (ed_CreatedAt e)) \<and>
     \<not> time_Sub now (ed_CreatedAt e) < op_ApprovalTimeout (ws_opts s)"

fun sweep_loop :: "gotime \<Rightarrow> string list \<Rightarrow> ChannelMessage list \<Rightarrow> Service \<Rightarrow> ChannelMessage list \<times> Service" where
  "sweep_loop now [] notifications s = (notifications, s)"
| "sweep_loop now (eid # eids) notifications s =
     (case ws_executions s eid of
        None \<Rightarrow> sweep_loop now eids notifications s
      | Some e \<Rightarrow>
          if \<not> timed_out s now e then sweep_loop now eids notifications s
          else
            (let e' = e\<lparr>ed_Status := ''rejected''\<rparr>;
                 s1 = put_execution eid e' s;
                 sid = get_str (ws_executionSession s) eid
             in case ws_sessions s1 sid of
                  None \<Rightarrow> sweep_loop now eids notifications s1
                | Some r \<Rightarrow>
                    (let r' = timeline_add ''approval_timed_out''
                                (''execution '' @ eid @ '' timed out waiting for approval'') now
                                (set_status ''open'' (upsert_execution e' r));
                         alert = sd_Alert (sr_detail r');
                         route = resolveApprovalRoute s1 alert (ed_RequestedBy e');
                         messages = map (\<lambda>target. zero_ChannelMessage\<lparr>
                             cm_Channel := notificationChannelForAlert alert,
                             cm_Target := notificationTargetForAlert alert target,
                             cm_Body := ''['' @ sd_SessionID (sr_detail r') @
                               ''] approval timed out for execution '' @ eid @
                               ''; request was auto-rejected''\<rparr>) (rt_Targets route)
                     in sweep_loop now eids (notifications @ messages) (put_session sid r' s1))))"

definition SweepApprovalTimeouts ::
  "gotime \<Rightarrow> string list \<Rightarrow> gotime \<Rightarrow> Service \<Rightarrow> ChannelMessage list result \<times> Service" where
  "SweepApprovalTimeouts clock order now0 s =
     (let now = (if IsZero now0 then clock else now0);
          (notifications, s') = sweep_loop now order [] s
      in (Inr notifications, s'))"

section \<open>Diagnosis\<close>

definition resolveChatWithoutExecution ::
  "gotime \<Rightarrow> sessionRecord \<Rightarrow> gotime \<Rightarrow> string \<Rightarrow> string \<Rightarrow> Service \<Rightarrow> sessionRecord \<times> Service" where
  "resolveChatWithoutExecution clock r now source message s =
     (if sd_Status (sr_detail r) = ''resolved'' then (r, s)
      else if source \<notin> {''telegram_chat'', ''web_chat'', ''ops_api''} \<and>
              alertLabel (sd_Alert (sr_detail r)) ''tars_generated'' \<noteq> ''ops_setup''
      then (r, s)
      else
        (let r' = timeline_add ''chat_answer_completed'' message now (set_status ''resolved'' r)
         in (r', enqueueSessionClosed clock (sd_SessionID (sr_detail r')) now s)))"

text \<open>
  What the branches of the authorization decision return: the session, the messages and the
  executions they add, and the service.
\<close>

type_synonym branch_result =
  "sessionRecord \<times> ChannelMessage list \<times> ApprovedExecutionRequest list \<times> Service"

definition new_execution ::
  "Service \<Rightarrow> string \<Rightarrow> valmap \<Rightarrow> string \<Rightarrow> string \<Rightarrow> string \<Rightarrow> gotime \<Rightarrow> ExecutionDetail" where
  "new_execution s executionID alert status command grp now =
     (let selection = selectExecutionRuntime s (stringFromAlert alert ''host'') in
      zero_ExecutionDetail\<lparr>
        ed_ExecutionID := executionID, ed_RequestKind := ''execution'', ed_Status := status,
        ed_RiskLevel := riskLevelForAlert alert, ed_Command := command,
        ed_TargetHost := stringFromAlert alert ''host'', ed_ConnectorID := rn_ConnectorID selection,
        ed_ConnectorType := rn_ConnectorType selection, ed_ConnectorVendor := rn_ConnectorVendor selection,
        ed_Protocol := rn_Protocol selection, ed_ExecutionMode := rn_ExecutionMode selection,
        ed_RequestedBy := ''tars'', ed_ApprovalGroup := grp,
        ed_Runtime := CloneRuntimeMetadata (rn_Runtime selection), ed_CreatedAt := now\<rparr>)"

text \<open>Storing a new execution: the map of executions, the map to its session and the counter.\<close>

definition add_execution :: "counter \<Rightarrow> ExecutionDetail \<Rightarrow> string \<Rightarrow> Service \<Rightarrow> Service" where
  "add_execution seq e sid s =
     s\<lparr>ws_executionSeq := seq, ws_executions := (ws_executions s)(ed_ExecutionID e \<mapsto> e),
       ws_executionSession := (ws_executionSession s)(ed_ExecutionID e \<mapsto> sid)\<rparr>"

definition diagnosis_direct ::
  "gotime \<Rightarrow> sessionRecord \<Rightarrow> string \<Rightarrow> Decision \<Rightarrow> string \<Rightarrow> string \<Rightarrow> Service \<Rightarrow> branch_result" where
  "diagnosis_direct now r command decision target source s =
     (if op_ExecutionEnabled (ws_opts s) then
        (let (executionID, seq) = nextID ''exe'' (ws_executionSeq s);
             e = (new_execution s executionID (sd_Alert (sr_detail r)) ''executing'' command
                    ''policy:direct_execute'' now)\<lparr>ed_ApprovedAt := now\<rparr>;
             s' = add_execution seq e (sd_SessionID (sr_detail r)) s;
             r' = timeline_add ''execution_direct_ready''
                    (''execution '' @ executionID @ '' started directly by authorization policy command='' @
                     command @ '' '' @ workflowExecutionRuntimeSummary e) now
                    (set_status ''executing'' (upsert_execution e r))
         in (r', [buildAuthorizationDecisionMessage (sr_detail r') command decision target zh_note_direct],
             [execution_request e r'], s'))
      else
        (let r1 = timeline_add ''execution_disabled''
                    ''authorization policy allows direct execution but execution is disabled'' now r;
             message = buildAuthorizationDecisionMessage (sr_detail r1) command decision target
                         zh_note_direct_disabled;
             (r2, s') = resolveChatWithoutExecution now r1 now source
                          ''diagnosis answered without execution because execution is disabled'' s
         in (r2, [message], [], s')))"

definition prepared_lines :: "ChannelMessage list \<Rightarrow> gotime \<Rightarrow> sessionRecord \<Rightarrow> sessionRecord" where
  "prepared_lines messages now r =
     foldl (\<lambda>r m. timeline_add ''approval_message_prepared''
                   (''target='' @ cm_Target m @ '' body='' @ compactSnippet (cm_Body m)) now r) r messages"

definition diagnosis_approval ::
  "gotime \<Rightarrow> sessionRecord \<Rightarrow> string \<Rightarrow> Decision \<Rightarrow> Route \<Rightarrow> string \<Rightarrow> string \<Rightarrow> Service \<Rightarrow> branch_result" where
  "diagnosis_approval now r command decision route target source s =
     (if op_ApprovalEnabled (ws_opts s) then
        (let (executionID, seq) = nextID ''exe'' (ws_executionSeq s);
             r1 = timeline_add ''approval_route_selected''
                    (''approval route='' @ fallbackString (rt_GroupKey route) ''fallback:unknown'' @
                     '' targets='' @ Join (rt_Targets route) '','') now r;
             e = new_execution s executionID (sd_Alert (sr_detail r1)) ''pending'' command
                   (rt_GroupKey route) now;
             s' = add_execution seq e (sd_SessionID (sr_detail r1)) s;
             r2 = timeline_add ''execution_draft_ready''
                    (''execution draft '' @ executionID @ '' created command='' @ command @ '' '' @
                     workflowExecutionRuntimeSummary e) now
                    (set_status ''pending_approval'' (upsert_execution e r1));
             messages = buildApprovalMessages (sr_detail r2) e route (op_ApprovalTimeout (ws_opts s))
         in (prepared_lines messages now r2, messages, [], s'))
      else
        (let r1 = timeline_add ''approval_disabled''
                    ''execution hint produced but approval flow is disabled'' now r;
             message = buildAuthorizationDecisionMessage (sr_detail r1) command decision target
                         zh_note_approval_disabled;
             (r2, s') = resolveChatWithoutExecution now r1 now source
                          ''diagnosis answered without execution because approval is disabled'' s
         in (r2, [message], [], s')))"

definition diagnosis_suggest ::
  "gotime \<Rightarrow> sessionRecord \<Rightarrow> string \<Rightarrow> Decision \<Rightarrow> string \<Rightarrow> string \<Rightarrow> Service \<Rightarrow> branch_result" where
  "diagnosis_suggest now r command decision target source s =
     (let r1 = timeline_add ''execution_suggested_only''
                 (''authorization policy marked command as suggest_only: '' @ command) now r;
          message = buildAuthorizationDecisionMessage (sr_detail r1) command decision target
                      zh_note_suggest_only;
          (r2, s') = resolveChatWithoutExecution now r1 now source
                       ''diagnosis answered with suggest-only command'' s
      in (r2, [message], [], s'))"

definition diagnosis_deny ::
  "gotime \<Rightarrow> sessionRecord \<Rightarrow> string \<Rightarrow> Decision \<Rightarrow> string \<Rightarrow> string \<Rightarrow> Service \<Rightarrow> branch_result" where
  "diagnosis_deny now r command decision target source s =
     (let r1 = timeline_add ''execution_denied''
                 (''authorization policy denied command: '' @ command) now r;
          message = buildAuthorizationDecisionMessage (sr_detail r1) command decision target zh_note_denied;
          (r2, s') = resolveChatWithoutExecution now r1 now source
                       ''diagnosis answered with denied command'' s
      in (r2, [message], [], s'))"

text \<open>The block under \<^verbatim>\<open>diagnosis.ExecutionHint != "" && s.opts.DiagnosisEnabled\<close>.\<close>

definition diagnosis_hint ::
  "gotime \<Rightarrow> sessionRecord \<Rightarrow> string \<Rightarrow> Route \<Rightarrow> string \<Rightarrow> string \<Rightarrow> Service \<Rightarrow> branch_result" where
  "diagnosis_hint now r command route target source s =
     (let decision = resolveAuthorizationDecision s (sd_Alert (sr_detail r)) command;
          r1 = timeline_add ''authorization_decided''
                 (''action='' @ dn_Action decision @ '' rule='' @ fallbackString (dn_RuleID decision) ''default'' @
                  '' matched_by='' @ fallbackString (dn_MatchedBy decision) ''default'' @
                  '' command='' @ command) now r
      in if dn_Action decision = ActionDirectExecute
         then diagnosis_direct now r1 command decision target source s
         else if dn_Action decision = ActionRequireApproval
         then diagnosis_approval now r1 command decision route target source s
         else if dn_Action decision = ActionSuggestOnly
         then diagnosis_suggest now r1 command decision target source s
         else if dn_Action decision = ActionDeny
         then diagnosis_deny now r1 command decision target source s
         else (r1, [], [], s))"

definition record_diagnosis :: "DiagnosisOutput \<Rightarrow> sessionRecord \<Rightarrow> sessionRecord" where
  "record_diagnosis diagnosis r =
     r\<lparr>sr_detail := (sr_detail r)\<lparr>
         sd_DiagnosisSummary := do_Summary diagnosis,
         sd_ToolPlan := cloneToolPlanSteps (do_ToolPlan diagnosis),
         sd_Attachments := cloneMessageAttachments (do_Attachments diagnosis),
         sd_Status := ''open''\<rparr>,
       sr_desenseMap := cloneStringMap (do_DesenseMap diagnosis)\<rparr>"

definition effective_diagnosis :: "string list \<Rightarrow> DiagnosisOutput \<Rightarrow> Service \<Rightarrow> DiagnosisOutput" where
  "effective_diagnosis order diagnosis0 s =
     (let diagnosis = rehydrateDiagnosisOutput order diagnosis0 (currentDesensitizationConfig s) in
      if do_ExecutionHint diagnosis = []
      then diagnosis\<lparr>do_ExecutionHint := firstPlannedExecutionCommand (do_ToolPlan diagnosis)\<rparr>
      else diagnosis)"

definition diagnosis_route :: "Service \<Rightarrow> valmap \<Rightarrow> Route" where
  "diagnosis_route s alert =
     (if op_ApprovalEnabled (ws_opts s) then resolveApprovalRoute s alert ''tars'' else zero_Route)"

definition diagnosis_notice :: "sessionRecord \<Rightarrow> DiagnosisOutput \<Rightarrow> string \<Rightarrow> ChannelMessage" where
  "diagnosis_notice r diagnosis target =
     (let alert = sd_Alert (sr_detail r) in
      zero_ChannelMessage\<lparr>
        cm_Channel := notificationChannelForAlert alert,
        cm_Target := notificationTargetForAlert alert target,
        cm_Subject := zh_diagnosis_result,
        cm_Body := formatDiagnosisMessage (sr_detail r) diagnosis,
        cm_RefType := ''session'', cm_RefID := sd_SessionID (sr_detail r),
        cm_Attachments := cloneMessageAttachments (do_Attachments diagnosis)\<rparr>)"

definition diagnosis_announce :: "gotime \<Rightarrow> ChannelMessage \<Rightarrow> sessionRecord \<Rightarrow> sessionRecord" where
  "diagnosis_announce now message r =
     timeline_add ''diagnosis_message_prepared''
       (''target='' @ cm_Target message @ '' body='' @ compactSnippet (cm_Body message)) now r"

text \<open>The block under the hint, and the answer to a chat when there is no hint.\<close>

definition diagnosis_decide ::
  "gotime \<Rightarrow> sessionRecord \<Rightarrow> string \<Rightarrow> Route \<Rightarrow> string \<Rightarrow> Service \<Rightarrow> branch_result" where
  "diagnosis_decide now r hint route target s =
     (let source = stringFromAlert (sd_Alert (sr_detail r)) ''source'';
          (r1, messages, executions, s1) =
            (if hint \<noteq> [] \<and> op_DiagnosisEnabled (ws_opts s)
             then diagnosis_hint now r hint route target source s
             else (r, [], [], s));
          (r2, s2) =
            (if hint = []
             then resolveChatWithoutExecution now r1 now source
                    ''diagnosis answered without execution request'' s1
             else (r1, s1))
      in (r2, messages, executions, s2))"

text \<open>\<open>order\<close> is the order in which the desensitization map is ranged over.\<close>

definition ApplyDiagnosis ::
  "gotime \<Rightarrow> string list \<Rightarrow> string \<Rightarrow> DiagnosisOutput \<Rightarrow> Service \<Rightarrow> WorkflowDispatchResult result \<times> Service" where
  "ApplyDiagnosis clock order eventID diagnosis0 s =
     (case ws_outbox s eventID of
        None \<Rightarrow> (Inl ErrNotFound, s)
      | Some event \<Rightarrow>
          (case ws_sessions s (ob_AggregateID event) of
             None \<Rightarrow> (Inl ErrNotFound, s)
           | Some r0 \<Rightarrow>
               (let r1 = record_diagnosis diagnosis0 r0;
                    diagnosis = effective_diagnosis order diagnosis0 s;
                    now = clock;
                    alert = sd_Alert (sr_detail r1);
                    route = diagnosis_route s alert;
                    target = selectDiagnosisNotificationTarget alert route;
                    notice = diagnosis_notice r1 diagnosis target;
                    r2 = diagnosis_announce now notice r1;
                    (r3, messages, executions, s1) =
                      diagnosis_decide now r2 (do_ExecutionHint diagnosis) route target s;
                    r4 = timeline_add ''diagnosis_completed'' (do_Summary diagnosis) now r3
                in (Inr (zero_WorkflowDispatchResult\<lparr>
                           wd_SessionID := sd_SessionID (sr_detail r4),
                           wd_Notifications := notice # messages, wd_Executions := executions\<rparr>),
                    put_session (ob_AggregateID event) r4 s1))))"

section \<open>Capability approvals\<close>

definition pending_step :: "string \<Rightarrow> gotime \<Rightarrow> ToolPlanStep \<Rightarrow> ToolPlanStep" where
  "pending_step approvalID now step =
     step\<lparr>tp_Status := ''pending_approval'', tp_CompletedAt := now,
          tp_Output := map_put ''status'' (VString ''pending_approval'')
            (map_put ''approval_id'' (VString approvalID) (tp_Output step))\<rparr>"

definition copy_runtime :: "ExecutionDetail \<Rightarrow> ExecutionDetail" where
  "copy_runtime e =
     (case ed_Runtime e of
        None \<Rightarrow> e
      | Some rt \<Rightarrow> e\<lparr>ed_ConnectorType := rm_ConnectorType rt, ed_ConnectorVendor := rm_ConnectorVendor rt,
                     ed_Protocol := rm_Protocol rt, ed_ExecutionMode := rm_ExecutionMode rt\<rparr>)"

definition CreateCapabilityApproval ::
  "gotime \<Rightarrow> ApprovedCapabilityRequest \<Rightarrow> Service \<Rightarrow>
     (ExecutionDetail \<times> ChannelMessage list) result \<times> Service" where
  "CreateCapabilityApproval clock req s =
     (case ws_sessions s (ar_SessionID req) of
        None \<Rightarrow> (Inl ErrNotFound, s)
      | Some r \<Rightarrow>
          (let now = clock;
               alert = sd_Alert (sr_detail r);
               requester = fallbackString (ar_RequestedBy req) ''tars'';
               route = (if op_ApprovalEnabled (ws_opts s) then resolveApprovalRoute s alert requester
                        else zero_Route);
               (approvalID, seq) =
                 (if TrimSpace (ar_ApprovalID req) = [] then nextID ''cap'' (ws_executionSeq s)
                  else (TrimSpace (ar_ApprovalID req), ws_executionSeq s));
               detail = copy_runtime (zero_ExecutionDetail\<lparr>
                 ed_ExecutionID := approvalID, ed_RequestKind := ''capability'', ed_Status := ''pending'',
                 ed_RiskLevel := riskLevelForAlert alert, ed_StepID := TrimSpace (ar_StepID req),
                 ed_CapabilityID := TrimSpace (ar_CapabilityID req),
                 ed_CapabilityParams := cloneInterfaceMap (ar_Params req),
                 ed_ConnectorID := TrimSpace (ar_ConnectorID req), ed_ApprovalGroup := rt_GroupKey route,
                 ed_RequestedBy := requester, ed_Runtime := CloneRuntimeMetadata (ar_Runtime req),
                 ed_CreatedAt := now\<rparr>);
               s1 = add_execution seq detail (sd_SessionID (sr_detail r)) s;
               r1 = timeline_add ''capability_approval_requested''
                      (''capability approval '' @ approvalID @ '' created connector='' @ ed_ConnectorID detail @
                       '' capability='' @ ed_CapabilityID detail) now
                      (update_plan_step (ed_StepID detail) (pending_step approvalID now)
                        (set_status ''pending_approval'' (upsert_execution detail r)));
               messages = buildCapabilityApprovalMessages (sr_detail r1) detail route
                            (op_ApprovalTimeout (ws_opts s))
           in (Inr (detail, messages), put_session (ar_SessionID req) (prepared_lines messages now r1) s1)))"

end
