(* ===== verification/Workflow_Machine.thy ===== *)
theory Workflow_Machine
  imports Workflow_Handlers
begin

text \<open>
  The workflow service as a state machine.  \<open>wf_op\<close> are its operations with their arguments, the time
  the clock shows and the iteration orders of the maps they range over; \<open>wf_exec\<close> runs one,
  \<open>reachable\<close> are the states a service can get into.  \<open>wf_service\<close> is the invariant of the state:
  the indices of sessions, executions and outbox agree with what they index.
\<close>

section \<open>The invariant\<close>

definition record_ok :: "Service \<Rightarrow> string \<Rightarrow> sessionRecord \<Rightarrow> bool" where
  "record_ok s sid r \<longleftrightarrow>
     sd_SessionID (sr_detail r) = sid \<and>
     sd_Status (sr_detail r) \<in> set session_statuses \<and>
     ws_sessionByFingerprint s (sr_fingerprint r) = Some sid \<and>
     distinct (map ed_ExecutionID (sd_Executions (sr_detail r))) \<and>
     ed_ExecutionID ` set (sd_Executions (sr_detail r)) \<subseteq> dom (ws_executions s)"

definition sessions_ok :: "Service \<Rightarrow> bool" where
  "sessions_ok s \<longleftrightarrow>
     distinct (ws_sessionOrder s) \<and> set (ws_sessionOrder s) = dom (ws_sessions s) \<and>
     dom (ws_sessions s) \<subseteq> issued ''ses'' (ws_seq s) \<and>
     (\<forall>sid r. ws_sessions s sid = Some r \<longrightarrow> record_ok s sid r) \<and>
     (\<forall>fp sid. ws_sessionByFingerprint s fp = Some sid \<longrightarrow>
        (\<exists>r. ws_sessions s sid = Some r \<and> sr_fingerprint r = fp)) \<and>
     ran (ws_processedAlerts s) \<subseteq> dom (ws_sessions s)"

definition executions_ok :: "Service \<Rightarrow> bool" where
  "executions_ok s \<longleftrightarrow>
     (\<forall>eid e. ws_executions s eid = Some e \<longrightarrow> ed_ExecutionID e = eid) \<and>
     dom (ws_executionSession s) \<subseteq> dom (ws_executions s) \<and>
     ran (ws_executionSession s) \<subseteq> dom (ws_sessions s) \<and>
     dom (ws_executionOutputs s) \<subseteq> dom (ws_executions s)"

definition wf_service :: "Service \<Rightarrow> bool" where
  "wf_service s \<longleftrightarrow> outbox_ok s \<and> sessions_ok s \<and> executions_ok s"

lemma session_statuses_in [simp]:
  "''open'' \<in> set session_statuses" "''analyzing'' \<in> set session_statuses"
  "''pending_approval'' \<in> set session_statuses" "''executing'' \<in> set session_statuses"
  "''verifying'' \<in> set session_statuses" "''resolved'' \<in> set session_statuses"
  "''failed'' \<in> set session_statuses"
  by (simp_all add: session_statuses_def)

lemma wf_record: "wf_service s \<Longrightarrow> ws_sessions s sid = Some r \<Longrightarrow> record_ok s sid r"
  by (simp add: wf_service_def sessions_ok_def)

lemma wf_execution_id: "wf_service s \<Longrightarrow> ws_executions s eid = Some e \<Longrightarrow> ed_ExecutionID e = eid"
  by (simp add: wf_service_def executions_ok_def)

lemma wf_New: "wf_service (NewService opts)"
  by (simp add: wf_service_def sessions_ok_def executions_ok_def outbox_ok_def NewService_def Let_def)

text \<open>Each write keeps the invariant.\<close>

lemma wf_put_session:
  assumes "wf_service s" and "ws_sessions s sid = Some r0"
    and "sr_fingerprint r = sr_fingerprint r0" and "record_ok s sid r"
  shows "wf_service (put_session sid r s)"
proof -
  have "record_ok (put_session sid r s) i x = record_ok s i x" for i x by (simp add: record_ok_def)
  moreover have "\<exists>x. ((ws_sessions s)(sid \<mapsto> r)) i = Some x \<and> sr_fingerprint x = fp"
    if "ws_sessionByFingerprint s fp = Some i" for fp i
  proof -
    from assms(1) that obtain x where "ws_sessions s i = Some x" "sr_fingerprint x = fp"
      unfolding wf_service_def sessions_ok_def by blast
    with assms(2,3) show ?thesis by (cases "i = sid") auto
  qed
  moreover have "dom ((ws_sessions s)(sid \<mapsto> r)) = dom (ws_sessions s)" using assms(2) by auto
  ultimately show ?thesis
    using assms(1,4) by (simp add: wf_service_def sessions_ok_def executions_ok_def outbox_ok_def)
qed

lemma wf_put_execution:
  assumes "wf_service s" and "ed_ExecutionID e = eid"
  shows "wf_service (put_execution eid e s)"
proof -
  have "record_ok s i x \<Longrightarrow> record_ok (put_execution eid e s) i x" for i x by (auto simp: record_ok_def)
  then show ?thesis using assms
    by (auto simp: wf_service_def sessions_ok_def executions_ok_def outbox_ok_def)
qed

lemma wf_put_outputs:
  assumes "wf_service s" and "eid \<in> dom (ws_executions s)"
  shows "wf_service (s\<lparr>ws_executionOutputs := (ws_executionOutputs s)(eid \<mapsto> x)\<rparr>)"
  using assms by (auto simp: wf_service_def sessions_ok_def executions_ok_def outbox_ok_def record_ok_def)

lemma wf_add_execution:
  assumes "wf_service s" and "sid \<in> dom (ws_sessions s)"
  shows "wf_service (add_execution seq e sid s)"
proof -
  have "record_ok s i x \<Longrightarrow> record_ok (add_execution seq e sid s) i x" for i x
    by (auto simp: record_ok_def add_execution_def)
  then show ?thesis using assms
    by (auto simp: wf_service_def sessions_ok_def executions_ok_def outbox_ok_def add_execution_def ran_def)
qed

lemma wf_mark_processed: "wf_service s \<Longrightarrow> wf_service (mark_processed key s)"
  by (simp add: wf_service_def sessions_ok_def executions_ok_def outbox_ok_def record_ok_def)

lemma wf_mark_alert: "wf_service s \<Longrightarrow> sid \<in> dom (ws_sessions s) \<Longrightarrow> wf_service (mark_alert key sid s)"
  by (auto simp: wf_service_def sessions_ok_def executions_ok_def outbox_ok_def record_ok_def ran_def)

lemma wf_publish:
  assumes "wf_service s" and "0 < ids_left s"
  shows "wf_service (snd (publishEventLocked t rq s))"
  using assms outbox_ok_publish [of s t rq] ids_left_room [of s]
  by (simp add: wf_service_def sessions_ok_def executions_ok_def record_ok_def)

lemma wf_outbox_only:
  assumes "wf_service s" and "outbox_ok s'"
    and "\<exists>b p q. s' = s\<lparr>ws_outbox := b, ws_outboxPayloads := p, ws_outboxOrder := q\<rparr>"
  shows "wf_service s'"
  using assms by (elim exE) (simp add: wf_service_def sessions_ok_def executions_ok_def record_ok_def)

lemma wf_session_note: "wf_service s \<Longrightarrow> wf_service (session_note sid ev m t s)"
proof (cases "ws_sessions s sid")
  case (Some r)
  assume wf: "wf_service s"
  from wf_record [OF this Some] have "record_ok s sid (timeline_add ev m t r)" by (simp add: record_ok_def)
  with wf Some show ?thesis by (auto simp: session_note_def intro: wf_put_session)
qed (simp add: session_note_def)

text \<open>A record keeps being in order under the updates of the handlers.\<close>

lemma record_ok_timeline [simp]: "record_ok s sid (timeline_add ev m t r) = record_ok s sid r"
  by (simp add: record_ok_def)

lemma record_ok_status [simp]:
  "record_ok s sid r \<Longrightarrow> st \<in> set session_statuses \<Longrightarrow> record_ok s sid (set_status st r)"
  by (simp add: record_ok_def)

lemma record_ok_step [simp]: "record_ok s sid (update_plan_step i f r) = record_ok s sid r"
  by (simp add: record_ok_def)

lemma record_ok_attachments [simp]: "record_ok s sid (add_attachments a r) = record_ok s sid r"
  by (simp add: record_ok_def add_attachments_def)

lemma record_ok_verification [simp]: "record_ok s sid (set_verification v r) = record_ok s sid r"
  by (simp add: record_ok_def set_verification_def)

lemma record_ok_prepared [simp]: "record_ok s sid (prepared_lines ms t r) = record_ok s sid r"
  unfolding prepared_lines_def by (induction ms arbitrary: r) auto

lemma sr_fingerprint_keep [simp]:
  "sr_fingerprint (add_attachments a r) = sr_fingerprint r"
  "sr_fingerprint (set_verification v r) = sr_fingerprint r"
  by (simp_all add: add_attachments_def set_verification_def)

lemma prepared_keep [simp]:
  "sr_fingerprint (prepared_lines ms t r) = sr_fingerprint r"
  "sd_SessionID (sr_detail (prepared_lines ms t r)) = sd_SessionID (sr_detail r)"
  "sd_Status (sr_detail (prepared_lines ms t r)) = sd_Status (sr_detail r)"
  unfolding prepared_lines_def by (induction ms arbitrary: r) auto

lemma record_ok_upsert [simp]:
  assumes "record_ok s sid r" and "ed_ExecutionID e \<in> dom (ws_executions s)"
  shows "record_ok s sid (upsert_execution e r)"
proof -
  let ?xs = "sd_Executions (sr_detail r)"
  have "ed_ExecutionID ` set (upsertExecutionDetail ?xs e) = set (map ed_ExecutionID (upsertExecutionDetail ?xs e))"
    by simp
  also have "\<dots> \<subseteq> dom (ws_executions s)"
    unfolding map_id_upsert using assms by (auto simp: record_ok_def)
  finally have "ed_ExecutionID ` set (upsertExecutionDetail ?xs e) \<subseteq> dom (ws_executions s)" .
  then show ?thesis using assms(1) by (simp add: record_ok_def)
qed

lemma record_ok_put_execution: "record_ok s sid r \<Longrightarrow> record_ok (put_execution eid e s) sid r"
  by (auto simp: record_ok_def)

lemma record_ok_add_execution: "record_ok s sid r \<Longrightarrow> record_ok (add_execution seq e i s) sid r"
  by (auto simp: record_ok_def add_execution_def)

lemma record_ok_cong:
  assumes "ws_sessionByFingerprint s' = ws_sessionByFingerprint s" "ws_executions s' = ws_executions s"
  shows "record_ok s' sid r = record_ok s sid r"
  using assms by (simp add: record_ok_def)

section \<open>The handlers keep the invariant\<close>

lemma wf_update:
  assumes "wf_service s" and "ws_sessions s sid = Some r0" and "ed_ExecutionID e = eid"
    and "sr_fingerprint r = sr_fingerprint r0" and "record_ok (put_execution eid e s) sid r"
  shows "wf_service (put_session sid r (put_execution eid e s))"
  using assms by (intro wf_put_session [of _ sid r0] wf_put_execution) simp_all

lemma wf_alert_repeated:
  assumes "wf_service s" and "ws_sessions s sid = Some r"
  shows "wf_service (snd (alert_repeated event now sid s))"
proof -
  have "wf_service (mark_alert (ae_IdempotencyKey event) sid s)" using assms by (intro wf_mark_alert) auto
  moreover have "record_ok (mark_alert (ae_IdempotencyKey event) sid s) sid r"
    using wf_record [OF assms] by (simp add: record_ok_def)
  ultimately show ?thesis
    using assms(2) by (auto simp: alert_repeated_def intro!: wf_put_session)
qed

lemma wf_new_session:
  assumes wf: "wf_service s" and rm: "room (ws_seq s)" and fp: "ws_sessionByFingerprint s fp = None"
    and r: "sd_SessionID (sr_detail r) = format_id ''ses'' (unat (ws_seq s + 1))"
      "sd_Status (sr_detail r) \<in> set session_statuses" "sr_fingerprint r = fp"
      "sd_Executions (sr_detail r) = []"
  defines "sid \<equiv> format_id ''ses'' (unat (ws_seq s + 1))"
  shows "wf_service (s\<lparr>ws_seq := ws_seq s + 1, ws_sessions := (ws_sessions s)(sid \<mapsto> r),
      ws_sessionOrder := ws_sessionOrder s @ [sid],
      ws_sessionByFingerprint := (ws_sessionByFingerprint s)(fp \<mapsto> sid)\<rparr>)" (is "wf_service ?s")
proof -
  have ok: "sessions_ok s" "executions_ok s" "outbox_ok s" using wf by (auto simp: wf_service_def)
  have new: "sid \<notin> dom (ws_sessions s)" "sid \<in> issued ''ses'' (ws_seq s + 1)"
    using ok(1) issued_fresh [OF rm, of "''ses''"] issued_new [OF rm, of "''ses''"]
    by (auto simp: sid_def sessions_ok_def)
  have "record_ok ?s i x" if "((ws_sessions s)(sid \<mapsto> r)) i = Some x" for i x
  proof (cases "i = sid")
    case True
    then show ?thesis using that r by (simp add: record_ok_def sid_def)
  next
    case False
    then have "record_ok s i x" using that ok(1) by (simp add: sessions_ok_def)
    then show ?thesis using fp by (auto simp: record_ok_def)
  qed
  moreover have "\<exists>x. ((ws_sessions s)(sid \<mapsto> r)) i = Some x \<and> sr_fingerprint x = f"
    if "((ws_sessionByFingerprint s)(fp \<mapsto> sid)) f = Some i" for f i
  proof (cases "f = fp")
    case True
    then show ?thesis using that r by simp
  next
    case False
    then have "ws_sessionByFingerprint s f = Some i" using that by simp
    then obtain x where "ws_sessions s i = Some x" "sr_fingerprint x = f"
      using ok(1) unfolding sessions_ok_def by blast
    moreover from this new have "i \<noteq> sid" by auto
    ultimately show ?thesis by simp
  qed
  moreover have "dom (ws_sessions s) \<subseteq> issued ''ses'' (ws_seq s + 1)"
    using ok(1) issued_mono [OF rm] by (auto simp: sessions_ok_def)
  ultimately have "sessions_ok ?s"
    using ok(1) new by (auto simp: sessions_ok_def)
  moreover have "executions_ok ?s" using ok(2) by (auto simp: executions_ok_def)
  moreover have "outbox_ok ?s" using ok(3) by (simp add: outbox_ok_def)
  ultimately show ?thesis by (simp add: wf_service_def)
qed

lemma alert_session_simps [simp]:
  "sd_SessionID (sr_detail (alert_session event now fp sid en)) = sid"
  "sd_Status (sr_detail (alert_session event now fp sid en)) = (if en then ''analyzing'' else ''open'')"
  "sr_fingerprint (alert_session event now fp sid en) = fp"
  "sd_Executions (sr_detail (alert_session event now fp sid en)) = []"
  by (simp_all add: alert_session_def Let_def zero_SessionDetail_def)

lemma publish_Inr: "\<exists>env. publishEventLocked t rq s = (Inr env, snd (publishEventLocked t rq s))"
  by (simp add: publishEventLocked_def Let_def case_prod_unfold)

lemma alert_opened_eq:
  "alert_opened clock event now fp s =
     (Inr \<lparr>mr_SessionID = format_id ''ses'' (unat (ws_seq s + 1)),
           mr_Status = (if op_DiagnosisEnabled (ws_opts s) then ''analyzing'' else ''open''),
           mr_Duplicated = False\<rparr>,
      snd (publishEventLocked clock
        (analyze_request (format_id ''ses'' (unat (ws_seq s + 1))) (op_DiagnosisEnabled (ws_opts s)) now)
        (opened_state event now fp s)))"
proof -
  obtain env s' where "publishEventLocked clock
      (analyze_request (format_id ''ses'' (unat (ws_seq s + 1))) (op_DiagnosisEnabled (ws_opts s)) now)
      (opened_state event now fp s) = (Inr env, s')"
    using publish_Inr by blast
  then show ?thesis by (simp add: alert_opened_def nextID_def Let_def split del: if_split)
qed

lemma wf_alert_opened:
  assumes "wf_service s" and "room (ws_seq s)" and "0 < ids_left s"
    and "ws_sessionByFingerprint s fp = None"
  shows "wf_service (snd (alert_opened clock event now fp s))"
proof -
  have "wf_service (opened_state event now fp s)"
    unfolding opened_state_def nextID_def Let_def prod.case
    using assms by (intro wf_mark_alert wf_new_session) simp_all
  moreover have "0 < ids_left (opened_state event now fp s)"
    using assms(3) by (simp add: ids_left_def opened_state_def nextID_def Let_def)
  ultimately show ?thesis unfolding alert_opened_eq snd_conv by (rule wf_publish)
qed

lemma wf_HandleAlertEvent:
  assumes "wf_service s" and "room (ws_seq s)" and "0 < ids_left s"
  shows "wf_service (snd (HandleAlertEvent clock event s))"
proof (cases "alert_duplicate event s")
  case (Some res)
  then show ?thesis using assms(1) by (simp add: HandleAlertEvent_def)
next
  case None
  show ?thesis
  proof (cases "ws_sessionByFingerprint s (alert_fingerprint event s)")
    case (Some sid)
    then obtain r where "ws_sessions s sid = Some r"
      using assms(1) unfolding wf_service_def sessions_ok_def by blast
    then show ?thesis using None Some assms(1) by (simp add: HandleAlertEvent_def Let_def wf_alert_repeated)
  next
    case none: None
    then show ?thesis using None assms by (simp add: HandleAlertEvent_def Let_def wf_alert_opened)
  qed
qed

text \<open>The branches of a channel event, given the execution and the session.\<close>

lemma wf_channel_branches:
  assumes "wf_service s" and "ws_executions s (ce_ExecutionID event) = Some e"
    and "ws_sessions s sid = Some r"
  shows "wf_service (snd (handle_approve now event e sid r s))"
    and "wf_service (snd (handle_reject now event e sid r s))"
    and "wf_service (snd (handle_request_context now event e sid r s))"
proof -
  let ?eid = "ce_ExecutionID event"
  have eid: "ed_ExecutionID e = ?eid" using wf_execution_id [OF assms(1,2)] .
  have rec: "record_ok s sid r" using wf_record [OF assms(1,3)] .
  have upd: "wf_service (put_session sid r' (put_execution ?eid e' s))"
    if "ed_ExecutionID e' = ?eid" "sr_fingerprint r' = sr_fingerprint r"
      "record_ok (put_execution ?eid e' s) sid r'" for e' r'
    using wf_update [OF assms(1,3)] that by blast
  have upd': "wf_service (put_session sid r' (put_execution ?eid e' (mark_processed key s)))"
    if "ed_ExecutionID e' = ?eid" "sr_fingerprint r' = sr_fingerprint r"
      "record_ok (put_execution ?eid e' s) sid r'" for e' r' key
  proof (rule wf_update)
    show "wf_service (mark_processed key s)" by (rule wf_mark_processed) (rule assms)
    show "ws_sessions (mark_processed key s) sid = Some r" using assms(3) by simp
    show "record_ok (put_execution ?eid e' (mark_processed key s)) sid r'"
      using that(3) by (simp add: record_ok_def)
  qed (use that in simp_all)
  show "wf_service (snd (handle_approve now event e sid r s))"
    using assms(1) eid rec
    by (auto simp: handle_approve_def approve_capability_def approve_manual_def approve_execute_def Let_def
        record_ok_put_execution intro!: upd upd' wf_mark_processed)
  show "wf_service (snd (handle_reject now event e sid r s))"
    using assms(1) eid rec
    by (auto simp: handle_reject_def Let_def record_ok_put_execution intro!: upd wf_mark_processed)
  show "wf_service (snd (handle_request_context now event e sid r s))"
    using assms rec
    by (auto simp: handle_request_context_def Let_def intro!: wf_mark_processed wf_put_session)
qed

lemma wf_HandleChannelEvent: "wf_service s \<Longrightarrow> wf_service (snd (HandleChannelEvent clock event s))"
  by (auto simp: HandleChannelEvent_def Let_def wf_channel_branches split: option.split)

lemma finished_execution_id:
  "wf_service s \<Longrightarrow> ed_ExecutionID (finished_execution t result s) = er_ExecutionID result"
  by (auto simp: finished_execution_def Let_def dest: wf_execution_id split: option.split)

lemma finished_capability_id:
  "wf_service s \<Longrightarrow> ed_ExecutionID (finished_capability t result s) = cr_ApprovalID result"
  by (auto simp: finished_capability_def Let_def dest: wf_execution_id split: option.split)

lemma outcome_keep [simp]:
  "sr_fingerprint (execution_outcome now result e r) = sr_fingerprint r"
  "sr_fingerprint (capability_outcome cres e r) = sr_fingerprint r"
  by (simp_all add: execution_outcome_def capability_outcome_def Let_def)

lemma record_ok_outcome:
  assumes "record_ok s sid r" and "ed_ExecutionID e \<in> dom (ws_executions s)"
  shows "record_ok s sid (execution_outcome now result e r)" "record_ok s sid (capability_outcome cres e r)"
  using assms by (simp_all add: execution_outcome_def capability_outcome_def Let_def)

lemma wf_HandleExecutionResult:
  assumes "wf_service s"
  shows "wf_service (snd (HandleExecutionResult clock result s))"
proof -
  let ?eid = "er_ExecutionID result" and ?e = "finished_execution clock result s"
  define s1 where "s1 = (put_execution ?eid ?e s)\<lparr>ws_executionOutputs := (ws_executionOutputs s)
      (?eid \<mapsto> buildExecutionOutputChunks clock (er_OutputPreview result) clock)\<rparr>"
  have s1: "wf_service s1"
    using wf_put_outputs [OF wf_put_execution [OF assms finished_execution_id [OF assms]], of ?eid]
    by (simp add: s1_def)
  have "wf_service (put_session sid (execution_outcome clock result ?e r) s1)"
    if "ws_sessions s1 sid = Some r" for sid r
    using that wf_record [OF s1 that] finished_execution_id [OF assms, of clock result]
    by (intro wf_put_session [OF s1 that] record_ok_outcome) (simp_all add: s1_def)
  with s1 show ?thesis
    unfolding HandleExecutionResult_def Let_def s1_def [symmetric] by (auto split: option.split)
qed

lemma wf_HandleCapabilityResult:
  assumes "wf_service s"
  shows "wf_service (snd (HandleCapabilityResult clock result s))"
proof -
  let ?aid = "cr_ApprovalID result" and ?e = "finished_capability clock result s"
  define s1 where "s1 = put_execution ?aid ?e s"
  have s1: "wf_service s1"
    using wf_put_execution [OF assms finished_capability_id [OF assms]] by (simp add: s1_def)
  have "wf_service (put_session sid (capability_outcome result ?e r) s1)"
    if "ws_sessions s1 sid = Some r" for sid r
    using that wf_record [OF s1 that] finished_capability_id [OF assms, of clock result]
    by (intro wf_put_session [OF s1 that] record_ok_outcome) (simp_all add: s1_def)
  with s1 show ?thesis
    unfolding HandleCapabilityResult_def Let_def s1_def [symmetric] by (auto split: option.split)
qed

lemma enqueueSessionClosed_frame [simp]:
  "ws_sessions (enqueueSessionClosed clock sid now s) = ws_sessions s"
  "ws_executions (enqueueSessionClosed clock sid now s) = ws_executions s"
  "ws_executionSession (enqueueSessionClosed clock sid now s) = ws_executionSession s"
  "ws_sessionByFingerprint (enqueueSessionClosed clock sid now s) = ws_sessionByFingerprint s"
  "ws_opts (enqueueSessionClosed clock sid now s) = ws_opts s"
  "ws_seq (enqueueSessionClosed clock sid now s) = ws_seq s"
  "ws_executionSeq (enqueueSessionClosed clock sid now s) = ws_executionSeq s"
  "ws_processedEvents (enqueueSessionClosed clock sid now s) = ws_processedEvents s"
  "ws_processedAlerts (enqueueSessionClosed clock sid now s) = ws_processedAlerts s"
  by (simp_all add: enqueueSessionClosed_def Let_def)

lemma wf_enqueueSessionClosed:
  "wf_service s \<Longrightarrow> 0 < ids_left s \<Longrightarrow> wf_service (enqueueSessionClosed clock sid now s)"
  by (simp add: enqueueSessionClosed_def Let_def wf_publish)

lemma wf_HandleVerificationResult:
  assumes "wf_service s" and "0 < ids_left s"
  shows "wf_service (snd (HandleVerificationResult clock result s))"
proof (cases "ws_sessions s (vr_SessionID result)")
  case None
  then show ?thesis using assms by (simp add: HandleVerificationResult_def)
next
  case (Some r)
  note rec = wf_record [OF assms(1) Some]
  have put: "wf_service (put_session (vr_SessionID result) r' s')"
    if "wf_service s'" "ws_sessions s' = ws_sessions s" "ws_executions s' = ws_executions s"
      "ws_sessionByFingerprint s' = ws_sessionByFingerprint s"
      "sr_fingerprint r' = sr_fingerprint r" "record_ok s (vr_SessionID result) r'" for s' r'
    using that Some by (intro wf_put_session [of s' _ r]) (simp_all add: record_ok_def)
  show ?thesis using Some assms rec
    by (auto simp: HandleVerificationResult_def Let_def intro!: put wf_enqueueSessionClosed)
qed

subsection \<open>The sweep\<close>

lemma wf_sweep_loop: "wf_service s \<Longrightarrow> wf_service (snd (sweep_loop now eids ns s))"
proof (induction eids arbitrary: ns s)
  case (Cons eid eids)
  show ?case
  proof (cases "ws_executions s eid")
    case None
    then show ?thesis using Cons by simp
  next
    case (Some e)
    let ?e = "e\<lparr>ed_Status := ''rejected''\<rparr>"
    have id: "ed_ExecutionID ?e = eid" using wf_execution_id [OF Cons.prems Some] by simp
    have s1: "wf_service (put_execution eid ?e s)" using Cons.prems id by (rule wf_put_execution)
    have "wf_service (put_session sid (timeline_add ev m now (set_status ''open'' (upsert_execution ?e r)))
        (put_execution eid ?e s))" if r: "ws_sessions s sid = Some r" for sid r ev m
    proof (rule wf_update [OF Cons.prems r id])
      show "record_ok (put_execution eid ?e s) sid
          (timeline_add ev m now (set_status ''open'' (upsert_execution ?e r)))"
        using wf_record [OF Cons.prems r] id by (simp add: record_ok_put_execution)
    qed simp
    with s1 show ?thesis using Some Cons by (simp add: Let_def split: option.split)
  qed
qed simp

lemma wf_Sweep: "wf_service s \<Longrightarrow> wf_service (snd (SweepApprovalTimeouts clock order now s))"
  using wf_sweep_loop [of s "if IsZero now then clock else now" order "[]"]
  by (simp add: SweepApprovalTimeouts_def Let_def case_prod_unfold)

subsection \<open>Diagnosis\<close>

text \<open>
  What every branch of a diagnosis guarantees about the session \<open>r\<close> of \<open>s\<close> it is given: the
  service stays in order, the session can be written back, and its sessions are untouched.
\<close>

definition branch_ok :: "string \<Rightarrow> sessionRecord \<Rightarrow> Service \<Rightarrow> sessionRecord \<Rightarrow> Service \<Rightarrow> bool" where
  "branch_ok sid r s r' s' \<longleftrightarrow>
     wf_service s' \<and> record_ok s' sid r' \<and> sr_fingerprint r' = sr_fingerprint r \<and>
     ws_sessions s' = ws_sessions s"

lemma branch_ok_put:
  assumes "branch_ok sid r s r' s'" and "ws_sessions s sid = Some r0" and "sr_fingerprint r = sr_fingerprint r0"
  shows "wf_service (put_session sid (timeline_add ev m t r') s')"
  using assms by (intro wf_put_session [of s' sid r0]) (simp_all add: branch_ok_def)

lemma branch_ok_resolveChat:
  assumes "wf_service s" and "0 < ids_left s" and "record_ok s sid r"
    and "resolveChatWithoutExecution clock r now source m s = (r', s')"
  shows "branch_ok sid r s r' s'"
proof -
  have "record_ok (enqueueSessionClosed clock i now s) sid x = record_ok s sid x" for i x
    by (rule record_ok_cong) simp_all
  with assms show ?thesis
    by (auto simp: resolveChatWithoutExecution_def Let_def branch_ok_def intro!: wf_enqueueSessionClosed
        split: if_split_asm)
qed

lemma new_execution_id [simp]: "ed_ExecutionID (new_execution s eid alert st cmd grp now) = eid"
  by (simp add: new_execution_def Let_def)

lemma branch_ok_add:
  assumes "wf_service s" and "record_ok s sid r" and "sid \<in> dom (ws_sessions s)"
    and "record_ok (add_execution seq e sid s) sid r'" and "sr_fingerprint r' = sr_fingerprint r"
  shows "branch_ok sid r s r' (add_execution seq e sid s)"
  using assms wf_add_execution [OF assms(1,3)] by (simp add: branch_ok_def add_execution_def)

lemma record_ok_added:
  assumes "record_ok s sid r" and "st \<in> set session_statuses"
  shows "record_ok (add_execution seq e sid s) sid (set_status st (upsert_execution e r))"
  using record_ok_add_execution [OF assms(1), of seq e sid] assms(2)
  by (intro record_ok_status record_ok_upsert) (simp_all add: add_execution_def)

lemma branch_ok_direct:
  assumes "wf_service s" and "0 < ids_left s" and "record_ok s sid r" and "sid \<in> dom (ws_sessions s)"
    and "diagnosis_direct now r command d target source s = (r', ms, xs, s')"
  shows "branch_ok sid r s r' s'"
proof (cases "op_ExecutionEnabled (ws_opts s)")
  case True
  have "sd_SessionID (sr_detail r) = sid" using assms(3) by (simp add: record_ok_def)
  with True assms(5) obtain ev m seq e where
    "r' = timeline_add ev m now (set_status ''executing'' (upsert_execution e r))"
    "s' = add_execution seq e sid s"
    by (auto simp: diagnosis_direct_def nextID_def Let_def)
  with assms show ?thesis by (auto simp: record_ok_added intro: branch_ok_add)
next
  case False
  with assms(5) obtain ev m m' where
    "resolveChatWithoutExecution now (timeline_add ev m now r) now source m' s = (r', s')"
    by (auto simp: diagnosis_direct_def Let_def split: prod.splits)
  from branch_ok_resolveChat [OF assms(1,2) _ this, of sid] assms(3) show ?thesis
    by (simp add: branch_ok_def)
qed

lemma branch_ok_approval:
  assumes "wf_service s" and "0 < ids_left s" and "record_ok s sid r" and "sid \<in> dom (ws_sessions s)"
    and "diagnosis_approval now r command d route target source s = (r', ms, xs, s')"
  shows "branch_ok sid r s r' s'"
proof (cases "op_ApprovalEnabled (ws_opts s)")
  case True
  have "sd_SessionID (sr_detail r) = sid" using assms(3) by (simp add: record_ok_def)
  with True assms(5) obtain ev m ev' m' ms' seq e where
    "r' = prepared_lines ms' now (timeline_add ev m now (set_status ''pending_approval''
        (upsert_execution e (timeline_add ev' m' now r))))"
    "s' = add_execution seq e sid s"
    by (auto simp: diagnosis_approval_def nextID_def Let_def)
  with assms show ?thesis by (auto simp: record_ok_added intro: branch_ok_add)
next
  case False
  with assms(5) obtain ev m m' where
    "resolveChatWithoutExecution now (timeline_add ev m now r) now source m' s = (r', s')"
    by (auto simp: diagnosis_approval_def Let_def split: prod.splits)
  from branch_ok_resolveChat [OF assms(1,2) _ this, of sid] assms(3) show ?thesis
    by (simp add: branch_ok_def)
qed

lemma branch_ok_answer:
  assumes "wf_service s" and "0 < ids_left s" and "record_ok s sid r"
    and "diagnosis_suggest now r command d target source s = (r', ms, xs, s') \<or>
      diagnosis_deny now r command d target source s = (r', ms, xs, s')"
  shows "branch_ok sid r s r' s'"
proof -
  from assms(4) obtain ev m m' where
    "resolveChatWithoutExecution now (timeline_add ev m now r) now source m' s = (r', s')"
    by (auto simp: diagnosis_suggest_def diagnosis_deny_def Let_def split: prod.splits)
  from branch_ok_resolveChat [OF assms(1,2) _ this, of sid] assms(3) show ?thesis
    by (simp add: branch_ok_def)
qed

lemma branch_ok_refl: "wf_service s \<Longrightarrow> record_ok s sid r \<Longrightarrow> branch_ok sid r s r s"
  by (simp add: branch_ok_def)

lemma branch_ok_note: "branch_ok sid (timeline_add ev m t r) s r' s' = branch_ok sid r s r' s'"
  by (simp add: branch_ok_def)

lemma branch_ok_hint:
  assumes "wf_service s" and "0 < ids_left s" and "record_ok s sid r" and "sid \<in> dom (ws_sessions s)"
    and "diagnosis_hint now r command route target source s = (r', ms, xs, s')"
  shows "branch_ok sid r s r' s'"
proof -
  define decision where "decision = resolveAuthorizationDecision s (sd_Alert (sr_detail r)) command"
  define r1 where "r1 = timeline_add ''authorization_decided''
     (''action='' @ dn_Action decision @ '' rule='' @ fallbackString (dn_RuleID decision) ''default'' @
      '' matched_by='' @ fallbackString (dn_MatchedBy decision) ''default'' @ '' command='' @ command) now r"
  have rec: "record_ok s sid r1" using assms(3) by (simp add: r1_def)
  have "branch_ok sid r1 s r' s'"
    using assms(5) unfolding diagnosis_hint_def Let_def decision_def [symmetric] r1_def [symmetric]
    using branch_ok_direct [OF assms(1,2) rec assms(4)] branch_ok_approval [OF assms(1,2) rec assms(4)]
      branch_ok_answer [OF assms(1,2) rec disjI1] branch_ok_answer [OF assms(1,2) rec disjI2] branch_ok_refl [OF assms(1) rec]
    by (auto split: if_split_asm)
  then show ?thesis by (simp add: r1_def branch_ok_note)
qed

lemma branch_ok_decide:
  assumes "wf_service s" and "0 < ids_left s" and "record_ok s sid r" and "sid \<in> dom (ws_sessions s)"
    and "diagnosis_decide now r hint route target s = (r', ms, xs, s')"
  shows "branch_ok sid r s r' s'"
  using assms(5) branch_ok_hint [OF assms(1-4)] branch_ok_resolveChat [OF assms(1-3)]
    branch_ok_refl [OF assms(1,3)]
  by (auto simp: diagnosis_decide_def Let_def split: prod.splits if_split_asm)

lemma record_ok_diagnosis [simp]: "record_ok s sid r \<Longrightarrow> record_ok s sid (record_diagnosis d r)"
  by (simp add: record_ok_def record_diagnosis_def)

lemma sr_fingerprint_diagnosis [simp]: "sr_fingerprint (record_diagnosis d r) = sr_fingerprint r"
  by (simp add: record_diagnosis_def)

text \<open>A diagnosis that is applied: the session it starts from and the branch it takes.\<close>

lemma ApplyDiagnosis_cases:
  assumes "ws_outbox s eventID = Some event" and "ws_sessions s (ob_AggregateID event) = Some r0"
    and "r2 = diagnosis_announce clock
      (diagnosis_notice (record_diagnosis d0 r0) (effective_diagnosis order d0 s)
        (selectDiagnosisNotificationTarget (sd_Alert (sr_detail r0)) (diagnosis_route s (sd_Alert (sr_detail r0)))))
      (record_diagnosis d0 r0)"
    and "diagnosis_decide clock r2 (do_ExecutionHint (effective_diagnosis order d0 s))
      (diagnosis_route s (sd_Alert (sr_detail r0)))
      (selectDiagnosisNotificationTarget (sd_Alert (sr_detail r0)) (diagnosis_route s (sd_Alert (sr_detail r0)))) s
      = (r3, ms, xs, s1)"
  shows "\<exists>res. ApplyDiagnosis clock order eventID d0 s =
     (Inr res, put_session (ob_AggregateID event)
        (timeline_add ''diagnosis_completed'' (do_Summary (effective_diagnosis order d0 s)) clock r3) s1) \<and>
     wd_Executions res = xs \<and> wd_Capabilities res = [] \<and>
     wd_SessionID res = sd_SessionID (sr_detail r3)"
proof -
  have alert: "sd_Alert (sr_detail (record_diagnosis d0 r0)) = sd_Alert (sr_detail r0)"
    by (simp add: record_diagnosis_def)
  show ?thesis
    using assms(4) unfolding assms(3)
    by (simp add: ApplyDiagnosis_def assms(1,2) alert Let_def zero_WorkflowDispatchResult_def)
qed

lemma wf_ApplyDiagnosis:
  assumes "wf_service s" and "0 < ids_left s"
  shows "wf_service (snd (ApplyDiagnosis clock order eventID d0 s))"
proof (cases "\<exists>event r0. ws_outbox s eventID = Some event \<and> ws_sessions s (ob_AggregateID event) = Some r0")
  case False
  then have "snd (ApplyDiagnosis clock order eventID d0 s) = s"
    by (auto simp: ApplyDiagnosis_def split: option.split)
  with assms show ?thesis by simp
next
  case True
  then obtain event r0 where ev: "ws_outbox s eventID = Some event"
    and r0: "ws_sessions s (ob_AggregateID event) = Some r0" by blast
  define r2 where "r2 = diagnosis_announce clock
      (diagnosis_notice (record_diagnosis d0 r0) (effective_diagnosis order d0 s)
        (selectDiagnosisNotificationTarget (sd_Alert (sr_detail r0)) (diagnosis_route s (sd_Alert (sr_detail r0)))))
      (record_diagnosis d0 r0)"
  obtain r3 ms xs s1 where dec: "diagnosis_decide clock r2 (do_ExecutionHint (effective_diagnosis order d0 s))
      (diagnosis_route s (sd_Alert (sr_detail r0)))
      (selectDiagnosisNotificationTarget (sd_Alert (sr_detail r0)) (diagnosis_route s (sd_Alert (sr_detail r0)))) s
      = (r3, ms, xs, s1)"
    by (metis prod_cases4)
  have r2: "record_ok s (ob_AggregateID event) r2" "sr_fingerprint r2 = sr_fingerprint r0"
    using wf_record [OF assms(1) r0] by (simp_all add: r2_def diagnosis_announce_def)
  have "branch_ok (ob_AggregateID event) r2 s r3 s1"
    using branch_ok_decide [OF assms r2(1) _ dec] r0 by auto
  from branch_ok_put [OF this r0 r2(2)] ApplyDiagnosis_cases [OF ev r0 r2_def dec] show ?thesis by auto
qed

lemma copy_runtime_simps [simp]:
  "ed_ExecutionID (copy_runtime e) = ed_ExecutionID e" "ed_Status (copy_runtime e) = ed_Status e"
  "ed_RequestKind (copy_runtime e) = ed_RequestKind e" "ed_CreatedAt (copy_runtime e) = ed_CreatedAt e"
  by (simp_all add: copy_runtime_def split: option.split)

lemma wf_CreateCapabilityApproval:
  assumes "wf_service s"
  shows "wf_service (snd (CreateCapabilityApproval clock req s))"
proof (cases "ws_sessions s (ar_SessionID req)")
  case None
  then show ?thesis using assms by (simp add: CreateCapabilityApproval_def)
next
  case (Some r)
  let ?sid = "ar_SessionID req"
  have rec: "record_ok s ?sid r" using wf_record [OF assms Some] .
  have "wf_service (put_session ?sid (prepared_lines ms t (timeline_add ev m t'
      (update_plan_step i f (set_status ''pending_approval'' (upsert_execution e r))))) (add_execution seq e ?sid s))"
    for ms t ev m t' i f e seq
  proof (rule wf_put_session)
    show "wf_service (add_execution seq e ?sid s)" using assms Some by (intro wf_add_execution) auto
    show "ws_sessions (add_execution seq e ?sid s) ?sid = Some r" using Some by (simp add: add_execution_def)
    show "record_ok (add_execution seq e ?sid s) ?sid (prepared_lines ms t (timeline_add ev m t'
      (update_plan_step i f (set_status ''pending_approval'' (upsert_execution e r)))))"
      using record_ok_added [OF rec, of "''pending_approval''" seq e] by simp
  qed simp
  moreover have "sd_SessionID (sr_detail r) = ?sid" using rec by (simp add: record_ok_def)
  ultimately show ?thesis
    using Some by (simp add: CreateCapabilityApproval_def Let_def case_prod_unfold)
qed

subsection \<open>The outbox operations\<close>

lemma wf_put_event:
  assumes "wf_service s" and "ws_outbox s eid = Some e" and "ob_ID e' = ob_ID e"
  shows "wf_service (put_event eid e' s)"
proof (rule wf_outbox_only [OF assms(1)])
  have "ob_ID e = eid" using assms(1,2) by (simp add: wf_service_def outbox_ok_def)
  with assms show "outbox_ok (put_event eid e' s)"
    by (intro outbox_ok_put_event [of s eid e]) (simp_all add: wf_service_def)
  show "\<exists>b p q. put_event eid e' s = s\<lparr>ws_outbox := b, ws_outboxPayloads := p, ws_outboxOrder := q\<rparr>"
    by (rule exI [where x = "(ws_outbox s)(eid \<mapsto> e')"], rule exI [where x = "ws_outboxPayloads s"],
        rule exI [where x = "ws_outboxOrder s"]) (simp add: put_event_def)
qed

lemma wf_Resolve: "wf_service s \<Longrightarrow> wf_service (snd (ResolveEvent t eid d s))"
  by (auto simp: ResolveEvent_def Let_def intro!: wf_put_event wf_session_note split: option.split)

lemma wf_MarkOutboxFailed: "wf_service s \<Longrightarrow> wf_service (snd (MarkOutboxFailed t eid err s))"
  by (auto simp: MarkOutboxFailed_def wf_Resolve split: option.split)

lemma wf_Replay: "wf_service s \<Longrightarrow> wf_service (snd (ReplayOutbox t eid m s))"
  by (auto simp: ReplayOutbox_def intro!: wf_put_event wf_session_note split: option.split)

lemma wf_Delete:
  assumes "wf_service s"
  shows "wf_service (snd (DeleteOutbox t eid m s))"
proof -
  let ?s = "s\<lparr>ws_outbox := (ws_outbox s)(eid := None), ws_outboxPayloads := (ws_outboxPayloads s)(eid := None),
      ws_outboxOrder := remove1 eid (ws_outboxOrder s)\<rparr>"
  have "outbox_ok ?s" using assms by (auto simp: wf_service_def outbox_ok_def)
  then have "wf_service ?s" by (rule wf_outbox_only [OF assms]) blast
  with assms show ?thesis
    by (auto simp: DeleteOutbox_def intro!: wf_session_note split: option.split)
qed

lemma wf_Claim: "wf_service s \<Longrightarrow> wf_service (snd (ClaimEvents t n s))"
proof -
  assume wf: "wf_service s"
  then have ok: "outbox_ok s" by (simp add: wf_service_def)
  have "\<exists>b p q. mark_processing eids s = s\<lparr>ws_outbox := b, ws_outboxPayloads := p, ws_outboxOrder := q\<rparr>" for eids
    by (rule exI [where x = "ws_outbox (mark_processing eids s)"], rule exI [where x = "ws_outboxPayloads s"],
        rule exI [where x = "ws_outboxOrder s"]) (simp add: mark_processing_def)
  then show ?thesis
    using wf_outbox_only [OF wf outbox_ok_mark_processing [OF ok]] ClaimEvents_eq [OF ok] by simp
qed

lemma wf_Recover: "wf_service s \<Longrightarrow> wf_service (snd (RecoverPendingEvents s))"
proof -
  assume wf: "wf_service s"
  then have ok: "outbox_ok s" by (simp add: wf_service_def)
  have "\<exists>b p q. mark_pending eids s = s\<lparr>ws_outbox := b, ws_outboxPayloads := p, ws_outboxOrder := q\<rparr>" for eids
    by (rule exI [where x = "ws_outbox (mark_pending eids s)"], rule exI [where x = "ws_outboxPayloads s"],
        rule exI [where x = "ws_outboxOrder s"]) (simp add: mark_pending_def)
  then show ?thesis
    using wf_outbox_only [OF wf] outbox_ok_Recover [OF ok] RecoverPendingEvents_eq [OF ok] by simp
qed

lemma ids_left_publish:
  "0 < ids_left s \<Longrightarrow> ids_left s = Suc (ids_left (snd (publishEventLocked t rq s)))"
  using unat_room [OF ids_left_room [of s]] by (simp add: ids_left_def)

lemma wf_Notify:
  "wf_service s \<Longrightarrow> length ms \<le> ids_left s \<Longrightarrow> wf_service (snd (EnqueueNotifications enc t sid ms s))"
proof (induction ms arbitrary: s)
  case (Cons m ms)
  show ?case
  proof (cases "enc m")
    case (Inr payload)
    let ?rq = "zero_EventPublishRequest\<lparr>pr_Topic := ''telegram.send'', pr_AggregateID := sid,
      pr_Payload := payload, pr_Status := ''pending'', pr_CreatedAt := t, pr_AvailableAt := t\<rparr>"
    obtain env s' where env: "publishEventLocked t ?rq s = (Inr env, s')"
      using publish_Inr by blast
    then have s': "s' = snd (publishEventLocked t ?rq s)" by simp
    have left: "0 < ids_left s" using Cons.prems by simp
    have "wf_service (snd (EnqueueNotifications enc t sid ms s'))"
      unfolding s' using Cons.prems ids_left_publish [OF left, of t ?rq]
      by (intro Cons.IH wf_publish) simp_all
    then show ?thesis by (simp add: Inr env)
  qed (use Cons.prems in simp)
qed simp

section \<open>The machine\<close>

text \<open>
  \<open>Reconfigured\<close> is a step of the environment: the collaborators the service points to reload their
  configuration.
\<close>

datatype wf_op =
    Alert gotime AlertEvent
  | Channel gotime ChannelEvent
  | ExecutionDone gotime ExecutionResult
  | CapabilityDone gotime CapabilityExecutionResult
  | Verified gotime VerificationResult
  | Sweep gotime "string list" gotime
  | Diagnosed gotime "string list" string DiagnosisOutput
  | CapabilityAsked gotime ApprovedCapabilityRequest
  | Published gotime EventPublishRequest
  | Claimed gotime int
  | Resolved gotime string DeliveryResult
  | DeliveryFailed gotime string string
  | Recovered
  | Replayed gotime string string
  | Deleted gotime string string
  | Notified "ChannelMessage \<Rightarrow> string + string" gotime string "ChannelMessage list"
  | Reconfigured "(valmap \<Rightarrow> string \<Rightarrow> string \<Rightarrow> Route) option" "(SSHCommandInput \<Rightarrow> Decision) option"
      "RoleManager option" "RehydrationConfig option option" "Snapshot option"

text \<open>What an operation tells its caller: the error, if any, and the executions it dispatches.\<close>

type_synonym outcome = "go_error option \<times> ApprovedExecutionRequest list"

definition err_of :: "'a result \<Rightarrow> go_error option" where
  "err_of r = (case r of Inl err \<Rightarrow> Some err | Inr _ \<Rightarrow> None)"

definition dispatched :: "WorkflowDispatchResult result \<Rightarrow> ApprovedExecutionRequest list" where
  "dispatched r = (case r of Inl _ \<Rightarrow> [] | Inr res \<Rightarrow> wd_Executions res)"

fun wf_exec :: "wf_op \<Rightarrow> Service \<Rightarrow> outcome \<times> Service" where
  "wf_exec (Alert t ev) s = (let (r, s') = HandleAlertEvent t ev s in ((err_of r, []), s'))"
| "wf_exec (Channel t ev) s = (let (r, s') = HandleChannelEvent t ev s in ((err_of r, dispatched r), s'))"
| "wf_exec (ExecutionDone t res) s = (let (r, s') = HandleExecutionResult t res s in ((err_of r, []), s'))"
| "wf_exec (CapabilityDone t res) s = (let (r, s') = HandleCapabilityResult t res s in ((err_of r, []), s'))"
| "wf_exec (Verified t res) s = (let (r, s') = HandleVerificationResult t res s in ((err_of r, []), s'))"
| "wf_exec (Sweep t order now) s = (let (r, s') = SweepApprovalTimeouts t order now s in ((err_of r, []), s'))"
| "wf_exec (Diagnosed t order eid d) s =
     (let (r, s') = ApplyDiagnosis t order eid d s in ((err_of r, dispatched r), s'))"
| "wf_exec (CapabilityAsked t req) s = (let (r, s') = CreateCapabilityApproval t req s in ((err_of r, []), s'))"
| "wf_exec (Published t rq) s = (let (r, s') = PublishEvent t rq s in ((err_of r, []), s'))"
| "wf_exec (Claimed t n) s = (let (r, s') = ClaimEvents t n s in ((err_of r, []), s'))"
| "wf_exec (Resolved t eid d) s = (let (r, s') = ResolveEvent t eid d s in ((err_of r, []), s'))"
| "wf_exec (DeliveryFailed t eid err) s = (let (r, s') = MarkOutboxFailed t eid err s in ((err_of r, []), s'))"
| "wf_exec Recovered s = (let (r, s') = RecoverPendingEvents s in ((err_of r, []), s'))"
| "wf_exec (Replayed t eid m) s = (let (r, s') = ReplayOutbox t eid m s in ((err_of r, []), s'))"
| "wf_exec (Deleted t eid m) s = (let (r, s') = DeleteOutbox t eid m s in ((err_of r, []), s'))"
| "wf_exec (Notified enc t sid ms) s =
     (let (r, s') = EnqueueNotifications enc t sid ms s in ((err_of r, []), s'))"
| "wf_exec (Reconfigured router policy roles desense connectors) s =
     ((None, []), s\<lparr>ws_opts := (ws_opts s)\<lparr>op_ApprovalRouter := router, op_AuthorizationPolicy := policy,
        op_AgentRoleManager := roles, op_DesensitizationProvider := desense, op_Connectors := connectors\<rparr>\<rparr>)"

text \<open>No counter is about to wrap.\<close>

definition op_room :: "wf_op \<Rightarrow> Service \<Rightarrow> bool" where
  "op_room op s \<longleftrightarrow> room (ws_seq s) \<and> room (ws_executionSeq s) \<and>
     (case op of Notified enc t sid ms \<Rightarrow> length ms \<le> ids_left s | _ \<Rightarrow> 0 < ids_left s)"

inductive reachable :: "Service \<Rightarrow> bool" where
  init: "reachable (NewService opts)"
| step: "reachable s \<Longrightarrow> op_room op s \<Longrightarrow> reachable (snd (wf_exec op s))"

lemma wf_Reconfigure:
  "wf_service s \<Longrightarrow> wf_service (s\<lparr>ws_opts := opts\<rparr>)"
  by (simp add: wf_service_def sessions_ok_def executions_ok_def outbox_ok_def record_ok_def)

lemmas wf_operations =
  wf_HandleAlertEvent wf_HandleChannelEvent wf_HandleExecutionResult wf_HandleCapabilityResult
  wf_HandleVerificationResult wf_Sweep wf_ApplyDiagnosis wf_CreateCapabilityApproval wf_Claim wf_Resolve
  wf_MarkOutboxFailed wf_Recover wf_Replay wf_Delete wf_Notify wf_Reconfigure wf_publish

lemma wf_exec_wf: "wf_service s \<Longrightarrow> op_room op s \<Longrightarrow> wf_service (snd (wf_exec op s))"
  by (cases op) (simp_all add: op_room_def case_prod_unfold Let_def PublishEvent_def wf_operations)

lemma reachable_wf: "reachable s \<Longrightarrow> wf_service s"
  by (induction rule: reachable.induct) (auto intro: wf_New wf_exec_wf)

end
