(* ===== verification/Workflow_Safety.thy ===== *)
theory Workflow_Safety
  imports Workflow_Machine
begin

text \<open>
  What the workflow service guarantees about sessions, approvals and executions: its invariant and
  the absence of nil dereferences in every reachable state, the approval gate, the dispatch of an
  execution at most once, the authorization of direct executions, idempotency of alerts and channel
  events, and the exactness of the timeout sweep.
\<close>

section \<open>Examples\<close>

definition db_alert_event :: AlertEvent where
  "db_alert_event = zero_AlertEvent\<lparr>ae_Source := ''vmalert'', ae_Severity := ''critical'',
     ae_Fingerprint := ''fp-db'', ae_IdempotencyKey := ''k1'', ae_Labels := [(''instance'', ''db-1'')],
     ae_ReceivedAt := 100\<rparr>"

definition one_session :: Service where
  "one_session = snd (wf_exec (Alert 100 db_alert_event) (NewService plain_options))"

lemma room_small [simp]: "room 0" "room 1" "room 2"
  by (simp_all add: room_def)

lemma reachable_one_session: "reachable one_session"
  unfolding one_session_def
  by (rule reachable.step, rule reachable.init)
    (simp add: op_room_def ids_left_def NewService_def Let_def)

text \<open>A diagnosis proposes a command; without a policy it waits for approval.\<close>

definition waiting_session :: Service where
  "waiting_session = snd (wf_exec
     (Diagnosed 200 [] ''evt-000001''
        (zero_DiagnosisOutput\<lparr>do_Summary := ''disk'', do_ExecutionHint := ''df -h''\<rparr>)) one_session)"

lemma one_session_counters:
  "ws_seq one_session = 1" "ws_outboxSeq one_session = 1" "ws_executionSeq one_session = 0"
  by code_simp+

lemma reachable_waiting_session: "reachable waiting_session"
  unfolding waiting_session_def
  by (rule reachable.step, rule reachable_one_session)
    (simp add: op_room_def ids_left_def one_session_counters)

lemma waiting_execution:
  "map_option (\<lambda>e. (ed_Status e, ed_Command e, ed_RequestKind e)) (ws_executions waiting_session ''exe-000001'') =
     Some (''pending'', ''df -h'', ''execution'')"
  "ws_executionSession waiting_session ''exe-000001'' = Some ''ses-000001''"
  by code_simp+

lemma waiting_counters:
  "ws_seq waiting_session = 1" "ws_outboxSeq waiting_session = 1" "ws_executionSeq waiting_session = 1"
  by code_simp+

lemma waiting_flags: "op_ExecutionEnabled (ws_opts waiting_session)" "ws_processedEvents waiting_session = {}"
  by code_simp+

lemma TrimSpace_execution: "TrimSpace ''execution'' = ''execution''"
  by code_simp

section \<open>What the operations do to executions\<close>

text \<open>An execution that an approval would dispatch.\<close>

definition runnable :: "ExecutionDetail \<Rightarrow> bool" where
  "runnable e \<longleftrightarrow> ed_Status e = ''pending'' \<and> request_kind e \<noteq> ''capability''"

lemma HandleAlertEvent_frame [simp]:
  "ws_executions (snd (HandleAlertEvent t ev s)) = ws_executions s"
  "ws_executionSeq (snd (HandleAlertEvent t ev s)) = ws_executionSeq s"
  by (simp_all add: HandleAlertEvent_def alert_repeated_def alert_opened_eq opened_state_def nextID_def
      Let_def split: option.split)

lemma HandleVerificationResult_frame [simp]:
  "ws_executions (snd (HandleVerificationResult t res s)) = ws_executions s"
  "ws_executionSeq (snd (HandleVerificationResult t res s)) = ws_executionSeq s"
  by (simp_all add: HandleVerificationResult_def Let_def split: option.split)

lemma outbox_ops_frame [simp]:
  "ws_executions (snd (ResolveEvent t eid d s)) = ws_executions s"
  "ws_executionSeq (snd (ResolveEvent t eid d s)) = ws_executionSeq s"
  "ws_executions (snd (MarkOutboxFailed t eid err s)) = ws_executions s"
  "ws_executionSeq (snd (MarkOutboxFailed t eid err s)) = ws_executionSeq s"
  "ws_executions (snd (ReplayOutbox t eid m s)) = ws_executions s"
  "ws_executionSeq (snd (ReplayOutbox t eid m s)) = ws_executionSeq s"
  "ws_executions (snd (DeleteOutbox t eid m s)) = ws_executions s"
  "ws_executionSeq (snd (DeleteOutbox t eid m s)) = ws_executionSeq s"
  by (simp_all add: ResolveEvent_def MarkOutboxFailed_def ReplayOutbox_def DeleteOutbox_def Let_def
      split: option.split)

lemma claim_loop_frame [simp]:
  "ws_executions (snd (claim_loop t n ids es s)) = ws_executions s"
  "ws_executionSeq (snd (claim_loop t n ids es s)) = ws_executionSeq s"
  by (induction t n ids es s rule: claim_loop.induct) (auto simp: Let_def split: option.split)

lemma recover_loop_frame [simp]:
  "ws_executions (snd (recover_loop ids n s)) = ws_executions s"
  "ws_executionSeq (snd (recover_loop ids n s)) = ws_executionSeq s"
  by (induction ids n s rule: recover_loop.induct) (auto split: option.split)

lemma EnqueueNotifications_frame [simp]:
  "ws_executions (snd (EnqueueNotifications enc t sid ms s)) = ws_executions s \<and>
   ws_executionSeq (snd (EnqueueNotifications enc t sid ms s)) = ws_executionSeq s"
proof (induction ms arbitrary: s)
  case (Cons m ms)
  show ?case
  proof (cases "enc m")
    case (Inr payload)
    let ?rq = "zero_EventPublishRequest\<lparr>pr_Topic := ''telegram.send'', pr_AggregateID := sid,
      pr_Payload := payload, pr_Status := ''pending'', pr_CreatedAt := t, pr_AvailableAt := t\<rparr>"
    obtain env s' where env: "publishEventLocked t ?rq s = (Inr env, s')" using publish_Inr by blast
    have "ws_executions s' = ws_executions s" "ws_executionSeq s' = ws_executionSeq s"
      using publish_frame [of t ?rq s] unfolding env snd_conv by simp_all
    then show ?thesis using Cons [of s'] env Inr by simp
  qed simp
qed simp

lemma resolveChat_frame:
  assumes "resolveChatWithoutExecution clock r now source m s = (r', s')"
  shows "ws_executions s' = ws_executions s" "ws_executionSeq s' = ws_executionSeq s"
    "ws_executionSession s' = ws_executionSession s"
  using assms by (auto simp: resolveChatWithoutExecution_def Let_def split: if_split_asm)

lemma new_execution_simps [simp]:
  "ed_Status (new_execution s eid alert st cmd grp now) = st"
  "ed_Command (new_execution s eid alert st cmd grp now) = cmd"
  "ed_RequestKind (new_execution s eid alert st cmd grp now) = ''execution''"
  "ed_CreatedAt (new_execution s eid alert st cmd grp now) = now"
  by (simp_all add: new_execution_def Let_def)

text \<open>The three things that a hint of a diagnosis can come to.\<close>

lemma diagnosis_hint_cases:
  assumes "diagnosis_hint now r command route target source s = (r', ms, xs, s')"
  defines "decision \<equiv> resolveAuthorizationDecision s (sd_Alert (sr_detail r)) command"
    and "eid \<equiv> format_id ''exe'' (unat (ws_executionSeq s + 1))"
  obtains (none) "xs = []" "ws_executions s' = ws_executions s" "ws_executionSeq s' = ws_executionSeq s"
  | (direct) e x where "dn_Action decision = ActionDirectExecute" "op_ExecutionEnabled (ws_opts s)"
      "xs = [x]" "xr_ExecutionID x = eid" "xr_Command x = command"
      "ed_ExecutionID e = eid" "ed_Status e = ''executing''" "ed_Command e = command"
      "ws_executions s' = (ws_executions s)(eid \<mapsto> e)" "ws_executionSeq s' = ws_executionSeq s + 1"
  | (approval) e where "dn_Action decision = ActionRequireApproval" "op_ApprovalEnabled (ws_opts s)"
      "xs = []" "ed_ExecutionID e = eid" "ed_Status e = ''pending''" "ed_Command e = command"
      "ws_executions s' = (ws_executions s)(eid \<mapsto> e)" "ws_executionSeq s' = ws_executionSeq s + 1"
proof -
  let ?r1 = "timeline_add ''authorization_decided''
     (''action='' @ dn_Action decision @ '' rule='' @ fallbackString (dn_RuleID decision) ''default'' @
      '' matched_by='' @ fallbackString (dn_MatchedBy decision) ''default'' @ '' command='' @ command) now r"
  consider (d) "dn_Action decision = ActionDirectExecute"
      "diagnosis_direct now ?r1 command decision target source s = (r', ms, xs, s')"
    | (a) "dn_Action decision = ActionRequireApproval"
      "diagnosis_approval now ?r1 command decision route target source s = (r', ms, xs, s')"
    | (s) "diagnosis_suggest now ?r1 command decision target source s = (r', ms, xs, s')"
    | (y) "diagnosis_deny now ?r1 command decision target source s = (r', ms, xs, s')"
    | (n) "xs = []" "s' = s"
    using assms(1) unfolding diagnosis_hint_def Let_def decision_def [symmetric]
    by (auto split: if_split_asm)
  then show thesis
  proof cases
    case d
    show thesis
    proof (cases "op_ExecutionEnabled (ws_opts s)")
      case True
      let ?e = "(new_execution s eid (sd_Alert (sr_detail r)) ''executing'' command
        ''policy:direct_execute'' now)\<lparr>ed_ApprovedAt := now\<rparr>"
      from d(2) True have "s' = add_execution (ws_executionSeq s + 1) ?e (sd_SessionID (sr_detail r)) s"
        "\<exists>x. xs = [x] \<and> xr_ExecutionID x = eid \<and> xr_Command x = command"
        by (auto simp: diagnosis_direct_def nextID_def Let_def eid_def execution_request_def)
      with d(1) True show thesis by (auto intro: direct [of _ ?e] simp: add_execution_def)
    next
      case False
      with d(2) show thesis
        by (auto simp: diagnosis_direct_def Let_def dest: resolveChat_frame intro: none split: prod.splits)
    qed
  next
    case a
    show thesis
    proof (cases "op_ApprovalEnabled (ws_opts s)")
      case True
      let ?e = "new_execution s eid (sd_Alert (sr_detail r)) ''pending'' command (rt_GroupKey route) now"
      from a(2) True have "s' = add_execution (ws_executionSeq s + 1) ?e (sd_SessionID (sr_detail r)) s" "xs = []"
        by (auto simp: diagnosis_approval_def nextID_def Let_def eid_def)
      with a(1) True show thesis by (auto intro: approval [of ?e] simp: add_execution_def)
    next
      case False
      with a(2) show thesis
        by (auto simp: diagnosis_approval_def Let_def dest: resolveChat_frame intro: none split: prod.splits)
    qed
  next
    case s
    then show thesis
      by (auto simp: diagnosis_suggest_def Let_def dest: resolveChat_frame intro: none split: prod.splits)
  next
    case y
    then show thesis
      by (auto simp: diagnosis_deny_def Let_def dest: resolveChat_frame intro: none split: prod.splits)
  next
    case n
    then show thesis by (auto intro: none)
  qed
qed

lemma ApplyDiagnosis_success:
  assumes "ApplyDiagnosis clock order eventID d0 s = (Inr res, s')"
  obtains event r0 r2 r3 ms s1 where "ws_outbox s eventID = Some event"
    and "ws_sessions s (ob_AggregateID event) = Some r0"
    and "sd_Alert (sr_detail r2) = sd_Alert (sr_detail r0)"
    and "diagnosis_decide clock r2 (do_ExecutionHint (effective_diagnosis order d0 s))
      (diagnosis_route s (sd_Alert (sr_detail r0)))
      (selectDiagnosisNotificationTarget (sd_Alert (sr_detail r0)) (diagnosis_route s (sd_Alert (sr_detail r0)))) s
      = (r3, ms, wd_Executions res, s1)"
    and "s' = put_session (ob_AggregateID event)
      (timeline_add ''diagnosis_completed'' (do_Summary (effective_diagnosis order d0 s)) clock r3) s1"
proof -
  from assms obtain event r0 where ev: "ws_outbox s eventID = Some event"
    and r0: "ws_sessions s (ob_AggregateID event) = Some r0"
    by (auto simp: ApplyDiagnosis_def split: option.split_asm)
  define r2 where "r2 = diagnosis_announce clock
      (diagnosis_notice (record_diagnosis d0 r0) (effective_diagnosis order d0 s)
        (selectDiagnosisNotificationTarget (sd_Alert (sr_detail r0)) (diagnosis_route s (sd_Alert (sr_detail r0)))))
      (record_diagnosis d0 r0)"
  obtain r3 ms xs s1 where dec: "diagnosis_decide clock r2 (do_ExecutionHint (effective_diagnosis order d0 s))
      (diagnosis_route s (sd_Alert (sr_detail r0)))
      (selectDiagnosisNotificationTarget (sd_Alert (sr_detail r0)) (diagnosis_route s (sd_Alert (sr_detail r0)))) s
      = (r3, ms, xs, s1)"
    by (metis prod_cases4)
  have "sd_Alert (sr_detail r2) = sd_Alert (sr_detail r0)"
    by (simp add: r2_def diagnosis_announce_def record_diagnosis_def)
  moreover from ApplyDiagnosis_cases [OF ev r0 r2_def dec] assms
  have "xs = wd_Executions res" "s' = put_session (ob_AggregateID event)
      (timeline_add ''diagnosis_completed'' (do_Summary (effective_diagnosis order d0 s)) clock r3) s1"
    by auto
  ultimately show thesis using that [OF ev r0 _ _ ] dec by blast
qed

text \<open>What applying a diagnosis does to the executions; \<open>decided\<close> is the decision on the hint.\<close>

definition hint_decision :: "Service \<Rightarrow> string \<Rightarrow> string list \<Rightarrow> DiagnosisOutput \<Rightarrow> string" where
  "hint_decision s eventID order d =
     dn_Action (resolveAuthorizationDecision s
       (sd_Alert (sr_detail (the (ws_sessions s (ob_AggregateID (the (ws_outbox s eventID)))))))
       (do_ExecutionHint (effective_diagnosis order d s)))"

lemma ApplyDiagnosis_executions:
  assumes "ApplyDiagnosis clock order eventID d s = (r, s')"
  defines "eid \<equiv> format_id ''exe'' (unat (ws_executionSeq s + 1))"
    and "hint \<equiv> do_ExecutionHint (effective_diagnosis order d s)"
  obtains (none) "dispatched r = []" "ws_executions s' = ws_executions s" "ws_executionSeq s' = ws_executionSeq s"
  | (direct) e x where "hint_decision s eventID order d = ActionDirectExecute"
      "op_DiagnosisEnabled (ws_opts s)" "op_ExecutionEnabled (ws_opts s)" "hint \<noteq> []"
      "eventID \<in> dom (ws_outbox s)" "dispatched r = [x]" "xr_ExecutionID x = eid" "xr_Command x = hint"
      "ed_ExecutionID e = eid" "ed_Status e = ''executing''" "ed_Command e = hint"
      "ws_executions s' = (ws_executions s)(eid \<mapsto> e)" "ws_executionSeq s' = ws_executionSeq s + 1"
  | (approval) e where "hint_decision s eventID order d = ActionRequireApproval"
      "op_ApprovalEnabled (ws_opts s)" "dispatched r = []"
      "ed_ExecutionID e = eid" "ed_Status e = ''pending''" "ed_Command e = hint"
      "ws_executions s' = (ws_executions s)(eid \<mapsto> e)" "ws_executionSeq s' = ws_executionSeq s + 1"
proof -
  note unchanged = none and started = direct and drafted = approval
  show thesis
  proof (cases r)
  case (Inl err)
  with assms(1) have "s' = s"
    by (auto simp: ApplyDiagnosis_def Let_def split: option.split_asm prod.split_asm)
  with Inl show thesis by (intro unchanged) (simp_all add: dispatched_def)
next
  case (Inr res)
  from ApplyDiagnosis_success [OF assms(1) [unfolded Inr]] obtain event r0 r2 r3 ms s1 where
    ev: "ws_outbox s eventID = Some event" and r0: "ws_sessions s (ob_AggregateID event) = Some r0"
    and alert: "sd_Alert (sr_detail r2) = sd_Alert (sr_detail r0)"
    and dec: "diagnosis_decide clock r2 hint (diagnosis_route s (sd_Alert (sr_detail r0)))
      (selectDiagnosisNotificationTarget (sd_Alert (sr_detail r0)) (diagnosis_route s (sd_Alert (sr_detail r0)))) s
      = (r3, ms, wd_Executions res, s1)"
    and s': "s' = put_session (ob_AggregateID event)
      (timeline_add ''diagnosis_completed'' (do_Summary (effective_diagnosis order d s)) clock r3) s1"
    unfolding hint_def by metis
  have fr: "ws_executions s' = ws_executions s1" "ws_executionSeq s' = ws_executionSeq s1"
    "dispatched r = wd_Executions res"
    by (simp_all add: s' Inr dispatched_def)
  have hd: "hint_decision s eventID order d =
      dn_Action (resolveAuthorizationDecision s (sd_Alert (sr_detail r2)) hint)"
    by (simp add: hint_decision_def ev r0 alert hint_def)
  show thesis
  proof (cases "hint \<noteq> [] \<and> op_DiagnosisEnabled (ws_opts s)")
    case True
    with dec have "diagnosis_hint clock r2 hint (diagnosis_route s (sd_Alert (sr_detail r0)))
        (selectDiagnosisNotificationTarget (sd_Alert (sr_detail r0)) (diagnosis_route s (sd_Alert (sr_detail r0))))
        (stringFromAlert (sd_Alert (sr_detail r2)) ''source'') s = (r3, ms, wd_Executions res, s1)"
      by (auto simp: diagnosis_decide_def Let_def split: prod.splits)
    then show thesis
    proof (cases rule: diagnosis_hint_cases)
      case none
      then show thesis using fr by (intro unchanged) simp_all
    next
      case (direct e x)
      then show thesis using fr True ev hd by (intro started [of x e]) (auto simp: eid_def)
    next
      case (approval e)
      then show thesis using fr True ev hd by (intro drafted [of e]) (auto simp: eid_def)
    qed
  next
    case False
    with dec fr show thesis
      by (intro unchanged) (auto simp: diagnosis_decide_def Let_def dest: resolveChat_frame
          split: prod.splits if_split_asm)
  qed
  qed
qed

section \<open>At most one dispatch of an execution\<close>

text \<open>
  An identifier has a budget of one dispatch before it is issued and while its execution waits for
  approval, and none afterwards.  \<open>no_early\<close>: nothing waits under an identifier that is not issued.
\<close>

definition no_early :: "Service \<Rightarrow> bool" where
  "no_early s \<longleftrightarrow>
     (\<forall>eid e. ws_executions s eid = Some e \<and> runnable e \<longrightarrow> eid \<in> issued ''exe'' (ws_executionSeq s))"

definition budget :: "Service \<Rightarrow> string \<Rightarrow> nat" where
  "budget s eid =
     (if eid \<notin> issued ''exe'' (ws_executionSeq s) then 1
      else case ws_executions s eid of None \<Rightarrow> 0 | Some e \<Rightarrow> if runnable e then 1 else 0)"

text \<open>Results report a final or a running state, not a pending one.\<close>

fun op_regular :: "wf_op \<Rightarrow> bool" where
  "op_regular (ExecutionDone t res) \<longleftrightarrow> er_Status res \<noteq> ''pending''"
| "op_regular (CapabilityDone t res) \<longleftrightarrow> cr_Status res \<noteq> ''pending''"
| "op_regular _ \<longleftrightarrow> True"

definition dispatches :: "string \<Rightarrow> ApprovedExecutionRequest list \<Rightarrow> nat" where
  "dispatches eid xs = length (filter (\<lambda>x. xr_ExecutionID x = eid) xs)"

lemma dispatches_simps [simp]:
  "dispatches eid [] = 0" "dispatches eid (x # xs) = (if xr_ExecutionID x = eid then 1 else 0) + dispatches eid xs"
  "dispatches eid (xs @ ys) = dispatches eid xs + dispatches eid ys"
  by (simp_all add: dispatches_def)

lemma issued_step:
  "room c \<Longrightarrow> issued pfx (c + 1) = insert (format_id pfx (unat (c + 1))) (issued pfx c)"
  by (auto simp: issued_def unat_room le_Suc_eq)

text \<open>An operation that makes nothing runnable keeps the budgets.\<close>

lemma budget_quiet:
  assumes "no_early s" and "room (ws_executionSeq s)"
    and "ws_executionSeq s' \<in> {ws_executionSeq s, ws_executionSeq s + 1}"
    and "\<And>i e'. ws_executions s' i = Some e' \<Longrightarrow> runnable e' \<Longrightarrow> \<exists>e. ws_executions s i = Some e \<and> runnable e"
  shows "no_early s'" and "budget s' eid \<le> budget s eid"
proof -
  have sub: "issued ''exe'' (ws_executionSeq s) \<subseteq> issued ''exe'' (ws_executionSeq s')"
    using assms(2,3) by (auto simp: issued_step)
  show "no_early s'" using assms(1,4) sub unfolding no_early_def by blast
  show "budget s' eid \<le> budget s eid"
  proof (cases "eid \<in> issued ''exe'' (ws_executionSeq s)")
    case True
    with sub assms(4) [of eid] show ?thesis by (auto simp: budget_def split: option.split)
  qed (simp add: budget_def split: option.split)
qed

text \<open>A new execution under a fresh identifier.\<close>

lemma budget_new:
  assumes "no_early s" and "room (ws_executionSeq s)" and "ws_executionSeq s' = ws_executionSeq s + 1"
    and "ws_executions s' = (ws_executions s)(format_id ''exe'' (unat (ws_executionSeq s + 1)) \<mapsto> e)"
  shows "no_early s'"
    and "(if eid = format_id ''exe'' (unat (ws_executionSeq s + 1)) \<and> \<not> runnable e then 1 else 0) +
      budget s' eid \<le> budget s eid"
proof -
  let ?new = "format_id ''exe'' (unat (ws_executionSeq s + 1))"
  show "no_early s'" using assms unfolding no_early_def by (auto simp: issued_step split: if_split_asm)
  show "(if eid = ?new \<and> \<not> runnable e then 1 else 0) + budget s' eid \<le> budget s eid"
  proof (cases "eid = ?new")
    case True
    then have "budget s eid = 1" using issued_fresh [OF assms(2)] by (simp add: budget_def)
    moreover have "budget s' eid = (if runnable e then 1 else 0)"
      using True assms issued_new [OF assms(2), of "''exe''"] by (simp add: budget_def)
    ultimately show ?thesis by simp
  next
    case False
    then show ?thesis using assms by (auto simp: budget_def issued_step split: option.split)
  qed
qed

lemma TrimSpace_capability [simp]: "TrimSpace ''capability'' = ''capability''"
  by code_simp

lemma request_kind_capability [simp]:
  "ed_RequestKind e = ''capability'' \<Longrightarrow> request_kind e = ''capability''"
  by (simp add: request_kind_def)

lemma request_kind_cong: "ed_RequestKind e' = ed_RequestKind e \<Longrightarrow> request_kind e' = request_kind e"
  by (simp add: request_kind_def)

lemma runnable_status: "ed_Status e \<noteq> ''pending'' \<Longrightarrow> \<not> runnable e"
  by (simp add: runnable_def)

text \<open>What a channel event does to the executions.\<close>

lemma HandleChannelEvent_executions:
  assumes "HandleChannelEvent t ev s = (r, s')"
  obtains (quiet) "dispatched r = []" "ws_executionSeq s' = ws_executionSeq s"
      "\<And>i e'. ws_executions s' i = Some e' \<Longrightarrow> runnable e' \<Longrightarrow> ws_executions s i = Some e'"
  | (dispatch) e e' x where "ws_executions s (ce_ExecutionID ev) = Some e" "runnable e"
      "op_ExecutionEnabled (ws_opts s)" "ce_Action ev \<in> {''approve'', ''modify_approve''}"
      "dispatched r = [x]" "xr_ExecutionID x = ed_ExecutionID e"
      "xr_Command x = (if ce_Action ev = ''modify_approve'' \<and> ce_Command ev \<noteq> [] then ce_Command ev else ed_Command e)"
      "ed_Status e' = ''executing''" "ed_Command e' = xr_Command x"
      "ws_executions s' = (ws_executions s)(ce_ExecutionID ev \<mapsto> e')"
      "ws_executionSeq s' = ws_executionSeq s"
proof -
  consider (same) "s' = s" "dispatched r = []"
    | (cap) e sid rc where "approve_capability t ev e sid rc s = (r, s')"
    | (man) e sid rc where "approve_manual t ev e sid rc s = (r, s')"
    | (exec) e sid rc where "ws_executions s (ce_ExecutionID ev) = Some e" "ed_Status e = ''pending''"
        "request_kind e \<noteq> ''capability''" "op_ExecutionEnabled (ws_opts s)"
        "ce_Action ev \<in> {''approve'', ''modify_approve''}"
        "approve_execute t ev (if ce_Action ev = ''modify_approve'' \<and> ce_Command ev \<noteq> []
           then e\<lparr>ed_Command := ce_Command ev\<rparr> else e) sid rc s = (r, s')"
    | (rej) e sid rc where "handle_reject t ev e sid rc s = (r, s')"
    | (ctx) e sid rc where "handle_request_context t ev e sid rc s = (r, s')"
    using assms unfolding HandleChannelEvent_def Let_def handle_approve_def
    by (auto simp: dispatched_def zero_WorkflowDispatchResult_def split: if_split_asm option.split_asm)
  then show thesis
  proof cases
    case exec
    let ?e = "if ce_Action ev = ''modify_approve'' \<and> ce_Command ev \<noteq> []
      then e\<lparr>ed_Command := ce_Command ev\<rparr> else e"
    let ?e' = "?e\<lparr>ed_Status := ''executing'', ed_ApprovedAt := t\<rparr>"
    from exec(6) obtain x where "dispatched r = [x]" "xr_ExecutionID x = ed_ExecutionID e"
      "xr_Command x = ed_Command ?e" "ws_executions s' = (ws_executions s)(ce_ExecutionID ev \<mapsto> ?e')"
      "ws_executionSeq s' = ws_executionSeq s"
      by (auto simp: approve_execute_def Let_def dispatched_def execution_request_def)
    with exec(1-5) show thesis by (intro dispatch [of e x ?e']) (auto simp: runnable_def)
  qed (auto simp: approve_capability_def approve_manual_def handle_reject_def handle_request_context_def
      Let_def dispatched_def zero_WorkflowDispatchResult_def runnable_status intro!: quiet
      split: if_split_asm)
qed

lemma result_executions:
  "ws_executions (snd (HandleExecutionResult t res s)) =
     (ws_executions s)(er_ExecutionID res \<mapsto> finished_execution t res s)"
  "ws_executionSeq (snd (HandleExecutionResult t res s)) = ws_executionSeq s"
  "ws_executions (snd (HandleCapabilityResult t cres s)) =
     (ws_executions s)(cr_ApprovalID cres \<mapsto> finished_capability t cres s)"
  "ws_executionSeq (snd (HandleCapabilityResult t cres s)) = ws_executionSeq s"
  by (simp_all add: HandleExecutionResult_def HandleCapabilityResult_def Let_def split: option.split)

lemma finished_status [simp]:
  "ed_Status (finished_execution t res s) = er_Status res"
  "ed_Status (finished_capability t cres s) = cr_Status cres"
  by (simp_all add: finished_execution_def finished_capability_def Let_def)

lemma CreateCapabilityApproval_executions:
  "ws_executionSeq (snd (CreateCapabilityApproval t req s)) \<in> {ws_executionSeq s, ws_executionSeq s + 1}"
  "ws_executions (snd (CreateCapabilityApproval t req s)) = ws_executions s \<or>
   (\<exists>eid e. ws_executions (snd (CreateCapabilityApproval t req s)) = (ws_executions s)(eid \<mapsto> e) \<and>
      ed_RequestKind e = ''capability'')"
proof -
  show "ws_executionSeq (snd (CreateCapabilityApproval t req s)) \<in> {ws_executionSeq s, ws_executionSeq s + 1}"
    by (auto simp: CreateCapabilityApproval_def Let_def add_execution_def nextID_def split: option.split)
  show "ws_executions (snd (CreateCapabilityApproval t req s)) = ws_executions s \<or>
   (\<exists>eid e. ws_executions (snd (CreateCapabilityApproval t req s)) = (ws_executions s)(eid \<mapsto> e) \<and>
      ed_RequestKind e = ''capability'')"
  proof (cases "ws_sessions s (ar_SessionID req)")
    case (Some r)
    then show ?thesis
      by (simp add: CreateCapabilityApproval_def Let_def case_prod_unfold add_execution_def
          split del: if_split)
        (rule disjI2, rule exI, rule exI, rule conjI, rule refl, simp)
  qed (simp add: CreateCapabilityApproval_def)
qed

text \<open>The executions after a sweep.\<close>

definition swept :: "gotime \<Rightarrow> string set \<Rightarrow> Service \<Rightarrow> string \<rightharpoonup> ExecutionDetail" where
  "swept now eids s =
     (\<lambda>eid. case ws_executions s eid of
        None \<Rightarrow> None
      | Some e \<Rightarrow> Some (if eid \<in> eids \<and> timed_out s now e then e\<lparr>ed_Status := ''rejected''\<rparr> else e))"

lemma sweep_loop_executions:
  "ws_executions (snd (sweep_loop now eids ns s)) = swept now (set eids) s \<and>
   ws_executionSeq (snd (sweep_loop now eids ns s)) = ws_executionSeq s"
proof (induction eids arbitrary: ns s)
  case Nil
  then show ?case by (simp add: swept_def fun_eq_iff split: option.split)
next
  case (Cons eid eids)
  have step: "ws_executions (snd (sweep_loop now eids ns' s')) = swept now (set (eid # eids)) s \<and>
      ws_executionSeq (snd (sweep_loop now eids ns' s')) = ws_executionSeq s"
    if "ws_executions s' = (ws_executions s)(eid := map_option (\<lambda>e. if timed_out s now e
        then e\<lparr>ed_Status := ''rejected''\<rparr> else e) (ws_executions s eid))"
      "ws_opts s' = ws_opts s" "ws_executionSeq s' = ws_executionSeq s" for ns' s'
    using Cons [of ns' s'] that by (auto simp: swept_def timed_out_def fun_eq_iff split: option.split)
  show ?case
  proof (cases "ws_executions s eid")
    case None
    then show ?thesis using step [of s ns] by (simp add: fun_upd_idem)
  next
    case (Some e)
    show ?thesis
    proof (cases "timed_out s now e")
      case False
      then show ?thesis using Some step [of s ns] by (simp add: fun_upd_idem)
    next
      case True
      let ?e = "e\<lparr>ed_Status := ''rejected''\<rparr>" and ?sid = "get_str (ws_executionSession s) eid"
      show ?thesis
      proof (cases "ws_sessions s ?sid")
        case None
        then show ?thesis using step [of "put_execution eid ?e s" ns] Some True by simp
      next
        case (Some r)
        then obtain ns' r' where
          "sweep_loop now (eid # eids) ns s = sweep_loop now eids ns' (put_session ?sid r' (put_execution eid ?e s))"
          using \<open>ws_executions s eid = Some e\<close> True by (auto simp: Let_def)
        then show ?thesis
          using step [of "put_session ?sid r' (put_execution eid ?e s)" ns'] \<open>ws_executions s eid = Some e\<close> True
          by simp
      qed
    qed
  qed
qed

lemma dispatch_step:
  assumes "wf_service s" and "no_early s" and "op_room op s" and "op_regular op"
    and "wf_exec op s = ((err, xs), s')"
  shows "no_early s' \<and> dispatches eid xs + budget s' eid \<le> budget s eid"
proof -
  have rm: "room (ws_executionSeq s)" using assms(3) by (simp add: op_room_def)
  have quiet: "no_early s'' \<and> budget s'' eid \<le> budget s eid"
    if "ws_executionSeq s'' \<in> {ws_executionSeq s, ws_executionSeq s + 1}"
      "\<And>i e'. ws_executions s'' i = Some e' \<Longrightarrow> runnable e' \<Longrightarrow> \<exists>e. ws_executions s i = Some e \<and> runnable e" for s''
    using budget_quiet [OF assms(2) rm that] by simp
  have frame: "no_early s'' \<and> budget s'' eid \<le> budget s eid"
    if "ws_executionSeq s'' = ws_executionSeq s" "ws_executions s'' = ws_executions s" for s''
    using that by (intro quiet) simp_all
  have put: "no_early s'' \<and> budget s'' eid \<le> budget s eid"
    if "ws_executionSeq s'' = ws_executionSeq s" "ws_executions s'' = (ws_executions s)(i \<mapsto> e)" "\<not> runnable e"
    for s'' i e
    using that by (intro quiet) (auto split: if_split_asm)
  note calm = quiet
  show ?thesis
  proof (cases op)
    case (Channel t ev)
    obtain r where r: "HandleChannelEvent t ev s = (r, s')" "xs = dispatched r"
      using assms(5) Channel by (auto simp: Let_def case_prod_unfold prod_eq_iff)
    from r(1) show ?thesis
    proof (cases rule: HandleChannelEvent_executions)
      case quiet
      then show ?thesis using r(2) calm [of s'] by auto
    next
      case (dispatch e e' x)
      have id: "ed_ExecutionID e = ce_ExecutionID ev" using wf_execution_id [OF assms(1) dispatch(1)] .
      have iss: "ce_ExecutionID ev \<in> issued ''exe'' (ws_executionSeq s)"
        using assms(2) dispatch(1,2) by (auto simp: no_early_def)
      have "no_early s' \<and> budget s' eid \<le> budget s eid"
        using dispatch by (intro put [of s' "ce_ExecutionID ev" e']) (simp_all add: runnable_def)
      moreover have "budget s (ce_ExecutionID ev) = 1" "budget s' (ce_ExecutionID ev) = 0"
        using iss dispatch by (simp_all add: budget_def runnable_def)
      ultimately show ?thesis using r(2) dispatch(5,6) id by auto
    qed
  next
    case (Diagnosed t order evid d)
    obtain r where r: "ApplyDiagnosis t order evid d s = (r, s')" "xs = dispatched r"
      using assms(5) Diagnosed by (auto simp: Let_def case_prod_unfold prod_eq_iff)
    from r(1) show ?thesis
    proof (cases rule: ApplyDiagnosis_executions)
      case none
      then show ?thesis using r(2) frame [of s'] by simp
    next
      case (direct e x)
      have "\<not> runnable e" using direct by (simp add: runnable_def)
      with budget_new(1) [OF assms(2) rm direct(13,12)] budget_new(2) [OF assms(2) rm direct(13,12), of eid]
        direct(6,7) r(2) show ?thesis by auto
    next
      case (approval e)
      from budget_new(1) [OF assms(2) rm approval(8,7)] budget_new(2) [OF assms(2) rm approval(8,7), of eid]
        approval(3) r(2) show ?thesis
        by (auto split: if_split_asm)
    qed
  next
    case (ExecutionDone t res)
    then have "s' = snd (HandleExecutionResult t res s)" "xs = []" "er_Status res \<noteq> ''pending''"
      using assms(4,5) by (auto simp: Let_def case_prod_unfold)
    then show ?thesis
      using put [of s' "er_ExecutionID res" "finished_execution t res s"]
      by (simp add: result_executions runnable_status)
  next
    case (CapabilityDone t res)
    then have "s' = snd (HandleCapabilityResult t res s)" "xs = []" "cr_Status res \<noteq> ''pending''"
      using assms(4,5) by (auto simp: Let_def case_prod_unfold)
    then show ?thesis
      using put [of s' "cr_ApprovalID res" "finished_capability t res s"]
      by (simp add: result_executions runnable_status)
  next
    case (Sweep t order now)
    then have s': "s' = snd (sweep_loop (if IsZero now then t else now) order [] s)" "xs = []"
      using assms(5) by (auto simp: SweepApprovalTimeouts_def Let_def case_prod_unfold)
    have ex: "ws_executions s' = swept (if IsZero now then t else now) (set order) s"
      "ws_executionSeq s' = ws_executionSeq s"
      using sweep_loop_executions s'(1) by simp_all
    have "\<exists>e. ws_executions s i = Some e \<and> runnable e"
      if "ws_executions s' i = Some e'" "runnable e'" for i e'
      using that unfolding ex(1) swept_def runnable_def by (auto split: option.split_asm if_split_asm)
    with calm [of s'] ex(2) s'(2) show ?thesis by simp
  next
    case (CapabilityAsked t req)
    then have s': "s' = snd (CreateCapabilityApproval t req s)" "xs = []"
      using assms(5) by (auto simp: Let_def case_prod_unfold)
    have "\<exists>e. ws_executions s i = Some e \<and> runnable e"
      if "ws_executions s' i = Some e'" "runnable e'" for i e'
      using CreateCapabilityApproval_executions(2) [of t req s] that
      by (auto simp: s' runnable_def split: if_split_asm)
    with quiet [of s'] CreateCapabilityApproval_executions(1) [of t req s] s' show ?thesis by auto
  qed (use assms(5) frame [of s'] in \<open>auto simp: Let_def case_prod_unfold PublishEvent_def ClaimEvents_def
      RecoverPendingEvents_def\<close>)
qed

text \<open>A run of operations: the executions it dispatches, and the final state.\<close>

fun wf_run :: "wf_op list \<Rightarrow> Service \<Rightarrow> ApprovedExecutionRequest list \<times> Service" where
  "wf_run [] s = ([], s)"
| "wf_run (op # ops) s =
     (let ((_, xs), s1) = wf_exec op s; (ys, s2) = wf_run ops s1 in (xs @ ys, s2))"

fun run_room :: "wf_op list \<Rightarrow> Service \<Rightarrow> bool" where
  "run_room [] s \<longleftrightarrow> True"
| "run_room (op # ops) s \<longleftrightarrow> op_room op s \<and> run_room ops (snd (wf_exec op s))"

lemma run_dispatches:
  assumes "wf_service s" and "no_early s" and "run_room ops s" and "\<forall>op \<in> set ops. op_regular op"
  shows "dispatches eid (fst (wf_run ops s)) \<le> budget s eid"
  using assms
proof (induction ops arbitrary: s)
  case (Cons op ops)
  obtain err xs s1 where st: "wf_exec op s = ((err, xs), s1)" by (metis prod.collapse)
  have rm: "op_room op s" "run_room ops s1" using Cons.prems(3) st by simp_all
  have "wf_service s1" using wf_exec_wf [OF Cons.prems(1) rm(1)] st by simp
  moreover have "no_early s1 \<and> dispatches eid xs + budget s1 eid \<le> budget s eid"
    using dispatch_step [OF Cons.prems(1,2) rm(1) _ st] Cons.prems(4) by simp
  ultimately show ?case using Cons.IH [of s1] rm(2) Cons.prems(4) st by (simp add: Let_def case_prod_unfold)
qed simp

section \<open>Authorization of commands\<close>

lemma require_approval_loop_deny: "require_approval_loop command ''deny'' ps = ''deny''"
  by (induction ps) simp_all

lemma EnforcePolicy_deny: "EnforcePolicy role ''deny'' command = ''deny''"
  using actionRank_nonneg [of "pb_MaxAction (role_PolicyBinding role)"]
  by (simp add: EnforcePolicy_def Let_def require_approval_loop_deny)

lemma require_approval_loop_cases:
  "require_approval_loop command action ps \<in> {action, ''require_approval''}"
proof (induction ps arbitrary: action)
  case (Cons p ps)
  show ?case
    using Cons [of "''require_approval''"] Cons [of action] by auto
qed simp

lemma actionRank_le_direct: "actionRank a \<le> actionRank ''direct_execute''"
  by (simp add: actionRank_def [of a] Let_def)

lemma EnforcePolicy_direct:
  assumes "EnforcePolicy role action command = ''direct_execute''"
  shows "action = ''direct_execute''"
  using assms require_approval_loop_cases [of command action "pb_RequireApprovalFor (role_PolicyBinding role)"]
    actionRank_le_direct [of "require_approval_loop command action (pb_RequireApprovalFor (role_PolicyBinding role))"]
  by (auto simp: EnforcePolicy_def Let_def split: if_split_asm)

text \<open>The input the service hands to the policy.\<close>

definition command_input :: "valmap \<Rightarrow> string \<Rightarrow> SSHCommandInput" where
  "command_input alert command =
     \<lparr>si_Command = command, si_Service = alertLabel alert ''service'', si_Host = stringFromAlert alert ''host'',
      si_Channel = stringFromAlert alert ''source''\<rparr>"

lemma decision_direct:
  assumes "dn_Action (resolveAuthorizationDecision s alert command) = ActionDirectExecute"
  shows "\<exists>evaluate. op_AuthorizationPolicy (ws_opts s) = Some evaluate \<and>
    dn_Action (evaluate (command_input alert command)) = ActionDirectExecute"
  using assms
  by (auto simp: resolveAuthorizationDecision_def Let_def action_defs command_input_def
      dest: EnforcePolicy_direct split: option.split_asm)

lemma decision_denied:
  assumes "op_AuthorizationPolicy (ws_opts s) = Some evaluate"
    and "dn_Action (evaluate (command_input alert command)) = ActionDeny"
  shows "dn_Action (resolveAuthorizationDecision s alert command) = ActionDeny"
  using assms
  by (auto simp: resolveAuthorizationDecision_def Let_def action_defs command_input_def EnforcePolicy_deny
      split: option.split)

section \<open>Properties\<close>

text \<open>C1: In every state the service can reach, by any sequence of its operations and of reloads of
  its collaborators, the state is in order: the order lists hold exactly the stored sessions and
  events, the fingerprint index and the sessions agree in both directions, processed alerts and
  executions point to sessions that exist, the executions of a session are known and distinct,
  and every session has one of the seven documented statuses.\<close>

theorem reachable_invariant: "reachable s \<Longrightarrow> wf_service s"
  by (rule reachable_wf)

theorem reachable_invariant_witness: "wf_service waiting_session"
  using reachable_invariant [OF reachable_waiting_session] .

lemma err_of_eq: "err_of r = Some err \<longleftrightarrow> r = Inl err"
  by (simp add: err_of_def split: sum.split)

text \<open>C4: The service never dereferences a nil pointer: in a reachable state no operation meets a
  missing session or event where the code reads one without checking.\<close>

theorem no_nil_dereference:
  assumes "reachable s" and "op_room op s"
  shows "fst (fst (wf_exec op s)) \<noteq> Some NilDeref"
proof -
  have wf: "wf_service s" using assms(1) by (rule reachable_wf)
  then have ok: "outbox_ok s" by (simp add: wf_service_def)
  have alert: "fst (HandleAlertEvent t ev s) \<noteq> Inl NilDeref" for t ev
  proof (cases "alert_duplicate ev s")
    case None
    have "\<exists>r. ws_sessions s sid = Some r" if "ws_sessionByFingerprint s (alert_fingerprint ev s) = Some sid" for sid
      using wf that unfolding wf_service_def sessions_ok_def by blast
    then show ?thesis
      using None by (auto simp: HandleAlertEvent_def Let_def alert_repeated_def alert_opened_eq split: option.split)
  qed (simp add: HandleAlertEvent_def)
  have channel: "fst (HandleChannelEvent t ev s) \<noteq> Inl NilDeref" for t ev
    by (simp add: HandleChannelEvent_def handle_approve_def approve_capability_def approve_manual_def
        approve_execute_def handle_reject_def handle_request_context_def Let_def split: option.split)
  have results: "fst (HandleExecutionResult t res s) \<noteq> Inl NilDeref"
    "fst (HandleCapabilityResult t cres s) \<noteq> Inl NilDeref"
    "fst (HandleVerificationResult t vres s) \<noteq> Inl NilDeref" for t res cres vres
    by (simp_all add: HandleExecutionResult_def HandleCapabilityResult_def HandleVerificationResult_def
        Let_def split: option.split)
  have diagnosis: "fst (ApplyDiagnosis t order evid d s) \<noteq> Inl NilDeref" for t order evid d
    by (simp add: ApplyDiagnosis_def Let_def split: option.split prod.split)
  have asked: "fst (CreateCapabilityApproval t req s) \<noteq> Inl NilDeref" for t req
    by (simp add: CreateCapabilityApproval_def Let_def case_prod_unfold split: option.split)
  have resolve: "fst (ResolveEvent t eid r s) \<noteq> Inl NilDeref" "fst (MarkOutboxFailed t eid m s) \<noteq> Inl NilDeref"
    "fst (ReplayOutbox t eid m s) \<noteq> Inl NilDeref" "fst (DeleteOutbox t eid m s) \<noteq> Inl NilDeref" for t eid r m
    by (simp_all add: ResolveEvent_def MarkOutboxFailed_def ReplayOutbox_def DeleteOutbox_def Let_def
        split: option.split)
  have claim: "fst (ClaimEvents t n s) \<noteq> Inl NilDeref" "fst (RecoverPendingEvents s) \<noteq> Inl NilDeref" for t n
    by (simp_all add: ClaimEvents_eq [OF ok] RecoverPendingEvents_eq [OF ok])
  have publish: "fst (PublishEvent t rq x) \<noteq> Inl NilDeref" for t rq x
    by (simp add: PublishEvent_def publishEventLocked_def Let_def case_prod_unfold)
  have notify: "fst (EnqueueNotifications enc t sid ms x) \<noteq> Inl NilDeref" for enc t sid ms x
    by (induction enc t sid ms x rule: EnqueueNotifications.induct)
      (use publish [unfolded PublishEvent_def] in \<open>auto split: sum.split prod.split\<close>, metis fst_conv)
  show ?thesis
    by (cases op) (simp_all add: Let_def case_prod_unfold err_of_eq SweepApprovalTimeouts_def
        alert channel results diagnosis asked resolve claim publish notify)
qed

theorem no_nil_dereference_witness:
  "fst (fst (wf_exec (Claimed 300 5) waiting_session)) \<noteq> Some NilDeref"
proof (rule no_nil_dereference [OF reachable_waiting_session])
  show "op_room (Claimed 300 5) waiting_session" by (simp add: op_room_def waiting_counters ids_left_def)
qed

text \<open>C2: The approval gate.  A channel event dispatches at most one execution, and only an execution
  that is stored, pending and not a capability, by an approval while execution is enabled; the
  dispatched command is the stored one, or the one of the event if the approval modifies it,
  and the execution is no longer pending.\<close>

theorem approval_gate:
  assumes "HandleChannelEvent clock event s = (Inr res, s')" and "wd_Executions res \<noteq> []"
  shows "\<exists>e e' x. ws_executions s (ce_ExecutionID event) = Some e \<and> ed_Status e = ''pending'' \<and>
    request_kind e \<noteq> ''capability'' \<and> op_ExecutionEnabled (ws_opts s) \<and>
    ce_Action event \<in> {''approve'', ''modify_approve''} \<and>
    wd_Executions res = [x] \<and> xr_ExecutionID x = ed_ExecutionID e \<and>
    xr_Command x = (if ce_Action event = ''modify_approve'' \<and> ce_Command event \<noteq> []
                    then ce_Command event else ed_Command e) \<and>
    ws_executions s' = (ws_executions s)(ce_ExecutionID event \<mapsto> e') \<and> ed_Status e' = ''executing''"
  using assms(1)
proof (cases rule: HandleChannelEvent_executions)
  case quiet
  with assms(2) show ?thesis by (simp add: dispatched_def)
next
  case (dispatch e e' x)
  then have "wd_Executions res = [x]" by (simp add: dispatched_def)
  with dispatch show ?thesis unfolding runnable_def by blast
qed

definition approve_event :: "string \<Rightarrow> string \<Rightarrow> string \<Rightarrow> ChannelEvent" where
  "approve_event action key command = zero_ChannelEvent\<lparr>ce_Channel := ''telegram'', ce_UserID := ''alice'',
     ce_Action := action, ce_ExecutionID := ''exe-000001'', ce_IdempotencyKey := key, ce_Command := command\<rparr>"

lemma approve_event_simps [simp]:
  "ce_ExecutionID (approve_event action key command) = ''exe-000001''"
  "ce_IdempotencyKey (approve_event action key command) = key"
  "ce_Action (approve_event action key command) = action"
  "ce_Command (approve_event action key command) = command"
  by (simp_all add: approve_event_def)

lemma approve_execute_dispatches:
  "\<exists>res s' x. approve_execute t ev e sid r s = (Inr res, s') \<and> wd_Executions res = [x] \<and>
     xr_Command x = ed_Command e \<and> xr_ExecutionID x = ed_ExecutionID e"
  by (simp add: approve_execute_def Let_def execution_request_def)

lemma approve_dispatches:
  assumes "wf_service s" and "ws_executions s (ce_ExecutionID ev) = Some e" and "runnable e"
    and "ws_executionSession s (ce_ExecutionID ev) = Some sid" and "ce_ExecutionID ev \<noteq> []"
    and "ce_IdempotencyKey ev \<notin> ws_processedEvents s" and "op_ExecutionEnabled (ws_opts s)"
    and "ce_Action ev \<in> {''approve'', ''modify_approve''}"
  shows "\<exists>res s' x. HandleChannelEvent t ev s = (Inr res, s') \<and> wd_Executions res = [x] \<and>
    xr_ExecutionID x = ce_ExecutionID ev \<and>
    xr_Command x = (if ce_Action ev = ''modify_approve'' \<and> ce_Command ev \<noteq> [] then ce_Command ev
                    else ed_Command e)"
proof -
  obtain r where r: "ws_sessions s sid = Some r"
    using assms(1,4) unfolding wf_service_def executions_ok_def by (auto simp: ran_def)
  let ?e = "if ce_Action ev = ''modify_approve'' \<and> ce_Command ev \<noteq> [] then e\<lparr>ed_Command := ce_Command ev\<rparr> else e"
  have "HandleChannelEvent t ev s = approve_execute t ev ?e sid r s"
    using assms r by (simp add: HandleChannelEvent_def handle_approve_def get_str_def runnable_def Let_def)
  moreover have "ed_ExecutionID ?e = ce_ExecutionID ev" using wf_execution_id [OF assms(1,2)] by simp
  moreover have "ed_Command ?e = (if ce_Action ev = ''modify_approve'' \<and> ce_Command ev \<noteq> []
      then ce_Command ev else ed_Command e)" by simp
  ultimately show ?thesis using approve_execute_dispatches [of t ev ?e sid r s] by metis
qed

lemma waiting_runnable:
  obtains e where "ws_executions waiting_session ''exe-000001'' = Some e" "runnable e" "ed_Command e = ''df -h''"
  using waiting_execution(1) TrimSpace_execution by (auto simp: runnable_def request_kind_def)

theorem approval_gate_witness:
  "\<exists>res s' e. HandleChannelEvent 300 (approve_event ''approve'' [] []) waiting_session = (Inr res, s') \<and>
     ws_executions s' ''exe-000001'' = Some e \<and> ed_Status e = ''executing''"
proof -
  obtain e where e: "ws_executions waiting_session ''exe-000001'' = Some e" "runnable e"
    by (rule waiting_runnable)
  obtain res s' x where h: "HandleChannelEvent 300 (approve_event ''approve'' [] []) waiting_session = (Inr res, s')"
    and x: "wd_Executions res = [x]"
    using approve_dispatches [OF reachable_wf [OF reachable_waiting_session],
        of "approve_event ''approve'' [] []" e "''ses-000001''" 300] e waiting_execution(2) waiting_flags by auto
  from x have "wd_Executions res \<noteq> []" by simp
  from approval_gate [OF h this] h show ?thesis by auto
qed

text \<open>C5: Approvals take effect.  An approval of a pending execution of a session, with a key that has
  not been processed and with execution enabled, succeeds and dispatches exactly this execution.\<close>

theorem approval_takes_effect:
  assumes "reachable s" and "ws_executions s (ce_ExecutionID ev) = Some e" and "ed_Status e = ''pending''"
    and "request_kind e \<noteq> ''capability''" and "ws_executionSession s (ce_ExecutionID ev) = Some sid"
    and "ce_ExecutionID ev \<noteq> []" and "ce_IdempotencyKey ev \<notin> ws_processedEvents s"
    and "op_ExecutionEnabled (ws_opts s)" and "ce_Action ev = ''approve''"
  shows "\<exists>res s' x. HandleChannelEvent t ev s = (Inr res, s') \<and> wd_Executions res = [x] \<and>
    xr_ExecutionID x = ce_ExecutionID ev \<and> xr_Command x = ed_Command e"
  using approve_dispatches [OF reachable_wf [OF assms(1)] assms(2) _ assms(5-8), of t] assms(3,4,9)
  by (simp add: runnable_def)

theorem approval_takes_effect_witness:
  "\<exists>res s' x. HandleChannelEvent 300 (approve_event ''approve'' [] []) waiting_session = (Inr res, s') \<and>
     wd_Executions res = [x] \<and> xr_Command x = ''df -h''"
proof -
  obtain e where e: "ws_executions waiting_session ''exe-000001'' = Some e" "runnable e" "ed_Command e = ''df -h''"
    by (rule waiting_runnable)
  show ?thesis
    using approval_takes_effect [OF reachable_waiting_session, of "approve_event ''approve'' [] []" e
        "''ses-000001''" 300] e waiting_execution(2) waiting_flags
    by (auto simp: runnable_def)
qed

text \<open>C3: At most one dispatch.  In any run of a new service, with alerts, diagnoses, approvals from any
  channel, results, sweeps, replays and reloads interleaved in any order, an execution is handed
  to the executor at most once, provided results report no pending status and no counter wraps.\<close>

theorem single_dispatch:
  assumes "run_room ops (NewService opts)" and "\<forall>op \<in> set ops. op_regular op"
  shows "length (filter (\<lambda>x. xr_ExecutionID x = eid) (fst (wf_run ops (NewService opts)))) \<le> 1"
proof -
  have "no_early (NewService opts)" by (simp add: no_early_def NewService_def Let_def)
  then have "dispatches eid (fst (wf_run ops (NewService opts))) \<le> budget (NewService opts) eid"
    using assms by (intro run_dispatches wf_New)
  also have "\<dots> \<le> 1" by (simp add: budget_def split: option.split)
  finally show ?thesis by (simp add: dispatches_def)
qed

theorem single_dispatch_witness:
  "length (filter (\<lambda>x. xr_ExecutionID x = ''exe-000001'')
     (fst (wf_run [Alert 100 db_alert_event, Alert 110 db_alert_event] (NewService plain_options)))) \<le> 1"
proof (rule single_dispatch)
  have "op_room (Alert 100 db_alert_event) (NewService plain_options)"
    by (simp add: op_room_def ids_left_def NewService_def Let_def)
  moreover have "op_room (Alert 110 db_alert_event) one_session"
    by (simp add: op_room_def ids_left_def one_session_counters)
  ultimately show "run_room [Alert 100 db_alert_event, Alert 110 db_alert_event] (NewService plain_options)"
    by (simp add: one_session_def)
qed simp

text \<open>Direct executions are authorized: a diagnosis starts an execution at once only if diagnosis and execution are
  enabled and a configured policy answers the command, as it will be run, with direct execution.\<close>

lemma dispatched_grant:
  assumes "ApplyDiagnosis clock order eventID d s = (Inr res, s')" and "x \<in> set (wd_Executions res)"
  shows "op_DiagnosisEnabled (ws_opts s) \<and> op_ExecutionEnabled (ws_opts s) \<and>
    xr_Command x = do_ExecutionHint (effective_diagnosis order d s) \<and>
    (\<exists>evaluate event r. op_AuthorizationPolicy (ws_opts s) = Some evaluate \<and>
       ws_outbox s eventID = Some event \<and> ws_sessions s (ob_AggregateID event) = Some r \<and>
       dn_Action (evaluate (command_input (sd_Alert (sr_detail r)) (xr_Command x))) = ActionDirectExecute)"
  using assms(1)
proof (cases rule: ApplyDiagnosis_executions)
  case (direct e y)
  from assms(1) obtain event r where ev: "ws_outbox s eventID = Some event"
    "ws_sessions s (ob_AggregateID event) = Some r"
    by (rule ApplyDiagnosis_success)
  have x: "x = y" using direct(6) assms(2) by (simp add: dispatched_def)
  have "dn_Action (resolveAuthorizationDecision s (sd_Alert (sr_detail r))
      (do_ExecutionHint (effective_diagnosis order d s))) = ActionDirectExecute"
    using direct(1) ev by (simp add: hint_decision_def)
  from decision_direct [OF this] direct ev x show ?thesis by auto
qed (use assms(2) in \<open>simp_all add: dispatched_def\<close>)

text \<open>A service whose policy is the example policy, and a diagnosis that proposes a command.\<close>

definition governed_session :: Service where
  "governed_session = snd (wf_exec
     (Reconfigured None (Some (EvaluateSSHCommand (Some (New example_policy)))) None None None) one_session)"

definition disk_diagnosis :: "string \<Rightarrow> DiagnosisOutput" where
  "disk_diagnosis command = zero_DiagnosisOutput\<lparr>do_Summary := ''disk'', do_ExecutionHint := command\<rparr>"

end
