(* ===== verification/Workflow_Laws.thy ===== *)
theory Workflow_Laws
  imports Workflow_Safety
begin

text \<open>
  More of what the workflow service promises: the effect of a denial across the policy and the
  service, idempotency of channel events and alerts, the sweep of approvals that timed out, the
  closing of sessions, the life cycle of an execution as an abstract state machine, and two error
  paths on which the state has already changed.
\<close>

section \<open>Executions after the operations\<close>

text \<open>
  The abstract life cycle of one execution: what an operation may do to its status.  Results carry
  the status the executor reports; a capability approval with an explicit identifier starts anew.
\<close>

inductive life :: "wf_op \<Rightarrow> string \<Rightarrow> string option \<Rightarrow> string option \<Rightarrow> bool" where
  keep: "life op eid st st"
| accepted: "ce_Action ev \<in> {''approve'', ''modify_approve''} \<Longrightarrow>
    life (Channel t ev) (ce_ExecutionID ev) (Some ''pending'') (Some ''executing'')"
| accepted_manual: "ce_Action ev \<in> {''approve'', ''modify_approve''} \<Longrightarrow>
    life (Channel t ev) (ce_ExecutionID ev) (Some ''pending'') (Some ''approved'')"
| rejected: "ce_Action ev = ''reject'' \<Longrightarrow>
    life (Channel t ev) (ce_ExecutionID ev) (Some ''pending'') (Some ''rejected'')"
| expired: "life (Sweep t order now) eid (Some ''pending'') (Some ''rejected'')"
| reported: "life (ExecutionDone t res) (er_ExecutionID res) st (Some (er_Status res))"
| invoked: "life (CapabilityDone t cres) (cr_ApprovalID cres) st (Some (cr_Status cres))"
| asked: "TrimSpace (ar_ApprovalID req) \<noteq> [] \<Longrightarrow>
    life (CapabilityAsked t req) (TrimSpace (ar_ApprovalID req)) st (Some ''pending'')"

inductive_cases life_ChannelE: "life (Channel t ev) eid st st'"
inductive_cases life_SweepE: "life (Sweep t order now) eid st st'"

definition status_of :: "Service \<Rightarrow> string \<Rightarrow> string option" where
  "status_of s eid = map_option ed_Status (ws_executions s eid)"

lemma status_of_cong: "ws_executions s' = ws_executions s \<Longrightarrow> status_of s' = status_of s"
  by (simp add: status_of_def fun_eq_iff)

lemma status_of_put: "ws_executions s' = (ws_executions s)(i \<mapsto> e) \<Longrightarrow>
  status_of s' = (status_of s)(i \<mapsto> ed_Status e)"
  by (simp add: status_of_def fun_eq_iff)

lemma life_put:
  assumes "ws_executions s' = (ws_executions s)(i \<mapsto> e)" and "life op i (status_of s i) (Some (ed_Status e))"
  shows "life op eid (status_of s eid) (status_of s' eid)"
  using assms(2) unfolding status_of_put [OF assms(1)] by (cases "eid = i") (simp_all add: life.keep)

lemma life_same: "ws_executions s' = ws_executions s \<Longrightarrow> life op eid (status_of s eid) (status_of s' eid)"
  by (subst status_of_cong) (auto intro: life.keep)

lemma life_channel:
  assumes "HandleChannelEvent t ev s = (r, s')"
  shows "life (Channel t ev) eid (status_of s eid) (status_of s' eid)"
proof -
  let ?i = "ce_ExecutionID ev"
  consider (same) "ws_executions s' = ws_executions s"
    | (acc) e where "ws_executions s' = (ws_executions s)(?i \<mapsto> e)"
        "ce_Action ev \<in> {''approve'', ''modify_approve''}" "ed_Status e \<in> {''executing'', ''approved''}"
        "status_of s ?i = Some ''pending''"
    | (rej) e where "ws_executions s' = (ws_executions s)(?i \<mapsto> e)"
        "ce_Action ev = ''reject''" "ed_Status e = ''rejected''" "status_of s ?i = Some ''pending''"
    using assms unfolding HandleChannelEvent_def Let_def handle_approve_def status_of_def
    by (auto simp: approve_capability_def approve_manual_def approve_execute_def handle_reject_def
        handle_request_context_def Let_def split: if_split_asm option.split_asm)
  then show ?thesis
  proof cases
    case acc
    then show ?thesis by (intro life_put [OF acc(1)]) (auto intro: life.accepted life.accepted_manual)
  next
    case rej
    then show ?thesis by (intro life_put [OF rej(1)]) (auto intro: life.rejected)
  qed (rule life_same)
qed

lemma cap_id_neq: "eid \<in> issued ''exe'' c \<Longrightarrow> eid \<noteq> format_id ''cap'' n"
  by (auto simp: issued_def format_id_def)

lemma asked_executions:
  assumes "ws_sessions s (ar_SessionID req) = Some r"
  shows "\<exists>e. ws_executions (snd (CreateCapabilityApproval t req s)) =
      (ws_executions s)(fst (if TrimSpace (ar_ApprovalID req) = [] then nextID ''cap'' (ws_executionSeq s)
        else (TrimSpace (ar_ApprovalID req), ws_executionSeq s)) \<mapsto> e) \<and> ed_Status e = ''pending''"
  using assms
  by (simp add: CreateCapabilityApproval_def Let_def case_prod_unfold add_execution_def
      split del: if_split) (rule exI, rule conjI, rule refl, simp)

lemma life_asked:
  assumes "eid \<in> issued ''exe'' (ws_executionSeq s)"
  shows "life (CapabilityAsked t req) eid (status_of s eid)
    (status_of (snd (CreateCapabilityApproval t req s)) eid)"
proof (cases "ws_sessions s (ar_SessionID req)")
  case None
  then show ?thesis by (simp add: CreateCapabilityApproval_def life.keep)
next
  case (Some r)
  show ?thesis
  proof (rule exE [OF asked_executions [OF Some, of t]], elim conjE)
    fix e
    let ?s = "snd (CreateCapabilityApproval t req s)"
    let ?i = "fst (if TrimSpace (ar_ApprovalID req) = [] then nextID ''cap'' (ws_executionSeq s)
      else (TrimSpace (ar_ApprovalID req), ws_executionSeq s))"
    assume e: "ws_executions ?s = (ws_executions s)(?i \<mapsto> e)" "ed_Status e = ''pending''"
    show "life (CapabilityAsked t req) eid (status_of s eid) (status_of ?s eid)"
    proof (cases "eid = ?i")
      case True
      then have "TrimSpace (ar_ApprovalID req) \<noteq> []" 
        using cap_id_neq [OF assms, of "unat (ws_executionSeq s + 1)"] by (auto simp: nextID_def Let_def)
      then show ?thesis using True e(2) life.asked [of req t] by (simp add: status_of_put [OF e(1)])
    qed (simp add: status_of_put [OF e(1)] life.keep)
  qed
qed


lemma life_step:
  assumes "wf_service s" and "op_room op s" and "eid \<in> issued ''exe'' (ws_executionSeq s)"
    and "wf_exec op s = (out, s')"
  shows "life op eid (status_of s eid) (status_of s' eid)"
proof (cases op)
  case (Channel t ev)
  then obtain r where "HandleChannelEvent t ev s = (r, s')"
    using assms(4) by (auto simp: Let_def case_prod_unfold prod_eq_iff)
  then show ?thesis unfolding Channel by (rule life_channel)
next
  case (Diagnosed t order evid d)
  then obtain r where r: "ApplyDiagnosis t order evid d s = (r, s')"
    using assms(4) by (auto simp: Let_def case_prod_unfold prod_eq_iff)
  have fresh: "eid \<noteq> format_id ''exe'' (unat (ws_executionSeq s + 1))"
    using assms(2,3) issued_fresh [of "ws_executionSeq s" "''exe''"] by (auto simp: op_room_def)
  from r show ?thesis
  proof (cases rule: ApplyDiagnosis_executions)
    case none
    then show ?thesis by (intro life_same)
  next
    case (direct e x)
    then show ?thesis using fresh status_of_put [OF direct(12)] by (simp add: life.keep)
  next
    case (approval e)
    then show ?thesis using fresh status_of_put [OF approval(7)] by (simp add: life.keep)
  qed
next
  case (ExecutionDone t res)
  then have s': "s' = snd (HandleExecutionResult t res s)" using assms(4) by (auto simp: Let_def case_prod_unfold)
  show ?thesis unfolding ExecutionDone
    by (rule life_put [where e = "finished_execution t res s"]) (auto simp: s' result_executions intro: life.reported)
next
  case (CapabilityDone t res)
  then have s': "s' = snd (HandleCapabilityResult t res s)" using assms(4) by (auto simp: Let_def case_prod_unfold)
  show ?thesis unfolding CapabilityDone
    by (rule life_put [where e = "finished_capability t res s"]) (auto simp: s' result_executions intro: life.invoked)
next
  case (Sweep t order now)
  then have s': "s' = snd (sweep_loop (if IsZero now then t else now) order [] s)"
    using assms(4) by (auto simp: SweepApprovalTimeouts_def Let_def case_prod_unfold)
  have ex: "ws_executions s' = swept (if IsZero now then t else now) (set order) s"
    using sweep_loop_executions s' by simp
  show ?thesis unfolding Sweep
    by (cases "ws_executions s eid")
      (auto simp: status_of_def ex swept_def timed_out_def intro: life.keep life.expired)
next
  case (CapabilityAsked t req)
  then have "s' = snd (CreateCapabilityApproval t req s)" using assms(4) by (auto simp: Let_def case_prod_unfold)
  then show ?thesis unfolding CapabilityAsked using life_asked [OF assms(3)] by simp
qed (rule life_same, use assms(4) in \<open>auto simp: Let_def case_prod_unfold PublishEvent_def ClaimEvents_def
      RecoverPendingEvents_def\<close>)+

section \<open>Sessions after a sweep\<close>

definition expires :: "gotime \<Rightarrow> string set \<Rightarrow> Service \<Rightarrow> string \<Rightarrow> bool" where
  "expires now eids s sid \<longleftrightarrow>
     (\<exists>eid \<in> eids. \<exists>e. ws_executions s eid = Some e \<and> timed_out s now e \<and>
        get_str (ws_executionSession s) eid = sid)"

lemma timed_out_cong: "ws_opts s' = ws_opts s \<Longrightarrow> timed_out s' now e = timed_out s now e"
  by (simp add: timed_out_def)

lemma expires_step:
  assumes "ws_executions s eid = Some e" and "timed_out s now e"
    and "ws_executions s' = (ws_executions s)(eid \<mapsto> e\<lparr>ed_Status := ''rejected''\<rparr>)"
    and "ws_opts s' = ws_opts s" and "ws_executionSession s' = ws_executionSession s"
  shows "expires now (set (eid # eids)) s sid \<longleftrightarrow>
    sid = get_str (ws_executionSession s) eid \<or> expires now (set eids) s' sid"
  using assms by (auto simp: expires_def timed_out_def)

lemma sweep_loop_expired:
  assumes "ws_executions s eid = Some e" and "timed_out s now e"
    and "ws_sessions s (get_str (ws_executionSession s) eid) = Some r"
  shows "\<exists>ns' r'. sweep_loop now (eid # eids) ns s = sweep_loop now eids ns'
      (put_session (get_str (ws_executionSession s) eid) r' (put_execution eid (e\<lparr>ed_Status := ''rejected''\<rparr>) s)) \<and>
    sd_Status (sr_detail r') = ''open''"
  using assms by (simp add: Let_def) (intro exI conjI, rule refl, simp)

lemma sweep_loop_sessions:
  "map_option (\<lambda>r. sd_Status (sr_detail r)) (ws_sessions (snd (sweep_loop now eids ns s)) sid) =
   map_option (\<lambda>r. if expires now (set eids) s sid then ''open'' else sd_Status (sr_detail r)) (ws_sessions s sid)"
proof (induction eids arbitrary: ns s)
  case Nil
  then show ?case by (simp add: expires_def)
next
  case (Cons eid eids)
  show ?case
  proof (cases "\<exists>e. ws_executions s eid = Some e \<and> timed_out s now e")
    case False
    then have "sweep_loop now (eid # eids) ns s = sweep_loop now eids ns s" by (auto split: option.split)
    moreover from False have "expires now (set (eid # eids)) s sid = expires now (set eids) s sid"
      by (auto simp: expires_def)
    ultimately show ?thesis using Cons [of ns s] by simp
  next
    case True
    then obtain e where e: "ws_executions s eid = Some e" "timed_out s now e" by blast
    let ?i = "get_str (ws_executionSession s) eid" and ?s1 = "put_execution eid (e\<lparr>ed_Status := ''rejected''\<rparr>) s"
    show ?thesis
    proof (cases "ws_sessions s ?i")
      case None
      then have "sweep_loop now (eid # eids) ns s = sweep_loop now eids ns ?s1" using e by simp
      moreover have "expires now (set (eid # eids)) s sid \<longleftrightarrow> sid = ?i \<or> expires now (set eids) ?s1 sid"
        by (rule expires_step [OF e]) simp_all
      ultimately show ?thesis using Cons [of ns ?s1] None by (cases "sid = ?i") simp_all
    next
      case (Some r)
      then obtain ns' r' where st: "sd_Status (sr_detail r') = ''open''"
        and loop: "sweep_loop now (eid # eids) ns s = sweep_loop now eids ns' (put_session ?i r' ?s1)"
        using sweep_loop_expired [OF e] by metis
      have "expires now (set (eid # eids)) s sid \<longleftrightarrow> sid = ?i \<or> expires now (set eids) (put_session ?i r' ?s1) sid"
        by (rule expires_step [OF e]) simp_all
      then show ?thesis unfolding loop using Cons [of ns' "put_session ?i r' ?s1"] Some st
        by (cases "sid = ?i") (simp_all split: if_split_asm)
    qed
  qed
qed

section \<open>Properties\<close>

text \<open>C26: a diagnosis cannot start what the policy denies.  If the configured policy hard-denies the command that a
  diagnosis proposes, for the host, service and source of the alert, applying the diagnosis starts and
  drafts nothing: no execution is dispatched and the stored executions are unchanged, whatever role policy
  is in force.  This is about diagnoses only: a modified approval can still start the command
  (\<open>modified_approval_unchecked\<close>).\<close>

theorem denied_never_executed:
  assumes "op_AuthorizationPolicy (ws_opts s) = Some (EvaluateSSHCommand (Some policy))"
    and "ws_outbox s eventID = Some event" and "ws_sessions s (ob_AggregateID event) = Some r"
    and "hard_denied policy (command_input (sd_Alert (sr_detail r)) (do_ExecutionHint (effective_diagnosis order d s)))"
    and "ApplyDiagnosis clock order eventID d s = (res, s')"
  shows "dispatched res = [] \<and> ws_executions s' = ws_executions s"
proof -
  have "hint_decision s eventID order d = ActionDeny"
    using decision_denied [OF assms(1) ssh_policy.denied_action [OF assms(4)]] assms(2,3)
    by (simp add: hint_decision_def)
  with assms(5) show ?thesis
    by (cases rule: ApplyDiagnosis_executions) (auto simp: action_defs)
qed

lemma governed_denied:
  "map_option (\<lambda>r. hard_denied (New example_policy) (command_input (sd_Alert (sr_detail r))
      (do_ExecutionHint (effective_diagnosis [] (disk_diagnosis ''rm -rf /'') governed_session))))
     (ws_sessions governed_session ''ses-000001'') = Some True"
  "map_option ob_AggregateID (ws_outbox governed_session ''evt-000001'') = Some ''ses-000001''"
  by code_simp+

theorem denied_never_executed_witness:
  "dispatched (fst (ApplyDiagnosis 200 [] ''evt-000001'' (disk_diagnosis ''rm -rf /'') governed_session)) = []"
proof -
  have "op_AuthorizationPolicy (ws_opts governed_session) = Some (EvaluateSSHCommand (Some (New example_policy)))"
    by (simp add: governed_session_def)
  with governed_denied show ?thesis
    using denied_never_executed [of governed_session "New example_policy" "''evt-000001''" _ _ "[]"
        "disk_diagnosis ''rm -rf /''" 200, OF _ _ _ _ prod.collapse [symmetric]]
    by auto
qed

text \<open>C27: The life cycle of an execution is the abstract state machine \<open>life\<close>: in a reachable service
  every operation moves the status of every issued execution along it.  Only an approval leads from
  pending to executing or approved, only a rejection or the sweep from pending to rejected, and a
  decided execution changes only by a reported result or a new request under its identifier.\<close>

theorem execution_lifecycle:
  assumes "reachable s" and "op_room op s" and "eid \<in> issued ''exe'' (ws_executionSeq s)"
    and "wf_exec op s = (out, s')"
  shows "life op eid (status_of s eid) (status_of s' eid)"
  using life_step [OF reachable_wf [OF assms(1)] assms(2-4)] .

lemma issued_waiting: "''exe-000001'' \<in> issued ''exe'' (ws_executionSeq waiting_session)"
proof -
  have "''exe-000001'' = format_id ''exe'' 1" by code_simp
  then show ?thesis unfolding issued_def by (auto simp: waiting_counters intro!: exI [of _ 1])
qed

theorem execution_lifecycle_witness:
  "life (Channel 300 (approve_event ''approve'' [] [])) ''exe-000001'' (Some ''pending'')
     (status_of (snd (wf_exec (Channel 300 (approve_event ''approve'' [] [])) waiting_session)) ''exe-000001'')"
proof -
  let ?op = "Channel 300 (approve_event ''approve'' [] [])"
  have room: "op_room ?op waiting_session" by (simp add: op_room_def waiting_counters ids_left_def)
  have "status_of waiting_session ''exe-000001'' = Some ''pending''"
    using waiting_execution(1) by (auto simp: status_of_def)
  with execution_lifecycle [OF reachable_waiting_session room issued_waiting prod.collapse [symmetric]]
  show ?thesis by simp
qed

text \<open>C28: The sweep of approvals is exact and does not depend on the order in which the map of
  executions is visited: afterwards exactly the executions that were pending for at least the
  approval timeout are rejected, and exactly their sessions are open again.\<close>

theorem sweep_exact:
  assumes "set order = dom (ws_executions s)" and "\<not> IsZero now"
    and "SweepApprovalTimeouts clock order now s = (r, s')"
  shows "ws_executions s' = (\<lambda>eid. map_option (\<lambda>e. if timed_out s now e then e\<lparr>ed_Status := ''rejected''\<rparr> else e)
      (ws_executions s eid)) \<and>
    (\<forall>sid. map_option (\<lambda>r. sd_Status (sr_detail r)) (ws_sessions s' sid) =
      map_option (\<lambda>r. if \<exists>eid e. ws_executions s eid = Some e \<and> timed_out s now e \<and>
          get_str (ws_executionSession s) eid = sid then ''open'' else sd_Status (sr_detail r)) (ws_sessions s sid))"
proof -
  have s': "s' = snd (sweep_loop now order [] s)"
    using assms(2,3) by (auto simp: SweepApprovalTimeouts_def Let_def case_prod_unfold)
  have "swept now (set order) s = (\<lambda>eid. map_option (\<lambda>e. if timed_out s now e then e\<lparr>ed_Status := ''rejected''\<rparr> else e)
      (ws_executions s eid))"
    using assms(1) by (auto simp: swept_def fun_eq_iff split: option.split)
  moreover have "expires now (set order) s sid \<longleftrightarrow> (\<exists>eid e. ws_executions s eid = Some e \<and> timed_out s now e \<and>
      get_str (ws_executionSession s) eid = sid)" for sid
    using assms(1) by (auto simp: expires_def)
  ultimately show ?thesis
    using sweep_loop_executions [of now order "[]" s] sweep_loop_sessions [of now order "[]" s] s' by simp
qed

lemma one_session_executions: "ws_executions one_session = Map.empty"
  by (simp add: one_session_def Let_def case_prod_unfold) (simp add: NewService_def Let_def)

lemma waiting_dom: "dom (ws_executions waiting_session) = {''exe-000001''}"
proof -
  let ?d = "zero_DiagnosisOutput\<lparr>do_Summary := ''disk'', do_ExecutionHint := ''df -h''\<rparr>"
  have id: "format_id ''exe'' (unat (ws_executionSeq one_session + 1)) = ''exe-000001''"
    by code_simp
  have "waiting_session = snd (ApplyDiagnosis 200 [] ''evt-000001'' ?d one_session)"
    by (simp add: waiting_session_def Let_def case_prod_unfold)
  then obtain r where "ApplyDiagnosis 200 [] ''evt-000001'' ?d one_session = (r, waiting_session)"
    by (metis prod.collapse)
  then show ?thesis
  proof (cases rule: ApplyDiagnosis_executions)
    case none
    then show ?thesis using waiting_execution(1) one_session_executions by simp
  qed (simp_all add: id one_session_executions)
qed

theorem sweep_exact_witness:
  "map_option ed_Status (ws_executions (snd (SweepApprovalTimeouts 0 [''exe-000001''] (10 ^ 15) waiting_session))
     ''exe-000001'') = Some ''rejected''"
proof -
  have "map_option (timed_out waiting_session (10 ^ 15)) (ws_executions waiting_session ''exe-000001'') = Some True"
    by code_simp
  then show ?thesis
    using sweep_exact [of "[''exe-000001'']" waiting_session "10 ^ 15" 0, OF _ _ prod.collapse [symmetric]]
    by (auto simp: waiting_dom)
qed

text \<open>Channel events are idempotent.  Once an event with a key has been processed, handling an event
  with this key again, whatever it asks for, succeeds with an empty answer and changes nothing.\<close>

theorem channel_event_idempotent:
  assumes "HandleChannelEvent t ev s = (Inr res, s')" and "ce_IdempotencyKey ev \<noteq> []"
    and "ce_IdempotencyKey ev' = ce_IdempotencyKey ev" and "ce_ExecutionID ev' \<noteq> []"
  shows "HandleChannelEvent t' ev' s' = (Inr zero_WorkflowDispatchResult, s')"
proof -
  have "ce_IdempotencyKey ev \<in> ws_processedEvents s'"
    using assms(1,2)
    by (auto simp: HandleChannelEvent_def handle_approve_def approve_capability_def approve_manual_def
        approve_execute_def handle_reject_def handle_request_context_def Let_def
        split: if_split_asm option.split_asm)
  then show ?thesis using assms(2-4) by (simp add: HandleChannelEvent_def)
qed

theorem channel_event_idempotent_witness:
  "\<exists>s'. HandleChannelEvent 400 (approve_event ''reject'' ''c1'' []) s' = (Inr zero_WorkflowDispatchResult, s')"
proof -
  let ?ev = "approve_event ''approve'' ''c1'' []"
  obtain e where e: "ws_executions waiting_session ''exe-000001'' = Some e" "runnable e" by (rule waiting_runnable)
  obtain res s' where h: "HandleChannelEvent 300 ?ev waiting_session = (Inr res, s')"
    using approve_dispatches [OF reachable_wf [OF reachable_waiting_session], of ?ev e "''ses-000001''" 300]
      e waiting_execution(2) waiting_flags by auto
  from channel_event_idempotent [OF h, of "approve_event ''reject'' ''c1'' []" 400] show ?thesis by auto
qed

text \<open>Alerts are idempotent.  After an alert with a key has been handled, handling an alert with the
  same key again names the same session as a duplicate and changes nothing, whatever the second
  alert contains besides the key.\<close>

theorem alert_idempotent:
  assumes "HandleAlertEvent t ev s = (Inr res, s')"
    and "TrimSpace (ae_IdempotencyKey ev) \<noteq> []"
    and "TrimSpace (ae_IdempotencyKey ev') = TrimSpace (ae_IdempotencyKey ev)"
  shows "\<exists>res'. HandleAlertEvent t' ev' s' = (Inr res', s') \<and> mr_SessionID res' = mr_SessionID res \<and>
    mr_Duplicated res'"
proof -
  have "\<exists>r. ws_processedAlerts s' (TrimSpace (ae_IdempotencyKey ev)) = Some (mr_SessionID res) \<and>
      ws_sessions s' (mr_SessionID res) = Some r"
  proof (cases "alert_duplicate ev s")
    case None
    with assms(1,2) show ?thesis
      by (auto simp: HandleAlertEvent_def Let_def alert_repeated_def alert_opened_eq opened_state_def nextID_def
          split: option.split_asm)
  next
    case (Some d)
    with assms(1,2) show ?thesis
      by (auto simp: HandleAlertEvent_def alert_duplicate_def Let_def split: option.split_asm)
  qed
  then show ?thesis using assms(2,3) by (auto simp: HandleAlertEvent_def alert_duplicate_def Let_def)
qed

theorem alert_idempotent_witness:
  "\<exists>res' s'. HandleAlertEvent 110 db_alert_event s' = (Inr res', s') \<and> mr_SessionID res' = ''ses-000001''"
proof -
  have ok: "(case fst (HandleAlertEvent 100 db_alert_event (NewService plain_options)) of
      Inl _ \<Rightarrow> False | Inr res \<Rightarrow> mr_SessionID res = ''ses-000001'')"
    by code_simp
  have key: "TrimSpace (ae_IdempotencyKey db_alert_event) \<noteq> []" by code_simp
  obtain r s' where h: "HandleAlertEvent 100 db_alert_event (NewService plain_options) = (r, s')" by fastforce
  with ok obtain res where res: "r = Inr res" "mr_SessionID res = ''ses-000001''" by (cases r) auto
  from alert_idempotent [OF h [unfolded res(1)] key refl, of 110] res(2) show ?thesis by metis
qed

text \<open>Closing a session.  A verification that succeeded or was skipped resolves the session and adds
  exactly one event to the outbox, the closing of this session, pending for the knowledge service
  or blocked if ingestion is disabled; any other verdict sends the session back to analysis and
  leaves the outbox alone.\<close>

theorem verification_closes:
  assumes "reachable s" and "0 < ids_left s" and "HandleVerificationResult clock res s = (Inr m, s')"
  shows "\<exists>r. ws_sessions s' (vr_SessionID res) = Some r \<and> mr_Status m = sd_Status (sr_detail r) \<and>
    (if vr_Status res \<in> {''success'', ''skipped''}
     then sd_Status (sr_detail r) = ''resolved'' \<and>
       (\<exists>eid e. eid \<notin> dom (ws_outbox s) \<and> ws_outbox s' = (ws_outbox s)(eid \<mapsto> e) \<and>
          ws_outboxOrder s' = ws_outboxOrder s @ [eid] \<and>
          ob_Topic e = ''session.closed'' \<and> ob_AggregateID e = vr_SessionID res \<and>
          ob_Status e = (if op_KnowledgeIngestEnabled (ws_opts s) then ''pending'' else ''blocked''))
     else sd_Status (sr_detail r) = ''analyzing'' \<and> ws_outbox s' = ws_outbox s \<and>
       ws_outboxOrder s' = ws_outboxOrder s)"
proof -
  have wf: "wf_service s" using assms(1) by (rule reachable_wf)
  from assms(3) obtain r where r: "ws_sessions s (vr_SessionID res) = Some r"
    by (auto simp: HandleVerificationResult_def Let_def split: option.split_asm)
  have ok: "record_ok s (vr_SessionID res) r" using wf_record [OF wf r] .
  have "vr_SessionID res \<in> issued ''ses'' (ws_seq s)"
    using wf r unfolding wf_service_def sessions_ok_def by blast
  then have trim: "TrimSpace (vr_SessionID res) = vr_SessionID res" by (auto simp: issued_def)
  show ?thesis
  proof (cases "vr_Status res \<in> {''success'', ''skipped''}")
    case False
    then show ?thesis using assms(3) r
      by (auto simp: HandleVerificationResult_def Let_def set_verification_def)
  next
    case True
    let ?t = "if IsZero (vr_CheckedAt res) then clock else vr_CheckedAt res"
    let ?s1 = "enqueueSessionClosed clock (vr_SessionID res) ?t s"
    have sid: "sd_SessionID (sr_detail (set_verification v r)) = vr_SessionID res" for v
      using ok by (simp add: record_ok_def set_verification_def)
    have res: "\<exists>r'. s' = put_session (vr_SessionID res) r' ?s1 \<and> mr_Status m = ''resolved'' \<and>
        sd_Status (sr_detail r') = ''resolved''"
      using assms(3) r True by (auto simp: HandleVerificationResult_def Let_def sid)
    obtain rq where rq: "?s1 = snd (publishEventLocked clock rq s)"
      "pr_Topic rq = ''session.closed''" "pr_AggregateID rq = vr_SessionID res"
      "pr_Status rq = (if op_KnowledgeIngestEnabled (ws_opts s) then ''pending'' else ''blocked'')"
      using enqueueSessionClosed_eq by blast
    let ?eid = "format_id ''evt'' (unat (ws_outboxSeq s + 1))"
    obtain e where e: "ws_outbox ?s1 = (ws_outbox s)(?eid \<mapsto> e)" "ob_Topic e = TrimSpace (pr_Topic rq)"
      "ob_AggregateID e = vr_SessionID res"
      "ob_Status e = (if TrimSpace (pr_Status rq) = [] then ''pending'' else TrimSpace (pr_Status rq))"
      unfolding rq(1) using publish_outbox [of clock rq s] rq(3) trim by auto
    have texts: "TrimSpace ''session.closed'' = ''session.closed''" "TrimSpace ''pending'' = ''pending''"
      "TrimSpace ''blocked'' = ''blocked''" by code_simp+
    have fresh: "?eid \<notin> dom (ws_outbox s)"
      using wf issued_fresh [OF ids_left_room [OF assms(2)], of "''evt''"]
      by (auto simp: wf_service_def outbox_ok_def)
    have order: "ws_outboxOrder ?s1 = ws_outboxOrder s @ [?eid]" unfolding rq(1) by simp
    from res e order fresh True show ?thesis
      by (auto simp: rq texts intro!: exI [of _ ?eid])
  qed
qed

theorem verification_closes_witness:
  "\<exists>m s' r. HandleVerificationResult 300
      (zero_VerificationResult\<lparr>vr_SessionID := ''ses-000001'', vr_Status := ''skipped''\<rparr>) one_session = (Inr m, s') \<and>
    ws_sessions s' ''ses-000001'' = Some r \<and> sd_Status (sr_detail r) = ''resolved''"
proof -
  let ?res = "zero_VerificationResult\<lparr>vr_SessionID := ''ses-000001'', vr_Status := ''skipped''\<rparr>"
  have "map_option (\<lambda>r. ()) (ws_sessions one_session ''ses-000001'') = Some ()" by code_simp
  then obtain m s' where h: "HandleVerificationResult 300 ?res one_session = (Inr m, s')"
    by (auto simp: HandleVerificationResult_def Let_def)
  have "0 < ids_left one_session" by (simp add: ids_left_def one_session_counters)
  from verification_closes [OF reachable_one_session this h] h show ?thesis by auto
qed

text \<open>A result that names no session known to the service is answered with \<open>ErrNotFound\<close>, but the
  execution is stored all the same: an execution nobody asked for appears under the reported
  identifier, with the reported status and output.\<close>

theorem result_without_session_is_stored:
  assumes "ws_sessions s (er_SessionID res) = None" and "er_SessionID res \<noteq> []"
  shows "\<exists>s' e. HandleExecutionResult t res s = (Inl ErrNotFound, s') \<and>
    ws_executions s' (er_ExecutionID res) = Some e \<and> ed_Status e = er_Status res \<and>
    ws_executionOutputs s' (er_ExecutionID res) = Some (buildExecutionOutputChunks t (er_OutputPreview res) t) \<and>
    ws_sessions s' = ws_sessions s"
  using assms by (simp add: HandleExecutionResult_def Let_def)

theorem result_without_session_is_stored_witness:
  "\<exists>s' e. HandleExecutionResult 5 (zero_ExecutionResult\<lparr>er_ExecutionID := ''exe-000009'', er_SessionID := ''ses-000009'',
       er_Status := ''pending''\<rparr>) (NewService plain_options) = (Inl ErrNotFound, s') \<and>
     ws_executions s' ''exe-000009'' = Some e \<and> ed_Status e = ''pending''"
proof -
  let ?r = "zero_ExecutionResult\<lparr>er_ExecutionID := ''exe-000009'', er_SessionID := ''ses-000009'',
       er_Status := ''pending''\<rparr>"
  have "ws_sessions (NewService plain_options) (er_SessionID ?r) = None" "er_SessionID ?r \<noteq> []"
    by (simp_all add: NewService_def Let_def)
  from result_without_session_is_stored [OF this, of 5] show ?thesis by auto
qed

text \<open>An alert that fires again does not reopen its session: for a fingerprint the service knows, the
  alert is reported as a duplicate, the session keeps its status, resolved included, no event is
  published, and only a line of the timeline is added.\<close>

theorem refired_alert_not_reopened:
  assumes "alert_duplicate ev s = None" and "ae_Fingerprint ev \<noteq> []"
    and "ws_sessionByFingerprint s (ae_Fingerprint ev) = Some sid" and "ws_sessions s sid = Some r"
  shows "\<exists>m s' r'. HandleAlertEvent t ev s = (Inr m, s') \<and> mr_Duplicated m \<and> mr_SessionID m = sid \<and>
    ws_outbox s' = ws_outbox s \<and> ws_sessions s' = (ws_sessions s)(sid \<mapsto> r') \<and>
    sd_Status (sr_detail r') = sd_Status (sr_detail r)"
  using assms
  by (simp add: HandleAlertEvent_def alert_fingerprint_def alert_repeated_def Let_def split del: if_split)
    (rule exI, rule conjI, rule refl, simp)

theorem refired_alert_not_reopened_witness:
  "\<exists>m s'. HandleAlertEvent 500 (db_alert_event\<lparr>ae_IdempotencyKey := ''k2''\<rparr>) one_session = (Inr m, s') \<and>
     mr_Duplicated m \<and> ws_outbox s' = ws_outbox one_session"
proof -
  let ?ev = "db_alert_event\<lparr>ae_IdempotencyKey := ''k2''\<rparr>"
  have a: "alert_duplicate ?ev one_session = None" by code_simp
  have b: "ae_Fingerprint ?ev \<noteq> []" by code_simp
  have c: "ws_sessionByFingerprint one_session (ae_Fingerprint ?ev) = Some ''ses-000001''" by code_simp
  have "map_option (\<lambda>r. ()) (ws_sessions one_session ''ses-000001'') = Some ()" by code_simp
  then obtain r where "ws_sessions one_session ''ses-000001'' = Some r" by auto
  from refired_alert_not_reopened [OF a b c this, of 500] show ?thesis by blast
qed

text \<open>C37: The command of a modified approval is not authorized again: whatever the policy says about it,
  an approval that replaces the command of a pending execution dispatches the replacement.\<close>

theorem modified_approval_unchecked:
  assumes "wf_service s" and "ws_executions s (ce_ExecutionID ev) = Some e" and "runnable e"
    and "ws_executionSession s (ce_ExecutionID ev) = Some sid" and "ce_ExecutionID ev \<noteq> []"
    and "ce_IdempotencyKey ev \<notin> ws_processedEvents s" and "op_ExecutionEnabled (ws_opts s)"
    and "ce_Action ev = ''modify_approve''" and "ce_Command ev \<noteq> []"
  shows "\<exists>res s' x. HandleChannelEvent t ev (s\<lparr>ws_opts := (ws_opts s)\<lparr>op_AuthorizationPolicy := policy\<rparr>\<rparr>) = (Inr res, s') \<and>
    wd_Executions res = [x] \<and> xr_ExecutionID x = ce_ExecutionID ev \<and> xr_Command x = ce_Command ev"
proof -
  let ?s = "s\<lparr>ws_opts := (ws_opts s)\<lparr>op_AuthorizationPolicy := policy\<rparr>\<rparr>"
  have "wf_service ?s" by (rule wf_Reconfigure) (rule assms)
  from approve_dispatches [OF this, of ev e sid t] assms(2-9) show ?thesis by simp
qed

theorem modified_approval_unchecked_witness:
  "\<exists>res s' x. HandleChannelEvent 300 (approve_event ''modify_approve'' [] ''rm -rf /'')
      (waiting_session\<lparr>ws_opts := (ws_opts waiting_session)\<lparr>op_AuthorizationPolicy :=
         Some (EvaluateSSHCommand (Some (New example_policy)))\<rparr>\<rparr>) = (Inr res, s') \<and>
    wd_Executions res = [x] \<and> xr_Command x = ''rm -rf /''"
proof -
  let ?ev = "approve_event ''modify_approve'' [] ''rm -rf /''"
  obtain e where e: "ws_executions waiting_session ''exe-000001'' = Some e" "runnable e" by (rule waiting_runnable)
  show ?thesis
    using modified_approval_unchecked [OF reachable_wf [OF reachable_waiting_session], of ?ev e "''ses-000001''" 300
        "Some (EvaluateSSHCommand (Some (New example_policy)))"] e waiting_execution(2) waiting_flags
    by auto
qed

end
