(* ===== verification/Golden_Path.thy ===== *)
theory Golden_Path
  imports Contracts
begin

text \<open>
  The summaries that the service attaches to the sessions and executions it returns,
  \<^verbatim>\<open>internal/contracts/golden_path.go\<close>: headline, conclusion, risk, evidence and next action of a
  session, headline, approval, result and next action of an execution, and the digests of the
  notifications in a timeline.  \<open>gp_\<close> marks the functions whose Go name is also used by another
  package; the texts of the program that are not ASCII are the constants \<open>gz_...\<close>, lists of their
  UTF-8 bytes.
\<close>

section \<open>Texts\<close>

definition gz_in_progress :: string where "gz_in_progress = [CHR 0xE8, CHR 0xAF, CHR 0x8A, CHR 0xE6, CHR 0x96, CHR 0xAD, CHR 0xE8, CHR 0xBF,
      CHR 0x9B, CHR 0xE8, CHR 0xA1, CHR 0x8C, CHR 0xE4, CHR 0xB8, CHR 0xAD]"
definition gz_conclusion :: string where "gz_conclusion = [CHR 0xE7, CHR 0xBB, CHR 0x93, CHR 0xE8, CHR 0xAE, CHR 0xBA]"
definition gz_summary :: string where "gz_summary = [CHR 0xE6, CHR 0x91, CHR 0x98, CHR 0xE8, CHR 0xA6, CHR 0x81]"
definition gz_evidence :: string where "gz_evidence = [CHR 0xE8, CHR 0xAF, CHR 0x81, CHR 0xE6, CHR 0x8D, CHR 0xAE]"
definition gz_observed :: string where "gz_observed = [CHR 0xE8, CHR 0xA7, CHR 0x82, CHR 0xE5, CHR 0xAF, CHR 0x9F]"
definition gz_advice :: string where "gz_advice = [CHR 0xE5, CHR 0xBB, CHR 0xBA, CHR 0xE8, CHR 0xAE, CHR 0xAE]"
definition gz_next :: string where "gz_next = [CHR 0xE4, CHR 0xB8, CHR 0x8B, CHR 0xE4, CHR 0xB8, CHR 0x80, CHR 0xE6, CHR 0xAD,
      CHR 0xA5]"
definition gz_generated :: string where "gz_generated = [CHR 0xE5, CHR 0xB7, CHR 0xB2, CHR 0xE7, CHR 0x94, CHR 0x9F, CHR 0xE6, CHR 0x88,
      CHR 0x90, CHR 0x20]"
definition gz_attachments :: string where "gz_attachments = [CHR 0x20, CHR 0xE4, CHR 0xB8, CHR 0xAA, CHR 0xE9, CHR 0x99, CHR 0x84, CHR 0xE4,
      CHR 0xBB, CHR 0xB6, CHR 0xE4, CHR 0xBE, CHR 0x9B, CHR 0xE5, CHR 0x9B, CHR 0x9E,
      CHR 0xE6, CHR 0x94, CHR 0xBE, CHR 0xE4, CHR 0xB8, CHR 0x8E, CHR 0xE9, CHR 0xAA,
      CHR 0x8C, CHR 0xE6, CHR 0x94, CHR 0xB6]"
definition gz_collecting :: string where "gz_collecting = [CHR 0xE8, CHR 0xAF, CHR 0x81, CHR 0xE6, CHR 0x8D, CHR 0xAE, CHR 0xE4, CHR 0xBB,
      CHR 0x8D, CHR 0xE5, CHR 0x9C, CHR 0xA8, CHR 0xE6, CHR 0x94, CHR 0xB6, CHR 0xE9,
      CHR 0x9B, CHR 0x86, CHR 0xE4, CHR 0xB8, CHR 0xAD]"
definition gz_wait_approval :: string where "gz_wait_approval = [CHR 0xE7, CHR 0xAD, CHR 0x89, CHR 0xE5, CHR 0xBE, CHR 0x85, CHR 0xE5, CHR 0xAE,
      CHR 0xA1, CHR 0xE6, CHR 0x89, CHR 0xB9, CHR 0xEF, CHR 0xBC, CHR 0x8C, CHR 0xE7,
      CHR 0x9B, CHR 0xAE, CHR 0xE6, CHR 0xA0, CHR 0x87, CHR 0xE5, CHR 0x91, CHR 0xBD,
      CHR 0xE4, CHR 0xBB, CHR 0xA4, CHR 0xEF, CHR 0xBC, CHR 0x9A]"
definition gz_wait_approver :: string where "gz_wait_approver = [CHR 0xE7, CHR 0xAD, CHR 0x89, CHR 0xE5, CHR 0xBE, CHR 0x85, CHR 0xE5, CHR 0xAE,
      CHR 0xA1, CHR 0xE6, CHR 0x89, CHR 0xB9, CHR 0xE4, CHR 0xBA, CHR 0xBA, CHR 0xE7,
      CHR 0xA1, CHR 0xAE, CHR 0xE8, CHR 0xAE, CHR 0xA4, CHR 0xE6, CHR 0x98, CHR 0xAF,
      CHR 0xE5, CHR 0x90, CHR 0xA6, CHR 0xE6, CHR 0x89, CHR 0xA7, CHR 0xE8, CHR 0xA1,
      CHR 0x8C]"
definition gz_wait_execution :: string where "gz_wait_execution = [CHR 0xE7, CHR 0xAD, CHR 0x89, CHR 0xE5, CHR 0xBE, CHR 0x85, CHR 0xE6, CHR 0x89,
      CHR 0xA7, CHR 0xE8, CHR 0xA1, CHR 0x8C, CHR 0xE5, CHR 0xAE, CHR 0x8C, CHR 0xE6,
      CHR 0x88, CHR 0x90, CHR 0xEF, CHR 0xBC, CHR 0x9A]"
definition gz_wait_result :: string where "gz_wait_result = [CHR 0xE7, CHR 0xAD, CHR 0x89, CHR 0xE5, CHR 0xBE, CHR 0x85, CHR 0xE6, CHR 0x89,
      CHR 0xA7, CHR 0xE8, CHR 0xA1, CHR 0x8C, CHR 0xE5, CHR 0xAE, CHR 0x8C, CHR 0xE6,
      CHR 0x88, CHR 0x90, CHR 0xE5, CHR 0xB9, CHR 0xB6, CHR 0xE5, CHR 0x9B, CHR 0x9E,
      CHR 0xE4, CHR 0xBC, CHR 0xA0, CHR 0xE7, CHR 0xBB, CHR 0x93, CHR 0xE6, CHR 0x9E,
      CHR 0x9C]"
definition gz_wait_verify :: string where "gz_wait_verify = [CHR 0xE7, CHR 0xAD, CHR 0x89, CHR 0xE5, CHR 0xBE, CHR 0x85, CHR 0xE6, CHR 0xA0,
      CHR 0xA1, CHR 0xE9, CHR 0xAA, CHR 0x8C, CHR 0xE7, CHR 0xBB, CHR 0x93, CHR 0xE6,
      CHR 0x9E, CHR 0x9C, CHR 0xEF, CHR 0xBC, CHR 0x8C, CHR 0xE7, CHR 0xA1, CHR 0xAE,
      CHR 0xE8, CHR 0xAE, CHR 0xA4, CHR 0xE6, CHR 0x95, CHR 0x85, CHR 0xE9, CHR 0x9A,
      CHR 0x9C, CHR 0xE6, CHR 0x98, CHR 0xAF, CHR 0xE5, CHR 0x90, CHR 0xA6, CHR 0xE6,
      CHR 0x81, CHR 0xA2, CHR 0xE5, CHR 0xA4, CHR 0x8D]"
definition gz_closed :: string where "gz_closed = [CHR 0xE9, CHR 0x97, CHR 0xAD, CHR 0xE7, CHR 0x8E, CHR 0xAF, CHR 0xE5, CHR 0xAE,
      CHR 0x8C, CHR 0xE6, CHR 0x88, CHR 0x90, CHR 0xEF, CHR 0xBC, CHR 0x8C, CHR 0xE5,
      CHR 0x8F, CHR 0xAF, CHR 0xE7, CHR 0x9B, CHR 0xB4, CHR 0xE6, CHR 0x8E, CHR 0xA5,
      CHR 0xE5, CHR 0x9B, CHR 0x9E, CHR 0xE6, CHR 0x94, CHR 0xBE, CHR 0xE8, CHR 0xAF,
      CHR 0x81, CHR 0xE6, CHR 0x8D, CHR 0xAE, CHR 0xE4, CHR 0xB8, CHR 0x8E, CHR 0xE6,
      CHR 0x89, CHR 0xA7, CHR 0xE8, CHR 0xA1, CHR 0x8C, CHR 0xE7, CHR 0xBB, CHR 0x93,
      CHR 0xE6, CHR 0x9E, CHR 0x9C]"
definition gz_failed_retry :: string where "gz_failed_retry = [CHR 0xE6, CHR 0x9F, CHR 0xA5, CHR 0xE7, CHR 0x9C, CHR 0x8B, CHR 0xE5, CHR 0xA4,
      CHR 0xB1, CHR 0xE8, CHR 0xB4, CHR 0xA5, CHR 0xE6, CHR 0x89, CHR 0xA7, CHR 0xE8,
      CHR 0xA1, CHR 0x8C, CHR 0xE5, CHR 0xB9, CHR 0xB6, CHR 0xE5, CHR 0x86, CHR 0xB3,
      CHR 0xE5, CHR 0xAE, CHR 0x9A, CHR 0xE6, CHR 0x98, CHR 0xAF, CHR 0xE5, CHR 0x90,
      CHR 0xA6, CHR 0xE9, CHR 0x87, CHR 0x8D, CHR 0xE8, CHR 0xAF, CHR 0x95, CHR 0xEF,
      CHR 0xBC, CHR 0x9A]"
definition gz_failed_reason :: string where "gz_failed_reason = [CHR 0xE6, CHR 0x9F, CHR 0xA5, CHR 0xE7, CHR 0x9C, CHR 0x8B, CHR 0xE5, CHR 0xA4,
      CHR 0xB1, CHR 0xE8, CHR 0xB4, CHR 0xA5, CHR 0xE5, CHR 0x8E, CHR 0x9F, CHR 0xE5,
      CHR 0x9B, CHR 0xA0, CHR 0xE5, CHR 0xB9, CHR 0xB6, CHR 0xE8, CHR 0xA1, CHR 0xA5,
      CHR 0xE5, CHR 0x85, CHR 0x85, CHR 0xE8, CHR 0xAF, CHR 0x8A, CHR 0xE6, CHR 0x96,
      CHR 0xAD, CHR 0xE8, CHR 0xAF, CHR 0x81, CHR 0xE6, CHR 0x8D, CHR 0xAE]"
definition gz_open_rejected :: string where "gz_open_rejected = [CHR 0xE5, CHR 0xAE, CHR 0xA1, CHR 0xE6, CHR 0x89, CHR 0xB9, CHR 0xE8, CHR 0xA2,
      CHR 0xAB, CHR 0xE6, CHR 0x8B, CHR 0x92, CHR 0xE7, CHR 0xBB, CHR 0x9D, CHR 0xEF,
      CHR 0xBC, CHR 0x8C, CHR 0xE5, CHR 0xBB, CHR 0xBA, CHR 0xE8, CHR 0xAE, CHR 0xAE,
      CHR 0xE8, CHR 0xA1, CHR 0xA5, CHR 0xE5, CHR 0x85, CHR 0x85, CHR 0xE4, CHR 0xB8,
      CHR 0x8A, CHR 0xE4, CHR 0xB8, CHR 0x8B, CHR 0xE6, CHR 0x96, CHR 0x87, CHR 0xE5,
      CHR 0x90, CHR 0x8E, CHR 0xE9, CHR 0x87, CHR 0x8D, CHR 0xE6, CHR 0x96, CHR 0xB0,
      CHR 0xE5, CHR 0x88, CHR 0x86, CHR 0xE6, CHR 0x9E, CHR 0x90]"
definition gz_open :: string where "gz_open = [CHR 0xE7, CHR 0xBB, CHR 0xA7, CHR 0xE7, CHR 0xBB, CHR 0xAD, CHR 0xE8, CHR 0xA7,
      CHR 0x82, CHR 0xE5, CHR 0xAF, CHR 0x9F, CHR 0xE8, CHR 0xAF, CHR 0x8A, CHR 0xE6,
      CHR 0x96, CHR 0xAD, CHR 0xE7, CHR 0xBB, CHR 0x93, CHR 0xE8, CHR 0xAE, CHR 0xBA,
      CHR 0xEF, CHR 0xBC, CHR 0x8C, CHR 0xE5, CHR 0xBF, CHR 0x85, CHR 0xE8, CHR 0xA6,
      CHR 0x81, CHR 0xE6, CHR 0x97, CHR 0xB6, CHR 0xE6, CHR 0x89, CHR 0x8B, CHR 0xE5,
      CHR 0x8A, CHR 0xA8, CHR 0xE6, CHR 0x8E, CHR 0xA8, CHR 0xE8, CHR 0xBF, CHR 0x9B]"
definition gz_wait_diagnosis :: string where "gz_wait_diagnosis = [CHR 0xE7, CHR 0xAD, CHR 0x89, CHR 0xE5, CHR 0xBE, CHR 0x85, CHR 0xE8, CHR 0xAF,
      CHR 0x8A, CHR 0xE6, CHR 0x96, CHR 0xAD, CHR 0xE4, CHR 0xB8, CHR 0x8E, CHR 0xE8,
      CHR 0xAF, CHR 0x81, CHR 0xE6, CHR 0x8D, CHR 0xAE, CHR 0xE6, CHR 0x94, CHR 0xB6,
      CHR 0xE5, CHR 0x8F, CHR 0xA3]"
definition gz_no_execution :: string where "gz_no_execution = [CHR 0xE5, CHR 0xBD, CHR 0x93, CHR 0xE5, CHR 0x89, CHR 0x8D, CHR 0xE6, CHR 0x9C,
      CHR 0xAA, CHR 0xE7, CHR 0x94, CHR 0x9F, CHR 0xE6, CHR 0x88, CHR 0x90, CHR 0xE6,
      CHR 0x89, CHR 0xA7, CHR 0xE8, CHR 0xA1, CHR 0x8C, CHR 0xE5, CHR 0x8A, CHR 0xA8,
      CHR 0xE4, CHR 0xBD, CHR 0x9C]"
definition gz_latest_action :: string where "gz_latest_action = [CHR 0xE6, CHR 0x9C, CHR 0x80, CHR 0xE6, CHR 0x96, CHR 0xB0, CHR 0xE5, CHR 0x8A,
      CHR 0xA8, CHR 0xE4, CHR 0xBD, CHR 0x9C, CHR 0x20]"
definition gz_colon :: string where "gz_colon = [CHR 0xEF, CHR 0xBC, CHR 0x9A]"
definition gz_no_notification :: string where "gz_no_notification = [CHR 0xE5, CHR 0xBD, CHR 0x93, CHR 0xE5, CHR 0x89, CHR 0x8D, CHR 0xE6, CHR 0x9C,
      CHR 0xAA, CHR 0xE7, CHR 0x94, CHR 0x9F, CHR 0xE6, CHR 0x88, CHR 0x90, CHR 0xE9,
      CHR 0x80, CHR 0x9A, CHR 0xE7, CHR 0x9F, CHR 0xA5, CHR 0xE6, CHR 0xB6, CHR 0x88,
      CHR 0xE6, CHR 0x81, CHR 0xAF]"
definition gz_latest_notification :: string where "gz_latest_notification = [CHR 0xE6, CHR 0x9C, CHR 0x80, CHR 0xE8, CHR 0xBF, CHR 0x91, CHR 0xE9, CHR 0x80,
      CHR 0x9A, CHR 0xE7, CHR 0x9F, CHR 0xA5, CHR 0x20]"
definition gz_target :: string where "gz_target = [CHR 0xE7, CHR 0x9B, CHR 0xAE, CHR 0xE6, CHR 0xA0, CHR 0x87, CHR 0x20]"
definition gz_comma :: string where "gz_comma = [CHR 0xEF, CHR 0xBC, CHR 0x8C]"
definition gz_execution :: string where "gz_execution = [CHR 0xE6, CHR 0x89, CHR 0xA7, CHR 0xE8, CHR 0xA1, CHR 0x8C]"
definition gz_capability :: string where "gz_capability = [CHR 0xE8, CHR 0x83, CHR 0xBD, CHR 0xE5, CHR 0x8A, CHR 0x9B, CHR 0xE8, CHR 0xB0,
      CHR 0x83, CHR 0xE7, CHR 0x94, CHR 0xA8]"
definition gz_awaiting_group :: string where "gz_awaiting_group = [CHR 0xE5, CHR 0xBE, CHR 0x85, CHR 0xE5, CHR 0xAE, CHR 0xA1, CHR 0xE6, CHR 0x89,
      CHR 0xB9, CHR 0xEF, CHR 0xBC, CHR 0x8C, CHR 0xE5, CHR 0xAE, CHR 0xA1, CHR 0xE6,
      CHR 0x89, CHR 0xB9, CHR 0xE7, CHR 0xBB, CHR 0x84, CHR 0x20]"
definition gz_unspecified :: string where "gz_unspecified = [CHR 0xE6, CHR 0x9C, CHR 0xAA, CHR 0xE6, CHR 0x8C, CHR 0x87, CHR 0xE5, CHR 0xAE,
      CHR 0x9A]"
definition gz_approved_at :: string where "gz_approved_at = [CHR 0xE5, CHR 0xB7, CHR 0xB2, CHR 0xE5, CHR 0xAE, CHR 0xA1, CHR 0xE6, CHR 0x89,
      CHR 0xB9, CHR 0xEF, CHR 0xBC, CHR 0x8C, CHR 0xE6, CHR 0x97, CHR 0xB6, CHR 0xE9,
      CHR 0x97, CHR 0xB4, CHR 0x20]"
definition gz_by_group :: string where "gz_by_group = [CHR 0xE6, CHR 0x8C, CHR 0x89, CHR 0xE5, CHR 0xAE, CHR 0xA1, CHR 0xE6, CHR 0x89,
      CHR 0xB9, CHR 0xE7, CHR 0xBB, CHR 0x84, CHR 0x20]"
definition gz_enter_chain :: string where "gz_enter_chain = [CHR 0x20, CHR 0xE8, CHR 0xBF, CHR 0x9B, CHR 0xE5, CHR 0x85, CHR 0xA5, CHR 0xE6,
      CHR 0x89, CHR 0xA7, CHR 0xE8, CHR 0xA1, CHR 0x8C, CHR 0xE9, CHR 0x93, CHR 0xBE,
      CHR 0xE8, CHR 0xB7, CHR 0xAF]"
definition gz_not_approved :: string where "gz_not_approved = [CHR 0xE5, CHR 0xAE, CHR 0xA1, CHR 0xE6, CHR 0x89, CHR 0xB9, CHR 0xE6, CHR 0x9C,
      CHR 0xAA, CHR 0xE9, CHR 0x80, CHR 0x9A, CHR 0xE8, CHR 0xBF, CHR 0x87]"
definition gz_no_approval :: string where "gz_no_approval = [CHR 0xE6, CHR 0x9C, CHR 0xAA, CHR 0xE8, CHR 0xA7, CHR 0xA6, CHR 0xE5, CHR 0x8F,
      CHR 0x91, CHR 0xE5, CHR 0xAE, CHR 0xA1, CHR 0xE6, CHR 0x89, CHR 0xB9, CHR 0xE4,
      CHR 0xBF, CHR 0xA1, CHR 0xE6, CHR 0x81, CHR 0xAF]"
definition gz_done_verified :: string where "gz_done_verified = [CHR 0xE6, CHR 0x89, CHR 0xA7, CHR 0xE8, CHR 0xA1, CHR 0x8C, CHR 0xE5, CHR 0xAE,
      CHR 0x8C, CHR 0xE6, CHR 0x88, CHR 0x90, CHR 0xEF, CHR 0xBC, CHR 0x8C, CHR 0xE6,
      CHR 0xA0, CHR 0xA1, CHR 0xE9, CHR 0xAA, CHR 0x8C, CHR 0xE7, CHR 0x8A, CHR 0xB6,
      CHR 0xE6, CHR 0x80, CHR 0x81, CHR 0x20]"
definition gz_done_exit :: string where "gz_done_exit = [CHR 0xE6, CHR 0x89, CHR 0xA7, CHR 0xE8, CHR 0xA1, CHR 0x8C, CHR 0xE5, CHR 0xAE,
      CHR 0x8C, CHR 0xE6, CHR 0x88, CHR 0x90, CHR 0xEF, CHR 0xBC, CHR 0x8C, CHR 0xE9,
      CHR 0x80, CHR 0x80, CHR 0xE5, CHR 0x87, CHR 0xBA, CHR 0xE7, CHR 0xA0, CHR 0x81,
      CHR 0x20]"
definition gz_output :: string where "gz_output = [CHR 0xEF, CHR 0xBC, CHR 0x8C, CHR 0xE8, CHR 0xBE, CHR 0x93, CHR 0xE5, CHR 0x87,
      CHR 0xBA, CHR 0x20]"
definition gz_failed_exit :: string where "gz_failed_exit = [CHR 0xE6, CHR 0x89, CHR 0xA7, CHR 0xE8, CHR 0xA1, CHR 0x8C, CHR 0xE5, CHR 0xA4,
      CHR 0xB1, CHR 0xE8, CHR 0xB4, CHR 0xA5, CHR 0xEF, CHR 0xBC, CHR 0x8C, CHR 0xE9,
      CHR 0x80, CHR 0x80, CHR 0xE5, CHR 0x87, CHR 0xBA, CHR 0xE7, CHR 0xA0, CHR 0x81,
      CHR 0x20]"
definition gz_timeout :: string where "gz_timeout = [CHR 0xE6, CHR 0x89, CHR 0xA7, CHR 0xE8, CHR 0xA1, CHR 0x8C, CHR 0xE8, CHR 0xB6,
      CHR 0x85, CHR 0xE6, CHR 0x97, CHR 0xB6, CHR 0xEF, CHR 0xBC, CHR 0x8C, CHR 0xE9,
      CHR 0x9C, CHR 0x80, CHR 0xE4, CHR 0xBA, CHR 0xBA, CHR 0xE5, CHR 0xB7, CHR 0xA5,
      CHR 0xE7, CHR 0xA1, CHR 0xAE, CHR 0xE8, CHR 0xAE, CHR 0xA4, CHR 0xE7, CHR 0x9B,
      CHR 0xAE, CHR 0xE6, CHR 0xA0, CHR 0x87, CHR 0xE4, CHR 0xBE, CHR 0xA7, CHR 0xE7,
      CHR 0x8A, CHR 0xB6, CHR 0xE6, CHR 0x80, CHR 0x81]"
definition gz_running :: string where "gz_running = [CHR 0xE6, CHR 0x89, CHR 0xA7, CHR 0xE8, CHR 0xA1, CHR 0x8C, CHR 0xE4, CHR 0xB8,
      CHR 0xAD, CHR 0xEF, CHR 0xBC, CHR 0x8C, CHR 0xE7, CHR 0xAD, CHR 0x89, CHR 0xE5,
      CHR 0xBE, CHR 0x85, CHR 0xE7, CHR 0xBB, CHR 0x93, CHR 0xE6, CHR 0x9E, CHR 0x9C,
      CHR 0xE5, CHR 0x9B, CHR 0x9E, CHR 0xE4, CHR 0xBC, CHR 0xA0]"
definition gz_not_started :: string where "gz_not_started = [CHR 0xE5, CHR 0xB0, CHR 0x9A, CHR 0xE6, CHR 0x9C, CHR 0xAA, CHR 0xE5, CHR 0xBC,
      CHR 0x80, CHR 0xE5, CHR 0xA7, CHR 0x8B, CHR 0xE6, CHR 0x89, CHR 0xA7, CHR 0xE8,
      CHR 0xA1, CHR 0x8C]"
definition gz_rejected :: string where "gz_rejected = [CHR 0xE5, CHR 0xAE, CHR 0xA1, CHR 0xE6, CHR 0x89, CHR 0xB9, CHR 0xE6, CHR 0x8B,
      CHR 0x92, CHR 0xE7, CHR 0xBB, CHR 0x9D, CHR 0xEF, CHR 0xBC, CHR 0x8C, CHR 0xE6,
      CHR 0x9C, CHR 0xAA, CHR 0xE6, CHR 0x89, CHR 0xA7, CHR 0xE8, CHR 0xA1, CHR 0x8C]"
definition gz_current_status :: string where "gz_current_status = [CHR 0xE5, CHR 0xBD, CHR 0x93, CHR 0xE5, CHR 0x89, CHR 0x8D, CHR 0xE7, CHR 0x8A,
      CHR 0xB6, CHR 0xE6, CHR 0x80, CHR 0x81, CHR 0x20]"
definition gz_decide_inbox :: string where "gz_decide_inbox = [CHR 0xE5, CHR 0x9C, CHR 0xA8, CHR 0x20, CHR 0x54, CHR 0x65, CHR 0x6C, CHR 0x65,
      CHR 0x67, CHR 0x72, CHR 0x61, CHR 0x6D, CHR 0x20, CHR 0x2F, CHR 0x20, CHR 0x49,
      CHR 0x6E, CHR 0x62, CHR 0x6F, CHR 0x78, CHR 0x20, CHR 0xE4, CHR 0xB8, CHR 0xAD,
      CHR 0xE5, CHR 0xAE, CHR 0x8C, CHR 0xE6, CHR 0x88, CHR 0x90, CHR 0xE5, CHR 0xAE,
      CHR 0xA1, CHR 0xE6, CHR 0x89, CHR 0xB9, CHR 0xE6, CHR 0x88, CHR 0x96, CHR 0xE6,
      CHR 0x8B, CHR 0x92, CHR 0xE7, CHR 0xBB, CHR 0x9D]"
definition gz_wait_output :: string where "gz_wait_output = [CHR 0xE7, CHR 0xAD, CHR 0x89, CHR 0xE5, CHR 0xBE, CHR 0x85, CHR 0xE6, CHR 0x89,
      CHR 0xA7, CHR 0xE8, CHR 0xA1, CHR 0x8C, CHR 0xE5, CHR 0xAE, CHR 0x8C, CHR 0xE6,
      CHR 0x88, CHR 0x90, CHR 0xE5, CHR 0xB9, CHR 0xB6, CHR 0xE6, CHR 0x9F, CHR 0xA5,
      CHR 0xE7, CHR 0x9C, CHR 0x8B, CHR 0xE8, CHR 0xBE, CHR 0x93, CHR 0xE5, CHR 0x87,
      CHR 0xBA]"
definition gz_wait_step :: string where "gz_wait_step = [CHR 0xE7, CHR 0xAD, CHR 0x89, CHR 0xE5, CHR 0xBE, CHR 0x85, CHR 0xE6, CHR 0xA0,
      CHR 0xA1, CHR 0xE9, CHR 0xAA, CHR 0x8C, CHR 0xE6, CHR 0xAD, CHR 0xA5, CHR 0xE9,
      CHR 0xAA, CHR 0xA4, CHR 0xE7, CHR 0xA1, CHR 0xAE, CHR 0xE8, CHR 0xAE, CHR 0xA4,
      CHR 0xE6, CHR 0x98, CHR 0xAF, CHR 0xE5, CHR 0x90, CHR 0xA6, CHR 0xE6, CHR 0x81,
      CHR 0xA2, CHR 0xE5, CHR 0xA4, CHR 0x8D]"
definition gz_session_closed :: string where "gz_session_closed = [CHR 0xE4, CHR 0xBC, CHR 0x9A, CHR 0xE8, CHR 0xAF, CHR 0x9D, CHR 0xE5, CHR 0xB7,
      CHR 0xB2, CHR 0xE9, CHR 0x97, CHR 0xAD, CHR 0xE7, CHR 0x8E, CHR 0xAF, CHR 0xEF,
      CHR 0xBC, CHR 0x8C, CHR 0xE5, CHR 0x8F, CHR 0xAF, CHR 0xE5, CHR 0x9B, CHR 0x9E,
      CHR 0xE6, CHR 0x94, CHR 0xBE, CHR 0xE8, CHR 0xBE, CHR 0x93, CHR 0xE5, CHR 0x87,
      CHR 0xBA, CHR 0xE4, CHR 0xB8, CHR 0x8E, CHR 0xE6, CHR 0xA0, CHR 0xA1, CHR 0xE9,
      CHR 0xAA, CHR 0x8C, CHR 0xE7, CHR 0xBB, CHR 0x93, CHR 0xE6, CHR 0x9E, CHR 0x9C]"
definition gz_check_output :: string where "gz_check_output = [CHR 0xE6, CHR 0x9F, CHR 0xA5, CHR 0xE7, CHR 0x9C, CHR 0x8B, CHR 0xE8, CHR 0xBE,
      CHR 0x93, CHR 0xE5, CHR 0x87, CHR 0xBA, CHR 0xE5, CHR 0xB9, CHR 0xB6, CHR 0xE7,
      CHR 0xA1, CHR 0xAE, CHR 0xE8, CHR 0xAE, CHR 0xA4, CHR 0xE6, CHR 0x98, CHR 0xAF,
      CHR 0xE5, CHR 0x90, CHR 0xA6, CHR 0xE9, CHR 0x9C, CHR 0x80, CHR 0xE8, CHR 0xA6,
      CHR 0x81, CHR 0xE7, CHR 0xBB, CHR 0xA7, CHR 0xE7, CHR 0xBB, CHR 0xAD, CHR 0xE6,
      CHR 0xA0, CHR 0xA1, CHR 0xE9, CHR 0xAA, CHR 0x8C]"
definition gz_output_ref :: string where "gz_output_ref = [CHR 0xE6, CHR 0x9F, CHR 0xA5, CHR 0xE7, CHR 0x9C, CHR 0x8B, CHR 0xE8, CHR 0xBE,
      CHR 0x93, CHR 0xE5, CHR 0x87, CHR 0xBA, CHR 0xE5, CHR 0xBC, CHR 0x95, CHR 0xE7,
      CHR 0x94, CHR 0xA8, CHR 0xE5, CHR 0xB9, CHR 0xB6, CHR 0xE5, CHR 0x86, CHR 0xB3,
      CHR 0xE5, CHR 0xAE, CHR 0x9A, CHR 0xE6, CHR 0x98, CHR 0xAF, CHR 0xE5, CHR 0x90,
      CHR 0xA6, CHR 0xE9, CHR 0x87, CHR 0x8D, CHR 0xE8, CHR 0xAF, CHR 0x95, CHR 0xEF,
      CHR 0xBC, CHR 0x9A]"
definition gz_failed_output :: string where "gz_failed_output = [CHR 0xE6, CHR 0x9F, CHR 0xA5, CHR 0xE7, CHR 0x9C, CHR 0x8B, CHR 0xE5, CHR 0xA4,
      CHR 0xB1, CHR 0xE8, CHR 0xB4, CHR 0xA5, CHR 0xE8, CHR 0xBE, CHR 0x93, CHR 0xE5,
      CHR 0x87, CHR 0xBA, CHR 0xE5, CHR 0xB9, CHR 0xB6, CHR 0xE5, CHR 0x86, CHR 0xB3,
      CHR 0xE5, CHR 0xAE, CHR 0x9A, CHR 0xE6, CHR 0x98, CHR 0xAF, CHR 0xE5, CHR 0x90,
      CHR 0xA6, CHR 0xE9, CHR 0x87, CHR 0x8D, CHR 0xE8, CHR 0xAF, CHR 0x95]"
definition gz_back_to_session :: string where "gz_back_to_session = [CHR 0xE5, CHR 0xAE, CHR 0xA1, CHR 0xE6, CHR 0x89, CHR 0xB9, CHR 0xE8, CHR 0xA2,
      CHR 0xAB, CHR 0xE6, CHR 0x8B, CHR 0x92, CHR 0xE7, CHR 0xBB, CHR 0x9D, CHR 0xEF,
      CHR 0xBC, CHR 0x8C, CHR 0xE5, CHR 0xBF, CHR 0x85, CHR 0xE8, CHR 0xA6, CHR 0x81,
      CHR 0xE6, CHR 0x97, CHR 0xB6, CHR 0xE5, CHR 0x9B, CHR 0x9E, CHR 0xE5, CHR 0x88,
      CHR 0xB0, CHR 0xE4, CHR 0xBC, CHR 0x9A, CHR 0xE8, CHR 0xAF, CHR 0x9D, CHR 0xE8,
      CHR 0xA1, CHR 0xA5, CHR 0xE5, CHR 0x85, CHR 0x85, CHR 0xE8, CHR 0xAF, CHR 0x81,
      CHR 0xE6, CHR 0x8D, CHR 0xAE]"
definition gz_continue :: string where "gz_continue = [CHR 0xE6, CHR 0x9F, CHR 0xA5, CHR 0xE7, CHR 0x9C, CHR 0x8B, CHR 0xE5, CHR 0xBD,
      CHR 0x93, CHR 0xE5, CHR 0x89, CHR 0x8D, CHR 0xE7, CHR 0x8A, CHR 0xB6, CHR 0xE6,
      CHR 0x80, CHR 0x81, CHR 0xE5, CHR 0xB9, CHR 0xB6, CHR 0xE6, CHR 0x8C, CHR 0x89,
      CHR 0xE4, CHR 0xBC, CHR 0x9A, CHR 0xE8, CHR 0xAF, CHR 0x9D, CHR 0xE9, CHR 0x93,
      CHR 0xBE, CHR 0xE8, CHR 0xB7, CHR 0xAF, CHR 0xE7, CHR 0xBB, CHR 0xA7, CHR 0xE7,
      CHR 0xBB, CHR 0xAD, CHR 0xE6, CHR 0x8E, CHR 0xA8, CHR 0xE8, CHR 0xBF, CHR 0x9B]"
definition gz_no_command :: string where "gz_no_command = [CHR 0xE6, CHR 0x9C, CHR 0xAA, CHR 0xE8, CHR 0xAE, CHR 0xB0, CHR 0xE5, CHR 0xBD,
      CHR 0x95, CHR 0xE5, CHR 0x91, CHR 0xBD, CHR 0xE4, CHR 0xBB, CHR 0xA4]"
definition gz_send_diagnosis :: string where "gz_send_diagnosis = [CHR 0xE5, CHR 0x8F, CHR 0x91, CHR 0xE9, CHR 0x80, CHR 0x81, CHR 0xE8, CHR 0xAF,
      CHR 0x8A, CHR 0xE6, CHR 0x96, CHR 0xAD, CHR 0xE7, CHR 0xBB, CHR 0x93, CHR 0xE8,
      CHR 0xAE, CHR 0xBA]"
definition gz_ask_approval :: string where "gz_ask_approval = [CHR 0xE8, CHR 0xAF, CHR 0xB7, CHR 0xE6, CHR 0xB1, CHR 0x82, CHR 0xE4, CHR 0xBA,
      CHR 0xBA, CHR 0xE5, CHR 0xB7, CHR 0xA5, CHR 0xE5, CHR 0xAE, CHR 0xA1, CHR 0xE6,
      CHR 0x89, CHR 0xB9]"

section \<open>Helpers\<close>

definition alertString :: "valmap \<Rightarrow> string \<Rightarrow> string" where
  "alertString alert key = (case map_of alert key of Some (VString value) \<Rightarrow> TrimSpace value | _ \<Rightarrow> [])"

definition gp_alertLabel :: "valmap \<Rightarrow> string \<Rightarrow> string" where
  "gp_alertLabel alert key =
     (case map_of alert ''labels'' of
        Some (VMap labels) \<Rightarrow>
          (case map_of labels key of Some (VString value) \<Rightarrow> TrimSpace value | _ \<Rightarrow> [])
      | _ \<Rightarrow> [])"

definition alertAnnotation :: "valmap \<Rightarrow> string \<Rightarrow> string" where
  "alertAnnotation alert key =
     (case map_of alert ''annotations'' of
        Some (VMap annotations) \<Rightarrow>
          (case map_of annotations key of Some (VString value) \<Rightarrow> TrimSpace value | _ \<Rightarrow> [])
      | _ \<Rightarrow> [])"

definition compactText :: "string \<Rightarrow> int \<Rightarrow> string" where
  "compactText value limit =
     (let trimmed = Join (Fields (TrimSpace value)) '' '' in
      if limit \<le> 0 \<or> int (length trimmed) \<le> limit then trimmed
      else if limit \<le> 3 then take (nat limit) trimmed
      else take (nat (limit - 3)) trimmed @ ''...'')"

fun gp_firstNonEmpty :: "string list \<Rightarrow> string" where
  "gp_firstNonEmpty [] = []"
| "gp_firstNonEmpty (value # values) =
     (let trimmed = TrimSpace value in if trimmed \<noteq> [] then trimmed else gp_firstNonEmpty values)"

definition normalizeHeaderText :: "string \<Rightarrow> string" where
  "normalizeHeaderText line = ToLower (Join (Fields (TrimSpace line)) '' '')"

definition normalizeHeaderLine :: "string \<Rightarrow> string" where
  "normalizeHeaderLine line =
     (let trimmed = TrimSpace (TrimLeft line ''#* '') in normalizeHeaderText (TrimSuffix trimmed '':''))"

definition header_names :: "string list" where
  "header_names =
     [''conclusion'', ''root cause'', ''summary'', ''evidence'', ''observed'', ''recommended action'',
      ''next steps'', gz_conclusion, gz_evidence, gz_observed, gz_advice, gz_next, gz_summary]"

definition isHeaderLine :: "string \<Rightarrow> bool" where
  "isHeaderLine line =
     (let trimmed = TrimSpace line in
      if trimmed = [] then False
      else if HasPrefix trimmed ''###'' \<or> HasPrefix trimmed ''##'' then True
      else if HasPrefix trimmed ''**'' \<and> HasSuffix trimmed ''**'' then True
      else
        (let normalized = normalizeHeaderLine trimmed in
         list_ex (\<lambda>candidate. normalized = normalizeHeaderText candidate) header_names))"

definition body_lines :: "string \<Rightarrow> string list" where
  "body_lines body = split_char (CHR 0x0A) (ReplaceAll body [CHR 0x0D, CHR 0x0A] [CHR 0x0A])"

text \<open>The loop over the lines below a header.\<close>

fun collect_section :: "string list \<Rightarrow> string list \<Rightarrow> string list" where
  "collect_section collected [] = collected"
| "collect_section collected (line # lines) =
     (let candidate = TrimSpace line in
      if candidate = [] then (if collected \<noteq> [] then collected else collect_section collected lines)
      else if isHeaderLine candidate then collected
      else
        (let collected' = collected @ [TrimLeft candidate ''-*0123456789. ''] in
         if 2 \<le> length collected' then collected' else collect_section collected' lines))"

fun section_loop :: "string list \<Rightarrow> string list \<Rightarrow> string" where
  "section_loop headers [] = []"
| "section_loop headers (line # lines) =
     (let normalized = normalizeHeaderLine line in
      if list_ex (\<lambda>header. normalized = normalizeHeaderText header) headers
      then compactText (Join (collect_section [] lines) '' '') 160
      else section_loop headers lines)"

definition extractSummarySection :: "string \<Rightarrow> string list \<Rightarrow> string" where
  "extractSummarySection body headers =
     (if TrimSpace body = [] then [] else section_loop headers (body_lines body))"

fun meaningful_loop :: "string list \<Rightarrow> string" where
  "meaningful_loop [] = []"
| "meaningful_loop (line # lines) =
     (let trimmed = TrimSpace line in
      if trimmed = [] \<or> isHeaderLine trimmed then meaningful_loop lines
      else
        (let trimmed' = TrimSpace (Trim trimmed ''*#`>'') in
         if trimmed' \<noteq> [] then compactText trimmed' 160 else meaningful_loop lines))"

definition firstMeaningfulLine :: "string \<Rightarrow> string" where
  "firstMeaningfulLine body = meaningful_loop (body_lines body)"

definition cut_marker :: "string \<Rightarrow> string \<Rightarrow> string \<Rightarrow> string" where
  "cut_marker pfx value marker =
     (if marker = '' '' @ pfx then value
      else (case Index value marker of Some next \<Rightarrow> take next value | None \<Rightarrow> value))"

definition extractKV :: "string \<Rightarrow> string \<Rightarrow> string" where
  "extractKV body pfx =
     (case Index body pfx of
        None \<Rightarrow> []
      | Some idx \<Rightarrow>
          TrimSpace (foldl (cut_marker pfx) (drop (idx + length pfx) body) ['' body='', '' target='']))"

definition parseNotificationTimelineMessage :: "string \<Rightarrow> string \<times> string" where
  "parseNotificationTimelineMessage message =
     (let target = extractKV message ''target='';
          body = extractKV message ''body='';
          body' = (if body = [] then TrimSpace message else body)
      in (target, compactText body' 160))"

definition notificationStageAndReason :: "string \<Rightarrow> string \<times> string" where
  "notificationStageAndReason eventType =
     (let e = TrimSpace eventType in
      if e = ''diagnosis_message_prepared'' then (''diagnosis'', gz_send_diagnosis)
      else if e = ''approval_message_prepared'' then (''approval'', gz_ask_approval)
      else ([], []))"

definition severityToRisk :: "string \<Rightarrow> string" where
  "severityToRisk severity =
     (let sv = ToLower (TrimSpace severity) in
      if sv \<in> {''critical'', ''fatal'', ''page''} then ''critical''
      else if sv \<in> {''warning'', ''warn''} then ''warning''
      else ''info'')"

section \<open>Executions\<close>

definition latestExecution :: "ExecutionDetail list \<Rightarrow> ExecutionDetail option" where
  "latestExecution items = (if items = [] then None else Some (last items))"

definition executionCommandPreview :: "ExecutionDetail \<Rightarrow> string" where
  "executionCommandPreview detail =
     (if ed_RequestKind detail = ''capability''
      then compactText (gp_firstNonEmpty [ed_CapabilityID detail, ed_ConnectorID detail @ '' capability'']) 96
      else compactText (gp_firstNonEmpty [ed_Command detail, gz_no_command]) 96)"

definition executionTargetFromSession :: "SessionDetail option \<Rightarrow> string" where
  "executionTargetFromSession session =
     (case session of
        None \<Rightarrow> []
      | Some d \<Rightarrow> gp_firstNonEmpty [alertString (sd_Alert d) ''host'', gp_alertLabel (sd_Alert d) ''instance''])"

definition executionHeadline :: "ExecutionDetail \<Rightarrow> SessionDetail option \<Rightarrow> string" where
  "executionHeadline detail session =
     (let pfx = (if ed_RequestKind detail = ''capability'' then gz_capability else gz_execution);
          target = gp_firstNonEmpty [TrimSpace (ed_TargetHost detail), executionTargetFromSession session,
                                     ''unknown-target'']
      in pfx @ '' '' @ executionCommandPreview detail @ '' @ '' @ target)"

definition executionApprovalSummary :: "ExecutionDetail \<Rightarrow> string" where
  "executionApprovalSummary detail =
     (let st = ed_Status detail in
      if st = ''pending''
      then gz_awaiting_group @ gp_firstNonEmpty [TrimSpace (ed_ApprovalGroup detail), gz_unspecified]
      else if st \<in> {''approved'', ''executing'', ''completed'', ''failed'', ''timeout''} then
        (if \<not> IsZero (ed_ApprovedAt detail) then gz_approved_at @ format_RFC3339 (ed_ApprovedAt detail)
         else if TrimSpace (ed_ApprovalGroup detail) \<noteq> []
         then gz_by_group @ ed_ApprovalGroup detail @ gz_enter_chain
         else gz_no_approval)
      else if st = ''rejected'' then gz_not_approved
      else gz_no_approval)"

definition executionResultSummary :: "ExecutionDetail \<Rightarrow> SessionDetail option \<Rightarrow> string" where
  "executionResultSummary detail session =
     (let st = ed_Status detail in
      if st = ''completed'' then
        (case Option.bind session sd_Verification of
           Some v \<Rightarrow> gz_done_verified @ sv_Status v
         | None \<Rightarrow> gz_done_exit @ dec_int (ed_ExitCode detail) @ gz_output @ dec_int (ed_OutputBytes detail) @
             '' bytes'')
      else if st = ''failed'' then gz_failed_exit @ dec_int (ed_ExitCode detail)
      else if st = ''timeout'' then gz_timeout
      else if st = ''executing'' then gz_running
      else if st = ''pending'' then gz_not_started
      else if st = ''rejected'' then gz_rejected
      else gz_current_status @ gp_firstNonEmpty [TrimSpace st, ''unknown''])"

definition executionNextAction :: "ExecutionDetail \<Rightarrow> SessionDetail option \<Rightarrow> string" where
  "executionNextAction detail session =
     (let st = ed_Status detail in
      if st = ''pending'' then gz_decide_inbox
      else if st \<in> {''approved'', ''executing''} then gz_wait_output
      else if st = ''completed'' then
        (case map_option sd_Status session of
           None \<Rightarrow> gz_check_output
         | Some sst \<Rightarrow> if sst = ''verifying'' then gz_wait_step
             else if sst = ''resolved'' then gz_session_closed else gz_check_output)
      else if st \<in> {''failed'', ''timeout''} then
        (if TrimSpace (ed_OutputRef detail) \<noteq> [] then gz_output_ref @ ed_OutputRef detail
         else gz_failed_output)
      else if st = ''rejected'' then gz_back_to_session
      else gz_continue)"

definition buildExecutionGoldenSummary :: "ExecutionDetail \<Rightarrow> SessionDetail option \<Rightarrow> ExecutionGoldenSummary" where
  "buildExecutionGoldenSummary detail session =
     \<lparr>xg_Headline = executionHeadline detail session,
      xg_Risk = gp_firstNonEmpty [TrimSpace (ed_RiskLevel detail), ''info''],
      xg_Approval = executionApprovalSummary detail,
      xg_Result = executionResultSummary detail session,
      xg_NextAction = executionNextAction detail session,
      xg_CommandPreview = executionCommandPreview detail\<rparr>"

definition PopulateExecutionGoldenPath :: "ExecutionDetail \<Rightarrow> SessionDetail option \<Rightarrow> ExecutionDetail" where
  "PopulateExecutionGoldenPath detail session =
     detail\<lparr>ed_GoldenSummary := Some (buildExecutionGoldenSummary detail session)\<rparr>"

section \<open>Sessions\<close>

definition digest_of :: "TimelineEvent \<Rightarrow> NotificationDigest option" where
  "digest_of event =
     (let (stage, reason) = notificationStageAndReason (te_Event event) in
      if stage = [] then None
      else
        (let (target, preview) = parseNotificationTimelineMessage (te_Message event) in
         Some \<lparr>nd_Stage = stage, nd_Target = target, nd_Reason = reason, nd_Preview = preview,
               nd_CreatedAt = te_CreatedAt event\<rparr>))"

definition BuildNotificationDigests :: "TimelineEvent list \<Rightarrow> NotificationDigest list" where
  "BuildNotificationDigests timeline = List.map_filter digest_of timeline"

definition sessionHeadline :: "SessionDetail \<Rightarrow> string" where
  "sessionHeadline detail =
     (let alert = sd_Alert detail;
          request0 = alertAnnotation alert ''user_request'';
          request = (if request0 = [] then alertAnnotation alert ''summary'' else request0)
      in if alertString alert ''source'' = ''telegram_chat'' \<and> request \<noteq> [] then compactText request 96
         else
           (let alertName = gp_firstNonEmpty [gp_alertLabel alert ''alertname'', ''unknown-alert''];
                host = gp_firstNonEmpty [alertString alert ''host'', gp_alertLabel alert ''instance'',
                                         ''unknown-host'']
            in alertName @ '' @ '' @ host))"

fun evidence_steps :: "string list \<Rightarrow> ToolPlanStep list \<Rightarrow> string list" where
  "evidence_steps items [] = items"
| "evidence_steps items (step # steps) =
     (if 3 \<le> length items then items
      else evidence_steps
        (items @ [compactText (gp_firstNonEmpty [tp_Reason step, tp_Tool step]) 110 @ '' ('' @
                  gp_firstNonEmpty [TrimSpace (tp_Status step), ''pending''] @ '')'']) steps)"

definition sessionEvidence :: "SessionDetail \<Rightarrow> string list" where
  "sessionEvidence detail =
     (let sect = extractSummarySection (sd_DiagnosisSummary detail)
            [''Evidence'', ''Observed'', gz_evidence, gz_observed];
          items1 = (if sect \<noteq> [] then [compactText sect 140] else []);
          items2 = evidence_steps items1 (sd_ToolPlan detail);
          items3 = (case sd_Verification detail of
                      Some v \<Rightarrow> if length items2 < 3 then items2 @ [compactText (sv_Summary v) 120] else items2
                    | None \<Rightarrow> items2);
          items4 = (if sd_Attachments detail \<noteq> [] \<and> length items3 < 3
                    then items3 @ [gz_generated @ dec (length (sd_Attachments detail)) @ gz_attachments]
                    else items3)
      in if items4 = [] then [gz_collecting] else items4)"

definition sessionRisk :: "SessionDetail \<Rightarrow> string" where
  "sessionRisk detail =
     (case find (\<lambda>risk. risk \<noteq> []) (map (\<lambda>e. TrimSpace (ed_RiskLevel e)) (rev (sd_Executions detail))) of
        Some risk \<Rightarrow> risk
      | None \<Rightarrow> severityToRisk (alertString (sd_Alert detail) ''severity''))"

definition sessionNextAction :: "SessionDetail \<Rightarrow> string" where
  "sessionNextAction detail =
     (let latest = latestExecution (sd_Executions detail); st = sd_Status detail in
      if st = ''pending_approval'' then
        (case latest of Some e \<Rightarrow> gz_wait_approval @ executionCommandPreview e | None \<Rightarrow> gz_wait_approver)
      else if st = ''executing'' then
        (case latest of Some e \<Rightarrow> gz_wait_execution @ executionCommandPreview e | None \<Rightarrow> gz_wait_result)
      else if st = ''verifying'' then gz_wait_verify
      else if st = ''resolved'' then gz_closed
      else if st = ''failed'' then
        (case latest of Some e \<Rightarrow> gz_failed_retry @ executionCommandPreview e | None \<Rightarrow> gz_failed_reason)
      else if st = ''open'' then
        (case latest of
           Some e \<Rightarrow> if ed_Status e = ''rejected'' then gz_open_rejected else gz_open
         | None \<Rightarrow> gz_open)
      else gz_wait_diagnosis)"

definition latestExecutionHeadline :: "ExecutionDetail list \<Rightarrow> string" where
  "latestExecutionHeadline items =
     (case latestExecution items of
        None \<Rightarrow> gz_no_execution
      | Some e \<Rightarrow> gz_latest_action @ ed_Status e @ gz_colon @ executionCommandPreview e)"

definition notificationHeadline :: "NotificationDigest list \<Rightarrow> string" where
  "notificationHeadline items =
     (if items = [] then gz_no_notification
      else
        (let latest = last items;
             parts = [gz_latest_notification @ nd_Reason latest] @
               (if nd_Target latest \<noteq> [] then [gz_target @ nd_Target latest] else [])
         in Join parts gz_comma))"

definition summaryFromVerification :: "SessionVerification option \<Rightarrow> string" where
  "summaryFromVerification verification =
     (case verification of None \<Rightarrow> [] | Some v \<Rightarrow> compactText (TrimSpace (sv_Summary v)) 140)"

definition buildSessionGoldenSummary :: "SessionDetail \<Rightarrow> SessionGoldenSummary" where
  "buildSessionGoldenSummary detail =
     (let summary = sd_DiagnosisSummary detail in
      \<lparr>gs_Headline = sessionHeadline detail,
       gs_Conclusion = gp_firstNonEmpty
         [extractSummarySection summary [''Conclusion'', ''Root Cause'', gz_conclusion],
          extractSummarySection summary [''Summary'', gz_summary],
          firstMeaningfulLine summary,
          summaryFromVerification (sd_Verification detail),
          gz_in_progress],
       gs_Risk = sessionRisk detail,
       gs_NextAction = sessionNextAction detail,
       gs_Evidence = sessionEvidence detail,
       gs_NotificationHeadline = notificationHeadline (sd_Notifications detail),
       gs_ExecutionHeadline = latestExecutionHeadline (sd_Executions detail),
       gs_VerificationHeadline = summaryFromVerification (sd_Verification detail)\<rparr>)"

text \<open>The summary of an execution reads the session's alert, status and verification only, so that
  filling in the executions in place, as the source does, is a map.\<close>

definition PopulateSessionGoldenPath :: "SessionDetail \<Rightarrow> SessionDetail" where
  "PopulateSessionGoldenPath detail0 =
     (let detail1 = detail0\<lparr>sd_Notifications := BuildNotificationDigests (sd_Timeline detail0)\<rparr>;
          detail2 = detail1\<lparr>sd_Executions :=
            map (\<lambda>e. PopulateExecutionGoldenPath (e\<lparr>ed_SessionID := sd_SessionID detail1\<rparr>) (Some detail1))
              (sd_Executions detail1)\<rparr>
      in detail2\<lparr>sd_GoldenSummary := Some (buildSessionGoldenSummary detail2)\<rparr>)"

section \<open>Bounds\<close>

lemma compactText_le: "0 < limit \<Longrightarrow> int (length (compactText value limit)) \<le> limit"
  by (auto simp: compactText_def Let_def)

lemma TrimSpace_le: "length (TrimSpace s) \<le> length s"
proof -
  have "length (trim_right_space (trim_left_space s)) \<le> length (trim_left_space s)"
    using trim_right_space_prefix prefix_length_le by blast
  also have "\<dots> \<le> length s"
    unfolding trim_left_space_def using trim_front_suffix suffix_length_le by blast
  finally show ?thesis by (simp add: TrimSpace_def)
qed

lemma gp_firstNonEmpty_le: "(\<And>v. v \<in> set vs \<Longrightarrow> length v \<le> n) \<Longrightarrow> length (gp_firstNonEmpty vs) \<le> n"
  by (induction vs) (auto simp: Let_def intro: order.trans [OF TrimSpace_le])

lemma gp_firstNonEmpty_nonempty: "v \<in> set vs \<Longrightarrow> TrimSpace v \<noteq> [] \<Longrightarrow> gp_firstNonEmpty vs \<noteq> []"
  by (induction vs) (auto simp: Let_def)

lemma section_loop_le: "length (section_loop headers lines) \<le> 160"
proof (induction headers lines rule: section_loop.induct)
  case (2 headers line lines)
  then show ?case
    using compactText_le [of 160 "Join (collect_section [] lines) '' ''"] by (simp add: Let_def)
qed simp

lemma meaningful_loop_le: "length (meaningful_loop lines) \<le> 160"
proof (induction lines rule: meaningful_loop.induct)
  case (2 line lines)
  then show ?case
    using compactText_le [of 160 "TrimSpace (Trim (TrimSpace line) ''*#`>'')"] by (auto simp: Let_def)
qed simp

lemma evidence_steps_length:
  "length items \<le> 3 \<Longrightarrow>
     length items \<le> length (evidence_steps items steps) \<and> length (evidence_steps items steps) \<le> 3"
  by (induction items steps rule: evidence_steps.induct) auto

lemma sessionEvidence_length: "1 \<le> length (sessionEvidence d) \<and> length (sessionEvidence d) \<le> 3"
proof -
  let ?sect = "extractSummarySection (sd_DiagnosisSummary d) [''Evidence'', ''Observed'', gz_evidence, gz_observed]"
  define items2 where
    "items2 = evidence_steps (if ?sect \<noteq> [] then [compactText ?sect 140] else []) (sd_ToolPlan d)"
  define items3 where "items3 = (case sd_Verification d of
      Some v \<Rightarrow> if length items2 < 3 then items2 @ [compactText (sv_Summary v) 120] else items2 | None \<Rightarrow> items2)"
  define items4 where "items4 = (if sd_Attachments d \<noteq> [] \<and> length items3 < 3
      then items3 @ [gz_generated @ dec (length (sd_Attachments d)) @ gz_attachments] else items3)"
  have eq: "sessionEvidence d = (if items4 = [] then [gz_collecting] else items4)"
    unfolding sessionEvidence_def Let_def items4_def items3_def items2_def ..
  have "length items2 \<le> 3"
    using evidence_steps_length [of "if ?sect \<noteq> [] then [compactText ?sect 140] else []" "sd_ToolPlan d"]
    by (simp add: items2_def)
  then have "length items3 \<le> 3" by (auto simp: items3_def split: option.split)
  then have "length items4 \<le> 3" by (auto simp: items4_def)
  then show ?thesis unfolding eq by (cases items4) simp_all
qed

section \<open>Notification digests\<close>

lemma Index_first:
  assumes "\<And>i. i < length xs \<Longrightarrow> \<not> prefix p (drop i (xs @ p @ ys))"
  shows "Index (xs @ p @ ys) p = Some (length xs)"
  using assms
proof (induction xs)
  case Nil
  have "prefix p (p @ ys)" by simp
  then show ?case by (cases "p @ ys") simp_all
next
  case (Cons x xs)
  have "\<not> prefix p (x # xs @ p @ ys)" using Cons.prems [of 0] by simp
  moreover have "Index (xs @ p @ ys) p = Some (length xs)"
    using Cons.prems [of "Suc _"] by (intro Cons.IH) simp
  ultimately show ?case by simp
qed

lemma Index_None: "\<not> Contains s sub \<Longrightarrow> Index s sub = None"
  by (induction s) auto

lemma Contains_drop: "Contains (drop i s) sub \<Longrightarrow> Contains s sub"
proof (induction s arbitrary: i)
  case (Cons c s)
  then show ?case by (cases i) auto
qed simp

lemma prefix_stop: "c \<notin> set q \<Longrightarrow> prefix q (ys @ c # rest) \<longleftrightarrow> prefix q ys"
proof (induction ys arbitrary: q)
  case Nil
  then show ?case by (cases q) auto
next
  case (Cons y ys)
  then show ?case by (cases q) auto
qed

lemma not_before_stop:
  assumes "c \<notin> set q" and "\<not> Contains xs q" and "i \<le> length xs"
  shows "\<not> prefix q (drop i (xs @ c # rest))"
proof
  assume "prefix q (drop i (xs @ c # rest))"
  then have "prefix q (drop i xs)" using assms(1,3) by (simp add: prefix_stop)
  then have "Contains (drop i xs) q" by (cases "drop i xs") auto
  with assms(2) show False by (auto dest: Contains_drop)
qed

lemma extract_target:
  assumes "\<not> Contains target ''body=''"
  shows "extractKV (''target='' @ target @ '' body='' @ body) ''target='' = TrimSpace target"
proof -
  let ?msg = "target @ '' body='' @ body"
  have "\<not> prefix '' body='' (drop i ?msg)" if "i < length target" for i
  proof
    assume "prefix '' body='' (drop i ?msg)"
    then have "prefix ''body='' (drop 1 (drop i ?msg))" by (cases "drop i ?msg") simp_all
    moreover have "\<not> prefix ''body='' (drop (1 + i) ?msg)"
      using not_before_stop [of "CHR '' ''" "''body=''" target "1 + i" "''body='' @ body"] assms that
      by (simp del: drop_append)
    ultimately show False unfolding drop_drop by blast
  qed
  then have "Index (target @ '' body='' @ body) '' body='' = Some (length target)"
    by (rule Index_first)
  then show ?thesis by (simp add: extractKV_def cut_marker_def)
qed

lemma extract_body:
  assumes "\<not> Contains target ''body=''" and "\<not> Contains body '' target=''"
  shows "extractKV (''target='' @ target @ '' body='' @ body) ''body='' = TrimSpace body"
proof -
  let ?xs = "''target='' @ target @ '' ''"
  have nc: "\<not> Contains (''target='' @ target) ''body=''" using assms(1) by simp
  have "\<not> prefix ''body='' (drop i (?xs @ ''body='' @ body))" if "i < length ?xs" for i
    using not_before_stop [OF _ nc, of "CHR '' ''" i "''body='' @ body"] that by simp
  then have "Index (?xs @ ''body='' @ body) ''body='' = Some (length ?xs)"
    by (rule Index_first)
  moreover have "''target='' @ target @ '' body='' @ body = ?xs @ ''body='' @ body" by simp
  ultimately show ?thesis
    using Index_None [OF assms(2)] by (simp add: extractKV_def cut_marker_def)
qed

section \<open>Properties\<close>

text \<open>The summary of a session has a bounded size and is never void: one to three lines of evidence, a
  conclusion of at most 160 bytes that is not empty, and previews of commands of at most 96 bytes.\<close>

theorem session_summary_bounded:
  "1 \<le> length (gs_Evidence (buildSessionGoldenSummary d)) \<and>
   length (gs_Evidence (buildSessionGoldenSummary d)) \<le> 3 \<and>
   gs_Conclusion (buildSessionGoldenSummary d) \<noteq> [] \<and>
   length (gs_Conclusion (buildSessionGoldenSummary d)) \<le> 160 \<and>
   length (xg_CommandPreview (buildExecutionGoldenSummary e session)) \<le> 96"
proof (intro conjI)
  show "1 \<le> length (gs_Evidence (buildSessionGoldenSummary d))"
    "length (gs_Evidence (buildSessionGoldenSummary d)) \<le> 3"
    using sessionEvidence_length [of d] by (simp_all add: buildSessionGoldenSummary_def Let_def)
  have "TrimSpace gz_in_progress \<noteq> []" by code_simp
  then show "gs_Conclusion (buildSessionGoldenSummary d) \<noteq> []"
    unfolding buildSessionGoldenSummary_def Let_def 
    by (simp del: gp_firstNonEmpty.simps) (rule gp_firstNonEmpty_nonempty [of gz_in_progress], simp_all)
  have "length (compactText x 140) \<le> 160" for x using compactText_le [of 140 x] by simp
  then have verification: "length (summaryFromVerification v) \<le> 160" for v
    by (simp add: summaryFromVerification_def split: option.split)
  have sections: "length (extractSummarySection (sd_DiagnosisSummary d) hs) \<le> 160" for hs
    by (simp add: extractSummarySection_def section_loop_le)
  have "length gz_in_progress \<le> 160" by code_simp
  with verification sections show "length (gs_Conclusion (buildSessionGoldenSummary d)) \<le> 160"
    unfolding buildSessionGoldenSummary_def Let_def
    by (auto simp: firstMeaningfulLine_def meaningful_loop_le intro!: gp_firstNonEmpty_le simp del: gp_firstNonEmpty.simps)
  show "length (xg_CommandPreview (buildExecutionGoldenSummary e session)) \<le> 96"
    using compactText_le [of 96]
    by (auto simp: buildExecutionGoldenSummary_def executionCommandPreview_def)
qed

text \<open>Digests read back what was prepared.  From the line that the workflow writes into the timeline
  for a prepared message the digest recovers the target and the text of the message, compacted to
  160 bytes, if neither of them contains the markers of the other.\<close>

theorem notification_digest_roundtrip:
  assumes "\<not> Contains target ''body=''" and "TrimSpace target = target"
    and "\<not> Contains body '' target=''" and "TrimSpace body \<noteq> []"
  shows "parseNotificationTimelineMessage (''target='' @ target @ '' body='' @ body) =
    (target, compactText body 160)"
  using extract_target [OF assms(1), of body] extract_body [OF assms(1,3)] assms(2,4)
  by (simp add: parseNotificationTimelineMessage_def compactText_def)

theorem notification_digest_roundtrip_witness:
  "parseNotificationTimelineMessage (''target='' @ ''-1001'' @ '' body='' @ ''[TARS] disk full'') =
    (''-1001'', compactText ''[TARS] disk full'' 160)"
proof (rule notification_digest_roundtrip)
  show "\<not> Contains ''-1001'' ''body=''" "\<not> Contains ''[TARS] disk full'' '' target=''" by simp_all
  show "TrimSpace ''-1001'' = ''-1001''" "TrimSpace ''[TARS] disk full'' \<noteq> []" by code_simp+
qed

end
