(* ===== verification/Triage.thy ===== *)
theory Triage
  imports Golden_Path
begin

text \<open>
  The order in which sessions and executions are put before an operator,
  \<^verbatim>\<open>internal/contracts/session_triage.go\<close> and \<^verbatim>\<open>internal/contracts/execution_triage.go\<close>: comparisons by
  activity, risk, state, time and name, and the stable sorts by them.  Both comparisons are
  interpretations of \<open>strict_weak_order\<close>, the contract that \<^verbatim>\<open>sort.SliceStable\<close> asks of its argument.
\<close>

text \<open>\<^verbatim>\<open>strings.Compare\<close>.\<close>

definition string_Compare :: "string \<Rightarrow> string \<Rightarrow> int" where
  "string_Compare a b = (if a = b then 0 else if a < b then -1 else 1)"

section \<open>Sessions\<close>

definition execution_waiting :: "ExecutionDetail \<Rightarrow> bool" where
  "execution_waiting item \<longleftrightarrow> ToLower (TrimSpace (ed_Status item)) \<in> {''pending'', ''approved'', ''executing''}"

definition sessionQueueState :: "SessionDetail \<Rightarrow> string" where
  "sessionQueueState detail =
     (let executionPending = list_ex execution_waiting (sd_Executions detail);
          verificationStatus =
            (case sd_Verification detail of None \<Rightarrow> [] | Some v \<Rightarrow> ToLower (TrimSpace (sv_Status v)));
          verificationSucceeded = (verificationStatus \<in> {''completed'', ''resolved'', ''success''})
      in if sd_Status detail = ''failed'' \<or> verificationStatus = ''failed'' \<or> verificationStatus = ''error''
         then ''manualIntervention''
         else if sd_Status detail = ''resolved''
         then (if verificationSucceeded then ''mitigated'' else ''closed'')
         else if sd_Status detail = ''pending_approval'' \<or> sd_Status detail = ''executing'' \<or> executionPending
         then ''pendingExecution''
         else if sd_Status detail = ''verifying'' \<or> verificationSucceeded then ''confirmed''
         else ''collectingEvidence'')"

definition sessionActiveWeight :: "SessionDetail \<Rightarrow> int" where
  "sessionActiveWeight detail = (if sessionQueueState detail \<in> {''mitigated'', ''closed''} then 0 else 1)"

definition sessionStateWeight :: "string \<Rightarrow> int" where
  "sessionStateWeight state =
     (if state = ''pendingExecution'' then 5
      else if state = ''manualIntervention'' then 4
      else if state = ''collectingEvidence'' then 3
      else if state = ''confirmed'' then 2
      else if state = ''mitigated'' then 1
      else 0)"

definition sessionRiskWeight :: "SessionDetail \<Rightarrow> int" where
  "sessionRiskWeight detail =
     (let risk0 = (case sd_GoldenSummary detail of None \<Rightarrow> [] | Some g \<Rightarrow> gs_Risk g);
          risk = ToLower (TrimSpace (if TrimSpace risk0 = [] then sessionRisk detail else risk0))
      in if risk = ''critical'' then 4
         else if risk = ''warning'' then 3
         else if risk = ''info'' then 2
         else if risk \<in> {''low'', ''safe''} then 1
         else 0)"

definition later :: "gotime \<Rightarrow> gotime \<Rightarrow> gotime" where
  "later latest candidate = (if latest < candidate then candidate else latest)"

definition sessionUpdatedAt :: "SessionDetail \<Rightarrow> gotime" where
  "sessionUpdatedAt detail =
     (let latest0 = (case sd_Verification detail of None \<Rightarrow> 0 | Some v \<Rightarrow> later 0 (sv_CheckedAt v));
          latest1 = foldl later latest0 (map te_CreatedAt (sd_Timeline detail))
      in foldl later latest1
           (concat (map (\<lambda>item. [ed_CompletedAt item, ed_ApprovedAt item, ed_CreatedAt item])
              (sd_Executions detail))))"

definition sessionTriageHeadline :: "SessionDetail \<Rightarrow> string" where
  "sessionTriageHeadline detail =
     (let sid = TrimSpace (sd_SessionID detail) in
      case sd_GoldenSummary detail of
        None \<Rightarrow> sid
      | Some g \<Rightarrow>
          if TrimSpace (gs_Headline g) \<noteq> [] then TrimSpace (gs_Headline g)
          else if TrimSpace (gs_Conclusion g) \<noteq> [] then TrimSpace (gs_Conclusion g)
          else sid)"

definition CompareSessionTriage :: "SessionDetail \<Rightarrow> SessionDetail \<Rightarrow> int" where
  "CompareSessionTriage left right =
     (if sessionActiveWeight left - sessionActiveWeight right \<noteq> 0
      then sessionActiveWeight left - sessionActiveWeight right
      else if sessionRiskWeight left - sessionRiskWeight right \<noteq> 0
      then sessionRiskWeight left - sessionRiskWeight right
      else if sessionStateWeight (sessionQueueState left) - sessionStateWeight (sessionQueueState right) \<noteq> 0
      then sessionStateWeight (sessionQueueState left) - sessionStateWeight (sessionQueueState right)
      else if sessionUpdatedAt left \<noteq> sessionUpdatedAt right
      then (if sessionUpdatedAt left > sessionUpdatedAt right then 1 else -1)
      else - string_Compare (sessionTriageHeadline left) (sessionTriageHeadline right))"

text \<open>The less function that the sorts hand to \<^verbatim>\<open>sort.SliceStable\<close>.\<close>

definition is_desc :: "string \<Rightarrow> bool" where
  "is_desc sortOrder \<longleftrightarrow> ToLower (TrimSpace sortOrder) \<noteq> ''asc''"

definition cmp_less :: "bool \<Rightarrow> ('a \<Rightarrow> 'a \<Rightarrow> int) \<Rightarrow> 'a \<Rightarrow> 'a \<Rightarrow> bool" where
  "cmp_less desc compare left right =
     (let cmp = compare left right in
      if cmp = 0 then False else if desc then cmp > 0 else cmp < 0)"

definition SortSessionsForTriage :: "SessionDetail list \<Rightarrow> string \<Rightarrow> SessionDetail list" where
  "SortSessionsForTriage items sortOrder =
     slice_stable (cmp_less (is_desc sortOrder) CompareSessionTriage) items"

section \<open>Executions\<close>

definition executionStateWeight :: "string \<Rightarrow> int" where
  "executionStateWeight status =
     (let st = ToLower (TrimSpace status) in
      if st = ''pending'' then 6
      else if st = ''executing'' then 5
      else if st = ''approved'' then 4
      else if st \<in> {''failed'', ''timeout''} then 3
      else if st = ''rejected'' then 2
      else if st = ''completed'' then 1
      else 0)"

definition executionRiskWeight :: "string \<Rightarrow> int" where
  "executionRiskWeight risk =
     (let r = ToLower (TrimSpace risk) in
      if r = ''critical'' then 3 else if r = ''warning'' then 2 else 1)"

definition executionTriageTime :: "ExecutionDetail \<Rightarrow> gotime" where
  "executionTriageTime detail =
     (case find (\<lambda>t. \<not> IsZero t) [ed_CompletedAt detail, ed_ApprovedAt detail, ed_CreatedAt detail] of
        Some t \<Rightarrow> t | None \<Rightarrow> 0)"

definition CompareExecutionTriage :: "ExecutionDetail \<Rightarrow> ExecutionDetail \<Rightarrow> int" where
  "CompareExecutionTriage left right =
     (if executionStateWeight (ed_Status left) - executionStateWeight (ed_Status right) \<noteq> 0
      then executionStateWeight (ed_Status left) - executionStateWeight (ed_Status right)
      else if executionRiskWeight (ed_RiskLevel left) - executionRiskWeight (ed_RiskLevel right) \<noteq> 0
      then executionRiskWeight (ed_RiskLevel left) - executionRiskWeight (ed_RiskLevel right)
      else if executionTriageTime left \<noteq> executionTriageTime right
      then (if executionTriageTime left > executionTriageTime right then 1 else -1)
      else - string_Compare (ed_ExecutionID left) (ed_ExecutionID right))"

definition SortExecutionsForTriage :: "ExecutionDetail list \<Rightarrow> string \<Rightarrow> ExecutionDetail list" where
  "SortExecutionsForTriage items sortOrder =
     slice_stable (cmp_less (is_desc sortOrder) CompareExecutionTriage) items"

section \<open>The comparisons are orders\<close>

text \<open>A three-way comparison as the sorts need it.\<close>

locale three_way =
  fixes compare :: "'a \<Rightarrow> 'a \<Rightarrow> int"
  assumes compare_flip: "compare x y > 0 \<longleftrightarrow> compare y x < 0"
    and compare_trans: "compare x y < 0 \<Longrightarrow> compare y z < 0 \<Longrightarrow> compare x z < 0"
    and compare_incomparable: "\<not> compare x y < 0 \<Longrightarrow> \<not> compare y z < 0 \<Longrightarrow> \<not> compare x z < 0"
begin

lemma compare_self: "compare x x = 0"
  using compare_flip [of x x] by linarith

lemma cmp_less_desc: "cmp_less True compare x y \<longleftrightarrow> cmp_less False compare y x"
  using compare_flip [of x y] by (auto simp: cmp_less_def Let_def)

lemma cmp_less_asc: "cmp_less False compare x y \<longleftrightarrow> compare x y < 0"
  by (simp add: cmp_less_def Let_def)

lemma less_order: "strict_weak_order (cmp_less desc compare)"
proof -
  have asc: "strict_weak_order (cmp_less False compare)"
    by unfold_locales
      (auto simp: cmp_less_asc compare_self dest: compare_trans compare_incomparable)
  show ?thesis
  proof (cases desc)
    case True
    have "cmp_less True compare = (\<lambda>x y. cmp_less False compare y x)" by (intro ext) (rule cmp_less_desc)
    with strict_weak_order_flip [OF asc] True show ?thesis by simp
  qed (use asc in simp)
qed

lemma sorted_desc: "sorted_wrt (\<lambda>x y. \<not> compare x y < 0) (slice_stable (cmp_less True compare) xs)"
proof -
  have "sorted_wrt (\<lambda>x y. \<not> cmp_less True compare y x) (slice_stable (cmp_less True compare) xs)"
    using strict_weak_order.sorted_slice_stable [OF less_order] .
  then show ?thesis by (simp add: cmp_less_desc cmp_less_asc)
qed

lemma sorted_asc: "sorted_wrt (\<lambda>x y. \<not> compare y x < 0) (slice_stable (cmp_less False compare) xs)"
proof -
  have "sorted_wrt (\<lambda>x y. \<not> cmp_less False compare y x) (slice_stable (cmp_less False compare) xs)"
    using strict_weak_order.sorted_slice_stable [OF less_order] .
  then show ?thesis by (simp add: cmp_less_asc)
qed

end

lemma string_Compare_sign [simp]:
  "string_Compare a b < 0 \<longleftrightarrow> a < b" "string_Compare a b > 0 \<longleftrightarrow> b < a" "string_Compare a b = 0 \<longleftrightarrow> a = b"
  by (auto simp: string_Compare_def)

lemma CompareSessionTriage_less:
  "CompareSessionTriage x y < 0 \<longleftrightarrow>
     sessionActiveWeight x < sessionActiveWeight y \<or>
     sessionActiveWeight x = sessionActiveWeight y \<and>
       (sessionRiskWeight x < sessionRiskWeight y \<or>
        sessionRiskWeight x = sessionRiskWeight y \<and>
          (sessionStateWeight (sessionQueueState x) < sessionStateWeight (sessionQueueState y) \<or>
           sessionStateWeight (sessionQueueState x) = sessionStateWeight (sessionQueueState y) \<and>
             (sessionUpdatedAt x < sessionUpdatedAt y \<or>
              sessionUpdatedAt x = sessionUpdatedAt y \<and> sessionTriageHeadline y < sessionTriageHeadline x)))"
  by (auto simp: CompareSessionTriage_def)

lemma CompareSessionTriage_greater: "CompareSessionTriage x y > 0 \<longleftrightarrow> CompareSessionTriage y x < 0"
  unfolding CompareSessionTriage_less by (auto simp: CompareSessionTriage_def)

interpretation session_triage: three_way CompareSessionTriage
  by unfold_locales (simp_all only: CompareSessionTriage_greater CompareSessionTriage_less, auto)

lemma CompareExecutionTriage_less:
  "CompareExecutionTriage x y < 0 \<longleftrightarrow>
     executionStateWeight (ed_Status x) < executionStateWeight (ed_Status y) \<or>
     executionStateWeight (ed_Status x) = executionStateWeight (ed_Status y) \<and>
       (executionRiskWeight (ed_RiskLevel x) < executionRiskWeight (ed_RiskLevel y) \<or>
        executionRiskWeight (ed_RiskLevel x) = executionRiskWeight (ed_RiskLevel y) \<and>
          (executionTriageTime x < executionTriageTime y \<or>
           executionTriageTime x = executionTriageTime y \<and> ed_ExecutionID y < ed_ExecutionID x))"
  by (auto simp: CompareExecutionTriage_def)

lemma CompareExecutionTriage_greater: "CompareExecutionTriage x y > 0 \<longleftrightarrow> CompareExecutionTriage y x < 0"
  unfolding CompareExecutionTriage_less by (auto simp: CompareExecutionTriage_def)

interpretation execution_triage: three_way CompareExecutionTriage
  by unfold_locales (simp_all only: CompareExecutionTriage_greater CompareExecutionTriage_less, auto)

section \<open>Properties\<close>

text \<open>The triage list of sessions, most urgent first: a permutation of the given sessions in which
  every session that is still open comes before the mitigated and closed ones, among the open and
  among the closed ones the riskier come first, and among those of equal risk the ones whose state
  weighs more; sessions that compare equal keep their order.\<close>

theorem session_triage_order:
  "mset (SortSessionsForTriage items []) = mset items \<and>
   sorted_wrt (\<lambda>x y. sessionActiveWeight x > sessionActiveWeight y \<or>
     sessionActiveWeight x = sessionActiveWeight y \<and>
       (sessionRiskWeight x > sessionRiskWeight y \<or>
        sessionRiskWeight x = sessionRiskWeight y \<and>
          sessionStateWeight (sessionQueueState x) \<ge> sessionStateWeight (sessionQueueState y)))
     (SortSessionsForTriage items []) \<and>
   filter (\<lambda>y. CompareSessionTriage x y = 0) (SortSessionsForTriage items []) =
     filter (\<lambda>y. CompareSessionTriage x y = 0) items"
proof (intro conjI)
  have desc: "is_desc []" by (simp add: is_desc_def ToLower_def)
  show "mset (SortSessionsForTriage items []) = mset items" by (simp add: SortSessionsForTriage_def)
  show "sorted_wrt (\<lambda>x y. sessionActiveWeight x > sessionActiveWeight y \<or>
     sessionActiveWeight x = sessionActiveWeight y \<and>
       (sessionRiskWeight x > sessionRiskWeight y \<or>
        sessionRiskWeight x = sessionRiskWeight y \<and>
          sessionStateWeight (sessionQueueState x) \<ge> sessionStateWeight (sessionQueueState y)))
     (SortSessionsForTriage items [])"
    using session_triage.sorted_desc [of items] desc unfolding SortSessionsForTriage_def
    by (auto simp: CompareSessionTriage_less elim!: sorted_wrt_mono_rel [rotated])
  show "filter (\<lambda>y. CompareSessionTriage x y = 0) (SortSessionsForTriage items []) =
     filter (\<lambda>y. CompareSessionTriage x y = 0) items"
    unfolding SortSessionsForTriage_def
  proof (rule strict_weak_order.stable_slice_stable [OF session_triage.less_order])
    fix y z
    assume "CompareSessionTriage x y = 0" "CompareSessionTriage x z = 0"
    then have "\<not> CompareSessionTriage y z < 0" "\<not> CompareSessionTriage y z > 0"
      using session_triage.compare_flip [of y x] session_triage.compare_flip [of x y]
        session_triage.compare_incomparable [of y x z] session_triage.compare_incomparable [of z x y]
        session_triage.compare_flip [of y z] session_triage.compare_flip [of z x] session_triage.compare_flip [of x z]
      by linarith+
    then show "\<not> cmp_less (is_desc []) CompareSessionTriage y z" by (auto simp: cmp_less_def Let_def)
  qed
qed

end
