(* ===== verification/Workflow_Query.thy ===== *)
theory Workflow_Query
  imports Workflow_Safety Triage
begin

text \<open>
  The read operations of the workflow service: \<^verbatim>\<open>ListSessions\<close>, \<^verbatim>\<open>ListExecutions\<close>, \<^verbatim>\<open>GetSession\<close>,
  \<^verbatim>\<open>GetExecution\<close> and \<^verbatim>\<open>GetExecutionOutput\<close> of \<^verbatim>\<open>service.go\<close> and \<^verbatim>\<open>ListOutbox\<close> of \<^verbatim>\<open>service_outbox.go\<close>,
  with their filters and sort orders.  They return copies, with the summaries of \<open>Golden_Path\<close>.
\<close>

section \<open>Filters\<close>

text \<open>The part the three query functions share: a blank query matches everything.\<close>

definition query_hits :: "string \<Rightarrow> string list \<Rightarrow> bool" where
  "query_hits query0 candidates =
     (let query = ToLower (TrimSpace query0) in
      if query = [] then True else list_ex (\<lambda>candidate. Contains (ToLower candidate) query) candidates)"

definition matchesSessionQuery :: "SessionDetail \<Rightarrow> string \<Rightarrow> bool" where
  "matchesSessionQuery detail query =
     query_hits query
       [sd_SessionID detail, sd_Status detail, sd_DiagnosisSummary detail,
        stringFromAlert (sd_Alert detail) ''host'', stringFromAlert (sd_Alert detail) ''severity'',
        alertLabel (sd_Alert detail) ''alertname'', alertLabel (sd_Alert detail) ''instance'',
        alertLabel (sd_Alert detail) ''service'', annotationString (sd_Alert detail) ''summary'']"

definition matchesExecutionQuery :: "ExecutionDetail \<Rightarrow> string \<Rightarrow> bool" where
  "matchesExecutionQuery detail query =
     query_hits query
       [ed_ExecutionID detail, ed_Status detail, ed_RiskLevel detail, ed_Command detail,
        ed_TargetHost detail, ed_RequestedBy detail, ed_ApprovalGroup detail, ed_OutputRef detail]"

definition matchesOutboxQuery :: "OutboxEvent \<Rightarrow> string \<Rightarrow> bool" where
  "matchesOutboxQuery detail query =
     query_hits query
       [ob_ID detail, ob_Topic detail, ob_Status detail, ob_AggregateID detail, ob_LastError detail,
        ob_BlockedReason detail]"

section \<open>Sort orders\<close>

text \<open>Comparing by a key, downwards or upwards.\<close>

definition key_less :: "bool \<Rightarrow> ('a \<Rightarrow> 'k::linorder) \<Rightarrow> 'a \<Rightarrow> 'a \<Rightarrow> bool" where
  "key_less desc key left right = (if desc then key left > key right else key left < key right)"

definition sessionSortTime :: "SessionDetail \<Rightarrow> gotime" where
  "sessionSortTime detail =
     (if sd_Timeline detail \<noteq> [] then te_CreatedAt (last (sd_Timeline detail)) else 0)"

definition session_less :: "string \<Rightarrow> bool \<Rightarrow> SessionDetail \<Rightarrow> SessionDetail \<Rightarrow> bool" where
  "session_less sortBy desc =
     (let by = ToLower (TrimSpace sortBy) in
      if by = ''triage'' then cmp_less desc CompareSessionTriage
      else if by = ''status'' then key_less desc sd_Status
      else if by = ''session_id'' then key_less desc sd_SessionID
      else if by \<in> {''created_at'', ''updated_at''} then key_less desc sessionSortTime
      else key_less desc sessionSortTime)"

definition sortSessionDetails :: "SessionDetail list \<Rightarrow> string \<Rightarrow> string \<Rightarrow> SessionDetail list" where
  "sortSessionDetails items sortBy sortOrder = slice_stable (session_less sortBy (is_desc sortOrder)) items"

definition execution_less :: "string \<Rightarrow> bool \<Rightarrow> ExecutionDetail \<Rightarrow> ExecutionDetail \<Rightarrow> bool" where
  "execution_less sortBy desc =
     (let by = ToLower (TrimSpace sortBy) in
      if by = ''triage'' then cmp_less desc CompareExecutionTriage
      else if by = ''status'' then key_less desc ed_Status
      else if by = ''target_host'' then key_less desc ed_TargetHost
      else if by = ''execution_id'' then key_less desc ed_ExecutionID
      else if by = ''completed_at'' then key_less desc ed_CompletedAt
      else key_less desc ed_CreatedAt)"

definition sortExecutionDetails :: "ExecutionDetail list \<Rightarrow> string \<Rightarrow> string \<Rightarrow> ExecutionDetail list" where
  "sortExecutionDetails items sortBy sortOrder =
     slice_stable (execution_less sortBy (is_desc sortOrder)) items"

definition outbox_less :: "string \<Rightarrow> bool \<Rightarrow> OutboxEvent \<Rightarrow> OutboxEvent \<Rightarrow> bool" where
  "outbox_less sortBy desc =
     (let by = ToLower (TrimSpace sortBy) in
      if by = ''status'' then key_less desc ob_Status
      else if by = ''topic'' then key_less desc ob_Topic
      else key_less desc ob_CreatedAt)"

definition sortOutboxEvents :: "OutboxEvent list \<Rightarrow> string \<Rightarrow> string \<Rightarrow> OutboxEvent list" where
  "sortOutboxEvents items sortBy sortOrder = slice_stable (outbox_less sortBy (is_desc sortOrder)) items"

section \<open>Lists\<close>

definition session_selected :: "ListSessionsFilter \<Rightarrow> sessionRecord \<Rightarrow> bool" where
  "session_selected f r \<longleftrightarrow>
     (lsf_Status f \<noteq> [] \<longrightarrow> sd_Status (sr_detail r) = lsf_Status f) \<and>
     (lsf_Host f \<noteq> [] \<longrightarrow> sr_host r = lsf_Host f) \<and>
     matchesSessionQuery (cloneSessionDetail (sr_detail r)) (lsf_Query f)"

definition session_view :: "sessionRecord \<Rightarrow> SessionDetail" where
  "session_view r = PopulateSessionGoldenPath (cloneSessionDetail (sr_detail r))"

fun sessions_loop :: "ListSessionsFilter \<Rightarrow> string list \<Rightarrow> SessionDetail list \<Rightarrow> Service \<Rightarrow> SessionDetail list result" where
  "sessions_loop f [] items s = Inr items"
| "sessions_loop f (sid # sids) items s =
     (case ws_sessions s sid of
        None \<Rightarrow> Inl NilDeref
      | Some r \<Rightarrow>
          if session_selected f r then sessions_loop f sids (items @ [session_view r]) s
          else sessions_loop f sids items s)"

definition ListSessions :: "ListSessionsFilter \<Rightarrow> Service \<Rightarrow> SessionDetail list result" where
  "ListSessions f s =
     (case sessions_loop f (rev (ws_sessionOrder s)) [] s of
        Inl err \<Rightarrow> Inl err
      | Inr items \<Rightarrow> Inr (sortSessionDetails items (lsf_SortBy f) (lsf_SortOrder f)))"

definition execution_view :: "Service \<Rightarrow> ExecutionDetail \<Rightarrow> SessionDetail option \<Rightarrow> ExecutionDetail" where
  "execution_view s e session =
     PopulateExecutionGoldenPath (e\<lparr>ed_SessionID := get_str (ws_executionSession s) (ed_ExecutionID e)\<rparr>) session"

definition execution_selected :: "ListExecutionsFilter \<Rightarrow> ExecutionDetail \<Rightarrow> bool" where
  "execution_selected f e \<longleftrightarrow>
     (lef_Status f \<noteq> [] \<longrightarrow> ed_Status e = lef_Status f) \<and> matchesExecutionQuery e (lef_Query f)"

text \<open>\<open>order\<close> is the order in which the map of executions is ranged over.\<close>

definition ListExecutions :: "string list \<Rightarrow> ListExecutionsFilter \<Rightarrow> Service \<Rightarrow> ExecutionDetail list result" where
  "ListExecutions order f s =
     Inr (sortExecutionDetails
       (map (\<lambda>e. execution_view s e None)
         (filter (execution_selected f) (List.map_filter (ws_executions s) order)))
       (lef_SortBy f) (lef_SortOrder f))"

definition event_selected :: "ListOutboxFilter \<Rightarrow> OutboxEvent \<Rightarrow> bool" where
  "event_selected f e \<longleftrightarrow>
     (if lof_Status f \<noteq> [] then ob_Status e = lof_Status f else ob_Status e \<in> {''blocked'', ''failed''}) \<and>
     matchesOutboxQuery (cloneOutboxEvent e) (lof_Query f)"

fun outbox_list_loop :: "ListOutboxFilter \<Rightarrow> string list \<Rightarrow> OutboxEvent list \<Rightarrow> Service \<Rightarrow> OutboxEvent list result" where
  "outbox_list_loop f [] items s = Inr items"
| "outbox_list_loop f (eid # eids) items s =
     (case ws_outbox s eid of
        None \<Rightarrow> Inl NilDeref
      | Some e \<Rightarrow>
          if event_selected f e then outbox_list_loop f eids (items @ [cloneOutboxEvent e]) s
          else outbox_list_loop f eids items s)"

definition ListOutbox :: "ListOutboxFilter \<Rightarrow> Service \<Rightarrow> OutboxEvent list result" where
  "ListOutbox f s =
     (case outbox_list_loop f (rev (ws_outboxOrder s)) [] s of
        Inl err \<Rightarrow> Inl err
      | Inr items \<Rightarrow> Inr (sortOutboxEvents items (lof_SortBy f) (lof_SortOrder f)))"

section \<open>Single records\<close>

definition GetSession :: "string \<Rightarrow> Service \<Rightarrow> SessionDetail result" where
  "GetSession sessionID s =
     (case ws_sessions s sessionID of
        None \<Rightarrow> Inl ErrNotFound
      | Some r \<Rightarrow> Inr (PopulateSessionGoldenPath (cloneSessionDetail (sr_detail r))))"

definition GetExecution :: "string \<Rightarrow> Service \<Rightarrow> ExecutionDetail result" where
  "GetExecution executionID s =
     (case ws_executions s executionID of
        None \<Rightarrow> Inl ErrNotFound
      | Some e \<Rightarrow>
          (let sid = get_str (ws_executionSession s) (ed_ExecutionID e);
               session = map_option (\<lambda>r. PopulateSessionGoldenPath (cloneSessionDetail (sr_detail r)))
                           (ws_sessions s sid)
           in Inr (execution_view s e session)))"

definition GetExecutionOutput :: "string \<Rightarrow> Service \<Rightarrow> ExecutionOutputChunk list result" where
  "GetExecutionOutput executionID s =
     (case ws_executions s executionID of
        None \<Rightarrow> Inl ErrNotFound
      | Some _ \<Rightarrow>
          Inr (case ws_executionOutputs s executionID of None \<Rightarrow> [] | Some items \<Rightarrow> items))"

section \<open>Lemmas\<close>

lemma key_less_order: "strict_weak_order (key_less desc key)"
proof (cases desc)
  case True
  then show ?thesis
    using strict_weak_order_flip [OF strict_weak_order_key, of key] by (simp add: key_less_def [abs_def])
qed (simp add: key_less_def [abs_def] strict_weak_order_key)

interpretation session_list: strict_weak_order "session_less sortBy desc" for sortBy desc
  by (simp add: session_less_def Let_def key_less_order session_triage.less_order)

interpretation execution_list: strict_weak_order "execution_less sortBy desc" for sortBy desc
  by (simp add: execution_less_def Let_def key_less_order execution_triage.less_order)

interpretation outbox_list: strict_weak_order "outbox_less sortBy desc" for sortBy desc
  by (simp add: outbox_less_def Let_def key_less_order)

lemma sessions_loop_eq:
  "set sids \<subseteq> dom (ws_sessions s) \<Longrightarrow>
     sessions_loop f sids items s =
       Inr (items @ map session_view (filter (session_selected f) (map (\<lambda>sid. the (ws_sessions s sid)) sids)))"
  by (induction f sids items s rule: sessions_loop.induct) auto

lemma outbox_list_loop_eq:
  "set eids \<subseteq> dom (ws_outbox s) \<Longrightarrow>
     outbox_list_loop f eids items s =
       Inr (items @ filter (event_selected f) (map (\<lambda>eid. the (ws_outbox s eid)) eids))"
  by (induction f eids items s rule: outbox_list_loop.induct) (auto simp: cloneOutboxEvent_def)

lemma wf_order: "wf_service s \<Longrightarrow> set (rev (ws_sessionOrder s)) \<subseteq> dom (ws_sessions s)"
  by (simp add: wf_service_def sessions_ok_def)

lemma headline_of_strmap:
  assumes "map_of alert ''labels'' = Some (VStrMap labels)"
    and "map_of alert ''annotations'' = Some (VStrMap annotations)"
  shows "gp_alertLabel alert key = []" "alertAnnotation alert key = []"
  using assms by (simp_all add: gp_alertLabel_def alertAnnotation_def)

section \<open>Properties\<close>

text \<open>Listing sessions is exact.  In a reachable service the list is found without a nil
  dereference; it holds the view of every stored session that passes the filter once, and of no
  other, and it is sorted by the requested order.\<close>

theorem list_sessions_exact:
  assumes "reachable s"
  shows "\<exists>items. ListSessions f s = Inr items \<and>
    mset items = mset (map session_view
      (filter (session_selected f) (map (\<lambda>sid. the (ws_sessions s sid)) (ws_sessionOrder s)))) \<and>
    sorted_wrt (\<lambda>x y. \<not> session_less (lsf_SortBy f) (is_desc (lsf_SortOrder f)) y x) items"
proof -
  have wf: "wf_service s" using assms by (rule reachable_wf)
  let ?views = "\<lambda>sids. map session_view (filter (session_selected f) (map (\<lambda>sid. the (ws_sessions s sid)) sids))"
  have "ListSessions f s = Inr (sortSessionDetails (?views (rev (ws_sessionOrder s))) (lsf_SortBy f) (lsf_SortOrder f))"
    using sessions_loop_eq [OF wf_order [OF wf]] by (simp add: ListSessions_def)
  moreover have "mset (?views (rev (ws_sessionOrder s))) = mset (?views (ws_sessionOrder s))"
    by (simp add: rev_map [symmetric] rev_filter [symmetric])
  ultimately show ?thesis
    by (simp add: sortSessionDetails_def session_list.sorted_slice_stable del: mset_map mset_filter map_map)
qed

theorem list_sessions_exact_witness:
  "\<exists>items. ListSessions \<lparr>lsf_Status = ''analyzing'', lsf_Host = [], lsf_Query = ''DB-1'', lsf_SortBy = ''triage'',
      lsf_SortOrder = []\<rparr> one_session = Inr items \<and>
    sorted_wrt (\<lambda>x y. \<not> session_less ''triage'' (is_desc []) y x) items"
  using list_sessions_exact [OF reachable_one_session, of "\<lparr>lsf_Status = ''analyzing'', lsf_Host = [],
      lsf_Query = ''DB-1'', lsf_SortBy = ''triage'', lsf_SortOrder = []\<rparr>"] by auto

text \<open>What an executor reports is what is read.  After a result has been handled, whether its session
  was found or not, reading the output of the execution succeeds: the chunks, numbered from 0,
  concatenate to the reported output, each is nonempty, has at most 16384 bytes and records its
  size, and no rune is split between two of them.\<close>

theorem execution_output_readback:
  "\<exists>chunks. GetExecutionOutput (er_ExecutionID res) (snd (HandleExecutionResult t res s)) = Inr chunks \<and>
     concat (map oc_Content chunks) = er_OutputPreview res \<and>
     concat (map (runes \<circ> oc_Content) chunks) = runes (er_OutputPreview res) \<and>
     map oc_Seq chunks = map int [0..<length chunks] \<and>
     list_all (\<lambda>c. oc_ByteSize c = int (length (oc_Content c)) \<and> 0 < oc_ByteSize c \<and> oc_ByteSize c \<le> 16384) chunks"
proof -
  let ?chunks = "buildExecutionOutputChunks t (er_OutputPreview res) t"
  have "GetExecutionOutput (er_ExecutionID res) (snd (HandleExecutionResult t res s)) = Inr ?chunks"
    by (simp add: GetExecutionOutput_def result_executions)
      (simp add: HandleExecutionResult_def Let_def split: option.split)
  then show ?thesis using output_chunks_spec [of t "er_OutputPreview res" t] by (auto simp: list_all_iff)
qed

text \<open>The summary of a session held in memory never shows the name of its alert: the alert handler
  stores labels and annotations as maps of strings, the summary reads maps of arbitrary values
  only, so that the headline of every new session is that of an unknown alert, and the request of
  a chat is not shown.\<close>

theorem headline_loses_alert_name:
  "gs_Headline (the (sd_GoldenSummary (session_view (alert_session event now fingerprint sessionID enabled)))) =
     ''unknown-alert @ '' @
     (if TrimSpace (pickHost (ae_Labels event)) = [] then ''unknown-host'' else TrimSpace (pickHost (ae_Labels event)))"
proof -
  have "TrimSpace ''unknown-alert'' = ''unknown-alert''" "TrimSpace ''unknown-host'' = ''unknown-host''"
    by code_simp+
  then show ?thesis
    by (simp add: session_view_def PopulateSessionGoldenPath_def buildSessionGoldenSummary_def sessionHeadline_def
        alert_session_def Let_def cloneSessionDetail_def gp_alertLabel_def alertAnnotation_def alertString_def)
qed

end
