(* ===== verification/Access_Directory.thy ===== *)
theory Access_Directory
  imports Contracts
begin

text \<open>
  The directory of the access module, \<^verbatim>\<open>internal/modules/access/manager.go\<close> and \<^verbatim>\<open>org_filter.go\<close>: users,
  groups, roles, authentication providers, people and channels, their normal form, and the
  operations that change them.  Authentication is the theory \<open>Access_Auth\<close>.

  The manager is a record that every method takes and returns; its configuration is never nil after
  \<^verbatim>\<open>NewManager\<close>.  An operation reads the clock once, at its argument \<open>now\<close>.  Outside the program are
  the fields of \<open>access_env\<close>: the YAML codec, the file system, password hashes, one-time passwords,
  signed tokens, the HTTP and OpenID clients, and \<^verbatim>\<open>keyMatch2\<close> of the Casbin library.  Maps of strings
  are association lists.
\<close>

section \<open>Data\<close>

record IdentityLink =
  il_ProviderType :: string
  il_ProviderID :: string
  il_ExternalSubject :: string
  il_ExternalUsername :: string
  il_ExternalEmail :: string

record User =
  us_UserID :: string
  us_Username :: string
  us_DisplayName :: string
  us_Email :: string
  us_Status :: string
  us_Source :: string
  us_PasswordHash :: string
  us_PasswordLoginEnabled :: bool
  us_PasswordUpdatedAt :: gotime
  us_ChallengeRequired :: bool
  us_MFAEnabled :: bool
  us_MFAMethod :: string
  us_TOTPSecret :: string
  us_Roles :: "string list"
  us_Groups :: "string list"
  us_Identities :: "IdentityLink list"
  us_OrgID :: string
  us_TenantID :: string
  us_WorkspaceID :: string
  us_CreatedAt :: gotime
  us_UpdatedAt :: gotime

definition zero_User :: User where
  "zero_User = \<lparr>us_UserID = [], us_Username = [], us_DisplayName = [], us_Email = [], us_Status = [],
     us_Source = [], us_PasswordHash = [], us_PasswordLoginEnabled = False, us_PasswordUpdatedAt = 0,
     us_ChallengeRequired = False, us_MFAEnabled = False, us_MFAMethod = [], us_TOTPSecret = [],
     us_Roles = [], us_Groups = [], us_Identities = [], us_OrgID = [], us_TenantID = [],
     us_WorkspaceID = [], us_CreatedAt = 0, us_UpdatedAt = 0\<rparr>"

record Group =
  gr_GroupID :: string
  gr_DisplayName :: string
  gr_Description :: string
  gr_Status :: string
  gr_Roles :: "string list"
  gr_Members :: "string list"
  gr_OrgID :: string
  gr_TenantID :: string
  gr_WorkspaceID :: string
  gr_CreatedAt :: gotime
  gr_UpdatedAt :: gotime

record AuthProvider =
  ap_ID :: string
  ap_Type :: string
  ap_Name :: string
  ap_Enabled :: bool
  ap_PasswordMinLength :: int
  ap_RequireChallenge :: bool
  ap_ChallengeChannel :: string
  ap_ChallengeTTLSeconds :: int
  ap_ChallengeCodeLength :: int
  ap_RequireMFA :: bool
  ap_IssuerURL :: string
  ap_ClientID :: string
  ap_ClientSecret :: string
  ap_ClientSecretRef :: string
  ap_AuthURL :: string
  ap_TokenURL :: string
  ap_UserInfoURL :: string
  ap_SessionTTLSeconds :: int
  ap_LDAPURL :: string
  ap_BindDN :: string
  ap_BindPassword :: string
  ap_BindPasswordRef :: string
  ap_BaseDN :: string
  ap_UserSearchFilter :: string
  ap_GroupSearchFilter :: string
  ap_Scopes :: "string list"
  ap_RedirectPath :: string
  ap_SuccessRedirect :: string
  ap_UserIDField :: string
  ap_UsernameField :: string
  ap_DisplayNameField :: string
  ap_EmailField :: string
  ap_AllowedDomains :: "string list"
  ap_DefaultRoles :: "string list"
  ap_AllowJIT :: bool

record AccessRole =
  ro_ID :: string
  ro_DisplayName :: string
  ro_Permissions :: "string list"

record Person =
  pe_ID :: string
  pe_DisplayName :: string
  pe_Email :: string
  pe_Status :: string
  pe_LinkedUserID :: string
  pe_ChannelIDs :: "string list"
  pe_Team :: string
  pe_ApprovalTarget :: string
  pe_OncallSchedule :: string
  pe_Preferences :: strmap
  pe_OrgID :: string
  pe_TenantID :: string
  pe_WorkspaceID :: string
  pe_CreatedAt :: gotime
  pe_UpdatedAt :: gotime

text \<open>Usages and capabilities of a channel are string types of the source.\<close>

record AccessChannel =
  ch_ID :: string
  ch_Kind :: string
  ch_Type :: string
  ch_Name :: string
  ch_Target :: string
  ch_Enabled :: bool
  ch_LinkedUsers :: "string list"
  ch_Usages :: "string list"
  ch_Capabilities :: "string list"
  ch_OrgID :: string
  ch_TenantID :: string
  ch_WorkspaceID :: string
  ch_CreatedAt :: gotime
  ch_UpdatedAt :: gotime

record AccessConfig =
  ac_Users :: "User list"
  ac_Groups :: "Group list"
  ac_AuthProviders :: "AuthProvider list"
  ac_Roles :: "AccessRole list"
  ac_People :: "Person list"
  ac_Channels :: "AccessChannel list"

datatype access_error =
    ErrConfigPathNotSet
  | ErrUserNotFound
  | ErrAuthProviderNotFound
  | ErrRoleNotFound
  | ErrGroupNotFound
  | ErrPersonNotFound
  | ErrChannelNotFound
  | ErrInvalidCredentials
  | ErrAuthProviderDisabled
  | ErrOAuthStateInvalid
  | ErrAuthFlowNotFound
  | ErrChallengeNotFound
  | ErrChallengeRequired
  | ErrMFARequired
  | ErrOther go_error

record OrgFilter =
  of_OrgID :: string
  of_TenantID :: string
  of_WorkspaceID :: string

section \<open>Helpers\<close>

fun acc_firstNonEmpty :: "string list \<Rightarrow> string" where
  "acc_firstNonEmpty [] = []"
| "acc_firstNonEmpty (v # vs) = (if TrimSpace v \<noteq> [] then TrimSpace v else acc_firstNonEmpty vs)"

definition firstNonEmptySlice :: "string list \<Rightarrow> string list \<Rightarrow> string list" where
  "firstNonEmptySlice value fallback = (if value \<noteq> [] then value else fallback)"

definition dedupeStrings :: "string list \<Rightarrow> string list" where
  "dedupeStrings items = dedupe_by (\<lambda>x. x) [] (map TrimSpace items)"

definition dedupeUsers :: "User list \<Rightarrow> User list" where
  "dedupeUsers = dedupe_by us_UserID []"

definition dedupeGroups :: "Group list \<Rightarrow> Group list" where
  "dedupeGroups = dedupe_by gr_GroupID []"

definition dedupeProviders :: "AuthProvider list \<Rightarrow> AuthProvider list" where
  "dedupeProviders = dedupe_by ap_ID []"

definition dedupeRoles :: "AccessRole list \<Rightarrow> AccessRole list" where
  "dedupeRoles = dedupe_by ro_ID []"

definition dedupePeople :: "Person list \<Rightarrow> Person list" where
  "dedupePeople = dedupe_by pe_ID []"

definition dedupeChannels :: "AccessChannel list \<Rightarrow> AccessChannel list" where
  "dedupeChannels = dedupe_by ch_ID []"

definition containsString :: "string list \<Rightarrow> string \<Rightarrow> bool" where
  "containsString items want \<longleftrightarrow> (\<exists>item \<in> set items. TrimSpace item = TrimSpace want)"

definition filterStrings :: "string list \<Rightarrow> string \<Rightarrow> string list" where
  "filterStrings items exclude = filter (\<lambda>s. TrimSpace s \<noteq> TrimSpace exclude) items"

definition acc_cloneStringMap :: "strmap \<Rightarrow> strmap" where
  "acc_cloneStringMap items =
     foldl (\<lambda>out kv. let trimmed = TrimSpace (fst kv) in
       if trimmed = [] then out else map_put trimmed (TrimSpace (snd kv)) out) [] items"

text \<open>\<^verbatim>\<open>slugify\<close> ranges over the runes of the text; every run of other runes becomes one dash.\<close>

fun slug_loop :: "bool \<Rightarrow> nat list \<Rightarrow> string" where
  "slug_loop lastDash [] = []"
| "slug_loop lastDash (r # rs) =
     (if 97 \<le> r \<and> r \<le> 122 \<or> 48 \<le> r \<and> r \<le> 57 then char_of r # slug_loop False rs
      else if lastDash then slug_loop True rs
      else CHR ''-'' # slug_loop True rs)"

definition slugify :: "string \<Rightarrow> string" where
  "slugify value0 =
     (let value = ToLower (TrimSpace value0) in
      if value = [] then [] else Trim (slug_loop False (runes value)) ''-'')"

definition clonePeople :: "Person list \<Rightarrow> Person list" where
  "clonePeople items = map (\<lambda>p. p\<lparr>pe_Preferences := acc_cloneStringMap (pe_Preferences p)\<rparr>) items"

text \<open>\<^verbatim>\<open>cloneAuthProviders(items, public)\<close>: the public copy has no secrets.\<close>

definition cloneAuthProviders :: "AuthProvider list \<Rightarrow> bool \<Rightarrow> AuthProvider list" where
  "cloneAuthProviders items public =
     map (\<lambda>p. if public
       then p\<lparr>ap_ClientSecret := [], ap_ClientSecretRef := [], ap_BindPassword := [], ap_BindPasswordRef := []\<rparr>
       else p) items"

text \<open>The other copies of the package leave the values as they are.\<close>

definition acc_cloneConfig :: "AccessConfig \<Rightarrow> AccessConfig" where
  "acc_cloneConfig cfg = cfg\<lparr>ac_AuthProviders := cloneAuthProviders (ac_AuthProviders cfg) False,
     ac_People := clonePeople (ac_People cfg)\<rparr>"

section \<open>Normal forms\<close>

definition normalizeUser :: "User \<Rightarrow> gotime \<Rightarrow> User" where
  "normalizeUser user now =
     (let userID = acc_firstNonEmpty [TrimSpace (us_UserID user), slugify (us_Username user), slugify (us_Email user)];
          username = acc_firstNonEmpty [TrimSpace (us_Username user), userID];
          passwordHash = TrimSpace (us_PasswordHash user);
          roles = dedupeStrings (us_Roles user)
      in user\<lparr>us_UserID := userID,
              us_Username := username,
              us_DisplayName := acc_firstNonEmpty [TrimSpace (us_DisplayName user), username, userID],
              us_Email := ToLower (TrimSpace (us_Email user)),
              us_Status := acc_firstNonEmpty [TrimSpace (us_Status user), ''active''],
              us_Source := acc_firstNonEmpty [TrimSpace (us_Source user), ''local''],
              us_PasswordHash := passwordHash,
              us_MFAMethod := TrimSpace (us_MFAMethod user),
              us_TOTPSecret := TrimSpace (us_TOTPSecret user),
              us_Roles := (if roles = [] then [''viewer''] else roles),
              us_Groups := dedupeStrings (us_Groups user),
              us_PasswordUpdatedAt := (if passwordHash \<noteq> [] \<and> IsZero (us_PasswordUpdatedAt user) then now
                                       else us_PasswordUpdatedAt user),
              us_CreatedAt := (if IsZero (us_CreatedAt user) then now else us_CreatedAt user),
              us_UpdatedAt := now\<rparr>)"

definition normalizeGroup :: "Group \<Rightarrow> gotime \<Rightarrow> Group" where
  "normalizeGroup group0 now =
     (let groupID = acc_firstNonEmpty [TrimSpace (gr_GroupID group0), slugify (gr_DisplayName group0)]
      in group0\<lparr>gr_GroupID := groupID,
              gr_DisplayName := acc_firstNonEmpty [TrimSpace (gr_DisplayName group0), groupID],
              gr_Description := TrimSpace (gr_Description group0),
              gr_Status := acc_firstNonEmpty [TrimSpace (gr_Status group0), ''active''],
              gr_Roles := dedupeStrings (gr_Roles group0),
              gr_Members := dedupeStrings (gr_Members group0),
              gr_CreatedAt := (if IsZero (gr_CreatedAt group0) then now else gr_CreatedAt group0),
              gr_UpdatedAt := now\<rparr>)"

definition normalizeAuthProvider :: "AuthProvider \<Rightarrow> AuthProvider" where
  "normalizeAuthProvider p =
     (let pid = TrimSpace (ap_ID p);
          type = acc_firstNonEmpty [TrimSpace (ap_Type p), ''oauth2''];
          defaultRoles = dedupeStrings (ap_DefaultRoles p)
      in p\<lparr>ap_ID := pid,
           ap_Type := type,
           ap_Name := acc_firstNonEmpty [TrimSpace (ap_Name p), pid],
           ap_ChallengeChannel := acc_firstNonEmpty [TrimSpace (ap_ChallengeChannel p), ''builtin''],
           ap_IssuerURL := TrimSpace (ap_IssuerURL p),
           ap_AuthURL := TrimSpace (ap_AuthURL p),
           ap_TokenURL := TrimSpace (ap_TokenURL p),
           ap_UserInfoURL := TrimSpace (ap_UserInfoURL p),
           ap_ClientID := TrimSpace (ap_ClientID p),
           ap_ClientSecret := TrimSpace (ap_ClientSecret p),
           ap_ClientSecretRef := TrimSpace (ap_ClientSecretRef p),
           ap_LDAPURL := TrimSpace (ap_LDAPURL p),
           ap_BindDN := TrimSpace (ap_BindDN p),
           ap_BindPassword := TrimSpace (ap_BindPassword p),
           ap_BindPasswordRef := TrimSpace (ap_BindPasswordRef p),
           ap_BaseDN := TrimSpace (ap_BaseDN p),
           ap_UserSearchFilter := TrimSpace (ap_UserSearchFilter p),
           ap_GroupSearchFilter := TrimSpace (ap_GroupSearchFilter p),
           ap_RedirectPath := acc_firstNonEmpty [TrimSpace (ap_RedirectPath p), ''/api/v1/auth/callback/'' @ pid],
           ap_SuccessRedirect := acc_firstNonEmpty [TrimSpace (ap_SuccessRedirect p), ''/login''],
           ap_UserIDField := TrimSpace (ap_UserIDField p),
           ap_UsernameField := TrimSpace (ap_UsernameField p),
           ap_DisplayNameField := TrimSpace (ap_DisplayNameField p),
           ap_EmailField := TrimSpace (ap_EmailField p),
           ap_AllowedDomains := dedupeStrings (ap_AllowedDomains p),
           ap_Scopes := dedupeStrings (ap_Scopes p),
           ap_PasswordMinLength := (if ap_PasswordMinLength p \<le> 0 then 8 else ap_PasswordMinLength p),
           ap_ChallengeTTLSeconds := (if ap_ChallengeTTLSeconds p \<le> 0 then 300 else ap_ChallengeTTLSeconds p),
           ap_ChallengeCodeLength := (if ap_ChallengeCodeLength p \<le> 0 then 6 else ap_ChallengeCodeLength p),
           ap_DefaultRoles := (if type = ''local_token'' \<and> defaultRoles = [] then [''ops_admin''] else defaultRoles)\<rparr>)"

definition normalizeRole :: "AccessRole \<Rightarrow> AccessRole" where
  "normalizeRole role =
     \<lparr>ro_ID = TrimSpace (ro_ID role),
      ro_DisplayName = acc_firstNonEmpty [TrimSpace (ro_DisplayName role), TrimSpace (ro_ID role)],
      ro_Permissions = dedupeStrings (ro_Permissions role)\<rparr>"

definition normalizePerson :: "Person \<Rightarrow> gotime \<Rightarrow> Person" where
  "normalizePerson person now =
     (let personID = acc_firstNonEmpty [TrimSpace (pe_ID person), slugify (pe_DisplayName person), slugify (pe_Email person)]
      in person\<lparr>pe_ID := personID,
              pe_DisplayName := acc_firstNonEmpty [TrimSpace (pe_DisplayName person), personID],
              pe_Email := ToLower (TrimSpace (pe_Email person)),
              pe_Status := acc_firstNonEmpty [TrimSpace (pe_Status person), ''active''],
              pe_LinkedUserID := TrimSpace (pe_LinkedUserID person),
              pe_ChannelIDs := dedupeStrings (pe_ChannelIDs person),
              pe_Team := TrimSpace (pe_Team person),
              pe_ApprovalTarget := TrimSpace (pe_ApprovalTarget person),
              pe_OncallSchedule := TrimSpace (pe_OncallSchedule person),
              pe_Preferences := acc_cloneStringMap (pe_Preferences person),
              pe_CreatedAt := (if IsZero (pe_CreatedAt person) then now else pe_CreatedAt person),
              pe_UpdatedAt := now\<rparr>)"

text \<open>Usages and capabilities are filled in from each other: the conversions keep the text.\<close>

definition normalizeChannel :: "AccessChannel \<Rightarrow> gotime \<Rightarrow> AccessChannel" where
  "normalizeChannel channel now =
     (let channelID = acc_firstNonEmpty [TrimSpace (ch_ID channel), slugify (ch_Name channel), slugify (ch_Target channel)];
          kind = acc_firstNonEmpty [TrimSpace (ch_Kind channel), TrimSpace (ch_Type channel), ''web''];
          usages = (if ch_Usages channel = [] then ch_Capabilities channel else ch_Usages channel);
          capabilities = (if ch_Capabilities channel = [] then usages else ch_Capabilities channel)
      in channel\<lparr>ch_ID := channelID,
              ch_Kind := kind,
              ch_Type := acc_firstNonEmpty [TrimSpace (ch_Type channel), kind, ''web''],
              ch_Name := acc_firstNonEmpty [TrimSpace (ch_Name channel), channelID],
              ch_Target := TrimSpace (ch_Target channel),
              ch_LinkedUsers := dedupeStrings (ch_LinkedUsers channel),
              ch_Usages := dedupeStrings usages,
              ch_Capabilities := dedupeStrings capabilities,
              ch_CreatedAt := (if IsZero (ch_CreatedAt channel) then now else ch_CreatedAt channel),
              ch_UpdatedAt := now\<rparr>)"

text \<open>An index map: a later item with the same key wins.\<close>

fun last_index :: "('a \<Rightarrow> string) \<Rightarrow> string \<Rightarrow> 'a list \<Rightarrow> nat option" where
  "last_index key k [] = None"
| "last_index key k (x # xs) =
     (case last_index key k xs of
        Some i \<Rightarrow> Some (Suc i)
      | None \<Rightarrow> if key x = k then Some 0 else None)"

definition add_member :: "string \<Rightarrow> Group list \<Rightarrow> string \<Rightarrow> Group list" where
  "add_member userID groups groupID =
     (case last_index gr_GroupID groupID groups of
        None \<Rightarrow> groups
      | Some idx \<Rightarrow> groups[idx := (groups ! idx)\<lparr>gr_Members := dedupeStrings (gr_Members (groups ! idx) @ [userID])\<rparr>])"

definition add_group :: "string \<Rightarrow> User list \<Rightarrow> string \<Rightarrow> User list" where
  "add_group groupID users userID =
     (case last_index us_UserID userID users of
        None \<Rightarrow> users
      | Some idx \<Rightarrow> users[idx := (users ! idx)\<lparr>us_Groups := dedupeStrings (us_Groups (users ! idx) @ [groupID])\<rparr>])"

definition syncGroupMemberships :: "User list \<Rightarrow> Group list \<Rightarrow> User list \<times> Group list" where
  "syncGroupMemberships users groups =
     (let groups' = foldl (\<lambda>gs u. foldl (add_member (us_UserID u)) gs (us_Groups u)) groups users;
          users' = foldl (\<lambda>us g. foldl (add_group (gr_GroupID g)) us (gr_Members g)) users groups'
      in (users', groups'))"

definition defaultRoles :: "AccessRole list" where
  "defaultRoles =
     [\<lparr>ro_ID = ''platform_admin'', ro_DisplayName = ''Platform Admin'', ro_Permissions = [''*'']\<rparr>,
      \<lparr>ro_ID = ''ops_admin'', ro_DisplayName = ''Ops Admin'', ro_Permissions =
        [''platform.read'', ''platform.write'', ''sessions.*'', ''executions.*'', ''skills.*'', ''connectors.*'',
         ''providers.*'', ''channels.*'', ''people.*'', ''users.read'', ''users.write'', ''groups.read'', ''groups.write'',
         ''roles.read'', ''roles.write'', ''auth.read'', ''auth.write'', ''ssh_credentials.read'', ''ssh_credentials.write'',
         ''ssh_credentials.use'', ''audit.read'', ''knowledge.read'', ''knowledge.write'', ''outbox.*'', ''configs.*'']\<rparr>,
      \<lparr>ro_ID = ''approver'', ro_DisplayName = ''Approver'', ro_Permissions =
        [''platform.read'', ''sessions.read'', ''executions.read'', ''executions.approve'', ''outbox.read'', ''people.read'',
         ''channels.read'', ''users.read'', ''groups.read'', ''roles.read'', ''skills.read'', ''connectors.read'',
         ''ssh_credentials.read'']\<rparr>,
      \<lparr>ro_ID = ''operator'', ro_DisplayName = ''Operator'', ro_Permissions =
        [''platform.read'', ''sessions.read'', ''executions.read'', ''skills.read'', ''connectors.read'', ''providers.read'',
         ''ssh_credentials.read'', ''people.read'', ''channels.read'', ''users.read'', ''groups.read'', ''roles.read'',
         ''audit.read'']\<rparr>,
      \<lparr>ro_ID = ''viewer'', ro_DisplayName = ''Viewer'', ro_Permissions =
        [''platform.read'', ''sessions.read'', ''executions.read'', ''skills.read'', ''connectors.read'', ''providers.read'',
         ''ssh_credentials.read'', ''people.read'', ''channels.read'', ''users.read'', ''groups.read'', ''roles.read'',
         ''auth.read'', ''knowledge.read'', ''audit.read'']\<rparr>,
      \<lparr>ro_ID = ''knowledge_admin'', ro_DisplayName = ''Knowledge Admin'', ro_Permissions =
        [''platform.read'', ''knowledge.*'', ''audit.read'', ''sessions.read'']\<rparr>,
      \<lparr>ro_ID = ''org_admin'', ro_DisplayName = ''Organization Admin'', ro_Permissions =
        [''platform.read'', ''platform.write'', ''org.read'', ''org.write'', ''tenants.read'', ''tenants.write'',
         ''workspaces.read'', ''workspaces.write'', ''org_policy.read'', ''org_policy.write'', ''users.read'', ''users.write'',
         ''groups.read'', ''groups.write'', ''roles.read'', ''roles.write'', ''people.read'', ''people.write'',
         ''channels.read'', ''auth.read'', ''audit.read'', ''configs.read'']\<rparr>,
      \<lparr>ro_ID = ''tenant_admin'', ro_DisplayName = ''Tenant Admin'', ro_Permissions =
        [''platform.read'', ''org.read'', ''tenants.read'', ''tenants.write'', ''workspaces.read'', ''workspaces.write'',
         ''org_policy.read'', ''users.read'', ''users.write'', ''groups.read'', ''groups.write'', ''roles.read'',
         ''people.read'', ''people.write'', ''channels.read'', ''auth.read'', ''audit.read'']\<rparr>]"

definition acc_DefaultConfig :: AccessConfig where
  "acc_DefaultConfig = \<lparr>ac_Users = [], ac_Groups = [], ac_AuthProviders = [], ac_Roles = defaultRoles,
     ac_People = [], ac_Channels = []\<rparr>"

definition acc_normalizeConfig :: "gotime \<Rightarrow> AccessConfig \<Rightarrow> AccessConfig" where
  "acc_normalizeConfig now cfg =
     (let roles = dedupeRoles (map normalizeRole (ac_Roles cfg @ defaultRoles));
          users0 = map (\<lambda>u. normalizeUser u now) (ac_Users cfg);
          groups0 = map (\<lambda>g. normalizeGroup g now) (ac_Groups cfg);
          providers = map normalizeAuthProvider (cloneAuthProviders (ac_AuthProviders cfg) False);
          (users, groups) = syncGroupMemberships users0 groups0;
          people = map (\<lambda>p. normalizePerson p now) (clonePeople (ac_People cfg));
          channels = map (\<lambda>c. normalizeChannel c now) (ac_Channels cfg)
      in \<lparr>ac_Users = dedupeUsers (slice_stable (\<lambda>a b. us_UserID a < us_UserID b) users),
          ac_Groups = dedupeGroups (slice_stable (\<lambda>a b. gr_GroupID a < gr_GroupID b) groups),
          ac_AuthProviders = dedupeProviders (slice_stable (\<lambda>a b. ap_ID a < ap_ID b) providers),
          ac_Roles = slice_stable (\<lambda>a b. ro_ID a < ro_ID b) roles,
          ac_People = dedupePeople (slice_stable (\<lambda>a b. pe_ID a < pe_ID b) people),
          ac_Channels = dedupeChannels (slice_stable (\<lambda>a b. ch_ID a < ch_ID b) channels)\<rparr>)"

section \<open>The manager\<close>

record AuthSession =
  se_Token :: string
  se_UserID :: string
  se_ProviderID :: string
  se_CreatedAt :: gotime
  se_ExpiresAt :: gotime
  se_LastSeenAt :: gotime

record OAuthState =
  os_ProviderID :: string
  os_State :: string
  os_CreatedAt :: gotime
  os_ExpiresAt :: gotime

record PendingAuthFlow =
  pa_Token :: string
  pa_UserID :: string
  pa_ProviderID :: string
  pa_CreatedAt :: gotime
  pa_ExpiresAt :: gotime
  pa_PasswordVerified :: bool
  pa_ChallengeRequired :: bool
  pa_ChallengeVerified :: bool
  pa_ChallengeID :: string
  pa_MFARequired :: bool
  pa_MFAVerified :: bool

record ChallengeState =
  cs_ID :: string
  cs_PendingToken :: string
  cs_UserID :: string
  cs_ProviderID :: string
  cs_Code :: string
  cs_Channel :: string
  cs_CreatedAt :: gotime
  cs_ExpiresAt :: gotime
  cs_Attempts :: int
  cs_MaxAttempts :: int
  cs_Consumed :: bool

text \<open>The policies of the enforcer: pairs of a role and a permission pattern.\<close>

record AccessManager =
  am_path :: string
  am_content :: string
  am_config :: AccessConfig
  am_enforcer :: "(string \<times> string) list option"
  am_persist :: "(AccessConfig \<Rightarrow> go_error option) option"
  am_updatedAt :: gotime
  am_sessions :: "string \<rightharpoonup> AuthSession"
  am_oauthStates :: "string \<rightharpoonup> OAuthState"
  am_pendingAuth :: "string \<rightharpoonup> PendingAuthFlow"
  am_challenges :: "string \<rightharpoonup> ChallengeState"

record sessionClaims =
  sc_ProviderID :: string
  sc_Subject :: string
  sc_IssuedAt :: gotime
  sc_NotBefore :: gotime
  sc_ExpiresAt :: gotime
  sc_Issuer :: string
  sc_ID :: string

record oauth_config =
  oc_ClientID :: string
  oc_ClientSecret :: string
  oc_AuthURL :: string
  oc_TokenURL :: string
  oc_RedirectURL :: string
  oc_Scopes :: "string list"

record oauth_token =
  ot_AccessToken :: string
  ot_IDToken :: "string option"

text \<open>The values of a profile: strings, numbers with the text of \<^verbatim>\<open>%.0f\<close>, and others.\<close>

datatype profile_value = PString string | PNumber string | POther

type_synonym profile = "(string \<times> profile_value) list"

text \<open>
  \<open>ae_signed\<close> and \<open>ae_parsed\<close> are the signing and the verification of tokens with the key of the
  manager (verification also compares the times of the claims with the clock); \<open>ae_discover\<close> is the
  discovery document of an issuer: authorization and token address, and the address of the user
  information if its claims decode.
\<close>

record access_env =
  ae_marshal :: "AccessConfig \<Rightarrow> string result"
  ae_unmarshal :: "string \<Rightarrow> AccessConfig result"
  ae_readFile :: "string \<Rightarrow> string result"
  ae_notExist :: "go_error \<Rightarrow> bool"
  ae_writeFile :: "string \<Rightarrow> string \<Rightarrow> go_error option"
  ae_casbin :: bool
  ae_keyMatch2 :: "string \<Rightarrow> string \<Rightarrow> bool"
  ae_bcrypt :: "string \<Rightarrow> string \<Rightarrow> bool"
  ae_totp :: "gotime \<Rightarrow> string \<Rightarrow> string \<Rightarrow> bool"
  ae_signed :: "sessionClaims \<Rightarrow> string option"
  ae_parsed :: "gotime \<Rightarrow> string \<Rightarrow> bool"
  ae_discover :: "string \<Rightarrow> (string \<times> string \<times> string option) result"
  ae_authCodeURL :: "oauth_config \<Rightarrow> string \<Rightarrow> string"
  ae_exchange :: "oauth_config \<Rightarrow> string \<Rightarrow> oauth_token result"
  ae_verifyIDToken :: "string \<Rightarrow> string \<Rightarrow> string \<Rightarrow> profile option"
  ae_userInfo :: "string \<Rightarrow> string \<Rightarrow> profile result"

definition acc_EncodeConfig :: "access_env \<Rightarrow> gotime \<Rightarrow> AccessConfig option \<Rightarrow> string result" where
  "acc_EncodeConfig env now cfg =
     ae_marshal env (acc_cloneConfig
       (case cfg of None \<Rightarrow> acc_DefaultConfig | Some c \<Rightarrow> acc_normalizeConfig now c))"

definition acc_ParseConfig :: "access_env \<Rightarrow> gotime \<Rightarrow> string \<Rightarrow> (AccessConfig \<times> string) result" where
  "acc_ParseConfig env now content =
     (case ae_unmarshal env content of
        Inl err \<Rightarrow> Inl err
      | Inr raw \<Rightarrow>
          (let normalized = acc_normalizeConfig now (acc_cloneConfig raw) in
           case acc_EncodeConfig env now (Some normalized) of
             Inl err \<Rightarrow> Inl err
           | Inr encoded \<Rightarrow> Inr (normalized, encoded)))"

definition normalizePermissionPattern :: "string \<Rightarrow> string" where
  "normalizePermissionPattern permission0 =
     (let permission = TrimSpace permission0 in
      if permission = [] then []
      else if permission = ''*'' then ''*''
      else if HasSuffix permission ''.*'' then TrimSuffix permission ''.*'' @ ''/*''
      else ReplaceAll permission ''.'' ''/'')"

definition buildPermissionEnforcer :: "access_env \<Rightarrow> AccessConfig \<Rightarrow> (string \<times> string) list option" where
  "buildPermissionEnforcer env cfg =
     (if ae_casbin env
      then Some [(ro_ID role, normalizePermissionPattern perm). role \<leftarrow> ac_Roles cfg, perm \<leftarrow> ro_Permissions role]
      else None)"

definition encoded_or_empty :: "string result \<Rightarrow> string" where
  "encoded_or_empty r = (case r of Inl _ \<Rightarrow> [] | Inr s \<Rightarrow> s)"

definition acc_Reload :: "access_env \<Rightarrow> gotime \<Rightarrow> AccessManager \<Rightarrow> access_error option \<times> AccessManager" where
  "acc_Reload env now m =
     (if TrimSpace (am_path m) = []
      then (None, m\<lparr>am_config := acc_DefaultConfig,
                    am_content := encoded_or_empty (acc_EncodeConfig env now (Some acc_DefaultConfig)),
                    am_updatedAt := now\<rparr>)
      else
        (case ae_readFile env (am_path m) of
           Inl err \<Rightarrow>
             if ae_notExist env err
             then (None, m\<lparr>am_config := acc_DefaultConfig,
                           am_enforcer := buildPermissionEnforcer env acc_DefaultConfig,
                           am_content := encoded_or_empty (acc_EncodeConfig env now (Some acc_DefaultConfig)),
                           am_updatedAt := now\<rparr>)
             else (Some (ErrOther err), m)
         | Inr content \<Rightarrow>
             (case acc_ParseConfig env now content of
                Inl err \<Rightarrow> (Some (ErrOther err), m)
              | Inr (cfg, normalized) \<Rightarrow>
                  (None, m\<lparr>am_config := cfg, am_enforcer := buildPermissionEnforcer env cfg,
                           am_content := normalized, am_updatedAt := now\<rparr>))))"

definition blank_manager :: "string \<Rightarrow> AccessManager" where
  "blank_manager path =
     \<lparr>am_path = TrimSpace path, am_content = [], am_config = acc_DefaultConfig, am_enforcer = None, am_persist = None,
      am_updatedAt = 0, am_sessions = Map.empty, am_oauthStates = Map.empty, am_pendingAuth = Map.empty,
      am_challenges = Map.empty\<rparr>"

text \<open>The session key is a part of the environment; \<open>key\<close> is the error of reading random bytes for it.\<close>

definition acc_NewManager :: "access_env \<Rightarrow> gotime \<Rightarrow> go_error option \<Rightarrow> string \<Rightarrow> access_error + AccessManager" where
  "acc_NewManager env now key path =
     (case key of
        Some err \<Rightarrow> Inl (ErrOther err)
      | None \<Rightarrow>
          (let m = blank_manager path in
           if am_path m = []
           then Inr (m\<lparr>am_enforcer := buildPermissionEnforcer env acc_DefaultConfig, am_updatedAt := now,
                       am_content := encoded_or_empty (acc_EncodeConfig env now (Some acc_DefaultConfig))\<rparr>)
           else (case acc_Reload env now m of (Some err, _) \<Rightarrow> Inl err | (None, m') \<Rightarrow> Inr m')))"

definition acc_run_persist :: "AccessManager \<Rightarrow> AccessConfig \<Rightarrow> access_error option" where
  "acc_run_persist m cfg =
     (case am_persist m of None \<Rightarrow> None | Some persist \<Rightarrow> map_option ErrOther (persist (acc_cloneConfig cfg)))"

definition acc_Save :: "access_env \<Rightarrow> gotime \<Rightarrow> string \<Rightarrow> AccessManager \<Rightarrow> access_error option \<times> AccessManager" where
  "acc_Save env now content m =
     (if TrimSpace (am_path m) = [] then (Some ErrConfigPathNotSet, m)
      else
        (case acc_ParseConfig env now content of
           Inl err \<Rightarrow> (Some (ErrOther err), m)
         | Inr (cfg, normalized) \<Rightarrow>
             (case ae_writeFile env (am_path m) normalized of
                Some err \<Rightarrow> (Some (ErrOther err), m)
              | None \<Rightarrow>
                  (let m' = m\<lparr>am_config := cfg, am_enforcer := buildPermissionEnforcer env cfg,
                              am_content := normalized, am_updatedAt := now\<rparr>
                   in (acc_run_persist m' cfg, m')))))"

definition acc_SaveConfig :: "access_env \<Rightarrow> gotime \<Rightarrow> AccessConfig \<Rightarrow> AccessManager \<Rightarrow> access_error option \<times> AccessManager" where
  "acc_SaveConfig env now cfg0 m =
     (if TrimSpace (am_path m) = [] then
        (let cfg = acc_normalizeConfig now cfg0 in
         case acc_EncodeConfig env now (Some cfg) of
           Inl err \<Rightarrow> (Some (ErrOther err), m)
         | Inr content \<Rightarrow>
             (let m' = m\<lparr>am_config := cfg, am_enforcer := buildPermissionEnforcer env cfg,
                         am_content := content, am_updatedAt := now\<rparr>
              in (acc_run_persist m' cfg, m')))
      else
        (case acc_EncodeConfig env now (Some cfg0) of
           Inl err \<Rightarrow> (Some (ErrOther err), m)
         | Inr content \<Rightarrow> acc_Save env now content m))"

definition acc_SetPersistence :: "(AccessConfig \<Rightarrow> go_error option) option \<Rightarrow> AccessManager \<Rightarrow> AccessManager" where
  "acc_SetPersistence persist m = m\<lparr>am_persist := persist\<rparr>"

section \<open>Users, groups, providers, people and channels\<close>

text \<open>The first item with the key of the new one is replaced by it, as \<open>merge\<close> completes it; without
  such an item the new one is appended.\<close>

fun upsert_item :: "('a \<Rightarrow> string) \<Rightarrow> ('a \<Rightarrow> 'a \<Rightarrow> 'a) \<Rightarrow> 'a \<Rightarrow> 'a list \<Rightarrow> 'a \<times> 'a list" where
  "upsert_item key merge item [] = (item, [item])"
| "upsert_item key merge item (x # xs) =
     (if key x = key item then (merge x item, merge x item # xs)
      else (case upsert_item key merge item xs of (item', ys) \<Rightarrow> (item', x # ys)))"

text \<open>The end of every such operation: normalise, save, and return the item.\<close>

definition save_item ::
  "access_env \<Rightarrow> gotime \<Rightarrow> AccessConfig \<Rightarrow> 'a \<Rightarrow> AccessManager \<Rightarrow> (access_error + 'a) \<times> AccessManager" where
  "save_item env now cfg item m =
     (case acc_SaveConfig env now (acc_normalizeConfig now cfg) m of
        (Some err, m') \<Rightarrow> (Inl err, m')
      | (None, m') \<Rightarrow> (Inr item, m'))"

definition GetUser :: "string \<Rightarrow> AccessManager \<Rightarrow> User option" where
  "GetUser uid0 m =
     (let uid = TrimSpace uid0 in
      find (\<lambda>u. us_UserID u = uid \<or> us_Username u = uid) (ac_Users (am_config m)))"

definition UpsertUser ::
  "access_env \<Rightarrow> gotime \<Rightarrow> User \<Rightarrow> AccessManager \<Rightarrow> (access_error + User) \<times> AccessManager" where
  "UpsertUser env now user0 m =
     (let cfg = acc_cloneConfig (am_config m);
          (user, users) = upsert_item us_UserID (\<lambda>old new. new\<lparr>us_CreatedAt := us_CreatedAt old\<rparr>)
            (normalizeUser user0 now) (ac_Users cfg)
      in save_item env now (cfg\<lparr>ac_Users := users\<rparr>) user m)"

definition SetUserStatus ::
  "access_env \<Rightarrow> gotime \<Rightarrow> string \<Rightarrow> string \<Rightarrow> AccessManager \<Rightarrow> (access_error + User) \<times> AccessManager" where
  "SetUserStatus env now uid status m =
     (case GetUser uid m of
        None \<Rightarrow> (Inl ErrUserNotFound, m)
      | Some user \<Rightarrow> UpsertUser env now (user\<lparr>us_Status := TrimSpace status\<rparr>) m)"

definition GetGroup :: "string \<Rightarrow> AccessManager \<Rightarrow> Group option" where
  "GetGroup gid m = find (\<lambda>g. gr_GroupID g = TrimSpace gid) (ac_Groups (am_config m))"

definition UpsertGroup ::
  "access_env \<Rightarrow> gotime \<Rightarrow> Group \<Rightarrow> AccessManager \<Rightarrow> (access_error + Group) \<times> AccessManager" where
  "UpsertGroup env now group0 m =
     (let cfg = acc_cloneConfig (am_config m);
          (grp, groups) = upsert_item gr_GroupID (\<lambda>old new. new\<lparr>gr_CreatedAt := gr_CreatedAt old\<rparr>)
            (normalizeGroup group0 now) (ac_Groups cfg)
      in save_item env now (cfg\<lparr>ac_Groups := groups\<rparr>) grp m)"

definition SetGroupStatus ::
  "access_env \<Rightarrow> gotime \<Rightarrow> string \<Rightarrow> string \<Rightarrow> AccessManager \<Rightarrow> (access_error + Group) \<times> AccessManager" where
  "SetGroupStatus env now gid status m =
     (case GetGroup gid m of
        None \<Rightarrow> (Inl ErrGroupNotFound, m)
      | Some grp \<Rightarrow> UpsertGroup env now (grp\<lparr>gr_Status := TrimSpace status\<rparr>) m)"

definition GetAuthProvider :: "string \<Rightarrow> AccessManager \<Rightarrow> AuthProvider option" where
  "GetAuthProvider pid m =
     map_option normalizeAuthProvider (find (\<lambda>p. ap_ID p = TrimSpace pid) (ac_AuthProviders (am_config m)))"

definition merge_provider :: "AuthProvider \<Rightarrow> AuthProvider \<Rightarrow> AuthProvider" where
  "merge_provider old new =
     new\<lparr>ap_ClientSecret := (if ap_ClientSecret new = [] then ap_ClientSecret old else ap_ClientSecret new),
         ap_ClientSecretRef := (if ap_ClientSecretRef new = [] then ap_ClientSecretRef old else ap_ClientSecretRef new)\<rparr>"

definition UpsertAuthProvider ::
  "access_env \<Rightarrow> gotime \<Rightarrow> AuthProvider \<Rightarrow> AccessManager \<Rightarrow> (access_error + AuthProvider) \<times> AccessManager" where
  "UpsertAuthProvider env now provider0 m =
     (let cfg = acc_cloneConfig (am_config m);
          (provider, providers) = upsert_item ap_ID merge_provider (normalizeAuthProvider provider0)
            (ac_AuthProviders cfg)
      in save_item env now (cfg\<lparr>ac_AuthProviders := providers\<rparr>) provider m)"

definition SetAuthProviderEnabled ::
  "access_env \<Rightarrow> gotime \<Rightarrow> string \<Rightarrow> bool \<Rightarrow> AccessManager \<Rightarrow> (access_error + AuthProvider) \<times> AccessManager" where
  "SetAuthProviderEnabled env now pid enabled m =
     (case GetAuthProvider pid m of
        None \<Rightarrow> (Inl ErrAuthProviderNotFound, m)
      | Some provider \<Rightarrow> UpsertAuthProvider env now (provider\<lparr>ap_Enabled := enabled\<rparr>) m)"

definition GetPerson :: "string \<Rightarrow> AccessManager \<Rightarrow> Person option" where
  "GetPerson pid m =
     map_option (\<lambda>p. hd (clonePeople [p])) (find (\<lambda>p. pe_ID p = TrimSpace pid) (ac_People (am_config m)))"

definition UpsertPerson ::
  "access_env \<Rightarrow> gotime \<Rightarrow> Person \<Rightarrow> AccessManager \<Rightarrow> (access_error + Person) \<times> AccessManager" where
  "UpsertPerson env now person0 m =
     (let cfg = acc_cloneConfig (am_config m);
          (person, people) = upsert_item pe_ID (\<lambda>old new. new\<lparr>pe_CreatedAt := pe_CreatedAt old\<rparr>)
            (normalizePerson person0 now) (ac_People cfg)
      in save_item env now (cfg\<lparr>ac_People := people\<rparr>) person m)"

definition SetPersonStatus ::
  "access_env \<Rightarrow> gotime \<Rightarrow> string \<Rightarrow> string \<Rightarrow> AccessManager \<Rightarrow> (access_error + Person) \<times> AccessManager" where
  "SetPersonStatus env now pid status m =
     (case GetPerson pid m of
        None \<Rightarrow> (Inl ErrPersonNotFound, m)
      | Some person \<Rightarrow> UpsertPerson env now (person\<lparr>pe_Status := TrimSpace status\<rparr>) m)"

definition GetChannel :: "string \<Rightarrow> AccessManager \<Rightarrow> AccessChannel option" where
  "GetChannel cid m = find (\<lambda>c. ch_ID c = TrimSpace cid) (ac_Channels (am_config m))"

definition UpsertChannel ::
  "access_env \<Rightarrow> gotime \<Rightarrow> AccessChannel \<Rightarrow> AccessManager \<Rightarrow> (access_error + AccessChannel) \<times> AccessManager" where
  "UpsertChannel env now channel0 m =
     (let cfg = acc_cloneConfig (am_config m);
          (channel, channels) = upsert_item ch_ID (\<lambda>old new. new\<lparr>ch_CreatedAt := ch_CreatedAt old\<rparr>)
            (normalizeChannel channel0 now) (ac_Channels cfg)
      in save_item env now (cfg\<lparr>ac_Channels := channels\<rparr>) channel m)"

definition SetChannelEnabled ::
  "access_env \<Rightarrow> gotime \<Rightarrow> string \<Rightarrow> bool \<Rightarrow> AccessManager \<Rightarrow> (access_error + AccessChannel) \<times> AccessManager" where
  "SetChannelEnabled env now cid enabled m =
     (case GetChannel cid m of
        None \<Rightarrow> (Inl ErrChannelNotFound, m)
      | Some channel \<Rightarrow> UpsertChannel env now (channel\<lparr>ch_Enabled := enabled\<rparr>) m)"

section \<open>Roles\<close>

definition GetRole :: "string \<Rightarrow> AccessManager \<Rightarrow> AccessRole option" where
  "GetRole rid m = find (\<lambda>r. ro_ID r = TrimSpace rid) (ac_Roles (am_config m))"

definition UpsertRole ::
  "access_env \<Rightarrow> gotime \<Rightarrow> AccessRole \<Rightarrow> AccessManager \<Rightarrow> (access_error + AccessRole) \<times> AccessManager" where
  "UpsertRole env now role0 m =
     (let cfg = acc_cloneConfig (am_config m);
          (role, roles) = upsert_item ro_ID (\<lambda>old new. new) (normalizeRole role0) (ac_Roles cfg)
      in save_item env now (cfg\<lparr>ac_Roles := roles\<rparr>) role m)"

record RoleBindings =
  rbd_RoleID :: string
  rbd_UserIDs :: "string list"
  rbd_GroupIDs :: "string list"

definition GetRoleBindings :: "string \<Rightarrow> AccessManager \<Rightarrow> RoleBindings option" where
  "GetRoleBindings roleID0 m =
     (let roleID = TrimSpace roleID0; cfg = am_config m in
      if roleID \<notin> ro_ID ` set (ac_Roles cfg) then None
      else Some \<lparr>rbd_RoleID = roleID,
        rbd_UserIDs = map us_UserID (filter (\<lambda>u. roleID \<in> set (us_Roles u)) (ac_Users cfg)),
        rbd_GroupIDs = map gr_GroupID (filter (\<lambda>g. roleID \<in> set (gr_Roles g)) (ac_Groups cfg))\<rparr>)"

text \<open>The three operations on bindings differ in what they do to the roles of a user or group.\<close>

definition change_bindings ::
  "access_env \<Rightarrow> gotime \<Rightarrow> string \<Rightarrow> (User \<Rightarrow> string list) \<Rightarrow> (Group \<Rightarrow> string list) \<Rightarrow> AccessManager \<Rightarrow>
     access_error option \<times> AccessManager" where
  "change_bindings env now roleID user_roles group_roles m =
     (if roleID = [] then (Some ErrRoleNotFound, m)
      else
        (let cfg = acc_cloneConfig (am_config m) in
         if roleID \<notin> ro_ID ` set (ac_Roles cfg) then (Some ErrRoleNotFound, m)
         else acc_SaveConfig env now (acc_normalizeConfig now (cfg\<lparr>
           ac_Users := map (\<lambda>u. u\<lparr>us_Roles := user_roles u\<rparr>) (ac_Users cfg),
           ac_Groups := map (\<lambda>g. g\<lparr>gr_Roles := group_roles g\<rparr>) (ac_Groups cfg)\<rparr>)) m))"

definition bind_to :: "string \<Rightarrow> string list \<Rightarrow> string \<Rightarrow> string list \<Rightarrow> string list" where
  "bind_to roleID ids own roles =
     foldl (\<lambda>rs i. if own = TrimSpace i then dedupeStrings (rs @ [roleID]) else rs) roles ids"

definition BindRole ::
  "access_env \<Rightarrow> gotime \<Rightarrow> string \<Rightarrow> string list \<Rightarrow> string list \<Rightarrow> AccessManager \<Rightarrow> access_error option \<times> AccessManager" where
  "BindRole env now roleID0 userIDs groupIDs m =
     (let roleID = TrimSpace roleID0 in
      change_bindings env now roleID (\<lambda>u. bind_to roleID userIDs (us_UserID u) (us_Roles u))
        (\<lambda>g. bind_to roleID groupIDs (gr_GroupID g) (gr_Roles g)) m)"

definition UnbindRole ::
  "access_env \<Rightarrow> gotime \<Rightarrow> string \<Rightarrow> string list \<Rightarrow> string list \<Rightarrow> AccessManager \<Rightarrow> access_error option \<times> AccessManager" where
  "UnbindRole env now roleID0 userIDs groupIDs m =
     (let roleID = TrimSpace roleID0 in
      change_bindings env now roleID
        (\<lambda>u. if us_UserID u \<in> TrimSpace ` set userIDs then filterStrings (us_Roles u) roleID else us_Roles u)
        (\<lambda>g. if gr_GroupID g \<in> TrimSpace ` set groupIDs then filterStrings (gr_Roles g) roleID else gr_Roles g) m)"

definition set_binding :: "string \<Rightarrow> bool \<Rightarrow> string list \<Rightarrow> string list" where
  "set_binding roleID desired roles =
     (if desired then (if roleID \<notin> set roles then dedupeStrings (roles @ [roleID]) else roles)
      else (if roleID \<in> set roles then filterStrings roles roleID else roles))"

definition SetRoleBindings ::
  "access_env \<Rightarrow> gotime \<Rightarrow> string \<Rightarrow> string list \<Rightarrow> string list \<Rightarrow> AccessManager \<Rightarrow> access_error option \<times> AccessManager" where
  "SetRoleBindings env now roleID0 userIDs groupIDs m =
     (let roleID = TrimSpace roleID0 in
      change_bindings env now roleID
        (\<lambda>u. set_binding roleID (us_UserID u \<in> TrimSpace ` set userIDs) (us_Roles u))
        (\<lambda>g. set_binding roleID (gr_GroupID g \<in> TrimSpace ` set groupIDs) (gr_Roles g)) m)"

definition effectiveRoleIDs :: "User \<Rightarrow> Group list \<Rightarrow> string list" where
  "effectiveRoleIDs user groups =
     foldl (\<lambda>roles grp.
        if gr_Status grp \<noteq> ''active'' then roles
        else if containsString (us_Groups user) (gr_GroupID grp) \<or> containsString (gr_Members grp) (us_UserID user)
        then dedupeStrings (roles @ gr_Roles grp) else roles)
       (dedupeStrings (us_Roles user)) groups"

section \<open>Lists with an organization filter\<close>

definition IsEmpty :: "OrgFilter \<Rightarrow> bool" where
  "IsEmpty f \<longleftrightarrow> of_OrgID f = [] \<and> of_TenantID f = [] \<and> of_WorkspaceID f = []"

definition matchesOrgFilter :: "string \<Rightarrow> string \<Rightarrow> string \<Rightarrow> OrgFilter \<Rightarrow> bool" where
  "matchesOrgFilter orgID tenantID workspaceID f =
     (if of_OrgID f \<noteq> [] \<and> orgID \<noteq> [] \<and> \<not> EqualFold orgID (of_OrgID f) then False
      else if of_TenantID f \<noteq> [] \<and> tenantID \<noteq> [] \<and> \<not> EqualFold tenantID (of_TenantID f) then False
      else if of_WorkspaceID f \<noteq> [] \<and> workspaceID \<noteq> [] \<and> \<not> EqualFold workspaceID (of_WorkspaceID f) then False
      else True)"

definition ListUsersFiltered :: "OrgFilter \<Rightarrow> AccessManager \<Rightarrow> User list" where
  "ListUsersFiltered f m =
     (if IsEmpty f then ac_Users (am_config m)
      else filter (\<lambda>u. matchesOrgFilter (us_OrgID u) (us_TenantID u) (us_WorkspaceID u) f) (ac_Users (am_config m)))"

definition ListGroupsFiltered :: "OrgFilter \<Rightarrow> AccessManager \<Rightarrow> Group list" where
  "ListGroupsFiltered f m =
     (if IsEmpty f then ac_Groups (am_config m)
      else filter (\<lambda>g. matchesOrgFilter (gr_OrgID g) (gr_TenantID g) (gr_WorkspaceID g) f) (ac_Groups (am_config m)))"

definition ListPeopleFiltered :: "OrgFilter \<Rightarrow> AccessManager \<Rightarrow> Person list" where
  "ListPeopleFiltered f m =
     clonePeople (if IsEmpty f then ac_People (am_config m)
      else filter (\<lambda>p. matchesOrgFilter (pe_OrgID p) (pe_TenantID p) (pe_WorkspaceID p) f) (ac_People (am_config m)))"

definition ListChannelsFiltered :: "OrgFilter \<Rightarrow> AccessManager \<Rightarrow> AccessChannel list" where
  "ListChannelsFiltered f m =
     (if IsEmpty f then ac_Channels (am_config m)
      else filter (\<lambda>c. matchesOrgFilter (ch_OrgID c) (ch_TenantID c) (ch_WorkspaceID c) f) (ac_Channels (am_config m)))"

definition ListAuthProviders :: "AccessManager \<Rightarrow> AuthProvider list" where
  "ListAuthProviders m = cloneAuthProviders (ac_AuthProviders (am_config m)) True"

text \<open>The lists without a filter, and the snapshot.\<close>

definition ListUsers :: "AccessManager \<Rightarrow> User list" where
  "ListUsers m = ac_Users (am_config m)"

definition ListGroups :: "AccessManager \<Rightarrow> Group list" where
  "ListGroups m = ac_Groups (am_config m)"

definition ListRoles :: "AccessManager \<Rightarrow> AccessRole list" where
  "ListRoles m = ac_Roles (am_config m)"

definition ListPeople :: "AccessManager \<Rightarrow> Person list" where
  "ListPeople m = clonePeople (ac_People (am_config m))"

definition ListChannels :: "AccessManager \<Rightarrow> AccessChannel list" where
  "ListChannels m = ac_Channels (am_config m)"

record AccessSnapshot =
  as_Path :: string
  as_Content :: string
  as_Config :: AccessConfig
  as_UpdatedAt :: gotime
  as_Loaded :: bool

definition acc_Snapshot :: "AccessManager \<Rightarrow> AccessSnapshot" where
  "acc_Snapshot m = \<lparr>as_Path = am_path m, as_Content = am_content m, as_Config = acc_cloneConfig (am_config m),
     as_UpdatedAt = am_updatedAt m, as_Loaded = True\<rparr>"

end
