(* ===== verification/Access_Auth.thy ===== *)
theory Access_Auth
  imports Access_Directory
begin

text \<open>
  Authentication and authorization of the access module, \<^verbatim>\<open>internal/modules/access/manager.go\<close>: logins
  with a token, with a password and with OAuth, the pending flows that wait for a challenge or a
  second factor, sessions, and the evaluation of permissions.

  \<open>rd\<close> is the source of random bytes of one operation: \<open>rd k n\<close> is its \<open>k\<close>-th read of \<open>n\<close> bytes.  The zero
  session of a result is \<open>None\<close>.  The set of permissions of a principal is a list.
\<close>

section \<open>Data\<close>

record Principal =
  pr_Kind :: string
  pr_Token :: string
  pr_User :: "User option"
  pr_RoleIDs :: "string list"
  pr_Permission :: "string list"
  pr_Source :: string

record AuthFlowResult =
  fr_Session :: "AuthSession option"
  fr_User :: User
  fr_ProviderID :: string
  fr_PendingToken :: string
  fr_NextStep :: string
  fr_ChallengeID :: string
  fr_ChallengeChannel :: string
  fr_ChallengeCode :: string
  fr_ChallengeExpiresAt :: gotime

definition flow_result :: "User \<Rightarrow> string \<Rightarrow> AuthFlowResult" where
  "flow_result user providerID = \<lparr>fr_Session = None, fr_User = user, fr_ProviderID = providerID, fr_PendingToken = [],
     fr_NextStep = [], fr_ChallengeID = [], fr_ChallengeChannel = [], fr_ChallengeCode = [], fr_ChallengeExpiresAt = 0\<rparr>"

definition zero_flow :: PendingAuthFlow where
  "zero_flow = \<lparr>pa_Token = [], pa_UserID = [], pa_ProviderID = [], pa_CreatedAt = 0, pa_ExpiresAt = 0,
     pa_PasswordVerified = False, pa_ChallengeRequired = False, pa_ChallengeVerified = False,
     pa_ChallengeID = [], pa_MFARequired = False, pa_MFAVerified = False\<rparr>"

type_synonym random = "nat \<Rightarrow> nat \<Rightarrow> nat list result"

section \<open>Random tokens\<close>

definition base64url :: "string" where
  "base64url = ''ABCDEFGHIJKLMNOPQRSTUVWXYZabcdefghijklmnopqrstuvwxyz0123456789-_''"

text \<open>\<^verbatim>\<open>base64.RawURLEncoding\<close>.\<close>

fun encode_base64 :: "nat list \<Rightarrow> string" where
  "encode_base64 (a # b # c # bs) =
     [base64url ! (a div 4), base64url ! (a mod 4 * 16 + b div 16), base64url ! (b mod 16 * 4 + c div 64),
      base64url ! (c mod 64)] @ encode_base64 bs"
| "encode_base64 [a, b] = [base64url ! (a div 4), base64url ! (a mod 4 * 16 + b div 16), base64url ! (b mod 16 * 4)]"
| "encode_base64 [a] = [base64url ! (a div 4), base64url ! (a mod 4 * 16)]"
| "encode_base64 [] = []"

definition randomToken :: "(nat \<Rightarrow> nat list result) \<Rightarrow> nat \<Rightarrow> string result" where
  "randomToken read n = (case read n of Inl err \<Rightarrow> Inl err | Inr buf \<Rightarrow> Inr (encode_base64 buf))"

definition randomDigits :: "(nat \<Rightarrow> nat list result) \<Rightarrow> int \<Rightarrow> string result" where
  "randomDigits read n =
     (case read (if n \<le> 0 then 6 else nat n) of
        Inl err \<Rightarrow> Inl err
      | Inr buf \<Rightarrow> Inr (map (\<lambda>v. char_of (48 + v mod 10)) buf))"

definition token_or_empty :: "string result \<Rightarrow> string" where
  "token_or_empty r = (case r of Inl _ \<Rightarrow> [] | Inr s \<Rightarrow> s)"

section \<open>Sessions\<close>

definition sessionTTL :: "int \<Rightarrow> duration" where
  "sessionTTL ttlSeconds = (if ttlSeconds \<le> 0 then 12 * 60 * Minute else to_int64 (ttlSeconds * Second))"

definition issueSession ::
  "access_env \<Rightarrow> gotime \<Rightarrow> (nat \<Rightarrow> nat list result) \<Rightarrow> string \<Rightarrow> string \<Rightarrow> int \<Rightarrow> AccessManager \<Rightarrow> AuthSession \<times> AccessManager" where
  "issueSession env now read userID providerID ttlSeconds m =
     (let expiresAt = now + sessionTTL ttlSeconds;
          claims = \<lparr>sc_ProviderID = providerID, sc_Subject = userID, sc_IssuedAt = now, sc_NotBefore = now,
                    sc_ExpiresAt = expiresAt, sc_Issuer = ''tars/access'',
                    sc_ID = acc_firstNonEmpty [providerID, ''session''] @ '':'' @ userID @ '':'' @ dec_int (UnixNano now)\<rparr>;
          token = (case ae_signed env claims of Some t \<Rightarrow> t | None \<Rightarrow> token_or_empty (randomToken read 32));
          session = \<lparr>se_Token = token, se_UserID = userID, se_ProviderID = providerID, se_CreatedAt = now,
                     se_ExpiresAt = expiresAt, se_LastSeenAt = now\<rparr>
      in (session, m\<lparr>am_sessions := (am_sessions m)(token \<mapsto> session)\<rparr>))"

definition lookupUser :: "User list \<Rightarrow> string \<Rightarrow> User option" where
  "lookupUser users uid = find (\<lambda>u. us_UserID u = uid) users"

definition lookupUserByCredentials :: "User list \<Rightarrow> string \<Rightarrow> User option" where
  "lookupUserByCredentials users value =
     (let needle = ToLower (TrimSpace value) in
      find (\<lambda>u. EqualFold (us_UserID u) needle \<or> EqualFold (us_Username u) needle \<or> EqualFold (us_Email u) needle) users)"

definition role_permissions :: "AccessRole list \<Rightarrow> string list \<Rightarrow> string list" where
  "role_permissions roles roleIDs =
     concat (map (\<lambda>role. concat (map (\<lambda>assigned. if ro_ID role = assigned then ro_Permissions role else []) roleIDs)) roles)"

definition buildPrincipal ::
  "string \<Rightarrow> string \<Rightarrow> User option \<Rightarrow> AccessRole list \<Rightarrow> Group list \<Rightarrow> string \<Rightarrow> Principal" where
  "buildPrincipal kind token user roles groups source =
     (let roleIDs = (case user of None \<Rightarrow> [] | Some u \<Rightarrow> effectiveRoleIDs u groups)
      in \<lparr>pr_Kind = kind, pr_Token = token, pr_User = user, pr_RoleIDs = roleIDs,
          pr_Permission = (case user of None \<Rightarrow> [] | Some _ \<Rightarrow> role_permissions roles roleIDs), pr_Source = source\<rparr>)"

definition AuthenticateSession :: "access_env \<Rightarrow> gotime \<Rightarrow> string \<Rightarrow> AccessManager \<Rightarrow> Principal option \<times> AccessManager" where
  "AuthenticateSession env now token0 m =
     (let token = TrimSpace token0 in
      if token = [] then (None, m)
      else if \<not> ae_parsed env now token then (None, m)
      else
        (let dropped = m\<lparr>am_sessions := (am_sessions m)(token := None)\<rparr> in
         case am_sessions m token of
           None \<Rightarrow> (None, dropped)
         | Some session \<Rightarrow>
             if se_ExpiresAt session < now then (None, dropped)
             else
               (case lookupUser (ac_Users (am_config m)) (se_UserID session) of
                  None \<Rightarrow> (None, m)
                | Some user \<Rightarrow>
                    if us_Status user \<noteq> ''active'' then (None, m)
                    else (Some (buildPrincipal ''session'' token (Some user) (ac_Roles (am_config m))
                            (ac_Groups (am_config m)) (se_ProviderID session)),
                          m\<lparr>am_sessions := (am_sessions m)(token \<mapsto> session\<lparr>se_LastSeenAt := now\<rparr>)\<rparr>))))"

definition Logout :: "string \<Rightarrow> AccessManager \<Rightarrow> AccessManager" where
  "Logout token m = m\<lparr>am_sessions := (am_sessions m)(TrimSpace token := None)\<rparr>"

definition acc_GetSession :: "string \<Rightarrow> AccessManager \<Rightarrow> AuthSession option" where
  "acc_GetSession token m = (if TrimSpace token = [] then None else am_sessions m (TrimSpace token))"

definition acc_ListSessions :: "string list \<Rightarrow> AccessManager \<Rightarrow> AuthSession list" where
  "acc_ListSessions order m =
     slice_stable (\<lambda>a b. if se_LastSeenAt a = se_LastSeenAt b then se_CreatedAt b < se_CreatedAt a
        else se_LastSeenAt b < se_LastSeenAt a) (List.map_filter (am_sessions m) order)"

section \<open>Pending flows and challenges\<close>

definition cleanupExpiredAuthState :: "gotime \<Rightarrow> AccessManager \<Rightarrow> AccessManager" where
  "cleanupExpiredAuthState now m =
     m\<lparr>am_pendingAuth := (\<lambda>t. case am_pendingAuth m t of
          None \<Rightarrow> None | Some flow \<Rightarrow> if pa_ExpiresAt flow < now then None else Some flow),
       am_challenges := (\<lambda>i. case am_challenges m i of
          None \<Rightarrow> None | Some c \<Rightarrow> if cs_ExpiresAt c < now \<or> cs_Consumed c then None else Some c)\<rparr>"

definition pendingFlowContext ::
  "gotime \<Rightarrow> string \<Rightarrow> AccessManager \<Rightarrow> (access_error + PendingAuthFlow \<times> User \<times> AuthProvider) \<times> AccessManager" where
  "pendingFlowContext now pendingToken0 m0 =
     (let m = cleanupExpiredAuthState now m0; pendingToken = TrimSpace pendingToken0 in
      if pendingToken = [] then (Inl ErrAuthFlowNotFound, m)
      else
        (case am_pendingAuth m pendingToken of
           None \<Rightarrow> (Inl ErrAuthFlowNotFound, m)
         | Some flow \<Rightarrow>
             if pa_ExpiresAt flow < now then (Inl ErrAuthFlowNotFound, m)
             else
               (case lookupUser (ac_Users (am_config m)) (pa_UserID flow) of
                  None \<Rightarrow> (Inl ErrUserNotFound, m)
                | Some user \<Rightarrow>
                    (case find (\<lambda>p. ap_ID p = pa_ProviderID flow) (ac_AuthProviders (am_config m)) of
                       None \<Rightarrow> (Inl ErrAuthProviderNotFound, m)
                     | Some provider \<Rightarrow> (Inr (flow, user, provider), m)))))"

definition storePendingFlow ::
  "gotime \<Rightarrow> (nat \<Rightarrow> nat list result) \<Rightarrow> PendingAuthFlow \<Rightarrow> AccessManager \<Rightarrow> PendingAuthFlow \<times> AccessManager" where
  "storePendingFlow now read flow0 m0 =
     (let m = cleanupExpiredAuthState now m0;
          flow1 = (if TrimSpace (pa_Token flow0) = []
                   then flow0\<lparr>pa_Token := token_or_empty (randomToken read 24), pa_CreatedAt := now\<rparr> else flow0);
          flow = (if IsZero (pa_ExpiresAt flow1) then flow1\<lparr>pa_ExpiresAt := now + 10 * Minute\<rparr> else flow1)
      in (flow, m\<lparr>am_pendingAuth := (am_pendingAuth m)(pa_Token flow \<mapsto> flow)\<rparr>))"

definition issueChallenge ::
  "gotime \<Rightarrow> random \<Rightarrow> nat \<Rightarrow> string \<Rightarrow> AuthProvider \<Rightarrow> User \<Rightarrow> AccessManager \<Rightarrow> (access_error + ChallengeState) \<times> AccessManager" where
  "issueChallenge now rd k pendingToken provider user m0 =
     (let m = cleanupExpiredAuthState now m0 in
      case randomDigits (rd k) (ap_ChallengeCodeLength provider) of
        Inl err \<Rightarrow> (Inl (ErrOther err), m)
      | Inr code \<Rightarrow>
          (case randomToken (rd (k + 1)) 12 of
             Inl err \<Rightarrow> (Inl (ErrOther err), m)
           | Inr challengeID \<Rightarrow>
               (let challenge = \<lparr>cs_ID = challengeID, cs_PendingToken = pendingToken, cs_UserID = us_UserID user,
                      cs_ProviderID = ap_ID provider, cs_Code = code, cs_Channel = ap_ChallengeChannel provider,
                      cs_CreatedAt = now, cs_ExpiresAt = now + to_int64 (ap_ChallengeTTLSeconds provider * Second),
                      cs_Attempts = 0, cs_MaxAttempts = 5, cs_Consumed = False\<rparr>;
                    flow = (case am_pendingAuth m pendingToken of None \<Rightarrow> zero_flow | Some f \<Rightarrow> f)
                in (Inr challenge,
                    m\<lparr>am_pendingAuth := (am_pendingAuth m)(pendingToken \<mapsto> flow\<lparr>pa_ChallengeID := challengeID\<rparr>),
                      am_challenges := (am_challenges m)(challengeID \<mapsto> challenge)\<rparr>))))"

definition consumeChallenge ::
  "gotime \<Rightarrow> string \<Rightarrow> string \<Rightarrow> string \<Rightarrow> AccessManager \<Rightarrow> (access_error + ChallengeState) \<times> AccessManager" where
  "consumeChallenge now pendingToken challengeID0 code0 m0 =
     (let m = cleanupExpiredAuthState now m0; challengeID = TrimSpace challengeID0; code = TrimSpace code0 in
      case am_challenges m challengeID of
        None \<Rightarrow> (Inl ErrChallengeNotFound, m)
      | Some challenge \<Rightarrow>
          if cs_PendingToken challenge \<noteq> TrimSpace pendingToken \<or> cs_ExpiresAt challenge < now \<or> cs_Consumed challenge
          then (Inl ErrChallengeNotFound, m)
          else if cs_Attempts challenge \<ge> cs_MaxAttempts challenge
          then (Inl ErrInvalidCredentials,
                m\<lparr>am_challenges := (am_challenges m)(challengeID := None),
                  am_pendingAuth := (am_pendingAuth m)(pendingToken := None)\<rparr>)
          else if cs_Code challenge \<noteq> code
          then (Inl ErrInvalidCredentials,
                m\<lparr>am_challenges := (am_challenges m)(challengeID \<mapsto> challenge\<lparr>cs_Attempts := cs_Attempts challenge + 1\<rparr>)\<rparr>)
          else (Inr (challenge\<lparr>cs_Consumed := True\<rparr>),
                m\<lparr>am_challenges := (am_challenges m)(challengeID := None)\<rparr>))"

definition completePendingFlow ::
  "access_env \<Rightarrow> gotime \<Rightarrow> (nat \<Rightarrow> nat list result) \<Rightarrow> PendingAuthFlow \<Rightarrow> AccessManager \<Rightarrow> AuthSession \<times> AccessManager" where
  "completePendingFlow env now read flow m0 =
     (let (session, m) = issueSession env now read (pa_UserID flow) (pa_ProviderID flow) 0 m0
      in (session,
          m\<lparr>am_pendingAuth := (am_pendingAuth m)(pa_Token flow := None),
            am_challenges := (if TrimSpace (pa_ChallengeID flow) \<noteq> []
                              then (am_challenges m)(pa_ChallengeID flow := None) else am_challenges m)\<rparr>))"

section \<open>Logins\<close>

definition localPasswordProvider :: "string \<Rightarrow> AccessManager \<Rightarrow> access_error + AuthProvider" where
  "localPasswordProvider providerID m =
     (case find (\<lambda>p. ap_Type p = ''local_password'' \<and> (TrimSpace providerID = [] \<or> ap_ID p = TrimSpace providerID))
             (ac_AuthProviders (am_config m)) of
        None \<Rightarrow> Inl ErrAuthProviderNotFound
      | Some provider \<Rightarrow> if \<not> ap_Enabled provider then Inl ErrAuthProviderDisabled else Inr provider)"

definition resolveLocalTokenUser :: "gotime \<Rightarrow> User list \<Rightarrow> AuthProvider \<Rightarrow> User" where
  "resolveLocalTokenUser now users provider =
     (case find (\<lambda>u. \<exists>identity \<in> set (us_Identities u). il_ProviderID identity = ap_ID provider) users of
        Some user \<Rightarrow> user
      | None \<Rightarrow> normalizeUser (zero_User\<lparr>us_UserID := ap_ID provider @ ''-admin'', us_Username := ap_ID provider @ ''-admin'',
          us_DisplayName := ap_Name provider, us_Status := ''active'', us_Source := ap_ID provider,
          us_Roles := firstNonEmptySlice (ap_DefaultRoles provider) [''ops_admin''],
          us_Identities := [\<lparr>il_ProviderType = ap_Type provider, il_ProviderID = ap_ID provider,
            il_ExternalSubject = ap_ID provider, il_ExternalUsername = [], il_ExternalEmail = []\<rparr>]\<rparr>) now)"

definition LoginWithLocalToken ::
  "access_env \<Rightarrow> gotime \<Rightarrow> random \<Rightarrow> string \<Rightarrow> string \<Rightarrow> AccessManager \<Rightarrow> (access_error + AuthSession \<times> User) \<times> AccessManager" where
  "LoginWithLocalToken env now rd token0 fallbackToken m =
     (let token = TrimSpace token0 in
      if token = [] then (Inl ErrInvalidCredentials, m)
      else
        (case find (\<lambda>p. ap_Type p = ''local_token'' \<and> ap_Enabled p \<and> token = TrimSpace (ap_ClientSecret p))
                (ac_AuthProviders (am_config m)) of
           Some provider \<Rightarrow>
             (let user = resolveLocalTokenUser now (ac_Users (am_config m)) provider;
                  (r, m1) = (if lookupUser (ac_Users (am_config m)) (us_UserID user) = None
                             then UpsertUser env now user m else (Inr user, m))
              in case r of
                   Inl err \<Rightarrow> (Inl err, m1)
                 | Inr user' \<Rightarrow>
                     (let (session, m2) = issueSession env now (rd 0) (us_UserID user') (ap_ID provider)
                            (ap_SessionTTLSeconds provider) m1
                      in (Inr (session, user'), m2)))
         | None \<Rightarrow>
             if fallbackToken \<noteq> [] \<and> token = TrimSpace fallbackToken then
               (let user = zero_User\<lparr>us_UserID := ''ops-admin'', us_Username := ''ops-admin'', us_DisplayName := ''Ops Admin'',
                      us_Status := ''active'', us_Source := ''ops_token'', us_Roles := [''platform_admin''],
                      us_CreatedAt := now, us_UpdatedAt := now\<rparr>;
                    (session, m') = issueSession env now (rd 0) (us_UserID user) ''ops-token'' (24 * 60 * 60) m
                in (Inr (session, user), m'))
             else (Inl ErrInvalidCredentials, m)))"

definition needs_challenge :: "AuthProvider \<Rightarrow> User \<Rightarrow> bool" where
  "needs_challenge provider user \<longleftrightarrow> ap_RequireChallenge provider \<or> us_ChallengeRequired user"

definition needs_mfa :: "AuthProvider \<Rightarrow> User \<Rightarrow> bool" where
  "needs_mfa provider user \<longleftrightarrow>
     ap_RequireMFA provider \<or>
     (us_MFAEnabled user \<and> EqualFold (us_MFAMethod user) ''totp'' \<and> TrimSpace (us_TOTPSecret user) \<noteq> [])"

definition login_flow :: "AuthProvider \<Rightarrow> User \<Rightarrow> PendingAuthFlow" where
  "login_flow provider user =
     zero_flow\<lparr>pa_UserID := us_UserID user, pa_ProviderID := ap_ID provider, pa_PasswordVerified := True,
       pa_ChallengeRequired := needs_challenge provider user, pa_ChallengeVerified := \<not> needs_challenge provider user,
       pa_MFARequired := needs_mfa provider user, pa_MFAVerified := \<not> needs_mfa provider user\<rparr>"

definition with_challenge :: "ChallengeState \<Rightarrow> AuthFlowResult \<Rightarrow> AuthFlowResult" where
  "with_challenge challenge r = r\<lparr>fr_NextStep := ''challenge'', fr_ChallengeID := cs_ID challenge,
     fr_ChallengeChannel := cs_Channel challenge, fr_ChallengeCode := cs_Code challenge,
     fr_ChallengeExpiresAt := cs_ExpiresAt challenge\<rparr>"

definition LoginWithLocalPassword ::
  "access_env \<Rightarrow> gotime \<Rightarrow> random \<Rightarrow> string \<Rightarrow> string \<Rightarrow> string \<Rightarrow> AccessManager \<Rightarrow>
     (access_error + AuthFlowResult) \<times> AccessManager" where
  "LoginWithLocalPassword env now rd providerID usernameOrEmail0 password0 m =
     (case localPasswordProvider providerID m of
        Inl err \<Rightarrow> (Inl err, m)
      | Inr provider \<Rightarrow>
          (let usernameOrEmail = TrimSpace usernameOrEmail0; password = TrimSpace password0 in
           if usernameOrEmail = [] \<or> password = [] then (Inl ErrInvalidCredentials, m)
           else
             (case lookupUserByCredentials (ac_Users (am_config m)) usernameOrEmail of
                None \<Rightarrow> (Inl ErrInvalidCredentials, m)
              | Some user \<Rightarrow>
                  if us_Status user \<noteq> ''active'' \<or> \<not> us_PasswordLoginEnabled user \<or> TrimSpace (us_PasswordHash user) = []
                  then (Inl ErrInvalidCredentials, m)
                  else if \<not> ae_bcrypt env (us_PasswordHash user) password then (Inl ErrInvalidCredentials, m)
                  else
                    (let result = flow_result user (ap_ID provider) in
                     if \<not> needs_challenge provider user \<and> \<not> needs_mfa provider user then
                       (let (session, m') = issueSession env now (rd 0) (us_UserID user) (ap_ID provider)
                              (ap_SessionTTLSeconds provider) m
                        in (Inr (result\<lparr>fr_Session := Some session\<rparr>), m'))
                     else
                       (let (flow, m1) = storePendingFlow now (rd 0) (login_flow provider user) m;
                            result1 = result\<lparr>fr_PendingToken := pa_Token flow\<rparr>
                        in if needs_challenge provider user then
                             (case issueChallenge now rd 1 (pa_Token flow) provider user m1 of
                                (Inl err, m2) \<Rightarrow> (Inl err, m2)
                              | (Inr challenge, m2) \<Rightarrow> (Inr (with_challenge challenge result1), m2))
                           else (Inr (result1\<lparr>fr_NextStep := ''mfa''\<rparr>), m1))))))"

definition StartChallenge ::
  "gotime \<Rightarrow> random \<Rightarrow> string \<Rightarrow> AccessManager \<Rightarrow> (access_error + AuthFlowResult) \<times> AccessManager" where
  "StartChallenge now rd pendingToken m0 =
     (case pendingFlowContext now pendingToken m0 of
        (Inl err, m) \<Rightarrow> (Inl err, m)
      | (Inr (flow, user, provider), m) \<Rightarrow>
          if \<not> pa_ChallengeRequired flow then (Inl ErrChallengeNotFound, m)
          else
            (case issueChallenge now rd 0 (pa_Token flow) provider user m of
               (Inl err, m1) \<Rightarrow> (Inl err, m1)
             | (Inr challenge, m1) \<Rightarrow>
                 (Inr (with_challenge challenge ((flow_result user (ap_ID provider))\<lparr>fr_PendingToken := pa_Token flow\<rparr>)), m1)))"

definition VerifyChallenge ::
  "access_env \<Rightarrow> gotime \<Rightarrow> random \<Rightarrow> string \<Rightarrow> string \<Rightarrow> string \<Rightarrow> AccessManager \<Rightarrow>
     (access_error + AuthFlowResult) \<times> AccessManager" where
  "VerifyChallenge env now rd pendingToken challengeID code m0 =
     (case pendingFlowContext now pendingToken m0 of
        (Inl err, m) \<Rightarrow> (Inl err, m)
      | (Inr (flow, user, provider), m) \<Rightarrow>
          if \<not> pa_ChallengeRequired flow then (Inl ErrChallengeNotFound, m)
          else
            (case consumeChallenge now (pa_Token flow) challengeID code m of
               (Inl err, m1) \<Rightarrow> (Inl err, m1)
             | (Inr challenge, m1) \<Rightarrow>
                 (let (flow', m2) = storePendingFlow now (rd 0)
                        (flow\<lparr>pa_ChallengeVerified := True, pa_ChallengeID := cs_ID challenge\<rparr>) m1;
                      result = (flow_result user (ap_ID provider))\<lparr>fr_PendingToken := pa_Token flow'\<rparr>
                  in if pa_MFARequired flow' \<and> \<not> pa_MFAVerified flow' then (Inr (result\<lparr>fr_NextStep := ''mfa''\<rparr>), m2)
                     else (let (session, m3) = completePendingFlow env now (rd 1) flow' m2
                           in (Inr (result\<lparr>fr_Session := Some session\<rparr>), m3)))))"

definition VerifyMFA ::
  "access_env \<Rightarrow> gotime \<Rightarrow> random \<Rightarrow> string \<Rightarrow> string \<Rightarrow> AccessManager \<Rightarrow> (access_error + AuthFlowResult) \<times> AccessManager" where
  "VerifyMFA env now rd pendingToken code m0 =
     (case pendingFlowContext now pendingToken m0 of
        (Inl err, m) \<Rightarrow> (Inl err, m)
      | (Inr (flow, user, provider), m) \<Rightarrow>
          if pa_ChallengeRequired flow \<and> \<not> pa_ChallengeVerified flow then (Inl ErrChallengeRequired, m)
          else if \<not> pa_MFARequired flow then (Inl ErrMFARequired, m)
          else if \<not> EqualFold (us_MFAMethod user) ''totp'' \<or> TrimSpace (us_TOTPSecret user) = []
          then (Inl ErrInvalidCredentials, m)
          else if \<not> ae_totp env now (TrimSpace code) (TrimSpace (us_TOTPSecret user))
          then (Inl ErrInvalidCredentials, m)
          else
            (let (flow', m1) = storePendingFlow now (rd 0) (flow\<lparr>pa_MFAVerified := True\<rparr>) m;
                 (session, m2) = completePendingFlow env now (rd 1) flow' m1
             in (Inr ((flow_result user (ap_ID provider))\<lparr>fr_PendingToken := pa_Token flow',
                        fr_Session := Some session\<rparr>), m2)))"

section \<open>OAuth\<close>

definition hydrateOAuthProvider :: "access_env \<Rightarrow> AuthProvider \<Rightarrow> AuthProvider result" where
  "hydrateOAuthProvider env p =
     (if ap_Type p \<noteq> ''oidc'' \<or> TrimSpace (ap_IssuerURL p) = [] then Inr p
      else if TrimSpace (ap_AuthURL p) \<noteq> [] \<and> TrimSpace (ap_TokenURL p) \<noteq> [] \<and> TrimSpace (ap_UserInfoURL p) \<noteq> []
      then Inr p
      else
        (case ae_discover env (ap_IssuerURL p) of
           Inl err \<Rightarrow> Inl err
         | Inr (authURL, tokenURL, userInfo) \<Rightarrow>
             Inr (p\<lparr>ap_AuthURL := acc_firstNonEmpty [ap_AuthURL p, authURL],
                    ap_TokenURL := acc_firstNonEmpty [ap_TokenURL p, tokenURL],
                    ap_UserInfoURL := (case userInfo of
                       None \<Rightarrow> ap_UserInfoURL p | Some u \<Rightarrow> acc_firstNonEmpty [ap_UserInfoURL p, u]),
                    ap_Scopes := firstNonEmptySlice (ap_Scopes p) [''openid'', ''profile'', ''email'']\<rparr>)))"

definition provider_conf :: "AuthProvider \<Rightarrow> string \<Rightarrow> oauth_config" where
  "provider_conf p baseURL =
     \<lparr>oc_ClientID = ap_ClientID p, oc_ClientSecret = ap_ClientSecret p, oc_AuthURL = ap_AuthURL p,
      oc_TokenURL = ap_TokenURL p,
      oc_RedirectURL = TrimRight baseURL ''/'' @ acc_firstNonEmpty [ap_RedirectPath p, ''/api/v1/auth/callback/'' @ ap_ID p],
      oc_Scopes = ap_Scopes p\<rparr>"

definition StartOAuthLogin ::
  "access_env \<Rightarrow> gotime \<Rightarrow> random \<Rightarrow> string \<Rightarrow> string \<Rightarrow> AccessManager \<Rightarrow> (access_error + string) \<times> AccessManager" where
  "StartOAuthLogin env now rd providerID baseURL m =
     (case GetAuthProvider providerID m of
        None \<Rightarrow> (Inl ErrAuthProviderNotFound, m)
      | Some provider0 \<Rightarrow>
          if \<not> ap_Enabled provider0 then (Inl ErrAuthProviderDisabled, m)
          else if ap_Type provider0 \<noteq> ''oauth2'' \<and> ap_Type provider0 \<noteq> ''oidc'' then (Inl ErrInvalidCredentials, m)
          else
            (case hydrateOAuthProvider env provider0 of
               Inl err \<Rightarrow> (Inl (ErrOther err), m)
             | Inr provider \<Rightarrow>
                 (case randomToken (rd 0) 24 of
                    Inl err \<Rightarrow> (Inl (ErrOther err), m)
                  | Inr state \<Rightarrow>
                      (Inr (ae_authCodeURL env (provider_conf provider baseURL) state),
                       m\<lparr>am_oauthStates := (am_oauthStates m)(state \<mapsto>
                           \<lparr>os_ProviderID = ap_ID provider, os_State = state, os_CreatedAt = now,
                            os_ExpiresAt = now + 10 * Minute\<rparr>)\<rparr>))))"

definition fetchOAuthProfile :: "access_env \<Rightarrow> AuthProvider \<Rightarrow> oauth_token \<Rightarrow> profile result" where
  "fetchOAuthProfile env provider token =
     (let fromUserInfo = ae_userInfo env (ap_UserInfoURL provider) (ot_AccessToken token) in
      if ap_Type provider = ''oidc'' \<and> TrimSpace (ap_IssuerURL provider) \<noteq> [] then
        (case ae_discover env (ap_IssuerURL provider) of
           Inl err \<Rightarrow> Inl err
         | Inr _ \<Rightarrow>
             (case ot_IDToken token of
                Some raw \<Rightarrow>
                  if TrimSpace raw \<noteq> [] then
                    (case ae_verifyIDToken env (ap_IssuerURL provider) (ap_ClientID provider) raw of
                       Some claims \<Rightarrow> Inr claims
                     | None \<Rightarrow> fromUserInfo)
                  else fromUserInfo
              | None \<Rightarrow> fromUserInfo))
      else fromUserInfo)"

fun profileString :: "profile \<Rightarrow> string list \<Rightarrow> string" where
  "profileString profile [] = []"
| "profileString profile (key # keys) =
     (if key = [] then profileString profile keys
      else
        (case map_of profile key of
           Some (PString typed) \<Rightarrow> if TrimSpace typed \<noteq> [] then TrimSpace typed else profileString profile keys
         | Some (PNumber text) \<Rightarrow> text
         | _ \<Rightarrow> profileString profile keys))"

definition domain_allowed :: "AuthProvider \<Rightarrow> string \<Rightarrow> bool" where
  "domain_allowed provider email \<longleftrightarrow>
     (\<exists>domain \<in> set (ap_AllowedDomains provider). HasSuffix email (''@'' @ ToLower (TrimSpace domain)))"

definition linked :: "AuthProvider \<Rightarrow> string \<Rightarrow> IdentityLink \<Rightarrow> bool" where
  "linked provider subject identity \<longleftrightarrow> il_ProviderID identity = ap_ID provider \<and> il_ExternalSubject identity = subject"

fun relink :: "AuthProvider \<Rightarrow> string \<Rightarrow> string \<Rightarrow> string \<Rightarrow> IdentityLink list \<Rightarrow> IdentityLink list" where
  "relink provider subject username email [] = []"
| "relink provider subject username email (i # rest) =
     (if linked provider subject i then i\<lparr>il_ExternalUsername := username, il_ExternalEmail := email\<rparr> # rest
      else i # relink provider subject username email rest)"

definition jit_user :: "AuthProvider \<Rightarrow> string \<Rightarrow> string \<Rightarrow> string \<Rightarrow> string \<Rightarrow> gotime \<Rightarrow> User" where
  "jit_user provider subject username displayName email now =
     (let user = normalizeUser (zero_User\<lparr>
            us_UserID := acc_firstNonEmpty [slugify username, slugify email, slugify subject],
            us_Username := acc_firstNonEmpty [username, email, subject],
            us_DisplayName := acc_firstNonEmpty [displayName, username, email, subject],
            us_Email := email, us_Status := ''active'', us_Source := ap_ID provider,
            us_Roles := ap_DefaultRoles provider,
            us_Identities := [\<lparr>il_ProviderType = ap_Type provider, il_ProviderID = ap_ID provider,
              il_ExternalSubject = subject, il_ExternalUsername = username, il_ExternalEmail = email\<rparr>]\<rparr>) now
      in if us_Roles user = [] then user\<lparr>us_Roles := [''viewer'']\<rparr> else user)"

definition resolveOAuthUser ::
  "access_env \<Rightarrow> gotime \<Rightarrow> AuthProvider \<Rightarrow> profile \<Rightarrow> AccessManager \<Rightarrow> (access_error + User) \<times> AccessManager" where
  "resolveOAuthUser env now provider profile m =
     (let subject = profileString profile [ap_UserIDField provider, ''sub'', ''id''];
          username = profileString profile [ap_UsernameField provider, ''preferred_username'', ''login'', ''username''];
          displayName = profileString profile [ap_DisplayNameField provider, ''name''];
          email = ToLower (profileString profile [ap_EmailField provider, ''email''])
      in if subject = [] then (Inl ErrInvalidCredentials, m)
         else if ap_AllowedDomains provider \<noteq> [] \<and> email \<noteq> [] \<and> \<not> domain_allowed provider email
         then (Inl ErrInvalidCredentials, m)
         else
           (case find (\<lambda>u. \<exists>i \<in> set (us_Identities u). linked provider subject i) (ac_Users (am_config m)) of
              Some user \<Rightarrow>
                (case find (linked provider subject) (us_Identities user) of
                   None \<Rightarrow> (Inr user, m)
                 | Some identity \<Rightarrow>
                     if il_ExternalUsername identity \<noteq> username \<or> il_ExternalEmail identity \<noteq> email then
                       UpsertUser env now (user\<lparr>
                         us_Identities := relink provider subject username email (us_Identities user),
                         us_Source := ap_ID provider,
                         us_Email := (if us_Email user = [] \<and> email \<noteq> [] then email else us_Email user)\<rparr>) m
                     else (Inr user, m))
            | None \<Rightarrow>
                if \<not> ap_AllowJIT provider then (Inl ErrUserNotFound, m)
                else UpsertUser env now (jit_user provider subject username displayName email now) m))"

definition CompleteOAuthCallback ::
  "access_env \<Rightarrow> gotime \<Rightarrow> random \<Rightarrow> string \<Rightarrow> string \<Rightarrow> string \<Rightarrow> string \<Rightarrow> AccessManager \<Rightarrow>
     (access_error + AuthSession \<times> User) \<times> AccessManager" where
  "CompleteOAuthCallback env now rd providerID baseURL state code m =
     (case GetAuthProvider providerID m of
        None \<Rightarrow> (Inl ErrAuthProviderNotFound, m)
      | Some provider0 \<Rightarrow>
          (case hydrateOAuthProvider env provider0 of
             Inl err \<Rightarrow> (Inl (ErrOther err), m)
           | Inr provider \<Rightarrow>
               (case am_oauthStates m (TrimSpace state) of
                  None \<Rightarrow> (Inl ErrOAuthStateInvalid, m)
                | Some stored \<Rightarrow>
                    if os_ProviderID stored \<noteq> ap_ID provider \<or> os_ExpiresAt stored < now then (Inl ErrOAuthStateInvalid, m)
                    else
                      (let m1 = m\<lparr>am_oauthStates := (am_oauthStates m)(state := None)\<rparr> in
                       case ae_exchange env (provider_conf provider baseURL) code of
                         Inl err \<Rightarrow> (Inl (ErrOther err), m1)
                       | Inr tok \<Rightarrow>
                           (case fetchOAuthProfile env provider tok of
                              Inl err \<Rightarrow> (Inl (ErrOther err), m1)
                            | Inr profile \<Rightarrow>
                                (case resolveOAuthUser env now provider profile m1 of
                                   (Inl err, m2) \<Rightarrow> (Inl err, m2)
                                 | (Inr user, m2) \<Rightarrow>
                                     (let (session, m3) = issueSession env now (rd 0) (us_UserID user) (ap_ID provider)
                                            (ap_SessionTTLSeconds provider) m2
                                      in (Inr (session, user), m3))))))))"

section \<open>Permissions\<close>

definition Enforce :: "access_env \<Rightarrow> (string \<times> string) list \<Rightarrow> string \<Rightarrow> string \<Rightarrow> bool" where
  "Enforce env policies sub obj \<longleftrightarrow> (\<exists>p \<in> set policies. fst p = sub \<and> ae_keyMatch2 env obj (snd p))"

definition Evaluate :: "access_env \<Rightarrow> Principal \<Rightarrow> string \<Rightarrow> AccessManager \<Rightarrow> bool" where
  "Evaluate env caller permission0 m =
     (let permission = TrimSpace permission0 in
      if permission = [] then True
      else if ''*'' \<in> set (pr_Permission caller) then True
      else if permission \<in> set (pr_Permission caller) then True
      else
        (case am_enforcer m of
           None \<Rightarrow>
             (let parts = split_char (CHR ''.'') permission in
              \<exists>i \<in> set [1..<length parts]. Join (take i parts) ''.'' @ ''.*'' \<in> set (pr_Permission caller))
         | Some policies \<Rightarrow>
             (\<exists>roleID \<in> set (pr_RoleIDs caller). Enforce env policies roleID (normalizePermissionPattern permission))))"

end
