(* ===== verification/Access_Runs.thy ===== *)
theory Access_Runs
  imports Access_Auth
begin

text \<open>
  The access manager as a state machine: its operations, the runs of a manager from
  \<^verbatim>\<open>NewManager\<close>, and what holds of every run.  A run is the list of its events, newest first; an event
  keeps the operation with its arguments, the result the caller saw and the state before.
\<close>

section \<open>Operations and runs\<close>

datatype directory_op =
    DSave string
  | DSaveConfig AccessConfig
  | DReload
  | DSetPersistence "(AccessConfig \<Rightarrow> go_error option) option"
  | DUpsertUser User
  | DSetUserStatus string string
  | DUpsertGroup Group
  | DSetGroupStatus string string
  | DUpsertAuthProvider AuthProvider
  | DSetAuthProviderEnabled string bool
  | DUpsertPerson Person
  | DSetPersonStatus string string
  | DUpsertChannel AccessChannel
  | DSetChannelEnabled string bool
  | DUpsertRole AccessRole
  | DBindRole string "string list" "string list"
  | DUnbindRole string "string list" "string list"
  | DSetRoleBindings string "string list" "string list"

fun directory_exec :: "access_env \<Rightarrow> gotime \<Rightarrow> directory_op \<Rightarrow> AccessManager \<Rightarrow> AccessManager" where
  "directory_exec env now (DSave content) m = snd (acc_Save env now content m)"
| "directory_exec env now (DSaveConfig cfg) m = snd (acc_SaveConfig env now cfg m)"
| "directory_exec env now DReload m = snd (acc_Reload env now m)"
| "directory_exec env now (DSetPersistence persist) m = acc_SetPersistence persist m"
| "directory_exec env now (DUpsertUser user) m = snd (UpsertUser env now user m)"
| "directory_exec env now (DSetUserStatus uid status) m = snd (SetUserStatus env now uid status m)"
| "directory_exec env now (DUpsertGroup grp) m = snd (UpsertGroup env now grp m)"
| "directory_exec env now (DSetGroupStatus gid status) m = snd (SetGroupStatus env now gid status m)"
| "directory_exec env now (DUpsertAuthProvider provider) m = snd (UpsertAuthProvider env now provider m)"
| "directory_exec env now (DSetAuthProviderEnabled pid enabled) m = snd (SetAuthProviderEnabled env now pid enabled m)"
| "directory_exec env now (DUpsertPerson person) m = snd (UpsertPerson env now person m)"
| "directory_exec env now (DSetPersonStatus pid status) m = snd (SetPersonStatus env now pid status m)"
| "directory_exec env now (DUpsertChannel channel) m = snd (UpsertChannel env now channel m)"
| "directory_exec env now (DSetChannelEnabled cid enabled) m = snd (SetChannelEnabled env now cid enabled m)"
| "directory_exec env now (DUpsertRole role) m = snd (UpsertRole env now role m)"
| "directory_exec env now (DBindRole rid us gs) m = snd (BindRole env now rid us gs m)"
| "directory_exec env now (DUnbindRole rid us gs) m = snd (UnbindRole env now rid us gs m)"
| "directory_exec env now (DSetRoleBindings rid us gs) m = snd (SetRoleBindings env now rid us gs m)"

datatype access_op =
    LocalToken string string
  | LocalPassword string string string
  | NewChallenge string
  | ChallengeCode string string string
  | MFACode string string
  | Authenticate string
  | LogoutOf string
  | OAuthStart string string
  | OAuthCallback string string string string
  | Directory directory_op

datatype access_result =
    RSession "access_error + AuthSession \<times> User"
  | RFlow "access_error + AuthFlowResult"
  | RPrincipal "Principal option"
  | RText "access_error + string"
  | RDone

fun access_exec :: "access_env \<Rightarrow> gotime \<Rightarrow> random \<Rightarrow> access_op \<Rightarrow> AccessManager \<Rightarrow> access_result \<times> AccessManager" where
  "access_exec env now rd (LocalToken token fallback) m = map_prod RSession (\<lambda>x. x) (LoginWithLocalToken env now rd token fallback m)"
| "access_exec env now rd (LocalPassword pid name password) m =
     map_prod RFlow (\<lambda>x. x) (LoginWithLocalPassword env now rd pid name password m)"
| "access_exec env now rd (NewChallenge pending) m = map_prod RFlow (\<lambda>x. x) (StartChallenge now rd pending m)"
| "access_exec env now rd (ChallengeCode pending cid code) m =
     map_prod RFlow (\<lambda>x. x) (VerifyChallenge env now rd pending cid code m)"
| "access_exec env now rd (MFACode pending code) m = map_prod RFlow (\<lambda>x. x) (VerifyMFA env now rd pending code m)"
| "access_exec env now rd (Authenticate token) m = map_prod RPrincipal (\<lambda>x. x) (AuthenticateSession env now token m)"
| "access_exec env now rd (LogoutOf token) m = (RDone, Logout token m)"
| "access_exec env now rd (OAuthStart pid base) m = map_prod RText (\<lambda>x. x) (StartOAuthLogin env now rd pid base m)"
| "access_exec env now rd (OAuthCallback pid base state code) m =
     map_prod RSession (\<lambda>x. x) (CompleteOAuthCallback env now rd pid base state code m)"
| "access_exec env now rd (Directory op) m = (RDone, directory_exec env now op m)"

record access_event =
  ev_time :: gotime
  ev_op :: access_op
  ev_result :: access_result
  ev_before :: AccessManager

inductive access_run :: "access_env \<Rightarrow> access_event list \<Rightarrow> AccessManager \<Rightarrow> bool" for env where
  start: "acc_NewManager env now key path = Inr m \<Longrightarrow> access_run env [] m"
| step: "access_run env tr m \<Longrightarrow> access_exec env now rd op m = (res, m') \<Longrightarrow>
    access_run env (\<lparr>ev_time = now, ev_op = op, ev_result = res, ev_before = m\<rparr> # tr) m'"

text \<open>What an event says.\<close>

fun issued :: "access_result \<Rightarrow> AuthSession option" where
  "issued (RSession (Inr (s, _))) = Some s"
| "issued (RFlow (Inr r)) = fr_Session r"
| "issued _ = None"

definition logs_out :: "string \<Rightarrow> access_event \<Rightarrow> bool" where
  "logs_out token e \<longleftrightarrow> (case ev_op e of LogoutOf t \<Rightarrow> TrimSpace t = token | _ \<Rightarrow> False)"

definition password_ok :: "access_env \<Rightarrow> access_event \<Rightarrow> AuthProvider \<Rightarrow> User \<Rightarrow> bool" where
  "password_ok env e p u \<longleftrightarrow>
     (case ev_op e of
        LocalPassword pid name password \<Rightarrow>
          localPasswordProvider pid (ev_before e) = Inr p \<and>
          lookupUserByCredentials (ac_Users (am_config (ev_before e))) (TrimSpace name) = Some u \<and>
          us_Status u = ''active'' \<and> us_PasswordLoginEnabled u \<and>
          ae_bcrypt env (us_PasswordHash u) (TrimSpace password)
      | _ \<Rightarrow> False)"

definition pending_is :: "string \<Rightarrow> access_event \<Rightarrow> bool" where
  "pending_is t e \<longleftrightarrow> (case ev_result e of RFlow (Inr r) \<Rightarrow> fr_PendingToken r = t | _ \<Rightarrow> True)"

definition succeeded :: "access_event \<Rightarrow> bool" where
  "succeeded e \<longleftrightarrow> (case ev_result e of RFlow (Inr _) \<Rightarrow> True | _ \<Rightarrow> False)"

definition challenge_passed :: "string \<Rightarrow> access_event \<Rightarrow> bool" where
  "challenge_passed t e \<longleftrightarrow>
     (case ev_op e of ChallengeCode pt cid code \<Rightarrow> TrimSpace pt = t \<and> succeeded e | _ \<Rightarrow> False)"

definition mfa_passed :: "access_env \<Rightarrow> string \<Rightarrow> string \<Rightarrow> access_event \<Rightarrow> bool" where
  "mfa_passed env t uid e \<longleftrightarrow>
     (case ev_op e of
        MFACode pt code \<Rightarrow> TrimSpace pt = t \<and> succeeded e \<and>
          (\<exists>u \<in> set (ac_Users (am_config (ev_before e))). us_UserID u = uid \<and>
             ae_totp env (ev_time e) (TrimSpace code) (TrimSpace (us_TOTPSecret u)))
      | _ \<Rightarrow> False)"

definition issues :: "string \<Rightarrow> access_event \<Rightarrow> bool" where
  "issues cid e \<longleftrightarrow>
     (case ev_result e of RFlow (Inr r) \<Rightarrow> fr_NextStep r = ''challenge'' \<and> fr_ChallengeID r = cid | _ \<Rightarrow> False)"

definition wrong_guess :: "string \<Rightarrow> access_event \<Rightarrow> bool" where
  "wrong_guess cid e \<longleftrightarrow>
     (case ev_op e of ChallengeCode pt i code \<Rightarrow> TrimSpace i = cid \<and> ev_result e = RFlow (Inl ErrInvalidCredentials)
      | _ \<Rightarrow> False)"

lemmas event_defs = logs_out_def password_ok_def pending_is_def succeeded_def challenge_passed_def mfa_passed_def
  issues_def wrong_guess_def

section \<open>What the operations leave alone\<close>

declare profileString.simps [simp del]

text \<open>The directory operations keep the four maps of authentication.\<close>

definition auth_part :: "AccessManager \<Rightarrow>
    (string \<rightharpoonup> AuthSession) \<times> (string \<rightharpoonup> OAuthState) \<times> (string \<rightharpoonup> PendingAuthFlow) \<times> (string \<rightharpoonup> ChallengeState)" where
  "auth_part m = (am_sessions m, am_oauthStates m, am_pendingAuth m, am_challenges m)"

lemma auth_part_Save [simp]: "auth_part (snd (acc_Save env now content m)) = auth_part m"
  by (simp add: acc_Save_def auth_part_def Let_def split: sum.splits option.splits prod.splits)

lemma auth_part_SaveConfig [simp]: "auth_part (snd (acc_SaveConfig env now cfg m)) = auth_part m"
  by (cases "TrimSpace (am_path m) = []")
     (simp_all add: acc_SaveConfig_def Let_def split: sum.split, simp add: auth_part_def)

lemma auth_part_Reload [simp]: "auth_part (snd (acc_Reload env now m)) = auth_part m"
  by (simp add: acc_Reload_def auth_part_def split: sum.splits option.splits prod.splits)

lemma auth_part_save_item [simp]: "auth_part (snd (save_item env now cfg item m)) = auth_part m"
  using auth_part_SaveConfig [of env now "acc_normalizeConfig now cfg" m]
  by (cases "acc_SaveConfig env now (acc_normalizeConfig now cfg) m") (simp add: save_item_def split: option.split)

lemma auth_part_UpsertUser [simp]: "auth_part (snd (UpsertUser env now u m)) = auth_part m"
  by (simp add: UpsertUser_def Let_def split: prod.split)

lemma auth_part_change_bindings [simp]: "auth_part (snd (change_bindings env now rid f g m)) = auth_part m"
  by (simp add: change_bindings_def Let_def)

lemma auth_part_directory: "auth_part (directory_exec env now op m) = auth_part m"
  by (cases op)
     (simp_all add: UpsertGroup_def UpsertAuthProvider_def UpsertPerson_def UpsertChannel_def UpsertRole_def
       SetUserStatus_def SetGroupStatus_def SetAuthProviderEnabled_def SetPersonStatus_def SetChannelEnabled_def
       BindRole_def UnbindRole_def SetRoleBindings_def Let_def split: prod.split option.split,
      simp add: acc_SetPersistence_def auth_part_def)

lemma auth_partD:
  assumes "auth_part m' = auth_part m"
  shows "am_sessions m' = am_sessions m" "am_pendingAuth m' = am_pendingAuth m" "am_challenges m' = am_challenges m"
    "am_oauthStates m' = am_oauthStates m"
  using assms by (simp_all add: auth_part_def)

lemmas directory_frame [frame_simps] = auth_partD [OF auth_part_directory] auth_partD [OF auth_part_UpsertUser]

section \<open>The steps of authentication\<close>

lemma cleanup_frame [simp]:
  "am_sessions (cleanupExpiredAuthState now m) = am_sessions m"
  "am_oauthStates (cleanupExpiredAuthState now m) = am_oauthStates m"
  "am_config (cleanupExpiredAuthState now m) = am_config m"
  by (simp_all add: cleanupExpiredAuthState_def)

lemma issueSessionE:
  assumes "issueSession env now rd uid pid ttl m = (s, m')"
  shows "m' = m\<lparr>am_sessions := (am_sessions m)(se_Token s \<mapsto> s)\<rparr>" "se_UserID s = uid" "se_ProviderID s = pid"
    "se_ExpiresAt s = now + sessionTTL ttl"
  using assms by (auto simp: issueSession_def Let_def)

lemma issueSession_frame:
  "snd (issueSession env now rd uid pid ttl m) =
     m\<lparr>am_sessions := (am_sessions m)(se_Token (fst (issueSession env now rd uid pid ttl m)) \<mapsto>
        fst (issueSession env now rd uid pid ttl m))\<rparr>"
  by (simp add: issueSession_def Let_def)

lemma pendingFlowContext_frame: "snd (pendingFlowContext now t m) = cleanupExpiredAuthState now m"
  by (simp add: pendingFlowContext_def Let_def split: option.split)

lemma pendingFlowContextE:
  assumes "pendingFlowContext now t m = (Inr (flow, user, provider), m')"
  shows "am_pendingAuth m (TrimSpace t) = Some flow" "now \<le> pa_ExpiresAt flow" "TrimSpace t \<noteq> []"
    "user \<in> set (ac_Users (am_config m))" "us_UserID user = pa_UserID flow" "ap_ID provider = pa_ProviderID flow"
    "m' = cleanupExpiredAuthState now m"
  using assms
  by (auto simp: pendingFlowContext_def Let_def lookupUser_def cleanupExpiredAuthState_def
      dest!: find_Some_in split: if_splits option.splits)

lemma storePendingFlowE:
  assumes "storePendingFlow now rd flow m = (flow', m')"
  shows "m' = (cleanupExpiredAuthState now m)\<lparr>am_pendingAuth :=
      (am_pendingAuth (cleanupExpiredAuthState now m))(pa_Token flow' \<mapsto> flow')\<rparr>"
    "pa_UserID flow' = pa_UserID flow" "pa_ProviderID flow' = pa_ProviderID flow"
    "pa_ChallengeRequired flow' = pa_ChallengeRequired flow" "pa_ChallengeVerified flow' = pa_ChallengeVerified flow"
    "pa_MFARequired flow' = pa_MFARequired flow" "pa_MFAVerified flow' = pa_MFAVerified flow"
    "pa_ChallengeID flow' = pa_ChallengeID flow"
    "TrimSpace (pa_Token flow) \<noteq> [] \<Longrightarrow> pa_Token flow' = pa_Token flow"
    "IsZero (pa_ExpiresAt flow) \<Longrightarrow> pa_ExpiresAt flow' = now + 10 * Minute"
  using assms by (auto simp: storePendingFlow_def Let_def split: if_splits)

lemma issueChallengeE:
  assumes "issueChallenge now rd k t provider user m = (r, m')"
  obtains (error) err where "r = Inl err" "m' = cleanupExpiredAuthState now m"
  | (issued) c where "r = Inr c" "cs_PendingToken c = t" "cs_Attempts c = 0" "cs_MaxAttempts c = 5" "\<not> cs_Consumed c"
      "m' = (cleanupExpiredAuthState now m)\<lparr>
         am_pendingAuth := (am_pendingAuth (cleanupExpiredAuthState now m))(t \<mapsto>
           (case am_pendingAuth (cleanupExpiredAuthState now m) t of None \<Rightarrow> zero_flow | Some f \<Rightarrow> f)\<lparr>pa_ChallengeID := cs_ID c\<rparr>),
         am_challenges := (am_challenges (cleanupExpiredAuthState now m))(cs_ID c \<mapsto> c)\<rparr>"
  using assms by (auto simp: issueChallenge_def Let_def split: sum.splits)

lemma consumeChallengeE:
  assumes "consumeChallenge now t cid code m = (r, m')"
  obtains (missing) "r = Inl ErrChallengeNotFound" "m' = cleanupExpiredAuthState now m"
  | (exhausted) c where "am_challenges (cleanupExpiredAuthState now m) (TrimSpace cid) = Some c"
      "r = Inl ErrInvalidCredentials"
      "m' = (cleanupExpiredAuthState now m)\<lparr>
         am_challenges := (am_challenges (cleanupExpiredAuthState now m))(TrimSpace cid := None),
         am_pendingAuth := (am_pendingAuth (cleanupExpiredAuthState now m))(t := None)\<rparr>"
  | (wrong) c where "am_challenges (cleanupExpiredAuthState now m) (TrimSpace cid) = Some c"
      "cs_Attempts c < cs_MaxAttempts c" "r = Inl ErrInvalidCredentials"
      "m' = (cleanupExpiredAuthState now m)\<lparr>am_challenges := (am_challenges (cleanupExpiredAuthState now m))
         (TrimSpace cid \<mapsto> c\<lparr>cs_Attempts := cs_Attempts c + 1\<rparr>)\<rparr>"
  | (right) c where "am_challenges (cleanupExpiredAuthState now m) (TrimSpace cid) = Some c"
      "cs_Attempts c < cs_MaxAttempts c" "cs_PendingToken c = TrimSpace t" "cs_Code c = TrimSpace code"
      "r = Inr (c\<lparr>cs_Consumed := True\<rparr>)"
      "m' = (cleanupExpiredAuthState now m)\<lparr>
         am_challenges := (am_challenges (cleanupExpiredAuthState now m))(TrimSpace cid := None)\<rparr>"
proof (cases "am_challenges (cleanupExpiredAuthState now m) (TrimSpace cid)")
  case None
  with assms have "r = Inl ErrChallengeNotFound" "m' = cleanupExpiredAuthState now m"
    by (simp_all add: consumeChallenge_def Let_def)
  then show ?thesis by (rule missing)
next
  case (Some c)
  let ?gone = "cs_PendingToken c \<noteq> TrimSpace t \<or> cs_ExpiresAt c < now \<or> cs_Consumed c"
  consider "?gone" | "\<not> ?gone" "cs_MaxAttempts c \<le> cs_Attempts c"
    | "\<not> ?gone" "cs_Attempts c < cs_MaxAttempts c" "cs_Code c \<noteq> TrimSpace code"
    | "\<not> ?gone" "cs_Attempts c < cs_MaxAttempts c" "cs_Code c = TrimSpace code"
    by linarith
  then show ?thesis
  proof cases
    case 1
    with assms Some show ?thesis by (intro missing) (simp_all add: consumeChallenge_def Let_def)
  next
    case 2
    with assms Some show ?thesis by (intro exhausted [of c]) (auto simp: consumeChallenge_def Let_def)
  next
    case 3
    with assms Some show ?thesis by (intro wrong [of c]) (auto simp: consumeChallenge_def Let_def)
  next
    case 4
    with assms Some show ?thesis by (intro right [of c]) (auto simp: consumeChallenge_def Let_def)
  qed
qed

section \<open>Sessions\<close>

definition with_issued :: "access_result \<Rightarrow> (string \<rightharpoonup> AuthSession) \<Rightarrow> (string \<rightharpoonup> AuthSession)" where
  "with_issued res S = (case issued res of None \<Rightarrow> S | Some s \<Rightarrow> S(se_Token s \<mapsto> s))"

lemma with_issued_simps [simp]:
  "with_issued (RSession (Inl err)) S = S" "with_issued (RFlow (Inl err)) S = S"
  "with_issued (RSession (Inr (s, u))) S = S(se_Token s \<mapsto> s)"
  "with_issued (RFlow (Inr r)) S = (case fr_Session r of None \<Rightarrow> S | Some s \<Rightarrow> S(se_Token s \<mapsto> s))"
  "with_issued (RText x) S = S" "with_issued RDone S = S"
  by (simp_all add: with_issued_def)

lemma flow_result_session [simp]: "fr_Session (flow_result user pid) = None"
  "fr_Session (with_challenge c r) = fr_Session r"
  by (simp_all add: flow_result_def with_challenge_def)

lemma sessions_completePendingFlow:
  "completePendingFlow env now rd flow m = (s, m') \<Longrightarrow> am_sessions m' = (am_sessions m)(se_Token s \<mapsto> s)"
  by (auto simp: completePendingFlow_def Let_def split: prod.splits dest: issueSessionE(1))

lemma sessions_storePendingFlow: "storePendingFlow now rd f m = (f', m') \<Longrightarrow> am_sessions m' = am_sessions m"
  by (drule storePendingFlowE(1)) simp

lemma sessions_issueChallenge: "issueChallenge now rd k t p u m = (r, m') \<Longrightarrow> am_sessions m' = am_sessions m"
  by (erule issueChallengeE) simp_all

lemma sessions_consumeChallenge: "consumeChallenge now t cid code m = (r, m') \<Longrightarrow> am_sessions m' = am_sessions m"
  by (erule consumeChallengeE) simp_all

lemma sessions_pendingFlowContext: "pendingFlowContext now t m = (r, m') \<Longrightarrow> am_sessions m' = am_sessions m"
  by (metis pendingFlowContext_frame cleanup_frame(1) snd_conv)

lemma sessions_UpsertUser: "UpsertUser env now u m = (r, m') \<Longrightarrow> am_sessions m' = am_sessions m"
  by (metis auth_partD(1) auth_part_UpsertUser snd_conv)

lemmas sessions_parts = issueSessionE(1) sessions_completePendingFlow sessions_storePendingFlow sessions_issueChallenge
  sessions_consumeChallenge sessions_pendingFlowContext sessions_UpsertUser

lemma sessions_LoginWithLocalToken:
  "LoginWithLocalToken env now rd t fb m = (r, m') \<Longrightarrow> am_sessions m' = with_issued (RSession r) (am_sessions m)"
  by (auto simp: LoginWithLocalToken_def Let_def dest!: sessions_parts split: if_splits option.splits prod.splits sum.splits)

lemma sessions_LoginWithLocalPassword:
  "LoginWithLocalPassword env now rd pid name pw m = (r, m') \<Longrightarrow> am_sessions m' = with_issued (RFlow r) (am_sessions m)"
  by (auto simp: LoginWithLocalPassword_def Let_def dest!: sessions_parts split: if_splits option.splits prod.splits sum.splits)

lemma sessions_StartChallenge:
  "StartChallenge now rd t m = (r, m') \<Longrightarrow> am_sessions m' = with_issued (RFlow r) (am_sessions m)"
  by (auto simp: StartChallenge_def Let_def dest!: sessions_parts split: if_splits prod.splits sum.splits)

lemma sessions_VerifyChallenge:
  "VerifyChallenge env now rd t cid code m = (r, m') \<Longrightarrow> am_sessions m' = with_issued (RFlow r) (am_sessions m)"
  by (auto simp: VerifyChallenge_def Let_def dest!: sessions_parts split: if_splits prod.splits sum.splits)

lemma sessions_VerifyMFA:
  "VerifyMFA env now rd t code m = (r, m') \<Longrightarrow> am_sessions m' = with_issued (RFlow r) (am_sessions m)"
  by (auto simp: VerifyMFA_def Let_def dest!: sessions_parts split: if_splits prod.splits sum.splits)

lemma sessions_StartOAuthLogin:
  "StartOAuthLogin env now rd pid base m = (r, m') \<Longrightarrow> am_sessions m' = am_sessions m"
  by (auto simp: StartOAuthLogin_def split: if_splits option.splits sum.splits)

lemma sessions_resolveOAuthUser:
  "am_sessions (snd (resolveOAuthUser env now p profile m)) = am_sessions m"
  by (simp add: resolveOAuthUser_def Let_def frame_simps split: option.split)

lemma CompleteOAuthCallbackE:
  assumes "CompleteOAuthCallback env now rd pid base state code m = (r, m')"
  obtains (error) err where "r = Inl err" "m' = m"
  | (dropped) err where "r = Inl err" "m' = m\<lparr>am_oauthStates := (am_oauthStates m)(state := None)\<rparr>"
  | (unresolved) err p profile where "r = Inl err"
      "resolveOAuthUser env now p profile (m\<lparr>am_oauthStates := (am_oauthStates m)(state := None)\<rparr>) = (Inl err, m')"
  | (finished) s u p profile stored m1 where "r = Inr (s, u)" "am_oauthStates m (TrimSpace state) = Some stored"
      "os_ProviderID stored = ap_ID p" "now \<le> os_ExpiresAt stored"
      "resolveOAuthUser env now p profile (m\<lparr>am_oauthStates := (am_oauthStates m)(state := None)\<rparr>) = (Inr u, m1)"
      "issueSession env now (rd 0) (us_UserID u) (ap_ID p) (ap_SessionTTLSeconds p) m1 = (s, m')"
  using assms unfolding CompleteOAuthCallback_def Let_def
  by (simp split: if_splits option.splits prod.splits sum.splits add: not_less) (blast+)?

lemma sessions_CompleteOAuthCallback:
  assumes "CompleteOAuthCallback env now rd pid base state code m = (r, m')"
  shows "am_sessions m' = with_issued (RSession r) (am_sessions m)"
  using assms
proof (cases rule: CompleteOAuthCallbackE)
  case (unresolved err p profile)
  then show ?thesis using sessions_resolveOAuthUser [of env now p profile "m\<lparr>am_oauthStates := (am_oauthStates m)(state := None)\<rparr>"]
    by simp
next
  case (finished s u p profile stored m1)
  then show ?thesis using sessions_resolveOAuthUser [of env now p profile "m\<lparr>am_oauthStates := (am_oauthStates m)(state := None)\<rparr>"]
    by (auto dest!: issueSessionE(1))
qed simp_all

lemma map_result [simp]: "map_prod f (\<lambda>x. x) p = (res, m') \<longleftrightarrow> (\<exists>r. p = (r, m') \<and> res = f r)"
  by (cases p) auto

lemma sessions_step:
  assumes "access_exec env now rd op m = (res, m')" and "\<And>t. op \<noteq> Authenticate t" and "\<And>t. op \<noteq> LogoutOf t"
  shows "am_sessions m' = with_issued res (am_sessions m)"
  using assms
  by (cases op)
     (auto simp: frame_simps dest!: sessions_LoginWithLocalToken sessions_LoginWithLocalPassword sessions_StartChallenge
       sessions_VerifyChallenge sessions_VerifyMFA sessions_StartOAuthLogin sessions_CompleteOAuthCallback)

text \<open>A stored session was issued in the run and not logged out since; only its last use has changed.\<close>

definition session_ok :: "access_event list \<Rightarrow> string \<Rightarrow> AuthSession \<Rightarrow> bool" where
  "session_ok tr tok s \<longleftrightarrow> se_Token s = tok \<and>
     (\<exists>newer e older s0. tr = newer @ e # older \<and> issued (ev_result e) = Some s0 \<and>
        se_Token s0 = tok \<and> se_UserID s0 = se_UserID s \<and> se_ProviderID s0 = se_ProviderID s \<and>
        se_ExpiresAt s0 = se_ExpiresAt s \<and> (\<forall>e' \<in> set newer. \<not> logs_out tok e'))"

lemma session_ok_Cons: "session_ok tr tok s \<Longrightarrow> \<not> logs_out tok e \<Longrightarrow> session_ok (e # tr) tok s"
  unfolding session_ok_def by (metis append_Cons set_ConsD)

lemma session_ok_issued: "issued (ev_result e) = Some s \<Longrightarrow> session_ok (e # tr) (se_Token s) s"
  unfolding session_ok_def by (intro conjI exI [of _ "[]"] exI [of _ e] exI [of _ tr] exI [of _ s]) auto

lemma session_ok_seen: "session_ok tr tok s \<Longrightarrow> session_ok tr tok (s\<lparr>se_LastSeenAt := t\<rparr>)"
  by (simp add: session_ok_def)

lemma AuthenticateSessionE:
  assumes "AuthenticateSession env now token m = (r, m')"
  obtains (unchanged) "r = None" "m' = m"
  | (dropped) "r = None" "m' = m\<lparr>am_sessions := (am_sessions m)(TrimSpace token := None)\<rparr>"
  | (accepted) s u where "ae_parsed env now (TrimSpace token)" "am_sessions m (TrimSpace token) = Some s"
      "now \<le> se_ExpiresAt s" "lookupUser (ac_Users (am_config m)) (se_UserID s) = Some u" "us_Status u = ''active''"
      "r = Some (buildPrincipal ''session'' (TrimSpace token) (Some u) (ac_Roles (am_config m)) (ac_Groups (am_config m))
         (se_ProviderID s))"
      "m' = m\<lparr>am_sessions := (am_sessions m)(TrimSpace token \<mapsto> s\<lparr>se_LastSeenAt := now\<rparr>)\<rparr>"
proof -
  consider (off) "TrimSpace token = [] \<or> \<not> ae_parsed env now (TrimSpace token)"
    | (none) "TrimSpace token \<noteq> []" "ae_parsed env now (TrimSpace token)" "am_sessions m (TrimSpace token) = None"
    | (some) s where "TrimSpace token \<noteq> []" "ae_parsed env now (TrimSpace token)" "am_sessions m (TrimSpace token) = Some s"
    by (cases "am_sessions m (TrimSpace token)") auto
  then show ?thesis
  proof cases
    case off
    then show ?thesis using assms by (intro unchanged) (auto simp: AuthenticateSession_def Let_def split: if_splits)
  next
    case none
    then show ?thesis using assms by (intro dropped) (simp_all add: AuthenticateSession_def Let_def)
  next
    case (some s)
    consider "se_ExpiresAt s < now" | "now \<le> se_ExpiresAt s" "lookupUser (ac_Users (am_config m)) (se_UserID s) = None"
      | u where "now \<le> se_ExpiresAt s" "lookupUser (ac_Users (am_config m)) (se_UserID s) = Some u"
      by (cases "lookupUser (ac_Users (am_config m)) (se_UserID s)") (auto simp: not_less [symmetric])
    then show ?thesis
    proof cases
      case 1
      then show ?thesis using some assms by (intro dropped) (simp_all add: AuthenticateSession_def Let_def)
    next
      case 2
      then show ?thesis using some assms by (intro unchanged) (simp_all add: AuthenticateSession_def Let_def)
    next
      case (3 u)
      show ?thesis
      proof (cases "us_Status u = ''active''")
        case True
        then show ?thesis using 3 some assms by (intro accepted [of s u]) (simp_all add: AuthenticateSession_def Let_def)
      next
        case False
        then show ?thesis using 3 some assms by (intro unchanged) (simp_all add: AuthenticateSession_def Let_def)
      qed
    qed
  qed
qed

lemma NewManager_auth:
  assumes "acc_NewManager env now key path = Inr m"
  shows "auth_part m = (Map.empty, Map.empty, Map.empty, Map.empty)"
proof -
  have blank: "auth_part (blank_manager path) = (Map.empty, Map.empty, Map.empty, Map.empty)"
    by (simp add: auth_part_def blank_manager_def)
  have reload: "auth_part m = auth_part (blank_manager path)" if "acc_Reload env now (blank_manager path) = (None, m)"
    using that auth_part_Reload [of env now "blank_manager path"] by simp
  from assms blank reload show ?thesis
    by (auto simp: acc_NewManager_def Let_def auth_part_def split: option.splits if_splits prod.splits)
qed

lemma run_sessions: "access_run env tr m \<Longrightarrow> am_sessions m tok = Some s \<Longrightarrow> session_ok tr tok s"
proof (induction arbitrary: tok s rule: access_run.induct)
  case (start now key path m)
  then show ?case using NewManager_auth [OF start.hyps] by (simp add: auth_part_def)
next
  case (step tr m now rd op res m')
  let ?e = "\<lparr>ev_time = now, ev_op = op, ev_result = res, ev_before = m\<rparr>"
  consider t where "op = Authenticate t" | t where "op = LogoutOf t"
    | "\<And>t. op \<noteq> Authenticate t" "\<And>t. op \<noteq> LogoutOf t" by blast
  then show ?case
  proof cases
    case (1 t)
    then have no: "\<not> logs_out tok ?e" by (simp add: logs_out_def)
    from 1 step.hyps(2) obtain r where "AuthenticateSession env now t m = (r, m')" by auto
    then show ?thesis
      by (cases rule: AuthenticateSessionE)
         (use step no in \<open>auto intro!: session_ok_Cons session_ok_seen split: if_splits\<close>)
  next
    case (2 t)
    then show ?thesis using step by (auto simp: Logout_def logs_out_def intro!: session_ok_Cons split: if_splits)
  next
    case 3
    have old: "session_ok (?e # tr) tok s" if "am_sessions m tok = Some s"
      using that step.IH 3 by (intro session_ok_Cons) (auto simp: logs_out_def split: access_op.split)
    show ?thesis
    proof (cases "issued res")
      case None
      with sessions_step [OF step.hyps(2) 3] step.prems old show ?thesis by (simp add: with_issued_def)
    next
      case (Some s0)
      with sessions_step [OF step.hyps(2) 3] step.prems old session_ok_issued [of ?e s0 tr] show ?thesis
        by (simp add: with_issued_def split: if_splits)
    qed
  qed
qed

section \<open>Pending flows\<close>

text \<open>A pending flow stems from a password login in the run, with the factors that login asked for; a
  required challenge counts as passed only after a challenge code was accepted for the flow.\<close>

definition flow_origin :: "access_env \<Rightarrow> access_event list \<Rightarrow> string \<Rightarrow> PendingAuthFlow \<Rightarrow>
    access_event list \<Rightarrow> access_event \<Rightarrow> access_event list \<Rightarrow> AuthProvider \<Rightarrow> User \<Rightarrow> bool" where
  "flow_origin env tr t f newer e older p u \<longleftrightarrow>
     tr = newer @ e # older \<and> password_ok env e p u \<and> pending_is t e \<and>
     pa_UserID f = us_UserID u \<and> pa_ProviderID f = ap_ID p \<and>
     pa_ChallengeRequired f = needs_challenge p u \<and> pa_MFARequired f = needs_mfa p u \<and>
     (pa_ChallengeRequired f \<longrightarrow> pa_ChallengeVerified f \<longrightarrow> (\<exists>e' \<in> set newer. challenge_passed t e')) \<and>
     (pa_MFARequired f \<longrightarrow> \<not> pa_MFAVerified f)"

definition flow_ok :: "access_env \<Rightarrow> access_event list \<Rightarrow> string \<Rightarrow> PendingAuthFlow \<Rightarrow> bool" where
  "flow_ok env tr t f \<longleftrightarrow> pa_Token f = t \<and> (\<exists>newer e older p u. flow_origin env tr t f newer e older p u)"

definition flows_ok :: "access_env \<Rightarrow> access_event list \<Rightarrow> (string \<rightharpoonup> PendingAuthFlow) \<Rightarrow> bool" where
  "flows_ok env tr F \<longleftrightarrow> (\<forall>t f. F t = Some f \<longrightarrow> flow_ok env tr t f)"

lemma flow_origin_Cons: "flow_origin env tr t f newer e older p u \<Longrightarrow> flow_origin env (e' # tr) t f (e' # newer) e older p u"
  by (auto simp: flow_origin_def)

lemma flow_ok_Cons: "flow_ok env tr t f \<Longrightarrow> flow_ok env (e # tr) t f"
  unfolding flow_ok_def by (blast intro: flow_origin_Cons)

lemma flow_ok_challengeID: "flow_ok env tr t f \<Longrightarrow> flow_ok env tr t (f\<lparr>pa_ChallengeID := c\<rparr>)"
  by (simp add: flow_ok_def flow_origin_def)

lemma flows_ok_Cons: "flows_ok env tr F \<Longrightarrow> flows_ok env (e # tr) F"
  unfolding flows_ok_def by (blast intro: flow_ok_Cons)

lemma flows_ok_cleanup: "flows_ok env tr (am_pendingAuth m) \<Longrightarrow> flows_ok env tr (am_pendingAuth (cleanupExpiredAuthState now m))"
  by (auto simp: flows_ok_def cleanupExpiredAuthState_def split: option.splits if_splits)

lemma flows_ok_upd: "flows_ok env tr F \<Longrightarrow> flow_ok env tr t f \<Longrightarrow> flows_ok env tr (F(t \<mapsto> f))"
  by (simp add: flows_ok_def)

lemma flows_ok_del: "flows_ok env tr F \<Longrightarrow> flows_ok env tr (F(t := None))"
  by (simp add: flows_ok_def)

lemma flows_ok_issueChallenge:
  assumes "issueChallenge now rd k t p u m = (r, m')" and "flows_ok env tr (am_pendingAuth m)"
    and "am_pendingAuth m t = Some f" and "now \<le> pa_ExpiresAt f"
  shows "flows_ok env tr (am_pendingAuth m')"
  using assms(1)
proof (cases rule: issueChallengeE)
  case (error err)
  with assms(2) show ?thesis by (simp add: flows_ok_cleanup)
next
  case (issued c)
  have kept: "am_pendingAuth (cleanupExpiredAuthState now m) t = Some f"
    using assms(3,4) by (simp add: cleanupExpiredAuthState_def)
  have "flow_ok env tr t f" using assms(2,3) by (simp add: flows_ok_def)
  with issued kept assms(2) show ?thesis by (simp add: flows_ok_upd flows_ok_cleanup flow_ok_challengeID)
qed

lemma flows_ok_consumeChallenge:
  assumes "consumeChallenge now t cid code m = (r, m')" and "flows_ok env tr (am_pendingAuth m)"
  shows "flows_ok env tr (am_pendingAuth m')"
  using assms(1) by (cases rule: consumeChallengeE) (simp_all add: assms(2) flows_ok_cleanup flows_ok_del)

lemma completePendingFlowE:
  assumes "completePendingFlow env now rd flow m = (s, m')"
  shows "am_pendingAuth m' = (am_pendingAuth m)(pa_Token flow := None)"
    and "am_challenges m' = (if TrimSpace (pa_ChallengeID flow) \<noteq> [] then (am_challenges m)(pa_ChallengeID flow := None) else am_challenges m)"
    and "se_UserID s = pa_UserID flow" and "se_ProviderID s = pa_ProviderID flow"
    and "se_ExpiresAt s = now + 12 * 60 * Minute"
  using assms by (auto simp: completePendingFlow_def Let_def sessionTTL_def split: prod.splits dest: issueSessionE)

lemma LoginWithLocalPasswordE:
  assumes "LoginWithLocalPassword env now rd pid name pw m = (r, m')"
  obtains (denied) err where "r = Inl err" "m' = m"
  | (accepted) p u where
      "localPasswordProvider pid m = Inr p"
      "lookupUserByCredentials (ac_Users (am_config m)) (TrimSpace name) = Some u"
      "us_Status u = ''active''" "us_PasswordLoginEnabled u" "ae_bcrypt env (us_PasswordHash u) (TrimSpace pw)"
      "(r, m') =
        (if \<not> needs_challenge p u \<and> \<not> needs_mfa p u then
           (let (s, m1) = issueSession env now (rd 0) (us_UserID u) (ap_ID p) (ap_SessionTTLSeconds p) m
            in (Inr ((flow_result u (ap_ID p))\<lparr>fr_Session := Some s\<rparr>), m1))
         else
           (let (flow, m1) = storePendingFlow now (rd 0) (login_flow p u) m;
                result = (flow_result u (ap_ID p))\<lparr>fr_PendingToken := pa_Token flow\<rparr>
            in if needs_challenge p u then
                 (case issueChallenge now rd 1 (pa_Token flow) p u m1 of
                    (Inl err, m2) \<Rightarrow> (Inl err, m2)
                  | (Inr c, m2) \<Rightarrow> (Inr (with_challenge c result), m2))
               else (Inr (result\<lparr>fr_NextStep := ''mfa''\<rparr>), m1)))"
proof (cases "localPasswordProvider pid m")
  case (Inl err)
  with assms show ?thesis by (intro denied [of err]) (auto simp: LoginWithLocalPassword_def)
next
  case (Inr p)
  let ?u = "lookupUserByCredentials (ac_Users (am_config m)) (TrimSpace name)"
  let ?ok = "\<lambda>u. us_Status u = ''active'' \<and> us_PasswordLoginEnabled u \<and> TrimSpace (us_PasswordHash u) \<noteq> [] \<and>
    ae_bcrypt env (us_PasswordHash u) (TrimSpace pw)"
  show ?thesis
  proof (cases "TrimSpace name = [] \<or> TrimSpace pw = [] \<or> ?u = None \<or> \<not> ?ok (the ?u)")
    case True
    with assms Inr show ?thesis
      by (intro denied [of ErrInvalidCredentials])
         (auto simp: LoginWithLocalPassword_def Let_def split: option.splits if_splits)
  next
    case False
    then obtain u where u: "?u = Some u" "?ok u" by auto
    show ?thesis
      by (rule accepted [of p u]) (use assms Inr False u in \<open>auto simp: LoginWithLocalPassword_def Let_def\<close>)
  qed
qed

lemma login_flow_simps [simp]:
  "pa_Token (login_flow p u) = []" "pa_UserID (login_flow p u) = us_UserID u" "pa_ProviderID (login_flow p u) = ap_ID p"
  "pa_ChallengeRequired (login_flow p u) = needs_challenge p u" "pa_ChallengeVerified (login_flow p u) = (\<not> needs_challenge p u)"
  "pa_MFARequired (login_flow p u) = needs_mfa p u" "pa_MFAVerified (login_flow p u) = (\<not> needs_mfa p u)"
  "IsZero (pa_ExpiresAt (login_flow p u))"
  by (simp_all add: login_flow_def zero_flow_def)

lemma pendingFlow_cases:
  obtains (error) err where "pendingFlowContext now t m = (Inl err, cleanupExpiredAuthState now m)"
      "err \<noteq> ErrInvalidCredentials"
  | (found) flow user provider where "pendingFlowContext now t m = (Inr (flow, user, provider), cleanupExpiredAuthState now m)"
proof (cases "fst (pendingFlowContext now t m)")
  case (Inl err)
  then have "err \<noteq> ErrInvalidCredentials"
    by (auto simp: pendingFlowContext_def Let_def split: if_splits option.splits)
  with Inl show ?thesis by (intro error [of err]) (simp_all add: prod_eq_iff pendingFlowContext_frame)
next
  case (Inr x)
  then show ?thesis by (cases x) (intro found, simp add: prod_eq_iff pendingFlowContext_frame)
qed

lemma StartChallengeE:
  assumes "StartChallenge now rd t m = (r, m')"
  obtains (error) err where "r = Inl err" "m' = cleanupExpiredAuthState now m"
  | (started) flow user provider rc where
      "pendingFlowContext now t m = (Inr (flow, user, provider), cleanupExpiredAuthState now m)" "pa_ChallengeRequired flow"
      "issueChallenge now rd 0 (pa_Token flow) provider user (cleanupExpiredAuthState now m) = (rc, m')"
      "r = (case rc of Inl err \<Rightarrow> Inl err
            | Inr c \<Rightarrow> Inr (with_challenge c ((flow_result user (ap_ID provider))\<lparr>fr_PendingToken := pa_Token flow\<rparr>)))"
proof (cases rule: pendingFlow_cases [of now t m])
  case (error err)
  with assms that(1) [of err] show ?thesis by (auto simp: StartChallenge_def)
next
  case (found flow user provider)
  show ?thesis
  proof (cases "pa_ChallengeRequired flow")
    case True
    obtain rc m1 where "issueChallenge now rd 0 (pa_Token flow) provider user (cleanupExpiredAuthState now m) = (rc, m1)"
      by fastforce
    with True found assms that(2) show ?thesis by (cases rc) (auto simp: StartChallenge_def)
  next
    case False
    with found assms that(1) [of ErrChallengeNotFound] show ?thesis by (auto simp: StartChallenge_def)
  qed
qed

lemma VerifyChallengeE:
  assumes "VerifyChallenge env now rd t cid code m = (r, m')"
  obtains (error) err where "r = Inl err" "err \<noteq> ErrInvalidCredentials" "m' = cleanupExpiredAuthState now m"
  | (refused) flow user provider err where
      "pendingFlowContext now t m = (Inr (flow, user, provider), cleanupExpiredAuthState now m)"
      "consumeChallenge now (pa_Token flow) cid code (cleanupExpiredAuthState now m) = (Inl err, m')" "r = Inl err"
  | (passed) flow user provider c m1 flow' m2 where
      "pendingFlowContext now t m = (Inr (flow, user, provider), cleanupExpiredAuthState now m)" "pa_ChallengeRequired flow"
      "consumeChallenge now (pa_Token flow) cid code (cleanupExpiredAuthState now m) = (Inr c, m1)"
      "storePendingFlow now (rd 0) (flow\<lparr>pa_ChallengeVerified := True, pa_ChallengeID := cs_ID c\<rparr>) m1 = (flow', m2)"
      "(r, m') =
         (if pa_MFARequired flow' \<and> \<not> pa_MFAVerified flow'
          then (Inr ((flow_result user (ap_ID provider))\<lparr>fr_PendingToken := pa_Token flow', fr_NextStep := ''mfa''\<rparr>), m2)
          else (let (s, m3) = completePendingFlow env now (rd 1) flow' m2
                in (Inr ((flow_result user (ap_ID provider))\<lparr>fr_PendingToken := pa_Token flow', fr_Session := Some s\<rparr>), m3)))"
proof (cases rule: pendingFlow_cases [of now t m])
  case (error err)
  with assms that(1) [of err] show ?thesis by (auto simp: VerifyChallenge_def)
next
  case (found flow user provider)
  let ?m = "cleanupExpiredAuthState now m"
  show ?thesis
  proof (cases "pa_ChallengeRequired flow")
    case True
    obtain rc m1 where rc: "consumeChallenge now (pa_Token flow) cid code ?m = (rc, m1)" by fastforce
    show ?thesis
    proof (cases rc)
      case (Inl err)
      with True found assms rc show ?thesis by (intro refused [of flow user provider err]) (auto simp: VerifyChallenge_def)
    next
      case (Inr c)
      obtain flow' m2 where "storePendingFlow now (rd 0) (flow\<lparr>pa_ChallengeVerified := True, pa_ChallengeID := cs_ID c\<rparr>) m1 = (flow', m2)"
        by fastforce
      with True found assms rc Inr show ?thesis
        by (intro passed [of flow user provider c m1 flow' m2]) (auto simp: VerifyChallenge_def)
    qed
  next
    case False
    with found assms that(1) [of ErrChallengeNotFound] show ?thesis by (auto simp: VerifyChallenge_def)
  qed
qed

lemma VerifyMFAE:
  assumes "VerifyMFA env now rd t code m = (r, m')"
  obtains (error) err where "r = Inl err" "m' = cleanupExpiredAuthState now m"
  | (passed) flow user provider flow' m1 s where
      "pendingFlowContext now t m = (Inr (flow, user, provider), cleanupExpiredAuthState now m)"
      "pa_ChallengeRequired flow \<longrightarrow> pa_ChallengeVerified flow" "pa_MFARequired flow"
      "ae_totp env now (TrimSpace code) (TrimSpace (us_TOTPSecret user))"
      "storePendingFlow now (rd 0) (flow\<lparr>pa_MFAVerified := True\<rparr>) (cleanupExpiredAuthState now m) = (flow', m1)"
      "completePendingFlow env now (rd 1) flow' m1 = (s, m')"
      "r = Inr ((flow_result user (ap_ID provider))\<lparr>fr_PendingToken := pa_Token flow', fr_Session := Some s\<rparr>)"
proof (cases rule: pendingFlow_cases [of now t m])
  case (error err)
  with assms that(1) [of err] show ?thesis by (auto simp: VerifyMFA_def)
next
  case (found flow user provider)
  let ?ok = "(pa_ChallengeRequired flow \<longrightarrow> pa_ChallengeVerified flow) \<and> pa_MFARequired flow \<and>
    EqualFold (us_MFAMethod user) ''totp'' \<and> TrimSpace (us_TOTPSecret user) \<noteq> [] \<and>
    ae_totp env now (TrimSpace code) (TrimSpace (us_TOTPSecret user))"
  show ?thesis
  proof (cases "?ok")
    case True
    obtain flow' m1 where st: "storePendingFlow now (rd 0) (flow\<lparr>pa_MFAVerified := True\<rparr>) (cleanupExpiredAuthState now m) = (flow', m1)"
      by fastforce
    obtain s m2 where "completePendingFlow env now (rd 1) flow' m1 = (s, m2)" by fastforce
    with True found assms st show ?thesis
      by (intro passed [of flow user provider flow' m1 s]) (auto simp: VerifyMFA_def)
  next
    case False
    with found assms have "\<exists>err. r = Inl err" "m' = cleanupExpiredAuthState now m"
      by (auto simp: VerifyMFA_def split: if_splits)
    with that(1) show ?thesis by blast
  qed
qed

text \<open>The operations outside the flows keep the flows and the challenges.\<close>

definition flow_part :: "AccessManager \<Rightarrow> (string \<rightharpoonup> PendingAuthFlow) \<times> (string \<rightharpoonup> ChallengeState)" where
  "flow_part m = (am_pendingAuth m, am_challenges m)"

lemma flow_part_auth: "auth_part m' = auth_part m \<Longrightarrow> flow_part m' = flow_part m"
  by (simp add: auth_part_def flow_part_def)

lemma flow_part_issueSession: "issueSession env now rd u p ttl m = (s, m') \<Longrightarrow> flow_part m' = flow_part m"
  by (drule issueSessionE(1)) (simp add: flow_part_def)

lemma flow_part_UpsertUser: "UpsertUser env now u m = (r, m') \<Longrightarrow> flow_part m' = flow_part m"
  by (metis auth_part_UpsertUser flow_part_auth snd_conv)

lemma flow_part_LoginWithLocalToken: "LoginWithLocalToken env now rd t fb m = (r, m') \<Longrightarrow> flow_part m' = flow_part m"
  by (auto simp: LoginWithLocalToken_def Let_def dest!: flow_part_issueSession flow_part_UpsertUser
      split: if_splits option.splits prod.splits sum.splits)

lemma flow_part_resolveOAuthUser: "flow_part (snd (resolveOAuthUser env now p profile m)) = flow_part m"
  using flow_part_auth [OF auth_part_UpsertUser] by (simp add: resolveOAuthUser_def Let_def split: option.split)

lemma flow_part_CompleteOAuthCallback:
  assumes "CompleteOAuthCallback env now rd pid base state code m = (r, m')"
  shows "flow_part m' = flow_part m"
proof -
  let ?m = "m\<lparr>am_oauthStates := (am_oauthStates m)(state := None)\<rparr>"
  have keep: "flow_part ?m = flow_part m" by (simp add: flow_part_def)
  show ?thesis using assms
  proof (cases rule: CompleteOAuthCallbackE)
    case (unresolved err p profile)
    then show ?thesis using flow_part_resolveOAuthUser [of env now p profile ?m] keep by simp
  next
    case (finished s u p profile stored m1)
    then show ?thesis using flow_part_resolveOAuthUser [of env now p profile ?m] keep
      by (auto dest!: flow_part_issueSession)
  qed (simp_all add: keep)
qed

lemma flow_part_AuthenticateSession: "AuthenticateSession env now t m = (r, m') \<Longrightarrow> flow_part m' = flow_part m"
  by (erule AuthenticateSessionE) (simp_all add: flow_part_def)

lemma flow_part_StartOAuthLogin: "StartOAuthLogin env now rd pid base m = (r, m') \<Longrightarrow> flow_part m' = flow_part m"
  by (auto simp: StartOAuthLogin_def flow_part_def split: if_splits option.splits sum.splits)

definition outside_flows :: "access_op \<Rightarrow> bool" where
  "outside_flows op \<longleftrightarrow> (case op of LocalPassword _ _ _ \<Rightarrow> False | NewChallenge _ \<Rightarrow> False | ChallengeCode _ _ _ \<Rightarrow> False
     | MFACode _ _ \<Rightarrow> False | _ \<Rightarrow> True)"

lemma flow_part_step:
  assumes "access_exec env now rd op m = (res, m')" and "outside_flows op"
  shows "am_pendingAuth m' = am_pendingAuth m" and "am_challenges m' = am_challenges m"
proof -
  have "flow_part m' = flow_part m"
    using assms flow_part_auth [OF auth_part_directory]
    by (cases op) (auto simp: outside_flows_def Logout_def flow_part_def [of "m\<lparr>am_sessions := _\<rparr>"] flow_part_def [of m]
        dest!: flow_part_LoginWithLocalToken flow_part_AuthenticateSession flow_part_StartOAuthLogin flow_part_CompleteOAuthCallback)
  then show "am_pendingAuth m' = am_pendingAuth m" "am_challenges m' = am_challenges m"
    by (simp_all add: flow_part_def)
qed

lemma event_cases:
  assumes "access_exec env now rd op m = (res, m')"
  obtains (outside) "outside_flows op"
  | (password) pid name pw r where "op = LocalPassword pid name pw" "res = RFlow r"
      "LoginWithLocalPassword env now rd pid name pw m = (r, m')"
  | (challenge) t r where "op = NewChallenge t" "res = RFlow r" "StartChallenge now rd t m = (r, m')"
  | (code) t cid c r where "op = ChallengeCode t cid c" "res = RFlow r" "VerifyChallenge env now rd t cid c m = (r, m')"
  | (mfa) t c r where "op = MFACode t c" "res = RFlow r" "VerifyMFA env now rd t c m = (r, m')"
  using assms by (cases op) (auto simp: outside_flows_def)

lemma flow_ok_login:
  assumes "password_ok env e p u" and "storePendingFlow now rd (login_flow p u) m = (flow, m1)" and "pending_is (pa_Token flow) e"
  shows "flow_ok env (e # tr) (pa_Token flow) flow"
proof -
  note f = storePendingFlowE [OF assms(2)]
  have "flow_origin env (e # tr) (pa_Token flow) flow [] e tr p u"
    using assms(1,3) f(2-7) by (simp add: flow_origin_def)
  then show ?thesis unfolding flow_ok_def by blast
qed

lemma flows_ok_store:
  assumes "storePendingFlow now rd flow m = (flow', m')" and "flows_ok env tr (am_pendingAuth m)"
    and "flow_ok env tr (pa_Token flow') flow'"
  shows "flows_ok env tr (am_pendingAuth m')"
  using storePendingFlowE(1) [OF assms(1)] assms(2,3) by (simp add: flows_ok_upd flows_ok_cleanup)

lemma result_tokens [simp]:
  "fr_PendingToken (with_challenge c r) = fr_PendingToken r" "fr_ChallengeID (with_challenge c r) = cs_ID c"
  "fr_NextStep (with_challenge c r) = ''challenge''" "fr_ChallengeCode (with_challenge c r) = cs_Code c"
  "fr_NextStep (flow_result u p) = []" "fr_PendingToken (flow_result u p) = []"
  by (simp_all add: with_challenge_def flow_result_def)

lemma flows_ok_password:
  assumes "LoginWithLocalPassword env now rd pid name pw m = (r, m')" and ok: "flows_ok env tr (am_pendingAuth m)"
    and e: "ev_op e = LocalPassword pid name pw" "ev_result e = RFlow r" "ev_before e = m"
  shows "flows_ok env (e # tr) (am_pendingAuth m')"
  using assms(1)
proof (cases rule: LoginWithLocalPasswordE)
  case (denied err)
  with ok show ?thesis by (simp add: flows_ok_Cons)
next
  case (accepted p u)
  then have pw: "password_ok env e p u" using e by (simp add: password_ok_def)
  obtain flow m1 where st: "storePendingFlow now (rd 0) (login_flow p u) m = (flow, m1)" by fastforce
  obtain rc m2 where rc: "issueChallenge now rd 1 (pa_Token flow) p u m1 = (rc, m2)" by fastforce
  have m1: "am_pendingAuth m1 (pa_Token flow) = Some flow" "now \<le> pa_ExpiresAt flow"
    using storePendingFlowE(1,10) [OF st] by (simp_all add: Minute_def Second_def)
  consider (direct) "\<not> needs_challenge p u" "\<not> needs_mfa p u" | (challenge) "needs_challenge p u"
    | (mfa) "\<not> needs_challenge p u" "needs_mfa p u" by blast
  then show ?thesis
  proof cases
    case direct
    with accepted(6) ok show ?thesis
      by (auto simp: Let_def flows_ok_Cons split: prod.splits dest!: issueSessionE(1))
  next
    case challenge
    with accepted(6) st rc e(2) have "m' = m2" "pending_is (pa_Token flow) e"
      by (auto simp: pending_is_def Let_def split: prod.splits sum.splits)
    moreover from this have "flows_ok env (e # tr) (am_pendingAuth m1)"
      by (intro flows_ok_store [OF st flows_ok_Cons [OF ok]] flow_ok_login [OF pw st])
    ultimately show ?thesis using flows_ok_issueChallenge [OF rc _ m1] by simp
  next
    case mfa
    with accepted(6) st e(2) have "m' = m1" "pending_is (pa_Token flow) e" by (auto simp: pending_is_def)
    then show ?thesis by (simp add: flows_ok_store [OF st flows_ok_Cons [OF ok]] flow_ok_login [OF pw st])
  qed
qed

lemma flows_ok_challenge:
  assumes "StartChallenge now rd t m = (r, m')" and ok: "flows_ok env tr (am_pendingAuth m)"
  shows "flows_ok env (e # tr) (am_pendingAuth m')"
  using assms(1)
proof (cases rule: StartChallengeE)
  case (error err)
  with ok show ?thesis by (simp add: flows_ok_Cons flows_ok_cleanup)
next
  case (started flow user provider rc)
  note f = pendingFlowContextE [OF started(1)]
  from ok f(1) have "pa_Token flow = TrimSpace t" by (simp add: flows_ok_def flow_ok_def)
  with f(1,2) have "am_pendingAuth (cleanupExpiredAuthState now m) (pa_Token flow) = Some flow"
    by (simp add: cleanupExpiredAuthState_def)
  from flows_ok_issueChallenge [OF started(3) flows_ok_cleanup [OF ok] this f(2)]
  show ?thesis by (rule flows_ok_Cons)
qed

lemma flow_ok_verified:
  assumes "flow_ok env tr t flow" and "challenge_passed t e"
    and "storePendingFlow now rd (flow\<lparr>pa_ChallengeVerified := True, pa_ChallengeID := c\<rparr>) m = (flow', m')"
    and "TrimSpace (pa_Token flow) \<noteq> []"
  shows "flow_ok env (e # tr) t flow'"
proof -
  from assms(1) obtain newer l older p u where o: "flow_origin env tr t flow newer l older p u" and t: "pa_Token flow = t"
    unfolding flow_ok_def by blast
  note f = storePendingFlowE [OF assms(3)]
  from o f assms(2) have "flow_origin env (e # tr) t flow' (e # newer) l older p u"
    by (simp add: flow_origin_def)
  moreover have "pa_Token flow' = t" using f(9) assms(4) t by simp
  ultimately show ?thesis unfolding flow_ok_def by blast
qed

lemma flows_ok_code:
  assumes "VerifyChallenge env now rd t cid c m = (r, m')" and ok: "flows_ok env tr (am_pendingAuth m)"
    and e: "ev_op e = ChallengeCode t cid c" "ev_result e = RFlow r"
  shows "flows_ok env (e # tr) (am_pendingAuth m')"
  using assms(1)
proof (cases rule: VerifyChallengeE)
  case (error err)
  with ok show ?thesis by (simp add: flows_ok_Cons flows_ok_cleanup)
next
  case (refused flow user provider err)
  with ok show ?thesis by (blast intro: flows_ok_Cons flows_ok_consumeChallenge flows_ok_cleanup)
next
  case (passed flow user provider ch m1 flow' m2)
  note f = pendingFlowContextE [OF passed(1)]
  have "\<exists>x. r = Inr x" using passed(5) by (auto simp: Let_def split: if_splits prod.splits)
  with e have p: "challenge_passed (TrimSpace t) e" by (auto simp: challenge_passed_def succeeded_def)
  from ok f(1) have o: "flow_ok env tr (TrimSpace t) flow" by (simp add: flows_ok_def)
  then have tok: "pa_Token flow = TrimSpace t" by (simp add: flow_ok_def)
  have new: "flow_ok env (e # tr) (TrimSpace t) flow'"
    by (rule flow_ok_verified [OF o p passed(4)]) (simp add: tok f(3))
  then have "pa_Token flow' = TrimSpace t" by (simp add: flow_ok_def)
  with new have "flows_ok env (e # tr) (am_pendingAuth m2)"
    by (intro flows_ok_store [OF passed(4)] flows_ok_Cons flows_ok_consumeChallenge [OF passed(3)] flows_ok_cleanup ok) simp
  with passed(5) show ?thesis
    by (auto simp: Let_def flows_ok_del split: if_splits prod.splits dest!: completePendingFlowE(1))
qed

lemma flows_ok_mfa:
  assumes "VerifyMFA env now rd t c m = (r, m')" and ok: "flows_ok env tr (am_pendingAuth m)"
  shows "flows_ok env (e # tr) (am_pendingAuth m')"
  using assms(1)
proof (cases rule: VerifyMFAE)
  case (error err)
  with ok show ?thesis by (simp add: flows_ok_Cons flows_ok_cleanup)
next
  case (passed flow user provider flow' m1 s)
  have "am_pendingAuth m' = (am_pendingAuth (cleanupExpiredAuthState now (cleanupExpiredAuthState now m)))(pa_Token flow' := None)"
    using completePendingFlowE(1) [OF passed(6)] storePendingFlowE(1) [OF passed(5)] by simp
  with ok show ?thesis by (simp add: flows_ok_Cons flows_ok_cleanup flows_ok_del)
qed

lemma run_flows: "access_run env tr m \<Longrightarrow> flows_ok env tr (am_pendingAuth m)"
proof (induction rule: access_run.induct)
  case (start now key path m)
  then show ?case using NewManager_auth [OF start] by (simp add: auth_part_def flows_ok_def)
next
  case (step tr m now rd op res m')
  from step.hyps(2) show ?case
  proof (cases rule: event_cases)
    case outside
    with step show ?thesis by (simp add: flow_part_step flows_ok_Cons)
  qed (use step.IH flows_ok_password flows_ok_challenge flows_ok_code flows_ok_mfa in auto)
qed

section \<open>Challenges\<close>

text \<open>A stored challenge was issued in the run; its attempts are the wrong codes since then.\<close>

definition challenge_origin :: "access_event list \<Rightarrow> string \<Rightarrow> string \<Rightarrow> string \<Rightarrow> access_event list \<Rightarrow> bool" where
  "challenge_origin tr cid t code newer \<longleftrightarrow>
     (\<exists>e older r. tr = newer @ e # older \<and> ev_result e = RFlow (Inr r) \<and> issues cid e \<and>
        fr_PendingToken r = t \<and> fr_ChallengeCode r = code \<and> (\<forall>e' \<in> set newer. \<not> issues cid e'))"

definition challenge_ok :: "access_event list \<Rightarrow> string \<Rightarrow> ChallengeState \<Rightarrow> bool" where
  "challenge_ok tr cid c \<longleftrightarrow> cs_ID c = cid \<and> cs_MaxAttempts c = 5 \<and> cs_Attempts c \<le> 5 \<and>
     (\<exists>newer. challenge_origin tr cid (cs_PendingToken c) (cs_Code c) newer \<and>
        cs_Attempts c = int (length (filter (wrong_guess cid) newer)))"

definition challenges_ok :: "access_event list \<Rightarrow> (string \<rightharpoonup> ChallengeState) \<Rightarrow> bool" where
  "challenges_ok tr C \<longleftrightarrow> (\<forall>cid c. C cid = Some c \<longrightarrow> challenge_ok tr cid c)"

lemma challenge_origin_Cons:
  "challenge_origin tr cid t code newer \<Longrightarrow> \<not> issues cid e \<Longrightarrow> challenge_origin (e # tr) cid t code (e # newer)"
  by (auto simp: challenge_origin_def)

lemma challenge_ok_Cons:
  assumes "challenge_ok tr cid c" and "\<not> issues cid e" and "\<not> wrong_guess cid e"
  shows "challenge_ok (e # tr) cid c"
proof -
  from assms(1) obtain newer where "challenge_origin tr cid (cs_PendingToken c) (cs_Code c) newer"
      "cs_Attempts c = int (length (filter (wrong_guess cid) newer))"
    unfolding challenge_ok_def by blast
  with assms show ?thesis unfolding challenge_ok_def by (auto intro!: exI [of _ "e # newer"] challenge_origin_Cons)
qed

lemma challenge_ok_wrong:
  assumes "challenge_ok tr cid c" and "\<not> issues cid e" and "wrong_guess cid e" and "cs_Attempts c < 5"
  shows "challenge_ok (e # tr) cid (c\<lparr>cs_Attempts := cs_Attempts c + 1\<rparr>)"
proof -
  from assms(1) obtain newer where "challenge_origin tr cid (cs_PendingToken c) (cs_Code c) newer"
      "cs_Attempts c = int (length (filter (wrong_guess cid) newer))"
    unfolding challenge_ok_def by blast
  with assms show ?thesis unfolding challenge_ok_def by (auto intro!: exI [of _ "e # newer"] challenge_origin_Cons)
qed

lemma challenges_ok_Cons:
  assumes "challenges_ok tr C" and "\<And>cid c. C cid = Some c \<Longrightarrow> \<not> issues cid e \<and> \<not> wrong_guess cid e"
  shows "challenges_ok (e # tr) C"
  using assms unfolding challenges_ok_def by (blast intro: challenge_ok_Cons)

lemma challenges_ok_sub:
  assumes "challenges_ok tr C" and "\<And>cid c. C' cid = Some c \<Longrightarrow> C cid = Some c"
  shows "challenges_ok tr C'"
  using assms unfolding challenges_ok_def by blast

lemma cleanup_challenges:
  "am_challenges (cleanupExpiredAuthState now m) cid = Some c \<Longrightarrow> am_challenges m cid = Some c"
  by (auto simp: cleanupExpiredAuthState_def split: option.splits if_splits)

lemma challenges_ok_issue:
  assumes "issueChallenge now rd k t p u m = (Inr c, m')" and ok: "challenges_ok tr C"
    and sub: "\<And>cid c. am_challenges m cid = Some c \<Longrightarrow> C cid = Some c"
    and e: "ev_result e = RFlow (Inr r)" "fr_NextStep r = ''challenge''" "fr_ChallengeID r = cs_ID c"
      "fr_ChallengeCode r = cs_Code c" "fr_PendingToken r = t" and no: "\<And>cid. \<not> wrong_guess cid e"
  shows "challenges_ok (e # tr) (am_challenges m')"
  using assms(1)
proof (cases rule: issueChallengeE)
  case (issued c')
  have new: "challenge_ok (e # tr) (cs_ID c) c"
    unfolding challenge_ok_def challenge_origin_def
    using e issued by (auto simp: issues_def intro!: exI [of _ "[]"])
  have old: "challenge_ok (e # tr) cid d" if "am_challenges (cleanupExpiredAuthState now m) cid = Some d" "cid \<noteq> cs_ID c" for cid d
    using cleanup_challenges [OF that(1)] sub that(2) ok no e
    by (intro challenge_ok_Cons) (auto simp: challenges_ok_def issues_def)
  show ?thesis unfolding challenges_ok_def using new old issued by auto
qed simp

lemma challenges_ok_keep:
  assumes "challenges_ok tr (am_challenges m)" and "\<And>cid. \<not> issues cid e" and "\<And>cid. \<not> wrong_guess cid e"
    and "\<And>cid c. am_challenges m' cid = Some c \<Longrightarrow> am_challenges m cid = Some c"
  shows "challenges_ok (e # tr) (am_challenges m')"
  using challenges_ok_sub [OF challenges_ok_Cons [OF assms(1)] assms(4)] assms(2,3) by blast

lemma storePendingFlow_challenges:
  "storePendingFlow now rd f m = (f', m') \<Longrightarrow> am_challenges m' = am_challenges (cleanupExpiredAuthState now m)"
  by (drule storePendingFlowE(1)) simp

lemma challenges_ok_password:
  assumes "LoginWithLocalPassword env now rd pid name pw m = (r, m')" and ok: "challenges_ok tr (am_challenges m)"
    and e: "ev_op e = LocalPassword pid name pw" "ev_result e = RFlow r"
  shows "challenges_ok (e # tr) (am_challenges m')"
  using assms(1)
proof (cases rule: LoginWithLocalPasswordE)
  case (denied err)
  with e show ?thesis by (intro challenges_ok_keep [OF ok]) (auto simp: issues_def wrong_guess_def)
next
  case (accepted p u)
  obtain flow m1 where st: "storePendingFlow now (rd 0) (login_flow p u) m = (flow, m1)" by fastforce
  obtain rc m2 where rc: "issueChallenge now rd 1 (pa_Token flow) p u m1 = (rc, m2)" by fastforce
  have sub1: "am_challenges m1 cid = Some c \<Longrightarrow> am_challenges m cid = Some c" for cid c
    using storePendingFlow_challenges [OF st] by (metis cleanup_challenges)
  consider (direct) "\<not> needs_challenge p u" "\<not> needs_mfa p u" | (refused) err where "needs_challenge p u" "rc = Inl err"
    | (challenge) c where "needs_challenge p u" "rc = Inr c" | (mfa) "\<not> needs_challenge p u" "needs_mfa p u" by (cases rc) blast+
  then show ?thesis
  proof cases
    case direct
    with accepted(6) e show ?thesis
      by (intro challenges_ok_keep [OF ok])
         (auto simp: Let_def issues_def wrong_guess_def split: prod.splits dest!: issueSessionE(1))
  next
    case refused
    with accepted(6) st rc e have m': "r = Inl err" "m' = m2" by (auto simp: Let_def)
    have "am_challenges m2 = am_challenges (cleanupExpiredAuthState now m1)"
      using rc refused by (auto elim!: issueChallengeE)
    with m' e show ?thesis
      by (intro challenges_ok_keep [OF ok]) (auto simp: issues_def wrong_guess_def intro: sub1 dest!: cleanup_challenges)
  next
    case (challenge c)
    with accepted(6) st rc have m': "r = Inr (with_challenge c ((flow_result u (ap_ID p))\<lparr>fr_PendingToken := pa_Token flow\<rparr>))" "m' = m2"
      by (auto simp: Let_def)
    with e show ?thesis
      by (intro challenges_ok_issue [OF rc [unfolded challenge(2)] ok sub1 e(2) [unfolded m'(1)], folded m'(2)])
         (auto simp: wrong_guess_def)
  next
    case mfa
    with accepted(6) st have "r = Inr ((flow_result u (ap_ID p))\<lparr>fr_PendingToken := pa_Token flow, fr_NextStep := ''mfa''\<rparr>)" "m' = m1"
      by (auto simp: Let_def)
    with e show ?thesis by (intro challenges_ok_keep [OF ok]) (auto simp: issues_def wrong_guess_def intro: sub1)
  qed
qed

lemma challenges_ok_challenge:
  assumes "StartChallenge now rd t m = (r, m')" and ok: "challenges_ok tr (am_challenges m)"
    and e: "ev_op e = NewChallenge t" "ev_result e = RFlow r"
  shows "challenges_ok (e # tr) (am_challenges m')"
  using assms(1)
proof (cases rule: StartChallengeE)
  case (error err)
  with e show ?thesis
    by (intro challenges_ok_keep [OF ok]) (auto simp: issues_def wrong_guess_def intro: cleanup_challenges)
next
  case (started flow user provider rc)
  show ?thesis
  proof (cases rc)
    case (Inl err)
    with started(3) have "am_challenges m' = am_challenges (cleanupExpiredAuthState now (cleanupExpiredAuthState now m))"
      by (auto elim!: issueChallengeE)
    with e started(4) Inl show ?thesis
      by (intro challenges_ok_keep [OF ok]) (auto simp: issues_def wrong_guess_def dest!: cleanup_challenges)
  next
    case (Inr c)
    with started(4) have r: "r = Inr (with_challenge c ((flow_result user (ap_ID provider))\<lparr>fr_PendingToken := pa_Token flow\<rparr>))"
      by simp
    from e show ?thesis
      by (intro challenges_ok_issue [OF started(3) [unfolded Inr] ok cleanup_challenges e(2) [unfolded r]])
         (auto simp: wrong_guess_def)
  qed
qed

lemma challenges_ok_refused:
  assumes "consumeChallenge now t cid code m = (Inl err, m')" and ok: "challenges_ok tr C"
    and sub: "\<And>i d. am_challenges m i = Some d \<Longrightarrow> C i = Some d"
    and e: "ev_op e = ChallengeCode pt cid code" "ev_result e = RFlow (Inl err)"
  shows "challenges_ok (e # tr) (am_challenges m')"
proof -
  have sub': "am_challenges (cleanupExpiredAuthState now m) i = Some d \<Longrightarrow> challenge_ok tr i d" for i d
    using ok sub cleanup_challenges [of now m i d] by (auto simp: challenges_ok_def)
  have no: "\<not> issues i e" "wrong_guess i e \<longleftrightarrow> i = TrimSpace cid \<and> err = ErrInvalidCredentials" for i
    using e by (auto simp: issues_def wrong_guess_def)
  show ?thesis using assms(1)
  proof (cases rule: consumeChallengeE)
    case missing
    with no sub' show ?thesis by (auto simp: challenges_ok_def intro!: challenge_ok_Cons)
  next
    case (exhausted c)
    with no sub' show ?thesis by (auto simp: challenges_ok_def intro!: challenge_ok_Cons split: if_splits)
  next
    case (wrong c)
    then have "challenge_ok tr (TrimSpace cid) c" by (intro sub')
    with wrong no have "challenge_ok (e # tr) (TrimSpace cid) (c\<lparr>cs_Attempts := cs_Attempts c + 1\<rparr>)"
      by (intro challenge_ok_wrong) (auto simp: challenge_ok_def)
    with wrong no sub' show ?thesis by (auto simp: challenges_ok_def intro!: challenge_ok_Cons split: if_splits)
  qed simp
qed

lemma challenges_ok_code:
  assumes "VerifyChallenge env now rd t cid code m = (r, m')" and ok: "challenges_ok tr (am_challenges m)"
    and e: "ev_op e = ChallengeCode t cid code" "ev_result e = RFlow r"
  shows "challenges_ok (e # tr) (am_challenges m')"
  using assms(1)
proof (cases rule: VerifyChallengeE)
  case (error err)
  with e show ?thesis
    by (intro challenges_ok_keep [OF ok]) (auto simp: issues_def wrong_guess_def intro: cleanup_challenges)
next
  case (refused flow user provider err)
  with e show ?thesis by (intro challenges_ok_refused [OF refused(2) ok cleanup_challenges]) auto
next
  case (passed flow user provider c m1 flow' m2)
  have "am_challenges m1 i = Some d \<Longrightarrow> am_challenges m i = Some d" for i d
    using passed(3) by (elim consumeChallengeE) (auto dest!: cleanup_challenges split: if_splits)
  then have sub: "am_challenges m2 i = Some d \<Longrightarrow> am_challenges m i = Some d" for i d
    using storePendingFlow_challenges [OF passed(4)] by (metis cleanup_challenges)
  obtain s m3 where cp: "completePendingFlow env now (rd 1) flow' m2 = (s, m3)" by fastforce
  have step: "am_challenges m' i = Some d \<Longrightarrow> am_challenges m2 i = Some d" for i d
    using passed(5) cp completePendingFlowE(2) [OF cp] by (auto split: if_splits)
  have "\<exists>x. r = Inr x \<and> fr_NextStep x \<noteq> ''challenge''" using passed(5) cp by (auto split: if_splits)
  with e step sub show ?thesis by (intro challenges_ok_keep [OF ok]) (auto simp: issues_def wrong_guess_def)
qed

lemma challenges_ok_mfa:
  assumes "VerifyMFA env now rd t c m = (r, m')" and ok: "challenges_ok tr (am_challenges m)"
    and e: "ev_op e = MFACode t c" "ev_result e = RFlow r"
  shows "challenges_ok (e # tr) (am_challenges m')"
  using assms(1)
proof (cases rule: VerifyMFAE)
  case (error err)
  with e show ?thesis
    by (intro challenges_ok_keep [OF ok]) (auto simp: issues_def wrong_guess_def intro: cleanup_challenges)
next
  case (passed flow user provider flow' m1 s)
  with e show ?thesis using completePendingFlowE(2) [OF passed(6)] storePendingFlow_challenges [OF passed(5)]
    by (intro challenges_ok_keep [OF ok]) (auto simp: issues_def wrong_guess_def dest!: cleanup_challenges split: if_splits)
qed

lemma run_challenges: "access_run env tr m \<Longrightarrow> challenges_ok tr (am_challenges m)"
proof (induction rule: access_run.induct)
  case (start now key path m)
  then show ?case using NewManager_auth [OF start] by (simp add: auth_part_def challenges_ok_def)
next
  case (step tr m now rd op res m')
  from step.hyps(2) show ?case
  proof (cases rule: event_cases)
    case outside
    with step.hyps(2) have "\<not> issues cid \<lparr>ev_time = now, ev_op = op, ev_result = res, ev_before = m\<rparr>"
      "\<not> wrong_guess cid \<lparr>ev_time = now, ev_op = op, ev_result = res, ev_before = m\<rparr>" for cid
      by (cases op; auto simp: outside_flows_def issues_def wrong_guess_def)+
    with outside step show ?thesis by (intro challenges_ok_keep) (auto simp: flow_part_step)
  qed (use step.IH challenges_ok_password challenges_ok_challenge challenges_ok_code challenges_ok_mfa in auto)
qed

section \<open>Events of a run\<close>

inductive_cases access_run_ConsE: "access_run env (e # tr) m'"

lemma access_run_event:
  assumes "access_run env (later @ e # tr) m'"
  obtains rd m m1 where "access_run env tr m" "access_exec env (ev_time e) rd (ev_op e) m = (ev_result e, m1)" "ev_before e = m"
  using assms
proof (induction later arbitrary: m' thesis)
  case Nil
  from Nil.prems(2) show ?case by (auto elim!: access_run_ConsE intro: Nil.prems(1))
next
  case (Cons x later)
  from Cons.prems(2) obtain m where "access_run env (later @ e # tr) m" by (auto elim: access_run_ConsE)
  with Cons.IH Cons.prems(1) show ?case by blast
qed

text \<open>Running a list of operations.\<close>

fun run_ops :: "access_env \<Rightarrow> (gotime \<times> random \<times> access_op) list \<Rightarrow> access_event list \<times> AccessManager \<Rightarrow>
    access_event list \<times> AccessManager" where
  "run_ops env [] s = s"
| "run_ops env ((now, rd, op) # ops) (tr, m) =
     (case access_exec env now rd op m of
        (res, m') \<Rightarrow> run_ops env ops (\<lparr>ev_time = now, ev_op = op, ev_result = res, ev_before = m\<rparr> # tr, m'))"

lemma run_ops_run: "access_run env tr m \<Longrightarrow> run_ops env ops (tr, m) = (tr', m') \<Longrightarrow> access_run env tr' m'"
proof (induction ops arbitrary: tr m)
  case (Cons x ops)
  obtain now rd op where x: "x = (now, rd, op)" by (cases x)
  obtain res m1 where ex: "access_exec env now rd op m = (res, m1)" by fastforce
  show ?case using Cons.IH [OF access_run.step [OF Cons.prems(1) ex]] Cons.prems(2) x ex by simp
qed simp

end
