(* ===== verification/Access_Laws.thy ===== *)
theory Access_Laws
  imports Access_Runs
begin

text \<open>
  Laws of the directory: the normal form that every stored configuration has, membership of groups,
  and the decision on a permission.
\<close>

section \<open>Lists without repeated keys\<close>

definition keyed :: "('a \<Rightarrow> string) \<Rightarrow> 'a list \<Rightarrow> bool" where
  "keyed key xs \<longleftrightarrow> distinct (map key xs) \<and> [] \<notin> key ` set xs"

definition ordered :: "('a \<Rightarrow> string) \<Rightarrow> 'a list \<Rightarrow> bool" where
  "ordered key xs \<longleftrightarrow> sorted_wrt (<) (map key xs) \<and> [] \<notin> key ` set xs"

lemma ordered_keyed: "ordered key xs \<Longrightarrow> keyed key xs"
  by (simp add: ordered_def keyed_def strict_sorted_iff)

lemma set_dedupe_by: "set (dedupe_by key seen xs) \<subseteq> set xs"
  by (induction key seen xs rule: dedupe_by.induct) auto

lemma keys_dedupe_by: "key ` set (dedupe_by key seen xs) = key ` set xs - insert [] (set seen)"
  by (induction key seen xs rule: dedupe_by.induct) auto

lemma keyed_dedupe_by: "keyed key (dedupe_by key seen xs)"
proof (induction key seen xs rule: dedupe_by.induct)
  case (2 key seen item items)
  have "key item \<notin> key ` set (dedupe_by key (key item # seen) items)" by (simp add: keys_dedupe_by)
  with 2 show ?case by (auto simp: keyed_def)
qed (simp add: keyed_def)

lemma dedupe_by_keyed: "keyed key xs \<Longrightarrow> key ` set xs \<inter> set seen = {} \<Longrightarrow> dedupe_by key seen xs = xs"
proof (induction key seen xs rule: dedupe_by.induct)
  case (2 key seen item items)
  then have "key ` set items \<inter> set (key item # seen) = {}" "keyed key items" by (auto simp: keyed_def)
  with 2 show ?case by (auto simp: keyed_def)
qed simp

lemma sorted_dedupe_by:
  "sorted_wrt (\<lambda>x y. \<not> key y < key x) xs \<Longrightarrow> sorted_wrt (\<lambda>x y. \<not> key y < key x) (dedupe_by key seen xs)"
proof (induction key seen xs rule: dedupe_by.induct)
  case (2 key seen item items)
  then show ?case using set_dedupe_by [of key "key item # seen" items] by auto
qed simp

lemma ordered_normal: "ordered key (dedupe_by key [] (slice_stable (\<lambda>a b. key a < key b) xs))"
proof -
  let ?ys = "dedupe_by key [] (slice_stable (\<lambda>a b. key a < key b) xs)"
  have "sorted_wrt (\<lambda>x y. \<not> key y < key x) ?ys"
    by (intro sorted_dedupe_by strict_weak_order.sorted_slice_stable strict_weak_order_key)
  then have "sorted (map key ?ys)" by (simp add: sorted_map not_less)
  with keyed_dedupe_by [of key "[]" "slice_stable (\<lambda>a b. key a < key b) xs"] show ?thesis
    by (simp add: ordered_def keyed_def strict_sorted_iff)
qed

lemma keyed_slice_stable: "keyed key xs \<Longrightarrow> keyed key (slice_stable lt xs)"
  unfolding keyed_def by (metis mset_map mset_slice_stable mset_eq_imp_distinct_iff set_slice_stable)

lemma set_dedupeStrings: "set (dedupeStrings xs) = TrimSpace ` set xs - {[]}"
  using keys_dedupe_by [of "\<lambda>x. x" "[]" "map TrimSpace xs"] by (simp add: dedupeStrings_def)

lemma in_dedupeStrings: "x \<in> set xs \<Longrightarrow> TrimSpace x = x \<Longrightarrow> x \<noteq> [] \<Longrightarrow> x \<in> set (dedupeStrings xs)"
  unfolding set_dedupeStrings by (metis DiffI imageI singletonD)

lemma acc_firstNonEmpty_trimmed: "TrimSpace (acc_firstNonEmpty xs) = acc_firstNonEmpty xs"
  by (induction xs rule: acc_firstNonEmpty.induct) simp_all

lemma map_upsert_item:
  assumes "\<And>x. key (merge x item) = key item"
  shows "map key (snd (upsert_item key merge item xs)) =
    (if key item \<in> key ` set xs then map key xs else map key xs @ [key item])"
  using assms by (induction key merge item xs rule: upsert_item.induct) (auto split: prod.splits)

lemma upsert_item_key:
  "(\<And>x. key (merge x item) = key item) \<Longrightarrow> key (fst (upsert_item key merge item xs)) = key item"
  by (induction key merge item xs rule: upsert_item.induct) (auto split: prod.splits)

lemma keyed_upsert_item:
  assumes "keyed key xs" and "\<And>x. key (merge x item) = key item" and "key item \<noteq> []"
  shows "keyed key (snd (upsert_item key merge item xs))"
proof -
  have "key ` set ys = set (map key ys)" for ys by simp
  with map_upsert_item [of key merge item xs, OF assms(2)] assms(1,3) show ?thesis
    by (auto simp: keyed_def simp del: set_map)
qed

section \<open>Membership of groups\<close>

text \<open>The two loops of \<^verbatim>\<open>syncGroupMemberships\<close> only add.\<close>

definition is_member :: "Group list \<Rightarrow> string \<Rightarrow> string \<Rightarrow> bool" where
  "is_member groups gid uid \<longleftrightarrow> (\<exists>g \<in> set groups. gr_GroupID g = gid \<and> uid \<in> set (gr_Members g))"

definition has_group :: "User list \<Rightarrow> string \<Rightarrow> string \<Rightarrow> bool" where
  "has_group users uid gid \<longleftrightarrow> (\<exists>u \<in> set users. us_UserID u = uid \<and> gid \<in> set (us_Groups u))"

lemma last_index_Some: "last_index key k xs = Some i \<Longrightarrow> i < length xs \<and> key (xs ! i) = k"
  by (induction xs arbitrary: i) (auto split: option.splits if_splits)

lemma last_index_None: "last_index key k xs = None \<longleftrightarrow> k \<notin> key ` set xs"
  by (induction xs) (auto split: option.splits)

lemma add_member_ids [simp]: "map gr_GroupID (add_member uid gs gid) = map gr_GroupID gs"
  by (auto simp: add_member_def map_update split: option.split)
    (metis list_update_id map_update)

lemma add_group_ids [simp]: "map us_UserID (add_group gid us uid) = map us_UserID us"
  by (auto simp: add_group_def map_update split: option.split)
    (metis list_update_id map_update)

lemma update_keeps:
  assumes "\<exists>x \<in> set xs. P x" and "i < length xs" and "P (xs ! i) \<Longrightarrow> P y"
  shows "\<exists>x \<in> set (xs[i := y]). P x"
proof -
  from assms(1) obtain j where j: "j < length xs" "P (xs ! j)" by (metis in_set_conv_nth)
  have "P (xs[i := y] ! j)" using j assms(3) by (cases "j = i") auto
  with j show ?thesis by (metis length_list_update nth_mem)
qed

lemma add_member_keeps:
  assumes "is_member gs gid uid" and "TrimSpace uid = uid" and "uid \<noteq> []"
  shows "is_member (add_member v gs g) gid uid"
proof (cases "last_index gr_GroupID g gs")
  case (Some i)
  then have i: "i < length gs" by (auto dest: last_index_Some)
  with assms show ?thesis unfolding is_member_def add_member_def Some option.case
    by (intro update_keeps) (auto intro: in_dedupeStrings)
qed (use assms in \<open>simp add: add_member_def\<close>)

lemma add_member_adds:
  assumes "gid \<in> gr_GroupID ` set gs" and "TrimSpace uid = uid" and "uid \<noteq> []"
  shows "is_member (add_member uid gs gid) gid uid"
proof (cases "last_index gr_GroupID gid gs")
  case None
  with assms(1) show ?thesis by (simp add: last_index_None)
next
  case (Some i)
  then have i: "i < length gs" "gr_GroupID (gs ! i) = gid" by (auto dest: last_index_Some)
  with Some assms(2,3) show ?thesis unfolding is_member_def
    by (intro bexI [of _ "(gs ! i)\<lparr>gr_Members := dedupeStrings (gr_Members (gs ! i) @ [uid])\<rparr>"])
       (auto simp: add_member_def set_dedupeStrings set_update_memI)
qed

lemma add_group_keeps:
  assumes "has_group us uid gid" and "TrimSpace gid = gid" and "gid \<noteq> []"
  shows "has_group (add_group g us v) uid gid"
proof (cases "last_index us_UserID v us")
  case (Some i)
  then have i: "i < length us" by (auto dest: last_index_Some)
  with assms show ?thesis unfolding has_group_def add_group_def Some option.case
    by (intro update_keeps) (auto intro: in_dedupeStrings)
qed (use assms in \<open>simp add: add_group_def\<close>)

lemma foldl_invariant: "P s \<Longrightarrow> (\<And>s x. P s \<Longrightarrow> P (f s x)) \<Longrightarrow> P (foldl f s xs)"
  by (induction xs arbitrary: s) auto

lemma foldl_reaches:
  assumes "x \<in> set xs" and "\<And>s x. P s \<Longrightarrow> P (f s x)" and "\<And>s x. I s \<Longrightarrow> I (f s x)" and "I s" and "\<And>s. I s \<Longrightarrow> P (f s x)"
  shows "P (foldl f s xs)"
  using assms(1,4)
proof (induction xs arbitrary: s)
  case (Cons y ys)
  show ?case
  proof (cases "x = y")
    case True
    with Cons.prems assms(2,5) show ?thesis by (auto intro!: foldl_invariant [where P = P])
  next
    case False
    with Cons assms(3) show ?thesis by auto
  qed
qed simp

lemma sync_group_ids [simp]:
  "map gr_GroupID (snd (syncGroupMemberships users groups)) = map gr_GroupID groups"
proof -
  let ?I = "\<lambda>gs. map gr_GroupID gs = map gr_GroupID groups"
  have "?I (foldl (add_member uid) gs gids)" if "?I gs" for uid gs gids
    by (rule foldl_invariant [where P = ?I]) (simp_all add: that)
  then have "?I (foldl (\<lambda>gs u. foldl (add_member (us_UserID u)) gs (us_Groups u)) groups users)"
    by (intro foldl_invariant [where P = ?I]) simp_all
  then show ?thesis by (simp add: syncGroupMemberships_def Let_def)
qed

lemma sync_user_ids [simp]: "map us_UserID (fst (syncGroupMemberships users groups)) = map us_UserID users"
proof -
  let ?I = "\<lambda>us. map us_UserID us = map us_UserID users"
  have "?I (foldl (add_group gid) us uids)" if "?I us" for gid us uids
    by (rule foldl_invariant [where P = ?I]) (simp_all add: that)
  then have "?I (foldl (\<lambda>us g. foldl (add_group (gr_GroupID g)) us (gr_Members g)) users gs)" for gs
    by (intro foldl_invariant [where P = ?I]) simp_all
  then show ?thesis by (simp add: syncGroupMemberships_def Let_def)
qed

lemma sync_adds_member:
  assumes "has_group users uid gid" and "gid \<in> gr_GroupID ` set groups" and "TrimSpace uid = uid" and "uid \<noteq> []"
  shows "is_member (snd (syncGroupMemberships users groups)) gid uid"
proof -
  let ?P = "\<lambda>gs. is_member gs gid uid" and ?I = "\<lambda>gs. map gr_GroupID gs = map gr_GroupID groups"
  from assms(1) obtain u where u: "u \<in> set users" "us_UserID u = uid" "gid \<in> set (us_Groups u)"
    by (auto simp: has_group_def)
  have keep: "?P s \<Longrightarrow> ?P (foldl (add_member v) s gids)" for s v gids
    by (erule foldl_invariant [where P = ?P]) (rule add_member_keeps [OF _ assms(3,4)])
  have ids: "?I s \<Longrightarrow> ?I (foldl (add_member v) s gids)" for s v gids
    by (erule foldl_invariant [where P = ?I]) simp
  have "?P (add_member uid s gid)" if "?I s" for s
    using that assms(2-4) by (intro add_member_adds) (metis image_set)
  then have "?P (foldl (add_member (us_UserID u)) s (us_Groups u))" if "?I s" for s
    using u that add_member_keeps [OF _ assms(3,4)] by (intro foldl_reaches [where I = ?I and P = ?P and x = gid]) auto
  with u(1) keep ids have "?P (foldl (\<lambda>gs u. foldl (add_member (us_UserID u)) gs (us_Groups u)) groups users)"
    by (intro foldl_reaches [where I = ?I and P = ?P and x = u]) auto
  then show ?thesis by (simp add: syncGroupMemberships_def Let_def)
qed

lemma sync_keeps_group:
  assumes "has_group users uid gid" and "TrimSpace gid = gid" and "gid \<noteq> []"
  shows "has_group (fst (syncGroupMemberships users groups)) uid gid"
proof -
  let ?P = "\<lambda>us. has_group us uid gid"
  have "?P (foldl (add_group g) s uids)" if "?P s" for s g uids
    using that by (rule foldl_invariant [where P = ?P]) (rule add_group_keeps [OF _ assms(2,3)])
  with assms(1) show ?thesis unfolding syncGroupMemberships_def Let_def fst_conv
    by (rule foldl_invariant [where P = ?P])
qed

section \<open>The normal form of a configuration\<close>

definition user_ok :: "User \<Rightarrow> bool" where
  "user_ok u \<longleftrightarrow> TrimSpace (us_UserID u) = us_UserID u \<and> us_Roles u \<noteq> [] \<and>
     (\<forall>g \<in> set (us_Groups u). TrimSpace g = g \<and> g \<noteq> [])"

definition directory_ok :: "AccessConfig \<Rightarrow> bool" where
  "directory_ok cfg \<longleftrightarrow>
     ordered us_UserID (ac_Users cfg) \<and> ordered gr_GroupID (ac_Groups cfg) \<and> ordered ap_ID (ac_AuthProviders cfg) \<and>
     ordered pe_ID (ac_People cfg) \<and> ordered ch_ID (ac_Channels cfg) \<and> keyed ro_ID (ac_Roles cfg) \<and>
     ro_ID ` set defaultRoles \<subseteq> ro_ID ` set (ac_Roles cfg) \<and> (\<forall>u \<in> set (ac_Users cfg). user_ok u) \<and>
     (\<forall>g \<in> set (ac_Groups cfg). TrimSpace (gr_GroupID g) = gr_GroupID g)"

lemma normalizeUser_ok: "user_ok (normalizeUser u now)"
  by (auto simp: user_ok_def normalizeUser_def Let_def acc_firstNonEmpty_trimmed set_dedupeStrings simp del: acc_firstNonEmpty.simps)

lemma list_all_update: "(\<forall>x \<in> set xs. P x) \<Longrightarrow> P y \<Longrightarrow> \<forall>x \<in> set (xs[i := y]). P x"
  by (metis set_update_subset_insert insert_iff subsetD)

lemma add_group_ok:
  assumes "\<forall>u \<in> set us. user_ok u"
  shows "\<forall>u \<in> set (add_group gid us uid). user_ok u"
proof (cases "last_index us_UserID uid us")
  case (Some i)
  then have "user_ok (us ! i)" using assms by (auto dest: last_index_Some)
  then have "user_ok ((us ! i)\<lparr>us_Groups := dedupeStrings (us_Groups (us ! i) @ [gid])\<rparr>)"
    by (auto simp: user_ok_def set_dedupeStrings)
  with assms show ?thesis unfolding add_group_def Some option.case by (rule list_all_update)
qed (use assms in \<open>simp add: add_group_def\<close>)

lemma sync_users_ok:
  assumes "\<forall>u \<in> set users. user_ok u"
  shows "\<forall>u \<in> set (fst (syncGroupMemberships users groups)). user_ok u"
proof -
  let ?P = "\<lambda>us. \<forall>u \<in> set us. user_ok u"
  have "?P (foldl (add_group g) s uids)" if "?P s" for s g uids
    using that by (rule foldl_invariant [where P = ?P]) (rule add_group_ok)
  with assms show ?thesis unfolding syncGroupMemberships_def Let_def fst_conv
    by (rule foldl_invariant [where P = ?P])
qed

lemma normalizeConfig_fields:
  "ac_Users (acc_normalizeConfig now cfg) = dedupeUsers (slice_stable (\<lambda>a b. us_UserID a < us_UserID b)
     (fst (syncGroupMemberships (map (\<lambda>u. normalizeUser u now) (ac_Users cfg)) (map (\<lambda>g. normalizeGroup g now) (ac_Groups cfg)))))"
  "ac_Groups (acc_normalizeConfig now cfg) = dedupeGroups (slice_stable (\<lambda>a b. gr_GroupID a < gr_GroupID b)
     (snd (syncGroupMemberships (map (\<lambda>u. normalizeUser u now) (ac_Users cfg)) (map (\<lambda>g. normalizeGroup g now) (ac_Groups cfg)))))"
  "ac_Roles (acc_normalizeConfig now cfg) = slice_stable (\<lambda>a b. ro_ID a < ro_ID b) (dedupeRoles (map normalizeRole (ac_Roles cfg @ defaultRoles)))"
  by (simp_all add: acc_normalizeConfig_def Let_def split: prod.split)

lemma default_ids: "ro_ID ` set defaultRoles \<subseteq> (ro_ID \<circ> normalizeRole) ` set defaultRoles" "[] \<notin> ro_ID ` set defaultRoles"
  "keyed ro_ID defaultRoles"
proof -
  have "map (ro_ID \<circ> normalizeRole) defaultRoles = map ro_ID defaultRoles"
    unfolding defaultRoles_def normalizeRole_def by simp code_simp
  then show "ro_ID ` set defaultRoles \<subseteq> (ro_ID \<circ> normalizeRole) ` set defaultRoles" by (metis image_set order_refl)
  show "[] \<notin> ro_ID ` set defaultRoles" "keyed ro_ID defaultRoles" by (simp_all add: defaultRoles_def keyed_def)
qed

lemma normalizeConfig_ok: "directory_ok (acc_normalizeConfig now cfg)"
proof -
  let ?c = "acc_normalizeConfig now cfg"
  have ord: "ordered us_UserID (ac_Users ?c)" "ordered gr_GroupID (ac_Groups ?c)" "ordered ap_ID (ac_AuthProviders ?c)"
    "ordered pe_ID (ac_People ?c)" "ordered ch_ID (ac_Channels ?c)"
    by (simp_all add: acc_normalizeConfig_def Let_def ordered_normal dedupeUsers_def dedupeGroups_def dedupeProviders_def
        dedupePeople_def dedupeChannels_def split: prod.split)
  have roles: "keyed ro_ID (ac_Roles ?c)"
    by (simp add: normalizeConfig_fields dedupeRoles_def keyed_slice_stable keyed_dedupe_by)
  have "ro_ID ` set (ac_Roles ?c) = ro_ID ` normalizeRole ` set (ac_Roles cfg @ defaultRoles) - {[]}"
    by (simp add: normalizeConfig_fields dedupeRoles_def keys_dedupe_by image_Un)
  with default_ids have defaults: "ro_ID ` set defaultRoles \<subseteq> ro_ID ` set (ac_Roles ?c)" by (auto simp: image_comp) (metis imageI)
  have users: "\<forall>u \<in> set (ac_Users ?c). user_ok u"
    using sync_users_ok [of "map (\<lambda>u. normalizeUser u now) (ac_Users cfg)"] normalizeUser_ok
      set_dedupe_by [of us_UserID "[]"] by (fastforce simp: normalizeConfig_fields dedupeUsers_def)
  have "gr_GroupID ` set (ac_Groups ?c) \<subseteq> gr_GroupID ` set (map (\<lambda>g. normalizeGroup g now) (ac_Groups cfg))"
    unfolding normalizeConfig_fields dedupeGroups_def keys_dedupe_by set_slice_stable
    by (metis Diff_subset image_set sync_group_ids)
  then have groups: "\<forall>g \<in> set (ac_Groups ?c). TrimSpace (gr_GroupID g) = gr_GroupID g"
    by (fastforce simp: normalizeGroup_def Let_def acc_firstNonEmpty_trimmed simp del: acc_firstNonEmpty.simps)
  show ?thesis unfolding directory_ok_def using ord roles defaults users groups by blast
qed

section \<open>The configuration along a run\<close>

text \<open>An operation leaves configuration and policies alone, or stores a normal form (or the default)
  with its policies.\<close>

definition config_part :: "AccessManager \<Rightarrow> AccessConfig \<times> (string \<times> string) list option" where
  "config_part m = (am_config m, am_enforcer m)"

definition store_step :: "access_env \<Rightarrow> AccessManager \<Rightarrow> AccessManager \<Rightarrow> bool" where
  "store_step env m m' \<longleftrightarrow> config_part m' = config_part m \<or>
     directory_ok (am_config m') \<and> am_enforcer m' = buildPermissionEnforcer env (am_config m')"

lemma store_step_refl [simp]: "store_step env m m"
  by (simp add: store_step_def)

lemma store_step_trans: "store_step env m m1 \<Longrightarrow> config_part m' = config_part m1 \<Longrightarrow> store_step env m m'"
  by (auto simp: store_step_def config_part_def)

lemma default_ok: "directory_ok acc_DefaultConfig"
  using default_ids by (auto simp: directory_ok_def acc_DefaultConfig_def ordered_def)

lemma store_step_Save [simp]: "store_step env m (snd (acc_Save env now content m))"
  by (auto simp: acc_Save_def acc_ParseConfig_def store_step_def config_part_def Let_def normalizeConfig_ok split: sum.splits option.splits)

lemma store_step_SaveConfig [simp]: "store_step env m (snd (acc_SaveConfig env now cfg m))"
  by (cases "TrimSpace (am_path m) = []")
     (simp_all add: acc_SaveConfig_def Let_def split: sum.split, simp add: store_step_def normalizeConfig_ok)

lemma store_step_save_item [simp]: "store_step env m (snd (save_item env now cfg item m))"
  using store_step_SaveConfig [of env m now "acc_normalizeConfig now cfg"]
  by (cases "acc_SaveConfig env now (acc_normalizeConfig now cfg) m") (simp add: save_item_def split: option.split)

lemma store_step_UpsertUser [simp]: "store_step env m (snd (UpsertUser env now u m))"
  by (simp add: UpsertUser_def Let_def split: prod.split)

lemma store_step_change_bindings [simp]: "store_step env m (snd (change_bindings env now rid f g m))"
  by (simp add: change_bindings_def Let_def)

lemma store_step_directory: "op \<noteq> DReload \<Longrightarrow> store_step env m (directory_exec env now op m)"
  by (cases op)
     (simp_all add: UpsertGroup_def UpsertAuthProvider_def UpsertPerson_def UpsertChannel_def UpsertRole_def
       SetUserStatus_def SetGroupStatus_def SetAuthProviderEnabled_def SetPersonStatus_def SetChannelEnabled_def
       BindRole_def UnbindRole_def SetRoleBindings_def Let_def split: prod.split option.split,
      simp add: acc_SetPersistence_def store_step_def config_part_def)

lemma Reload_ok: "directory_ok (am_config m) \<Longrightarrow> directory_ok (am_config (snd (acc_Reload env now m)))"
  by (auto simp: acc_Reload_def acc_ParseConfig_def Let_def default_ok normalizeConfig_ok split: sum.splits)

lemma config_cleanup [simp]: "config_part (cleanupExpiredAuthState now m) = config_part m"
  by (simp add: config_part_def cleanupExpiredAuthState_def)

lemma config_issueSession: "issueSession env now rd u p ttl m = (s, m') \<Longrightarrow> config_part m' = config_part m"
  by (drule issueSessionE(1)) (simp add: config_part_def)

lemma config_update [simp]:
  "config_part (m\<lparr>am_pendingAuth := x\<rparr>) = config_part m" "config_part (m\<lparr>am_challenges := y\<rparr>) = config_part m"
  "config_part (m\<lparr>am_sessions := z\<rparr>) = config_part m" "config_part (m\<lparr>am_oauthStates := w\<rparr>) = config_part m"
  by (simp_all add: config_part_def)

lemma config_storePendingFlow: "storePendingFlow now rd f m = (f', m') \<Longrightarrow> config_part m' = config_part m"
  by (drule storePendingFlowE(1)) simp

lemma config_issueChallenge: "issueChallenge now rd k t p u m = (r, m') \<Longrightarrow> config_part m' = config_part m"
  by (erule issueChallengeE) simp_all

lemma config_consumeChallenge: "consumeChallenge now t cid code m = (r, m') \<Longrightarrow> config_part m' = config_part m"
  by (erule consumeChallengeE) simp_all

lemma config_completePendingFlow: "completePendingFlow env now rd f m = (s, m') \<Longrightarrow> config_part m' = config_part m"
  by (auto simp: completePendingFlow_def Let_def split: prod.splits dest: config_issueSession)

lemma config_pendingFlowContext: "pendingFlowContext now t m = (r, m') \<Longrightarrow> config_part m' = config_part m"
  by (metis pendingFlowContext_frame config_cleanup snd_conv)

lemmas config_parts = config_issueSession config_completePendingFlow config_storePendingFlow config_issueChallenge
  config_consumeChallenge config_pendingFlowContext

lemma config_LoginWithLocalPassword:
  "LoginWithLocalPassword env now rd pid name pw m = (r, m') \<Longrightarrow> config_part m' = config_part m"
  by (auto simp: LoginWithLocalPassword_def Let_def dest!: config_parts split: if_splits option.splits prod.splits sum.splits)

lemma config_StartChallenge: "StartChallenge now rd t m = (r, m') \<Longrightarrow> config_part m' = config_part m"
  by (auto simp: StartChallenge_def Let_def dest!: config_parts split: if_splits prod.splits sum.splits)

lemma config_VerifyChallenge: "VerifyChallenge env now rd t cid code m = (r, m') \<Longrightarrow> config_part m' = config_part m"
  by (auto simp: VerifyChallenge_def Let_def dest!: config_parts split: if_splits prod.splits sum.splits)

lemma config_VerifyMFA: "VerifyMFA env now rd t code m = (r, m') \<Longrightarrow> config_part m' = config_part m"
  by (auto simp: VerifyMFA_def Let_def dest!: config_parts split: if_splits prod.splits sum.splits)

lemma config_AuthenticateSession: "AuthenticateSession env now t m = (r, m') \<Longrightarrow> config_part m' = config_part m"
  by (erule AuthenticateSessionE) simp_all

lemma config_StartOAuthLogin: "StartOAuthLogin env now rd pid base m = (r, m') \<Longrightarrow> config_part m' = config_part m"
  by (auto simp: StartOAuthLogin_def split: if_splits option.splits sum.splits)

lemma store_step_resolveOAuthUser: "store_step env m (snd (resolveOAuthUser env now p profile m))"
  by (simp add: resolveOAuthUser_def Let_def split: option.split)

lemma store_step_same: "config_part m' = config_part m \<Longrightarrow> store_step env m m'"
  by (simp add: store_step_def)

lemma store_step_UpsertUserD: "UpsertUser env now u m = (r, m') \<Longrightarrow> store_step env m m'"
  by (metis store_step_UpsertUser snd_conv)

lemma store_step_LoginWithLocalToken:
  "LoginWithLocalToken env now rd t fb m = (r, m') \<Longrightarrow> store_step env m m'"
  by (auto simp: LoginWithLocalToken_def Let_def split: if_splits option.splits prod.splits sum.splits
      dest!: config_issueSession store_step_UpsertUserD intro: store_step_trans store_step_same)

lemma store_step_CompleteOAuthCallback:
  assumes "CompleteOAuthCallback env now rd pid base state code m = (r, m')"
  shows "store_step env m m'"
proof -
  let ?m = "m\<lparr>am_oauthStates := (am_oauthStates m)(state := None)\<rparr>"
  have start: "store_step env m x" if "store_step env ?m x" for x using that by (simp add: store_step_def)
  show ?thesis using assms
  proof (cases rule: CompleteOAuthCallbackE)
    case (unresolved err p profile)
    then show ?thesis using store_step_resolveOAuthUser [of env ?m now p profile] by (intro start) simp
  next
    case (finished s u p profile stored m1)
    then have "store_step env ?m m1" using store_step_resolveOAuthUser [of env ?m now p profile] by simp
    then show ?thesis using config_issueSession [OF finished(6)] by (intro start) (rule store_step_trans)
  qed (simp_all add: store_step_same)
qed

lemma access_exec_store:
  assumes "access_exec env now rd op m = (res, m')" and "op \<noteq> Directory DReload"
  shows "store_step env m m'"
  using assms
proof (cases op)
  case (Directory d)
  with assms show ?thesis by (auto intro: store_step_directory)
qed (auto simp: Logout_def intro: store_step_same store_step_LoginWithLocalToken store_step_CompleteOAuthCallback
      dest!: config_LoginWithLocalPassword config_StartChallenge config_VerifyChallenge config_VerifyMFA
        config_AuthenticateSession config_StartOAuthLogin)

lemma NewManager_store:
  assumes "acc_NewManager env now key path = Inr m"
  shows "directory_ok (am_config m) \<and> am_enforcer m = buildPermissionEnforcer env (am_config m)"
proof -
  have reload: "directory_ok (am_config m) \<and> am_enforcer m = buildPermissionEnforcer env (am_config m)"
    if "acc_Reload env now (blank_manager path) = (None, m)" "TrimSpace path \<noteq> []"
    using that by (auto simp: acc_Reload_def acc_ParseConfig_def blank_manager_def Let_def default_ok normalizeConfig_ok
        split: sum.splits if_splits)
  from assms reload default_ok show ?thesis
    by (auto simp: acc_NewManager_def Let_def blank_manager_def split: option.splits if_splits prod.splits)
qed

lemma run_directory_ok: "access_run env tr m \<Longrightarrow> directory_ok (am_config m)"
proof (induction rule: access_run.induct)
  case (start now key path m)
  then show ?case using NewManager_store [OF start] by simp
next
  case (step tr m now rd op res m')
  show ?case
  proof (cases "op = Directory DReload")
    case True
    with step show ?thesis by (auto intro: Reload_ok)
  next
    case False
    with access_exec_store [OF step.hyps(2)] step.IH show ?thesis by (auto simp: store_step_def config_part_def)
  qed
qed

lemma run_enforcer:
  assumes "access_run env tr m" and "\<forall>e \<in> set tr. ev_op e \<noteq> Directory DReload"
  shows "am_enforcer m = buildPermissionEnforcer env (am_config m)"
  using assms
proof (induction rule: access_run.induct)
  case (start now key path m)
  then show ?case using NewManager_store [OF start(1)] by simp
next
  case (step tr m now rd op res m')
  then have "op \<noteq> Directory DReload" by simp
  with access_exec_store [OF step.hyps(2)] step show ?case by (auto simp: store_step_def config_part_def)
qed

section \<open>Normalising keeps memberships\<close>

definition clean :: "AccessConfig \<Rightarrow> bool" where
  "clean c \<longleftrightarrow> keyed us_UserID (ac_Users c) \<and> keyed gr_GroupID (ac_Groups c) \<and> (\<forall>u \<in> set (ac_Users c). user_ok u) \<and>
     (\<forall>g \<in> set (ac_Groups c). TrimSpace (gr_GroupID g) = gr_GroupID g)"

lemma directory_clean: "directory_ok c \<Longrightarrow> clean c"
  by (auto simp: directory_ok_def clean_def ordered_keyed)

lemma normalizeUser_id: "TrimSpace (us_UserID u) = us_UserID u \<Longrightarrow> us_UserID u \<noteq> [] \<Longrightarrow> us_UserID (normalizeUser u now) = us_UserID u"
  by (simp add: normalizeUser_def Let_def)

lemma normalizeGroup_id: "TrimSpace (gr_GroupID g) = gr_GroupID g \<Longrightarrow> gr_GroupID g \<noteq> [] \<Longrightarrow> gr_GroupID (normalizeGroup g now) = gr_GroupID g"
  by (simp add: normalizeGroup_def Let_def)

lemma set_dedupe_sorted: "keyed key xs \<Longrightarrow> set (dedupe_by key [] (slice_stable lt xs)) = set xs"
  by (simp add: dedupe_by_keyed keyed_slice_stable)

lemma normalize_keeps_group:
  assumes c: "clean c" and member: "has_group (ac_Users c) uid gid" and gid: "gid \<in> gr_GroupID ` set (ac_Groups c)"
  shows "has_group (ac_Users (acc_normalizeConfig now c)) uid gid" and "is_member (ac_Groups (acc_normalizeConfig now c)) gid uid"
    and "gid \<in> gr_GroupID ` set (ac_Groups (acc_normalizeConfig now c))"
proof -
  let ?us = "map (\<lambda>u. normalizeUser u now) (ac_Users c)" and ?gs = "map (\<lambda>g. normalizeGroup g now) (ac_Groups c)"
  have uids: "map us_UserID ?us = map us_UserID (ac_Users c)"
    using c by (auto simp: clean_def keyed_def user_ok_def intro!: normalizeUser_id) (metis imageI)
  have gids: "map gr_GroupID ?gs = map gr_GroupID (ac_Groups c)"
    using c by (auto simp: clean_def keyed_def intro!: normalizeGroup_id) (metis imageI)
  from member obtain u where u: "u \<in> set (ac_Users c)" "us_UserID u = uid" "gid \<in> set (us_Groups u)" by (auto simp: has_group_def)
  with c have trim: "TrimSpace uid = uid" "uid \<noteq> []" "TrimSpace gid = gid" "gid \<noteq> []"
    by (auto simp: clean_def user_ok_def keyed_def) (metis imageI)
  have "gid \<in> set (us_Groups (normalizeUser u now))"
    using u trim by (auto simp: normalizeUser_def Let_def intro: in_dedupeStrings)
  moreover have "us_UserID (normalizeUser u now) = uid" using u trim by (simp add: normalizeUser_id)
  ultimately have has: "has_group ?us uid gid" using u(1) by (auto simp: has_group_def)
  have gin: "gid \<in> gr_GroupID ` set ?gs" using gid gids by (metis image_set)
  let ?sync = "syncGroupMemberships ?us ?gs"
  have keyed_us: "keyed us_UserID (fst ?sync)"
    using c uids sync_user_ids [of ?us ?gs] unfolding clean_def keyed_def by (metis image_set)
  have keyed_gs: "keyed gr_GroupID (snd ?sync)"
    using c gids sync_group_ids [of ?us ?gs] unfolding clean_def keyed_def by (metis image_set)
  have users: "set (ac_Users (acc_normalizeConfig now c)) = set (fst ?sync)"
    by (simp add: normalizeConfig_fields dedupeUsers_def set_dedupe_sorted keyed_us)
  have groups: "set (ac_Groups (acc_normalizeConfig now c)) = set (snd ?sync)"
    by (simp add: normalizeConfig_fields dedupeGroups_def set_dedupe_sorted keyed_gs)
  show "has_group (ac_Users (acc_normalizeConfig now c)) uid gid"
    using sync_keeps_group [OF has trim(3,4)] users by (simp add: has_group_def)
  show "is_member (ac_Groups (acc_normalizeConfig now c)) gid uid"
    using sync_adds_member [OF has gin trim(1,2)] groups by (simp add: is_member_def)
  then show "gid \<in> gr_GroupID ` set (ac_Groups (acc_normalizeConfig now c))" by (auto simp: is_member_def)
qed

lemma upsert_group_clean:
  assumes c: "clean c" and g: "TrimSpace (gr_GroupID g) = gr_GroupID g" "gr_GroupID g \<noteq> []"
    and up: "upsert_item gr_GroupID (\<lambda>old new. new\<lparr>gr_CreatedAt := gr_CreatedAt old\<rparr>) g (ac_Groups c) = (g', gs)"
  shows "clean (c\<lparr>ac_Groups := gs\<rparr>)" and "gr_GroupID g \<in> gr_GroupID ` set gs" and "gr_GroupID g' = gr_GroupID g"
proof -
  let ?merge = "\<lambda>old new. new\<lparr>gr_CreatedAt := gr_CreatedAt (old :: Group)\<rparr> :: Group"
  have map_ids: "map gr_GroupID gs = (if gr_GroupID g \<in> gr_GroupID ` set (ac_Groups c) then map gr_GroupID (ac_Groups c)
      else map gr_GroupID (ac_Groups c) @ [gr_GroupID g])"
    using map_upsert_item [of gr_GroupID ?merge g "ac_Groups c"] up by simp
  have "keyed gr_GroupID gs"
    using keyed_upsert_item [of gr_GroupID "ac_Groups c" ?merge g] c g(2) up by (simp add: clean_def)
  moreover have ids: "gr_GroupID ` set gs = insert (gr_GroupID g) (gr_GroupID ` set (ac_Groups c))"
    using map_ids by (metis (no_types) image_set insert_absorb list.set(1) list.simps(15) set_append Un_insert_right sup_bot_right)
  moreover from this have "TrimSpace (gr_GroupID x) = gr_GroupID x" if "x \<in> set gs" for x
  proof -
    from that ids have "gr_GroupID x \<in> insert (gr_GroupID g) (gr_GroupID ` set (ac_Groups c))" by blast
    with c g(1) show ?thesis by (auto simp: clean_def)
  qed
  ultimately show "clean (c\<lparr>ac_Groups := gs\<rparr>)" "gr_GroupID g \<in> gr_GroupID ` set gs" using c by (auto simp: clean_def)
  show "gr_GroupID g' = gr_GroupID g" using upsert_item_key [of gr_GroupID ?merge g "ac_Groups c"] up by simp
qed

end
