(* ===== verification/Access_Decision.thy ===== *)
theory Access_Decision
  imports Access_Laws
begin

text \<open>
  The decision on a permission.  \<^verbatim>\<open>Evaluate\<close> looks the permission up in the set of the principal, then asks
  the policies of the Casbin enforcer with dots turned into slashes, or walks over the prefixes of
  the permission when there is no enforcer.  \<open>grants\<close> says directly which permission of a role covers
  which request.
\<close>

section \<open>Permissions that cover a request\<close>

definition name_chars :: string where
  "name_chars = ''abcdefghijklmnopqrstuvwxyz0123456789_''"

definition plain_name :: "string \<Rightarrow> bool" where
  "plain_name s \<longleftrightarrow> s \<noteq> [] \<and> TrimSpace s = s \<and> set s \<subseteq> insert (CHR ''.'') (set name_chars)"

definition simple_permission :: "string \<Rightarrow> bool" where
  "simple_permission p \<longleftrightarrow> p = ''*'' \<or> plain_name p \<or>
     TrimSpace p = p \<and> HasSuffix p ''.*'' \<and> TrimSuffix p ''.*'' \<noteq> [] \<and> set (TrimSuffix p ''.*'') \<subseteq> set name_chars"

definition grants :: "string \<Rightarrow> string \<Rightarrow> bool" where
  "grants p request \<longleftrightarrow> p = ''*'' \<or> p = request \<or> HasSuffix p ''.*'' \<and> HasPrefix request (TrimSuffix p ''.*'' @ ''.'')"

text \<open>What is relied on of \<^verbatim>\<open>keyMatch2\<close>: a path without special characters matches itself, and a pattern
  that ends with \<^verbatim>\<open>/*\<close> matches the paths below it.\<close>

definition path_chars :: "char set" where
  "path_chars = insert (CHR ''/'') (set name_chars)"

definition keymatch_law :: "(string \<Rightarrow> string \<Rightarrow> bool) \<Rightarrow> bool" where
  "keymatch_law km \<longleftrightarrow>
     (\<forall>obj pat. set obj \<subseteq> path_chars \<longrightarrow> set pat \<subseteq> path_chars \<longrightarrow> km obj pat = (obj = pat) \<and>
        km obj (pat @ ''/*'') = HasPrefix obj (pat @ ''/''))"

section \<open>Both ways to decide agree with it\<close>

definition slashes :: "string \<Rightarrow> string" where
  "slashes s = map (\<lambda>c. if c = CHR ''.'' then CHR ''/'' else c) s"

lemma replace_dots: "ReplaceAll s ''.'' ''/'' = slashes s"
proof -
  have "replace_scan ''.'' ''/'' s = slashes s" by (induction s) (auto simp: slashes_def)
  then show ?thesis by (simp add: ReplaceAll_def)
qed

lemma name_chars_special: "CHR ''.'' \<notin> set name_chars" "CHR ''/'' \<notin> set name_chars" "CHR ''*'' \<notin> set name_chars"
  by (simp_all add: name_chars_def)

lemma plain_name_special: "plain_name s \<Longrightarrow> CHR ''*'' \<notin> set s" "plain_name s \<Longrightarrow> CHR ''/'' \<notin> set s"
  using name_chars_special by (auto simp: plain_name_def)

lemma slashes_path: "plain_name s \<Longrightarrow> set (slashes s) \<subseteq> path_chars"
  by (auto simp: slashes_def plain_name_def path_chars_def)

lemma no_star_suffix: "CHR ''*'' \<notin> set s \<Longrightarrow> \<not> HasSuffix s (q @ ''*'')"
  by (auto simp: suffix_def)

lemma pattern_plain: "plain_name s \<Longrightarrow> normalizePermissionPattern s = slashes s"
  using no_star_suffix [of s "''.''"] plain_name_special(1) [of s]
  by (auto simp: normalizePermissionPattern_def plain_name_def replace_dots)

lemma slashes_inj: "CHR ''/'' \<notin> set s \<Longrightarrow> CHR ''/'' \<notin> set t \<Longrightarrow> slashes s = slashes t \<longleftrightarrow> s = t"
proof (induction s arbitrary: t)
  case (Cons c s)
  then show ?case by (cases t) (auto simp: slashes_def split: if_splits)
qed (auto simp: slashes_def)

lemma slashes_prefix:
  assumes "set q \<subseteq> set name_chars" and "CHR ''/'' \<notin> set s"
  shows "HasPrefix (slashes s) (q @ ''/'') \<longleftrightarrow> HasPrefix s (q @ ''.'')"
  using assms
proof (induction q arbitrary: s)
  case Nil
  then show ?case by (cases s) (auto simp: slashes_def)
next
  case (Cons c q)
  then show ?case using name_chars_special by (cases s) (auto simp: slashes_def)
qed

lemma wildcard_cases:
  assumes "simple_permission p" and "p \<noteq> ''*''" and "\<not> plain_name p"
  obtains q where "p = q @ ''.*''" "q \<noteq> []" "set q \<subseteq> set name_chars" "TrimSpace p = p" "TrimSuffix p ''.*'' = q"
proof -
  from assms have s: "TrimSpace p = p" "HasSuffix p ''.*''" "TrimSuffix p ''.*'' \<noteq> []" "set (TrimSuffix p ''.*'') \<subseteq> set name_chars"
    by (auto simp: simple_permission_def)
  from s(2) obtain q where q: "p = q @ ''.*''" by (auto simp: suffix_def)
  then have "TrimSuffix p ''.*'' = q" by (simp add: TrimSuffix_def suffix_def)
  with s q that show ?thesis by metis
qed

lemma enforcer_grants:
  assumes "keymatch_law km" and "simple_permission p" and "plain_name request" and "p \<noteq> ''*''"
  shows "km (slashes request) (normalizePermissionPattern p) \<longleftrightarrow> grants p request"
proof (cases "plain_name p")
  case True
  then have "\<not> HasSuffix p ''.*''" using no_star_suffix [of p "''.''"] plain_name_special by simp
  moreover have "km (slashes request) (slashes p) \<longleftrightarrow> slashes request = slashes p"
    using assms(1) slashes_path [OF assms(3)] slashes_path [OF True] by (auto simp: keymatch_law_def)
  ultimately show ?thesis
    using True assms(3,4) by (auto simp: pattern_plain grants_def slashes_inj plain_name_special)
next
  case False
  then obtain q where q: "p = q @ ''.*''" "q \<noteq> []" "set q \<subseteq> set name_chars" "TrimSpace p = p" "TrimSuffix p ''.*'' = q"
    using wildcard_cases [OF assms(2,4)] by blast
  then have "normalizePermissionPattern p = q @ ''/*''"
    by (simp add: normalizePermissionPattern_def suffix_def)
  moreover have "km (slashes request) (q @ ''/*'') \<longleftrightarrow> HasPrefix (slashes request) (q @ ''/'')"
    using assms(1) slashes_path [OF assms(3)] q(3) by (auto simp: keymatch_law_def path_chars_def)
  moreover have "p \<noteq> request" using plain_name_special(1) [OF assms(3)] q(1) by auto
  ultimately show ?thesis using q assms(3,4)
    by (auto simp: grants_def slashes_prefix plain_name_special suffix_def)
qed

lemma split_first:
  "HasPrefix s (q @ [sep]) \<and> sep \<notin> set q \<longleftrightarrow> 2 \<le> length (split_char sep s) \<and> hd (split_char sep s) = q"
proof (induction s arbitrary: q)
  case (Cons c s)
  obtain l ls where l: "split_char sep s = l # ls" by (cases "split_char sep s") auto
  show ?case
  proof (cases "c = sep")
    case True
    with l show ?thesis by (cases q) auto
  next
    case False
    with l Cons.IH [of "tl q"] show ?thesis by (cases q) auto
  qed
qed simp

lemma Join_dot: "2 \<le> i \<Longrightarrow> i \<le> length parts \<Longrightarrow> CHR ''.'' \<in> set (Join (take i parts) ''.'')"
  by (cases parts; cases "tl parts"; cases i; cases "i - 1") auto

lemma fallback_grants:
  assumes "plain_name request" and "\<forall>p \<in> P. simple_permission p"
  shows "(\<exists>i \<in> set [1..<length (split_char (CHR ''.'') request)]. Join (take i (split_char (CHR ''.'') request)) ''.'' @ ''.*'' \<in> P) \<longleftrightarrow>
    (\<exists>p \<in> P. HasSuffix p ''.*'' \<and> HasPrefix request (TrimSuffix p ''.*'' @ ''.''))"
    (is "(\<exists>i \<in> set [1..<length ?parts]. ?cand i \<in> P) \<longleftrightarrow> ?rhs")
proof
  assume "\<exists>i \<in> set [1..<length ?parts]. ?cand i \<in> P"
  then obtain i where i: "1 \<le> i" "i < length ?parts" "?cand i \<in> P" by auto
  have "simple_permission (?cand i)" "?cand i \<noteq> ''*''" "\<not> plain_name (?cand i)"
    using assms(2) i(3) by (auto dest: plain_name_special(1))
  then obtain q where q: "?cand i = q @ ''.*''" "set q \<subseteq> set name_chars" "TrimSuffix (?cand i) ''.*'' = q"
    by (rule wildcard_cases)
  then have "CHR ''.'' \<notin> set (Join (take i ?parts) ''.'')" using name_chars_special(1) by auto
  with Join_dot [of i ?parts] i have "i = 1" by (cases "2 \<le> i") auto
  then have "q = hd ?parts" using q(1) by (cases ?parts) auto
  then have "HasPrefix request (q @ ''.'')" using split_first [where s = request and q = q and sep = "CHR ''.''"] i \<open>i = 1\<close> by auto
  with q i(3) show ?rhs by (intro bexI [of _ "?cand i"]) (auto simp: suffix_def)
next
  assume ?rhs
  then obtain p where p: "p \<in> P" "HasSuffix p ''.*''" "HasPrefix request (TrimSuffix p ''.*'' @ ''.'')" by blast
  have "CHR ''*'' \<in> set p" using p(2) by (auto simp: suffix_def)
  then have "\<not> plain_name p" using plain_name_special(1) by blast
  moreover have "p \<noteq> ''*''" using p(2) by (auto simp: suffix_def)
  ultimately obtain q where q: "p = q @ ''.*''" "set q \<subseteq> set name_chars" "TrimSuffix p ''.*'' = q"
    using wildcard_cases [of p] assms(2) p(1) by blast
  with p(3) split_first [where s = request and q = q and sep = "CHR ''.''"] name_chars_special(1) have h: "2 \<le> length ?parts" "hd ?parts = q" by auto
  then have "?cand 1 = p" using q(1) by (cases ?parts) auto
  with h p(1) show "\<exists>i \<in> set [1..<length ?parts]. ?cand i \<in> P" by (intro bexI [of _ 1]) auto
qed

lemma buildPrincipal_permissions:
  "p \<in> set (pr_Permission (buildPrincipal kind t (Some u) roles groups src)) \<longleftrightarrow>
     (\<exists>role \<in> set roles. ro_ID role \<in> set (effectiveRoleIDs u groups) \<and> p \<in> set (ro_Permissions role))"
  by (auto simp: buildPrincipal_def Let_def role_permissions_def split: if_splits)

definition policies_grant :: "AccessConfig \<Rightarrow> User \<Rightarrow> string \<Rightarrow> bool" where
  "policies_grant cfg u request \<longleftrightarrow>
     (\<exists>role \<in> set (ac_Roles cfg). ro_ID role \<in> set (effectiveRoleIDs u (ac_Groups cfg)) \<and>
        (\<exists>p \<in> set (ro_Permissions role). grants p request))"

lemma Evaluate_grants:
  assumes "am_enforcer m = buildPermissionEnforcer env (am_config m)" and "keymatch_law (ae_keyMatch2 env)"
    and "\<forall>role \<in> set (ac_Roles (am_config m)). \<forall>p \<in> set (ro_Permissions role). simple_permission p"
    and "plain_name request"
    and caller: "caller = buildPrincipal kind t (Some u) (ac_Roles (am_config m)) (ac_Groups (am_config m)) src"
  shows "Evaluate env caller request m \<longleftrightarrow> policies_grant (am_config m) u request"
proof -
  let ?cfg = "am_config m"
  let ?P = "set (pr_Permission caller)"
  have P: "p \<in> ?P \<longleftrightarrow> (\<exists>role \<in> set (ac_Roles ?cfg). ro_ID role \<in> set (effectiveRoleIDs u (ac_Groups ?cfg)) \<and> p \<in> set (ro_Permissions role))" for p
    by (simp add: caller buildPrincipal_permissions)
  have spec: "policies_grant ?cfg u request \<longleftrightarrow> (\<exists>p \<in> ?P. grants p request)" using P unfolding policies_grant_def by blast
  have simple: "\<forall>p \<in> ?P. simple_permission p" using P assms(3) by blast
  have req: "TrimSpace request = request" "request \<noteq> []" using assms(4) by (auto simp: plain_name_def)
  show ?thesis
  proof (cases "''*'' \<in> ?P \<or> request \<in> ?P")
    case True
    then have "\<exists>p \<in> ?P. grants p request" by (auto simp: grants_def)
    with True req spec show ?thesis by (auto simp: Evaluate_def Let_def)
  next
    case False
    have rest: "grants p request \<longleftrightarrow> HasSuffix p ''.*'' \<and> HasPrefix request (TrimSuffix p ''.*'' @ ''.'')" if "p \<in> ?P" for p
      using that False by (auto simp: grants_def)
    show ?thesis
    proof (cases "am_enforcer m")
      case None
      with False req have "Evaluate env caller request m \<longleftrightarrow>
        (\<exists>i \<in> set [1..<length (split_char (CHR ''.'') request)]. Join (take i (split_char (CHR ''.'') request)) ''.'' @ ''.*'' \<in> ?P)"
        by (simp add: Evaluate_def Let_def)
      with fallback_grants [OF assms(4) simple] rest spec show ?thesis by blast
    next
      case (Some policies)
      with assms(1) have pol: "set policies = {(ro_ID role, normalizePermissionPattern p) |role p. role \<in> set (ac_Roles ?cfg) \<and> p \<in> set (ro_Permissions role)}"
        by (auto simp: buildPermissionEnforcer_def split: if_splits)
      have ids: "pr_RoleIDs caller = effectiveRoleIDs u (ac_Groups ?cfg)" by (simp add: caller buildPrincipal_def Let_def)
      from False req Some have "Evaluate env caller request m \<longleftrightarrow>
        (\<exists>rid \<in> set (effectiveRoleIDs u (ac_Groups ?cfg)). \<exists>q \<in> set policies. fst q = rid \<and> ae_keyMatch2 env (slashes request) (snd q))"
        by (simp add: Evaluate_def Let_def Enforce_def ids pattern_plain [OF assms(4)])
      also have "\<dots> \<longleftrightarrow> (\<exists>p \<in> ?P. ae_keyMatch2 env (slashes request) (normalizePermissionPattern p))"
      proof
        assume "\<exists>rid \<in> set (effectiveRoleIDs u (ac_Groups ?cfg)). \<exists>q \<in> set policies. fst q = rid \<and> ae_keyMatch2 env (slashes request) (snd q)"
        then show "\<exists>p \<in> ?P. ae_keyMatch2 env (slashes request) (normalizePermissionPattern p)"
          unfolding pol using P by auto
      next
        assume "\<exists>p \<in> ?P. ae_keyMatch2 env (slashes request) (normalizePermissionPattern p)"
        then obtain p role where "role \<in> set (ac_Roles ?cfg)" "ro_ID role \<in> set (effectiveRoleIDs u (ac_Groups ?cfg))"
          "p \<in> set (ro_Permissions role)" "ae_keyMatch2 env (slashes request) (normalizePermissionPattern p)" using P by blast
        then show "\<exists>rid \<in> set (effectiveRoleIDs u (ac_Groups ?cfg)). \<exists>q \<in> set policies. fst q = rid \<and> ae_keyMatch2 env (slashes request) (snd q)"
          unfolding pol by (intro bexI [of _ "ro_ID role"] bexI [of _ "(ro_ID role, normalizePermissionPattern p)"]) auto
      qed
      also have "\<dots> \<longleftrightarrow> (\<exists>p \<in> ?P. grants p request)"
        using enforcer_grants [OF assms(2) _ assms(4)] simple False by blast
      finally show ?thesis using spec by simp
    qed
  qed
qed

end
