(* ===== verification/Access_Safety.thy ===== *)
theory Access_Safety
  imports Access_Decision
begin

text \<open>
  What every run of the access manager satisfies: where accepted sessions come from, that no factor of
  a login can be skipped, how often a challenge code can be guessed, the form of the directory, who is
  granted a permission, and how memberships, the operations token and OAuth states behave.
\<close>

section \<open>Helpers\<close>

lemma find_keyed: "keyed key xs \<Longrightarrow> x \<in> set xs \<Longrightarrow> key x = k \<Longrightarrow> find (\<lambda>y. key y = k) xs = Some x"
  by (induction xs) (auto simp: keyed_def image_iff)

lemma oauth_resolveOAuthUser: "am_oauthStates (snd (resolveOAuthUser env now p profile m)) = am_oauthStates m"
  by (simp add: resolveOAuthUser_def Let_def frame_simps split: option.split)

section \<open>Second factors\<close>

lemma second_factor_code:
  assumes "flows_ok env tr (am_pendingAuth m)" and "VerifyChallenge env now rd t cid c m = (Inr r, m')" and "fr_Session r = Some s"
    and e: "ev_op e = ChallengeCode t cid c" "ev_result e = RFlow (Inr r)"
  obtains newer l older p u where "tr = newer @ l # older" "password_ok env l p u" "pending_is (fr_PendingToken r) l"
    "se_UserID s = us_UserID u" "se_ProviderID s = ap_ID p" "challenge_passed (fr_PendingToken r) e" "\<not> needs_mfa p u"
  using assms(2)
proof (cases rule: VerifyChallengeE)
  case (passed flow user provider ch m1 flow' m2)
  note f = pendingFlowContextE [OF passed(1)] and f' = storePendingFlowE [OF passed(4)]
  from assms(1) f(1) obtain newer l older p u where o: "flow_origin env tr (TrimSpace t) flow newer l older p u"
    and tok: "pa_Token flow = TrimSpace t" unfolding flows_ok_def flow_ok_def by blast
  obtain s' m3 where cp: "completePendingFlow env now (rd 1) flow' m2 = (s', m3)" by fastforce
  have "\<not> (pa_MFARequired flow' \<and> \<not> pa_MFAVerified flow')" using passed(5) assms(3) by (auto split: if_splits)
  with passed(5) cp assms(3) have "s = s'" "fr_PendingToken r = pa_Token flow'" "\<not> pa_MFARequired flow"
    using o f'(6,7) by (auto simp: flow_origin_def)
  moreover from this have "fr_PendingToken r = TrimSpace t" using f'(9) tok f(3) by simp
  ultimately show ?thesis using that [of newer l older p u] o e completePendingFlowE(3,4) [OF cp] f'(2,3)
    by (auto simp: flow_origin_def challenge_passed_def succeeded_def)
qed simp_all

lemma second_factor_mfa:
  assumes "flows_ok env tr (am_pendingAuth m)" and "VerifyMFA env now rd t c m = (Inr r, m')" and "fr_Session r = Some s"
    and e: "ev_time e = now" "ev_op e = MFACode t c" "ev_result e = RFlow (Inr r)" "ev_before e = m"
  obtains newer l older p u where "tr = newer @ l # older" "password_ok env l p u" "pending_is (fr_PendingToken r) l"
    "se_UserID s = us_UserID u" "se_ProviderID s = ap_ID p"
    "needs_challenge p u \<Longrightarrow> \<exists>e' \<in> set newer. challenge_passed (fr_PendingToken r) e'"
    "mfa_passed env (fr_PendingToken r) (us_UserID u) e"
  using assms(2)
proof (cases rule: VerifyMFAE)
  case (passed flow user provider flow' m1 s')
  note f = pendingFlowContextE [OF passed(1)] and f' = storePendingFlowE [OF passed(5)]
  from assms(1) f(1) obtain newer l older p u where o: "flow_origin env tr (TrimSpace t) flow newer l older p u"
    and tok: "pa_Token flow = TrimSpace t" unfolding flows_ok_def flow_ok_def by blast
  have r: "s = s'" "fr_PendingToken r = TrimSpace t" using passed(7) assms(3) f'(9) tok f(3) by auto
  have "mfa_passed env (fr_PendingToken r) (us_UserID u) e"
    using e r o passed(4) f(4,5) by (auto simp: mfa_passed_def succeeded_def flow_origin_def)
  then show ?thesis using that [of newer l older p u] o r passed(2) completePendingFlowE(3,4) [OF passed(6)] f'(2,3)
    by (auto simp: flow_origin_def)
qed simp_all

text \<open>C18: session provenance.  A token that \<^verbatim>\<open>AuthenticateSession\<close> accepts was issued by an operation of the
  run for the user of the principal, no logout of that token has happened since, it has not expired,
  and its user is active in the current directory; the roles of the principal are the effective
  roles of that user there.
\<close>
theorem session_provenance:
  assumes "access_run env tr m" and "AuthenticateSession env now token m = (Some caller, m')"
  shows "\<exists>newer e older s u. tr = newer @ e # older \<and> issued (ev_result e) = Some s \<and> se_Token s = TrimSpace token \<and>
    (\<forall>e' \<in> set newer. \<not> logs_out (TrimSpace token) e') \<and> now \<le> se_ExpiresAt s \<and>
    u \<in> set (ac_Users (am_config m)) \<and> us_UserID u = se_UserID s \<and> us_Status u = ''active'' \<and>
    pr_User caller = Some u \<and> pr_RoleIDs caller = effectiveRoleIDs u (ac_Groups (am_config m))"
  using assms(2)
proof (cases rule: AuthenticateSessionE)
  case (accepted s u)
  have user: "u \<in> set (ac_Users (am_config m))" "us_UserID u = se_UserID s"
    using find_Some_in [OF accepted(4) [unfolded lookupUser_def]] by simp_all
  from run_sessions [OF assms(1) accepted(2)] obtain newer e older s0 where
    "tr = newer @ e # older" "issued (ev_result e) = Some s0" "se_Token s0 = TrimSpace token" "se_UserID s0 = se_UserID s"
    "se_ExpiresAt s0 = se_ExpiresAt s" "\<forall>e' \<in> set newer. \<not> logs_out (TrimSpace token) e'"
    unfolding session_ok_def by blast
  with accepted user show ?thesis
    by (intro exI [of _ newer] exI [of _ e] exI [of _ older] exI [of _ s0] exI [of _ u]) (auto simp: buildPrincipal_def Let_def)
qed simp_all

text \<open>C17: every factor is checked.  A session that a password login, a challenge code or a one-time
  password has produced goes back to a password that was verified in the run for the same user and
  provider; when that login asked for a challenge, a challenge code was accepted for its pending flow
  in between, and when it asked for a second factor, a one-time password of that user was.
\<close>
theorem second_factor_enforced:
  assumes "access_run env (later @ ev # before) m" and "ev_result ev = RFlow (Inr r)" and "fr_Session r = Some s"
  shows "\<exists>newer e older p u. ev # before = newer @ e # older \<and> password_ok env e p u \<and>
    pending_is (fr_PendingToken r) e \<and> se_UserID s = us_UserID u \<and> se_ProviderID s = ap_ID p \<and>
    (needs_challenge p u \<longrightarrow> (\<exists>e' \<in> set newer. challenge_passed (fr_PendingToken r) e')) \<and>
    (needs_mfa p u \<longrightarrow> (\<exists>e' \<in> set newer. mfa_passed env (fr_PendingToken r) (us_UserID u) e'))"
proof -
  from access_run_event [OF assms(1)] obtain rd m0 m1 where run: "access_run env before m0"
    and ex: "access_exec env (ev_time ev) rd (ev_op ev) m0 = (ev_result ev, m1)" and m0: "ev_before ev = m0" by blast
  note ok = run_flows [OF run]
  from ex show ?thesis
  proof (cases rule: event_cases)
    case outside
    with ex assms(2) show ?thesis by (cases "ev_op ev") (auto simp: outside_flows_def)
  next
    case (password pid name pw r')
    then have "LoginWithLocalPassword env (ev_time ev) rd pid name pw m0 = (Inr r, m1)" using assms(2) by simp
    then show ?thesis
    proof (cases rule: LoginWithLocalPasswordE)
      case (accepted p u)
      have "\<not> needs_challenge p u \<and> \<not> needs_mfa p u"
        using accepted(6) assms(3) by (auto simp: Let_def split: if_splits prod.splits sum.splits)
      with accepted have "password_ok env ev p u" "se_UserID s = us_UserID u" "se_ProviderID s = ap_ID p"
        using password(1) m0 assms(3) by (auto simp: password_ok_def split: prod.splits dest: issueSessionE(2,3))
      with \<open>\<not> needs_challenge p u \<and> \<not> needs_mfa p u\<close> assms(2) show ?thesis
        by (intro exI [of _ "[]"] exI [of _ ev] exI [of _ before] exI [of _ p] exI [of _ u]) (auto simp: pending_is_def)
    qed simp
  next
    case (challenge t r')
    with assms(2,3) show ?thesis by (auto elim!: StartChallengeE split: sum.splits)
  next
    case (code t cid c r')
    then have "VerifyChallenge env (ev_time ev) rd t cid c m0 = (Inr r, m1)" using assms(2) by simp
    from second_factor_code [OF ok this assms(3) code(1) assms(2)] obtain newer l older p u where
      "before = newer @ l # older" "password_ok env l p u" "pending_is (fr_PendingToken r) l"
      "se_UserID s = us_UserID u" "se_ProviderID s = ap_ID p" "challenge_passed (fr_PendingToken r) ev" "\<not> needs_mfa p u" by blast
    then show ?thesis
      by (intro exI [of _ "ev # newer"] exI [of _ l] exI [of _ older] exI [of _ p] exI [of _ u]) auto
  next
    case (mfa t c r')
    then have "VerifyMFA env (ev_time ev) rd t c m0 = (Inr r, m1)" using assms(2) by simp
    from second_factor_mfa [OF ok this assms(3) refl mfa(1) assms(2) m0] obtain newer l older p u where
      "before = newer @ l # older" "password_ok env l p u" "pending_is (fr_PendingToken r) l"
      "se_UserID s = us_UserID u" "se_ProviderID s = ap_ID p"
      "needs_challenge p u \<longrightarrow> (\<exists>e' \<in> set newer. challenge_passed (fr_PendingToken r) e')"
      "mfa_passed env (fr_PendingToken r) (us_UserID u) ev" by blast
    then show ?thesis
      by (intro exI [of _ "ev # newer"] exI [of _ l] exI [of _ older] exI [of _ p] exI [of _ u]) auto
  qed
qed

text \<open>C20: the code of a challenge can be guessed at most five times.  When a challenge code is accepted,
  the challenge was issued in the run for the same pending flow with that very code, and since it was
  issued fewer than five wrong codes were entered for it.
\<close>
theorem challenge_guesses_bounded:
  assumes "access_run env (later @ ev # before) m" and "ev_op ev = ChallengeCode t cid code" and "ev_result ev = RFlow (Inr r)"
  shows "\<exists>newer. challenge_origin before (TrimSpace cid) (TrimSpace t) (TrimSpace code) newer \<and>
    length (filter (wrong_guess (TrimSpace cid)) newer) < 5"
proof -
  from access_run_event [OF assms(1)] obtain rd m0 m1 where run: "access_run env before m0"
    and ex: "access_exec env (ev_time ev) rd (ev_op ev) m0 = (ev_result ev, m1)" by blast
  from ex assms(2,3) have "VerifyChallenge env (ev_time ev) rd t cid code m0 = (Inr r, m1)" by simp
  then show ?thesis
  proof (cases rule: VerifyChallengeE)
    case (passed flow user provider c m2 flow' m3)
    note f = pendingFlowContextE [OF passed(1)]
    from run_flows [OF run] f(1) have tok: "pa_Token flow = TrimSpace t" by (simp add: flows_ok_def flow_ok_def)
    from passed(3) show ?thesis
    proof (cases rule: consumeChallengeE)
      case (right d)
      have "am_challenges m0 (TrimSpace cid) = Some d" using right(1) cleanup_challenges by blast
      with run_challenges [OF run] have "challenge_ok before (TrimSpace cid) d" by (simp add: challenges_ok_def)
      with right tok show ?thesis by (auto simp: challenge_ok_def)
    qed simp_all
  qed simp_all
qed

text \<open>C21: the directory of every reachable manager is in order.  Users, groups, providers, people and
  channels are sorted by their identifiers without repetition and without an empty one, role
  identifiers are unique, the default roles are present, and every user has a role.
\<close>
theorem directory_invariant:
  assumes "access_run env tr m"
  shows "directory_ok (am_config m)"
  using assms by (rule run_directory_ok)

text \<open>C19: who is granted a permission.  For the principal of an accepted session, and permissions of the
  usual form, \<^verbatim>\<open>Evaluate\<close> answers yes exactly when a role that the user has, directly or through an
  active group, holds \<^verbatim>\<open>*\<close>, the permission itself, or a wildcard above it.  This holds with the Casbin
  enforcer and, when the enforcer could not be built, with the walk over the prefixes.
\<close>
theorem authorization_decision:
  assumes "access_run env tr m" and "\<forall>e \<in> set tr. ev_op e \<noteq> Directory DReload"
    and "AuthenticateSession env now token m = (Some caller, m')" and "keymatch_law (ae_keyMatch2 env)"
    and "\<forall>role \<in> set (ac_Roles (am_config m)). \<forall>p \<in> set (ro_Permissions role). simple_permission p"
    and "plain_name request"
  shows "\<exists>u \<in> set (ac_Users (am_config m)). pr_User caller = Some u \<and>
    (Evaluate env caller request m' \<longleftrightarrow> policies_grant (am_config m) u request)"
  using assms(3)
proof (cases rule: AuthenticateSessionE)
  case (accepted s u)
  have "u \<in> set (ac_Users (am_config m))" using find_Some_in [OF accepted(4) [unfolded lookupUser_def]] by simp
  moreover have "pr_User caller = Some u" using accepted(6) by (simp add: buildPrincipal_def Let_def)
  moreover have cfg: "am_config m' = am_config m" "am_enforcer m' = am_enforcer m" using accepted(7) by simp_all
  moreover have "Evaluate env caller request m' \<longleftrightarrow> policies_grant (am_config m') u request"
    using Evaluate_grants [of m' env request caller] run_enforcer [OF assms(1,2)] assms(4-6) accepted(6) cfg by simp
  ultimately show ?thesis by auto
qed simp_all

text \<open>A membership cannot be revoked from the side of the group.  When a user lists the group, a
  successful \<^verbatim>\<open>UpsertGroup\<close> of that group leaves the user among its members, whatever members the new
  group was given: the loops that align users and groups only add.
\<close>
theorem membership_not_revoked:
  assumes "access_run env tr m" and "TrimSpace (am_path m) = []" and "u \<in> set (ac_Users (am_config m))"
    and "gr_GroupID stored \<in> set (us_Groups u)" and "UpsertGroup env now grp m = (Inr stored, m')"
  shows "\<exists>g. GetGroup (gr_GroupID stored) m' = Some g \<and> us_UserID u \<in> set (gr_Members g)"
proof -
  let ?c = "acc_cloneConfig (am_config m)" and ?g = "normalizeGroup grp now" and ?gid = "gr_GroupID stored"
  have "clean (am_config m)" using run_directory_ok [OF assms(1)] by (rule directory_clean)
  then have c: "clean ?c" by (simp add: clean_def acc_cloneConfig_def)
  obtain g' gs where up: "upsert_item gr_GroupID (\<lambda>old new. new\<lparr>gr_CreatedAt := gr_CreatedAt old\<rparr>) ?g (ac_Groups ?c) = (g', gs)"
    by fastforce
  let ?c1 = "?c\<lparr>ac_Groups := gs\<rparr>" and ?m2 = "acc_normalizeConfig now (acc_normalizeConfig now (?c\<lparr>ac_Groups := gs\<rparr>))"
  have saved: "stored = g'" "am_config m' = ?m2"
    using assms(2,5) up
    by (auto simp: UpsertGroup_def save_item_def acc_SaveConfig_def Let_def split: sum.splits option.splits prod.splits)
  have key: "gr_GroupID g' = gr_GroupID ?g"
    using upsert_item_key [of gr_GroupID "\<lambda>old new. new\<lparr>gr_CreatedAt := gr_CreatedAt old\<rparr>" ?g "ac_Groups ?c"] up by simp
  have gid: "TrimSpace ?gid = ?gid" "?gid \<noteq> []"
    using assms(3,4) c by (auto simp: clean_def user_ok_def acc_cloneConfig_def)
  have g: "TrimSpace (gr_GroupID ?g) = gr_GroupID ?g" "gr_GroupID ?g \<noteq> []" using gid key saved(1) by simp_all
  note c1 = upsert_group_clean [OF c g up]
  have "has_group (ac_Users ?c1) (us_UserID u) ?gid" using assms(3,4) by (auto simp: has_group_def acc_cloneConfig_def)
  note n1 = normalize_keeps_group [OF c1(1) this, of now]
  have in1: "?gid \<in> gr_GroupID ` set (ac_Groups ?c1)" using c1(2) key saved(1) by simp
  note n2 = normalize_keeps_group(2) [OF directory_clean [OF normalizeConfig_ok] n1(1) [OF in1] n1(3) [OF in1], of now]
  then obtain x where x: "x \<in> set (ac_Groups ?m2)" "gr_GroupID x = ?gid" "us_UserID u \<in> set (gr_Members x)"
    by (auto simp: is_member_def)
  have "clean ?m2" by (rule directory_clean [OF normalizeConfig_ok])
  then have "find (\<lambda>g. gr_GroupID g = ?gid) (ac_Groups ?m2) = Some x"
    using x by (intro find_keyed) (simp_all add: clean_def)
  then show ?thesis using x(3) saved(2) gid(1) by (auto simp: GetGroup_def)
qed

text \<open>The session of the operations token is never accepted.  A login with the configured operations
  token succeeds, but its user \<^verbatim>\<open>ops-admin\<close> is not stored; without such a user in the directory the
  session that was issued authenticates nobody.
\<close>
theorem ops_token_session_refused:
  assumes "LoginWithLocalToken env now rd token fallback m = (Inr (s, u), m')"
    and "\<forall>p \<in> set (ac_AuthProviders (am_config m)). \<not> (ap_Type p = ''local_token'' \<and> ap_Enabled p \<and>
      TrimSpace token = TrimSpace (ap_ClientSecret p))"
    and "\<forall>x \<in> set (ac_Users (am_config m)). us_UserID x \<noteq> ''ops-admin''" and "TrimSpace presented = se_Token s"
  shows "us_Roles u = [''platform_admin''] \<and> fst (AuthenticateSession env later presented m') = None"
proof -
  have "find (\<lambda>p. ap_Type p = ''local_token'' \<and> ap_Enabled p \<and> TrimSpace token = TrimSpace (ap_ClientSecret p))
      (ac_AuthProviders (am_config m)) = None"
    using assms(2) by (auto simp: find_None_iff)
  with assms(1) have u: "us_Roles u = [''platform_admin'']" and
      s: "issueSession env now (rd 0) ''ops-admin'' ''ops-token'' (24 * 60 * 60) m = (s, m')"
    by (auto simp: LoginWithLocalToken_def Let_def split: if_splits prod.splits)
  have "lookupUser (ac_Users (am_config m')) (se_UserID s) = None"
    using issueSessionE(1,2) [OF s] assms(3) by (auto simp: lookupUser_def find_None_iff)
  moreover have "am_sessions m' (TrimSpace presented) = Some s" using issueSessionE(1) [OF s] assms(4) by simp
  ultimately show ?thesis using u by (auto simp: AuthenticateSession_def Let_def)
qed

text \<open>C22: a state of OAuth is checked and used up.  A callback that ends with a session had a state that
  this manager issued for the same provider and that has not expired; the state is gone afterwards
  exactly when the callback carried it without surrounding blanks.
\<close>
theorem oauth_state_used:
  assumes "CompleteOAuthCallback env now rd pid base state code m = (Inr (s, u), m')"
  shows "\<exists>stored. am_oauthStates m (TrimSpace state) = Some stored \<and> os_ProviderID stored = se_ProviderID s \<and>
    now \<le> os_ExpiresAt stored \<and> se_UserID s = us_UserID u \<and>
    (am_oauthStates m' (TrimSpace state) = None \<longleftrightarrow> TrimSpace state = state)"
  using assms
proof (cases rule: CompleteOAuthCallbackE)
  case (finished s' u' p profile stored m1)
  let ?m = "m\<lparr>am_oauthStates := (am_oauthStates m)(state := None)\<rparr>"
  have "am_oauthStates m' = am_oauthStates m1" using issueSessionE(1) [OF finished(6)] by simp
  moreover have "am_oauthStates m1 = (am_oauthStates m)(state := None)"
    using oauth_resolveOAuthUser [of env now p profile ?m] finished(5) by simp
  ultimately show ?thesis using finished issueSessionE(2,3) [OF finished(6)] by auto
qed simp_all

section \<open>Samples\<close>

text \<open>A run for the witnesses: a directory with one user who needs both factors, a wrong and a right
  challenge code, and a one-time password.\<close>

definition sample_keyMatch2 :: "string \<Rightarrow> string \<Rightarrow> bool" where
  "sample_keyMatch2 obj pat \<longleftrightarrow> (if HasSuffix pat ''/*'' then HasPrefix obj (butlast pat) else obj = pat)"

definition sample_env :: access_env where
  "sample_env = \<lparr>ae_marshal = (\<lambda>_. Inr ''yaml''), ae_unmarshal = (\<lambda>_. Inr acc_DefaultConfig), ae_readFile = (\<lambda>_. Inr []),
     ae_notExist = (\<lambda>_. False), ae_writeFile = (\<lambda>_ _. None), ae_casbin = True, ae_keyMatch2 = sample_keyMatch2,
     ae_bcrypt = (\<lambda>hash pw. hash = pw), ae_totp = (\<lambda>_ code secret. code = secret),
     ae_signed = (\<lambda>c. Some (sc_ID c)), ae_parsed = (\<lambda>_ _. True), ae_discover = (\<lambda>_. Inl ErrNotFound),
     ae_authCodeURL = (\<lambda>_ s. s), ae_exchange = (\<lambda>_ _. Inl ErrNotFound), ae_verifyIDToken = (\<lambda>_ _ _. None),
     ae_userInfo = (\<lambda>_ _. Inl ErrNotFound)\<rparr>"

definition sample_random :: "nat \<Rightarrow> random" where
  "sample_random seed = (\<lambda>k n. Inr (replicate n (seed + k)))"

definition sample_user :: User where
  "sample_user = zero_User\<lparr>us_UserID := ''ann'', us_PasswordHash := ''secret'', us_PasswordLoginEnabled := True,
     us_ChallengeRequired := True, us_MFAEnabled := True, us_MFAMethod := ''totp'', us_TOTPSecret := ''123''\<rparr>"

definition sample_provider :: AuthProvider where
  "sample_provider = \<lparr>ap_ID = ''local'', ap_Type = ''local_password'', ap_Name = [], ap_Enabled = True, ap_PasswordMinLength = 0,
     ap_RequireChallenge = False, ap_ChallengeChannel = [], ap_ChallengeTTLSeconds = 0, ap_ChallengeCodeLength = 0,
     ap_RequireMFA = False, ap_IssuerURL = [], ap_ClientID = [], ap_ClientSecret = [], ap_ClientSecretRef = [], ap_AuthURL = [],
     ap_TokenURL = [], ap_UserInfoURL = [], ap_SessionTTLSeconds = 0, ap_LDAPURL = [], ap_BindDN = [], ap_BindPassword = [],
     ap_BindPasswordRef = [], ap_BaseDN = [], ap_UserSearchFilter = [], ap_GroupSearchFilter = [], ap_Scopes = [],
     ap_RedirectPath = [], ap_SuccessRedirect = [], ap_UserIDField = [], ap_UsernameField = [], ap_DisplayNameField = [],
     ap_EmailField = [], ap_AllowedDomains = [], ap_DefaultRoles = [], ap_AllowJIT = False\<rparr>"

definition sample_start :: AccessManager where
  "sample_start = (blank_manager [])\<lparr>am_enforcer := buildPermissionEnforcer sample_env acc_DefaultConfig, am_updatedAt := 1,
     am_content := ''yaml''\<rparr>"

lemma sample_start_new: "acc_NewManager sample_env 1 None [] = Inr sample_start"
  by (simp add: acc_NewManager_def sample_start_def acc_EncodeConfig_def sample_env_def encoded_or_empty_def Let_def
      blank_manager_def)

definition sample_config :: AccessConfig where
  "sample_config = acc_DefaultConfig\<lparr>ac_Users := [sample_user], ac_AuthProviders := [sample_provider]\<rparr>"

text \<open>The state after saving that configuration, for any roles and policies.\<close>

definition sample_ready :: "AccessRole list \<Rightarrow> (string \<times> string) list option \<Rightarrow> AccessManager" where
  "sample_ready roles policies = (blank_manager [])\<lparr>am_content := ''yaml'', am_updatedAt := 2, am_enforcer := policies,
     am_config := \<lparr>ac_Users = [normalizeUser sample_user 2], ac_Groups = [], ac_AuthProviders = [normalizeAuthProvider sample_provider],
       ac_Roles = roles, ac_People = [], ac_Channels = []\<rparr>\<rparr>"

lemma sample_ids: "us_UserID (normalizeUser sample_user 2) = ''ann''" "us_Groups (normalizeUser sample_user 2) = []"
  "ap_ID (normalizeAuthProvider sample_provider) = ''local''"
  by code_simp+

lemma sample_saved:
  "directory_exec sample_env 2 (DSaveConfig sample_config) sample_start =
     sample_ready (ac_Roles (acc_normalizeConfig 2 sample_config)) (am_enforcer (directory_exec sample_env 2 (DSaveConfig sample_config) sample_start))"
proof -
  have "acc_normalizeConfig 2 sample_config = \<lparr>ac_Users = [normalizeUser sample_user 2], ac_Groups = [],
      ac_AuthProviders = [normalizeAuthProvider sample_provider],
      ac_Roles = ac_Roles (acc_normalizeConfig 2 sample_config), ac_People = [], ac_Channels = []\<rparr>"
    by (simp add: acc_normalizeConfig_def sample_config_def acc_DefaultConfig_def cloneAuthProviders_def clonePeople_def
        syncGroupMemberships_def dedupeUsers_def dedupeGroups_def dedupeProviders_def dedupePeople_def dedupeChannels_def
        sample_ids)
  then show ?thesis
    by (simp add: acc_SaveConfig_def acc_EncodeConfig_def sample_start_def sample_env_def blank_manager_def sample_ready_def Let_def)
qed

definition sample_ops :: "(gotime \<times> random \<times> access_op) list" where
  "sample_ops =
     [(62135596800000000003, sample_random 0, LocalPassword [] ''Ann'' ''secret''),
      (62135596800000000004, sample_random 10, ChallengeCode (encode_base64 (replicate 24 0)) (encode_base64 (replicate 12 2)) ''000000''),
      (62135596800000000005, sample_random 10, ChallengeCode (encode_base64 (replicate 24 0)) (encode_base64 (replicate 12 2)) ''111111''),
      (62135596800000000006, sample_random 20, MFACode (encode_base64 (replicate 24 0)) ''123'')]"

definition sample_saved_event :: access_event where
  "sample_saved_event = \<lparr>ev_time = 2, ev_op = Directory (DSaveConfig sample_config), ev_result = RDone, ev_before = sample_start\<rparr>"

abbreviation sample_after :: "nat \<Rightarrow> AccessRole list \<Rightarrow> (string \<times> string) list option \<Rightarrow> access_event list \<Rightarrow>
    access_event list \<times> AccessManager" where
  "sample_after n roles policies tr \<equiv> run_ops sample_env (take n sample_ops) (tr, sample_ready roles policies)"

definition sample_final :: "nat \<Rightarrow> access_event list \<times> AccessManager" where
  "sample_final n = sample_after n (ac_Roles (acc_normalizeConfig 2 sample_config))
     (am_enforcer (directory_exec sample_env 2 (DSaveConfig sample_config) sample_start)) [sample_saved_event]"

lemma sample_run: "access_run sample_env (fst (sample_final n)) (snd (sample_final n))"
proof -
  let ?m = "directory_exec sample_env 2 (DSaveConfig sample_config) sample_start"
  have "access_run sample_env [sample_saved_event] ?m"
    unfolding sample_saved_event_def
    by (rule access_run.step [OF access_run.start [OF sample_start_new], where rd = "sample_random 0"]) simp
  then show ?thesis unfolding sample_final_def
    by (intro run_ops_run [OF _ prod.collapse [symmetric]]) (simp only: sample_saved [symmetric])
qed

lemma run_ops_ops: "map ev_op (fst (run_ops env ops (tr, m))) = rev (map (\<lambda>x. snd (snd x)) ops) @ map ev_op tr"
  by (induction ops arbitrary: tr m) (auto split: prod.split)

lemma sample_final_ops: "map ev_op (fst (sample_final n)) = rev (map (\<lambda>x. snd (snd x)) (take n sample_ops)) @ [ev_op sample_saved_event]"
  by (simp add: sample_final_def run_ops_ops)

lemma sample_final_Cons: "fst (sample_final n) = hd (fst (sample_final n)) # tl (fst (sample_final n))"
proof -
  have "fst (sample_final n) \<noteq> []" using sample_final_ops [of n] by auto
  then show ?thesis by simp
qed

lemma sample_issued: "case ev_result (hd (fst (sample_final 4))) of RFlow (Inr r) \<Rightarrow> fr_Session r \<noteq> None | _ \<Rightarrow> False"
proof -
  have "case ev_result (hd (fst (sample_after 4 roles policies tr))) of RFlow (Inr r) \<Rightarrow> fr_Session r \<noteq> None | _ \<Rightarrow> False"
    for roles policies tr
    by code_simp
  then show ?thesis unfolding sample_final_def .
qed

lemma sample_code: "succeeded (hd (fst (sample_final 3)))"
proof -
  have "succeeded (hd (fst (sample_after 3 roles policies tr)))" for roles policies tr
    by code_simp
  then show ?thesis unfolding sample_final_def .
qed

lemma sample_authenticates:
  "fst (AuthenticateSession sample_env 62135596800000000007 ''local:ann:6'' (snd (sample_final 4))) \<noteq> None"
proof -
  have "fst (AuthenticateSession sample_env 62135596800000000007 ''local:ann:6'' (snd (sample_after 4 roles policies tr))) \<noteq> None"
    for roles policies tr
    by code_simp
  then show ?thesis unfolding sample_final_def .
qed

theorem session_provenance_witness:
  "\<exists>caller newer e older s u. fst (AuthenticateSession sample_env 62135596800000000007 ''local:ann:6'' (snd (sample_final 4))) = Some caller \<and>
     fst (sample_final 4) = newer @ e # older \<and> issued (ev_result e) = Some s \<and> us_UserID u = se_UserID s \<and> pr_User caller = Some u"
proof -
  obtain caller m' where "AuthenticateSession sample_env 62135596800000000007 ''local:ann:6'' (snd (sample_final 4)) = (Some caller, m')"
    using sample_authenticates by (metis option.exhaust prod.collapse)
  with session_provenance [OF sample_run this] show ?thesis by fastforce
qed

theorem second_factor_enforced_witness:
  "\<exists>r s e p u. ev_result (hd (fst (sample_final 4))) = RFlow (Inr r) \<and> fr_Session r = Some s \<and>
     e \<in> set (fst (sample_final 4)) \<and> password_ok sample_env e p u \<and> se_UserID s = us_UserID u"
proof -
  obtain r s where r: "ev_result (hd (fst (sample_final 4))) = RFlow (Inr r)" "fr_Session r = Some s"
    using sample_issued by (auto split: access_result.splits sum.splits)
  have "access_run sample_env ([] @ hd (fst (sample_final 4)) # tl (fst (sample_final 4))) (snd (sample_final 4))"
    using sample_run [of 4] sample_final_Cons [of 4] by simp
  from second_factor_enforced [OF this r] obtain newer e older p u where
    "hd (fst (sample_final 4)) # tl (fst (sample_final 4)) = newer @ e # older" "password_ok sample_env e p u" "se_UserID s = us_UserID u"
    by blast
  moreover from this have "e \<in> set (fst (sample_final 4))" using sample_final_Cons [of 4] by (metis in_set_conv_decomp)
  ultimately show ?thesis using r by blast
qed

theorem challenge_guesses_bounded_witness:
  "\<exists>newer. challenge_origin (tl (fst (sample_final 3))) (TrimSpace (encode_base64 (replicate 12 2)))
     (TrimSpace (encode_base64 (replicate 24 0))) (TrimSpace ''111111'') newer \<and>
     length (filter (wrong_guess (TrimSpace (encode_base64 (replicate 12 2)))) newer) < 5"
proof -
  obtain r where r: "ev_result (hd (fst (sample_final 3))) = RFlow (Inr r)"
    using sample_code by (auto simp: succeeded_def split: access_result.splits sum.splits)
  have run: "access_run sample_env ([] @ hd (fst (sample_final 3)) # tl (fst (sample_final 3))) (snd (sample_final 3))"
    using sample_run [of 3] sample_final_Cons [of 3] by simp
  have "ev_op (hd (fst (sample_final 3))) = hd (map ev_op (fst (sample_final 3)))"
    using sample_final_Cons [of 3] by (metis list.sel(1) list.simps(9))
  then have "ev_op (hd (fst (sample_final 3))) = ChallengeCode (encode_base64 (replicate 24 0)) (encode_base64 (replicate 12 2)) ''111111''"
    by (simp add: sample_final_ops sample_ops_def)
  from challenge_guesses_bounded [OF run this r] show ?thesis .
qed

theorem directory_invariant_witness: "directory_ok (am_config (snd (sample_final 4)))"
  by (rule directory_invariant [OF sample_run])

lemma sample_keymatch: "keymatch_law (ae_keyMatch2 sample_env)"
proof -
  have "\<not> HasSuffix pat ''/*''" if "set pat \<subseteq> path_chars" for pat
    using that no_star_suffix [of pat "''/''"] name_chars_special by (auto simp: path_chars_def)
  then show ?thesis by (auto simp: keymatch_law_def sample_env_def sample_keyMatch2_def butlast_append suffix_def)
qed

lemma default_permissions_simple: "\<forall>p \<in> set (concat (map ro_Permissions defaultRoles)). simple_permission (TrimSpace p)"
  by code_simp

lemma run_ops_config:
  "\<forall>x \<in> set ops. \<not> outside_flows (snd (snd x)) \<Longrightarrow> config_part (snd (run_ops env ops (tr, m))) = config_part m"
proof (induction ops arbitrary: tr m)
  case (Cons x ops)
  obtain now rd op where x: "x = (now, rd, op)" by (cases x)
  obtain res m1 where ex: "access_exec env now rd op m = (res, m1)" by fastforce
  have "config_part m1 = config_part m" using ex
    by (cases rule: event_cases)
       (use Cons.prems x in \<open>auto dest: config_LoginWithLocalPassword config_StartChallenge config_VerifyChallenge config_VerifyMFA\<close>)
  with Cons x ex show ?case by simp
qed simp

lemma sample_roles: "\<forall>role \<in> set (ac_Roles (am_config (snd (sample_final 4)))). \<forall>p \<in> set (ro_Permissions role). simple_permission p"
proof (intro ballI)
  fix role p
  assume r: "role \<in> set (ac_Roles (am_config (snd (sample_final 4))))" and p: "p \<in> set (ro_Permissions role)"
  have "config_part (snd (sample_final 4)) =
      config_part (sample_ready (ac_Roles (acc_normalizeConfig 2 sample_config)) (am_enforcer (directory_exec sample_env 2 (DSaveConfig sample_config) sample_start)))"
    unfolding sample_final_def by (rule run_ops_config) (simp add: sample_ops_def outside_flows_def)
  with r have "role \<in> set (ac_Roles (acc_normalizeConfig 2 sample_config))" by (simp add: config_part_def sample_ready_def)
  then have "role \<in> normalizeRole ` set defaultRoles"
    using set_dedupe_by [of ro_ID "[]" "map normalizeRole (ac_Roles sample_config @ defaultRoles)"]
    by (auto simp: normalizeConfig_fields dedupeRoles_def sample_config_def acc_DefaultConfig_def)
  with p obtain r' where "r' \<in> set defaultRoles" "p \<in> TrimSpace ` set (ro_Permissions r')"
    by (auto simp: normalizeRole_def set_dedupeStrings)
  with default_permissions_simple show "simple_permission p" by auto
qed

theorem authorization_decision_witness:
  "\<exists>caller m' u. AuthenticateSession sample_env 62135596800000000007 ''local:ann:6'' (snd (sample_final 4)) = (Some caller, m') \<and>
     (Evaluate sample_env caller ''sessions.read'' m' \<longleftrightarrow> policies_grant (am_config (snd (sample_final 4))) u ''sessions.read'')"
proof -
  obtain caller m' where a: "AuthenticateSession sample_env 62135596800000000007 ''local:ann:6'' (snd (sample_final 4)) = (Some caller, m')"
    using sample_authenticates by (metis option.exhaust prod.collapse)
  have "\<forall>op \<in> set (map ev_op (fst (sample_final 4))). op \<noteq> Directory DReload"
    by (simp add: sample_final_ops sample_ops_def sample_saved_event_def)
  then have "\<forall>e \<in> set (fst (sample_final 4)). ev_op e \<noteq> Directory DReload" by simp
  moreover have "plain_name ''sessions.read''" by code_simp
  ultimately show ?thesis using authorization_decision [OF sample_run _ a sample_keymatch sample_roles] a by blast
qed

text \<open>A directory with a group, whose member is to be removed.\<close>

definition sample_group :: Group where
  "sample_group = \<lparr>gr_GroupID = ''ops'', gr_DisplayName = [], gr_Description = [], gr_Status = [], gr_Roles = [], gr_Members = [],
     gr_OrgID = [], gr_TenantID = [], gr_WorkspaceID = [], gr_CreatedAt = 0, gr_UpdatedAt = 0\<rparr>"

definition sample_groups_config :: AccessConfig where
  "sample_groups_config = acc_DefaultConfig\<lparr>ac_Users := [sample_user\<lparr>us_Groups := [''ops'']\<rparr>], ac_Groups := [sample_group]\<rparr>"

definition sample_grouped :: AccessManager where
  "sample_grouped = directory_exec sample_env 2 (DSaveConfig sample_groups_config) sample_start"

lemma sample_grouped_run: "\<exists>tr. access_run sample_env tr sample_grouped"
  unfolding sample_grouped_def
  by (rule exI, rule access_run.step [OF access_run.start [OF sample_start_new], where rd = "sample_random 0"
        and now = 2 and op = "Directory (DSaveConfig sample_groups_config)"]) simp

lemma sample_grouped_fields: "am_path sample_grouped = []" "am_persist sample_grouped = None"
  "am_config sample_grouped = acc_normalizeConfig 2 sample_groups_config"
  by (simp_all add: sample_grouped_def acc_SaveConfig_def acc_EncodeConfig_def sample_start_def sample_env_def
      blank_manager_def Let_def)

lemma sample_grouped_user: "\<exists>u \<in> set (ac_Users (am_config sample_grouped)). ''ops'' \<in> set (us_Groups u) \<and> us_UserID u = ''ann''"
  unfolding sample_grouped_fields normalizeConfig_fields sample_groups_config_def by simp code_simp

lemma sample_grouped_upsert: "\<exists>g m'. UpsertGroup sample_env 3 sample_group sample_grouped = (Inr g, m') \<and> gr_GroupID g = ''ops''"
proof -
  let ?up = "upsert_item gr_GroupID (\<lambda>old new. new\<lparr>gr_CreatedAt := gr_CreatedAt old\<rparr>) (normalizeGroup sample_group 3)
    (ac_Groups (acc_cloneConfig (am_config sample_grouped)))"
  have "gr_GroupID (fst ?up) = gr_GroupID (normalizeGroup sample_group 3)" by (rule upsert_item_key) simp
  also have "\<dots> = ''ops''" by code_simp
  finally show ?thesis
    by (cases ?up) (simp add: UpsertGroup_def save_item_def acc_SaveConfig_def acc_EncodeConfig_def sample_grouped_fields
        acc_run_persist_def sample_env_def Let_def)
qed

theorem membership_not_revoked_witness:
  "\<exists>stored m' g. gr_Members sample_group = [] \<and> UpsertGroup sample_env 3 sample_group sample_grouped = (Inr stored, m') \<and>
     GetGroup ''ops'' m' = Some g \<and> ''ann'' \<in> set (gr_Members g)"
proof -
  obtain tr where run: "access_run sample_env tr sample_grouped" using sample_grouped_run by blast
  obtain u where u: "u \<in> set (ac_Users (am_config sample_grouped))" "''ops'' \<in> set (us_Groups u)" "us_UserID u = ''ann''"
    using sample_grouped_user by blast
  obtain g m' where g: "UpsertGroup sample_env 3 sample_group sample_grouped = (Inr g, m')" "gr_GroupID g = ''ops''"
    using sample_grouped_upsert by blast
  have "TrimSpace (am_path sample_grouped) = []" by (simp add: sample_grouped_fields)
  from membership_not_revoked [OF run this u(1) _ g(1)] u g show ?thesis by (auto simp: sample_group_def)
qed

theorem ops_token_session_refused_witness:
  "\<exists>s u m'. LoginWithLocalToken sample_env 62135596800000000007 (sample_random 0) ''tok'' ''tok'' sample_start = (Inr (s, u), m') \<and>
     fst (AuthenticateSession sample_env 62135596800000000008 ''ops-token:ops-admin:7'' m') = None"
proof -
  have cfg: "ac_Users (am_config sample_start) = []" "ac_AuthProviders (am_config sample_start) = []"
    by (simp_all add: sample_start_def blank_manager_def acc_DefaultConfig_def)
  obtain s m' where s: "issueSession sample_env 62135596800000000007 (sample_random 0 0) ''ops-admin'' ''ops-token'' 86400 sample_start = (s, m')"
    by fastforce
  have "TrimSpace ''tok'' = ''tok''" by code_simp
  then obtain u where l: "LoginWithLocalToken sample_env 62135596800000000007 (sample_random 0) ''tok'' ''tok'' sample_start = (Inr (s, u), m')"
    using s by (auto simp: LoginWithLocalToken_def Let_def cfg)
  have "se_Token s = se_Token (fst (issueSession sample_env 62135596800000000007 (sample_random 0 0) ''ops-admin'' ''ops-token'' 86400 sample_start))"
    using s by simp
  also have "\<dots> = acc_firstNonEmpty [''ops-token'', ''session''] @ '':'' @ ''ops-admin'' @ '':'' @ dec_int (UnixNano 62135596800000000007)"
    by (simp add: issueSession_def sample_env_def Let_def)
  also have "\<dots> = TrimSpace ''ops-token:ops-admin:7''" by code_simp
  finally show ?thesis using ops_token_session_refused [OF l] l by (auto simp: cfg)
qed

text \<open>An OAuth provider, a linked user and a state that was issued.\<close>

definition sample_oauth :: AccessManager where
  "sample_oauth = (blank_manager [])\<lparr>
     am_config := \<lparr>ac_Users = [sample_user\<lparr>us_Identities := [\<lparr>il_ProviderType = ''oauth2'', il_ProviderID = ''local'', il_ExternalSubject = ''x'',
         il_ExternalUsername = [], il_ExternalEmail = []\<rparr>]\<rparr>], ac_Groups = [],
       ac_AuthProviders = [sample_provider\<lparr>ap_Type := ''oauth2''\<rparr>], ac_Roles = [], ac_People = [], ac_Channels = []\<rparr>,
     am_oauthStates := [''st'' \<mapsto> \<lparr>os_ProviderID = ''local'', os_State = ''st'', os_CreatedAt = 62135596800000000000, os_ExpiresAt = 62135596800000000100\<rparr>]\<rparr>"

definition sample_oauth_env :: access_env where
  "sample_oauth_env = sample_env\<lparr>ae_exchange := (\<lambda>_ _. Inr \<lparr>ot_AccessToken = ''t'', ot_IDToken = None\<rparr>),
     ae_userInfo := (\<lambda>_ _. Inr [(''sub'', PString ''x'')])\<rparr>"

lemma sample_callback: "\<not> isl (fst (CompleteOAuthCallback sample_oauth_env 62135596800000000007 (sample_random 0) ''local'' [] ''st '' ''c'' sample_oauth))"
  by code_simp

theorem oauth_state_used_witness:
  "\<exists>s u m'. CompleteOAuthCallback sample_oauth_env 62135596800000000007 (sample_random 0) ''local'' [] ''st '' ''c'' sample_oauth = (Inr (s, u), m') \<and>
     am_oauthStates m' ''st'' \<noteq> None"
proof -
  obtain s u m' where c: "CompleteOAuthCallback sample_oauth_env 62135596800000000007 (sample_random 0) ''local'' [] ''st '' ''c'' sample_oauth = (Inr (s, u), m')"
    using sample_callback by (metis isl_def old.sum.exhaust prod.collapse surj_pair)
  have "TrimSpace ''st '' = ''st''" by code_simp
  with oauth_state_used [OF c] c show ?thesis by auto
qed

end
