(* ===== verification/Triggers.thy ===== *)
theory Triggers
  imports Contracts
begin

text \<open>
  Trigger policies, \<^verbatim>\<open>internal/modules/trigger\<close>, with the store in memory (no database is configured): which
  trigger an event fires, its filter expression and its cooldown.  \<open>trg_\<close> marks functions whose Go name
  is also used by another package.  The two regular expressions of the filters are parsers; a
  filter that does not parse is an error value without the quoted text of the message.
\<close>

section \<open>Data\<close>

record Trigger =
  tg_ID :: string
  tg_TenantID :: string
  tg_DisplayName :: string
  tg_Description :: string
  tg_Enabled :: bool
  tg_EventType :: string
  tg_ChannelID :: string
  tg_AutomationJobID :: string
  tg_Governance :: string
  tg_FilterExpr :: string
  tg_TargetAudience :: string
  tg_TemplateID :: string
  tg_CooldownSec :: int
  tg_LastFiredAt :: gotime
  tg_CreatedAt :: gotime
  tg_UpdatedAt :: gotime

record ListFilter =
  lf_TenantID :: string
  lf_EventType :: string
  lf_Enabled :: "bool option"
  lf_Limit :: int
  lf_Offset :: int

record FireEvent =
  fe_EventType :: string
  fe_TenantID :: string
  fe_RefType :: string
  fe_RefID :: string
  fe_Subject :: string
  fe_Body :: string
  fe_Source :: string
  fe_TemplateData :: strmap

record MatchRequest =
  mq_TenantID :: string
  mq_EventType :: string
  mq_TargetAudience :: string
  mq_EventData :: strmap

datatype trigger_error =
    ErrTriggerNotFound
  | ErrChannelIDRequired
  | ErrMatchArgument
  | ErrUnsupportedFilter string
  | ErrInvalidListItem string
  | SliceOutOfRange

record TriggerManager =
  tr_triggers :: "string \<rightharpoonup> Trigger"

definition EventOnSkillCompleted :: string where "EventOnSkillCompleted = ''on_skill_completed''"
definition EventOnSkillFailed :: string where "EventOnSkillFailed = ''on_skill_failed''"
definition EventOnExecutionCompleted :: string where "EventOnExecutionCompleted = ''on_execution_completed''"
definition EventOnExecutionFailed :: string where "EventOnExecutionFailed = ''on_execution_failed''"
definition EventOnApprovalRequested :: string where "EventOnApprovalRequested = ''on_approval_requested''"
definition EventOnSessionClosed :: string where "EventOnSessionClosed = ''on_session_closed''"

section \<open>Default triggers\<close>

definition inbox_trigger :: "gotime \<Rightarrow> string \<Rightarrow> string \<Rightarrow> string \<Rightarrow> string \<Rightarrow> string \<Rightarrow> Trigger" where
  "inbox_trigger now tid name desc event template =
     \<lparr>tg_ID = tid, tg_TenantID = ''default'', tg_DisplayName = name, tg_Description = desc, tg_Enabled = True,
      tg_EventType = event, tg_ChannelID = ''in_app_inbox'', tg_AutomationJobID = [], tg_Governance = [],
      tg_FilterExpr = [], tg_TargetAudience = [], tg_TemplateID = template, tg_CooldownSec = 0, tg_LastFiredAt = 0,
      tg_CreatedAt = now, tg_UpdatedAt = now\<rparr>"

definition tgz_to_inbox :: string where "tgz_to_inbox = [CHR 0x20, CHR 0xE2, CHR 0x86, CHR 0x92, CHR 0x20, CHR 0x49, CHR 0x6E, CHR 0x62,
      CHR 0x6F, CHR 0x78]"
definition tgz_skill_done :: string where "tgz_skill_done = [CHR 0xE5, CHR 0xB0, CHR 0x86, CHR 0xE6, CHR 0xAF, CHR 0x8F, CHR 0xE6, CHR 0xAC,
      CHR 0xA1, CHR 0x20, CHR 0x73, CHR 0x6B, CHR 0x69, CHR 0x6C, CHR 0x6C, CHR 0x20,
      CHR 0xE6, CHR 0x89, CHR 0xA7, CHR 0xE8, CHR 0xA1, CHR 0x8C, CHR 0xE5, CHR 0xAE,
      CHR 0x8C, CHR 0xE6, CHR 0x88, CHR 0x90, CHR 0xE4, CHR 0xBA, CHR 0x8B, CHR 0xE4,
      CHR 0xBB, CHR 0xB6, CHR 0xE6, CHR 0x8A, CHR 0x95, CHR 0xE9, CHR 0x80, CHR 0x92,
      CHR 0xE5, CHR 0x88, CHR 0xB0, CHR 0xE7, CHR 0xAB, CHR 0x99, CHR 0xE5, CHR 0x86,
      CHR 0x85, CHR 0xE4, CHR 0xBF, CHR 0xA1]"
definition tgz_skill_failed :: string where "tgz_skill_failed = [CHR 0xE5, CHR 0xB0, CHR 0x86, CHR 0x20, CHR 0x73, CHR 0x6B, CHR 0x69, CHR 0x6C,
      CHR 0x6C, CHR 0x20, CHR 0xE6, CHR 0x89, CHR 0xA7, CHR 0xE8, CHR 0xA1, CHR 0x8C,
      CHR 0xE5, CHR 0xA4, CHR 0xB1, CHR 0xE8, CHR 0xB4, CHR 0xA5, CHR 0xE4, CHR 0xBA,
      CHR 0x8B, CHR 0xE4, CHR 0xBB, CHR 0xB6, CHR 0xE6, CHR 0x8A, CHR 0x95, CHR 0xE9,
      CHR 0x80, CHR 0x92, CHR 0xE5, CHR 0x88, CHR 0xB0, CHR 0xE7, CHR 0xAB, CHR 0x99,
      CHR 0xE5, CHR 0x86, CHR 0x85, CHR 0xE4, CHR 0xBF, CHR 0xA1]"
definition tgz_approval :: string where "tgz_approval = [CHR 0xE5, CHR 0xB0, CHR 0x86, CHR 0xE5, CHR 0xAE, CHR 0xA1, CHR 0xE6, CHR 0x89,
      CHR 0xB9, CHR 0xE8, CHR 0xAF, CHR 0xB7, CHR 0xE6, CHR 0xB1, CHR 0x82, CHR 0xE4,
      CHR 0xBA, CHR 0x8B, CHR 0xE4, CHR 0xBB, CHR 0xB6, CHR 0xE6, CHR 0x8A, CHR 0x95,
      CHR 0xE9, CHR 0x80, CHR 0x92, CHR 0xE5, CHR 0x88, CHR 0xB0, CHR 0xE7, CHR 0xAB,
      CHR 0x99, CHR 0xE5, CHR 0x86, CHR 0x85, CHR 0xE4, CHR 0xBF, CHR 0xA1]"
definition tgz_exec_done :: string where "tgz_exec_done = [CHR 0xE5, CHR 0xB0, CHR 0x86, CHR 0xE5, CHR 0xB7, CHR 0xA1, CHR 0xE6, CHR 0xA3,
      CHR 0x80, CHR 0xE4, CHR 0xBB, CHR 0xBB, CHR 0xE5, CHR 0x8A, CHR 0xA1, CHR 0xE6,
      CHR 0x89, CHR 0xA7, CHR 0xE8, CHR 0xA1, CHR 0x8C, CHR 0xE5, CHR 0xAE, CHR 0x8C,
      CHR 0xE6, CHR 0x88, CHR 0x90, CHR 0xE4, CHR 0xBA, CHR 0x8B, CHR 0xE4, CHR 0xBB,
      CHR 0xB6, CHR 0xE6, CHR 0x8A, CHR 0x95, CHR 0xE9, CHR 0x80, CHR 0x92, CHR 0xE5,
      CHR 0x88, CHR 0xB0, CHR 0xE7, CHR 0xAB, CHR 0x99, CHR 0xE5, CHR 0x86, CHR 0x85,
      CHR 0xE4, CHR 0xBF, CHR 0xA1]"
definition tgz_exec_failed :: string where "tgz_exec_failed = [CHR 0xE5, CHR 0xB0, CHR 0x86, CHR 0xE5, CHR 0x91, CHR 0xBD, CHR 0xE4, CHR 0xBB,
      CHR 0xA4, CHR 0xE6, CHR 0x89, CHR 0xA7, CHR 0xE8, CHR 0xA1, CHR 0x8C, CHR 0xE5,
      CHR 0xA4, CHR 0xB1, CHR 0xE8, CHR 0xB4, CHR 0xA5, CHR 0xE4, CHR 0xBA, CHR 0x8B,
      CHR 0xE4, CHR 0xBB, CHR 0xB6, CHR 0xE6, CHR 0x8A, CHR 0x95, CHR 0xE9, CHR 0x80,
      CHR 0x92, CHR 0xE5, CHR 0x88, CHR 0xB0, CHR 0xE7, CHR 0xAB, CHR 0x99, CHR 0xE5,
      CHR 0x86, CHR 0x85, CHR 0xE4, CHR 0xBF, CHR 0xA1]"
definition tgz_closed :: string where "tgz_closed = [CHR 0xE5, CHR 0xB0, CHR 0x86, CHR 0xE4, CHR 0xBC, CHR 0x9A, CHR 0xE8, CHR 0xAF,
      CHR 0x9D, CHR 0xE5, CHR 0x85, CHR 0xB3, CHR 0xE9, CHR 0x97, CHR 0xAD, CHR 0xE4,
      CHR 0xBA, CHR 0x8B, CHR 0xE4, CHR 0xBB, CHR 0xB6, CHR 0xE6, CHR 0x8A, CHR 0x95,
      CHR 0xE9, CHR 0x80, CHR 0x92, CHR 0xE5, CHR 0x88, CHR 0xB0, CHR 0xE7, CHR 0xAB,
      CHR 0x99, CHR 0xE5, CHR 0x86, CHR 0x85, CHR 0xE4, CHR 0xBF, CHR 0xA1]"

definition defaultTriggers :: "gotime \<Rightarrow> Trigger list" where
  "defaultTriggers now =
     [inbox_trigger now ''trg_skill_completed'' (''Skill Completed'' @ tgz_to_inbox) tgz_skill_done EventOnSkillCompleted
        ''execution_result-zh-CN'',
      inbox_trigger now ''trg_skill_failed'' (''Skill Failed'' @ tgz_to_inbox) tgz_skill_failed EventOnSkillFailed
        ''execution_result-zh-CN'',
      inbox_trigger now ''trg_approval_requested'' (''Approval Requested'' @ tgz_to_inbox) tgz_approval EventOnApprovalRequested
        ''approval-zh-CN'',
      inbox_trigger now ''trg_execution_completed'' (''Execution Completed'' @ tgz_to_inbox) tgz_exec_done EventOnExecutionCompleted
        ''execution_result-zh-CN'',
      inbox_trigger now ''trg_execution_failed'' (''Execution Failed'' @ tgz_to_inbox) tgz_exec_failed EventOnExecutionFailed
        ''execution_result-zh-CN'',
      inbox_trigger now ''trg_session_closed'' (''Session Closed'' @ tgz_to_inbox) tgz_closed EventOnSessionClosed []]"

definition seedDefaults :: "gotime \<Rightarrow> TriggerManager \<Rightarrow> TriggerManager" where
  "seedDefaults now m = m\<lparr>tr_triggers := foldl (\<lambda>ts t. ts(tg_ID t \<mapsto> t)) (tr_triggers m) (defaultTriggers now)\<rparr>"

definition trg_NewManager :: "gotime \<Rightarrow> TriggerManager" where
  "trg_NewManager now = seedDefaults now \<lparr>tr_triggers = Map.empty\<rparr>"

section \<open>Lists\<close>

definition trigger_listed :: "ListFilter \<Rightarrow> Trigger \<Rightarrow> bool" where
  "trigger_listed f t \<longleftrightarrow>
     (lf_TenantID f = [] \<or> tg_TenantID t = lf_TenantID f) \<and>
     (lf_EventType f = [] \<or> tg_EventType t = lf_EventType f) \<and>
     (case lf_Enabled f of None \<Rightarrow> True | Some b \<Rightarrow> tg_Enabled t = b)"

text \<open>The end of a list: an offset beyond it gives the empty list, and Go's slice expression panics when
  its bounds are out of range.\<close>

definition slice_page :: "int \<Rightarrow> int \<Rightarrow> 'a list \<Rightarrow> trigger_error + 'a list" where
  "slice_page offset limit out =
     (if offset \<ge> int (length out) then Inr []
      else
        (let end0 = to_int64 (offset + limit);
             end1 = (if end0 > int (length out) then int (length out) else end0)
         in if offset < 0 \<or> end1 < offset then Inl SliceOutOfRange
            else Inr (take (nat (end1 - offset)) (drop (nat offset) out))))"

definition listMem :: "string list \<Rightarrow> ListFilter \<Rightarrow> TriggerManager \<Rightarrow> trigger_error + Trigger list" where
  "listMem order f m =
     slice_page (lf_Offset f) (lf_Limit f)
       (slice_stable (\<lambda>a b. tg_ID a < tg_ID b) (filter (trigger_listed f) (List.map_filter (tr_triggers m) order)))"

definition trg_List :: "string list \<Rightarrow> ListFilter \<Rightarrow> TriggerManager \<Rightarrow> trigger_error + Trigger list" where
  "trg_List order f m = listMem order (if lf_Limit f \<le> 0 then f\<lparr>lf_Limit := 100\<rparr> else f) m"

definition getMem :: "string \<Rightarrow> TriggerManager \<Rightarrow> trigger_error + Trigger" where
  "getMem tid m = (case tr_triggers m tid of None \<Rightarrow> Inl ErrTriggerNotFound | Some t \<Rightarrow> Inr t)"

section \<open>Changes\<close>

definition upsertMem :: "Trigger \<Rightarrow> TriggerManager \<Rightarrow> (trigger_error + Trigger) \<times> TriggerManager" where
  "upsertMem t m = (Inr t, m\<lparr>tr_triggers := (tr_triggers m)(tg_ID t \<mapsto> t)\<rparr>)"

text \<open>\<open>uuid\<close> is the text of a new identifier.\<close>

definition trg_Upsert ::
  "gotime \<Rightarrow> string \<Rightarrow> Trigger \<Rightarrow> TriggerManager \<Rightarrow> (trigger_error + Trigger) \<times> TriggerManager" where
  "trg_Upsert now uuid t0 m =
     (let t = t0\<lparr>tg_ID := (if TrimSpace (tg_ID t0) = [] then ''trg_'' @ uuid else tg_ID t0),
                 tg_TenantID := (if TrimSpace (tg_TenantID t0) = [] then ''default'' else tg_TenantID t0),
                 tg_ChannelID := TrimSpace (tg_ChannelID t0)\<rparr>
      in if tg_ChannelID t = [] then (Inl ErrChannelIDRequired, m)
         else upsertMem (t\<lparr>tg_AutomationJobID := TrimSpace (tg_AutomationJobID t), tg_Governance := TrimSpace (tg_Governance t),
                tg_FilterExpr := TrimSpace (tg_FilterExpr t), tg_TargetAudience := TrimSpace (tg_TargetAudience t),
                tg_UpdatedAt := now,
                tg_CreatedAt := (if IsZero (tg_CreatedAt t) then now else tg_CreatedAt t)\<rparr>) m)"

definition trg_SetEnabled ::
  "gotime \<Rightarrow> string \<Rightarrow> string \<Rightarrow> bool \<Rightarrow> TriggerManager \<Rightarrow> (trigger_error + Trigger) \<times> TriggerManager" where
  "trg_SetEnabled now uuid tid enabled m =
     (case getMem tid m of
        Inl err \<Rightarrow> (Inl err, m)
      | Inr t \<Rightarrow> trg_Upsert now uuid (t\<lparr>tg_Enabled := enabled, tg_UpdatedAt := now\<rparr>) m)"

definition RecordFired :: "gotime \<Rightarrow> string \<Rightarrow> TriggerManager \<Rightarrow> TriggerManager" where
  "RecordFired now tid m =
     (case tr_triggers m tid of
        None \<Rightarrow> m
      | Some t \<Rightarrow> m\<lparr>tr_triggers := (tr_triggers m)(tid \<mapsto> t\<lparr>tg_LastFiredAt := now\<rparr>)\<rparr>)"

definition IsOnCooldown :: "Trigger \<Rightarrow> gotime \<Rightarrow> bool" where
  "IsOnCooldown t now =
     (if tg_CooldownSec t \<le> 0 \<or> IsZero (tg_LastFiredAt t) then False
      else now < tg_LastFiredAt t + to_int64 (tg_CooldownSec t * Second))"

definition IsDirectDeliveryChannelKind :: "string \<Rightarrow> bool" where
  "IsDirectDeliveryChannelKind value \<longleftrightarrow> TrimSpace value \<in> {''telegram'', ''in_app_inbox''}"

section \<open>Filters\<close>

definition str_at :: "strmap \<Rightarrow> string \<Rightarrow> string" where
  "str_at data k = (case map_of data k of None \<Rightarrow> [] | Some v \<Rightarrow> v)"

definition quote :: char where "quote = CHR 0x27"

definition key_char :: "char \<Rightarrow> bool" where
  "key_char c \<longleftrightarrow> c \<in> set ''ABCDEFGHIJKLMNOPQRSTUVWXYZabcdefghijklmnopqrstuvwxyz0123456789_.-''"

text \<open>The class \<^verbatim>\<open>\s\<close>.\<close>

definition re_space :: "char \<Rightarrow> bool" where
  "re_space c \<longleftrightarrow> c \<in> {CHR 0x09, CHR 0x0A, CHR 0x0C, CHR 0x0D, CHR 0x20}"

definition filterEqualsPattern :: "string \<Rightarrow> (string \<times> string \<times> string) option" where
  "filterEqualsPattern s =
     (let key = takeWhile key_char s;
          r = dropWhile re_space (dropWhile key_char s);
          q = dropWhile re_space (drop 2 r)
      in if key \<noteq> [] \<and> take 2 r \<in> {''=='', ''!=''} \<and> q \<noteq> [] \<and> hd q = quote \<and> tl q \<noteq> [] \<and> last (tl q) = quote \<and>
            quote \<notin> set (butlast (tl q))
         then Some (key, take 2 r, butlast (tl q)) else None)"

definition filterInPattern :: "string \<Rightarrow> (string \<times> string) option" where
  "filterInPattern s =
     (let key = takeWhile key_char s;
          r = dropWhile key_char s;
          w = dropWhile re_space r;
          r2 = drop 2 w;
          q = dropWhile re_space r2
      in if key \<noteq> [] \<and> r \<noteq> [] \<and> re_space (hd r) \<and> take 2 w = ''in'' \<and> r2 \<noteq> [] \<and> re_space (hd r2) \<and>
            q \<noteq> [] \<and> hd q = CHR 0x5B \<and> tl q \<noteq> [] \<and> last (tl q) = CHR 0x5D \<and> CHR 0x0A \<notin> set (butlast (tl q))
         then Some (key, butlast (tl q)) else None)"

fun quoted_items :: "string list \<Rightarrow> trigger_error + string list" where
  "quoted_items [] = Inr []"
| "quoted_items (part # parts) =
     (let item = TrimSpace part in
      if length item < 2 \<or> \<not> HasPrefix item [quote] \<or> \<not> HasSuffix item [quote] then Inl (ErrInvalidListItem item)
      else (case quoted_items parts of Inl err \<Rightarrow> Inl err | Inr out \<Rightarrow> Inr (take (length item - 2) (drop 1 item) # out)))"

definition parseQuotedList :: "string \<Rightarrow> trigger_error + string list" where
  "parseQuotedList value = quoted_items (split_char (CHR '','') value)"

definition evalFilterExpr :: "string \<Rightarrow> strmap \<Rightarrow> trigger_error + bool" where
  "evalFilterExpr expr data =
     (let trimmed = TrimSpace expr in
      if trimmed = [] then Inr True
      else
        (case filterEqualsPattern trimmed of
           Some (key, op, want) \<Rightarrow>
             Inr (if op = ''=='' then TrimSpace (str_at data key) = want else TrimSpace (str_at data key) \<noteq> want)
         | None \<Rightarrow>
             (case filterInPattern trimmed of
                Some (key, body) \<Rightarrow>
                  (case parseQuotedList body of
                     Inl err \<Rightarrow> Inl err
                   | Inr values \<Rightarrow> Inr (TrimSpace (str_at data key) \<in> set values))
              | None \<Rightarrow> Inl (ErrUnsupportedFilter expr))))"

section \<open>Matching\<close>

definition matchRuntimeRequest :: "Trigger \<Rightarrow> MatchRequest \<Rightarrow> trigger_error + bool" where
  "matchRuntimeRequest t req =
     (let audience = TrimSpace (tg_TargetAudience t);
          incoming = (if TrimSpace (mq_TargetAudience req) = [] then TrimSpace (str_at (mq_EventData req) ''target_audience'')
                      else TrimSpace (mq_TargetAudience req));
          expr = TrimSpace (tg_FilterExpr t)
      in if audience \<noteq> [] \<and> (incoming = [] \<or> incoming \<noteq> audience) then Inr False
         else if expr \<noteq> [] then evalFilterExpr expr (mq_EventData req)
         else Inr True)"

text \<open>The arguments of \<^verbatim>\<open>MatchEnabled\<close> are values of any type.\<close>

datatype match_arg = MRequest MatchRequest | MString string | MOther

fun parseMatchRequest :: "match_arg list \<Rightarrow> trigger_error + MatchRequest" where
  "parseMatchRequest [MRequest req] = Inr req"
| "parseMatchRequest [MString tenantID, MString eventType] =
     Inr \<lparr>mq_TenantID = tenantID, mq_EventType = eventType, mq_TargetAudience = [], mq_EventData = []\<rparr>"
| "parseMatchRequest args = Inl ErrMatchArgument"

definition MatchEnabled :: "string list \<Rightarrow> match_arg list \<Rightarrow> TriggerManager \<Rightarrow> trigger_error + Trigger list" where
  "MatchEnabled order args m =
     (case parseMatchRequest args of
        Inl err \<Rightarrow> Inl err
      | Inr req0 \<Rightarrow>
          (let req = (if TrimSpace (mq_TenantID req0) = [] then req0\<lparr>mq_TenantID := ''default''\<rparr> else req0) in
           case trg_List order \<lparr>lf_TenantID = mq_TenantID req, lf_EventType = mq_EventType req, lf_Enabled = Some True,
                  lf_Limit = 100, lf_Offset = 0\<rparr> m of
             Inl err \<Rightarrow> Inl err
           | Inr matched \<Rightarrow> Inr (filter (\<lambda>t. matchRuntimeRequest t req = Inr True) matched)))"

end
