(* ===== verification/Templates.thy ===== *)
theory Templates
  imports Contracts
begin

text \<open>
  Message templates, \<^verbatim>\<open>internal/modules/msgtpl/manager.go\<close>, with the store in memory (no database is
  configured).  The texts of the default templates that are not ASCII are lists of their UTF-8 bytes.

  \<^verbatim>\<open>strings.NewReplacer\<close> scans a text once from the left; at each position the first pair, in argument
  order, whose old text stands there is applied.  The pairs come from ranging over a map, so their
  order \<open>ks\<close> is an argument.
\<close>

section \<open>Data\<close>

record TemplateContent =
  tc_Subject :: string
  tc_Body :: string

record NotificationTemplate =
  nt_ID :: string
  nt_Kind :: string
  nt_Locale :: string
  nt_Name :: string
  nt_Status :: string
  nt_Enabled :: bool
  nt_VariableSchema :: strmap
  nt_UsageRefs :: "string list"
  nt_Content :: TemplateContent
  nt_UpdatedAt :: gotime

datatype template_error =
    ErrTemplateNotFound
  | ErrInvalidKind string
  | ErrInvalidLocale string
  | ErrNameRequired

definition ValidKinds :: "string list" where
  "ValidKinds = [''diagnosis'', ''approval'', ''execution_result'']"

definition ValidLocales :: "string list" where
  "ValidLocales = [''zh-CN'', ''en-US'']"

record TemplateManager =
  tm_templates :: "string \<rightharpoonup> NotificationTemplate"

section \<open>Rendering\<close>

definition buildReplacerPairs :: "string list \<Rightarrow> strmap \<Rightarrow> (string \<times> string) list" where
  "buildReplacerPairs ks data =
     List.map_filter (\<lambda>k. map_option (\<lambda>v. (''{{'' @ k @ ''}}'', v)) (map_of data k)) ks"

function replacer :: "(string \<times> string) list \<Rightarrow> string \<Rightarrow> string" where
  "replacer pairs [] = []"
| "replacer pairs (c # cs) =
     (case find (\<lambda>p. fst p \<noteq> [] \<and> HasPrefix (c # cs) (fst p)) pairs of
        Some (old, new) \<Rightarrow> new @ replacer pairs (drop (max 1 (length old)) (c # cs))
      | None \<Rightarrow> c # replacer pairs cs)"
  by pat_completeness auto
termination
  by (relation "measure (\<lambda>(pairs, s). length s)") auto

definition Render :: "string list \<Rightarrow> strmap \<Rightarrow> NotificationTemplate \<Rightarrow> string \<times> string" where
  "Render ks data t =
     (let replace = replacer (buildReplacerPairs ks data)
      in (replace (tc_Subject (nt_Content t)), replace (tc_Body (nt_Content t))))"

section \<open>Default templates\<close>

definition diagnosis_zh :: "gotime \<Rightarrow> NotificationTemplate" where
  "diagnosis_zh now = \<lparr>nt_ID = ''diagnosis-zh-CN'', nt_Kind = ''diagnosis'', nt_Locale = ''zh-CN'', nt_Name = [CHR 0xE8, CHR 0xAF, CHR 0x8A, CHR 0xE6, CHR 0x96, CHR 0xAD, CHR 0xE6, CHR 0x8A,
      CHR 0xA5, CHR 0xE5, CHR 0x91, CHR 0x8A, CHR 0xEF, CHR 0xBC, CHR 0x88, CHR 0xE4,
      CHR 0xB8, CHR 0xAD, CHR 0xE6, CHR 0x96, CHR 0x87, CHR 0xEF, CHR 0xBC, CHR 0x89],
     nt_Status = [], nt_Enabled = True, nt_VariableSchema = [], nt_UsageRefs = [],
     nt_Content = \<lparr>tc_Subject = ''{{AlertIcon}} '' @ [CHR 0xE5, CHR 0x91, CHR 0x8A, CHR 0xE8, CHR 0xAD, CHR 0xA6, CHR 0xE8, CHR 0xAF,
      CHR 0x8A, CHR 0xE6, CHR 0x96, CHR 0xAD, CHR 0xEF, CHR 0xBC, CHR 0x9A] @ ''{{AlertName}}'',
       tc_Body = ''**'' @ [CHR 0xE5, CHR 0x91, CHR 0x8A, CHR 0xE8, CHR 0xAD, CHR 0xA6, CHR 0xE8, CHR 0xAF,
      CHR 0x8A, CHR 0xE6, CHR 0x96, CHR 0xAD, CHR 0xE6, CHR 0x8A, CHR 0xA5, CHR 0xE5,
      CHR 0x91, CHR 0x8A] @ ''**'' @ [CHR 0x0A, CHR 0xE7, CHR 0x9B, CHR 0xAE, CHR 0xE6, CHR 0xA0, CHR 0x87, CHR 0xE4,
      CHR 0xB8, CHR 0x8A, CHR 0xE4, CHR 0xB8, CHR 0x8B, CHR 0xE6, CHR 0x96, CHR 0x87,
      CHR 0xEF, CHR 0xBC, CHR 0x9A] @ ''{{TargetContext}}'' @ [CHR 0x0A, CHR 0xE6, CHR 0x91, CHR 0x98, CHR 0xE8, CHR 0xA6, CHR 0x81, CHR 0xEF,
      CHR 0xBC, CHR 0x9A] @ ''{{Summary}}'' @ [CHR 0x0A, CHR 0xE5, CHR 0xBB, CHR 0xBA, CHR 0xE8, CHR 0xAE, CHR 0xAE, CHR 0xEF,
      CHR 0xBC, CHR 0x9A] @ ''{{Recommendation}}'' @ [CHR 0x0A, CHR 0xE5, CHR 0x8F, CHR 0x82, CHR 0xE8, CHR 0x80, CHR 0x83, CHR 0xEF,
      CHR 0xBC, CHR 0x9A] @ ''{{Citations}}'' @ [CHR 0x0A, CHR 0xE4, CHR 0xBC, CHR 0x9A, CHR 0xE8, CHR 0xAF, CHR 0x9D] @ ''ID'' @ [CHR 0xEF, CHR 0xBC, CHR 0x9A] @ ''{{SessionID}}''\<rparr>, nt_UpdatedAt = now\<rparr>"

definition diagnosis_en :: "gotime \<Rightarrow> NotificationTemplate" where
  "diagnosis_en now = \<lparr>nt_ID = ''diagnosis-en-US'', nt_Kind = ''diagnosis'', nt_Locale = ''en-US'', nt_Name = ''Diagnosis Report (English)'',
     nt_Status = [], nt_Enabled = True, nt_VariableSchema = [], nt_UsageRefs = [],
     nt_Content = \<lparr>tc_Subject = ''{{AlertIcon}} Alert Diagnosis: {{AlertName}}'',
       tc_Body = ''**Alert Diagnosis Report**'' @ [CHR 0x0A] @ ''Target: {{TargetContext}}'' @ [CHR 0x0A] @ ''Summary: {{Summary}}'' @ [CHR 0x0A] @ ''Recommendation: {{Recommendation}}'' @ [CHR 0x0A] @ ''Citations: {{Citations}}'' @ [CHR 0x0A] @ ''Session: {{SessionID}}''\<rparr>, nt_UpdatedAt = now\<rparr>"

definition approval_zh :: "gotime \<Rightarrow> NotificationTemplate" where
  "approval_zh now = \<lparr>nt_ID = ''approval-zh-CN'', nt_Kind = ''approval'', nt_Locale = ''zh-CN'', nt_Name = [CHR 0xE6, CHR 0x89, CHR 0xA7, CHR 0xE8, CHR 0xA1, CHR 0x8C, CHR 0xE5, CHR 0xAE,
      CHR 0xA1, CHR 0xE6, CHR 0x89, CHR 0xB9, CHR 0xEF, CHR 0xBC, CHR 0x88, CHR 0xE4,
      CHR 0xB8, CHR 0xAD, CHR 0xE6, CHR 0x96, CHR 0x87, CHR 0xEF, CHR 0xBC, CHR 0x89],
     nt_Status = [], nt_Enabled = True, nt_VariableSchema = [], nt_UsageRefs = [],
     nt_Content = \<lparr>tc_Subject = [CHR 0xE5, CHR 0xBE, CHR 0x85, CHR 0xE5, CHR 0xAE, CHR 0xA1, CHR 0xE6, CHR 0x89,
      CHR 0xB9, CHR 0xEF, CHR 0xBC, CHR 0x9A, CHR 0xE6, CHR 0x89, CHR 0xA7, CHR 0xE8,
      CHR 0xA1, CHR 0x8C] @ '' {{Command}} '' @ [CHR 0xE4, CHR 0xBA, CHR 0x8E] @ '' {{TargetHost}}'',
       tc_Body = ''**'' @ [CHR 0xE6, CHR 0x89, CHR 0xA7, CHR 0xE8, CHR 0xA1, CHR 0x8C, CHR 0xE5, CHR 0xAE,
      CHR 0xA1, CHR 0xE6, CHR 0x89, CHR 0xB9, CHR 0xE8, CHR 0xAF, CHR 0xB7, CHR 0xE6,
      CHR 0xB1, CHR 0x82] @ ''**'' @ [CHR 0x0A, CHR 0xE6, CHR 0x89, CHR 0xA7, CHR 0xE8, CHR 0xA1, CHR 0x8C] @ ''ID'' @ [CHR 0xEF, CHR 0xBC, CHR 0x9A] @ ''{{ExecutionID}}'' @ [CHR 0x0A, CHR 0xE7, CHR 0x9B, CHR 0xAE, CHR 0xE6, CHR 0xA0, CHR 0x87, CHR 0xE4,
      CHR 0xB8, CHR 0xBB, CHR 0xE6, CHR 0x9C, CHR 0xBA, CHR 0xEF, CHR 0xBC, CHR 0x9A] @ ''{{TargetHost}}'' @ [CHR 0x0A, CHR 0xE9, CHR 0xA3, CHR 0x8E, CHR 0xE9, CHR 0x99, CHR 0xA9, CHR 0xE7,
      CHR 0xAD, CHR 0x89, CHR 0xE7, CHR 0xBA, CHR 0xA7, CHR 0xEF, CHR 0xBC, CHR 0x9A] @ ''{{RiskLevel}}'' @ [CHR 0x0A, CHR 0xE5, CHR 0x91, CHR 0xBD, CHR 0xE4, CHR 0xBB, CHR 0xA4, CHR 0xEF,
      CHR 0xBC, CHR 0x9A] @ ''{{Command}}'' @ [CHR 0x0A, CHR 0xE5, CHR 0xAE, CHR 0xA1, CHR 0xE6, CHR 0x89, CHR 0xB9, CHR 0xE6,
      CHR 0x9D, CHR 0xA5, CHR 0xE6, CHR 0xBA, CHR 0x90, CHR 0xEF, CHR 0xBC, CHR 0x9A] @ ''{{ApprovalSource}}'' @ [CHR 0x0A, CHR 0xE8, CHR 0xB6, CHR 0x85, CHR 0xE6, CHR 0x97, CHR 0xB6, CHR 0xEF,
      CHR 0xBC, CHR 0x9A] @ ''{{Timeout}}'' @ [CHR 0x0A, CHR 0xE4, CHR 0xBC, CHR 0x9A, CHR 0xE8, CHR 0xAF, CHR 0x9D] @ ''ID'' @ [CHR 0xEF, CHR 0xBC, CHR 0x9A] @ ''{{SessionID}}''\<rparr>, nt_UpdatedAt = now\<rparr>"

definition approval_en :: "gotime \<Rightarrow> NotificationTemplate" where
  "approval_en now = \<lparr>nt_ID = ''approval-en-US'', nt_Kind = ''approval'', nt_Locale = ''en-US'', nt_Name = ''Execution Approval (English)'',
     nt_Status = [], nt_Enabled = True, nt_VariableSchema = [], nt_UsageRefs = [],
     nt_Content = \<lparr>tc_Subject = ''Approval Required: Execute {{Command}} on {{TargetHost}}'',
       tc_Body = ''**Execution Approval Request**'' @ [CHR 0x0A] @ ''Execution ID: {{ExecutionID}}'' @ [CHR 0x0A] @ ''Target Host: {{TargetHost}}'' @ [CHR 0x0A] @ ''Risk Level: {{RiskLevel}}'' @ [CHR 0x0A] @ ''Command: {{Command}}'' @ [CHR 0x0A] @ ''Approval Source: {{ApprovalSource}}'' @ [CHR 0x0A] @ ''Timeout: {{Timeout}}'' @ [CHR 0x0A] @ ''Session: {{SessionID}}''\<rparr>, nt_UpdatedAt = now\<rparr>"

definition result_zh :: "gotime \<Rightarrow> NotificationTemplate" where
  "result_zh now = \<lparr>nt_ID = ''execution_result-zh-CN'', nt_Kind = ''execution_result'', nt_Locale = ''zh-CN'', nt_Name = [CHR 0xE6, CHR 0x89, CHR 0xA7, CHR 0xE8, CHR 0xA1, CHR 0x8C, CHR 0xE7, CHR 0xBB,
      CHR 0x93, CHR 0xE6, CHR 0x9E, CHR 0x9C, CHR 0xEF, CHR 0xBC, CHR 0x88, CHR 0xE4,
      CHR 0xB8, CHR 0xAD, CHR 0xE6, CHR 0x96, CHR 0x87, CHR 0xEF, CHR 0xBC, CHR 0x89],
     nt_Status = [], nt_Enabled = True, nt_VariableSchema = [], nt_UsageRefs = [],
     nt_Content = \<lparr>tc_Subject = [CHR 0xE6, CHR 0x89, CHR 0xA7, CHR 0xE8, CHR 0xA1, CHR 0x8C, CHR 0xE7, CHR 0xBB,
      CHR 0x93, CHR 0xE6, CHR 0x9E, CHR 0x9C, CHR 0xEF, CHR 0xBC, CHR 0x9A] @ ''{{ExecutionStatus}} - {{TargetHost}}'',
       tc_Body = ''**'' @ [CHR 0xE6, CHR 0x89, CHR 0xA7, CHR 0xE8, CHR 0xA1, CHR 0x8C, CHR 0xE7, CHR 0xBB,
      CHR 0x93, CHR 0xE6, CHR 0x9E, CHR 0x9C] @ ''**'' @ [CHR 0x0A, CHR 0xE7, CHR 0x9B, CHR 0xAE, CHR 0xE6, CHR 0xA0, CHR 0x87, CHR 0xE4,
      CHR 0xB8, CHR 0xBB, CHR 0xE6, CHR 0x9C, CHR 0xBA, CHR 0xEF, CHR 0xBC, CHR 0x9A] @ ''{{TargetHost}}'' @ [CHR 0x0A, CHR 0xE9, CHR 0x80, CHR 0x80, CHR 0xE5, CHR 0x87, CHR 0xBA, CHR 0xE7,
      CHR 0xA0, CHR 0x81, CHR 0xEF, CHR 0xBC, CHR 0x9A] @ ''{{ExitCode}}'' @ [CHR 0x0A, CHR 0xE8, CHR 0xBE, CHR 0x93, CHR 0xE5, CHR 0x87, CHR 0xBA, CHR 0xE9,
      CHR 0xA2, CHR 0x84, CHR 0xE8, CHR 0xA7, CHR 0x88, CHR 0xEF, CHR 0xBC, CHR 0x9A] @ ''{{OutputPreview}}{{TruncationFlag}}'' @ [CHR 0x0A] @ ''{{ActionTip}}'' @ [CHR 0x0A, CHR 0xE4, CHR 0xBC, CHR 0x9A, CHR 0xE8, CHR 0xAF, CHR 0x9D] @ ''ID'' @ [CHR 0xEF, CHR 0xBC, CHR 0x9A] @ ''{{SessionID}}''\<rparr>, nt_UpdatedAt = now\<rparr>"

definition result_en :: "gotime \<Rightarrow> NotificationTemplate" where
  "result_en now = \<lparr>nt_ID = ''execution_result-en-US'', nt_Kind = ''execution_result'', nt_Locale = ''en-US'', nt_Name = ''Execution Result (English)'',
     nt_Status = [], nt_Enabled = True, nt_VariableSchema = [], nt_UsageRefs = [],
     nt_Content = \<lparr>tc_Subject = ''Execution Result: {{ExecutionStatus}} - {{TargetHost}}'',
       tc_Body = ''**Execution Result**'' @ [CHR 0x0A] @ ''Target Host: {{TargetHost}}'' @ [CHR 0x0A] @ ''Exit Code: {{ExitCode}}'' @ [CHR 0x0A] @ ''Output: {{OutputPreview}}{{TruncationFlag}}'' @ [CHR 0x0A] @ ''{{ActionTip}}'' @ [CHR 0x0A] @ ''Session: {{SessionID}}''\<rparr>, nt_UpdatedAt = now\<rparr>"

definition defaultTemplates :: "gotime \<Rightarrow> NotificationTemplate list" where
  "defaultTemplates now = [diagnosis_zh now, diagnosis_en now, approval_zh now, approval_en now, result_zh now, result_en now]"

section \<open>The manager\<close>

definition tpl_NewManager :: "gotime \<Rightarrow> TemplateManager" where
  "tpl_NewManager now = \<lparr>tm_templates = foldl (\<lambda>ts t. ts(nt_ID t \<mapsto> t)) Map.empty (defaultTemplates now)\<rparr>"

definition sortTemplates :: "NotificationTemplate list \<Rightarrow> NotificationTemplate list" where
  "sortTemplates items = slice_stable (\<lambda>a b. nt_ID a < nt_ID b) items"

definition tpl_List :: "string list \<Rightarrow> TemplateManager \<Rightarrow> NotificationTemplate list" where
  "tpl_List order m = sortTemplates (List.map_filter (tm_templates m) order)"

definition tpl_Get :: "string \<Rightarrow> TemplateManager \<Rightarrow> NotificationTemplate option" where
  "tpl_Get tid m = tm_templates m tid"

definition tpl_validate :: "NotificationTemplate \<Rightarrow> template_error option" where
  "tpl_validate t =
     (if nt_Kind t \<notin> set ValidKinds then Some (ErrInvalidKind (nt_Kind t))
      else if nt_Locale t \<notin> set ValidLocales then Some (ErrInvalidLocale (nt_Locale t))
      else if TrimSpace (nt_Name t) = [] then Some ErrNameRequired
      else None)"

definition tpl_dedupeStrings :: "string list \<Rightarrow> string list" where
  "tpl_dedupeStrings values = dedupe_by (\<lambda>x. x) [] (map TrimSpace values)"

fun tpl_firstNonEmpty :: "string list \<Rightarrow> string" where
  "tpl_firstNonEmpty [] = []"
| "tpl_firstNonEmpty (v # vs) = (if TrimSpace v \<noteq> [] then TrimSpace v else tpl_firstNonEmpty vs)"

definition statusFromEnabled :: "bool \<Rightarrow> string" where
  "statusFromEnabled enabled = (if enabled then ''active'' else ''disabled'')"

definition enabledFromStatus :: "string \<Rightarrow> bool \<Rightarrow> bool" where
  "enabledFromStatus status fallback =
     (if TrimSpace status \<in> {''active'', ''enabled''} then True
      else if TrimSpace status \<in> {''disabled'', ''inactive''} then False
      else fallback)"

definition tpl_normal :: "gotime \<Rightarrow> NotificationTemplate \<Rightarrow> NotificationTemplate" where
  "tpl_normal now t =
     (let status = tpl_firstNonEmpty [TrimSpace (nt_Status t), statusFromEnabled (nt_Enabled t)]
      in t\<lparr>nt_ID := (if TrimSpace (nt_ID t) = [] then nt_Kind t @ ''-'' @ nt_Locale t else nt_ID t),
           nt_Status := status, nt_Enabled := enabledFromStatus status (nt_Enabled t),
           nt_UsageRefs := tpl_dedupeStrings (nt_UsageRefs t), nt_UpdatedAt := now\<rparr>)"

definition tpl_Upsert ::
  "gotime \<Rightarrow> NotificationTemplate \<Rightarrow> TemplateManager \<Rightarrow> (template_error + NotificationTemplate) \<times> TemplateManager" where
  "tpl_Upsert now t m =
     (case tpl_validate t of
        Some err \<Rightarrow> (Inl err, m)
      | None \<Rightarrow> (Inr (tpl_normal now t),
                 m\<lparr>tm_templates := (tm_templates m)(nt_ID (tpl_normal now t) \<mapsto> tpl_normal now t)\<rparr>))"

definition tpl_SetEnabled ::
  "gotime \<Rightarrow> string \<Rightarrow> bool \<Rightarrow> TemplateManager \<Rightarrow> (template_error + NotificationTemplate) \<times> TemplateManager" where
  "tpl_SetEnabled now tid enabled m =
     (case tpl_Get tid m of
        None \<Rightarrow> (Inl ErrTemplateNotFound, m)
      | Some t \<Rightarrow> tpl_Upsert now (t\<lparr>nt_Enabled := enabled, nt_Status := statusFromEnabled enabled, nt_UpdatedAt := now\<rparr>) m)"

end
