(* ===== verification/Trigger_Worker.thy ===== *)
theory Trigger_Worker
  imports Triggers Templates Access_Directory
begin

text \<open>
  The worker that fires triggers, \<^verbatim>\<open>internal/events/trigger_worker.go\<close>: it matches an event with the triggers,
  renders the template of each match, resolves the channel in the directory of the access module and
  sends a message.  The channel service is the argument \<open>send\<close>: \<open>send k msg\<close> is the error of the \<open>k\<close>-th
  message of the event, if any.  \<open>tw_\<close> marks functions whose Go name is also used by another package;
  logging is left out.
\<close>

section \<open>Texts\<close>

definition twz_approval :: string where "twz_approval = [CHR 0xE5, CHR 0xAE, CHR 0xA1, CHR 0xE6, CHR 0x89, CHR 0xB9, CHR 0xE8, CHR 0xAF,
      CHR 0xB7, CHR 0xE6, CHR 0xB1, CHR 0x82]"
definition twz_exec_done :: string where "twz_exec_done = [CHR 0xE5, CHR 0x91, CHR 0xBD, CHR 0xE4, CHR 0xBB, CHR 0xA4, CHR 0xE6, CHR 0x89,
      CHR 0xA7, CHR 0xE8, CHR 0xA1, CHR 0x8C, CHR 0xE5, CHR 0xAE, CHR 0x8C, CHR 0xE6,
      CHR 0x88, CHR 0x90]"
definition twz_exec_failed :: string where "twz_exec_failed = [CHR 0xE5, CHR 0x91, CHR 0xBD, CHR 0xE4, CHR 0xBB, CHR 0xA4, CHR 0xE6, CHR 0x89,
      CHR 0xA7, CHR 0xE8, CHR 0xA1, CHR 0x8C, CHR 0xE5, CHR 0xA4, CHR 0xB1, CHR 0xE8,
      CHR 0xB4, CHR 0xA5]"
definition twz_session :: string where "twz_session = [CHR 0xE4, CHR 0xBC, CHR 0x9A, CHR 0xE8, CHR 0xAF, CHR 0x9D, CHR 0x20]"
definition twz_closed :: string where "twz_closed = [CHR 0x20, CHR 0xE5, CHR 0xB7, CHR 0xB2, CHR 0xE5, CHR 0x85, CHR 0xB3, CHR 0xE9,
      CHR 0x97, CHR 0xAD, CHR 0xE3, CHR 0x80, CHR 0x82]"
definition twz_session_closed :: string where "twz_session_closed = [CHR 0xE4, CHR 0xBC, CHR 0x9A, CHR 0xE8, CHR 0xAF, CHR 0x9D, CHR 0xE5, CHR 0xB7,
      CHR 0xB2, CHR 0xE5, CHR 0x85, CHR 0xB3, CHR 0xE9, CHR 0x97, CHR 0xAD]"
definition twz_skill_done :: string where "twz_skill_done = [CHR 0x53, CHR 0x6B, CHR 0x69, CHR 0x6C, CHR 0x6C, CHR 0x20, CHR 0xE6, CHR 0x89,
      CHR 0xA7, CHR 0xE8, CHR 0xA1, CHR 0x8C, CHR 0xE5, CHR 0xAE, CHR 0x8C, CHR 0xE6,
      CHR 0x88, CHR 0x90]"
definition twz_skill_failed :: string where "twz_skill_failed = [CHR 0x53, CHR 0x6B, CHR 0x69, CHR 0x6C, CHR 0x6C, CHR 0x20, CHR 0xE6, CHR 0x89,
      CHR 0xA7, CHR 0xE8, CHR 0xA1, CHR 0x8C, CHR 0xE5, CHR 0xA4, CHR 0xB1, CHR 0xE8,
      CHR 0xB4, CHR 0xA5]"
definition twz_done :: string where "twz_done = [CHR 0xE5, CHR 0xAE, CHR 0x8C, CHR 0xE6, CHR 0x88, CHR 0x90]"
definition twz_failed :: string where "twz_failed = [CHR 0xE5, CHR 0xA4, CHR 0xB1, CHR 0xE8, CHR 0xB4, CHR 0xA5]"
definition twz_timeout :: string where "twz_timeout = [CHR 0xE8, CHR 0xB6, CHR 0x85, CHR 0xE6, CHR 0x97, CHR 0xB6]"
definition twz_rejected :: string where "twz_rejected = [CHR 0xE5, CHR 0xB7, CHR 0xB2, CHR 0xE6, CHR 0x8B, CHR 0x92, CHR 0xE7, CHR 0xBB,
      CHR 0x9D]"
definition twz_session_id :: string where "twz_session_id = [CHR 0x0A, CHR 0xE4, CHR 0xBC, CHR 0x9A, CHR 0xE8, CHR 0xAF, CHR 0x9D, CHR 0x49,
      CHR 0x44, CHR 0x3A, CHR 0x20]"
definition twz_host :: string where "twz_host = [CHR 0x0A, CHR 0xE4, CHR 0xB8, CHR 0xBB, CHR 0xE6, CHR 0x9C, CHR 0xBA, CHR 0x3A,
      CHR 0x20]"
definition twz_status :: string where "twz_status = [CHR 0x0A, CHR 0xE7, CHR 0x8A, CHR 0xB6, CHR 0xE6, CHR 0x80, CHR 0x81, CHR 0x3A,
      CHR 0x20]"
definition twz_execution_id :: string where "twz_execution_id = [CHR 0x0A, CHR 0xE6, CHR 0x89, CHR 0xA7, CHR 0xE8, CHR 0xA1, CHR 0x8C, CHR 0x49,
      CHR 0x44, CHR 0x3A, CHR 0x20]"
definition twz_command :: string where "twz_command = [CHR 0x0A, CHR 0xE5, CHR 0x91, CHR 0xBD, CHR 0xE4, CHR 0xBB, CHR 0xA4, CHR 0x3A,
      CHR 0x20]"
definition twz_risk :: string where "twz_risk = [CHR 0x0A, CHR 0xE9, CHR 0xA3, CHR 0x8E, CHR 0xE9, CHR 0x99, CHR 0xA9, CHR 0xE7,
      CHR 0xAD, CHR 0x89, CHR 0xE7, CHR 0xBA, CHR 0xA7, CHR 0x3A, CHR 0x20]"
definition twz_console :: string where "twz_console = [CHR 0x0A, CHR 0xE8, CHR 0xAF, CHR 0xB7, CHR 0xE8, CHR 0xBF, CHR 0x9B, CHR 0xE5,
      CHR 0x85, CHR 0xA5, CHR 0xE6, CHR 0x8E, CHR 0xA7, CHR 0xE5, CHR 0x88, CHR 0xB6,
      CHR 0xE5, CHR 0x8F, CHR 0xB0, CHR 0xE5, CHR 0xAE, CHR 0xA1, CHR 0xE6, CHR 0x89,
      CHR 0xB9, CHR 0xE3, CHR 0x80, CHR 0x82]"
definition twz_execution :: string where "twz_execution = [CHR 0x5B, CHR 0x54, CHR 0x41, CHR 0x52, CHR 0x53, CHR 0x5D, CHR 0x20, CHR 0xE6,
      CHR 0x89, CHR 0xA7, CHR 0xE8, CHR 0xA1, CHR 0x8C]"
definition twz_exit_code :: string where "twz_exit_code = [CHR 0x0A, CHR 0xE9, CHR 0x80, CHR 0x80, CHR 0xE5, CHR 0x87, CHR 0xBA, CHR 0xE7,
      CHR 0xA0, CHR 0x81, CHR 0x3A, CHR 0x20]"

section \<open>Helpers\<close>

definition statusLabel :: "string \<Rightarrow> string" where
  "statusLabel status =
     (if status = ''completed'' then twz_done
      else if status = ''failed'' then twz_failed
      else if status = ''timeout'' then twz_timeout
      else if status = ''rejected'' then twz_rejected
      else [])"

definition humanEventType :: "string \<Rightarrow> string" where
  "humanEventType eventType =
     (if eventType = EventOnSkillCompleted then twz_skill_done
      else if eventType = EventOnSkillFailed then twz_skill_failed
      else if eventType = EventOnExecutionCompleted then twz_exec_done
      else if eventType = EventOnExecutionFailed then twz_exec_failed
      else if eventType = EventOnApprovalRequested then twz_approval
      else if eventType = EventOnSessionClosed then twz_session_closed
      else eventType)"

definition triggerSource :: "string \<Rightarrow> string \<Rightarrow> string" where
  "triggerSource primary def = (if primary \<noteq> [] then primary else def)"

definition put_all :: "strmap \<Rightarrow> strmap \<Rightarrow> strmap" where
  "put_all data items = foldl (\<lambda>d kv. map_put (fst kv) (snd kv) d) data items"

definition buildTriggerEventData :: "FireEvent \<Rightarrow> strmap" where
  "buildTriggerEventData evt =
     put_all [(''event_type'', fe_EventType evt), (''tenant_id'', fe_TenantID evt), (''ref_type'', fe_RefType evt),
       (''ref_id'', fe_RefID evt), (''subject'', fe_Subject evt), (''body'', fe_Body evt), (''source'', fe_Source evt)]
       (fe_TemplateData evt)"

definition buildExecutionTemplateData :: "ExecutionDetail \<Rightarrow> strmap" where
  "buildExecutionTemplateData exec =
     [(''execution_id'', ed_ExecutionID exec), (''session_id'', ed_SessionID exec), (''agent_role_id'', ed_AgentRoleID exec),
      (''request_kind'', ed_RequestKind exec), (''status'', ed_Status exec), (''risk_level'', ed_RiskLevel exec),
      (''command'', ed_Command exec), (''target_host'', ed_TargetHost exec), (''step_id'', ed_StepID exec),
      (''capability_id'', ed_CapabilityID exec), (''connector_id'', ed_ConnectorID exec),
      (''connector_type'', ed_ConnectorType exec), (''connector_vendor'', ed_ConnectorVendor exec),
      (''protocol'', ed_Protocol exec), (''execution_mode'', ed_ExecutionMode exec), (''requested_by'', ed_RequestedBy exec),
      (''approval_group'', ed_ApprovalGroup exec), (''exit_code'', dec_int (ed_ExitCode exec))]"

definition mergeTemplateData :: "strmap list \<Rightarrow> strmap" where
  "mergeTemplateData parts = foldl put_all [] parts"

definition host_or_unknown :: "ExecutionDetail \<Rightarrow> string" where
  "host_or_unknown exec = (if ed_TargetHost exec = [] then ''(unknown)'' else ed_TargetHost exec)"

definition formatSkillEventMessage :: "ExecutionDetail \<Rightarrow> string" where
  "formatSkillEventMessage exec =
     ''[TARS] Skill'' @ statusLabel (ed_Status exec) @ twz_session_id @ ed_ExecutionID exec @ twz_host @
     host_or_unknown exec @ twz_status @ ed_Status exec"

definition tw_formatApprovalMessage :: "ExecutionDetail \<Rightarrow> string" where
  "tw_formatApprovalMessage exec =
     (let cmd = (if length (ed_Command exec) > 120 then take 120 (ed_Command exec) @ ''...'' else ed_Command exec);
          risk = (if ed_RiskLevel exec = [] then ''unknown'' else ed_RiskLevel exec)
      in ''[TARS] '' @ twz_approval @ twz_execution_id @ ed_ExecutionID exec @ twz_host @ host_or_unknown exec @
         twz_command @ cmd @ twz_risk @ risk @ twz_console)"

definition formatExecutionCompletedMessage :: "ExecutionDetail \<Rightarrow> string" where
  "formatExecutionCompletedMessage exec =
     twz_execution @ statusLabel (ed_Status exec) @ twz_execution_id @ ed_ExecutionID exec @ twz_host @
     host_or_unknown exec @ twz_status @ ed_Status exec @ twz_exit_code @ dec_int (ed_ExitCode exec)"

section \<open>Delivery\<close>

definition resolvedTriggerChannel :: "Trigger \<Rightarrow> string" where
  "resolvedTriggerChannel t = (if IsDirectDeliveryChannelKind (tg_ChannelID t) then TrimSpace (tg_ChannelID t) else [])"

definition resolvedTriggerDelivery :: "AccessManager option \<Rightarrow> Trigger \<Rightarrow> string \<times> string" where
  "resolvedTriggerDelivery resolver t =
     (let channel = resolvedTriggerChannel t; channelID = TrimSpace (tg_ChannelID t) in
      case resolver of
        None \<Rightarrow> (channel, [])
      | Some access \<Rightarrow>
          if channelID = [] then (channel, [])
          else
            (case GetChannel channelID access of
               None \<Rightarrow> (channel, [])
             | Some item \<Rightarrow>
                 (if IsDirectDeliveryChannelKind (ch_Kind item) then TrimSpace (ch_Kind item) else channel,
                  TrimSpace (ch_Target item))))"

record TriggerWorker =
  w_triggers :: "TriggerManager option"
  w_channel :: bool
  w_templates :: "TemplateManager option"
  w_access :: "AccessManager option"

definition NewTriggerWorker ::
  "bool \<Rightarrow> TriggerManager option \<Rightarrow> TemplateManager option \<Rightarrow> AccessManager option \<Rightarrow> TriggerWorker" where
  "NewTriggerWorker channel triggers templates access =
     \<lparr>w_triggers = triggers, w_channel = channel, w_templates = templates, w_access = access\<rparr>"

definition trigger_texts :: "string list \<Rightarrow> TriggerWorker \<Rightarrow> FireEvent \<Rightarrow> Trigger \<Rightarrow> string \<times> string" where
  "trigger_texts ks w evt t =
     (let subject = (if fe_Subject evt = [] then humanEventType (fe_EventType evt) else fe_Subject evt);
          body = fe_Body evt
      in if tg_TemplateID t = [] then (subject, body)
         else
           (case w_templates w of
              None \<Rightarrow> (subject, body)
            | Some templates \<Rightarrow>
                (case tpl_Get (tg_TemplateID t) templates of
                   None \<Rightarrow> (subject, body)
                 | Some tpl \<Rightarrow>
                     if \<not> nt_Enabled tpl then (subject, body)
                     else (let (rendered, renderedBody) = Render ks (fe_TemplateData evt) tpl
                           in (if rendered \<noteq> [] then rendered else subject,
                               if renderedBody \<noteq> [] then renderedBody else body)))))"

definition trigger_message :: "string list \<Rightarrow> TriggerWorker \<Rightarrow> FireEvent \<Rightarrow> Trigger \<Rightarrow> ChannelMessage" where
  "trigger_message ks w evt t =
     (let (subject, body) = trigger_texts ks w evt t; (channel, target) = resolvedTriggerDelivery (w_access w) t
      in zero_ChannelMessage\<lparr>cm_Channel := channel, cm_Target := target, cm_Subject := subject, cm_Body := body,
           cm_RefType := fe_RefType evt, cm_RefID := fe_RefID evt,
           cm_Source := triggerSource (fe_Source evt) (''trigger:'' @ tg_ID t)\<rparr>)"

type_synonym sender = "nat \<Rightarrow> ChannelMessage \<Rightarrow> go_error option"

text \<open>The loop over the matches; it returns what was sent, with the identifier of the trigger.\<close>

fun fire_loop ::
  "gotime \<Rightarrow> string list \<Rightarrow> sender \<Rightarrow> TriggerWorker \<Rightarrow> FireEvent \<Rightarrow> nat \<Rightarrow> Trigger list \<Rightarrow> TriggerManager \<Rightarrow>
     (string \<times> ChannelMessage) list \<times> TriggerManager" where
  "fire_loop now ks send w evt k [] m = ([], m)"
| "fire_loop now ks send w evt k (t # ts) m =
     (if IsOnCooldown t now then fire_loop now ks send w evt k ts m
      else if TrimSpace (fst (resolvedTriggerDelivery (w_access w) t)) = [] then fire_loop now ks send w evt k ts m
      else
        (let msg = trigger_message ks w evt t in
         case send k msg of
           Some err \<Rightarrow> fire_loop now ks send w evt (Suc k) ts m
         | None \<Rightarrow>
             (let (sent, m') = fire_loop now ks send w evt (Suc k) ts (RecordFired now (tg_ID t) m)
              in ((tg_ID t, msg) # sent, m'))))"

definition event_request :: "FireEvent \<Rightarrow> MatchRequest" where
  "event_request evt =
     \<lparr>mq_TenantID = (if fe_TenantID evt = [] then ''default'' else fe_TenantID evt), mq_EventType = fe_EventType evt,
      mq_TargetAudience = TrimSpace (str_at (fe_TemplateData evt) ''target_audience''),
      mq_EventData = buildTriggerEventData evt\<rparr>"

definition worker_FireEvent ::
  "gotime \<Rightarrow> string list \<Rightarrow> string list \<Rightarrow> sender \<Rightarrow> FireEvent \<Rightarrow> TriggerWorker \<Rightarrow>
     (string \<times> ChannelMessage) list \<times> TriggerWorker" where
  "worker_FireEvent now order ks send evt w =
     (case w_triggers w of
        None \<Rightarrow> ([], w)
      | Some m \<Rightarrow>
          if \<not> w_channel w then ([], w)
          else
            (case MatchEnabled order [MRequest (event_request evt)] m of
               Inl err \<Rightarrow> ([], w)
             | Inr matched \<Rightarrow>
                 (let (sent, m') = fire_loop now ks send w evt 0 matched m
                  in (sent, w\<lparr>w_triggers := Some m'\<rparr>))))"

section \<open>Events of the dispatcher\<close>

definition approval_event :: "ExecutionDetail \<Rightarrow> FireEvent" where
  "approval_event exec =
     \<lparr>fe_EventType = EventOnApprovalRequested, fe_TenantID = ''default'', fe_RefType = ''execution'',
      fe_RefID = ed_ExecutionID exec, fe_Subject = twz_approval, fe_Body = tw_formatApprovalMessage exec,
      fe_Source = ''dispatcher'', fe_TemplateData = buildExecutionTemplateData exec\<rparr>"

definition completed_event :: "ExecutionDetail \<Rightarrow> FireEvent" where
  "completed_event exec =
     (let failed = ed_Status exec \<in> {''failed'', ''timeout'', ''rejected''}
      in \<lparr>fe_EventType = (if failed then EventOnExecutionFailed else EventOnExecutionCompleted), fe_TenantID = ''default'',
          fe_RefType = ''execution'', fe_RefID = ed_ExecutionID exec,
          fe_Subject = (if failed then twz_exec_failed else twz_exec_done), fe_Body = formatExecutionCompletedMessage exec,
          fe_Source = ''dispatcher'', fe_TemplateData = buildExecutionTemplateData exec\<rparr>)"

definition closed_event :: "string \<Rightarrow> string \<Rightarrow> FireEvent" where
  "closed_event sessionID summary =
     \<lparr>fe_EventType = EventOnSessionClosed, fe_TenantID = ''default'', fe_RefType = ''session'', fe_RefID = sessionID,
      fe_Subject = twz_session_closed,
      fe_Body = (if summary = [] then twz_session @ sessionID @ twz_closed else summary),
      fe_Source = ''dispatcher'', fe_TemplateData = [(''session_id'', sessionID)]\<rparr>"

definition skill_event :: "ExecutionDetail \<Rightarrow> FireEvent" where
  "skill_event exec =
     (let failed = ed_Status exec \<in> {''failed'', ''timeout''}
      in \<lparr>fe_EventType = (if failed then EventOnSkillFailed else EventOnSkillCompleted), fe_TenantID = ''default'',
          fe_RefType = ''session'', fe_RefID = ed_ExecutionID exec,
          fe_Subject = (if failed then twz_skill_failed else twz_skill_done), fe_Body = formatSkillEventMessage exec,
          fe_Source = ''dispatcher'',
          fe_TemplateData = mergeTemplateData [buildExecutionTemplateData exec,
            [(''ExecutionID'', ed_ExecutionID exec), (''TargetHost'', ed_TargetHost exec), (''ExitCode'', dec_int (ed_ExitCode exec)),
             (''ExecutionStatus'', if failed then twz_failed else twz_done), (''OutputPreview'', []), (''TruncationFlag'', []),
             (''ActionTip'', []), (''SessionID'', ed_SessionID exec)]]\<rparr>)"

definition FireApprovalRequested ::
  "gotime \<Rightarrow> string list \<Rightarrow> string list \<Rightarrow> sender \<Rightarrow> ExecutionDetail \<Rightarrow> TriggerWorker \<Rightarrow> (string \<times> ChannelMessage) list \<times> TriggerWorker" where
  "FireApprovalRequested now order ks send exec w = worker_FireEvent now order ks send (approval_event exec) w"

definition FireExecutionCompleted ::
  "gotime \<Rightarrow> string list \<Rightarrow> string list \<Rightarrow> sender \<Rightarrow> ExecutionDetail \<Rightarrow> TriggerWorker \<Rightarrow> (string \<times> ChannelMessage) list \<times> TriggerWorker" where
  "FireExecutionCompleted now order ks send exec w = worker_FireEvent now order ks send (completed_event exec) w"

definition FireSessionClosed ::
  "gotime \<Rightarrow> string list \<Rightarrow> string list \<Rightarrow> sender \<Rightarrow> string \<Rightarrow> string \<Rightarrow> TriggerWorker \<Rightarrow> (string \<times> ChannelMessage) list \<times> TriggerWorker" where
  "FireSessionClosed now order ks send sessionID summary w = worker_FireEvent now order ks send (closed_event sessionID summary) w"

definition FireSkillEvent ::
  "gotime \<Rightarrow> string list \<Rightarrow> string list \<Rightarrow> sender \<Rightarrow> ExecutionDetail \<Rightarrow> TriggerWorker \<Rightarrow> (string \<times> ChannelMessage) list \<times> TriggerWorker" where
  "FireSkillEvent now order ks send exec w = worker_FireEvent now order ks send (skill_event exec) w"

end
