(* ===== verification/Trigger_Laws.thy ===== *)
theory Trigger_Laws
  imports Trigger_Worker
begin

text \<open>
  What the trigger worker delivers: exactly the triggers that match an event, never faster than their
  cooldown in any run of events and administrative changes; how a filter expression is read; and what
  a template renders.
\<close>

section \<open>The store\<close>

definition triggers_ok :: "TriggerManager \<Rightarrow> bool" where
  "triggers_ok m \<longleftrightarrow> (\<forall>k t. tr_triggers m k = Some t \<longrightarrow> tg_ID t = k \<and> TrimSpace k \<noteq> [])"

lemma triggers_okD: "triggers_ok m \<Longrightarrow> tr_triggers m k = Some t \<Longrightarrow> tg_ID t = k \<and> TrimSpace k \<noteq> []"
  by (auto simp: triggers_ok_def)

lemma RecordFired_ok: "triggers_ok m \<Longrightarrow> triggers_ok (RecordFired now tid m)"
  by (auto simp: triggers_ok_def RecordFired_def split: option.splits if_splits)

lemma RecordFired_at:
  "tr_triggers (RecordFired now tid m) k =
     (if k = tid then map_option (\<lambda>t. t\<lparr>tg_LastFiredAt := now\<rparr>) (tr_triggers m tid) else tr_triggers m k)"
  by (auto simp: RecordFired_def split: option.splits)

definition stored_id :: "string \<Rightarrow> Trigger \<Rightarrow> string" where
  "stored_id uuid t = (if TrimSpace (tg_ID t) = [] then ''trg_'' @ uuid else tg_ID t)"

lemma Upsert_at: "k \<noteq> stored_id uuid t \<Longrightarrow> tr_triggers (snd (trg_Upsert now uuid t m)) k = tr_triggers m k"
  by (auto simp: trg_Upsert_def upsertMem_def stored_id_def Let_def)

lemma TrimSpace_solid_head:
  assumes "\<forall>p \<in> set space_seqs. hd p \<noteq> c"
  shows "trim_left_space (c # cs) = c # cs"
proof -
  have "\<not> prefix p (c # cs)" if "p \<in> set space_seqs" for p
    using assms that space_seqs_nonempty [OF that] by (cases p) auto
  then show ?thesis
    by (simp add: trim_left_space_def trim_front_id seq_width_zero_iff [OF space_seqs_nonempty])
qed

lemma TrimSpace_solid:
  assumes "s \<noteq> []" and "\<forall>p \<in> set space_seqs. hd p \<noteq> hd s" and "\<forall>p \<in> set space_seqs. last p \<noteq> last s"
  shows "TrimSpace s = s"
proof -
  have "\<not> prefix p (rev s)" if "p \<in> set (map rev space_seqs)" for p
  proof -
    from that obtain q where q: "p = rev q" "q \<in> set space_seqs" by auto
    then have "q \<noteq> []" using space_seqs_nonempty by blast
    then show ?thesis using q assms(1,3) by (auto simp: prefix_def) (metis hd_append2 hd_rev rev_is_Nil_conv)
  qed
  moreover have "\<And>p. p \<in> set (map rev space_seqs) \<Longrightarrow> p \<noteq> []" using space_seqs_nonempty by auto
  ultimately have "seq_width (map rev space_seqs) (rev s) = 0" by (subst seq_width_zero_iff) blast+
  then have "trim_right_space s = s" by (simp add: trim_right_space_def trim_front_id)
  moreover have "trim_left_space s = s" using TrimSpace_solid_head [of "hd s" "tl s"] assms(1,2) by simp
  ultimately show ?thesis by (simp add: TrimSpace_def)
qed

lemma trim_front_consumed: "trim_front ps s = [] \<Longrightarrow> c \<in> set s \<Longrightarrow> \<exists>p \<in> set ps. c \<in> set p"
proof (induction ps s rule: trim_front.induct)
  case (1 ps s)
  show ?case
  proof (cases "seq_width ps s = 0")
    case True
    then show ?thesis using 1 by (simp add: trim_front_id)
  next
    case False
    then obtain p where p: "p \<in> set ps" "prefix p s" "seq_width ps s = length p"
      by (auto simp: seq_width_def split: option.splits dest: find_Some_in)
    then have "s = p @ drop (length p) s" by (auto simp: prefix_def)
    then consider "c \<in> set p" | "c \<in> set (drop (length p) s)" using 1(3) by (metis Un_iff set_append)
    then show ?thesis using p 1 False by cases (auto simp: trim_front.simps [of ps s])
  qed
qed

lemma TrimSpace_visible:
  assumes "\<forall>p \<in> set space_seqs. c \<notin> set p"
  shows "TrimSpace (c # cs) \<noteq> []"
proof
  assume "TrimSpace (c # cs) = []"
  moreover have "trim_left_space (c # cs) = c # cs" using assms space_seqs_nonempty
    by (intro TrimSpace_solid_head) (metis hd_in_set)
  ultimately have "trim_front (map rev space_seqs) (rev (c # cs)) = []" by (simp add: TrimSpace_def trim_right_space_def)
  then have "\<exists>p \<in> set (map rev space_seqs). c \<in> set p" by (rule trim_front_consumed) simp
  then show False using assms by auto
qed

lemma stored_id_nonempty: "TrimSpace (stored_id uuid t) \<noteq> []"
  using TrimSpace_visible [of "CHR ''t''" "''rg_'' @ uuid"]
  by (auto simp: stored_id_def space_seqs_def ascii_spaces_def)

lemma Upsert_ok: "triggers_ok m \<Longrightarrow> triggers_ok (snd (trg_Upsert now uuid t m))"
  using stored_id_nonempty [of uuid t]
  by (auto simp: triggers_ok_def trg_Upsert_def upsertMem_def stored_id_def Let_def)

lemma SetEnabled_ok: "triggers_ok m \<Longrightarrow> triggers_ok (snd (trg_SetEnabled now uuid tid enabled m))"
  by (auto simp: trg_SetEnabled_def split: sum.splits intro: Upsert_ok)

text \<open>Switching a trigger on or off keeps its cooldown and the time it last fired.\<close>

lemma SetEnabled_at:
  assumes "triggers_ok m" and "tr_triggers m k = Some t"
  shows "\<exists>t'. tr_triggers (snd (trg_SetEnabled now uuid tid enabled m)) k = Some t' \<and>
    tg_CooldownSec t' = tg_CooldownSec t \<and> tg_LastFiredAt t' = tg_LastFiredAt t"
proof (cases "tr_triggers m tid")
  case None
  then show ?thesis using assms(2) by (simp add: trg_SetEnabled_def getMem_def)
next
  case (Some u)
  then have "tg_ID u = tid" "TrimSpace (tg_ID u) \<noteq> []" using triggers_okD [OF assms(1)] by blast+
  then show ?thesis using assms(2) Some
    by (cases "k = tid") (auto simp: trg_SetEnabled_def getMem_def trg_Upsert_def upsertMem_def Let_def)
qed

lemma upsert_all_ok:
  "triggers_ok m \<Longrightarrow> \<forall>t \<in> set ts. TrimSpace (tg_ID t) \<noteq> [] \<Longrightarrow>
     triggers_ok (m\<lparr>tr_triggers := foldl (\<lambda>ts t. ts(tg_ID t \<mapsto> t)) (tr_triggers m) ts\<rparr>)"
proof (induction ts arbitrary: m)
  case (Cons t ts)
  have "triggers_ok (m\<lparr>tr_triggers := (tr_triggers m)(tg_ID t \<mapsto> t)\<rparr>)"
    using Cons.prems by (simp add: triggers_ok_def)
  from Cons.IH [OF this] Cons.prems(2) show ?case by simp
qed simp

lemma NewManager_triggers_ok: "triggers_ok (trg_NewManager now)"
proof -
  have "\<forall>t \<in> set (defaultTriggers now). TrimSpace (tg_ID t) \<noteq> []"
    by (simp add: defaultTriggers_def inbox_trigger_def space_seqs_def ascii_spaces_def TrimSpace_visible)
  from upsert_all_ok [OF _ this, of "\<lparr>tr_triggers = Map.empty\<rparr>"]
  show ?thesis by (simp add: trg_NewManager_def seedDefaults_def triggers_ok_def)
qed

section \<open>One event\<close>

definition ready :: "gotime \<Rightarrow> TriggerWorker \<Rightarrow> Trigger \<Rightarrow> bool" where
  "ready now w t \<longleftrightarrow> \<not> IsOnCooldown t now \<and> TrimSpace (fst (resolvedTriggerDelivery (w_access w) t)) \<noteq> []"

lemma fire_loop_subseq: "subseq (map fst (fst (fire_loop now ks send w evt k ts m))) (map tg_ID (filter (ready now w) ts))"
  by (induction now ks send w evt k ts m rule: fire_loop.induct)
    (auto simp: ready_def Let_def split: prod.splits option.splits)

lemma fire_loop_all:
  "\<forall>k msg. send k msg = None \<Longrightarrow>
     map fst (fst (fire_loop now ks send w evt k ts m)) = map tg_ID (filter (ready now w) ts)"
  by (induction now ks send w evt k ts m rule: fire_loop.induct)
    (auto simp: ready_def Let_def split: prod.splits)

lemma fire_loop_state:
  "tr_triggers (snd (fire_loop now ks send w evt k ts m)) i =
     (if i \<in> fst ` set (fst (fire_loop now ks send w evt k ts m))
      then map_option (\<lambda>t. t\<lparr>tg_LastFiredAt := now\<rparr>) (tr_triggers m i) else tr_triggers m i)"
proof (induction now ks send w evt k ts m rule: fire_loop.induct)
  case (2 now ks send w evt k t ts m)
  show ?case
  proof (cases "ready now w t \<and> send k (trigger_message ks w evt t) = None")
    case True
    obtain sent m' where r: "fire_loop now ks send w evt (Suc k) ts (RecordFired now (tg_ID t) m) = (sent, m')" by fastforce
    have "tr_triggers m' i = (if i \<in> fst ` set sent then map_option (\<lambda>t. t\<lparr>tg_LastFiredAt := now\<rparr>)
      (tr_triggers (RecordFired now (tg_ID t) m) i) else tr_triggers (RecordFired now (tg_ID t) m) i)"
      using 2(3) [OF _ _ refl] True by (simp add: ready_def r)
    with True r show ?thesis
      by (auto simp: ready_def RecordFired_at option.map_comp comp_def)
  next
    case False
    with 2 show ?thesis by (auto simp: ready_def Let_def split: option.splits)
  qed
qed simp

definition event_filter :: "FireEvent \<Rightarrow> ListFilter" where
  "event_filter evt = \<lparr>lf_TenantID = (if TrimSpace (fe_TenantID evt) = [] then ''default'' else fe_TenantID evt), lf_EventType = fe_EventType evt, lf_Enabled = Some True,
     lf_Limit = 100, lf_Offset = 0\<rparr>"

definition candidates :: "string list \<Rightarrow> FireEvent \<Rightarrow> TriggerManager \<Rightarrow> Trigger list" where
  "candidates order evt m = filter (trigger_listed (event_filter evt)) (List.map_filter (tr_triggers m) order)"

definition matching :: "string list \<Rightarrow> FireEvent \<Rightarrow> TriggerManager \<Rightarrow> Trigger list" where
  "matching order evt m = filter (\<lambda>t. matchRuntimeRequest t (event_request evt) = Inr True)
     (take 100 (slice_stable (\<lambda>a b. tg_ID a < tg_ID b) (candidates order evt m)))"

lemma slice_first_page: "slice_page 0 100 out = Inr (take 100 out)"
  by (auto simp: slice_page_def Let_def to_int64_def)

lemma MatchEnabled_event: "MatchEnabled order [MRequest (event_request evt)] m = Inr (matching order evt m)"
proof -
  have d: "TrimSpace ''default'' \<noteq> []" by (simp add: TrimSpace_visible space_seqs_def ascii_spaces_def)
  have r: "matchRuntimeRequest t (req\<lparr>mq_TenantID := tenant\<rparr>) = matchRuntimeRequest t req" for t req tenant
    by (simp add: matchRuntimeRequest_def Let_def)
  have f: "mq_EventType (event_request evt) = fe_EventType evt"
    "mq_TenantID (event_request evt) = (if fe_TenantID evt = [] then ''default'' else fe_TenantID evt)"
    by (simp_all add: event_request_def)
  show ?thesis using d
    by (auto simp: MatchEnabled_def Let_def r f trg_List_def listMem_def slice_first_page matching_def candidates_def event_filter_def)
qed

lemma map_filter_range:
  assumes "triggers_ok m" and "distinct order"
  shows "distinct (map tg_ID (List.map_filter (tr_triggers m) order))" and
    "t \<in> set (List.map_filter (tr_triggers m) order) \<longleftrightarrow> (tg_ID t \<in> set order \<and> tr_triggers m (tg_ID t) = Some t)"
proof -
  have "map tg_ID (List.map_filter (tr_triggers m) ks) = filter (\<lambda>k. tr_triggers m k \<noteq> None) ks" for ks
    using triggers_okD [OF assms(1)] by (induction ks) (auto simp: List.map_filter_simps split: option.splits)
  then show "distinct (map tg_ID (List.map_filter (tr_triggers m) order))" using assms(2) by simp
  show "t \<in> set (List.map_filter (tr_triggers m) order) \<longleftrightarrow> (tg_ID t \<in> set order \<and> tr_triggers m (tg_ID t) = Some t)"
  proof -
    have "t \<in> set (List.map_filter (tr_triggers m) ks) \<longleftrightarrow> (\<exists>k \<in> set ks. tr_triggers m k = Some t)" for ks
      by (induction ks) (auto simp: List.map_filter_simps split: option.splits)
    then show ?thesis using triggers_okD [OF assms(1)] by metis
  qed
qed

lemma stored_ids:
  assumes "triggers_ok m"
  shows "tg_ID ` {t. tr_triggers m (tg_ID t) = Some t \<and> Q t} = {tid. \<exists>t. tr_triggers m tid = Some t \<and> Q t}"
proof (intro subset_antisym subsetI)
  fix tid assume "tid \<in> {tid. \<exists>t. tr_triggers m tid = Some t \<and> Q t}"
  then obtain t where "tr_triggers m tid = Some t" "Q t" by blast
  then show "tid \<in> tg_ID ` {t. tr_triggers m (tg_ID t) = Some t \<and> Q t}"
    using triggers_okD [OF assms, of tid t] by (intro image_eqI [of _ _ t]) simp_all
qed blast

lemma matching_distinct:
  assumes "triggers_ok m" and "distinct order"
  shows "distinct (map tg_ID (matching order evt m))"
proof -
  have "distinct (map tg_ID (candidates order evt m))"
    using map_filter_range(1) [OF assms] by (simp add: candidates_def distinct_map_filter)
  moreover have "mset (map tg_ID (slice_stable (\<lambda>a b. tg_ID a < tg_ID b) (candidates order evt m))) = mset (map tg_ID (candidates order evt m))"
    by simp
  ultimately have "distinct (map tg_ID (slice_stable (\<lambda>a b. tg_ID a < tg_ID b) (candidates order evt m)))"
    using mset_eq_imp_distinct_iff by blast
  then have "distinct (map tg_ID (take 100 (slice_stable (\<lambda>a b. tg_ID a < tg_ID b) (candidates order evt m))))"
    by (simp add: take_map [symmetric] distinct_take)
  then show ?thesis by (simp add: matching_def distinct_map_filter)
qed

lemma matching_member:
  assumes "triggers_ok m" and "distinct order" and "t \<in> set (matching order evt m)"
  shows "tr_triggers m (tg_ID t) = Some t"
  using assms(3) map_filter_range(2) [OF assms(1,2), of t]
  by (auto simp: matching_def candidates_def dest: in_set_takeD)

lemma worker_event:
  assumes "w_triggers w = Some m" and "w_channel w"
  shows "worker_FireEvent now order ks send evt w =
    (fst (fire_loop now ks send w evt 0 (matching order evt m) m),
     w\<lparr>w_triggers := Some (snd (fire_loop now ks send w evt 0 (matching order evt m) m))\<rparr>)"
  using assms by (simp add: worker_FireEvent_def MatchEnabled_event split: prod.splits)

text \<open>C24: an event reaches the triggers that ask for it and no other.  When at most a hundred enabled
  triggers listen to the event and every message is accepted, a trigger is delivered exactly if it is
  stored, enabled, of the tenant and the type of the event, its audience and filter accept the event, it
  is not on cooldown and its channel resolves; the delivered triggers are stamped with the time of the
  event and the others are untouched.
\<close>
theorem fire_event_exact:
  assumes "w_triggers w = Some m" and "w_channel w" and "triggers_ok m" and "range_order (tr_triggers m) order"
    and "\<forall>k msg. send k msg = None" and "length (candidates order evt m) \<le> 100"
  shows "fst ` set (fst (worker_FireEvent now order ks send evt w)) =
      {tid. \<exists>t. tr_triggers m tid = Some t \<and> trigger_listed (event_filter evt) t \<and>
         matchRuntimeRequest t (event_request evt) = Inr True \<and> ready now w t} \<and>
    (\<exists>m'. snd (worker_FireEvent now order ks send evt w) = w\<lparr>w_triggers := Some m'\<rparr> \<and>
      (\<forall>tid. tr_triggers m' tid =
        (if tid \<in> fst ` set (fst (worker_FireEvent now order ks send evt w))
         then map_option (\<lambda>t. t\<lparr>tg_LastFiredAt := now\<rparr>) (tr_triggers m tid) else tr_triggers m tid)))"
proof (rule conjI)
  have d: "distinct order" "set order = dom (tr_triggers m)" using range_orderD [OF assms(4)] by auto
  have "set (matching order evt m) = {t. tr_triggers m (tg_ID t) = Some t \<and> trigger_listed (event_filter evt) t \<and>
      matchRuntimeRequest t (event_request evt) = Inr True}"
    using assms(6) map_filter_range(2) [OF assms(3) d(1)] d(2) by (auto simp: matching_def candidates_def)
  moreover have "fst ` set (fst (worker_FireEvent now order ks send evt w)) = tg_ID ` {t \<in> set (matching order evt m). ready now w t}"
    using arg_cong [OF fire_loop_all [OF assms(5), of now ks w evt 0 "matching order evt m" m], of set]
    by (simp only: worker_event [OF assms(1,2)] fst_conv list.set_map set_filter)
  ultimately have "fst ` set (fst (worker_FireEvent now order ks send evt w)) =
      tg_ID ` {t. tr_triggers m (tg_ID t) = Some t \<and> trigger_listed (event_filter evt) t \<and>
         matchRuntimeRequest t (event_request evt) = Inr True \<and> ready now w t}"
    by (simp only: mem_Collect_eq conj_assoc)
  also note stored_ids [OF assms(3)]
  finally show "fst ` set (fst (worker_FireEvent now order ks send evt w)) =
      {tid. \<exists>t. tr_triggers m tid = Some t \<and> trigger_listed (event_filter evt) t \<and>
         matchRuntimeRequest t (event_request evt) = Inr True \<and> ready now w t}" .
  show "\<exists>m'. snd (worker_FireEvent now order ks send evt w) = w\<lparr>w_triggers := Some m'\<rparr> \<and>
      (\<forall>tid. tr_triggers m' tid =
        (if tid \<in> fst ` set (fst (worker_FireEvent now order ks send evt w))
         then map_option (\<lambda>t. t\<lparr>tg_LastFiredAt := now\<rparr>) (tr_triggers m tid) else tr_triggers m tid))"
    by (intro exI [of _ "snd (fire_loop now ks send w evt 0 (matching order evt m) m)"])
      (simp add: worker_event [OF assms(1,2)] fire_loop_state)
qed

section \<open>Runs\<close>

text \<open>Events and administrative changes in any order, each at its time.\<close>

datatype trigger_op =
    FireOp gotime "string list" "string list" sender FireEvent
  | EnableOp gotime string string bool
  | PutOp gotime string Trigger

fun op_time :: "trigger_op \<Rightarrow> gotime" where
  "op_time (FireOp now order ks send evt) = now"
| "op_time (EnableOp now uuid tid enabled) = now"
| "op_time (PutOp now uuid t) = now"

definition on_triggers :: "(TriggerManager \<Rightarrow> TriggerManager) \<Rightarrow> TriggerWorker \<Rightarrow> TriggerWorker" where
  "on_triggers f w = (case w_triggers w of None \<Rightarrow> w | Some m \<Rightarrow> w\<lparr>w_triggers := Some (f m)\<rparr>)"

fun trigger_exec :: "trigger_op \<Rightarrow> TriggerWorker \<Rightarrow> (gotime \<times> string) list \<times> TriggerWorker" where
  "trigger_exec (FireOp now order ks send evt) w =
     (let (sent, w') = worker_FireEvent now order ks send evt w in (map (\<lambda>d. (now, fst d)) sent, w'))"
| "trigger_exec (EnableOp now uuid tid enabled) w = ([], on_triggers (\<lambda>m. snd (trg_SetEnabled now uuid tid enabled m)) w)"
| "trigger_exec (PutOp now uuid t) w = ([], on_triggers (\<lambda>m. snd (trg_Upsert now uuid t m)) w)"

fun trigger_run :: "trigger_op list \<Rightarrow> TriggerWorker \<Rightarrow> (gotime \<times> string) list \<times> TriggerWorker" where
  "trigger_run [] w = ([], w)"
| "trigger_run (op # ops) w =
     (let (sent, w') = trigger_exec op w; (more, w'') = trigger_run ops w' in (sent @ more, w''))"

text \<open>An operation that does not replace the trigger, and whose event visits no trigger twice.\<close>

fun keeps_trigger :: "string \<Rightarrow> trigger_op \<Rightarrow> bool" where
  "keeps_trigger tid (FireOp now order ks send evt) \<longleftrightarrow> distinct order"
| "keeps_trigger tid (EnableOp now uuid tid' enabled) \<longleftrightarrow> True"
| "keeps_trigger tid (PutOp now uuid t) \<longleftrightarrow> stored_id uuid t \<noteq> tid"

definition cools :: "string \<Rightarrow> int \<Rightarrow> gotime \<Rightarrow> TriggerWorker \<Rightarrow> bool" where
  "cools tid c l w \<longleftrightarrow> (\<exists>m t. w_triggers w = Some m \<and> triggers_ok m \<and> tr_triggers m tid = Some t \<and>
     tg_CooldownSec t = c \<and> tg_LastFiredAt t = l)"

lemma fire_loop_ok: "triggers_ok m \<Longrightarrow> triggers_ok (snd (fire_loop now ks send w evt k ts m))"
  by (induction now ks send w evt k ts m rule: fire_loop.induct)
    (auto simp: Let_def RecordFired_ok split: prod.splits option.splits)

lemma filter_single: "distinct xs \<Longrightarrow> x \<in> set xs \<Longrightarrow> filter (\<lambda>y. y = x) xs = [x]"
  by (induction xs) (auto simp: filter_empty_conv)

lemma fire_once:
  assumes "triggers_ok m" and "distinct order"
    and "tid \<in> fst ` set (fst (fire_loop now ks send w evt 0 (matching order evt m) m))"
  shows "\<exists>t. tr_triggers m tid = Some t \<and> ready now w t"
    and "filter (\<lambda>i. i = tid) (map fst (fst (fire_loop now ks send w evt 0 (matching order evt m) m))) = [tid]"
proof -
  let ?ids = "map fst (fst (fire_loop now ks send w evt 0 (matching order evt m) m))"
  have s: "subseq ?ids (map tg_ID (filter (ready now w) (matching order evt m)))" by (rule fire_loop_subseq)
  then have "tid \<in> tg_ID ` set (filter (ready now w) (matching order evt m))"
    using assms(3) set_nths_subset by (metis list.set_map subseq_conv_nths subsetD)
  then obtain t where "t \<in> set (matching order evt m)" "ready now w t" "tg_ID t = tid" by auto
  then show "\<exists>t. tr_triggers m tid = Some t \<and> ready now w t" using matching_member [OF assms(1,2)] by blast
  have "distinct (map tg_ID (filter (ready now w) (matching order evt m)))"
    using matching_distinct [OF assms(1,2)] by (rule distinct_map_filter)
  then have "distinct ?ids" using s distinct_nthsI by (auto simp: subseq_conv_nths)
  then show "filter (\<lambda>i. i = tid) ?ids = [tid]" using assms(3) by (intro filter_single) auto
qed

lemma fire_cools:
  assumes "triggers_ok m" and "tr_triggers m tid = Some t" and "distinct order" and "0 < tg_CooldownSec t"
    and "tg_CooldownSec t * Second \<le> maxDuration"
    and "fire_loop now ks send w evt 0 (matching order evt m) m = (sent, m')"
  shows "(filter (\<lambda>i. i = tid) (map fst sent) = [] \<and> tr_triggers m' tid = Some t) \<or>
    (filter (\<lambda>i. i = tid) (map fst sent) = [tid] \<and> tr_triggers m' tid = Some (t\<lparr>tg_LastFiredAt := now\<rparr>) \<and>
     (tg_LastFiredAt t \<noteq> 0 \<longrightarrow> tg_LastFiredAt t + tg_CooldownSec t * Second \<le> now))"
proof (cases "tid \<in> fst ` set sent")
  case False
  then have "filter (\<lambda>i. i = tid) (map fst sent) = []" by (auto simp: filter_empty_conv)
  then show ?thesis using False fire_loop_state [of now ks send w evt 0 "matching order evt m" m tid] assms(2,6) by simp
next
  case True
  have "to_int64 (tg_CooldownSec t * Second) = tg_CooldownSec t * Second"
    using assms(4,5) by (intro to_int64_id) (simp_all add: minDuration_def Second_def)
  moreover have "ready now w t" "filter (\<lambda>i. i = tid) (map fst sent) = [tid]"
    using fire_once [OF assms(1,3), of tid now ks send w evt] True assms(2,6) by auto
  ultimately show ?thesis
    using True fire_loop_state [of now ks send w evt 0 "matching order evt m" m tid] assms(2,4,6)
    by (auto simp: ready_def IsOnCooldown_def)
qed

lemma exec_cools:
  assumes "cools tid c l w" and "keeps_trigger tid op" and "0 < c" and "c * Second \<le> maxDuration"
    and "trigger_exec op w = (sent, w')"
  shows "(filter (\<lambda>d. snd d = tid) sent = [] \<and> cools tid c l w') \<or>
    (filter (\<lambda>d. snd d = tid) sent = [(op_time op, tid)] \<and> cools tid c (op_time op) w' \<and>
     (l \<noteq> 0 \<longrightarrow> l + c * Second \<le> op_time op))"
proof -
  from assms(1) obtain m t where m: "w_triggers w = Some m" "triggers_ok m" "tr_triggers m tid = Some t"
    "tg_CooldownSec t = c" "tg_LastFiredAt t = l" by (auto simp: cools_def)
  show ?thesis
  proof (cases op)
    case (FireOp now order ks send evt)
    show ?thesis
    proof (cases "w_channel w")
      case False
      then show ?thesis using FireOp assms(1,5) m(1) by (auto simp: worker_FireEvent_def)
    next
      case True
      obtain out m' where f: "fire_loop now ks send w evt 0 (matching order evt m) m = (out, m')" by fastforce
      have sent: "filter (\<lambda>d. snd d = tid) (map (\<lambda>d. (now, fst d)) out) = map (Pair now) (filter (\<lambda>i. i = tid) (map fst out))"
        by (induction out) auto
      have e: "sent = map (\<lambda>d. (now, fst d)) out" "w' = w\<lparr>w_triggers := Some m'\<rparr>"
        using assms(5) FireOp by (simp_all add: worker_event [OF m(1) True] f)
      have "triggers_ok m'" using fire_loop_ok [OF m(2)] f by (metis snd_conv)
      moreover have "distinct order" using assms(2) FireOp by simp
      ultimately show ?thesis unfolding e(1) sent using fire_cools [OF m(2,3) _ _ _ f] assms(3,4) m(4,5) FireOp e(2)
        by (auto simp: cools_def)
    qed
  next
    case (EnableOp now uuid tid' enabled)
    with m assms(5) SetEnabled_at [OF m(2,3), of now uuid tid' enabled] SetEnabled_ok [OF m(2), of now uuid tid' enabled]
    show ?thesis by (auto simp: cools_def on_triggers_def)
  next
    case (PutOp now uuid u)
    with m assms(2,5) Upsert_at [of tid uuid u now m] Upsert_ok [OF m(2), of now uuid u]
    show ?thesis by (auto simp: cools_def on_triggers_def)
  qed
qed

lemma run_cools:
  assumes "cools tid c l w" and "\<forall>op \<in> set ops. keeps_trigger tid op \<and> 0 < op_time op" and "0 < c" and "c * Second \<le> maxDuration"
  shows "sorted_wrt (\<lambda>a b. a + c * Second \<le> b) ((if l = 0 then [] else [l]) @ map fst (filter (\<lambda>d. snd d = tid) (fst (trigger_run ops w))))"
  using assms(1,2)
proof (induction ops arbitrary: l w)
  case (Cons op ops)
  obtain sent w' where e: "trigger_exec op w = (sent, w')" by fastforce
  define more where "more = map fst (filter (\<lambda>d. snd d = tid) (fst (trigger_run ops w')))"
  have run: "map fst (filter (\<lambda>d. snd d = tid) (fst (trigger_run (op # ops) w))) = map fst (filter (\<lambda>d. snd d = tid) sent) @ more"
    by (simp add: e more_def split: prod.splits)
  have ks: "keeps_trigger tid op" "0 < op_time op" using Cons.prems(2) by auto
  have c: "0 \<le> c * Second" using assms(3) by (simp add: Second_def)
  from exec_cools [OF Cons.prems(1) ks(1) assms(3,4) e]
  consider "filter (\<lambda>d. snd d = tid) sent = []" "cools tid c l w'"
    | "filter (\<lambda>d. snd d = tid) sent = [(op_time op, tid)]" "cools tid c (op_time op) w'" "l \<noteq> 0 \<longrightarrow> l + c * Second \<le> op_time op"
    by blast
  then show ?case
  proof cases
    case 1
    then show ?thesis using Cons.IH [OF 1(2)] Cons.prems(2) run more_def by simp
  next
    case 2
    then have "sorted_wrt (\<lambda>a b. a + c * Second \<le> b) (op_time op # more)"
      using Cons.IH [OF 2(2)] Cons.prems(2) ks(2) more_def by simp
    then show ?thesis using 2(1,3) c unfolding run by force
  qed
qed simp

text \<open>The worker holds no lock between reading the triggers and stamping them.  Two goroutines that have both read the
  triggers before either stamps one deliver the same trigger twice, whatever its cooldown is.\<close>

lemma concurrent_events_ignore_cooldown:
  assumes "\<forall>k msg. send1 k msg = None" and "\<forall>k msg. send2 k msg = None"
    and "t \<in> set (matching order1 evt1 m)" and "t \<in> set (matching order2 evt2 m)" and "ready now1 w t" and "ready now2 w t"
    and "fire_loop now1 ks1 send1 w evt1 0 (matching order1 evt1 m) m = (sent1, m1)"
    and "fire_loop now2 ks2 send2 w evt2 0 (matching order2 evt2 m) m1 = (sent2, m2)"
  shows "tg_ID t \<in> fst ` set sent1 \<and> tg_ID t \<in> fst ` set sent2"
proof -
  have "map fst sent1 = map tg_ID (filter (ready now1 w) (matching order1 evt1 m))"
    "map fst sent2 = map tg_ID (filter (ready now2 w) (matching order2 evt2 m))"
    using fire_loop_all [OF assms(1), of now1 ks1 w evt1 0 "matching order1 evt1 m" m]
      fire_loop_all [OF assms(2), of now2 ks2 w evt2 0 "matching order2 evt2 m" m1] assms(7,8) by simp_all
  then have "fst ` set sent1 = tg_ID ` set (filter (ready now1 w) (matching order1 evt1 m))"
    "fst ` set sent2 = tg_ID ` set (filter (ready now2 w) (matching order2 evt2 m))"
    by (metis set_map)+
  then show ?thesis using assms(3-6) by simp
qed

text \<open>C23: a trigger does not fire faster than its cooldown, one event after the other.  In every sequence of events,
  switches and changes of other triggers, with any failures of the channel, two deliveries of a trigger with
  a cooldown are at least the cooldown apart, as long as each event is over before the next begins and the
  trigger itself is not edited.  An edit resets the cooldown, and concurrent events can both deliver
  (\<open>concurrent_events_ignore_cooldown\<close>).
\<close>
theorem cooldown_respected:
  assumes "w_triggers w = Some m" and "triggers_ok m" and "tr_triggers m tid = Some t"
    and "0 < tg_CooldownSec t" and "tg_CooldownSec t * Second \<le> maxDuration"
    and "\<forall>op \<in> set ops. keeps_trigger tid op \<and> 0 < op_time op"
  shows "sorted_wrt (\<lambda>a b. fst a + tg_CooldownSec t * Second \<le> fst b)
    (filter (\<lambda>d. snd d = tid) (fst (trigger_run ops w)))"
proof -
  have "cools tid (tg_CooldownSec t) (tg_LastFiredAt t) w" using assms(1-3) by (simp add: cools_def)
  from run_cools [OF this assms(6,4,5)]
  have "sorted_wrt (\<lambda>a b. a + tg_CooldownSec t * Second \<le> b) (map fst (filter (\<lambda>d. snd d = tid) (fst (trigger_run ops w))))"
    by (auto simp: sorted_wrt_append)
  then show ?thesis by (simp add: sorted_wrt_map)
qed

section \<open>Filters\<close>

text \<open>The filters an administrator can write, and their text.\<close>

datatype filter_expr = FEq string string | FNe string string | FIn string "string list"

definition quoted :: "string \<Rightarrow> string" where
  "quoted v = quote # v @ [quote]"

fun filter_text :: "filter_expr \<Rightarrow> string" where
  "filter_text (FEq key v) = key @ '' == '' @ quoted v"
| "filter_text (FNe key v) = key @ '' != '' @ quoted v"
| "filter_text (FIn key vs) = key @ '' in ['' @ Join (map quoted vs) '','' @ '']''"

fun filter_holds :: "strmap \<Rightarrow> filter_expr \<Rightarrow> bool" where
  "filter_holds data (FEq key v) \<longleftrightarrow> TrimSpace (str_at data key) = v"
| "filter_holds data (FNe key v) \<longleftrightarrow> TrimSpace (str_at data key) \<noteq> v"
| "filter_holds data (FIn key vs) \<longleftrightarrow> TrimSpace (str_at data key) \<in> set vs"

fun filter_plain :: "filter_expr \<Rightarrow> bool" where
  "filter_plain (FEq key v) \<longleftrightarrow> key \<noteq> [] \<and> list_all key_char key \<and> quote \<notin> set v"
| "filter_plain (FNe key v) \<longleftrightarrow> key \<noteq> [] \<and> list_all key_char key \<and> quote \<notin> set v"
| "filter_plain (FIn key vs) \<longleftrightarrow> key \<noteq> [] \<and> list_all key_char key \<and> vs \<noteq> [] \<and>
     list_all (\<lambda>v. CHR '','' \<notin> set v \<and> CHR 0x0A \<notin> set v) vs"

lemma key_char_visible: "key_char c \<Longrightarrow> p \<in> set space_seqs \<Longrightarrow> hd p \<noteq> c"
proof -
  have "\<forall>p \<in> set space_seqs. \<not> key_char (hd p)" by code_simp
  then show "key_char c \<Longrightarrow> p \<in> set space_seqs \<Longrightarrow> hd p \<noteq> c" by blast
qed

lemma TrimSpace_keyed:
  assumes "key \<noteq> []" and "list_all key_char key" and "c \<in> {quote, CHR '']''}"
  shows "TrimSpace (key @ s @ [c]) = key @ s @ [c]"
proof (rule TrimSpace_solid)
  show "\<forall>p \<in> set space_seqs. hd p \<noteq> hd (key @ s @ [c])"
    using assms(1,2) key_char_visible by (cases key) auto
  show "\<forall>p \<in> set space_seqs. last p \<noteq> last (key @ s @ [c])"
    using assms(3) by (auto simp: quote_def space_seqs_def ascii_spaces_def)
qed simp

lemma TrimSpace_quoted: "TrimSpace (quoted v) = quoted v"
  by (rule TrimSpace_solid) (auto simp: quoted_def quote_def space_seqs_def ascii_spaces_def)

lemma keyed_split:
  assumes "list_all key_char key" and "\<not> key_char c"
  shows "takeWhile key_char (key @ c # s) = key" and "dropWhile key_char (key @ c # s) = c # s"
  using assms by (induction key) auto

lemma split_char_none: "sep \<notin> set s \<Longrightarrow> split_char sep s = [s]"
  by (induction s) auto

lemma split_char_cons: "sep \<notin> set s \<Longrightarrow> split_char sep (s @ sep # r) = s # split_char sep r"
  by (induction s) (auto split: list.splits)

lemma split_char_Join:
  "vs \<noteq> [] \<Longrightarrow> list_all (\<lambda>v. sep \<notin> set v) vs \<Longrightarrow> split_char sep (Join vs [sep]) = vs"
  by (induction vs rule: induct_list012) (auto simp: split_char_none split_char_cons)

lemma key_char_not: "\<not> key_char (CHR '' '')"
  by code_simp

lemma equals_text:
  assumes "key \<noteq> []" and "list_all key_char key" and "quote \<notin> set v" and "op \<in> {''=='', ''!=''}"
  shows "filterEqualsPattern (key @ '' '' @ op @ '' '' @ quoted v) = Some (key, op, v)"
  using assms keyed_split [OF assms(2) key_char_not, of "op @ '' '' @ quoted v"]
  by (auto simp: filterEqualsPattern_def re_space_def quoted_def quote_def)

lemma in_text:
  assumes "key \<noteq> []" and "list_all key_char key" and "CHR 0x0A \<notin> set body"
  shows "filterEqualsPattern (key @ '' in ['' @ body @ '']'') = None"
    and "filterInPattern (key @ '' in ['' @ body @ '']'') = Some (key, body)"
  using assms keyed_split [OF assms(2) key_char_not, of "''in ['' @ body @ '']''"]
  by (simp_all add: filterEqualsPattern_def filterInPattern_def re_space_def Let_def)

lemma quoted_items_quoted: "quoted_items (map quoted vs) = Inr vs"
proof (induction vs)
  case (Cons v vs)
  then show ?case by (simp add: TrimSpace_quoted Let_def) (simp add: quoted_def suffix_def)
qed simp

lemma list_body_plain:
  assumes "list_all (\<lambda>v. CHR '','' \<notin> set v \<and> CHR 0x0A \<notin> set v) vs"
  shows "CHR 0x0A \<notin> set (Join (map quoted vs) '','')" and "list_all (\<lambda>v. CHR '','' \<notin> set v) (map quoted vs)"
proof -
  show "CHR 0x0A \<notin> set (Join (map quoted vs) '','')"
    using assms by (induction vs rule: induct_list012) (auto simp: quoted_def quote_def)
  show "list_all (\<lambda>v. CHR '','' \<notin> set v) (map quoted vs)"
    using assms by (induction vs) (auto simp: quoted_def quote_def)
qed

text \<open>A filter means what it says.  The text of every filter over a plain key, with values that do not
  contain the delimiters, is accepted, and evaluating it on the data of an event gives the comparison it
  spells: equality, inequality or membership of the trimmed value.
\<close>
theorem filter_text_holds:
  assumes "filter_plain f"
  shows "evalFilterExpr (filter_text f) data = Inr (filter_holds data f)"
proof (cases f)
  case (FEq key v)
  then have "TrimSpace (filter_text f) = filter_text f" "filter_text f \<noteq> []"
    using TrimSpace_keyed [of key quote "'' == '' @ quote # v"] assms by (simp_all add: quoted_def)
  then show ?thesis using equals_text [of key v "''==''"] assms FEq by (simp add: evalFilterExpr_def Let_def)
next
  case (FNe key v)
  then have "TrimSpace (filter_text f) = filter_text f" "filter_text f \<noteq> []"
    using TrimSpace_keyed [of key quote "'' != '' @ quote # v"] assms by (simp_all add: quoted_def)
  then show ?thesis using equals_text [of key v "''!=''"] assms FNe by (simp add: evalFilterExpr_def Let_def)
next
  case (FIn key vs)
  let ?b = "Join (map quoted vs) '',''"
  have plain: "key \<noteq> []" "list_all key_char key" "vs \<noteq> []" "list_all (\<lambda>v. CHR '','' \<notin> set v \<and> CHR 0x0A \<notin> set v) vs"
    using assms FIn by auto
  have "TrimSpace (filter_text f) = filter_text f" "filter_text f \<noteq> []"
    using TrimSpace_keyed [OF plain(1,2), of "CHR '']''" "'' in ['' @ ?b"] FIn by simp_all
  moreover have "parseQuotedList ?b = Inr vs"
    using split_char_Join [OF _ list_body_plain(2) [OF plain(4)]] plain(3)
    by (simp add: parseQuotedList_def quoted_items_quoted)
  ultimately show ?thesis using in_text [OF plain(1,2) list_body_plain(1) [OF plain(4)]] FIn
    by (simp add: evalFilterExpr_def Let_def)
qed

section \<open>Templates\<close>

lemma replacer_absent:
  assumes "\<forall>p \<in> set pairs. \<forall>i < length s. \<not> HasPrefix (drop i s) (fst p)"
  shows "replacer pairs s = s"
  using assms
proof (induction s)
  case (Cons c cs)
  have "\<forall>p \<in> set pairs. \<not> HasPrefix (c # cs) (fst p)"
    using Cons.prems by (metis drop0 length_greater_0_conv list.distinct(1))
  then have f: "find (\<lambda>p. fst p \<noteq> [] \<and> HasPrefix (c # cs) (fst p)) pairs = None" by (auto simp: find_None_iff)
  have "\<forall>p \<in> set pairs. \<forall>i < length cs. \<not> HasPrefix (drop i cs) (fst p)"
    using Cons.prems by (metis Suc_less_eq drop_Suc_Cons length_Cons)
  from Cons.IH [OF this] show ?case by (simp add: f)
qed simp

text \<open>No key of the data of an execution is a placeholder of the text.\<close>

definition execution_keys :: "string list" where
  "execution_keys = map fst (buildExecutionTemplateData zero_ExecutionDetail)"

fun unfilled :: "string \<Rightarrow> bool" where
  "unfilled [] = True"
| "unfilled (c # cs) =
     (if c = CHR ''{'' then list_all (\<lambda>k. \<not> HasPrefix cs (''{'' @ k @ ''}}'')) execution_keys \<and> unfilled cs else unfilled cs)"

lemma unfilled_at: "unfilled s \<Longrightarrow> k \<in> set execution_keys \<Longrightarrow> i < length s \<Longrightarrow> \<not> HasPrefix (drop i s) (''{{'' @ k @ ''}}'')"
proof (induction s arbitrary: i)
  case (Cons c cs)
  then show ?case by (cases i) (auto simp: list_all_iff split: if_splits)
qed simp

lemma replacer_unfilled:
  assumes "unfilled s"
  shows "replacer (buildReplacerPairs ks (buildExecutionTemplateData exec)) s = s"
proof (rule replacer_absent, intro ballI)
  fix p assume p: "p \<in> set (buildReplacerPairs ks (buildExecutionTemplateData exec))"
  have "set (List.map_filter g ks) = {y. \<exists>k \<in> set ks. g k = Some y}" for g :: "string \<Rightarrow> (string \<times> string) option"
    by (induction ks) (auto simp: List.map_filter_simps split: option.splits)
  with p obtain k v where "map_of (buildExecutionTemplateData exec) k = Some v" "fst p = ''{{'' @ k @ ''}}''"
    by (auto simp: buildReplacerPairs_def)
  moreover from this have "k \<in> set (map fst (buildExecutionTemplateData exec))" by (force dest: map_of_SomeD)
  moreover have "map fst (buildExecutionTemplateData exec) = execution_keys"
    by (simp add: execution_keys_def buildExecutionTemplateData_def)
  ultimately show "\<forall>i < length s. \<not> HasPrefix (drop i s) (fst p)" using unfilled_at [OF assms] by simp
qed

text \<open>The notifications of executions are sent unfilled.  With the default templates, the message of an
  approval request and of a finished execution is the text of its template with every placeholder in
  place, because the keys of the data are not the names the templates use.
\<close>
theorem default_templates_unfilled:
  assumes "w_templates w = Some (tpl_NewManager now)"
  shows "trigger_texts ks w (approval_event exec) (t\<lparr>tg_TemplateID := ''approval-zh-CN''\<rparr>) =
      (tc_Subject (nt_Content (approval_zh now)), tc_Body (nt_Content (approval_zh now))) \<and>
    trigger_texts ks w (completed_event exec) (t\<lparr>tg_TemplateID := ''execution_result-zh-CN''\<rparr>) =
      (tc_Subject (nt_Content (result_zh now)), tc_Body (nt_Content (result_zh now)))"
proof -
  have get: "tpl_Get ''approval-zh-CN'' (tpl_NewManager now) = Some (approval_zh now)"
    "tpl_Get ''execution_result-zh-CN'' (tpl_NewManager now) = Some (result_zh now)"
    by (simp_all add: tpl_Get_def tpl_NewManager_def defaultTemplates_def approval_zh_def approval_en_def result_zh_def result_en_def)
  have on: "nt_Enabled (approval_zh now)" "nt_Enabled (result_zh now)"
    "tc_Subject (nt_Content (approval_zh now)) \<noteq> []" "tc_Body (nt_Content (approval_zh now)) \<noteq> []"
    "tc_Subject (nt_Content (result_zh now)) \<noteq> []" "tc_Body (nt_Content (result_zh now)) \<noteq> []"
    by (simp_all add: approval_zh_def result_zh_def)
  have un: "unfilled (tc_Subject (nt_Content (approval_zh now)))" "unfilled (tc_Body (nt_Content (approval_zh now)))"
    "unfilled (tc_Subject (nt_Content (result_zh now)))" "unfilled (tc_Body (nt_Content (result_zh now)))"
    by code_simp+
  have data: "fe_TemplateData (approval_event exec) = buildExecutionTemplateData exec"
    "fe_TemplateData (completed_event exec) = buildExecutionTemplateData exec"
    by (simp_all add: approval_event_def completed_event_def Let_def)
  show ?thesis
    by (simp add: trigger_texts_def assms get on data Render_def replacer_unfilled [OF un(1)] replacer_unfilled [OF un(2)]
        replacer_unfilled [OF un(3)] replacer_unfilled [OF un(4)] Let_def)
qed

lemma find_only: "p \<in> set ps \<Longrightarrow> P p \<Longrightarrow> (\<And>q. q \<in> set ps \<Longrightarrow> P q \<Longrightarrow> q = p) \<Longrightarrow> find P ps = Some p"
proof (induction ps)
  case (Cons x xs)
  show ?case
  proof (cases "P x")
    case True
    then show ?thesis using Cons.prems(3) [of x] by simp
  next
    case False
    then have "find P xs = Some p" using Cons by (metis list.set_intros(2) set_ConsD)
    then show ?thesis using False by simp
  qed
qed simp

lemma find_same_set:
  assumes "set ps = set qs" and "\<And>p q. p \<in> set ps \<Longrightarrow> q \<in> set ps \<Longrightarrow> P p \<Longrightarrow> P q \<Longrightarrow> p = q"
  shows "find P ps = find P qs"
proof (cases "\<exists>p \<in> set ps. P p")
  case True
  then obtain p where p: "p \<in> set ps" "P p" by blast
  have "find P ps = Some p" using p assms(2) by (intro find_only) auto
  moreover have "find P qs = Some p" using p assms by (intro find_only) auto
  ultimately show ?thesis by simp
next
  case False
  then have "find P ps = None" "find P qs = None" using assms(1) by (auto simp: find_None_iff)
  then show ?thesis by simp
qed

lemma replacer_same_find:
  assumes "\<And>s. find (\<lambda>p. fst p \<noteq> [] \<and> HasPrefix s (fst p)) ps = find (\<lambda>p. fst p \<noteq> [] \<and> HasPrefix s (fst p)) qs"
  shows "replacer ps s = replacer qs s"
proof (induction "length s" arbitrary: s rule: less_induct)
  case less
  show ?case
  proof (cases s)
    case (Cons c cs)
    have "replacer ps (drop (max 1 n) s) = replacer qs (drop (max 1 n) s)" "replacer ps cs = replacer qs cs" for n
      using Cons by (auto intro!: less)
    then show ?thesis by (simp only: Cons replacer.simps assms)
  qed simp
qed

lemma placeholder_name:
  assumes "prefix (''{{'' @ k @ ''}}'') s" and "CHR ''}'' \<notin> set k"
  shows "k = takeWhile (\<lambda>c. c \<noteq> CHR ''}'') (drop 2 s)"
proof -
  from assms(1) obtain r where "s = ''{{'' @ k @ ''}}'' @ r" by (auto simp: prefix_def)
  moreover have "takeWhile (\<lambda>c. c \<noteq> CHR ''}'') (k @ ''}}'' @ r) = k" using assms(2) by (subst takeWhile_append2) auto
  ultimately show ?thesis by simp
qed

lemma set_buildReplacerPairs:
  "set (buildReplacerPairs ks data) = {(''{{'' @ k @ ''}}'', v) | k v. k \<in> set ks \<and> map_of data k = Some v}"
  by (induction ks) (auto simp: buildReplacerPairs_def List.map_filter_simps split: option.splits)

text \<open>Rendering does not depend on the iteration order of the data.  The replacer gets its pairs from
  ranging over a map, in any order; when no key contains a closing brace, every order gives the same
  subject and body.
\<close>
theorem render_order_irrelevant:
  assumes "range_order (map_of data) ks" and "range_order (map_of data) ks'" and "\<forall>k \<in> set ks. CHR ''}'' \<notin> set k"
  shows "Render ks data t = Render ks' data t"
proof -
  have s: "set ks = set ks'" using range_orderD(2) [OF assms(1)] range_orderD(2) [OF assms(2)] by simp
  have "find (\<lambda>p. fst p \<noteq> [] \<and> HasPrefix u (fst p)) (buildReplacerPairs ks data) =
      find (\<lambda>p. fst p \<noteq> [] \<and> HasPrefix u (fst p)) (buildReplacerPairs ks' data)" for u
  proof (rule find_same_set)
    show "set (buildReplacerPairs ks data) = set (buildReplacerPairs ks' data)" by (simp only: set_buildReplacerPairs s)
    fix p q assume "p \<in> set (buildReplacerPairs ks data)" "q \<in> set (buildReplacerPairs ks data)"
      "fst p \<noteq> [] \<and> HasPrefix u (fst p)" "fst q \<noteq> [] \<and> HasPrefix u (fst q)"
    then obtain k v k' v' where e: "p = (''{{'' @ k @ ''}}'', v)" "q = (''{{'' @ k' @ ''}}'', v')" "k \<in> set ks" "k' \<in> set ks"
      "map_of data k = Some v" "map_of data k' = Some v'" "HasPrefix u (fst p)" "HasPrefix u (fst q)"
      unfolding set_buildReplacerPairs by blast
    then have "k = k'" using placeholder_name [of k u] placeholder_name [of k' u] assms(3) by auto
    then show "p = q" using e by simp
  qed
  from replacer_same_find [OF this] show ?thesis by (simp add: Render_def Let_def)
qed

section \<open>Concrete events\<close>

definition sample_trigger :: Trigger where
  "sample_trigger = (inbox_trigger 5 ''t1'' [] [] EventOnSessionClosed [])\<lparr>tg_CooldownSec := 60\<rparr>"

definition sample_worker :: TriggerWorker where
  "sample_worker = NewTriggerWorker True (Some \<lparr>tr_triggers = [''t1'' \<mapsto> sample_trigger]\<rparr>) (Some (tpl_NewManager 5)) None"

lemma sample_worker_ok:
  "w_triggers sample_worker = Some \<lparr>tr_triggers = [''t1'' \<mapsto> sample_trigger]\<rparr>" "w_channel sample_worker"
  "w_templates sample_worker = Some (tpl_NewManager 5)" "triggers_ok \<lparr>tr_triggers = [''t1'' \<mapsto> sample_trigger]\<rparr>"
  by (simp_all add: sample_worker_def NewTriggerWorker_def triggers_ok_def sample_trigger_def inbox_trigger_def
      TrimSpace_visible space_seqs_def ascii_spaces_def)

theorem fire_event_exact_witness:
  "fst ` set (fst (worker_FireEvent 100 [''t1''] [] (\<lambda>k msg. None) (closed_event ''s1'' []) sample_worker)) = {''t1''}"
proof -
  have "fst ` set (fst (worker_FireEvent 100 [''t1''] [] (\<lambda>k msg. None) (closed_event ''s1'' []) sample_worker)) =
      {tid. \<exists>t. [''t1'' \<mapsto> sample_trigger] tid = Some t \<and> trigger_listed (event_filter (closed_event ''s1'' [])) t \<and>
         matchRuntimeRequest t (event_request (closed_event ''s1'' [])) = Inr True \<and> ready 100 sample_worker t}"
    using fire_event_exact [OF sample_worker_ok(1,2,4), of "[''t1'']" "\<lambda>k msg. None" "closed_event ''s1'' []" 100 "[]"]
    by (simp add: range_order_def candidates_def List.map_filter_simps)
  also have "\<dots> = {''t1''}"
  proof -
    have "trigger_listed (event_filter (closed_event ''s1'' [])) sample_trigger"
      "matchRuntimeRequest sample_trigger (event_request (closed_event ''s1'' [])) = Inr True" "ready 100 sample_worker sample_trigger"
      by code_simp+
    then show ?thesis by auto
  qed
  finally show ?thesis .
qed

theorem cooldown_respected_witness:
  "sorted_wrt (\<lambda>a b. fst a + 60 * Second \<le> fst b) (filter (\<lambda>d. snd d = ''t1'')
     (fst (trigger_run [FireOp 100 [''t1''] [] (\<lambda>k msg. None) (closed_event ''s1'' []), EnableOp 200 [] ''t1'' True,
       FireOp 300 [''t1''] [] (\<lambda>k msg. None) (closed_event ''s2'' [])] sample_worker)))"
  using cooldown_respected [OF sample_worker_ok(1,4), of "''t1''" sample_trigger
      "[FireOp 100 [''t1''] [] (\<lambda>k msg. None) (closed_event ''s1'' []), EnableOp 200 [] ''t1'' True,
        FireOp 300 [''t1''] [] (\<lambda>k msg. None) (closed_event ''s2'' [])]"]
  by (simp add: sample_trigger_def inbox_trigger_def Second_def maxDuration_def)

theorem filter_text_holds_witness:
  "evalFilterExpr (filter_text (FIn ''status'' [''failed'', ''timeout''])) [(''status'', '' failed'')] =
     Inr (filter_holds [(''status'', '' failed'')] (FIn ''status'' [''failed'', ''timeout'']))"
  by (rule filter_text_holds) code_simp

theorem default_templates_unfilled_witness:
  "trigger_texts [''command''] sample_worker (approval_event zero_ExecutionDetail) (sample_trigger\<lparr>tg_TemplateID := ''approval-zh-CN''\<rparr>) =
     (tc_Subject (nt_Content (approval_zh 5)), tc_Body (nt_Content (approval_zh 5)))"
  using default_templates_unfilled [OF sample_worker_ok(3)] by blast

theorem render_order_irrelevant_witness:
  "Render [''a'', ''b''] [(''a'', ''1''), (''b'', ''2'')] (approval_en 5) = Render [''b'', ''a''] [(''a'', ''1''), (''b'', ''2'')] (approval_en 5)"
  by (rule render_order_irrelevant) (auto simp: range_order_def split: if_splits)

end
