(* ===== verification/Http_Lists.thy ===== *)
theory Http_Lists
  imports Triggers
begin

text \<open>
  Lists of the HTTP interface, \<^verbatim>\<open>internal/api/http/list_query.go\<close>: the parameters of a list request, one page
  of a list, and the list of triggers in \<^verbatim>\<open>trigger_handler.go\<close>.  \<^verbatim>\<open>int\<close> is 64 bits wide, and its arithmetic
  wraps; a slice expression with bounds out of range panics.
\<close>

section \<open>Parameters of a list\<close>

record listQuery =
  lq_Page :: int
  lq_Limit :: int
  lq_Query :: string
  lq_SortBy :: string
  lq_SortOrder :: string

record ListPage =
  lp_Page :: int
  lp_Limit :: int
  lp_Total :: int
  lp_HasNext :: bool
  lp_Query :: string
  lp_SortBy :: string
  lp_SortOrder :: string

definition defaultListPage :: int where "defaultListPage = 1"
definition defaultListLimit :: int where "defaultListLimit = 20"
definition maxListLimit :: int where "maxListLimit = 100"

text \<open>\<^verbatim>\<open>strconv.Atoi\<close>: a decimal number with an optional sign, within 64 bits.\<close>

definition digits_value :: "string \<Rightarrow> int" where
  "digits_value s = foldl (\<lambda>n c. 10 * n + (of_char c - 48)) 0 s"

definition Atoi :: "string \<Rightarrow> int option" where
  "Atoi s =
     (let neg = (s \<noteq> [] \<and> hd s = CHR ''-'');
          body = (if s \<noteq> [] \<and> hd s \<in> {CHR ''+'', CHR ''-''} then tl s else s);
          v = (if neg then - digits_value body else digits_value body)
      in if body = [] \<or> \<not> (\<forall>c \<in> set body. 48 \<le> (of_char c :: nat) \<and> (of_char c :: nat) \<le> 57) then None
         else if v < minDuration \<or> maxDuration < v then None
         else Some v)"

definition parsePositiveInt :: "string \<Rightarrow> int \<Rightarrow> int" where
  "parsePositiveInt raw fallback =
     (case Atoi (TrimSpace raw) of
        None \<Rightarrow> fallback
      | Some value \<Rightarrow> if value \<le> 0 then fallback else value)"

text \<open>\<open>get\<close> is the first value of a parameter of the request, or the empty text.\<close>

definition parseListQuery :: "(string \<Rightarrow> string) \<Rightarrow> listQuery" where
  "parseListQuery get =
     (let limit = parsePositiveInt (get ''limit'') defaultListLimit;
          sortOrder = ToLower (TrimSpace (get ''sort_order''))
      in \<lparr>lq_Page = parsePositiveInt (get ''page'') defaultListPage,
          lq_Limit = (if limit > maxListLimit then maxListLimit else limit),
          lq_Query = TrimSpace (get ''q''), lq_SortBy = TrimSpace (get ''sort_by''),
          lq_SortOrder = (if sortOrder \<noteq> ''asc'' then ''desc'' else sortOrder)\<rparr>)"

section \<open>One page\<close>

text \<open>\<^verbatim>\<open>make\<close> panics on a negative capacity and \<^verbatim>\<open>items[start:end]\<close> on bounds out of range: \<open>None\<close>.\<close>

definition paginateItems :: "'a list \<Rightarrow> listQuery \<Rightarrow> ('a list \<times> ListPage) option" where
  "paginateItems items query =
     (let total = int (length items);
          start0 = to_int64 (to_int64 (lq_Page query - 1) * lq_Limit query);
          start = (if start0 > total then total else start0);
          end0 = to_int64 (start + lq_Limit query);
          stop = (if end0 > total then total else end0)
      in if start < 0 \<or> stop < start then None
         else Some (take (nat (stop - start)) (drop (nat start) items),
                \<lparr>lp_Page = lq_Page query, lp_Limit = lq_Limit query, lp_Total = total, lp_HasNext = stop < total,
                 lp_Query = lq_Query query, lp_SortBy = lq_SortBy query, lp_SortOrder = lq_SortOrder query\<rparr>))"

section \<open>The list of triggers\<close>

definition containsQuery :: "string \<Rightarrow> string list \<Rightarrow> bool" where
  "containsQuery query haystacks \<longleftrightarrow> (\<exists>h \<in> set haystacks. Contains (ToLower h) query)"

definition filterTriggers :: "Trigger list \<Rightarrow> string \<Rightarrow> Trigger list" where
  "filterTriggers items query =
     (if TrimSpace query = [] then items
      else filter (\<lambda>t. containsQuery (ToLower (TrimSpace query))
             [tg_ID t, tg_DisplayName t, tg_EventType t, tg_ChannelID t, tg_TargetAudience t]) items)"

definition triggers_page ::
  "string list \<Rightarrow> string \<Rightarrow> listQuery \<Rightarrow> TriggerManager \<Rightarrow> trigger_error + Trigger list \<times> ListPage" where
  "triggers_page order eventType query m =
     (case trg_List order \<lparr>lf_TenantID = ''default'', lf_EventType = eventType, lf_Enabled = None, lf_Limit = lq_Limit query,
             lf_Offset = to_int64 (to_int64 (lq_Page query - 1) * lq_Limit query)\<rparr> m of
        Inl err \<Rightarrow> Inl err
      | Inr items \<Rightarrow>
          (case paginateItems (filterTriggers items (lq_Query query)) query of
             None \<Rightarrow> Inl SliceOutOfRange
           | Some page \<Rightarrow> Inr page))"

section \<open>Laws of pages\<close>

lemma parsePositiveInt_pos: "0 < fallback \<Longrightarrow> fallback \<le> maxDuration \<Longrightarrow> 0 < parsePositiveInt raw fallback \<and> parsePositiveInt raw fallback \<le> maxDuration"
  by (auto simp: parsePositiveInt_def Atoi_def Let_def split: option.splits if_splits)

lemma parseListQuery_bounds:
  "1 \<le> lq_Page (parseListQuery get)" "lq_Page (parseListQuery get) \<le> maxDuration"
  "1 \<le> lq_Limit (parseListQuery get)" "lq_Limit (parseListQuery get) \<le> 100"
  using parsePositiveInt_pos [of defaultListPage "get ''page''"] parsePositiveInt_pos [of defaultListLimit "get ''limit''"]
  by (auto simp: parseListQuery_def Let_def defaultListPage_def defaultListLimit_def maxListLimit_def maxDuration_def)

text \<open>Without overflow a page is the usual window of the list.\<close>

lemma paginate_window:
  assumes "1 \<le> lq_Page query" and "1 \<le> lq_Limit query" and "lq_Page query * lq_Limit query \<le> maxDuration"
    and "int (length items) + lq_Limit query \<le> maxDuration"
  shows "\<exists>meta. paginateItems items query =
    Some (take (nat (lq_Limit query)) (drop (nat ((lq_Page query - 1) * lq_Limit query)) items), meta)"
proof -
  let ?p = "lq_Page query" and ?l = "lq_Limit query" and ?n = "int (length items)"
  have "?p * 1 \<le> ?p * ?l" using assms(1,2) by (intro mult_left_mono) auto
  then have "?p - 1 \<le> maxDuration" using assms(3) by linarith
  then have p: "to_int64 (?p - 1) = ?p - 1" using assms(1) by (intro to_int64_id) (simp_all add: minDuration_def)
  have pl: "0 \<le> (?p - 1) * ?l" "(?p - 1) * ?l \<le> maxDuration" using assms by (auto simp: left_diff_distrib)
  then have st: "to_int64 ((?p - 1) * ?l) = (?p - 1) * ?l" by (intro to_int64_id) (auto simp: minDuration_def)
  define start where "start = (if (?p - 1) * ?l > ?n then ?n else (?p - 1) * ?l)"
  have s: "0 \<le> start" "start \<le> ?n" using pl by (auto simp: start_def)
  then have en: "to_int64 (start + ?l) = start + ?l" using assms(2,4) by (intro to_int64_id) (auto simp: minDuration_def)
  have eq: "take (nat ((if start + ?l > ?n then ?n else start + ?l) - start)) (drop (nat start) items) =
      take (nat ?l) (drop (nat ((?p - 1) * ?l)) items)"
    using pl assms(2) by (auto simp: start_def)
  show ?thesis using s assms(2) eq
    by (auto simp: paginateItems_def Let_def p st en start_def [symmetric])
qed

lemma concat_windows: "concat (map (\<lambda>p. take l (drop ((p - 1) * l) xs)) [1..<Suc n]) = take (n * l) xs"
proof (induction n)
  case (Suc n)
  have "take (Suc n * l) xs = take (n * l) xs @ take l (drop (n * l) xs)" by (metis add.commute mult_Suc take_add)
  with Suc show ?case by simp
qed simp

text \<open>The pages of a list are the list.  The pages from the first to any page that reaches the end,
  put together, are the items in their order, as long as the arithmetic does not overflow.
\<close>
theorem pages_partition:
  assumes "1 \<le> lq_Limit query" and "int (length items) + lq_Limit query \<le> maxDuration"
    and "int (length items) \<le> int n * lq_Limit query" and "int n * lq_Limit query \<le> maxDuration"
  shows "concat (map (\<lambda>p. fst (the (paginateItems items (query\<lparr>lq_Page := int p\<rparr>)))) [1..<Suc n]) = items"
proof -
  let ?l = "lq_Limit query"
  have "fst (the (paginateItems items (query\<lparr>lq_Page := int p\<rparr>))) = take (nat ?l) (drop ((p - 1) * nat ?l) items)"
    if "p \<in> set [1..<Suc n]" for p
  proof -
    have "int p * ?l \<le> int n * ?l" using that assms(1) by (intro mult_right_mono) auto
    with paginate_window [of "query\<lparr>lq_Page := int p\<rparr>" items] that assms obtain meta where
      "paginateItems items (query\<lparr>lq_Page := int p\<rparr>) = Some (take (nat ?l) (drop (nat ((int p - 1) * ?l)) items), meta)"
      by force
    moreover have "nat ((int p - 1) * ?l) = (p - 1) * nat ?l"
    proof -
      have "int p - 1 = int (p - 1)" using that by auto
      then show ?thesis using assms(1) by (simp only: nat_mult_distrib nat_int)
    qed
    ultimately show ?thesis by simp
  qed
  then have "concat (map (\<lambda>p. fst (the (paginateItems items (query\<lparr>lq_Page := int p\<rparr>)))) [1..<Suc n]) = take (n * nat ?l) items"
    using concat_windows [of "nat ?l" items n] by (metis (mono_tags, lifting) map_eq_conv)
  moreover have "int (length items) \<le> int (n * nat ?l)" using assms(1,3) by simp
  ultimately show ?thesis by simp
qed

text \<open>C25: a page number near the largest integer stops the request.  The product of page and limit wraps
  to a negative number, and the slice of any list panics.
\<close>
theorem page_overflow_panics:
  "paginateItems items (parseListQuery (\<lambda>k. if k = ''page'' then ''9223372036854775807'' else [])) = None"
proof -
  have "lq_Page (parseListQuery (\<lambda>k. if k = ''page'' then ''9223372036854775807'' else [])) = 9223372036854775807"
    "lq_Limit (parseListQuery (\<lambda>k. if k = ''page'' then ''9223372036854775807'' else [])) = 20"
    by code_simp+
  then show ?thesis by (simp add: paginateItems_def to_int64_def Let_def)
qed

lemma slice_page_ok: "0 \<le> offset \<Longrightarrow> 0 < limit \<Longrightarrow> offset + limit \<le> maxDuration \<Longrightarrow> \<exists>xs. slice_page offset limit out = Inr xs"
  by (auto simp: slice_page_def Let_def to_int64_id minDuration_def)

lemma slice_page_length: "slice_page offset limit out = Inr xs \<Longrightarrow> 0 < limit \<Longrightarrow> 0 \<le> offset \<Longrightarrow> offset + limit \<le> maxDuration \<Longrightarrow> int (length xs) \<le> limit"
  by (auto simp: slice_page_def Let_def to_int64_id minDuration_def maxDuration_def split: if_splits)

text \<open>Later pages of the list of triggers are empty.  The handler cuts the page out twice, first
  in the store and then again in the answer, so every page after the first shows nothing.
\<close>
theorem trigger_later_pages_empty:
  assumes "2 \<le> lq_Page query" and "1 \<le> lq_Limit query" and "lq_Page query * lq_Limit query \<le> maxDuration"
  shows "\<exists>meta. triggers_page order eventType query m = Inr ([], meta)"
proof -
  let ?p = "lq_Page query" and ?l = "lq_Limit query"
  have l: "2 * ?l \<le> ?p * ?l" using assms(1,2) by (intro mult_right_mono) auto
  have "?p * 1 \<le> ?p * ?l" using assms(1,2) by (intro mult_left_mono) auto
  then have "?p - 1 \<le> maxDuration" using assms(3) by linarith
  then have p: "to_int64 (?p - 1) = ?p - 1" using assms(1) by (intro to_int64_id) (simp_all add: minDuration_def)
  have off: "?l \<le> (?p - 1) * ?l" "(?p - 1) * ?l + ?l \<le> maxDuration" using l assms(3) by (simp_all add: left_diff_distrib)
  then have "minDuration \<le> (?p - 1) * ?l" "(?p - 1) * ?l \<le> maxDuration" using assms(2) unfolding minDuration_def by linarith+
  then have st: "to_int64 ((?p - 1) * ?l) = (?p - 1) * ?l" by (rule to_int64_id)
  define L where "L = slice_stable (\<lambda>a b. tg_ID a < tg_ID b) (filter (trigger_listed \<lparr>lf_TenantID = ''default'',
    lf_EventType = eventType, lf_Enabled = None, lf_Limit = ?l, lf_Offset = (?p - 1) * ?l\<rparr>) (List.map_filter (tr_triggers m) order))"
  obtain items where items: "slice_page ((?p - 1) * ?l) ?l L = Inr items"
    using slice_page_ok [of "(?p - 1) * ?l" ?l L] off assms(2) by force
  have len: "int (length (filterTriggers items (lq_Query query))) \<le> ?l"
    using slice_page_length [OF items] off assms(2) by (auto simp: filterTriggers_def intro: order_trans [OF of_nat_mono [OF length_filter_le]])
  have "int (length (filterTriggers items (lq_Query query))) + ?l \<le> maxDuration" using len l assms(3) by linarith
  from paginate_window [OF _ assms(2,3) this] assms(1) obtain meta where
    "paginateItems (filterTriggers items (lq_Query query)) query =
       Some (take (nat ?l) (drop (nat ((?p - 1) * ?l)) (filterTriggers items (lq_Query query))), meta)" by auto
  moreover have "drop (nat ((?p - 1) * ?l)) (filterTriggers items (lq_Query query)) = []" using len off by simp
  moreover have "trg_List order \<lparr>lf_TenantID = ''default'', lf_EventType = eventType, lf_Enabled = None, lf_Limit = ?l,
      lf_Offset = (?p - 1) * ?l\<rparr> m = Inr items"
    using items assms(2) by (simp add: trg_List_def listMem_def L_def)
  ultimately show ?thesis by (simp add: triggers_page_def p st)
qed

text \<open>Concrete requests.\<close>

definition sample_query :: listQuery where
  "sample_query = \<lparr>lq_Page = 2, lq_Limit = 2, lq_Query = [], lq_SortBy = [], lq_SortOrder = []\<rparr>"

theorem pages_partition_witness:
  "concat (map (\<lambda>p. fst (the (paginateItems [10 :: nat, 20, 30] (sample_query\<lparr>lq_Page := int p\<rparr>)))) [1..<Suc 2]) = [10, 20, 30]"
  by (rule pages_partition) (simp_all add: sample_query_def maxDuration_def)

theorem trigger_later_pages_empty_witness:
  "\<exists>meta. triggers_page [''a'', ''b'', ''c''] [] sample_query \<lparr>tr_triggers = (\<lambda>_. Some (inbox_trigger 0 ''x'' [] [] [] []))\<rparr> = Inr ([], meta)"
  by (rule trigger_later_pages_empty) (simp_all add: sample_query_def maxDuration_def)

end
