(* ===== verification/Organizations.thy ===== *)
theory Organizations
  imports Contracts
begin

text \<open>
  Organizations, tenants and workspaces, \<^verbatim>\<open>internal/modules/org\<close>: the registry with its policies, and the
  context of a request.  The YAML codec, the errors of the file system and the persistence callback are
  parameters; the configuration file itself is part of the state.  An operation reads the clock once.
  \<open>org_\<close> marks functions whose Go name is also used by another package.
\<close>

section \<open>Data\<close>

definition DefaultOrgID :: string where "DefaultOrgID = ''default''"
definition DefaultTenantID :: string where "DefaultTenantID = ''default''"
definition DefaultWorkspaceID :: string where "DefaultWorkspaceID = ''default''"

datatype org_error =
    ErrOrgNotFound
  | ErrTenantNotFound
  | ErrWorkspaceNotFound
  | ErrIDRequired
  | ErrOrgPathNotSet
  | ErrOrgExists string
  | ErrOrgOther go_error

record Organization =
  og_ID :: string
  og_Name :: string
  og_Slug :: string
  og_Status :: string
  og_Description :: string
  og_Domain :: string
  og_CreatedAt :: gotime
  og_UpdatedAt :: gotime

record Tenant =
  tt_ID :: string
  tt_OrgID :: string
  tt_Name :: string
  tt_Slug :: string
  tt_Status :: string
  tt_Description :: string
  tt_DefaultLocale :: string
  tt_DefaultTimezone :: string
  tt_CreatedAt :: gotime
  tt_UpdatedAt :: gotime

record Workspace =
  wk_ID :: string
  wk_TenantID :: string
  wk_OrgID :: string
  wk_Name :: string
  wk_Slug :: string
  wk_Status :: string
  wk_Description :: string
  wk_CreatedAt :: gotime
  wk_UpdatedAt :: gotime

record OrgPolicy =
  op_OrgID :: string
  op_AllowedAuthMethods :: "string list"
  op_RequireMFA :: bool
  op_MaxSessionDuration :: int
  op_IdleSessionTimeout :: int
  op_RequireApprovalForExecution :: bool
  op_ProhibitSelfApproval :: bool
  op_DefaultJITRoles :: "string list"
  op_SkillAllowlist :: "string list"
  op_SkillBlocklist :: "string list"
  op_AuditRetentionDays :: int
  op_KnowledgeRetentionDays :: int
  op_UpdatedAt :: gotime

text \<open>A nil pointer is \<open>None\<close>.\<close>

record TenantPolicy =
  tp_TenantID :: string
  tp_OrgID :: string
  tp_AllowedAuthMethods :: "string list option"
  tp_RequireMFA :: "bool option"
  tp_MaxSessionDuration :: "int option"
  tp_IdleSessionTimeout :: "int option"
  tp_RequireApprovalForExecution :: "bool option"
  tp_ProhibitSelfApproval :: "bool option"
  tp_DefaultJITRoles :: "string list option"
  tp_SkillAllowlist :: "string list option"
  tp_SkillBlocklist :: "string list option"
  tp_UpdatedAt :: gotime

record ResolvedPolicy =
  rp_OrgID :: string
  rp_TenantID :: string
  rp_AllowedAuthMethods :: "string list"
  rp_RequireMFA :: bool
  rp_MaxSessionDuration :: int
  rp_IdleSessionTimeout :: int
  rp_RequireApprovalForExecution :: bool
  rp_ProhibitSelfApproval :: bool
  rp_DefaultJITRoles :: "string list"
  rp_SkillAllowlist :: "string list"
  rp_SkillBlocklist :: "string list"
  rp_AuditRetentionDays :: int
  rp_KnowledgeRetentionDays :: int

record OrgConfig =
  gc_Organizations :: "Organization list"
  gc_Tenants :: "Tenant list"
  gc_Workspaces :: "Workspace list"
  gc_OrgPolicies :: "OrgPolicy list"
  gc_TenantPolicies :: "TenantPolicy list"

text \<open>\<open>om_file\<close> is the content of the file at the path, if it exists.\<close>

record OrgManager =
  om_path :: string
  om_organizations :: "Organization list"
  om_tenants :: "Tenant list"
  om_workspaces :: "Workspace list"
  om_orgPolicies :: "string \<rightharpoonup> OrgPolicy"
  om_tenantPolicies :: "string \<rightharpoonup> TenantPolicy"
  om_updatedAt :: gotime
  om_persist :: "(OrgConfig \<Rightarrow> go_error option) option"
  om_file :: "string option"

text \<open>\<open>oe_reading\<close> and \<open>oe_writing\<close> are the errors of reading an existing file and of creating the directory or
  writing the file.\<close>

record org_env =
  oe_marshal :: "OrgConfig \<Rightarrow> go_error + string"
  oe_unmarshal :: "string \<Rightarrow> go_error + OrgConfig"
  oe_reading :: "string \<Rightarrow> go_error option"
  oe_writing :: "string \<Rightarrow> go_error option"

section \<open>Defaults\<close>

definition default_org :: "string \<Rightarrow> gotime \<Rightarrow> Organization" where
  "default_org desc now =
     \<lparr>og_ID = DefaultOrgID, og_Name = ''Default Organization'', og_Slug = DefaultOrgID, og_Status = ''active'',
      og_Description = desc, og_Domain = [], og_CreatedAt = now, og_UpdatedAt = now\<rparr>"

definition default_tenant :: "string \<Rightarrow> string \<Rightarrow> gotime \<Rightarrow> Tenant" where
  "default_tenant desc orgID now =
     \<lparr>tt_ID = DefaultTenantID, tt_OrgID = orgID, tt_Name = ''Default Tenant'', tt_Slug = DefaultTenantID,
      tt_Status = ''active'', tt_Description = desc, tt_DefaultLocale = [], tt_DefaultTimezone = [],
      tt_CreatedAt = now, tt_UpdatedAt = now\<rparr>"

definition default_workspace :: "string \<Rightarrow> string \<Rightarrow> string \<Rightarrow> gotime \<Rightarrow> Workspace" where
  "default_workspace desc tenantID orgID now =
     \<lparr>wk_ID = DefaultWorkspaceID, wk_TenantID = tenantID, wk_OrgID = orgID, wk_Name = ''Default Workspace'',
      wk_Slug = DefaultWorkspaceID, wk_Status = ''active'', wk_Description = desc, wk_CreatedAt = now, wk_UpdatedAt = now\<rparr>"

definition bootDefaults :: "gotime \<Rightarrow> OrgManager \<Rightarrow> OrgManager" where
  "bootDefaults now m =
     m\<lparr>om_organizations := [default_org ''Automatically created default organization.'' now],
       om_tenants := [default_tenant ''Automatically created default tenant.'' DefaultOrgID now],
       om_workspaces := [default_workspace ''Automatically created default workspace.'' DefaultTenantID DefaultOrgID now],
       om_updatedAt := now\<rparr>"

definition ensureDefaults :: "gotime \<Rightarrow> OrgManager \<Rightarrow> OrgManager" where
  "ensureDefaults now m =
     (let orgs = (if om_organizations m = [] then [default_org [] now] else om_organizations m);
          tenants = (if om_tenants m = [] then [default_tenant [] (og_ID (hd orgs)) now] else om_tenants m);
          workspaces = (if om_workspaces m = [] then [default_workspace [] (tt_ID (hd tenants)) (og_ID (hd orgs)) now]
                        else om_workspaces m)
      in m\<lparr>om_organizations := orgs, om_tenants := tenants, om_workspaces := workspaces\<rparr>)"

section \<open>Configuration\<close>

text \<open>The policy maps are rebuilt from the lists: the last policy of a key wins.\<close>

definition org_policy_map :: "OrgPolicy list \<Rightarrow> string \<rightharpoonup> OrgPolicy" where
  "org_policy_map ps = foldl (\<lambda>m p. m(op_OrgID p \<mapsto> p)) Map.empty ps"

definition tenant_policy_map :: "TenantPolicy list \<Rightarrow> string \<rightharpoonup> TenantPolicy" where
  "tenant_policy_map ps = foldl (\<lambda>m p. m(tp_TenantID p \<mapsto> p)) Map.empty ps"

definition load_config :: "gotime \<Rightarrow> OrgConfig \<Rightarrow> OrgManager \<Rightarrow> OrgManager" where
  "load_config now cfg m =
     (ensureDefaults now
       (m\<lparr>om_organizations := gc_Organizations cfg, om_tenants := gc_Tenants cfg, om_workspaces := gc_Workspaces cfg,
          om_orgPolicies := org_policy_map (gc_OrgPolicies cfg),
          om_tenantPolicies := tenant_policy_map (gc_TenantPolicies cfg)\<rparr>))\<lparr>om_updatedAt := now\<rparr>"

definition org_Reload :: "org_env \<Rightarrow> gotime \<Rightarrow> OrgManager \<Rightarrow> org_error option \<times> OrgManager" where
  "org_Reload env now m =
     (if om_path m = [] then (Some ErrOrgPathNotSet, m)
      else
        (case om_file m of
           None \<Rightarrow> (None, bootDefaults now m)
         | Some data \<Rightarrow>
             (case oe_reading env (om_path m) of
                Some err \<Rightarrow> (Some (ErrOrgOther err), m)
              | None \<Rightarrow>
                  (case oe_unmarshal env data of
                     Inl err \<Rightarrow> (Some (ErrOrgOther err), m)
                   | Inr fc \<Rightarrow> (None, load_config now fc m)))))"

definition org_NewManager :: "org_env \<Rightarrow> gotime \<Rightarrow> string \<Rightarrow> string option \<Rightarrow> org_error + OrgManager" where
  "org_NewManager env now path file =
     (let m = \<lparr>om_path = TrimSpace path, om_organizations = [], om_tenants = [], om_workspaces = [],
               om_orgPolicies = Map.empty, om_tenantPolicies = Map.empty, om_updatedAt = 0, om_persist = None, om_file = file\<rparr>
      in if om_path m = [] then Inr (bootDefaults now m)
         else (case org_Reload env now m of (Some err, _) \<Rightarrow> Inl err | (None, m') \<Rightarrow> Inr m'))"

text \<open>The policies are listed in the order \<open>oks\<close> and \<open>tks\<close> of ranging over the maps.\<close>

definition configLocked :: "string list \<Rightarrow> string list \<Rightarrow> OrgManager \<Rightarrow> OrgConfig" where
  "configLocked oks tks m =
     \<lparr>gc_Organizations = om_organizations m, gc_Tenants = om_tenants m, gc_Workspaces = om_workspaces m,
      gc_OrgPolicies = List.map_filter (om_orgPolicies m) oks, gc_TenantPolicies = List.map_filter (om_tenantPolicies m) tks\<rparr>"

definition org_run_persist :: "string list \<Rightarrow> string list \<Rightarrow> OrgManager \<Rightarrow> go_error option" where
  "org_run_persist oks tks m =
     (case om_persist m of None \<Rightarrow> None | Some persist \<Rightarrow> persist (configLocked oks tks m))"

text \<open>\<open>oe_writing\<close> is the error of creating the directory or opening the file; then the file stays as it was.  A write that breaks
  off half way, which would leave a part of the file behind, is not considered.\<close>

definition org_save ::
  "org_env \<Rightarrow> gotime \<Rightarrow> string list \<Rightarrow> string list \<Rightarrow> OrgManager \<Rightarrow> go_error option \<times> OrgManager" where
  "org_save env now oks tks m =
     (if om_path m = [] then (org_run_persist oks tks m, m\<lparr>om_updatedAt := now\<rparr>)
      else
        (case oe_marshal env (configLocked oks tks m) of
           Inl err \<Rightarrow> (Some err, m)
         | Inr data \<Rightarrow>
             (case oe_writing env (om_path m) of
                Some err \<Rightarrow> (Some err, m)
              | None \<Rightarrow> (org_run_persist oks tks m, m\<lparr>om_file := Some data, om_updatedAt := now\<rparr>))))"

definition org_SetPersistence :: "(OrgConfig \<Rightarrow> go_error option) option \<Rightarrow> OrgManager \<Rightarrow> OrgManager" where
  "org_SetPersistence persist m = m\<lparr>om_persist := persist\<rparr>"

definition org_LoadRuntimeConfig :: "gotime \<Rightarrow> OrgConfig \<Rightarrow> OrgManager \<Rightarrow> OrgManager" where
  "org_LoadRuntimeConfig now cfg m = load_config now cfg m"

definition org_RuntimeConfig :: "string list \<Rightarrow> string list \<Rightarrow> OrgManager \<Rightarrow> OrgConfig" where
  "org_RuntimeConfig oks tks m = configLocked oks tks m"

section \<open>Organizations, tenants and workspaces\<close>

text \<open>The loop over a slice that replaces its first match.\<close>

fun change_first :: "('a \<Rightarrow> bool) \<Rightarrow> ('a \<Rightarrow> 'a) \<Rightarrow> 'a list \<Rightarrow> ('a \<times> 'a list) option" where
  "change_first P f [] = None"
| "change_first P f (x # xs) =
     (if P x then Some (f x, f x # xs)
      else (case change_first P f xs of None \<Rightarrow> None | Some (y, ys) \<Rightarrow> Some (y, x # ys)))"

text \<open>\<^verbatim>\<open>return item, m.save()\<close>: the item is stored whatever the error of saving is.\<close>

definition stored ::
  "org_env \<Rightarrow> gotime \<Rightarrow> string list \<Rightarrow> string list \<Rightarrow> 'a \<Rightarrow> OrgManager \<Rightarrow> (org_error + 'a \<times> go_error option) \<times> OrgManager" where
  "stored env now oks tks item m = (case org_save env now oks tks m of (err, m') \<Rightarrow> (Inr (item, err), m'))"

definition ListOrganizations :: "OrgManager \<Rightarrow> Organization list" where
  "ListOrganizations m = om_organizations m"

definition GetOrganization :: "string \<Rightarrow> OrgManager \<Rightarrow> org_error + Organization" where
  "GetOrganization i m = (case find (\<lambda>x. og_ID x = i) (om_organizations m) of None \<Rightarrow> Inl ErrOrgNotFound | Some x \<Rightarrow> Inr x)"

definition CreateOrganization ::
  "org_env \<Rightarrow> gotime \<Rightarrow> string list \<Rightarrow> string list \<Rightarrow> Organization \<Rightarrow> OrgManager \<Rightarrow> (org_error + Organization \<times> go_error option) \<times> OrgManager" where
  "CreateOrganization env now oks tks x0 m =
     (if TrimSpace (og_ID x0) = [] then (Inl ErrIDRequired, m)
      else
        (let x = x0\<lparr>og_CreatedAt := now, og_UpdatedAt := now,
                    og_Status := (if og_Status x0 = [] then ''active'' else og_Status x0)\<rparr>
         in if og_ID x \<in> og_ID ` set (om_organizations m) then (Inl (ErrOrgExists (og_ID x)), m)
            else stored env now oks tks x (m\<lparr>om_organizations := om_organizations m @ [x]\<rparr>)))"

definition UpdateOrganization ::
  "org_env \<Rightarrow> gotime \<Rightarrow> string list \<Rightarrow> string list \<Rightarrow> string \<Rightarrow> Organization \<Rightarrow> OrgManager \<Rightarrow> (org_error + Organization \<times> go_error option) \<times> OrgManager" where
  "UpdateOrganization env now oks tks i x m =
     (case change_first (\<lambda>old. og_ID old = i)
             (\<lambda>old. x\<lparr>og_ID := i, og_CreatedAt := og_CreatedAt old, og_UpdatedAt := now\<rparr>) (om_organizations m) of
        None \<Rightarrow> (Inl ErrOrgNotFound, m)
      | Some (new, xs) \<Rightarrow> stored env now oks tks new (m\<lparr>om_organizations := xs\<rparr>))"

definition SetOrganizationStatus ::
  "org_env \<Rightarrow> gotime \<Rightarrow> string list \<Rightarrow> string list \<Rightarrow> string \<Rightarrow> string \<Rightarrow> OrgManager \<Rightarrow> (org_error + Organization \<times> go_error option) \<times> OrgManager" where
  "SetOrganizationStatus env now oks tks i status m =
     (case change_first (\<lambda>old. og_ID old = i) (\<lambda>old. old\<lparr>og_Status := status, og_UpdatedAt := now\<rparr>) (om_organizations m) of
        None \<Rightarrow> (Inl ErrOrgNotFound, m)
      | Some (new, xs) \<Rightarrow> stored env now oks tks new (m\<lparr>om_organizations := xs\<rparr>))"

definition ListTenants :: "string \<Rightarrow> OrgManager \<Rightarrow> Tenant list" where
  "ListTenants orgID m = filter (\<lambda>t. orgID = [] \<or> tt_OrgID t = orgID) (om_tenants m)"

definition GetTenant :: "string \<Rightarrow> OrgManager \<Rightarrow> org_error + Tenant" where
  "GetTenant i m = (case find (\<lambda>x. tt_ID x = i) (om_tenants m) of None \<Rightarrow> Inl ErrTenantNotFound | Some x \<Rightarrow> Inr x)"

definition CreateTenant ::
  "org_env \<Rightarrow> gotime \<Rightarrow> string list \<Rightarrow> string list \<Rightarrow> Tenant \<Rightarrow> OrgManager \<Rightarrow> (org_error + Tenant \<times> go_error option) \<times> OrgManager" where
  "CreateTenant env now oks tks x0 m =
     (if TrimSpace (tt_ID x0) = [] then (Inl ErrIDRequired, m)
      else
        (let x = x0\<lparr>tt_CreatedAt := now, tt_UpdatedAt := now,
                    tt_Status := (if tt_Status x0 = [] then ''active'' else tt_Status x0)\<rparr>
         in if tt_ID x \<in> tt_ID ` set (om_tenants m) then (Inl (ErrOrgExists (tt_ID x)), m)
            else stored env now oks tks x (m\<lparr>om_tenants := om_tenants m @ [x]\<rparr>)))"

definition UpdateTenant ::
  "org_env \<Rightarrow> gotime \<Rightarrow> string list \<Rightarrow> string list \<Rightarrow> string \<Rightarrow> Tenant \<Rightarrow> OrgManager \<Rightarrow> (org_error + Tenant \<times> go_error option) \<times> OrgManager" where
  "UpdateTenant env now oks tks i x m =
     (case change_first (\<lambda>old. tt_ID old = i)
             (\<lambda>old. x\<lparr>tt_ID := i, tt_CreatedAt := tt_CreatedAt old, tt_UpdatedAt := now\<rparr>) (om_tenants m) of
        None \<Rightarrow> (Inl ErrTenantNotFound, m)
      | Some (new, xs) \<Rightarrow> stored env now oks tks new (m\<lparr>om_tenants := xs\<rparr>))"

definition SetTenantStatus ::
  "org_env \<Rightarrow> gotime \<Rightarrow> string list \<Rightarrow> string list \<Rightarrow> string \<Rightarrow> string \<Rightarrow> OrgManager \<Rightarrow> (org_error + Tenant \<times> go_error option) \<times> OrgManager" where
  "SetTenantStatus env now oks tks i status m =
     (case change_first (\<lambda>old. tt_ID old = i) (\<lambda>old. old\<lparr>tt_Status := status, tt_UpdatedAt := now\<rparr>) (om_tenants m) of
        None \<Rightarrow> (Inl ErrTenantNotFound, m)
      | Some (new, xs) \<Rightarrow> stored env now oks tks new (m\<lparr>om_tenants := xs\<rparr>))"

definition ListWorkspaces :: "string \<Rightarrow> OrgManager \<Rightarrow> Workspace list" where
  "ListWorkspaces tenantID m = filter (\<lambda>w. tenantID = [] \<or> wk_TenantID w = tenantID) (om_workspaces m)"

definition GetWorkspace :: "string \<Rightarrow> OrgManager \<Rightarrow> org_error + Workspace" where
  "GetWorkspace i m = (case find (\<lambda>x. wk_ID x = i) (om_workspaces m) of None \<Rightarrow> Inl ErrWorkspaceNotFound | Some x \<Rightarrow> Inr x)"

definition CreateWorkspace ::
  "org_env \<Rightarrow> gotime \<Rightarrow> string list \<Rightarrow> string list \<Rightarrow> Workspace \<Rightarrow> OrgManager \<Rightarrow> (org_error + Workspace \<times> go_error option) \<times> OrgManager" where
  "CreateWorkspace env now oks tks x0 m =
     (if TrimSpace (wk_ID x0) = [] then (Inl ErrIDRequired, m)
      else
        (let x = x0\<lparr>wk_CreatedAt := now, wk_UpdatedAt := now,
                    wk_Status := (if wk_Status x0 = [] then ''active'' else wk_Status x0)\<rparr>
         in if wk_ID x \<in> wk_ID ` set (om_workspaces m) then (Inl (ErrOrgExists (wk_ID x)), m)
            else stored env now oks tks x (m\<lparr>om_workspaces := om_workspaces m @ [x]\<rparr>)))"

definition UpdateWorkspace ::
  "org_env \<Rightarrow> gotime \<Rightarrow> string list \<Rightarrow> string list \<Rightarrow> string \<Rightarrow> Workspace \<Rightarrow> OrgManager \<Rightarrow> (org_error + Workspace \<times> go_error option) \<times> OrgManager" where
  "UpdateWorkspace env now oks tks i x m =
     (case change_first (\<lambda>old. wk_ID old = i)
             (\<lambda>old. x\<lparr>wk_ID := i, wk_CreatedAt := wk_CreatedAt old, wk_UpdatedAt := now\<rparr>) (om_workspaces m) of
        None \<Rightarrow> (Inl ErrWorkspaceNotFound, m)
      | Some (new, xs) \<Rightarrow> stored env now oks tks new (m\<lparr>om_workspaces := xs\<rparr>))"

definition SetWorkspaceStatus ::
  "org_env \<Rightarrow> gotime \<Rightarrow> string list \<Rightarrow> string list \<Rightarrow> string \<Rightarrow> string \<Rightarrow> OrgManager \<Rightarrow> (org_error + Workspace \<times> go_error option) \<times> OrgManager" where
  "SetWorkspaceStatus env now oks tks i status m =
     (case change_first (\<lambda>old. wk_ID old = i) (\<lambda>old. old\<lparr>wk_Status := status, wk_UpdatedAt := now\<rparr>) (om_workspaces m) of
        None \<Rightarrow> (Inl ErrWorkspaceNotFound, m)
      | Some (new, xs) \<Rightarrow> stored env now oks tks new (m\<lparr>om_workspaces := xs\<rparr>))"

definition DefaultOrg :: "OrgManager \<Rightarrow> Organization" where
  "DefaultOrg m =
     (case find (\<lambda>x. og_Status x = ''active'') (om_organizations m) of
        Some x \<Rightarrow> x
      | None \<Rightarrow>
          if om_organizations m \<noteq> [] then hd (om_organizations m)
          else (default_org [] 0)\<lparr>og_Name := ''Default''\<rparr>)"

definition DefaultTenant :: "OrgManager \<Rightarrow> Tenant" where
  "DefaultTenant m =
     (case find (\<lambda>x. tt_Status x = ''active'') (om_tenants m) of
        Some x \<Rightarrow> x
      | None \<Rightarrow>
          if om_tenants m \<noteq> [] then hd (om_tenants m)
          else (default_tenant [] DefaultOrgID 0)\<lparr>tt_Name := ''Default''\<rparr>)"

definition DefaultWorkspace :: "OrgManager \<Rightarrow> Workspace" where
  "DefaultWorkspace m =
     (case find (\<lambda>x. wk_Status x = ''active'') (om_workspaces m) of
        Some x \<Rightarrow> x
      | None \<Rightarrow>
          if om_workspaces m \<noteq> [] then hd (om_workspaces m)
          else (default_workspace [] DefaultTenantID DefaultOrgID 0)\<lparr>wk_Name := ''Default''\<rparr>)"

section \<open>Policies\<close>

definition zero_OrgPolicy :: OrgPolicy where
  "zero_OrgPolicy = \<lparr>op_OrgID = [], op_AllowedAuthMethods = [], op_RequireMFA = False, op_MaxSessionDuration = 0,
     op_IdleSessionTimeout = 0, op_RequireApprovalForExecution = False, op_ProhibitSelfApproval = False,
     op_DefaultJITRoles = [], op_SkillAllowlist = [], op_SkillBlocklist = [], op_AuditRetentionDays = 0,
     op_KnowledgeRetentionDays = 0, op_UpdatedAt = 0\<rparr>"

definition zero_TenantPolicy :: TenantPolicy where
  "zero_TenantPolicy = \<lparr>tp_TenantID = [], tp_OrgID = [], tp_AllowedAuthMethods = None, tp_RequireMFA = None,
     tp_MaxSessionDuration = None, tp_IdleSessionTimeout = None, tp_RequireApprovalForExecution = None,
     tp_ProhibitSelfApproval = None, tp_DefaultJITRoles = None, tp_SkillAllowlist = None, tp_SkillBlocklist = None,
     tp_UpdatedAt = 0\<rparr>"

definition GetOrgPolicy :: "string \<Rightarrow> OrgManager \<Rightarrow> OrgPolicy" where
  "GetOrgPolicy orgID m = (case om_orgPolicies m orgID of Some p \<Rightarrow> p | None \<Rightarrow> zero_OrgPolicy\<lparr>op_OrgID := orgID\<rparr>)"

definition SetOrgPolicy ::
  "org_env \<Rightarrow> gotime \<Rightarrow> string list \<Rightarrow> string list \<Rightarrow> OrgPolicy \<Rightarrow> OrgManager \<Rightarrow> go_error option \<times> OrgManager" where
  "SetOrgPolicy env now oks tks p m =
     org_save env now oks tks (m\<lparr>om_orgPolicies := (om_orgPolicies m)(op_OrgID p \<mapsto> p\<lparr>op_UpdatedAt := now\<rparr>)\<rparr>)"

definition GetTenantPolicy :: "string \<Rightarrow> OrgManager \<Rightarrow> TenantPolicy" where
  "GetTenantPolicy tenantID m =
     (case om_tenantPolicies m tenantID of Some p \<Rightarrow> p | None \<Rightarrow> zero_TenantPolicy\<lparr>tp_TenantID := tenantID\<rparr>)"

definition SetTenantPolicy ::
  "org_env \<Rightarrow> gotime \<Rightarrow> string list \<Rightarrow> string list \<Rightarrow> TenantPolicy \<Rightarrow> OrgManager \<Rightarrow> go_error option \<times> OrgManager" where
  "SetTenantPolicy env now oks tks p m =
     org_save env now oks tks (m\<lparr>om_tenantPolicies := (om_tenantPolicies m)(tp_TenantID p \<mapsto> p\<lparr>tp_UpdatedAt := now\<rparr>)\<rparr>)"

definition pick :: "'a option \<Rightarrow> 'a \<Rightarrow> 'a" where
  "pick override inherited = (case override of Some v \<Rightarrow> v | None \<Rightarrow> inherited)"

definition ResolvePolicy :: "string \<Rightarrow> string \<Rightarrow> OrgManager \<Rightarrow> ResolvedPolicy" where
  "ResolvePolicy orgID tenantID m =
     (let org = GetOrgPolicy orgID m; tenant = GetTenantPolicy tenantID m
      in \<lparr>rp_OrgID = orgID, rp_TenantID = tenantID,
          rp_AllowedAuthMethods = pick (tp_AllowedAuthMethods tenant) (op_AllowedAuthMethods org),
          rp_RequireMFA = pick (tp_RequireMFA tenant) (op_RequireMFA org),
          rp_MaxSessionDuration = pick (tp_MaxSessionDuration tenant) (op_MaxSessionDuration org),
          rp_IdleSessionTimeout = pick (tp_IdleSessionTimeout tenant) (op_IdleSessionTimeout org),
          rp_RequireApprovalForExecution = pick (tp_RequireApprovalForExecution tenant) (op_RequireApprovalForExecution org),
          rp_ProhibitSelfApproval = pick (tp_ProhibitSelfApproval tenant) (op_ProhibitSelfApproval org),
          rp_DefaultJITRoles = pick (tp_DefaultJITRoles tenant) (op_DefaultJITRoles org),
          rp_SkillAllowlist = pick (tp_SkillAllowlist tenant) (op_SkillAllowlist org),
          rp_SkillBlocklist = pick (tp_SkillBlocklist tenant) (op_SkillBlocklist org),
          rp_AuditRetentionDays = op_AuditRetentionDays org, rp_KnowledgeRetentionDays = op_KnowledgeRetentionDays org\<rparr>)"

section \<open>The context of a request\<close>

record OrgContext =
  ox_OrgID :: string
  ox_TenantID :: string
  ox_WorkspaceID :: string

definition org_IsEmpty :: "OrgContext \<Rightarrow> bool" where
  "org_IsEmpty c \<longleftrightarrow> ox_OrgID c = [] \<and> ox_TenantID c = [] \<and> ox_WorkspaceID c = []"

text \<open>\<open>header\<close> and \<open>param\<close> are the first value of a header and of a query parameter, or the empty text.\<close>

definition header_or_param :: "(string \<Rightarrow> string) \<Rightarrow> (string \<Rightarrow> string) \<Rightarrow> string \<Rightarrow> string \<Rightarrow> string" where
  "header_or_param header param h q = (if TrimSpace (header h) = [] then TrimSpace (param q) else TrimSpace (header h))"

definition extractOrgContext :: "(string \<Rightarrow> string) \<Rightarrow> (string \<Rightarrow> string) \<Rightarrow> OrgContext" where
  "extractOrgContext header param =
     \<lparr>ox_OrgID = header_or_param header param ''X-Tars-Org-ID'' ''org_id'',
      ox_TenantID = header_or_param header param ''X-Tars-Tenant-ID'' ''tenant_id'',
      ox_WorkspaceID = header_or_param header param ''X-Tars-Workspace-ID'' ''workspace_id''\<rparr>"

text \<open>The context that the middleware puts into a request.\<close>

definition OrgContextMiddleware :: "OrgManager option \<Rightarrow> (string \<Rightarrow> string) \<Rightarrow> (string \<Rightarrow> string) \<Rightarrow> OrgContext" where
  "OrgContextMiddleware manager header param =
     (let c = extractOrgContext header param in
      case manager of
        None \<Rightarrow> c
      | Some m \<Rightarrow>
          if org_IsEmpty c
          then \<lparr>ox_OrgID = og_ID (DefaultOrg m), ox_TenantID = tt_ID (DefaultTenant m), ox_WorkspaceID = wk_ID (DefaultWorkspace m)\<rparr>
          else c)"

end
