(* ===== verification/Org_Laws.thy ===== *)
theory Org_Laws
  imports Organizations
begin

text \<open>
  Laws of the registry of organizations: its runs, the invariant of every reachable registry, what a
  reload reads back, and the default context of a request.
\<close>

section \<open>Runs\<close>

datatype org_op =
    CreateO Organization | UpdateO string Organization | StatusO string string
  | CreateT Tenant | UpdateT string Tenant | StatusT string string
  | CreateW Workspace | UpdateW string Workspace | StatusW string string
  | PolicyO OrgPolicy | PolicyT TenantPolicy
  | ReloadOp | LoadOp OrgConfig | PersistOp "(OrgConfig \<Rightarrow> go_error option) option"

text \<open>Each operation comes with its time and the orders in which it ranges over the policies.\<close>

type_synonym org_step = "gotime \<times> string list \<times> string list \<times> org_op"

fun org_exec :: "org_env \<Rightarrow> org_step \<Rightarrow> OrgManager \<Rightarrow> OrgManager" where
  "org_exec env (now, oks, tks, CreateO x) m = snd (CreateOrganization env now oks tks x m)"
| "org_exec env (now, oks, tks, UpdateO i x) m = snd (UpdateOrganization env now oks tks i x m)"
| "org_exec env (now, oks, tks, StatusO i s) m = snd (SetOrganizationStatus env now oks tks i s m)"
| "org_exec env (now, oks, tks, CreateT x) m = snd (CreateTenant env now oks tks x m)"
| "org_exec env (now, oks, tks, UpdateT i x) m = snd (UpdateTenant env now oks tks i x m)"
| "org_exec env (now, oks, tks, StatusT i s) m = snd (SetTenantStatus env now oks tks i s m)"
| "org_exec env (now, oks, tks, CreateW x) m = snd (CreateWorkspace env now oks tks x m)"
| "org_exec env (now, oks, tks, UpdateW i x) m = snd (UpdateWorkspace env now oks tks i x m)"
| "org_exec env (now, oks, tks, StatusW i s) m = snd (SetWorkspaceStatus env now oks tks i s m)"
| "org_exec env (now, oks, tks, PolicyO p) m = snd (SetOrgPolicy env now oks tks p m)"
| "org_exec env (now, oks, tks, PolicyT p) m = snd (SetTenantPolicy env now oks tks p m)"
| "org_exec env (now, oks, tks, ReloadOp) m = snd (org_Reload env now m)"
| "org_exec env (now, oks, tks, LoadOp cfg) m = org_LoadRuntimeConfig now cfg m"
| "org_exec env (now, oks, tks, PersistOp p) m = org_SetPersistence p m"

definition org_run :: "org_env \<Rightarrow> org_step list \<Rightarrow> OrgManager \<Rightarrow> OrgManager" where
  "org_run env steps m = foldl (\<lambda>m s. org_exec env s m) m steps"

section \<open>Invariant\<close>

definition keyed_ids :: "('a \<Rightarrow> string) \<Rightarrow> 'a list \<Rightarrow> bool" where
  "keyed_ids key xs \<longleftrightarrow> distinct (map key xs) \<and> (\<forall>x \<in> set xs. TrimSpace (key x) \<noteq> [])"

definition config_ok :: "OrgConfig \<Rightarrow> bool" where
  "config_ok cfg \<longleftrightarrow> keyed_ids og_ID (gc_Organizations cfg) \<and> keyed_ids tt_ID (gc_Tenants cfg) \<and> keyed_ids wk_ID (gc_Workspaces cfg)"

definition lists_ok :: "OrgManager \<Rightarrow> bool" where
  "lists_ok m \<longleftrightarrow>
     om_organizations m \<noteq> [] \<and> om_tenants m \<noteq> [] \<and> om_workspaces m \<noteq> [] \<and>
     keyed_ids og_ID (om_organizations m) \<and> keyed_ids tt_ID (om_tenants m) \<and> keyed_ids wk_ID (om_workspaces m)"

definition policies_ok :: "OrgManager \<Rightarrow> bool" where
  "policies_ok m \<longleftrightarrow>
     (\<forall>k p. om_orgPolicies m k = Some p \<longrightarrow> op_OrgID p = k) \<and> (\<forall>k p. om_tenantPolicies m k = Some p \<longrightarrow> tp_TenantID p = k)"

definition file_ok :: "org_env \<Rightarrow> OrgManager \<Rightarrow> bool" where
  "file_ok env m \<longleftrightarrow> (\<forall>data cfg. om_file m = Some data \<longrightarrow> oe_unmarshal env data = Inr cfg \<longrightarrow> config_ok cfg)"

definition org_ok :: "org_env \<Rightarrow> OrgManager \<Rightarrow> bool" where
  "org_ok env m \<longleftrightarrow> lists_ok m \<and> policies_ok m \<and> file_ok env m"

text \<open>What the program relies on of the codec: what is written is read back.\<close>

definition codec_law :: "org_env \<Rightarrow> bool" where
  "codec_law env \<longleftrightarrow> (\<forall>cfg data. oe_marshal env cfg = Inr data \<longrightarrow> oe_unmarshal env data = Inr cfg)"

fun loads_ok :: "org_step \<Rightarrow> bool" where
  "loads_ok (now, oks, tks, LoadOp cfg) \<longleftrightarrow> config_ok cfg"
| "loads_ok s \<longleftrightarrow> True"

lemma change_first_keyed:
  assumes "change_first P f xs = Some (y, ys)" and "keyed_ids key xs" and "\<And>x. P x \<Longrightarrow> key (f x) = key x"
  shows "keyed_ids key ys \<and> ys \<noteq> []"
proof -
  have "map key ys = map key xs \<and> ys \<noteq> []"
    using assms(1,3) by (induction xs arbitrary: y ys) (auto split: if_splits option.splits)
  moreover from this have "key ` set ys = key ` set xs" by (metis list.set_map)
  ultimately show ?thesis using assms(2) unfolding keyed_ids_def by (metis imageE imageI)
qed

lemma change_first_nonempty [simp]: "change_first P f xs \<noteq> Some (y, [])"
  by (cases xs) (auto split: if_splits option.splits)

lemma keyed_append: "keyed_ids key xs \<Longrightarrow> key x \<notin> key ` set xs \<Longrightarrow> TrimSpace (key x) \<noteq> [] \<Longrightarrow> keyed_ids key (xs @ [x])"
  by (auto simp: keyed_ids_def)

lemma save_ok:
  assumes "lists_ok m" and "policies_ok m" and "file_ok env m" and "codec_law env" and "org_save env now oks tks m = (r, m')"
  shows "org_ok env m'"
proof -
  have "oe_marshal env (configLocked oks tks m) = Inr data \<Longrightarrow> oe_unmarshal env data = Inr (configLocked oks tks m)" for data
    using assms(4) by (auto simp: codec_law_def)
  moreover have "config_ok (configLocked oks tks m)" using assms(1) by (simp add: config_ok_def configLocked_def lists_ok_def)
  ultimately show ?thesis
    using assms by (auto simp: org_save_def org_ok_def lists_ok_def policies_ok_def file_ok_def split: if_splits sum.splits option.splits)
qed

lemma stored_ok:
  assumes "lists_ok m" and "policies_ok m" and "file_ok env m" and "codec_law env"
  shows "org_ok env (snd (stored env now oks tks item m))"
  using save_ok [OF assms, of now oks tks] by (simp add: stored_def split: prod.splits)

lemma default_lists_ok: "lists_ok (bootDefaults now m)"
  by (simp add: lists_ok_def bootDefaults_def keyed_ids_def default_org_def default_tenant_def default_workspace_def
      DefaultOrgID_def DefaultTenantID_def DefaultWorkspaceID_def) code_simp

lemma default_nonblank: "TrimSpace ''default'' \<noteq> []"
  by code_simp

lemma foldl_keyed: "foldl (\<lambda>m p. m(key p \<mapsto> p)) f ps k = Some p \<Longrightarrow> key p = k \<or> f k = Some p"
  by (induction ps arbitrary: f) (fastforce split: if_splits)+

lemma policy_maps_keyed:
  "org_policy_map ops k = Some p \<Longrightarrow> op_OrgID p = k"
  "tenant_policy_map tps k = Some q \<Longrightarrow> tp_TenantID q = k"
  by (auto simp: org_policy_map_def tenant_policy_map_def dest: foldl_keyed)

lemma load_ok: "config_ok cfg \<Longrightarrow> file_ok env m \<Longrightarrow> org_ok env (load_config now cfg m)"
  using policy_maps_keyed
  by (auto simp: org_ok_def lists_ok_def policies_ok_def file_ok_def load_config_def ensureDefaults_def config_ok_def
      keyed_ids_def default_org_def default_tenant_def default_workspace_def DefaultOrgID_def DefaultTenantID_def
      DefaultWorkspaceID_def default_nonblank Let_def)

lemma reload_ok: "org_ok env m \<Longrightarrow> org_ok env (snd (org_Reload env now m))"
  using default_lists_ok [of now m] load_ok [of _ env m now]
  by (auto simp: org_Reload_def org_ok_def file_ok_def policies_ok_def bootDefaults_def split: option.splits sum.splits)

lemma set_lists_ok:
  assumes "org_ok env m" and "codec_law env"
  shows "keyed_ids og_ID os \<and> os \<noteq> [] \<Longrightarrow> org_ok env (snd (stored env now oks tks o1 (m\<lparr>om_organizations := os\<rparr>)))"
    and "keyed_ids tt_ID ts \<and> ts \<noteq> [] \<Longrightarrow> org_ok env (snd (stored env now oks tks t1 (m\<lparr>om_tenants := ts\<rparr>)))"
    and "keyed_ids wk_ID ws \<and> ws \<noteq> [] \<Longrightarrow> org_ok env (snd (stored env now oks tks w1 (m\<lparr>om_workspaces := ws\<rparr>)))"
  by (rule stored_ok; use assms in \<open>simp add: org_ok_def lists_ok_def policies_ok_def file_ok_def\<close>)+

lemma organizations_ok:
  assumes "org_ok env m" and "codec_law env"
  shows "org_ok env (snd (CreateOrganization env now oks tks x m))" "org_ok env (snd (UpdateOrganization env now oks tks i x m))"
    "org_ok env (snd (SetOrganizationStatus env now oks tks i s m))"
proof -
  have k: "keyed_ids og_ID (om_organizations m)" using assms(1) by (simp add: org_ok_def lists_ok_def)
  show "org_ok env (snd (CreateOrganization env now oks tks x m))"
    using assms k by (auto simp: CreateOrganization_def Let_def intro!: set_lists_ok keyed_append)
  show "org_ok env (snd (UpdateOrganization env now oks tks i x m))" "org_ok env (snd (SetOrganizationStatus env now oks tks i s m))"
    using assms change_first_keyed [OF _ k]
    by (auto simp: UpdateOrganization_def SetOrganizationStatus_def split: option.splits intro!: set_lists_ok)
qed

lemma tenants_ok:
  assumes "org_ok env m" and "codec_law env"
  shows "org_ok env (snd (CreateTenant env now oks tks x m))" "org_ok env (snd (UpdateTenant env now oks tks i x m))"
    "org_ok env (snd (SetTenantStatus env now oks tks i s m))"
proof -
  have k: "keyed_ids tt_ID (om_tenants m)" using assms(1) by (simp add: org_ok_def lists_ok_def)
  show "org_ok env (snd (CreateTenant env now oks tks x m))"
    using assms k by (auto simp: CreateTenant_def Let_def intro!: set_lists_ok keyed_append)
  show "org_ok env (snd (UpdateTenant env now oks tks i x m))" "org_ok env (snd (SetTenantStatus env now oks tks i s m))"
    using assms change_first_keyed [OF _ k]
    by (auto simp: UpdateTenant_def SetTenantStatus_def split: option.splits intro!: set_lists_ok)
qed

lemma workspaces_ok:
  assumes "org_ok env m" and "codec_law env"
  shows "org_ok env (snd (CreateWorkspace env now oks tks x m))" "org_ok env (snd (UpdateWorkspace env now oks tks i x m))"
    "org_ok env (snd (SetWorkspaceStatus env now oks tks i s m))"
proof -
  have k: "keyed_ids wk_ID (om_workspaces m)" using assms(1) by (simp add: org_ok_def lists_ok_def)
  show "org_ok env (snd (CreateWorkspace env now oks tks x m))"
    using assms k by (auto simp: CreateWorkspace_def Let_def intro!: set_lists_ok keyed_append)
  show "org_ok env (snd (UpdateWorkspace env now oks tks i x m))" "org_ok env (snd (SetWorkspaceStatus env now oks tks i s m))"
    using assms change_first_keyed [OF _ k]
    by (auto simp: UpdateWorkspace_def SetWorkspaceStatus_def split: option.splits intro!: set_lists_ok)
qed

lemma policies_stored_ok:
  assumes "org_ok env m" and "codec_law env"
  shows "org_ok env (snd (SetOrgPolicy env now oks tks p m))" and "org_ok env (snd (SetTenantPolicy env now oks tks q m))"
proof -
  have "snd (SetOrgPolicy env now oks tks p m) =
      snd (stored env now oks tks () (m\<lparr>om_orgPolicies := (om_orgPolicies m)(op_OrgID p \<mapsto> p\<lparr>op_UpdatedAt := now\<rparr>)\<rparr>))"
    "snd (SetTenantPolicy env now oks tks q m) =
      snd (stored env now oks tks () (m\<lparr>om_tenantPolicies := (om_tenantPolicies m)(tp_TenantID q \<mapsto> q\<lparr>tp_UpdatedAt := now\<rparr>)\<rparr>))"
    by (simp_all add: SetOrgPolicy_def SetTenantPolicy_def stored_def split: prod.splits)
  moreover have "org_ok env (snd (stored env now oks tks () (m\<lparr>om_orgPolicies := (om_orgPolicies m)(op_OrgID p \<mapsto> p\<lparr>op_UpdatedAt := now\<rparr>)\<rparr>)))"
    "org_ok env (snd (stored env now oks tks () (m\<lparr>om_tenantPolicies := (om_tenantPolicies m)(tp_TenantID q \<mapsto> q\<lparr>tp_UpdatedAt := now\<rparr>)\<rparr>)))"
    by (rule stored_ok; use assms in \<open>simp add: org_ok_def lists_ok_def policies_ok_def file_ok_def\<close>)+
  ultimately show "org_ok env (snd (SetOrgPolicy env now oks tks p m))" "org_ok env (snd (SetTenantPolicy env now oks tks q m))"
    by simp_all
qed

lemma exec_ok:
  assumes "org_ok env m" and "codec_law env" and "loads_ok s"
  shows "org_ok env (org_exec env s m)"
proof -
  obtain now oks tks op where s: "s = (now, oks, tks, op)" by (cases s)
  have f: "file_ok env m" using assms(1) by (simp add: org_ok_def)
  have p: "org_ok env (org_SetPersistence p m)" for p
    using assms(1) by (simp add: org_SetPersistence_def org_ok_def lists_ok_def policies_ok_def file_ok_def)
  show ?thesis
    using assms(3) organizations_ok [OF assms(1,2)] tenants_ok [OF assms(1,2)] workspaces_ok [OF assms(1,2)]
      policies_stored_ok [OF assms(1,2)] reload_ok [OF assms(1)] load_ok [OF _ f] p
    by (cases op) (simp_all add: s org_LoadRuntimeConfig_def)
qed

lemma run_ok:
  assumes "codec_law env" and "\<forall>s \<in> set steps. loads_ok s" and "org_ok env m"
  shows "org_ok env (org_run env steps m)"
  using assms(2,3) unfolding org_run_def
  by (induction steps arbitrary: m) (auto intro: exec_ok [OF _ assms(1)])

lemma new_ok:
  assumes "org_NewManager env now path None = Inr m"
  shows "org_ok env m"
proof -
  obtain m1 where "m = bootDefaults now m1" "om_orgPolicies m1 = Map.empty" "om_tenantPolicies m1 = Map.empty" "om_file m1 = None"
    using assms by (auto simp: org_NewManager_def org_Reload_def Let_def split: if_splits)
  then show ?thesis using default_lists_ok by (simp add: org_ok_def policies_ok_def file_ok_def) (simp add: bootDefaults_def)
qed

lemma find_unique_key: "keyed_ids key xs \<Longrightarrow> x \<in> set xs \<Longrightarrow> find (\<lambda>y. key y = key x) xs = Some x"
  by (induction xs) (auto simp: keyed_ids_def)

lemma default_choice:
  assumes "keyed_ids key xs" and "xs \<noteq> []"
  shows "find (\<lambda>y. key y = key (case find P xs of Some x \<Rightarrow> x | None \<Rightarrow> if xs \<noteq> [] then hd xs else d)) xs =
    Some (case find P xs of Some x \<Rightarrow> x | None \<Rightarrow> if xs \<noteq> [] then hd xs else d)"
  using assms find_Some_in by (fastforce split: option.splits intro: find_unique_key)

text \<open>C35: the registry always has a usable default.  In every run from a registry without a file, with any
  failures of the file system and of the persistence callback, identifiers stay unique and not blank and
  the context of a request that names nothing is made of stored entries.
\<close>
theorem org_registry_invariant:
  assumes "org_NewManager env now path None = Inr m0" and "codec_law env" and "\<forall>s \<in> set steps. loads_ok s"
    and "m = org_run env steps m0" and "c = OrgContextMiddleware (Some m) (\<lambda>h. []) (\<lambda>q. [])"
  shows "distinct (map og_ID (om_organizations m)) \<and> distinct (map tt_ID (om_tenants m)) \<and> distinct (map wk_ID (om_workspaces m)) \<and>
    GetOrganization (ox_OrgID c) m = Inr (DefaultOrg m) \<and> GetTenant (ox_TenantID c) m = Inr (DefaultTenant m) \<and>
    GetWorkspace (ox_WorkspaceID c) m = Inr (DefaultWorkspace m) \<and> \<not> org_IsEmpty c"
proof -
  have ok: "lists_ok m" using run_ok [OF assms(2,3) new_ok [OF assms(1)]] assms(4) by (simp add: org_ok_def)
  have c: "ox_OrgID c = og_ID (DefaultOrg m)" "ox_TenantID c = tt_ID (DefaultTenant m)" "ox_WorkspaceID c = wk_ID (DefaultWorkspace m)"
    using assms(5) by (simp_all add: OrgContextMiddleware_def extractOrgContext_def header_or_param_def org_IsEmpty_def)
  have get: "GetOrganization (ox_OrgID c) m = Inr (DefaultOrg m)" "GetTenant (ox_TenantID c) m = Inr (DefaultTenant m)"
    "GetWorkspace (ox_WorkspaceID c) m = Inr (DefaultWorkspace m)"
  proof -
    have "find (\<lambda>y. og_ID y = og_ID (DefaultOrg m)) (om_organizations m) = Some (DefaultOrg m)"
      unfolding DefaultOrg_def by (rule default_choice) (use ok in \<open>simp_all add: lists_ok_def\<close>)
    moreover have "find (\<lambda>y. tt_ID y = tt_ID (DefaultTenant m)) (om_tenants m) = Some (DefaultTenant m)"
      unfolding DefaultTenant_def by (rule default_choice) (use ok in \<open>simp_all add: lists_ok_def\<close>)
    moreover have "find (\<lambda>y. wk_ID y = wk_ID (DefaultWorkspace m)) (om_workspaces m) = Some (DefaultWorkspace m)"
      unfolding DefaultWorkspace_def by (rule default_choice) (use ok in \<open>simp_all add: lists_ok_def\<close>)
    ultimately show "GetOrganization (ox_OrgID c) m = Inr (DefaultOrg m)" "GetTenant (ox_TenantID c) m = Inr (DefaultTenant m)"
      "GetWorkspace (ox_WorkspaceID c) m = Inr (DefaultWorkspace m)"
      by (simp_all add: c GetOrganization_def GetTenant_def GetWorkspace_def)
  qed
  have "DefaultOrg m \<in> set (om_organizations m)"
    using get(1) by (auto simp: GetOrganization_def split: option.splits dest: find_Some_in)
  then have "TrimSpace (og_ID (DefaultOrg m)) \<noteq> []" using ok by (auto simp: lists_ok_def keyed_ids_def)
  then have "\<not> org_IsEmpty c" using c by (auto simp: org_IsEmpty_def)
  then show ?thesis using ok get by (simp add: lists_ok_def keyed_ids_def)
qed

section \<open>Saving and reloading\<close>

lemma foldl_map_filter:
  assumes "\<And>k p. f k = Some p \<Longrightarrow> key p = k"
  shows "foldl (\<lambda>m p. m(key p \<mapsto> p)) g (List.map_filter f ks) k = (if k \<in> set ks \<and> f k \<noteq> None then f k else g k)"
  using assms by (induction ks arbitrary: g) (auto simp: List.map_filter_simps split: option.splits)

lemma policy_maps_read_back:
  assumes "policies_ok m" and "range_order (om_orgPolicies m) oks" and "range_order (om_tenantPolicies m) tks"
  shows "org_policy_map (List.map_filter (om_orgPolicies m) oks) = om_orgPolicies m"
    and "tenant_policy_map (List.map_filter (om_tenantPolicies m) tks) = om_tenantPolicies m"
  using assms range_orderD(2) [OF assms(2)] range_orderD(2) [OF assms(3)]
  by (auto simp: org_policy_map_def tenant_policy_map_def policies_ok_def foldl_map_filter fun_eq_iff domIff)

text \<open>C36: what is saved is read back.  In every reachable registry with a file, after a save that reports no
  error a reload succeeds and finds the same organizations, tenants, workspaces and policies, whatever
  order the policies were written in.
\<close>
theorem org_save_reload:
  assumes "org_NewManager env now path None = Inr m0" and "codec_law env" and "\<forall>s \<in> set steps. loads_ok s"
    and "m = org_run env steps m0" and "om_path m \<noteq> []" and "org_save env t oks tks m = (None, m1)"
    and "range_order (om_orgPolicies m) oks" and "range_order (om_tenantPolicies m) tks" and "oe_reading env (om_path m) = None"
  shows "\<exists>m2. org_Reload env t' m1 = (None, m2) \<and> om_organizations m2 = om_organizations m \<and> om_tenants m2 = om_tenants m \<and>
    om_workspaces m2 = om_workspaces m \<and> om_orgPolicies m2 = om_orgPolicies m \<and> om_tenantPolicies m2 = om_tenantPolicies m"
proof -
  have ok: "lists_ok m" "policies_ok m"
    using run_ok [OF assms(2,3) new_ok [OF assms(1)]] assms(4) by (simp_all add: org_ok_def)
  from assms(5,6) obtain data where data: "oe_marshal env (configLocked oks tks m) = Inr data" "m1 = m\<lparr>om_file := Some data, om_updatedAt := t\<rparr>"
    by (auto simp: org_save_def split: sum.splits option.splits)
  have "oe_unmarshal env data = Inr (configLocked oks tks m)" using assms(2) data(1) by (simp add: codec_law_def)
  then have "org_Reload env t' m1 = (None, load_config t' (configLocked oks tks m) m1)"
    using assms(5,9) data(2) by (simp add: org_Reload_def)
  then show ?thesis using ok(1) policy_maps_read_back [OF ok(2) assms(7,8)]
    by (simp add: load_config_def ensureDefaults_def configLocked_def lists_ok_def Let_def)
qed

section \<open>Concrete registries\<close>

text \<open>A codec that keeps one configuration, the one a concrete run writes.\<close>

definition sample_env :: "OrgConfig \<Rightarrow> org_env" where
  "sample_env cfg = \<lparr>oe_marshal = (\<lambda>c. if c = cfg then Inr ''yaml'' else Inl ErrNotFound),
     oe_unmarshal = (\<lambda>s. if s = ''yaml'' then Inr cfg else Inl ErrNotFound), oe_reading = (\<lambda>p. None), oe_writing = (\<lambda>p. None)\<rparr>"

lemma sample_codec: "codec_law (sample_env cfg)"
  by (simp add: codec_law_def sample_env_def)

definition second_org :: Organization where
  "second_org = (default_org [] 5)\<lparr>og_ID := ''acme''\<rparr>"

definition sample_steps :: "org_step list" where
  "sample_steps = [(5, [], [], CreateO second_org), (6, [], [], StatusO ''default'' ''disabled'')]"

definition sample_registry :: OrgManager where
  "sample_registry = bootDefaults 1 \<lparr>om_path = [], om_organizations = [], om_tenants = [], om_workspaces = [],
     om_orgPolicies = Map.empty, om_tenantPolicies = Map.empty, om_updatedAt = 0, om_persist = None, om_file = None\<rparr>"

text \<open>The default context mixes organizations.  Its organization, tenant and workspace are chosen
  independently: once the default organization is disabled, a request that names nothing is sent to
  another organization together with the tenant of the disabled one.
\<close>
theorem default_context_mixed:
  "let m = org_run (sample_env cfg) sample_steps sample_registry; c = OrgContextMiddleware (Some m) (\<lambda>h. []) (\<lambda>q. [])
   in ox_OrgID c = ''acme'' \<and> GetTenant (ox_TenantID c) m = Inr (default_tenant ''Automatically created default tenant.'' ''default'' 1)"
  by code_simp

definition no_config :: OrgConfig where
  "no_config = \<lparr>gc_Organizations = [], gc_Tenants = [], gc_Workspaces = [], gc_OrgPolicies = [], gc_TenantPolicies = []\<rparr>"

theorem org_registry_invariant_witness:
  "distinct (map og_ID (om_organizations (org_run (sample_env no_config) sample_steps sample_registry))) \<and>
   GetOrganization ''acme'' (org_run (sample_env no_config) sample_steps sample_registry) =
     Inr (DefaultOrg (org_run (sample_env no_config) sample_steps sample_registry))"
proof -
  have new: "org_NewManager (sample_env no_config) 1 [] None = Inr sample_registry"
    by (simp add: org_NewManager_def sample_registry_def)
  have loads: "\<forall>s \<in> set sample_steps. loads_ok s" by (simp add: sample_steps_def)
  have "ox_OrgID (OrgContextMiddleware (Some (org_run (sample_env no_config) sample_steps sample_registry)) (\<lambda>h. []) (\<lambda>q. [])) = ''acme''"
    by code_simp
  then show ?thesis using org_registry_invariant [OF new sample_codec loads refl refl] by simp
qed

definition file_registry :: OrgManager where
  "file_registry = sample_registry\<lparr>om_path := ''/c''\<rparr>"

theorem org_save_reload_witness:
  "\<exists>m2. org_Reload (sample_env (configLocked [] [] file_registry)) 9
       (snd (org_save (sample_env (configLocked [] [] file_registry)) 8 [] [] file_registry)) = (None, m2) \<and>
     om_organizations m2 = om_organizations file_registry"
proof -
  let ?env = "sample_env (configLocked [] [] file_registry)"
  have path: "TrimSpace ''/c'' = ''/c''" by code_simp
  have new: "org_NewManager ?env 1 ''/c'' None = Inr file_registry"
    by (simp add: org_NewManager_def path org_Reload_def file_registry_def sample_registry_def bootDefaults_def)
  have save: "org_save ?env 8 [] [] file_registry = (None, snd (org_save ?env 8 [] [] file_registry))"
    by (simp add: org_save_def sample_env_def file_registry_def sample_registry_def bootDefaults_def org_run_persist_def)
  have "range_order (om_orgPolicies file_registry) []" "range_order (om_tenantPolicies file_registry) []"
    "om_path file_registry \<noteq> []" "oe_reading ?env (om_path file_registry) = None"
    by (simp_all add: file_registry_def sample_registry_def bootDefaults_def sample_env_def)
  then show ?thesis
    using org_save_reload [OF new sample_codec, of "[]" file_registry, OF _ _ _ save] by (auto simp: org_run_def)
qed

end
