(* ===== verification/Service_Types.thy ===== *)
theory Service_Types
  imports Contracts
begin

text \<open>
  The requests and answers of the services that the dispatcher calls, \<^verbatim>\<open>internal/contracts/query.go\<close> and
  \<^verbatim>\<open>event.go\<close>: reasoning, metrics, capabilities, verification, knowledge and skills.
\<close>

section \<open>Reasoning\<close>

record RoleModelTargetBinding =
  rtb_ProviderID :: string
  rtb_Model :: string

record RoleModelBinding =
  rmb_Primary :: "RoleModelTargetBinding option"
  rmb_Fallback :: "RoleModelTargetBinding option"
  rmb_InheritPlatformDefault :: bool

record DiagnosisInput =
  di_SessionID :: string
  di_Context :: valmap
  di_RoleModelBinding :: "RoleModelBinding option"

record DiagnosisPlan =
  pl_Summary :: string
  pl_ToolPlan :: "ToolPlanStep list"
  pl_DesenseMap :: strmap

definition zero_DiagnosisPlan :: DiagnosisPlan where
  "zero_DiagnosisPlan = \<lparr>pl_Summary = [], pl_ToolPlan = [], pl_DesenseMap = []\<rparr>"

section \<open>Tools and skills\<close>

record ToolCapabilityDescriptor =
  tcd_Tool :: string
  tcd_ConnectorID :: string
  tcd_ConnectorType :: string
  tcd_ConnectorVendor :: string
  tcd_Protocol :: string
  tcd_CapabilityID :: string
  tcd_Action :: string
  tcd_Scopes :: "string list"
  tcd_ReadOnly :: bool
  tcd_Invocable :: bool
  tcd_Source :: string
  tcd_Description :: string

definition zero_ToolCapabilityDescriptor :: ToolCapabilityDescriptor where
  "zero_ToolCapabilityDescriptor = \<lparr>tcd_Tool = [], tcd_ConnectorID = [], tcd_ConnectorType = [], tcd_ConnectorVendor = [],
     tcd_Protocol = [], tcd_CapabilityID = [], tcd_Action = [], tcd_Scopes = [], tcd_ReadOnly = False,
     tcd_Invocable = False, tcd_Source = [], tcd_Description = []\<rparr>"

record SkillMatch =
  sm_SkillID :: string
  sm_DisplayName :: string
  sm_Summary :: string
  sm_MatchedBy :: string
  sm_Trigger :: string
  sm_ReviewState :: string
  sm_RuntimeMode :: string
  sm_Source :: string
  sm_Manifest :: valmap
  sm_ExpectedTools :: "string list"

section \<open>Actions\<close>

record MetricsQuery =
  mx_Service :: string
  mx_Host :: string
  mx_Query :: string
  mx_Mode :: string
  mx_Start :: gotime
  mx_End :: gotime
  mx_Step :: string
  mx_Window :: string
  mx_ConnectorID :: string
  mx_ConnectorType :: string
  mx_ConnectorVendor :: string
  mx_Protocol :: string

record MetricsResult =
  mr_Series :: "valmap list"
  mr_Runtime :: "RuntimeMetadata option"

record VerificationRequest =
  vq_SessionID :: string
  vq_ExecutionID :: string
  vq_TargetHost :: string
  vq_Service :: string
  vq_ConnectorID :: string
  vq_Protocol :: string
  vq_ExecutionMode :: string

record CapabilityRequest =
  cq_ConnectorID :: string
  cq_CapabilityID :: string
  cq_Params :: valmap
  cq_SessionID :: string
  cq_Caller :: string
  cq_SkipAuthorization :: bool

record CapabilityResult =
  cp_Status :: string
  cp_Output :: valmap
  cp_Artifacts :: "MessageAttachment list"
  cp_Metadata :: valmap
  cp_Error :: string
  cp_Runtime :: "RuntimeMetadata option"

record KnowledgeQuery =
  kq_TenantID :: string
  kq_Query :: string

section \<open>Texts of errors\<close>

fun error_text :: "go_error \<Rightarrow> string" where
  "error_text ErrNotFound = ''not found''"
| "error_text ErrBlockedByFeatureFlag = ''blocked by feature flag''"
| "error_text ErrInvalidState = ''invalid state''"
| "error_text (Errorf s) = s"
| "error_text NilDeref = ''runtime error: invalid memory address or nil pointer dereference''"

end
