(* ===== verification/Skills.thy ===== *)
theory Skills
  imports Service_Types
begin

text \<open>
  Skills, \<^verbatim>\<open>internal/modules/skills\<close>: the manifests of playbooks (\<^verbatim>\<open>manifest.go\<close>), the choice of a skill for
  an alert and its expansion to a tool plan (\<^verbatim>\<open>runtime.go\<close>).  \<open>skl_\<close> marks names that other packages also
  use.  A skill is read from a snapshot of the registry: its entries in order and their lifecycle states.
\<close>

section \<open>Data\<close>

record StepApproval =
  sa_Default :: string
  sa_Reason :: string

record PlannerStep =
  ps_ID :: string
  ps_Tool :: string
  ps_Required :: bool
  ps_Reason :: string
  ps_Priority :: int
  ps_Params :: valmap
  ps_Approval :: "StepApproval option"

record ConnectorPreference =
  pf_Metrics :: "string list"
  pf_Execution :: "string list"
  pf_Observability :: "string list"
  pf_Delivery :: "string list"

record Governance =
  gv_ExecutionPolicy :: string
  gv_ReadOnlyFirst :: bool
  gv_ConnectorPreference :: ConnectorPreference

record Planner =
  pn_Summary :: string
  pn_PreferredTools :: "string list"
  pn_Steps :: "PlannerStep list"

record SkillSpec =
  sks_Type :: string
  sks_Alerts :: "string list"
  sks_Planner :: Planner
  sks_Governance :: Governance

record SkillMetadata =
  sk_ID :: string
  sk_Name :: string
  sk_DisplayName :: string
  sk_Version :: string
  sk_Tags :: "string list"
  sk_Vendor :: string
  sk_Description :: string
  sk_Source :: string
  sk_Content :: string
  sk_OrgID :: string
  sk_TenantID :: string
  sk_WorkspaceID :: string

record SkillCompatibility =
  sc_Compatible :: bool
  sc_CurrentTARSMajor :: string
  sc_Reasons :: "string list"
  sc_CheckedAt :: gotime

record SkillManifest =
  sf_APIVersion :: string
  sf_Kind :: string
  sf_Disabled :: bool
  sf_Metadata :: SkillMetadata
  sf_Spec :: SkillSpec
  sf_Compatibility :: SkillCompatibility
  sf_MarketplaceTags :: "string list"
  sf_MarketplaceSource :: string

record SkillEvent =
  se_Type :: string
  se_Summary :: string
  se_Metadata :: strmap
  se_CreatedAt :: gotime

record SkillRevision =
  sv_Manifest :: "SkillManifest option"
  sv_CreatedAt :: gotime
  sv_Reason :: string
  sv_Action :: string

record SkillState =
  ss_SkillID :: string
  ss_DisplayName :: string
  ss_Source :: string
  ss_Status :: string
  ss_ReviewState :: string
  ss_RuntimeMode :: string
  ss_Enabled :: bool
  ss_InstalledAt :: gotime
  ss_UpdatedAt :: gotime
  ss_PublishedAt :: gotime
  ss_History :: "SkillEvent list"
  ss_Revisions :: "SkillRevision list"

record SkillSnapshot =
  skn_Entries :: "SkillManifest list"
  skn_Lifecycle :: "string \<rightharpoonup> SkillState"

abbreviation skill_id :: "SkillManifest \<Rightarrow> string" where
  "skill_id e \<equiv> sk_ID (sf_Metadata e)"

section \<open>Choosing a skill\<close>

fun skl_interfaceString :: "gval option \<Rightarrow> string" where
  "skl_interfaceString (Some (VString s)) = TrimSpace s"
| "skl_interfaceString _ = []"

definition stringFromContext :: "valmap \<Rightarrow> string \<Rightarrow> string" where
  "stringFromContext ctx key = skl_interfaceString (map_of ctx key)"

fun skl_firstNonEmpty :: "string list \<Rightarrow> string" where
  "skl_firstNonEmpty [] = []"
| "skl_firstNonEmpty (v # vs) = (if TrimSpace v \<noteq> [] then TrimSpace v else skl_firstNonEmpty vs)"

text \<open>The trigger or tag that matches, and which of both it is.\<close>

definition matchesManifest :: "SkillManifest \<Rightarrow> string list \<Rightarrow> (string \<times> string) option" where
  "matchesManifest entry parts =
     (case (if parts = [] then None else find (\<lambda>t. EqualFold (TrimSpace t) (hd parts)) (sks_Alerts (sf_Spec entry))) of
        Some t \<Rightarrow> Some (t, ''trigger_alert'')
      | None \<Rightarrow>
          map_option (\<lambda>tag. (tag, ''tag''))
            (find (\<lambda>tag. let needle = ToLower (TrimSpace tag) in
                needle \<noteq> [] \<and> (\<exists>part \<in> set parts. Contains part needle)) (sk_Tags (sf_Metadata entry))))"

definition skill_active :: "SkillSnapshot \<Rightarrow> SkillManifest \<Rightarrow> bool" where
  "skill_active snapshot entry \<longleftrightarrow>
     (case skn_Lifecycle snapshot (skill_id entry) of
        None \<Rightarrow> False
      | Some st \<Rightarrow> ss_Enabled st \<and> \<not> EqualFold (ss_Status st) ''disabled'' \<and> \<not> EqualFold (ss_RuntimeMode st) ''disabled'')"

definition needle_parts :: "valmap \<Rightarrow> string list" where
  "needle_parts ctx = map (\<lambda>k. ToLower (TrimSpace (stringFromContext ctx k))) [''alert_name'', ''user_request'', ''summary'']"

definition skill_match :: "SkillManifest \<Rightarrow> SkillState \<Rightarrow> string \<times> string \<Rightarrow> SkillMatch" where
  "skill_match entry st found =
     \<lparr>sm_SkillID = skill_id entry,
      sm_DisplayName = skl_firstNonEmpty [sk_DisplayName (sf_Metadata entry), sk_Name (sf_Metadata entry), skill_id entry],
      sm_Summary = sk_Description (sf_Metadata entry), sm_MatchedBy = snd found, sm_Trigger = fst found,
      sm_ReviewState = ss_ReviewState st, sm_RuntimeMode = ss_RuntimeMode st,
      sm_Source = skl_firstNonEmpty [ss_Source st, sk_Source (sf_Metadata entry), sf_MarketplaceSource entry],
      sm_Manifest = [(''skill_id'', VString (skill_id entry)), (''content'', VString (sk_Content (sf_Metadata entry)))],
      sm_ExpectedTools = []\<rparr>"

fun match_loop :: "SkillSnapshot \<Rightarrow> string list \<Rightarrow> SkillManifest list \<Rightarrow> SkillMatch option" where
  "match_loop snapshot parts [] = None"
| "match_loop snapshot parts (entry # entries) =
     (if \<not> skill_active snapshot entry then match_loop snapshot parts entries
      else
        (case (matchesManifest entry parts, skn_Lifecycle snapshot (skill_id entry)) of
           (Some found, Some st) \<Rightarrow> Some (skill_match entry st found)
         | _ \<Rightarrow> match_loop snapshot parts entries))"

definition skl_Match :: "SkillSnapshot \<Rightarrow> DiagnosisInput \<Rightarrow> SkillMatch option" where
  "skl_Match snapshot input = match_loop snapshot (needle_parts (di_Context input)) (skn_Entries snapshot)"

section \<open>Expanding a skill\<close>

definition setIfMissing :: "string \<Rightarrow> string \<Rightarrow> valmap \<Rightarrow> valmap" where
  "setIfMissing key value target =
     (if TrimSpace key = [] \<or> TrimSpace value = [] then target
      else if TrimSpace (skl_interfaceString (map_of target key)) \<noteq> [] then target
      else map_put key (VString value) target)"

definition injectSkillRuntimeDefaults :: "DiagnosisInput \<Rightarrow> valmap \<Rightarrow> valmap" where
  "injectSkillRuntimeDefaults input params =
     (let p1 = setIfMissing ''host'' (stringFromContext (di_Context input) ''host'') params;
          p2 = setIfMissing ''service'' (stringFromContext (di_Context input) ''service'') p1;
          tool = TrimSpace (skl_interfaceString (map_of p2 ''tool''))
      in if tool \<noteq> [] then map_put ''tool'' (VString tool) p2 else p2)"

definition preferredConnectors :: "SkillManifest \<Rightarrow> string \<Rightarrow> string list" where
  "preferredConnectors entry tool =
     (let pref = gv_ConnectorPreference (sks_Governance (sf_Spec entry)) in
      if tool \<in> {''metrics.query_range'', ''metrics.query_instant''} then pf_Metrics pref
      else if tool = ''execution.run_command'' then pf_Execution pref
      else if tool = ''observability.query'' then pf_Observability pref
      else if tool = ''delivery.query'' then pf_Delivery pref
      else [])"

definition preferredConnectorForTool :: "SkillManifest \<Rightarrow> string \<Rightarrow> ToolCapabilityDescriptor list \<Rightarrow> string" where
  "preferredConnectorForTool entry tool capabilities =
     (case find (\<lambda>preferred. \<exists>c \<in> set capabilities. tcd_Tool c = tool \<and> tcd_Invocable c \<and> tcd_ConnectorID c = preferred)
             (preferredConnectors entry tool) of
        Some preferred \<Rightarrow> preferred
      | None \<Rightarrow>
          (case find (\<lambda>c. tcd_Tool c = tool \<and> tcd_Invocable c) capabilities of
             Some c \<Rightarrow> tcd_ConnectorID c
           | None \<Rightarrow> []))"

definition fallbackStepID :: "string \<Rightarrow> nat \<Rightarrow> string" where
  "fallbackStepID tool idx =
     (let base = ReplaceAll (ReplaceAll (TrimSpace tool) ''.'' ''_'') ''-'' ''_''
      in (if base = [] then ''skill_step'' else base) @ ''_'' @ dec idx)"

definition zero_ToolPlanStep :: ToolPlanStep where
  "zero_ToolPlanStep = \<lparr>tp_ID = [], tp_Tool = [], tp_ConnectorID = [], tp_Reason = [], tp_Priority = 0, tp_Status = [],
     tp_Input = [], tp_ResolvedInput = [], tp_Output = [], tp_OnFailure = [], tp_OnPendingApproval = [], tp_OnDenied = [],
     tp_Runtime = None, tp_StartedAt = 0, tp_CompletedAt = 0\<rparr>"

definition expand_step ::
  "SkillManifest \<Rightarrow> DiagnosisInput \<Rightarrow> ToolCapabilityDescriptor list \<Rightarrow> nat \<Rightarrow> PlannerStep \<Rightarrow> ToolPlanStep" where
  "expand_step entry input capabilities idx ps =
     zero_ToolPlanStep\<lparr>tp_ID := (if ps_ID ps = [] then fallbackStepID (ps_Tool ps) idx else ps_ID ps),
       tp_Tool := ps_Tool ps, tp_ConnectorID := preferredConnectorForTool entry (ps_Tool ps) capabilities,
       tp_Reason := ps_Reason ps, tp_Priority := ps_Priority ps,
       tp_Input := injectSkillRuntimeDefaults input (ps_Params ps),
       tp_OnPendingApproval :=
         (case ps_Approval ps of
            Some a \<Rightarrow> if EqualFold (sa_Default a) ''require_approval'' then ''stop'' else []
          | None \<Rightarrow> [])\<rparr>"

fun expand_loop ::
  "SkillManifest \<Rightarrow> DiagnosisInput \<Rightarrow> ToolCapabilityDescriptor list \<Rightarrow> nat \<Rightarrow> PlannerStep list \<Rightarrow> ToolPlanStep list" where
  "expand_loop entry input capabilities idx [] = []"
| "expand_loop entry input capabilities idx (ps # rest) =
     expand_step entry input capabilities idx ps # expand_loop entry input capabilities (Suc idx) rest"

definition skl_Expand ::
  "SkillSnapshot \<Rightarrow> SkillMatch \<Rightarrow> DiagnosisInput \<Rightarrow> ToolCapabilityDescriptor list \<Rightarrow> ToolPlanStep list" where
  "skl_Expand snapshot m input capabilities =
     (case find (\<lambda>e. skill_id e = sm_SkillID m) (skn_Entries snapshot) of
        None \<Rightarrow> []
      | Some entry \<Rightarrow> expand_loop entry input capabilities 0 (pn_Steps (sks_Planner (sf_Spec entry))))"

definition PlannerDescriptors :: "SkillSnapshot \<Rightarrow> ToolCapabilityDescriptor list" where
  "PlannerDescriptors snapshot =
     map (\<lambda>e. zero_ToolCapabilityDescriptor\<lparr>tcd_Tool := ''skill.select'', tcd_CapabilityID := skill_id e, tcd_Invocable := True,
               tcd_ReadOnly := True, tcd_Source := ''skill'', tcd_Description := sk_Description (sf_Metadata e)\<rparr>)
       (filter (\<lambda>e. case skn_Lifecycle snapshot (skill_id e) of
                      None \<Rightarrow> False
                    | Some st \<Rightarrow> ss_Enabled st \<and> \<not> EqualFold (ss_RuntimeMode st) ''disabled'') (skn_Entries snapshot))"

end
