(* ===== verification/Connector_Tools.thy ===== *)
theory Connector_Tools
  imports Connector_Runtime Skills
begin

text \<open>
  The tools that connectors offer to a planner, \<^verbatim>\<open>internal/modules/connectors/tool_plan_capabilities.go\<close>, and the
  catalogue the dispatcher makes of them, \<^verbatim>\<open>internal/events/tool_capabilities.go\<close> and \<^verbatim>\<open>skills.go\<close>.
\<close>

section \<open>Capabilities of connectors\<close>

record ToolPlanCapability =
  tk_Tool :: string
  tk_ConnectorID :: string
  tk_ConnectorType :: string
  tk_ConnectorVendor :: string
  tk_Protocol :: string
  tk_CapabilityID :: string
  tk_Action :: string
  tk_Scopes :: "string list"
  tk_ReadOnly :: bool
  tk_Invocable :: bool
  tk_Source :: string
  tk_Description :: string

definition NormalizeCapabilityConnectorType :: "string \<Rightarrow> string" where
  "NormalizeCapabilityConnectorType value =
     (let l = ToLower (TrimSpace value) in
      if l \<in> {''mcp'', ''mcp_tool''} then ''mcp''
      else if l \<in> {''skill'', ''skill_source''} then ''skill''
      else if l \<in> {''logs'', ''victorialogs''} then ''logs''
      else l)"

text \<open>A tool with the flag whether it can be invoked.\<close>

type_synonym mappedToolCapability = "string \<times> bool"

definition mapCapabilityToTools :: "Manifest \<Rightarrow> Capability \<Rightarrow> mappedToolCapability list" where
  "mapCapabilityToTools entry capability =
     (let connectorType = NormalizeCapabilityConnectorType (sp_Type (mf_Spec entry));
          capabilityID = ToLower (TrimSpace (ca_ID capability));
          action = ToLower (TrimSpace (ca_Action capability));
          catalog = [(''connector.invoke_capability'', False)];
          both = [(''metrics.query_instant'', True), (''metrics.query_range'', True)]
      in if connectorType = ''logs'' then [(''logs.query'', True)]
         else if connectorType = ''metrics'' then
           (if capabilityID = ''query.range'' then [(''metrics.query_range'', True)]
            else if capabilityID = ''query.instant'' then [(''metrics.query_instant'', True)]
            else if capabilityID = ''metrics.query'' then both
            else if action = ''query'' then both
            else catalog)
         else if connectorType = ''execution'' then
           (if capabilityID = ''command.execute'' then [(''execution.run_command'', True)] else catalog)
         else if connectorType = ''observability'' then [(''observability.query'', True)]
         else if connectorType = ''delivery'' then [(''delivery.query'', True)]
         else if connectorType = ''mcp'' then [(''connector.invoke_capability'', True)]
         else if connectorType = ''skill'' then [(''connector.invoke_capability'', True)]
         else catalog)"

definition tool_capability :: "Manifest \<Rightarrow> Capability \<Rightarrow> mappedToolCapability \<Rightarrow> ToolPlanCapability" where
  "tool_capability entry capability item =
     \<lparr>tk_Tool = fst item, tk_ConnectorID = TrimSpace (md_ID (mf_Metadata entry)), tk_ConnectorType = TrimSpace (sp_Type (mf_Spec entry)),
      tk_ConnectorVendor = TrimSpace (md_Vendor (mf_Metadata entry)), tk_Protocol = TrimSpace (sp_Protocol (mf_Spec entry)),
      tk_CapabilityID = TrimSpace (ca_ID capability), tk_Action = TrimSpace (ca_Action capability),
      tk_Scopes = conn_cloneStrings (ca_Scopes capability), tk_ReadOnly = ca_ReadOnly capability, tk_Invocable = snd item,
      tk_Source = ''connector'', tk_Description = TrimSpace (ca_Description capability)\<rparr>"

definition entry_tools :: "Manifest \<Rightarrow> ToolPlanCapability list" where
  "entry_tools entry =
     concat (map (\<lambda>capability. map (tool_capability entry capability) (mapCapabilityToTools entry capability))
       (sp_Capabilities (mf_Spec entry)))"

text \<open>\<^verbatim>\<open>preference[id] = len(preference)\<close> over the ranked entries; a missing key reads as 0.\<close>

definition preference :: "Manifest list \<Rightarrow> (string \<times> nat) list" where
  "preference ranked = foldl (\<lambda>p entry. map_put (TrimSpace (md_ID (mf_Metadata entry))) (length p) p) [] ranked"

definition preference_rank :: "(string \<times> nat) list \<Rightarrow> string \<Rightarrow> nat" where
  "preference_rank p cid = (case map_of p (TrimSpace cid) of Some n \<Rightarrow> n | None \<Rightarrow> 0)"

definition tool_less :: "(string \<times> nat) list \<Rightarrow> ToolPlanCapability \<Rightarrow> ToolPlanCapability \<Rightarrow> bool" where
  "tool_less p a b =
     (if tk_Invocable a \<noteq> tk_Invocable b then tk_Invocable a
      else if tk_Tool a \<noteq> tk_Tool b then tk_Tool a < tk_Tool b
      else if tk_ConnectorType a \<noteq> tk_ConnectorType b then tk_ConnectorType a < tk_ConnectorType b
      else if preference_rank p (tk_ConnectorID a) \<noteq> preference_rank p (tk_ConnectorID b)
           then preference_rank p (tk_ConnectorID a) < preference_rank p (tk_ConnectorID b)
      else if tk_ConnectorID a \<noteq> tk_ConnectorID b then tk_ConnectorID a < tk_ConnectorID b
      else tk_CapabilityID a < tk_CapabilityID b)"

definition ToolPlanCapabilities :: "Snapshot option \<Rightarrow> ToolPlanCapability list" where
  "ToolPlanCapabilities manager =
     (case manager of
        None \<Rightarrow> []
      | Some snapshot \<Rightarrow>
          (let ranked = prioritizedCapabilityEntries snapshot
           in slice_stable (tool_less (preference ranked)) (concat (map entry_tools ranked))))"

section \<open>The catalogue of the planner\<close>

record plannerToolCapability =
  pc_Tool :: string
  pc_ConnectorID :: string
  pc_ConnectorType :: string
  pc_ConnectorVendor :: string
  pc_Protocol :: string
  pc_CapabilityID :: string
  pc_Action :: string
  pc_Scopes :: "string list"
  pc_ReadOnly :: bool
  pc_Invocable :: bool
  pc_Source :: string
  pc_Description :: string

definition zero_plannerToolCapability :: plannerToolCapability where
  "zero_plannerToolCapability = \<lparr>pc_Tool = [], pc_ConnectorID = [], pc_ConnectorType = [], pc_ConnectorVendor = [],
     pc_Protocol = [], pc_CapabilityID = [], pc_Action = [], pc_Scopes = [], pc_ReadOnly = False,
     pc_Invocable = False, pc_Source = [], pc_Description = []\<rparr>"

definition knowledge_tool :: plannerToolCapability where
  "knowledge_tool = zero_plannerToolCapability\<lparr>pc_Tool := ''knowledge.search'', pc_ReadOnly := True, pc_Invocable := True,
     pc_Source := ''builtin'',
     pc_Description := ''Search TARS knowledge memory, incident summaries, and imported references.'',
     pc_Scopes := [''knowledge.read'']\<rparr>"

definition planner_tool :: "ToolPlanCapability \<Rightarrow> plannerToolCapability" where
  "planner_tool item =
     \<lparr>pc_Tool = tk_Tool item, pc_ConnectorID = tk_ConnectorID item, pc_ConnectorType = tk_ConnectorType item,
      pc_ConnectorVendor = tk_ConnectorVendor item, pc_Protocol = tk_Protocol item, pc_CapabilityID = tk_CapabilityID item,
      pc_Action = tk_Action item, pc_Scopes = tk_Scopes item, pc_ReadOnly = tk_ReadOnly item, pc_Invocable = tk_Invocable item,
      pc_Source = tk_Source item, pc_Description = tk_Description item\<rparr>"

definition planner_less :: "plannerToolCapability \<Rightarrow> plannerToolCapability \<Rightarrow> bool" where
  "planner_less a b =
     (if pc_Invocable a \<noteq> pc_Invocable b then pc_Invocable a
      else if pc_Tool a \<noteq> pc_Tool b then pc_Tool a < pc_Tool b
      else if pc_ConnectorType a \<noteq> pc_ConnectorType b then pc_ConnectorType a < pc_ConnectorType b
      else if pc_ConnectorID a \<noteq> pc_ConnectorID b then pc_ConnectorID a < pc_ConnectorID b
      else pc_CapabilityID a < pc_CapabilityID b)"

definition plannerToolCapabilities :: "Snapshot option \<Rightarrow> plannerToolCapability list" where
  "plannerToolCapabilities manager =
     slice_stable planner_less (knowledge_tool # map planner_tool (ToolPlanCapabilities manager))"

definition capability_label :: "plannerToolCapability \<Rightarrow> string" where
  "capability_label item =
     pc_Tool item @
     (if TrimSpace (pc_ConnectorID item) \<noteq> [] then '' via '' @ pc_ConnectorID item else []) @
     (if TrimSpace (pc_CapabilityID item) \<noteq> [] then '' ['' @ pc_CapabilityID item @ '']'' else []) @
     (if pc_Invocable item then '' (invocable)'' else '' (catalog-only)'') @
     (if TrimSpace (pc_Description item) \<noteq> [] then '': '' @ pc_Description item else [])"

definition toolCapabilitySummary :: "plannerToolCapability list \<Rightarrow> string" where
  "toolCapabilitySummary items = Join (map (\<lambda>item. ''- '' @ capability_label item) items) [CHR 0x0A]"

text \<open>The slice of structs as it stands in the context of a diagnosis.\<close>

definition capability_value :: "plannerToolCapability \<Rightarrow> gval" where
  "capability_value item =
     VMap [(''Tool'', VString (pc_Tool item)), (''ConnectorID'', VString (pc_ConnectorID item)),
       (''ConnectorType'', VString (pc_ConnectorType item)), (''ConnectorVendor'', VString (pc_ConnectorVendor item)),
       (''Protocol'', VString (pc_Protocol item)), (''CapabilityID'', VString (pc_CapabilityID item)),
       (''Action'', VString (pc_Action item)), (''Scopes'', VSlice (map VString (pc_Scopes item))),
       (''ReadOnly'', VBool (pc_ReadOnly item)), (''Invocable'', VBool (pc_Invocable item)),
       (''Source'', VString (pc_Source item)), (''Description'', VString (pc_Description item))]"

section \<open>Skills\<close>

definition plannerSkillCapabilities :: "SkillSnapshot option \<Rightarrow> plannerToolCapability list" where
  "plannerSkillCapabilities manager =
     (case manager of
        None \<Rightarrow> []
      | Some snapshot \<Rightarrow>
          map (\<lambda>item. zero_plannerToolCapability\<lparr>pc_Tool := tcd_Tool item, pc_CapabilityID := tcd_CapabilityID item,
                 pc_Invocable := tcd_Invocable item, pc_ReadOnly := tcd_ReadOnly item, pc_Source := tcd_Source item,
                 pc_Description := tcd_Description item\<rparr>) (PlannerDescriptors snapshot))"

definition activeSkillSummaries :: "SkillSnapshot option \<Rightarrow> valmap list" where
  "activeSkillSummaries manager =
     (case manager of
        None \<Rightarrow> []
      | Some snapshot \<Rightarrow>
          map (\<lambda>e. let m = sf_Metadata e in
                 [(''skill_id'', VString (sk_ID m)), (''display_name'', VString (sk_DisplayName m)),
                  (''summary'', VString (sk_Description m)), (''content'', VString (sk_Content m)),
                  (''tags'', VSlice (map VString (sk_Tags m)))])
            (filter (\<lambda>e. case skn_Lifecycle snapshot (skill_id e) of
                           None \<Rightarrow> False
                         | Some st \<Rightarrow> ss_Enabled st \<and> \<not> EqualFold (ss_RuntimeMode st) ''disabled'') (skn_Entries snapshot)))"

text \<open>The scopes are not copied.\<close>

definition toToolCapabilityDescriptors :: "plannerToolCapability list \<Rightarrow> ToolCapabilityDescriptor list" where
  "toToolCapabilityDescriptors items =
     map (\<lambda>item. zero_ToolCapabilityDescriptor\<lparr>tcd_Tool := pc_Tool item, tcd_ConnectorID := pc_ConnectorID item,
            tcd_ConnectorType := pc_ConnectorType item, tcd_ConnectorVendor := pc_ConnectorVendor item,
            tcd_Protocol := pc_Protocol item, tcd_CapabilityID := pc_CapabilityID item, tcd_Action := pc_Action item,
            tcd_ReadOnly := pc_ReadOnly item, tcd_Invocable := pc_Invocable item, tcd_Source := pc_Source item,
            tcd_Description := pc_Description item\<rparr>) items"

definition matchSummaryFromContext :: "valmap \<Rightarrow> string" where
  "matchSummaryFromContext ctx =
     (case map_of ctx ''summary'' of
        Some (VString summary) \<Rightarrow> TrimSpace summary
      | _ \<Rightarrow>
          (case map_of ctx ''skill_match'' of
             Some (VMap skillMatch) \<Rightarrow>
               (case map_of skillMatch ''summary'' of Some (VString summary) \<Rightarrow> TrimSpace summary | _ \<Rightarrow> [])
           | _ \<Rightarrow> []))"

end
