(* ===== verification/Dispatcher_Text.thy ===== *)
theory Dispatcher_Text
  imports Workflow_Text Connector_Tools Agent_Role
begin

text \<open>
  The functions without state of \<^verbatim>\<open>internal/events/dispatcher.go\<close> and \<^verbatim>\<open>tool_plan.go\<close>: reading an alert, resolving
  the references of a tool plan, judging what a request and a proposed command are about, and the texts
  of messages.  \<open>evt_\<close> marks functions whose Go name is also used by another package.  Comparisons of
  \<^verbatim>\<open>float64\<close> values, the numeric analysis of disk series, \<^verbatim>\<open>encoding/json\<close> and the drawing of charts are the
  parameters \<open>metrics_env\<close>.
\<close>

section \<open>Reading alerts and maps\<close>

definition evt_alertString :: "valmap \<Rightarrow> string \<Rightarrow> string" where
  "evt_alertString alert key = (case map_of alert key of Some (VString v) \<Rightarrow> v | _ \<Rightarrow> [])"

text \<open>\<^verbatim>\<open>typed[key]\<close> of the map stored under \<open>field\<close>, of either type.\<close>

definition field_string :: "valmap \<Rightarrow> string \<Rightarrow> string \<Rightarrow> string" where
  "field_string alert field key =
     (case map_of alert field of
        Some (VStrMap m) \<Rightarrow> sget m key
      | Some (VMap m) \<Rightarrow> (case map_of m key of Some (VString v) \<Rightarrow> v | _ \<Rightarrow> [])
      | _ \<Rightarrow> [])"

definition evt_annotationString :: "valmap \<Rightarrow> string \<Rightarrow> string" where
  "evt_annotationString alert key = field_string alert ''annotations'' key"

definition labelString :: "valmap \<Rightarrow> string \<Rightarrow> string" where
  "labelString alert key = field_string alert ''labels'' key"

definition evt_fallbackString :: "string \<Rightarrow> string \<Rightarrow> string" where
  "evt_fallbackString primary fallback = (if TrimSpace primary \<noteq> [] then TrimSpace primary else TrimSpace fallback)"

fun evt_firstNonEmpty :: "string list \<Rightarrow> string" where
  "evt_firstNonEmpty [] = []"
| "evt_firstNonEmpty (v # vs) = (if TrimSpace v \<noteq> [] then TrimSpace v else evt_firstNonEmpty vs)"

definition evt_alertLabel :: "valmap \<Rightarrow> string \<Rightarrow> string" where
  "evt_alertLabel alert key = TrimSpace (field_string alert ''labels'' key)"

definition evt_stringFromAlert :: "valmap \<Rightarrow> string \<Rightarrow> string" where
  "evt_stringFromAlert alert key =
     (case map_of alert key of Some (VString v) \<Rightarrow> TrimSpace v | _ \<Rightarrow> evt_alertLabel alert key)"

definition stringValue :: "valmap \<Rightarrow> string \<Rightarrow> string \<Rightarrow> string" where
  "stringValue input key fallback =
     (case map_of input key of
        Some (VString typed) \<Rightarrow> if TrimSpace typed = [] then fallback else TrimSpace typed
      | _ \<Rightarrow> fallback)"

definition evt_cloneMap :: "valmap \<Rightarrow> valmap" where
  "evt_cloneMap m = m"

definition mergeStringMaps :: "strmap \<Rightarrow> strmap \<Rightarrow> strmap" where
  "mergeStringMaps left right = foldl (\<lambda>m kv. map_put (fst kv) (snd kv) m) left right"

definition mergeInterfaceMaps :: "valmap \<Rightarrow> valmap \<Rightarrow> valmap" where
  "mergeInterfaceMaps left right = foldl (\<lambda>m kv. map_put (fst kv) (snd kv) m) left right"

definition interfaceMap :: "gval option \<Rightarrow> valmap" where
  "interfaceMap value = (case value of Some (VMap typed) \<Rightarrow> typed | _ \<Rightarrow> [])"

definition runtimeMap :: "RuntimeMetadata option \<Rightarrow> valmap" where
  "runtimeMap runtime =
     (case runtime of
        None \<Rightarrow> []
      | Some r \<Rightarrow>
          [(''runtime'', VString (rm_Runtime r)), (''selection'', VString (rm_Selection r)),
           (''connector_id'', VString (rm_ConnectorID r)), (''connector_type'', VString (rm_ConnectorType r)),
           (''connector_vendor'', VString (rm_ConnectorVendor r)), (''protocol'', VString (rm_Protocol r)),
           (''execution_mode'', VString (rm_ExecutionMode r)), (''fallback_enabled'', VBool (rm_FallbackEnabled r)),
           (''fallback_used'', VBool (rm_FallbackUsed r)), (''fallback_reason'', VString (rm_FallbackReason r)),
           (''fallback_target'', VString (rm_FallbackTarget r))])"

section \<open>References of a tool plan\<close>

fun path_loop :: "string list \<Rightarrow> gval \<Rightarrow> gval" where
  "path_loop [] current = current"
| "path_loop (part # parts) current =
     (if TrimSpace part = [] then path_loop parts current
      else
        (case current of
           VMap object \<Rightarrow> path_loop parts (case map_of object part of Some v \<Rightarrow> v | None \<Rightarrow> VNil)
         | _ \<Rightarrow> VNil))"

definition lookupContextPath :: "valmap \<Rightarrow> string \<Rightarrow> gval" where
  "lookupContextPath root path =
     (if root = [] then VNil else path_loop (split_char (CHR ''.'') (TrimSpace path)) (VMap root))"

definition lookupStepReference :: "string \<Rightarrow> ToolPlanStep list \<Rightarrow> gval" where
  "lookupStepReference ref executed =
     (let parts = split_char (CHR ''.'') (TrimPrefix ref ''$steps.'') in
      case find (\<lambda>candidate. TrimSpace (tp_ID candidate) = TrimSpace (hd parts)) executed of
        None \<Rightarrow> VNil
      | Some step \<Rightarrow>
          if length parts = 1 then VMap (evt_cloneMap (tp_Output step))
          else if parts ! 1 = ''output'' then lookupContextPath (tp_Output step) (Join (drop 2 parts) ''.'')
          else if parts ! 1 = ''input'' then lookupContextPath (tp_ResolvedInput step) (Join (drop 2 parts) ''.'')
          else if parts ! 1 = ''status'' then VString (tp_Status step)
          else if parts ! 1 = ''connector_id'' then VString (tp_ConnectorID step)
          else VNil)"

definition resolveToolPlanString :: "valmap \<Rightarrow> valmap \<Rightarrow> ToolPlanStep list \<Rightarrow> string \<Rightarrow> gval" where
  "resolveToolPlanString alert ctx executed value =
     (let trimmed = TrimSpace value in
      if \<not> prefix ''$'' trimmed then VString value
      else if prefix ''$context.'' trimmed then lookupContextPath ctx (TrimPrefix trimmed ''$context.'')
      else if prefix ''$alert.'' trimmed then lookupContextPath alert (TrimPrefix trimmed ''$alert.'')
      else if prefix ''$steps.'' trimmed then lookupStepReference trimmed executed
      else VString value)"

fun resolveToolPlanValue :: "valmap \<Rightarrow> valmap \<Rightarrow> ToolPlanStep list \<Rightarrow> gval \<Rightarrow> gval" where
  "resolveToolPlanValue alert ctx executed (VString s) = resolveToolPlanString alert ctx executed s"
| "resolveToolPlanValue alert ctx executed (VMap m) =
     VMap (map (\<lambda>(k, v). (k, resolveToolPlanValue alert ctx executed v)) m)"
| "resolveToolPlanValue alert ctx executed (VList vs) = VList (map (resolveToolPlanValue alert ctx executed) vs)"
| "resolveToolPlanValue alert ctx executed value = value"

definition resolveToolPlanInput :: "valmap \<Rightarrow> SessionDetail \<Rightarrow> valmap \<Rightarrow> ToolPlanStep list \<Rightarrow> valmap" where
  "resolveToolPlanInput input sessionDetail ctx executed =
     map (\<lambda>(k, v). (k, resolveToolPlanValue (sd_Alert sessionDetail) ctx executed v)) input"

section \<open>Metrics\<close>

text \<open>\<open>me_usage\<close> and \<open>me_forecast\<close> are the two disk analyses with their attachment; \<open>me_json\<close> is
  \<^verbatim>\<open>json.MarshalIndent\<close> of the series and \<open>me_chart\<close> the encoded image with its preview.  \<open>me_numeric\<close>,
  \<open>me_ge85\<close> and \<open>me_le_half\<close> say whether a value reads as a number, is at least 85 and at most 0.5.\<close>

record metrics_env =
  me_usage :: "ToolPlanStep \<Rightarrow> MetricsQuery \<Rightarrow> valmap list \<Rightarrow> valmap \<times> MessageAttachment option"
  me_forecast :: "ToolPlanStep \<Rightarrow> MetricsQuery \<Rightarrow> valmap list \<Rightarrow> valmap \<times> MessageAttachment option"
  me_json :: "valmap list \<Rightarrow> string option"
  me_chart :: "MetricsQuery \<Rightarrow> valmap list \<Rightarrow> (string \<times> string) option"
  me_numeric :: "gval \<Rightarrow> bool"
  me_ge85 :: "gval \<Rightarrow> bool"
  me_le_half :: "gval \<Rightarrow> bool"

text \<open>\<^verbatim>\<open>strconv.Quote\<close> for \<^verbatim>\<open>%q\<close>: bytes from 128 on are kept, as they are for printable characters.\<close>

definition hex_digit :: "nat \<Rightarrow> char" where
  "hex_digit n = ''0123456789abcdef'' ! n"

definition quote_char :: "char \<Rightarrow> string" where
  "quote_char c =
     (if c = CHR 0x22 then [CHR 0x5C, CHR 0x22]
      else if c = CHR 0x5C then [CHR 0x5C, CHR 0x5C]
      else if c = CHR 0x07 then [CHR 0x5C] @ ''a''
      else if c = CHR 0x08 then [CHR 0x5C] @ ''b''
      else if c = CHR 0x0C then [CHR 0x5C] @ ''f''
      else if c = CHR 0x0A then [CHR 0x5C] @ ''n''
      else if c = CHR 0x0D then [CHR 0x5C] @ ''r''
      else if c = CHR 0x09 then [CHR 0x5C] @ ''t''
      else if c = CHR 0x0B then [CHR 0x5C] @ ''v''
      else (let n = of_char c :: nat in
            if n < 32 \<or> n = 127 then [CHR 0x5C] @ ''x'' @ [hex_digit (n div 16), hex_digit (n mod 16)] else [c]))"

definition quoted :: "string \<Rightarrow> string" where
  "quoted s = [CHR 0x22] @ concat (map quote_char s) @ [CHR 0x22]"

definition buildDiagnosisMetricsQuery :: "string \<Rightarrow> string \<Rightarrow> string" where
  "buildDiagnosisMetricsQuery host0 service0 =
     (let host = TrimSpace host0; service = TrimSpace service0 in
      if host \<noteq> [] then ''node_load1{instance='' @ quoted host @ ''}''
      else if service \<noteq> [] then ''node_load1{job=~'' @ [CHR 0x22] @ ''.*'' @ service @ ''.*'' @ [CHR 0x22] @ ''}''
      else ''node_load1'')"

definition defaultMetricsMode :: "string \<Rightarrow> string" where
  "defaultMetricsMode tool = (if TrimSpace tool = ''metrics.query_range'' then ''range'' else ''instant'')"

text \<open>A \<open>VSlice\<close> of lists is a \<^verbatim>\<open>[][]interface{}\<close>.\<close>

definition is_rows :: "gval list \<Rightarrow> bool" where
  "is_rows vs \<longleftrightarrow> list_all (\<lambda>v. case v of VList _ \<Rightarrow> True | _ \<Rightarrow> False) vs"

definition row_points :: "valmap \<Rightarrow> nat" where
  "row_points row =
     (let single = (if map_of row ''value'' = None then 0 else 1) in
      case map_of row ''values'' of
        Some (VSlice vs) \<Rightarrow> if is_rows vs then length vs else single
      | Some (VList vs) \<Rightarrow> length vs
      | _ \<Rightarrow> single)"

definition metricsPointCount :: "valmap list \<Rightarrow> nat" where
  "metricsPointCount series = sum_list (map row_points series)"

definition zero_MessageAttachment :: MessageAttachment where
  "zero_MessageAttachment = \<lparr>ma_Type = [], ma_Name = [], ma_MimeType = [], ma_URL = [], ma_Content = [],
     ma_PreviewText = [], ma_Metadata = []\<rparr>"

definition buildMetricsAttachments :: "metrics_env \<Rightarrow> MetricsQuery \<Rightarrow> MetricsResult \<Rightarrow> MessageAttachment list" where
  "buildMetricsAttachments env query res =
     (let series = mr_Series res; base = ''metrics-'' @ TrimSpace (evt_firstNonEmpty [mx_Mode query, ''query'']);
          mode = VString (evt_firstNonEmpty [mx_Mode query, ''instant''])
      in if series = [] then []
         else
           (case me_json env series of
              None \<Rightarrow> []
            | Some json \<Rightarrow>
                [zero_MessageAttachment\<lparr>ma_Type := ''file'', ma_Name := base @ ''.json'', ma_MimeType := ''application/json'',
                   ma_Content := json,
                   ma_PreviewText := ''Metrics query result ('' @ dec (length series) @ '' series, '' @
                     dec (metricsPointCount series) @ '' points).'',
                   ma_Metadata := [(''source'', VString ''metrics''), (''mode'', mode)]\<rparr>]) @
           (case me_chart env query series of
              None \<Rightarrow> []
            | Some (img, preview) \<Rightarrow>
                [zero_MessageAttachment\<lparr>ma_Type := ''image'', ma_Name := base @ ''.png'', ma_MimeType := ''image/png'',
                   ma_Content := img, ma_PreviewText := preview,
                   ma_Metadata := [(''encoding'', VString ''base64''), (''source'', VString ''metrics''), (''mode'', mode)]\<rparr>]))"

definition dz_disk :: string where "dz_disk = [CHR 0xE7, CHR 0xA3, CHR 0x81, CHR 0xE7, CHR 0x9B, CHR 0x98]"

definition isDiskMetricsContext :: "SessionDetail \<Rightarrow> ToolPlanStep \<Rightarrow> MetricsQuery \<Rightarrow> bool" where
  "isDiskMetricsContext sessionDetail step query \<longleftrightarrow>
     (\<exists>part \<in> set (map (\<lambda>s. ToLower (TrimSpace s))
        [mx_Query query, tp_Reason step, tp_ID step, evt_annotationString (sd_Alert sessionDetail) ''summary'',
         evt_annotationString (sd_Alert sessionDetail) ''user_request'', evt_alertLabel (sd_Alert sessionDetail) ''alertname'']).
        Contains part ''filesystem'' \<or> Contains part ''disk'' \<or> Contains part ''storage'' \<or> Contains part dz_disk)"

definition buildDiskMetricsAnalysis ::
  "metrics_env \<Rightarrow> SessionDetail \<Rightarrow> ToolPlanStep \<Rightarrow> MetricsQuery \<Rightarrow> MetricsResult \<Rightarrow> valmap \<times> MessageAttachment option" where
  "buildDiskMetricsAnalysis env sessionDetail step query res =
     (if \<not> isDiskMetricsContext sessionDetail step query \<or> mr_Series res = [] then ([], None)
      else if Contains (ToLower (TrimSpace (mx_Query query))) ''predict_linear'' \<or> Contains (ToLower (TrimSpace (tp_ID step))) ''forecast''
      then me_forecast env step query (mr_Series res)
      else me_usage env step query (mr_Series res))"

definition evt_interfaceString :: "gval option \<Rightarrow> string" where
  "evt_interfaceString value = (case value of Some (VString s) \<Rightarrow> TrimSpace s | Some (VTime t) \<Rightarrow> TrimSpace (time_String t) | _ \<Rightarrow> [])"

definition shouldPreferMetricsOnlyForDisk :: "metrics_env \<Rightarrow> SessionDetail \<Rightarrow> valmap \<Rightarrow> bool" where
  "shouldPreferMetricsOnlyForDisk env sessionDetail analysis =
     (if analysis = [] then False
      else
        (let alert = sd_Alert sessionDetail;
             alertName = ToLower (TrimSpace (evt_alertLabel alert ''alertname''));
             userRequest = ToLower (TrimSpace (evt_fallbackString (evt_annotationString alert ''user_request'') (evt_annotationString alert ''summary'')));
             current = (case map_of analysis ''current_usage_percent'' of Some v \<Rightarrow> v | None \<Rightarrow> VNil);
             growth = (case map_of analysis ''growth_percent_per_hour'' of Some v \<Rightarrow> v | None \<Rightarrow> VNil);
             forecastRisk = ToLower (TrimSpace (evt_interfaceString (map_of analysis ''forecast_risk'')))
         in if \<not> (Contains alertName ''disk'' \<or> Contains userRequest dz_disk \<or> Contains userRequest ''disk'' \<or>
                   Contains userRequest ''filesystem'') then False
            else if me_numeric env current \<and> me_ge85 env current \<and> (\<not> me_numeric env growth \<or> me_le_half env growth) then True
            else forecastRisk = ''stable''))"

section \<open>Plans\<close>

definition shouldStopToolPlan :: "string \<Rightarrow> bool" where
  "shouldStopToolPlan policy = EqualFold (TrimSpace policy) ''stop''"

definition backfillStepConnector :: "string \<Rightarrow> ToolPlanStep \<Rightarrow> ToolPlanStep" where
  "backfillStepConnector connectorID0 step =
     (let connectorID = TrimSpace connectorID0 in
      if connectorID = [] then step
      else
        step\<lparr>tp_ConnectorID := (if TrimSpace (tp_ConnectorID step) = [] then connectorID else tp_ConnectorID step),
             tp_ResolvedInput := (if TrimSpace (stringValue (tp_ResolvedInput step) ''connector_id'' []) = []
                                  then map_put ''connector_id'' (VString connectorID) (tp_ResolvedInput step)
                                  else tp_ResolvedInput step)\<rparr>)"

definition plan_command :: "string \<Rightarrow> string \<Rightarrow> string \<Rightarrow> valmap \<Rightarrow> valmap" where
  "plan_command command host service input =
     (let i1 = map_put ''command'' (VString command) input;
          i2 = (if TrimSpace host \<noteq> [] then map_put ''host'' (VString host) i1 else i1)
      in if TrimSpace service \<noteq> [] then map_put ''service'' (VString service) i2 else i2)"

fun replace_execution_step :: "(ToolPlanStep \<Rightarrow> ToolPlanStep) \<Rightarrow> ToolPlanStep list \<Rightarrow> ToolPlanStep list option" where
  "replace_execution_step f [] = None"
| "replace_execution_step f (step # steps) =
     (if TrimSpace (tp_Tool step) = ''execution.run_command'' then Some (f step # steps)
      else map_option ((#) step) (replace_execution_step f steps))"

definition appendOrReplaceExecutionPlanStep ::
  "ToolPlanStep list \<Rightarrow> string \<Rightarrow> string \<Rightarrow> string \<Rightarrow> ToolPlanStep list" where
  "appendOrReplaceExecutionPlanStep steps command0 host service =
     (let command = TrimSpace command0 in
      if command = [] then steps
      else
        (case replace_execution_step
                (\<lambda>step. step\<lparr>tp_Status := ''planned'', tp_Input := plan_command command host service (tp_Input step)\<rparr>) steps of
           Some steps' \<Rightarrow> steps'
         | None \<Rightarrow>
             steps @ [zero_ToolPlanStep\<lparr>tp_Tool := ''execution.run_command'',
               tp_Reason := ''Host-level command is still required after tool-based diagnosis.'',
               tp_Priority := int (length steps) + 1, tp_Status := ''planned'',
               tp_Input := [(''command'', VString command), (''host'', VString host), (''service'', VString service)]\<rparr>]))"

definition removeExecutionPlanSteps :: "ToolPlanStep list \<Rightarrow> ToolPlanStep list" where
  "removeExecutionPlanSteps steps = filter (\<lambda>step. TrimSpace (tp_Tool step) \<noteq> ''execution.run_command'') steps"

definition resolveConnectorIDByType :: "Snapshot option \<Rightarrow> string \<Rightarrow> string" where
  "resolveConnectorIDByType connectors connectorType =
     (case connectors of
        None \<Rightarrow> []
      | Some snapshot \<Rightarrow>
          (case find (\<lambda>entry. Enabled entry \<and> ToLower (TrimSpace (sp_Type (mf_Spec entry))) = ToLower (TrimSpace connectorType))
                  (sn_Entries snapshot) of
             Some entry \<Rightarrow> TrimSpace (md_ID (mf_Metadata entry))
           | None \<Rightarrow> []))"

section \<open>Intents\<close>

definition toolStepAttempted :: "string \<Rightarrow> bool" where
  "toolStepAttempted status \<longleftrightarrow> TrimSpace status \<in> {''completed'', ''failed'', ''pending_approval'', ''denied'', ''running''}"

definition hasAttemptedTool :: "ToolPlanStep list \<Rightarrow> string list \<Rightarrow> bool" where
  "hasAttemptedTool steps tools \<longleftrightarrow>
     (\<exists>step \<in> set steps. TrimSpace (tp_Tool step) \<in> set (map TrimSpace tools) \<and> toolStepAttempted (tp_Status step))"

definition intFromOutput :: "valmap \<Rightarrow> string \<Rightarrow> int" where
  "intFromOutput output key =
     (case map_of output key of Some (VInt n) \<Rightarrow> n | Some (VFloat n _) \<Rightarrow> n | _ \<Rightarrow> 0)"

definition nonempty_result :: "valmap \<Rightarrow> bool" where
  "nonempty_result output = (case map_of output ''result'' of Some (VMap m) \<Rightarrow> m \<noteq> [] | _ \<Rightarrow> False)"

definition step_evidence :: "ToolPlanStep \<Rightarrow> bool" where
  "step_evidence step =
     (if TrimSpace (tp_Status step) \<noteq> ''completed'' then False
      else
        (let tool = TrimSpace (tp_Tool step); output = tp_Output step in
         if tool \<in> {''metrics.query_range'', ''metrics.query_instant''}
         then intFromOutput output ''points'' > 0 \<or> intFromOutput output ''series_count'' > 0
         else if tool = ''knowledge.search'' then intFromOutput output ''hit_count'' > 0
         else if tool \<in> {''logs.query'', ''observability.query'', ''connector.invoke_capability''}
         then intFromOutput output ''artifact_count'' > 0 \<or> intFromOutput output ''result_count'' > 0 \<or> nonempty_result output
         else if tool = ''delivery.query'' then intFromOutput output ''result_count'' > 0 \<or> nonempty_result output
         else False))"

definition hasMeaningfulToolEvidence :: "ToolPlanStep list \<Rightarrow> bool" where
  "hasMeaningfulToolEvidence steps \<longleftrightarrow> (\<exists>step \<in> set steps. step_evidence step)"

definition ask_fragments :: "string list" where
  "ask_fragments = [[CHR 0xE6, CHR 0x98, CHR 0xAF, CHR 0xE5, CHR 0x90, CHR 0xA6, CHR 0xE4, CHR 0xB8,
      CHR 0x8A, CHR 0xE6, CHR 0x9C, CHR 0xBA], [CHR 0xE6, CHR 0x98, CHR 0xAF, CHR 0xE5, CHR 0x90, CHR 0xA6, CHR 0xE4, CHR 0xB8,
      CHR 0x8A, CHR 0xE6, CHR 0x9C, CHR 0xBA, CHR 0xE5, CHR 0x99, CHR 0xA8], [CHR 0xE8, CHR 0xA6, CHR 0x81, CHR 0xE4, CHR 0xB8, CHR 0x8D, CHR 0xE8, CHR 0xA6,
      CHR 0x81, CHR 0xE4, CHR 0xB8, CHR 0x8A, CHR 0xE6, CHR 0x9C, CHR 0xBA], [CHR 0xE8, CHR 0xA6, CHR 0x81, CHR 0xE4, CHR 0xB8, CHR 0x8D, CHR 0xE8, CHR 0xA6,
      CHR 0x81, CHR 0xE4, CHR 0xB8, CHR 0x8A, CHR 0xE6, CHR 0x9C, CHR 0xBA, CHR 0xE5,
      CHR 0x99, CHR 0xA8], [CHR 0xE6, CHR 0x98, CHR 0xAF, CHR 0xE5, CHR 0x90, CHR 0xA6, CHR 0xE9, CHR 0x9C,
      CHR 0x80, CHR 0xE8, CHR 0xA6, CHR 0x81, CHR 0xE4, CHR 0xB8, CHR 0x8A, CHR 0xE6,
      CHR 0x9C, CHR 0xBA], [CHR 0xE6, CHR 0x98, CHR 0xAF, CHR 0xE5, CHR 0x90, CHR 0xA6, CHR 0xE9, CHR 0x9C,
      CHR 0x80, CHR 0xE8, CHR 0xA6, CHR 0x81, CHR 0xE4, CHR 0xB8, CHR 0x8A, CHR 0xE6,
      CHR 0x9C, CHR 0xBA, CHR 0xE5, CHR 0x99, CHR 0xA8],
     [CHR 0xE5, CHR 0x86, CHR 0x8D, CHR 0xE5, CHR 0x88, CHR 0xA4, CHR 0xE6, CHR 0x96,
      CHR 0xAD, CHR 0xE6, CHR 0x98, CHR 0xAF, CHR 0xE5, CHR 0x90, CHR 0xA6, CHR 0xE4,
      CHR 0xB8, CHR 0x8A, CHR 0xE6, CHR 0x9C, CHR 0xBA], [CHR 0xE5, CHR 0x86, CHR 0x8D, CHR 0xE5, CHR 0x88, CHR 0xA4, CHR 0xE6, CHR 0x96,
      CHR 0xAD, CHR 0xE6, CHR 0x98, CHR 0xAF, CHR 0xE5, CHR 0x90, CHR 0xA6, CHR 0xE4,
      CHR 0xB8, CHR 0x8A, CHR 0xE6, CHR 0x9C, CHR 0xBA, CHR 0xE5, CHR 0x99, CHR 0xA8], [CHR 0xE5, CHR 0x85, CHR 0x88, CHR 0xE7, CHR 0x9C, CHR 0x8B], [CHR 0xE5, CHR 0x85, CHR 0x88, CHR 0xE6, CHR 0x9F, CHR 0xA5]]"

definition host_fragments :: "string list" where
  "host_fragments = [[CHR 0xE6, CHR 0x89, CHR 0xA7, CHR 0xE8, CHR 0xA1, CHR 0x8C], [CHR 0xE5, CHR 0x91, CHR 0xBD, CHR 0xE4, CHR 0xBB, CHR 0xA4], ''run '', ''ssh '', ''shell'', [CHR 0xE7, CHR 0x99, CHR 0xBB, CHR 0xE5, CHR 0xBD, CHR 0x95], [CHR 0xE7, CHR 0x99, CHR 0xBB, CHR 0xE9, CHR 0x99, CHR 0x86], [CHR 0xE8, CHR 0xBF, CHR 0x9B, CHR 0xE6, CHR 0x9C, CHR 0xBA, CHR 0xE5, CHR 0x99,
      CHR 0xA8], [CHR 0xE4, CHR 0xB8, CHR 0x8A, CHR 0xE6, CHR 0x9C, CHR 0xBA, CHR 0xE5, CHR 0x99,
      CHR 0xA8], [CHR 0xE4, CHR 0xB8, CHR 0x8A, CHR 0xE4, CHR 0xB8, CHR 0xBB, CHR 0xE6, CHR 0x9C,
      CHR 0xBA],
     ''/proc'', ''systemctl'', ''journalctl'']"

definition explicitlyRequestsHostLevelAction :: "string \<Rightarrow> string \<Rightarrow> bool" where
  "explicitlyRequestsHostLevelAction userRequest executionHint =
     (let lower = ToLower (TrimSpace userRequest) in
      if list_ex (Contains lower) ask_fragments then False
      else if list_ex (Contains lower) host_fragments then True
      else Contains lower [CHR 0xE7, CHR 0x8A, CHR 0xB6, CHR 0xE6, CHR 0x80, CHR 0x81] \<and> Contains (ToLower executionHint) ''systemctl status'')"

definition mentions_errors :: "string \<Rightarrow> bool" where
  "mentions_errors userRequest =
     (let lower = ToLower (TrimSpace userRequest) in
      list_ex (Contains userRequest) [[CHR 0xE6, CHR 0x8A, CHR 0xA5, CHR 0xE9, CHR 0x94, CHR 0x99], [CHR 0xE9, CHR 0x94, CHR 0x99, CHR 0xE8, CHR 0xAF, CHR 0xAF], [CHR 0xE6, CHR 0x97, CHR 0xA5, CHR 0xE5, CHR 0xBF, CHR 0x97]] \<or>
      list_ex (Contains lower) [''trace'', ''span'', ''latency'', ''root cause'', ''error''])"

definition mentions_delivery :: "string \<Rightarrow> bool" where
  "mentions_delivery userRequest =
     (let lower = ToLower (TrimSpace userRequest) in
      list_ex (Contains userRequest) [[CHR 0xE5, CHR 0x8F, CHR 0x91, CHR 0xE5, CHR 0xB8, CHR 0x83], [CHR 0xE9, CHR 0x83, CHR 0xA8, CHR 0xE7, CHR 0xBD, CHR 0xB2]] \<or>
      list_ex (Contains lower) [''deploy'', ''release'', ''pipeline'', ''commit''])"

definition classifyUserRequestIntent :: "string \<Rightarrow> string" where
  "classifyUserRequestIntent userRequest =
     (let lower = ToLower (TrimSpace userRequest) in
      if mentions_errors userRequest \<and> mentions_delivery userRequest then ''delivery''
      else if mentions_delivery userRequest then ''delivery''
      else if mentions_errors userRequest then ''observability''
      else if list_ex (Contains userRequest) [[CHR 0xE8, CHR 0xBF, CHR 0x87, CHR 0xE5, CHR 0x8E, CHR 0xBB, CHR 0xE4, CHR 0xB8,
      CHR 0x80, CHR 0xE5, CHR 0xB0, CHR 0x8F, CHR 0xE6, CHR 0x97, CHR 0xB6], [CHR 0xE6, CHR 0x9C, CHR 0x80, CHR 0xE8, CHR 0xBF, CHR 0x91]] \<or> list_ex (Contains lower) [''trend'', ''history'']
      then ''metrics_history''
      else if Contains userRequest dz_disk \<or> list_ex (Contains lower) [''disk'', ''filesystem'', ''storage''] then ''disk_incident''
      else ''generic'')"

definition classifyExecutionHintIntent :: "string \<Rightarrow> string" where
  "classifyExecutionHintIntent hint =
     (let lower = ToLower (TrimSpace hint) in
      if lower = ''hostname && uptime'' then ''generic_host''
      else if (prefix ''curl '' lower \<or> prefix ''wget '' lower) \<and> (Contains lower ''http://'' \<or> Contains lower ''https://'')
      then ''endpoint_probe''
      else if list_ex (Contains lower) [''uptime'', ''/proc/loadavg'', ''free -m'', ''df -h''] then ''host_metrics''
      else if list_ex (Contains lower) [''systemctl status'', ''journalctl''] then ''service_status''
      else ''generic'')"

record executedToolContext =
  xt_Context :: valmap
  xt_Attachments :: "MessageAttachment list"
  xt_ExecutedPlan :: "ToolPlanStep list"

definition request_text :: "SessionDetail \<Rightarrow> string" where
  "request_text sessionDetail =
     evt_fallbackString (evt_annotationString (sd_Alert sessionDetail) ''user_request'')
       (evt_annotationString (sd_Alert sessionDetail) ''summary'')"

text \<open>The reason to drop a command, if any.  The parts after the checks that return early are named after the
  evidence they need.\<close>

definition attempted_reason :: "ToolPlanStep list \<Rightarrow> string \<Rightarrow> string \<Rightarrow> string option" where
  "attempted_reason plan requestIntent hintIntent =
     (let attemptedMetrics = hasAttemptedTool plan [''metrics.query_range'', ''metrics.query_instant''];
          attemptedLogs = hasAttemptedTool plan [''logs.query''];
          attemptedObservability = hasAttemptedTool plan [''observability.query''];
          attemptedDelivery = hasAttemptedTool plan [''delivery.query''];
          attemptedSystemQueries = hasAttemptedTool plan [''metrics.query_range'', ''metrics.query_instant'', ''logs.query'',
            ''knowledge.search'', ''observability.query'', ''delivery.query'', ''connector.invoke_capability'']
      in if requestIntent = ''metrics_history'' \<and> attemptedMetrics \<and>
            hintIntent \<in> {''generic_host'', ''host_metrics'', ''service_status'', ''endpoint_probe''}
         then Some ''metrics_query_already_attempted''
         else if attemptedSystemQueries \<and> requestIntent = ''observability'' \<and>
            hintIntent \<in> {''generic_host'', ''host_metrics'', ''endpoint_probe''}
         then Some ''tool_results_sufficient_for_non_host_request''
         else if attemptedSystemQueries \<and> requestIntent = ''delivery'' \<and> (attemptedLogs \<or> attemptedObservability) \<and>
            attemptedDelivery \<and> hintIntent \<in> {''generic_host'', ''host_metrics'', ''endpoint_probe''}
         then Some ''tool_results_sufficient_for_non_host_request''
         else if attemptedSystemQueries \<and> hintIntent = ''endpoint_probe''
         then Some ''tool_results_already_attempted_system_probe''
         else None)"

definition evidence_reason :: "executedToolContext \<Rightarrow> string \<Rightarrow> string \<Rightarrow> string option" where
  "evidence_reason executed requestIntent hintIntent =
     (let plan = xt_ExecutedPlan executed;
          attemptedLogs = hasAttemptedTool plan [''logs.query''];
          attemptedObservability = hasAttemptedTool plan [''observability.query''];
          attemptedDelivery = hasAttemptedTool plan [''delivery.query''];
          sufficient = (map_of (xt_Context executed) ''disk_space_metrics_sufficient'' = Some (VBool True))
      in if \<not> hasMeaningfulToolEvidence plan then None
         else if requestIntent = ''disk_incident'' \<and> sufficient \<and> hintIntent \<in> {''host_metrics'', ''generic_host'', ''service_status''}
         then Some ''disk_metrics_evidence_sufficient''
         else if requestIntent = ''observability'' \<and> hintIntent \<in> {''generic_host'', ''host_metrics''}
         then Some ''tool_results_sufficient_for_non_host_request''
         else if requestIntent = ''delivery'' \<and> (attemptedLogs \<or> attemptedObservability) \<and> attemptedDelivery \<and>
            hintIntent \<in> {''generic_host'', ''host_metrics''}
         then Some ''tool_results_sufficient_for_non_host_request''
         else if requestIntent = ''metrics_history'' \<and> hintIntent \<in> {''generic_host'', ''host_metrics''}
         then Some ''metrics_history_answered_without_host_command''
         else None)"

definition shouldSuppressExecutionHint :: "SessionDetail \<Rightarrow> executedToolContext \<Rightarrow> string \<Rightarrow> string option" where
  "shouldSuppressExecutionHint sessionDetail executed executionHint =
     (let hint = TrimSpace executionHint; userRequest = request_text sessionDetail in
      if hint = [] then None
      else if TrimSpace userRequest = [] then None
      else if explicitlyRequestsHostLevelAction userRequest hint then None
      else
        (let requestIntent = classifyUserRequestIntent userRequest; hintIntent = classifyExecutionHintIntent hint in
         case attempted_reason (xt_ExecutedPlan executed) requestIntent hintIntent of
           Some reason \<Rightarrow> Some reason
         | None \<Rightarrow> evidence_reason executed requestIntent hintIntent))"

section \<open>Messages\<close>

definition directExecutionNotificationTarget :: "SessionDetail \<Rightarrow> string" where
  "directExecutionNotificationTarget sessionDetail =
     (let alert = sd_Alert sessionDetail in
      if TrimSpace (evt_alertString alert ''chat_id'') \<noteq> [] then TrimSpace (evt_alertString alert ''chat_id'')
      else if TrimSpace (field_string alert ''labels'' ''chat_id'') \<noteq> [] then TrimSpace (field_string alert ''labels'' ''chat_id'')
      else ''ops-room'')"

definition executionResultNotificationChannel :: "SessionDetail \<Rightarrow> string" where
  "executionResultNotificationChannel sessionDetail =
     (if TrimSpace (evt_alertString (sd_Alert sessionDetail) ''source'') \<in> {''web_chat'', ''ops_api''} then ''in_app_inbox''
      else ''telegram'')"

definition runtimeMetadataValue :: "RuntimeMetadata option \<Rightarrow> string \<Rightarrow> string" where
  "runtimeMetadataValue runtime field =
     (case runtime of
        None \<Rightarrow> []
      | Some r \<Rightarrow>
          if field = ''runtime'' then rm_Runtime r
          else if field = ''fallback_target'' then rm_FallbackTarget r
          else [])"

definition runtimeMetadataBool :: "RuntimeMetadata option \<Rightarrow> string \<Rightarrow> bool" where
  "runtimeMetadataBool runtime field =
     (case runtime of None \<Rightarrow> False | Some r \<Rightarrow> field = ''fallback_used'' \<and> rm_FallbackUsed r)"

definition compactExecutionRuntimeLabel :: "ExecutionDetail \<Rightarrow> string" where
  "compactExecutionRuntimeLabel e =
     (let runtime = TrimSpace (runtimeMetadataValue (ed_Runtime e) ''runtime'');
          connector = (if TrimSpace (ed_ConnectorID e) \<noteq> [] then [ed_ConnectorID e] else []);
          mode = (if TrimSpace (ed_ExecutionMode e) \<noteq> [] then [ed_ExecutionMode e]
                  else if TrimSpace (ed_Protocol e) \<noteq> [] then [ed_Protocol e]
                  else if runtime \<noteq> [] then [runtime] else []);
          parts = (if connector @ mode = [] then [''ssh''] else connector @ mode);
          fallback = (if runtimeMetadataBool (ed_Runtime e) ''fallback_used''
                      then [[CHR 0x66, CHR 0x61, CHR 0x6C, CHR 0x6C, CHR 0x62, CHR 0x61, CHR 0x63, CHR 0x6B,
      CHR 0xE2, CHR 0x86, CHR 0x92] @ evt_fallbackString (runtimeMetadataValue (ed_Runtime e) ''fallback_target'') ''ssh'']
                      else [])
      in Join (parts @ fallback) [CHR 0x20, CHR 0xC2, CHR 0xB7, CHR 0x20])"

text \<open>The builder stops at 480 bytes or more.\<close>

fun output_text :: "string \<Rightarrow> ExecutionOutputChunk list \<Rightarrow> string" where
  "output_text built [] = built"
| "output_text built (chunk # chunks) =
     (if TrimSpace (oc_Content chunk) = [] then output_text built chunks
      else if length (built @ oc_Content chunk) \<ge> 480 then built @ oc_Content chunk
      else output_text (built @ oc_Content chunk) chunks)"

definition compactExecutionOutput :: "ExecutionOutputChunk list \<Rightarrow> string" where
  "compactExecutionOutput chunks =
     (let preview = TrimSpace (output_text [] chunks)
      in Join (take 6 (split_char (CHR 0x0A) (take 480 preview))) [CHR 0x0A])"

definition dz_result :: string where "dz_result = [CHR 0xE6, CHR 0x89, CHR 0xA7, CHR 0xE8, CHR 0xA1, CHR 0x8C, CHR 0xE7, CHR 0xBB,
      CHR 0x93, CHR 0xE6, CHR 0x9E, CHR 0x9C]"

definition formatExecutionResultMessage :: "SessionDetail \<Rightarrow> ExecutionDetail \<Rightarrow> ExecutionOutputChunk list \<Rightarrow> string" where
  "formatExecutionResultMessage sessionDetail e chunks =
     (let preview = compactExecutionOutput chunks;
          label = (if ed_OutputTruncated e then [CHR 0xE8, CHR 0xBE, CHR 0x93, CHR 0xE5, CHR 0x87, CHR 0xBA, CHR 0xEF, CHR 0xBC,
      CHR 0x88, CHR 0xE5, CHR 0xB7, CHR 0xB2, CHR 0xE6, CHR 0x88, CHR 0xAA, CHR 0xE6,
      CHR 0x96, CHR 0xAD, CHR 0xEF, CHR 0xBC, CHR 0x89] else [CHR 0xE8, CHR 0xBE, CHR 0x93, CHR 0xE5, CHR 0x87, CHR 0xBA])
      in Join
        ([''[TARS] '' @ dz_result, [CHR 0xE4, CHR 0xB8, CHR 0xBB, CHR 0xE6, CHR 0x9C, CHR 0xBA, CHR 0x3A, CHR 0x20] @ ed_TargetHost e, [CHR 0xE7, CHR 0x8A, CHR 0xB6, CHR 0xE6, CHR 0x80, CHR 0x81, CHR 0x3A, CHR 0x20] @ ed_Status e,
          [CHR 0xE6, CHR 0x89, CHR 0xA7, CHR 0xE8, CHR 0xA1, CHR 0x8C, CHR 0xE9, CHR 0x93,
      CHR 0xBE, CHR 0x3A, CHR 0x20] @ compactExecutionRuntimeLabel e] @
         (if ed_ExitCode e \<noteq> 0 then [[CHR 0xE9, CHR 0x80, CHR 0x80, CHR 0xE5, CHR 0x87, CHR 0xBA, CHR 0xE7, CHR 0xA0,
      CHR 0x81, CHR 0x3A, CHR 0x20] @ dec_int (ed_ExitCode e)] else []) @
         (case sd_Verification sessionDetail of
            None \<Rightarrow> []
          | Some v \<Rightarrow>
              [[CHR 0xE6, CHR 0xA0, CHR 0xA1, CHR 0xE9, CHR 0xAA, CHR 0x8C, CHR 0x3A, CHR 0x20] @ sv_Status v] @
              (if TrimSpace (sv_Summary v) \<noteq> [] then [[CHR 0xE6, CHR 0xA0, CHR 0xA1, CHR 0xE9, CHR 0xAA, CHR 0x8C, CHR 0xE8, CHR 0xAF,
      CHR 0xB4, CHR 0xE6, CHR 0x98, CHR 0x8E, CHR 0x3A, CHR 0x20] @ sv_Summary v] else [])) @
         (if ed_OutputRef e \<noteq> [] then [[CHR 0xE6, CHR 0x97, CHR 0xA5, CHR 0xE5, CHR 0xBF, CHR 0x97, CHR 0x3A, CHR 0x20] @ ed_OutputRef e] else []) @
         (if preview \<noteq> [] then [label @ '':'' @ [CHR 0x0A] @ preview] else []) @
         [[CHR 0xE4, CHR 0xBC, CHR 0x9A, CHR 0xE8, CHR 0xAF, CHR 0x9D, CHR 0x3A, CHR 0x20] @ sd_SessionID sessionDetail]) [CHR 0x0A])"

definition compactMessage :: "string \<Rightarrow> int \<Rightarrow> string" where
  "compactMessage value maxLen =
     (let trimmed = Join (Fields (TrimSpace value)) '' '' in
      if maxLen \<le> 0 \<or> int (length trimmed) \<le> maxLen then trimmed else take (nat maxLen) trimmed @ ''...'')"

section \<open>Models of a role\<close>

definition roleModelTargetBinding :: "ModelTargetBinding option \<Rightarrow> RoleModelTargetBinding option" where
  "roleModelTargetBinding binding =
     (case binding of
        None \<Rightarrow> None
      | Some b \<Rightarrow>
          (let target = \<lparr>rtb_ProviderID = TrimSpace (mt_ProviderID b), rtb_Model = TrimSpace (mt_Model b)\<rparr>
           in if rtb_ProviderID target = [] \<and> rtb_Model target = [] then None else Some target))"

definition roleModelBinding :: "ModelBinding \<Rightarrow> RoleModelBinding option" where
  "roleModelBinding binding =
     (let primary = roleModelTargetBinding (mb_Primary binding); fallback = roleModelTargetBinding (mb_Fallback binding)
      in if primary = None \<and> fallback = None \<and> \<not> mb_InheritPlatformDefault binding then None
         else Some \<lparr>rmb_Primary = primary, rmb_Fallback = fallback, rmb_InheritPlatformDefault = mb_InheritPlatformDefault binding\<rparr>)"

end
