(* ===== verification/Tool_Plan.thy ===== *)
theory Tool_Plan
  imports Dispatcher_Text Workflow_Machine Trigger_Worker
begin

text \<open>
  The execution of a tool plan, \<^verbatim>\<open>internal/events/tool_plan.go\<close>, and the state it shares with the dispatcher.
  The state (record \<open>Dispatch\<close>) is the workflow service, the trigger worker and the log of everything the
  dispatcher asked for, in order: calls of services and operations of the workflow.  The services are
  functions of the log so far and the request, so an answer may depend on all that happened before; the
  clock is read at every position of the log.  The workflow service is shared with the HTTP handlers and
  the chat bot: before each call and each operation of the dispatcher any operations of theirs may take
  place (\<open>de_others\<close>).  Audit entries, metrics counters and log lines are left out.
\<close>

section \<open>Services and state\<close>

datatype call =
    Workflow wf_op
  | QueryMetrics MetricsQuery
  | Search KnowledgeQuery
  | InvokeCapability CapabilityRequest
  | InvokeApprovedCapability ApprovedCapabilityRequest
  | ExecuteApproved ApprovedExecutionRequest
  | VerifyExecution VerificationRequest
  | PlanDiagnosis DiagnosisInput
  | FinalizeDiagnosis DiagnosisInput
  | SendMessage ChannelMessage
  | IngestResolvedSession string gotime
  | Fired FireEvent
  | Handed ApprovedExecutionRequest
  | OperatorExecute ApprovedExecutionRequest

text \<open>\<open>de_ranging\<close> is the order of ranging over the map of placeholders of a diagnosis, \<open>de_triggers\<close> and
  \<open>de_keys\<close> are those of the triggers and of the template data of an event, and \<open>de_triggerSend\<close> answers the
  messages that an event sends; \<open>de_encode\<close> and \<open>de_decode\<close> are the JSON codec of channel messages.\<close>

record dispatch_env =
  de_clock :: "nat \<Rightarrow> gotime"
  de_numeric :: metrics_env
  de_QueryMetrics :: "call list \<Rightarrow> MetricsQuery \<Rightarrow> MetricsResult result"
  de_Search :: "call list \<Rightarrow> KnowledgeQuery \<Rightarrow> KnowledgeHit list result"
  de_InvokeCapability :: "call list \<Rightarrow> CapabilityRequest \<Rightarrow> CapabilityResult \<times> go_error option"
  de_InvokeApproved :: "call list \<Rightarrow> ApprovedCapabilityRequest \<Rightarrow> CapabilityResult result"
  de_ExecuteApproved :: "call list \<Rightarrow> ApprovedExecutionRequest \<Rightarrow> ExecutionResult result"
  de_VerifyExecution :: "call list \<Rightarrow> VerificationRequest \<Rightarrow> VerificationResult result"
  de_PlanDiagnosis :: "call list \<Rightarrow> DiagnosisInput \<Rightarrow> DiagnosisPlan result"
  de_FinalizeDiagnosis :: "call list \<Rightarrow> DiagnosisInput \<Rightarrow> DiagnosisOutput result"
  de_SendMessage :: "call list \<Rightarrow> ChannelMessage \<Rightarrow> go_error option"
  de_Ingest :: "call list \<Rightarrow> string \<Rightarrow> gotime \<Rightarrow> go_error option"
  de_encode :: "ChannelMessage \<Rightarrow> string + string"
  de_decode :: "string \<Rightarrow> string + ChannelMessage"
  de_ranging :: "call list \<Rightarrow> string list"
  de_triggers :: "call list \<Rightarrow> string list"
  de_keys :: "call list \<Rightarrow> string list"
  de_triggerSend :: "call list \<Rightarrow> sender"
  de_others :: "call list \<Rightarrow> wf_op list"

record Dispatch =
  ds_workflow :: Service
  ds_triggers :: "TriggerWorker option"
  ds_log :: "call list"

definition now :: "dispatch_env \<Rightarrow> Dispatch \<Rightarrow> gotime" where
  "now env s = de_clock env (length (ds_log s))"

definition logged :: "call \<Rightarrow> Dispatch \<Rightarrow> Dispatch" where
  "logged c s = s\<lparr>ds_log := ds_log s @ [c]\<rparr>"

text \<open>The requests that an operation of the workflow dispatches to the executor.\<close>

definition started_by :: "wf_op \<Rightarrow> Service \<Rightarrow> ApprovedExecutionRequest list" where
  "started_by op w = snd (fst (wf_exec op w))"

text \<open>An operation of another goroutine.  That goroutine hands what the operation dispatched to the executor
  (\<^verbatim>\<open>processApprovalDispatch\<close> for a decision of a user): these calls are recorded at once, as \<open>Handed\<close>.\<close>

definition foreign :: "Dispatch \<Rightarrow> wf_op \<Rightarrow> Dispatch" where
  "foreign s op =
     s\<lparr>ds_workflow := snd (wf_exec op (ds_workflow s)),
       ds_log := ds_log s @ Workflow op # map Handed (started_by op (ds_workflow s))\<rparr>"

definition others :: "dispatch_env \<Rightarrow> Dispatch \<Rightarrow> Dispatch" where
  "others env s = foldl foreign s (de_others env (ds_log s))"

text \<open>A call of a service.\<close>

definition ask :: "dispatch_env \<Rightarrow> (call list \<Rightarrow> 'q \<Rightarrow> 'r) \<Rightarrow> ('q \<Rightarrow> call) \<Rightarrow> 'q \<Rightarrow> Dispatch \<Rightarrow> 'r \<times> Dispatch" where
  "ask env service c q s = (let s0 = others env s in (service (ds_log s0) q, logged (c q) s0))"

definition send_message :: "dispatch_env \<Rightarrow> ChannelMessage \<Rightarrow> Dispatch \<Rightarrow> go_error option \<times> Dispatch" where
  "send_message env msg s = ask env (de_SendMessage env) SendMessage msg s"

text \<open>An operation of the workflow service; \<open>op\<close> is its entry of the log.\<close>

definition on_workflow :: "dispatch_env \<Rightarrow> wf_op \<Rightarrow> (Service \<Rightarrow> 'r \<times> Service) \<Rightarrow> Dispatch \<Rightarrow> 'r \<times> Dispatch" where
  "on_workflow env op f s =
     (let s0 = others env s; (r, w) = f (ds_workflow s0) in (r, logged (Workflow op) (s0\<lparr>ds_workflow := w\<rparr>)))"

definition create_approval ::
  "dispatch_env \<Rightarrow> ApprovedCapabilityRequest \<Rightarrow> Dispatch \<Rightarrow> (ExecutionDetail \<times> ChannelMessage list) result \<times> Dispatch" where
  "create_approval env req s =
     on_workflow env (CapabilityAsked (now env s) req) (CreateCapabilityApproval (now env s) req) s"

definition enqueue :: "dispatch_env \<Rightarrow> string \<Rightarrow> ChannelMessage list \<Rightarrow> Dispatch \<Rightarrow> unit result \<times> Dispatch" where
  "enqueue env sid msgs s =
     on_workflow env (Notified (de_encode env) (now env s) sid msgs) (EnqueueNotifications (de_encode env) (now env s) sid msgs) s"

record Dispatcher =
  dd_connectors :: "Snapshot option"
  dd_skills :: "SkillSnapshot option"
  dd_agentRoles :: "RoleManager option"
  dd_knowledge :: bool

section \<open>Results of steps\<close>

record plan_acc =
  px_Context :: valmap
  px_Results :: "valmap list"
  px_Attachments :: "MessageAttachment list"
  px_Plan :: "ToolPlanStep list"

definition add_result :: "ToolPlanStep \<Rightarrow> valmap \<Rightarrow> plan_acc \<Rightarrow> plan_acc" where
  "add_result step entry acc = acc\<lparr>px_Plan := px_Plan acc @ [step], px_Results := px_Results acc @ [entry]\<rparr>"

definition put_context :: "valmap \<Rightarrow> plan_acc \<Rightarrow> plan_acc" where
  "put_context items acc = acc\<lparr>px_Context := foldl (\<lambda>m kv. map_put (fst kv) (snd kv) m) (px_Context acc) items\<rparr>"

definition add_artifacts :: "MessageAttachment list \<Rightarrow> plan_acc \<Rightarrow> plan_acc" where
  "add_artifacts items acc = acc\<lparr>px_Attachments := px_Attachments acc @ items\<rparr>"

definition failed_entry :: "ToolPlanStep \<Rightarrow> string \<Rightarrow> valmap" where
  "failed_entry step err =
     [(''tool'', VString (tp_Tool step)), (''status'', VString (tp_Status step)), (''error'', VString err),
      (''input'', VMap (evt_cloneMap (tp_Input step))), (''resolved_input'', VMap (evt_cloneMap (tp_ResolvedInput step)))]"

definition done_entry :: "ToolPlanStep \<Rightarrow> valmap \<Rightarrow> valmap" where
  "done_entry step extra =
     [(''tool'', VString (tp_Tool step)), (''status'', VString (tp_Status step)),
      (''input'', VMap (evt_cloneMap (tp_Input step))), (''resolved_input'', VMap (evt_cloneMap (tp_ResolvedInput step))),
      (''output'', VMap (evt_cloneMap (tp_Output step)))] @ extra"

text \<open>The outcome of a step: whether the plan stops, what was collected and the state.\<close>

type_synonym step_outcome = "bool \<times> plan_acc \<times> Dispatch"

definition failed_step :: "string \<Rightarrow> valmap \<Rightarrow> ToolPlanStep \<Rightarrow> plan_acc \<Rightarrow> Dispatch \<Rightarrow> step_outcome" where
  "failed_step err output step acc s =
     (let step' = step\<lparr>tp_Status := ''failed'', tp_Output := output\<rparr>
      in (shouldStopToolPlan (tp_OnFailure step'), add_result step' (failed_entry step' err) acc, s))"

definition started :: "dispatch_env \<Rightarrow> ToolPlanStep \<Rightarrow> Dispatch \<Rightarrow> ToolPlanStep" where
  "started env step s = step\<lparr>tp_StartedAt := now env s, tp_Status := ''running''\<rparr>"

text \<open>The connector of the runtime fills a missing connector.\<close>

definition adopt_runtime :: "RuntimeMetadata option \<Rightarrow> ToolPlanStep \<Rightarrow> ToolPlanStep" where
  "adopt_runtime runtime step =
     step\<lparr>tp_Runtime := CloneRuntimeMetadata runtime,
       tp_ConnectorID := (case runtime of
          Some r \<Rightarrow> if TrimSpace (tp_ConnectorID step) = [] then TrimSpace (rm_ConnectorID r) else tp_ConnectorID step
        | None \<Rightarrow> tp_ConnectorID step)\<rparr>"

section \<open>Metrics\<close>

definition metrics_connector :: "Dispatcher \<Rightarrow> ToolPlanStep \<Rightarrow> ToolPlanStep" where
  "metrics_connector d step =
     (let c1 = (if TrimSpace (tp_ConnectorID step) = [] then stringValue (tp_ResolvedInput step) ''connector_id'' [] else tp_ConnectorID step);
          c2 = (if TrimSpace c1 = [] then resolveConnectorIDByType (dd_connectors d) ''metrics'' else c1)
      in step\<lparr>tp_ConnectorID := c2,
           tp_ResolvedInput := (if TrimSpace c2 \<noteq> [] then map_put ''connector_id'' (VString c2) (tp_ResolvedInput step)
                                else tp_ResolvedInput step)\<rparr>)"

definition metrics_query :: "SessionDetail \<Rightarrow> ToolPlanStep \<Rightarrow> MetricsQuery" where
  "metrics_query sessionDetail step =
     (let input = tp_ResolvedInput step;
          service = stringValue input ''service'' (evt_alertLabel (sd_Alert sessionDetail) ''service'');
          host = stringValue input ''host'' (evt_stringFromAlert (sd_Alert sessionDetail) ''host'')
      in \<lparr>mx_Service = service, mx_Host = host, mx_Query = stringValue input ''query'' (buildDiagnosisMetricsQuery host service),
          mx_Mode = stringValue input ''mode'' (defaultMetricsMode (tp_Tool step)), mx_Start = 0, mx_End = 0,
          mx_Step = stringValue input ''step'' ''5m'', mx_Window = stringValue input ''window'' ''1h'',
          mx_ConnectorID = TrimSpace (tp_ConnectorID step), mx_ConnectorType = stringValue input ''connector_type'' [],
          mx_ConnectorVendor = stringValue input ''connector_vendor'' [], mx_Protocol = stringValue input ''protocol'' []\<rparr>)"

definition metrics_output :: "MetricsQuery \<Rightarrow> MetricsResult \<Rightarrow> valmap" where
  "metrics_output q res =
     [(''series_count'', VInt (int (length (mr_Series res)))), (''points'', VInt (int (metricsPointCount (mr_Series res)))),
      (''query'', VString (mx_Query q)), (''mode'', VString (mx_Mode q)), (''window'', VString (mx_Window q)),
      (''step'', VString (mx_Step q))]"

definition metrics_context :: "MetricsQuery \<Rightarrow> MetricsResult \<Rightarrow> valmap" where
  "metrics_context q res =
     [(''metrics_series'', VSlice (map VMap (mr_Series res))), (''metrics_query'', VString (mx_Query q)),
      (''metrics_query_mode'', VString (mx_Mode q)), (''metrics_query_window'', VString (mx_Window q)),
      (''metrics_query_step'', VString (mx_Step q)), (''metrics_runtime'', VMap (runtimeMap (mr_Runtime res)))]"

definition metrics_completed ::
  "dispatch_env \<Rightarrow> SessionDetail \<Rightarrow> MetricsQuery \<Rightarrow> MetricsResult \<Rightarrow> ToolPlanStep \<Rightarrow> plan_acc \<Rightarrow> plan_acc" where
  "metrics_completed env sessionDetail q res step0 acc0 =
     (let step1 = (adopt_runtime (mr_Runtime res) step0)\<lparr>tp_Status := ''completed'', tp_Output := metrics_output q res\<rparr>;
          acc1 = put_context (metrics_context q res) acc0;
          (analysis, attachment) = buildDiskMetricsAnalysis (de_numeric env) sessionDetail step1 q res;
          step2 = (if analysis \<noteq> [] then step1\<lparr>tp_Output := map_put ''analysis'' (VMap (evt_cloneMap analysis)) (tp_Output step1)\<rparr>
                   else step1);
          acc2 = (if analysis \<noteq> []
                  then put_context [(''disk_space_analysis'',
                         VMap (mergeInterfaceMaps (interfaceMap (map_of (px_Context acc1) ''disk_space_analysis'')) analysis))] acc1
                  else acc1);
          attachments = buildMetricsAttachments (de_numeric env) q res @
            (if analysis \<noteq> [] then (case attachment of Some a \<Rightarrow> [a] | None \<Rightarrow> []) else [])
      in add_result step2
           (done_entry step2 [(''runtime'', VMap (runtimeMap (tp_Runtime step2))), (''attachments'', VInt (int (length attachments)))])
           (add_artifacts attachments acc2))"

definition metrics_branch ::
  "dispatch_env \<Rightarrow> Dispatcher \<Rightarrow> SessionDetail \<Rightarrow> ToolPlanStep \<Rightarrow> plan_acc \<Rightarrow> Dispatch \<Rightarrow> step_outcome" where
  "metrics_branch env d sessionDetail step0 acc s =
     (let step1 = metrics_connector d (started env step0 s);
          q = metrics_query sessionDetail step1;
          (r, s1) = ask env (de_QueryMetrics env) QueryMetrics q s;
          step2 = step1\<lparr>tp_CompletedAt := now env s1\<rparr>
      in case r of
           Inl err \<Rightarrow> failed_step (error_text err) [(''error'', VString (error_text err))] step2 acc s1
         | Inr res \<Rightarrow> (False, metrics_completed env sessionDetail q res step2 acc, s1))"

section \<open>Knowledge\<close>

definition hit_value :: "KnowledgeHit \<Rightarrow> gval" where
  "hit_value h = VMap [(''DocumentID'', VString (kh_DocumentID h)), (''ChunkID'', VString (kh_ChunkID h)), (''Snippet'', VString (kh_Snippet h))]"

definition search_branch ::
  "dispatch_env \<Rightarrow> SessionDetail \<Rightarrow> ToolPlanStep \<Rightarrow> plan_acc \<Rightarrow> Dispatch \<Rightarrow> step_outcome" where
  "search_branch env sessionDetail step0 acc s =
     (let step1 = started env step0 s;
          query = stringValue (tp_ResolvedInput step1) ''query'' (request_text sessionDetail);
          (r, s1) = ask env (de_Search env) Search \<lparr>kq_TenantID = [], kq_Query = query\<rparr> s;
          step2 = step1\<lparr>tp_CompletedAt := now env s1\<rparr>
      in case r of
           Inl err \<Rightarrow> failed_step (error_text err) [(''error'', VString (error_text err))] step2 acc s1
         | Inr hits \<Rightarrow>
             (let step3 = step2\<lparr>tp_Status := ''completed'', tp_Output := [(''hit_count'', VInt (int (length hits)))]\<rparr>
              in (False,
                  add_result step3 (done_entry step3 [(''hit_count'', VInt (int (length hits)))])
                    (put_context [(''knowledge_hits'', VSlice (map hit_value hits))] acc), s1)))"

section \<open>Capabilities\<close>

text \<open>The messages of an approval; a message that cannot be sent goes to the outbox.\<close>

fun deliverToolPlanNotifications :: "dispatch_env \<Rightarrow> string \<Rightarrow> ChannelMessage list \<Rightarrow> Dispatch \<Rightarrow> go_error option \<times> Dispatch" where
  "deliverToolPlanNotifications env sessionID [] s = (None, s)"
| "deliverToolPlanNotifications env sessionID (message # messages) s =
     (case send_message env message s of
        (None, s1) \<Rightarrow> deliverToolPlanNotifications env sessionID messages s1
      | (Some err, s1) \<Rightarrow>
          if TrimSpace sessionID = [] then (Some err, s1)
          else
            (case enqueue env sessionID [message] s1 of
               (Inl enqueueErr, s2) \<Rightarrow> (Some enqueueErr, s2)
             | (Inr _, s2) \<Rightarrow> deliverToolPlanNotifications env sessionID messages s2))"

text \<open>What the three kinds of capability steps have in common; \<open>labels\<close> are the entries of the output that
  name the capability and the connector.\<close>

definition request_approval ::
  "dispatch_env \<Rightarrow> SessionDetail \<Rightarrow> string \<Rightarrow> string \<Rightarrow> ToolPlanStep \<Rightarrow> Dispatch \<Rightarrow> ToolPlanStep \<times> Dispatch" where
  "request_approval env sessionDetail connID capID step s =
     (let req = \<lparr>ar_ApprovalID = [], ar_SessionID = sd_SessionID sessionDetail, ar_StepID = tp_ID step, ar_ConnectorID = connID,
                 ar_CapabilityID = capID, ar_Params = evt_cloneMap (tp_ResolvedInput step), ar_RequestedBy = ''tool_plan_executor'',
                 ar_ApprovalGroup = [], ar_Runtime = CloneRuntimeMetadata (tp_Runtime step)\<rparr>;
          fail = (\<lambda>err st. st\<lparr>tp_Status := ''failed'', tp_Output := map_put ''error'' (VString (error_text err)) (tp_Output st)\<rparr>)
      in case create_approval env req s of
           (Inl err, s1) \<Rightarrow> (fail err step, s1)
         | (Inr (approval, messages), s1) \<Rightarrow>
             (let step1 = step\<lparr>tp_Output := map_put ''notification_count'' (VInt (int (length messages)))
                     (map_put ''approval_id'' (VString (ed_ExecutionID approval)) (tp_Output step))\<rparr>
              in case deliverToolPlanNotifications env (sd_SessionID sessionDetail) messages s1 of
                   (Some err, s2) \<Rightarrow> (fail err step1, s2)
                 | (None, s2) \<Rightarrow> (step1, s2)))"

definition withheld_step ::
  "dispatch_env \<Rightarrow> SessionDetail \<Rightarrow> string \<Rightarrow> string \<Rightarrow> valmap \<Rightarrow> CapabilityResult \<Rightarrow> ToolPlanStep \<Rightarrow> plan_acc \<Rightarrow> Dispatch \<Rightarrow>
     step_outcome" where
  "withheld_step env sessionDetail connID capID labels res step0 acc s =
     (let status = cp_Status res;
          output = [(''status'', VString status)] @ labels @ [(''error'', VString (cp_Error res))];
          step1 = (adopt_runtime (cp_Runtime res) step0)\<lparr>tp_Status := status,
                    tp_Output := (if cp_Metadata res \<noteq> [] then map_put ''metadata'' (VMap (evt_cloneMap (cp_Metadata res))) output else output)\<rparr>;
          (step2, s1) = (if status = ''pending_approval'' then request_approval env sessionDetail connID capID step1 s else (step1, s));
          stop = (status = ''pending_approval'' \<and> shouldStopToolPlan (tp_OnPendingApproval step2) \<or>
                  status = ''denied'' \<and> shouldStopToolPlan (tp_OnDenied step2) \<or> tp_Status step2 = ''failed'')
      in (stop, add_result step2 (done_entry step2 [(''runtime'', VMap (runtimeMap (tp_Runtime step2)))]) acc, s1))"

definition completed_step ::
  "valmap \<Rightarrow> valmap \<Rightarrow> CapabilityResult \<Rightarrow> ToolPlanStep \<Rightarrow> plan_acc \<Rightarrow> plan_acc" where
  "completed_step labels context res step0 acc =
     (let output = [(''status'', VString (cp_Status res))] @ labels;
          out1 = (if cp_Output res \<noteq> [] then map_put ''result'' (VMap (cp_Output res)) output else output);
          out2 = (if cp_Artifacts res \<noteq> [] then map_put ''artifact_count'' (VInt (int (length (cp_Artifacts res)))) out1 else out1);
          step = (adopt_runtime (cp_Runtime res) step0)\<lparr>tp_Status := ''completed'', tp_Output := out2\<rparr>
      in add_result step (done_entry step [(''runtime'', VMap (runtimeMap (tp_Runtime step)))])
           (put_context context (add_artifacts (cp_Artifacts res) acc)))"

definition invoke_step ::
  "dispatch_env \<Rightarrow> SessionDetail \<Rightarrow> string \<Rightarrow> string \<Rightarrow> valmap \<Rightarrow> (CapabilityResult \<Rightarrow> valmap) \<Rightarrow> ToolPlanStep \<Rightarrow> plan_acc \<Rightarrow>
     Dispatch \<Rightarrow> step_outcome" where
  "invoke_step env sessionDetail connID capID labels context step1 acc s =
     (let req = \<lparr>cq_ConnectorID = connID, cq_CapabilityID = capID, cq_Params = evt_cloneMap (tp_ResolvedInput step1),
                 cq_SessionID = sd_SessionID sessionDetail, cq_Caller = ''tool_plan_executor'', cq_SkipAuthorization = False\<rparr>;
          ((res, err), s1) = ask env (de_InvokeCapability env) InvokeCapability req s;
          step2 = step1\<lparr>tp_CompletedAt := now env s1\<rparr>
      in case err of
           Some e \<Rightarrow>
             failed_step (error_text e) [(''error'', VString (error_text e)), (''status'', VString (cp_Status res))]
               (if cp_Runtime res \<noteq> None then step2\<lparr>tp_Runtime := CloneRuntimeMetadata (cp_Runtime res)\<rparr> else step2) acc s1
         | None \<Rightarrow>
             if cp_Status res \<in> {''pending_approval'', ''denied''}
             then withheld_step env sessionDetail connID capID labels res step2 acc s1
             else (False, completed_step labels (context res) res step2 acc, s1))"

definition capability_branch ::
  "dispatch_env \<Rightarrow> SessionDetail \<Rightarrow> ToolPlanStep \<Rightarrow> plan_acc \<Rightarrow> Dispatch \<Rightarrow> step_outcome" where
  "capability_branch env sessionDetail step0 acc s =
     (let step1 = started env step0 s;
          capID = stringValue (tp_ResolvedInput step1) ''capability_id'' [];
          c1 = TrimSpace (tp_ConnectorID step1);
          connID = (if c1 = [] then stringValue (tp_ResolvedInput step1) ''connector_id'' [] else c1);
          step2 = backfillStepConnector connID step1
      in if capID = []
         then failed_step ''capability_id is required'' [(''error'', VString ''capability_id is required in step input'')]
                (step2\<lparr>tp_CompletedAt := now env s\<rparr>) acc s
         else invoke_step env sessionDetail connID capID
                [(''capability_id'', VString capID), (''connector_id'', VString connID)]
                (\<lambda>res. (''capability_result_'' @ capID, VMap (cp_Output res)) #
                   (if cp_Metadata res \<noteq> [] then [(''capability_metadata_'' @ capID, VMap (cp_Metadata res))] else []))
                step2 acc s)"

definition query_branch ::
  "dispatch_env \<Rightarrow> Dispatcher \<Rightarrow> SessionDetail \<Rightarrow> ToolPlanStep \<Rightarrow> plan_acc \<Rightarrow> Dispatch \<Rightarrow> step_outcome" where
  "query_branch env d sessionDetail step0 acc s =
     (let step1 = started env step0 s;
          logs = (tp_Tool step1 = ''logs.query'');
          c1 = TrimSpace (tp_ConnectorID step1);
          c2 = (if c1 = [] then stringValue (tp_ResolvedInput step1) ''connector_id'' [] else c1);
          connID = (if c2 = [] then resolveConnectorIDByType (dd_connectors d) (if logs then ''logs'' else ''observability'') else c2);
          capID = stringValue (tp_ResolvedInput step1) ''capability_id'' (if logs then ''logs.query'' else ''query'')
      in invoke_step env sessionDetail connID capID [(''connector_id'', VString connID)]
           (\<lambda>res. [(if logs then ''logs_query_result'' else ''observability_query_result'', VMap (cp_Output res))])
           (backfillStepConnector connID step1) acc s)"

definition delivery_branch ::
  "dispatch_env \<Rightarrow> Dispatcher \<Rightarrow> SessionDetail \<Rightarrow> ToolPlanStep \<Rightarrow> plan_acc \<Rightarrow> Dispatch \<Rightarrow> step_outcome" where
  "delivery_branch env d sessionDetail step0 acc s =
     (let step1 = started env step0 s;
          c1 = TrimSpace (tp_ConnectorID step1);
          c2 = (if c1 = [] then stringValue (tp_ResolvedInput step1) ''connector_id'' [] else c1);
          connID = (if c2 = [] then resolveConnectorIDByType (dd_connectors d) ''delivery'' else c2);
          capID = stringValue (tp_ResolvedInput step1) ''capability_id'' ''query''
      in invoke_step env sessionDetail connID capID [(''connector_id'', VString connID)]
           (\<lambda>res. [(''delivery_query_result'', VMap (cp_Output res))])
           (backfillStepConnector connID step1) acc s)"

section \<open>The loop\<close>

definition prepared_step :: "SessionDetail \<Rightarrow> plan_acc \<Rightarrow> ToolPlanStep \<Rightarrow> ToolPlanStep" where
  "prepared_step sessionDetail acc original =
     original\<lparr>tp_Input := evt_cloneMap (tp_Input original),
       tp_ResolvedInput := resolveToolPlanInput (evt_cloneMap (tp_Input original)) sessionDetail (px_Context acc) (px_Plan acc),
       tp_Status := (if TrimSpace (tp_Status original) = [] then ''planned'' else tp_Status original)\<rparr>"

definition plan_step ::
  "dispatch_env \<Rightarrow> Dispatcher \<Rightarrow> SessionDetail \<Rightarrow> ToolPlanStep \<Rightarrow> plan_acc \<Rightarrow> Dispatch \<Rightarrow> step_outcome" where
  "plan_step env d sessionDetail original acc s =
     (let step = prepared_step sessionDetail acc original; tool = TrimSpace (tp_Tool step) in
      if tool \<in> {''metrics.query_range'', ''metrics.query_instant''} then metrics_branch env d sessionDetail step acc s
      else if tool = ''knowledge.search'' then search_branch env sessionDetail step acc s
      else if tool = ''connector.invoke_capability'' then capability_branch env sessionDetail step acc s
      else if tool \<in> {''logs.query'', ''observability.query''} then query_branch env d sessionDetail step acc s
      else if tool = ''delivery.query'' then delivery_branch env d sessionDetail step acc s
      else (False,
            add_result step [(''tool'', VString (tp_Tool step)), (''status'', VString (tp_Status step)),
              (''input'', VMap (evt_cloneMap (tp_Input step)))] acc, s))"

fun plan_loop ::
  "dispatch_env \<Rightarrow> Dispatcher \<Rightarrow> SessionDetail \<Rightarrow> ToolPlanStep list \<Rightarrow> plan_acc \<Rightarrow> Dispatch \<Rightarrow> plan_acc \<times> Dispatch" where
  "plan_loop env d sessionDetail [] acc s = (acc, s)"
| "plan_loop env d sessionDetail (step # steps) acc s =
     (case plan_step env d sessionDetail step acc s of
        (stop, acc', s') \<Rightarrow> if stop then (acc', s') else plan_loop env d sessionDetail steps acc' s')"

definition no_results :: plan_acc where
  "no_results = \<lparr>px_Context = [], px_Results = [], px_Attachments = [], px_Plan = []\<rparr>"

text \<open>The error of the function is always nil.\<close>

definition executeToolPlan ::
  "dispatch_env \<Rightarrow> Dispatcher \<Rightarrow> SessionDetail \<Rightarrow> ToolPlanStep list \<Rightarrow> Dispatch \<Rightarrow> executedToolContext \<times> Dispatch" where
  "executeToolPlan env d sessionDetail steps s =
     (if steps = [] then (\<lparr>xt_Context = [], xt_Attachments = [], xt_ExecutedPlan = []\<rparr>, s)
      else
        (let (acc, s') = plan_loop env d sessionDetail steps no_results s
         in (\<lparr>xt_Context = map_put ''tool_results'' (VSlice (map VMap (px_Results acc))) (px_Context acc),
              xt_Attachments = px_Attachments acc, xt_ExecutedPlan = px_Plan acc\<rparr>, s')))"

end
