(* ===== verification/Dispatcher.thy ===== *)
theory Dispatcher
  imports Tool_Plan Workflow_Query
begin

text \<open>
  The dispatcher of the outbox, \<^verbatim>\<open>internal/events/dispatcher.go\<close>, and the worker for approval timeouts,
  \<^verbatim>\<open>internal/events/approval_timeout.go\<close>: one cycle claims events, dispatches each to the diagnosis, the
  knowledge base or the channel, and resolves it.  The loops that repeat a cycle until the process is
  stopped are the runs of \<open>Dispatcher_Laws\<close>.
\<close>

section \<open>Operations of the workflow\<close>

definition claim_events :: "dispatch_env \<Rightarrow> int \<Rightarrow> Dispatch \<Rightarrow> EventEnvelope list result \<times> Dispatch" where
  "claim_events env limit s = on_workflow env (Claimed (now env s) limit) (ClaimEvents (now env s) limit) s"

definition resolve_event :: "dispatch_env \<Rightarrow> string \<Rightarrow> DeliveryResult \<Rightarrow> Dispatch \<Rightarrow> unit result \<times> Dispatch" where
  "resolve_event env eid res s = on_workflow env (Resolved (now env s) eid res) (ResolveEvent (now env s) eid res) s"

definition apply_diagnosis :: "dispatch_env \<Rightarrow> string \<Rightarrow> DiagnosisOutput \<Rightarrow> Dispatch \<Rightarrow> WorkflowDispatchResult result \<times> Dispatch" where
  "apply_diagnosis env eid diagnosis s =
     (let order = de_ranging env (ds_log s) in
      on_workflow env (Diagnosed (now env s) order eid diagnosis) (ApplyDiagnosis (now env s) order eid diagnosis) s)"

definition execution_result :: "dispatch_env \<Rightarrow> ExecutionResult \<Rightarrow> Dispatch \<Rightarrow> SessionMutationResult result \<times> Dispatch" where
  "execution_result env res s = on_workflow env (ExecutionDone (now env s) res) (HandleExecutionResult (now env s) res) s"

definition capability_result :: "dispatch_env \<Rightarrow> CapabilityExecutionResult \<Rightarrow> Dispatch \<Rightarrow> SessionMutationResult result \<times> Dispatch" where
  "capability_result env res s = on_workflow env (CapabilityDone (now env s) res) (HandleCapabilityResult (now env s) res) s"

definition verification_result :: "dispatch_env \<Rightarrow> VerificationResult \<Rightarrow> Dispatch \<Rightarrow> SessionMutationResult result \<times> Dispatch" where
  "verification_result env res s = on_workflow env (Verified (now env s) res) (HandleVerificationResult (now env s) res) s"

text \<open>An event of the trigger worker, if there is one.\<close>

definition fire :: "dispatch_env \<Rightarrow> FireEvent \<Rightarrow> Dispatch \<Rightarrow> Dispatch" where
  "fire env evt s =
     (case ds_triggers s of
        None \<Rightarrow> s
      | Some w \<Rightarrow>
          logged (Fired evt)
            (s\<lparr>ds_triggers := Some (snd (worker_FireEvent (now env s) (de_triggers env (ds_log s)) (de_keys env (ds_log s))
                 (de_triggerSend env (ds_log s)) evt w))\<rparr>))"

text \<open>\<^verbatim>\<open>fmt.Errorf("text: %w", err)\<close>.\<close>

definition wrapped :: "string \<Rightarrow> go_error \<Rightarrow> go_error" where
  "wrapped text err = Errorf (text @ '': '' @ error_text err)"

section \<open>Running what a diagnosis starts\<close>

definition broken_execution :: "ApprovedExecutionRequest \<Rightarrow> go_error \<Rightarrow> ExecutionResult" where
  "broken_execution req err =
     zero_ExecutionResult\<lparr>er_ExecutionID := xr_ExecutionID req, er_SessionID := xr_SessionID req, er_Status := ''failed'',
       er_ConnectorID := xr_ConnectorID req, er_Protocol := xr_Protocol req, er_ExecutionMode := xr_ExecutionMode req,
       er_Runtime := Some (zero_RuntimeMetadata\<lparr>rm_Runtime := evt_fallbackString (xr_Protocol req) ''ssh'', rm_Selection := ''auto_selector'',
         rm_ConnectorID := xr_ConnectorID req, rm_ConnectorType := xr_ConnectorType req, rm_ConnectorVendor := xr_ConnectorVendor req,
         rm_Protocol := xr_Protocol req, rm_ExecutionMode := xr_ExecutionMode req, rm_FallbackEnabled := True,
         rm_FallbackTarget := ''ssh''\<rparr>),
       er_ExitCode := 1,
       er_OutputPreview := ''direct execution failed before command completion: '' @ error_text err\<rparr>"

definition verification_request :: "ApprovedExecutionRequest \<Rightarrow> VerificationRequest" where
  "verification_request req =
     \<lparr>vq_SessionID = xr_SessionID req, vq_ExecutionID = xr_ExecutionID req, vq_TargetHost = xr_TargetHost req,
      vq_Service = xr_Service req, vq_ConnectorID = xr_ConnectorID req, vq_Protocol = xr_Protocol req,
      vq_ExecutionMode = xr_ExecutionMode req\<rparr>"

definition broken_verification :: "gotime \<Rightarrow> ApprovedExecutionRequest \<Rightarrow> RuntimeMetadata option \<Rightarrow> go_error \<Rightarrow> VerificationResult" where
  "broken_verification checkedAt req runtime err =
     zero_VerificationResult\<lparr>vr_SessionID := xr_SessionID req, vr_ExecutionID := xr_ExecutionID req, vr_Status := ''failed'',
       vr_Summary := ''verification failed: '' @ error_text err, vr_Runtime := CloneRuntimeMetadata runtime,
       vr_CheckedAt := checkedAt, vr_Details := [(''error'', VString (error_text err))]\<rparr>"

definition result_message :: "SessionDetail \<Rightarrow> ExecutionDetail \<Rightarrow> ExecutionOutputChunk list \<Rightarrow> ChannelMessage" where
  "result_message session e output =
     zero_ChannelMessage\<lparr>cm_Channel := executionResultNotificationChannel session,
       cm_Target := directExecutionNotificationTarget session, cm_Subject := dz_result, cm_RefType := ''execution'',
       cm_RefID := ed_ExecutionID e, cm_Source := evt_fallbackString (evt_alertString (sd_Alert session) ''source'') ''system'',
       cm_Body := formatExecutionResultMessage session e output\<rparr>"

text \<open>The result of an execution is verified when the session waits for it.\<close>

definition verify_execution ::
  "dispatch_env \<Rightarrow> ApprovedExecutionRequest \<Rightarrow> ExecutionResult \<Rightarrow> SessionMutationResult \<Rightarrow> Dispatch \<Rightarrow> unit result \<times> Dispatch" where
  "verify_execution env req res mutation s =
     (if mr_Status mutation \<noteq> ''verifying'' then (Inr (), s)
      else
        (let (r, s1) = ask env (de_VerifyExecution env) VerifyExecution (verification_request req) s;
             verification = (case r of Inr v \<Rightarrow> v | Inl err \<Rightarrow> broken_verification (now env s1) req (er_Runtime res) err)
         in case verification_result env verification s1 of
              (Inl err, s2) \<Rightarrow> (Inl (wrapped ''handle direct verification result'' err), s2)
            | (Inr _, s2) \<Rightarrow> (Inr (), s2)))"

definition deliver_result ::
  "dispatch_env \<Rightarrow> SessionMutationResult \<Rightarrow> ExecutionDetail \<Rightarrow> ChannelMessage \<Rightarrow> Dispatch \<Rightarrow> unit result \<times> Dispatch" where
  "deliver_result env mutation detail message s =
     (case send_message env message s of
        (Some _, s1) \<Rightarrow>
          (case enqueue env (mr_SessionID mutation) [message] s1 of
             (Inl err, s2) \<Rightarrow> (Inl (wrapped ''enqueue direct execution result notification'' err), s2)
           | (Inr _, s2) \<Rightarrow> (Inr (), s2))
      | (None, s1) \<Rightarrow> (Inr (), fire env (completed_event detail) s1))"

definition announce_result ::
  "dispatch_env \<Rightarrow> ApprovedExecutionRequest \<Rightarrow> SessionMutationResult \<Rightarrow> Dispatch \<Rightarrow> unit result \<times> Dispatch" where
  "announce_result env req mutation s =
     (case GetSession (xr_SessionID req) (ds_workflow s) of
        Inl err \<Rightarrow> (Inl (wrapped ''load session after direct execution'' err), s)
      | Inr session \<Rightarrow>
          (case GetExecution (xr_ExecutionID req) (ds_workflow s) of
             Inl err \<Rightarrow> (Inl (wrapped ''load execution after direct execution'' err), s)
           | Inr detail \<Rightarrow>
               (let output = GetExecutionOutput (xr_ExecutionID req) (ds_workflow s);
                    chunks = (case output of Inr items \<Rightarrow> items | Inl _ \<Rightarrow> []);
                    message = result_message session detail chunks
                in case output of
                     Inl err \<Rightarrow>
                       if err \<noteq> ErrNotFound then (Inl (wrapped ''load execution output after direct execution'' err), s)
                       else deliver_result env mutation detail message s
                   | Inr _ \<Rightarrow> deliver_result env mutation detail message s)))"

definition runImmediateExecution ::
  "dispatch_env \<Rightarrow> ApprovedExecutionRequest \<Rightarrow> Dispatch \<Rightarrow> unit result \<times> Dispatch" where
  "runImmediateExecution env req s =
     (let (r, s1) = ask env (de_ExecuteApproved env) ExecuteApproved req s;
          res = (case r of Inr x \<Rightarrow> x | Inl err \<Rightarrow> broken_execution req err)
      in case execution_result env res s1 of
           (Inl err, s2) \<Rightarrow> (Inl (wrapped ''handle direct execution result'' err), s2)
         | (Inr mutation, s2) \<Rightarrow>
             (let s3 = (if mr_Status mutation = ''pending_approval''
                        then (case GetExecution (xr_ExecutionID req) (ds_workflow s2) of
                                Inr detail \<Rightarrow> fire env (approval_event detail) s2
                              | Inl _ \<Rightarrow> s2)
                        else s2)
              in case verify_execution env req res mutation s3 of
                   (Inl err, s4) \<Rightarrow> (Inl err, s4)
                 | (Inr _, s4) \<Rightarrow> announce_result env req mutation s4))"

definition runImmediateCapability ::
  "dispatch_env \<Rightarrow> ApprovedCapabilityRequest \<Rightarrow> Dispatch \<Rightarrow> unit result \<times> Dispatch" where
  "runImmediateCapability env req s =
     (let base = zero_CapabilityExecutionResult\<lparr>cr_ApprovalID := ar_ApprovalID req, cr_SessionID := ar_SessionID req,
            cr_StepID := ar_StepID req, cr_ConnectorID := ar_ConnectorID req, cr_CapabilityID := ar_CapabilityID req\<rparr>;
          (r, s1) = ask env (de_InvokeApproved env) InvokeApprovedCapability req s
      in case r of
           Inl invokeErr \<Rightarrow>
             (case capability_result env (base\<lparr>cr_Status := ''failed'', cr_Runtime := CloneRuntimeMetadata (ar_Runtime req),
                     cr_Error := error_text invokeErr\<rparr>) s1 of
                (Inl err, s2) \<Rightarrow> (Inl err, s2)
              | (Inr _, s2) \<Rightarrow> (Inl invokeErr, s2))
         | Inr res \<Rightarrow>
             (case capability_result env (base\<lparr>cr_Status := cp_Status res, cr_Output := cp_Output res, cr_Artifacts := cp_Artifacts res,
                     cr_Metadata := cp_Metadata res, cr_Runtime := cp_Runtime res, cr_Error := cp_Error res\<rparr>) s1 of
                (Inl err, s2) \<Rightarrow> (Inl err, s2)
              | (Inr _, s2) \<Rightarrow> (Inr (), s2)))"

text \<open>A loop over requests that stops at the first error.\<close>

fun each :: "('x \<Rightarrow> Dispatch \<Rightarrow> unit result \<times> Dispatch) \<Rightarrow> 'x list \<Rightarrow> Dispatch \<Rightarrow> unit result \<times> Dispatch" where
  "each f [] s = (Inr (), s)"
| "each f (x # xs) s = (case f x s of (Inl err, s') \<Rightarrow> (Inl err, s') | (Inr _, s') \<Rightarrow> each f xs s')"

section \<open>The diagnosis of a session\<close>

definition role_context :: "Dispatcher \<Rightarrow> SessionDetail \<Rightarrow> valmap \<Rightarrow> valmap \<times> RoleModelBinding option" where
  "role_context d session context =
     (case dd_agentRoles d of
        None \<Rightarrow> (context, None)
      | Some roles \<Rightarrow>
          if sd_AgentRoleID session = [] then (context, None)
          else
            (let role = ResolveForSession roles (sd_AgentRoleID session);
                 prompt = pf_SystemPrompt (role_Profile role);
                 c1 = map_put ''agent_role_id'' (VString (role_RoleID role)) context
             in (if prompt \<noteq> [] then map_put ''agent_role_system_prompt'' (VString prompt) c1 else c1,
                 roleModelBinding (role_ModelBinding role))))"

definition base_context :: "Dispatcher \<Rightarrow> SessionDetail \<Rightarrow> valmap \<times> RoleModelBinding option" where
  "base_context d session =
     (let alert = sd_Alert session;
          userRequest = evt_annotationString alert ''user_request'';
          summary = evt_annotationString alert ''summary'';
          c0 = [(''alert_name'', VString (labelString alert ''alertname'')), (''host'', VString (evt_alertString alert ''host'')),
                (''service'', VString (labelString alert ''service'')), (''severity'', VString (evt_alertString alert ''severity'')),
                (''user_request'', VString (evt_fallbackString userRequest summary)), (''summary'', VString summary),
                (''source'', VString (evt_alertString alert ''source''))];
          (c1, binding) = role_context d session c0;
          tools = plannerToolCapabilities (dd_connectors d);
          c2 = (if tools \<noteq> []
                then map_put ''tool_capabilities_summary'' (VString (toolCapabilitySummary tools))
                       (map_put ''tool_capabilities'' (VSlice (map capability_value tools)) c1)
                else c1);
          active = activeSkillSummaries (dd_skills d)
      in (if active \<noteq> [] then map_put ''active_skills'' (VSlice (map VMap active)) c2 else c2, binding))"

text \<open>The plan of a matching skill: the context with the match, and the plan if the skill has steps.\<close>

definition skill_plan :: "Dispatcher \<Rightarrow> SessionDetail \<Rightarrow> valmap \<Rightarrow> valmap \<times> DiagnosisPlan option" where
  "skill_plan d session context =
     (case dd_skills d of
        None \<Rightarrow> (context, None)
      | Some snapshot \<Rightarrow>
          (case skl_Match snapshot \<lparr>di_SessionID = sd_SessionID session, di_Context = context, di_RoleModelBinding = None\<rparr> of
             None \<Rightarrow> (context, None)
           | Some match \<Rightarrow>
               (let c1 = map_put ''skill_match'' (VMap [(''skill_id'', VString (sm_SkillID match)), (''matched_by'', VString (sm_MatchedBy match)),
                       (''trigger'', VString (sm_Trigger match)), (''summary'', VString (sm_Summary match))]) context;
                    forced = skl_Expand snapshot match \<lparr>di_SessionID = sd_SessionID session, di_Context = c1, di_RoleModelBinding = None\<rparr>
                      (toToolCapabilityDescriptors (plannerToolCapabilities (dd_connectors d)));
                    alert = sd_Alert session
                in if forced \<noteq> []
                   then (map_put ''planner_path'' (VString ''skill_runtime_primary'') c1,
                         Some \<lparr>pl_Summary = evt_fallbackString (sm_Summary match)
                                 (evt_fallbackString (evt_annotationString alert ''summary'') (evt_annotationString alert ''user_request'')),
                               pl_ToolPlan = forced, pl_DesenseMap = []\<rparr>)
                   else (map_put ''skill_match_failed'' (VBool True) c1, None))))"

definition step_value :: "ToolPlanStep \<Rightarrow> gval" where
  "step_value st =
     VMap [(''ID'', VString (tp_ID st)), (''Tool'', VString (tp_Tool st)), (''ConnectorID'', VString (tp_ConnectorID st)),
       (''Reason'', VString (tp_Reason st)), (''Priority'', VInt (tp_Priority st)), (''Status'', VString (tp_Status st)),
       (''Input'', VMap (tp_Input st)), (''ResolvedInput'', VMap (tp_ResolvedInput st)), (''Output'', VMap (tp_Output st)),
       (''OnFailure'', VString (tp_OnFailure st)), (''OnPendingApproval'', VString (tp_OnPendingApproval st)),
       (''OnDenied'', VString (tp_OnDenied st)), (''Runtime'', VMap (runtimeMap (tp_Runtime st))),
       (''StartedAt'', VTime (tp_StartedAt st)), (''CompletedAt'', VTime (tp_CompletedAt st))]"

definition final_context :: "metrics_env \<Rightarrow> SessionDetail \<Rightarrow> valmap \<Rightarrow> DiagnosisPlan \<Rightarrow> executedToolContext \<Rightarrow> valmap" where
  "final_context env session context plan executed =
     (let c1 = map_put ''planner_summary'' (VString (pl_Summary plan)) (evt_cloneMap context);
          c2 = map_put ''tool_plan'' (VSlice (map step_value (xt_ExecutedPlan executed))) c1;
          c3 = mergeInterfaceMaps c2 (xt_Context executed);
          analysis = interfaceMap (map_of c3 ''disk_space_analysis'')
      in if analysis \<noteq> [] \<and> shouldPreferMetricsOnlyForDisk env session analysis
         then map_put ''disk_space_metrics_sufficient'' (VBool True) c3 else c3)"

text \<open>The diagnosis that is applied: the executed plan, and the command unless it is suppressed.\<close>

definition prepared_diagnosis ::
  "SessionDetail \<Rightarrow> DiagnosisPlan \<Rightarrow> executedToolContext \<Rightarrow> DiagnosisOutput \<Rightarrow> DiagnosisOutput" where
  "prepared_diagnosis session plan executed diagnosis =
     (let alert = sd_Alert session;
          d1 = diagnosis\<lparr>do_ToolPlan := xt_ExecutedPlan executed\<rparr>;
          d2 = (case shouldSuppressExecutionHint session executed (do_ExecutionHint d1) of
                  Some _ \<Rightarrow> d1\<lparr>do_ExecutionHint := [], do_ToolPlan := removeExecutionPlanSteps (do_ToolPlan d1)\<rparr>
                | None \<Rightarrow> d1);
          d3 = (if TrimSpace (do_ExecutionHint d2) \<noteq> []
                then d2\<lparr>do_ToolPlan := appendOrReplaceExecutionPlanStep (do_ToolPlan d2) (do_ExecutionHint d2)
                       (evt_alertString alert ''host'') (labelString alert ''service'')\<rparr>
                else d2)
      in d3\<lparr>do_Attachments := xt_Attachments executed, do_DesenseMap := mergeStringMaps (pl_DesenseMap plan) (do_DesenseMap d3)\<rparr>)"

definition skill_detail :: "SessionDetail \<Rightarrow> ToolPlanStep list \<Rightarrow> ExecutionDetail" where
  "skill_detail session plan =
     zero_ExecutionDetail\<lparr>ed_ExecutionID := sd_SessionID session, ed_TargetHost := evt_alertString (sd_Alert session) ''host'',
       ed_Status := (if list_ex (\<lambda>step. tp_Status step = ''failed'') plan then ''failed'' else ''completed'')\<rparr>"

definition notify :: "dispatch_env \<Rightarrow> string \<Rightarrow> ChannelMessage \<Rightarrow> Dispatch \<Rightarrow> unit result \<times> Dispatch" where
  "notify env sid notification s =
     (case send_message env notification s of
        (None, s1) \<Rightarrow> (Inr (), s1)
      | (Some _, s1) \<Rightarrow>
          (case enqueue env sid [notification] s1 of
             (Inl err, s2) \<Rightarrow> (Inl (wrapped ''enqueue notification retry'' err), s2)
           | (Inr _, s2) \<Rightarrow> (Inr (), s2)))"

definition acknowledged :: DeliveryResult where
  "acknowledged = zero_DeliveryResult\<lparr>dr_Decision := DeliveryDecisionAck\<rparr>"

text \<open>The part after the plan of the tools is known.\<close>

definition plan_and_collect ::
  "dispatch_env \<Rightarrow> Dispatcher \<Rightarrow> SessionDetail \<Rightarrow> Dispatch \<Rightarrow>
     (valmap \<times> RoleModelBinding option \<times> DiagnosisPlan \<times> executedToolContext) result \<times> Dispatch" where
  "plan_and_collect env d session s =
     (let (c0, binding) = base_context d session;
          (context, forced) = skill_plan d session c0;
          input = \<lparr>di_SessionID = sd_SessionID session, di_Context = context, di_RoleModelBinding = binding\<rparr>;
          (planned, s1) = (case forced of
             Some plan \<Rightarrow> (Inr plan, s)
           | None \<Rightarrow> ask env (de_PlanDiagnosis env) PlanDiagnosis input s)
      in case planned of
           Inl err \<Rightarrow> (Inl (wrapped ''plan diagnosis'' err), s1)
         | Inr plan \<Rightarrow>
             (let (executed, s2) = executeToolPlan env d session (pl_ToolPlan plan) s1;
                  s3 = (if forced \<noteq> None then fire env (skill_event (skill_detail session (xt_ExecutedPlan executed))) s2 else s2)
              in (Inr (context, binding, plan, executed), s3)))"

definition carry_out :: "dispatch_env \<Rightarrow> SessionDetail \<Rightarrow> WorkflowDispatchResult \<Rightarrow> Dispatch \<Rightarrow> DeliveryResult result \<times> Dispatch" where
  "carry_out env session res s =
     (case each (notify env (sd_SessionID session)) (wd_Notifications res) s of
        (Inl err, s1) \<Rightarrow> (Inl err, s1)
      | (Inr _, s1) \<Rightarrow>
          (case each (runImmediateExecution env) (wd_Executions res) s1 of
             (Inl err, s2) \<Rightarrow> (Inl err, s2)
           | (Inr _, s2) \<Rightarrow>
               (case each (runImmediateCapability env) (wd_Capabilities res) s2 of
                  (Inl err, s3) \<Rightarrow> (Inl err, s3)
                | (Inr _, s3) \<Rightarrow> (Inr acknowledged, s3))))"

definition dispatchDiagnosis ::
  "dispatch_env \<Rightarrow> Dispatcher \<Rightarrow> EventEnvelope \<Rightarrow> Dispatch \<Rightarrow> DeliveryResult result \<times> Dispatch" where
  "dispatchDiagnosis env d item s =
     (case GetSession (ev_AggregateID item) (ds_workflow s) of
        Inl err \<Rightarrow> (Inl (wrapped ''load session'' err), s)
      | Inr session \<Rightarrow>
          (case plan_and_collect env d session s of
             (Inl err, s1) \<Rightarrow> (Inl err, s1)
           | (Inr (context, binding, plan, executed), s1) \<Rightarrow>
               (let input = \<lparr>di_SessionID = sd_SessionID session,
                       di_Context = final_context (de_numeric env) session context plan executed, di_RoleModelBinding = binding\<rparr>;
                    (r, s2) = ask env (de_FinalizeDiagnosis env) FinalizeDiagnosis input s1
                in case r of
                     Inl err \<Rightarrow> (Inl (wrapped ''finalize diagnosis'' err), s2)
                   | Inr diagnosis \<Rightarrow>
                       (case apply_diagnosis env (ev_EventID item) (prepared_diagnosis session plan executed diagnosis) s2 of
                          (Inl err, s3) \<Rightarrow> (Inl (wrapped ''apply diagnosis'' err), s3)
                        | (Inr res, s3) \<Rightarrow> carry_out env session res s3))))"

section \<open>The other topics\<close>

definition dispatchTelegramSend :: "dispatch_env \<Rightarrow> EventEnvelope \<Rightarrow> Dispatch \<Rightarrow> DeliveryResult result \<times> Dispatch" where
  "dispatchTelegramSend env item s =
     (case de_decode env (ev_Payload item) of
        Inl err \<Rightarrow>
          (Inr (zero_DeliveryResult\<lparr>dr_Decision := DeliveryDecisionDeadLetter, dr_Reason := ''decode_failed'',
             dr_LastError := ''decode telegram outbox payload: '' @ err\<rparr>), s)
      | Inr message \<Rightarrow>
          (case send_message env message s of
             (Some err, s1) \<Rightarrow> (Inl (wrapped ''send telegram retry message'' err), s1)
           | (None, s1) \<Rightarrow> (Inr acknowledged, s1)))"

definition dispatchSessionClosed :: "dispatch_env \<Rightarrow> Dispatcher \<Rightarrow> EventEnvelope \<Rightarrow> Dispatch \<Rightarrow> DeliveryResult result \<times> Dispatch" where
  "dispatchSessionClosed env d item s =
     (let (err, s1) = (if dd_knowledge d
            then ask env (\<lambda>log sid. de_Ingest env log sid (now env s)) (\<lambda>sid. IngestResolvedSession sid (now env s)) (ev_AggregateID item) s
            else (None, s))
      in case err of
           Some e \<Rightarrow> (Inl (wrapped ''ingest resolved session'' e), s1)
         | None \<Rightarrow> (Inr acknowledged, fire env (closed_event (ev_AggregateID item) []) s1))"

definition unsupported_topic :: "EventEnvelope \<Rightarrow> DeliveryResult" where
  "unsupported_topic item =
     zero_DeliveryResult\<lparr>dr_Decision := DeliveryDecisionDeadLetter, dr_Reason := ''unsupported_topic'',
       dr_LastError := ''unsupported outbox topic: '' @ ev_Topic item\<rparr>"

definition dispatch :: "dispatch_env \<Rightarrow> Dispatcher \<Rightarrow> EventEnvelope \<Rightarrow> Dispatch \<Rightarrow> DeliveryResult result \<times> Dispatch" where
  "dispatch env d item s =
     (if ev_Topic item = ''session.analyze_requested'' then dispatchDiagnosis env d item s
      else if ev_Topic item = ''session.closed'' then dispatchSessionClosed env d item s
      else if ev_Topic item = ''telegram.send'' then dispatchTelegramSend env item s
      else (Inr (unsupported_topic item), s))"

section \<open>A cycle\<close>

definition dispatch_item :: "dispatch_env \<Rightarrow> Dispatcher \<Rightarrow> EventEnvelope \<Rightarrow> Dispatch \<Rightarrow> Dispatch" where
  "dispatch_item env d item s =
     (let (r, s1) = dispatch env d item s;
          decision = (case r of
             Inr res \<Rightarrow> res
           | Inl err \<Rightarrow> Decide (DefaultDeliveryPolicy (ev_Topic item)) (ev_Attempt item) (Some (error_text err)))
      in snd (resolve_event env (ev_EventID item) decision s1))"

fun dispatch_loop :: "dispatch_env \<Rightarrow> Dispatcher \<Rightarrow> EventEnvelope list \<Rightarrow> Dispatch \<Rightarrow> Dispatch" where
  "dispatch_loop env d [] s = s"
| "dispatch_loop env d (item # items) s = dispatch_loop env d items (dispatch_item env d item s)"

definition RunOnce :: "dispatch_env \<Rightarrow> Dispatcher \<Rightarrow> Dispatch \<Rightarrow> go_error option \<times> Dispatch" where
  "RunOnce env d s =
     (case claim_events env 10 s of
        (Inl err, s1) \<Rightarrow> (Some err, s1)
      | (Inr items, s1) \<Rightarrow> (None, dispatch_loop env d items s1))"

text \<open>What is left processing by a process that died is recovered when the dispatcher starts.\<close>

definition start_recovery :: "dispatch_env \<Rightarrow> Dispatch \<Rightarrow> int result \<times> Dispatch" where
  "start_recovery env s = on_workflow env Recovered RecoverPendingEvents s"

section \<open>Approval timeouts\<close>

fun send_all :: "dispatch_env \<Rightarrow> ChannelMessage list \<Rightarrow> Dispatch \<Rightarrow> go_error option \<times> Dispatch" where
  "send_all env [] s = (None, s)"
| "send_all env (msg # msgs) s =
     (case send_message env msg s of (Some err, s1) \<Rightarrow> (Some err, s1) | (None, s1) \<Rightarrow> send_all env msgs s1)"

definition timeout_RunOnce :: "dispatch_env \<Rightarrow> string list \<Rightarrow> gotime \<Rightarrow> Dispatch \<Rightarrow> go_error option \<times> Dispatch" where
  "timeout_RunOnce env order t s =
     (case on_workflow env (Sweep (now env s) order t) (SweepApprovalTimeouts (now env s) order t) s of
        (Inl err, s1) \<Rightarrow> (Some err, s1)
      | (Inr notifications, s1) \<Rightarrow> send_all env notifications s1)"

end
