(* ===== verification/Approval_Actions.thy ===== *)
theory Approval_Actions
  imports Access_Auth Connector_Registry Dispatcher
begin

text \<open>
  The handlers through which people decide and run commands: \<^verbatim>\<open>internal/api/http/approval_actions.go\<close>, the callbacks of
  \<^verbatim>\<open>telegram_handler.go\<close> and the execution over a connector of \<^verbatim>\<open>connector_registry_handler.go\<close>.  They share the workflow
  with the dispatcher and work on the same state (record \<open>Dispatch\<close>); who is logged in, what the access manager
  permits, the registry of connectors and the decoded body are arguments (\<open>None\<close> for a body that cannot be decoded).  The
  package has its own copies of \<open>alertLabel\<close> and \<open>formatExecutionResultMessage\<close>, which compute the same.  Audit entries
  and the texts that acknowledge a callback are left out.
\<close>

section \<open>Requests and answers\<close>

datatype http_error = HttpError int string string

record executionActionRequest =
  xa_Command :: string
  xa_Reason :: string

record approvalActionOutcome =
  ao_ExecutionFailure :: "go_error option"
  ao_CapabilityFailure :: "go_error option"
  ao_ResultNotificationQueued :: bool
  ao_CapabilityNotificationQueued :: bool

definition no_outcome :: approvalActionOutcome where
  "no_outcome = \<lparr>ao_ExecutionFailure = None, ao_CapabilityFailure = None, ao_ResultNotificationQueued = False,
     ao_CapabilityNotificationQueued = False\<rparr>"

definition htp_fallbackString :: "string \<Rightarrow> string \<Rightarrow> string" where
  "htp_fallbackString primary fallback = (if TrimSpace primary \<noteq> [] then TrimSpace primary else fallback)"

section \<open>Carrying out a decision\<close>

definition handle_channel :: "dispatch_env \<Rightarrow> ChannelEvent \<Rightarrow> Dispatch \<Rightarrow> WorkflowDispatchResult result \<times> Dispatch" where
  "handle_channel env event s = on_workflow env (Channel (now env s) event) (HandleChannelEvent (now env s) event) s"

fun deliverNotifications :: "dispatch_env \<Rightarrow> string \<Rightarrow> ChannelMessage list \<Rightarrow> Dispatch \<Rightarrow> go_error option \<times> Dispatch" where
  "deliverNotifications env sessionID [] s = (None, s)"
| "deliverNotifications env sessionID (message # messages) s =
     (case send_message env message s of
        (None, s1) \<Rightarrow> deliverNotifications env sessionID messages s1
      | (Some err, s1) \<Rightarrow>
          if TrimSpace sessionID = [] then (Some err, s1)
          else
            (case enqueue env sessionID [message] s1 of
               (Inl enqueueErr, s2) \<Rightarrow> (Some enqueueErr, s2)
             | (Inr _, s2) \<Rightarrow> deliverNotifications env sessionID messages s2))"

definition failed_execution :: "ApprovedExecutionRequest \<Rightarrow> ExecutionResult" where
  "failed_execution req =
     zero_ExecutionResult\<lparr>er_ExecutionID := xr_ExecutionID req, er_SessionID := xr_SessionID req, er_Status := ''failed'',
       er_ConnectorID := xr_ConnectorID req, er_Protocol := xr_Protocol req, er_ExecutionMode := xr_ExecutionMode req,
       er_Runtime := Some (zero_RuntimeMetadata\<lparr>rm_Runtime := htp_fallbackString (xr_Protocol req) ''ssh'', rm_Selection := ''auto_selector'',
         rm_ConnectorID := xr_ConnectorID req, rm_ConnectorVendor := xr_ConnectorVendor req,
         rm_Protocol := xr_Protocol req, rm_ExecutionMode := xr_ExecutionMode req, rm_FallbackEnabled := True,
         rm_FallbackTarget := ''ssh''\<rparr>),
       er_ExitCode := 1\<rparr>"

definition approval_verification ::
  "dispatch_env \<Rightarrow> ApprovedExecutionRequest \<Rightarrow> SessionMutationResult \<Rightarrow> Dispatch \<Rightarrow> SessionMutationResult result \<times> Dispatch" where
  "approval_verification env req mutation s =
     (if mr_Status mutation \<noteq> ''verifying'' then (Inr mutation, s)
      else
        (case GetSession (mr_SessionID mutation) (ds_workflow s) of
           Inl err \<Rightarrow> (Inl err, s)
         | Inr session \<Rightarrow>
             (case ask env (de_VerifyExecution env) VerifyExecution
                     ((verification_request req)\<lparr>vq_Service := alertLabel (sd_Alert session) ''service''\<rparr>) s of
                (Inl err, s1) \<Rightarrow> (Inl err, s1)
              | (Inr verification, s1) \<Rightarrow> verification_result env verification s1)))"

definition deliverExecutionResultNotification ::
  "dispatch_env \<Rightarrow> ChannelEvent \<Rightarrow> string \<Rightarrow> string \<Rightarrow> Dispatch \<Rightarrow> bool result \<times> Dispatch" where
  "deliverExecutionResultNotification env event sessionID executionID s =
     (case GetSession sessionID (ds_workflow s) of
        Inl err \<Rightarrow> (Inl err, s)
      | Inr session \<Rightarrow>
          (case GetExecution executionID (ds_workflow s) of
             Inl err \<Rightarrow> (Inl err, s)
           | Inr detail \<Rightarrow>
               (let output = GetExecutionOutput executionID (ds_workflow s);
                    chunks = (case output of Inr items \<Rightarrow> items | Inl _ \<Rightarrow> []);
                    message = zero_ChannelMessage\<lparr>cm_Channel := ce_Channel event, cm_Target := ce_ChatID event,
                      cm_Body := formatExecutionResultMessage session detail chunks, cm_RefType := ''execution'',
                      cm_RefID := executionID, cm_Source := ''workflow_execution_result''\<rparr>
                in if (case output of Inl err \<Rightarrow> err \<noteq> ErrNotFound | Inr _ \<Rightarrow> False)
                   then (Inl (projl output), s)
                   else
                     (case send_message env message s of
                        (None, s1) \<Rightarrow> (Inr False, s1)
                      | (Some _, s1) \<Rightarrow>
                          (case enqueue env sessionID [message] s1 of
                             (Inl err, s2) \<Rightarrow> (Inl err, s2)
                           | (Inr _, s2) \<Rightarrow> (Inr True, s2))))))"

text \<open>One execution; the outcome says what went wrong without ending the handler.\<close>

definition approved_execution ::
  "dispatch_env \<Rightarrow> ChannelEvent \<Rightarrow> ApprovedExecutionRequest \<Rightarrow> approvalActionOutcome \<Rightarrow> Dispatch \<Rightarrow>
     (approvalActionOutcome \<times> go_error option) \<times> Dispatch" where
  "approved_execution env event req outcome0 s =
     (let (r, s1) = ask env (de_ExecuteApproved env) ExecuteApproved req s;
          res = (case r of Inr x \<Rightarrow> x | Inl _ \<Rightarrow> failed_execution req);
          outcome = (case r of Inr _ \<Rightarrow> outcome0 | Inl err \<Rightarrow> outcome0\<lparr>ao_ExecutionFailure := Some err\<rparr>)
      in case execution_result env res s1 of
           (Inl err, s2) \<Rightarrow> ((outcome, Some err), s2)
         | (Inr mutation, s2) \<Rightarrow>
             (case approval_verification env req mutation s2 of
                (Inl err, s3) \<Rightarrow> ((outcome, Some err), s3)
              | (Inr mutation', s3) \<Rightarrow>
                  (case deliverExecutionResultNotification env event (mr_SessionID mutation') (xr_ExecutionID req) s3 of
                     (Inl err, s4) \<Rightarrow> ((outcome, Some err), s4)
                   | (Inr queued, s4) \<Rightarrow>
                       ((if queued then outcome\<lparr>ao_ResultNotificationQueued := True\<rparr> else outcome, None), s4))))"

definition capability_message :: "ChannelEvent \<Rightarrow> ApprovedCapabilityRequest \<Rightarrow> CapabilityExecutionResult \<Rightarrow> ChannelMessage" where
  "capability_message event req res =
     zero_ChannelMessage\<lparr>cm_Channel := ce_Channel event, cm_Target := ce_ChatID event,
       cm_Body := ''['' @ ar_ApprovalID req @ ''] capability='' @ ar_CapabilityID req @ '' status='' @ cr_Status res @
         '' connector='' @ ar_ConnectorID req,
       cm_RefType := ''execution'', cm_RefID := ar_ApprovalID req, cm_Source := ''workflow_capability_result'',
       cm_Attachments := cr_Artifacts res\<rparr>"

definition approved_capability ::
  "dispatch_env \<Rightarrow> ChannelEvent \<Rightarrow> ApprovedCapabilityRequest \<Rightarrow> approvalActionOutcome \<Rightarrow> Dispatch \<Rightarrow>
     (approvalActionOutcome \<times> go_error option) \<times> Dispatch" where
  "approved_capability env event req outcome0 s =
     (let (r, s1) = ask env (de_InvokeApproved env) InvokeApprovedCapability req s;
          base = zero_CapabilityExecutionResult\<lparr>cr_ApprovalID := ar_ApprovalID req, cr_SessionID := ar_SessionID req,
            cr_StepID := ar_StepID req, cr_ConnectorID := ar_ConnectorID req, cr_CapabilityID := ar_CapabilityID req\<rparr>;
          res = (case r of
             Inl err \<Rightarrow> base\<lparr>cr_Status := ''failed'', cr_Runtime := CloneRuntimeMetadata (ar_Runtime req), cr_Error := error_text err\<rparr>
           | Inr c \<Rightarrow> base\<lparr>cr_Status := cp_Status c, cr_Output := cp_Output c, cr_Artifacts := cp_Artifacts c,
               cr_Metadata := cp_Metadata c, cr_Runtime := cp_Runtime c, cr_Error := cp_Error c\<rparr>);
          outcome = (case r of Inr _ \<Rightarrow> outcome0 | Inl err \<Rightarrow> outcome0\<lparr>ao_CapabilityFailure := Some err\<rparr>)
      in case capability_result env res s1 of
           (Inl err, s2) \<Rightarrow> ((outcome, Some err), s2)
         | (Inr mutation, s2) \<Rightarrow>
             (case send_message env (capability_message event req res) s2 of
                (None, s3) \<Rightarrow> ((outcome, None), s3)
              | (Some _, s3) \<Rightarrow>
                  (case enqueue env (mr_SessionID mutation) [capability_message event req res] s3 of
                     (Inl err, s4) \<Rightarrow> ((outcome, Some err), s4)
                   | (Inr _, s4) \<Rightarrow> ((outcome\<lparr>ao_CapabilityNotificationQueued := True\<rparr>, None), s4))))"

text \<open>A loop over requests that collects the outcome and stops at the first error.\<close>

fun each_outcome ::
  "('x \<Rightarrow> approvalActionOutcome \<Rightarrow> Dispatch \<Rightarrow> (approvalActionOutcome \<times> go_error option) \<times> Dispatch) \<Rightarrow> 'x list \<Rightarrow>
     approvalActionOutcome \<Rightarrow> Dispatch \<Rightarrow> (approvalActionOutcome \<times> go_error option) \<times> Dispatch" where
  "each_outcome f [] outcome s = ((outcome, None), s)"
| "each_outcome f (x # xs) outcome s =
     (case f x outcome s of
        ((outcome', Some err), s') \<Rightarrow> ((outcome', Some err), s')
      | ((outcome', None), s') \<Rightarrow> each_outcome f xs outcome' s')"

definition processApprovalDispatch ::
  "dispatch_env \<Rightarrow> ChannelEvent \<Rightarrow> WorkflowDispatchResult \<Rightarrow> Dispatch \<Rightarrow> (approvalActionOutcome \<times> go_error option) \<times> Dispatch" where
  "processApprovalDispatch env event res s =
     (case deliverNotifications env (wd_SessionID res) (wd_Notifications res) s of
        (Some err, s1) \<Rightarrow> ((no_outcome, Some err), s1)
      | (None, s1) \<Rightarrow>
          (case each_outcome (approved_execution env event) (wd_Executions res) no_outcome s1 of
             ((outcome, Some err), s2) \<Rightarrow> ((outcome, Some err), s2)
           | ((outcome, None), s2) \<Rightarrow> each_outcome (approved_capability env event) (wd_Capabilities res) outcome s2))"

section \<open>Decisions over HTTP\<close>

text \<open>\<open>authenticated\<close> is the principal of the bearer token; \<open>evaluate\<close> is \<^verbatim>\<open>deps.Access.Evaluate\<close>, if there is an access
  manager.\<close>

definition requireAuthenticatedPrincipal ::
  "Principal option \<Rightarrow> (Principal \<Rightarrow> string \<Rightarrow> bool) option \<Rightarrow> string \<Rightarrow> http_error + Principal" where
  "requireAuthenticatedPrincipal authenticated evaluate permission =
     (case authenticated of
        None \<Rightarrow> Inl (HttpError 401 ''unauthorized'' ''authentication required'')
      | Some p \<Rightarrow>
          if permission \<noteq> [] \<and> (case evaluate of None \<Rightarrow> False | Some ev \<Rightarrow> \<not> ev p permission)
          then Inl (HttpError 403 ''forbidden'' ''insufficient permissions'') else Inr p)"

definition approvalActorID :: "Principal \<Rightarrow> string" where
  "approvalActorID p =
     (let user = (case pr_User p of
            None \<Rightarrow> []
          | Some u \<Rightarrow> if TrimSpace (us_UserID u) \<noteq> [] then TrimSpace (us_UserID u) else TrimSpace (us_Username u))
      in if user \<noteq> [] then user else if TrimSpace (pr_Token p) \<noteq> [] then TrimSpace (pr_Token p) else ''web_operator'')"

definition approvalHTTPIdempotencyKey :: "string \<Rightarrow> string \<Rightarrow> string \<Rightarrow> string \<Rightarrow> string" where
  "approvalHTTPIdempotencyKey header executionID action actorID =
     (let key = TrimSpace header in
      if key = [] then [] else ''web_action:'' @ actorID @ '':'' @ executionID @ '':'' @ action @ '':'' @ key)"

definition writeApprovalActionError :: "go_error \<Rightarrow> http_error" where
  "writeApprovalActionError err =
     (if err = ErrNotFound then HttpError 404 ''not_found'' ''execution not found''
      else if err = ErrInvalidState then HttpError 409 ''invalid_state'' ''execution is no longer pending approval''
      else HttpError 500 ''internal_error'' (error_text err))"

definition slash :: char where
  "slash = CHR ''/''"

definition nestedResourcePath :: "string \<Rightarrow> string \<Rightarrow> string \<times> string" where
  "nestedResourcePath path prfx =
     (let trim = (\<lambda>x. dropWhile (\<lambda>c. c = slash) (rev (dropWhile (\<lambda>c. c = slash) (rev x))));
          rest = trim (TrimPrefix path prfx)
      in if rest = [] then ([], [])
         else (case split_char slash rest of [] \<Rightarrow> ([], []) | [a] \<Rightarrow> (a, []) | a # b # _ \<Rightarrow> (a, b)))"

record action_request =
  hq_Method :: string
  hq_Path :: string
  hq_IdempotencyKey :: string
  hq_Body :: "executionActionRequest option"

text \<open>The body counts for two of the actions, and must be readable for one of them.\<close>

definition action_body :: "string \<Rightarrow> executionActionRequest option \<Rightarrow> http_error + executionActionRequest" where
  "action_body action body =
     (let empty = \<lparr>xa_Command = [], xa_Reason = []\<rparr> in
      if action = ''modify_approve''
      then (case body of
              None \<Rightarrow> Inl (HttpError 400 ''validation_failed'' ''invalid request body'')
            | Some b \<Rightarrow> if TrimSpace (xa_Command b) = [] then Inl (HttpError 400 ''validation_failed'' ''command is required'') else Inr b)
      else if action = ''reject'' then Inr (case body of None \<Rightarrow> empty | Some b \<Rightarrow> b)
      else Inr empty)"

definition action_event :: "string \<Rightarrow> string \<Rightarrow> string \<Rightarrow> string \<Rightarrow> executionActionRequest \<Rightarrow> ChannelEvent" where
  "action_event actorID action executionID header body =
     zero_ChannelEvent\<lparr>ce_EventType := ''approval'', ce_Channel := ''in_app_inbox'', ce_UserID := actorID, ce_ChatID := actorID,
       ce_Action := action, ce_ExecutionID := executionID, ce_Command := TrimSpace (xa_Command body),
       ce_Reason := TrimSpace (xa_Reason body),
       ce_IdempotencyKey := approvalHTTPIdempotencyKey header executionID action actorID\<rparr>"

definition executionActionHandler ::
  "dispatch_env \<Rightarrow> Principal option \<Rightarrow> (Principal \<Rightarrow> string \<Rightarrow> bool) option \<Rightarrow> string \<Rightarrow> action_request \<Rightarrow> Dispatch \<Rightarrow>
     (http_error + ExecutionDetail) \<times> Dispatch" where
  "executionActionHandler env authenticated evaluate action rq s =
     (if hq_Method rq \<noteq> ''POST'' then (Inl (HttpError 405 ''method_not_allowed'' ''method not allowed''), s)
      else
        (case requireAuthenticatedPrincipal authenticated evaluate ''executions.write'' of
           Inl refusal \<Rightarrow> (Inl refusal, s)
         | Inr p \<Rightarrow>
             (let executionID = fst (nestedResourcePath (hq_Path rq) ''/api/v1/executions/'') in
              if TrimSpace executionID = [] then (Inl (HttpError 404 ''not_found'' ''execution not found''), s)
              else
                (case action_body action (hq_Body rq) of
                   Inl refusal \<Rightarrow> (Inl refusal, s)
                 | Inr body \<Rightarrow>
                     (let event = action_event (approvalActorID p) action executionID (hq_IdempotencyKey rq) body in
                      case handle_channel env event s of
                        (Inl err, s1) \<Rightarrow> (Inl (writeApprovalActionError err), s1)
                      | (Inr res, s1) \<Rightarrow>
                          (case processApprovalDispatch env event res s1 of
                             ((_, Some err), s2) \<Rightarrow> (Inl (writeApprovalActionError err), s2)
                           | ((_, None), s2) \<Rightarrow>
                               (case GetExecution executionID (ds_workflow s2) of
                                  Inl err \<Rightarrow>
                                    (Inl (if err = ErrNotFound then HttpError 404 ''not_found'' ''execution not found''
                                          else HttpError 500 ''internal_error'' (error_text err)), s2)
                                | Inr detail \<Rightarrow> (Inr detail, s2))))))))"

section \<open>Decisions in a chat\<close>

text \<open>A callback whose data has been parsed to a channel event.\<close>

definition telegram_callback :: "dispatch_env \<Rightarrow> ChannelEvent \<Rightarrow> Dispatch \<Rightarrow> go_error option \<times> Dispatch" where
  "telegram_callback env event s =
     (case handle_channel env event s of
        (Inl err, s1) \<Rightarrow> (Some err, s1)
      | (Inr res, s1) \<Rightarrow>
          (case processApprovalDispatch env event res s1 of
             ((_, Some err), s2) \<Rightarrow> (Some err, s2)
           | ((outcome, None), s2) \<Rightarrow>
               (case ao_ExecutionFailure outcome of
                  Some err \<Rightarrow> (Some err, s2)
                | None \<Rightarrow> (ao_CapabilityFailure outcome, s2))))"

section \<open>Commands of an operator\<close>

record connectorExecutionRequest =
  ox_SessionID :: string
  ox_TargetHost :: string
  ox_Command :: string
  ox_Service :: string
  ox_OperatorReason :: string
  ox_ExecutionMode :: string

record operator_request =
  oq_Method :: string
  oq_Authenticated :: "Principal option"
  oq_ConnectorID :: string
  oq_ExecutionID :: string
  oq_Body :: "connectorExecutionRequest option"

text \<open>\<open>enabled\<close> is \<^verbatim>\<open>deps.Config.OpsAPI.Enabled\<close>; the path of the route begins with \<^verbatim>\<open>/api/v1/connectors\<close>.\<close>

definition requireOpsAccess :: "bool \<Rightarrow> (Principal \<Rightarrow> string \<Rightarrow> bool) option \<Rightarrow> operator_request \<Rightarrow> http_error + Principal" where
  "requireOpsAccess enabled evaluate rq =
     (if \<not> enabled then Inl (HttpError 404 ''ops_api_disabled'' ''ops api is disabled'')
      else
        (case oq_Authenticated rq of
           None \<Rightarrow> Inl (HttpError 401 ''unauthorized'' ''invalid bearer token'')
         | Some p \<Rightarrow>
             if (case evaluate of None \<Rightarrow> False | Some ev \<Rightarrow> \<not> ev p (if oq_Method rq = ''GET'' then ''connectors.read'' else ''connectors.write''))
             then Inl (HttpError 403 ''forbidden'' ''insufficient permissions'') else Inr p))"

fun writeConnectorError :: "connector_error \<Rightarrow> http_error" where
  "writeConnectorError ErrConnectorNotFound = HttpError 404 ''not_found'' ''connector not found''"
| "writeConnectorError ErrConnectorDisabled = HttpError 409 ''invalid_state'' ''connector is disabled''"
| "writeConnectorError (ErrConnectorIncompatible x) =
     HttpError 409 ''invalid_state'' (''connector is incompatible with current TARS runtime: '' @ x)"
| "writeConnectorError (ErrConnectorRuntimeUnsupported x) =
     HttpError 400 ''validation_failed'' (''connector runtime is unsupported: '' @ x)"

definition getConnectorEntry :: "string \<Rightarrow> ConnManager option \<Rightarrow> http_error + Manifest" where
  "getConnectorEntry connectorID manager =
     (case manager of
        None \<Rightarrow> Inl (HttpError 409 ''not_configured'' ''connectors config path is not configured'')
      | Some m \<Rightarrow> (case conn_Get connectorID m of None \<Rightarrow> Inl (writeConnectorError ErrConnectorNotFound) | Some entry \<Rightarrow> Inr entry))"

text \<open>What the body asks for, as a request for the executor.\<close>

definition operator_command :: "Manifest \<Rightarrow> string \<Rightarrow> connectorExecutionRequest \<Rightarrow> http_error + ApprovedExecutionRequest" where
  "operator_command entry executionID body =
     (let host = TrimSpace (ox_TargetHost body); command = TrimSpace (ox_Command body) in
      if TrimSpace (ox_OperatorReason body) = [] then Inl (HttpError 400 ''validation_failed'' ''operator_reason is required'')
      else if host = [] \<or> command = [] then Inl (HttpError 400 ''validation_failed'' ''target_host and command are required'')
      else Inr \<lparr>xr_ExecutionID = executionID, xr_SessionID = TrimSpace (ox_SessionID body), xr_TargetHost = host, xr_Command = command,
             xr_Service = TrimSpace (ox_Service body), xr_ConnectorID = md_ID (mf_Metadata entry),
             xr_ConnectorType = sp_Type (mf_Spec entry), xr_ConnectorVendor = md_Vendor (mf_Metadata entry),
             xr_Protocol = sp_Protocol (mf_Spec entry),
             xr_ExecutionMode = htp_fallbackString (ox_ExecutionMode body) (sp_Protocol (mf_Spec entry))\<rparr>)"

definition connectorExecutionHandler ::
  "bool \<Rightarrow> (Principal \<Rightarrow> string \<Rightarrow> bool) option \<Rightarrow> ConnManager option \<Rightarrow> bool \<Rightarrow> operator_request \<Rightarrow> http_error + ApprovedExecutionRequest" where
  "connectorExecutionHandler enabled evaluate manager action rq =
     (if oq_Method rq \<noteq> ''POST'' then Inl (HttpError 405 ''method_not_allowed'' ''method not allowed'')
      else
        (case requireOpsAccess enabled evaluate rq of
           Inl refusal \<Rightarrow> Inl refusal
         | Inr p \<Rightarrow>
             (case getConnectorEntry (oq_ConnectorID rq) manager of
                Inl refusal \<Rightarrow> Inl refusal
              | Inr entry \<Rightarrow>
                  (let native = EqualFold (TrimSpace (sp_Protocol (mf_Spec entry))) ''ssh_native'' in
                   case ValidateRuntimeManifest entry ''execution'' (sp_Protocol (mf_Spec entry)) [''jumpserver_api'', ''ssh_native''] of
                     Some err \<Rightarrow> Inl (writeConnectorError err)
                   | None \<Rightarrow>
                       if TrimSpace (sp_Type (mf_Spec entry)) \<noteq> ''execution''
                       then Inl (HttpError 400 ''validation_failed'' ''connector does not support execution runtime'')
                       else if native \<and> EqualFold (TrimSpace (pr_Source p)) ''ops-token''
                       then Inl (HttpError 403 ''break_glass_denied'' ''break-glass access cannot read ssh credential material'')
                       else if native \<and> (case evaluate of None \<Rightarrow> False | Some ev \<Rightarrow> \<not> ev p ''ssh_credentials.use'')
                       then Inl (HttpError 403 ''forbidden'' ''insufficient permissions'')
                       else if \<not> action then Inl (HttpError 409 ''not_configured'' ''action service is not configured'')
                       else
                         (case oq_Body rq of
                            None \<Rightarrow> Inl (HttpError 400 ''validation_failed'' ''invalid request body'')
                          | Some body \<Rightarrow> operator_command entry (oq_ExecutionID rq) body)))))"

text \<open>A request that is accepted is handed to the executor.\<close>

definition operate :: "http_error + ApprovedExecutionRequest \<Rightarrow> Dispatch \<Rightarrow> Dispatch" where
  "operate r s = (case r of Inl _ \<Rightarrow> s | Inr x \<Rightarrow> logged (OperatorExecute x) s)"

end
