(* ===== verification/Dispatcher_Effects.thy ===== *)
theory Dispatcher_Effects
  imports Approval_Actions Workflow_Safety
begin

text \<open>
  What the dispatcher and the handlers ask for.  \<open>effect s cs s'\<close>: a computation that took \<open>s\<close> to \<open>s'\<close> wrote the calls
  \<open>cs\<close> to the log, and the workflow went through the operations among them.  \<open>backed\<close> says that requests
  for the executor come from operations that dispatched them.  The locales say which calls a part of the
  dispatcher or a handler may make; they are interpreted with the calls that the theorems exclude.
\<close>

section \<open>Effects\<close>

definition ops :: "call list \<Rightarrow> wf_op list" where
  "ops cs = concat (map (\<lambda>c. case c of Workflow op \<Rightarrow> [op] | _ \<Rightarrow> []) cs)"

definition executed :: "call list \<Rightarrow> ApprovedExecutionRequest list" where
  "executed cs = concat (map (\<lambda>c. case c of ExecuteApproved x \<Rightarrow> [x] | _ \<Rightarrow> []) cs)"

lemma ops_simps [simp]:
  "ops [] = []" "ops (c # cs) = (case c of Workflow op \<Rightarrow> [op] | _ \<Rightarrow> []) @ ops cs" "ops (cs @ ds) = ops cs @ ops ds"
  by (simp_all add: ops_def)

lemma executed_simps [simp]:
  "executed [] = []" "executed (c # cs) = (case c of ExecuteApproved x \<Rightarrow> [x] | _ \<Rightarrow> []) @ executed cs"
  "executed (cs @ ds) = executed cs @ executed ds"
  by (simp_all add: executed_def)

lemma wf_run_append:
  "wf_run (as @ bs) s = (fst (wf_run as s) @ fst (wf_run bs (snd (wf_run as s))), snd (wf_run bs (snd (wf_run as s))))"
  by (induction as arbitrary: s) (simp_all add: Let_def case_prod_unfold)

lemma run_room_append: "run_room (as @ bs) s \<longleftrightarrow> run_room as s \<and> run_room bs (snd (wf_run as s))"
  by (induction as arbitrary: s) (auto simp: Let_def case_prod_unfold)

lemma wf_run_wf: "wf_service s \<Longrightarrow> run_room as s \<Longrightarrow> wf_service (snd (wf_run as s))"
  by (induction as arbitrary: s) (auto simp: Let_def case_prod_unfold intro: wf_exec_wf)

lemma wf_run_reachable: "reachable s \<Longrightarrow> run_room as s \<Longrightarrow> reachable (snd (wf_run as s))"
  by (induction as arbitrary: s) (auto simp: Let_def case_prod_unfold intro: reachable.step)

definition effect :: "Dispatch \<Rightarrow> call list \<Rightarrow> Dispatch \<Rightarrow> bool" where
  "effect s cs s' \<longleftrightarrow> ds_log s' = ds_log s @ cs \<and> ds_workflow s' = snd (wf_run (ops cs) (ds_workflow s))"

lemma effect_refl [simp]: "effect s [] s"
  by (simp add: effect_def)

lemma effect_trans: "effect s cs s' \<Longrightarrow> effect s' ds s'' \<Longrightarrow> effect s (cs @ ds) s''"
  by (simp add: effect_def wf_run_append)

text \<open>The requests for the executor: those of the computation at hand, those of other goroutines, and both.\<close>

definition lent :: "call \<Rightarrow> ApprovedExecutionRequest list" where
  "lent c = (case c of Handed x \<Rightarrow> [x] | _ \<Rightarrow> [])"

definition handed :: "call \<Rightarrow> ApprovedExecutionRequest list" where
  "handed c = (case c of ExecuteApproved x \<Rightarrow> [x] | Handed x \<Rightarrow> [x] | _ \<Rightarrow> [])"

definition handed_over :: "call list \<Rightarrow> ApprovedExecutionRequest list" where
  "handed_over cs = concat (map handed cs)"

lemma ops_handed [simp]: "ops (map Handed xs) = []"
  by (induction xs) simp_all

lemma executed_handed [simp]: "executed (map Handed xs) = []"
  by (induction xs) simp_all

lemma lent_handed [simp]: "concat (map (lent \<circ> Handed) xs) = xs"
  by (induction xs) (simp_all add: lent_def)

text \<open>\<open>backed sel w cs\<close>: every request that \<open>sel\<close> finds in the log was dispatched by an earlier operation, and no execution
  is requested more often than the workflow dispatched it.\<close>

definition backed :: "(call \<Rightarrow> ApprovedExecutionRequest list) \<Rightarrow> Service \<Rightarrow> call list \<Rightarrow> bool" where
  "backed sel w cs \<longleftrightarrow>
     (\<forall>pre c post x. cs = pre @ c # post \<longrightarrow> x \<in> set (sel c) \<longrightarrow>
        (\<exists>p1 op p2. pre = p1 @ Workflow op # p2 \<and> x \<in> set (started_by op (snd (wf_run (ops p1) w))))) \<and>
     (\<forall>eid. dispatches eid (concat (map sel cs)) \<le> dispatches eid (fst (wf_run (ops cs) w)))"

lemma backed_none:
  assumes "concat (map sel cs) = []"
  shows "backed sel w cs"
proof -
  have none: "sel c = []" if "cs = pre @ c # post" for pre c post using assms that by simp
  have "x \<notin> set (sel c)" if "cs = pre @ c # post" for pre c post x using none [OF that] by simp
  then show ?thesis unfolding backed_def assms by (simp add: dispatches_def)
qed

lemma append_split:
  assumes "xs @ ys = pre @ c # post"
  obtains (left) post' where "xs = pre @ c # post'" "post = post' @ ys"
    | (right) pre' where "pre = xs @ pre'" "ys = pre' @ c # post"
proof -
  from assms consider us where "xs = pre @ us" "us @ ys = c # post" | us where "pre = xs @ us" "ys = us @ c # post"
    by (auto simp: append_eq_append_conv2)
  then show thesis
  proof cases
    case 1
    then show thesis using left right by (cases us) fastforce+
  qed (use right in blast)
qed

lemma backed_append:
  assumes "backed sel w cs" and "backed sel (snd (wf_run (ops cs) w)) ds"
  shows "backed sel w (cs @ ds)"
  unfolding backed_def
proof (intro conjI allI impI)
  fix pre c post x
  assume "cs @ ds = pre @ c # post" and x: "x \<in> set (sel c)"
  then show "\<exists>p1 op p2. pre = p1 @ Workflow op # p2 \<and> x \<in> set (started_by op (snd (wf_run (ops p1) w)))"
  proof (cases rule: append_split)
    case (left post')
    then show ?thesis using assms(1) x unfolding backed_def by blast
  next
    case (right pre')
    then obtain p1 op p2 where "pre' = p1 @ Workflow op # p2"
      "x \<in> set (started_by op (snd (wf_run (ops p1) (snd (wf_run (ops cs) w)))))"
      using assms(2) x unfolding backed_def by blast
    with right show ?thesis
      by (intro exI [where x = "cs @ p1"] exI [where x = op] exI [where x = p2]) (simp add: wf_run_append)
  qed
next
  fix eid
  show "dispatches eid (concat (map sel (cs @ ds))) \<le> dispatches eid (fst (wf_run (ops (cs @ ds)) w))"
    using assms unfolding backed_def by (simp add: wf_run_append add_mono)
qed

lemma dispatches_take: "dispatches eid (take k xs) \<le> dispatches eid xs"
  using dispatches_simps(3) [of eid "take k xs" "drop k xs"] by simp

text \<open>An operation, and the requests among those it dispatched.\<close>

lemma backed_cons:
  assumes "\<And>pre c post x. cs = pre @ c # post \<Longrightarrow> x \<in> set (sel c) \<Longrightarrow> x \<in> set (started_by op w) \<or>
      (\<exists>p1 op' p2. pre = p1 @ Workflow op' # p2 \<and> x \<in> set (started_by op' (snd (wf_run (ops p1) (snd (wf_exec op w))))))"
    and "\<And>eid. dispatches eid (concat (map sel cs)) \<le>
      dispatches eid (started_by op w) + dispatches eid (fst (wf_run (ops cs) (snd (wf_exec op w))))"
    and "sel (Workflow op) = []"
  shows "backed sel w (Workflow op # cs)"
  unfolding backed_def
proof (intro conjI allI impI)
  fix pre c post x
  assume "Workflow op # cs = pre @ c # post" and x: "x \<in> set (sel c)"
  then obtain p where p: "pre = Workflow op # p" "cs = p @ c # post" using assms(3) by (cases pre) auto
  show "\<exists>p1 op p2. pre = p1 @ Workflow op # p2 \<and> x \<in> set (started_by op (snd (wf_run (ops p1) w)))"
    using assms(1) [OF p(2) x]
  proof (elim disjE exE conjE)
    assume "x \<in> set (started_by op w)"
    then show ?thesis using p(1) by (intro exI [where x = "[]"]) auto
  next
    fix p1 op' p2
    assume "p = p1 @ Workflow op' # p2" "x \<in> set (started_by op' (snd (wf_run (ops p1) (snd (wf_exec op w)))))"
    then show ?thesis using p(1)
      by (intro exI [where x = "Workflow op # p1"] exI [where x = op'] exI [where x = p2]) (simp add: Let_def case_prod_unfold)
  qed
next
  fix eid
  show "dispatches eid (concat (map sel (Workflow op # cs))) \<le> dispatches eid (fst (wf_run (ops (Workflow op # cs)) w))"
    using assms(2) [of eid] assms(3) by (simp add: Let_def case_prod_unfold started_by_def)
qed

text \<open>\<open>acts A xs s s'\<close>: the calls satisfy \<open>A\<close> and hand exactly \<open>xs\<close> to the executor, apart from what other goroutines
  hand over, which their operations dispatched.\<close>

definition acts :: "(call \<Rightarrow> bool) \<Rightarrow> ApprovedExecutionRequest list \<Rightarrow> Dispatch \<Rightarrow> Dispatch \<Rightarrow> bool" where
  "acts A xs s s' \<longleftrightarrow> (\<exists>cs. effect s cs s' \<and> list_all A cs \<and> executed cs = xs \<and> backed lent (ds_workflow s) cs)"

lemma acts_refl [simp, intro]: "acts A [] s s"
  by (auto simp: acts_def backed_none intro: exI [where x = "[]"])

lemma acts_trans: "acts A xs s s' \<Longrightarrow> acts A ys s' s'' \<Longrightarrow> acts A (xs @ ys) s s''"
proof -
  assume "acts A xs s s'" and "acts A ys s' s''"
  then obtain cs ds where cs: "effect s cs s'" "list_all A cs" "executed cs = xs" "backed lent (ds_workflow s) cs"
    "effect s' ds s''" "list_all A ds" "executed ds = ys" "backed lent (ds_workflow s') ds"
    by (auto simp: acts_def)
  then have "backed lent (ds_workflow s) (cs @ ds)" by (simp add: effect_def backed_append)
  then show "acts A (xs @ ys) s s''"
    unfolding acts_def using cs by (intro exI [where x = "cs @ ds"]) (simp add: effect_trans)
qed

lemma acts_quiet: "acts A [] s s' \<Longrightarrow> acts A ys s' s'' \<Longrightarrow> acts A ys s s''"
  using acts_trans [of A "[]" s s' ys s''] by simp

lemma acts_then_quiet: "acts A ys s s' \<Longrightarrow> acts A [] s' s'' \<Longrightarrow> acts A ys s s''"
  using acts_trans [of A ys s s' "[]" s''] by simp

lemma acts_mono: "acts A xs s s' \<Longrightarrow> (\<And>c. A c \<Longrightarrow> B c) \<Longrightarrow> acts B xs s s'"
  unfolding acts_def list_all_iff by blast

lemma acts_logged:
  assumes "A c" and "\<forall>op. c \<noteq> Workflow op" and "\<forall>x. c \<noteq> Handed x"
  shows "acts A (executed [c]) s (logged c s)"
  unfolding acts_def
proof (intro exI [where x = "[c]"] conjI)
  show "effect s [c] (logged c s)" using assms(2) by (cases c) (simp_all add: effect_def logged_def)
  show "backed lent (ds_workflow s) [c]" using assms(3) by (intro backed_none) (cases c; simp add: lent_def)
qed (use assms(1) in simp_all)

lemma acts_operation:
  assumes "A (Workflow op)" and "w = snd (wf_exec op (ds_workflow s))"
  shows "acts A [] s (logged (Workflow op) (s\<lparr>ds_workflow := w\<rparr>))"
  unfolding acts_def
  by (rule exI [where x = "[Workflow op]"])
    (use assms in \<open>simp add: effect_def logged_def Let_def case_prod_unfold backed_none lent_def\<close>)

lemma acts_foreign:
  assumes "A (Workflow op)" and "\<And>x. A (Handed x)"
  shows "acts A [] s (foreign s op)"
  unfolding acts_def
proof (intro exI [where x = "Workflow op # map Handed (started_by op (ds_workflow s))"] conjI)
  show "effect s (Workflow op # map Handed (started_by op (ds_workflow s))) (foreign s op)"
    by (simp add: effect_def foreign_def Let_def case_prod_unfold)
  show "backed lent (ds_workflow s) (Workflow op # map Handed (started_by op (ds_workflow s)))"
  proof (rule backed_cons)
    fix pre c post x
    assume "map Handed (started_by op (ds_workflow s)) = pre @ c # post" and "x \<in> set (lent c)"
    from arg_cong [OF this(1), of set] this(2) have "c \<in> Handed ` set (started_by op (ds_workflow s))" "x \<in> set (lent c)" by auto
    then have "x \<in> set (started_by op (ds_workflow s))" by (auto simp: lent_def)
    then show "x \<in> set (started_by op (ds_workflow s)) \<or> (\<exists>p1 op' p2. pre = p1 @ Workflow op' # p2 \<and>
        x \<in> set (started_by op' (snd (wf_run (ops p1) (snd (wf_exec op (ds_workflow s)))))))" ..
  qed (simp_all add: lent_def [of "Workflow op"])
qed (use assms in \<open>simp_all add: list_all_iff\<close>)

section \<open>Calls of the tools\<close>

text \<open>The calls that the tools of a plan may make, and the operations of other goroutines.\<close>

locale tool_calls =
  fixes A :: "call \<Rightarrow> bool" and env :: dispatch_env
  assumes others_ok: "op \<in> set (de_others env log) \<Longrightarrow> A (Workflow op)"
    and handed_ok: "A (Handed x)"
    and metrics_ok: "A (QueryMetrics q)"
    and search_ok: "A (Search k)"
    and invoke_ok: "\<not> cq_SkipAuthorization r \<Longrightarrow> A (InvokeCapability r)"
    and send_ok: "A (SendMessage m)"
    and asked_ok: "A (Workflow (CapabilityAsked t a))"
    and notified_ok: "A (Workflow (Notified (de_encode env) t sid ms))"
begin

lemma others_acts: "acts A [] s (others env s)"
proof -
  have "acts A [] s (foldl foreign s xs)" if "\<forall>op \<in> set xs. A (Workflow op)" for xs
    using that
  proof (induction xs arbitrary: s)
    case (Cons op xs)
    have "acts A [] s (foreign s op)" using Cons.prems handed_ok by (intro acts_foreign) simp_all
    moreover have "acts A [] (foreign s op) (foldl foreign (foreign s op) xs)" using Cons by simp
    ultimately show ?case using acts_quiet by simp
  qed simp
  then show ?thesis using others_ok by (simp add: others_def)
qed

lemma ask_acts:
  assumes "ask env service c q s = (r, s')" and "A (c q)" and "\<forall>op. c q \<noteq> Workflow op"
    and "\<forall>x. c q \<noteq> Handed x"
  shows "acts A (executed [c q]) s s'"
proof -
  have "s' = logged (c q) (others env s)" using assms(1) by (auto simp: ask_def Let_def)
  then show ?thesis using acts_quiet [OF others_acts acts_logged [where A = A and c = "c q"]] assms(2-4) by blast
qed

lemma on_workflow_acts:
  assumes "on_workflow env op f s = (r, s')" and "A (Workflow op)" and "\<And>w. snd (f w) = snd (wf_exec op w)"
  shows "acts A [] s s'"
proof -
  have "s' = logged (Workflow op) ((others env s)\<lparr>ds_workflow := snd (f (ds_workflow (others env s)))\<rparr>)"
    using assms(1) by (auto simp: on_workflow_def Let_def split: prod.split_asm)
  moreover have "acts A [] (others env s) (logged (Workflow op) ((others env s)\<lparr>ds_workflow := snd (f (ds_workflow (others env s)))\<rparr>))"
    using assms(2,3) by (intro acts_operation) simp_all
  ultimately show ?thesis using acts_quiet [OF others_acts] by simp
qed

lemma send_message_acts: "send_message env m s = (r, s') \<Longrightarrow> acts A [] s s'"
  using ask_acts [of _ SendMessage m] send_ok by (fastforce simp: send_message_def)

lemma create_approval_acts: "create_approval env req s = (r, s') \<Longrightarrow> acts A [] s s'"
  unfolding create_approval_def by (erule on_workflow_acts) (simp_all add: asked_ok Let_def case_prod_unfold)

lemma enqueue_acts: "enqueue env sid ms s = (r, s') \<Longrightarrow> acts A [] s s'"
  unfolding enqueue_def by (erule on_workflow_acts) (simp_all add: notified_ok Let_def case_prod_unfold)

lemma deliver_acts: "deliverToolPlanNotifications env sid ms s = (r, s') \<Longrightarrow> acts A [] s s'"
proof (induction ms arbitrary: s)
  case (Cons m ms)
  obtain e s1 where e: "send_message env m s = (e, s1)" by fastforce
  note send = send_message_acts [OF e]
  show ?case
  proof (cases "e = None \<or> TrimSpace sid = []")
    case True
    then show ?thesis using Cons e send by (auto split: option.split_asm intro: acts_quiet)
  next
    case False
    obtain q s2 where q: "enqueue env sid [m] s1 = (q, s2)" by fastforce
    have "acts A [] s2 s'"
      using Cons e q False by (cases q) auto
    then show ?thesis using send enqueue_acts [OF q] by (blast intro: acts_quiet)
  qed
qed simp

lemma request_approval_acts: "request_approval env sd connID capID step s = (r, s') \<Longrightarrow> acts A [] s s'"
  unfolding request_approval_def Let_def
  by (auto split: prod.split_asm sum.split_asm option.split_asm dest!: create_approval_acts deliver_acts intro: acts_quiet)

lemma withheld_step_acts: "withheld_step env sd connID capID labels res step acc s = (b, acc', s') \<Longrightarrow> acts A [] s s'"
  unfolding withheld_step_def Let_def
  by (auto split: prod.split_asm if_split_asm dest!: request_approval_acts)

lemma invoke_step_acts:
  assumes "invoke_step env sd connID capID labels context step acc s = (b, acc', s')"
  shows "acts A [] s s'"
proof -
  let ?req = "\<lparr>cq_ConnectorID = connID, cq_CapabilityID = capID, cq_Params = evt_cloneMap (tp_ResolvedInput step),
      cq_SessionID = sd_SessionID sd, cq_Caller = ''tool_plan_executor'', cq_SkipAuthorization = False\<rparr>"
  obtain res err s1 where ask: "ask env (de_InvokeCapability env) InvokeCapability ?req s = ((res, err), s1)"
    by (metis prod.exhaust)
  have "acts A [] s s1" using ask_acts [OF ask] invoke_ok by simp
  moreover have "acts A [] s1 s'"
    using assms unfolding invoke_step_def Let_def ask
    by (auto split: option.split_asm if_split_asm dest: withheld_step_acts simp: failed_step_def Let_def)
  ultimately show ?thesis by (rule acts_quiet)
qed

lemma metrics_branch_acts: "metrics_branch env d sd step acc s = (b, acc', s') \<Longrightarrow> acts A [] s s'"
  unfolding metrics_branch_def Let_def
  by (auto split: prod.split_asm sum.split_asm simp: failed_step_def Let_def metrics_ok dest!: ask_acts)

lemma search_branch_acts: "search_branch env sd step acc s = (b, acc', s') \<Longrightarrow> acts A [] s s'"
  unfolding search_branch_def Let_def
  by (auto split: prod.split_asm sum.split_asm simp: failed_step_def Let_def search_ok dest!: ask_acts)

lemma capability_branches_act:
  "capability_branch env sd step acc s = (b, acc', s') \<Longrightarrow> acts A [] s s'"
  "query_branch env d sd step acc s = (b, acc', s') \<Longrightarrow> acts A [] s s'"
  "delivery_branch env d sd step acc s = (b, acc', s') \<Longrightarrow> acts A [] s s'"
  unfolding capability_branch_def query_branch_def delivery_branch_def Let_def
  by (auto split: if_split_asm simp: failed_step_def Let_def dest: invoke_step_acts)

lemma plan_step_acts: "plan_step env d sd step acc s = (b, acc', s') \<Longrightarrow> acts A [] s s'"
  unfolding plan_step_def Let_def
  by (auto split: if_split_asm dest: metrics_branch_acts search_branch_acts capability_branches_act)

lemma plan_loop_acts: "plan_loop env d sd steps acc s = (acc', s') \<Longrightarrow> acts A [] s s'"
proof (induction steps arbitrary: acc s)
  case (Cons step steps)
  obtain b acc1 s1 where st: "plan_step env d sd step acc s = (b, acc1, s1)" by (metis prod.exhaust)
  have "acts A [] s1 s'" using Cons st by (auto split: if_split_asm)
  then show ?case using plan_step_acts [OF st] by (blast intro: acts_quiet)
qed simp

lemma executeToolPlan_acts: "executeToolPlan env d sd steps s = (x, s') \<Longrightarrow> acts A [] s s'"
  unfolding executeToolPlan_def Let_def
  by (auto split: if_split_asm prod.split_asm dest: plan_loop_acts)

end

section \<open>Calls of the dispatcher\<close>

lemma execution_status:
  assumes "HandleExecutionResult t res w = (Inr m, w')"
  shows "mr_Status m \<in> {''verifying'', ''failed''}"
  using assms by (auto simp: HandleExecutionResult_def execution_outcome_def Let_def split: option.split_asm if_split_asm)

lemma execution_result_status:
  "execution_result env res s = (Inr m, s') \<Longrightarrow> mr_Status m \<noteq> ''pending_approval''"
  using execution_status by (fastforce simp: execution_result_def on_workflow_def Let_def split: prod.split_asm)

lemma event_types:
  "fe_EventType (completed_event e) \<noteq> EventOnApprovalRequested" "fe_EventType (closed_event sid sm) \<noteq> EventOnApprovalRequested"
  "fe_EventType (skill_event e) \<noteq> EventOnApprovalRequested"
  by (simp_all add: completed_event_def closed_event_def skill_event_def Let_def EventOnApprovalRequested_def
      EventOnExecutionFailed_def EventOnExecutionCompleted_def EventOnSessionClosed_def EventOnSkillFailed_def EventOnSkillCompleted_def)

text \<open>The calls for one event apart from the diagnosis; the event of a requested approval is never fired.\<close>

locale step_calls = tool_calls +
  assumes plan_ok: "A (PlanDiagnosis i)" and finalize_ok: "A (FinalizeDiagnosis i)"
    and execute_ok: "A (ExecuteApproved x)" and verify_ok: "A (VerifyExecution v)"
    and approved_ok: "A (InvokeApprovedCapability a)" and ingest_ok: "A (IngestResolvedSession sid t)"
    and fired_ok: "fe_EventType e \<noteq> EventOnApprovalRequested \<Longrightarrow> A (Fired e)"
    and done_ok: "A (Workflow (ExecutionDone t er))"
    and capability_ok: "A (Workflow (CapabilityDone t cr))" and verified_ok: "A (Workflow (Verified t vr))"
    and resolved_ok: "A (Workflow (Resolved t eid dr))"
begin

lemma fire_acts:
  assumes "fe_EventType e \<noteq> EventOnApprovalRequested"
  shows "acts A [] s (fire env e s)"
proof (cases "ds_triggers s")
  case (Some w)
  have "acts A [] s (logged (Fired e) (s\<lparr>ds_triggers := t\<rparr>))" for t
    unfolding acts_def using fired_ok [OF assms]
    by (intro exI [where x = "[Fired e]"]) (simp add: effect_def logged_def backed_none lent_def)
  then show ?thesis by (simp add: fire_def Some)
qed (simp add: fire_def)

lemma operations_act:
  "resolve_event env eid dr s = (ru, s') \<Longrightarrow> acts A [] s s'"
  "execution_result env er s = (rm, s') \<Longrightarrow> acts A [] s s'"
  "capability_result env cr s = (rm, s') \<Longrightarrow> acts A [] s s'"
  "verification_result env vr s = (rm, s') \<Longrightarrow> acts A [] s s'"
  unfolding resolve_event_def execution_result_def capability_result_def verification_result_def
  by (erule on_workflow_acts; simp add: resolved_ok done_ok capability_ok verified_ok Let_def case_prod_unfold)+

lemma verify_execution_acts: "verify_execution env req res m s = (r, s') \<Longrightarrow> acts A [] s s'"
  unfolding verify_execution_def Let_def
  by (auto split: prod.split_asm sum.split_asm if_split_asm simp: verify_ok dest!: ask_acts operations_act(4) intro: acts_quiet)

lemma deliver_result_acts: "deliver_result env m detail msg s = (r, s') \<Longrightarrow> acts A [] s s'"
  unfolding deliver_result_def
  by (auto split: prod.split_asm sum.split_asm option.split_asm dest!: send_message_acts enqueue_acts
      intro: acts_quiet acts_quiet [OF _ fire_acts [OF event_types(1)]])

lemma announce_result_acts: "announce_result env req m s = (r, s') \<Longrightarrow> acts A [] s s'"
  unfolding announce_result_def Let_def
  by (auto split: sum.split_asm if_split_asm dest!: deliver_result_acts)

lemma runImmediateExecution_acts:
  assumes "runImmediateExecution env req s = (r, s')"
  shows "acts A [req] s s'"
proof -
  obtain x s1 where ask: "ask env (de_ExecuteApproved env) ExecuteApproved req s = (x, s1)" by fastforce
  define res where "res = (case x of Inr y \<Rightarrow> y | Inl err \<Rightarrow> broken_execution req err)"
  obtain m s2 where m: "execution_result env res s1 = (m, s2)" by fastforce
  have "acts A [] s2 s'"
  proof (cases m)
    case (Inl err)
    then show ?thesis using assms ask m by (simp add: runImmediateExecution_def Let_def res_def)
  next
    case (Inr mutation)
    have "mr_Status mutation \<noteq> ''pending_approval''" using m Inr execution_result_status by blast
    then show ?thesis using assms ask m Inr
      by (auto simp: runImmediateExecution_def Let_def res_def split: prod.split_asm sum.split_asm
          dest!: verify_execution_acts announce_result_acts intro: acts_quiet)
  qed
  moreover have "acts A [req] s s1" using ask_acts [OF ask] execute_ok by simp
  ultimately show ?thesis using operations_act(2) [OF m] by (blast intro: acts_quiet acts_then_quiet)
qed

lemma runImmediateCapability_acts: "runImmediateCapability env req s = (r, s') \<Longrightarrow> acts A [] s s'"
  unfolding runImmediateCapability_def Let_def
  by (auto split: prod.split_asm sum.split_asm simp: approved_ok dest!: ask_acts operations_act(3) intro: acts_quiet)

lemma notify_acts: "notify env sid m s = (r, s') \<Longrightarrow> acts A [] s s'"
  unfolding notify_def
  by (auto split: prod.split_asm sum.split_asm option.split_asm dest!: send_message_acts enqueue_acts intro: acts_quiet)

lemma each_acts:
  assumes "each f xs s = (r, s')" and "\<And>x s r s'. f x s = (r, s') \<Longrightarrow> acts A [] s s'"
  shows "acts A [] s s'"
  using assms(1)
proof (induction xs arbitrary: s)
  case (Cons x xs)
  obtain r1 s1 where f: "f x s = (r1, s1)" by fastforce
  then have "acts A [] s1 s'" using Cons by (cases r1) auto
  then show ?case using assms(2) [OF f] by (blast intro: acts_quiet)
qed simp

lemma executions_act:
  "each (runImmediateExecution env) xs s = (r, s') \<Longrightarrow> \<exists>k. acts A (take k xs) s s'"
proof (induction xs arbitrary: s)
  case (Cons x xs)
  obtain r1 s1 where f: "runImmediateExecution env x s = (r1, s1)" by fastforce
  note one = runImmediateExecution_acts [OF f]
  show ?case
  proof (cases r1)
    case (Inl err)
    then show ?thesis using Cons.prems f one by (intro exI [where x = 1]) simp
  next
    case (Inr u)
    then obtain k where "acts A (take k xs) s1 s'" using Cons f by auto
    then show ?thesis using acts_trans [OF one] by (intro exI [where x = "Suc k"]) simp
  qed
qed auto

lemma carry_out_acts:
  assumes "carry_out env session res s = (r, s')"
  shows "\<exists>k. acts A (take k (wd_Executions res)) s s'"
proof -
  obtain n s1 where n: "each (notify env (sd_SessionID session)) (wd_Notifications res) s = (n, s1)" by fastforce
  have a1: "acts A [] s s1" by (rule each_acts [OF n]) (rule notify_acts)
  show ?thesis
  proof (cases n)
    case (Inl err)
    then show ?thesis using assms n a1 by (intro exI [where x = 0]) (simp add: carry_out_def)
  next
    case (Inr u)
    obtain x s2 where x: "each (runImmediateExecution env) (wd_Executions res) s1 = (x, s2)" by fastforce
    then obtain k where k: "acts A (take k (wd_Executions res)) s1 s2" using executions_act by blast
    have "acts A [] s2 s'"
    proof (cases x)
      case (Inl err)
      then show ?thesis using assms n Inr x by (simp add: carry_out_def)
    next
      case (Inr v)
      obtain c s3 where c: "each (runImmediateCapability env) (wd_Capabilities res) s2 = (c, s3)" by fastforce
      have "s' = s3" using assms n \<open>n = Inr u\<close> x Inr c by (cases c) (simp_all add: carry_out_def)
      then show ?thesis using each_acts [OF c] runImmediateCapability_acts by blast
    qed
    then show ?thesis using a1 k acts_quiet acts_then_quiet by blast
  qed
qed

lemma plan_and_collect_acts:
  assumes "plan_and_collect env d session s = (r, s')"
  shows "acts A [] s s'"
proof -
  obtain c0 binding where b: "base_context d session = (c0, binding)" by fastforce
  obtain ctx forced where f: "skill_plan d session c0 = (ctx, forced)" by fastforce
  let ?input = "\<lparr>di_SessionID = sd_SessionID session, di_Context = ctx, di_RoleModelBinding = binding\<rparr>"
  obtain planned s1 where p: "(case forced of Some plan \<Rightarrow> (Inr plan, s)
      | None \<Rightarrow> ask env (de_PlanDiagnosis env) PlanDiagnosis ?input s) = (planned, s1)" by fastforce
  have a1: "acts A [] s s1"
    using p plan_ok by (auto split: option.split_asm dest!: ask_acts)
  have "acts A [] s1 s'"
  proof (cases planned)
    case (Inl err)
    then show ?thesis using assms b f p by (simp add: plan_and_collect_def Let_def)
  next
    case (Inr plan)
    obtain ex s2 where x: "executeToolPlan env d session (pl_ToolPlan plan) s1 = (ex, s2)" by fastforce
    have "s' = (if forced \<noteq> None then fire env (skill_event (skill_detail session (xt_ExecutedPlan ex))) s2 else s2)"
      using assms b f p Inr x by (simp add: plan_and_collect_def Let_def)
    then have "acts A [] s2 s'" using fire_acts event_types(3) by auto
    then show ?thesis using executeToolPlan_acts [OF x] acts_quiet by blast
  qed
  then show ?thesis using a1 acts_quiet by blast
qed

end

text \<open>An event, and a whole cycle.\<close>

locale event_calls = step_calls +
  assumes diagnosed_ok: "A (Workflow (Diagnosed t order eid dg))"

locale dispatcher_calls = event_calls +
  assumes claimed_ok: "A (Workflow (Claimed t n))"
begin

lemma claim_events_acts: "claim_events env n s = (r, s') \<Longrightarrow> acts A [] s s'"
  unfolding claim_events_def by (erule on_workflow_acts) (simp_all add: claimed_ok Let_def case_prod_unfold)

end


text \<open>The handlers of decisions.\<close>

locale handler_calls = step_calls +
  assumes channel_ok: "A (Workflow (Channel t ev))"
begin

lemma handle_channel_acts: "handle_channel env ev s = (r, s') \<Longrightarrow> acts A [] s s'"
  unfolding handle_channel_def by (erule on_workflow_acts) (simp_all add: channel_ok Let_def case_prod_unfold)

lemma deliverNotifications_acts: "deliverNotifications env sid ms s = (r, s') \<Longrightarrow> acts A [] s s'"
proof (induction ms arbitrary: s)
  case (Cons m ms)
  obtain e s1 where e: "send_message env m s = (e, s1)" by fastforce
  note sent = send_message_acts [OF e]
  show ?case
  proof (cases "e = None \<or> TrimSpace sid = []")
    case True
    then show ?thesis using Cons e sent by (auto split: option.split_asm intro: acts_quiet)
  next
    case False
    obtain q s2 where q: "enqueue env sid [m] s1 = (q, s2)" by fastforce
    have "acts A [] s2 s'" using Cons e q False by (cases q) auto
    then show ?thesis using sent enqueue_acts [OF q] by (blast intro: acts_quiet)
  qed
qed simp

lemma approval_verification_acts: "approval_verification env req m s = (r, s') \<Longrightarrow> acts A [] s s'"
  unfolding approval_verification_def
  by (auto split: prod.split_asm sum.split_asm if_split_asm simp: verify_ok dest!: ask_acts operations_act(4) intro: acts_quiet)

lemma deliverResult_acts: "deliverExecutionResultNotification env ev sid eid s = (r, s') \<Longrightarrow> acts A [] s s'"
  unfolding deliverExecutionResultNotification_def Let_def
  by (auto split: prod.split_asm sum.split_asm if_split_asm option.split_asm dest!: send_message_acts enqueue_acts intro: acts_quiet)

lemma approved_execution_acts:
  assumes "approved_execution env ev req out s = (r, s')"
  shows "acts A [req] s s'"
proof -
  obtain x s1 where ask: "ask env (de_ExecuteApproved env) ExecuteApproved req s = (x, s1)" by fastforce
  define res where "res = (case x of Inr y \<Rightarrow> y | Inl err \<Rightarrow> failed_execution req)"
  obtain m s2 where m: "execution_result env res s1 = (m, s2)" by fastforce
  have "acts A [] s2 s'"
    using assms ask m unfolding approved_execution_def Let_def res_def
    by (auto split: prod.split_asm sum.split_asm dest!: approval_verification_acts deliverResult_acts intro: acts_quiet)
  moreover have "acts A [req] s s1" using ask_acts [OF ask] execute_ok by simp
  ultimately show ?thesis using operations_act(2) [OF m] by (blast intro: acts_quiet acts_then_quiet)
qed

lemma approved_capability_acts:
  assumes "approved_capability env ev req out s = (r, s')"
  shows "acts A [] s s'"
proof -
  obtain x s1 where ask: "ask env (de_InvokeApproved env) InvokeApprovedCapability req s = (x, s1)" by fastforce
  have "acts A [] s s1" using ask_acts [OF ask] approved_ok by simp
  moreover have "acts A [] s1 s'"
    using assms ask unfolding approved_capability_def Let_def
    by (auto split: prod.split_asm sum.split_asm option.split_asm dest!: operations_act(3) send_message_acts enqueue_acts intro: acts_quiet)
  ultimately show ?thesis by (rule acts_quiet)
qed

lemma each_outcome_acts:
  assumes "\<And>x out s r s'. f x out s = (r, s') \<Longrightarrow> acts A (g x) s s'"
  shows "each_outcome f xs out s = (r, s') \<Longrightarrow> \<exists>k. acts A (concat (map g (take k xs))) s s'"
proof (induction xs arbitrary: out s)
  case (Cons x xs)
  obtain out1 e s1 where f: "f x out s = ((out1, e), s1)" by (metis prod.exhaust)
  note one = assms [OF f]
  show ?case
  proof (cases e)
    case None
    then obtain k where "acts A (concat (map g (take k xs))) s1 s'" using Cons f by auto
    then show ?thesis using acts_trans [OF one] by (intro exI [where x = "Suc k"]) simp
  next
    case (Some err)
    then show ?thesis using Cons.prems f one by (intro exI [where x = 1]) simp
  qed
qed auto

lemma approved_executions_act:
  "each_outcome (approved_execution env ev) xs out s = (r, s') \<Longrightarrow> \<exists>k. acts A (take k xs) s s'"
  using each_outcome_acts [of "approved_execution env ev" "\<lambda>x. [x]", OF approved_execution_acts] by simp

lemma approved_capabilities_act:
  assumes "each_outcome (approved_capability env ev) xs out s = (r, s')"
  shows "acts A [] s s'"
proof -
  obtain k where "acts A (concat (map (\<lambda>_. []) (take k xs))) s s'"
    using each_outcome_acts [where f = "approved_capability env ev" and g = "\<lambda>_. []", OF _ assms] approved_capability_acts by blast
  moreover have "concat (map (\<lambda>_. []) ys) = []" for ys :: "ApprovedCapabilityRequest list" by (induction ys) simp_all
  ultimately show ?thesis by metis
qed

lemma processApprovalDispatch_acts:
  assumes "processApprovalDispatch env ev res s = (r, s')"
  shows "\<exists>k. acts A (take k (wd_Executions res)) s s'"
proof -
  obtain n s1 where n: "deliverNotifications env (wd_SessionID res) (wd_Notifications res) s = (n, s1)" by fastforce
  note a1 = deliverNotifications_acts [OF n]
  show ?thesis
  proof (cases n)
    case (Some err)
    then show ?thesis using assms n a1 by (intro exI [where x = 0]) (simp add: processApprovalDispatch_def)
  next
    case None
    obtain out e s2 where x: "each_outcome (approved_execution env ev) (wd_Executions res) no_outcome s1 = ((out, e), s2)"
      by (metis prod.exhaust)
    then obtain k where k: "acts A (take k (wd_Executions res)) s1 s2" using approved_executions_act by blast
    have "acts A [] s2 s'"
      using assms n None x approved_capabilities_act by (cases e) (auto simp: processApprovalDispatch_def)
    then show ?thesis using a1 k acts_quiet acts_then_quiet by blast
  qed
qed

end

end
