(* ===== verification/Decisions.thy ===== *)
theory Decisions
  imports Tool_Plan Workflow_Safety
begin

text \<open>
  What stands behind a command that the workflow dispatches to the executor: a diagnosis that the policy answered
  with direct execution (\<open>granted\<close>), or the approval of a pending execution by a person (\<open>approved\<close>).
\<close>

definition granted :: "Service \<Rightarrow> wf_op \<Rightarrow> ApprovedExecutionRequest \<Rightarrow> bool" where
  "granted w op x \<longleftrightarrow>
     (\<exists>t order eid dg event r evaluate. op = Diagnosed t order eid dg \<and> op_ExecutionEnabled (ws_opts w) \<and>
        ws_outbox w eid = Some event \<and> ws_sessions w (ob_AggregateID event) = Some r \<and>
        op_AuthorizationPolicy (ws_opts w) = Some evaluate \<and>
        dn_Action (evaluate \<lparr>si_Command = xr_Command x, si_Service = xr_Service x, si_Host = xr_TargetHost x,
          si_Channel = stringFromAlert (sd_Alert (sr_detail r)) ''source''\<rparr>) = ActionDirectExecute \<and>
        xr_Command x = do_ExecutionHint (effective_diagnosis order dg w))"

definition approved :: "Service \<Rightarrow> wf_op \<Rightarrow> ApprovedExecutionRequest \<Rightarrow> bool" where
  "approved w op x \<longleftrightarrow>
     (\<exists>t event e. op = Channel t event \<and> ce_Action event \<in> {''approve'', ''modify_approve''} \<and> op_ExecutionEnabled (ws_opts w) \<and>
        ws_executions w (ce_ExecutionID event) = Some e \<and> ed_Status e = ''pending'' \<and> request_kind e \<noteq> ''capability'' \<and>
        xr_ExecutionID x = ed_ExecutionID e \<and> xr_TargetHost x = ed_TargetHost e \<and>
        xr_Command x = (if ce_Action event = ''modify_approve'' \<and> ce_Command event \<noteq> [] then ce_Command event else ed_Command e))"

text \<open>A direct execution runs on the host and for the service of the alert.\<close>

lemma direct_target:
  assumes "diagnosis_decide clock r hint route target s = (r', ms, xs, s')" and "x \<in> set xs"
  shows "xr_TargetHost x = stringFromAlert (sd_Alert (sr_detail r)) ''host''"
    and "xr_Service x = alertLabel (sd_Alert (sr_detail r)) ''service''"
proof -
  let ?src = "stringFromAlert (sd_Alert (sr_detail r)) ''source''"
  obtain r1 ms1 xs1 s1 where h: "(if hint \<noteq> [] \<and> op_DiagnosisEnabled (ws_opts s)
      then diagnosis_hint clock r hint route target ?src s else (r, [], [], s)) = (r1, ms1, xs1, s1)"
    by (metis prod_cases4)
  have "xs = xs1" using assms(1) h unfolding diagnosis_decide_def Let_def by (auto split: prod.split_asm)
  with h assms(2) have "x \<in> set (fst (snd (snd (diagnosis_hint clock r hint route target ?src s))))"
    by (auto split: if_split_asm)
  then have "xr_TargetHost x = stringFromAlert (sd_Alert (sr_detail r)) ''host'' \<and>
      xr_Service x = alertLabel (sd_Alert (sr_detail r)) ''service''"
    by (auto simp: diagnosis_hint_def diagnosis_direct_def diagnosis_approval_def diagnosis_suggest_def diagnosis_deny_def
        execution_request_def new_execution_def Let_def nextID_def split: if_split_asm prod.split_asm)
  then show "xr_TargetHost x = stringFromAlert (sd_Alert (sr_detail r)) ''host''"
    "xr_Service x = alertLabel (sd_Alert (sr_detail r)) ''service''" by simp_all
qed

lemma diagnosis_granted:
  assumes "x \<in> set (dispatched (fst (ApplyDiagnosis t order eid dg w)))"
  shows "granted w (Diagnosed t order eid dg) x"
proof -
  obtain res s' where r: "ApplyDiagnosis t order eid dg w = (Inr res, s')" "x \<in> set (wd_Executions res)"
    using assms by (cases "ApplyDiagnosis t order eid dg w") (auto simp: dispatched_def split: sum.split_asm)
  from r(1) obtain event r0 r2 r3 ms s1 where ev: "ws_outbox w eid = Some event" "ws_sessions w (ob_AggregateID event) = Some r0"
    and alert: "sd_Alert (sr_detail r2) = sd_Alert (sr_detail r0)"
    and dec: "diagnosis_decide t r2 (do_ExecutionHint (effective_diagnosis order dg w)) (diagnosis_route w (sd_Alert (sr_detail r0)))
      (selectDiagnosisNotificationTarget (sd_Alert (sr_detail r0)) (diagnosis_route w (sd_Alert (sr_detail r0)))) w
      = (r3, ms, wd_Executions res, s1)"
    by (rule ApplyDiagnosis_success)
  note target = direct_target [OF dec r(2), unfolded alert]
  show ?thesis using dispatched_grant [OF r] ev target unfolding granted_def command_input_def by auto
qed

lemma approval_target:
  assumes "HandleChannelEvent t ev w = (Inr res, w')" and "x \<in> set (wd_Executions res)" and "ws_executions w (ce_ExecutionID ev) = Some e"
  shows "xr_TargetHost x = ed_TargetHost e"
  using assms unfolding HandleChannelEvent_def Let_def handle_approve_def
  by (auto simp: approve_execute_def approve_capability_def approve_manual_def handle_reject_def handle_request_context_def
      execution_request_def zero_WorkflowDispatchResult_def Let_def split: if_split_asm option.split_asm)

lemma approval_approved:
  assumes "x \<in> set (dispatched (fst (HandleChannelEvent t ev w)))"
  shows "approved w (Channel t ev) x"
proof -
  obtain res w' where r: "HandleChannelEvent t ev w = (Inr res, w')" "x \<in> set (wd_Executions res)"
    using assms by (cases "HandleChannelEvent t ev w") (auto simp: dispatched_def split: sum.split_asm)
  from r(1) show ?thesis
  proof (cases rule: HandleChannelEvent_executions)
    case quiet
    then show ?thesis using r(2) by (simp add: dispatched_def)
  next
    case (dispatch e e' y)
    then have "x = y" using r(2) by (simp add: dispatched_def)
    with dispatch approval_target [OF r dispatch(1)] show ?thesis unfolding approved_def runnable_def by blast
  qed
qed

lemma started_decided: "x \<in> set (started_by op w) \<Longrightarrow> granted w op x \<or> approved w op x"
  using diagnosis_granted approval_approved
  by (cases op) (auto simp: started_by_def Let_def case_prod_unfold)

end
