(* ===== verification/Dispatcher_Laws.thy ===== *)
theory Dispatcher_Laws
  imports Dispatcher_Effects Decisions
begin

text \<open>
  What holds of the dispatcher and the handlers together with the workflow service, in every run of them: a run
  (\<open>sys_run\<close>) is a sequence of cycles of the dispatcher and of the worker for approval timeouts, of decisions over HTTP
  and in a chat, of commands of operators and of operations of other parts, with operations of other
  goroutines and the commands they start also inside the cycles and handlers.  A command reaches the executor
  only with a decision behind it, and at most once.
\<close>

section \<open>Commands and the operations behind them\<close>

lemma handed_split: "dispatches eid (concat (map handed cs)) = dispatches eid (executed cs) + dispatches eid (concat (map lent cs))"
  by (induction cs) (simp_all add: handed_def lent_def split: call.split)

lemma handed_cases: "x \<in> set (handed c) \<longleftrightarrow> c = ExecuteApproved x \<or> c = Handed x"
  by (cases c) (auto simp: handed_def)

lemma executed_member: "cs = pre @ ExecuteApproved x # post \<Longrightarrow> x \<in> set (executed cs)"
  by simp

lemma backed_lent:
  assumes "executed cs = []" and "backed lent w cs"
  shows "backed handed w cs"
proof -
  have "lent c = handed c" if "cs = pre @ c # post" for pre c post
    using assms(1) that by (cases c) (simp_all add: lent_def handed_def)
  then show ?thesis using assms unfolding backed_def by (simp add: handed_split)
qed

text \<open>An operation whose requests are handed over, perhaps not all of them.\<close>

lemma backed_operation:
  assumes "executed cs = take k (started_by op w)" and "backed lent (snd (wf_exec op w)) cs"
  shows "backed handed w (Workflow op # cs)"
proof (rule backed_cons)
  fix pre c post x
  assume split: "cs = pre @ c # post" and x: "x \<in> set (handed c)"
  show "x \<in> set (started_by op w) \<or>
      (\<exists>p1 op' p2. pre = p1 @ Workflow op' # p2 \<and> x \<in> set (started_by op' (snd (wf_run (ops p1) (snd (wf_exec op w))))))"
  proof (cases "c = ExecuteApproved x")
    case True
    then have "x \<in> set (executed cs)" using split executed_member by blast
    then show ?thesis unfolding assms(1) by (blast dest: in_set_takeD)
  next
    case False
    then have "x \<in> set (lent c)" using x by (auto simp: handed_cases lent_def)
    then show ?thesis using assms(2) split unfolding backed_def by blast
  qed
next
  fix eid
  have "dispatches eid (executed cs) \<le> dispatches eid (started_by op w)" unfolding assms(1) by (rule dispatches_take)
  moreover have "dispatches eid (concat (map lent cs)) \<le> dispatches eid (fst (wf_run (ops cs) (snd (wf_exec op w))))"
    using assms(2) unfolding backed_def by blast
  ultimately show "dispatches eid (concat (map handed cs)) \<le>
      dispatches eid (started_by op w) + dispatches eid (fst (wf_run (ops cs) (snd (wf_exec op w))))"
    unfolding handed_split by (rule add_mono)
qed (simp add: handed_def)

text \<open>A computation whose commands are backed.\<close>

definition sound :: "(call \<Rightarrow> bool) \<Rightarrow> Dispatch \<Rightarrow> Dispatch \<Rightarrow> bool" where
  "sound A s s' \<longleftrightarrow> (\<exists>cs. effect s cs s' \<and> list_all A cs \<and> backed handed (ds_workflow s) cs)"

lemma sound_acts: "acts A [] s s' \<Longrightarrow> sound A s s'"
  unfolding acts_def sound_def using backed_lent by blast

lemma sound_trans: "sound A s s' \<Longrightarrow> sound A s' s'' \<Longrightarrow> sound A s s''"
proof -
  assume "sound A s s'" and "sound A s' s''"
  then obtain cs ds where "effect s cs s'" "list_all A cs" "backed handed (ds_workflow s) cs"
    "effect s' ds s''" "list_all A ds" "backed handed (ds_workflow s') ds"
    by (auto simp: sound_def)
  then show "sound A s s''"
    unfolding sound_def by (intro exI [where x = "cs @ ds"]) (simp add: effect_trans, simp add: effect_def backed_append)
qed

text \<open>An operation of the workflow and what is then done with its requests.\<close>

lemma sound_operation:
  assumes "A (Workflow op)" and "acts A (take k (started_by op (ds_workflow s)))
      (logged (Workflow op) (s\<lparr>ds_workflow := snd (wf_exec op (ds_workflow s))\<rparr>)) s'"
  shows "sound A s s'"
proof -
  let ?t = "logged (Workflow op) (s\<lparr>ds_workflow := snd (wf_exec op (ds_workflow s))\<rparr>)"
  obtain cs where cs: "effect ?t cs s'" "list_all A cs" "executed cs = take k (started_by op (ds_workflow s))"
    "backed lent (ds_workflow ?t) cs"
    using assms(2) unfolding acts_def by blast
  have "effect s [Workflow op] ?t" by (simp add: effect_def logged_def Let_def case_prod_unfold)
  from effect_trans [OF this cs(1)] show ?thesis
    unfolding sound_def using assms(1) cs(2) backed_operation [OF cs(3)] cs(4)
    by (intro exI [where x = "[Workflow op] @ cs"]) (simp add: logged_def)
qed

context step_calls begin

lemma dispatchTelegramSend_acts: "dispatchTelegramSend env item s = (r, s') \<Longrightarrow> acts A [] s s'"
  unfolding dispatchTelegramSend_def
  by (auto split: sum.split_asm prod.split_asm option.split_asm dest!: send_message_acts)

lemma dispatchSessionClosed_acts:
  assumes "dispatchSessionClosed env d item s = (r, s')"
  shows "acts A [] s s'"
proof -
  define x where "x = (if dd_knowledge d
      then ask env (\<lambda>log sid. de_Ingest env log sid (now env s)) (\<lambda>sid. IngestResolvedSession sid (now env s)) (ev_AggregateID item) s
      else (None, s))"
  obtain err s1 where x1: "x = (err, s1)" by fastforce
  have "acts A [] s s1"
    using x1 ingest_ok unfolding x_def by (auto split: if_split_asm dest!: ask_acts)
  moreover have "acts A [] s1 s'"
    using assms x1 fire_acts [OF event_types(2)] unfolding dispatchSessionClosed_def x_def [symmetric] by (cases err) auto
  ultimately show ?thesis by (rule acts_quiet)
qed

end

context event_calls begin

lemma dispatchDiagnosis_sound:
  assumes "dispatchDiagnosis env d item s = (r, s')"
  shows "sound A s s'"
proof (cases "GetSession (ev_AggregateID item) (ds_workflow s)")
  case (Inl err)
  then show ?thesis using assms by (simp add: dispatchDiagnosis_def sound_acts)
next
  case (Inr session)
  obtain p s1 where p: "plan_and_collect env d session s = (p, s1)" by fastforce
  note a1 = plan_and_collect_acts [OF p]
  show ?thesis
  proof (cases p)
    case (Inl err)
    then show ?thesis using assms \<open>GetSession _ _ = _\<close> p a1 by (simp add: dispatchDiagnosis_def sound_acts)
  next
    case (Inr q)
    obtain ctx binding plan ex where q: "q = (ctx, binding, plan, ex)" by (metis prod_cases4)
    let ?input = "\<lparr>di_SessionID = sd_SessionID session, di_Context = final_context (de_numeric env) session ctx plan ex,
      di_RoleModelBinding = binding\<rparr>"
    obtain f s2 where f: "ask env (de_FinalizeDiagnosis env) FinalizeDiagnosis ?input s1 = (f, s2)" by fastforce
    have a2: "acts A [] s s2" using ask_acts [OF f] finalize_ok a1 acts_quiet by simp
    note here = assms \<open>GetSession _ _ = _\<close> p Inr q f
    show ?thesis
    proof (cases f)
      case (Inl err)
      then show ?thesis using here a2 by (simp add: dispatchDiagnosis_def sound_acts)
    next
      case (Inr diagnosis)
      let ?dg = "prepared_diagnosis session plan ex diagnosis" and ?s0 = "others env s2"
        and ?order = "de_ranging env (ds_log s2)" and ?eid = "ev_EventID item"
      let ?r = "ApplyDiagnosis (now env s2) ?order ?eid ?dg (ds_workflow ?s0)"
      let ?s3 = "logged (Workflow (Diagnosed (now env s2) ?order ?eid ?dg)) (?s0\<lparr>ds_workflow := snd ?r\<rparr>)"
      have ap: "apply_diagnosis env ?eid ?dg s2 = (fst ?r, ?s3)"
        by (simp add: apply_diagnosis_def on_workflow_def Let_def case_prod_unfold)
      have "\<exists>k. acts A (take k (dispatched (fst ?r))) ?s3 s'"
      proof (cases "fst ?r")
        case (Inl err)
        then show ?thesis using here \<open>f = Inr diagnosis\<close> ap
          by (simp add: dispatchDiagnosis_def dispatched_def)
      next
        case (Inr res)
        then have "carry_out env session res ?s3 = (r, s')"
          using here \<open>f = Inr diagnosis\<close> ap by (simp add: dispatchDiagnosis_def)
        then show ?thesis using carry_out_acts Inr by (simp add: dispatched_def)
      qed
      then obtain k where "acts A (take k (started_by (Diagnosed (now env s2) ?order ?eid ?dg) (ds_workflow ?s0))) ?s3 s'"
        by (auto simp: started_by_def Let_def case_prod_unfold)
      then have "sound A ?s0 s'"
        using sound_operation [where A = A and op = "Diagnosed (now env s2) ?order ?eid ?dg"] diagnosed_ok
        by (simp add: Let_def case_prod_unfold)
      then show ?thesis using sound_acts [OF acts_quiet [OF a2 others_acts]] sound_trans by blast
    qed
  qed
qed

lemma dispatch_item_sound: "sound A s (dispatch_item env d item s)"
proof -
  obtain r s1 where d: "dispatch env d item s = (r, s1)" by fastforce
  have "sound A s s1"
    using d by (auto simp: dispatch_def split: if_split_asm
        intro: sound_acts dest!: dispatchDiagnosis_sound dispatchTelegramSend_acts dispatchSessionClosed_acts)
  moreover obtain u s2 where u: "resolve_event env (ev_EventID item) (case r of Inr res \<Rightarrow> res
      | Inl err \<Rightarrow> Decide (DefaultDeliveryPolicy (ev_Topic item)) (ev_Attempt item) (Some (error_text err))) s1 = (u, s2)"
    by fastforce
  moreover have "dispatch_item env d item s = s2" using d u by (simp add: dispatch_item_def Let_def)
  ultimately show ?thesis using sound_acts [OF operations_act(1) [OF u]] sound_trans by blast
qed

lemma dispatch_loop_sound: "sound A s (dispatch_loop env d items s)"
proof (induction items arbitrary: s)
  case (Cons item items)
  then show ?case using dispatch_item_sound sound_trans by fastforce
qed (simp add: sound_acts)

end

context dispatcher_calls begin

lemma RunOnce_sound: "sound A s (snd (RunOnce env d s))"
proof -
  obtain c s1 where c: "claim_events env 10 s = (c, s1)" by fastforce
  then show ?thesis
    using sound_acts [OF claim_events_acts [OF c]] dispatch_loop_sound sound_trans
    by (cases c) (auto simp: RunOnce_def)
qed

end

context handler_calls begin

lemma decided_sound:
  assumes "handle_channel env ev s = (r, s1)"
    and "case r of Inl _ \<Rightarrow> s' = s1 | Inr res \<Rightarrow> \<exists>out. processApprovalDispatch env ev res s1 = (out, s')"
  shows "sound A s s'"
proof -
  let ?op = "Channel (now env s) ev" and ?s0 = "others env s"
  let ?h = "HandleChannelEvent (now env s) ev (ds_workflow ?s0)"
  have r: "r = fst ?h" and s1: "s1 = logged (Workflow ?op) (?s0\<lparr>ds_workflow := snd (wf_exec ?op (ds_workflow ?s0))\<rparr>)"
    using assms(1) by (auto simp: handle_channel_def on_workflow_def Let_def case_prod_unfold)
  have st: "started_by ?op (ds_workflow ?s0) = dispatched r" by (simp add: started_by_def r Let_def case_prod_unfold)
  have "\<exists>k. acts A (take k (dispatched r)) s1 s'"
  proof (cases r)
    case (Inl err)
    then show ?thesis using assms(2) by (auto simp: dispatched_def)
  next
    case (Inr res)
    then show ?thesis using assms(2) processApprovalDispatch_acts by (auto simp: dispatched_def)
  qed
  then have "sound A ?s0 s'" using sound_operation [where A = A and op = ?op] channel_ok unfolding s1 st [symmetric] by blast
  then show ?thesis using sound_acts [OF others_acts] sound_trans by blast
qed

lemma telegram_callback_sound: "sound A s (snd (telegram_callback env ev s))"
proof -
  obtain r s1 where h: "handle_channel env ev s = (r, s1)" by fastforce
  then show ?thesis
    by (intro decided_sound [OF h])
      (auto simp: telegram_callback_def split: sum.split prod.split option.split)
qed

lemma executionActionHandler_sound: "sound A s (snd (executionActionHandler env who evaluate action rq s))"
proof (cases "snd (executionActionHandler env who evaluate action rq s) = s")
  case False
  then obtain p body where p: "requireAuthenticatedPrincipal who evaluate ''executions.write'' = Inr p" "action_body action (hq_Body rq) = Inr body"
    "hq_Method rq = ''POST''" "TrimSpace (fst (nestedResourcePath (hq_Path rq) ''/api/v1/executions/'')) \<noteq> []"
    by (auto simp: executionActionHandler_def Let_def split: if_split_asm sum.split_asm)
  let ?ev = "action_event (approvalActorID p) action (fst (nestedResourcePath (hq_Path rq) ''/api/v1/executions/'')) (hq_IdempotencyKey rq) body"
  obtain r s1 where h: "handle_channel env ?ev s = (r, s1)" by fastforce
  show ?thesis using p h
    by (intro decided_sound [OF h])
      (auto simp: executionActionHandler_def Let_def split: sum.split prod.split option.split)
qed (simp add: sound_acts)

end

section \<open>Runs of the system\<close>

text \<open>\<open>ActionRequest\<close> is a request to decide an execution, \<open>Callback\<close> a decision in a chat, \<open>Operator\<close> a command over a connector and
  \<open>Foreign\<close> an operation of any other part, with the commands it starts.\<close>

datatype sys_step =
    Cycle dispatch_env Dispatcher
  | Timeouts dispatch_env "string list" gotime
  | Startup dispatch_env
  | ActionRequest dispatch_env "Principal option" "(Principal \<Rightarrow> string \<Rightarrow> bool) option" string action_request
  | Callback dispatch_env ChannelEvent
  | Operator bool "(Principal \<Rightarrow> string \<Rightarrow> bool) option" "ConnManager option" bool operator_request
  | Foreign wf_op

fun sys_exec :: "sys_step \<Rightarrow> Dispatch \<Rightarrow> Dispatch" where
  "sys_exec (Cycle env d) s = snd (RunOnce env d s)"
| "sys_exec (Timeouts env order t) s = snd (timeout_RunOnce env order t s)"
| "sys_exec (Startup env) s = snd (start_recovery env s)"
| "sys_exec (ActionRequest env who evaluate action rq) s = snd (executionActionHandler env who evaluate action rq s)"
| "sys_exec (Callback env event) s = snd (telegram_callback env event s)"
| "sys_exec (Operator enabled evaluate manager action rq) s = operate (connectorExecutionHandler enabled evaluate manager action rq) s"
| "sys_exec (Foreign op) s = foreign s op"

fun sys_run :: "sys_step list \<Rightarrow> Dispatch \<Rightarrow> Dispatch" where
  "sys_run [] s = s"
| "sys_run (st # sts) s = sys_run sts (sys_exec st s)"

definition fresh :: "Options \<Rightarrow> TriggerWorker option \<Rightarrow> Dispatch" where
  "fresh opts w = \<lparr>ds_workflow = NewService opts, ds_triggers = w, ds_log = []\<rparr>"

text \<open>A command of an operator: an authenticated caller who may write connectors gives a reason, and the connector
  is registered, enabled, compatible and one that executes commands.\<close>

definition operated :: "sys_step list \<Rightarrow> ApprovedExecutionRequest \<Rightarrow> bool" where
  "operated sts x \<longleftrightarrow>
     (\<exists>evaluate m action rq p entry body. Operator True evaluate (Some m) action rq \<in> set sts \<and>
        oq_Authenticated rq = Some p \<and> (case evaluate of None \<Rightarrow> True | Some ev \<Rightarrow> ev p ''connectors.write'') \<and>
        oq_Body rq = Some body \<and> TrimSpace (ox_OperatorReason body) \<noteq> [] \<and>
        conn_Get (oq_ConnectorID rq) m = Some entry \<and>
        ValidateRuntimeManifest entry ''execution'' (sp_Protocol (mf_Spec entry)) [''jumpserver_api'', ''ssh_native''] = None \<and>
        xr_ConnectorID x = md_ID (mf_Metadata entry) \<and> xr_Protocol x = sp_Protocol (mf_Spec entry) \<and>
        xr_TargetHost x = TrimSpace (ox_TargetHost body) \<and> xr_Command x = TrimSpace (ox_Command body))"

lemma accepted_operated:
  assumes "Operator enabled evaluate manager action rq \<in> set sts"
    and "connectorExecutionHandler enabled evaluate manager action rq = Inr x"
  shows "operated sts x"
proof -
  from assms(2) obtain p entry where p: "oq_Method rq = ''POST''" "requireOpsAccess enabled evaluate rq = Inr p"
    "getConnectorEntry (oq_ConnectorID rq) manager = Inr entry"
    by (auto simp: connectorExecutionHandler_def split: if_split_asm sum.split_asm)
  from p(1,2) have access: "enabled" "oq_Authenticated rq = Some p" "case evaluate of None \<Rightarrow> True | Some ev \<Rightarrow> ev p ''connectors.write''"
    by (auto simp: requireOpsAccess_def split: if_split_asm option.split_asm)
  from p(3) obtain m where m: "manager = Some m" "conn_Get (oq_ConnectorID rq) m = Some entry"
    by (auto simp: getConnectorEntry_def split: option.split_asm)
  from assms(2) p obtain body where body: "oq_Body rq = Some body" "operator_command entry (oq_ExecutionID rq) body = Inr x"
    "ValidateRuntimeManifest entry ''execution'' (sp_Protocol (mf_Spec entry)) [''jumpserver_api'', ''ssh_native''] = None"
    by (auto simp: connectorExecutionHandler_def Let_def split: if_split_asm option.split_asm)
  from body(2) have "TrimSpace (ox_OperatorReason body) \<noteq> []" "xr_ConnectorID x = md_ID (mf_Metadata entry)"
    "xr_Protocol x = sp_Protocol (mf_Spec entry)" "xr_TargetHost x = TrimSpace (ox_TargetHost body)"
    "xr_Command x = TrimSpace (ox_Command body)"
    by (auto simp: operator_command_def Let_def split: if_split_asm)
  moreover have "Operator True evaluate (Some m) action rq \<in> set sts" using assms(1) access(1) m(1) by simp
  ultimately show ?thesis using access m(2) body(1,3) unfolding operated_def by blast
qed

text \<open>The calls of a run: the event of a requested approval is never fired, no capability is invoked without
  authorization, and a command of an operator comes from an accepted request.\<close>

definition usual :: "sys_step list \<Rightarrow> call \<Rightarrow> bool" where
  "usual sts c = (case c of
     Fired e \<Rightarrow> fe_EventType e \<noteq> EventOnApprovalRequested | InvokeCapability r \<Rightarrow> \<not> cq_SkipAuthorization r
   | OperatorExecute x \<Rightarrow> operated sts x | _ \<Rightarrow> True)"

interpretation any: dispatcher_calls "usual sts" env for sts env
  by unfold_locales (simp_all add: usual_def)

interpretation decision: handler_calls "usual sts" env for sts env
  by unfold_locales (simp_all add: usual_def)

lemma send_all_acts: "send_all env ms s = (r, s') \<Longrightarrow> acts (usual sts) [] s s'"
proof (induction ms arbitrary: s)
  case (Cons m ms)
  then show ?case by (auto split: prod.split_asm option.split_asm dest!: any.send_message_acts intro: acts_quiet)
qed simp

lemma operate_acts:
  assumes "Operator enabled evaluate manager action rq \<in> set sts"
  shows "acts (usual sts) [] s (operate (connectorExecutionHandler enabled evaluate manager action rq) s)"
proof (cases "connectorExecutionHandler enabled evaluate manager action rq")
  case (Inr x)
  then have "usual sts (OperatorExecute x)" using accepted_operated [OF assms] by (simp add: usual_def)
  from acts_logged [where A = "usual sts" and c = "OperatorExecute x", OF this] show ?thesis using Inr by (simp add: operate_def)
qed (simp add: operate_def)

lemma sys_exec_sound:
  assumes "st \<in> set sts"
  shows "sound (usual sts) s (sys_exec st s)"
proof (cases st)
  case (Cycle env d)
  then show ?thesis using any.RunOnce_sound by simp
next
  case (Timeouts env order t)
  obtain r s1 where r: "on_workflow env (Sweep (now env s) order t) (SweepApprovalTimeouts (now env s) order t) s = (r, s1)"
    by fastforce
  have a: "acts (usual sts) [] s s1" by (rule any.on_workflow_acts [OF r]) (simp_all add: usual_def Let_def case_prod_unfold)
  have "acts (usual sts) [] s1 (snd (timeout_RunOnce env order t s))"
    using r send_all_acts [OF prod.collapse [symmetric]] by (cases r) (simp_all add: timeout_RunOnce_def)
  then show ?thesis using a Timeouts acts_quiet sound_acts by auto
next
  case (Startup env)
  obtain r s1 where r: "on_workflow env Recovered RecoverPendingEvents s = (r, s1)" by fastforce
  have "acts (usual sts) [] s s1" by (rule any.on_workflow_acts [OF r]) (simp_all add: usual_def Let_def case_prod_unfold)
  then show ?thesis using Startup r by (simp add: start_recovery_def sound_acts)
next
  case (Operator enabled evaluate manager action rq)
  then show ?thesis using operate_acts assms by (simp add: sound_acts)
next
  case (Foreign op)
  then show ?thesis by (simp add: sound_acts acts_foreign usual_def)
qed (simp_all add: decision.executionActionHandler_sound decision.telegram_callback_sound)

lemma sys_run_sound: "set sts \<subseteq> set all \<Longrightarrow> sound (usual all) s (sys_run sts s)"
proof (induction sts arbitrary: s)
  case (Cons st sts)
  then show ?case using sys_exec_sound [of st all s] sound_trans by fastforce
qed (simp add: sound_acts)

lemma sys_run_fresh:
  "ds_workflow (sys_run sts (fresh opts w)) = snd (wf_run (ops (ds_log (sys_run sts (fresh opts w)))) (NewService opts))"
  "backed handed (NewService opts) (ds_log (sys_run sts (fresh opts w)))"
  "list_all (usual sts) (ds_log (sys_run sts (fresh opts w)))"
  using sys_run_sound [OF subset_refl, of sts "fresh opts w"] by (auto simp: sound_def effect_def fresh_def)

section \<open>Example runs\<close>

text \<open>Services that fail, but for a planner without tools and a diagnosis that proposes a command; an alert whose
  command the policy lets run directly.\<close>

definition example_env :: dispatch_env where
  "example_env =
     \<lparr>de_clock = (\<lambda>n. 200 + int n),
      de_numeric = \<lparr>me_usage = (\<lambda>_ _ _. ([], None)), me_forecast = (\<lambda>_ _ _. ([], None)), me_json = (\<lambda>_. None),
        me_chart = (\<lambda>_ _. None), me_numeric = (\<lambda>_. False), me_ge85 = (\<lambda>_. False), me_le_half = (\<lambda>_. False)\<rparr>,
      de_QueryMetrics = (\<lambda>_ _. Inl ErrNotFound), de_Search = (\<lambda>_ _. Inr []),
      de_InvokeCapability = (\<lambda>_ _. (\<lparr>cp_Status = ''denied'', cp_Output = [], cp_Artifacts = [], cp_Metadata = [],
        cp_Error = [], cp_Runtime = None\<rparr>, None)),
      de_InvokeApproved = (\<lambda>_ _. Inl ErrNotFound), de_ExecuteApproved = (\<lambda>_ _. Inl ErrNotFound),
      de_VerifyExecution = (\<lambda>_ _. Inl ErrNotFound),
      de_PlanDiagnosis = (\<lambda>_ _. Inr zero_DiagnosisPlan), de_FinalizeDiagnosis = (\<lambda>_ _. Inr (disk_diagnosis ''df -h'')),
      de_SendMessage = (\<lambda>_ _. None), de_Ingest = (\<lambda>_ _ _. None), de_encode = (\<lambda>_. Inr []), de_decode = (\<lambda>_. Inl []),
      de_ranging = (\<lambda>_. []), de_triggers = (\<lambda>_. []), de_keys = (\<lambda>_. []), de_triggerSend = (\<lambda>_ _ _. None),
      de_others = (\<lambda>_. [])\<rparr>"

definition example_dispatcher :: Dispatcher where
  "example_dispatcher = \<lparr>dd_connectors = None, dd_skills = None, dd_agentRoles = None, dd_knowledge = True\<rparr>"

definition example_run :: "sys_step list" where
  "example_run = [Foreign (Alert 100 db_alert_event),
     Foreign (Reconfigured None (Some (EvaluateSSHCommand (Some (New example_policy)))) None None None),
     Cycle example_env example_dispatcher]"

definition claimed_session :: Service where
  "claimed_session = snd (ClaimEvents 202 10 governed_session)"

lemma claimed_items:
  "map_sum (\<lambda>_. ()) (map (\<lambda>i. (ev_EventID i, ev_AggregateID i, ev_Topic i))) (fst (ClaimEvents 202 10 governed_session)) =
     Inr [(''evt-000001'', ''ses-000001'', ''session.analyze_requested'')]"
  by code_simp

lemma claimed_found: "(case GetSession ''ses-000001'' claimed_session of Inr r \<Rightarrow> True | Inl _ \<Rightarrow> False)"
  by code_simp

definition example_diagnosis :: DiagnosisOutput where
  "example_diagnosis = prepared_diagnosis (projr (GetSession ''ses-000001'' claimed_session)) zero_DiagnosisPlan
     \<lparr>xt_Context = [], xt_Attachments = [], xt_ExecutedPlan = []\<rparr> (disk_diagnosis ''df -h'')"

definition disk_command :: ApprovedExecutionRequest where
  "disk_command = \<lparr>xr_ExecutionID = ''exe-000001'', xr_SessionID = ''ses-000001'', xr_TargetHost = ''db-1'', xr_Command = ''df -h'',
     xr_Service = [], xr_ConnectorID = [], xr_ConnectorType = [], xr_ConnectorVendor = [], xr_Protocol = ''ssh'', xr_ExecutionMode = ''ssh''\<rparr>"

lemma disk_command_dispatched:
  "dispatched (fst (ApplyDiagnosis 205 [] ''evt-000001'' example_diagnosis claimed_session)) = [disk_command]"
  by code_simp

lemma example_services [simp]:
  "de_clock example_env n = 200 + int n" "de_others example_env cs = []" "de_ranging example_env cs = []"
  "de_PlanDiagnosis example_env cs i = Inr zero_DiagnosisPlan"
  "de_FinalizeDiagnosis example_env cs i = Inr (disk_diagnosis ''df -h'')" "de_SendMessage example_env cs m = None"
  by (simp_all add: example_env_def)

lemma example_skills [simp]: "dd_skills example_dispatcher = None"
  by (simp add: example_dispatcher_def)

lemma example_others [simp]: "others example_env s = s"
  by (simp add: others_def)

lemma example_sent: "each (notify example_env sid) ms s = (Inr (), foldl (\<lambda>s m. logged (SendMessage m) s) s ms)"
  by (induction ms arbitrary: s) (simp_all add: notify_def send_message_def ask_def Let_def)

lemma executed_split: "x \<in> set (executed cs) \<Longrightarrow> \<exists>pre post. cs = pre @ ExecuteApproved x # post"
  using split_list [of "ExecuteApproved x" cs] by (auto simp: executed_def split: call.split_asm)

lemma acts_executes: "acts A xs s s' \<Longrightarrow> set xs \<union> set (executed (ds_log s)) \<subseteq> set (executed (ds_log s'))"
  by (auto simp: acts_def effect_def)

lemma example_prepared:
  assumes "ds_workflow s = claimed_session" and "length (ds_log s) = 3" and "ev_EventID item = ''evt-000001''"
    and "ev_AggregateID item = ''ses-000001''"
  obtains session res s3 where "dispatchDiagnosis example_env example_dispatcher item s = carry_out example_env session res s3"
    and "fst (ApplyDiagnosis 205 [] ''evt-000001'' example_diagnosis claimed_session) = Inr res"
    and "ds_workflow s3 = snd (ApplyDiagnosis 205 [] ''evt-000001'' example_diagnosis claimed_session)" and "length (ds_log s3) = 6"
proof -
  define session where "session = projr (GetSession ''ses-000001'' claimed_session)"
  let ?none = "\<lparr>xt_Context = [], xt_Attachments = [], xt_ExecutedPlan = []\<rparr>"
  have session: "GetSession ''ses-000001'' claimed_session = Inr session"
    using claimed_found by (auto simp: session_def split: sum.split_asm)
  have dg: "prepared_diagnosis session zero_DiagnosisPlan ?none (disk_diagnosis ''df -h'') = example_diagnosis"
    by (simp add: example_diagnosis_def session_def)
  obtain ctx b s1 where p: "plan_and_collect example_env example_dispatcher session s = (Inr (ctx, b, zero_DiagnosisPlan, ?none), s1)"
    and s1: "ds_workflow s1 = claimed_session" "length (ds_log s1) = 4"
  proof -
    obtain c0 b where b: "base_context example_dispatcher session = (c0, b)" by fastforce
    show thesis
      by (rule that [of c0 b "logged (PlanDiagnosis \<lparr>di_SessionID = sd_SessionID session, di_Context = c0, di_RoleModelBinding = b\<rparr>) s"])
        (use assms(1,2) in \<open>simp_all add: plan_and_collect_def b skill_plan_def
          ask_def Let_def executeToolPlan_def zero_DiagnosisPlan_def logged_def\<close>)
  qed
  let ?s2 = "logged (FinalizeDiagnosis \<lparr>di_SessionID = sd_SessionID session,
      di_Context = final_context (de_numeric example_env) session ctx zero_DiagnosisPlan ?none, di_RoleModelBinding = b\<rparr>) s1"
  let ?r = "ApplyDiagnosis 205 [] ''evt-000001'' example_diagnosis claimed_session"
  let ?s3 = "logged (Workflow (Diagnosed 205 [] ''evt-000001'' example_diagnosis)) (?s2\<lparr>ds_workflow := snd ?r\<rparr>)"
  have ap: "apply_diagnosis example_env ''evt-000001'' example_diagnosis ?s2 = (fst ?r, ?s3)"
    using s1 by (simp add: apply_diagnosis_def on_workflow_def Let_def case_prod_unfold now_def logged_def)
  obtain res where r: "fst ?r = Inr res" using disk_command_dispatched by (cases "fst ?r") (auto simp: dispatched_def)
  have "dispatchDiagnosis example_env example_dispatcher item s = carry_out example_env session res ?s3"
    using session p assms(1,3,4) ap r dg by (simp add: dispatchDiagnosis_def Let_def ask_def)
  moreover have "ds_workflow ?s3 = snd ?r" "length (ds_log ?s3) = 6" using s1 by (simp_all add: logged_def)
  ultimately show thesis using r that by blast
qed

lemma example_diagnosed:
  assumes "ds_workflow s = claimed_session" and "length (ds_log s) = 3" and "ev_EventID item = ''evt-000001''"
    and "ev_AggregateID item = ''ses-000001''" and "ev_Topic item = ''session.analyze_requested''"
  shows "disk_command \<in> set (executed (ds_log (dispatch_item example_env example_dispatcher item s)))"
proof -
  obtain session res s3 where c: "dispatchDiagnosis example_env example_dispatcher item s = carry_out example_env session res s3"
    and res: "fst (ApplyDiagnosis 205 [] ''evt-000001'' example_diagnosis claimed_session) = Inr res"
    by (rule example_prepared [OF assms(1-4)])
  have x: "wd_Executions res = [disk_command]" using disk_command_dispatched res by (simp add: dispatched_def)
  obtain out s4 where d: "carry_out example_env session res s3 = (out, s4)" by fastforce
  moreover obtain u s5 where x5: "runImmediateExecution example_env disk_command
      (foldl (\<lambda>s m. logged (SendMessage m) s) s3 (wd_Notifications res)) = (u, s5)"
    by fastforce
  ultimately have "acts (usual []) [] s5 s4"
    using any.each_acts [OF _ any.runImmediateCapability_acts]
    by (auto simp: carry_out_def example_sent x split: sum.split_asm prod.split_asm)
  then have "disk_command \<in> set (executed (ds_log s4))"
    using acts_executes [OF any.runImmediateExecution_acts [OF x5]] acts_executes [of "usual []" "[]" s5 s4] by auto
  moreover obtain v s6 where v: "resolve_event example_env (ev_EventID item) (case out of Inr res \<Rightarrow> res
      | Inl err \<Rightarrow> Decide (DefaultDeliveryPolicy (ev_Topic item)) (ev_Attempt item) (Some (error_text err))) s4 = (v, s6)"
    by fastforce
  moreover have "dispatch_item example_env example_dispatcher item s = s6"
    using c d v assms(5) by (simp add: dispatch_item_def dispatch_def Let_def)
  ultimately show ?thesis using acts_executes [OF any.operations_act(1) [OF v]] by auto
qed

lemma example_dispatches: "disk_command \<in> set (executed (ds_log (sys_run example_run (fresh plain_options None))))"
proof -
  let ?s = "foreign (foreign (fresh plain_options None) (Alert 100 db_alert_event))
     (Reconfigured None (Some (EvaluateSSHCommand (Some (New example_policy)))) None None None)"
  have w: "ds_workflow ?s = governed_session" "length (ds_log ?s) = 2"
    unfolding foreign_def fresh_def logged_def governed_session_def one_session_def started_by_def
    by (simp_all add: Let_def case_prod_unfold)
  obtain item where item: "fst (ClaimEvents 202 10 governed_session) = Inr [item]" "ev_EventID item = ''evt-000001''"
    "ev_AggregateID item = ''ses-000001''" "ev_Topic item = ''session.analyze_requested''"
    using claimed_items by (cases "fst (ClaimEvents 202 10 governed_session)") auto
  let ?s1 = "logged (Workflow (Claimed 202 10)) (?s\<lparr>ds_workflow := claimed_session\<rparr>)"
  have "claim_events example_env 10 ?s = (Inr [item], ?s1)"
    unfolding claim_events_def on_workflow_def Let_def example_others w now_def example_services
    by (simp add: item(1) claimed_session_def [symmetric] case_prod_unfold)
  then have "sys_run example_run (fresh plain_options None) = dispatch_item example_env example_dispatcher item ?s1"
    by (simp add: example_run_def RunOnce_def)
  moreover have "ds_workflow ?s1 = claimed_session" "length (ds_log ?s1) = 3" using w(2) by (simp_all add: logged_def)
  ultimately show ?thesis using example_diagnosed [OF _ _ item(2-4), of ?s1] by simp
qed

text \<open>A run whose diagnosis cannot be planned.\<close>

definition stuck_env :: dispatch_env where
  "stuck_env = example_env\<lparr>de_PlanDiagnosis := \<lambda>_ _. Inl ErrNotFound\<rparr>"

definition stuck_run :: "sys_step list" where
  "stuck_run = [Foreign (Alert 100 db_alert_event), Cycle stuck_env example_dispatcher]"

lemma stuck_services [simp]: "de_PlanDiagnosis stuck_env cs i = Inl ErrNotFound" "de_clock stuck_env n = 200 + int n"
  "others stuck_env s = s"
  by (simp_all add: stuck_env_def others_def)

lemma stuck_claim:
  "map_sum (\<lambda>_. ()) (map (\<lambda>i. (ev_EventID i, ev_AggregateID i, ev_Topic i))) (fst (ClaimEvents 201 10 one_session)) =
     Inr [(''evt-000001'', ''ses-000001'', ''session.analyze_requested'')]"
  "(case GetSession ''ses-000001'' (snd (ClaimEvents 201 10 one_session)) of Inr r \<Rightarrow> True | Inl _ \<Rightarrow> False)"
  "ws_seq (snd (ClaimEvents 201 10 one_session)) = 1" "ws_outboxSeq (snd (ClaimEvents 201 10 one_session)) = 1"
  "ws_executionSeq (snd (ClaimEvents 201 10 one_session)) = 0"
  by code_simp+

lemma stuck_cycle:
  assumes "ds_workflow s = one_session" and "length (ds_log s) = 1"
  shows "\<exists>item s1 i dv. claim_events stuck_env 10 s = (Inr [item], s1) \<and> ev_EventID item = ''evt-000001'' \<and>
    ds_log (snd (RunOnce stuck_env example_dispatcher s)) =
      ds_log s @ [Workflow (Claimed 201 10), PlanDiagnosis i, Workflow (Resolved 203 ''evt-000001'' dv)]"
proof -
  let ?c = "ClaimEvents 201 10 one_session"
  obtain item where item: "fst ?c = Inr [item]" "ev_EventID item = ''evt-000001''"
    "ev_AggregateID item = ''ses-000001''" "ev_Topic item = ''session.analyze_requested''"
    using stuck_claim(1) by (cases "fst ?c") auto
  obtain session where session: "GetSession ''ses-000001'' (snd ?c) = Inr session" using stuck_claim(2) by (auto split: sum.split_asm)
  let ?s1 = "logged (Workflow (Claimed 201 10)) (s\<lparr>ds_workflow := snd ?c\<rparr>)"
  have c: "claim_events stuck_env 10 s = (Inr [item], ?s1)"
    using assms item(1) by (simp add: claim_events_def on_workflow_def Let_def now_def case_prod_unfold)
  obtain c0 b where b: "base_context example_dispatcher session = (c0, b)" by fastforce
  let ?i = "\<lparr>di_SessionID = sd_SessionID session, di_Context = c0, di_RoleModelBinding = b\<rparr>"
  have "dispatch stuck_env example_dispatcher item ?s1 = (Inl (wrapped ''plan diagnosis'' ErrNotFound), logged (PlanDiagnosis ?i) ?s1)"
    using item session by (simp add: dispatch_def dispatchDiagnosis_def plan_and_collect_def b skill_plan_def ask_def Let_def logged_def)
  then have "snd (RunOnce stuck_env example_dispatcher s) = snd (resolve_event stuck_env ''evt-000001''
      (Decide (DefaultDeliveryPolicy (ev_Topic item)) (ev_Attempt item) (Some (error_text (wrapped ''plan diagnosis'' ErrNotFound))))
      (logged (PlanDiagnosis ?i) ?s1))"
    using c item(2) by (simp add: RunOnce_def dispatch_item_def Let_def)
  then show ?thesis using c item(2) assms(2)
    by (auto simp: resolve_event_def on_workflow_def Let_def case_prod_unfold logged_def now_def)
qed

lemma stuck_room: "run_room [Claimed 201 10, Resolved 203 eid dv] one_session"
  by (simp add: op_room_def ids_left_def one_session_counters Let_def case_prod_unfold stuck_claim)

lemma stuck_start: "ds_workflow (foreign (fresh plain_options None) (Alert 100 db_alert_event)) = one_session"
  "ds_log (foreign (fresh plain_options None) (Alert 100 db_alert_event)) = [Workflow (Alert 100 db_alert_event)]"
  by (simp_all add: foreign_def logged_def fresh_def one_session_def started_by_def Let_def case_prod_unfold)

lemma stuck_run_ok:
  "run_room (ops (ds_log (sys_run stuck_run (fresh plain_options None)))) (NewService plain_options)"
  "list_all op_regular (ops (ds_log (sys_run stuck_run (fresh plain_options None))))"
proof -
  obtain i dv where l: "ops (ds_log (sys_run stuck_run (fresh plain_options None))) =
      [Alert 100 db_alert_event, Claimed 201 10, Resolved 203 ''evt-000001'' dv]"
    using stuck_cycle [OF stuck_start(1)] stuck_start(2) by (auto simp: stuck_run_def)
  have "op_room (Alert 100 db_alert_event) (NewService plain_options)"
    by (simp add: op_room_def ids_left_def NewService_def Let_def)
  then show "run_room (ops (ds_log (sys_run stuck_run (fresh plain_options None)))) (NewService plain_options)"
    using stuck_room unfolding l by (simp add: one_session_def)
  show "list_all op_regular (ops (ds_log (sys_run stuck_run (fresh plain_options None))))" unfolding l by simp
qed

text \<open>The operation behind a command, and the calls before it.\<close>

definition decided_before :: "Options \<Rightarrow> call list \<Rightarrow> ApprovedExecutionRequest \<Rightarrow> bool" where
  "decided_before opts pre x \<longleftrightarrow>
     (\<exists>p1 op p2. pre = p1 @ Workflow op # p2 \<and>
        (granted (snd (wf_run (ops p1) (NewService opts))) op x \<or> approved (snd (wf_run (ops p1) (NewService opts))) op x))"

lemma handed_decided:
  assumes "ds_log (sys_run sts (fresh opts w)) = pre @ c # post" and "c = ExecuteApproved x \<or> c = Handed x"
  shows "decided_before opts pre x"
proof -
  obtain p1 op p2 where "pre = p1 @ Workflow op # p2" "x \<in> set (started_by op (snd (wf_run (ops p1) (NewService opts))))"
    using sys_run_fresh(2) [of opts sts w] assms unfolding backed_def handed_cases [symmetric] by blast
  then show ?thesis unfolding decided_before_def using started_decided by blast
qed

section \<open>Properties of runs\<close>

text \<open>C6: every command handed to the executor has a decision behind it.  In every run of the system, of the
  dispatcher, the HTTP handlers, the chat and other goroutines, a command that any of them hands to the
  executor was started by an earlier operation of the workflow: by a diagnosis whose command the policy
  answered with direct execution, asked for this command on this host and service, or by the approval of
  a pending execution, on the host it was drafted for.  The only other commands are those of operators,
  sent by an authenticated caller with a reason over a registered connector, with the permission to
  write connectors where access control is configured.
\<close>
theorem executor_commands_decided:
  assumes "ds_log (sys_run sts (fresh opts w)) = pre @ c # post" and "c \<in> {ExecuteApproved x, Handed x, OperatorExecute x}"
  shows "(c \<noteq> OperatorExecute x \<and> decided_before opts pre x) \<or> (c = OperatorExecute x \<and> operated sts x)"
proof (cases "c = OperatorExecute x")
  case True
  then show ?thesis using sys_run_fresh(3) [of sts opts w] assms(1) by (simp add: usual_def)
next
  case False
  then show ?thesis using handed_decided [OF assms(1)] assms(2) by blast
qed

theorem executor_commands_decided_witness:
  "\<exists>pre x post. ds_log (sys_run example_run (fresh plain_options None)) = pre @ ExecuteApproved x # post \<and>
     xr_Command x = ''df -h'' \<and> decided_before plain_options pre x"
proof -
  obtain pre post where l: "ds_log (sys_run example_run (fresh plain_options None)) = pre @ ExecuteApproved disk_command # post"
    using example_dispatches executed_split by blast
  moreover have "xr_Command disk_command = ''df -h''" by (simp add: disk_command_def)
  ultimately show ?thesis using executor_commands_decided [OF l, of disk_command] by blast
qed

text \<open>C7: an execution runs at most once.  In every run of the system in which no counter wraps and results report
  a final status, no execution of the workflow is handed to the executor twice, by the dispatcher, a
  handler or another goroutine, across retries, recoveries and replays.
\<close>
theorem executor_called_once:
  assumes "s = sys_run sts (fresh opts w)" and "run_room (ops (ds_log s)) (NewService opts)"
    and "list_all op_regular (ops (ds_log s))"
  shows "length (filter (\<lambda>x. xr_ExecutionID x = eid) (handed_over (ds_log s))) \<le> 1"
proof -
  have "no_early (NewService opts)" "budget (NewService opts) eid \<le> 1"
    by (simp_all add: no_early_def budget_def NewService_def Let_def split: option.split)
  then have "dispatches eid (fst (wf_run (ops (ds_log s)) (NewService opts))) \<le> 1"
    using run_dispatches [OF wf_New _ assms(2), of eid] assms(3) by (fastforce simp: list_all_iff)
  moreover have "dispatches eid (handed_over (ds_log s)) \<le> dispatches eid (fst (wf_run (ops (ds_log s)) (NewService opts)))"
    using sys_run_fresh(2) [of opts sts w] assms(1) unfolding backed_def handed_over_def by blast
  ultimately show ?thesis by (simp add: dispatches_def)
qed

theorem executor_called_once_witness:
  "length (filter (\<lambda>x. xr_ExecutionID x = ''exe-000001'') (handed_over (ds_log (sys_run stuck_run (fresh plain_options None))))) \<le> 1"
  by (rule executor_called_once [OF refl stuck_run_ok])

text \<open>C40: the event \<open>on_approval_requested\<close> is never fired.  The dispatcher fires it when an execution result leaves
  the session waiting for an approval, and no execution result does: the session is then failed or being
  verified.  In no run of the system does a trigger for requested approvals hear of one.
\<close>
theorem approval_trigger_never_fires:
  "list_all (\<lambda>c. case c of Fired e \<Rightarrow> fe_EventType e \<noteq> EventOnApprovalRequested | _ \<Rightarrow> True) (ds_log (sys_run sts (fresh opts w)))"
  using sys_run_fresh(3) [of sts opts w] by (rule list.pred_mono_strong) (simp add: usual_def split: call.split_asm)

end
