(* ===== verification/Dispatcher_Progress.thy ===== *)
theory Dispatcher_Progress
  imports Dispatcher_Laws
begin

text \<open>
  A cycle of the dispatcher leaves no event behind: every event it claims is acknowledged, scheduled for a
  retry or dead-lettered, whatever the services answer and whatever other parts do in between.
\<close>

section \<open>Events that are not being processed\<close>

definition parked :: "Service \<Rightarrow> string \<Rightarrow> bool" where
  "parked w eid \<longleftrightarrow> eid \<in> issued ''evt'' (ws_outboxSeq w) \<and> event_status w eid \<noteq> Some ''processing''"

text \<open>\<open>parks w w'\<close>: no event that was issued has gone into processing.\<close>

definition parks :: "Service \<Rightarrow> Service \<Rightarrow> bool" where
  "parks w w' \<longleftrightarrow> issued ''evt'' (ws_outboxSeq w) \<subseteq> issued ''evt'' (ws_outboxSeq w') \<and>
     (\<forall>eid. parked w eid \<longrightarrow> event_status w' eid \<noteq> Some ''processing'')"

lemma parksD: "parks w w' \<Longrightarrow> parked w eid \<Longrightarrow> parked w' eid"
  by (auto simp: parks_def parked_def)

lemma parks_trans: "parks w w' \<Longrightarrow> parks w' w'' \<Longrightarrow> parks w w''"
  unfolding parks_def parked_def by blast

lemma parks_status:
  "ws_outboxSeq w' = ws_outboxSeq w \<Longrightarrow> (\<And>eid. event_status w' eid = Some ''processing'' \<Longrightarrow> event_status w eid = Some ''processing'') \<Longrightarrow>
     parks w w'"
  by (auto simp: parks_def parked_def)

lemma parks_same: "ws_outboxSeq w' = ws_outboxSeq w \<Longrightarrow> ws_outbox w' = ws_outbox w \<Longrightarrow> parks w w'"
  by (rule parks_status) (simp_all add: event_status_def)

lemma parks_refl [simp]: "parks w w"
  by (simp add: parks_same)

lemma parks_publish:
  assumes "room (ws_outboxSeq w)"
  shows "parks w (snd (publishEventLocked t rq w))"
proof -
  obtain e where "ws_outbox (snd (publishEventLocked t rq w)) = (ws_outbox w)(format_id ''evt'' (unat (ws_outboxSeq w + 1)) \<mapsto> e)"
    using publish_outbox by blast
  then show ?thesis
    using issued_fresh [OF assms] issued_step [OF assms] by (auto simp: parks_def parked_def event_status_def)
qed

lemma parks_closed: "room (ws_outboxSeq w) \<Longrightarrow> parks w (enqueueSessionClosed t sid u w)"
  using enqueueSessionClosed_eq [of t sid u w] parks_publish by metis

lemma parks_put_session [simp]: "parks w (put_session sid r w') = parks w w'"
  by (simp add: parks_def parked_def event_status_def)

lemma parks_resolveChat: "room (ws_outboxSeq w) \<Longrightarrow> parks w (snd (resolveChatWithoutExecution t r u src m w))"
  by (simp add: resolveChatWithoutExecution_def Let_def parks_closed)

lemma parks_add_execution: "parks w (add_execution n e sid w)"
  by (rule parks_same) (simp_all add: add_execution_def)

lemma parks_Alert:
  assumes "room (ws_outboxSeq w)"
  shows "parks w (snd (HandleAlertEvent t ev w))"
proof -
  have opened: "ws_outboxSeq (opened_state ev u fp w) = ws_outboxSeq w" "ws_outbox (opened_state ev u fp w) = ws_outbox w" for u fp
    by (simp_all add: opened_state_def nextID_def Let_def)
  have "parks w (snd (alert_opened t ev u fp w))" for u fp
    unfolding alert_opened_eq snd_conv
    by (rule parks_trans [OF parks_same parks_publish]) (simp_all add: opened assms)
  then show ?thesis
    by (auto simp: HandleAlertEvent_def alert_repeated_def Let_def parks_same split: option.split)
qed

lemma parks_Channel: "parks w (snd (HandleChannelEvent t ev w))"
  by (rule parks_same)
    (auto simp: HandleChannelEvent_def handle_approve_def approve_capability_def approve_manual_def approve_execute_def
      handle_reject_def handle_request_context_def Let_def split: option.split)

lemma parks_Verified: "room (ws_outboxSeq w) \<Longrightarrow> parks w (snd (HandleVerificationResult t res w))"
  by (auto simp: HandleVerificationResult_def Let_def parks_closed split: option.split)

lemma parks_results:
  "parks w (snd (HandleExecutionResult t res w))" "parks w (snd (HandleCapabilityResult t cres w))"
  "parks w (snd (CreateCapabilityApproval t req w))"
  by (rule parks_same; auto simp: HandleExecutionResult_def HandleCapabilityResult_def CreateCapabilityApproval_def
      add_execution_def Let_def split: option.split prod.split)+

lemma parks_branches:
  assumes "room (ws_outboxSeq w)"
  shows "parks w (snd (snd (snd (diagnosis_direct t r c d tg src w))))"
    and "parks w (snd (snd (snd (diagnosis_approval t r c d route tg src w))))"
    and "parks w (snd (snd (snd (diagnosis_suggest t r c d tg src w))))"
    and "parks w (snd (snd (snd (diagnosis_deny t r c d tg src w))))"
  using assms
  by (simp_all add: diagnosis_direct_def diagnosis_approval_def diagnosis_suggest_def diagnosis_deny_def Let_def case_prod_unfold
      parks_resolveChat parks_add_execution)

lemma parks_decide:
  assumes "room (ws_outboxSeq w)"
  shows "parks w (snd (snd (snd (diagnosis_decide t r h route tg w))))"
proof (cases "h = []")
  case True
  then show ?thesis using assms by (simp add: diagnosis_decide_def Let_def case_prod_unfold parks_resolveChat)
next
  case False
  have "parks w (snd (snd (snd (diagnosis_hint t r h route tg src w))))" for src
    using assms by (simp add: diagnosis_hint_def Let_def parks_branches)
  then show ?thesis using False by (simp add: diagnosis_decide_def Let_def case_prod_unfold)
qed

lemma parks_Diagnosed:
  assumes "room (ws_outboxSeq w)"
  shows "parks w (snd (ApplyDiagnosis t order eid d w))"
proof (cases "ApplyDiagnosis t order eid d w")
  case (Pair r w')
  show ?thesis
  proof (cases r)
    case (Inl err)
    then have "w' = w" using Pair by (auto simp: ApplyDiagnosis_def Let_def split: option.split_asm prod.split_asm)
    then show ?thesis using Pair by simp
  next
    case (Inr res)
    from Pair [unfolded Inr] show ?thesis
    proof (rule ApplyDiagnosis_success)
      fix event r0 r2 r3 ms w1
      assume dec: "diagnosis_decide t r2 (do_ExecutionHint (effective_diagnosis order d w)) (diagnosis_route w (sd_Alert (sr_detail r0)))
          (selectDiagnosisNotificationTarget (sd_Alert (sr_detail r0)) (diagnosis_route w (sd_Alert (sr_detail r0)))) w
          = (r3, ms, wd_Executions res, w1)"
        and w': "w' = put_session (ob_AggregateID event)
          (timeline_add ''diagnosis_completed'' (do_Summary (effective_diagnosis order d w)) t r3) w1"
      have "w1 = snd (snd (snd (diagnosis_decide t r2 (do_ExecutionHint (effective_diagnosis order d w))
          (diagnosis_route w (sd_Alert (sr_detail r0))) (selectDiagnosisNotificationTarget (sd_Alert (sr_detail r0))
          (diagnosis_route w (sd_Alert (sr_detail r0)))) w)))"
        by (simp add: dec)
      then have "parks w w1" using parks_decide [OF assms] by simp
      then show ?thesis using Pair w' by simp
    qed
  qed
qed

lemma parks_Sweep: "parks w (snd (SweepApprovalTimeouts t order u w))"
proof -
  have "ws_outboxSeq (snd (sweep_loop v ids ns w)) = ws_outboxSeq w \<and> ws_outbox (snd (sweep_loop v ids ns w)) = ws_outbox w" for v ids ns
    by (induction v ids ns w rule: sweep_loop.induct) (auto simp: Let_def split: option.split)
  then show ?thesis by (simp add: SweepApprovalTimeouts_def Let_def case_prod_unfold parks_same)
qed

lemma parks_Notified: "length ms \<le> ids_left w \<Longrightarrow> parks w (snd (EnqueueNotifications enc t sid ms w))"
proof (induction ms arbitrary: w)
  case (Cons m ms)
  show ?case
  proof (cases "enc m")
    case (Inr payload)
    let ?rq = "zero_EventPublishRequest\<lparr>pr_Topic := ''telegram.send'', pr_AggregateID := sid,
      pr_Payload := payload, pr_Status := ''pending'', pr_CreatedAt := t, pr_AvailableAt := t\<rparr>"
    obtain e w1 where e: "publishEventLocked t ?rq w = (Inr e, w1)" using publish_Inr by blast
    have rm: "room (ws_outboxSeq w)" using Cons.prems by (intro ids_left_room) simp
    have "ids_left w \<le> ids_left w1 + 1"
      using unat_room [OF rm] publish_frame(12) [of t ?rq w] unfolding e snd_conv by (simp add: ids_left_def)
    then have "parks w1 (snd (EnqueueNotifications enc t sid ms w1))" using Cons by simp
    moreover have "parks w w1" using parks_publish [OF rm, of t ?rq] unfolding e by simp
    ultimately show ?thesis using e Inr parks_trans by simp
  qed simp
qed simp

lemma parks_outbox:
  "parks w (snd (ResolveEvent t eid res w))" "parks w (snd (MarkOutboxFailed t eid err w))"
  "parks w (snd (ReplayOutbox t eid m w))" "parks w (snd (DeleteOutbox t eid m w))"
  by (rule parks_status; auto simp: ResolveEvent_def MarkOutboxFailed_def ReplayOutbox_def DeleteOutbox_def event_status_def Let_def
      split: option.splits if_splits)+

lemma parks_Recovered: "outbox_ok w \<Longrightarrow> parks w (snd (RecoverPendingEvents w))"
proof (rule parks_status)
  fix eid
  assume "outbox_ok w" and "event_status (snd (RecoverPendingEvents w)) eid = Some ''processing''"
  then show "event_status w eid = Some ''processing''"
    by (auto simp: RecoverPendingEvents_eq mark_pending_def event_status_def split: if_split_asm)
qed (simp add: RecoverPendingEvents_eq mark_pending_def)

lemma parks_exec:
  assumes "wf_service w" and "op_room op w" and "\<forall>t n. op \<noteq> Claimed t n"
  shows "parks w (snd (wf_exec op w))"
proof -
  have ok: "outbox_ok w" using assms(1) by (simp add: wf_service_def)
  have rm: "room (ws_outboxSeq w)" if "\<forall>enc t sid ms. op \<noteq> Notified enc t sid ms"
    using assms(2) that by (intro ids_left_room) (cases op; simp add: op_room_def)
  show ?thesis
  proof (cases op)
    case (Notified enc t sid ms)
    then show ?thesis using assms(2) by (simp add: op_room_def parks_Notified Let_def case_prod_unfold)
  next
    case (Reconfigured a b c d e)
    then show ?thesis by (simp add: parks_same)
  qed (use assms(3) rm ok in \<open>simp_all add: Let_def case_prod_unfold PublishEvent_def parks_publish parks_Alert parks_Channel
      parks_Verified parks_results parks_Diagnosed parks_Sweep parks_outbox parks_Recovered\<close>)
qed

text \<open>Calls other than claiming.\<close>

definition no_claim :: "call \<Rightarrow> bool" where
  "no_claim c \<longleftrightarrow> (\<forall>t n. c \<noteq> Workflow (Claimed t n))"

lemma parks_run:
  assumes "wf_service w" and "run_room (ops cs) w" and "list_all no_claim cs"
  shows "parks w (snd (wf_run (ops cs) w))"
  using assms
proof (induction cs arbitrary: w)
  case (Cons c cs)
  show ?case
  proof (cases "\<exists>op. c = Workflow op")
    case True
    then obtain op where op: "c = Workflow op" ..
    then have "op_room op w" "run_room (ops cs) (snd (wf_exec op w))" "\<forall>t n. op \<noteq> Claimed t n"
      using Cons.prems by (auto simp: no_claim_def)
    then show ?thesis
      using Cons parks_exec [OF Cons.prems(1)] wf_exec_wf [OF Cons.prems(1)] parks_trans op
      by (simp add: Let_def case_prod_unfold) blast
  next
    case False
    then show ?thesis using Cons by (cases c) simp_all
  qed
qed simp

section \<open>A cycle\<close>

lemma dispatch_decision:
  assumes "dispatch env d item s = (Inr res, s')"
  shows "dr_Decision res \<in> {DeliveryDecisionAck, DeliveryDecisionDeadLetter}"
  using assms
  by (auto simp: dispatch_def dispatchDiagnosis_def dispatchTelegramSend_def dispatchSessionClosed_def carry_out_def acknowledged_def
      unsupported_topic_def Let_def split: if_split_asm sum.split_asm prod.split_asm option.split_asm)

lemma resolved_parked:
  assumes "dr_Decision res \<in> {DeliveryDecisionAck, DeliveryDecisionRetry, DeliveryDecisionDeadLetter}"
  shows "event_status (snd (ResolveEvent t eid res w)) eid \<noteq> Some ''processing''"
proof (cases "ws_outbox w eid")
  case None
  then show ?thesis by (simp add: ResolveEvent_def event_status_def)
next
  case (Some e)
  then show ?thesis using assms by (auto simp: ResolveEvent_def Let_def)
qed

lemma dispatch_item_resolved:
  "event_status (ds_workflow (dispatch_item env d item s)) (ev_EventID item) \<noteq> Some ''processing''"
proof -
  obtain r s1 where d: "dispatch env d item s = (r, s1)" by fastforce
  define decision where "decision = (case r of Inr res \<Rightarrow> res
      | Inl err \<Rightarrow> Decide (DefaultDeliveryPolicy (ev_Topic item)) (ev_Attempt item) (Some (error_text err)))"
  have "dr_Decision decision \<in> {DeliveryDecisionAck, DeliveryDecisionRetry, DeliveryDecisionDeadLetter}"
    using d dispatch_decision Decide_decision by (cases r) (fastforce simp: decision_def)+
  moreover have "ds_workflow (dispatch_item env d item s) =
      snd (ResolveEvent (now env s1) (ev_EventID item) decision (ds_workflow (others env s1)))"
    using d by (simp add: dispatch_item_def Let_def resolve_event_def on_workflow_def case_prod_unfold logged_def decision_def)
  ultimately show ?thesis using resolved_parked by simp
qed

definition claim_free :: "dispatch_env \<Rightarrow> bool" where
  "claim_free env \<longleftrightarrow> (\<forall>log t n. Claimed t n \<notin> set (de_others env log))"

lemma claim_free_calls: "claim_free env \<Longrightarrow> event_calls no_claim env"
  by unfold_locales (auto simp: claim_free_def no_claim_def)

lemma dispatch_loop_parked:
  assumes "claim_free env" and "wf_service (ds_workflow s)" and "ds_log (dispatch_loop env d items s) = ds_log s @ cs"
    and "run_room (ops cs) (ds_workflow s)" and "ev_EventID ` set items \<subseteq> issued ''evt'' (ws_outboxSeq (ds_workflow s))"
  shows "\<forall>eid \<in> ev_EventID ` set items. parked (ds_workflow (dispatch_loop env d items s)) eid"
  using assms(2-)
proof (induction items arbitrary: s cs)
  case (Cons item items)
  note calls = claim_free_calls [OF assms(1)]
  let ?s1 = "dispatch_item env d item s"
  obtain c1 where c1: "effect s c1 ?s1" "list_all no_claim c1"
    using event_calls.dispatch_item_sound [OF calls] unfolding sound_def by blast
  obtain c2 where c2: "effect ?s1 c2 (dispatch_loop env d items ?s1)" "list_all no_claim c2"
    using event_calls.dispatch_loop_sound [OF calls] unfolding sound_def by blast
  have cs: "cs = c1 @ c2" using Cons.prems(2) c1(1) c2(1) by (simp add: effect_def)
  have w1: "ds_workflow ?s1 = snd (wf_run (ops c1) (ds_workflow s))" using c1(1) by (simp add: effect_def)
  have rm: "run_room (ops c1) (ds_workflow s)" "run_room (ops c2) (ds_workflow ?s1)"
    using Cons.prems(3) by (simp_all add: cs run_room_append w1)
  have wf1: "wf_service (ds_workflow ?s1)" using wf_run_wf [OF Cons.prems(1) rm(1)] by (simp add: w1)
  have "issued ''evt'' (ws_outboxSeq (ds_workflow s)) \<subseteq> issued ''evt'' (ws_outboxSeq (ds_workflow ?s1))"
    using parks_run [OF Cons.prems(1) rm(1) c1(2)] by (simp add: parks_def w1)
  then have iss: "ev_EventID ` set (item # items) \<subseteq> issued ''evt'' (ws_outboxSeq (ds_workflow ?s1))"
    using Cons.prems(4) by blast
  then have "parked (ds_workflow ?s1) (ev_EventID item)" using dispatch_item_resolved by (simp add: parked_def)
  moreover have "parks (ds_workflow ?s1) (ds_workflow (dispatch_loop env d items ?s1))"
    using parks_run [OF wf1 rm(2) c2(2)] c2(1) by (simp add: effect_def)
  moreover have "\<forall>eid \<in> ev_EventID ` set items. parked (ds_workflow (dispatch_loop env d items ?s1)) eid"
    by (rule Cons.IH [OF wf1 _ rm(2)]) (use c2(1) iss in \<open>simp_all add: effect_def\<close>)
  ultimately show ?case using parksD by fastforce
qed simp

lemma claimed_in_outbox:
  assumes "outbox_ok w" and "ClaimEvents t n w = (Inr items, w')"
  shows "ev_EventID ` set items \<subseteq> dom (ws_outbox w')"
proof -
  let ?ch = "claim_choice t (max 1 n) (rev (ws_outboxOrder w)) w"
  have w': "items = map (claimed_envelope w) ?ch" "w' = mark_processing ?ch w"
    using assms(2) ClaimEvents_eq [OF assms(1), of t n] by simp_all
  have sub: "set ?ch \<subseteq> dom (ws_outbox w)"
    using claim_choice_subset [of t "max 1 n" "rev (ws_outboxOrder w)" w] assms(1) by (auto simp: outbox_ok_def)
  have "ev_EventID (claimed_envelope w i) = i" if "i \<in> set ?ch" for i
    using that sub claimed_envelope_id [OF assms(1)] by blast
  then show ?thesis using sub by (auto simp: w' mark_processing_def)
qed

text \<open>C9: no claimed event is left behind.  In a cycle of the dispatcher in which nobody else claims events, every
  event it claims has left processing at the end: it is acknowledged, scheduled for a retry or
  dead-lettered, also when services fail and other parts work on the sessions at the same time.
\<close>
theorem cycle_resolves_claimed:
  assumes "reachable (ds_workflow s)" and "claim_free env" and "claim_events env 10 s = (Inr items, s1)"
    and "ds_log (snd (RunOnce env d s)) = ds_log s @ cs" and "run_room (ops cs) (ds_workflow s)"
  shows "list_all (\<lambda>item. event_status (ds_workflow (snd (RunOnce env d s))) (ev_EventID item) \<noteq> Some ''processing'') items"
proof -
  have end_state: "snd (RunOnce env d s) = dispatch_loop env d items s1" using assms(3) by (simp add: RunOnce_def)
  let ?s0 = "others env s"
  have s1: "ds_workflow s1 = snd (ClaimEvents (now env s) 10 (ds_workflow ?s0))" "Inr items = fst (ClaimEvents (now env s) 10 (ds_workflow ?s0))"
    using assms(3) by (auto simp: claim_events_def on_workflow_def Let_def case_prod_unfold logged_def)
  obtain c0 where c0: "effect s c0 s1" using any.claim_events_acts [OF assms(3)] by (auto simp: acts_def)
  obtain c1 where c1: "effect s1 c1 (dispatch_loop env d items s1)" using any.dispatch_loop_sound [of "[]" s1 env d items] unfolding sound_def by blast
  have cs: "cs = c0 @ c1" using assms(4) end_state c0 c1 by (simp add: effect_def)
  have w1: "ds_workflow s1 = snd (wf_run (ops c0) (ds_workflow s))" using c0 by (simp add: effect_def)
  have rm: "run_room (ops c0) (ds_workflow s)" "run_room (ops c1) (ds_workflow s1)"
    using assms(5) by (simp_all add: cs run_room_append w1)
  have wf1: "wf_service (ds_workflow s1)" using wf_run_wf [OF reachable_wf [OF assms(1)] rm(1)] by (simp add: w1)
  have "ev_EventID ` set items \<subseteq> dom (ws_outbox (ds_workflow s1))"
  proof -
    obtain ca where ca: "effect s ca ?s0" using any.others_acts [of "[]" s env] unfolding acts_def by blast
    have "c0 = ca @ [Workflow (Claimed (now env s) 10)]"
      using c0 ca assms(3) by (auto simp: effect_def claim_events_def on_workflow_def Let_def case_prod_unfold logged_def)
    then have "outbox_ok (ds_workflow ?s0)"
      using wf_run_wf [OF reachable_wf [OF assms(1)], of "ops ca"] rm(1) ca by (simp add: run_room_append effect_def wf_service_def)
    from claimed_in_outbox [OF this, of "now env s" 10 items] show ?thesis using s1 by (metis prod.collapse)
  qed
  then have "ev_EventID ` set items \<subseteq> issued ''evt'' (ws_outboxSeq (ds_workflow s1))"
    using wf1 unfolding wf_service_def outbox_ok_def by blast
  then have "\<forall>eid \<in> ev_EventID ` set items. parked (ds_workflow (dispatch_loop env d items s1)) eid"
    using dispatch_loop_parked [OF assms(2) wf1 _ rm(2), of d items] c1 by (simp add: effect_def)
  then show ?thesis by (auto simp: end_state list_all_iff parked_def)
qed

theorem cycle_resolves_claimed_witness:
  "\<exists>item :: EventEnvelope. list_all (\<lambda>i. event_status (ds_workflow (sys_run stuck_run (fresh plain_options None))) (ev_EventID i) \<noteq> Some ''processing'')
     [item] \<and> ev_EventID item = ''evt-000001''"
proof -
  let ?s = "foreign (fresh plain_options None) (Alert 100 db_alert_event)"
  obtain item s1 i dv where c: "claim_events stuck_env 10 ?s = (Inr [item], s1)" "ev_EventID item = ''evt-000001''"
    "ds_log (snd (RunOnce stuck_env example_dispatcher ?s)) =
       ds_log ?s @ [Workflow (Claimed 201 10), PlanDiagnosis i, Workflow (Resolved 203 ''evt-000001'' dv)]"
    using stuck_cycle [OF stuck_start(1)] stuck_start(2) by auto
  have "claim_free stuck_env" by (simp add: claim_free_def stuck_env_def)
  from cycle_resolves_claimed [OF _ this c(1,3)]
  have "event_status (ds_workflow (snd (RunOnce stuck_env example_dispatcher ?s))) ''evt-000001'' \<noteq> Some ''processing''"
    using stuck_room c(2) by (simp add: stuck_start(1) reachable_one_session)
  then have "list_all (\<lambda>i. event_status (ds_workflow (sys_run stuck_run (fresh plain_options None))) (ev_EventID i) \<noteq> Some ''processing'')
      [item]"
    using c(2) by (simp add: stuck_run_def)
  then show ?thesis using c(2) by blast
qed

end
