(* ===== verification/Dispatcher_Delivery.thy ===== *)
theory Dispatcher_Delivery
  imports Dispatcher_Laws
begin

text \<open>
  What it means that the dispatcher acknowledges an event: the work that the event asks for has been done, in full
  and once.  An event that is not acknowledged is retried or dead-lettered (\<open>Dispatcher_Progress\<close>).
\<close>

section \<open>What has been asked for\<close>


















section \<open>The work of an event\<close>




















end
