(* ===== verification/Plan_Laws.thy ===== *)
theory Plan_Laws
  imports Dispatcher_Effects
begin

text \<open>
  What the execution of a tool plan keeps to: the executed plan is a part of the proposed one, stops where a
  step says so, ends every step it runs in a final status, and runs no command.
\<close>

section \<open>Steps\<close>

definition run_tools :: "string set" where
  "run_tools = {''metrics.query_range'', ''metrics.query_instant'', ''knowledge.search'', ''connector.invoke_capability'',
     ''logs.query'', ''observability.query'', ''delivery.query''}"

definition final_statuses :: "string set" where
  "final_statuses = {''completed'', ''failed'', ''pending_approval'', ''denied''}"

text \<open>A step that is run and whose own policy ends the plan.\<close>

definition halting :: "ToolPlanStep \<Rightarrow> bool" where
  "halting st \<longleftrightarrow> TrimSpace (tp_Tool st) \<in> run_tools \<and>
     (tp_Status st = ''failed'' \<and> shouldStopToolPlan (tp_OnFailure st) \<or>
      tp_Status st = ''pending_approval'' \<and> shouldStopToolPlan (tp_OnPendingApproval st) \<or>
      tp_Status st = ''denied'' \<and> shouldStopToolPlan (tp_OnDenied st))"

text \<open>The parts of a step that its execution does not change.\<close>

definition kept :: "ToolPlanStep \<Rightarrow> ToolPlanStep \<Rightarrow> bool" where
  "kept a b \<longleftrightarrow> tp_ID b = tp_ID a \<and> tp_Tool b = tp_Tool a \<and> tp_Input b = tp_Input a \<and> tp_Reason b = tp_Reason a \<and>
     tp_Priority b = tp_Priority a \<and> tp_OnFailure b = tp_OnFailure a \<and> tp_OnPendingApproval b = tp_OnPendingApproval a \<and>
     tp_OnDenied b = tp_OnDenied a"

lemma kept_refl [simp]: "kept a a"
  by (simp add: kept_def)

lemma kept_trans: "kept a b \<Longrightarrow> kept b c \<Longrightarrow> kept a c"
  by (simp add: kept_def)

lemma kept_updates [simp]:
  "kept a (b\<lparr>tp_Status := st\<rparr>) = kept a b" "kept a (b\<lparr>tp_Output := out\<rparr>) = kept a b"
  "kept a (b\<lparr>tp_Runtime := rt\<rparr>) = kept a b" "kept a (b\<lparr>tp_CompletedAt := ct\<rparr>) = kept a b"
  "kept a (adopt_runtime rt b) = kept a b" "kept a (started env b s) = kept a b"
  "kept a (metrics_connector d b) = kept a b" "kept a (backfillStepConnector c b) = kept a b"
  "kept a (prepared_step sd acc b) = kept a b"
  by (simp_all add: kept_def adopt_runtime_def started_def metrics_connector_def backfillStepConnector_def
      prepared_step_def evt_cloneMap_def Let_def)

text \<open>The outcome of a step that is run.\<close>

definition step_done :: "ToolPlanStep \<Rightarrow> plan_acc \<Rightarrow> step_outcome \<Rightarrow> bool" where
  "step_done step acc res \<longleftrightarrow>
     (\<exists>st. px_Plan (fst (snd res)) = px_Plan acc @ [st] \<and> kept step st \<and> tp_Status st \<in> final_statuses \<and>
        (fst res \<longrightarrow> tp_Status st \<noteq> ''completed'') \<and>
        (tp_Status st = ''failed'' \<and> shouldStopToolPlan (tp_OnFailure st) \<or>
         tp_Status st = ''pending_approval'' \<and> shouldStopToolPlan (tp_OnPendingApproval st) \<or>
         tp_Status st = ''denied'' \<and> shouldStopToolPlan (tp_OnDenied st) \<longrightarrow> fst res))"

lemma px_Plan_simps [simp]:
  "px_Plan (add_result st e acc) = px_Plan acc @ [st]" "px_Plan (put_context c acc) = px_Plan acc"
  "px_Plan (add_artifacts as acc) = px_Plan acc"
  by (simp_all add: add_result_def put_context_def add_artifacts_def)

lemma failed_step_done: "kept step st \<Longrightarrow> step_done step acc (failed_step err out st acc s)"
  by (auto simp: step_done_def failed_step_def Let_def final_statuses_def)

lemma completed_step_done:
  assumes "px_Plan acc' = px_Plan acc @ [st]" and "kept step st" and "tp_Status st = ''completed''"
  shows "step_done step acc (False, acc', s)"
  using assms by (auto simp: step_done_def final_statuses_def)

lemma metrics_branch_done: "kept step0 step \<Longrightarrow> step_done step0 acc (metrics_branch env d sd step acc s)"
  by (auto simp: metrics_branch_def metrics_completed_def Let_def case_prod_unfold split: sum.split
      intro!: failed_step_done completed_step_done)

lemma search_branch_done: "kept step0 step \<Longrightarrow> step_done step0 acc (search_branch env sd step acc s)"
  by (auto simp: search_branch_def Let_def case_prod_unfold split: sum.split intro!: failed_step_done completed_step_done)

lemma request_approval_step:
  assumes "request_approval env sd connID capID step s = (st, s')"
  shows "(\<forall>a. kept a st = kept a step) \<and> (tp_Status st = tp_Status step \<or> tp_Status st = ''failed'')"
  using assms by (auto simp: request_approval_def Let_def split: prod.split_asm sum.split_asm option.split_asm)

lemma withheld_step_done:
  assumes "kept step0 step" and "cp_Status res \<in> {''pending_approval'', ''denied''}"
  shows "step_done step0 acc (withheld_step env sd connID capID labels res step acc s)"
proof -
  define step1 where "step1 = (adopt_runtime (cp_Runtime res) step)\<lparr>tp_Status := cp_Status res,
      tp_Output := (if cp_Metadata res \<noteq> [] then map_put ''metadata'' (VMap (evt_cloneMap (cp_Metadata res)))
        ([(''status'', VString (cp_Status res))] @ labels @ [(''error'', VString (cp_Error res))])
        else [(''status'', VString (cp_Status res))] @ labels @ [(''error'', VString (cp_Error res))])\<rparr>"
  obtain st s1 where st: "(if cp_Status res = ''pending_approval'' then request_approval env sd connID capID step1 s else (step1, s)) = (st, s1)"
    by (metis surj_pair)
  have k1: "kept step0 step1" using assms(1) by (simp add: step1_def)
  have t1: "tp_Status step1 = cp_Status res" by (simp add: step1_def)
  have k: "kept step0 st \<and> (tp_Status st = cp_Status res \<or> tp_Status st = ''failed'')"
  proof (cases "cp_Status res = ''pending_approval''")
    case True
    then have "request_approval env sd connID capID step1 s = (st, s1)" using st by simp
    from request_approval_step [OF this] show ?thesis using k1 t1 by metis
  next
    case False
    then have "st = step1" using st by simp
    then show ?thesis using k1 t1 by simp
  qed
  have "withheld_step env sd connID capID labels res step acc s =
      (cp_Status res = ''pending_approval'' \<and> shouldStopToolPlan (tp_OnPendingApproval st) \<or>
       cp_Status res = ''denied'' \<and> shouldStopToolPlan (tp_OnDenied st) \<or> tp_Status st = ''failed'',
       add_result st (done_entry st [(''runtime'', VMap (runtimeMap (tp_Runtime st)))]) acc, s1)"
    using st unfolding withheld_step_def Let_def step1_def [symmetric] by simp
  then show ?thesis using k assms(2) by (auto simp: step_done_def final_statuses_def)
qed

lemma invoke_step_done: "kept step0 step \<Longrightarrow> step_done step0 acc (invoke_step env sd connID capID labels ctx step acc s)"
  by (auto simp: invoke_step_def completed_step_def Let_def case_prod_unfold split: option.split
      intro!: failed_step_done completed_step_done withheld_step_done)

lemma plan_step_done:
  assumes "TrimSpace (tp_Tool step) \<in> run_tools"
  shows "step_done step acc (plan_step env d sd step acc s)"
proof -
  have "TrimSpace (tp_Tool (prepared_step sd acc step)) \<in> run_tools" using assms by (simp add: prepared_step_def)
  then show ?thesis
    unfolding plan_step_def run_tools_def Let_def
    by (auto simp: capability_branch_def query_branch_def delivery_branch_def Let_def
        intro!: metrics_branch_done search_branch_done invoke_step_done failed_step_done)
qed

lemma plan_step_skipped:
  assumes "TrimSpace (tp_Tool step) \<notin> run_tools" and "plan_step env d sd step acc s = (b, acc', s')"
  shows "\<not> b \<and> s' = s \<and> (\<exists>st. px_Plan acc' = px_Plan acc @ [st] \<and> kept step st \<and> TrimSpace (tp_Status st) \<noteq> [])"
proof -
  have "TrimSpace (tp_Tool (prepared_step sd acc step)) \<notin> run_tools" using assms(1) by (simp add: prepared_step_def)
  moreover have "TrimSpace (tp_Status (prepared_step sd acc step)) \<noteq> []"
  proof -
    have "TrimSpace ''planned'' \<noteq> []" by code_simp
    then show ?thesis by (simp add: prepared_step_def)
  qed
  ultimately show ?thesis using assms(2) by (auto simp: plan_step_def run_tools_def Let_def)
qed

section \<open>The whole plan\<close>

text \<open>A step of the executed plan: it was run to a final status, or its tool is none of the tools and its status is
  the one it was proposed with.\<close>

definition settled :: "ToolPlanStep \<Rightarrow> bool" where
  "settled st \<longleftrightarrow> (if TrimSpace (tp_Tool st) \<in> run_tools then tp_Status st \<in> final_statuses else TrimSpace (tp_Status st) \<noteq> [])"

definition unsuccessful :: "ToolPlanStep \<Rightarrow> bool" where
  "unsuccessful st \<longleftrightarrow> TrimSpace (tp_Tool st) \<in> run_tools \<and> tp_Status st \<in> final_statuses - {''completed''}"

definition follows :: "ToolPlanStep list \<Rightarrow> ToolPlanStep list \<Rightarrow> bool" where
  "follows steps xs \<longleftrightarrow>
     length xs \<le> length steps \<and> list_all2 kept (take (length xs) steps) xs \<and>
     list_all (\<lambda>st. \<not> halting st) (butlast xs) \<and>
     (length xs < length steps \<longrightarrow> xs \<noteq> [] \<and> unsuccessful (last xs))"

lemma follows_Nil [simp]: "follows [] []"
  by (simp add: follows_def)

lemma follows_stop: "kept step st \<Longrightarrow> unsuccessful st \<Longrightarrow> follows (step # steps) [st]"
  by (simp add: follows_def)

lemma follows_Cons: "kept step st \<Longrightarrow> \<not> halting st \<Longrightarrow> follows steps xs \<Longrightarrow> follows (step # steps) (st # xs)"
  by (auto simp: follows_def)

lemma plan_step_follows:
  assumes "plan_step env d sd step acc s = (stop, acc', s')"
  shows "\<exists>st. px_Plan acc' = px_Plan acc @ [st] \<and> kept step st \<and> settled st \<and> (if stop then unsuccessful st else \<not> halting st)"
proof (cases "TrimSpace (tp_Tool step) \<in> run_tools")
  case True
  from plan_step_done [OF this, of acc env d sd s, unfolded assms step_done_def fst_conv snd_conv] obtain st where st:
    "px_Plan acc' = px_Plan acc @ [st]" "kept step st" "tp_Status st \<in> final_statuses" "stop \<longrightarrow> tp_Status st \<noteq> ''completed''"
    "tp_Status st = ''failed'' \<and> shouldStopToolPlan (tp_OnFailure st) \<or>
     tp_Status st = ''pending_approval'' \<and> shouldStopToolPlan (tp_OnPendingApproval st) \<or>
     tp_Status st = ''denied'' \<and> shouldStopToolPlan (tp_OnDenied st) \<longrightarrow> stop"
    by blast
  moreover have "TrimSpace (tp_Tool st) \<in> run_tools" using True st(2) by (simp add: kept_def)
  ultimately have "settled st" "stop \<longrightarrow> unsuccessful st" "\<not> stop \<longrightarrow> \<not> halting st"
    by (simp add: settled_def, simp add: unsuccessful_def, unfold halting_def) blast
  then show ?thesis using st by (intro exI [where x = st]) simp
next
  case False
  note skipped = plan_step_skipped [OF False assms]
  then obtain st where st: "px_Plan acc' = px_Plan acc @ [st]" "kept step st" "TrimSpace (tp_Status st) \<noteq> []" by blast
  moreover have "TrimSpace (tp_Tool st) \<notin> run_tools" using False st(2) by (simp add: kept_def)
  ultimately show ?thesis using skipped by (intro exI [where x = st]) (simp add: settled_def halting_def)
qed

lemma plan_loop_follows:
  assumes "plan_loop env d sd steps acc s = (acc', s')"
  shows "\<exists>xs. px_Plan acc' = px_Plan acc @ xs \<and> list_all settled xs \<and> follows steps xs"
  using assms
proof (induction steps arbitrary: acc s)
  case (Cons step steps)
  obtain stop acc1 s1 where p: "plan_step env d sd step acc s = (stop, acc1, s1)" by (metis prod.exhaust)
  obtain st where st: "px_Plan acc1 = px_Plan acc @ [st]" "kept step st" "settled st"
    "if stop then unsuccessful st else \<not> halting st"
    using plan_step_follows [OF p] by blast
  show ?case
  proof (cases stop)
    case True
    then show ?thesis using Cons.prems p st follows_stop by (intro exI [where x = "[st]"]) simp
  next
    case False
    then obtain xs where "px_Plan acc' = px_Plan acc1 @ xs" "list_all settled xs" "follows steps xs"
      using Cons.IH [of acc1 s1] Cons.prems p by auto
    then show ?thesis using st False follows_Cons by (intro exI [where x = "st # xs"]) simp
  qed
qed simp

lemma executed_plan:
  "follows steps (xt_ExecutedPlan (fst (executeToolPlan env d sd steps s))) \<and>
   list_all settled (xt_ExecutedPlan (fst (executeToolPlan env d sd steps s)))"
proof (cases "steps = []")
  case False
  obtain acc s' where l: "plan_loop env d sd steps no_results s = (acc, s')" by fastforce
  then show ?thesis using plan_loop_follows [OF l] False by (auto simp: executeToolPlan_def no_results_def)
qed (simp add: executeToolPlan_def)

text \<open>C14: the executed plan is the proposed one, up to where it stops.  The executed steps are the first steps of the
  plan, in order and with their tools, inputs and policies; nothing runs after a step whose policy says
  to stop at its status; and a plan is cut short only after a step that did not complete.
\<close>
theorem tool_plan_follows: "follows steps (xt_ExecutedPlan (fst (executeToolPlan env d sessionDetail steps s)))"
  using executed_plan by blast

text \<open>C15: every step of an executed plan has a proper status.  A step whose tool was run is completed, failed, pending
  approval or denied, never still running or planned, and any other step has a status, whatever the
  services answered.
\<close>
theorem executed_steps_settled: "list_all settled (xt_ExecutedPlan (fst (executeToolPlan env d sessionDetail steps s)))"
  using executed_plan by blast

section \<open>What a plan asks for\<close>

text \<open>Nothing that runs without a decision: no command, no approved capability, no invocation that skips the
  authorization.\<close>

definition harmless :: "call \<Rightarrow> bool" where
  "harmless c = (case c of
     ExecuteApproved _ \<Rightarrow> False | OperatorExecute _ \<Rightarrow> False | InvokeApprovedCapability _ \<Rightarrow> False
   | InvokeCapability r \<Rightarrow> \<not> cq_SkipAuthorization r | FinalizeDiagnosis _ \<Rightarrow> False | _ \<Rightarrow> True)"

interpretation plan: tool_calls harmless env for env
  by unfold_locales (simp_all add: harmless_def)

text \<open>C13: a tool plan runs nothing on its own authority.  Whatever plan the model or a skill proposes, executing it
  hands no command to the executor, invokes no capability as approved and skips no authorization: it adds
  queries, capability requests that are authorized, approval requests and messages to the log.  (What other
  goroutines do in between is in the log as their operations and as \<open>Handed\<close> requests.)
\<close>
theorem tool_plan_harmless:
  "\<exists>cs. ds_log (snd (executeToolPlan env d sessionDetail steps s)) = ds_log s @ cs \<and> list_all harmless cs"
  using plan.executeToolPlan_acts [of env d sessionDetail steps s, OF prod.collapse [symmetric]]
  by (auto simp: acts_def effect_def)

section \<open>A branch that is never taken\<close>

text \<open>The key that the suppression of a command looks for is written only after the tools have run.\<close>

definition unmarked :: "plan_acc \<Rightarrow> bool" where
  "unmarked acc \<longleftrightarrow> map_of (px_Context acc) ''disk_space_metrics_sufficient'' = None"

lemma unmarked_put:
  assumes "unmarked acc" and "''disk_space_metrics_sufficient'' \<notin> fst ` set items"
  shows "unmarked (put_context items acc)"
proof -
  let ?k = "''disk_space_metrics_sufficient''"
  have "map_of (foldl (\<lambda>m kv. map_put (fst kv) (snd kv) m) c items) ?k = map_of c ?k" if "?k \<notin> fst ` set items" for c
    using that by (induction items arbitrary: c) auto
  then show ?thesis using assms by (simp add: unmarked_def put_context_def)
qed

lemma unmarked_simps [simp]:
  "unmarked (add_result st e acc) = unmarked acc" "unmarked (add_artifacts as acc) = unmarked acc"
  "unmarked (fst (snd (failed_step err out st acc s))) = unmarked acc"
  "unmarked (fst (snd (withheld_step env sd connID capID labels res st acc s))) = unmarked acc"
  by (simp_all add: unmarked_def add_result_def add_artifacts_def failed_step_def withheld_step_def Let_def case_prod_unfold)

lemma unmarked_metrics: "unmarked acc \<Longrightarrow> unmarked (fst (snd (metrics_branch env d sd step acc s)))"
  by (auto simp: metrics_branch_def metrics_completed_def metrics_context_def Let_def case_prod_unfold split: sum.split
      intro!: unmarked_put)

lemma unmarked_search: "unmarked acc \<Longrightarrow> unmarked (fst (snd (search_branch env sd step acc s)))"
  by (auto simp: search_branch_def Let_def case_prod_unfold split: sum.split intro!: unmarked_put)

lemma unmarked_invoke:
  assumes "unmarked acc" and "\<And>res. ''disk_space_metrics_sufficient'' \<notin> fst ` set (ctx res)"
  shows "unmarked (fst (snd (invoke_step env sd connID capID labels ctx step acc s)))"
  using assms by (auto simp: invoke_step_def completed_step_def Let_def case_prod_unfold split: option.split intro!: unmarked_put)

lemma unmarked_step: "unmarked acc \<Longrightarrow> unmarked (fst (snd (plan_step env d sd step acc s)))"
  by (auto simp: plan_step_def capability_branch_def query_branch_def delivery_branch_def Let_def
      intro!: unmarked_metrics unmarked_search unmarked_invoke)

lemma unmarked_loop: "unmarked acc \<Longrightarrow> unmarked (fst (plan_loop env d sd steps acc s))"
proof (induction steps arbitrary: acc s)
  case (Cons step steps)
  obtain stop acc1 s1 where p: "plan_step env d sd step acc s = (stop, acc1, s1)" by (metis prod.exhaust)
  then show ?case using Cons.IH [of acc1 s1] unmarked_step [OF Cons.prems, of env d sd step s] by simp
qed simp

text \<open>The evidence of a disk analysis never suppresses a command.  The dispatcher asks the context of the executed
  plan whether the metrics of a disk incident suffice, but only the context of the diagnosis is marked
  so, a copy of it: for what a plan has collected, \<open>disk_metrics_evidence_sufficient\<close> is never the reason.
\<close>
theorem disk_evidence_never_suppresses:
  "shouldSuppressExecutionHint sessionDetail (fst (executeToolPlan env d sessionDetail steps s)) hint
     \<noteq> Some ''disk_metrics_evidence_sufficient''"
proof -
  let ?x = "fst (executeToolPlan env d sessionDetail steps s)"
  have "unmarked no_results" by (simp add: unmarked_def no_results_def)
  then have "map_of (xt_Context ?x) ''disk_space_metrics_sufficient'' = None"
    using unmarked_loop [of no_results env d sessionDetail steps s]
    by (simp add: executeToolPlan_def unmarked_def Let_def case_prod_unfold)
  then have "evidence_reason ?x a b \<noteq> Some ''disk_metrics_evidence_sufficient''" for a b
    by (simp add: evidence_reason_def Let_def)
  moreover have "attempted_reason p a b \<noteq> Some ''disk_metrics_evidence_sufficient''" for p a b
    by (simp add: attempted_reason_def Let_def)
  ultimately show ?thesis by (auto simp: shouldSuppressExecutionHint_def Let_def split: option.split)
qed

end
