(* ===== verification/Chart.thy ===== *)
theory Chart
  imports Dispatcher_Text "HOL-Library.Word"
begin

text \<open>
  The chart of a metrics query, \<^verbatim>\<open>internal/events/tool_plan.go\<close>: the image, the line that is drawn pixel by
  pixel in a loop without a bound, and the titles.  The scaling of values to pixels in floating point
  numbers, the font and the encoding as PNG are not part of it.
\<close>

section \<open>Images\<close>

record RGBA =
  col_R :: "8 word"
  col_G :: "8 word"
  col_B :: "8 word"
  col_A :: "8 word"

record Image =
  im_Dx :: int
  im_Dy :: int
  im_Pix :: "int \<times> int \<Rightarrow> RGBA"

definition rgb :: "8 word \<Rightarrow> 8 word \<Rightarrow> 8 word \<Rightarrow> RGBA" where
  "rgb r g b = \<lparr>col_R = r, col_G = g, col_B = b, col_A = 255\<rparr>"

definition NewRGBA :: "int \<Rightarrow> int \<Rightarrow> Image" where
  "NewRGBA w h = \<lparr>im_Dx = w, im_Dy = h, im_Pix = (\<lambda>_. \<lparr>col_R = 0, col_G = 0, col_B = 0, col_A = 0\<rparr>)\<rparr>"

definition in_image :: "int \<Rightarrow> int \<Rightarrow> Image \<Rightarrow> bool" where
  "in_image x y img \<longleftrightarrow> 0 \<le> x \<and> x < im_Dx img \<and> 0 \<le> y \<and> y < im_Dy img"

text \<open>\<^verbatim>\<open>SetRGBA\<close> ignores points outside the image.\<close>

definition SetRGBA :: "int \<Rightarrow> int \<Rightarrow> RGBA \<Rightarrow> Image \<Rightarrow> Image" where
  "SetRGBA x y c img = (if in_image x y img then img\<lparr>im_Pix := (im_Pix img)((x, y) := c)\<rparr> else img)"

definition fillImage :: "RGBA \<Rightarrow> Image \<Rightarrow> Image" where
  "fillImage fill img = foldl (\<lambda>i y. foldl (\<lambda>j x. SetRGBA x y fill j) i [0..im_Dx img - 1]) img [0..im_Dy img - 1]"

section \<open>Lines\<close>

text \<open>\<^verbatim>\<open>int(math.Abs(float64(n)))\<close>: the nearest number with 53 bits, ties to even.\<close>

fun bit_length :: "nat \<Rightarrow> nat" where
  "bit_length n = (if n = 0 then 0 else Suc (bit_length (n div 2)))"

definition float_abs :: "int \<Rightarrow> int" where
  "float_abs n =
     (let m = nat \<bar>n\<bar>; k = bit_length m - 53; q = m div 2 ^ k; r = m mod 2 ^ k
      in to_int64 (int ((q + (if 2 * r > 2 ^ k \<or> 2 * r = 2 ^ k \<and> odd q then 1 else 0)) * 2 ^ k)))"

record Line =
  ln_x1 :: int
  ln_y1 :: int
  ln_dx :: int
  ln_dy :: int
  ln_sx :: int
  ln_sy :: int
  ln_c :: RGBA

partial_function (option) line_loop :: "Line \<Rightarrow> int \<Rightarrow> int \<Rightarrow> int \<Rightarrow> Image \<Rightarrow> Image option" where
  "line_loop l x0 y0 errVal img =
     (let img' = (if in_image x0 y0 img then SetRGBA x0 y0 (ln_c l) img else img) in
      if x0 = ln_x1 l \<and> y0 = ln_y1 l then Some img'
      else
        (let twiceErr = to_int64 (2 * errVal);
             e1 = (if twiceErr \<ge> ln_dy l then to_int64 (errVal + ln_dy l) else errVal);
             x = (if twiceErr \<ge> ln_dy l then to_int64 (x0 + ln_sx l) else x0);
             e2 = (if twiceErr \<le> ln_dx l then to_int64 (e1 + ln_dx l) else e1);
             y = (if twiceErr \<le> ln_dx l then to_int64 (y0 + ln_sy l) else y0)
         in line_loop l x y e2 img'))"

declare line_loop.simps [code]

definition drawLine :: "Image \<Rightarrow> int \<Rightarrow> int \<Rightarrow> int \<Rightarrow> int \<Rightarrow> RGBA \<Rightarrow> Image option" where
  "drawLine img x0 y0 x1 y1 c =
     (let dx = float_abs (to_int64 (x1 - x0));
          dy = to_int64 (- float_abs (to_int64 (y1 - y0)));
          sx = (if x0 < x1 then 1 else -1);
          sy = (if y0 < y1 then 1 else -1)
      in line_loop \<lparr>ln_x1 = x1, ln_y1 = y1, ln_dx = dx, ln_dy = dy, ln_sx = sx, ln_sy = sy, ln_c = c\<rparr> x0 y0 (to_int64 (dx + dy)) img)"

section \<open>The chart\<close>

definition chart_bg :: RGBA where "chart_bg = rgb 18 22 31"
definition chart_grid :: RGBA where "chart_grid = rgb 60 70 90"
definition chart_line :: RGBA where "chart_line = rgb 70 168 255"
definition chart_axis :: RGBA where "chart_axis = rgb 120 130 150"

text \<open>\<open>width\<close> 960, \<open>height\<close> 420, and the paddings 84, 28, 56 and 62.\<close>

fun grid_lines :: "int list \<Rightarrow> Image \<Rightarrow> Image option" where
  "grid_lines [] img = Some img"
| "grid_lines (i # is) img =
     (let y = 56 + i * (420 - 56 - 62) div 3 in
      case drawLine img 84 y (960 - 28) y chart_grid of None \<Rightarrow> None | Some img' \<Rightarrow> grid_lines is img')"

definition chart_frame :: "Image option" where
  "chart_frame =
     (case grid_lines [0, 1, 2, 3] (fillImage chart_bg (NewRGBA 960 420)) of
        None \<Rightarrow> None
      | Some a \<Rightarrow>
          (case drawLine a 84 56 84 (420 - 62) chart_axis of
             None \<Rightarrow> None
           | Some b \<Rightarrow> drawLine b 84 (420 - 62) (960 - 28) (420 - 62) chart_axis))"

text \<open>The points of the series, already scaled.\<close>

fun draw_points :: "(int \<times> int) list \<Rightarrow> Image \<Rightarrow> Image option" where
  "draw_points ((x0, y0) # (x1, y1) # ps) img =
     (case drawLine img x0 y0 x1 y1 chart_line of None \<Rightarrow> None | Some img' \<Rightarrow> draw_points ((x1, y1) # ps) img')"
| "draw_points _ img = Some img"

definition draw_chart :: "(int \<times> int) list \<Rightarrow> Image option" where
  "draw_chart points = (case chart_frame of None \<Rightarrow> None | Some img \<Rightarrow> draw_points points img)"

section \<open>Titles\<close>

definition trimText :: "string \<Rightarrow> int \<Rightarrow> string" where
  "trimText value limit =
     (let v = TrimSpace value in
      if limit \<le> 0 \<or> int (length v) \<le> limit then v
      else if limit \<le> 3 then take (nat limit) v
      else take (nat (limit - 3)) v @ ''...'')"

definition metricsChartTitle :: "MetricsQuery \<Rightarrow> valmap list \<Rightarrow> string" where
  "metricsChartTitle query series =
     (let b0 = TrimSpace (mx_Query query);
          b1 = (if b0 = [] \<and> series \<noteq> []
                then (case map_of (hd series) ''__name__'' of
                        Some (VString metricName) \<Rightarrow> if TrimSpace metricName \<noteq> [] then TrimSpace metricName else b0
                      | _ \<Rightarrow> b0)
                else b0);
          base = (if b1 = [] then ''Metrics trend'' else b1)
      in if EqualFold (TrimSpace (mx_Mode query)) ''range''
         then trimText base 48 @ '' ('' @ evt_firstNonEmpty [mx_Window query, ''range''] @ '')''
         else trimText base 56)"

section \<open>Laws\<close>

declare bit_length.simps [simp del]

lemma bit_length_less: "m < 2 ^ n \<Longrightarrow> bit_length m \<le> n"
proof (induction n arbitrary: m)
  case 0
  then show ?case by (simp add: bit_length.simps)
next
  case (Suc n)
  show ?case
  proof (cases "m = 0")
    case False
    then show ?thesis using Suc.IH [of "m div 2"] Suc.prems by (simp add: bit_length.simps [of m] less_mult_imp_div_less)
  qed (simp add: bit_length.simps)
qed

lemma float_abs_small:
  assumes "\<bar>n\<bar> < 2 ^ 53"
  shows "float_abs n = \<bar>n\<bar>"
proof -
  have "nat \<bar>n\<bar> < 2 ^ 53" using assms by simp
  then have "bit_length (nat \<bar>n\<bar>) - 53 = 0" using bit_length_less by fastforce
  then show ?thesis using assms by (simp add: float_abs_def Let_def to_int64_def)
qed

text \<open>The state of the loop: \<open>a\<close> and \<open>b\<close> steps are left in the two directions, of \<open>D\<close> and \<open>E\<close> altogether.\<close>

definition line_state :: "Line \<Rightarrow> int \<Rightarrow> int \<Rightarrow> int \<Rightarrow> int \<Rightarrow> int \<Rightarrow> int \<Rightarrow> int \<Rightarrow> bool" where
  "line_state l D E a b x y e \<longleftrightarrow>
     0 \<le> a \<and> a \<le> D \<and> D \<le> 2 ^ 29 \<and> 0 \<le> b \<and> b \<le> E \<and> E \<le> 2 ^ 29 \<and> \<bar>ln_x1 l\<bar> \<le> 2 ^ 28 \<and> \<bar>ln_y1 l\<bar> \<le> 2 ^ 28 \<and>
     ln_dx l = D \<and> ln_dy l = - E \<and> \<bar>ln_sx l\<bar> = 1 \<and> \<bar>ln_sy l\<bar> = 1 \<and>
     x = ln_x1 l - ln_sx l * a \<and> y = ln_y1 l - ln_sy l * b \<and> e = D - E + a * E - b * D"

lemma int64_small: "\<bar>z\<bar> \<le> 2 ^ 62 \<Longrightarrow> to_int64 z = z"
  by (intro to_int64_id) (simp_all add: minDuration_def maxDuration_def)

lemma int64_step: "\<bar>x\<bar> \<le> 2 ^ 30 \<Longrightarrow> \<bar>d\<bar> = 1 \<Longrightarrow> to_int64 (x + d) = x + d"
  using abs_triangle_ineq [of x d] by (intro int64_small) simp

lemma line_products:
  assumes "line_state l D E a b x y e"
  shows "0 \<le> a * E" "a * E \<le> 2 ^ 58" "0 \<le> b * D" "b * D \<le> 2 ^ 58"
proof -
  have "a * E \<le> 2 ^ 29 * 2 ^ 29" "b * D \<le> 2 ^ 29 * 2 ^ 29"
    using assms unfolding line_state_def by (intro mult_mono; simp)+
  then show "0 \<le> a * E" "a * E \<le> 2 ^ 58" "0 \<le> b * D" "b * D \<le> 2 ^ 58"
    using assms by (simp_all add: line_state_def)
qed

text \<open>The steps: a direction is taken only while steps are left in it, and one of them always is.\<close>

lemma line_steps:
  assumes st: "line_state l D E a b x y e" and "a + b \<noteq> 0"
  defines "right \<equiv> 2 * e \<ge> - E" and "down \<equiv> 2 * e \<le> D"
  shows "right \<Longrightarrow> 0 < a" "down \<Longrightarrow> 0 < b" "right \<or> down"
proof -
  have nn: "0 \<le> a" "0 \<le> b" "a \<le> D" "b \<le> E" and e: "e = D - E + a * E - b * D" using st by (simp_all add: line_state_def)
  show "0 < a" if right
  proof (rule ccontr)
    assume "\<not> 0 < a"
    then have a: "a = 0" "1 \<le> b" using nn assms(2) by linarith+
    then have "D \<le> b * D" using nn mult_right_mono [of 1 b D] by simp
    then show False using that a nn by (simp add: right_def e)
  qed
  show "0 < b" if down
  proof (rule ccontr)
    assume "\<not> 0 < b"
    then have b: "b = 0" "1 \<le> a" using nn assms(2) by linarith+
    then have "E \<le> a * E" using nn mult_right_mono [of 1 a E] by simp
    then show False using that b nn by (simp add: down_def e)
  qed
  show "right \<or> down" using nn by (auto simp: right_def down_def)
qed

lemma line_next:
  assumes st: "line_state l D E a b x y e" and "a + b \<noteq> 0"
  shows "\<exists>a' b'. line_state l D E a' b'
      (if to_int64 (2 * e) \<ge> ln_dy l then to_int64 (x + ln_sx l) else x)
      (if to_int64 (2 * e) \<le> ln_dx l then to_int64 (y + ln_sy l) else y)
      (let e1 = (if to_int64 (2 * e) \<ge> ln_dy l then to_int64 (e + ln_dy l) else e)
       in if to_int64 (2 * e) \<le> ln_dx l then to_int64 (e1 + ln_dx l) else e1) \<and>
    a' \<le> a \<and> b' \<le> b \<and> a' + b' < a + b"
proof -
  define r where "r = (2 * e \<ge> - E)"
  define d where "d = (2 * e \<le> D)"
  note lp = line_products [OF st]
  note s = st [unfolded line_state_def]
  have e: "e = D - E + a * E - b * D" using s by blast
  have "\<bar>e\<bar> \<le> 2 ^ 60"
  proof -
    define P where "P = a * E"
    define Q where "Q = b * D"
    have "0 \<le> P" "P \<le> 2 ^ 58" "0 \<le> Q" "Q \<le> 2 ^ 58" using lp by (simp_all only: P_def Q_def)
    moreover have "0 \<le> D" "D \<le> 2 ^ 29" "0 \<le> E" "E \<le> 2 ^ 29" using s by linarith+
    ultimately show ?thesis unfolding e P_def [symmetric] Q_def [symmetric] by simp
  qed
  then have t: "to_int64 (2 * e) = 2 * e" by (intro int64_small) simp
  have t1: "to_int64 (e + ln_dy l) = e - E" using \<open>\<bar>e\<bar> \<le> 2 ^ 60\<close> s by (subst int64_small) auto
  have t2: "to_int64 ((if r then e - E else e) + ln_dx l) = (if r then e - E else e) + D"
    using \<open>\<bar>e\<bar> \<le> 2 ^ 60\<close> s by (subst int64_small) auto
  have sx: "\<bar>x\<bar> \<le> 2 ^ 30" "\<bar>y\<bar> \<le> 2 ^ 30" using s by (auto simp: abs_if split: if_splits)
  then have t3: "to_int64 (x + ln_sx l) = x + ln_sx l" "to_int64 (y + ln_sy l) = y + ln_sy l"
    using s int64_step by blast+
  let ?a = "if r then a - 1 else a" and ?b = "if d then b - 1 else b"
  note steps = line_steps [OF assms, folded r_def d_def]
  have "line_state l D E ?a ?b (if r then x + ln_sx l else x) (if d then y + ln_sy l else y)
      (let e1 = (if r then e - E else e) in if d then e1 + D else e1)"
    using s steps unfolding line_state_def Let_def by (auto simp: algebra_simps)
  moreover have "?a \<le> a \<and> ?b \<le> b \<and> ?a + ?b < a + b" using steps(3) by auto
  moreover have "(to_int64 (2 * e) \<ge> ln_dy l) = r" "(to_int64 (2 * e) \<le> ln_dx l) = d"
    unfolding t r_def d_def using s by simp_all
  ultimately show ?thesis by (simp only: t1 t2 t3 Let_def) blast
qed

text \<open>What a line from \<open>(x, y)\<close> changes.\<close>

definition line_drawn :: "Line \<Rightarrow> int \<Rightarrow> int \<Rightarrow> Image \<Rightarrow> Image \<Rightarrow> bool" where
  "line_drawn l x y img img' \<longleftrightarrow>
     im_Dx img' = im_Dx img \<and> im_Dy img' = im_Dy img \<and>
     (in_image x y img \<longrightarrow> im_Pix img' (x, y) = ln_c l) \<and>
     (in_image (ln_x1 l) (ln_y1 l) img \<longrightarrow> im_Pix img' (ln_x1 l, ln_y1 l) = ln_c l) \<and>
     (\<forall>u v. im_Pix img' (u, v) = im_Pix img (u, v) \<or>
        im_Pix img' (u, v) = ln_c l \<and> in_image u v img \<and>
        min x (ln_x1 l) \<le> u \<and> u \<le> max x (ln_x1 l) \<and> min y (ln_y1 l) \<le> v \<and> v \<le> max y (ln_y1 l))"

lemma line_drawn_step:
  assumes "line_drawn l x' y' (SetRGBA x y (ln_c l) img) img'"
    and "min x (ln_x1 l) \<le> x'" "x' \<le> max x (ln_x1 l)" "min y (ln_y1 l) \<le> y'" "y' \<le> max y (ln_y1 l)"
  shows "line_drawn l x y img img'"
proof -
  let ?i = "SetRGBA x y (ln_c l) img"
  have dim: "im_Dx ?i = im_Dx img" "im_Dy ?i = im_Dy img" by (simp_all add: SetRGBA_def)
  then have ini: "in_image u v ?i = in_image u v img" for u v by (simp add: in_image_def)
  have pix: "im_Pix ?i (u, v) = (if in_image x y img \<and> u = x \<and> v = y then ln_c l else im_Pix img (u, v))" for u v
    by (simp add: SetRGBA_def)
  have box: "min x (ln_x1 l) \<le> u \<and> u \<le> max x (ln_x1 l) \<and> min y (ln_y1 l) \<le> v \<and> v \<le> max y (ln_y1 l)"
    if "min x' (ln_x1 l) \<le> u \<and> u \<le> max x' (ln_x1 l) \<and> min y' (ln_y1 l) \<le> v \<and> v \<le> max y' (ln_y1 l)" for u v
    using that assms(2-5) by linarith
  have "im_Pix img' (u, v) = im_Pix img (u, v) \<or> im_Pix img' (u, v) = ln_c l \<and> in_image u v img \<and>
      min x (ln_x1 l) \<le> u \<and> u \<le> max x (ln_x1 l) \<and> min y (ln_y1 l) \<le> v \<and> v \<le> max y (ln_y1 l)" for u v
  proof (cases "in_image x y img \<and> u = x \<and> v = y")
    case True
    then show ?thesis using assms(1) pix [of u v] unfolding line_drawn_def by (metis max.cobounded1 min.cobounded1)
  next
    case False
    then show ?thesis using assms(1) pix [of u v] box [of u v] ini unfolding line_drawn_def by metis
  qed
  moreover have "in_image x y img \<longrightarrow> im_Pix img' (x, y) = ln_c l"
    using assms(1) pix [of x y] unfolding line_drawn_def by metis
  ultimately show ?thesis using assms(1) dim ini unfolding line_drawn_def by auto
qed

lemma line_position:
  assumes "line_state l D E a b x y e" and "line_state l D E a' b' x' y' e'" and "a' \<le> a" "b' \<le> b"
  shows "min x (ln_x1 l) \<le> x'" "x' \<le> max x (ln_x1 l)" "min y (ln_y1 l) \<le> y'" "y' \<le> max y (ln_y1 l)"
proof -
  have "ln_sx l = 1 \<or> ln_sx l = -1" "ln_sy l = 1 \<or> ln_sy l = -1" using assms(1) by (auto simp: line_state_def)
  then show "min x (ln_x1 l) \<le> x'" "x' \<le> max x (ln_x1 l)" "min y (ln_y1 l) \<le> y'" "y' \<le> max y (ln_y1 l)"
    using assms by (auto simp: line_state_def)
qed

lemma line_loop_ends:
  "line_state l D E a b x y e \<Longrightarrow> \<exists>img'. line_loop l x y e img = Some img' \<and> line_drawn l x y img img'"
proof (induction "nat (a + b)" arbitrary: a b x y e img rule: less_induct)
  case less
  let ?i = "if in_image x y img then SetRGBA x y (ln_c l) img else img"
  have set: "?i = SetRGBA x y (ln_c l) img" by (simp add: SetRGBA_def)
  show ?case
  proof (cases "a + b = 0")
    case True
    then have "a = 0 \<and> b = 0" using less.prems by (auto simp: line_state_def)
    then have end_point: "x = ln_x1 l" "y = ln_y1 l" using less.prems by (simp_all add: line_state_def)
    then have "line_loop l x y e img = Some (SetRGBA x y (ln_c l) img)" by (subst line_loop.simps) (simp add: SetRGBA_def)
    then show ?thesis using end_point by (auto simp: line_drawn_def SetRGBA_def in_image_def)
  next
    case False
    then obtain a' b' x' y' e' where n: "line_state l D E a' b' x' y' e'" "a' \<le> a" "b' \<le> b" "a' + b' < a + b"
      "x' = (if to_int64 (2 * e) \<ge> ln_dy l then to_int64 (x + ln_sx l) else x)"
      "y' = (if to_int64 (2 * e) \<le> ln_dx l then to_int64 (y + ln_sy l) else y)"
      "e' = (let e1 = (if to_int64 (2 * e) \<ge> ln_dy l then to_int64 (e + ln_dy l) else e)
         in if to_int64 (2 * e) \<le> ln_dx l then to_int64 (e1 + ln_dx l) else e1)"
      using line_next [OF less.prems] by blast
    have "\<not> (x = ln_x1 l \<and> y = ln_y1 l)" using less.prems False by (auto simp: line_state_def)
    then have "line_loop l x y e img = line_loop l x' y' e' (SetRGBA x y (ln_c l) img)"
      unfolding n(5-7) by (subst line_loop.simps) (simp only: set Let_def if_False)
    moreover obtain img' where "line_loop l x' y' e' (SetRGBA x y (ln_c l) img) = Some img'"
      "line_drawn l x' y' (SetRGBA x y (ln_c l) img) img'"
      using less.hyps [OF _ n(1)] n(1,4) by (auto simp: line_state_def)
    ultimately show ?thesis
      using line_drawn_step line_position [OF less.prems n(1-3)] by metis
  qed
qed

text \<open>Coordinates that keep the arithmetic within 64 bits.\<close>

definition small_point :: "int \<times> int \<Rightarrow> bool" where
  "small_point p \<longleftrightarrow> \<bar>fst p\<bar> \<le> 2 ^ 28 \<and> \<bar>snd p\<bar> \<le> 2 ^ 28"

lemma drawLine_ends:
  assumes "small_point (x0, y0)" and "small_point (x1, y1)"
  shows "\<exists>img' l. drawLine img x0 y0 x1 y1 c = Some img' \<and> line_drawn l x0 y0 img img' \<and> ln_x1 l = x1 \<and> ln_y1 l = y1 \<and> ln_c l = c"
proof -
  let ?D = "\<bar>x1 - x0\<bar>" and ?E = "\<bar>y1 - y0\<bar>"
  have b: "?D \<le> 2 ^ 29" "?E \<le> 2 ^ 29" using assms by (auto simp: small_point_def)
  have f: "float_abs (to_int64 (x1 - x0)) = ?D" "float_abs (to_int64 (y1 - y0)) = ?E"
    using b by (simp_all add: int64_small float_abs_small)
  have g: "to_int64 (- ?E) = - ?E" "to_int64 (?D + - ?E) = ?D - ?E" using b by (auto intro!: int64_small)
  let ?l = "\<lparr>ln_x1 = x1, ln_y1 = y1, ln_dx = ?D, ln_dy = - ?E, ln_sx = (if x0 < x1 then 1 else -1), ln_sy = (if y0 < y1 then 1 else -1), ln_c = c\<rparr>"
  have "line_state ?l ?D ?E ?D ?E x0 y0 (?D - ?E)"
    using b assms by (simp add: line_state_def small_point_def mult.commute)
  from line_loop_ends [OF this, of img] show ?thesis
    unfolding drawLine_def Let_def f g by (elim exE conjE, intro exI conjI) (assumption | simp)+
qed

text \<open>C16: drawing a line ends.  The loop of \<^verbatim>\<open>drawLine\<close> has no bound of its own; for points within 2^28 of the origin it
  reaches its end, keeps the size of the image, has set both end points that lie in the image and has
  changed nothing outside the rectangle of the two.
\<close>
theorem drawLine_terminates:
  assumes "small_point (x0, y0)" and "small_point (x1, y1)"
  shows "\<exists>img'. drawLine img x0 y0 x1 y1 c = Some img' \<and> im_Dx img' = im_Dx img \<and> im_Dy img' = im_Dy img \<and>
    (in_image x0 y0 img \<longrightarrow> im_Pix img' (x0, y0) = c) \<and> (in_image x1 y1 img \<longrightarrow> im_Pix img' (x1, y1) = c) \<and>
    (\<forall>u v. im_Pix img' (u, v) \<noteq> im_Pix img (u, v) \<longrightarrow>
       im_Pix img' (u, v) = c \<and> min x0 x1 \<le> u \<and> u \<le> max x0 x1 \<and> min y0 y1 \<le> v \<and> v \<le> max y0 y1)"
proof -
  obtain img' l where d: "drawLine img x0 y0 x1 y1 c = Some img'" "line_drawn l x0 y0 img img'" "ln_x1 l = x1" "ln_y1 l = y1" "ln_c l = c"
    using drawLine_ends [OF assms] by blast
  from d(2) show ?thesis unfolding line_drawn_def d(3-5) by (intro exI [where x = img']) (use d(1) in blast)
qed

theorem drawLine_terminates_witness:
  "\<exists>img'. drawLine (NewRGBA 960 420) 84 358 932 56 chart_line = Some img' \<and> im_Pix img' (932, 56) = chart_line"
  using drawLine_terminates [of 84 358 932 56 "NewRGBA 960 420" chart_line]
  by (auto simp: small_point_def in_image_def NewRGBA_def)

lemma grid_lines_end: "list_all (\<lambda>i. 0 \<le> i \<and> i \<le> 3) is \<Longrightarrow> \<exists>img'. grid_lines is img = Some img'"
proof (induction "is" arbitrary: img)
  case (Cons i "is")
  have "small_point (84, 56 + i * (420 - 56 - 62) div 3)" "small_point (960 - 28, 56 + i * (420 - 56 - 62) div 3)"
    using Cons.prems by (auto simp: small_point_def)
  from drawLine_ends [OF this] obtain img1 where
    "drawLine img 84 (56 + i * (420 - 56 - 62) div 3) (960 - 28) (56 + i * (420 - 56 - 62) div 3) chart_grid = Some img1" by blast
  then show ?case using Cons by (simp add: Let_def)
qed simp

lemma chart_frame_ends: "\<exists>img. chart_frame = Some img"
proof -
  obtain a where a: "grid_lines [0, 1, 2, 3] (fillImage chart_bg (NewRGBA 960 420)) = Some a"
    using grid_lines_end [of "[0, 1, 2, 3]"] by auto
  have p: "small_point (84, 56)" "small_point (84, 420 - 62)" "small_point (960 - 28, 420 - 62)" by (simp_all add: small_point_def)
  obtain b where "drawLine a 84 56 84 (420 - 62) chart_axis = Some b" using drawLine_ends [OF p(1,2)] by blast
  moreover obtain d where "drawLine b 84 (420 - 62) (960 - 28) (420 - 62) chart_axis = Some d" using drawLine_ends [OF p(2,3)] by blast
  ultimately show ?thesis unfolding chart_frame_def a by simp
qed

text \<open>The chart of any number of points is drawn.\<close>

theorem chart_drawn:
  assumes "list_all small_point points"
  shows "\<exists>img. draw_chart points = Some img"
proof -
  have "\<exists>img'. draw_points ps img = Some img'" if "list_all small_point ps" for ps img
    using that
  proof (induction ps img rule: draw_points.induct)
    case (1 x0 y0 x1 y1 ps img)
    obtain img1 where "drawLine img x0 y0 x1 y1 chart_line = Some img1" using drawLine_ends "1.prems" by fastforce
    then show ?case using 1 by simp
  qed simp_all
  moreover obtain frame where frame: "chart_frame = Some frame" using chart_frame_ends by blast
  ultimately show ?thesis using assms unfolding draw_chart_def frame option.case by blast
qed

end
