(* ===== verification/Action_Service.thy ===== *)
theory Action_Service
  imports Command_Guard Approval_Routing Connector_Registry Connector_Tools Workflow_Text Dispatcher_Text
begin

text \<open>
  The action service, \<^verbatim>\<open>internal/modules/action/service.go\<close> and \<^verbatim>\<open>verification_service.go\<close>: it runs commands,
  queries metrics and invokes capabilities, over connectors or over the built-in SSH client.  The state
  (record \<open>Action\<close>) is the connector registry, whose health records the service writes, and the log of
  what was asked of the outside.  The SSH client, the runtimes of connectors and the files of outputs are
  functions of that log and the request; the clock is read at a position of the log.  Counters and log
  lines are left out.
\<close>

section \<open>Data\<close>

record ssh_Result =
  rr_ExitCode :: int
  rr_Output :: string
  rr_TimedOut :: bool

datatype ssh_error = ErrRemoteCommandFailed | ErrCommandTimedOut | TransportError go_error

fun ssh_error_text :: "ssh_error \<Rightarrow> string" where
  "ssh_error_text ErrRemoteCommandFailed = ''remote command failed''"
| "ssh_error_text ErrCommandTimedOut = ''remote command timed out''"
| "ssh_error_text (TransportError err) = error_text err"

fun connector_error_value :: "connector_error \<Rightarrow> go_error" where
  "connector_error_value ErrConnectorNotFound = ErrNoConnector"
| "connector_error_value ErrConnectorDisabled = Errorf ''connector is disabled''"
| "connector_error_value (ErrConnectorIncompatible s) = Errorf (''connector is incompatible with current TARS runtime: '' @ s)"
| "connector_error_value (ErrConnectorRuntimeUnsupported s) = Errorf (''connector runtime is unsupported: '' @ s)"

datatype action_call =
    RunCommand string string
  | ConnectorExecute Manifest ApprovedExecutionRequest
  | ConnectorVerify Manifest VerificationRequest
  | ConnectorQuery Manifest MetricsQuery
  | ProviderQuery MetricsQuery
  | ConnectorInvoke Manifest string valmap
  | Probe Manifest
  | WriteOutput string string

text \<open>A runtime may also be able to check the health of a connector: its status, a summary and an error.\<close>

type_synonym health_checker = "action_call list \<Rightarrow> Manifest \<Rightarrow> string \<times> string \<times> go_error option"

record query_runtime =
  qr_Query :: "action_call list \<Rightarrow> Manifest \<Rightarrow> MetricsQuery \<Rightarrow> MetricsResult result"
  qr_CheckHealth :: "health_checker option"

record execution_runtime =
  xrt_Execute :: "action_call list \<Rightarrow> Manifest \<Rightarrow> ApprovedExecutionRequest \<Rightarrow> ExecutionResult \<times> go_error option"
  xrt_Verify :: "action_call list \<Rightarrow> Manifest \<Rightarrow> VerificationRequest \<Rightarrow> VerificationResult \<times> go_error option"
  xrt_CheckHealth :: "health_checker option"

record capability_runtime =
  crt_Invoke :: "action_call list \<Rightarrow> Manifest \<Rightarrow> string \<Rightarrow> valmap \<Rightarrow> CapabilityResult \<times> go_error option"
  crt_CheckHealth :: "health_checker option"

text \<open>The evaluator of the policy answers for commands and for capabilities; \<open>sa_secrets\<close> is \<^verbatim>\<open>Store.Get\<close>.\<close>

record action_base =
  sa_executor :: "action_call list \<Rightarrow> string \<Rightarrow> string \<Rightarrow> ssh_Result \<times> ssh_error option"
  sa_metricsProvider :: "(action_call list \<Rightarrow> MetricsQuery \<Rightarrow> MetricsResult result) option"
  sa_allowedHosts :: "string list"
  sa_allowedCommandPrefixes :: "string list"
  sa_approvalRouter :: "RouteResolver option"
  sa_blockedCommandFragments :: "string list"
  sa_authorizationPolicy :: "((SSHCommandInput \<Rightarrow> Decision) \<times> (CapabilityInput \<Rightarrow> Decision)) option"
  sa_secrets :: "(string \<Rightarrow> string option) option"
  sa_outputSpoolDir :: string
  sa_maxPersistedOutputBytes :: int
  sa_clock :: "nat \<Rightarrow> gotime"
  sa_writeFile :: "action_call list \<Rightarrow> string \<Rightarrow> string \<Rightarrow> string result"
  sa_registry :: connector_env
  sa_ids :: "action_call list \<Rightarrow> string list"

record ActionOptions = action_base +
  so_queryRuntimes :: "(string \<times> query_runtime) list"
  so_executionRuntimes :: "(string \<times> execution_runtime) list"
  so_capabilityRuntimes :: "(string \<times> capability_runtime) list"

record ActionService = action_base +
  sa_queryRuntimes :: "string \<rightharpoonup> query_runtime"
  sa_executionRuntimes :: "string \<rightharpoonup> execution_runtime"
  sa_capabilityRuntimes :: "string \<rightharpoonup> capability_runtime"

record Action =
  ac_connectors :: "ConnManager option"
  ac_log :: "action_call list"

section \<open>Construction\<close>

definition toSet :: "string list \<Rightarrow> string list" where
  "toSet items = filter (\<lambda>x. x \<noteq> []) (map TrimSpace items)"

text \<open>The copies of the maps of runtimes: the entries in the order in which they are ranged over.\<close>

definition clone_runtimes :: "(string \<times> 'r) list \<Rightarrow> (string \<rightharpoonup> 'r)" where
  "clone_runtimes input =
     foldl (\<lambda>out kv. if TrimSpace (fst kv) = [] then out else out(TrimSpace (fst kv) \<mapsto> snd kv)) Map.empty input"

definition withDefaultMaxPersistedOutputBytes :: "int \<Rightarrow> int" where
  "withDefaultMaxPersistedOutputBytes value = (if value \<le> 0 then 262144 else value)"

definition action_NewService :: "ActionOptions \<Rightarrow> ActionService" where
  "action_NewService opts =
     action_base.extend
       ((action_base.truncate opts)\<lparr>sa_allowedHosts := toSet (sa_allowedHosts opts),
          sa_allowedCommandPrefixes := withDefaultPrefixes (sa_allowedCommandPrefixes opts),
          sa_blockedCommandFragments := withDefaultBlockedFragments (sa_blockedCommandFragments opts),
          sa_maxPersistedOutputBytes := withDefaultMaxPersistedOutputBytes (sa_maxPersistedOutputBytes opts)\<rparr>)
       (ActionService.fields (clone_runtimes (so_queryRuntimes opts)) (clone_runtimes (so_executionRuntimes opts))
          (clone_runtimes (so_capabilityRuntimes opts)))"

definition metricsRuntimeProtocols :: "string list" where
  "metricsRuntimeProtocols = [''prometheus_http'', ''victoriametrics_http'']"

definition executionRuntimeProtocols :: "string list" where
  "executionRuntimeProtocols = [''jumpserver_api'', ''ssh_native'']"

section \<open>Helpers\<close>

fun act_firstNonEmpty :: "string list \<Rightarrow> string" where
  "act_firstNonEmpty [] = []"
| "act_firstNonEmpty (v # vs) = (if TrimSpace v \<noteq> [] then TrimSpace v else act_firstNonEmpty vs)"

definition act_now :: "ActionService \<Rightarrow> Action \<Rightarrow> gotime" where
  "act_now svc s = sa_clock svc (length (ac_log s))"

definition act_logged :: "action_call \<Rightarrow> Action \<Rightarrow> Action" where
  "act_logged c s = s\<lparr>ac_log := ac_log s @ [c]\<rparr>"

definition act_snapshot :: "Action \<Rightarrow> Snapshot option" where
  "act_snapshot s = map_option conn_Snapshot (ac_connectors s)"

definition ResolveValues :: "(string \<Rightarrow> string option) option \<Rightarrow> strmap \<Rightarrow> strmap \<Rightarrow> strmap" where
  "ResolveValues store values refs =
     (let plain = foldl (\<lambda>out kv. if TrimSpace (fst kv) = [] then out else map_put (TrimSpace (fst kv)) (snd kv) out) [] values
      in case store of
           None \<Rightarrow> plain
         | Some lookup \<Rightarrow>
             foldl (\<lambda>out kv. let key = TrimSpace (fst kv); ref = TrimSpace (snd kv) in
                      if key = [] \<or> ref = [] then out
                      else (case lookup ref of Some v \<Rightarrow> map_put key v out | None \<Rightarrow> out)) plain refs)"

definition with_secrets :: "ActionService \<Rightarrow> Manifest \<Rightarrow> Manifest" where
  "with_secrets svc manifest =
     manifest\<lparr>mf_Config := (mf_Config manifest)\<lparr>rcf_Values :=
       ResolveValues (sa_secrets svc) (rcf_Values (mf_Config manifest)) (rcf_SecretRefs (mf_Config manifest))\<rparr>\<rparr>"

text \<open>A failed record is only logged; the registry may have changed all the same.\<close>

definition recordConnectorHealth :: "ActionService \<Rightarrow> string \<Rightarrow> string \<Rightarrow> string \<Rightarrow> Action \<Rightarrow> Action" where
  "recordConnectorHealth svc cid status summary s =
     (case ac_connectors s of
        None \<Rightarrow> s
      | Some m \<Rightarrow>
          if TrimSpace cid = [] then s
          else s\<lparr>ac_connectors := Some (snd (RecordHealth (sa_registry svc) (sa_ids svc (ac_log s)) (act_now svc s) cid status summary
                   (act_now svc s) m))\<rparr>)"

definition runtimeSelectionMode :: "string \<Rightarrow> string" where
  "runtimeSelectionMode connectorID = (if TrimSpace connectorID \<noteq> [] then ''explicit_connector'' else ''auto_selector'')"

definition runtimeMetadataForConnectorManifest ::
  "string \<Rightarrow> string \<Rightarrow> Manifest \<Rightarrow> string \<Rightarrow> bool \<Rightarrow> RuntimeMetadata option" where
  "runtimeMetadataForConnectorManifest runtime selection manifest executionMode fallbackEnabled =
     (if TrimSpace (md_ID (mf_Metadata manifest)) = [] \<and> TrimSpace (sp_Protocol (mf_Spec manifest)) = [] then None
      else Some (zero_RuntimeMetadata\<lparr>rm_Runtime := runtime, rm_Selection := selection,
        rm_ConnectorID := TrimSpace (md_ID (mf_Metadata manifest)), rm_ConnectorType := TrimSpace (sp_Type (mf_Spec manifest)),
        rm_ConnectorVendor := TrimSpace (md_Vendor (mf_Metadata manifest)), rm_Protocol := TrimSpace (sp_Protocol (mf_Spec manifest)),
        rm_ExecutionMode := act_firstNonEmpty [executionMode, DefaultExecutionMode (sp_Protocol (mf_Spec manifest))],
        rm_FallbackEnabled := fallbackEnabled\<rparr>))"

definition runtimeMetadataForFallback ::
  "string \<Rightarrow> string \<Rightarrow> string \<Rightarrow> string \<Rightarrow> string \<Rightarrow> string \<Rightarrow> string \<Rightarrow> bool \<Rightarrow> bool \<Rightarrow> string \<Rightarrow> string \<Rightarrow> RuntimeMetadata" where
  "runtimeMetadataForFallback runtime selection connectorID connectorType connectorVendor protocol executionMode fallbackEnabled
       fallbackUsed fallbackReason fallbackTarget =
     \<lparr>rm_Runtime = TrimSpace runtime, rm_Selection = selection, rm_ConnectorID = TrimSpace connectorID,
      rm_ConnectorType = TrimSpace connectorType, rm_ConnectorVendor = TrimSpace connectorVendor, rm_Protocol = TrimSpace protocol,
      rm_ExecutionMode = TrimSpace executionMode, rm_FallbackEnabled = fallbackEnabled, rm_FallbackUsed = fallbackUsed,
      rm_FallbackReason = TrimSpace fallbackReason, rm_FallbackTarget = TrimSpace fallbackTarget\<rparr>"

definition queryRuntimeFallbackReason :: "bool \<Rightarrow> Manifest option \<Rightarrow> string" where
  "queryRuntimeFallbackReason connectorSelected manifest =
     (if connectorSelected then ''connector_runtime_failed''
      else (case manifest of
              Some m \<Rightarrow> if TrimSpace (md_ID (mf_Metadata m)) \<noteq> [] then ''connector_runtime_unavailable'' else ''no_compatible_connector_selected''
            | None \<Rightarrow> ''no_compatible_connector_selected''))"

definition executionRuntimeFallbackReason :: "bool \<Rightarrow> Manifest option \<Rightarrow> string" where
  "executionRuntimeFallbackReason connectorSelected manifest =
     (if connectorSelected then ''connector_runtime_unavailable''
      else (case manifest of
              Some m \<Rightarrow> if TrimSpace (md_ID (mf_Metadata m)) \<noteq> [] then ''connector_runtime_unavailable'' else ''no_compatible_connector_selected''
            | None \<Rightarrow> ''no_compatible_connector_selected''))"

definition truncateUTF8ByBytes :: "string \<Rightarrow> int \<Rightarrow> string \<times> bool" where
  "truncateUTF8ByBytes input maxBytes =
     (if maxBytes \<le> 0 \<or> input = [] then ([], input \<noteq> [])
      else if int (length input) \<le> maxBytes then (input, False)
      else
        (let lastBoundary = boundary_loop (nat maxBytes) (rune_starts 0 input) 0 in
         if lastBoundary = 0 then ([], True) else (take lastBoundary input, True)))"

definition prepareExecutionOutput :: "string \<Rightarrow> int \<Rightarrow> string \<times> int \<times> bool" where
  "prepareExecutionOutput output maxBytes =
     (if output = [] \<or> maxBytes \<le> 0 then (output, int (length output), False)
      else (case truncateUTF8ByBytes output maxBytes of (preview, truncated) \<Rightarrow> (preview, int (length output), truncated)))"

definition truncateVerificationOutput :: "string \<Rightarrow> int \<Rightarrow> string" where
  "truncateVerificationOutput input maxLen = (if maxLen \<le> 0 \<or> int (length input) \<le> maxLen then input else take (nat maxLen) input)"

definition serviceCommandAllowlist :: "ActionService \<Rightarrow> routes" where
  "serviceCommandAllowlist svc = (case sa_approvalRouter svc of None \<Rightarrow> Map.empty | Some r \<Rightarrow> ServiceCommandAllowlist r)"

text \<open>The file of an output; an error is only logged.\<close>

definition persistOutput :: "ActionService \<Rightarrow> string \<Rightarrow> string \<Rightarrow> Action \<Rightarrow> string result \<times> Action" where
  "persistOutput svc executionID output s =
     (if TrimSpace (sa_outputSpoolDir svc) = [] \<or> output = [] then (Inr [], s)
      else (sa_writeFile svc (ac_log s) executionID output, act_logged (WriteOutput executionID output) s))"

section \<open>Choice of a runtime\<close>

definition resolveRuntimeManifest ::
  "string \<Rightarrow> string \<Rightarrow> string \<Rightarrow> string list \<Rightarrow> Action \<Rightarrow> Manifest option result" where
  "resolveRuntimeManifest connectorID expectedType protocol supportedProtocols s =
     (if ac_connectors s = None then Inr None
      else if TrimSpace connectorID \<noteq> []
      then (case ResolveRuntimeManifest (act_snapshot s) connectorID expectedType protocol supportedProtocols of
              Inl err \<Rightarrow> Inl (connector_error_value err)
            | Inr manifest \<Rightarrow> Inr (Some manifest))
      else Inr (SelectHealthyRuntimeManifest (act_snapshot s) expectedType protocol supportedProtocols))"

definition runtime_protocol :: "string \<Rightarrow> Manifest \<Rightarrow> string" where
  "runtime_protocol protocol manifest =
     (if TrimSpace protocol = [] then TrimSpace (sp_Protocol (mf_Spec manifest)) else TrimSpace protocol)"

definition resolveQueryRuntime ::
  "ActionService \<Rightarrow> string \<Rightarrow> string \<Rightarrow> Action \<Rightarrow> (query_runtime \<times> Manifest) option result" where
  "resolveQueryRuntime svc connectorID protocol s =
     (case resolveRuntimeManifest connectorID ''metrics'' protocol metricsRuntimeProtocols s of
        Inl err \<Rightarrow> Inl err
      | Inr None \<Rightarrow> Inr None
      | Inr (Some manifest) \<Rightarrow>
          (case sa_queryRuntimes svc (runtime_protocol protocol manifest) of
             None \<Rightarrow> if TrimSpace connectorID \<noteq> []
                      then Inl (Errorf (''unsupported metrics connector protocol '' @ runtime_protocol protocol manifest)) else Inr None
           | Some runtime \<Rightarrow> Inr (Some (runtime, manifest))))"

definition resolveExecutionRuntime ::
  "ActionService \<Rightarrow> string \<Rightarrow> string \<Rightarrow> Action \<Rightarrow> (execution_runtime \<times> Manifest) option result" where
  "resolveExecutionRuntime svc connectorID protocol s =
     (case resolveRuntimeManifest connectorID ''execution'' protocol executionRuntimeProtocols s of
        Inl err \<Rightarrow> Inl err
      | Inr None \<Rightarrow> Inr None
      | Inr (Some manifest) \<Rightarrow>
          (case sa_executionRuntimes svc (runtime_protocol protocol manifest) of
             None \<Rightarrow> if TrimSpace connectorID \<noteq> []
                      then Inl (Errorf (''unsupported execution connector protocol '' @ runtime_protocol protocol manifest)) else Inr None
           | Some runtime \<Rightarrow> Inr (Some (runtime, manifest))))"

section \<open>Metrics\<close>

definition manifest_protocol :: "Manifest option \<Rightarrow> string" where
  "manifest_protocol manifest = (case manifest of None \<Rightarrow> [] | Some m \<Rightarrow> sp_Protocol (mf_Spec m))"

definition query_fallback :: "string \<Rightarrow> MetricsQuery \<Rightarrow> Manifest option \<Rightarrow> bool \<Rightarrow> RuntimeMetadata" where
  "query_fallback runtime query manifest used =
     runtimeMetadataForFallback runtime (runtimeSelectionMode (mx_ConnectorID query)) (mx_ConnectorID query) (mx_ConnectorType query)
       (mx_ConnectorVendor query) (act_firstNonEmpty [mx_Protocol query, manifest_protocol manifest, ''victoriametrics_http''])
       [] True used (queryRuntimeFallbackReason (manifest \<noteq> None) manifest) ''stub''"

definition stub_metrics :: "MetricsQuery \<Rightarrow> Manifest option \<Rightarrow> MetricsResult" where
  "stub_metrics query manifest =
     \<lparr>mr_Series = [[(''service'', VString (mx_Service query)), (''host'', VString (mx_Host query)), (''value'', VInt 1),
                     (''source'', VString ''stub'')]],
      mr_Runtime = Some (query_fallback ''stub'' query manifest True)\<rparr>"

text \<open>The provider, then the stub, after a connector that is not explicit.\<close>

definition fallback_metrics :: "ActionService \<Rightarrow> MetricsQuery \<Rightarrow> Manifest option \<Rightarrow> Action \<Rightarrow> MetricsResult result \<times> Action" where
  "fallback_metrics svc query manifest s =
     (case sa_metricsProvider svc of
        None \<Rightarrow> (Inr (stub_metrics query manifest), s)
      | Some provider \<Rightarrow>
          (let s1 = act_logged (ProviderQuery query) s in
           case provider (ac_log s) query of
             Inl _ \<Rightarrow> (Inr (stub_metrics query manifest), s1)
           | Inr res \<Rightarrow>
               (Inr (res\<lparr>mr_Runtime := Some ((query_fallback ''legacy_provider'' query manifest (manifest \<noteq> None))\<lparr>rm_FallbackUsed := True\<rparr>)\<rparr>), s1)))"

definition act_QueryMetrics :: "ActionService \<Rightarrow> MetricsQuery \<Rightarrow> Action \<Rightarrow> MetricsResult result \<times> Action" where
  "act_QueryMetrics svc query s =
     (case resolveQueryRuntime svc (mx_ConnectorID query) (mx_Protocol query) s of
        Inl err \<Rightarrow> (Inl err, s)
      | Inr None \<Rightarrow> fallback_metrics svc query None s
      | Inr (Some (runtime, manifest)) \<Rightarrow>
          (let m = with_secrets svc manifest; cid = md_ID (mf_Metadata manifest);
               s1 = act_logged (ConnectorQuery m query) s
           in case qr_Query runtime (ac_log s) m query of
                Inr res \<Rightarrow>
                  (Inr (res\<lparr>mr_Runtime := runtimeMetadataForConnectorManifest ''connector'' (runtimeSelectionMode (mx_ConnectorID query)) manifest [] False\<rparr>),
                   recordConnectorHealth svc cid ''healthy'' ''metrics runtime query succeeded'' s1)
              | Inl err \<Rightarrow>
                  (let s2 = recordConnectorHealth svc cid ''degraded'' (''metrics runtime query failed: '' @ error_text err) s1 in
                   if TrimSpace (mx_ConnectorID query) \<noteq> [] then (Inl err, s2)
                   else fallback_metrics svc query (Some manifest) s2)))"

section \<open>Commands\<close>

definition host_allowed :: "ActionService \<Rightarrow> string \<Rightarrow> bool" where
  "host_allowed svc host \<longleftrightarrow> sa_allowedHosts svc = [] \<or> host \<in> set (sa_allowedHosts svc)"

definition validateRequest :: "ActionService \<Rightarrow> ApprovedExecutionRequest \<Rightarrow> string option" where
  "validateRequest svc req =
     (let command = TrimSpace (xr_Command req) in
      if xr_ExecutionID req = [] \<or> xr_SessionID req = [] \<or> xr_TargetHost req = [] \<or> command = []
      then Some ''execution request is incomplete''
      else if \<not> host_allowed svc (xr_TargetHost req)
      then Some (''target host '' @ xr_TargetHost req @ '' is not in allowlist'')
      else
        (case validateBlockedFragments command (sa_blockedCommandFragments svc) of
           Some err \<Rightarrow> Some err
         | None \<Rightarrow>
             (case sa_authorizationPolicy svc of
                Some (evaluate, _) \<Rightarrow>
                  (let action = dn_Action (evaluate \<lparr>si_Command = command, si_Service = xr_Service req, si_Host = xr_TargetHost req, si_Channel = []\<rparr>) in
                   if action = ActionDirectExecute \<or> action = ActionRequireApproval then None
                   else if action = ActionSuggestOnly then Some ''command requires manual handling by authorization policy''
                   else if action = ActionDeny then Some ''command denied by authorization policy''
                   else Some ''command blocked by unknown authorization action'')
              | None \<Rightarrow>
                  validateCommand command (sa_allowedCommandPrefixes svc) (sa_blockedCommandFragments svc) (xr_Service req)
                    (serviceCommandAllowlist svc))))"

text \<open>A connector reported a result.\<close>

definition completed_output :: "ActionService \<Rightarrow> ApprovedExecutionRequest \<Rightarrow> ExecutionResult \<Rightarrow> Action \<Rightarrow> ExecutionResult \<times> Action" where
  "completed_output svc req res s =
     (if er_Output res \<noteq> [] \<and> (er_OutputBytes res = 0 \<or> er_OutputRef res = [])
      then
        (let (ref, s1) = persistOutput svc (xr_ExecutionID req) (er_Output res) s;
             (preview, bytes, truncated) = prepareExecutionOutput (er_Output res) (sa_maxPersistedOutputBytes svc)
         in (res\<lparr>er_OutputRef := (case ref of Inl _ \<Rightarrow> er_OutputRef res | Inr path \<Rightarrow> if er_OutputRef res = [] then path else er_OutputRef res),
               er_OutputPreview := (if er_OutputPreview res = [] then preview else er_OutputPreview res),
               er_OutputBytes := bytes, er_OutputTruncated := truncated\<rparr>, s1))
      else (res, s))"

definition connector_execution ::
  "ActionService \<Rightarrow> execution_runtime \<Rightarrow> Manifest \<Rightarrow> ApprovedExecutionRequest \<Rightarrow> Action \<Rightarrow> (ExecutionResult \<times> go_error option) \<times> Action" where
  "connector_execution svc runtime manifest req s =
     (let m = with_secrets svc manifest; cid = md_ID (mf_Metadata manifest); protocol = sp_Protocol (mf_Spec manifest);
          s1 = act_logged (ConnectorExecute m req) s
      in case xrt_Execute runtime (ac_log s) m req of
           (res, Some err) \<Rightarrow>
             ((res, Some err), recordConnectorHealth svc cid ''degraded'' (''execution runtime failed: '' @ error_text err) s1)
         | (res, None) \<Rightarrow>
             (let s2 = recordConnectorHealth svc cid ''healthy'' ''execution runtime completed successfully'' s1;
                  mode = act_firstNonEmpty [xr_ExecutionMode req, DefaultExecutionMode protocol];
                  res1 = res\<lparr>er_ExecutionID := xr_ExecutionID req, er_SessionID := xr_SessionID req, er_ConnectorID := cid,
                    er_Protocol := protocol, er_ExecutionMode := mode,
                    er_Runtime := runtimeMetadataForConnectorManifest ''connector'' (runtimeSelectionMode (xr_ConnectorID req)) manifest mode True\<rparr>;
                  (res2, s3) = completed_output svc req res1 s2
              in ((res2, None), s3)))"

definition ssh_runtime :: "ApprovedExecutionRequest \<Rightarrow> RuntimeMetadata" where
  "ssh_runtime req =
     runtimeMetadataForFallback ''ssh'' (runtimeSelectionMode (xr_ConnectorID req)) (xr_ConnectorID req) (xr_ConnectorType req)
       (xr_ConnectorVendor req) (act_firstNonEmpty [xr_Protocol req, ''ssh'']) (act_firstNonEmpty [xr_ExecutionMode req, ''ssh''])
       True True (executionRuntimeFallbackReason False None) ''ssh''"

definition ssh_execution :: "ActionService \<Rightarrow> ApprovedExecutionRequest \<Rightarrow> Action \<Rightarrow> (ExecutionResult \<times> go_error option) \<times> Action" where
  "ssh_execution svc req s =
     (let (run, err) = sa_executor svc (ac_log s) (xr_TargetHost req) (xr_Command req);
          s1 = act_logged (RunCommand (xr_TargetHost req) (xr_Command req)) s
      in case err of
           Some (TransportError e) \<Rightarrow> ((zero_ExecutionResult, Some e), s1)
         | _ \<Rightarrow>
             (let (ref, s2) = persistOutput svc (xr_ExecutionID req) (rr_Output run) s1;
                  (preview, bytes, truncated) = prepareExecutionOutput (rr_Output run) (sa_maxPersistedOutputBytes svc);
                  status = (if err = Some ErrCommandTimedOut \<or> rr_TimedOut run then ''timeout''
                            else if rr_ExitCode run \<noteq> 0 then ''failed'' else ''completed'')
              in ((zero_ExecutionResult\<lparr>er_ExecutionID := xr_ExecutionID req, er_SessionID := xr_SessionID req, er_Status := status,
                     er_ConnectorID := xr_ConnectorID req, er_Protocol := act_firstNonEmpty [xr_Protocol req, ''ssh''],
                     er_ExecutionMode := act_firstNonEmpty [xr_ExecutionMode req, ''ssh''], er_Runtime := Some (ssh_runtime req),
                     er_ExitCode := rr_ExitCode run, er_OutputRef := (case ref of Inr path \<Rightarrow> path | Inl _ \<Rightarrow> []),
                     er_OutputPreview := preview, er_OutputBytes := bytes, er_OutputTruncated := truncated\<rparr>, None), s2)))"

definition act_ExecuteApproved ::
  "ActionService \<Rightarrow> ApprovedExecutionRequest \<Rightarrow> Action \<Rightarrow> (ExecutionResult \<times> go_error option) \<times> Action" where
  "act_ExecuteApproved svc req s =
     (case resolveExecutionRuntime svc (xr_ConnectorID req) (xr_Protocol req) s of
        Inl err \<Rightarrow> ((zero_ExecutionResult, Some err), s)
      | Inr (Some (runtime, manifest)) \<Rightarrow> connector_execution svc runtime manifest req s
      | Inr None \<Rightarrow>
          (case validateRequest svc req of
             Some err \<Rightarrow> ((zero_ExecutionResult, Some (Errorf err)), s)
           | None \<Rightarrow> ssh_execution svc req s))"

section \<open>Verification\<close>

definition VerificationServiceCandidates :: "string \<Rightarrow> string list" where
  "VerificationServiceCandidates service =
     (let trimmed = TrimSpace service; lower = ToLower trimmed in
      if trimmed = [] then []
      else if lower = ''ssh'' then [trimmed, ''sshd'']
      else if lower = ''sshd'' then [trimmed, ''ssh'']
      else if lower = ''postgres'' then [trimmed, ''postgresql'']
      else if lower = ''postgresql'' then [trimmed, ''postgres'']
      else [trimmed])"

definition is_active :: "string \<Rightarrow> string" where
  "is_active service = ''systemctl is-active '' @ service"

text \<open>The candidates in turn: the match, those attempted, and the last command, its result and error.\<close>

record verify_state =
  vs_matched :: string
  vs_attempted :: "string list"
  vs_command :: string
  vs_result :: ssh_Result
  vs_err :: "ssh_error option"

definition verify_start :: verify_state where
  "verify_start = \<lparr>vs_matched = [], vs_attempted = [], vs_command = [],
     vs_result = \<lparr>rr_ExitCode = 0, rr_Output = [], rr_TimedOut = False\<rparr>, vs_err = None\<rparr>"

fun verify_loop :: "ActionService \<Rightarrow> string \<Rightarrow> string list \<Rightarrow> verify_state \<Rightarrow> Action \<Rightarrow> verify_state \<times> Action" where
  "verify_loop svc host [] v s = (v, s)"
| "verify_loop svc host (candidate # candidates) v s =
     (let command = is_active candidate;
          (run, err) = sa_executor svc (ac_log s) host command;
          s1 = act_logged (RunCommand host command) s;
          v1 = v\<lparr>vs_attempted := vs_attempted v @ [candidate], vs_command := command, vs_result := run, vs_err := err\<rparr>
      in if err = None \<and> HasPrefix (TrimSpace (rr_Output run)) ''active'' then (v1\<lparr>vs_matched := candidate\<rparr>, s1)
         else if err = Some ErrCommandTimedOut \<or> rr_TimedOut run then (v1, s1)
         else verify_loop svc host candidates v1 s1)"

definition verify_details :: "string \<Rightarrow> verify_state \<Rightarrow> valmap" where
  "verify_details service v =
     [(''command'', VString (vs_command v)), (''exit_code'', VInt (rr_ExitCode (vs_result v))),
      (''output'', VString (truncateVerificationOutput (TrimSpace (rr_Output (vs_result v))) 240)),
      (''service'', VString service), (''service_candidates'', VSlice (map VString (vs_attempted v)))]"

definition ssh_verdict :: "VerificationResult \<Rightarrow> string \<Rightarrow> verify_state \<Rightarrow> VerificationResult" where
  "ssh_verdict base service v =
     (let details = verify_details service v; output = TrimSpace (rr_Output (vs_result v)) in
      if vs_matched v \<noteq> []
      then base\<lparr>vr_Status := ''success'', vr_Summary := ''verification passed: '' @ vs_matched v @ '' is active'',
             vr_Details := map_put ''matched_service'' (VString (vs_matched v)) details\<rparr>
      else if vs_err v = Some ErrCommandTimedOut \<or> rr_TimedOut (vs_result v)
      then base\<lparr>vr_Status := ''failed'', vr_Summary := ''verification failed: timed out checking '' @ service,
             vr_Details := map_put ''error'' (VString ''verification command timed out'') details\<rparr>
      else base\<lparr>vr_Status := ''failed'',
             vr_Summary := (if output = [] \<and> vs_err v \<noteq> None then ''verification failed: could not confirm '' @ service @ '' status''
                            else ''verification failed: '' @ service @ '' is not active''),
             vr_Details := (case vs_err v of Some e \<Rightarrow> map_put ''error'' (VString (ssh_error_text e)) details | None \<Rightarrow> details)\<rparr>)"

definition ssh_verification :: "ActionService \<Rightarrow> VerificationRequest \<Rightarrow> Action \<Rightarrow> VerificationResult \<times> Action" where
  "ssh_verification svc req s =
     (let base = zero_VerificationResult\<lparr>vr_SessionID := vq_SessionID req, vr_ExecutionID := vq_ExecutionID req,
            vr_Runtime := Some (runtimeMetadataForFallback ''ssh'' (runtimeSelectionMode (vq_ConnectorID req)) (vq_ConnectorID req) ''execution'' []
              (act_firstNonEmpty [vq_Protocol req, ''ssh'']) (act_firstNonEmpty [vq_ExecutionMode req, ''ssh'']) True True
              (executionRuntimeFallbackReason False None) ''ssh''),
            vr_CheckedAt := act_now svc s\<rparr>;
          skipped = (\<lambda>why. base\<lparr>vr_Status := ''skipped'', vr_Summary := ''verification skipped: '' @ why,
            vr_Details := [(''mode'', VString ''skipped'')]\<rparr>);
          service = TrimSpace (vq_Service req);
          probe = zero_ApprovedExecutionRequest\<lparr>xr_ExecutionID := vq_ExecutionID req, xr_SessionID := vq_SessionID req,
            xr_TargetHost := vq_TargetHost req, xr_Command := is_active service, xr_Service := vq_Service req\<rparr>
      in if TrimSpace (vq_TargetHost req) = [] then (skipped ''target host is empty'', s)
         else if service = [] then (skipped ''no service hint available'', s)
         else
           (case validateRequest svc probe of
              Some err \<Rightarrow>
                (base\<lparr>vr_Status := ''failed'', vr_Summary := ''verification failed: '' @ err,
                   vr_Details := [(''command'', VString (is_active service)), (''error'', VString err)]\<rparr>, s)
            | None \<Rightarrow>
                (let (v, s1) = verify_loop svc (vq_TargetHost req) (VerificationServiceCandidates service) verify_start s
                 in (ssh_verdict base service v, s1))))"

definition act_VerifyExecution ::
  "ActionService \<Rightarrow> VerificationRequest \<Rightarrow> Action \<Rightarrow> (VerificationResult \<times> go_error option) \<times> Action" where
  "act_VerifyExecution svc req s =
     (case resolveExecutionRuntime svc (vq_ConnectorID req) (vq_Protocol req) s of
        Inl err \<Rightarrow> ((zero_VerificationResult, Some err), s)
      | Inr None \<Rightarrow> (let (res, s1) = ssh_verification svc req s in ((res, None), s1))
      | Inr (Some (runtime, manifest)) \<Rightarrow>
          (let m = with_secrets svc manifest; cid = md_ID (mf_Metadata manifest);
               meta = runtimeMetadataForConnectorManifest ''connector'' (runtimeSelectionMode (vq_ConnectorID req)) manifest
                 (act_firstNonEmpty [vq_ExecutionMode req, DefaultExecutionMode (sp_Protocol (mf_Spec manifest))]) True;
               s1 = act_logged (ConnectorVerify m req) s
           in case xrt_Verify runtime (ac_log s) m req of
                (res, Some err) \<Rightarrow>
                  ((res\<lparr>vr_Runtime := meta\<rparr>, Some err),
                   recordConnectorHealth svc cid ''degraded'' (''execution verification failed: '' @ error_text err) s1)
              | (res, None) \<Rightarrow>
                  ((res\<lparr>vr_Runtime := meta\<rparr>, None),
                   if EqualFold (TrimSpace (vr_Status res)) ''success'' \<or> EqualFold (TrimSpace (vr_Status res)) ''skipped''
                   then recordConnectorHealth svc cid ''healthy'' (act_firstNonEmpty [TrimSpace (vr_Summary res), ''execution verification completed'']) s1
                   else recordConnectorHealth svc cid ''degraded'' (act_firstNonEmpty [TrimSpace (vr_Summary res), ''execution verification failed'']) s1)))"

section \<open>Capabilities\<close>

definition findCapability :: "Manifest \<Rightarrow> string \<Rightarrow> Capability option" where
  "findCapability manifest capabilityID =
     find (\<lambda>c. ToLower (TrimSpace (ca_ID c)) = ToLower (TrimSpace capabilityID)) (sp_Capabilities (mf_Spec manifest))"

definition connectorSourceType :: "Manifest \<Rightarrow> string" where
  "connectorSourceType manifest =
     (let t = NormalizeCapabilityConnectorType (sp_Type (mf_Spec manifest)) in if t \<in> {''mcp'', ''skill''} then t else ''connector'')"

definition capabilityRuntimeKey :: "Manifest \<Rightarrow> string" where
  "capabilityRuntimeKey manifest =
     (let t = NormalizeCapabilityConnectorType (sp_Type (mf_Spec manifest));
          protocol = ToLower (TrimSpace (sp_Protocol (mf_Spec manifest)))
      in if t \<in> {''mcp'', ''skill''} then t else if protocol \<noteq> [] then protocol else t)"

definition cloneCapabilityParams :: "valmap \<Rightarrow> valmap" where
  "cloneCapabilityParams params = params"

definition zero_CapabilityResult :: CapabilityResult where
  "zero_CapabilityResult = \<lparr>cp_Status = [], cp_Output = [], cp_Artifacts = [], cp_Metadata = [], cp_Error = [], cp_Runtime = None\<rparr>"

definition failed_capability :: "string \<Rightarrow> go_error \<Rightarrow> CapabilityResult \<times> go_error option" where
  "failed_capability text err = (zero_CapabilityResult\<lparr>cp_Status := ''failed'', cp_Error := text\<rparr>, Some err)"

text \<open>The answer of the policy when the capability is not to be invoked.\<close>

definition withheld_capability :: "string \<Rightarrow> Decision \<Rightarrow> (CapabilityResult \<times> go_error option) option" where
  "withheld_capability capabilityID decision =
     (let meta = [(''rule_id'', VString (dn_RuleID decision)), (''matched_by'', VString (dn_MatchedBy decision))] in
      if dn_Action decision = ActionDirectExecute then None
      else if dn_Action decision = ActionRequireApproval
      then Some (zero_CapabilityResult\<lparr>cp_Status := ''pending_approval'', cp_Error := ''capability requires approval'', cp_Metadata := meta\<rparr>, None)
      else if dn_Action decision = ActionDeny
      then Some (zero_CapabilityResult\<lparr>cp_Status := ''denied'',
             cp_Error := ''capability '' @ quoted capabilityID @ '' denied by policy (rule: '' @ dn_RuleID decision @ '')'', cp_Metadata := meta\<rparr>, None)
      else Some (zero_CapabilityResult\<lparr>cp_Status := ''denied'', cp_Error := ''capability blocked by unknown authorization action''\<rparr>,
             Some (Errorf ''capability blocked by unknown authorization action'')))"

definition authorize_capability :: "ActionService \<Rightarrow> CapabilityRequest \<Rightarrow> Manifest \<Rightarrow> Capability \<Rightarrow> (CapabilityResult \<times> go_error option) option" where
  "authorize_capability svc req manifest capability =
     (case sa_authorizationPolicy svc of
        None \<Rightarrow> None
      | Some (_, evaluate) \<Rightarrow>
          if cq_SkipAuthorization req then None
          else withheld_capability (TrimSpace (cq_CapabilityID req))
                 (evaluate \<lparr>ci_ConnectorID = TrimSpace (cq_ConnectorID req), ci_CapabilityID = TrimSpace (cq_CapabilityID req),
                   ci_ReadOnly = ca_ReadOnly capability, ci_Source = connectorSourceType manifest\<rparr>))"

definition capability_runtime_for :: "ActionService \<Rightarrow> Manifest \<Rightarrow> capability_runtime option" where
  "capability_runtime_for svc manifest =
     (case sa_capabilityRuntimes svc (capabilityRuntimeKey manifest) of
        Some r \<Rightarrow> Some r
      | None \<Rightarrow>
          (case sa_capabilityRuntimes svc (NormalizeCapabilityConnectorType (sp_Type (mf_Spec manifest))) of
             Some r \<Rightarrow> Some r
           | None \<Rightarrow> sa_capabilityRuntimes svc (ToLower (TrimSpace (sp_Type (mf_Spec manifest))))))"

definition invoke_runtime ::
  "ActionService \<Rightarrow> capability_runtime \<Rightarrow> CapabilityRequest \<Rightarrow> Manifest \<Rightarrow> Action \<Rightarrow> (CapabilityResult \<times> go_error option) \<times> Action" where
  "invoke_runtime svc runtime req manifest s =
     (let m = with_secrets svc manifest; capabilityID = TrimSpace (cq_CapabilityID req);
          s1 = act_logged (ConnectorInvoke m capabilityID (cq_Params req)) s;
          (res, err) = crt_Invoke runtime (ac_log s) m capabilityID (cq_Params req);
          res1 = (if cp_Runtime res = None
                  then res\<lparr>cp_Runtime := runtimeMetadataForConnectorManifest ''capability'' ''explicit_connector'' manifest [] False\<rparr> else res)
      in ((res1, err),
          case err of
            Some e \<Rightarrow> recordConnectorHealth svc (TrimSpace (cq_ConnectorID req)) ''degraded'' (''capability invocation failed: '' @ error_text e) s1
          | None \<Rightarrow> recordConnectorHealth svc (TrimSpace (cq_ConnectorID req)) ''healthy'' ''capability invocation succeeded'' s1))"

definition act_InvokeCapability ::
  "ActionService \<Rightarrow> CapabilityRequest \<Rightarrow> Action \<Rightarrow> (CapabilityResult \<times> go_error option) \<times> Action" where
  "act_InvokeCapability svc req s =
     (let connectorID = TrimSpace (cq_ConnectorID req); capabilityID = TrimSpace (cq_CapabilityID req) in
      if connectorID = [] then (failed_capability ''connector_id is required'' (Errorf ''connector_id is required for invoke_capability''), s)
      else if capabilityID = [] then (failed_capability ''capability_id is required'' (Errorf ''capability_id is required for invoke_capability''), s)
      else if ac_connectors s = None
      then (failed_capability ''connector manager not available'' (Errorf ''connector manager not available''), s)
      else
        (case ResolveRuntimeManifest (act_snapshot s) connectorID [] [] [] of
           Inl e \<Rightarrow> (failed_capability (error_text (connector_error_value e)) (connector_error_value e), s)
         | Inr manifest \<Rightarrow>
             (case findCapability manifest capabilityID of
                None \<Rightarrow>
                  (let text = ''capability '' @ quoted capabilityID @ '' not found on connector '' @ quoted connectorID
                   in (failed_capability text (Errorf text), s))
              | Some capability \<Rightarrow>
                  (case authorize_capability svc req manifest capability of
                     Some answer \<Rightarrow> (answer, s)
                   | None \<Rightarrow>
                       (case capability_runtime_for svc manifest of
                          None \<Rightarrow>
                            (let text = ''no capability runtime for connector type='' @ sp_Type (mf_Spec manifest) @ '' protocol='' @
                                   sp_Protocol (mf_Spec manifest)
                             in ((zero_CapabilityResult\<lparr>cp_Status := ''failed'', cp_Error := text,
                                    cp_Runtime := runtimeMetadataForConnectorManifest ''capability'' ''explicit_connector'' manifest [] False\<rparr>,
                                  Some (Errorf text)), s))
                        | Some runtime \<Rightarrow> invoke_runtime svc runtime req manifest s)))))"

definition approved_request :: "ApprovedCapabilityRequest \<Rightarrow> CapabilityRequest" where
  "approved_request req =
     \<lparr>cq_ConnectorID = ar_ConnectorID req, cq_CapabilityID = ar_CapabilityID req, cq_Params = cloneCapabilityParams (ar_Params req),
      cq_SessionID = ar_SessionID req, cq_Caller = act_firstNonEmpty [ar_RequestedBy req, ''approved_capability''],
      cq_SkipAuthorization = True\<rparr>"

definition act_InvokeApprovedCapability ::
  "ActionService \<Rightarrow> ApprovedCapabilityRequest \<Rightarrow> Action \<Rightarrow> (CapabilityResult \<times> go_error option) \<times> Action" where
  "act_InvokeApprovedCapability svc req s = act_InvokeCapability svc (approved_request req) s"

section \<open>Health\<close>

definition appendCompatibilitySummary :: "string \<Rightarrow> string \<Rightarrow> string" where
  "appendCompatibilitySummary runtimeSummary compatibilitySummary =
     (let r = TrimSpace runtimeSummary; c = TrimSpace compatibilitySummary in
      if r = [] then c else if c = [] then r else if r = c then r else if Contains r c then r else r @ ''; '' @ c)"

definition normalizeExecutionConnectorHealth :: "Manifest \<Rightarrow> string \<Rightarrow> string \<Rightarrow> string \<times> string" where
  "normalizeExecutionConnectorHealth manifest status summary =
     (if \<not> EqualFold (TrimSpace (sp_Type (mf_Spec manifest))) ''execution'' then (status, summary)
      else if \<not> EqualFold (TrimSpace (sp_Protocol (mf_Spec manifest))) ''jumpserver_api'' then (status, summary)
      else if \<not> EqualFold (TrimSpace status) ''healthy'' then (status, summary)
      else if \<not> Contains (ToLower summary) ''api probe succeeded'' then (status, summary)
      else (''degraded'', appendCompatibilitySummary ''jumpserver API probe succeeded; execution not yet verified'' (TrimSpace summary)))"

definition record_health :: "ActionService \<Rightarrow> Manifest \<Rightarrow> string \<Rightarrow> string \<Rightarrow> gotime \<Rightarrow> CompatibilityReport \<Rightarrow> Action \<Rightarrow> LifecycleState result \<times> Action" where
  "record_health svc manifest status summary checkedAt compatibility s =
     (case ac_connectors s of
        None \<Rightarrow> (Inl Connector_Registry.ErrConfigPathNotSet, s)
      | Some m \<Rightarrow>
          (case RecordHealth (sa_registry svc) (sa_ids svc (ac_log s)) (act_now svc s) (md_ID (mf_Metadata manifest)) status summary checkedAt m of
             (Inl err, m') \<Rightarrow> (Inl err, s\<lparr>ac_connectors := Some m'\<rparr>)
           | (Inr state, m') \<Rightarrow> (Inr (state\<lparr>ls_Compatibility := compatibility\<rparr>), s\<lparr>ac_connectors := Some m'\<rparr>)))"

text \<open>A checker of one of the three kinds of runtimes; \<open>norm\<close> says whether the answer is normalised.\<close>

definition probed_health ::
  "ActionService \<Rightarrow> health_checker \<Rightarrow> bool \<Rightarrow> Manifest \<Rightarrow> gotime \<Rightarrow> CompatibilityReport \<Rightarrow> Action \<Rightarrow> LifecycleState result \<times> Action" where
  "probed_health svc checker norm manifest checkedAt compatibility s =
     (let m = with_secrets svc manifest; fallback = HealthStatusForManifest manifest compatibility checkedAt;
          s1 = act_logged (Probe m) s;
          (status0, summary0, err) = checker (ac_log s) m;
          (status1, summary1) = (if norm then normalizeExecutionConnectorHealth manifest status0 summary0 else (status0, summary0));
          summary2 = (case err of Some e \<Rightarrow> act_firstNonEmpty [TrimSpace summary1, error_text e] | None \<Rightarrow> summary1);
          summary3 = act_firstNonEmpty [TrimSpace summary2, hs_Summary fallback]
      in if cpr_Compatible compatibility then record_health svc manifest status1 summary3 checkedAt compatibility s1
         else record_health svc manifest (NormalizeHealthStatus status1) (appendCompatibilitySummary summary3 (hs_Summary fallback)) checkedAt
                compatibility s1)"

definition CheckConnectorHealth :: "ActionService \<Rightarrow> string \<Rightarrow> Action \<Rightarrow> LifecycleState result \<times> Action" where
  "CheckConnectorHealth svc connectorID s =
     (if ac_connectors s = None then (Inl Connector_Registry.ErrConfigPathNotSet, s)
      else
        (case ResolveRuntimeManifest (act_snapshot s) connectorID [] [] [] of
           Inl e \<Rightarrow> (Inl (connector_error_value e), s)
         | Inr manifest \<Rightarrow>
             (let checkedAt = act_now svc s;
                  compatibility = (CompatibilityReportForManifest manifest)\<lparr>cpr_CheckedAt := checkedAt\<rparr>;
                  protocol = TrimSpace (sp_Protocol (mf_Spec manifest));
                  query = (case sa_queryRuntimes svc protocol of Some r \<Rightarrow> qr_CheckHealth r | None \<Rightarrow> None);
                  execution = (case sa_executionRuntimes svc protocol of Some r \<Rightarrow> xrt_CheckHealth r | None \<Rightarrow> None);
                  capability = (case sa_capabilityRuntimes svc (capabilityRuntimeKey manifest) of Some r \<Rightarrow> crt_CheckHealth r | None \<Rightarrow> None);
                  fallback = HealthStatusForManifest manifest compatibility checkedAt
              in case query of
                   Some checker \<Rightarrow> probed_health svc checker True manifest checkedAt compatibility s
                 | None \<Rightarrow>
                     (case execution of
                        Some checker \<Rightarrow> probed_health svc checker True manifest checkedAt compatibility s
                      | None \<Rightarrow>
                          (case capability of
                             Some checker \<Rightarrow> probed_health svc checker False manifest checkedAt compatibility s
                           | None \<Rightarrow>
                               record_health svc manifest (hs_Status fallback) (hs_Summary fallback) checkedAt compatibility s)))))"

end
