(* ===== verification/Action_Laws.thy ===== *)
theory Action_Laws
  imports Action_Service
begin

text \<open>
  What each operation of the action service can ask of hosts, connectors and files, and under which checks:
  \<open>executed_by\<close>, \<open>verified_by\<close>, \<open>queried_by\<close> and \<open>invoked_by\<close> are the requests that an operation may cause.
\<close>

section \<open>Causes\<close>

definition probe_request :: "VerificationRequest \<Rightarrow> ApprovedExecutionRequest" where
  "probe_request v =
     zero_ApprovedExecutionRequest\<lparr>xr_ExecutionID := vq_ExecutionID v, xr_SessionID := vq_SessionID v,
       xr_TargetHost := vq_TargetHost v, xr_Command := is_active (TrimSpace (vq_Service v)), xr_Service := vq_Service v\<rparr>"

text \<open>The policy, if there is one, grants the capability on a connector that is enabled and has it.\<close>

definition capability_granted :: "ActionService \<Rightarrow> CapabilityRequest \<Rightarrow> Manifest \<Rightarrow> bool" where
  "capability_granted svc r m \<longleftrightarrow> Enabled m \<and>
     (\<exists>c. findCapability m (TrimSpace (cq_CapabilityID r)) = Some c \<and>
        (cq_SkipAuthorization r \<or>
         (\<forall>e evaluate. sa_authorizationPolicy svc = Some (e, evaluate) \<longrightarrow>
            dn_Action (evaluate \<lparr>ci_ConnectorID = TrimSpace (cq_ConnectorID r), ci_CapabilityID = TrimSpace (cq_CapabilityID r),
              ci_ReadOnly = ca_ReadOnly c, ci_Source = connectorSourceType m\<rparr>) = ActionDirectExecute)))"

fun invoked_by :: "ActionService \<Rightarrow> CapabilityRequest \<Rightarrow> action_call \<Rightarrow> bool" where
  "invoked_by svc r (ConnectorInvoke m capID params) \<longleftrightarrow>
     capID = TrimSpace (cq_CapabilityID r) \<and> params = cq_Params r \<and> capability_granted svc r m"
| "invoked_by svc r _ \<longleftrightarrow> False"

fun executed_by :: "ActionService \<Rightarrow> ApprovedExecutionRequest \<Rightarrow> action_call \<Rightarrow> bool" where
  "executed_by svc x (RunCommand host command) \<longleftrightarrow> host = xr_TargetHost x \<and> command = xr_Command x \<and> validateRequest svc x = None"
| "executed_by svc x (ConnectorExecute m r) \<longleftrightarrow> r = x"
| "executed_by svc x (WriteOutput eid out) \<longleftrightarrow> eid = xr_ExecutionID x"
| "executed_by svc x _ \<longleftrightarrow> False"

fun verified_by :: "ActionService \<Rightarrow> VerificationRequest \<Rightarrow> action_call \<Rightarrow> bool" where
  "verified_by svc v (RunCommand host command) \<longleftrightarrow> host = vq_TargetHost v \<and> validateRequest svc (probe_request v) = None \<and>
     command \<in> is_active ` set (VerificationServiceCandidates (TrimSpace (vq_Service v)))"
| "verified_by svc v (ConnectorVerify m r) \<longleftrightarrow> r = v"
| "verified_by svc v _ \<longleftrightarrow> False"

fun queried_by :: "MetricsQuery \<Rightarrow> action_call \<Rightarrow> bool" where
  "queried_by q (ConnectorQuery m r) \<longleftrightarrow> r = q"
| "queried_by q (ProviderQuery r) \<longleftrightarrow> r = q"
| "queried_by q _ \<longleftrightarrow> False"

text \<open>\<open>asks P s s'\<close>: what was asked between two states satisfies \<open>P\<close>.\<close>

definition asks :: "(action_call \<Rightarrow> bool) \<Rightarrow> Action \<Rightarrow> Action \<Rightarrow> bool" where
  "asks P s s' \<longleftrightarrow> (\<exists>cs. ac_log s' = ac_log s @ cs \<and> list_all P cs)"

lemma asks_refl [simp, intro]: "asks P s s"
  by (simp add: asks_def)

lemma asks_trans: "asks P s s' \<Longrightarrow> asks P s' s'' \<Longrightarrow> asks P s s''"
  by (fastforce simp: asks_def)

lemma asks_logged [intro]: "P c \<Longrightarrow> asks P s (act_logged c s)"
  by (simp add: asks_def act_logged_def)

lemma record_log [simp]: "ac_log (recordConnectorHealth svc cid status summary s) = ac_log s"
  by (simp add: recordConnectorHealth_def split: option.split)

lemma asks_record [simp]:
  "asks P s (recordConnectorHealth svc cid status summary s') = asks P s s'"
  "asks P (recordConnectorHealth svc cid status summary s) s' = asks P s s'"
  by (simp_all add: asks_def)

lemma persist_asks: "(\<And>out. P (WriteOutput eid out)) \<Longrightarrow> persistOutput svc eid out s = (r, s') \<Longrightarrow> asks P s s'"
  by (auto simp: persistOutput_def split: if_split_asm)

lemma query_asks: "act_QueryMetrics svc q s = (r, s') \<Longrightarrow> asks (queried_by q) s s'"
proof -
  have fb: "fallback_metrics svc q m t = (r, s') \<Longrightarrow> asks (queried_by q) t s'" for m t
    by (auto simp: fallback_metrics_def Let_def split: option.split_asm sum.split_asm)
  assume q: "act_QueryMetrics svc q s = (r, s')"
  show ?thesis
  proof (cases "resolveQueryRuntime svc (mx_ConnectorID q) (mx_Protocol q) s")
    case (Inr x)
    show ?thesis
    proof (cases x)
      case None
      then show ?thesis using q Inr fb by (simp add: act_QueryMetrics_def)
    next
      case (Some p)
      obtain runtime m where p: "p = (runtime, m)" by fastforce
      let ?t = "act_logged (ConnectorQuery (with_secrets svc m) q) s"
      have t: "asks (queried_by q) s ?t" by (simp add: asks_logged)
      show ?thesis
      proof (cases "qr_Query runtime (ac_log s) (with_secrets svc m) q")
        case (Inl err)
        then show ?thesis using q Inr Some p t fb [of "Some m" "recordConnectorHealth svc (md_ID (mf_Metadata m)) ''degraded''
            (''metrics runtime query failed: '' @ error_text err) ?t"] asks_trans [of _ s ?t s']
          by (auto simp: act_QueryMetrics_def Let_def split: if_split_asm)
      next
        case (Inr res)
        then show ?thesis using q \<open>resolveQueryRuntime _ _ _ _ = _\<close> Some p t by (auto simp: act_QueryMetrics_def Let_def)
      qed
    qed
  qed (use q in \<open>simp add: act_QueryMetrics_def\<close>)
qed

lemma output_asks: "completed_output svc x res s = (r, s') \<Longrightarrow> asks (executed_by svc x) s s'"
  by (auto simp: completed_output_def Let_def case_prod_unfold split: if_split_asm
      intro!: persist_asks [OF _ prod.collapse [symmetric]])

lemma connector_asks:
  assumes "connector_execution svc rt m x s = (r, s')"
  shows "asks (executed_by svc x) s s'"
proof -
  let ?t = "act_logged (ConnectorExecute (with_secrets svc m) x) s"
  have t: "asks (executed_by svc x) s ?t" by (simp add: asks_logged)
  obtain res err where e: "xrt_Execute rt (ac_log s) (with_secrets svc m) x = (res, err)" by fastforce
  show ?thesis
  proof (cases err)
    case None
    then have "\<exists>res1. s' = snd (completed_output svc x res1 (recordConnectorHealth svc (md_ID (mf_Metadata m)) ''healthy''
        ''execution runtime completed successfully'' ?t))"
      using assms e unfolding connector_execution_def Let_def case_prod_unfold by simp blast
    then obtain res1 where "s' = snd (completed_output svc x res1 (recordConnectorHealth svc (md_ID (mf_Metadata m)) ''healthy''
        ''execution runtime completed successfully'' ?t))" ..
    from output_asks [OF prod.collapse [symmetric]] this show ?thesis using asks_trans [OF t] asks_record(2) by metis
  next
    case (Some er)
    then show ?thesis using assms e t by (auto simp: connector_execution_def Let_def)
  qed
qed

lemma execute_asks: "act_ExecuteApproved svc x s = (r, s') \<Longrightarrow> asks (executed_by svc x) s s'"
proof -
  have ssh: "asks (executed_by svc x) s s'" if "ssh_execution svc x s = (r, s')" "validateRequest svc x = None" for r s'
    using that unfolding ssh_execution_def Let_def
    by (auto simp: case_prod_unfold split: option.split_asm ssh_error.split_asm
        intro!: asks_trans [OF asks_logged persist_asks [OF _ prod.collapse [symmetric]]])
  assume x: "act_ExecuteApproved svc x s = (r, s')"
  show ?thesis
  proof (cases "resolveExecutionRuntime svc (xr_ConnectorID x) (xr_Protocol x) s")
    case (Inr found)
    show ?thesis
    proof (cases found)
      case None
      then show ?thesis using x Inr ssh by (cases "validateRequest svc x") (simp_all add: act_ExecuteApproved_def)
    next
      case (Some p)
      obtain rt m where "p = (rt, m)" by fastforce
      then show ?thesis using x Inr Some connector_asks [of svc rt m x s r s'] by (simp add: act_ExecuteApproved_def)
    qed
  qed (use x in \<open>simp add: act_ExecuteApproved_def\<close>)
qed

lemma verify_loop_asks:
  "verify_loop svc host cs v s = (v', s') \<Longrightarrow> asks (\<lambda>a. \<exists>c \<in> set cs. a = RunCommand host (is_active c)) s s'"
proof (induction cs arbitrary: v s)
  case (Cons c cs)
  let ?P = "\<lambda>cs a. \<exists>c \<in> set cs. a = RunCommand host (is_active c)"
  let ?t = "act_logged (RunCommand host (is_active c)) s"
  have t: "asks (?P (c # cs)) s ?t" by (simp add: asks_logged)
  have mono: "asks (?P cs) ?t s' \<Longrightarrow> asks (?P (c # cs)) ?t s'" by (auto simp: asks_def list_all_iff)
  show ?case
  proof (cases "s' = ?t")
    case False
    then have "\<exists>v1. verify_loop svc host cs v1 ?t = (v', s')"
      using Cons.prems by (auto simp: Let_def case_prod_unfold split: if_split_asm)
    then show ?thesis using Cons.IH mono asks_trans [OF t] by blast
  qed (use t in simp)
qed simp

lemma ssh_verification_asks: "ssh_verification svc v s = (r, s') \<Longrightarrow> asks (verified_by svc v) s s'"
proof -
  assume v: "ssh_verification svc v s = (r, s')"
  let ?service = "TrimSpace (vq_Service v)"
  show ?thesis
  proof (cases "TrimSpace (vq_TargetHost v) = [] \<or> ?service = [] \<or> validateRequest svc (probe_request v) \<noteq> None")
    case True
    then have "s' = s" using v unfolding ssh_verification_def Let_def probe_request_def [symmetric] by (auto split: if_split_asm)
    then show ?thesis by simp
  next
    case False
    obtain u t where l: "verify_loop svc (vq_TargetHost v) (VerificationServiceCandidates ?service) verify_start s = (u, t)" by fastforce
    have "s' = t" using v False l unfolding ssh_verification_def Let_def probe_request_def [symmetric] by simp
    moreover have "verified_by svc v (RunCommand (vq_TargetHost v) (is_active c))" if "c \<in> set (VerificationServiceCandidates ?service)" for c
      using that False by simp
    ultimately show ?thesis using verify_loop_asks [OF l] unfolding asks_def list_all_iff by metis
  qed
qed

lemma verify_asks: "act_VerifyExecution svc v s = (r, s') \<Longrightarrow> asks (verified_by svc v) s s'"
proof -
  assume v: "act_VerifyExecution svc v s = (r, s')"
  show ?thesis
  proof (cases "resolveExecutionRuntime svc (vq_ConnectorID v) (vq_Protocol v) s")
    case (Inr found)
    show ?thesis
    proof (cases found)
      case None
      then show ?thesis using v Inr ssh_verification_asks
        by (cases "ssh_verification svc v s") (auto simp: act_VerifyExecution_def)
    next
      case (Some p)
      obtain rt m where p: "p = (rt, m)" by fastforce
      let ?t = "act_logged (ConnectorVerify (with_secrets svc m) v) s"
      obtain res err where e: "xrt_Verify rt (ac_log s) (with_secrets svc m) v = (res, err)" by fastforce
      have "asks (verified_by svc v) s ?t" by (simp add: asks_logged)
      then show ?thesis using v Inr Some p e
        by (cases err) (auto simp: act_VerifyExecution_def Let_def simp del: act_firstNonEmpty.simps split: if_split_asm)
    qed
  qed (use v in \<open>simp add: act_VerifyExecution_def\<close>)
qed

lemma with_secrets_simps [simp]:
  "mf_Spec (with_secrets svc m) = mf_Spec m" "mf_Metadata (with_secrets svc m) = mf_Metadata m"
  "Enabled (with_secrets svc m) = Enabled m"
  by (simp_all add: with_secrets_def Enabled_def)

lemma secret_capability [simp]:
  "findCapability (with_secrets svc m) = findCapability m" "connectorSourceType (with_secrets svc m) = connectorSourceType m"
  by (simp_all add: fun_eq_iff findCapability_def connectorSourceType_def)

lemma resolved_enabled: "ResolveRuntimeManifest sn cid t p ps = Inr m \<Longrightarrow> Enabled m"
  by (auto simp: ResolveRuntimeManifest_def ValidateRuntimeManifest_def Let_def split: option.split_asm if_split_asm)

lemma authorized_granted:
  assumes "authorize_capability svc r m c = None" and "Enabled m" and "findCapability m (TrimSpace (cq_CapabilityID r)) = Some c"
  shows "capability_granted svc r (with_secrets svc m)"
  using assms
  by (auto simp: capability_granted_def authorize_capability_def withheld_capability_def Let_def split: option.split_asm if_split_asm)

lemma invoke_asks: "act_InvokeCapability svc r s = (x, s') \<Longrightarrow> asks (invoked_by svc r) s s'"
proof -
  assume inv: "act_InvokeCapability svc r s = (x, s')"
  show ?thesis
  proof (cases "s' = s")
    case False
    obtain m c rt where m: "ResolveRuntimeManifest (act_snapshot s) (TrimSpace (cq_ConnectorID r)) [] [] [] = Inr m"
      "findCapability m (TrimSpace (cq_CapabilityID r)) = Some c" "authorize_capability svc r m c = None"
      "invoke_runtime svc rt r m s = (x, s')"
      using inv False
      by (auto simp: act_InvokeCapability_def Let_def split: if_split_asm sum.split_asm option.split_asm)
    have "capability_granted svc r (with_secrets svc m)"
      using authorized_granted [OF m(3) resolved_enabled [OF m(1)] m(2)] .
    then have "asks (invoked_by svc r) s (act_logged (ConnectorInvoke (with_secrets svc m) (TrimSpace (cq_CapabilityID r)) (cq_Params r)) s)"
      by (simp add: asks_logged)
    then show ?thesis using m(4) by (auto simp: invoke_runtime_def Let_def case_prod_unfold split: option.split_asm)
  qed simp
qed

section \<open>Examples\<close>

text \<open>A service without policy, whose hosts answer every command with \<^verbatim>\<open>active\<close>.\<close>

definition plain_action_options :: ActionOptions where
  "plain_action_options =
     \<lparr>sa_executor = (\<lambda>_ _ _. (\<lparr>rr_ExitCode = 0, rr_Output = ''active'', rr_TimedOut = False\<rparr>, None)), sa_metricsProvider = None,
      sa_allowedHosts = [''db-1''], sa_allowedCommandPrefixes = [], sa_approvalRouter = None, sa_blockedCommandFragments = [],
      sa_authorizationPolicy = None, sa_secrets = None, sa_outputSpoolDir = [], sa_maxPersistedOutputBytes = 0, sa_clock = (\<lambda>n. int n),
      sa_writeFile = (\<lambda>_ _ _. Inr []),
      sa_registry = \<lparr>cv_marshal = (\<lambda>_. Inr []), cv_unmarshal = (\<lambda>_. Inr []), cv_marshalState = (\<lambda>_. Inr []), cv_unmarshalState = (\<lambda>_. Inr []),
        cv_readFile = (\<lambda>_. Inr []), cv_notExist = (\<lambda>_. False), cv_writeFile = (\<lambda>_ _. None), cv_sha256 = (\<lambda>x. x)\<rparr>,
      sa_ids = (\<lambda>_. []),
      so_queryRuntimes = [],
      so_executionRuntimes = [(''ssh_native'', \<lparr>xrt_Execute = (\<lambda>_ _ _. (zero_ExecutionResult, None)),
        xrt_Verify = (\<lambda>_ _ _. (zero_VerificationResult, None)), xrt_CheckHealth = None\<rparr>)],
      so_capabilityRuntimes = []\<rparr>"

definition plain_action :: ActionService where
  "plain_action = action_NewService plain_action_options"

definition idle_action :: Action where
  "idle_action = \<lparr>ac_connectors = None, ac_log = []\<rparr>"

definition nginx_check :: "string \<Rightarrow> VerificationRequest" where
  "nginx_check service = \<lparr>vq_SessionID = ''ses-000001'', vq_ExecutionID = ''exe-000001'', vq_TargetHost = ''db-1'', vq_Service = service,
     vq_ConnectorID = [], vq_Protocol = [], vq_ExecutionMode = []\<rparr>"

definition removal :: ApprovedExecutionRequest where
  "removal = zero_ApprovedExecutionRequest\<lparr>xr_ExecutionID := ''exe-000001'', xr_SessionID := ''ses-000001'', xr_TargetHost := ''db-1'',
     xr_Command := ''rm -rf /''\<rparr>"

text \<open>The label of an alert that names the service becomes part of the command line of the verification, and the
  guard compares prefixes: what follows a separator runs on the host.\<close>

lemma verification_runs_label:
  "ac_log (snd (act_VerifyExecution plain_action (nginx_check ''nginx; touch /tmp/x'') idle_action)) =
     [RunCommand ''db-1'' ''systemctl is-active nginx; touch /tmp/x'']"
  by code_simp

section \<open>Properties\<close>

lemma verify_loop_match:
  assumes "verify_loop svc host cs v s = (v', s')" and "vs_matched v = []" and "vs_matched v' \<noteq> []"
  shows "\<exists>c \<in> set cs. \<exists>as run. ac_log s' = ac_log s @ as @ [RunCommand host (is_active c)] \<and> vs_matched v' = c \<and>
    sa_executor svc (ac_log s @ as) host (is_active c) = (run, None) \<and> HasPrefix (TrimSpace (rr_Output run)) ''active''"
  using assms(1,2)
proof (induction cs arbitrary: v s)
  case Nil
  then show ?case using assms(3) by simp
next
  case (Cons c cs)
  obtain run err where e: "sa_executor svc (ac_log s) host (is_active c) = (run, err)" by fastforce
  let ?t = "act_logged (RunCommand host (is_active c)) s"
  let ?v = "v\<lparr>vs_attempted := vs_attempted v @ [c], vs_command := is_active c, vs_result := run, vs_err := err\<rparr>"
  show ?case
  proof (cases "err = None \<and> HasPrefix (TrimSpace (rr_Output run)) ''active''")
    case True
    then have "v' = ?v\<lparr>vs_matched := c\<rparr>" "s' = ?t" using Cons.prems(1) e by (simp_all add: Let_def)
    then show ?thesis using True e
      by (intro bexI [where x = c] exI [where x = "[]"] exI [where x = run]) (simp_all add: act_logged_def)
  next
    case False
    have "verify_loop svc host cs ?v ?t = (v', s')"
      using Cons.prems e False assms(3) by (auto simp: Let_def split: if_split_asm)
    from Cons.IH [OF this] obtain c' as run' where c': "c' \<in> set cs" "ac_log s' = ac_log ?t @ as @ [RunCommand host (is_active c')]"
      "vs_matched v' = c'" "sa_executor svc (ac_log ?t @ as) host (is_active c') = (run', None)" "HasPrefix (TrimSpace (rr_Output run')) ''active''"
      using Cons.prems(2) by auto
    then show ?thesis
      by (intro bexI [where x = c'] exI [where x = "RunCommand host (is_active c) # as"] exI [where x = run']) (simp_all add: act_logged_def)
  qed
qed

lemma verdict_status: "vr_Status (ssh_verdict base service v) = (if vs_matched v \<noteq> [] then ''success'' else ''failed'')"
  by (simp add: ssh_verdict_def Let_def)

text \<open>C12: a verification over SSH succeeds only on the word of the host.  If it answers success, the last thing the
  service did was to ask the target host whether a unit of the service is active, and the answer, without
  an error, began with \<^verbatim>\<open>active\<close>.
\<close>
theorem verification_success_confirmed:
  assumes "ssh_verification svc v s = (r, s')" and "vr_Status r = ''success''"
  shows "\<exists>c \<in> set (VerificationServiceCandidates (TrimSpace (vq_Service v))). \<exists>as run.
    ac_log s' = ac_log s @ as @ [RunCommand (vq_TargetHost v) (is_active c)] \<and>
    sa_executor svc (ac_log s @ as) (vq_TargetHost v) (is_active c) = (run, None) \<and> HasPrefix (TrimSpace (rr_Output run)) ''active''"
proof -
  let ?service = "TrimSpace (vq_Service v)"
  obtain u t where l: "verify_loop svc (vq_TargetHost v) (VerificationServiceCandidates ?service) verify_start s = (u, t)" by fastforce
  have "\<exists>base. r = ssh_verdict base ?service u \<and> s' = t"
    using assms l unfolding ssh_verification_def Let_def by (auto split: if_split_asm option.split_asm)
  then have "vs_matched u \<noteq> []" "s' = t" using assms(2) by (auto simp: verdict_status split: if_split_asm)
  then show ?thesis using verify_loop_match [OF l] by (auto simp: verify_start_def)
qed

theorem verification_success_confirmed_witness:
  "\<exists>as (run :: ssh_Result). ac_log (snd (ssh_verification plain_action (nginx_check ''nginx'') idle_action)) = as @ [RunCommand ''db-1'' (is_active ''nginx'')] \<and>
     HasPrefix (TrimSpace (rr_Output run)) ''active''"
proof -
  obtain r s' where h: "ssh_verification plain_action (nginx_check ''nginx'') idle_action = (r, s')" by fastforce
  have "vr_Status (fst (ssh_verification plain_action (nginx_check ''nginx'') idle_action)) = ''success''" by code_simp
  then have "vr_Status r = ''success''" using h by simp
  from verification_success_confirmed [OF h this] obtain c as and run :: ssh_Result where c:
    "c \<in> set (VerificationServiceCandidates (TrimSpace ''nginx''))" "ac_log s' = ac_log idle_action @ as @ [RunCommand ''db-1'' (is_active c)]"
    "HasPrefix (TrimSpace (rr_Output run)) ''active''"
    by (auto simp: nginx_check_def)
  have "VerificationServiceCandidates (TrimSpace ''nginx'') = [''nginx'']" by code_simp
  then show ?thesis using c h by (auto simp: idle_action_def)
qed

text \<open>C39: the guard does not stand before connectors.  When a connector is chosen for an execution, explicitly or
  because it is healthy, the request is handed to its runtime as it is: neither the allowed hosts nor the
  blocked fragments nor the policy of the action service are consulted.
\<close>
theorem connector_execution_unguarded:
  assumes "resolveExecutionRuntime svc (xr_ConnectorID x) (xr_Protocol x) s = Inr (Some (rt, m))"
  shows "\<exists>cs. ac_log (snd (act_ExecuteApproved svc x s)) = ac_log s @ ConnectorExecute (with_secrets svc m) x # cs"
proof -
  let ?t = "act_logged (ConnectorExecute (with_secrets svc m) x) s"
  have log: "ac_log ?t = ac_log s @ [ConnectorExecute (with_secrets svc m) x]" by (simp add: act_logged_def)
  obtain res err where e: "xrt_Execute rt (ac_log s) (with_secrets svc m) x = (res, err)" by fastforce
  have "asks (\<lambda>_. True) ?t (snd (act_ExecuteApproved svc x s))"
  proof (cases err)
    case None
    then have "\<exists>res1. snd (act_ExecuteApproved svc x s) = snd (completed_output svc x res1 (recordConnectorHealth svc (md_ID (mf_Metadata m))
        ''healthy'' ''execution runtime completed successfully'' ?t))"
      using assms e unfolding act_ExecuteApproved_def connector_execution_def Let_def case_prod_unfold by simp blast
    then obtain res1 where "snd (act_ExecuteApproved svc x s) = snd (completed_output svc x res1 (recordConnectorHealth svc
        (md_ID (mf_Metadata m)) ''healthy'' ''execution runtime completed successfully'' ?t))" ..
    moreover have "asks (\<lambda>_. True) a (snd (completed_output svc x res1 a))" for a
      using output_asks [of svc x res1 a, OF prod.collapse [symmetric]] by (auto simp: asks_def list_all_iff)
    ultimately show ?thesis using asks_record(2) by metis
  next
    case (Some er)
    then show ?thesis using assms e by (simp add: act_ExecuteApproved_def connector_execution_def Let_def)
  qed
  then show ?thesis unfolding asks_def log by auto
qed

definition shell_connector :: Manifest where
  "shell_connector = (version_manifest ''shell'' ''1'')\<lparr>mf_Spec := (mf_Spec (version_manifest ''shell'' ''1''))\<lparr>sp_Type := ''execution'',
     sp_Protocol := ''ssh_native''\<rparr>\<rparr>"

definition connected_action :: Action where
  "connected_action = \<lparr>ac_connectors = Some (empty_registry\<lparr>mg_config := Some [shell_connector]\<rparr>), ac_log = []\<rparr>"

theorem connector_execution_unguarded_witness:
  "validateRequest plain_action (removal\<lparr>xr_ConnectorID := ''shell''\<rparr>) = Some ''command contains blocked fragment: rm -rf'' \<and>
   (\<exists>m cs. ac_log (snd (act_ExecuteApproved plain_action (removal\<lparr>xr_ConnectorID := ''shell''\<rparr>) connected_action)) =
      ConnectorExecute m (removal\<lparr>xr_ConnectorID := ''shell''\<rparr>) # cs)"
proof -
  let ?x = "removal\<lparr>xr_ConnectorID := ''shell''\<rparr>"
  have "(case resolveExecutionRuntime plain_action (xr_ConnectorID ?x) (xr_Protocol ?x) connected_action of Inr (Some p) \<Rightarrow> True | _ \<Rightarrow> False)"
    by code_simp
  then obtain rt m where "resolveExecutionRuntime plain_action (xr_ConnectorID ?x) (xr_Protocol ?x) connected_action = Inr (Some (rt, m))"
    by (auto split: sum.split_asm option.split_asm)
  from connector_execution_unguarded [OF this] obtain cs where
    "ac_log (snd (act_ExecuteApproved plain_action ?x connected_action)) = ac_log connected_action @ ConnectorExecute (with_secrets plain_action m) ?x # cs" ..
  moreover have "ac_log connected_action = []" by (simp add: connected_action_def)
  moreover have "validateRequest plain_action ?x = Some ''command contains blocked fragment: rm -rf''" by code_simp
  ultimately show ?thesis by auto
qed

end
