(* ===== verification/Action_System.thy ===== *)
theory Action_System
  imports Action_Laws Dispatcher_Laws
begin

text \<open>
  The dispatcher, the handlers and the action service together: the calls that a run of the system makes of the action service,
  carried out by the action service, while other parts may replace the connectors between any two of them.
  Whatever a host, a connector or a provider is asked has its cause among these calls.
\<close>

section \<open>The calls of a run\<close>





lemma asks_connectors [simp]: "asks P (s\<lparr>ac_connectors := m\<rparr>) s' = asks P s s'"
  by (simp add: asks_def)











text \<open>A connector that is enabled and declares the capability is asked, also for one that it declares not invocable.\<close>

definition ask_connector :: Manifest where
  "ask_connector = shell_connector\<lparr>mf_Spec := (mf_Spec shell_connector)\<lparr>sp_Capabilities := [\<lparr>ca_ID = ''disk.read'', ca_Action = ''query'', ca_ReadOnly = True,
     ca_Invocable = False, ca_Scopes = [], ca_Description = []\<rparr>]\<rparr>\<rparr>"

definition asking_action :: ActionService where
  "asking_action = plain_action\<lparr>sa_capabilityRuntimes := [''execution'' \<mapsto> \<lparr>crt_Invoke = (\<lambda>_ _ _ _. (zero_CapabilityResult, None)), crt_CheckHealth = None\<rparr>]\<rparr>"

lemma capability_asked:
  "map (\<lambda>a. case a of ConnectorInvoke m c p \<Rightarrow> c | _ \<Rightarrow> [])
     (ac_log (snd (act_InvokeCapability asking_action \<lparr>cq_ConnectorID = ''shell'', cq_CapabilityID = ''disk.read'', cq_Params = [],
        cq_SessionID = [], cq_Caller = [], cq_SkipAuthorization = False\<rparr>
        (connected_action\<lparr>ac_connectors := Some (empty_registry\<lparr>mg_config := Some [ask_connector]\<rparr>)\<rparr>)))) = [''disk.read'']"
  by code_simp

section \<open>Properties\<close>






end
